(* ===== verification/JS_Prelude.thy ===== *)
theory JS_Prelude
  imports Main "HOL-Library.Multiset"
begin

text \<open>
  Shared vocabulary of the development: the exceptions and the effect type of the asynchronous
  code, the row operations of the SQL statements, the stable comparator sort of the language,
  and decimal printing and reading of integers.

  A JavaScript string is represented by its UTF-8 text, a HOL string.  On ASCII this is the list of
  its code units, which is where the code reads lengths, slices and the order of characters; beyond
  ASCII such a reading counts bytes instead of UTF-16 units.  Numbers and BigInts are unbounded
  integers; a promise that may reject is a state transformer with an exception.
\<close>

named_theorems io_simps "unfolding equations of the effect type"
named_theorems row_simps "facts on the row operations of the SQL statements"

section \<open>Exceptions and effects\<close>

text \<open>The codes of mcp-server/src/errors.ts.\<close>

datatype error_code = INVALID_ARGUMENT | NO_RESULTS | RESOURCE_STALE | RESOURCE_CHANGED | UNTRUSTED_REDIRECT
  | PAYMENT_REQUIRED | BUDGET_EXCEEDED | PAYMENT_REJECTED | SETTLEMENT_UNKNOWN | UPSTREAM_TIMEOUT | UPSTREAM_PROTOCOL_ERROR

text \<open>JSON values as the code manipulates them.\<close>

datatype js = JUndef | JNull | JBool bool | JNum int | JStr string | JArr "js list"
  | JObj "(string \<times> js) list"

text \<open>
  The exceptions the code distinguishes: its own classes, the aborted request, any other Error.  The
  details of an \<open>McpToolError\<close> are optional.
\<close>

datatype exn = ConflictError string | BusyError string | ZodError string | JsError string | AbortError string
  | McpToolError error_code string "js option" | UptoUnavailableError

text \<open>Details that are all strings.\<close>

definition str_details :: "(string \<times> string) list \<Rightarrow> js option" where
  "str_details kvs = Some (JObj (map (\<lambda>e. (fst e, JStr (snd e))) kvs))"

text \<open>The message of an exception, as \<open>error instanceof Error ? error.message : String(error)\<close>.\<close>

definition exn_message :: "exn \<Rightarrow> string" where
  "exn_message e = (case e of ConflictError m \<Rightarrow> m | BusyError m \<Rightarrow> m | ZodError m \<Rightarrow> m | JsError m \<Rightarrow> m | AbortError m \<Rightarrow> m
     | McpToolError _ m _ \<Rightarrow> m
     | UptoUnavailableError \<Rightarrow> ''the upto scheme has no reusable Stellar client upstream yet; this deployment supports exact only'')"

type_synonym ('w, 'a) io = "'w \<Rightarrow> (exn + 'a) \<times> 'w"

definition io_return :: "'a \<Rightarrow> ('w, 'a) io" where
  "io_return x = (\<lambda>w. (Inr x, w))"

definition io_throw :: "exn \<Rightarrow> ('w, 'a) io" where
  "io_throw e = (\<lambda>w. (Inl e, w))"

definition io_bind :: "('w, 'a) io \<Rightarrow> ('a \<Rightarrow> ('w, 'b) io) \<Rightarrow> ('w, 'b) io" where
  "io_bind m k = (\<lambda>w. case m w of (Inl e, w') \<Rightarrow> (Inl e, w') | (Inr x, w') \<Rightarrow> k x w')"

definition io_catch :: "('w, 'a) io \<Rightarrow> (exn \<Rightarrow> ('w, 'a) io) \<Rightarrow> ('w, 'a) io" where
  "io_catch m h = (\<lambda>w. case m w of (Inl e, w') \<Rightarrow> h e w' | (Inr x, w') \<Rightarrow> (Inr x, w'))"

definition io_seq :: "('w, unit) io \<Rightarrow> ('w, 'b) io \<Rightarrow> ('w, 'b) io" where
  "io_seq m k = io_bind m (\<lambda>_. k)"

definition io_get :: "('w, 'w) io" where
  "io_get w = (Inr w, w)"

definition io_modify :: "('w \<Rightarrow> 'w) \<Rightarrow> ('w, unit) io" where
  "io_modify f w = (Inr (), f w)"

lemma io_return_app [simp, io_simps]: "io_return x w = (Inr x, w)"
  by (simp add: io_return_def)

lemma io_throw_app [simp, io_simps]: "io_throw e w = (Inl e, w)"
  by (simp add: io_throw_def)

lemma io_bind_app [io_simps]:
  "io_bind m k w = (case m w of (Inl e, w') \<Rightarrow> (Inl e, w') | (Inr x, w') \<Rightarrow> k x w')"
  by (simp add: io_bind_def)

lemma io_seq_app [io_simps]:
  "io_seq m k w = (case m w of (Inl e, w') \<Rightarrow> (Inl e, w') | (Inr x, w') \<Rightarrow> k w')"
  by (simp add: io_seq_def io_bind_def)

lemma io_catch_app [io_simps]:
  "io_catch m h w = (case m w of (Inl e, w') \<Rightarrow> h e w' | (Inr x, w') \<Rightarrow> (Inr x, w'))"
  by (simp add: io_catch_def)

lemma io_bind_return_left [simp]: "io_bind (io_return x) k = k x"
  by (simp add: io_bind_def io_return_def)

lemma io_bind_throw_left [simp]: "io_bind (io_throw e) k = io_throw e"
  by (simp add: io_bind_def io_throw_def)

text \<open>Sequencing of synchronous code that may throw.\<close>

definition sum_bind :: "'e + 'a \<Rightarrow> ('a \<Rightarrow> 'e + 'b) \<Rightarrow> 'e + 'b" where
  "sum_bind m k = (case m of Inl e \<Rightarrow> Inl e | Inr x \<Rightarrow> k x)"

lemma sum_bind_Inr [simp]: "sum_bind (Inr x) k = k x" "sum_bind (Inl e) k = Inl e"
  by (simp_all add: sum_bind_def)

lemma sum_bind_InrE: "sum_bind m k = Inr y \<Longrightarrow> (\<And>x. m = Inr x \<Longrightarrow> k x = Inr y \<Longrightarrow> thesis) \<Longrightarrow> thesis"
  by (cases m) auto

lemma sum_bind_Inr_iff: "sum_bind m k = Inr y \<longleftrightarrow> (\<exists>x. m = Inr x \<and> k x = Inr y)"
  by (auto elim: sum_bind_InrE)

lemma io_bind_assoc: "io_bind (io_bind m k) h = io_bind m (\<lambda>x. io_bind (k x) h)"
  by (auto simp: io_bind_def fun_eq_iff split: prod.splits sum.splits)

lemma io_bind_InrE:
  assumes "io_bind m k w = (Inr y, w2)"
  obtains x w1 where "m w = (Inr x, w1)" "k x w1 = (Inr y, w2)"
  using assms by (auto simp: io_bind_def split: prod.splits sum.splits)

lemma io_seq_InrE:
  assumes "io_seq m k w = (Inr y, w2)"
  obtains w1 where "m w = (Inr (), w1)" "k w1 = (Inr y, w2)"
  using assms by (auto simp: io_seq_def elim: io_bind_InrE)

text \<open>
  A promise of \<open>Refusal | Value\<close>: the refusal is returned early, the value goes on.  \<open>refuse_if\<close> is the
  pattern \<open>if (error) return error;\<close> on an optional refusal, \<open>returns\<close> wraps a pure result.
\<close>

definition or_return :: "('w, 'r + 'a) io \<Rightarrow> ('a \<Rightarrow> ('w, 'r + 'b) io) \<Rightarrow> ('w, 'r + 'b) io" where
  "or_return m k = io_bind m (\<lambda>x. case x of Inl r \<Rightarrow> io_return (Inl r) | Inr a \<Rightarrow> k a)"

definition refuse_if :: "'r option \<Rightarrow> ('w, 'r + 'b) io \<Rightarrow> ('w, 'r + 'b) io" where
  "refuse_if e k = (case e of Some r \<Rightarrow> io_return (Inl r) | None \<Rightarrow> k)"

definition returns :: "'r + 'a \<Rightarrow> ('w, 'r + 'a) io" where
  "returns x = io_return x"

lemma or_return_InrE:
  assumes "or_return m k w = (Inr (Inr b), w2)"
  obtains a w1 where "m w = (Inr (Inr a), w1)" "k a w1 = (Inr (Inr b), w2)"
  using assms by (auto simp: or_return_def elim!: io_bind_InrE split: sum.splits)

lemma refuse_if_InrE:
  assumes "refuse_if e k w = (Inr (Inr b), w2)"
  obtains "e = None" "k w = (Inr (Inr b), w2)"
  using assms by (auto simp: refuse_if_def split: option.splits)

lemma returns_Inr: "returns x w = (Inr (Inr b), w2) \<longleftrightarrow> x = Inr b \<and> w2 = w"
  by (auto simp: returns_def)

section \<open>Option and sum helpers\<close>

definition coalesce :: "'a option \<Rightarrow> 'a \<Rightarrow> 'a" where
  "coalesce x d = (case x of None \<Rightarrow> d | Some v \<Rightarrow> v)"

lemma coalesce_simps [simp]: "coalesce None d = d" "coalesce (Some v) d = v"
  by (simp_all add: coalesce_def)

text \<open>An optional string is truthy when it is present and not empty.\<close>

definition truthy_str :: "string option \<Rightarrow> bool" where
  "truthy_str s = (case s of None \<Rightarrow> False | Some t \<Rightarrow> t \<noteq> [])"

lemma truthy_str_simps [simp]: "truthy_str None = False" "truthy_str (Some t) = (t \<noteq> [])"
  by (simp_all add: truthy_str_def)

section \<open>Rows\<close>

text \<open>A table is the list of its rows; UPDATE maps the selected rows and keeps the others.\<close>

definition update_where :: "('r \<Rightarrow> bool) \<Rightarrow> ('r \<Rightarrow> 'r) \<Rightarrow> 'r list \<Rightarrow> 'r list" where
  "update_where p f t = map (\<lambda>r. if p r then f r else r) t"

lemma update_where_keys [row_simps]:
  assumes "\<And>r. p r \<Longrightarrow> key (f r) = key r"
  shows "map key (update_where p f t) = map key t"
  using assms by (auto simp: update_where_def)

lemma update_where_length [simp]: "length (update_where p f t) = length t"
  by (simp add: update_where_def)

lemma update_where_Nil [simp]: "update_where p f [] = []"
  by (simp add: update_where_def)

lemma update_where_Cons [simp]:
  "update_where p f (r # t) = (if p r then f r else r) # update_where p f t"
  by (simp add: update_where_def)

lemma update_where_append [simp]:
  "update_where p f (t @ u) = update_where p f t @ update_where p f u"
  by (simp add: update_where_def)

lemma in_update_where:
  "r' \<in> set (update_where p f t) \<longleftrightarrow> (\<exists>r \<in> set t. r' = (if p r then f r else r))"
  by (auto simp: update_where_def)

lemma update_where_keyD:
  assumes "r' \<in> set (update_where (\<lambda>x. key x = n) f t)" "key r' = n" "\<And>x. key (f x) = key x"
  shows "\<exists>r \<in> set t. key r = n \<and> r' = f r"
  using assms by (auto simp: in_update_where split: if_splits)

lemma update_where_memI: "r \<in> set t \<Longrightarrow> p r \<Longrightarrow> f r \<in> set (update_where p f t)"
  by (auto simp: in_update_where)

lemma update_where_id: "(\<And>r. r \<in> set t \<Longrightarrow> \<not> p r) \<Longrightarrow> update_where p f t = t"
  by (induction t) auto

lemma find_update_where:
  assumes "\<And>r. p r \<Longrightarrow> q (f r) = q r"
  shows "find q (update_where p f t) = map_option (\<lambda>r. if p r then f r else r) (find q t)"
  using assms by (induction t) auto

lemma find_append: "find q (t @ u) = (case find q t of None \<Rightarrow> find q u | Some r \<Rightarrow> Some r)"
  by (induction t) auto

lemma find_SomeD: "find q t = Some r \<Longrightarrow> r \<in> set t \<and> q r"
  by (induction t) (auto split: if_splits)

lemma find_NoneD: "find q t = None \<Longrightarrow> r \<in> set t \<Longrightarrow> \<not> q r"
  by (induction t) (auto split: if_splits)

lemma find_distinct:
  assumes "distinct (map key t)" "r \<in> set t" "\<And>s. q s \<longleftrightarrow> key s = key r"
  shows "find q t = Some r"
  using assms(1,2)
proof (induction t)
  case (Cons a t)
  then show ?case using assms(3) by (auto simp: image_iff)
qed simp

section \<open>The stable comparator sort\<close>

text \<open>
  \<open>Array.prototype.sort\<close> with a comparator is stable: an element is placed before the first
  element that does not come before it.  Insertion from the right gives that order, which is the
  only one when the comparator is consistent.
\<close>

fun js_insert :: "('a \<Rightarrow> 'a \<Rightarrow> int) \<Rightarrow> 'a \<Rightarrow> 'a list \<Rightarrow> 'a list" where
  "js_insert cmp x [] = [x]"
| "js_insert cmp x (y # ys) = (if cmp x y \<le> 0 then x # y # ys else y # js_insert cmp x ys)"

fun js_sort :: "('a \<Rightarrow> 'a \<Rightarrow> int) \<Rightarrow> 'a list \<Rightarrow> 'a list" where
  "js_sort cmp [] = []"
| "js_sort cmp (x # xs) = js_insert cmp x (js_sort cmp xs)"

lemma js_insert_mset [simp]: "mset (js_insert cmp x xs) = add_mset x (mset xs)"
  by (induction xs) auto

lemma js_sort_mset [simp]: "mset (js_sort cmp xs) = mset xs"
  by (induction xs) auto

lemma js_sort_set [simp]: "set (js_sort cmp xs) = set xs"
  by (metis js_sort_mset set_mset_mset)

lemma js_sort_length [simp]: "length (js_sort cmp xs) = length xs"
  by (metis js_sort_mset size_mset)

definition cmp_total :: "('a \<Rightarrow> 'a \<Rightarrow> int) \<Rightarrow> 'a set \<Rightarrow> bool" where
  "cmp_total cmp A = ((\<forall>x\<in>A. \<forall>y\<in>A. cmp x y \<le> 0 \<or> cmp y x \<le> 0) \<and>
     (\<forall>x\<in>A. \<forall>y\<in>A. \<forall>z\<in>A. cmp x y \<le> 0 \<longrightarrow> cmp y z \<le> 0 \<longrightarrow> cmp x z \<le> 0))"

lemma cmp_totalD1: "cmp_total cmp A \<Longrightarrow> x \<in> A \<Longrightarrow> y \<in> A \<Longrightarrow> \<not> cmp x y \<le> 0 \<Longrightarrow> cmp y x \<le> 0"
  unfolding cmp_total_def by blast

lemma cmp_total_trans:
  "cmp_total cmp A \<Longrightarrow> x \<in> A \<Longrightarrow> y \<in> A \<Longrightarrow> z \<in> A \<Longrightarrow> cmp x y \<le> 0 \<Longrightarrow> cmp y z \<le> 0 \<Longrightarrow> cmp x z \<le> 0"
  unfolding cmp_total_def by blast

lemma cmp_total_mono: "cmp_total cmp A \<Longrightarrow> B \<subseteq> A \<Longrightarrow> cmp_total cmp B"
  unfolding cmp_total_def by blast

lemma js_insert_set: "set (js_insert cmp x xs) = insert x (set xs)"
  by (induction xs) auto

lemma js_insert_sorted:
  assumes "cmp_total cmp (insert x (set xs))" "sorted_wrt (\<lambda>a b. cmp a b \<le> 0) xs"
  shows "sorted_wrt (\<lambda>a b. cmp a b \<le> 0) (js_insert cmp x xs)"
  using assms
proof (induction xs)
  case (Cons y ys)
  have sub: "cmp_total cmp (insert x (set ys))"
    by (rule cmp_total_mono [OF Cons.prems(1)]) auto
  show ?case
  proof (cases "cmp x y \<le> 0")
    case True
    have "cmp x z \<le> 0" if "z \<in> set ys" for z
      using that True Cons.prems by (intro cmp_total_trans [OF Cons.prems(1), of x y z]) auto
    then show ?thesis using True Cons.prems(2) by auto
  next
    case False
    then have "cmp y x \<le> 0" using cmp_totalD1 [OF Cons.prems(1), of x y] by auto
    then show ?thesis
      using False Cons.IH [OF sub] Cons.prems(2) by (auto simp: js_insert_set)
  qed
qed simp

lemma js_sort_sorted:
  "cmp_total cmp (set xs) \<Longrightarrow> sorted_wrt (\<lambda>a b. cmp a b \<le> 0) (js_sort cmp xs)"
proof (induction xs)
  case (Cons x xs)
  have "cmp_total cmp (set xs)" by (rule cmp_total_mono [OF Cons.prems]) auto
  then show ?case using js_insert_sorted [of cmp x "js_sort cmp xs"] Cons by simp
qed simp

text \<open>With a comparator that separates the elements the sorted list is determined by the bag.\<close>

lemma sorted_wrt_mset_unique:
  assumes "sorted_wrt R xs" "sorted_wrt R ys" "mset xs = mset ys" "distinct xs"
    and "\<And>x y. x \<in> set xs \<Longrightarrow> y \<in> set xs \<Longrightarrow> R x y \<Longrightarrow> R y x \<Longrightarrow> x = y"
  shows "xs = ys"
  using assms
proof (induction xs arbitrary: ys)
  case (Cons x xs)
  then obtain y ys' where ys: "ys = y # ys'" by (cases ys) auto
  have st: "set ys = set (x # xs)" using mset_eq_setD [OF Cons.prems(3)] by simp
  have "x = y"
  proof (rule ccontr)
    assume "x \<noteq> y"
    then have "x \<in> set ys'" "y \<in> set xs" using st ys by auto
    then have "R y x" "R x y" using Cons.prems(1,2) ys by auto
    then show False using Cons.prems(5) [of x y] \<open>x \<noteq> y\<close> \<open>y \<in> set xs\<close> by simp
  qed
  moreover have "xs = ys'"
    using Cons.prems(1,2,3,4) ys \<open>x = y\<close> by (intro Cons.IH Cons.prems(5)) simp_all
  ultimately show ?case using ys by simp
qed simp

lemma js_sort_perm_eq:
  assumes "mset xs = mset ys" "distinct xs" "cmp_total cmp (set xs)"
    and "\<And>x y. x \<in> set xs \<Longrightarrow> y \<in> set xs \<Longrightarrow> cmp x y \<le> 0 \<Longrightarrow> cmp y x \<le> 0 \<Longrightarrow> x = y"
  shows "js_sort cmp xs = js_sort cmp ys"
proof (rule sorted_wrt_mset_unique [where R = "\<lambda>a b. cmp a b \<le> 0"])
  have st: "set xs = set ys" by (rule mset_eq_setD [OF assms(1)])
  show "sorted_wrt (\<lambda>a b. cmp a b \<le> 0) (js_sort cmp xs)" by (rule js_sort_sorted [OF assms(3)])
  show "sorted_wrt (\<lambda>a b. cmp a b \<le> 0) (js_sort cmp ys)"
    using assms(3) st by (intro js_sort_sorted) simp
  show "mset (js_sort cmp xs) = mset (js_sort cmp ys)" using assms(1) by simp
  show "distinct (js_sort cmp xs)" using assms(2) by (metis js_sort_mset mset_eq_imp_distinct_iff)
  show "\<And>x y. x \<in> set (js_sort cmp xs) \<Longrightarrow> y \<in> set (js_sort cmp xs) \<Longrightarrow> cmp x y \<le> 0 \<Longrightarrow> cmp y x \<le> 0 \<Longrightarrow> x = y"
    using assms(4) by simp
qed

section \<open>Decimal integers\<close>

definition digit_char :: "nat \<Rightarrow> char" where
  "digit_char d = char_of (48 + d)"

definition digit_val :: "char \<Rightarrow> nat" where
  "digit_val c = of_char c - 48"

definition is_digit :: "char \<Rightarrow> bool" where
  "is_digit c = (48 \<le> (of_char c :: nat) \<and> (of_char c :: nat) \<le> 57)"

fun nat_to_string :: "nat \<Rightarrow> string" where
  "nat_to_string n = (if n < 10 then [digit_char n] else nat_to_string (n div 10) @ [digit_char (n mod 10)])"

declare nat_to_string.simps [simp del]

definition int_to_string :: "int \<Rightarrow> string" where
  "int_to_string i = (if i < 0 then CHR ''-'' # nat_to_string (nat (- i)) else nat_to_string (nat i))"

definition digits_value :: "string \<Rightarrow> nat" where
  "digits_value s = foldl (\<lambda>a c. 10 * a + digit_val c) 0 s"

text \<open>The pattern \<open>/^-?(0|[1-9][0-9]*)$/\<close> and the BigInt it denotes.\<close>

definition nat_pattern :: "string \<Rightarrow> bool" where
  "nat_pattern s = (s = ''0'' \<or> (s \<noteq> [] \<and> is_digit (hd s) \<and> hd s \<noteq> CHR ''0'' \<and> list_all is_digit (tl s)))"

definition int_pattern :: "string \<Rightarrow> bool" where
  "int_pattern s = (case s of [] \<Rightarrow> False
     | c # t \<Rightarrow> if c = CHR ''-'' then nat_pattern t else nat_pattern s)"

definition big_int :: "string \<Rightarrow> int" where
  "big_int s = (case s of [] \<Rightarrow> 0
     | c # t \<Rightarrow> if c = CHR ''-'' then - int (digits_value t) else int (digits_value s))"

lemma digit_char_props [simp]:
  assumes "d < 10"
  shows "digit_val (digit_char d) = d" "is_digit (digit_char d)"
  using assms by (simp_all add: digit_val_def digit_char_def is_digit_def)

lemma char_of_48 [simp]: "char_of (48::nat) = CHR ''0''"
  by code_simp

lemma digit_char_zero: "d < 10 \<Longrightarrow> digit_char d = CHR ''0'' \<longleftrightarrow> d = 0"
  by (metis digit_char_props(1) digit_char_def char_of_48 add_0_right zero_less_numeral)

lemma digit_char_minus: "d < 10 \<Longrightarrow> digit_char d \<noteq> CHR ''-''"
  using digit_char_props(2) [of d] by (auto simp: is_digit_def)

lemma is_digit_minus [simp]: "\<not> is_digit (CHR ''-'')"
  by (simp add: is_digit_def)

lemma is_digit_char: "is_digit c \<Longrightarrow> digit_char (digit_val c) = c \<and> digit_val c < 10"
  by (auto simp: is_digit_def digit_char_def digit_val_def)

lemma digits_value_append: "digits_value (s @ [c]) = 10 * digits_value s + digit_val c"
  by (simp add: digits_value_def)

lemma nat_to_string_digits:
  "nat_to_string n \<noteq> [] \<and> list_all is_digit (nat_to_string n) \<and> digits_value (nat_to_string n) = n
   \<and> (n \<noteq> 0 \<longrightarrow> hd (nat_to_string n) \<noteq> CHR ''0'')"
proof (induction n rule: nat_to_string.induct)
  case (1 n)
  show ?case
  proof (cases "n < 10")
    case True
    then show ?thesis
      by (simp add: nat_to_string.simps [of n] digits_value_def digit_char_zero)
  next
    case False
    then have "n div 10 \<noteq> 0" by (simp add: div_eq_0_iff)
    then show ?thesis using 1 False
      by (simp add: nat_to_string.simps [of n] digits_value_append)
  qed
qed

lemma nat_to_string_pattern: "nat_pattern (nat_to_string n)"
proof (cases "n = 0")
  case True
  then show ?thesis by (simp add: nat_pattern_def nat_to_string.simps [of 0] digit_char_def)
next
  case False
  obtain c t where ct: "nat_to_string n = c # t" using nat_to_string_digits [of n] by (cases "nat_to_string n") auto
  then show ?thesis using nat_to_string_digits [of n] False by (simp add: nat_pattern_def)
qed

lemma nat_to_string_inverse:
  assumes "nat_pattern s" shows "nat_to_string (digits_value s) = s"
  using assms
proof (induction s rule: rev_induct)
  case (snoc c s)
  show ?case
  proof (cases "s = []")
    case True
    then show ?thesis using snoc.prems is_digit_char [of c]
      by (auto simp: nat_pattern_def nat_to_string.simps digits_value_def is_digit_def)
  next
    case False
    then have s: "nat_pattern s" "is_digit c"
      using snoc.prems by (auto simp: nat_pattern_def tl_append split: list.splits)
    have ne: "s \<noteq> ''0''" using snoc.prems False by (auto simp: nat_pattern_def)
    have pos: "digits_value s \<noteq> 0"
    proof
      assume "digits_value s = 0"
      then have "s = nat_to_string 0" using snoc.IH [OF s(1)] by simp
      then show False using ne by (simp add: nat_to_string.simps digit_char_def)
    qed
    have d: "digit_val c < 10" using is_digit_char [OF s(2)] by simp
    then have "\<not> digits_value (s @ [c]) < 10" "digits_value (s @ [c]) div 10 = digits_value s"
      "digits_value (s @ [c]) mod 10 = digit_val c"
      using pos by (simp_all add: digits_value_append)
    then show ?thesis
      using snoc.IH [OF s(1)] is_digit_char [OF s(2)]
      by (subst nat_to_string.simps) simp
  qed
qed (simp add: nat_pattern_def)

lemma nat_to_string_inj: "nat_to_string m = nat_to_string n \<Longrightarrow> m = n"
  by (metis nat_to_string_digits)

lemma nat_to_string_hd_not_minus: "nat_to_string n = c # t \<Longrightarrow> c \<noteq> CHR ''-''"
  using nat_to_string_digits [of n] by auto

lemma int_pattern_to_string: "int_pattern (int_to_string i)"
proof (cases "nat_to_string (nat i)")
  case Nil
  then show ?thesis using nat_to_string_digits [of "nat i"] by simp
next
  case (Cons c t)
  then show ?thesis
    using nat_to_string_pattern [of "nat i"] nat_to_string_pattern [of "nat (- i)"]
      nat_to_string_hd_not_minus [OF Cons]
    by (simp add: int_pattern_def int_to_string_def)
qed

lemma big_int_to_string [simp]: "big_int (int_to_string i) = i"
  using nat_to_string_digits [of "nat i"] nat_to_string_digits [of "nat (- i)"] nat_to_string_hd_not_minus [of "nat i"]
  by (auto simp: big_int_def int_to_string_def split: list.splits)

lemma int_to_string_inj: "int_to_string i = int_to_string j \<Longrightarrow> i = j"
  by (metis big_int_to_string)

lemma int_to_string_big_int:
  assumes "int_pattern s" "s \<noteq> ''-0''" shows "int_to_string (big_int s) = s"
proof (cases s)
  case (Cons c t)
  show ?thesis
  proof (cases "c = CHR ''-''")
    case True
    then have p: "nat_pattern t" using assms Cons by (simp add: int_pattern_def)
    have "digits_value t \<noteq> 0"
    proof
      assume "digits_value t = 0"
      then have "t = ''0''" using nat_to_string_inverse [OF p] by (simp add: nat_to_string.simps digit_char_def)
      then show False using assms(2) Cons True by simp
    qed
    then show ?thesis using nat_to_string_inverse [OF p] Cons True
      by (simp add: big_int_def int_to_string_def)
  next
    case False
    then have "nat_pattern s" using assms Cons by (simp add: int_pattern_def)
    then show ?thesis using nat_to_string_inverse [of s] Cons False
      by (simp add: big_int_def int_to_string_def)
  qed
qed (use assms in \<open>simp add: int_pattern_def\<close>)

end
