(* ===== verification/JS_Json.thy ===== *)
theory JS_Json
  imports JS_Prelude "HOL-Library.Char_ord" "HOL-Library.List_Lexorder"
begin

text \<open>
  JSON values as the code manipulates them, the scalar part of \<open>JSON.stringify\<close>, the two
  canonical printers (\<open>stable\<close> of facilitator/src/idempotency.ts and \<open>canonicalJson\<close> of
  facilitator/src/bazaar/sanitize.ts) and the depth bound \<open>jsonDepth\<close>.  The lemmas show that a
  canonical text determines its value up to the order of object keys, which is what makes the
  request fingerprint and every catalog hash meaningful.
\<close>

section \<open>Values\<close>

text \<open>Reading a property of an object; a missing property reads as undefined.\<close>

definition js_get :: "js \<Rightarrow> string \<Rightarrow> js" where
  "js_get v k = (case v of JObj kvs \<Rightarrow> coalesce (map_of kvs k) JUndef | _ \<Rightarrow> JUndef)"

text \<open>The test \<open>v && typeof v === "object" && !Array.isArray(v)\<close>.\<close>

definition js_is_record :: "js \<Rightarrow> bool" where
  "js_is_record v = (case v of JObj _ \<Rightarrow> True | _ \<Rightarrow> False)"

definition js_scalar :: "js \<Rightarrow> bool" where
  "js_scalar v = (case v of JObj _ \<Rightarrow> False | JArr _ \<Rightarrow> False | _ \<Rightarrow> True)"

lemma js_get_JObj [simp]: "js_get (JObj kvs) k = coalesce (map_of kvs k) JUndef"
  by (simp add: js_get_def)

lemma js_get_undef [simp]: "js_get JUndef k = JUndef"
  by (simp add: js_get_def)

lemma js_is_record_simps [simp]:
  "js_is_record (JObj kvs)" "\<not> js_is_record JUndef" "\<not> js_is_record JNull" "\<not> js_is_record (JBool b)"
  "\<not> js_is_record (JNum i)" "\<not> js_is_record (JStr s)" "\<not> js_is_record (JArr xs)"
  by (simp_all add: js_is_record_def)

section \<open>Scalars\<close>

definition hex_digit :: "nat \<Rightarrow> char" where
  "hex_digit n = ''0123456789abcdef'' ! n"

text \<open>String escapes of \<open>JSON.stringify\<close>.\<close>

definition json_escape :: "char \<Rightarrow> string" where
  "json_escape c = (let n = (of_char c :: nat) in
     if n = 34 then [CHR 0x5C, CHR 0x22] else if n = 92 then [CHR 0x5C, CHR 0x5C]
     else if n = 8 then [CHR 0x5C, CHR ''b''] else if n = 9 then [CHR 0x5C, CHR ''t'']
     else if n = 10 then [CHR 0x5C, CHR ''n''] else if n = 12 then [CHR 0x5C, CHR ''f'']
     else if n = 13 then [CHR 0x5C, CHR ''r'']
     else if n < 32 then [CHR 0x5C, CHR ''u'', CHR ''0'', CHR ''0'', hex_digit (n div 16), hex_digit (n mod 16)]
     else [c])"

definition json_string :: "string \<Rightarrow> string" where
  "json_string s = CHR 0x22 # concat (map json_escape s) @ [CHR 0x22]"

fun json_scalar :: "js \<Rightarrow> string" where
  "json_scalar JNull = ''null''"
| "json_scalar (JBool b) = (if b then ''true'' else ''false'')"
| "json_scalar (JNum i) = int_to_string i"
| "json_scalar (JStr s) = json_string s"
| "json_scalar _ = ''undefined''"

fun join :: "string \<Rightarrow> string list \<Rightarrow> string" where
  "join sep [] = []"
| "join sep [x] = x"
| "join sep (x # y # zs) = x @ sep @ join sep (y # zs)"

section \<open>The canonical printers\<close>

definition entry_cmp :: "(string \<Rightarrow> string \<Rightarrow> int) \<Rightarrow> string \<times> js \<Rightarrow> string \<times> js \<Rightarrow> int" where
  "entry_cmp cmp a b = cmp (fst a) (fst b)"

text \<open>The comparator \<open>left < right ? -1 : left > right ? 1 : 0\<close> on code units.\<close>

definition code_unit_cmp :: "string \<Rightarrow> string \<Rightarrow> int" where
  "code_unit_cmp l r = (if l < r then - 1 else if r < l then 1 else 0)"

lemma size_entry: "(k, v) \<in> set kvs \<Longrightarrow> size v < Suc (size_list (size_prod (\<lambda>_. 0) size) kvs)"
  by (induction kvs) auto

lemma size_elem: "x \<in> set xs \<Longrightarrow> size x < Suc (size_list size xs)"
  by (induction xs) auto

text \<open>
  \<open>stable\<close>: an undefined element of an array joins as the empty text, an undefined member of an
  object prints as the word undefined.  \<open>lc\<close> is \<open>String.prototype.localeCompare\<close>.
\<close>

function stable :: "(string \<Rightarrow> string \<Rightarrow> int) \<Rightarrow> js \<Rightarrow> string" where
  "stable lc (JArr xs) = ''['' @ join '','' (map (\<lambda>v. if v = JUndef then [] else stable lc v) xs) @ '']''"
| "stable lc (JObj kvs) = ''{'' @ join '','' (map (\<lambda>e. json_string (fst e) @ '':'' @ stable lc (snd e))
     (js_sort (entry_cmp lc) kvs)) @ ''}''"
| "stable lc JUndef = json_scalar JUndef"
| "stable lc JNull = json_scalar JNull"
| "stable lc (JBool b) = json_scalar (JBool b)"
| "stable lc (JNum i) = json_scalar (JNum i)"
| "stable lc (JStr s) = json_scalar (JStr s)"
  by pat_completeness auto
termination by (relation "measure (size \<circ> snd)") (auto simp: size_elem size_entry)

function canonicalJson :: "js \<Rightarrow> string" where
  "canonicalJson JUndef = ''null''"
| "canonicalJson (JArr xs) = ''['' @ join '','' (map canonicalJson xs) @ '']''"
| "canonicalJson (JObj kvs) = ''{'' @ join '','' (map (\<lambda>e. json_string (fst e) @ '':'' @ canonicalJson (snd e))
     (js_sort (entry_cmp code_unit_cmp) (filter (\<lambda>e. snd e \<noteq> JUndef) kvs))) @ ''}''"
| "canonicalJson JNull = json_scalar JNull"
| "canonicalJson (JBool b) = json_scalar (JBool b)"
| "canonicalJson (JNum i) = json_scalar (JNum i)"
| "canonicalJson (JStr s) = json_scalar (JStr s)"
  by pat_completeness auto
termination by (relation "measure size") (auto simp: size_elem size_entry)

section \<open>Well-formed values\<close>

text \<open>What \<open>JSON.parse\<close> returns: no undefined inside, and the keys of an object are distinct.\<close>

fun json_ok :: "js \<Rightarrow> bool" where
  "json_ok JUndef = False"
| "json_ok (JArr xs) = list_all json_ok xs"
| "json_ok (JObj kvs) = (distinct (map fst kvs) \<and> list_all (\<lambda>e. json_ok (snd e)) kvs)"
| "json_ok _ = True"

text \<open>Equality up to the order of the keys of objects.\<close>

inductive js_eqv :: "js \<Rightarrow> js \<Rightarrow> bool" where
  eqv_scalar: "js_scalar v \<Longrightarrow> js_eqv v v"
| eqv_arr: "list_all2 js_eqv xs ys \<Longrightarrow> js_eqv (JArr xs) (JArr ys)"
| eqv_obj: "list_all2 (\<lambda>a b. fst a = fst b \<and> js_eqv (snd a) (snd b)) xs ys \<Longrightarrow> mset xs' = mset xs \<Longrightarrow>
    mset ys' = mset ys \<Longrightarrow> js_eqv (JObj xs') (JObj ys')"

text \<open>The normal form: the entries of every object in the order of the comparator.\<close>

function js_norm :: "(string \<Rightarrow> string \<Rightarrow> int) \<Rightarrow> js \<Rightarrow> js" where
  "js_norm cmp (JArr xs) = JArr (map (js_norm cmp) xs)"
| "js_norm cmp (JObj kvs) = JObj (map (\<lambda>e. (fst e, js_norm cmp (snd e))) (js_sort (entry_cmp cmp) kvs))"
| "js_norm cmp JUndef = JUndef"
| "js_norm cmp JNull = JNull"
| "js_norm cmp (JBool b) = JBool b"
| "js_norm cmp (JNum i) = JNum i"
| "js_norm cmp (JStr s) = JStr s"
  by pat_completeness auto
termination by (relation "measure (size \<circ> snd)") (auto simp: size_elem size_entry)

text \<open>The plain printer, entries in the order given.\<close>

function json_text :: "js \<Rightarrow> string" where
  "json_text (JArr xs) = ''['' @ join '','' (map json_text xs) @ '']''"
| "json_text (JObj kvs) = ''{'' @ join '','' (map (\<lambda>e. json_string (fst e) @ '':'' @ json_text (snd e)) kvs) @ ''}''"
| "json_text JUndef = json_scalar JUndef"
| "json_text JNull = json_scalar JNull"
| "json_text (JBool b) = json_scalar (JBool b)"
| "json_text (JNum i) = json_scalar (JNum i)"
| "json_text (JStr s) = json_scalar (JStr s)"
  by pat_completeness auto
termination by (relation "measure size") (auto simp: size_elem size_entry)

lemma stable_text: "json_ok v \<Longrightarrow> stable lc v = json_text (js_norm lc v)"
proof (induction v rule: json_ok.induct)
  case (2 xs)
  then have "JUndef \<notin> set xs" by (auto simp: list_all_iff)
  then show ?case using 2 by (auto simp: list_all_iff comp_def intro!: arg_cong [where f = "join _"] map_cong)
next
  case (3 kvs)
  then show ?case by (auto simp: list_all_iff comp_def intro!: arg_cong [where f = "join _"] map_cong)
qed auto

lemma canonical_text: "json_ok v \<Longrightarrow> canonicalJson v = json_text (js_norm code_unit_cmp v)"
proof (induction v rule: json_ok.induct)
  case (2 xs)
  then show ?case by (auto simp: list_all_iff comp_def intro!: arg_cong [where f = "join _"] map_cong)
next
  case (3 kvs)
  have f: "filter (\<lambda>e. snd e \<noteq> JUndef) kvs = kvs"
    using 3 by (auto simp: filter_id_conv list_all_iff)
  then show ?case using 3 by (auto simp: list_all_iff comp_def f intro!: arg_cong [where f = "join _"] map_cong)
qed auto

section \<open>Unique decodability\<close>

definition delim :: "string \<Rightarrow> bool" where
  "delim r = (r = [] \<or> hd r \<in> set '',]}'')"

lemma join_Cons: "join sep (x # xs) = x @ concat (map (\<lambda>y. sep @ y) xs)"
  by (induction xs arbitrary: x) auto

definition hex_val :: "char \<Rightarrow> nat" where
  "hex_val c = length (takeWhile (\<lambda>d. d \<noteq> c) ''0123456789abcdef'')"

text \<open>Reading back one escaped character.\<close>

definition unescape1 :: "string \<Rightarrow> char \<times> string" where
  "unescape1 s = (let c = hd s; e = hd (tl s); r = tl (tl s) in
     if c \<noteq> CHR 0x5C then (c, tl s)
     else if e = CHR ''b'' then (CHR 0x08, r) else if e = CHR ''t'' then (CHR 0x09, r)
     else if e = CHR ''n'' then (CHR 0x0A, r) else if e = CHR ''f'' then (CHR 0x0C, r)
     else if e = CHR ''r'' then (CHR 0x0D, r)
     else if e = CHR ''u'' then (char_of (16 * hex_val (r ! 2) + hex_val (r ! 3)), drop 4 r)
     else (e, r))"

lemma hex_val_digit: "n < 16 \<Longrightarrow> hex_val (hex_digit n) = n"
proof -
  have "list_all (\<lambda>n. hex_val (hex_digit n) = n) [0..<16]" by code_simp
  then show "n < 16 \<Longrightarrow> hex_val (hex_digit n) = n" by (simp add: list_all_iff)
qed

lemma json_escape_first: "json_escape c = a # x \<Longrightarrow> a \<noteq> CHR 0x22"
  by (auto simp: json_escape_def Let_def split: if_splits)

lemma json_escape_nonempty [simp]: "json_escape c \<noteq> []"
  by (simp add: json_escape_def Let_def)

lemma char_of_codes:
  "char_of (34::nat) = CHR 0x22" "char_of (92::nat) = CHR 0x5C" "char_of (8::nat) = CHR 0x08"
  "char_of (9::nat) = CHR 0x09" "char_of (10::nat) = CHR 0x0A" "char_of (12::nat) = CHR 0x0C"
  "char_of (13::nat) = CHR 0x0D"
  by (code_simp)+

lemma unescape1_escape: "unescape1 (json_escape c @ x) = (c, x)"
proof -
  consider (named) "(of_char c :: nat) \<in> {34, 92, 8, 9, 10, 12, 13}"
    | (hex) "(of_char c :: nat) \<notin> {34, 92, 8, 9, 10, 12, 13}" "(of_char c :: nat) < 32"
    | (plain) "(of_char c :: nat) \<notin> {34, 92, 8, 9, 10, 12, 13}" "\<not> (of_char c :: nat) < 32"
    by blast
  then show ?thesis
  proof cases
    case named
    then have "c \<in> char_of ` {34, 92, 8, 9, 10, 12, 13 :: nat}" by (metis char_of_char imageI)
    then have "c \<in> {CHR 0x22, CHR 0x5C, CHR 0x08, CHR 0x09, CHR 0x0A, CHR 0x0C, CHR 0x0D}"
      by (simp only: image_insert image_empty char_of_codes)
    then show ?thesis
      by (elim insertE emptyE) (simp_all add: json_escape_def unescape1_def Let_def)
  next
    case hex
    have "(of_char c :: nat) div 16 < 16" "(of_char c :: nat) mod 16 < 16" using hex by auto
    then show ?thesis using hex by (simp add: json_escape_def unescape1_def Let_def hex_val_digit)
  next
    case plain
    then have "c \<noteq> CHR 0x5C" by auto
    then show ?thesis using plain by (simp add: json_escape_def unescape1_def Let_def)
  qed
qed

lemma json_escape_prefix: "json_escape c @ x = json_escape d @ y \<Longrightarrow> c = d \<and> x = y"
  by (metis unescape1_escape prod.inject)

lemma json_escape_quote: "json_escape c @ x \<noteq> CHR 0x22 # y"
  using json_escape_first [of c] by (cases "json_escape c") auto

lemma json_string_prefix:
  assumes "json_string s @ x = json_string t @ y" shows "s = t \<and> x = y"
proof -
  have "concat (map json_escape s) @ CHR 0x22 # x = concat (map json_escape t) @ CHR 0x22 # y"
    using assms by (simp add: json_string_def)
  then show ?thesis
  proof (induction s arbitrary: t)
    case Nil
    then show ?case using json_escape_quote by (cases t) (auto dest: sym)
  next
    case (Cons c s)
    show ?case
    proof (cases t)
      case Nil
      then show ?thesis using Cons.prems json_escape_quote by auto
    next
      case (Cons d t')
      then have "c = d \<and> concat (map json_escape s) @ CHR 0x22 # x = concat (map json_escape t') @ CHR 0x22 # y"
        using Cons.prems json_escape_prefix [of c _ d] by simp
      then show ?thesis using Cons.IH [of t'] Cons by simp
    qed
  qed
qed

definition num_char :: "char \<Rightarrow> bool" where
  "num_char c = (is_digit c \<or> c = CHR ''-'')"

lemma int_to_string_chars: "list_all num_char (int_to_string i) \<and> int_to_string i \<noteq> []"
  using nat_to_string_digits [of "nat i"] nat_to_string_digits [of "nat (- i)"]
  by (auto simp: int_to_string_def num_char_def list_all_iff)

lemma delim_not_num: "delim (c # r) \<Longrightarrow> \<not> num_char c"
  by (auto simp: delim_def num_char_def is_digit_def)

lemma int_to_string_prefix:
  assumes "int_to_string i @ r = int_to_string j @ s" "delim r" "delim s"
  shows "i = j \<and> r = s"
proof -
  have t: "takeWhile num_char (int_to_string k @ u) = int_to_string k" if "delim u" for k u
    using that int_to_string_chars [of k] delim_not_num
    by (cases u) (auto simp: takeWhile_append2 list_all_iff takeWhile_append)
  have "int_to_string i = int_to_string j" using t [OF assms(2), of i] t [OF assms(3), of j] assms(1) by simp
  then show ?thesis using assms(1) int_to_string_inj by auto
qed

lemma join_inj:
  assumes "\<And>x y u w. x \<in> set xs \<Longrightarrow> y \<in> set ys \<Longrightarrow> p x @ u = p y @ w \<Longrightarrow> delim u \<Longrightarrow> delim w \<Longrightarrow> x = y \<and> u = w"
    and "\<And>x. x \<in> set xs \<union> set ys \<Longrightarrow> p x \<noteq> [] \<and> hd (p x) \<noteq> c"
    and "c \<in> set '']}''"
    and "join '','' (map p xs) @ c # r = join '','' (map p ys) @ c # s"
  shows "xs = ys \<and> r = s"
proof -
  have d: "delim (c # z)" "delim (CHR '','' # z)" for z using assms(3) by (auto simp: delim_def)
  have c: "c \<noteq> CHR '',''" using assms(3) by auto
  have tl: "xs' = ys' \<and> r = s"
    if "concat (map (\<lambda>y. '','' @ p y) xs') @ c # r = concat (map (\<lambda>y. '','' @ p y) ys') @ c # s"
      "set xs' \<subseteq> set xs" "set ys' \<subseteq> set ys" for xs' ys'
    using that
  proof (induction xs' arbitrary: ys')
    case Nil
    then show ?case using c by (cases ys') auto
  next
    case (Cons x xs')
    then obtain y ys'' where ys: "ys' = y # ys''" using c by (cases ys') auto
    have dl: "delim (concat (map (\<lambda>y. '','' @ p y) zs) @ c # z)" for zs z using d by (cases zs) auto
    have "x = y \<and> concat (map (\<lambda>y. '','' @ p y) xs') @ c # r = concat (map (\<lambda>y. '','' @ p y) ys'') @ c # s"
      using Cons.prems ys by (intro assms(1) dl) auto
    then show ?case using Cons.IH [of ys''] Cons.prems ys by simp
  qed
  have ne: "p x @ z \<noteq> c # w" if "x \<in> set xs \<union> set ys" for x z w
    using assms(2) [OF that] by (cases "p x") auto
  show ?thesis
  proof (cases xs)
    case Nil
    then show ?thesis using assms(4) ne by (cases ys) (auto simp: join_Cons dest: sym)
  next
    case (Cons x xs')
    then obtain y ys' where ys: "ys = y # ys'"
      using assms(4) ne [of x] by (cases ys) (auto simp: join_Cons)
    have dl: "delim (concat (map (\<lambda>y. '','' @ y) (map p zs)) @ c # z)" for zs z using d by (cases zs) auto
    have "x = y \<and> concat (map (\<lambda>y. '','' @ y) (map p xs')) @ c # r = concat (map (\<lambda>y. '','' @ y) (map p ys')) @ c # s"
      using assms(4) Cons ys by (intro assms(1) dl) (auto simp: join_Cons)
    then show ?thesis using tl [of xs' ys'] Cons ys by (auto simp: comp_def)
  qed
qed

section \<open>Canonical texts determine their values\<close>

text \<open>The first character of a text tells the constructor.\<close>

definition char_kind :: "char \<Rightarrow> nat" where
  "char_kind c = (if c = CHR ''u'' then 1 else if c = CHR ''n'' then 2 else if c = CHR ''t'' then 3
     else if c = CHR ''f'' then 4 else if c = CHR 0x22 then 5 else if c = CHR ''['' then 6
     else if c = CHR ''{'' then 7 else if c = CHR '']'' \<or> c = CHR ''}'' then 8 else 0)"

definition js_kind :: "js \<Rightarrow> nat" where
  "js_kind v = (case v of JUndef \<Rightarrow> 1 | JNull \<Rightarrow> 2 | JBool b \<Rightarrow> if b then 3 else 4 | JNum _ \<Rightarrow> 0
     | JStr _ \<Rightarrow> 5 | JArr _ \<Rightarrow> 6 | JObj _ \<Rightarrow> 7)"

lemma num_char_kind:
  assumes "num_char c" shows "char_kind c = 0"
proof (rule ccontr)
  assume "char_kind c \<noteq> 0"
  then have "c \<in> {CHR ''u'', CHR ''n'', CHR ''t'', CHR ''f'', CHR 0x22, CHR ''['', CHR ''{'', CHR '']'', CHR ''}''}"
    unfolding char_kind_def by (simp split: if_splits)
  then show False using assms
    by (elim insertE emptyE) (simp_all add: num_char_def is_digit_def)
qed

lemma json_text_kind: "\<exists>c u. json_text v = c # u \<and> char_kind c = js_kind v"
proof (cases v)
  case (JNum i)
  then show ?thesis using int_to_string_chars [of i] num_char_kind
    by (cases "int_to_string i") (auto simp: js_kind_def)
qed (simp_all add: js_kind_def char_kind_def json_string_def)

lemma json_text_start: "json_text v \<noteq> [] \<and> hd (json_text v) \<noteq> CHR '']'' \<and> hd (json_text v) \<noteq> CHR ''}''"
proof -
  obtain c u where c: "json_text v = c # u" "char_kind c = js_kind v" using json_text_kind by blast
  have "js_kind v \<noteq> 8" by (simp add: js_kind_def split: js.splits)
  then have "c \<noteq> CHR '']''" "c \<noteq> CHR ''}''" using c(2) by (auto simp: char_kind_def)
  then show ?thesis using c(1) by simp
qed

lemma prefix_kind:
  assumes "json_text v @ r = json_text w @ s" shows "js_kind v = js_kind w"
  using json_text_kind [of v] json_text_kind [of w] assms by auto

lemma kind_cases:
  "js_kind w = 0 \<Longrightarrow> \<exists>i. w = JNum i" "js_kind w = 1 \<Longrightarrow> w = JUndef" "js_kind w = 2 \<Longrightarrow> w = JNull"
  "js_kind w = 3 \<Longrightarrow> w = JBool True" "js_kind w = 4 \<Longrightarrow> w = JBool False" "js_kind w = 5 \<Longrightarrow> \<exists>s. w = JStr s"
  "js_kind w = 6 \<Longrightarrow> \<exists>xs. w = JArr xs" "js_kind w = 7 \<Longrightarrow> \<exists>xs. w = JObj xs"
  by (simp_all add: js_kind_def split: js.splits if_splits)

lemma scalar_prefix:
  assumes "json_text v @ r = json_text w @ s" "delim r" "delim s" "js_scalar v"
  shows "v = w \<and> r = s"
proof (cases v)
  case (JNum i)
  then obtain j where "w = JNum j" using prefix_kind [OF assms(1)] kind_cases(1) [of w] by (auto simp: js_kind_def)
  then show ?thesis using JNum assms(1-3) int_to_string_prefix [of i r j s] by simp
next
  case (JStr t)
  then obtain u where "w = JStr u" using prefix_kind [OF assms(1)] kind_cases(6) [of w] by (auto simp: js_kind_def)
  then show ?thesis using JStr assms(1) json_string_prefix [of t r u s] by simp
next
  case (JBool b)
  then have "w = JBool b" using prefix_kind [OF assms(1)] kind_cases(4,5) [of w] by (cases b) (auto simp: js_kind_def)
  then show ?thesis using JBool assms by simp
next
  case JUndef
  then have "w = JUndef" using prefix_kind [OF assms(1)] kind_cases(2) [of w] by (simp add: js_kind_def)
  then show ?thesis using JUndef assms by simp
next
  case JNull
  then have "w = JNull" using prefix_kind [OF assms(1)] kind_cases(3) [of w] by (simp add: js_kind_def)
  then show ?thesis using JNull assms by simp
qed (use assms in \<open>simp_all add: js_scalar_def\<close>)

lemma arr_prefix: "json_text (JArr xs) @ r = json_text w @ s \<Longrightarrow> \<exists>ys. w = JArr ys"
  using prefix_kind [of "JArr xs" r w s] kind_cases(7) [of w] by (simp add: js_kind_def del: json_text.simps)

lemma obj_prefix: "json_text (JObj xs) @ r = json_text w @ s \<Longrightarrow> \<exists>ys. w = JObj ys"
  using prefix_kind [of "JObj xs" r w s] kind_cases(8) [of w] by (simp add: js_kind_def del: json_text.simps)

theorem json_text_inj:
  "json_text v @ r = json_text w @ s \<Longrightarrow> delim r \<Longrightarrow> delim s \<Longrightarrow> v = w \<and> r = s"
proof (induction v arbitrary: w r s rule: json_text.induct)
  case (1 xs)
  then obtain ys where w: "w = JArr ys" using arr_prefix by blast
  have "xs = ys \<and> r = s"
  proof (rule join_inj [where p = json_text and c = "CHR '']''"])
    show "join '','' (map json_text xs) @ CHR '']'' # r = join '','' (map json_text ys) @ CHR '']'' # s"
      using 1(2) w by simp
    show "x = y \<and> u = z" if "x \<in> set xs" "json_text x @ u = json_text y @ z" "delim u" "delim z" for x y u z
      using 1(1) that by blast
  qed (simp_all add: json_text_start)
  then show ?case using w by simp
next
  case (2 xs)
  then obtain ys where w: "w = JObj ys" using obj_prefix by blast
  have "xs = ys \<and> r = s"
  proof (rule join_inj [where p = "\<lambda>e. json_string (fst e) @ '':'' @ json_text (snd e)" and c = "CHR ''}''"])
    show "join '','' (map (\<lambda>e. json_string (fst e) @ '':'' @ json_text (snd e)) xs) @ CHR ''}'' # r
        = join '','' (map (\<lambda>e. json_string (fst e) @ '':'' @ json_text (snd e)) ys) @ CHR ''}'' # s"
      using 2(2) w by simp
    show "x = y \<and> u = z" if "x \<in> set xs" "(json_string (fst x) @ '':'' @ json_text (snd x)) @ u
        = (json_string (fst y) @ '':'' @ json_text (snd y)) @ z" "delim u" "delim z" for x y u z
    proof -
      have "fst x = fst y \<and> json_text (snd x) @ u = json_text (snd y) @ z"
        using that(2) json_string_prefix [of "fst x" _ "fst y"] by auto
      then show ?thesis using 2(1) [OF that(1), of u "snd y" z] that(3,4) by (simp add: prod_eq_iff)
    qed
  qed (auto simp: json_string_def)
  then show ?case using w by simp
qed (use scalar_prefix js_scalar_def in \<open>(metis js.simps)+\<close>)

lemma json_text_eq: "json_text v = json_text w \<longleftrightarrow> v = w"
  using json_text_inj [of v "[]" w "[]"] by (auto simp: delim_def)

section \<open>Normal forms and equality up to key order\<close>

definition separates :: "(string \<Rightarrow> string \<Rightarrow> int) \<Rightarrow> bool" where
  "separates cmp = (cmp_total cmp UNIV \<and> (\<forall>a b. cmp a b \<le> 0 \<longrightarrow> cmp b a \<le> 0 \<longrightarrow> a = b))"

lemma code_unit_cmp_separates: "separates code_unit_cmp"
  unfolding separates_def cmp_total_def code_unit_cmp_def by auto

lemma entry_cmp_total: "separates cmp \<Longrightarrow> cmp_total (entry_cmp cmp) A"
  unfolding separates_def cmp_total_def entry_cmp_def by blast

text \<open>
  A comparator need not separate strings - \<open>localeCompare\<close> answers 0 for canonically equivalent ones -, so what counts is
  whether it tells the keys of each object of a value apart.
\<close>

definition same_place :: "(string \<Rightarrow> string \<Rightarrow> int) \<Rightarrow> string \<Rightarrow> string \<Rightarrow> bool" where
  "same_place cmp a b = (cmp a b \<le> 0 \<and> cmp b a \<le> 0)"

definition tells_apart :: "(string \<Rightarrow> string \<Rightarrow> int) \<Rightarrow> string list \<Rightarrow> bool" where
  "tells_apart cmp ks = list_all (\<lambda>a. list_all (\<lambda>b. same_place cmp a b \<longrightarrow> a = b) ks) ks"

function keys_apart :: "(string \<Rightarrow> string \<Rightarrow> int) \<Rightarrow> js \<Rightarrow> bool" where
  "keys_apart cmp (JArr xs) = list_all (keys_apart cmp) xs"
| "keys_apart cmp (JObj kvs) = (tells_apart cmp (map fst kvs) \<and> list_all (\<lambda>e. keys_apart cmp (snd e)) kvs)"
| "keys_apart cmp JUndef = True"
| "keys_apart cmp JNull = True"
| "keys_apart cmp (JBool b) = True"
| "keys_apart cmp (JNum i) = True"
| "keys_apart cmp (JStr s) = True"
  by pat_completeness auto
termination by (relation "measure (size \<circ> snd)") (auto simp: size_elem size_entry)

lemma tells_apartD: "tells_apart cmp ks \<Longrightarrow> a \<in> set ks \<Longrightarrow> b \<in> set ks \<Longrightarrow> cmp a b \<le> 0 \<Longrightarrow> cmp b a \<le> 0 \<Longrightarrow> a = b"
  unfolding tells_apart_def list_all_iff same_place_def by blast

lemma separates_apart: "separates cmp \<Longrightarrow> keys_apart cmp v"
  by (induction cmp v rule: keys_apart.induct) (auto simp: separates_def tells_apart_def same_place_def list_all_iff)

lemma keys_apart_set: "set xs = set ys \<Longrightarrow> keys_apart cmp (JObj xs) = keys_apart cmp (JObj ys)"
  by (simp add: tells_apart_def list_all_iff)

lemma keys_apart_eqv: "js_eqv v w \<Longrightarrow> keys_apart cmp v = keys_apart cmp w"
proof (induction rule: js_eqv.induct)
  case (eqv_arr xs ys)
  then show ?case by (auto simp: list_all2_conv_all_nth list_all_length)
next
  case (eqv_obj xs ys xs' ys')
  have "map fst xs = map fst ys" using eqv_obj.IH by (induction rule: list_all2_induct) auto
  moreover have "list_all (\<lambda>e. keys_apart cmp (snd e)) xs = list_all (\<lambda>e. keys_apart cmp (snd e)) ys"
    using eqv_obj.IH by (auto simp: list_all2_conv_all_nth list_all_length)
  ultimately have "keys_apart cmp (JObj xs) = keys_apart cmp (JObj ys)" by simp
  moreover have "set xs' = set xs" "set ys' = set ys" using eqv_obj.hyps by (auto dest: mset_eq_setD)
  ultimately show ?case using keys_apart_set by metis
qed simp

lemma js_norm_sorts:
  assumes "cmp_total cmp UNIV" "mset xs = mset ys" "distinct (map fst xs)" "tells_apart cmp (map fst xs)"
  shows "js_norm cmp (JObj xs) = js_norm cmp (JObj ys)"
proof -
  have "js_sort (entry_cmp cmp) xs = js_sort (entry_cmp cmp) ys"
  proof (rule js_sort_perm_eq)
    show "distinct xs" using assms(3) distinct_map by blast
    show "cmp_total (entry_cmp cmp) (set xs)" using assms(1) unfolding cmp_total_def entry_cmp_def by blast
    show "x = y" if "x \<in> set xs" "y \<in> set xs" "entry_cmp cmp x y \<le> 0" "entry_cmp cmp y x \<le> 0" for x y
    proof -
      have "fst x = fst y" using that tells_apartD [OF assms(4), of "fst x" "fst y"] by (simp add: entry_cmp_def)
      then show ?thesis using that assms(3) by (metis eq_key_imp_eq_value prod.collapse)
    qed
  qed (use assms(2) in auto)
  then show ?thesis by simp
qed

lemma js_insert_map:
  "(\<And>a b. cmp (f a) (f b) = cmp a b) \<Longrightarrow> js_insert cmp (f x) (map f xs) = map f (js_insert cmp x xs)"
  by (induction xs) auto

lemma js_sort_map: "(\<And>a b. cmp (f a) (f b) = cmp a b) \<Longrightarrow> js_sort cmp (map f xs) = map f (js_sort cmp xs)"
  by (induction xs) (auto simp: js_insert_map)

lemma js_norm_obj:
  "js_norm cmp (JObj xs) = JObj (js_sort (entry_cmp cmp) (map (\<lambda>e. (fst e, js_norm cmp (snd e))) xs))"
  by (simp add: js_sort_map entry_cmp_def)

lemma json_ok_mset: "mset xs = mset ys \<Longrightarrow> json_ok (JObj xs) = json_ok (JObj ys)"
  by (auto simp: list_all_iff dest: mset_eq_setD) (metis mset_eq_imp_distinct_iff mset_map)+

lemma list_all2_eq_map: "list_all2 (\<lambda>x y. f x = g y) xs ys \<Longrightarrow> map f xs = map g ys"
  by (induction rule: list_all2_induct) auto

lemma js_eqv_norm_apart:
  "js_eqv v w \<Longrightarrow> json_ok v \<Longrightarrow> json_ok w \<Longrightarrow> cmp_total cmp UNIV \<Longrightarrow> keys_apart cmp v \<Longrightarrow> keys_apart cmp w \<Longrightarrow> js_norm cmp v = js_norm cmp w"
proof (induction rule: js_eqv.induct)
  case (eqv_arr xs ys)
  then have "list_all2 (\<lambda>x y. js_norm cmp x = js_norm cmp y) xs ys"
    by (auto simp: list_all2_conv_all_nth list_all_length)
  then show ?case by (simp add: list_all2_eq_map)
next
  case (eqv_obj xs ys xs' ys')
  have ok: "json_ok (JObj xs)" "json_ok (JObj ys)"
    using eqv_obj.prems json_ok_mset eqv_obj.hyps by blast+
  have st: "set xs' = set xs" "set ys' = set ys" using eqv_obj.hyps by (auto dest: mset_eq_setD)
  have ap: "keys_apart cmp (JObj xs)" "keys_apart cmp (JObj ys)"
    using eqv_obj.prems keys_apart_set [OF st(1)] keys_apart_set [OF st(2)] by simp_all
  have "list_all2 (\<lambda>x y. (fst x, js_norm cmp (snd x)) = (fst y, js_norm cmp (snd y))) xs ys"
    using eqv_obj.IH eqv_obj.prems(3) ok ap by (auto simp: list_all2_conv_all_nth list_all_length)
  then have "js_norm cmp (JObj xs) = js_norm cmp (JObj ys)"
    by (simp only: js_norm_obj list_all2_eq_map)
  moreover have "js_norm cmp (JObj xs') = js_norm cmp (JObj xs)" "js_norm cmp (JObj ys') = js_norm cmp (JObj ys)"
    using eqv_obj.prems eqv_obj.hyps by (auto intro!: js_norm_sorts simp del: js_norm.simps)
  ultimately show ?case by simp
qed simp

lemma js_eqv_norm: "js_eqv v w \<Longrightarrow> json_ok v \<Longrightarrow> json_ok w \<Longrightarrow> separates cmp \<Longrightarrow> js_norm cmp v = js_norm cmp w"
  by (rule js_eqv_norm_apart) (simp_all add: separates_apart, simp add: separates_def)

lemma norm_js_eqv: "js_norm cmp v = js_norm cmp w \<Longrightarrow> js_eqv v w"
proof (induction v arbitrary: w rule: js_norm.induct)
  case (1 cmp xs)
  obtain ys where w: "w = JArr ys" using 1(2) by (cases w) simp_all
  then have eq: "map (js_norm cmp) xs = map (js_norm cmp) ys" using 1(2) by simp
  have "list_all2 js_eqv xs ys"
  proof (rule list_all2_all_nthI)
    show len: "length xs = length ys" using map_eq_imp_length_eq [OF eq] .
    fix n assume n: "n < length xs"
    have "js_norm cmp (xs ! n) = js_norm cmp (ys ! n)"
      using arg_cong [OF eq, of "\<lambda>l. l ! n"] n len by simp
    then show "js_eqv (xs ! n) (ys ! n)" using 1(1) nth_mem [OF n] by blast
  qed
  then show ?case using w eqv_arr by simp
next
  case (2 cmp xs)
  obtain ys where w: "w = JObj ys" using 2(2) by (cases w) simp_all
  let ?xs = "js_sort (entry_cmp cmp) xs" and ?ys = "js_sort (entry_cmp cmp) ys"
  have eq: "map (\<lambda>e. (fst e, js_norm cmp (snd e))) ?xs = map (\<lambda>e. (fst e, js_norm cmp (snd e))) ?ys"
    using 2(2) w by simp
  have "list_all2 (\<lambda>a b. fst a = fst b \<and> js_eqv (snd a) (snd b)) ?xs ?ys"
  proof (rule list_all2_all_nthI)
    show len: "length ?xs = length ?ys" using map_eq_imp_length_eq [OF eq] .
    fix n assume n: "n < length ?xs"
    have "fst (?xs ! n) = fst (?ys ! n) \<and> js_norm cmp (snd (?xs ! n)) = js_norm cmp (snd (?ys ! n))"
      using arg_cong [OF eq, of "\<lambda>l. l ! n"] n len by simp
    then show "fst (?xs ! n) = fst (?ys ! n) \<and> js_eqv (snd (?xs ! n)) (snd (?ys ! n))"
      using 2(1) [of "?xs ! n"] nth_mem [OF n] by simp
  qed
  then show ?case using w by (auto intro: eqv_obj [of ?xs ?ys])
next
  case (3 cmp) then show ?case by (cases w) (auto intro: eqv_scalar simp: js_scalar_def)
next
  case (4 cmp) then show ?case by (cases w) (auto intro: eqv_scalar simp: js_scalar_def)
next
  case (5 cmp b) then show ?case by (cases w) (auto intro: eqv_scalar simp: js_scalar_def)
next
  case (6 cmp i) then show ?case by (cases w) (auto intro: eqv_scalar simp: js_scalar_def)
next
  case (7 cmp s) then show ?case by (cases w) (auto intro: eqv_scalar simp: js_scalar_def)
qed

lemma canonicalJson_iff:
  "json_ok v \<Longrightarrow> json_ok w \<Longrightarrow> canonicalJson v = canonicalJson w \<longleftrightarrow> js_eqv v w"
  by (metis canonical_text json_text_eq js_eqv_norm norm_js_eqv code_unit_cmp_separates)

lemma stable_eqv: "json_ok v \<Longrightarrow> json_ok w \<Longrightarrow> stable lc v = stable lc w \<Longrightarrow> js_eqv v w"
  by (metis stable_text json_text_eq norm_js_eqv)

lemma eqv_stable:
  "js_eqv v w \<Longrightarrow> json_ok v \<Longrightarrow> json_ok w \<Longrightarrow> cmp_total lc UNIV \<Longrightarrow> keys_apart lc v \<Longrightarrow> stable lc v = stable lc w"
  by (metis stable_text js_eqv_norm_apart keys_apart_eqv)

text \<open>Where the comparator puts two keys at the same place, their order shows.\<close>

lemma same_place_order_shows:
  assumes "same_place lc a b" "a \<noteq> b"
  shows "stable lc (JObj [(a, JNull), (b, JNull)]) \<noteq> stable lc (JObj [(b, JNull), (a, JNull)])"
  using assms json_text_eq [of "JObj [(a, JNull), (b, JNull)]" "JObj [(b, JNull), (a, JNull)]"] by (simp add: same_place_def entry_cmp_def)

text \<open>Two objects are equal up to key order when every key reads the same value in both.\<close>

lemma js_eqv_objD:
  assumes "js_eqv (JObj a) (JObj b)" "distinct (map fst a)" "distinct (map fst b)"
  shows "rel_option js_eqv (map_of a k) (map_of b k)"
proof -
  from assms(1) obtain xs ys where l: "list_all2 (\<lambda>a b. fst a = fst b \<and> js_eqv (snd a) (snd b)) xs ys"
    and m: "mset a = mset xs" "mset b = mset ys"
    by (cases rule: js_eqv.cases) (auto simp: js_scalar_def)
  have d: "distinct (map fst xs)" "distinct (map fst ys)"
    using assms(2,3) m by (metis mset_eq_imp_distinct_iff mset_map)+
  have "map_of a = map_of xs" "map_of b = map_of ys"
    using map_of_inject_set [OF assms(2) d(1)] map_of_inject_set [OF assms(3) d(2)] m
    by (auto dest: mset_eq_setD)
  moreover have "rel_option js_eqv (map_of xs k) (map_of ys k)"
    using l by (induction rule: list_all2_induct) auto
  ultimately show ?thesis by simp
qed

lemma js_eqv_obj_same_keys:
  assumes "js_eqv (JObj a) (JObj b)" "distinct (map fst a)" "map fst a = map fst b"
  shows "list_all2 js_eqv (map snd a) (map snd b)"
proof (rule list_all2_all_nthI)
  show len: "length (map snd a) = length (map snd b)" using assms(3) map_eq_imp_length_eq by fastforce
  fix n assume n: "n < length (map snd a)"
  then have k: "fst (a ! n) = fst (b ! n)" using len assms(3) by (metis length_map nth_map)
  have "map_of a (fst (a ! n)) = Some (snd (a ! n))" "map_of b (fst (a ! n)) = Some (snd (b ! n))"
    using assms(2,3) n len k by (auto simp: map_of_eq_Some_iff) (metis nth_mem prod.collapse)+
  then show "js_eqv (map snd a ! n) (map snd b ! n)"
    using js_eqv_objD [OF assms(1), of "fst (a ! n)"] assms(2,3) n len by simp
qed

lemma js_eqv_objI:
  "list_all2 js_eqv (map snd a) (map snd b) \<Longrightarrow> map fst a = map fst b \<Longrightarrow> js_eqv (JObj a) (JObj b)"
  by (rule eqv_obj [of a b]) (auto simp: list_all2_conv_all_nth dest: map_eq_imp_length_eq, metis length_map nth_map)

inductive_simps js_eqv_simps:
  "js_eqv JNull w" "js_eqv (JBool b) w" "js_eqv (JNum i) w" "js_eqv (JStr s) w" "js_eqv JUndef w"

lemma js_scalar_simps [simp]:
  "js_scalar JUndef" "js_scalar JNull" "js_scalar (JBool b)" "js_scalar (JNum i)" "js_scalar (JStr s)"
  "\<not> js_scalar (JArr xs)" "\<not> js_scalar (JObj kvs)"
  by (simp_all add: js_scalar_def)

lemma js_eqv_refl: "js_eqv v v"
  using norm_js_eqv by blast

end
