(* ===== verification/Facilitator_Types.thy ===== *)
theory Facilitator_Types
  imports JS_Json
begin

text \<open>
  The data of the facilitator (facilitator/src/types.ts and the request types of the x402
  protocol as facilitator/src/http/schema.ts parses them).  A field that may be absent is an
  option; the free-form parts of a request (\<open>resource\<close>, \<open>payload\<close>, \<open>extensions\<close>, \<open>extra\<close>) stay
  JSON values, because the code inspects them dynamically.
\<close>

section \<open>Requests\<close>

record requirements =
  scheme :: string
  network :: string
  asset :: string
  amount :: string
  payTo :: string
  maxTimeoutSeconds :: int
  extra :: js

record payment_payload =
  p_version :: int
  resource :: js
  accepted :: requirements
  payload :: js
  extensions :: js

record request_envelope =
  r_version :: int
  paymentPayload :: payment_payload
  paymentRequirements :: requirements

definition requirements_json :: "requirements \<Rightarrow> js" where
  "requirements_json r = JObj [(''scheme'', JStr (scheme r)), (''network'', JStr (network r)),
     (''asset'', JStr (asset r)), (''amount'', JStr (amount r)), (''payTo'', JStr (payTo r)),
     (''maxTimeoutSeconds'', JNum (maxTimeoutSeconds r)), (''extra'', extra r)]"

section \<open>Responses\<close>

record verify_response =
  isValid :: bool
  invalidReason :: "string option"
  v_payer :: "string option"
  invalidMessage :: "string option"

record settle_response =
  success :: bool
  transaction :: string
  s_network :: string
  errorReason :: "string option"
  s_payer :: "string option"
  s_amount :: "string option"

datatype settlement_outcome = SettleResponse settle_response | HttpConflict string

section \<open>Configuration and runtime\<close>

record fee_profile =
  maxResourceFeeStroops :: int
  maxInclusionFeeStroops :: int
  maxTotalFeeStroops :: int

record allowed_asset =
  symbol :: string
  decimals :: int
  maxPayment :: int

record network_config =
  n_id :: string
  enabled :: bool
  uptoContract :: "string option"
  allowedAssets :: "(string \<times> allowed_asset) list"
  allowedSettlementHooks :: "string list"
  c_maxTimeoutSeconds :: int
  exactFee :: fee_profile
  uptoFee :: fee_profile

record channel_signer =
  signer_address :: string
  secret :: string

record network_runtime =
  config :: network_config
  sponsor :: channel_signer
  simulationSource :: channel_signer
  unsafeInternalAddresses :: "string list"

record limits =
  maxConcurrentSimulations :: int
  maxSimulationsPerKeyPerMinute :: int
  maxSponsoredStroopsPerKeyPerDay :: int
  maxGlobalSponsoredStroopsPerDay :: int
  maxPendingSettlements :: int
  channelLeaseMs :: int
  settlePollMs :: int
  settleTimeoutMs :: int

section \<open>Payments\<close>

record parsed_payment =
  pp_scheme :: string
  pp_network :: string
  pp_payer :: string
  pp_maximum :: int
  pp_actual :: int

record verification_result =
  response :: verify_response
  parsed :: "parsed_payment option"

record prepared_settlement = parsed_payment +
  channelAddress :: string
  channelSequence :: int
  envelopeXdr :: string
  transactionHash :: string
  estimatedResourceFee :: int
  estimatedInclusionFee :: int
  estimatedTotalFee :: int

text \<open>\<open>registry.networks\<close> and \<open>registry.channels\<close>: JavaScript maps, in insertion order.\<close>

record runtime_registry =
  networks :: "(string \<times> network_runtime) list"
  channels :: "(string \<times> (string \<times> channel_signer) list) list"

end
