(* ===== verification/Idempotency.thy ===== *)
theory Idempotency
  imports Facilitator_Types
begin

text \<open>
  facilitator/src/idempotency.ts: the payment identifier of a request, the idempotency key and
  the request fingerprint, and the scopes under which they are stored.  SHA-256 (hex) is the
  parameter \<open>sha\<close>, \<open>localeCompare\<close> the parameter \<open>lc\<close>.
\<close>

section \<open>The payment identifier extension\<close>

definition id_char :: "char \<Rightarrow> bool" where
  "id_char c = (let n = (of_char c :: nat) in
     (65 \<le> n \<and> n \<le> 90) \<or> (97 \<le> n \<and> n \<le> 122) \<or> (48 \<le> n \<and> n \<le> 57) \<or> n = 95 \<or> n = 45)"

text \<open>The pattern \<open>/^[A-Za-z0-9_-]{16,128}$/\<close>.\<close>

definition id_pattern :: "string \<Rightarrow> bool" where
  "id_pattern s = (16 \<le> length s \<and> length s \<le> 128 \<and> list_all id_char s)"

definition paymentIdentifier :: "payment_payload \<Rightarrow> string option" where
  "paymentIdentifier p = (let extension = js_get (extensions p) ''payment-identifier'' in
     if \<not> js_is_record extension then None
     else let info = js_get extension ''info'' in
     if \<not> js_is_record info then None
     else case js_get info ''id'' of JStr i \<Rightarrow> if id_pattern i then Some i else None | _ \<Rightarrow> None)"

definition paymentIdentifierError :: "payment_payload \<Rightarrow> string option" where
  "paymentIdentifierError p = (let extension = js_get (extensions p) ''payment-identifier'' in
     if extension = JUndef then None
     else if \<not> js_is_record extension then Some ''invalid_payment_identifier_extension''
     else let info = js_get extension ''info'' in
     if \<not> js_is_record info then Some ''invalid_payment_identifier_extension''
     else case js_get info ''required'' of
       JBool required \<Rightarrow>
         if js_get info ''id'' = JUndef then (if required then Some ''payment_identifier_required'' else None)
         else (case js_get info ''id'' of
             JStr i \<Rightarrow> if id_pattern i then None else Some ''invalid_payment_identifier''
           | _ \<Rightarrow> Some ''invalid_payment_identifier'')
     | _ \<Rightarrow> Some ''invalid_payment_identifier_extension'')"

section \<open>Key, fingerprint and scopes\<close>

definition transaction_text :: "payment_payload \<Rightarrow> string" where
  "transaction_text p = (case js_get (payload p) ''transaction'' of JStr t \<Rightarrow> t | _ \<Rightarrow> [])"

definition nullish_to_null :: "js \<Rightarrow> js" where
  "nullish_to_null v = (if v = JUndef then JNull else v)"

definition fingerprint_json :: "(string \<Rightarrow> string) \<Rightarrow> payment_payload \<Rightarrow> js" where
  "fingerprint_json sha p = JObj
     [(''x402Version'', JNum (p_version p)), (''resource'', nullish_to_null (resource p)),
      (''accepted'', requirements_json (accepted p)), (''transactionHash'', JStr (sha (transaction_text p)))]"

definition idempotencyData ::
    "(string \<Rightarrow> string) \<Rightarrow> (string \<Rightarrow> string \<Rightarrow> int) \<Rightarrow> request_envelope \<Rightarrow> string \<times> string" where
  "idempotencyData sha lc req = (let p = paymentPayload req; t = transaction_text p in
     (case paymentIdentifier p of Some i \<Rightarrow> i | None \<Rightarrow> ''xdr_'' @ sha t,
      sha (stable lc (fingerprint_json sha p))))"

definition principalScope :: "(string \<Rightarrow> string) \<Rightarrow> string \<Rightarrow> string \<Rightarrow> string \<Rightarrow> string" where
  "principalScope sha nw sp who = nw @ '':'' @ sp @ '':'' @ sha who"

definition paymentScope :: "string \<Rightarrow> string \<Rightarrow> string \<Rightarrow> string" where
  "paymentScope nw sp pay = nw @ '':'' @ sp @ '':'' @ pay"

definition settlementIdForPaymentIdentifier :: "(string \<Rightarrow> string) \<Rightarrow> string \<Rightarrow> string" where
  "settlementIdForPaymentIdentifier sha_bytes i = sha_bytes (''x402:payment-identifier:v1'' @ [CHR 0x00] @ i)"

section \<open>The identifier is used exactly when it is accepted\<close>

lemma paymentIdentifier_pattern: "paymentIdentifier p = Some i \<Longrightarrow> id_pattern i"
  by (auto simp: paymentIdentifier_def Let_def split: if_splits js.splits)

lemma paymentIdentifier_no_error:
  assumes "paymentIdentifierError p = None"
  shows "paymentIdentifier p = None \<longleftrightarrow>
    js_get (js_get (js_get (extensions p) ''payment-identifier'') ''info'') ''id'' = JUndef"
  using assms
  by (auto simp: paymentIdentifier_def paymentIdentifierError_def Let_def split: if_splits js.splits)

section \<open>What the fingerprint determines\<close>

text \<open>The parts of a request that its fingerprint covers.\<close>

definition same_terms :: "requirements \<Rightarrow> requirements \<Rightarrow> bool" where
  "same_terms a b = (scheme a = scheme b \<and> network a = network b \<and> asset a = asset b
     \<and> amount a = amount b \<and> payTo a = payTo b \<and> maxTimeoutSeconds a = maxTimeoutSeconds b
     \<and> js_eqv (extra a) (extra b))"

definition same_payment :: "payment_payload \<Rightarrow> payment_payload \<Rightarrow> bool" where
  "same_payment p q = (p_version p = p_version q
     \<and> js_eqv (nullish_to_null (resource p)) (nullish_to_null (resource q))
     \<and> same_terms (accepted p) (accepted q)
     \<and> transaction_text p = transaction_text q)"

definition payload_ok :: "payment_payload \<Rightarrow> bool" where
  "payload_ok p = ((resource p = JUndef \<or> json_ok (resource p)) \<and> json_ok (extra (accepted p)))"

lemma fingerprint_json_ok: "payload_ok p \<Longrightarrow> json_ok (fingerprint_json sha p)"
  by (auto simp: payload_ok_def fingerprint_json_def requirements_json_def nullish_to_null_def)

lemma requirements_eqv: "js_eqv (requirements_json a) (requirements_json b) \<longleftrightarrow> same_terms a b"
proof
  assume "js_eqv (requirements_json a) (requirements_json b)"
  from js_eqv_obj_same_keys [OF this [unfolded requirements_json_def]]
  show "same_terms a b" by (simp add: js_eqv_simps same_terms_def)
qed (auto simp: requirements_json_def js_eqv_simps same_terms_def intro!: js_eqv_objI)

lemma fingerprint_eqv:
  "js_eqv (fingerprint_json sha p) (fingerprint_json sha q) \<longleftrightarrow>
     p_version p = p_version q \<and> js_eqv (nullish_to_null (resource p)) (nullish_to_null (resource q))
     \<and> js_eqv (requirements_json (accepted p)) (requirements_json (accepted q))
     \<and> sha (transaction_text p) = sha (transaction_text q)"
proof
  assume "js_eqv (fingerprint_json sha p) (fingerprint_json sha q)"
  from js_eqv_obj_same_keys [OF this [unfolded fingerprint_json_def]]
  show "p_version p = p_version q \<and> js_eqv (nullish_to_null (resource p)) (nullish_to_null (resource q))
     \<and> js_eqv (requirements_json (accepted p)) (requirements_json (accepted q))
     \<and> sha (transaction_text p) = sha (transaction_text q)"
    by (simp add: js_eqv_simps)
qed (auto simp: fingerprint_json_def js_eqv_simps intro!: js_eqv_objI)

text \<open>
  The strings on which the hash must not collide for two requests: their transactions and the
  canonical texts of their fingerprints.
\<close>

definition hashed_texts :: "(string \<Rightarrow> string) \<Rightarrow> (string \<Rightarrow> string \<Rightarrow> int) \<Rightarrow> payment_payload \<Rightarrow> string set" where
  "hashed_texts sha lc p = {transaction_text p, stable lc (fingerprint_json sha p)}"

lemma fingerprint_same:
  assumes "payload_ok p" "payload_ok q" "inj_on sha (hashed_texts sha lc p \<union> hashed_texts sha lc q)"
  shows "sha (stable lc (fingerprint_json sha p)) = sha (stable lc (fingerprint_json sha q)) \<Longrightarrow> same_payment p q"
    and "same_payment p q \<Longrightarrow> cmp_total lc UNIV \<Longrightarrow> keys_apart lc (fingerprint_json sha p)
      \<Longrightarrow> sha (stable lc (fingerprint_json sha p)) = sha (stable lc (fingerprint_json sha q))"
proof -
  have h: "sha (stable lc (fingerprint_json sha p)) = sha (stable lc (fingerprint_json sha q)) \<longleftrightarrow>
      stable lc (fingerprint_json sha p) = stable lc (fingerprint_json sha q)"
    by (rule inj_on_eq_iff [OF assms(3)]) (simp_all add: hashed_texts_def)
  have "sha (transaction_text p) = sha (transaction_text q) \<longleftrightarrow> transaction_text p = transaction_text q"
    by (rule inj_on_eq_iff [OF assms(3)]) (simp_all add: hashed_texts_def)
  then have e: "js_eqv (fingerprint_json sha p) (fingerprint_json sha q) \<longleftrightarrow> same_payment p q"
    by (simp add: fingerprint_eqv requirements_eqv same_payment_def)
  note ok = fingerprint_json_ok [OF assms(1), of sha] fingerprint_json_ok [OF assms(2), of sha]
  show "sha (stable lc (fingerprint_json sha p)) = sha (stable lc (fingerprint_json sha q)) \<Longrightarrow> same_payment p q"
    using stable_eqv [OF ok] h e by blast
  show "same_payment p q \<Longrightarrow> cmp_total lc UNIV \<Longrightarrow> keys_apart lc (fingerprint_json sha p)
      \<Longrightarrow> sha (stable lc (fingerprint_json sha p)) = sha (stable lc (fingerprint_json sha q))"
    using eqv_stable [OF _ ok] h e by blast
qed

section \<open>Scopes keep networks, sponsors and payees apart\<close>

definition no_colon :: "string \<Rightarrow> bool" where
  "no_colon s = (CHR '':'' \<notin> set s)"

lemma append_colon_inj:
  "no_colon b \<Longrightarrow> no_colon b' \<Longrightarrow> a @ CHR '':'' # b = a' @ CHR '':'' # b' \<Longrightarrow> a = a' \<and> b = b'"
proof -
  assume n: "no_colon b" "no_colon b'" and e: "a @ CHR '':'' # b = a' @ CHR '':'' # b'"
  have t: "takeWhile (\<lambda>c. c \<noteq> CHR '':'') (rev (x @ CHR '':'' # y)) = rev y" if "no_colon y" for x y
    using that by (auto simp: no_colon_def takeWhile_append)
  have "rev b = rev b'" using t [OF n(1), of a] t [OF n(2), of a'] e by simp
  then show ?thesis using e by simp
qed

lemma paymentScope_inj:
  assumes "no_colon sp" "no_colon sp'" "no_colon pay" "no_colon pay'"
    and "paymentScope nw sp pay = paymentScope nw' sp' pay'"
  shows "nw = nw' \<and> sp = sp' \<and> pay = pay'"
proof -
  have "nw @ '':'' @ sp = nw' @ '':'' @ sp' \<and> pay = pay'"
    using append_colon_inj [of pay pay' "nw @ '':'' @ sp" "nw' @ '':'' @ sp'"] assms
    by (simp add: paymentScope_def)
  then show ?thesis using append_colon_inj [of sp sp' nw nw'] assms by simp
qed

end
