(* ===== verification/Idempotency_Properties.thy ===== *)
theory Idempotency_Properties
  imports Idempotency
begin

text \<open>The properties of the request identity (facilitator/src/idempotency.ts).\<close>

section \<open>A concrete request\<close>

definition demo_terms :: "js \<Rightarrow> requirements" where
  "demo_terms e = \<lparr> scheme = ''exact'', network = ''stellar:testnet'', asset = ''CASSET'', amount = ''7'',
     payTo = ''GPAY'', maxTimeoutSeconds = 60, extra = e \<rparr>"

definition demo_payload :: "js \<Rightarrow> js \<Rightarrow> payment_payload" where
  "demo_payload e x = \<lparr> p_version = 2, resource = JUndef, accepted = demo_terms e,
     payload = JObj [(''transaction'', JStr ''AAAA'')], extensions = x \<rparr>"

definition demo_hash :: "string \<Rightarrow> string" where
  "demo_hash s = s"

section \<open>Properties\<close>

text \<open>C6: The fingerprint of a request identifies the payment.  When the hash does not collide on the texts hashed for
  two requests, requests with equal fingerprints agree on the protocol version, the resource, the accepted
  requirements and the transaction, up to the order of object keys.  Conversely requests that agree so have equal
  fingerprints if \<open>localeCompare\<close> is a consistent comparator and tells the keys of each object of the request apart.
  It answers 0 for canonically equivalent strings, and between two such keys the order shows
  (\<open>same_place_order_shows\<close>).\<close>

theorem fingerprint_identifies_payment:
  assumes "payload_ok (paymentPayload a)" and "payload_ok (paymentPayload b)"
    and "inj_on sha (hashed_texts sha lc (paymentPayload a) \<union> hashed_texts sha lc (paymentPayload b))"
  shows "(snd (idempotencyData sha lc a) = snd (idempotencyData sha lc b) \<longrightarrow> same_payment (paymentPayload a) (paymentPayload b))
    \<and> (same_payment (paymentPayload a) (paymentPayload b) \<and> cmp_total lc UNIV \<and> keys_apart lc (fingerprint_json sha (paymentPayload a))
      \<longrightarrow> snd (idempotencyData sha lc a) = snd (idempotencyData sha lc b))"
  using fingerprint_same [OF assms] by (simp add: idempotencyData_def Let_def)

definition demo_request :: "js \<Rightarrow> request_envelope" where
  "demo_request e = \<lparr> r_version = 2, paymentPayload = demo_payload e JUndef, paymentRequirements = demo_terms e \<rparr>"

text \<open>A collation that puts the two spellings of an accented e at the same place.\<close>

definition demo_spelling :: "string \<Rightarrow> string" where
  "demo_spelling s = (if s = [CHR ''e'', CHR 0xCC, CHR 0x81] then [CHR 0xC3, CHR 0xA9] else s)"

definition demo_collation :: "string \<Rightarrow> string \<Rightarrow> int" where
  "demo_collation a b = code_unit_cmp (demo_spelling a) (demo_spelling b)"

theorem fingerprint_identifies_payment_witness:
  "snd (idempotencyData demo_hash demo_collation (demo_request (JObj [(''a'', JNum 1), (''b'', JNull)])))
     = snd (idempotencyData demo_hash demo_collation (demo_request (JObj [(''b'', JNull), (''a'', JNum 1)])))
   \<and> same_place demo_collation [CHR ''e'', CHR 0xCC, CHR 0x81] [CHR 0xC3, CHR 0xA9]"
proof -
  let ?a = "demo_request (JObj [(''a'', JNum 1), (''b'', JNull)])" and ?b = "demo_request (JObj [(''b'', JNull), (''a'', JNum 1)])"
  have i: "inj_on demo_hash A" for A by (simp add: inj_on_def demo_hash_def)
  have ok: "payload_ok (paymentPayload ?a)" "payload_ok (paymentPayload ?b)" by code_simp+
  have tot: "cmp_total demo_collation UNIV" by (auto simp: cmp_total_def demo_collation_def code_unit_cmp_def)
  have ap: "keys_apart demo_collation (fingerprint_json demo_hash (paymentPayload ?a))" by code_simp
  have "js_eqv (JObj [(''a'', JNum 1), (''b'', JNull)]) (JObj [(''b'', JNull), (''a'', JNum 1)])"
    by (rule eqv_obj [of "[(''a'', JNum 1), (''b'', JNull)]" "[(''a'', JNum 1), (''b'', JNull)]"]) (simp_all add: js_eqv_refl)
  then have s: "same_payment (paymentPayload ?a) (paymentPayload ?b)"
    by (simp add: same_payment_def demo_request_def demo_payload_def demo_terms_def same_terms_def js_eqv_refl transaction_text_def)
  show ?thesis using fingerprint_identifies_payment [OF ok i] s tot ap by (simp add: same_place_def demo_collation_def demo_spelling_def code_unit_cmp_def)
qed

text \<open>The payment identifier extension is honoured or refused, never ignored.  A request that passes
  the identifier check uses its identifier as the idempotency key whenever it carries one, and then
  the identifier has 16 to 128 characters of the allowed alphabet; otherwise the key is derived from
  the transaction.\<close>

theorem identifier_key:
  assumes "paymentIdentifierError (paymentPayload a) = None"
  defines "carried \<equiv> js_get (js_get (js_get (extensions (paymentPayload a)) ''payment-identifier'') ''info'') ''id''"
  shows "(carried = JUndef \<longrightarrow> fst (idempotencyData sha lc a) = ''xdr_'' @ sha (transaction_text (paymentPayload a)))
    \<and> (carried \<noteq> JUndef \<longrightarrow> (\<exists>i. carried = JStr i \<and> id_pattern i \<and> fst (idempotencyData sha lc a) = i
         \<and> paymentIdentifier (paymentPayload a) = Some i))"
  using assms
  by (auto simp: idempotencyData_def paymentIdentifier_def paymentIdentifierError_def Let_def
      split: if_splits js.splits)

definition demo_extension :: js where
  "demo_extension = JObj [(''payment-identifier'', JObj [(''info'', JObj [(''required'', JBool True),
     (''id'', JStr ''order_0123456789'')])])]"

theorem identifier_key_witness:
  "fst (idempotencyData demo_hash code_unit_cmp
     \<lparr> r_version = 2, paymentPayload = demo_payload JNull demo_extension, paymentRequirements = demo_terms JNull \<rparr>)
     = ''order_0123456789''"
proof -
  let ?a = "\<lparr> r_version = 2, paymentPayload = demo_payload JNull demo_extension, paymentRequirements = demo_terms JNull \<rparr>"
  have e: "paymentIdentifierError (paymentPayload ?a) = None" by code_simp
  show ?thesis using identifier_key [OF e, of demo_hash code_unit_cmp]
    by (simp add: demo_payload_def demo_extension_def)
qed

text \<open>Payment scopes separate networks, sponsors and payees: two payments share a scope only when they
  agree on all three, for addresses without a colon (Stellar addresses have none).\<close>

theorem payment_scopes_separate:
  assumes "no_colon sp" and "no_colon sp'" and "no_colon pay" and "no_colon pay'"
  shows "paymentScope nw sp pay = paymentScope nw' sp' pay' \<longleftrightarrow> nw = nw' \<and> sp = sp' \<and> pay = pay'"
  using paymentScope_inj [OF assms] by auto

theorem payment_scopes_separate_witness:
  "paymentScope ''stellar:testnet'' ''GA'' ''GB'' \<noteq> paymentScope ''stellar:pubnet'' ''GA'' ''GB''"
proof -
  have "no_colon ''GA''" "no_colon ''GB''" by code_simp+
  then show ?thesis
    using payment_scopes_separate [of "''GA''" "''GA''" "''GB''" "''GB''" "''stellar:testnet''" "''stellar:pubnet''"] by simp
qed

end
