(* ===== verification/JS_Base64.thy ===== *)
theory JS_Base64
  imports JS_Prelude
begin

text \<open>
  \<open>Buffer.toString("base64")\<close> and \<open>"base64url"\<close>: the alphabets, the encoders, a decoder of their
  output and the round trips, from which the encodings are injective.
\<close>

definition b64_alphabet :: string where
  "b64_alphabet = ''ABCDEFGHIJKLMNOPQRSTUVWXYZabcdefghijklmnopqrstuvwxyz0123456789+/''"

definition b64url_alphabet :: string where
  "b64url_alphabet = ''ABCDEFGHIJKLMNOPQRSTUVWXYZabcdefghijklmnopqrstuvwxyz0123456789-_''"

definition byte :: "char \<Rightarrow> nat" where
  "byte c = of_char c"

text \<open>The 6-bit groups of a byte string; \<open>pad\<close> is the padding text of each missing group.\<close>

fun b64_encode :: "string \<Rightarrow> string \<Rightarrow> string \<Rightarrow> string" where
  "b64_encode alpha pad [] = []"
| "b64_encode alpha pad [a] = [alpha ! (byte a div 4), alpha ! ((byte a mod 4) * 16)] @ pad @ pad"
| "b64_encode alpha pad [a, b] = [alpha ! (byte a div 4), alpha ! ((byte a mod 4) * 16 + byte b div 16),
     alpha ! ((byte b mod 16) * 4)] @ pad"
| "b64_encode alpha pad (a # b # c # r) = [alpha ! (byte a div 4), alpha ! ((byte a mod 4) * 16 + byte b div 16),
     alpha ! ((byte b mod 16) * 4 + byte c div 64), alpha ! (byte c mod 64)] @ b64_encode alpha pad r"

definition base64 :: "string \<Rightarrow> string" where
  "base64 s = b64_encode b64_alphabet ''='' s"

definition base64url :: "string \<Rightarrow> string" where
  "base64url s = b64_encode b64url_alphabet [] s"

text \<open>Reading back: the position of a digit, and the bytes of the groups.\<close>

definition b64_pos :: "string \<Rightarrow> char \<Rightarrow> nat" where
  "b64_pos alpha c = length (takeWhile (\<lambda>d. d \<noteq> c) alpha)"

definition chr :: "nat \<Rightarrow> char" where
  "chr n = char_of n"

fun b64_groups :: "nat list \<Rightarrow> string" where
  "b64_groups [] = []"
| "b64_groups [a] = []"
| "b64_groups [a, b] = [chr (a * 4 + b div 16)]"
| "b64_groups [a, b, c] = [chr (a * 4 + b div 16), chr ((b mod 16) * 16 + c div 4)]"
| "b64_groups (a # b # c # d # r) = chr (a * 4 + b div 16) # chr ((b mod 16) * 16 + c div 4)
     # chr ((c mod 4) * 64 + d) # b64_groups r"

definition b64_decode :: "string \<Rightarrow> string \<Rightarrow> string" where
  "b64_decode alpha s = b64_groups (map (b64_pos alpha) (filter (\<lambda>c. c \<in> set alpha) s))"

text \<open>\<open>Buffer.from(text, "base64url")\<close>: both alphabets are read, other characters are skipped.\<close>

definition from_base64url :: "string \<Rightarrow> string" where
  "from_base64url s = b64_decode b64url_alphabet
     (map (\<lambda>c. if c = CHR ''+'' then CHR ''-'' else if c = CHR ''/'' then CHR ''_'' else c) s)"

section \<open>Round trips\<close>

lemma byte_less [simp]: "byte c < 256"
  using nat_of_char_less_256 [of c] by (simp add: byte_def)

lemma byte_div [simp]: "byte c div 4 < 64" "byte c div 16 < 16" "byte c div 64 < 4"
  by (rule less_mult_imp_div_less, simp)+

lemma chr_byte [simp]: "chr (byte c) = c"
  by (simp add: chr_def byte_def)

definition good_alphabet :: "string \<Rightarrow> bool" where
  "good_alphabet alpha = (length alpha = 64 \<and> distinct alpha \<and> CHR ''='' \<notin> set alpha)"

lemma good_alphabets: "good_alphabet b64_alphabet" "good_alphabet b64url_alphabet"
  by code_simp+

lemma b64_pos_nth:
  assumes "good_alphabet alpha" "n < 64" shows "b64_pos alpha (alpha ! n) = n"
proof -
  have "takeWhile (\<lambda>d. d \<noteq> alpha ! n) alpha = take n alpha"
    using assms by (intro takeWhile_eq_take_P_nth) (auto simp: good_alphabet_def nth_eq_iff_index_eq)
  then show ?thesis using assms by (simp add: b64_pos_def good_alphabet_def)
qed

lemma alphabet_nth: "good_alphabet alpha \<Longrightarrow> n < 64 \<Longrightarrow> alpha ! n \<in> set alpha"
  by (simp add: good_alphabet_def)

text \<open>The 6-bit values that the encoder emits.\<close>

fun sextets :: "string \<Rightarrow> nat list" where
  "sextets [] = []"
| "sextets [a] = [byte a div 4, (byte a mod 4) * 16]"
| "sextets [a, b] = [byte a div 4, (byte a mod 4) * 16 + byte b div 16, (byte b mod 16) * 4]"
| "sextets (a # b # c # r) = [byte a div 4, (byte a mod 4) * 16 + byte b div 16,
     (byte b mod 16) * 4 + byte c div 64, byte c mod 64] @ sextets r"

lemma sextet_bounds:
  "(byte a mod 4) * 16 + byte b div 16 < 64" "(byte b mod 16) * 4 + byte c div 64 < 64"
  "(byte a mod 4) * 16 < 64" "(byte b mod 16) * 4 < 64"
  using byte_div [of b] byte_div [of c] mod_less_divisor [of 4 "byte a"] mod_less_divisor [of 16 "byte b"] by linarith+

lemma sextets_less: "n \<in> set (sextets s) \<Longrightarrow> n < 64"
  by (induction s rule: sextets.induct) (auto simp: sextet_bounds)

lemma encode_sextets:
  "good_alphabet alpha \<Longrightarrow> set pad \<inter> set alpha = {} \<Longrightarrow>
    filter (\<lambda>c. c \<in> set alpha) (b64_encode alpha pad s) = map (\<lambda>n. alpha ! n) (sextets s)"
proof (induction s rule: sextets.induct)
  case (2 a)
  then have "filter (\<lambda>c. c \<in> set alpha) pad = []" by (auto simp: filter_empty_conv)
  then show ?case using 2 by (simp add: alphabet_nth sextet_bounds)
next
  case (3 a b)
  then have "filter (\<lambda>c. c \<in> set alpha) pad = []" by (auto simp: filter_empty_conv)
  then show ?case using 3 by (simp add: alphabet_nth sextet_bounds)
qed (simp_all add: alphabet_nth sextet_bounds)

lemma join_bytes:
  "(byte a div 4) * 4 + ((byte a mod 4) * 16 + byte b div 16) div 16 = byte a"
  "(((byte a mod 4) * 16 + byte b div 16) mod 16) * 16 + ((byte b mod 16) * 4 + byte c div 64) div 4 = byte b"
  "(((byte b mod 16) * 4 + byte c div 64) mod 4) * 64 + byte c mod 64 = byte c"
  "(byte a div 4) * 4 + ((byte a mod 4) * 16) div 16 = byte a"
  "(((byte a mod 4) * 16 + byte b div 16) mod 16) * 16 + ((byte b mod 16) * 4) div 4 = byte b"
  using byte_div [of b] byte_div [of c] by (simp_all add: div_add_self2 mod_add_eq)

lemma groups_sextets: "b64_groups (sextets s) = s"
  by (induction s rule: sextets.induct) (simp_all add: join_bytes)

lemma decode_encode:
  assumes "good_alphabet alpha" "set pad \<inter> set alpha = {}"
  shows "b64_decode alpha (b64_encode alpha pad s) = s"
proof -
  have "map (b64_pos alpha \<circ> (\<lambda>n. alpha ! n)) (sextets s) = sextets s"
    using sextets_less b64_pos_nth [OF assms(1)] by (intro map_idI) auto
  then show ?thesis by (simp add: b64_decode_def encode_sextets [OF assms] groups_sextets)
qed

lemma base64_roundtrip: "b64_decode b64_alphabet (base64 s) = s"
  using good_alphabets by (auto simp: base64_def good_alphabet_def intro!: decode_encode)

lemma base64url_roundtrip: "b64_decode b64url_alphabet (base64url s) = s"
  using good_alphabets by (auto simp: base64url_def intro!: decode_encode)

lemma base64_inj: "base64 s = base64 t \<longleftrightarrow> s = t"
  by (metis base64_roundtrip)

lemma base64url_inj: "base64url s = base64url t \<longleftrightarrow> s = t"
  by (metis base64url_roundtrip)

lemma encode_alphabet: "good_alphabet alpha \<Longrightarrow> set (b64_encode alpha [] s) \<subseteq> set alpha"
  by (induction alpha "[] :: string" s rule: b64_encode.induct) (auto simp: alphabet_nth sextet_bounds)

lemma from_base64url_inverse: "from_base64url (base64url s) = s"
proof -
  have "CHR ''+'' \<notin> set b64url_alphabet" "CHR ''/'' \<notin> set b64url_alphabet" by code_simp+
  then have "map (\<lambda>c. if c = CHR ''+'' then CHR ''-'' else if c = CHR ''/'' then CHR ''_'' else c) (base64url s) = base64url s"
    using encode_alphabet [OF good_alphabets(2), of s] by (intro map_idI) (auto simp: base64url_def)
  then show ?thesis by (simp add: from_base64url_def base64url_roundtrip)
qed

lemma base64url_nonempty: "base64url s = [] \<longleftrightarrow> s = []"
  using base64url_inj [of s "[]"] by (simp add: base64url_def)

end
