(* ===== verification/Stellar_Common.thy ===== *)
theory Stellar_Common
  imports Idempotency JS_Base64
begin

text \<open>
  facilitator/src/stellar/common.ts: the checks both payment schemes share.  The Stellar SDK and
  the RPC server are not under src/: what the code reads of a parsed transaction is a record, and
  what it calls is the record \<open>stellar\<close> of functions (an SDK call either throws a message or
  returns; an RPC call also changes the world \<open>'w\<close>;
  \<open>get_latest_ledger\<close> answers the sequence and the close time).  \<open>'v\<close> is the type of contract values.
\<close>

section \<open>The parsed transaction\<close>

datatype 'v contract_function = ContractFn (fn_contract: string) (fn_name: string) (fn_args: "'v list") | OtherFn

datatype 'v auth_tree = AuthTree (tree_function: "'v contract_function") (subInvocations: "'v auth_tree list")

text \<open>What \<open>inspectAuthEntry\<close> reports of an authorization entry, and its root invocation.\<close>

record 'v auth_entry =
  credentialType :: string
  ae_address :: "string option"
  ae_signed :: bool
  signers :: "bool list"
  signatureExpirationLedger :: "int option"
  rootInvocation :: "'v auth_tree"

record 'v operation =
  op_type :: string
  op_source :: "string option"
  op_func :: "'v contract_function"
  op_auth :: "'v auth_entry list option"

record 'v client_tx =
  tx_source :: string
  operations :: "'v operation list"

datatype 'v parsed_tx = FeeBump "'v client_tx" | Tx "'v client_tx"

text \<open>A transaction built by the facilitator, and the operation it carries.\<close>

record 'v built_operation =
  bo_func :: "'v contract_function"
  bo_auth :: "'v auth_entry list"

record 'v built_tx =
  bt_source :: string
  bt_sequence :: int
  bt_operation :: "'v built_operation"
  bt_timeout :: int

section \<open>Events and simulations\<close>

text \<open>A diagnostic event whose decoding throws, or its readable parts.\<close>

datatype 'v diagnostic_event = BadEvent
  | Event (event_type: string) (event_contract: "string option") (event_topics: "'v list") (event_data: 'v)

record 'v simulation =
  minResourceFee :: int
  events :: "'v diagnostic_event list"
  sim_auth :: "'v auth_entry list option"

datatype 'v sim_response = SimFailure "string option" | SimRestore "'v simulation" | SimSuccess "'v simulation"

datatype sim_mode = Record | Enforce

record finalized =
  f_xdr :: string
  f_hash :: string
  f_sequence :: int

section \<open>The SDK and the RPC server\<close>

record ('w, 'v) stellar =
  public_passphrase :: string
  testnet_passphrase :: string
  base_fee :: int
  from_xdr :: "string \<Rightarrow> string \<Rightarrow> string + 'v parsed_tx"
  sc_string :: "'v \<Rightarrow> string + string"
  sc_bigint :: "'v \<Rightarrow> string + int"
  sc_number :: "'v \<Rightarrow> string + int option"
  sc_bytes :: "'v \<Rightarrow> string + string"
  sc_text :: "'v \<Rightarrow> string + string option"
  sc_symbol :: "'v \<Rightarrow> string option"
  sc_xdr :: "'v \<Rightarrow> string"
  mk_address :: "string \<Rightarrow> string + 'v"
  mk_i128 :: "int \<Rightarrow> string + 'v"
  mk_u32 :: "int option \<Rightarrow> string + 'v"
  mk_bytes :: "string \<Rightarrow> string + 'v"
  mk_void :: 'v
  tree_xdr :: "'v auth_tree \<Rightarrow> string"
  authorize_entry :: "'v auth_entry \<Rightarrow> string \<Rightarrow> int option \<Rightarrow> string \<Rightarrow> string + 'v auth_entry"
  finalize_tx :: "'v built_tx \<Rightarrow> 'v simulation \<Rightarrow> channel_signer \<Rightarrow> channel_signer \<Rightarrow> string \<Rightarrow> string + finalized"
  get_latest_ledger :: "('w, int \<times> int) io"
  get_account :: "string \<Rightarrow> ('w, int) io"
  simulate_transaction :: "'v built_tx \<Rightarrow> sim_mode \<Rightarrow> ('w, 'v sim_response) io"
  protocol_verify :: "request_envelope \<Rightarrow> network_runtime \<Rightarrow> ('w, verify_response) io"
  sha256_bytes :: "string \<Rightarrow> string"

definition sdk :: "string + 'a \<Rightarrow> ('w, 'a) io" where
  "sdk x = (case x of Inl m \<Rightarrow> io_throw (JsError m) | Inr a \<Rightarrow> io_return a)"

lemma sdk_Inr [simp]: "sdk x w = (Inr a, w') \<longleftrightarrow> x = Inr a \<and> w' = w"
  by (auto simp: sdk_def split: sum.splits)

section \<open>Envelope checks\<close>

definition I128_MAX :: int where
  "I128_MAX = 2 ^ 127 - 1"

definition I128_MIN :: int where
  "I128_MIN = - (2 ^ 127)"

definition networkPassphrase :: "('w, 'v) stellar \<Rightarrow> string \<Rightarrow> string" where
  "networkPassphrase S nw = (if nw = ''stellar:pubnet'' then public_passphrase S else testnet_passphrase S)"

definition invalid :: "string \<Rightarrow> string option \<Rightarrow> string option \<Rightarrow> verify_response" where
  "invalid reason p message = \<lparr> isValid = False, invalidReason = Some reason,
     v_payer = (if truthy_str p then p else None), invalidMessage = (if truthy_str message then message else None) \<rparr>"

definition parseInteger :: "string \<Rightarrow> int option" where
  "parseInteger v = (if \<not> int_pattern v then None
     else let parsed = big_int v in if parsed \<ge> I128_MIN \<and> parsed \<le> I128_MAX then Some parsed else None)"

datatype phase = VerifyPhase | SettlePhase

definition fees_sponsored :: "requirements \<Rightarrow> bool" where
  "fees_sponsored r = (js_get (extra r) ''areFeesSponsored'' = JBool True)"

definition validateEnvelope :: "request_envelope \<Rightarrow> network_runtime \<Rightarrow> string \<Rightarrow> phase \<Rightarrow> verify_response option" where
  "validateEnvelope request runtime sch ph =
     (let p = paymentPayload request; req = paymentRequirements request; acc = accepted p; cfg = config runtime in
      if r_version request \<noteq> 2 \<or> p_version p \<noteq> 2 then Some (invalid ''invalid_x402_version'' None None)
      else if scheme acc \<noteq> sch \<or> scheme req \<noteq> sch then Some (invalid ''unsupported_scheme'' None None)
      else if network acc \<noteq> n_id cfg \<or> network req \<noteq> n_id cfg then Some (invalid ''network_mismatch'' None None)
      else if asset acc \<noteq> asset req \<or> payTo acc \<noteq> payTo req then Some (invalid ''requirements_mismatch'' None None)
      else if maxTimeoutSeconds acc \<noteq> maxTimeoutSeconds req then Some (invalid ''requirements_mismatch'' None None)
      else if (sch = ''exact'' \<or> ph = VerifyPhase) \<and> amount acc \<noteq> amount req
        then Some (invalid ''requirements_mismatch'' None None)
      else if maxTimeoutSeconds req \<le> 0 \<or> maxTimeoutSeconds req > c_maxTimeoutSeconds cfg
        then Some (invalid ''invalid_stellar_timeout_exceeds_maximum'' None None)
      else case map_of (allowedAssets cfg) (asset req) of
          None \<Rightarrow> Some (invalid ''invalid_stellar_asset_not_allowed'' None None)
        | Some a \<Rightarrow> (case parseInteger (amount acc) of
            None \<Rightarrow> Some (invalid ''invalid_stellar_amount_exceeds_maximum'' None None)
          | Some advertisedMaximum \<Rightarrow>
              if advertisedMaximum \<le> 0 \<or> advertisedMaximum > maxPayment a
              then Some (invalid ''invalid_stellar_amount_exceeds_maximum'' None None)
              else if \<not> fees_sponsored acc \<or> \<not> fees_sponsored req
              then Some (invalid ''invalid_stellar_fee_sponsorship_required'' None None)
              else None))"

definition parseClientTransaction ::
    "('w, 'v) stellar \<Rightarrow> payment_payload \<Rightarrow> string \<Rightarrow> verify_response + 'v client_tx" where
  "parseClientTransaction S p passphrase = (case js_get (payload p) ''transaction'' of
      JStr t \<Rightarrow> (case from_xdr S t passphrase of
          Inl _ \<Rightarrow> Inl (invalid ''invalid_stellar_payload_malformed'' None None)
        | Inr (FeeBump _) \<Rightarrow> Inl (invalid ''invalid_stellar_payload_fee_bump_not_allowed'' None None)
        | Inr (Tx tx) \<Rightarrow> Inr tx)
    | _ \<Rightarrow> Inl (invalid ''invalid_stellar_payload_malformed'' None None))"

definition transactionOperation :: "'v client_tx \<Rightarrow> string list \<Rightarrow> verify_response + 'v operation" where
  "transactionOperation tx internal = (case operations tx of
      [operation] \<Rightarrow>
        if op_type operation \<noteq> ''invokeHostFunction'' then Inl (invalid ''invalid_stellar_payload_wrong_operation'' None None)
        else if truthy_str (op_source operation) \<or> tx_source tx \<in> set internal
        then Inl (invalid ''invalid_stellar_payload_unsafe_source'' None None)
        else Inr operation
    | _ \<Rightarrow> Inl (invalid ''invalid_stellar_payload_wrong_operation_count'' None None))"

section \<open>Invocations and authorizations\<close>

record 'v contract_invocation =
  contract :: string
  functionName :: string
  args :: "'v list"

definition invocation_of :: "'v contract_function \<Rightarrow> 'v contract_invocation option" where
  "invocation_of f = (case f of ContractFn c n as \<Rightarrow> Some \<lparr> contract = c, functionName = n, args = as \<rparr> | OtherFn \<Rightarrow> None)"

definition operationInvocation :: "'v operation \<Rightarrow> 'v contract_invocation option" where
  "operationInvocation operation =
     (if op_type operation \<noteq> ''invokeHostFunction'' then None else invocation_of (op_func operation))"

definition authInvocation :: "'v auth_tree \<Rightarrow> 'v contract_invocation option" where
  "authInvocation t = invocation_of (tree_function t)"

definition addressOfAuth :: "'v auth_entry \<Rightarrow> string option" where
  "addressOfAuth entry = ae_address entry"

definition isSignedEnough :: "'v auth_entry \<Rightarrow> bool" where
  "isSignedEnough entry = (if credentialType entry = ''addressWithDelegates''
     then list_ex (\<lambda>s. s) (drop 1 (signers entry)) \<or> (case signers entry of s # _ \<Rightarrow> s | [] \<Rightarrow> False)
     else ae_signed entry)"

text \<open>\<open>Math.ceil(seconds / LEDGER_CLOSE_SECONDS)\<close>\<close>

definition LEDGER_CLOSE_SECONDS :: int where
  "LEDGER_CLOSE_SECONDS = 5"

definition EXPIRATION_TOLERANCE_LEDGERS :: int where
  "EXPIRATION_TOLERANCE_LEDGERS = 2"

definition ceil_ledgers :: "int \<Rightarrow> int" where
  "ceil_ledgers seconds = - ((- seconds) div LEDGER_CLOSE_SECONDS)"

definition validateAuthExpiration ::
    "('w, 'v) stellar \<Rightarrow> 'v auth_entry \<Rightarrow> int \<Rightarrow> ('w, verify_response option) io" where
  "validateAuthExpiration S entry seconds = (case (ae_address entry, signatureExpirationLedger entry) of
      (Some a, Some expiration) \<Rightarrow>
        if a = [] then io_return (Some (invalid ''invalid_stellar_auth_credential_type'' None None))
        else io_bind (get_latest_ledger S) (\<lambda>(latest, _).
          if expiration \<le> latest then io_return (Some (invalid ''invalid_stellar_auth_expired'' (Some a) None))
          else if expiration > latest + ceil_ledgers seconds + EXPIRATION_TOLERANCE_LEDGERS
          then io_return (Some (invalid ''invalid_stellar_auth_expiration_too_far'' (Some a) None))
          else io_return None)
    | _ \<Rightarrow> io_return (Some (invalid ''invalid_stellar_auth_credential_type'' None None)))"

text \<open>\<open>cloneAuth\<close> writes an entry to XDR and reads it back: a copy, as a value the same entry.\<close>

definition cloneAuth :: "'v auth_entry \<Rightarrow> 'v auth_entry" where
  "cloneAuth entry = entry"

definition signFacilitatorAuth ::
    "('w, 'v) stellar \<Rightarrow> 'v auth_entry \<Rightarrow> channel_signer \<Rightarrow> int option \<Rightarrow> string \<Rightarrow> ('w, 'v auth_entry) io" where
  "signFacilitatorAuth S entry signer expiration passphrase =
     sdk (authorize_entry S (cloneAuth entry) (secret signer) expiration passphrase)"

section \<open>Simulation, fees and transfers\<close>

definition first_line :: "string \<Rightarrow> string" where
  "first_line s = takeWhile (\<lambda>c. c \<noteq> CHR 0x0A) s"

definition sim_failed :: "sim_mode \<Rightarrow> string option \<Rightarrow> verify_response" where
  "sim_failed mode message = invalid (case mode of Record \<Rightarrow> ''invalid_stellar_record_simulation_failed''
     | Enforce \<Rightarrow> ''invalid_stellar_enforcing_simulation_failed'') None message"

definition simulate ::
    "('w, 'v) stellar \<Rightarrow> 'v built_tx \<Rightarrow> sim_mode \<Rightarrow> ('w, verify_response + 'v simulation) io" where
  "simulate S tx mode = io_catch
     (io_bind (simulate_transaction S tx mode) (\<lambda>answer. case answer of
        SimSuccess s \<Rightarrow> io_return (Inr s)
      | SimRestore _ \<Rightarrow> io_return (Inl (sim_failed mode None))
      | SimFailure e \<Rightarrow> io_return (Inl (sim_failed mode (map_option first_line e)))))
     (\<lambda>e. io_return (Inl (sim_failed mode (Some (exn_message e)))))"

definition inclusion_fee :: "('w, 'v) stellar \<Rightarrow> int" where
  "inclusion_fee S = base_fee S * 2"

definition validateFee ::
    "('w, 'v) stellar \<Rightarrow> 'v simulation \<Rightarrow> fee_profile \<Rightarrow> string option \<Rightarrow> verify_response option" where
  "validateFee S s profile p = (let resource = minResourceFee s; inclusion = inclusion_fee S; total = resource + inclusion in
     if resource > maxResourceFeeStroops profile
     then Some (invalid ''invalid_stellar_resource_fee_exceeds_maximum'' p
       (Some (int_to_string resource @ '' > '' @ int_to_string (maxResourceFeeStroops profile))))
     else if inclusion > maxInclusionFeeStroops profile
     then Some (invalid ''invalid_stellar_inclusion_fee_exceeds_maximum'' p None)
     else if total > maxTotalFeeStroops profile
     then Some (invalid ''invalid_stellar_total_fee_exceeds_maximum'' p
       (Some (int_to_string total @ '' > '' @ int_to_string (maxTotalFeeStroops profile))))
     else None)"

record transfer_event =
  t_from :: string
  t_to :: string
  t_amount :: int

definition read_transfer :: "('w, 'v) stellar \<Rightarrow> 'v list \<Rightarrow> 'v \<Rightarrow> string + transfer_event" where
  "read_transfer S topics data = (case sc_string S (topics ! 1) of Inl m \<Rightarrow> Inl m | Inr from \<Rightarrow>
     (case sc_string S (topics ! 2) of Inl m \<Rightarrow> Inl m | Inr to \<Rightarrow>
     (case sc_bigint S data of Inl m \<Rightarrow> Inl m | Inr n \<Rightarrow> Inr \<lparr> t_from = from, t_to = to, t_amount = n \<rparr>)))"

definition is_transfer_topic :: "('w, 'v) stellar \<Rightarrow> 'v list \<Rightarrow> bool" where
  "is_transfer_topic S topics = (case topics of [] \<Rightarrow> False | t # _ \<Rightarrow> sc_symbol S t = Some ''transfer'')"

fun tokenTransfers :: "('w, 'v) stellar \<Rightarrow> 'v diagnostic_event list \<Rightarrow> string \<Rightarrow> transfer_event list" where
  "tokenTransfers S [] a = []"
| "tokenTransfers S (BadEvent # es) a = tokenTransfers S es a"
| "tokenTransfers S (Event ty c topics data # es) a =
     (if c \<noteq> Some a \<or> length topics < 3 \<or> \<not> is_transfer_topic S topics then tokenTransfers S es a
      else case read_transfer S topics data of
          Inl _ \<Rightarrow> tokenTransfers S es a
        | Inr t \<Rightarrow> t # tokenTransfers S es a)"

definition sameTransfers :: "transfer_event list \<Rightarrow> transfer_event list \<Rightarrow> bool" where
  "sameTransfers actual expected = (length actual = length expected \<and>
     list_all (\<lambda>(x, y). t_from x = t_from y \<and> t_to x = t_to y \<and> t_amount x = t_amount y) (zip actual expected))"

text \<open>The loop of \<open>validateExactTransferEvents\<close>: the transfers collected, or the message of a malformed one.\<close>

fun exact_transfers ::
    "('w, 'v) stellar \<Rightarrow> 'v diagnostic_event list \<Rightarrow> string \<Rightarrow> transfer_event list \<Rightarrow> string + transfer_event list" where
  "exact_transfers S [] a ts = Inr ts"
| "exact_transfers S (BadEvent # es) a ts = exact_transfers S es a ts"
| "exact_transfers S (Event ty c topics data # es) a ts =
     (if ty \<noteq> ''contract'' \<or> c \<noteq> Some a \<or> \<not> is_transfer_topic S topics then exact_transfers S es a ts
      else if length topics < 3 then Inl ''transfer event has fewer than three topics''
      else case read_transfer S topics data of
          Inl m \<Rightarrow> Inl m
        | Inr t \<Rightarrow> exact_transfers S es a (ts @ [t]))"

definition transfer_json :: "transfer_event \<Rightarrow> js" where
  "transfer_json t = JObj [(''from'', JStr (t_from t)), (''to'', JStr (t_to t)), (''amount'', JStr (int_to_string (t_amount t)))]"

definition validateExactTransferEvents ::
    "('w, 'v) stellar \<Rightarrow> 'v diagnostic_event list \<Rightarrow> string \<Rightarrow> transfer_event \<Rightarrow> verify_response option" where
  "validateExactTransferEvents S es a expected = (case exact_transfers S es a [] of
      Inl m \<Rightarrow> Some (invalid ''invalid_exact_stellar_malformed_transfer_event'' (Some (t_from expected)) (Some m))
    | Inr transfers \<Rightarrow> if \<not> sameTransfers transfers [expected]
        then Some (invalid ''invalid_exact_stellar_unexpected_balance_changes'' (Some (t_from expected))
          (Some (json_text (JArr (map transfer_json transfers)))))
        else None)"

section \<open>Building and finalizing transactions\<close>

definition buildSourceTransaction ::
    "('w, 'v) stellar \<Rightarrow> string \<Rightarrow> 'v built_operation \<Rightarrow> int \<Rightarrow> ('w, 'v built_tx) io" where
  "buildSourceTransaction S source operation seconds = io_bind (get_account S source) (\<lambda>sequence.
     io_return \<lparr> bt_source = source, bt_sequence = sequence + 1, bt_operation = operation, bt_timeout = seconds \<rparr>)"

definition operationWithAuth :: "'v operation \<Rightarrow> 'v auth_entry list \<Rightarrow> 'v built_operation" where
  "operationWithAuth operation auth = \<lparr> bo_func = op_func operation, bo_auth = auth \<rparr>"

text \<open>\<open>Operation.invokeHostFunction(operation)\<close> keeps the authorizations of the operation.\<close>

definition invokeHostFunction :: "'v operation \<Rightarrow> 'v built_operation" where
  "invokeHostFunction operation = \<lparr> bo_func = op_func operation, bo_auth = coalesce (op_auth operation) [] \<rparr>"

definition finalizeSponsoredTransaction ::
    "('w, 'v) stellar \<Rightarrow> 'v built_tx \<Rightarrow> 'v simulation \<Rightarrow> channel_signer \<Rightarrow> channel_signer \<Rightarrow> string \<Rightarrow> ('w, finalized) io" where
  "finalizeSponsoredTransaction S tx enforcing channel spons passphrase =
     sdk (finalize_tx S tx enforcing channel spons passphrase)"

definition preparedFrom ::
    "('w, 'v) stellar \<Rightarrow> parsed_payment \<Rightarrow> channel_signer \<Rightarrow> finalized \<Rightarrow> 'v simulation \<Rightarrow> prepared_settlement" where
  "preparedFrom S p channel envelope s =
     \<lparr> pp_scheme = pp_scheme p, pp_network = pp_network p, pp_payer = pp_payer p, pp_maximum = pp_maximum p,
       pp_actual = pp_actual p, channelAddress = signer_address channel, channelSequence = f_sequence envelope,
       envelopeXdr = f_xdr envelope, transactionHash = f_hash envelope, estimatedResourceFee = minResourceFee s,
       estimatedInclusionFee = inclusion_fee S, estimatedTotalFee = minResourceFee s + inclusion_fee S \<rparr>"

text \<open>\<open>Buffer.concat(args.map(arg => arg.toXDR())).toString("base64")\<close>\<close>

definition argsXdr :: "('w, 'v) stellar \<Rightarrow> 'v list \<Rightarrow> string" where
  "argsXdr S as = base64 (concat (map (sc_xdr S) as))"

section \<open>What the checks establish\<close>

lemma invalid_simps [simp]: "\<not> isValid (invalid reason p message)" "invalidReason (invalid reason p message) = Some reason"
  by (simp_all add: invalid_def)

lemma parseInteger_Some:
  "parseInteger s = Some n \<longleftrightarrow> int_pattern s \<and> big_int s = n \<and> I128_MIN \<le> n \<and> n \<le> I128_MAX"
  by (auto simp: parseInteger_def Let_def)

lemma parseInteger_print: "I128_MIN \<le> n \<Longrightarrow> n \<le> I128_MAX \<Longrightarrow> parseInteger (int_to_string n) = Some n"
  by (simp add: parseInteger_Some int_pattern_to_string)

lemma validateEnvelope_None:
  assumes "validateEnvelope request runtime sch ph = None"
  defines "acc \<equiv> accepted (paymentPayload request)" and "req \<equiv> paymentRequirements request"
  shows "r_version request = 2 \<and> scheme acc = sch \<and> scheme req = sch \<and> network acc = n_id (config runtime)
    \<and> network req = n_id (config runtime) \<and> asset acc = asset req \<and> payTo acc = payTo req
    \<and> maxTimeoutSeconds acc = maxTimeoutSeconds req \<and> (sch = ''exact'' \<or> ph = VerifyPhase \<longrightarrow> amount acc = amount req)
    \<and> 0 < maxTimeoutSeconds req \<and> maxTimeoutSeconds req \<le> c_maxTimeoutSeconds (config runtime)
    \<and> fees_sponsored acc \<and> fees_sponsored req
    \<and> (\<exists>a m. map_of (allowedAssets (config runtime)) (asset req) = Some a \<and> parseInteger (amount acc) = Some m
         \<and> 0 < m \<and> m \<le> maxPayment a)"
  using assms by (auto simp: validateEnvelope_def Let_def split: if_splits option.splits)

lemma parseClientTransaction_Inr:
  "parseClientTransaction S p passphrase = Inr tx \<longleftrightarrow>
    (\<exists>t. js_get (payload p) ''transaction'' = JStr t \<and> from_xdr S t passphrase = Inr (Tx tx))"
  by (auto simp: parseClientTransaction_def split: js.splits sum.splits parsed_tx.splits)

lemma transactionOperation_Inr:
  "transactionOperation tx internal = Inr operation \<longleftrightarrow> operations tx = [operation]
    \<and> op_type operation = ''invokeHostFunction'' \<and> \<not> truthy_str (op_source operation) \<and> tx_source tx \<notin> set internal"
  by (auto simp: transactionOperation_def split: list.splits if_splits)

lemma operationInvocation_Some:
  "operationInvocation operation = Some i \<longleftrightarrow> op_type operation = ''invokeHostFunction''
    \<and> op_func operation = ContractFn (contract i) (functionName i) (args i)"
  by (auto simp: operationInvocation_def invocation_of_def split: contract_function.splits)

lemma validateAuthExpiration_None:
  assumes "validateAuthExpiration S entry seconds w = (Inr None, w')"
  shows "\<exists>a expiration latest closed. ae_address entry = Some a \<and> a \<noteq> [] \<and> signatureExpirationLedger entry = Some expiration
    \<and> get_latest_ledger S w = (Inr (latest, closed), w') \<and> latest < expiration \<and> expiration \<le> latest + ceil_ledgers seconds + 2"
  using assms
  by (auto simp: validateAuthExpiration_def EXPIRATION_TOLERANCE_LEDGERS_def elim!: io_bind_InrE
      split: option.splits if_splits)

lemma simulate_Inr:
  assumes "simulate S tx mode w = (Inr (Inr s), w')"
  shows "simulate_transaction S tx mode w = (Inr (SimSuccess s), w')"
  using assms
  by (auto simp: simulate_def io_catch_def io_bind_def split: prod.splits sum.splits sim_response.splits)

lemma validateFee_None:
  "validateFee S s profile p = None \<longleftrightarrow> minResourceFee s \<le> maxResourceFeeStroops profile
    \<and> inclusion_fee S \<le> maxInclusionFeeStroops profile
    \<and> minResourceFee s + inclusion_fee S \<le> maxTotalFeeStroops profile"
  by (auto simp: validateFee_def Let_def)

lemma sameTransfers_iff: "sameTransfers xs ys \<longleftrightarrow> xs = ys"
proof
  assume s: "sameTransfers xs ys"
  show "xs = ys"
  proof (rule nth_equalityI)
    show len: "length xs = length ys" using s by (simp add: sameTransfers_def)
    fix i assume i: "i < length xs"
    then have "(xs ! i, ys ! i) \<in> set (zip xs ys)" using len by (auto simp: set_zip)
    then show "xs ! i = ys ! i" using s by (auto simp: sameTransfers_def list_all_iff)
  qed
qed (auto simp: sameTransfers_def list_all_iff set_zip)

text \<open>All transfer events that the token contract emitted, in order; None when one does not decode.\<close>

definition token_event :: "('w, 'v) stellar \<Rightarrow> string \<Rightarrow> 'v diagnostic_event \<Rightarrow> bool" where
  "token_event S a e = (case e of BadEvent \<Rightarrow> False
     | Event ty c topics data \<Rightarrow> ty = ''contract'' \<and> c = Some a \<and> is_transfer_topic S topics)"

definition decodes_to :: "('w, 'v) stellar \<Rightarrow> 'v diagnostic_event \<Rightarrow> transfer_event \<Rightarrow> bool" where
  "decodes_to S e t = (case e of BadEvent \<Rightarrow> False
     | Event ty c topics data \<Rightarrow> 3 \<le> length topics \<and> read_transfer S topics data = Inr t)"

definition emitted :: "('w, 'v) stellar \<Rightarrow> string \<Rightarrow> 'v diagnostic_event list \<Rightarrow> transfer_event list \<Rightarrow> bool" where
  "emitted S a es ts = list_all2 (decodes_to S) (filter (token_event S a) es) ts"

lemma exact_transfers_Inr:
  "exact_transfers S es a ts = Inr r \<Longrightarrow> \<exists>u. r = ts @ u \<and> emitted S a es u"
proof (induction S es a ts rule: exact_transfers.induct)
  case (3 S ty c topics data es a ts)
  then show ?case
    by (fastforce simp: emitted_def token_event_def decodes_to_def list_all2_Cons1 split: if_splits sum.splits)
qed (auto simp: emitted_def token_event_def)

lemma validateExact_None:
  assumes "validateExactTransferEvents S es a expected = None" shows "emitted S a es [expected]"
  using assms exact_transfers_Inr [of S es a "[]"]
  by (auto simp: validateExactTransferEvents_def sameTransfers_iff split: sum.splits if_splits)

end
