(* ===== verification/Exact_Mechanism.thy ===== *)
theory Exact_Mechanism
  imports Stellar_Common
begin

text \<open>
  facilitator/src/stellar/exact.ts: verification and preparation of an exact payment.  The
  canonical protocol verifier is the parameter \<open>protocol_verify\<close>; everything after it is the
  operator's own hardening, and the lemmas show that the hardening alone establishes the payment,
  whatever the protocol verifier answers.
\<close>

section \<open>Verification\<close>

definition UPSTREAM_EVENT_COMPATIBILITY_REASONS :: "string list" where
  "UPSTREAM_EVENT_COMPATIBILITY_REASONS = [''invalid_exact_stellar_payload_event_not_transfer'',
     ''invalid_exact_stellar_payload_event_wrong_asset'']"

text \<open>The Stellar scheme's ceiling: the configured one, at most \<open>Number.MAX_SAFE_INTEGER\<close>.\<close>

definition MAX_SAFE_INTEGER :: int where
  "MAX_SAFE_INTEGER = 2 ^ 53 - 1"

definition upstream_ceiling :: "network_runtime \<Rightarrow> int" where
  "upstream_ceiling runtime = (let configuredCeiling = maxTotalFeeStroops (exactFee (config runtime)) in
     if configuredCeiling > MAX_SAFE_INTEGER then MAX_SAFE_INTEGER else configuredCeiling)"

text \<open>The call of the protocol verifier: a refusal, or the payer it reported when it accepted.\<close>

definition upstream_step ::
    "('w, 'v) stellar \<Rightarrow> request_envelope \<Rightarrow> network_runtime \<Rightarrow> ('w, verify_response + verify_response) io" where
  "upstream_step S request runtime = io_catch
     (io_bind (protocol_verify S request runtime) (\<lambda>upstream.
        if \<not> isValid upstream \<and> coalesce (invalidReason upstream) [] \<notin> set UPSTREAM_EVENT_COMPATIBILITY_REASONS
        then io_return (Inl (if truthy_str (invalidReason upstream) then upstream
          else invalid ''unexpected_verify_error'' (v_payer upstream) (invalidMessage upstream)))
        else io_return (Inr upstream)))
     (\<lambda>e. io_return (Inl (invalid ''unexpected_verify_error'' None (Some (exn_message e)))))"

record exact_terms =
  e_from :: string
  e_to :: string
  e_amount :: int

text \<open>The three arguments of the transfer; reading them may throw.\<close>

definition read_arguments :: "('w, 'v) stellar \<Rightarrow> 'v list \<Rightarrow> ('w, exact_terms) io" where
  "read_arguments S as = io_bind (sdk (sc_string S (as ! 0))) (\<lambda>from. io_bind (sdk (sc_string S (as ! 1))) (\<lambda>to.
     io_bind (sdk (sc_bigint S (as ! 2))) (\<lambda>n. io_return \<lparr> e_from = from, e_to = to, e_amount = n \<rparr>)))"

definition is_transfer_call :: "'v contract_invocation option \<Rightarrow> string \<Rightarrow> bool" where
  "is_transfer_call i a = (case i of None \<Rightarrow> False
     | Some call \<Rightarrow> contract call = a \<and> functionName call = ''transfer'' \<and> length (args call) = 3)"

definition check_terms :: "request_envelope \<Rightarrow> network_runtime \<Rightarrow> verify_response \<Rightarrow> exact_terms \<Rightarrow> verify_response option" where
  "check_terms request runtime upstream t = (let from = Some (e_from t) in
     if isValid upstream \<and> v_payer upstream \<noteq> from
     then Some (invalid ''invalid_exact_stellar_upstream_payer_mismatch'' from None)
     else if e_from t \<in> set (unsafeInternalAddresses runtime)
     then Some (invalid ''invalid_exact_stellar_facilitator_is_payer'' from None)
     else if e_to t \<noteq> payTo (paymentRequirements request)
     then Some (invalid ''invalid_exact_stellar_wrong_recipient'' from None)
     else if parseInteger (amount (paymentRequirements request)) \<noteq> Some (e_amount t)
     then Some (invalid ''invalid_exact_stellar_wrong_amount'' from None)
     else None)"

definition check_auth ::
    "('w, 'v) stellar \<Rightarrow> 'v operation \<Rightarrow> 'v contract_invocation \<Rightarrow> string \<Rightarrow> verify_response + 'v auth_entry" where
  "check_auth S operation call from = (case op_auth operation of
      Some [auth] \<Rightarrow>
        if addressOfAuth auth \<noteq> Some from \<or> \<not> isSignedEnough auth
        then Inl (invalid ''invalid_exact_stellar_missing_payer_signature'' (Some from) None)
        else if subInvocations (rootInvocation auth) \<noteq> []
        then Inl (invalid ''invalid_exact_stellar_has_subinvocations'' (Some from) None)
        else (case authInvocation (rootInvocation auth) of
            None \<Rightarrow> Inl (invalid ''invalid_exact_stellar_auth_tree_mismatch'' (Some from) None)
          | Some authRoot \<Rightarrow>
              if contract authRoot \<noteq> contract call \<or> functionName authRoot \<noteq> ''transfer''
                \<or> argsXdr S (args authRoot) \<noteq> argsXdr S (args call)
              then Inl (invalid ''invalid_exact_stellar_auth_tree_mismatch'' (Some from) None)
              else Inr auth)
    | _ \<Rightarrow> Inl (invalid ''invalid_exact_stellar_wrong_auth_count'' (Some from) None))"

text \<open>\<open>{ ...response, payer }\<close>\<close>

definition with_payer :: "string \<Rightarrow> verify_response \<Rightarrow> verify_response" where
  "with_payer p r = r\<lparr>v_payer := Some p\<rparr>"

definition refusal_payer :: "string \<Rightarrow> ('w, verify_response + 'a) io \<Rightarrow> ('w, verify_response + 'a) io" where
  "refusal_payer p m = io_bind m (\<lambda>x. io_return (case x of Inl r \<Rightarrow> Inl (with_payer p r) | Inr a \<Rightarrow> Inr a))"

definition expected_transfer :: "exact_terms \<Rightarrow> transfer_event" where
  "expected_transfer t = \<lparr> t_from = e_from t, t_to = e_to t, t_amount = e_amount t \<rparr>"

text \<open>The enforcing simulation on \<open>source\<close> with its fee and transfer checks.\<close>

definition enforce_exact ::
    "('w, 'v) stellar \<Rightarrow> network_runtime \<Rightarrow> 'v built_tx \<Rightarrow> string \<Rightarrow> transfer_event \<Rightarrow>
     ('w, verify_response + 'v simulation) io" where
  "enforce_exact S runtime tx a expected =
     or_return (refusal_payer (t_from expected) (simulate S tx Enforce)) (\<lambda>enforcing.
       refuse_if (validateFee S enforcing (exactFee (config runtime)) (Some (t_from expected)))
       (refuse_if (map_option (with_payer (t_from expected)) (validateExactTransferEvents S (events enforcing) a expected))
       (io_return (Inr enforcing))))"

definition exact_checks ::
    "('w, 'v) stellar \<Rightarrow> request_envelope \<Rightarrow> network_runtime \<Rightarrow> ('w, verify_response + parsed_payment) io" where
  "exact_checks S request runtime =
     refuse_if (validateEnvelope request runtime ''exact'' VerifyPhase)
     (or_return (upstream_step S request runtime) (\<lambda>upstream.
     let passphrase = networkPassphrase S (n_id (config runtime)); req = paymentRequirements request in
     or_return (returns (parseClientTransaction S (paymentPayload request) passphrase)) (\<lambda>tx.
     or_return (returns (transactionOperation tx (unsafeInternalAddresses runtime))) (\<lambda>operation.
     let invocation = operationInvocation operation in
     if \<not> is_transfer_call invocation (asset req)
     then io_return (Inl (invalid ''invalid_exact_stellar_payload_wrong_invocation'' None None))
     else let call = the invocation in
     io_bind (read_arguments S (args call)) (\<lambda>t.
     refuse_if (check_terms request runtime upstream t)
     (or_return (returns (check_auth S operation call (e_from t))) (\<lambda>auth.
     io_bind (validateAuthExpiration S auth (maxTimeoutSeconds req)) (\<lambda>expiration.
     refuse_if (map_option (with_payer (e_from t)) expiration)
     (io_bind (buildSourceTransaction S (signer_address (simulationSource runtime)) (invokeHostFunction operation)
        (maxTimeoutSeconds req)) (\<lambda>enforcingTx.
     or_return (enforce_exact S runtime enforcingTx (contract call) (expected_transfer t)) (\<lambda>_.
     io_return (Inr \<lparr> pp_scheme = ''exact'', pp_network = n_id (config runtime), pp_payer = e_from t,
       pp_maximum = e_amount t, pp_actual = e_amount t \<rparr>))))))))))))"

definition accepted_response :: "parsed_payment \<Rightarrow> verification_result" where
  "accepted_response p = \<lparr> response = \<lparr> isValid = True, invalidReason = None, v_payer = Some (pp_payer p),
     invalidMessage = None \<rparr>, parsed = Some p \<rparr>"

definition exact_verify ::
    "('w, 'v) stellar \<Rightarrow> request_envelope \<Rightarrow> network_runtime \<Rightarrow> ('w, verification_result) io" where
  "exact_verify S request runtime = io_bind (exact_checks S request runtime) (\<lambda>x. io_return (case x of
      Inl r \<Rightarrow> \<lparr> response = r, parsed = None \<rparr> | Inr p \<Rightarrow> accepted_response p))"

section \<open>Preparation\<close>

definition exact_prepare ::
    "('w, 'v) stellar \<Rightarrow> request_envelope \<Rightarrow> network_runtime \<Rightarrow> channel_signer \<Rightarrow>
     ('w, verify_response + prepared_settlement) io" where
  "exact_prepare S request runtime channel = io_bind (exact_verify S request runtime) (\<lambda>verified.
     case (isValid (response verified), parsed verified) of
       (True, Some p) \<Rightarrow>
         (let passphrase = networkPassphrase S (n_id (config runtime)); req = paymentRequirements request in
          or_return (returns (parseClientTransaction S (paymentPayload request) passphrase)) (\<lambda>tx.
          or_return (returns (transactionOperation tx (unsafeInternalAddresses runtime))) (\<lambda>operation.
          io_bind (buildSourceTransaction S (signer_address channel) (operationWithAuth operation []) (maxTimeoutSeconds req))
            (\<lambda>recordingTx.
          or_return (refusal_payer (pp_payer p) (simulate S recordingTx Record)) (\<lambda>_.
          io_bind (buildSourceTransaction S (signer_address channel) (invokeHostFunction operation) (maxTimeoutSeconds req))
            (\<lambda>sourceTransaction.
          or_return (enforce_exact S runtime sourceTransaction (contract (the (operationInvocation operation)))
            \<lparr> t_from = pp_payer p, t_to = payTo req, t_amount = pp_actual p \<rparr>) (\<lambda>enforcing.
          io_bind (finalizeSponsoredTransaction S sourceTransaction enforcing channel (sponsor runtime) passphrase) (\<lambda>final.
          io_return (Inr (preparedFrom S p channel final enforcing))))))))))
     | _ \<Rightarrow> io_return (Inl (response verified)))"

section \<open>What an accepted payment establishes\<close>

text \<open>The simulation that the checks accepted: what the ledger would do with the transaction.\<close>

definition simulated_transfer ::
    "('w, 'v) stellar \<Rightarrow> fee_profile \<Rightarrow> string \<Rightarrow> string \<Rightarrow> 'v operation \<Rightarrow> transfer_event \<Rightarrow> bool" where
  "simulated_transfer S fees source a operation t = (\<exists>tx s w w'.
     simulate_transaction S tx Enforce w = (Inr (SimSuccess s), w') \<and> bt_source tx = source
     \<and> bt_operation tx = invokeHostFunction operation \<and> emitted S a (events s) [t]
     \<and> minResourceFee s + inclusion_fee S \<le> maxTotalFeeStroops fees)"

text \<open>The declarative reading of a valid exact payment.\<close>

definition authorized_exact ::
    "('w, 'v) stellar \<Rightarrow> request_envelope \<Rightarrow> network_runtime \<Rightarrow> 'v operation \<Rightarrow> exact_terms \<Rightarrow> bool" where
  "authorized_exact S request runtime operation t = (\<exists>tr tx as auth root.
     js_get (payload (paymentPayload request)) ''transaction'' = JStr tr
     \<and> from_xdr S tr (networkPassphrase S (n_id (config runtime))) = Inr (Tx tx)
     \<and> operations tx = [operation] \<and> tx_source tx \<notin> set (unsafeInternalAddresses runtime)
     \<and> op_func operation = ContractFn (asset (paymentRequirements request)) ''transfer'' as \<and> length as = 3
     \<and> sc_string S (as ! 0) = Inr (e_from t) \<and> sc_string S (as ! 1) = Inr (e_to t) \<and> sc_bigint S (as ! 2) = Inr (e_amount t)
     \<and> e_from t \<notin> set (unsafeInternalAddresses runtime)
     \<and> op_auth operation = Some [auth] \<and> ae_address auth = Some (e_from t) \<and> isSignedEnough auth
     \<and> subInvocations (rootInvocation auth) = []
     \<and> tree_function (rootInvocation auth) = ContractFn (asset (paymentRequirements request)) ''transfer'' root
     \<and> concat (map (sc_xdr S) root) = concat (map (sc_xdr S) as))"

lemma is_transfer_call_Some:
  "is_transfer_call i a \<longleftrightarrow> (\<exists>call. i = Some call \<and> contract call = a \<and> functionName call = ''transfer'' \<and> length (args call) = 3)"
  by (auto simp: is_transfer_call_def split: option.splits)

lemma read_arguments_Inr:
  "read_arguments S as w = (Inr t, w') \<Longrightarrow> w' = w \<and> sc_string S (as ! 0) = Inr (e_from t)
    \<and> sc_string S (as ! 1) = Inr (e_to t) \<and> sc_bigint S (as ! 2) = Inr (e_amount t)"
  by (auto simp: read_arguments_def elim!: io_bind_InrE)

lemma check_terms_None:
  "check_terms request runtime upstream t = None \<Longrightarrow> e_from t \<notin> set (unsafeInternalAddresses runtime)
    \<and> e_to t = payTo (paymentRequirements request)
    \<and> parseInteger (amount (paymentRequirements request)) = Some (e_amount t)
    \<and> (isValid upstream \<longrightarrow> v_payer upstream = Some (e_from t))"
  by (auto simp: check_terms_def Let_def split: if_splits)

lemma check_auth_Inr:
  "check_auth S operation call from = Inr auth \<Longrightarrow> op_auth operation = Some [auth] \<and> ae_address auth = Some from
    \<and> isSignedEnough auth \<and> subInvocations (rootInvocation auth) = []
    \<and> (\<exists>root. tree_function (rootInvocation auth) = ContractFn (contract call) ''transfer'' root
         \<and> concat (map (sc_xdr S) root) = concat (map (sc_xdr S) (args call)))"
  by (auto simp: check_auth_def addressOfAuth_def authInvocation_def invocation_of_def argsXdr_def base64_inj
      split: option.splits list.splits if_splits contract_function.splits)

lemma refusal_payer_Inr: "refusal_payer p m w = (Inr (Inr a), w') \<Longrightarrow> m w = (Inr (Inr a), w')"
  by (auto simp: refusal_payer_def elim!: io_bind_InrE split: sum.splits)

lemma buildSourceTransaction_Inr:
  "buildSourceTransaction S source operation seconds w = (Inr tx, w') \<Longrightarrow>
    bt_source tx = source \<and> bt_operation tx = operation \<and> bt_timeout tx = seconds
    \<and> (\<exists>n. get_account S source w = (Inr n, w') \<and> bt_sequence tx = n + 1)"
  by (auto simp: buildSourceTransaction_def elim!: io_bind_InrE)

lemma enforce_exact_Inr:
  assumes "enforce_exact S runtime tx a expected w = (Inr (Inr s), w')"
  shows "simulate_transaction S tx Enforce w = (Inr (SimSuccess s), w') \<and> emitted S a (events s) [expected]
    \<and> minResourceFee s \<le> maxResourceFeeStroops (exactFee (config runtime))
    \<and> minResourceFee s + inclusion_fee S \<le> maxTotalFeeStroops (exactFee (config runtime))"
  using assms
  by (auto simp: enforce_exact_def validateFee_None dest!: refusal_payer_Inr simulate_Inr validateExact_None
      elim!: or_return_InrE refuse_if_InrE)

lemma exact_checks_Inr:
  assumes "exact_checks S request runtime w = (Inr (Inr p), w')"
  shows "\<exists>operation t auth latest closed w1 w2 expiration. authorized_exact S request runtime operation t
    \<and> e_to t = payTo (paymentRequirements request) \<and> parseInteger (amount (paymentRequirements request)) = Some (e_amount t)
    \<and> validateEnvelope request runtime ''exact'' VerifyPhase = None
    \<and> op_auth operation = Some [auth] \<and> signatureExpirationLedger auth = Some expiration
    \<and> get_latest_ledger S w1 = (Inr (latest, closed), w2) \<and> latest < expiration
    \<and> expiration \<le> latest + ceil_ledgers (maxTimeoutSeconds (paymentRequirements request)) + 2
    \<and> simulated_transfer S (exactFee (config runtime)) (signer_address (simulationSource runtime))
         (asset (paymentRequirements request)) operation (expected_transfer t)
    \<and> p = \<lparr> pp_scheme = ''exact'', pp_network = n_id (config runtime), pp_payer = e_from t,
         pp_maximum = e_amount t, pp_actual = e_amount t \<rparr>"
proof -
  from assms obtain upstream tx operation call t auth w0 w1 w2 w3 enforcingTx w4 s where
    env: "validateEnvelope request runtime ''exact'' VerifyPhase = None"
    and tx: "parseClientTransaction S (paymentPayload request) (networkPassphrase S (n_id (config runtime))) = Inr tx"
    and op: "transactionOperation tx (unsafeInternalAddresses runtime) = Inr operation"
    and call: "operationInvocation operation = Some call" "contract call = asset (paymentRequirements request)"
      "functionName call = ''transfer''" "length (args call) = 3"
    and t: "read_arguments S (args call) w0 = (Inr t, w1)"
    and terms: "check_terms request runtime upstream t = None"
    and auth: "check_auth S operation call (e_from t) = Inr auth"
    and exp: "validateAuthExpiration S auth (maxTimeoutSeconds (paymentRequirements request)) w1 = (Inr None, w2)"
    and build: "buildSourceTransaction S (signer_address (simulationSource runtime)) (invokeHostFunction operation)
        (maxTimeoutSeconds (paymentRequirements request)) w2 = (Inr enforcingTx, w3)"
    and enf: "enforce_exact S runtime enforcingTx (contract call) (expected_transfer t) w3 = (Inr (Inr s), w4)"
    and p: "p = \<lparr> pp_scheme = ''exact'', pp_network = n_id (config runtime), pp_payer = e_from t,
         pp_maximum = e_amount t, pp_actual = e_amount t \<rparr>"
    unfolding exact_checks_def Let_def
    by (elim refuse_if_InrE or_return_InrE io_bind_InrE)
      (auto simp: returns_Inr is_transfer_call_Some elim!: refuse_if_InrE or_return_InrE io_bind_InrE
        split: if_splits)
  note t = read_arguments_Inr [OF t] and terms = check_terms_None [OF terms] and auth = check_auth_Inr [OF auth]
    and exp = validateAuthExpiration_None [OF exp] and build = buildSourceTransaction_Inr [OF build]
    and enf = enforce_exact_Inr [OF enf]
  have "authorized_exact S request runtime operation t"
    using tx op call t terms auth
    by (auto simp: authorized_exact_def parseClientTransaction_Inr transactionOperation_Inr operationInvocation_Some)
  moreover have "simulated_transfer S (exactFee (config runtime)) (signer_address (simulationSource runtime))
      (asset (paymentRequirements request)) operation (expected_transfer t)"
    unfolding simulated_transfer_def using build enf call(2) by metis
  ultimately show ?thesis using env terms auth exp p by blast
qed

lemma exact_verify_valid:
  assumes "exact_verify S request runtime w = (Inr v, w')" "isValid (response v)"
  obtains p where "exact_checks S request runtime w = (Inr (Inr p), w')" "v = accepted_response p"
    | r where "exact_checks S request runtime w = (Inr (Inl r), w')" "v = \<lparr> response = r, parsed = None \<rparr>"
  using assms by (auto simp: exact_verify_def elim!: io_bind_InrE split: sum.splits)

text \<open>The envelope that a preparation returns: what was finalized, on which transaction.\<close>

definition finalized_exact ::
    "('w, 'v) stellar \<Rightarrow> network_runtime \<Rightarrow> channel_signer \<Rightarrow> string \<Rightarrow> 'v operation \<Rightarrow> transfer_event \<Rightarrow>
     prepared_settlement \<Rightarrow> bool" where
  "finalized_exact S runtime channel a operation t p = (\<exists>tx s final w w'.
     simulate_transaction S tx Enforce w = (Inr (SimSuccess s), w') \<and> bt_source tx = signer_address channel
     \<and> bt_operation tx = invokeHostFunction operation \<and> emitted S a (events s) [t]
     \<and> finalize_tx S tx s channel (sponsor runtime) (networkPassphrase S (n_id (config runtime))) = Inr final
     \<and> envelopeXdr p = f_xdr final \<and> transactionHash p = f_hash final \<and> channelSequence p = f_sequence final
     \<and> channelAddress p = signer_address channel \<and> estimatedTotalFee p = minResourceFee s + inclusion_fee S
     \<and> estimatedTotalFee p \<le> maxTotalFeeStroops (exactFee (config runtime)))"

lemma exact_prepare_Inr:
  assumes "exact_prepare S request runtime channel w = (Inr (Inr p), w')"
  shows "\<exists>operation t. authorized_exact S request runtime operation t
    \<and> e_to t = payTo (paymentRequirements request) \<and> parseInteger (amount (paymentRequirements request)) = Some (e_amount t)
    \<and> pp_payer p = e_from t \<and> pp_maximum p = e_amount t \<and> pp_actual p = e_amount t
    \<and> finalized_exact S runtime channel (asset (paymentRequirements request)) operation (expected_transfer t) p"
proof -
  obtain v w1 where v: "exact_verify S request runtime w = (Inr v, w1)"
    and rest: "(case (isValid (response v), parsed v) of (True, Some q) \<Rightarrow> True | _ \<Rightarrow> False)"
    using assms unfolding exact_prepare_def
    by (elim io_bind_InrE) (auto split: option.splits bool.splits)
  then obtain q where q: "exact_checks S request runtime w = (Inr (Inr q), w1)" "v = accepted_response q"
    by (auto elim!: exact_verify_valid split: option.splits bool.splits)
  obtain operation0 t where a: "authorized_exact S request runtime operation0 t"
      "e_to t = payTo (paymentRequirements request)" "parseInteger (amount (paymentRequirements request)) = Some (e_amount t)"
    and qt: "q = \<lparr> pp_scheme = ''exact'', pp_network = n_id (config runtime), pp_payer = e_from t,
         pp_maximum = e_amount t, pp_actual = e_amount t \<rparr>"
    using exact_checks_Inr [OF q(1)] by blast
  from assms v q(2) obtain tx operation w2 sourceTx w3 enforcing w4 final where
    tx: "parseClientTransaction S (paymentPayload request) (networkPassphrase S (n_id (config runtime))) = Inr tx"
    and op: "transactionOperation tx (unsafeInternalAddresses runtime) = Inr operation"
    and build: "buildSourceTransaction S (signer_address channel) (invokeHostFunction operation)
        (maxTimeoutSeconds (paymentRequirements request)) w2 = (Inr sourceTx, w3)"
    and enf: "enforce_exact S runtime sourceTx (contract (the (operationInvocation operation)))
        \<lparr> t_from = pp_payer q, t_to = payTo (paymentRequirements request), t_amount = pp_actual q \<rparr> w3 = (Inr (Inr enforcing), w4)"
    and fin: "finalize_tx S sourceTx enforcing channel (sponsor runtime) (networkPassphrase S (n_id (config runtime))) = Inr final"
    and p: "p = preparedFrom S q channel final enforcing"
    unfolding exact_prepare_def Let_def
    by (elim io_bind_InrE) (auto simp: accepted_response_def returns_Inr finalizeSponsoredTransaction_def
        elim!: or_return_InrE io_bind_InrE)
  have "operation = operation0"
    using a(1) tx op by (auto simp: authorized_exact_def parseClientTransaction_Inr transactionOperation_Inr)
  then have c: "contract (the (operationInvocation operation)) = asset (paymentRequirements request)"
    using a(1) op by (auto simp: authorized_exact_def transactionOperation_Inr operationInvocation_def invocation_of_def)
  note enf = enforce_exact_Inr [OF enf [unfolded c]] and build = buildSourceTransaction_Inr [OF build]
  have "finalized_exact S runtime channel (asset (paymentRequirements request)) operation (expected_transfer t) p"
    unfolding finalized_exact_def
    using enf build fin p a(2) qt by (intro exI [of _ sourceTx] exI [of _ enforcing] exI [of _ final])
      (auto simp: preparedFrom_def expected_transfer_def)
  then show ?thesis using a \<open>operation = operation0\<close> p qt by (auto simp: preparedFrom_def)
qed

end
