(* ===== verification/Upto_Mechanism.thy ===== *)
theory Upto_Mechanism
  imports Exact_Mechanism
begin

text \<open>
  facilitator/src/stellar/upto.ts: verification and preparation of an upto payment, where the payer
  authorises a maximum and the settlement moves the actual amount and refunds the rest.
\<close>

section \<open>Terms\<close>

record upto_terms =
  u_contract :: string
  u_payer :: string
  u_payTo :: string
  u_token :: string
  u_maximum :: int
  validAfter :: "int option"
  deadline :: "int option"
  u_facilitator :: string
  settlementId :: string
  settlementHook :: "string option"
  u_actual :: int

text \<open>Comparison of JavaScript numbers; None is NaN, which is never greater nor less.\<close>

definition num_gt :: "int option \<Rightarrow> int option \<Rightarrow> bool" where
  "num_gt a b = (case (a, b) of (Some x, Some y) \<Rightarrow> x > y | _ \<Rightarrow> False)"

definition read_terms :: "('w, 'v) stellar \<Rightarrow> 'v contract_invocation \<Rightarrow> string \<Rightarrow> string option \<Rightarrow> string + upto_terms" where
  "read_terms S call sid hook = (let as = args call in
     sum_bind (sc_string S (as ! 0)) (\<lambda>pyr. sum_bind (sc_string S (as ! 1)) (\<lambda>pt.
     sum_bind (sc_string S (as ! 2)) (\<lambda>tk. sum_bind (sc_bigint S (as ! 3)) (\<lambda>mx.
     sum_bind (sc_number S (as ! 4)) (\<lambda>va. sum_bind (sc_number S (as ! 5)) (\<lambda>dl.
     sum_bind (sc_string S (as ! 6)) (\<lambda>fc. sum_bind (sc_bigint S (as ! 9)) (\<lambda>ac.
     Inr \<lparr> u_contract = contract call, u_payer = pyr, u_payTo = pt, u_token = tk, u_maximum = mx, validAfter = va,
       deadline = dl, u_facilitator = fc, settlementId = sid, settlementHook = hook, u_actual = ac \<rparr>)))))))))"

definition parseTerms :: "('w, 'v) stellar \<Rightarrow> 'v operation \<Rightarrow> verify_response + upto_terms" where
  "parseTerms S operation = (let malformed = Inl (invalid ''invalid_upto_stellar_malformed_arguments'' None None) in
     case operationInvocation operation of
       None \<Rightarrow> Inl (invalid ''invalid_upto_stellar_wrong_invocation'' None None)
     | Some call \<Rightarrow>
         if functionName call \<noteq> ''settle'' \<or> length (args call) \<noteq> 10
         then Inl (invalid ''invalid_upto_stellar_wrong_invocation'' None None)
         else (case sc_bytes S (args call ! 7) of
             Inl _ \<Rightarrow> malformed
           | Inr sid \<Rightarrow>
               if length sid \<noteq> 32 then Inl (invalid ''invalid_upto_stellar_settlement_id'' None None)
               else (case sc_text S (args call ! 8) of
                   Inl _ \<Rightarrow> malformed
                 | Inr hook \<Rightarrow> (case read_terms S call sid hook of Inl _ \<Rightarrow> malformed | Inr t \<Rightarrow> Inr t))))"

definition validateTerms ::
    "('w, 'v) stellar \<Rightarrow> upto_terms \<Rightarrow> request_envelope \<Rightarrow> network_runtime \<Rightarrow> phase \<Rightarrow> int \<Rightarrow> verify_response option" where
  "validateTerms S terms request runtime ph actual =
     (let cfg = config runtime; p = Some (u_payer terms); refuse = (\<lambda>reason. Some (invalid reason p None));
          req = paymentRequirements request in
      if Some (u_contract terms) \<noteq> uptoContract cfg then refuse ''invalid_upto_stellar_wrong_contract''
      else if parseInteger (amount (accepted (paymentPayload request))) \<noteq> Some (u_maximum terms)
      then refuse ''invalid_upto_stellar_wrong_maximum''
      else if u_maximum terms \<le> 0 \<or> actual < 0 \<or> actual > u_maximum terms
      then refuse ''invalid_upto_stellar_actual_out_of_range''
      else if ph = VerifyPhase \<and> u_actual terms \<noteq> u_maximum terms
      then refuse ''invalid_upto_stellar_verify_actual_not_maximum''
      else if u_payTo terms \<noteq> payTo req then refuse ''invalid_upto_stellar_wrong_recipient''
      else if u_token terms \<noteq> asset req then refuse ''invalid_upto_stellar_wrong_asset''
      else if u_facilitator terms \<noteq> signer_address (sponsor runtime) then refuse ''invalid_upto_stellar_wrong_facilitator''
      else if u_payer terms \<in> set (unsafeInternalAddresses runtime) then refuse ''invalid_upto_stellar_facilitator_is_payer''
      else if num_gt (validAfter terms) (deadline terms) then refuse ''invalid_upto_stellar_invalid_ledger_window''
      else if truthy_str (settlementHook terms) \<and> the (settlementHook terms) \<notin> set (allowedSettlementHooks cfg)
      then refuse ''invalid_upto_stellar_settlement_hook_not_allowed''
      else if settlementHook terms = uptoContract cfg \<or> settlementHook terms = Some (u_token terms)
      then refuse ''invalid_upto_stellar_forbidden_settlement_hook''
      else case paymentIdentifier (paymentPayload request) of
          Some i \<Rightarrow> if settlementId terms \<noteq> settlementIdForPaymentIdentifier (sha256_bytes S) i
            then refuse ''invalid_upto_stellar_settlement_id_mismatch'' else None
        | None \<Rightarrow> None)"

section \<open>Authorizations\<close>

definition findPayerEntry :: "'v operation \<Rightarrow> string \<Rightarrow> verify_response + 'v auth_entry" where
  "findPayerEntry operation payer =
     (case find (\<lambda>candidate. addressOfAuth candidate = Some payer) (coalesce (op_auth operation) []) of
        Some entry \<Rightarrow> if isSignedEnough entry then Inr entry
          else Inl (invalid ''invalid_upto_stellar_missing_payer_signature'' (Some payer) None)
      | None \<Rightarrow> Inl (invalid ''invalid_upto_stellar_missing_payer_signature'' (Some payer) None))"

fun mk_all :: "(string + 'v) list \<Rightarrow> string + 'v list" where
  "mk_all [] = Inr []"
| "mk_all (x # xs) = sum_bind x (\<lambda>v. sum_bind (mk_all xs) (\<lambda>vs. Inr (v # vs)))"

definition hook_value :: "('w, 'v) stellar \<Rightarrow> upto_terms \<Rightarrow> string + 'v" where
  "hook_value S terms = (if truthy_str (settlementHook terms) then mk_address S (the (settlementHook terms)) else Inr (mk_void S))"

definition expected_root :: "('w, 'v) stellar \<Rightarrow> upto_terms \<Rightarrow> string + 'v list" where
  "expected_root S terms = mk_all [mk_address S (u_payTo terms), mk_address S (u_token terms), mk_i128 S (u_maximum terms),
     mk_u32 S (validAfter terms), mk_u32 S (deadline terms), mk_address S (u_facilitator terms),
     mk_bytes S (settlementId terms), hook_value S terms]"

definition expected_approve :: "('w, 'v) stellar \<Rightarrow> upto_terms \<Rightarrow> string \<Rightarrow> string + 'v list" where
  "expected_approve S terms settlementContract = mk_all [mk_address S (u_payer terms), mk_address S settlementContract,
     mk_i128 S (u_maximum terms), mk_u32 S (deadline terms)]"

definition validatePayerTree ::
    "('w, 'v) stellar \<Rightarrow> 'v auth_entry \<Rightarrow> upto_terms \<Rightarrow> string \<Rightarrow> ('w, verify_response option) io" where
  "validatePayerTree S entry terms settlementContract =
     (let refuse = (\<lambda>reason. io_return (Some (invalid reason (Some (u_payer terms)) None)));
          children = subInvocations (rootInvocation entry) in
      case authInvocation (rootInvocation entry) of
        None \<Rightarrow> refuse ''invalid_upto_stellar_payer_auth_root''
      | Some root \<Rightarrow>
        if contract root \<noteq> settlementContract \<or> functionName root \<noteq> ''settle'' \<or> length (args root) \<noteq> 8
        then refuse ''invalid_upto_stellar_payer_auth_root''
        else io_bind (sdk (expected_root S terms)) (\<lambda>expectedRoot.
          if argsXdr S (args root) \<noteq> argsXdr S expectedRoot then refuse ''invalid_upto_stellar_payer_bound_fields''
          else (case children of
              [child] \<Rightarrow> (case authInvocation child of
                  None \<Rightarrow> refuse ''invalid_upto_stellar_wrong_approval_invocation''
                | Some approve \<Rightarrow>
                    if contract approve \<noteq> u_token terms \<or> functionName approve \<noteq> ''approve'' \<or> length (args approve) \<noteq> 4
                    then refuse ''invalid_upto_stellar_wrong_approval_invocation''
                    else io_bind (sdk (expected_approve S terms settlementContract)) (\<lambda>expectedApprove.
                      if argsXdr S (args approve) \<noteq> argsXdr S expectedApprove \<or> subInvocations child \<noteq> []
                      then refuse ''invalid_upto_stellar_approval_mismatch''
                      else io_return None))
            | _ \<Rightarrow> refuse ''invalid_upto_stellar_wrong_subinvocation_count'')))"

definition validateUptoExpiration ::
    "('w, 'v) stellar \<Rightarrow> 'v auth_entry \<Rightarrow> upto_terms \<Rightarrow> int \<Rightarrow> ('w, verify_response option) io" where
  "validateUptoExpiration S entry terms seconds = io_bind (validateAuthExpiration S entry seconds) (\<lambda>generic.
     case generic of
       Some r \<Rightarrow> io_return (Some (with_payer (u_payer terms) r))
     | None \<Rightarrow>
       if signatureExpirationLedger entry = None \<or> num_gt (signatureExpirationLedger entry) (deadline terms)
       then io_return (Some (invalid ''invalid_upto_stellar_expiration_after_deadline'' (Some (u_payer terms)) None))
       else io_bind (get_latest_ledger S) (\<lambda>(latest, _).
         if num_gt (deadline terms) (Some (latest + ceil_ledgers seconds + 2))
         then io_return (Some (invalid ''invalid_upto_stellar_deadline_too_far'' (Some (u_payer terms)) None))
         else io_return None))"

section \<open>The settlement operation and its transfers\<close>

definition settlement_args :: "('w, 'v) stellar \<Rightarrow> upto_terms \<Rightarrow> string + 'v list" where
  "settlement_args S terms = mk_all [mk_address S (u_payer terms), mk_address S (u_payTo terms), mk_address S (u_token terms),
     mk_i128 S (u_maximum terms), mk_u32 S (validAfter terms), mk_u32 S (deadline terms), mk_address S (u_facilitator terms),
     mk_bytes S (settlementId terms), hook_value S terms, mk_i128 S (u_actual terms)]"

definition buildSettlementOperation ::
    "('w, 'v) stellar \<Rightarrow> upto_terms \<Rightarrow> string \<Rightarrow> 'v auth_entry list \<Rightarrow> ('w, 'v built_operation) io" where
  "buildSettlementOperation S terms settlementContract auth = io_bind (sdk (settlement_args S terms)) (\<lambda>as.
     io_return \<lparr> bo_func = ContractFn settlementContract ''settle'' as, bo_auth = auth \<rparr>)"

definition expected_transfers :: "upto_terms \<Rightarrow> string \<Rightarrow> transfer_event list" where
  "expected_transfers terms settlementContract = (let refund = u_maximum terms - u_actual terms in
     [\<lparr> t_from = u_payer terms, t_to = settlementContract, t_amount = u_maximum terms \<rparr>]
     @ (if u_actual terms > 0 then [\<lparr> t_from = settlementContract, t_to = u_payTo terms, t_amount = u_actual terms \<rparr>] else [])
     @ (if refund > 0 then [\<lparr> t_from = settlementContract, t_to = u_payer terms, t_amount = refund \<rparr>] else []))"

definition validateUptoTransfers ::
    "('w, 'v) stellar \<Rightarrow> 'v diagnostic_event list \<Rightarrow> upto_terms \<Rightarrow> string \<Rightarrow> verify_response option" where
  "validateUptoTransfers S es terms settlementContract =
     (if \<not> sameTransfers (tokenTransfers S es (u_token terms)) (expected_transfers terms settlementContract)
      then Some (invalid ''invalid_upto_stellar_unexpected_balance_changes'' (Some (u_payer terms)) None) else None)"

definition parsedPayment :: "network_runtime \<Rightarrow> upto_terms \<Rightarrow> parsed_payment" where
  "parsedPayment runtime terms = \<lparr> pp_scheme = ''upto'', pp_network = n_id (config runtime), pp_payer = u_payer terms,
     pp_maximum = u_maximum terms, pp_actual = u_actual terms \<rparr>"

text \<open>The enforcing simulation with its fee and transfer checks.\<close>

definition enforce_upto ::
    "('w, 'v) stellar \<Rightarrow> network_runtime \<Rightarrow> 'v built_tx \<Rightarrow> upto_terms \<Rightarrow> string \<Rightarrow> ('w, verify_response + 'v simulation) io" where
  "enforce_upto S runtime tx terms settlementContract =
     or_return (refusal_payer (u_payer terms) (simulate S tx Enforce)) (\<lambda>enforcing.
       refuse_if (validateFee S enforcing (uptoFee (config runtime)) (Some (u_payer terms)))
       (refuse_if (validateUptoTransfers S (events enforcing) terms settlementContract)
       (io_return (Inr enforcing))))"

section \<open>Verification\<close>

definition check_facilitator_root ::
    "('w, 'v) stellar \<Rightarrow> network_runtime \<Rightarrow> 'v operation \<Rightarrow> upto_terms \<Rightarrow> verify_response + 'v auth_entry" where
  "check_facilitator_root S runtime operation terms =
     (case find (\<lambda>entry. addressOfAuth entry = Some (signer_address (sponsor runtime))) (coalesce (op_auth operation) []) of
        None \<Rightarrow> Inl (invalid ''invalid_upto_stellar_wrong_auth_count'' (Some (u_payer terms)) None)
      | Some facilitatorEntry \<Rightarrow>
        if length (coalesce (op_auth operation) []) \<noteq> 2
        then Inl (invalid ''invalid_upto_stellar_wrong_auth_count'' (Some (u_payer terms)) None)
        else (case authInvocation (rootInvocation facilitatorEntry) of
            None \<Rightarrow> Inl (invalid ''invalid_upto_stellar_facilitator_auth_tree_mismatch'' (Some (u_payer terms)) None)
          | Some root \<Rightarrow>
            if Some (contract root) \<noteq> uptoContract (config runtime) \<or> functionName root \<noteq> ''settle''
              \<or> length (args root) \<noteq> 10 \<or> argsXdr S (args root) \<noteq> argsXdr S (args (the (operationInvocation operation)))
            then Inl (invalid ''invalid_upto_stellar_facilitator_auth_tree_mismatch'' (Some (u_payer terms)) None)
            else Inr facilitatorEntry))"

definition validateAndSimulate ::
    "('w, 'v) stellar \<Rightarrow> request_envelope \<Rightarrow> network_runtime \<Rightarrow> ('w, verify_response + upto_terms) io" where
  "validateAndSimulate S request runtime =
     refuse_if (validateEnvelope request runtime ''upto'' VerifyPhase)
     (if \<not> truthy_str (uptoContract (config runtime))
      then io_return (Inl (invalid ''unsupported_upto_stellar_contract_not_configured'' None None)) else
     (let settlementContract = the (uptoContract (config runtime)); passphrase = networkPassphrase S (n_id (config runtime));
          seconds = maxTimeoutSeconds (paymentRequirements request); source = signer_address (simulationSource runtime) in
     or_return (returns (parseClientTransaction S (paymentPayload request) passphrase)) (\<lambda>tx.
     or_return (returns (transactionOperation tx (unsafeInternalAddresses runtime))) (\<lambda>operation.
     or_return (returns (parseTerms S operation)) (\<lambda>terms.
     refuse_if (validateTerms S terms request runtime VerifyPhase (u_maximum terms))
     (or_return (returns (findPayerEntry operation (u_payer terms))) (\<lambda>payerEntry.
     io_bind (validatePayerTree S payerEntry terms settlementContract) (\<lambda>treeError.
     refuse_if treeError
     (or_return (returns (check_facilitator_root S runtime operation terms)) (\<lambda>facilitatorEntry.
     io_bind (validateUptoExpiration S payerEntry terms seconds) (\<lambda>expirationError.
     refuse_if expirationError
     (io_bind (buildSourceTransaction S source (operationWithAuth operation []) seconds) (\<lambda>recordingTx.
     or_return (refusal_payer (u_payer terms) (simulate S recordingTx Record)) (\<lambda>_.
     io_bind (signFacilitatorAuth S facilitatorEntry (sponsor runtime) (deadline terms) passphrase) (\<lambda>signedFacilitator.
     io_bind (buildSourceTransaction S source (operationWithAuth operation [cloneAuth payerEntry, signedFacilitator]) seconds)
       (\<lambda>enforcingTx.
     or_return (enforce_upto S runtime enforcingTx terms settlementContract) (\<lambda>_.
     io_return (Inr terms))))))))))))))))))"

definition upto_verify ::
    "('w, 'v) stellar \<Rightarrow> request_envelope \<Rightarrow> network_runtime \<Rightarrow> ('w, verification_result) io" where
  "upto_verify S request runtime = io_bind (validateAndSimulate S request runtime) (\<lambda>x. io_return (case x of
      Inl r \<Rightarrow> \<lparr> response = r, parsed = None \<rparr> | Inr terms \<Rightarrow> accepted_response (parsedPayment runtime terms)))"

section \<open>Preparation\<close>

definition check_recorded ::
    "('w, 'v) stellar \<Rightarrow> network_runtime \<Rightarrow> 'v auth_entry list \<Rightarrow> 'v auth_entry \<Rightarrow> string \<Rightarrow> verify_response + 'v auth_entry" where
  "check_recorded S runtime recordedAuth payerEntry payer =
     (case (find (\<lambda>entry. addressOfAuth entry = Some payer) recordedAuth,
        find (\<lambda>entry. addressOfAuth entry = Some (signer_address (sponsor runtime))) recordedAuth) of
       (Some recordedPayer, Some recordedFacilitator) \<Rightarrow>
         if length recordedAuth \<noteq> 2 then Inl (invalid ''invalid_upto_stellar_recorded_auth_tree'' (Some payer) None)
         else if base64 (tree_xdr S (rootInvocation recordedPayer)) \<noteq> base64 (tree_xdr S (rootInvocation payerEntry))
         then Inl (invalid ''invalid_upto_stellar_payer_auth_tree_mismatch'' (Some payer) None)
         else Inr recordedFacilitator
     | _ \<Rightarrow> Inl (invalid ''invalid_upto_stellar_recorded_auth_tree'' (Some payer) None))"

definition upto_prepare ::
    "('w, 'v) stellar \<Rightarrow> request_envelope \<Rightarrow> network_runtime \<Rightarrow> channel_signer \<Rightarrow>
     ('w, verify_response + prepared_settlement) io" where
  "upto_prepare S request runtime channel =
     refuse_if (validateEnvelope request runtime ''upto'' SettlePhase)
     (case parseInteger (amount (paymentRequirements request)) of
        None \<Rightarrow> io_return (Inl (invalid ''invalid_upto_stellar_actual_malformed'' None None))
      | Some actual \<Rightarrow>
     (let settlementContract = the (uptoContract (config runtime)); passphrase = networkPassphrase S (n_id (config runtime));
          seconds = maxTimeoutSeconds (paymentRequirements request); source = signer_address channel in
     or_return (returns (parseClientTransaction S (paymentPayload request) passphrase)) (\<lambda>clientTransaction.
     or_return (returns (transactionOperation clientTransaction (unsafeInternalAddresses runtime))) (\<lambda>clientOperation.
     or_return (returns (parseTerms S clientOperation)) (\<lambda>terms.
     refuse_if (validateTerms S terms request runtime SettlePhase actual)
     (or_return (returns (findPayerEntry clientOperation (u_payer terms))) (\<lambda>payerEntry.
     io_bind (validatePayerTree S payerEntry terms settlementContract) (\<lambda>treeError.
     refuse_if treeError
     (io_bind (validateUptoExpiration S payerEntry terms seconds) (\<lambda>expirationError.
     refuse_if expirationError
     (io_bind (buildSettlementOperation S (terms\<lparr>u_actual := actual\<rparr>) settlementContract []) (\<lambda>settlementOperation.
     io_bind (buildSourceTransaction S source settlementOperation seconds) (\<lambda>recordingTx.
     or_return (refusal_payer (u_payer terms) (simulate S recordingTx Record)) (\<lambda>recording.
     or_return (returns (check_recorded S runtime (coalesce (sim_auth recording) []) payerEntry (u_payer terms)))
       (\<lambda>recordedFacilitator.
     io_bind (signFacilitatorAuth S recordedFacilitator (sponsor runtime) (deadline terms) passphrase) (\<lambda>facilitatorEntry.
     io_bind (buildSettlementOperation S (terms\<lparr>u_actual := actual\<rparr>) settlementContract [cloneAuth payerEntry, facilitatorEntry])
       (\<lambda>signedOperation.
     io_bind (buildSourceTransaction S source signedOperation seconds) (\<lambda>enforcingTx.
     or_return (enforce_upto S runtime enforcingTx (terms\<lparr>u_actual := actual\<rparr>) settlementContract) (\<lambda>enforcing.
     io_bind (finalizeSponsoredTransaction S enforcingTx enforcing channel (sponsor runtime) passphrase) (\<lambda>final.
     io_return (Inr (preparedFrom S (parsedPayment runtime (terms\<lparr>u_actual := actual\<rparr>)) channel final enforcing))))))))))))))))))))))"

section \<open>Where the money goes\<close>

text \<open>The change of an account's balance under a list of transfers.\<close>

definition balance_change :: "transfer_event list \<Rightarrow> string \<Rightarrow> int" where
  "balance_change ts a = sum_list (map (\<lambda>t. (if t_to t = a then t_amount t else 0) - (if t_from t = a then t_amount t else 0)) ts)"

lemma expected_transfers_balance:
  assumes "0 \<le> u_actual terms" "u_actual terms \<le> u_maximum terms"
  shows "balance_change (expected_transfers terms c) a =
    (if a = u_payTo terms then u_actual terms else 0) - (if a = u_payer terms then u_actual terms else 0)"
  using assms by (auto simp: balance_change_def expected_transfers_def Let_def)

lemma validateUptoTransfers_None:
  "validateUptoTransfers S es terms c = None \<longleftrightarrow> tokenTransfers S es (u_token terms) = expected_transfers terms c"
  by (simp add: validateUptoTransfers_def sameTransfers_iff)

lemma enforce_upto_Inr:
  assumes "enforce_upto S runtime tx terms c w = (Inr (Inr s), w')"
  shows "simulate_transaction S tx Enforce w = (Inr (SimSuccess s), w')
    \<and> tokenTransfers S (events s) (u_token terms) = expected_transfers terms c
    \<and> minResourceFee s + inclusion_fee S \<le> maxTotalFeeStroops (uptoFee (config runtime))"
  using assms
  by (auto simp: enforce_upto_def validateFee_None validateUptoTransfers_None dest!: refusal_payer_Inr simulate_Inr
      elim!: or_return_InrE refuse_if_InrE)

lemma validateTerms_None:
  assumes "validateTerms S terms request runtime ph actual = None"
  shows "Some (u_contract terms) = uptoContract (config runtime)
    \<and> parseInteger (amount (accepted (paymentPayload request))) = Some (u_maximum terms)
    \<and> 0 < u_maximum terms \<and> 0 \<le> actual \<and> actual \<le> u_maximum terms
    \<and> (ph = VerifyPhase \<longrightarrow> u_actual terms = u_maximum terms)
    \<and> u_payTo terms = payTo (paymentRequirements request) \<and> u_token terms = asset (paymentRequirements request)
    \<and> u_facilitator terms = signer_address (sponsor runtime) \<and> u_payer terms \<notin> set (unsafeInternalAddresses runtime)
    \<and> \<not> num_gt (validAfter terms) (deadline terms)
    \<and> (truthy_str (settlementHook terms) \<longrightarrow> the (settlementHook terms) \<in> set (allowedSettlementHooks (config runtime)))
    \<and> settlementHook terms \<noteq> Some (u_contract terms) \<and> settlementHook terms \<noteq> Some (u_token terms)
    \<and> (\<forall>i. paymentIdentifier (paymentPayload request) = Some i \<longrightarrow>
         settlementId terms = settlementIdForPaymentIdentifier (sha256_bytes S) i)"
  using assms by (auto simp: validateTerms_def Let_def split: if_splits option.splits)

lemma findPayerEntry_Inr:
  "findPayerEntry operation payer = Inr entry \<Longrightarrow> entry \<in> set (coalesce (op_auth operation) [])
    \<and> ae_address entry = Some payer \<and> isSignedEnough entry"
  by (auto simp: findPayerEntry_def addressOfAuth_def dest: find_SomeD split: option.splits if_splits)

text \<open>The invocation tree the payer signed, as the checks require it.\<close>

definition payer_tree_ok :: "('w, 'v) stellar \<Rightarrow> 'v auth_entry \<Rightarrow> upto_terms \<Rightarrow> string \<Rightarrow> bool" where
  "payer_tree_ok S entry terms c = (\<exists>root child approve er ea.
     tree_function (rootInvocation entry) = ContractFn c ''settle'' root
     \<and> expected_root S terms = Inr er \<and> concat (map (sc_xdr S) root) = concat (map (sc_xdr S) er)
     \<and> subInvocations (rootInvocation entry) = [child] \<and> subInvocations child = []
     \<and> tree_function child = ContractFn (u_token terms) ''approve'' approve
     \<and> expected_approve S terms c = Inr ea \<and> concat (map (sc_xdr S) approve) = concat (map (sc_xdr S) ea))"

lemma validatePayerTree_None:
  assumes "validatePayerTree S entry terms c w = (Inr None, w')"
  shows "w' = w \<and> payer_tree_ok S entry terms c"
  using assms
  by (auto simp: validatePayerTree_def Let_def payer_tree_ok_def authInvocation_def invocation_of_def argsXdr_def base64_inj
      elim!: io_bind_InrE split: option.splits contract_function.splits if_splits list.splits)

lemma parseTerms_call:
  assumes "parseTerms S operation = Inr terms"
  obtains as where "op_func operation = ContractFn (u_contract terms) ''settle'' as" "length as = 10"
proof -
  obtain call where c: "operationInvocation operation = Some call" "functionName call = ''settle''" "length (args call) = 10"
      "\<exists>sid hook. read_terms S call sid hook = Inr terms"
    using assms by (auto simp: parseTerms_def Let_def split: option.splits if_splits sum.splits)
  have "u_contract terms = contract call" using c(4) by (auto simp: read_terms_def Let_def elim!: sum_bind_InrE)
  then show thesis using c that [of "args call"] by (auto simp: operationInvocation_Some)
qed

text \<open>The declarative reading of an upto authorization: the client's transaction is one call of settle on
  the configured contract with these terms, and the payer signed the entry for exactly them.\<close>

definition authorized_upto ::
    "('w, 'v) stellar \<Rightarrow> request_envelope \<Rightarrow> network_runtime \<Rightarrow> 'v operation \<Rightarrow> 'v auth_entry \<Rightarrow> upto_terms \<Rightarrow> bool" where
  "authorized_upto S request runtime operation entry terms = (\<exists>tr tx c as.
     js_get (payload (paymentPayload request)) ''transaction'' = JStr tr
     \<and> from_xdr S tr (networkPassphrase S (n_id (config runtime))) = Inr (Tx tx)
     \<and> operations tx = [operation] \<and> tx_source tx \<notin> set (unsafeInternalAddresses runtime)
     \<and> op_func operation = ContractFn c ''settle'' as \<and> length as = 10
     \<and> parseTerms S operation = Inr terms
     \<and> uptoContract (config runtime) = Some c \<and> u_contract terms = c
     \<and> entry \<in> set (coalesce (op_auth operation) []) \<and> ae_address entry = Some (u_payer terms) \<and> isSignedEnough entry
     \<and> payer_tree_ok S entry terms c \<and> u_payer terms \<notin> set (unsafeInternalAddresses runtime)
     \<and> parseInteger (amount (accepted (paymentPayload request))) = Some (u_maximum terms) \<and> 0 < u_maximum terms
     \<and> u_payTo terms = payTo (paymentRequirements request) \<and> u_token terms = asset (paymentRequirements request)
     \<and> u_facilitator terms = signer_address (sponsor runtime)
     \<and> \<not> num_gt (validAfter terms) (deadline terms)
     \<and> settlementHook terms \<noteq> Some c \<and> settlementHook terms \<noteq> Some (u_token terms)
     \<and> (truthy_str (settlementHook terms) \<longrightarrow> the (settlementHook terms) \<in> set (allowedSettlementHooks (config runtime)))
     \<and> (\<forall>i. paymentIdentifier (paymentPayload request) = Some i \<longrightarrow>
          settlementId terms = settlementIdForPaymentIdentifier (sha256_bytes S) i))"

text \<open>The signature is live when it is looked at, ends by the deadline, and neither lies too far ahead.\<close>

definition live_authorization ::
    "('w, 'v) stellar \<Rightarrow> request_envelope \<Rightarrow> 'v auth_entry \<Rightarrow> upto_terms \<Rightarrow> bool" where
  "live_authorization S request entry terms = (\<exists>expiration latest closed latest' closed' w w' w''.
     signatureExpirationLedger entry = Some expiration
     \<and> get_latest_ledger S w = (Inr (latest, closed), w') \<and> get_latest_ledger S w' = (Inr (latest', closed'), w'')
     \<and> latest < expiration
     \<and> expiration \<le> latest + ceil_ledgers (maxTimeoutSeconds (paymentRequirements request)) + 2
     \<and> \<not> num_gt (Some expiration) (deadline terms)
     \<and> \<not> num_gt (deadline terms) (Some (latest' + ceil_ledgers (maxTimeoutSeconds (paymentRequirements request)) + 2)))"

lemma validateUptoExpiration_None:
  assumes "validateUptoExpiration S entry terms (maxTimeoutSeconds (paymentRequirements request)) w = (Inr None, w')"
  shows "live_authorization S request entry terms"
proof -
  from assms obtain w1 latest' closed' where
    g: "validateAuthExpiration S entry (maxTimeoutSeconds (paymentRequirements request)) w = (Inr None, w1)"
    and l: "get_latest_ledger S w1 = (Inr (latest', closed'), w')"
    and d: "\<not> num_gt (signatureExpirationLedger entry) (deadline terms)"
      "\<not> num_gt (deadline terms) (Some (latest' + ceil_ledgers (maxTimeoutSeconds (paymentRequirements request)) + 2))"
    by (auto simp: validateUptoExpiration_def elim!: io_bind_InrE split: option.splits if_splits)
  show ?thesis
    using validateAuthExpiration_None [OF g] l d unfolding live_authorization_def by metis
qed

text \<open>The signature of the facilitator: the sponsor's key authorised an entry of the sponsor until the
  deadline.\<close>

definition sponsor_signed ::
    "('w, 'v) stellar \<Rightarrow> network_runtime \<Rightarrow> upto_terms \<Rightarrow> 'v auth_entry \<Rightarrow> 'v auth_entry \<Rightarrow> bool" where
  "sponsor_signed S runtime terms unsigned signed = (
     ae_address unsigned = Some (signer_address (sponsor runtime))
     \<and> authorize_entry S unsigned (secret (sponsor runtime)) (deadline terms) (networkPassphrase S (n_id (config runtime)))
         = Inr signed)"

lemma sponsor_signedI:
  assumes "signFacilitatorAuth S unsigned (sponsor runtime) (deadline terms)
      (networkPassphrase S (n_id (config runtime))) w = (Inr signed, w')"
    and "ae_address unsigned = Some (signer_address (sponsor runtime))"
  shows "sponsor_signed S runtime terms unsigned signed"
  using assms by (auto simp: sponsor_signed_def signFacilitatorAuth_def cloneAuth_def)

text \<open>The simulated outcome: the enforcing simulation of this transaction moved the token exactly as the
  settlement does, within the fee ceiling.\<close>

definition simulated_settlement ::
    "('w, 'v) stellar \<Rightarrow> network_runtime \<Rightarrow> upto_terms \<Rightarrow> 'v built_tx \<Rightarrow> 'v simulation \<Rightarrow> bool" where
  "simulated_settlement S runtime terms tx s = (\<exists>w w'.
     simulate_transaction S tx Enforce w = (Inr (SimSuccess s), w')
     \<and> tokenTransfers S (events s) (u_token terms) = expected_transfers terms (the (uptoContract (config runtime)))
     \<and> minResourceFee s + inclusion_fee S \<le> maxTotalFeeStroops (uptoFee (config runtime)))"

lemma authorized_uptoI:
  assumes "parseClientTransaction S (paymentPayload request) (networkPassphrase S (n_id (config runtime))) = Inr tx"
    and "transactionOperation tx (unsafeInternalAddresses runtime) = Inr operation"
    and "parseTerms S operation = Inr terms"
    and "validateTerms S terms request runtime ph actual = None"
    and "findPayerEntry operation (u_payer terms) = Inr entry"
    and "validatePayerTree S entry terms (the (uptoContract (config runtime))) w = (Inr None, w')"
  shows "authorized_upto S request runtime operation entry terms"
proof -
  obtain as where "op_func operation = ContractFn (u_contract terms) ''settle'' as" "length as = 10"
    using assms(3) by (rule parseTerms_call)
  then show ?thesis
    using assms(1,2,3) validateTerms_None [OF assms(4)] findPayerEntry_Inr [OF assms(5)] validatePayerTree_None [OF assms(6)]
    unfolding authorized_upto_def parseClientTransaction_Inr transactionOperation_Inr by (metis option.sel)
qed

lemma check_facilitator_root_Inr:
  assumes "check_facilitator_root S runtime operation terms = Inr f"
  shows "f \<in> set (coalesce (op_auth operation) []) \<and> length (coalesce (op_auth operation) []) = 2
    \<and> ae_address f = Some (signer_address (sponsor runtime))"
  using assms by (auto simp: check_facilitator_root_def addressOfAuth_def dest: find_SomeD split: option.splits if_splits)

lemma check_recorded_Inr:
  assumes "check_recorded S runtime recorded entry payer = Inr f"
  shows "f \<in> set recorded \<and> ae_address f = Some (signer_address (sponsor runtime))"
  using assms by (auto simp: check_recorded_def addressOfAuth_def dest: find_SomeD split: option.splits if_splits)

lemma validateAndSimulate_Inr:
  assumes "validateAndSimulate S request runtime w = (Inr (Inr terms), w')"
  shows "\<exists>operation entry unsigned signed tx s. authorized_upto S request runtime operation entry terms
    \<and> live_authorization S request entry terms \<and> u_actual terms = u_maximum terms
    \<and> validateEnvelope request runtime ''upto'' VerifyPhase = None
    \<and> unsigned \<in> set (coalesce (op_auth operation) []) \<and> sponsor_signed S runtime terms unsigned signed
    \<and> bt_source tx = signer_address (simulationSource runtime)
    \<and> bt_operation tx = operationWithAuth operation [entry, signed]
    \<and> simulated_settlement S runtime terms tx s"
proof -
  from assms obtain tx operation payerEntry w0 w1 w2 w3 facilitatorEntry signed wa wb wc wd enforcingTx s w4 where
    env: "validateEnvelope request runtime ''upto'' VerifyPhase = None"
    and tx: "parseClientTransaction S (paymentPayload request) (networkPassphrase S (n_id (config runtime))) = Inr tx"
    and op: "transactionOperation tx (unsafeInternalAddresses runtime) = Inr operation"
    and terms: "parseTerms S operation = Inr terms"
    and ok: "validateTerms S terms request runtime VerifyPhase (u_maximum terms) = None"
    and entry: "findPayerEntry operation (u_payer terms) = Inr payerEntry"
    and tree: "validatePayerTree S payerEntry terms (the (uptoContract (config runtime))) w0 = (Inr None, w1)"
    and root: "check_facilitator_root S runtime operation terms = Inr facilitatorEntry"
    and live: "validateUptoExpiration S payerEntry terms (maxTimeoutSeconds (paymentRequirements request)) wa = (Inr None, wb)"
    and sign: "signFacilitatorAuth S facilitatorEntry (sponsor runtime) (deadline terms)
        (networkPassphrase S (n_id (config runtime))) wc = (Inr signed, wd)"
    and build: "buildSourceTransaction S (signer_address (simulationSource runtime))
        (operationWithAuth operation [cloneAuth payerEntry, signed])
        (maxTimeoutSeconds (paymentRequirements request)) w2 = (Inr enforcingTx, w3)"
    and enf: "enforce_upto S runtime enforcingTx terms (the (uptoContract (config runtime))) w3 = (Inr (Inr s), w4)"
    unfolding validateAndSimulate_def Let_def
    by (elim refuse_if_InrE)
      (auto simp: returns_Inr elim!: refuse_if_InrE or_return_InrE io_bind_InrE split: if_splits)
  have "simulated_settlement S runtime terms enforcingTx s"
    unfolding simulated_settlement_def using enforce_upto_Inr [OF enf] by blast
  then show ?thesis
    using env validateTerms_None [OF ok] authorized_uptoI [OF tx op terms ok entry tree] validateUptoExpiration_None [OF live]
      check_facilitator_root_Inr [OF root] sponsor_signedI [OF sign] buildSourceTransaction_Inr [OF build]
    unfolding cloneAuth_def by blast
qed

lemma buildSettlementOperation_Inr:
  assumes "buildSettlementOperation S terms c auth w = (Inr op, w')"
  obtains as where "settlement_args S terms = Inr as" "op = \<lparr> bo_func = ContractFn c ''settle'' as, bo_auth = auth \<rparr>"
  using assms by (auto simp: buildSettlementOperation_def elim!: io_bind_InrE)

text \<open>The transaction that settles: the settle call with the actual amount, under the payer's entry and
  an entry of the recording simulation signed by the sponsor.\<close>

definition settlement_tx ::
    "('w, 'v) stellar \<Rightarrow> network_runtime \<Rightarrow> channel_signer \<Rightarrow> 'v auth_entry \<Rightarrow> upto_terms \<Rightarrow> 'v built_tx \<Rightarrow> bool" where
  "settlement_tx S runtime channel entry terms tx = (\<exists>recordingTx recording w w' unsigned signed as.
     simulate_transaction S recordingTx Record w = (Inr (SimSuccess recording), w')
     \<and> unsigned \<in> set (coalesce (sim_auth recording) []) \<and> sponsor_signed S runtime terms unsigned signed
     \<and> settlement_args S terms = Inr as
     \<and> bo_func (bt_operation recordingTx) = ContractFn (u_contract terms) ''settle'' as
     \<and> bt_source tx = signer_address channel
     \<and> bt_operation tx = \<lparr> bo_func = ContractFn (u_contract terms) ''settle'' as, bo_auth = [entry, signed] \<rparr>)"

lemma upto_prepare_Inr:
  assumes "upto_prepare S request runtime channel w = (Inr (Inr p), w')"
  shows "\<exists>operation entry terms actual tx s final. authorized_upto S request runtime operation entry terms
    \<and> live_authorization S request entry terms
    \<and> parseInteger (amount (paymentRequirements request)) = Some actual \<and> 0 \<le> actual \<and> actual \<le> u_maximum terms
    \<and> validateEnvelope request runtime ''upto'' SettlePhase = None
    \<and> settlement_tx S runtime channel entry (terms\<lparr>u_actual := actual\<rparr>) tx
    \<and> simulated_settlement S runtime (terms\<lparr>u_actual := actual\<rparr>) tx s
    \<and> finalize_tx S tx s channel (sponsor runtime) (networkPassphrase S (n_id (config runtime))) = Inr final
    \<and> p = preparedFrom S (parsedPayment runtime (terms\<lparr>u_actual := actual\<rparr>)) channel final s"
proof -
  from assms obtain actual tx operation terms payerEntry w0 w1 w2 w3 wa wb wc wd we wf wg wh wi wj wk wl
      op1 op2 recordingTx recording facilitator signed enforcingTx s w4 final where
    env: "validateEnvelope request runtime ''upto'' SettlePhase = None"
    and actual: "parseInteger (amount (paymentRequirements request)) = Some actual"
    and tx: "parseClientTransaction S (paymentPayload request) (networkPassphrase S (n_id (config runtime))) = Inr tx"
    and op: "transactionOperation tx (unsafeInternalAddresses runtime) = Inr operation"
    and terms: "parseTerms S operation = Inr terms"
    and ok: "validateTerms S terms request runtime SettlePhase actual = None"
    and entry: "findPayerEntry operation (u_payer terms) = Inr payerEntry"
    and tree: "validatePayerTree S payerEntry terms (the (uptoContract (config runtime))) w0 = (Inr None, w1)"
    and live: "validateUptoExpiration S payerEntry terms (maxTimeoutSeconds (paymentRequirements request)) wa = (Inr None, wb)"
    and bop1: "buildSettlementOperation S (terms\<lparr>u_actual := actual\<rparr>) (the (uptoContract (config runtime))) [] wc = (Inr op1, wd)"
    and build1: "buildSourceTransaction S (signer_address channel) op1
        (maxTimeoutSeconds (paymentRequirements request)) we = (Inr recordingTx, wf)"
    and rec: "refusal_payer (u_payer terms) (simulate S recordingTx Record) wg = (Inr (Inr recording), wh)"
    and recorded: "check_recorded S runtime (coalesce (sim_auth recording) []) payerEntry (u_payer terms) = Inr facilitator"
    and sign: "signFacilitatorAuth S facilitator (sponsor runtime) (deadline terms)
        (networkPassphrase S (n_id (config runtime))) wi = (Inr signed, wj)"
    and bop: "buildSettlementOperation S (terms\<lparr>u_actual := actual\<rparr>) (the (uptoContract (config runtime)))
        [cloneAuth payerEntry, signed] wk = (Inr op2, wl)"
    and build: "buildSourceTransaction S (signer_address channel) op2
        (maxTimeoutSeconds (paymentRequirements request)) w2 = (Inr enforcingTx, w3)"
    and enf: "enforce_upto S runtime enforcingTx (terms\<lparr>u_actual := actual\<rparr>) (the (uptoContract (config runtime))) w3
        = (Inr (Inr s), w4)"
    and fin: "finalize_tx S enforcingTx s channel (sponsor runtime) (networkPassphrase S (n_id (config runtime))) = Inr final"
    and p: "p = preparedFrom S (parsedPayment runtime (terms\<lparr>u_actual := actual\<rparr>)) channel final s"
    unfolding upto_prepare_def Let_def
    by (elim refuse_if_InrE)
      (auto simp: returns_Inr finalizeSponsoredTransaction_def elim!: refuse_if_InrE or_return_InrE io_bind_InrE
        split: option.splits)
  have c: "the (uptoContract (config runtime)) = u_contract terms" using validateTerms_None [OF ok] by (metis option.sel)
  obtain as where as: "settlement_args S (terms\<lparr>u_actual := actual\<rparr>) = Inr as"
      "op1 = \<lparr> bo_func = ContractFn (u_contract terms) ''settle'' as, bo_auth = [] \<rparr>"
    using bop1 unfolding c by (rule buildSettlementOperation_Inr)
  have op2: "op2 = \<lparr> bo_func = ContractFn (u_contract terms) ''settle'' as, bo_auth = [payerEntry, signed] \<rparr>"
    using bop as(1) unfolding c cloneAuth_def by (auto elim: buildSettlementOperation_Inr)
  have "sponsor_signed S runtime terms facilitator signed"
    using sponsor_signedI [OF sign] check_recorded_Inr [OF recorded] by simp
  then have "sponsor_signed S runtime (terms\<lparr>u_actual := actual\<rparr>) facilitator signed" by (simp add: sponsor_signed_def)
  then have "settlement_tx S runtime channel payerEntry (terms\<lparr>u_actual := actual\<rparr>) enforcingTx"
    unfolding settlement_tx_def
    using simulate_Inr [OF refusal_payer_Inr [OF rec]] check_recorded_Inr [OF recorded] as op2
      buildSourceTransaction_Inr [OF build1] buildSourceTransaction_Inr [OF build]
    by (intro exI [of _ recordingTx] exI [of _ recording] exI [of _ wg] exI [of _ wh] exI [of _ facilitator]
        exI [of _ signed] exI [of _ as]) simp
  moreover have "simulated_settlement S runtime (terms\<lparr>u_actual := actual\<rparr>) enforcingTx s"
    unfolding simulated_settlement_def using enforce_upto_Inr [OF enf] by auto
  ultimately show ?thesis
    using authorized_uptoI [OF tx op terms ok entry tree] validateUptoExpiration_None [OF live] validateTerms_None [OF ok]
      actual env fin p by blast
qed

end
