(* ===== verification/Mechanism_Properties.thy ===== *)
theory Mechanism_Properties
  imports Upto_Mechanism
begin

text \<open>
  The properties of the two payment mechanisms (facilitator/src/stellar/), and a concrete SDK on
  which they are exercised: contract values are JSON values, the world is a list of ledgers.
\<close>

section \<open>A refusal is never a valid response\<close>

definition refuses_invalid :: "('w, verify_response + 'a) io \<Rightarrow> bool" where
  "refuses_invalid m = (\<forall>w r w'. m w = (Inr (Inl r), w') \<longrightarrow> \<not> isValid r)"

lemma refuses_or_return:
  "refuses_invalid m \<Longrightarrow> (\<And>a. refuses_invalid (k a)) \<Longrightarrow> refuses_invalid (or_return m k)"
  unfolding refuses_invalid_def or_return_def by (fastforce elim!: io_bind_InrE split: sum.splits)

lemma refuses_io_bind: "(\<And>x. refuses_invalid (k x)) \<Longrightarrow> refuses_invalid (io_bind m k)"
  unfolding refuses_invalid_def by (fastforce elim!: io_bind_InrE)

lemma refuses_refuse_if:
  "(\<And>r. e = Some r \<Longrightarrow> \<not> isValid r) \<Longrightarrow> refuses_invalid k \<Longrightarrow> refuses_invalid (refuse_if e k)"
  unfolding refuses_invalid_def refuse_if_def by (auto split: option.splits)

lemma refuses_return: "(\<And>r. x = Inl r \<Longrightarrow> \<not> isValid r) \<Longrightarrow> refuses_invalid (io_return x)"
  unfolding refuses_invalid_def by auto

lemma refuses_returns: "(\<And>r. x = Inl r \<Longrightarrow> \<not> isValid r) \<Longrightarrow> refuses_invalid (returns x)"
  unfolding returns_def by (rule refuses_return)

lemma refuses_refusal_payer: "refuses_invalid m \<Longrightarrow> refuses_invalid (refusal_payer p m)"
  unfolding refuses_invalid_def refusal_payer_def by (fastforce elim!: io_bind_InrE simp: with_payer_def split: sum.splits)

lemma refuses_simulate: "refuses_invalid (simulate S tx mode)"
  unfolding refuses_invalid_def simulate_def sim_failed_def
  by (auto simp: io_catch_def io_bind_def split: prod.splits sum.splits sim_response.splits)

lemma refuses_if: "(c \<Longrightarrow> refuses_invalid a) \<Longrightarrow> (\<not> c \<Longrightarrow> refuses_invalid b) \<Longrightarrow> refuses_invalid (if c then a else b)"
  by simp

lemmas refuses_intros = refuses_or_return refuses_io_bind refuses_refuse_if refuses_return refuses_returns
  refuses_refusal_payer refuses_simulate refuses_if

lemma with_payer_valid [simp]: "isValid (with_payer p r) = isValid r"
  by (simp add: with_payer_def)

lemma envelope_invalid: "validateEnvelope request runtime sch ph = Some r \<Longrightarrow> \<not> isValid r"
  by (auto simp: validateEnvelope_def Let_def split: if_splits option.splits)

lemma parse_invalid: "parseClientTransaction S p ph = Inl r \<Longrightarrow> \<not> isValid r"
  by (auto simp: parseClientTransaction_def split: js.splits sum.splits parsed_tx.splits)

lemma operation_invalid: "transactionOperation tx internal = Inl r \<Longrightarrow> \<not> isValid r"
  by (auto simp: transactionOperation_def split: list.splits if_splits)

lemma terms_invalid: "check_terms request runtime upstream t = Some r \<Longrightarrow> \<not> isValid r"
  by (auto simp: check_terms_def Let_def split: if_splits)

lemma auth_invalid: "check_auth S operation call from = Inl r \<Longrightarrow> \<not> isValid r"
  by (auto simp: check_auth_def split: option.splits list.splits if_splits)

lemma fee_invalid: "validateFee S s profile p = Some r \<Longrightarrow> \<not> isValid r"
  by (auto simp: validateFee_def Let_def split: if_splits)

lemma transfer_invalid: "validateExactTransferEvents S es a t = Some r \<Longrightarrow> \<not> isValid r"
  by (auto simp: validateExactTransferEvents_def split: sum.splits if_splits)

lemma expiration_invalid:
  "validateAuthExpiration S entry seconds w = (Inr (Some r), w') \<Longrightarrow> \<not> isValid r"
  by (auto simp: validateAuthExpiration_def elim!: io_bind_InrE split: option.splits if_splits)

lemma refuses_bind_checked:
  "(\<And>w r w'. m w = (Inr (Some r), w') \<Longrightarrow> \<not> isValid r) \<Longrightarrow> refuses_invalid k \<Longrightarrow> (\<And>r. isValid (f r) = isValid r) \<Longrightarrow>
    refuses_invalid (io_bind m (\<lambda>e. refuse_if (map_option f e) k))"
  unfolding refuses_invalid_def refuse_if_def by (fastforce elim!: io_bind_InrE split: option.splits)

lemma refuses_upstream: "refuses_invalid (upstream_step S request runtime)"
  unfolding refuses_invalid_def upstream_step_def
  by (auto simp: io_catch_def io_bind_def split: prod.splits sum.splits if_splits)

lemma refuses_enforce_exact: "refuses_invalid (enforce_exact S runtime tx a t)"
  unfolding enforce_exact_def
  by (intro refuses_or_return refuses_refusal_payer refuses_simulate refuses_refuse_if refuses_return)
    (auto dest: fee_invalid transfer_invalid)

lemma refuses_exact_checks: "refuses_invalid (exact_checks S request runtime)"
  unfolding exact_checks_def Let_def
  by (intro refuses_refuse_if refuses_or_return refuses_upstream refuses_returns refuses_if refuses_io_bind
      refuses_bind_checked refuses_return refuses_enforce_exact;
      auto dest: envelope_invalid parse_invalid operation_invalid terms_invalid auth_invalid expiration_invalid)

lemma exact_valid:
  assumes "exact_verify S request runtime w = (Inr v, w')" "isValid (response v)"
  obtains p where "exact_checks S request runtime w = (Inr (Inr p), w')" "v = accepted_response p"
  using assms refuses_exact_checks [of S request runtime]
  by (elim exact_verify_valid) (auto simp: refuses_invalid_def)

lemma parseTerms_invalid: "parseTerms S operation = Inl r \<Longrightarrow> \<not> isValid r"
  by (auto simp: parseTerms_def Let_def split: option.splits sum.splits if_splits)

lemma validateTerms_invalid: "validateTerms S terms request runtime ph actual = Some r \<Longrightarrow> \<not> isValid r"
  by (auto simp: validateTerms_def Let_def split: option.splits if_splits)

lemma payer_entry_invalid: "findPayerEntry operation payer = Inl r \<Longrightarrow> \<not> isValid r"
  by (auto simp: findPayerEntry_def split: option.splits if_splits)

lemma payer_tree_invalid: "validatePayerTree S entry terms c w = (Inr (Some r), w') \<Longrightarrow> \<not> isValid r"
  by (auto simp: validatePayerTree_def Let_def elim!: io_bind_InrE split: option.splits if_splits list.splits)

lemma upto_expiration_invalid: "validateUptoExpiration S entry terms seconds w = (Inr (Some r), w') \<Longrightarrow> \<not> isValid r"
  by (auto simp: validateUptoExpiration_def dest!: expiration_invalid elim!: io_bind_InrE split: option.splits if_splits)

lemma facilitator_root_invalid: "check_facilitator_root S runtime operation terms = Inl r \<Longrightarrow> \<not> isValid r"
  by (auto simp: check_facilitator_root_def split: option.splits if_splits)

lemma upto_transfer_invalid: "validateUptoTransfers S es terms c = Some r \<Longrightarrow> \<not> isValid r"
  by (auto simp: validateUptoTransfers_def split: if_splits)

lemma refuses_enforce_upto: "refuses_invalid (enforce_upto S runtime tx terms c)"
  unfolding enforce_upto_def
  by (intro refuses_or_return refuses_refusal_payer refuses_simulate refuses_refuse_if refuses_return)
    (auto dest: fee_invalid upto_transfer_invalid)

lemma refuses_bind_refuse:
  "(\<And>w r w'. m w = (Inr (Some r), w') \<Longrightarrow> \<not> isValid r) \<Longrightarrow> refuses_invalid k \<Longrightarrow>
    refuses_invalid (io_bind m (\<lambda>e. refuse_if e k))"
  unfolding refuses_invalid_def refuse_if_def by (fastforce elim!: io_bind_InrE split: option.splits)

lemma refuses_validateAndSimulate: "refuses_invalid (validateAndSimulate S request runtime)"
  unfolding validateAndSimulate_def Let_def
  by (intro refuses_refuse_if refuses_or_return refuses_returns refuses_if refuses_bind_refuse refuses_io_bind
      refuses_return refuses_enforce_upto refuses_refusal_payer refuses_simulate;
      auto dest: envelope_invalid parse_invalid operation_invalid parseTerms_invalid validateTerms_invalid
        payer_entry_invalid payer_tree_invalid upto_expiration_invalid facilitator_root_invalid)

lemma upto_valid:
  assumes "upto_verify S request runtime w = (Inr v, w')" "isValid (response v)"
  obtains terms where "validateAndSimulate S request runtime w = (Inr (Inr terms), w')"
    "v = accepted_response (parsedPayment runtime terms)"
proof -
  obtain x where x: "validateAndSimulate S request runtime w = (Inr x, w')"
      "v = (case x of Inl r \<Rightarrow> \<lparr> response = r, parsed = None \<rparr> | Inr terms \<Rightarrow> accepted_response (parsedPayment runtime terms))"
    using assms(1) by (auto simp: upto_verify_def elim!: io_bind_InrE)
  show thesis
  proof (cases x)
    case (Inl r)
    then have "\<not> isValid r"
      using x(1) refuses_validateAndSimulate [of S request runtime] unfolding refuses_invalid_def by blast
    then show thesis using x(2) Inl assms(2) by simp
  next
    case (Inr terms)
    then show thesis using x that by simp
  qed
qed

section \<open>A concrete SDK\<close>

definition demo_auth :: "string \<Rightarrow> js auth_tree \<Rightarrow> js auth_entry" where
  "demo_auth a t = \<lparr> credentialType = ''address'', ae_address = Some a, ae_signed = True, signers = [],
     signatureExpirationLedger = Some 105, rootInvocation = t \<rparr>"

definition demo_tx :: "js client_tx \<Rightarrow> ('w, js) stellar" where
  "demo_tx tx = \<lparr> public_passphrase = ''public'', testnet_passphrase = ''test'', base_fee = 100,
     from_xdr = (\<lambda>x _. if x = ''AAAA'' then Inr (Tx tx) else Inl ''bad xdr''),
     sc_string = (\<lambda>v. case v of JStr t \<Rightarrow> Inr t | _ \<Rightarrow> Inl ''not a string''),
     sc_bigint = (\<lambda>v. case v of JNum n \<Rightarrow> Inr n | _ \<Rightarrow> Inl ''not a number''),
     sc_number = (\<lambda>v. case v of JNum n \<Rightarrow> Inr (Some n) | _ \<Rightarrow> Inr None),
     sc_bytes = (\<lambda>v. case v of JStr t \<Rightarrow> Inr t | _ \<Rightarrow> Inl ''not bytes''),
     sc_text = (\<lambda>v. case v of JStr t \<Rightarrow> Inr (Some t) | _ \<Rightarrow> Inr None),
     sc_symbol = (\<lambda>v. case v of JStr t \<Rightarrow> Some t | _ \<Rightarrow> None),
     sc_xdr = json_text, mk_address = (\<lambda>a. Inr (JStr a)), mk_i128 = (\<lambda>n. Inr (JNum n)),
     mk_u32 = (\<lambda>n. case n of Some k \<Rightarrow> Inr (JNum k) | None \<Rightarrow> Inl ''not a u32''), mk_bytes = (\<lambda>b. Inr (JStr b)),
     mk_void = JNull, tree_xdr = (\<lambda>t. ''tree''), authorize_entry = (\<lambda>e _ _ _. Inr e),
     finalize_tx = (\<lambda>tx _ _ _ _. Inr \<lparr> f_xdr = ''BBBB'', f_hash = ''h1'', f_sequence = bt_sequence tx \<rparr>),
     get_latest_ledger = io_return (100, 0), get_account = (\<lambda>_. io_return 41),
     simulate_transaction = (\<lambda>tx mode. io_return (SimSuccess \<lparr> minResourceFee = 50,
       events = (case bo_func (bt_operation tx) of
           ContractFn c n as \<Rightarrow> if n = ''transfer''
             then [Event ''contract'' (Some c) [JStr ''transfer'', as ! 0, as ! 1] (as ! 2)]
             else [Event ''contract'' (Some ''CTOKEN'') [JStr ''transfer'', as ! 0, JStr c] (as ! 3),
                   Event ''contract'' (Some ''CTOKEN'') [JStr ''transfer'', JStr c, as ! 1] (as ! 9)]
               @ (case (as ! 3, as ! 9) of (JNum m, JNum k) \<Rightarrow> if m > k
                   then [Event ''contract'' (Some ''CTOKEN'') [JStr ''transfer'', JStr c, as ! 0] (JNum (m - k))] else []
                 | _ \<Rightarrow> [])
         | OtherFn \<Rightarrow> []),
       sim_auth = Some [demo_auth ''GPAYER'' (AuthTree OtherFn []), demo_auth ''GSPON'' (AuthTree OtherFn [])] \<rparr>)),
     protocol_verify = (\<lambda>_ _. io_return \<lparr> isValid = True, invalidReason = None, v_payer = Some ''GPAYER'',
       invalidMessage = None \<rparr>),
     sha256_bytes = (\<lambda>s. s) \<rparr>"

definition demo_req :: "string \<Rightarrow> requirements" where
  "demo_req s = \<lparr> scheme = s, network = ''stellar:testnet'', asset = ''CTOKEN'', amount = ''7'', payTo = ''GPAYEE'',
     maxTimeoutSeconds = 60, extra = JObj [(''areFeesSponsored'', JBool True)] \<rparr>"

definition demo_env :: "string \<Rightarrow> request_envelope" where
  "demo_env s = \<lparr> r_version = 2, paymentPayload = \<lparr> p_version = 2, resource = JUndef, accepted = demo_req s,
     payload = JObj [(''transaction'', JStr ''AAAA'')], extensions = JUndef \<rparr>, paymentRequirements = demo_req s \<rparr>"

definition demo_runtime :: network_runtime where
  "demo_runtime = \<lparr> config = \<lparr> n_id = ''stellar:testnet'', enabled = True, uptoContract = Some ''CUPTO'',
       allowedAssets = [(''CTOKEN'', \<lparr> symbol = ''USDC'', decimals = 7, maxPayment = 1000 \<rparr>)],
       allowedSettlementHooks = [], c_maxTimeoutSeconds = 300,
       exactFee = \<lparr> maxResourceFeeStroops = 1000, maxInclusionFeeStroops = 1000, maxTotalFeeStroops = 2000 \<rparr>,
       uptoFee = \<lparr> maxResourceFeeStroops = 1000, maxInclusionFeeStroops = 1000, maxTotalFeeStroops = 2000 \<rparr> \<rparr>,
     sponsor = \<lparr> signer_address = ''GSPON'', secret = ''S1'' \<rparr>,
     simulationSource = \<lparr> signer_address = ''GCHAN'', secret = ''S2'' \<rparr>,
     unsafeInternalAddresses = [''GSPON'', ''GCHAN''] \<rparr>"

definition demo_channel :: channel_signer where
  "demo_channel = \<lparr> signer_address = ''GCHAN'', secret = ''S2'' \<rparr>"

definition demo_exact_args :: "js list" where
  "demo_exact_args = [JStr ''GPAYER'', JStr ''GPAYEE'', JNum 7]"

definition demo_exact :: "('w, js) stellar" where
  "demo_exact = demo_tx \<lparr> tx_source = ''GPAYER'', operations = [\<lparr> op_type = ''invokeHostFunction'', op_source = None,
     op_func = ContractFn ''CTOKEN'' ''transfer'' demo_exact_args,
     op_auth = Some [demo_auth ''GPAYER'' (AuthTree (ContractFn ''CTOKEN'' ''transfer'' demo_exact_args) [])] \<rparr>] \<rparr>"

definition demo_parsed :: "string \<Rightarrow> parsed_payment" where
  "demo_parsed s = \<lparr> pp_scheme = s, pp_network = ''stellar:testnet'', pp_payer = ''GPAYER'', pp_maximum = 7, pp_actual = 7 \<rparr>"

lemma demo_exact_eval:
  "exact_verify demo_exact (demo_env ''exact'') demo_runtime () = (Inr (accepted_response (demo_parsed ''exact'')), ())"
  by code_simp

lemma demo_exact_prepare_eval:
  "exact_prepare demo_exact (demo_env ''exact'') demo_runtime demo_channel () =
    (Inr (Inr (preparedFrom (demo_exact :: (unit, js) stellar) (demo_parsed ''exact'') demo_channel
       \<lparr> f_xdr = ''BBBB'', f_hash = ''h1'', f_sequence = 42 \<rparr>
       \<lparr> minResourceFee = 50, events = [], sim_auth = None \<rparr>)), ())"
  by code_simp

definition demo_sid :: string where
  "demo_sid = ''0123456789abcdef0123456789abcdef''"

definition demo_upto_args :: "js list" where
  "demo_upto_args = [JStr ''GPAYER'', JStr ''GPAYEE'', JStr ''CTOKEN'', JNum 7, JNum 90, JNum 110, JStr ''GSPON'',
     JStr demo_sid, JNull, JNum 7]"

definition demo_upto :: "('w, js) stellar" where
  "demo_upto = demo_tx \<lparr> tx_source = ''GPAYER'', operations = [\<lparr> op_type = ''invokeHostFunction'', op_source = None,
     op_func = ContractFn ''CUPTO'' ''settle'' demo_upto_args,
     op_auth = Some [demo_auth ''GPAYER'' (AuthTree (ContractFn ''CUPTO'' ''settle'' (take 8 (tl demo_upto_args)))
         [AuthTree (ContractFn ''CTOKEN'' ''approve'' [JStr ''GPAYER'', JStr ''CUPTO'', JNum 7, JNum 110]) []]),
       demo_auth ''GSPON'' (AuthTree (ContractFn ''CUPTO'' ''settle'' demo_upto_args) [])] \<rparr>] \<rparr>"

definition demo_upto_request :: "string \<Rightarrow> request_envelope" where
  "demo_upto_request n = (demo_env ''upto'')\<lparr>paymentRequirements := (demo_req ''upto'')\<lparr>amount := n\<rparr>\<rparr>"

lemma demo_upto_eval:
  "upto_verify demo_upto (demo_env ''upto'') demo_runtime () = (Inr (accepted_response (demo_parsed ''upto'')), ())"
  by code_simp

lemma demo_upto_prepare_eval:
  "upto_prepare demo_upto (demo_upto_request ''3'') demo_runtime demo_channel () =
    (Inr (Inr (preparedFrom (demo_upto :: (unit, js) stellar) ((demo_parsed ''upto'')\<lparr>pp_actual := 3\<rparr>) demo_channel
       \<lparr> f_xdr = ''BBBB'', f_hash = ''h1'', f_sequence = 42 \<rparr>
       \<lparr> minResourceFee = 50, events = [], sim_auth = None \<rparr>)), ())"
  by code_simp

section \<open>Properties\<close>

text \<open>C7: A valid exact verification is a payment.  Whatever the protocol verifier and the RPC server
  answer, when verify says valid then the client's transaction is a single transfer call on the
  required asset, from a payer that is neither sponsor nor channel to the required payee, of exactly
  the required amount, which is positive and within the asset's limit; the payer signed exactly that
  call with no sub-invocation and an authorization that is live but not too long; and an enforcing
  simulation of it emitted exactly this one transfer of the token within the fee ceiling.\<close>

theorem exact_verification_sound:
  assumes "exact_verify S request runtime w = (Inr v, w')" and "isValid (response v)"
  shows "\<exists>operation t a auth expiration latest closed w1 w2.
      authorized_exact S request runtime operation t
    \<and> e_to t = payTo (paymentRequirements request)
    \<and> parseInteger (amount (paymentRequirements request)) = Some (e_amount t)
    \<and> map_of (allowedAssets (config runtime)) (asset (paymentRequirements request)) = Some a
    \<and> 0 < e_amount t \<and> e_amount t \<le> maxPayment a
    \<and> op_auth operation = Some [auth] \<and> signatureExpirationLedger auth = Some expiration
    \<and> get_latest_ledger S w1 = (Inr (latest, closed), w2) \<and> latest < expiration
    \<and> expiration \<le> latest + ceil_ledgers (maxTimeoutSeconds (paymentRequirements request)) + 2
    \<and> simulated_transfer S (exactFee (config runtime)) (signer_address (simulationSource runtime))
         (asset (paymentRequirements request)) operation (expected_transfer t)
    \<and> v_payer (response v) = Some (e_from t)
    \<and> parsed v = Some \<lparr> pp_scheme = ''exact'', pp_network = n_id (config runtime), pp_payer = e_from t,
         pp_maximum = e_amount t, pp_actual = e_amount t \<rparr>"
proof -
  obtain p where p: "exact_checks S request runtime w = (Inr (Inr p), w')" "v = accepted_response p"
    using exact_valid [OF assms] .
  obtain operation t auth expiration latest closed w1 w2 where f: "authorized_exact S request runtime operation t"
      "e_to t = payTo (paymentRequirements request)" "parseInteger (amount (paymentRequirements request)) = Some (e_amount t)"
      "validateEnvelope request runtime ''exact'' VerifyPhase = None"
      "op_auth operation = Some [auth]" "signatureExpirationLedger auth = Some expiration"
      "get_latest_ledger S w1 = (Inr (latest, closed), w2)" "latest < expiration"
      "expiration \<le> latest + ceil_ledgers (maxTimeoutSeconds (paymentRequirements request)) + 2"
      "simulated_transfer S (exactFee (config runtime)) (signer_address (simulationSource runtime))
         (asset (paymentRequirements request)) operation (expected_transfer t)"
      "p = \<lparr> pp_scheme = ''exact'', pp_network = n_id (config runtime), pp_payer = e_from t,
         pp_maximum = e_amount t, pp_actual = e_amount t \<rparr>"
    using exact_checks_Inr [OF p(1)] by blast
  obtain a where a: "map_of (allowedAssets (config runtime)) (asset (paymentRequirements request)) = Some a"
      "0 < e_amount t" "e_amount t \<le> maxPayment a"
    using validateEnvelope_None [OF f(4)] f(3) by auto
  show ?thesis
    by (rule exI [of _ operation], rule exI [of _ t], rule exI [of _ a], rule exI [of _ auth], rule exI [of _ expiration],
        rule exI [of _ latest], rule exI [of _ closed], rule exI [of _ w1], rule exI [of _ w2])
      (use f a p(2) in \<open>simp add: accepted_response_def\<close>)
qed

theorem exact_verification_sound_witness:
  "\<exists>operation t. authorized_exact (demo_exact :: (unit, js) stellar) (demo_env ''exact'') demo_runtime operation t \<and> e_amount t = 7"
proof -
  have "isValid (response (accepted_response (demo_parsed ''exact'')))" by (simp add: accepted_response_def)
  from exact_verification_sound [OF demo_exact_eval this] show ?thesis
    by (auto simp: accepted_response_def demo_parsed_def)
qed

text \<open>A prepared exact settlement pays what was authorised.  The envelope returned was finalized
  from a transaction of the leased channel that carries the client's operation with the payer's
  authorization, its enforcing simulation emitted exactly the one transfer to the payee of the
  required amount, and its total fee is within the ceiling.\<close>

theorem exact_preparation_sound:
  assumes "exact_prepare S request runtime channel w = (Inr (Inr p), w')"
  shows "\<exists>operation t. authorized_exact S request runtime operation t
    \<and> e_to t = payTo (paymentRequirements request) \<and> parseInteger (amount (paymentRequirements request)) = Some (e_amount t)
    \<and> pp_payer p = e_from t \<and> pp_actual p = e_amount t
    \<and> finalized_exact S runtime channel (asset (paymentRequirements request)) operation (expected_transfer t) p"
  using exact_prepare_Inr [OF assms] by blast

theorem exact_preparation_sound_witness:
  "\<exists>operation t. finalized_exact (demo_exact :: (unit, js) stellar) demo_runtime demo_channel ''CTOKEN'' operation (expected_transfer t)
     (preparedFrom (demo_exact :: (unit, js) stellar) (demo_parsed ''exact'') demo_channel
       \<lparr> f_xdr = ''BBBB'', f_hash = ''h1'', f_sequence = 42 \<rparr> \<lparr> minResourceFee = 50, events = [], sim_auth = None \<rparr>)"
proof -
  have "asset (paymentRequirements (demo_env ''exact'')) = ''CTOKEN''" by code_simp
  then show ?thesis using exact_preparation_sound [OF demo_exact_prepare_eval] by auto
qed

text \<open>C8: A valid upto verification binds the payer to the maximum and nothing else.  The client's transaction
  is one call of settle on the configured contract; the payer signed these terms with exactly one
  approval of the maximum until the deadline, for the required payee and asset and this facilitator,
  with a signature that is live, ends by the deadline and does not reach too far ahead; the payer is no
  internal address; a settlement hook is allowed and neither the contract nor the token; a payment
  identifier fixes the settlement id.  The transaction that was simulated in enforcing mode is exactly
  this call, under the payer's entry and the client's entry of the sponsor, signed again with the
  sponsor's key; it moved exactly the maximum from the payer to the payee, within the fee ceiling.\<close>

theorem upto_verification_sound:
  assumes "upto_verify S request runtime w = (Inr v, w')" and "isValid (response v)"
  shows "\<exists>terms operation entry unsigned signed as tx s. authorized_upto S request runtime operation entry terms
    \<and> live_authorization S request entry terms \<and> u_actual terms = u_maximum terms
    \<and> op_func operation = ContractFn (u_contract terms) ''settle'' as
    \<and> unsigned \<in> set (coalesce (op_auth operation) []) \<and> sponsor_signed S runtime terms unsigned signed
    \<and> bt_source tx = signer_address (simulationSource runtime)
    \<and> bt_operation tx = \<lparr> bo_func = ContractFn (u_contract terms) ''settle'' as, bo_auth = [entry, signed] \<rparr>
    \<and> simulated_settlement S runtime terms tx s
    \<and> (\<forall>a. balance_change (tokenTransfers S (events s) (u_token terms)) a =
         (if a = u_payTo terms then u_maximum terms else 0) - (if a = u_payer terms then u_maximum terms else 0))
    \<and> parsed v = Some (parsedPayment runtime terms) \<and> v_payer (response v) = Some (u_payer terms)"
proof -
  obtain terms where t: "validateAndSimulate S request runtime w = (Inr (Inr terms), w')"
      "v = accepted_response (parsedPayment runtime terms)" using upto_valid [OF assms] .
  obtain operation entry unsigned signed tx s where f: "authorized_upto S request runtime operation entry terms"
      "live_authorization S request entry terms" "u_actual terms = u_maximum terms"
      "unsigned \<in> set (coalesce (op_auth operation) [])" "sponsor_signed S runtime terms unsigned signed"
      "bt_source tx = signer_address (simulationSource runtime)"
      "bt_operation tx = operationWithAuth operation [entry, signed]" "simulated_settlement S runtime terms tx s"
    using validateAndSimulate_Inr [OF t(1)] by blast
  obtain as where as: "op_func operation = ContractFn (u_contract terms) ''settle'' as" "0 < u_maximum terms"
    using f(1) unfolding authorized_upto_def by blast
  have bal: "balance_change (tokenTransfers S (events s) (u_token terms)) a =
         (if a = u_payTo terms then u_maximum terms else 0) - (if a = u_payer terms then u_maximum terms else 0)" for a
    using f(3,8) as(2) expected_transfers_balance [of terms] by (auto simp: simulated_settlement_def)
  show ?thesis
    by (intro exI [of _ terms] exI [of _ operation] exI [of _ entry] exI [of _ unsigned] exI [of _ signed] exI [of _ as]
        exI [of _ tx] exI [of _ s] conjI allI f(1-6,8) as(1) bal)
      (simp_all add: f(7) as(1) operationWithAuth_def t(2) accepted_response_def parsedPayment_def)
qed

theorem upto_verification_sound_witness:
  "\<exists>terms operation entry. authorized_upto (demo_upto :: (unit, js) stellar) (demo_env ''upto'') demo_runtime operation entry terms
     \<and> u_maximum terms = 7"
proof -
  have "isValid (response (accepted_response (demo_parsed ''upto'')))" by (simp add: accepted_response_def)
  from upto_verification_sound [OF demo_upto_eval this] show ?thesis
    by (auto simp: accepted_response_def demo_parsed_def parsedPayment_def)
qed

text \<open>C9: An upto settlement takes exactly the actual amount, never more than the maximum.  For a prepared
  settlement the actual amount is the required one, between zero and the maximum that the payer
  authorised; the settling transaction, of the leased channel, calls settle with exactly the authorised
  terms and that amount, under the payer's own entry and the entry that a recording of this call asked
  of the sponsor, signed with the sponsor's key; in its enforcing simulation the payer's balance falls
  by exactly the actual amount and the payee's rises by it, the contract keeping nothing, within the
  fee ceiling; and the envelope, hash and sequence returned are those of this very transaction,
  finalized with that simulation for the leased channel and the sponsor.\<close>

theorem upto_preparation_sound:
  assumes "upto_prepare S request runtime channel w = (Inr (Inr p), w')"
  shows "\<exists>terms operation entry actual tx s final. authorized_upto S request runtime operation entry terms
    \<and> live_authorization S request entry terms
    \<and> parseInteger (amount (paymentRequirements request)) = Some actual \<and> 0 \<le> actual \<and> actual \<le> u_maximum terms
    \<and> settlement_tx S runtime channel entry (terms\<lparr>u_actual := actual\<rparr>) tx
    \<and> simulated_settlement S runtime (terms\<lparr>u_actual := actual\<rparr>) tx s
    \<and> (\<forall>a. balance_change (tokenTransfers S (events s) (u_token terms)) a =
         (if a = u_payTo terms then actual else 0) - (if a = u_payer terms then actual else 0))
    \<and> finalize_tx S tx s channel (sponsor runtime) (networkPassphrase S (n_id (config runtime))) = Inr final
    \<and> envelopeXdr p = f_xdr final \<and> transactionHash p = f_hash final \<and> channelSequence p = f_sequence final
    \<and> channelAddress p = signer_address channel
    \<and> pp_payer p = u_payer terms \<and> pp_maximum p = u_maximum terms \<and> pp_actual p = actual
    \<and> estimatedTotalFee p = minResourceFee s + inclusion_fee S
    \<and> estimatedTotalFee p \<le> maxTotalFeeStroops (uptoFee (config runtime))"
proof -
  obtain operation entry terms actual tx s final where f: "authorized_upto S request runtime operation entry terms"
      "live_authorization S request entry terms"
      "parseInteger (amount (paymentRequirements request)) = Some actual" "0 \<le> actual" "actual \<le> u_maximum terms"
      "settlement_tx S runtime channel entry (terms\<lparr>u_actual := actual\<rparr>) tx"
      "simulated_settlement S runtime (terms\<lparr>u_actual := actual\<rparr>) tx s"
      "finalize_tx S tx s channel (sponsor runtime) (networkPassphrase S (n_id (config runtime))) = Inr final"
      "p = preparedFrom S (parsedPayment runtime (terms\<lparr>u_actual := actual\<rparr>)) channel final s"
    using upto_prepare_Inr [OF assms] by blast
  have bal: "balance_change (tokenTransfers S (events s) (u_token terms)) a =
         (if a = u_payTo terms then actual else 0) - (if a = u_payer terms then actual else 0)" for a
    using f(4,5,7) expected_transfers_balance [of "terms\<lparr>u_actual := actual\<rparr>"] by (auto simp: simulated_settlement_def)
  have fee: "minResourceFee s + inclusion_fee S \<le> maxTotalFeeStroops (uptoFee (config runtime))"
    using f(7) by (auto simp: simulated_settlement_def)
  show ?thesis
    by (intro exI [of _ terms] exI [of _ operation] exI [of _ entry] exI [of _ actual] exI [of _ tx] exI [of _ s]
        exI [of _ final] conjI allI f(1-8) bal)
      (simp_all add: f(9) fee preparedFrom_def parsedPayment_def)
qed

theorem upto_preparation_sound_witness:
  "\<exists>terms operation entry. authorized_upto (demo_upto :: (unit, js) stellar) (demo_upto_request ''3'') demo_runtime operation entry terms
     \<and> u_maximum terms \<ge> 3"
proof -
  have "parseInteger (amount (paymentRequirements (demo_upto_request ''3''))) = Some 3" by code_simp
  then show ?thesis using upto_preparation_sound [OF demo_upto_prepare_eval] by auto
qed

text \<open>Amounts are exact.  parseInteger accepts precisely the decimal texts of the 128-bit signed
  integers, without leading zeros (and the text -0), and returns the number they denote.\<close>

theorem parseInteger_exact:
  "(parseInteger (int_to_string n) = (if I128_MIN \<le> n \<and> n \<le> I128_MAX then Some n else None))
   \<and> (\<forall>s. parseInteger s = Some n \<longrightarrow> I128_MIN \<le> n \<and> n \<le> I128_MAX \<and> (s = int_to_string n \<or> (n = 0 \<and> s = ''-0'')))"
proof -
  have "s = int_to_string n \<or> (n = 0 \<and> s = ''-0'')" if "parseInteger s = Some n" for s
  proof (cases "s = ''-0''")
    case True
    then show ?thesis using that by (simp add: parseInteger_Some big_int_def digits_value_def digit_val_def)
  next
    case False
    then show ?thesis using that int_to_string_big_int [of s] by (simp add: parseInteger_Some)
  qed
  then show ?thesis by (auto simp: parseInteger_Some parseInteger_def Let_def int_pattern_to_string)
qed

theorem parseInteger_exact_witness:
  "parseInteger (int_to_string (-12)) = Some (-12) \<and> parseInteger ''007'' \<noteq> Some 7"
proof -
  have "(''007'' :: string) \<noteq> int_to_string 7" by code_simp
  moreover have "I128_MIN \<le> -12 \<and> -12 \<le> I128_MAX" by code_simp
  ultimately show ?thesis using parseInteger_exact [of "-12"] parseInteger_exact [of 7] by auto
qed

end
