(* ===== verification/State_Store.thy ===== *)
theory State_Store
  imports Facilitator_Types
begin

text \<open>
  facilitator/src/db/state.ts: the durable state of the settlement path and every operation of
  \<open>StateStore\<close>.  A table is the list of its rows and an operation is the transaction it runs: a
  function from the database to its result and the database after COMMIT (the database before it
  when the code rolls back).  Time is in milliseconds; \<open>now\<close> is both the clock of the database
  and of the process.  Rows locked by other transactions (SKIP LOCKED) are the parameter \<open>locked\<close>.
\<close>

section \<open>Tables\<close>

datatype channel_status = Idle | Leased | Unresolved | Disabled

record channel_row =
  ch_network :: string
  ch_address :: string
  ch_status :: channel_status
  lease_owner :: "string option"
  lease_until :: "int option"
  ch_fencing :: int
  settlement_record_id :: "int option"
  last_sequence :: "int option"
  ch_updated :: int

datatype record_status = Verified | Preparing | Submitting | Pending | Success | Failed | Unknown

record idem_row =
  i_id :: int
  i_scope :: string
  i_key :: string
  i_fingerprint :: string
  i_scheme :: string
  i_network :: string
  i_actual :: "int option"
  i_payer :: "string option"
  i_status :: record_status
  i_worker :: "string option"
  i_worker_lease :: "int option"
  i_channel :: "string option"
  i_fencing :: "int option"
  i_envelope :: "string option"
  i_hash :: "string option"
  i_fee :: "int option"
  i_sequence :: "int option"
  i_response :: "settlement_outcome option"
  i_error :: "string option"
  i_updated :: int

record audit_row =
  a_record :: int
  a_event :: string
  a_details :: "(string \<times> string) list"

record db =
  channel_accounts :: "channel_row list"
  idempotency_records :: "idem_row list"
  next_id :: int
  sponsor_daily_usage :: "((int \<times> string) \<times> int) list"
  simulation_windows :: "((int \<times> string) \<times> int) list"
  settlement_audit :: "audit_row list"

record channel_lease =
  l_network :: string
  l_address :: string
  fencingToken :: int

record settlement_record =
  sr_id :: int
  sr_scheme :: string
  sr_network :: string
  status :: record_status
  actualAmount :: "int option"
  sr_payer :: "string option"
  sr_channel :: "string option"
  sr_sequence :: "int option"
  sr_fencing :: "int option"
  sr_envelope :: "string option"
  sr_hash :: "string option"
  sr_fee :: "int option"
  sr_response :: "settlement_outcome option"

datatype claim_result = Owner settlement_record | Wait settlement_record | Resume settlement_record
  | Cached settlement_record | Conflict string

definition mapRecord :: "idem_row \<Rightarrow> settlement_record" where
  "mapRecord row = \<lparr> sr_id = i_id row, sr_scheme = i_scheme row, sr_network = i_network row,
     status = i_status row, actualAmount = i_actual row, sr_payer = i_payer row,
     sr_channel = i_channel row, sr_sequence = i_sequence row, sr_fencing = i_fencing row,
     sr_envelope = i_envelope row, sr_hash = i_hash row, sr_fee = i_fee row,
     sr_response = i_response row \<rparr>"

text \<open>CURRENT_DATE and \<open>date_trunc('minute', now())\<close>, as counts of days and minutes (UTC session).\<close>

definition current_date :: "int \<Rightarrow> int" where
  "current_date now = now div 86400000"

definition minute_window :: "int \<Rightarrow> int" where
  "minute_window now = now div 60000"

section \<open>Channels\<close>

definition channel_is :: "string \<Rightarrow> string \<Rightarrow> channel_row \<Rightarrow> bool" where
  "channel_is nw ad c = (ch_network c = nw \<and> ch_address c = ad)"

definition new_channel :: "int \<Rightarrow> string \<Rightarrow> string \<Rightarrow> channel_row" where
  "new_channel now nw ad = \<lparr> ch_network = nw, ch_address = ad, ch_status = Idle, lease_owner = None,
     lease_until = None, ch_fencing = 0, settlement_record_id = None, last_sequence = None, ch_updated = now \<rparr>"

text \<open>INSERT of a channel; ON CONFLICT (network, address) updates the row in place.\<close>

definition insert_channel ::
    "int \<Rightarrow> string \<Rightarrow> string \<Rightarrow> (channel_row \<Rightarrow> channel_row) \<Rightarrow> channel_row list \<Rightarrow> channel_row list" where
  "insert_channel now nw ad conflict t = (if find (channel_is nw ad) t = None
     then t @ [new_channel now nw ad] else update_where (channel_is nw ad) conflict t)"

definition upsertChannel :: "int \<Rightarrow> string \<Rightarrow> string \<Rightarrow> db \<Rightarrow> db" where
  "upsertChannel now nw ad d = d\<lparr>channel_accounts :=
     insert_channel now nw ad (\<lambda>c. c\<lparr>ch_updated := now\<rparr>) (channel_accounts d)\<rparr>"

definition disable_missing :: "int \<Rightarrow> string \<Rightarrow> string list \<Rightarrow> channel_row list \<Rightarrow> channel_row list" where
  "disable_missing now nw addresses t = update_where
     (\<lambda>c. ch_network c = nw \<and> ch_address c \<notin> set addresses \<and> settlement_record_id c = None)
     (\<lambda>c. c\<lparr>ch_status := Disabled, ch_updated := now\<rparr>) t"

definition sync_one :: "int \<Rightarrow> string \<Rightarrow> channel_row list \<Rightarrow> string \<Rightarrow> channel_row list" where
  "sync_one now nw t ad = insert_channel now nw ad
     (\<lambda>c. c\<lparr>ch_status := (if settlement_record_id c = None then Idle else ch_status c), ch_updated := now\<rparr>) t"

definition syncChannels :: "int \<Rightarrow> string \<Rightarrow> string list \<Rightarrow> db \<Rightarrow> db" where
  "syncChannels now nw addresses d = d\<lparr>channel_accounts :=
     foldl (sync_one now nw) (disable_missing now nw addresses (channel_accounts d)) addresses\<rparr>"

text \<open>The candidate rows of a lease, and the first of them by \<open>updated_at, address\<close>.\<close>

definition lease_candidate ::
    "int \<Rightarrow> string \<Rightarrow> string list option \<Rightarrow> (string \<times> string \<Rightarrow> bool) \<Rightarrow> channel_row \<Rightarrow> bool" where
  "lease_candidate now nw allowed locked c = (ch_network c = nw
     \<and> (case allowed of None \<Rightarrow> True | Some as \<Rightarrow> ch_address c \<in> set as)
     \<and> (ch_status c = Idle \<or> (ch_status c = Leased
          \<and> (case lease_until c of None \<Rightarrow> False | Some u \<Rightarrow> u < now) \<and> settlement_record_id c = None))
     \<and> \<not> locked (ch_network c, ch_address c))"

definition channel_order :: "channel_row \<Rightarrow> channel_row \<Rightarrow> int" where
  "channel_order a b = (if ch_updated a \<noteq> ch_updated b then ch_updated a - ch_updated b
     else code_unit_cmp (ch_address a) (ch_address b))"

definition leaseChannel ::
    "int \<Rightarrow> (string \<times> string \<Rightarrow> bool) \<Rightarrow> string \<Rightarrow> string \<Rightarrow> int \<Rightarrow> string list option \<Rightarrow> db \<Rightarrow> channel_lease option \<times> db" where
  "leaseChannel now locked nw worker leaseMs allowed d =
     (case js_sort channel_order (filter (lease_candidate now nw allowed locked) (channel_accounts d)) of
        [] \<Rightarrow> (None, d)
      | c # _ \<Rightarrow> (Some \<lparr> l_network = nw, l_address = ch_address c, fencingToken = ch_fencing c + 1 \<rparr>,
          d\<lparr>channel_accounts := update_where (channel_is (ch_network c) (ch_address c))
             (\<lambda>c. c\<lparr>ch_status := Leased, lease_owner := Some worker, lease_until := Some (now + leaseMs),
                ch_fencing := ch_fencing c + 1, ch_updated := now\<rparr>) (channel_accounts d)\<rparr>))"

text \<open>\<open>WHERE network = $1 AND address = $2 AND fencing_token = $3 AND status = 'leased'\<close>\<close>

definition holds_lease :: "channel_lease \<Rightarrow> channel_row \<Rightarrow> bool" where
  "holds_lease lease c = (channel_is (l_network lease) (l_address lease) c
     \<and> ch_fencing c = fencingToken lease \<and> ch_status c = Leased)"

definition releaseChannel :: "int \<Rightarrow> channel_lease \<Rightarrow> db \<Rightarrow> db" where
  "releaseChannel now lease d = d\<lparr>channel_accounts := update_where (holds_lease lease)
     (\<lambda>c. c\<lparr>ch_status := Idle, lease_owner := None, lease_until := None,
        settlement_record_id := None, ch_updated := now\<rparr>) (channel_accounts d)\<rparr>"

section \<open>Idempotency records\<close>

definition record_is :: "string \<Rightarrow> string \<Rightarrow> idem_row \<Rightarrow> bool" where
  "record_is sc k r = (i_scope r = sc \<and> i_key r = k)"

definition new_record :: "int \<Rightarrow> int \<Rightarrow> string \<Rightarrow> string \<Rightarrow> string \<Rightarrow> string \<Rightarrow> string \<Rightarrow> idem_row" where
  "new_record now n sc k fp sch nw = \<lparr> i_id = n, i_scope = sc, i_key = k, i_fingerprint = fp, i_scheme = sch,
     i_network = nw, i_actual = None, i_payer = None, i_status = Verified, i_worker = None,
     i_worker_lease = None, i_channel = None, i_fencing = None, i_envelope = None, i_hash = None,
     i_fee = None, i_sequence = None, i_response = None, i_error = None, i_updated = now \<rparr>"

text \<open>
  INSERT INTO idempotency_records with an ON CONFLICT clause: the serial is consumed by every
  attempt, an existing row is changed by \<open>conflict\<close>.
\<close>

definition insert_record ::
    "int \<Rightarrow> string \<Rightarrow> string \<Rightarrow> string \<Rightarrow> string \<Rightarrow> string \<Rightarrow> (idem_row \<Rightarrow> idem_row) \<Rightarrow> db \<Rightarrow> db" where
  "insert_record now sc k fp sch nw conflict d = d\<lparr>
     idempotency_records := (if find (record_is sc k) (idempotency_records d) = None
       then idempotency_records d @ [new_record now (next_id d) sc k fp sch nw]
       else update_where (record_is sc k) conflict (idempotency_records d)),
     next_id := next_id d + 1\<rparr>"

definition registerIdempotency ::
    "int \<Rightarrow> string \<Rightarrow> string \<Rightarrow> string \<Rightarrow> string \<Rightarrow> string \<Rightarrow> db \<Rightarrow> (bool \<times> settlement_outcome option) \<times> db" where
  "registerIdempotency now sc k fp sch nw d =
     (let d' = insert_record now sc k fp sch nw (\<lambda>r. r\<lparr>i_updated := now\<rparr>) d in
      case find (record_is sc k) (idempotency_records d') of
        None \<Rightarrow> ((False, None), d')
      | Some row \<Rightarrow> ((i_fingerprint row \<noteq> fp, i_response row), d'))"

record claim_args =
  ca_scope :: string
  ca_key :: string
  ca_fingerprint :: string
  ca_scheme :: string
  ca_network :: string
  ca_actual :: int
  ca_worker :: string
  ca_leaseMs :: int

definition lease_alive :: "int \<Rightarrow> idem_row \<Rightarrow> bool" where
  "lease_alive now row = (case i_worker_lease row of None \<Rightarrow> False | Some u \<Rightarrow> u > now)"

definition claimed_row :: "int \<Rightarrow> claim_args \<Rightarrow> idem_row \<Rightarrow> idem_row" where
  "claimed_row now a r = r\<lparr>i_status := Preparing, i_actual := Some (ca_actual a), i_worker := Some (ca_worker a),
     i_worker_lease := Some (now + ca_leaseMs a), i_updated := now\<rparr>"

text \<open>The decision on the selected row; \<open>None\<close> means that the row is claimed.\<close>

definition claim_decision :: "int \<Rightarrow> claim_args \<Rightarrow> idem_row \<Rightarrow> claim_result option" where
  "claim_decision now a row =
     (if i_fingerprint row \<noteq> ca_fingerprint a
      then Some (Conflict ''payment identifier was reused with a different request fingerprint'')
      else if i_actual row \<noteq> None \<and> i_actual row \<noteq> Some (ca_actual a)
      then Some (Conflict ''payment identifier was reused with a different settlement amount'')
      else if i_response row \<noteq> None then Some (Cached (mapRecord row))
      else if truthy_str (i_hash row) then Some (Resume (mapRecord row))
      else if i_status row = Preparing \<and> lease_alive now row \<and> i_worker row \<noteq> Some (ca_worker a)
      then Some (Wait (mapRecord row))
      else None)"

definition claimSettlement :: "int \<Rightarrow> claim_args \<Rightarrow> db \<Rightarrow> (exn + claim_result) \<times> db" where
  "claimSettlement now a d =
     (let d1 = insert_record now (ca_scope a) (ca_key a) (ca_fingerprint a) (ca_scheme a) (ca_network a) (\<lambda>r. r) d in
      case find (record_is (ca_scope a) (ca_key a)) (idempotency_records d1) of
        None \<Rightarrow> (Inl (JsError ''TypeError''), d)
      | Some row \<Rightarrow> (case claim_decision now a row of
          Some answer \<Rightarrow> (Inr answer, d1)
        | None \<Rightarrow> (Inr (Owner (mapRecord (claimed_row now a row))),
            d1\<lparr>idempotency_records :=
              update_where (\<lambda>r. i_id r = i_id row) (claimed_row now a) (idempotency_records d1)\<rparr>)))"

section \<open>The sponsor budget\<close>

definition usage_insert :: "int \<times> string \<Rightarrow> ((int \<times> string) \<times> int) list \<Rightarrow> ((int \<times> string) \<times> int) list" where
  "usage_insert k t = (if map_of t k = None then t @ [(k, 0)] else t)"

definition global_scope :: string where
  "global_scope = ''__global__''"

definition usage_of :: "((int \<times> string) \<times> int) list \<Rightarrow> int \<Rightarrow> string \<Rightarrow> int" where
  "usage_of t day sc = coalesce (map_of t (day, sc)) 0"

definition reserveBudget :: "int \<Rightarrow> string \<Rightarrow> int \<Rightarrow> int \<Rightarrow> int \<Rightarrow> db \<Rightarrow> bool \<times> db" where
  "reserveBudget now sc amnt perScope global d =
     (let day = current_date now;
          t = usage_insert (day, global_scope) (usage_insert (day, sc) (sponsor_daily_usage d)) in
      if usage_of t day sc + amnt > perScope \<or> usage_of t day global_scope + amnt > global
      then (False, d\<lparr>sponsor_daily_usage := t\<rparr>)
      else (True, d\<lparr>sponsor_daily_usage :=
        update_where (\<lambda>e. fst (fst e) = day \<and> snd (fst e) \<in> {sc, global_scope}) (\<lambda>e. (fst e, snd e + amnt)) t\<rparr>))"

section \<open>Preparing, completing and listing\<close>

datatype store_result = Stored | BudgetExceeded | FenceLost | StaleSequence

definition prepared_row :: "int \<Rightarrow> channel_lease \<Rightarrow> prepared_settlement \<Rightarrow> idem_row \<Rightarrow> idem_row" where
  "prepared_row now lease p r = r\<lparr>i_status := Submitting, i_payer := Some (pp_payer p),
     i_channel := Some (l_address lease), i_fencing := Some (fencingToken lease),
     i_envelope := Some (envelopeXdr p), i_hash := Some (transactionHash p),
     i_fee := Some (estimatedTotalFee p), i_sequence := Some (channelSequence p), i_updated := now\<rparr>"

text \<open>A foreign key on idempotency_records: the statement fails when the row does not exist.\<close>

definition record_exists :: "int \<Rightarrow> db \<Rightarrow> bool" where
  "record_exists n d = (\<exists>r \<in> set (idempotency_records d). i_id r = n)"

definition audit :: "int \<Rightarrow> string \<Rightarrow> (string \<times> string) list \<Rightarrow> db \<Rightarrow> db" where
  "audit n event details d = d\<lparr>settlement_audit := settlement_audit d @
     [\<lparr> a_record = n, a_event = event, a_details = details \<rparr>]\<rparr>"

definition foreign_key_error :: exn where
  "foreign_key_error = JsError ''violates foreign key constraint''"

definition storePreparedAndReserve ::
    "int \<Rightarrow> int \<Rightarrow> channel_lease \<Rightarrow> prepared_settlement \<Rightarrow> string \<Rightarrow> int \<Rightarrow> int \<Rightarrow> db \<Rightarrow> (exn + store_result) \<times> db" where
  "storePreparedAndReserve now recordId lease p sc perScope global d =
     (case find (holds_lease lease) (channel_accounts d) of
        None \<Rightarrow> (Inr FenceLost, d)
      | Some channel \<Rightarrow>
        if (case last_sequence channel of Some applied \<Rightarrow> channelSequence p \<le> applied | None \<Rightarrow> False)
        then (Inr StaleSequence, d) else
        (case reserveBudget now sc (estimatedTotalFee p) perScope global d of
           (False, _) \<Rightarrow> (Inr BudgetExceeded, d)
         | (True, d1) \<Rightarrow>
           if \<not> record_exists recordId d then (Inl foreign_key_error, d)
           else (Inr Stored, audit recordId ''prepared''
             [(''transactionHash'', transactionHash p), (''channelSequence'', int_to_string (channelSequence p))]
             (d1\<lparr>idempotency_records := update_where (\<lambda>r. i_id r = recordId) (prepared_row now lease p)
                  (idempotency_records d1),
                channel_accounts := update_where
                  (\<lambda>c. channel_is (l_network lease) (l_address lease) c \<and> ch_fencing c = fencingToken lease)
                  (\<lambda>c. c\<lparr>ch_status := Unresolved, settlement_record_id := Some recordId, ch_updated := now\<rparr>)
                  (channel_accounts d1)\<rparr>))))"

definition markPending :: "int \<Rightarrow> int \<Rightarrow> db \<Rightarrow> db" where
  "markPending now recordId d = d\<lparr>idempotency_records :=
     update_where (\<lambda>r. i_id r = recordId) (\<lambda>r. r\<lparr>i_status := Pending, i_updated := now\<rparr>) (idempotency_records d)\<rparr>"

definition status_name :: "record_status \<Rightarrow> string" where
  "status_name s = (case s of Verified \<Rightarrow> ''verified'' | Preparing \<Rightarrow> ''preparing'' | Submitting \<Rightarrow> ''submitting''
     | Pending \<Rightarrow> ''pending'' | Success \<Rightarrow> ''success'' | Failed \<Rightarrow> ''failed'' | Unknown \<Rightarrow> ''unknown'')"

text \<open>\<open>GREATEST(COALESCE(last_sequence, 0), s)\<close>, the old value when no sequence was applied.\<close>

definition applied_sequence :: "int option \<Rightarrow> int option \<Rightarrow> int option" where
  "applied_sequence prev s = (case s of None \<Rightarrow> prev | Some n \<Rightarrow> Some (max (coalesce prev 0) n))"

definition free_channel :: "int \<Rightarrow> int option \<Rightarrow> channel_row \<Rightarrow> channel_row" where
  "free_channel now s c = c\<lparr>ch_status := Idle, lease_owner := None, lease_until := None,
     settlement_record_id := None, last_sequence := applied_sequence (last_sequence c) s, ch_updated := now\<rparr>"

definition complete ::
    "int \<Rightarrow> int \<Rightarrow> settlement_outcome \<Rightarrow> record_status \<Rightarrow> bool \<Rightarrow> db \<Rightarrow> (exn + unit) \<times> db" where
  "complete now recordId outcome st ledgerApplied d =
     (let d1 = d\<lparr>idempotency_records := update_where (\<lambda>r. i_id r = recordId)
            (\<lambda>r. r\<lparr>i_status := st, i_response := Some outcome, i_updated := now\<rparr>) (idempotency_records d)\<rparr>;
          row = find (\<lambda>r. i_id r = recordId) (idempotency_records d1);
          d2 = (case row of
              Some r \<Rightarrow> (if truthy_str (i_channel r)
                then d1\<lparr>channel_accounts := update_where
                  (\<lambda>c. channel_is (i_network r) (the (i_channel r)) c \<and> settlement_record_id c = Some recordId)
                  (free_channel now (if ledgerApplied then i_sequence r else None)) (channel_accounts d1)\<rparr>
                else d1)
            | None \<Rightarrow> d1) in
      if \<not> record_exists recordId d then (Inl foreign_key_error, d)
      else (Inr (), audit recordId (status_name st) [] d2))"

definition markUnknown :: "int \<Rightarrow> int \<Rightarrow> string \<Rightarrow> db \<Rightarrow> db" where
  "markUnknown now recordId reason d = d\<lparr>idempotency_records := update_where (\<lambda>r. i_id r = recordId)
     (\<lambda>r. r\<lparr>i_status := Unknown, i_error := Some reason, i_worker := None, i_worker_lease := None,
        i_updated := now\<rparr>) (idempotency_records d)\<rparr>"

definition unresolved_row :: "idem_row \<Rightarrow> bool" where
  "unresolved_row r = (i_hash r \<noteq> None \<and> i_response r = None \<and> i_status r \<in> {Submitting, Pending, Unknown})"

definition by_updated :: "idem_row \<Rightarrow> idem_row \<Rightarrow> int" where
  "by_updated a b = i_updated a - i_updated b"

definition listUnresolved :: "db \<Rightarrow> settlement_record list" where
  "listUnresolved d = map mapRecord (js_sort by_updated (filter unresolved_row (idempotency_records d)))"

definition findRecord :: "string \<Rightarrow> string \<Rightarrow> db \<Rightarrow> settlement_record option" where
  "findRecord sc k d = map_option mapRecord (find (record_is sc k) (idempotency_records d))"

definition getRecord :: "int \<Rightarrow> db \<Rightarrow> settlement_record option" where
  "getRecord recordId d = map_option mapRecord (find (\<lambda>r. i_id r = recordId) (idempotency_records d))"

definition consumeSimulations :: "int \<Rightarrow> string \<Rightarrow> int \<Rightarrow> int \<Rightarrow> db \<Rightarrow> bool \<times> db" where
  "consumeSimulations now sc cnt maximum d =
     (let k = (minute_window now, sc);
          t = (if map_of (simulation_windows d) k = None then simulation_windows d @ [(k, cnt)]
               else update_where (\<lambda>e. fst e = k) (\<lambda>e. (fst e, snd e + cnt)) (simulation_windows d)) in
      (coalesce (map_of t k) (maximum + 1) \<le> maximum, d\<lparr>simulation_windows := t\<rparr>))"

definition unresolvedCount :: "db \<Rightarrow> int" where
  "unresolvedCount d = int (length (filter
     (\<lambda>r. i_status r \<in> {Preparing, Submitting, Pending, Unknown}) (idempotency_records d)))"

section \<open>Well-formed databases\<close>

definition channel_key :: "channel_row \<Rightarrow> string \<times> string" where
  "channel_key c = (ch_network c, ch_address c)"

definition record_key :: "idem_row \<Rightarrow> string \<times> string" where
  "record_key r = (i_scope r, i_key r)"

text \<open>A channel is bound to a settlement exactly while it is unresolved, and is leased until a time.\<close>

definition channel_ok :: "channel_row \<Rightarrow> bool" where
  "channel_ok c = ((ch_status c = Unresolved \<longleftrightarrow> settlement_record_id c \<noteq> None)
     \<and> (ch_status c = Leased \<longrightarrow> lease_until c \<noteq> None) \<and> 0 \<le> ch_fencing c)"

definition channels_ok :: "channel_row list \<Rightarrow> bool" where
  "channels_ok t = (distinct (map channel_key t) \<and> list_all channel_ok t)"

definition records_ok :: "idem_row list \<Rightarrow> int \<Rightarrow> bool" where
  "records_ok t n = (distinct (map record_key t) \<and> distinct (map i_id t) \<and> list_all (\<lambda>r. i_id r < n) t)"

definition bound_records :: "db \<Rightarrow> int set" where
  "bound_records d = {n. \<exists>c \<in> set (channel_accounts d). settlement_record_id c = Some n}"

definition db_ok :: "db \<Rightarrow> bool" where
  "db_ok d = (channels_ok (channel_accounts d) \<and> records_ok (idempotency_records d) (next_id d)
     \<and> (\<forall>n \<in> bound_records d. record_exists n d)
     \<and> list_all (\<lambda>a. record_exists (a_record a) d) (settlement_audit d)
     \<and> distinct (map fst (sponsor_daily_usage d)) \<and> distinct (map fst (simulation_windows d)))"

end
