(* ===== verification/State_Invariants.thy ===== *)
theory State_Invariants
  imports State_Store
begin

text \<open>
  The settlement state as a transition system: one step is one operation of \<open>StateStore\<close> with
  arbitrary arguments, so a run is any interleaving of any number of workers.  The lemmas show
  the integrity of the tables, how a channel row and a record row may evolve, and that a channel
  bound to a settlement is released only by the completion of that settlement.
\<close>

section \<open>Steps\<close>

inductive store_step :: "limits \<Rightarrow> db \<Rightarrow> db \<Rightarrow> bool" for L where
  step_upsert: "store_step L d (upsertChannel now nw ad d)"
| step_sync: "store_step L d (syncChannels now nw addresses d)"
| step_register: "store_step L d (snd (registerIdempotency now sc k fp sch nw d))"
| step_claim: "store_step L d (snd (claimSettlement now a d))"
| step_lease: "store_step L d (snd (leaseChannel now locked nw worker leaseMs allowed d))"
| step_release: "store_step L d (releaseChannel now lease d)"
| step_prepare: "0 \<le> estimatedTotalFee p \<Longrightarrow> transactionHash p \<noteq> [] \<Longrightarrow> sc \<noteq> global_scope \<Longrightarrow>
    store_step L d (snd (storePreparedAndReserve now recordId lease p sc
      (maxSponsoredStroopsPerKeyPerDay L) (maxGlobalSponsoredStroopsPerDay L) d))"
| step_pending: "store_step L d (markPending now recordId d)"
| step_complete: "st \<in> {Success, Failed} \<Longrightarrow> store_step L d (snd (complete now recordId outcome st applied d))"
| step_unknown: "store_step L d (markUnknown now recordId reason d)"
| step_simulate: "store_step L d (snd (consumeSimulations now sc cnt maximum d))"

inductive_cases store_stepE: "store_step L d d'"

section \<open>Rows only change in place\<close>

text \<open>A table evolves along \<open>R\<close>: every row keeps its place and changes along \<open>R\<close>, new rows follow.\<close>

definition evolves :: "('r \<Rightarrow> 'r \<Rightarrow> bool) \<Rightarrow> 'r list \<Rightarrow> 'r list \<Rightarrow> bool" where
  "evolves R t t' = (\<exists>u w. t' = u @ w \<and> list_all2 R t u)"

lemma evolves_refl: "(\<And>x. R x x) \<Longrightarrow> evolves R t t"
  unfolding evolves_def by (rule exI [of _ t]) (simp add: list_all2_refl)

lemma evolves_append: "(\<And>x. R x x) \<Longrightarrow> evolves R t (t @ w)"
  unfolding evolves_def by (rule exI [of _ t]) (simp add: list_all2_refl)

lemma evolves_update:
  assumes "\<And>x. R x x" "\<And>x. x \<in> set t \<Longrightarrow> p x \<Longrightarrow> R x (f x)"
  shows "evolves R t (update_where p f t)"
  unfolding evolves_def update_where_def
  using assms by (intro exI [of _ "map (\<lambda>r. if p r then f r else r) t"] exI [of _ "[]"])
    (auto simp: list_all2_map2 list.rel_refl_strong intro!: list_all2_same [THEN iffD2])

lemma evolves_trans:
  assumes "\<And>x y z. R x y \<Longrightarrow> R y z \<Longrightarrow> R x z" "evolves R t t'" "evolves R t' t''"
  shows "evolves R t t''"
proof -
  obtain u w where u: "t' = u @ w" "list_all2 R t u" using assms(2) by (auto simp: evolves_def)
  obtain u' w' where u': "t'' = u' @ w'" "list_all2 R (u @ w) u'" using assms(3) u(1) by (auto simp: evolves_def)
  obtain a b where ab: "u' = a @ b" "list_all2 R u a"
    using u'(2) by (auto simp: list_all2_append1)
  have "list_all2 R t a" using list_all2_trans [of R R R t u a] assms(1) u(2) ab(2) by blast
  then show ?thesis unfolding evolves_def using u'(1) ab(1) by (intro exI [of _ a] exI [of _ "b @ w'"]) simp
qed

lemma evolvesD: "evolves R t t' \<Longrightarrow> r \<in> set t \<Longrightarrow> \<exists>r' \<in> set t'. R r r'"
  by (fastforce simp: evolves_def list_all2_conv_all_nth in_set_conv_nth nth_append)

section \<open>How a channel evolves\<close>

definition seq_le :: "int option \<Rightarrow> int option \<Rightarrow> bool" where
  "seq_le a b = (case a of None \<Rightarrow> True | Some m \<Rightarrow> (case b of None \<Rightarrow> False | Some n \<Rightarrow> m \<le> n))"

definition channel_le :: "channel_row \<Rightarrow> channel_row \<Rightarrow> bool" where
  "channel_le c c' = (channel_key c' = channel_key c \<and> ch_fencing c \<le> ch_fencing c'
     \<and> seq_le (last_sequence c) (last_sequence c'))"

lemma seq_le_refl [simp]: "seq_le a a"
  by (simp add: seq_le_def split: option.split)

lemma seq_le_applied [simp]: "seq_le a (applied_sequence a s)"
  by (simp add: seq_le_def applied_sequence_def split: option.split)

lemma channel_le_refl [simp]: "channel_le c c"
  by (simp add: channel_le_def)

lemma channel_le_trans: "channel_le a b \<Longrightarrow> channel_le b c \<Longrightarrow> channel_le a c"
  by (auto simp: channel_le_def seq_le_def split: option.splits)

lemma channels_trans: "evolves channel_le t t' \<Longrightarrow> evolves channel_le t' t'' \<Longrightarrow> evolves channel_le t t''"
  by (rule evolves_trans [OF channel_le_trans])

abbreviation channels_evolve :: "db \<Rightarrow> db \<Rightarrow> bool" where
  "channels_evolve d d' \<equiv> evolves channel_le (channel_accounts d) (channel_accounts d')"

lemma channel_key_update:
  "channel_key (f c) = (ch_network (f c), ch_address (f c))"
  by (simp add: channel_key_def)

lemma insert_channel_evolves:
  "(\<And>c. channel_le c (conflict c)) \<Longrightarrow> evolves channel_le t (insert_channel now nw ad conflict t)"
  by (auto simp: insert_channel_def intro!: evolves_append evolves_update)

lemma sync_one_evolves: "evolves channel_le t (sync_one now nw t ad)"
  unfolding sync_one_def by (rule insert_channel_evolves) (simp add: channel_le_def channel_key_def)

lemma sync_all_evolves: "evolves channel_le t (foldl (sync_one now nw) t addresses)"
proof (induction addresses arbitrary: t)
  case (Cons a as)
  show ?case using channels_trans [OF sync_one_evolves Cons.IH] by simp
qed (simp add: evolves_refl)

lemma step_channels_evolve: "store_step L d d' \<Longrightarrow> channels_evolve d d'"
proof (induction rule: store_step.induct)
  case (step_upsert d now nw ad)
  show ?case unfolding upsertChannel_def
    by (simp, rule insert_channel_evolves) (simp add: channel_le_def channel_key_def)
next
  case (step_sync d now nw addresses)
  have "evolves channel_le (channel_accounts d) (disable_missing now nw addresses (channel_accounts d))"
    by (auto simp: disable_missing_def channel_le_def channel_key_def intro!: evolves_update)
  then show ?case using channels_trans [OF _ sync_all_evolves] by (simp add: syncChannels_def)
next
  case (step_register d now sc k fp sch nw)
  then show ?case
    by (auto simp: registerIdempotency_def insert_record_def Let_def evolves_refl split: option.splits)
next
  case (step_claim d now a)
  then show ?case
    by (auto simp: claimSettlement_def insert_record_def Let_def evolves_refl split: option.splits)
next
  case (step_lease d now locked nw worker leaseMs allowed)
  then show ?case
    by (auto simp: leaseChannel_def evolves_refl channel_le_def channel_key_def intro!: evolves_update split: list.splits)
next
  case (step_release d now lease)
  then show ?case by (auto simp: releaseChannel_def channel_le_def channel_key_def intro!: evolves_update)
next
  case (step_prepare p sc d now recordId lease)
  then show ?case
    by (auto simp: storePreparedAndReserve_def reserveBudget_def audit_def Let_def evolves_refl channel_le_def
        channel_key_def intro!: evolves_update split: option.splits if_splits)
next
  case (step_complete st d now recordId outcome applied)
  then show ?case
    by (auto simp: complete_def audit_def free_channel_def Let_def evolves_refl channel_le_def channel_key_def
        intro!: evolves_update split: option.splits)
qed (auto simp: markPending_def markUnknown_def consumeSimulations_def Let_def evolves_refl)

section \<open>How a record evolves\<close>

text \<open>
  A record keeps its identity, its fingerprint and, once set, its amount; a transaction hash or
  a response, once present, stays present.
\<close>

definition kept :: "'a option \<Rightarrow> 'a option \<Rightarrow> bool" where
  "kept a b = (a \<noteq> None \<longrightarrow> b = a)"

definition record_le :: "idem_row \<Rightarrow> idem_row \<Rightarrow> bool" where
  "record_le r r' = (i_id r' = i_id r \<and> record_key r' = record_key r \<and> i_fingerprint r' = i_fingerprint r
     \<and> i_scheme r' = i_scheme r \<and> i_network r' = i_network r \<and> kept (i_actual r) (i_actual r')
     \<and> (truthy_str (i_hash r) \<longrightarrow> truthy_str (i_hash r'))
     \<and> (i_response r \<noteq> None \<longrightarrow> i_response r' \<noteq> None))"

lemma record_le_refl [simp]: "record_le r r"
  by (simp add: record_le_def kept_def)

lemma record_le_trans: "record_le a b \<Longrightarrow> record_le b c \<Longrightarrow> record_le a c"
  by (auto simp: record_le_def kept_def)

abbreviation records_evolve :: "db \<Rightarrow> db \<Rightarrow> bool" where
  "records_evolve d d' \<equiv> evolves record_le (idempotency_records d) (idempotency_records d')"

lemma records_trans:
  "evolves record_le t t' \<Longrightarrow> evolves record_le t' t'' \<Longrightarrow> evolves record_le t t''"
  by (rule evolves_trans [OF record_le_trans])

lemma insert_record_evolves:
  "(\<And>r. record_le r (conflict r)) \<Longrightarrow>
    evolves record_le (idempotency_records d) (idempotency_records (insert_record now sc k fp sch nw conflict d))"
  by (auto simp: insert_record_def intro!: evolves_append evolves_update)

lemma claim_decision_None:
  "claim_decision now a row = None \<longleftrightarrow> i_fingerprint row = ca_fingerprint a
     \<and> (i_actual row = None \<or> i_actual row = Some (ca_actual a)) \<and> i_response row = None
     \<and> \<not> truthy_str (i_hash row)
     \<and> (i_status row = Preparing \<longrightarrow> lease_alive now row \<longrightarrow> i_worker row = Some (ca_worker a))"
  by (auto simp: claim_decision_def)

lemma claimed_row_le: "claim_decision now a row = None \<Longrightarrow> record_le row (claimed_row now a row)"
  by (auto simp: claim_decision_None record_le_def claimed_row_def record_key_def kept_def)

section \<open>Integrity of the tables\<close>

lemma channel_is_key: "channel_is nw ad c \<longleftrightarrow> channel_key c = (nw, ad)"
  by (auto simp: channel_is_def channel_key_def)

lemma record_is_key: "record_is sc k r \<longleftrightarrow> record_key r = (sc, k)"
  by (auto simp: record_is_def record_key_def)

lemma channels_ok_update:
  assumes "channels_ok t" "\<And>c. p c \<Longrightarrow> channel_key (f c) = channel_key c"
    and "\<And>c. c \<in> set t \<Longrightarrow> p c \<Longrightarrow> channel_ok c \<Longrightarrow> channel_ok (f c)"
  shows "channels_ok (update_where p f t)"
  using assms update_where_keys [of p channel_key f t]
  by (auto simp: channels_ok_def list_all_iff in_update_where)

lemma new_channel_ok [simp]: "channel_ok (new_channel now nw ad)"
  by (simp add: channel_ok_def new_channel_def)

lemma insert_channel_ok:
  assumes "channels_ok t" "\<And>c. channel_key (conflict c) = channel_key c"
    and "\<And>c. channel_ok c \<Longrightarrow> channel_ok (conflict c)"
  shows "channels_ok (insert_channel now nw ad conflict t)"
proof (cases "find (channel_is nw ad) t")
  case None
  then have "(nw, ad) \<notin> channel_key ` set t" using find_NoneD channel_is_key by fastforce
  then show ?thesis using None assms(1)
    by (auto simp: insert_channel_def channels_ok_def new_channel_def channel_key_def channel_ok_def)
next
  case (Some c)
  then show ?thesis using assms by (auto simp: insert_channel_def intro!: channels_ok_update)
qed

lemma sync_one_ok: "channels_ok t \<Longrightarrow> channels_ok (sync_one now nw t ad)"
  unfolding sync_one_def by (rule insert_channel_ok) (auto simp: channel_key_def channel_ok_def)

lemma sync_all_ok: "channels_ok t \<Longrightarrow> channels_ok (foldl (sync_one now nw) t addresses)"
  by (induction addresses arbitrary: t) (auto simp: sync_one_ok)

lemma channel_unique:
  "channels_ok t \<Longrightarrow> c \<in> set t \<Longrightarrow> c' \<in> set t \<Longrightarrow> channel_key c = channel_key c' \<Longrightarrow> c = c'"
  by (auto simp: channels_ok_def distinct_map inj_on_def)

lemma lease_candidate_unbound: "lease_candidate now nw al locked c \<Longrightarrow> channel_ok c \<Longrightarrow> settlement_record_id c = None"
  by (auto simp: lease_candidate_def channel_ok_def)

lemma lease_first:
  assumes "js_sort channel_order (filter (lease_candidate now nw al locked) t) = c # cs"
  shows "c \<in> set t \<and> lease_candidate now nw al locked c"
proof -
  have "c \<in> set (js_sort channel_order (filter (lease_candidate now nw al locked) t))" using assms by simp
  then show ?thesis by simp
qed

lemma step_channels_ok: "store_step L d d' \<Longrightarrow> channels_ok (channel_accounts d) \<Longrightarrow> channels_ok (channel_accounts d')"
proof (induction rule: store_step.induct)
  case (step_upsert d now nw ad)
  then show ?case unfolding upsertChannel_def
    by (simp, intro insert_channel_ok) (simp_all add: channel_key_def channel_ok_def)
next
  case (step_sync d now nw addresses)
  have "channels_ok (disable_missing now nw addresses (channel_accounts d))"
    unfolding disable_missing_def using step_sync
    by (rule channels_ok_update) (auto simp: channel_key_def channel_ok_def)
  then show ?case by (simp add: syncChannels_def sync_all_ok)
next
  case (step_register d now sc k fp sch nw)
  then show ?case by (simp add: registerIdempotency_def insert_record_def Let_def split: option.splits)
next
  case (step_claim d now a)
  then show ?case by (auto simp: claimSettlement_def insert_record_def Let_def split: option.splits)
next
  case (step_lease d now locked nw worker leaseMs allowed)
  show ?case
  proof (cases "js_sort channel_order (filter (lease_candidate now nw allowed locked) (channel_accounts d))")
    case Nil
    then show ?thesis using step_lease by (simp add: leaseChannel_def)
  next
    case (Cons c cs)
    note c = lease_first [OF Cons]
    have "channel_ok c" using step_lease c by (auto simp: channels_ok_def list_all_iff)
    then have n: "settlement_record_id c = None" using c lease_candidate_unbound by blast
    have "settlement_record_id x = None" if "x \<in> set (channel_accounts d)" "channel_is (ch_network c) (ch_address c) x" for x
      using channel_unique [OF step_lease that(1) conjunct1 [OF c]] that(2) n
      by (simp add: channel_is_key channel_key_def)
    then show ?thesis unfolding leaseChannel_def Cons using step_lease
      by simp (rule channels_ok_update, auto simp: channel_key_def channel_ok_def)
  qed
next
  case (step_release d now lease)
  then show ?case unfolding releaseChannel_def
    by simp (rule channels_ok_update, auto simp: channel_key_def channel_ok_def)
next
  case (step_prepare p sc d now recordId lease)
  then show ?case
    by (auto simp: storePreparedAndReserve_def reserveBudget_def audit_def Let_def channel_key_def channel_ok_def
        intro!: channels_ok_update split: option.splits if_splits)
next
  case (step_complete st d now recordId outcome applied)
  then show ?case
    by (auto simp: complete_def audit_def free_channel_def Let_def channel_key_def channel_ok_def
        intro!: channels_ok_update split: option.splits)
qed (auto simp: markPending_def markUnknown_def consumeSimulations_def Let_def)

lemma records_ok_update:
  assumes "records_ok t n" "\<And>r. p r \<Longrightarrow> record_key (f r) = record_key r \<and> i_id (f r) = i_id r"
  shows "records_ok (update_where p f t) n"
  using assms update_where_keys [of p record_key f t] update_where_keys [of p i_id f t]
  by (auto simp: records_ok_def list_all_iff in_update_where)

lemma insert_record_ok:
  assumes "records_ok (idempotency_records d) (next_id d)"
    and "\<And>r. record_key (conflict r) = record_key r \<and> i_id (conflict r) = i_id r"
  shows "records_ok (idempotency_records (insert_record now sc k fp sch nw conflict d))
    (next_id (insert_record now sc k fp sch nw conflict d))"
proof (cases "find (record_is sc k) (idempotency_records d)")
  case None
  then have "(sc, k) \<notin> record_key ` set (idempotency_records d)" using find_NoneD record_is_key by fastforce
  then show ?thesis using None assms(1)
    by (auto simp: insert_record_def records_ok_def new_record_def record_key_def list_all_iff image_iff)
next
  case (Some r)
  have "records_ok (update_where (record_is sc k) conflict (idempotency_records d)) (next_id d)"
    using assms by (intro records_ok_update) auto
  then show ?thesis using Some by (auto simp: insert_record_def records_ok_def list_all_iff)
qed

lemma step_records_ok:
  "store_step L d d' \<Longrightarrow> records_ok (idempotency_records d) (next_id d) \<Longrightarrow>
    records_ok (idempotency_records d') (next_id d')"
proof (induction rule: store_step.induct)
  case (step_register d now sc k fp sch nw)
  then have "records_ok (idempotency_records (insert_record now sc k fp sch nw (\<lambda>r. r\<lparr>i_updated := now\<rparr>) d))
      (next_id (insert_record now sc k fp sch nw (\<lambda>r. r\<lparr>i_updated := now\<rparr>) d))"
    by (rule insert_record_ok) (simp add: record_key_def)
  then show ?case by (auto simp: registerIdempotency_def Let_def split: option.splits)
next
  case (step_claim d now a)
  let ?d = "insert_record now (ca_scope a) (ca_key a) (ca_fingerprint a) (ca_scheme a) (ca_network a) (\<lambda>r. r) d"
  have "records_ok (idempotency_records ?d) (next_id ?d)"
    using step_claim by (rule insert_record_ok) simp
  then show ?case using step_claim
    by (auto simp: claimSettlement_def Let_def claimed_row_def record_key_def intro!: records_ok_update split: option.splits)
next
  case (step_prepare p sc d now recordId lease)
  then show ?case
    by (auto simp: storePreparedAndReserve_def reserveBudget_def audit_def Let_def prepared_row_def record_key_def
        intro!: records_ok_update split: option.splits if_splits)
next
  case (step_complete st d now recordId outcome applied)
  then show ?case
    by (auto simp: complete_def audit_def Let_def record_key_def intro!: records_ok_update split: option.splits)
qed (auto simp: upsertChannel_def syncChannels_def leaseChannel_def releaseChannel_def markPending_def markUnknown_def
    consumeSimulations_def Let_def record_key_def intro!: records_ok_update split: list.splits)

lemma find_record_unique:
  "records_ok t n \<Longrightarrow> find (record_is sc k) t = Some row \<Longrightarrow> r \<in> set t \<Longrightarrow> i_id r = i_id row \<Longrightarrow> r = row"
  by (auto simp: records_ok_def distinct_map inj_on_def dest!: find_SomeD)

lemma step_records_evolve:
  "store_step L d d' \<Longrightarrow> records_ok (idempotency_records d) (next_id d) \<Longrightarrow> records_evolve d d'"
proof (induction rule: store_step.induct)
  case (step_register d now sc k fp sch nw)
  have "evolves record_le (idempotency_records d)
      (idempotency_records (insert_record now sc k fp sch nw (\<lambda>r. r\<lparr>i_updated := now\<rparr>) d))"
    by (rule insert_record_evolves) (simp add: record_le_def record_key_def kept_def)
  then show ?case by (simp add: registerIdempotency_def Let_def split: option.splits)
next
  case (step_claim d now a)
  let ?d = "insert_record now (ca_scope a) (ca_key a) (ca_fingerprint a) (ca_scheme a) (ca_network a) (\<lambda>r. r) d"
  have ok: "records_ok (idempotency_records ?d) (next_id ?d)" using step_claim by (rule insert_record_ok) simp
  have ev: "evolves record_le (idempotency_records d) (idempotency_records ?d)" by (rule insert_record_evolves) simp
  show ?case
  proof (cases "find (record_is (ca_scope a) (ca_key a)) (idempotency_records ?d)")
    case None
    then show ?thesis by (simp add: claimSettlement_def evolves_refl)
  next
    case (Some row)
    show ?thesis
    proof (cases "claim_decision now a row")
      case None
      have "evolves record_le (idempotency_records ?d)
          (update_where (\<lambda>r. i_id r = i_id row) (claimed_row now a) (idempotency_records ?d))"
        using find_record_unique [OF ok Some] claimed_row_le [OF None] by (intro evolves_update) auto
      then show ?thesis using records_trans [OF ev] Some None by (simp add: claimSettlement_def Let_def)
    next
      case (Some answer)
      then show ?thesis using ev \<open>find _ _ = Some row\<close> by (simp add: claimSettlement_def Let_def)
    qed
  qed
next
  case (step_prepare p sc d now recordId lease)
  then show ?case
    by (auto simp: storePreparedAndReserve_def reserveBudget_def audit_def Let_def evolves_refl prepared_row_def
        record_le_def record_key_def kept_def intro!: evolves_update split: option.splits if_splits)
next
  case (step_complete st d now recordId outcome applied)
  then show ?case
    by (auto simp: complete_def audit_def Let_def evolves_refl record_le_def record_key_def kept_def
        intro!: evolves_update split: option.splits)
qed (auto simp: upsertChannel_def syncChannels_def leaseChannel_def releaseChannel_def markPending_def markUnknown_def
    consumeSimulations_def Let_def evolves_refl record_le_def record_key_def kept_def intro!: evolves_update split: list.splits)

section \<open>The daily budget\<close>

text \<open>What the scopes of a day used together, the global row aside.\<close>

definition scope_total :: "((int \<times> string) \<times> int) list \<Rightarrow> int \<Rightarrow> int" where
  "scope_total t day = sum_list (map snd (filter (\<lambda>e. fst (fst e) = day \<and> snd (fst e) \<noteq> global_scope) t))"

definition usage_ok :: "limits \<Rightarrow> ((int \<times> string) \<times> int) list \<Rightarrow> bool" where
  "usage_ok L t = (distinct (map fst t) \<and> (\<forall>day. scope_total t day = usage_of t day global_scope)
     \<and> (\<forall>e \<in> set t. 0 \<le> snd e \<and> (if snd (fst e) = global_scope
          then snd e \<le> maxGlobalSponsoredStroopsPerDay L else snd e \<le> maxSponsoredStroopsPerKeyPerDay L)))"

lemma map_of_add_where:
  "map_of (update_where (\<lambda>e. P (fst e)) (\<lambda>e. (fst e, snd e + a)) t) k
    = map_option (\<lambda>v. if P k then v + (a :: int) else v) (map_of t k)"
  by (induction t) auto

lemma sum_add_where:
  "sum_list (map snd (filter (\<lambda>e. Q (fst e)) (update_where (\<lambda>e. P (fst e)) (\<lambda>e. (fst e, snd e + a)) t)))
    = sum_list (map snd (filter (\<lambda>e. Q (fst e)) t)) + (a :: int) * int (length (filter (\<lambda>e. Q (fst e) \<and> P (fst e)) t))"
  by (induction t) (auto simp: algebra_simps)

lemma count_key:
  "distinct (map fst t) \<Longrightarrow> length (filter (\<lambda>e. fst e = k) t) = (if k \<in> fst ` set t then 1 else 0)"
  by (induction t) (force simp: filter_empty_conv)+

lemma usage_insert_of [simp]: "usage_of (usage_insert k t) day sc = usage_of t day sc"
  by (auto simp: usage_of_def usage_insert_def map_add_def split: option.splits)

lemma usage_insert_distinct [simp]: "distinct (map fst (usage_insert k t)) = distinct (map fst t)"
  by (auto simp: usage_insert_def map_of_eq_None_iff image_iff)

lemma usage_insert_total [simp]: "scope_total (usage_insert k t) day = scope_total t day"
  by (simp add: usage_insert_def scope_total_def)

lemma usage_insert_keys [simp]: "fst ` set (usage_insert k t) = insert k (fst ` set t)"
  by (auto simp: usage_insert_def) (metis fst_conv image_eqI map_of_eq_None_iff option.distinct(1))+

lemma usage_insert_rows: "e \<in> set (usage_insert k t) \<Longrightarrow> e \<in> set t \<or> e = (k, 0)"
  by (auto simp: usage_insert_def split: if_splits)

definition charged :: "int \<Rightarrow> string \<Rightarrow> int \<times> string \<Rightarrow> bool" where
  "charged day sc k = (fst k = day \<and> snd k \<in> {sc, global_scope})"

lemma charged_pair [simp]: "charged day sc (day', s) \<longleftrightarrow> day' = day \<and> s \<in> {sc, global_scope}"
  by (simp add: charged_def)

lemma reserveBudget_True:
  assumes "reserveBudget now sc amnt perScope global d = (True, d')"
  defines "day \<equiv> current_date now"
  defines "t \<equiv> usage_insert (day, global_scope) (usage_insert (day, sc) (sponsor_daily_usage d))"
  shows "sponsor_daily_usage d' = update_where (\<lambda>e. charged day sc (fst e)) (\<lambda>e. (fst e, snd e + amnt)) t"
    and "usage_of t day sc + amnt \<le> perScope" and "usage_of t day global_scope + amnt \<le> global"
    and "d' = d\<lparr>sponsor_daily_usage := sponsor_daily_usage d'\<rparr>"
  using assms by (auto simp: reserveBudget_def Let_def charged_def split: if_splits)

lemma usage_ok_reserve:
  assumes ok: "usage_ok L (sponsor_daily_usage d)" and "0 \<le> amnt" "sc \<noteq> global_scope"
    and r: "reserveBudget now sc amnt (maxSponsoredStroopsPerKeyPerDay L) (maxGlobalSponsoredStroopsPerDay L) d = (True, d')"
  shows "usage_ok L (sponsor_daily_usage d')"
proof -
  let ?day = "current_date now"
  let ?t = "usage_insert (?day, global_scope) (usage_insert (?day, sc) (sponsor_daily_usage d))"
  note r = reserveBudget_True [OF r]
  have dist: "distinct (map fst ?t)" using ok by (simp add: usage_ok_def)
  have mem: "map_of ?t (fst e) = Some (snd e)" if "e \<in> set ?t" for e
    using dist that by (cases e) simp
  have "fst ` set (sponsor_daily_usage d') = fst ` set ?t" "distinct (map fst (sponsor_daily_usage d'))"
    using dist r(1) update_where_keys [of "\<lambda>e. charged ?day sc (fst e)" fst "\<lambda>e. (fst e, snd e + amnt)" ?t]
    by (simp_all flip: set_map)
  moreover have "scope_total (sponsor_daily_usage d') day = usage_of (sponsor_daily_usage d') day global_scope" for day
  proof -
    have f: "filter (\<lambda>e. (fst (fst e) = day \<and> snd (fst e) \<noteq> global_scope) \<and> charged ?day sc (fst e)) ?t
        = (if day = ?day then filter (\<lambda>e. fst e = (?day, sc)) ?t else [])"
      using \<open>sc \<noteq> global_scope\<close> by (auto simp: charged_def intro!: filter_cong simp: prod_eq_iff)
    have "scope_total (sponsor_daily_usage d') day = scope_total ?t day + (if day = ?day then amnt else 0)"
      using sum_add_where [of "\<lambda>k. fst k = day \<and> snd k \<noteq> global_scope" "charged ?day sc" amnt ?t] count_key [OF dist] f
      by (simp add: scope_total_def r(1))
    moreover have "usage_of (sponsor_daily_usage d') day global_scope
        = usage_of ?t day global_scope + (if day = ?day then amnt else 0)"
    proof -
      have "(?day, global_scope) \<in> fst ` set ?t" by simp
      then obtain v where "map_of ?t (?day, global_scope) = Some v"
        by (metis map_of_eq_None_iff not_None_eq)
      then show ?thesis
        by (cases "day = ?day"; cases "map_of ?t (day, global_scope)") (simp_all add: usage_of_def r(1) map_of_add_where)
    qed
    ultimately show ?thesis using ok by (simp add: usage_ok_def)
  qed
  moreover have "0 \<le> snd e \<and> (if snd (fst e) = global_scope then snd e \<le> maxGlobalSponsoredStroopsPerDay L
      else snd e \<le> maxSponsoredStroopsPerKeyPerDay L)" if e: "e \<in> set (sponsor_daily_usage d')" for e
  proof -
    obtain e0 where e0: "e0 \<in> set ?t" "e = (if charged ?day sc (fst e0) then (fst e0, snd e0 + amnt) else e0)"
      using e r(1) by (auto simp: in_update_where)
    show ?thesis
    proof (cases "charged ?day sc (fst e0)")
      case True
      have "usage_of ?t (fst (fst e0)) (snd (fst e0)) = snd e0" using mem [OF e0(1)] by (simp add: usage_of_def)
      moreover have "0 \<le> snd e0" using usage_insert_rows [OF e0(1)] usage_insert_rows ok by (fastforce simp: usage_ok_def)
      ultimately show ?thesis using True e0(2) r(2,3) assms(2) by (auto simp: charged_def)
    next
      case False
      then have "e0 \<in> set (sponsor_daily_usage d)"
        using usage_insert_rows [OF e0(1)] usage_insert_rows [of e0 "(?day, sc)" "sponsor_daily_usage d"] by auto
      then show ?thesis using False e0(2) ok by (auto simp: usage_ok_def)
    qed
  qed
  ultimately show ?thesis by (auto simp: usage_ok_def)
qed

lemma step_usage_ok:
  "store_step L d d' \<Longrightarrow> usage_ok L (sponsor_daily_usage d) \<Longrightarrow> usage_ok L (sponsor_daily_usage d')"
proof (induction rule: store_step.induct)
  case (step_prepare p sc d now recordId lease)
  show ?case
  proof (cases "reserveBudget now sc (estimatedTotalFee p) (maxSponsoredStroopsPerKeyPerDay L) (maxGlobalSponsoredStroopsPerDay L) d")
    case (Pair b d1)
    then have "b \<Longrightarrow> usage_ok L (sponsor_daily_usage d1)"
      using usage_ok_reserve [OF step_prepare(4) step_prepare(1,3)] by auto
    then show ?thesis using step_prepare Pair
      by (auto simp: storePreparedAndReserve_def audit_def split: option.splits bool.splits)
  qed
qed (auto simp: upsertChannel_def syncChannels_def leaseChannel_def releaseChannel_def markPending_def markUnknown_def
    consumeSimulations_def registerIdempotency_def claimSettlement_def insert_record_def complete_def audit_def Let_def
    split: list.splits option.splits)

section \<open>References between the tables\<close>

lemma record_exists_evolves: "records_evolve d d' \<Longrightarrow> record_exists n d \<Longrightarrow> record_exists n d'"
  by (auto simp: record_exists_def record_le_def dest!: evolvesD)

lemma record_exists_cong: "idempotency_records d = idempotency_records d' \<Longrightarrow> record_exists n d = record_exists n d'"
  by (simp add: record_exists_def)

lemma bound_insert:
  "settlement_record_id c = Some n \<Longrightarrow> c \<in> set (insert_channel now nw ad conflict t) \<Longrightarrow>
    (\<And>c. settlement_record_id (conflict c) = settlement_record_id c) \<Longrightarrow>
    \<exists>c' \<in> set t. settlement_record_id c' = Some n"
  by (auto simp: insert_channel_def in_update_where new_channel_def split: if_splits)

lemma bound_sync:
  "settlement_record_id c = Some n \<Longrightarrow> c \<in> set (foldl (sync_one now nw) t addresses) \<Longrightarrow>
    \<exists>c' \<in> set t. settlement_record_id c' = Some n"
proof (induction addresses arbitrary: t)
  case (Cons a as)
  then obtain c' where "c' \<in> set (sync_one now nw t a)" "settlement_record_id c' = Some n" by auto
  then show ?case unfolding sync_one_def using bound_insert by fastforce
qed auto

lemma step_bound:
  assumes "store_step L d d'" "n \<in> bound_records d'"
  shows "n \<in> bound_records d \<or> record_exists n d"
  using assms
proof (induction rule: store_step.induct)
  case (step_upsert d now nw ad)
  then obtain c where c: "settlement_record_id c = Some n"
      "c \<in> set (insert_channel now nw ad (\<lambda>c. c\<lparr>ch_updated := now\<rparr>) (channel_accounts d))"
    by (auto simp: bound_records_def upsertChannel_def)
  show ?case using bound_insert [OF c] by (simp add: bound_records_def)
next
  case (step_sync d now nw addresses)
  then obtain c where c: "settlement_record_id c = Some n"
      "c \<in> set (foldl (sync_one now nw) (disable_missing now nw addresses (channel_accounts d)) addresses)"
    by (auto simp: bound_records_def syncChannels_def)
  show ?case using bound_sync [OF c]
    by (auto simp: bound_records_def disable_missing_def in_update_where split: if_splits)
next
  case (step_prepare p sc d now recordId lease)
  then show ?case
    by (auto simp: storePreparedAndReserve_def bound_records_def reserveBudget_def audit_def Let_def in_update_where
        split: option.splits if_splits)
next
  case (step_complete st d now recordId outcome applied)
  then show ?case
    by (auto simp: complete_def bound_records_def audit_def free_channel_def Let_def in_update_where
        split: option.splits if_splits)
next
  case (step_lease d now locked nw worker leaseMs allowed)
  then obtain c where c: "c \<in> set (channel_accounts (snd (leaseChannel now locked nw worker leaseMs allowed d)))"
    "settlement_record_id c = Some n" by (auto simp: bound_records_def)
  then have "\<exists>r \<in> set (channel_accounts d). settlement_record_id r = Some n"
    unfolding leaseChannel_def by (auto simp: in_update_where split: list.splits if_splits)
  then show ?case by (simp add: bound_records_def)
qed (auto simp: bound_records_def releaseChannel_def markPending_def markUnknown_def
    consumeSimulations_def registerIdempotency_def claimSettlement_def insert_record_def Let_def in_update_where
    split: list.splits option.splits if_splits)

lemma step_audit:
  "store_step L d d' \<Longrightarrow> a \<in> set (settlement_audit d') \<Longrightarrow> a \<in> set (settlement_audit d) \<or> record_exists (a_record a) d"
  by (induction rule: store_step.induct)
    (auto simp: upsertChannel_def syncChannels_def leaseChannel_def releaseChannel_def markPending_def markUnknown_def
      consumeSimulations_def registerIdempotency_def claimSettlement_def insert_record_def complete_def
      storePreparedAndReserve_def reserveBudget_def audit_def Let_def
      split: list.splits option.splits if_splits)

lemma step_windows:
  "store_step L d d' \<Longrightarrow> distinct (map fst (simulation_windows d)) \<Longrightarrow> distinct (map fst (simulation_windows d'))"
proof (induction rule: store_step.induct)
  case (step_simulate d now sc cnt maximum)
  then show ?case
    using update_where_keys [of "\<lambda>e. fst e = (minute_window now, sc)" fst "\<lambda>e. (fst e, snd e + cnt)"]
    by (auto simp: consumeSimulations_def Let_def map_of_eq_None_iff image_iff)
qed (auto simp: upsertChannel_def syncChannels_def leaseChannel_def releaseChannel_def markPending_def markUnknown_def
      registerIdempotency_def claimSettlement_def insert_record_def complete_def
      storePreparedAndReserve_def reserveBudget_def audit_def Let_def
      split: list.splits option.splits if_splits)

section \<open>Reachable states\<close>

definition empty_db :: db where
  "empty_db = \<lparr> channel_accounts = [], idempotency_records = [], next_id = 1, sponsor_daily_usage = [],
     simulation_windows = [], settlement_audit = [] \<rparr>"

definition state_ok :: "limits \<Rightarrow> db \<Rightarrow> bool" where
  "state_ok L d = (db_ok d \<and> usage_ok L (sponsor_daily_usage d))"

abbreviation store_steps :: "limits \<Rightarrow> db \<Rightarrow> db \<Rightarrow> bool" where
  "store_steps L \<equiv> (store_step L)\<^sup>*\<^sup>*"

lemma state_ok_empty: "state_ok L empty_db"
  by (simp add: state_ok_def db_ok_def empty_db_def channels_ok_def records_ok_def bound_records_def usage_ok_def
      scope_total_def usage_of_def)

lemma step_state_ok: "store_step L d d' \<Longrightarrow> state_ok L d \<Longrightarrow> state_ok L d'"
proof -
  assume st: "store_step L d d'" and ok: "state_ok L d"
  have r: "records_evolve d d'" using step_records_evolve [OF st] ok by (simp add: state_ok_def db_ok_def)
  have "\<forall>n \<in> bound_records d'. record_exists n d'"
    using step_bound [OF st] record_exists_evolves [OF r] ok by (auto simp: state_ok_def db_ok_def)
  moreover have "list_all (\<lambda>a. record_exists (a_record a) d') (settlement_audit d')"
    unfolding list_all_iff
  proof
    fix a assume "a \<in> set (settlement_audit d')"
    then have "record_exists (a_record a) d"
      using step_audit [OF st, of a] ok by (auto simp: state_ok_def db_ok_def list_all_iff)
    then show "record_exists (a_record a) d'" by (rule record_exists_evolves [OF r])
  qed
  moreover have u: "usage_ok L (sponsor_daily_usage d')" using step_usage_ok [OF st] ok by (simp add: state_ok_def)
  moreover have "distinct (map fst (sponsor_daily_usage d'))" using u by (simp only: usage_ok_def)
  ultimately show ?thesis
    using step_channels_ok [OF st] step_records_ok [OF st] step_windows [OF st] ok
    by (simp add: state_ok_def db_ok_def)
qed

lemma steps_state_ok: "store_steps L d d' \<Longrightarrow> state_ok L d \<Longrightarrow> state_ok L d'"
  by (induction rule: rtranclp_induct) (auto intro: step_state_ok)

lemma steps_channels_evolve: "store_steps L d d' \<Longrightarrow> channels_evolve d d'"
  by (induction rule: rtranclp_induct) (auto intro: evolves_refl channels_trans step_channels_evolve)

lemma steps_records_evolve: "store_steps L d d' \<Longrightarrow> state_ok L d \<Longrightarrow> records_evolve d d'"
proof (induction rule: rtranclp_induct)
  case (step d1 d2)
  have "state_ok L d1" using steps_state_ok [OF step(1) step(4)] .
  then have "records_evolve d1 d2" using step_records_evolve [OF step(2)] by (simp add: state_ok_def db_ok_def)
  then show ?case by (rule records_trans [OF step(3) [OF step(4)]])
qed (simp add: evolves_refl)

end
