(* ===== verification/Settlement_Safety.thy ===== *)
theory Settlement_Safety
  imports State_Invariants
begin

text \<open>
  The safety properties of the settlement state under any interleaving of operations: fencing of
  stale lease holders, exclusive binding of a channel to the settlement it carries, rejection of
  stale sequences, the idempotent claim, and the budget and rate limits.
\<close>

section \<open>Leases and fencing\<close>

lemma leaseChannel_Some:
  assumes "leaseChannel now locked nw worker leaseMs allowed d = (Some l, d')"
  obtains c where "c \<in> set (channel_accounts d)" "lease_candidate now nw allowed locked c"
    "channel_key c = (l_network l, l_address l)" "fencingToken l = ch_fencing c + 1"
    "d' = d\<lparr>channel_accounts := update_where (channel_is (l_network l) (l_address l))
       (\<lambda>c. c\<lparr>ch_status := Leased, lease_owner := Some worker, lease_until := Some (now + leaseMs),
          ch_fencing := ch_fencing c + 1, ch_updated := now\<rparr>) (channel_accounts d)\<rparr>"
proof (cases "js_sort channel_order (filter (lease_candidate now nw allowed locked) (channel_accounts d))")
  case Nil
  then show ?thesis using assms by (simp add: leaseChannel_def)
next
  case (Cons c cs)
  note first = lease_first [OF Cons]
  then have "ch_network c = nw" by (simp add: lease_candidate_def)
  then show ?thesis using assms first Cons by (intro that [of c]) (auto simp: leaseChannel_def channel_key_def)
qed

lemma leased_row:
  assumes "leaseChannel now locked nw worker leaseMs allowed d = (Some l, d')"
  shows "\<exists>c \<in> set (channel_accounts d'). channel_key c = (l_network l, l_address l) \<and> ch_fencing c = fencingToken l
    \<and> ch_status c = Leased \<and> lease_owner c = Some worker"
proof -
  obtain c where c: "c \<in> set (channel_accounts d)" "channel_key c = (l_network l, l_address l)"
      "fencingToken l = ch_fencing c + 1"
    and d': "d' = d\<lparr>channel_accounts := update_where (channel_is (l_network l) (l_address l))
       (\<lambda>c. c\<lparr>ch_status := Leased, lease_owner := Some worker, lease_until := Some (now + leaseMs),
          ch_fencing := ch_fencing c + 1, ch_updated := now\<rparr>) (channel_accounts d)\<rparr>"
    using leaseChannel_Some [OF assms] by blast
  let ?c = "c\<lparr>ch_status := Leased, lease_owner := Some worker, lease_until := Some (now + leaseMs),
          ch_fencing := ch_fencing c + 1, ch_updated := now\<rparr>"
  have "?c \<in> set (channel_accounts d')" using c d' by (auto simp: in_update_where channel_is_key)
  moreover have "channel_key ?c = channel_key c" by (simp add: channel_key_def)
  ultimately show ?thesis using c by (intro bexI [of _ ?c]) auto
qed

lemma later_rows:
  assumes "store_steps L d d'" "state_ok L d" "c \<in> set (channel_accounts d)" "c' \<in> set (channel_accounts d')"
    and "channel_key c' = channel_key c"
  shows "channel_le c c'"
proof -
  obtain c'' where c'': "c'' \<in> set (channel_accounts d')" "channel_le c c''"
    using evolvesD [OF steps_channels_evolve [OF assms(1)] assms(3)] by blast
  have "channels_ok (channel_accounts d')" using steps_state_ok [OF assms(1,2)] by (simp add: state_ok_def db_ok_def)
  then have "c' = c''" using channel_unique assms(4,5) c'' by (metis channel_le_def)
  then show ?thesis using c'' by simp
qed

lemma holds_lease_key: "holds_lease l c \<Longrightarrow> channel_key c = (l_network l, l_address l) \<and> ch_fencing c = fencingToken l"
  by (auto simp: holds_lease_def channel_is_key)

lemma release_other: "(\<And>c. c \<in> set (channel_accounts d) \<Longrightarrow> \<not> holds_lease l c) \<Longrightarrow> releaseChannel now l d = d"
  by (simp add: releaseChannel_def update_where_id)

lemma find_none: "(\<And>x. x \<in> set t \<Longrightarrow> \<not> q x) \<Longrightarrow> find q t = None"
  by (induction t) auto

text \<open>Once the channel has been leased again, the earlier holder no longer holds it.\<close>

lemma stale_lease:
  assumes ok: "state_ok L d"
    and l1: "leaseChannel now1 locked1 nw w1 ms1 al1 d = (Some l1, d1)"
    and s1: "store_steps L d1 d2"
    and l2: "leaseChannel now2 locked2 nw w2 ms2 al2 d2 = (Some l2, d3)" and same: "l_address l2 = l_address l1"
    and s2: "store_steps L d3 d4" and c: "c \<in> set (channel_accounts d4)"
  shows "\<not> holds_lease l1 c"
proof
  assume h: "holds_lease l1 c"
  have st: "store_step L d d1" "store_step L d2 d3"
    using step_lease [of L d now1 locked1 nw w1 ms1 al1] step_lease [of L d2 now2 locked2 nw w2 ms2 al2] l1 l2 by auto
  have ok1: "state_ok L d1" using step_state_ok [OF st(1) ok] .
  have ok2: "state_ok L d2" using steps_state_ok [OF s1 ok1] .
  have ok3: "state_ok L d3" using step_state_ok [OF st(2) ok2] .
  have nets: "l_network l1 = nw" "l_network l2 = nw"
    using l1 l2 by (auto simp: leaseChannel_def split: list.splits)
  obtain c1 where c1: "c1 \<in> set (channel_accounts d1)" "channel_key c1 = (nw, l_address l1)" "ch_fencing c1 = fencingToken l1"
    using leased_row [OF l1] nets by auto
  obtain c2 where c2: "c2 \<in> set (channel_accounts d2)" "channel_key c2 = (nw, l_address l2)" "fencingToken l2 = ch_fencing c2 + 1"
    using leaseChannel_Some [OF l2] nets by metis
  obtain c3 where c3: "c3 \<in> set (channel_accounts d3)" "channel_key c3 = (nw, l_address l2)" "ch_fencing c3 = fencingToken l2"
    using leased_row [OF l2] nets by auto
  have "ch_fencing c1 \<le> ch_fencing c2"
    using later_rows [OF s1 ok1 c1(1) c2(1)] c1(2) c2(2) same by (simp add: channel_le_def)
  moreover have "ch_fencing c3 \<le> ch_fencing c"
    using later_rows [OF s2 ok3 c3(1) c] holds_lease_key [OF h] c3(2) same nets by (simp add: channel_le_def)
  ultimately show False using holds_lease_key [OF h] c1(3) c2(3) c3(3) by simp
qed

lemma store_stale_holder:
  "(\<And>c. c \<in> set (channel_accounts d) \<Longrightarrow> \<not> holds_lease l c) \<Longrightarrow>
    storePreparedAndReserve now n l p sc a b d = (Inr FenceLost, d)"
  by (simp add: storePreparedAndReserve_def find_none)

section \<open>Binding\<close>

text \<open>A row bound to settlement \<open>n\<close> is kept as it is.\<close>

definition keeps_bound :: "int \<Rightarrow> channel_row \<Rightarrow> channel_row \<Rightarrow> bool" where
  "keeps_bound n c c' = (channel_key c' = channel_key c \<and> (settlement_record_id c = Some n \<and> ch_status c = Unresolved \<longrightarrow>
     settlement_record_id c' = Some n \<and> ch_status c' = Unresolved \<and> ch_fencing c' = ch_fencing c
     \<and> last_sequence c' = last_sequence c))"

lemma keeps_bound_refl [simp]: "keeps_bound n c c"
  by (simp add: keeps_bound_def)

lemma keeps_bound_trans: "keeps_bound n a b \<Longrightarrow> keeps_bound n b c \<Longrightarrow> keeps_bound n a c"
  by (auto simp: keeps_bound_def)

lemma bound_trans:
  "evolves (keeps_bound n) t t' \<Longrightarrow> evolves (keeps_bound n) t' t'' \<Longrightarrow> evolves (keeps_bound n) t t''"
  by (rule evolves_trans [OF keeps_bound_trans])

lemma sync_one_bound: "evolves (keeps_bound n) t (sync_one now nw t ad)"
  by (auto simp: sync_one_def insert_channel_def keeps_bound_def channel_key_def intro!: evolves_append evolves_update)

lemma sync_all_bound: "evolves (keeps_bound n) t (foldl (sync_one now nw) t addresses)"
proof (induction addresses arbitrary: t)
  case (Cons a as)
  then show ?case using bound_trans [OF sync_one_bound Cons.IH] by simp
qed (simp add: evolves_refl)

text \<open>The step that may free the channel of settlement \<open>n\<close>.\<close>

definition completes :: "int \<Rightarrow> db \<Rightarrow> db \<Rightarrow> bool" where
  "completes n d d' = (\<exists>now outcome st applied. d' = snd (complete now n outcome st applied d))"

lemma holds_leased_unbound:
  assumes "channels_ok t" "find (holds_lease l) t = Some c" "c' \<in> set t" "channel_is (l_network l) (l_address l) c'"
  shows "settlement_record_id c' = None"
proof -
  have c: "c \<in> set t" "holds_lease l c" using find_SomeD [OF assms(2)] by auto
  then have "c' = c" using channel_unique [OF assms(1,3) c(1)] holds_lease_key [OF c(2)] assms(4)
    by (simp add: channel_is_key)
  then show ?thesis using c assms(1) by (auto simp: channels_ok_def list_all_iff channel_ok_def holds_lease_def)
qed

lemma step_keeps_bound:
  assumes "store_step L d d'" "channels_ok (channel_accounts d)" "\<not> completes n d d'"
  shows "evolves (keeps_bound n) (channel_accounts d) (channel_accounts d')"
  using assms
proof (induction rule: store_step.induct)
  case (step_upsert d now nw ad)
  then show ?case
    by (auto simp: upsertChannel_def insert_channel_def keeps_bound_def channel_key_def intro!: evolves_append evolves_update)
next
  case (step_sync d now nw addresses)
  have "evolves (keeps_bound n) (channel_accounts d) (disable_missing now nw addresses (channel_accounts d))"
    by (auto simp: disable_missing_def keeps_bound_def channel_key_def intro!: evolves_update)
  then show ?case using bound_trans [OF _ sync_all_bound] by (simp add: syncChannels_def)
next
  case (step_register d now sc k fp sch nw)
  then show ?case
    by (auto simp: registerIdempotency_def insert_record_def Let_def evolves_refl split: option.splits)
next
  case (step_claim d now a)
  then show ?case
    by (auto simp: claimSettlement_def insert_record_def Let_def evolves_refl split: option.splits)
next
  case (step_lease d now locked nw worker leaseMs allowed)
  show ?case
  proof (cases "leaseChannel now locked nw worker leaseMs allowed d")
    case (Pair ol d1)
    show ?thesis
    proof (cases ol)
      case None
      then show ?thesis using Pair by (auto simp: leaseChannel_def evolves_refl split: list.splits)
    next
      case (Some l)
      obtain c where c: "c \<in> set (channel_accounts d)" "lease_candidate now nw allowed locked c"
        "channel_key c = (l_network l, l_address l)"
        and d1: "d1 = d\<lparr>channel_accounts := update_where (channel_is (l_network l) (l_address l))
       (\<lambda>c. c\<lparr>ch_status := Leased, lease_owner := Some worker, lease_until := Some (now + leaseMs),
          ch_fencing := ch_fencing c + 1, ch_updated := now\<rparr>) (channel_accounts d)\<rparr>"
        using leaseChannel_Some [OF Pair [unfolded Some]] by blast
      have "settlement_record_id c = None"
        using lease_candidate_unbound [OF c(2)] c(1) step_lease by (auto simp: channels_ok_def list_all_iff)
      then have "settlement_record_id x = None" if "x \<in> set (channel_accounts d)" "channel_is (l_network l) (l_address l) x" for x
        using channel_unique [OF step_lease(1) that(1) c(1)] that(2) c(3) by (simp add: channel_is_key)
      then show ?thesis using Pair d1 by (auto simp: keeps_bound_def channel_key_def intro!: evolves_update)
    qed
  qed
next
  case (step_release d now lease)
  then show ?case
    by (auto simp: releaseChannel_def keeps_bound_def channel_key_def holds_lease_def intro!: evolves_update)
next
  case (step_prepare p sc d now recordId lease)
  show ?case
  proof (cases "find (holds_lease lease) (channel_accounts d)")
    case None
    then show ?thesis by (simp add: storePreparedAndReserve_def evolves_refl)
  next
    case (Some c)
    have "settlement_record_id x = None"
      if "x \<in> set (channel_accounts d)" "channel_is (l_network lease) (l_address lease) x" for x
      using holds_leased_unbound [OF step_prepare(4) Some that] .
    then show ?thesis
      by (auto simp: storePreparedAndReserve_def reserveBudget_def audit_def Let_def evolves_refl keeps_bound_def
          channel_key_def intro!: evolves_update split: option.splits if_splits)
  qed
next
  case (step_complete st d now recordId outcome applied)
  have "recordId \<noteq> n" using step_complete by (auto simp: completes_def)
  then show ?case
    by (auto simp: complete_def audit_def free_channel_def Let_def evolves_refl keeps_bound_def channel_key_def
        intro!: evolves_update split: option.splits)
qed (auto simp: markPending_def markUnknown_def consumeSimulations_def Let_def evolves_refl)

section \<open>Runs that do not complete a settlement\<close>

definition uncompleted_step :: "limits \<Rightarrow> int \<Rightarrow> db \<Rightarrow> db \<Rightarrow> bool" where
  "uncompleted_step L n d d' = (store_step L d d' \<and> \<not> completes n d d')"

lemma uncompleted_run:
  assumes "(uncompleted_step L n)\<^sup>*\<^sup>* d d'" "state_ok L d"
  shows "state_ok L d' \<and> evolves (keeps_bound n) (channel_accounts d) (channel_accounts d')"
  using assms
proof (induction rule: rtranclp_induct)
  case (step d1 d2)
  then have ok: "state_ok L d1" "store_step L d1 d2" "\<not> completes n d1 d2" by (auto simp: uncompleted_step_def)
  have "evolves (keeps_bound n) (channel_accounts d1) (channel_accounts d2)"
    using step_keeps_bound [OF ok(2) _ ok(3)] ok(1) by (simp add: state_ok_def db_ok_def)
  then show ?case using bound_trans step step_state_ok [OF ok(2,1)] by blast
qed (simp add: evolves_refl)

lemma bound_never_leased:
  assumes "state_ok L d" "c \<in> set (channel_accounts d)" "settlement_record_id c = Some n"
    and "leaseChannel now locked nw worker leaseMs allowed d = (Some l, d')"
  shows "(l_network l, l_address l) \<noteq> channel_key c"
proof
  assume k: "(l_network l, l_address l) = channel_key c"
  obtain c0 where c0: "c0 \<in> set (channel_accounts d)" "lease_candidate now nw allowed locked c0"
    "channel_key c0 = (l_network l, l_address l)" using leaseChannel_Some [OF assms(4)] by blast
  have ok: "channels_ok (channel_accounts d)" using assms(1) by (simp add: state_ok_def db_ok_def)
  have "c0 = c" using channel_unique [OF ok c0(1) assms(2)] c0(3) k by simp
  then show False using lease_candidate_unbound [OF c0(2)] ok assms(2,3)
    by (auto simp: channels_ok_def list_all_iff)
qed

section \<open>The claim\<close>

lemma insert_record_id_row:
  assumes "r \<in> set (idempotency_records d)" "records_ok (idempotency_records d) (next_id d)"
  shows "insert_record now (i_scope r) (i_key r) fp sch nw (\<lambda>r. r) d = d\<lparr>next_id := next_id d + 1\<rparr>"
    and "find (record_is (i_scope r) (i_key r)) (idempotency_records d) = Some r"
proof -
  show f: "find (record_is (i_scope r) (i_key r)) (idempotency_records d) = Some r"
    using assms by (intro find_distinct [where key = record_key]) (auto simp: records_ok_def record_is_key record_key_def)
  have "update_where (record_is (i_scope r) (i_key r)) (\<lambda>r. r) (idempotency_records d) = idempotency_records d"
    by (simp add: update_where_def)
  then show "insert_record now (i_scope r) (i_key r) fp sch nw (\<lambda>r. r) d = d\<lparr>next_id := next_id d + 1\<rparr>"
    using f by (simp add: insert_record_def)
qed

lemma claim_existing:
  assumes "r \<in> set (idempotency_records d)" "records_ok (idempotency_records d) (next_id d)"
    and "ca_scope a = i_scope r" "ca_key a = i_key r"
  shows "fst (claimSettlement now a d) = Inr (case claim_decision now a r of Some answer \<Rightarrow> answer
     | None \<Rightarrow> Owner (mapRecord (claimed_row now a r)))"
  using insert_record_id_row [OF assms(1,2)] assms(3,4)
  by (simp add: claimSettlement_def Let_def split: option.splits)

lemma hash_not_claimed:
  "truthy_str (i_hash r) \<Longrightarrow> claim_decision now a r \<in>
     {Some (Conflict ''payment identifier was reused with a different request fingerprint''),
      Some (Conflict ''payment identifier was reused with a different settlement amount''),
      Some (Cached (mapRecord r)), Some (Resume (mapRecord r))}"
  by (simp add: claim_decision_def)

section \<open>Simulation windows\<close>

text \<open>The requests of one scope in one minute, in the order the database serialises them.\<close>

fun consume_all :: "int \<Rightarrow> string \<Rightarrow> int \<Rightarrow> int list \<Rightarrow> db \<Rightarrow> bool list \<times> db" where
  "consume_all now sc maximum [] d = ([], d)"
| "consume_all now sc maximum (n # ns) d = (let (g, d1) = consumeSimulations now sc n maximum d;
     (gs, d2) = consume_all now sc maximum ns d1 in (g # gs, d2))"

definition granted :: "int list \<Rightarrow> bool list \<Rightarrow> int" where
  "granted ns gs = sum_list (map fst (filter snd (zip ns gs)))"

definition used_of :: "db \<Rightarrow> int \<times> string \<Rightarrow> int" where
  "used_of d k = coalesce (map_of (simulation_windows d) k) 0"

lemma map_of_update_key:
  "map_of (update_where (\<lambda>e. fst e = k) (\<lambda>e. (fst e, snd e + n)) t) k' =
     map_option (\<lambda>v. if k' = k then v + (n :: int) else v) (map_of t k')"
  by (induction t) auto

lemma consume_used:
  "consumeSimulations now sc n maximum d = (g, d') \<Longrightarrow>
    used_of d' (minute_window now, sc) = used_of d (minute_window now, sc) + n
    \<and> g = (used_of d (minute_window now, sc) + n \<le> maximum)"
  by (cases "map_of (simulation_windows d) (minute_window now, sc)")
    (auto simp: consumeSimulations_def used_of_def Let_def map_of_update_key map_add_def)

lemma consume_all_granted:
  assumes "\<forall>n \<in> set ns. 0 \<le> n" "consume_all now sc maximum ns d = (gs, d')"
  shows "granted ns gs + used_of d (minute_window now, sc) \<le> maximum \<or> granted ns gs = 0"
  using assms
proof (induction ns arbitrary: d gs d')
  case (Cons n ns)
  obtain g d1 where g: "consumeSimulations now sc n maximum d = (g, d1)" by fastforce
  obtain gs' d2 where gs: "consume_all now sc maximum ns d1 = (gs', d2)" by fastforce
  have gs_eq: "gs = g # gs'" using Cons.prems(2) g gs by simp
  note u = consume_used [OF g]
  have "granted ns gs' + used_of d1 (minute_window now, sc) \<le> maximum \<or> granted ns gs' = 0"
    using Cons.IH [OF _ gs] Cons.prems(1) by simp
  then show ?case using u gs_eq Cons.prems(1) by (auto simp: granted_def)
qed (simp add: granted_def)

lemma consume_all_used:
  "consume_all now sc maximum ns d = (gs, d') \<Longrightarrow>
    used_of d' (minute_window now, sc) = used_of d (minute_window now, sc) + sum_list ns"
proof (induction ns arbitrary: d gs d')
  case (Cons n ns)
  obtain g d1 where g: "consumeSimulations now sc n maximum d = (g, d1)" by fastforce
  obtain gs' d2 where gs: "consume_all now sc maximum ns d1 = (gs', d2)" by fastforce
  have "d' = d2" using Cons.prems g gs by simp
  then show ?case using Cons.IH [OF gs] consume_used [OF g] by simp
qed simp

section \<open>Storing a prepared settlement\<close>

text \<open>The database after the statements that follow a granted reservation.\<close>

definition stored_db :: "int \<Rightarrow> int \<Rightarrow> channel_lease \<Rightarrow> prepared_settlement \<Rightarrow> db \<Rightarrow> db" where
  "stored_db now recordId lease p d1 = audit recordId ''prepared''
     [(''transactionHash'', transactionHash p), (''channelSequence'', int_to_string (channelSequence p))]
     (d1\<lparr>idempotency_records := update_where (\<lambda>r. i_id r = recordId) (prepared_row now lease p)
          (idempotency_records d1),
        channel_accounts := update_where
          (\<lambda>c. channel_is (l_network lease) (l_address lease) c \<and> ch_fencing c = fencingToken lease)
          (\<lambda>c. c\<lparr>ch_status := Unresolved, settlement_record_id := Some recordId, ch_updated := now\<rparr>)
          (channel_accounts d1)\<rparr>)"

lemma stored_unfold:
  assumes "storePreparedAndReserve now n lease p sc perScope global d = (Inr Stored, d')"
  shows "\<exists>c d1. find (holds_lease lease) (channel_accounts d) = Some c
    \<and> (\<forall>s. last_sequence c = Some s \<longrightarrow> s < channelSequence p)
    \<and> reserveBudget now sc (estimatedTotalFee p) perScope global d = (True, d1)
    \<and> record_exists n d \<and> d' = stored_db now n lease p d1"
  using assms
  by (auto simp: storePreparedAndReserve_def stored_db_def split: option.splits if_splits prod.splits bool.splits)

lemma find_id:
  "records_ok t n \<Longrightarrow> r \<in> set t \<Longrightarrow> find (\<lambda>x. i_id x = i_id r) t = Some r"
  by (intro find_distinct [where key = i_id]) (auto simp: records_ok_def)

lemma stored_db_records:
  "getRecord n (stored_db now n lease p d1) =
     map_option (\<lambda>r. mapRecord (prepared_row now lease p r)) (find (\<lambda>x. i_id x = n) (idempotency_records d1))"
proof -
  have "find (\<lambda>x. i_id x = n) (update_where (\<lambda>r. i_id r = n) (prepared_row now lease p) (idempotency_records d1))
      = map_option (\<lambda>r. if i_id r = n then prepared_row now lease p r else r) (find (\<lambda>x. i_id x = n) (idempotency_records d1))"
    by (rule find_update_where) (simp add: prepared_row_def)
  then show ?thesis
    by (cases "find (\<lambda>x. i_id x = n) (idempotency_records d1)")
      (auto simp: getRecord_def stored_db_def audit_def dest: find_SomeD)
qed

lemma stored_db_other:
  "m \<noteq> n \<Longrightarrow> getRecord m (stored_db now n lease p d1) = getRecord m d1"
proof -
  assume mn: "m \<noteq> n"
  have "find (\<lambda>x. i_id x = m) (update_where (\<lambda>r. i_id r = n) (prepared_row now lease p) t) = find (\<lambda>x. i_id x = m) t" for t
    using mn by (induction t) (auto simp: prepared_row_def)
  then show ?thesis by (simp add: getRecord_def stored_db_def audit_def)
qed

lemma stored_db_channel:
  assumes "c \<in> set (channel_accounts d)" "holds_lease lease c" and "channel_accounts d1 = channel_accounts d"
  shows "\<exists>c' \<in> set (channel_accounts (stored_db now n lease p d1)). channel_key c' = channel_key c
    \<and> ch_status c' = Unresolved \<and> settlement_record_id c' = Some n"
proof -
  let ?c = "c\<lparr>ch_status := Unresolved, settlement_record_id := Some n, ch_updated := now\<rparr>"
  have "?c \<in> set (channel_accounts (stored_db now n lease p d1))"
    using assms by (auto simp: stored_db_def audit_def in_update_where holds_lease_def)
  then show ?thesis by (intro bexI [of _ ?c]) (auto simp: channel_key_def)
qed

end
