(* ===== verification/Orchestrator.thy ===== *)
theory Orchestrator
  imports Settlement_Safety Upto_Mechanism
begin

text \<open>
  facilitator/src/orchestrator.ts: \<open>FacilitatorCore\<close>.  The world is the database, the clock and the
  rest of the outside.  Before every database operation and after every pause other workers may run:
  that is the parameter \<open>yield\<close>, so a run of an operation here is one worker's part of an arbitrary
  interleaving.  The RPC server, Horizon, the cataloger and the analytics store are parameters.
\<close>

section \<open>The world and the services\<close>

record 'x world =
  w_db :: db
  w_now :: int
  w_ext :: 'x

datatype send_status = SendTryAgainLater | SendError | SendAccepted

datatype tx_status = TxSuccess | TxFailed | TxOther

datatype poll_result = PSuccess | PFailed | PUnknown

datatype horizon_result = HSuccess | HFailed | HNotFound | HUnknown

record http_answer =
  http_status :: int
  successful :: "bool option"

datatype stage = Verified_stage | Settled_stage

record cataloging_context =
  cc_stage :: stage
  cc_payer :: "string option"
  cc_record :: "int option"

record cataloging_result =
  cr_status :: string
  cr_rejectedReason :: "string option"
  cr_resourceId :: "int option"
  cr_versionId :: "int option"
  cr_paymentOptionId :: "int option"

record payment_event =
  ev_record :: "int option"
  ev_stage :: stage
  ev_status :: string
  ev_network :: string
  ev_scheme :: string
  ev_asset :: string
  ev_assetInfo :: "(string \<times> int) option"
  ev_payer :: "string option"
  ev_payTo :: string
  ev_maxAmount :: string
  ev_amount :: "string option"
  ev_fee :: "string option"
  ev_hash :: "string option"
  ev_facilitator :: string
  ev_resourceId :: "int option"
  ev_versionId :: "int option"
  ev_optionId :: "int option"
  ev_url :: "string option"
  ev_error :: "string option"

record ('x, 'v) services =
  stellar :: "('x world, 'v) stellar"
  yield :: "'x world \<Rightarrow> 'x world"
  db_fault :: "'x world \<Rightarrow> (bool \<times> exn) option"
  locked_rows :: "'x world \<Rightarrow> string \<times> string \<Rightarrow> bool"
  send_transaction :: "string \<Rightarrow> ('x world, send_status) io"
  get_transaction :: "string \<Rightarrow> ('x world, tx_status) io"
  envelope_check :: "string \<Rightarrow> string \<Rightarrow> string + unit"
  envelope_max_time :: "string \<Rightarrow> string \<Rightarrow> string + string option"
  fetch_horizon :: "string \<Rightarrow> ('x world, http_answer) io"
  sha256 :: "string \<Rightarrow> string"
  localeCompare :: "string \<Rightarrow> string \<Rightarrow> int"
  cataloger :: "(request_envelope \<Rightarrow> cataloging_context \<Rightarrow> ('x world, cataloging_result option) io) option"
  analytics :: "(payment_event \<Rightarrow> ('x world, unit) io) option"
  autoCatalog :: bool
  instanceId :: string
  limits_of :: limits
  registry :: runtime_registry

text \<open>
  One database operation: other workers first, then the operation at the current time.  A query may be refused
  before it runs, or its answer may be lost after it ran; either way the promise rejects.
\<close>

definition db_run :: "('x, 'v) services \<Rightarrow> ('x world \<Rightarrow> (exn + 'a) \<times> db) \<Rightarrow> ('x world, 'a) io" where
  "db_run V g = (\<lambda>w. let w1 = yield V w in case g w1 of (r, d) \<Rightarrow> (case db_fault V w1 of
       None \<Rightarrow> (r, w1\<lparr>w_db := d\<rparr>)
     | Some (applied, e) \<Rightarrow> (Inl e, w1\<lparr>w_db := (if applied then d else w_db w1)\<rparr>)))"

definition db_op :: "('x, 'v) services \<Rightarrow> (int \<Rightarrow> db \<Rightarrow> (exn + 'a) \<times> db) \<Rightarrow> ('x world, 'a) io" where
  "db_op V f = db_run V (\<lambda>w. f (w_now w) (w_db w))"

definition db_get :: "('x, 'v) services \<Rightarrow> (db \<Rightarrow> 'a) \<Rightarrow> ('x world, 'a) io" where
  "db_get V f = db_op V (\<lambda>now d. (Inr (f d), d))"

definition db_set :: "('x, 'v) services \<Rightarrow> (int \<Rightarrow> db \<Rightarrow> db) \<Rightarrow> ('x world, unit) io" where
  "db_set V f = db_op V (\<lambda>now d. (Inr (), f now d))"

definition db_both :: "('x, 'v) services \<Rightarrow> (int \<Rightarrow> db \<Rightarrow> 'a \<times> db) \<Rightarrow> ('x world, 'a) io" where
  "db_both V f = db_op V (\<lambda>now d. case f now d of (x, d') \<Rightarrow> (Inr x, d'))"

definition lease_op :: "('x, 'v) services \<Rightarrow> string \<Rightarrow> string list \<Rightarrow> ('x world, channel_lease option) io" where
  "lease_op V nw known = db_run V (\<lambda>w.
     case leaseChannel (w_now w) (locked_rows V w) nw (instanceId V) (channelLeaseMs (limits_of V)) (Some known) (w_db w)
     of (r, d) \<Rightarrow> (Inr r, d))"

text \<open>\<open>await new Promise(resolve => setTimeout(resolve, ms))\<close>\<close>

definition sleep :: "('x, 'v) services \<Rightarrow> int \<Rightarrow> ('x world, unit) io" where
  "sleep V ms = (\<lambda>w. (Inr (), yield V (w\<lparr>w_now := w_now w + ms\<rparr>)))"

text \<open>\<open>this.simulations.run(task)\<close>: the task runs once a slot is free.\<close>

definition with_slot :: "('x, 'v) services \<Rightarrow> ('x world, 'a) io \<Rightarrow> ('x world, 'a) io" where
  "with_slot V task = (\<lambda>w. task (yield V w))"

section \<open>Responses\<close>

definition failed :: "request_envelope \<Rightarrow> string \<Rightarrow> string option \<Rightarrow> string option \<Rightarrow> settlement_outcome" where
  "failed request reason p h = SettleResponse \<lparr> success = False, transaction = coalesce h [],
     s_network = network (paymentRequirements request), errorReason = Some reason,
     s_payer = (if truthy_str p then p else None), s_amount = None \<rparr>"

definition outcome_success :: "settlement_outcome \<Rightarrow> bool" where
  "outcome_success o1 = (case o1 of SettleResponse r \<Rightarrow> success r | HttpConflict _ \<Rightarrow> False)"

definition outcome_payer :: "settlement_outcome \<Rightarrow> string option" where
  "outcome_payer o1 = (case o1 of SettleResponse r \<Rightarrow> s_payer r | HttpConflict _ \<Rightarrow> None)"

definition truthy :: "string option \<Rightarrow> string option" where
  "truthy s = (if truthy_str s then s else None)"

section \<open>Supported kinds\<close>

record supported_kind =
  k_version :: int
  k_scheme :: string
  k_network :: string

record supported_response =
  kinds :: "supported_kind list"
  sup_extensions :: "string list"
  stellar_signers :: "string list"

definition kinds_of :: "string \<times> network_runtime \<Rightarrow> supported_kind list" where
  "kinds_of e = \<lparr> k_version = 2, k_scheme = ''exact'', k_network = fst e \<rparr>
     # (if truthy_str (uptoContract (config (snd e)))
        then [\<lparr> k_version = 2, k_scheme = ''upto'', k_network = fst e \<rparr>] else [])"

text \<open>A JavaScript set keeps the first occurrence of every element, in insertion order.\<close>

definition js_set :: "'a list \<Rightarrow> 'a list" where
  "js_set xs = rev (remdups (rev xs))"

definition supported :: "('x, 'v) services \<Rightarrow> supported_response" where
  "supported V = \<lparr> kinds = concat (map kinds_of (networks (registry V))),
     sup_extensions = ''payment-identifier'' # (if autoCatalog V then [''bazaar''] else []),
     stellar_signers = js_set (map (\<lambda>e. signer_address (sponsor (snd e))) (networks (registry V))) \<rparr>"

section \<open>Context\<close>

record request_context =
  x_network :: string
  x_runtime :: network_runtime
  x_scheme :: string

definition context_of :: "('x, 'v) services \<Rightarrow> request_envelope \<Rightarrow> ('x world, request_context) io" where
  "context_of V request = (let req = paymentRequirements request in
     case map_of (networks (registry V)) (network req) of
       None \<Rightarrow> io_throw (JsError ''unsupported_network'')
     | Some runtime \<Rightarrow>
         if scheme req \<notin> {''exact'', ''upto''} \<or> (scheme req = ''upto'' \<and> \<not> truthy_str (uptoContract (config runtime)))
         then io_throw (JsError ''unsupported_scheme'')
         else io_return \<lparr> x_network = network req, x_runtime = runtime, x_scheme = scheme req \<rparr>)"

definition mechanism_verify ::
    "('x, 'v) services \<Rightarrow> request_context \<Rightarrow> request_envelope \<Rightarrow> ('x world, verification_result) io" where
  "mechanism_verify V ctx request = (if x_scheme ctx = ''exact'' then exact_verify (stellar V) request (x_runtime ctx)
     else upto_verify (stellar V) request (x_runtime ctx))"

definition mechanism_prepare ::
    "('x, 'v) services \<Rightarrow> request_context \<Rightarrow> request_envelope \<Rightarrow> channel_signer \<Rightarrow>
     ('x world, verify_response + prepared_settlement) io" where
  "mechanism_prepare V ctx request channel =
     (if x_scheme ctx = ''exact'' then exact_prepare (stellar V) request (x_runtime ctx) channel
      else upto_prepare (stellar V) request (x_runtime ctx) channel)"

definition budget_scope :: "('x, 'v) services \<Rightarrow> request_context \<Rightarrow> string \<Rightarrow> string" where
  "budget_scope V ctx who = principalScope (sha256 V) (x_network ctx) (signer_address (sponsor (x_runtime ctx))) who"

definition id_scope :: "request_context \<Rightarrow> request_envelope \<Rightarrow> string" where
  "id_scope ctx request = paymentScope (x_network ctx) (signer_address (sponsor (x_runtime ctx)))
     (payTo (accepted (paymentPayload request)))"

section \<open>Verify\<close>

definition invalid_reason :: "string \<Rightarrow> verify_response" where
  "invalid_reason r = \<lparr> isValid = False, invalidReason = Some r, v_payer = None, invalidMessage = None \<rparr>"

definition runVerify :: "('x, 'v) services \<Rightarrow> request_envelope \<Rightarrow> string \<Rightarrow> ('x world, verify_response) io" where
  "runVerify V request who = (case paymentIdentifierError (paymentPayload request) of
      Some identifierError \<Rightarrow> io_return (invalid_reason identifierError)
    | None \<Rightarrow> io_bind (context_of V request) (\<lambda>ctx.
      io_bind (db_both V (\<lambda>now. consumeSimulations now (budget_scope V ctx who) 2 (maxSimulationsPerKeyPerMinute (limits_of V))))
      (\<lambda>granted.
      if \<not> granted then io_return (invalid_reason ''invalid_stellar_simulation_rate_exceeded'')
      else (case idempotencyData (sha256 V) (localeCompare V) request of (key, fingerprint) \<Rightarrow>
        io_bind (db_both V (\<lambda>now. registerIdempotency now (id_scope ctx request) key fingerprint (x_scheme ctx) (x_network ctx)))
        (\<lambda>(conflict, _).
        if conflict then io_throw (ConflictError ''payment identifier conflict'')
        else io_bind (with_slot V (mechanism_verify V ctx request)) (\<lambda>result. io_return (response result)))))))"

section \<open>Polling\<close>

text \<open>
  The loop of \<open>poll\<close> and of \<open>waitForOwner\<close>, with fuel: one unit per turn.  Every turn sleeps at least
  one millisecond, so as many turns as there are milliseconds to the deadline are enough.
\<close>

fun poll_loop :: "('x, 'v) services \<Rightarrow> nat \<Rightarrow> string \<Rightarrow> int \<Rightarrow> ('x world, poll_result) io" where
  "poll_loop V 0 h limit w = (Inr PUnknown, w)"
| "poll_loop V (Suc n) h limit w = (if w_now w < limit
     then (case get_transaction V h w of
         (Inr TxSuccess, w1) \<Rightarrow> (Inr PSuccess, w1)
       | (Inr TxFailed, w1) \<Rightarrow> (Inr PFailed, w1)
       | (_, w1) \<Rightarrow> poll_loop V n h limit (snd (sleep V (settlePollMs (limits_of V)) w1)))
     else (Inr PUnknown, w))"

definition poll :: "('x, 'v) services \<Rightarrow> string \<Rightarrow> ('x world, poll_result) io" where
  "poll V h = (\<lambda>w. poll_loop V (nat (settleTimeoutMs (limits_of V)) + 1) h (w_now w + settleTimeoutMs (limits_of V)) w)"

definition owner_done :: "settlement_record option \<Rightarrow> bool" where
  "owner_done r = (case r of None \<Rightarrow> False | Some s \<Rightarrow> sr_response s \<noteq> None \<or> truthy_str (sr_hash s))"

fun wait_loop :: "('x, 'v) services \<Rightarrow> nat \<Rightarrow> int \<Rightarrow> int \<Rightarrow> ('x world, settlement_record option) io" where
  "wait_loop V 0 n limit w = (Inr None, w)"
| "wait_loop V (Suc k) n limit w = (if w_now w < limit
     then (case db_get V (getRecord n) w of
         (Inl e, w1) \<Rightarrow> (Inl e, w1)
       | (Inr r, w1) \<Rightarrow> if owner_done r then (Inr r, w1) else wait_loop V k n limit (snd (sleep V 100 w1)))
     else (Inr None, w))"

definition waitForOwner :: "('x, 'v) services \<Rightarrow> int \<Rightarrow> int \<Rightarrow> ('x world, settlement_record option) io" where
  "waitForOwner V n timeoutMs = (\<lambda>w. wait_loop V (nat timeoutMs + 1) n (w_now w + timeoutMs) w)"

section \<open>Settling\<close>

definition settled_response :: "request_envelope \<Rightarrow> settlement_record \<Rightarrow> settlement_outcome" where
  "settled_response request record1 = SettleResponse \<lparr> success = True, transaction = coalesce (sr_hash record1) [],
     s_network = network (paymentRequirements request), errorReason = None, s_payer = truthy (sr_payer record1),
     s_amount = (if scheme (paymentRequirements request) = ''upto'' then Some (amount (paymentRequirements request)) else None) \<rparr>"

definition pollKnown :: "('x, 'v) services \<Rightarrow> request_envelope \<Rightarrow> settlement_record \<Rightarrow> ('x world, settlement_outcome) io" where
  "pollKnown V request record1 = io_bind (poll V (coalesce (sr_hash record1) [])) (\<lambda>result. case result of
      PSuccess \<Rightarrow> (let outcome = settled_response request record1 in
        io_seq (db_op V (\<lambda>now. complete now (sr_id record1) outcome Success True)) (io_return outcome))
    | PFailed \<Rightarrow> (let outcome = failed request ''settle_stellar_transaction_failed'' (sr_payer record1) (sr_hash record1) in
        io_seq (db_op V (\<lambda>now. complete now (sr_id record1) outcome Failed True)) (io_return outcome))
    | PUnknown \<Rightarrow>
        io_seq (db_set V (\<lambda>now. markUnknown now (sr_id record1) ''transaction was not resolved before polling deadline''))
        (io_return (failed request ''settle_stellar_transaction_status_unknown'' (sr_payer record1) (sr_hash record1))))"

text \<open>The submission of \<open>submitPersisted\<close>: \<open>Some outcome\<close> when the RPC server refused the transaction.\<close>

definition send_persisted :: "('x, 'v) services \<Rightarrow> request_envelope \<Rightarrow> settlement_record \<Rightarrow> ('x world, settlement_outcome option) io" where
  "send_persisted V request record1 = (let envelope = coalesce (sr_envelope record1) [] in
     io_bind (io_bind (send_transaction V envelope) (\<lambda>sent. case sent of
         SendTryAgainLater \<Rightarrow> io_seq (sleep V 1000) (send_transaction V envelope)
       | _ \<Rightarrow> io_return sent)) (\<lambda>sent.
     if sent = SendError
     then (let outcome = failed request ''settle_stellar_transaction_submission_failed'' (sr_payer record1) (sr_hash record1) in
       io_seq (db_op V (\<lambda>now. complete now (sr_id record1) outcome Failed False)) (io_return (Some outcome)))
     else io_seq (db_set V (\<lambda>now. markPending now (sr_id record1))) (io_return None)))"

definition submitPersisted ::
    "('x, 'v) services \<Rightarrow> network_runtime \<Rightarrow> request_envelope \<Rightarrow> settlement_record \<Rightarrow> ('x world, settlement_outcome) io" where
  "submitPersisted V runtime request record1 =
     io_seq (sdk (envelope_check V (coalesce (sr_envelope record1) []) (networkPassphrase (stellar V) (n_id (config runtime)))))
     (io_bind (io_catch (send_persisted V request record1) (\<lambda>_.
         io_seq (db_set V (\<lambda>now. markUnknown now (sr_id record1) ''rpc response lost after submission attempt'')) (io_return None)))
     (\<lambda>refused. case refused of Some outcome \<Rightarrow> io_return outcome | None \<Rightarrow> pollKnown V request record1))"

text \<open>Completing the claim as failed and answering with the failure.\<close>

definition fail_claim :: "('x, 'v) services \<Rightarrow> int \<Rightarrow> settlement_outcome \<Rightarrow> ('x world, settlement_outcome) io" where
  "fail_claim V n outcome = io_seq (db_op V (\<lambda>now. complete now n outcome Failed False)) (io_return outcome)"

text \<open>After preparation: store, then submit what was stored.\<close>

definition store_and_submit ::
    "('x, 'v) services \<Rightarrow> request_context \<Rightarrow> request_envelope \<Rightarrow> string \<Rightarrow> int \<Rightarrow> channel_lease \<Rightarrow> prepared_settlement \<Rightarrow>
     ('x world, settlement_outcome) io" where
  "store_and_submit V ctx request who n lease prepared =
     io_bind (db_op V (\<lambda>now. storePreparedAndReserve now n lease prepared (budget_scope V ctx who)
       (maxSponsoredStroopsPerKeyPerDay (limits_of V)) (maxGlobalSponsoredStroopsPerDay (limits_of V)))) (\<lambda>stored.
     if stored \<noteq> Stored then
       io_seq (db_set V (\<lambda>now. releaseChannel now lease))
       (if stored = StaleSequence then io_throw (BusyError ''channel account sequence is behind the ledger'')
        else fail_claim V n (failed request (if stored = BudgetExceeded then ''settle_stellar_sponsor_budget_exceeded''
          else ''settle_stellar_channel_fence_lost'') (Some (pp_payer prepared)) None))
     else io_bind (db_get V (getRecord n)) (\<lambda>persisted. case persisted of
         None \<Rightarrow> io_throw (JsError ''prepared settlement disappeared'')
       | Some record1 \<Rightarrow> submitPersisted V (x_runtime ctx) request record1))"

text \<open>The path of the owner of a claim.\<close>

definition settle_as_owner ::
    "('x, 'v) services \<Rightarrow> request_context \<Rightarrow> request_envelope \<Rightarrow> string \<Rightarrow> int \<Rightarrow> ('x world, settlement_outcome) io" where
  "settle_as_owner V ctx request who n =
     (let channelMap = coalesce (map_of (channels (registry V)) (x_network ctx)) [] in
      io_bind (lease_op V (x_network ctx) (map fst channelMap)) (\<lambda>leased. case leased of
        None \<Rightarrow> io_throw (BusyError ''no channel account is currently available'')
      | Some lease \<Rightarrow> (case map_of channelMap (l_address lease) of
          None \<Rightarrow> io_seq (db_set V (\<lambda>now. releaseChannel now lease))
            (io_return (failed request ''settle_stellar_channel_key_unavailable'' None None))
        | Some channel \<Rightarrow>
          io_bind (io_catch (io_bind (with_slot V (mechanism_prepare V ctx request channel)) (\<lambda>x. io_return (Some x)))
            (\<lambda>_. io_return None)) (\<lambda>attempt. case attempt of
              None \<Rightarrow> io_seq (db_set V (\<lambda>now. releaseChannel now lease))
                (fail_claim V n (failed request ''unexpected_settle_error'' None None))
            | Some (Inl refusal) \<Rightarrow> io_seq (db_set V (\<lambda>now. releaseChannel now lease))
                (fail_claim V n (failed request (coalesce (invalidReason refusal) ''verification_failed'') (v_payer refusal) None))
            | Some (Inr prepared) \<Rightarrow> store_and_submit V ctx request who n lease prepared))))"

definition settlement_claim :: "('x, 'v) services \<Rightarrow> request_context \<Rightarrow> request_envelope \<Rightarrow> int \<Rightarrow> claim_args" where
  "settlement_claim V ctx request actual = (case idempotencyData (sha256 V) (localeCompare V) request of (key, fingerprint) \<Rightarrow>
     \<lparr> ca_scope = id_scope ctx request, ca_key = key, ca_fingerprint = fingerprint, ca_scheme = x_scheme ctx,
       ca_network = x_network ctx, ca_actual = actual, ca_worker = instanceId V, ca_leaseMs = channelLeaseMs (limits_of V) \<rparr>)"

definition answer_claim ::
    "('x, 'v) services \<Rightarrow> request_context \<Rightarrow> request_envelope \<Rightarrow> string \<Rightarrow> claim_result \<Rightarrow> ('x world, settlement_outcome) io" where
  "answer_claim V ctx request who claim = (case claim of
      Conflict m \<Rightarrow> io_throw (ConflictError m)
    | Cached record1 \<Rightarrow> io_return (the (sr_response record1))
    | Wait record1 \<Rightarrow> io_bind (waitForOwner V (sr_id record1) 5000) (\<lambda>cached.
        case cached of
          Some r \<Rightarrow> (case sr_response r of Some o1 \<Rightarrow> io_return o1
            | None \<Rightarrow> io_throw (BusyError ''identical settlement is already in progress''))
        | None \<Rightarrow> io_throw (BusyError ''identical settlement is already in progress''))
    | Resume record1 \<Rightarrow> pollKnown V request record1
    | Owner record1 \<Rightarrow> settle_as_owner V ctx request who (sr_id record1))"

definition runSettle :: "('x, 'v) services \<Rightarrow> request_envelope \<Rightarrow> string \<Rightarrow> ('x world, settlement_outcome) io" where
  "runSettle V request who = (case paymentIdentifierError (paymentPayload request) of
      Some identifierError \<Rightarrow> io_return (failed request identifierError None None)
    | None \<Rightarrow> io_bind (context_of V request) (\<lambda>ctx.
      io_bind (db_get V unresolvedCount) (\<lambda>pending.
      if pending \<ge> maxPendingSettlements (limits_of V) then io_throw (BusyError ''maximum pending settlements reached'')
      else (case parseInteger (amount (paymentRequirements request)) of
          None \<Rightarrow> io_return (failed request ''invalid_stellar_settlement_amount'' None None)
        | Some actual \<Rightarrow>
          io_bind (db_both V (\<lambda>now. consumeSimulations now (budget_scope V ctx who)
            (if x_scheme ctx = ''exact'' then 4 else 2) (maxSimulationsPerKeyPerMinute (limits_of V)))) (\<lambda>granted.
          if \<not> granted then io_return (failed request ''settle_stellar_simulation_rate_exceeded'' None None)
          else io_bind (db_op V (\<lambda>now. claimSettlement now (settlement_claim V ctx request actual)))
            (answer_claim V ctx request who))))))"

section \<open>The catalog and analytics side channel\<close>

record observed_outcome =
  oo_succeeded :: bool
  oo_payer :: "string option"
  oo_response :: "settlement_outcome option"

definition response_field :: "(settle_response \<Rightarrow> string option) \<Rightarrow> observed_outcome \<Rightarrow> string option" where
  "response_field f o1 = (case oo_response o1 of Some (SettleResponse r) \<Rightarrow> f r | _ \<Rightarrow> None)"

definition toWireResponse :: "cataloging_result \<Rightarrow> js" where
  "toWireResponse r = JObj ((''status'', JStr (cr_status r))
     # (if truthy_str (cr_rejectedReason r) then [(''rejectedReason'', JStr (the (cr_rejectedReason r)))] else []))"

definition event_status :: "stage \<Rightarrow> observed_outcome \<Rightarrow> string" where
  "event_status st o1 = (if st = Verified_stage then ''valid'' else if oo_succeeded o1 then ''success''
     else if response_field errorReason o1 = Some ''settle_stellar_transaction_status_unknown'' then ''unknown'' else ''failed'')"

text \<open>A numeric identifier is truthy when it is not zero.\<close>

definition truthy_id :: "int option \<Rightarrow> int option" where
  "truthy_id n = (case n of Some k \<Rightarrow> if k = 0 then None else Some k | None \<Rightarrow> None)"

definition payment_event_of ::
    "request_envelope \<Rightarrow> stage \<Rightarrow> observed_outcome \<Rightarrow> network_runtime \<Rightarrow> int option \<Rightarrow> int option \<Rightarrow> cataloging_result option \<Rightarrow>
     payment_event" where
  "payment_event_of request st o1 runtime recordId fee bazaar = (let req = paymentRequirements request in
     \<lparr> ev_record = recordId, ev_stage = st, ev_status = event_status st o1, ev_network = network req, ev_scheme = scheme req,
       ev_asset = asset req,
       ev_assetInfo = map_option (\<lambda>a. (symbol a, decimals a)) (map_of (allowedAssets (config runtime)) (asset req)),
       ev_payer = truthy (oo_payer o1), ev_payTo = payTo req, ev_maxAmount = amount req,
       ev_amount = (if oo_succeeded o1 then Some (coalesce (response_field s_amount o1) (amount req)) else None),
       ev_fee = map_option int_to_string fee,
       ev_hash = truthy (response_field (\<lambda>r. Some (transaction r)) o1),
       ev_facilitator = signer_address (sponsor runtime),
       ev_resourceId = truthy_id (case bazaar of Some b \<Rightarrow> cr_resourceId b | None \<Rightarrow> None),
       ev_versionId = truthy_id (case bazaar of Some b \<Rightarrow> cr_versionId b | None \<Rightarrow> None),
       ev_optionId = truthy_id (case bazaar of Some b \<Rightarrow> cr_paymentOptionId b | None \<Rightarrow> None),
       ev_url = (case js_get (resource (paymentPayload request)) ''url'' of JStr u \<Rightarrow> truthy (Some u) | _ \<Rightarrow> None),
       ev_error = truthy (response_field errorReason o1) \<rparr>)"

definition lookup_record ::
    "('x, 'v) services \<Rightarrow> request_envelope \<Rightarrow> stage \<Rightarrow> network_runtime option \<Rightarrow> ('x world, settlement_record option) io" where
  "lookup_record V request st runtime = (case (st, runtime) of
      (Settled_stage, Some rt) \<Rightarrow>
        io_catch (db_get V (findRecord (paymentScope (network (paymentRequirements request)) (signer_address (sponsor rt))
            (payTo (accepted (paymentPayload request)))) (fst (idempotencyData (sha256 V) (localeCompare V) request))))
          (\<lambda>_. io_return None)
    | _ \<Rightarrow> io_return None)"

definition catalog_attempt ::
    "('x, 'v) services \<Rightarrow> request_envelope \<Rightarrow> stage \<Rightarrow> observed_outcome \<Rightarrow> ('x world, js option) io" where
  "catalog_attempt V request st o1 = (let runtime = map_of (networks (registry V)) (network (paymentRequirements request)) in
     io_bind (lookup_record V request st runtime) (\<lambda>found.
     let recordId = map_option sr_id found; fee = (case found of Some r \<Rightarrow> sr_fee r | None \<Rightarrow> None) in
     io_bind (case cataloger V of
         Some observe \<Rightarrow> if oo_succeeded o1
           then observe request \<lparr> cc_stage = st, cc_payer = truthy (oo_payer o1), cc_record = recordId \<rparr>
           else io_return None
       | None \<Rightarrow> io_return None) (\<lambda>bazaar.
     io_seq (case (analytics V, runtime) of
         (Some record_event, Some rt) \<Rightarrow> if st = Settled_stage \<or> oo_succeeded o1
           then record_event (payment_event_of request st o1 rt recordId fee bazaar) else io_return ()
       | _ \<Rightarrow> io_return ())
     (io_return (map_option (\<lambda>b. JObj [(''bazaar'', toWireResponse b)]) bazaar)))))"

definition catalog ::
    "('x, 'v) services \<Rightarrow> request_envelope \<Rightarrow> stage \<Rightarrow> observed_outcome \<Rightarrow> ('x world, js option) io" where
  "catalog V request st o1 = io_catch (catalog_attempt V request st o1) (\<lambda>_. io_return None)"

section \<open>The public operations\<close>

definition verify :: "('x, 'v) services \<Rightarrow> request_envelope \<Rightarrow> string \<Rightarrow> ('x world, verify_response \<times> js option) io" where
  "verify V request who = io_bind (runVerify V request who) (\<lambda>r.
     io_bind (catalog V request Verified_stage
       \<lparr> oo_succeeded = isValid r, oo_payer = truthy (v_payer r), oo_response = None \<rparr>) (\<lambda>e.
     io_return (r, e)))"

definition settle :: "('x, 'v) services \<Rightarrow> request_envelope \<Rightarrow> string \<Rightarrow> ('x world, settlement_outcome \<times> js option) io" where
  "settle V request who = io_bind (runSettle V request who) (\<lambda>r.
     io_bind (catalog V request Settled_stage
       \<lparr> oo_succeeded = outcome_success r, oo_payer = truthy (outcome_payer r), oo_response = Some r \<rparr>) (\<lambda>e.
     io_return (r, e)))"

section \<open>Recovery\<close>

definition horizonStatus :: "('x, 'v) services \<Rightarrow> string \<Rightarrow> ('x world, horizon_result) io" where
  "horizonStatus V h = io_catch (io_bind (fetch_horizon V h) (\<lambda>answer. io_return
      (if http_status answer = 404 then HNotFound
       else if http_status answer < 200 \<or> 299 < http_status answer then HUnknown
       else case successful answer of Some True \<Rightarrow> HSuccess | Some False \<Rightarrow> HFailed | None \<Rightarrow> HUnknown)))
     (\<lambda>_. io_return HUnknown)"

definition persistedTransactionMaximumTime :: "('x, 'v) services \<Rightarrow> string \<Rightarrow> string \<Rightarrow> int option" where
  "persistedTransactionMaximumTime V envelope nw =
     (case envelope_max_time V envelope (networkPassphrase (stellar V) nw) of
        Inr (Some m) \<Rightarrow> if m \<noteq> [] \<and> m \<noteq> ''0'' \<and> nat_pattern m then Some (int (digits_value m)) else None
      | _ \<Rightarrow> None)"

definition persistedTransactionExpired ::
    "('x, 'v) services \<Rightarrow> settlement_record \<Rightarrow> network_runtime \<Rightarrow> ('x world, bool) io" where
  "persistedTransactionExpired V record1 runtime = (if \<not> truthy_str (sr_envelope record1) then io_return False
     else (case persistedTransactionMaximumTime V (the (sr_envelope record1)) (n_id (config runtime)) of
         None \<Rightarrow> io_return False
       | Some maximumTime \<Rightarrow> io_catch (io_bind (get_latest_ledger (stellar V)) (\<lambda>(_, closeTime).
           io_return (closeTime > maximumTime))) (\<lambda>_. io_return False)))"

definition recovered_response :: "settlement_record \<Rightarrow> string option \<Rightarrow> settlement_outcome" where
  "recovered_response record1 reason = SettleResponse \<lparr> success = (reason = None), transaction = coalesce (sr_hash record1) [],
     s_network = sr_network record1, errorReason = reason, s_payer = truthy (sr_payer record1),
     s_amount = (if reason = None \<and> sr_scheme record1 = ''upto'' then map_option int_to_string (actualAmount record1) else None) \<rparr>"

definition finish_recovered :: "('x, 'v) services \<Rightarrow> settlement_record \<Rightarrow> bool \<Rightarrow> ('x world, unit) io" where
  "finish_recovered V record1 ok = db_op V (\<lambda>now. complete now (sr_id record1)
     (recovered_response record1 (if ok then None else Some ''settle_stellar_transaction_failed''))
     (if ok then Success else Failed) True)"

definition pollRecordWithoutRequest :: "('x, 'v) services \<Rightarrow> network_runtime \<Rightarrow> settlement_record \<Rightarrow> ('x world, unit) io" where
  "pollRecordWithoutRequest V runtime record1 = io_bind (poll V (coalesce (sr_hash record1) [])) (\<lambda>result. case result of
      PSuccess \<Rightarrow> finish_recovered V record1 True
    | PFailed \<Rightarrow> finish_recovered V record1 False
    | PUnknown \<Rightarrow> io_bind (horizonStatus V (coalesce (sr_hash record1) [])) (\<lambda>archive. case archive of
        HSuccess \<Rightarrow> finish_recovered V record1 True
      | HFailed \<Rightarrow> finish_recovered V record1 False
      | HUnknown \<Rightarrow> io_return ()
      | HNotFound \<Rightarrow> io_bind (persistedTransactionExpired V record1 runtime) (\<lambda>expired.
          if \<not> expired then io_return ()
          else db_op V (\<lambda>now. complete now (sr_id record1)
            (recovered_response record1 (Some ''settle_stellar_transaction_expired_unconfirmed'')) Failed False))))"

fun recover_all :: "('x, 'v) services \<Rightarrow> settlement_record list \<Rightarrow> ('x world, unit) io" where
  "recover_all V [] = io_return ()"
| "recover_all V (record1 # rest) = (case (truthy_str (sr_hash record1), map_of (networks (registry V)) (sr_network record1)) of
      (True, Some runtime) \<Rightarrow> io_seq (io_catch (pollRecordWithoutRequest V runtime record1) (\<lambda>_. io_return ())) (recover_all V rest)
    | _ \<Rightarrow> recover_all V rest)"

definition recoverUnresolved :: "('x, 'v) services \<Rightarrow> ('x world, unit) io" where
  "recoverUnresolved V = io_bind (db_get V listUnresolved) (recover_all V)"

end
