(* ===== verification/Settlement_Properties.thy ===== *)
theory Settlement_Properties
  imports Settlement_Safety
begin

text \<open>
  The properties of the settlement state (facilitator/src/db/state.ts), each with a concrete run
  on which its hypotheses hold.
\<close>

section \<open>A concrete run\<close>

definition demo_limits :: limits where
  "demo_limits = \<lparr> maxConcurrentSimulations = 4, maxSimulationsPerKeyPerMinute = 8,
     maxSponsoredStroopsPerKeyPerDay = 500, maxGlobalSponsoredStroopsPerDay = 900, maxPendingSettlements = 10,
     channelLeaseMs = 1000, settlePollMs = 100, settleTimeoutMs = 5000 \<rparr>"

definition demo_prepared :: "string \<Rightarrow> int \<Rightarrow> prepared_settlement" where
  "demo_prepared h s = \<lparr> pp_scheme = ''exact'', pp_network = ''stellar:testnet'', pp_payer = ''GPAYER'', pp_maximum = 7,
     pp_actual = 7, channelAddress = ''GA'', channelSequence = s, envelopeXdr = ''AAAA'', transactionHash = h,
     estimatedResourceFee = 100, estimatedInclusionFee = 200, estimatedTotalFee = 300 \<rparr>"

definition demo_claim :: "string \<Rightarrow> claim_args" where
  "demo_claim worker = \<lparr> ca_scope = ''n:s:p'', ca_key = ''k'', ca_fingerprint = ''f'', ca_scheme = ''exact'',
     ca_network = ''stellar:testnet'', ca_actual = 7, ca_worker = worker, ca_leaseMs = 1000 \<rparr>"

definition demo_net :: string where
  "demo_net = ''stellar:testnet''"

definition db0 :: db where
  "db0 = upsertChannel 0 demo_net ''GB'' (upsertChannel 0 demo_net ''GA'' empty_db)"

definition db1 :: db where
  "db1 = snd (claimSettlement 1 (demo_claim ''w1'') db0)"

definition demo_lease :: "string \<Rightarrow> int \<Rightarrow> channel_lease" where
  "demo_lease a n = \<lparr> l_network = demo_net, l_address = a, fencingToken = n \<rparr>"

definition free :: "string \<times> string \<Rightarrow> bool" where
  "free k = False"

definition db2 :: db where
  "db2 = snd (leaseChannel 2 free demo_net ''w1'' 1000 (Some [''GA'', ''GB'']) db1)"

definition db3 :: db where
  "db3 = snd (storePreparedAndReserve 3 1 (demo_lease ''GA'' 1) (demo_prepared ''h1'' 11) ''n:s:k1'' 500 900 db2)"

lemma db1_eval: "claimSettlement 1 (demo_claim ''w1'') db0 = (Inr (Owner (the (getRecord 1 db1))), db1)"
  by code_simp

lemma db2_eval: "leaseChannel 2 free demo_net ''w1'' 1000 (Some [''GA'', ''GB'']) db1 = (Some (demo_lease ''GA'' 1), db2)"
  by code_simp

lemma db3_eval: "storePreparedAndReserve 3 1 (demo_lease ''GA'' 1) (demo_prepared ''h1'' 11) ''n:s:k1'' 500 900 db2
    = (Inr Stored, db3)"
  by code_simp

lemma demo_step_upsert: "store_step demo_limits d (upsertChannel now nw ad d)"
  by (rule step_upsert)

lemma db0_reachable: "store_steps demo_limits empty_db db0"
  unfolding db0_def
  by (rule rtranclp.rtrancl_into_rtrancl [OF r_into_rtranclp [of "store_step demo_limits", OF step_upsert] step_upsert])

lemma db1_reachable: "store_steps demo_limits empty_db db1"
  unfolding db1_def by (rule rtranclp.rtrancl_into_rtrancl [OF db0_reachable step_claim])

lemma db2_reachable: "store_steps demo_limits empty_db db2"
  unfolding db2_def by (rule rtranclp.rtrancl_into_rtrancl [OF db1_reachable step_lease])

lemma db3_step: "store_step demo_limits db2 db3"
  using step_prepare [of "demo_prepared ''h1'' 11" "''n:s:k1''" demo_limits db2 3 1 "demo_lease ''GA'' 1"]
  by (simp add: db3_def demo_limits_def demo_prepared_def global_scope_def)

lemma db3_reachable: "store_steps demo_limits empty_db db3"
  by (rule rtranclp.rtrancl_into_rtrancl [OF db2_reachable db3_step])

lemma reachable_ok: "store_steps L empty_db d \<Longrightarrow> state_ok L d"
  using steps_state_ok state_ok_empty by blast

section \<open>Properties\<close>

text \<open>C1: A stale lease holder is fenced.  In every interleaving of operations, once the channel a
  worker leased has been leased again, the first worker's attempt to store its prepared settlement
  answers fence_lost and changes nothing, and its release of the channel changes nothing.\<close>

theorem stale_holder_is_fenced:
  assumes "store_steps L empty_db d"
    and "leaseChannel now1 locked1 nw w1 ms1 al1 d = (Some l1, d1)" and "store_steps L d1 d2"
    and "leaseChannel now2 locked2 nw w2 ms2 al2 d2 = (Some l2, d3)" and "l_address l2 = l_address l1"
    and "store_steps L d3 d4"
  shows "storePreparedAndReserve now n l1 p sc perScope global d4 = (Inr FenceLost, d4)
    \<and> releaseChannel now l1 d4 = d4"
proof -
  have "\<not> holds_lease l1 c" if "c \<in> set (channel_accounts d4)" for c
    by (rule stale_lease [OF reachable_ok [OF assms(1)] assms(2-6) that])
  then show ?thesis by (simp add: store_stale_holder release_other)
qed

definition db2' :: db where
  "db2' = snd (leaseChannel 5000 free demo_net ''w2'' 1000 (Some [''GA'']) db2)"

lemma db2'_eval: "leaseChannel 5000 free demo_net ''w2'' 1000 (Some [''GA'']) db2 = (Some (demo_lease ''GA'' 2), db2')"
  by code_simp

theorem stale_holder_is_fenced_witness:
  "storePreparedAndReserve 5001 1 (demo_lease ''GA'' 1) (demo_prepared ''h1'' 11) ''n:s:k1'' 500 900 db2' = (Inr FenceLost, db2')
    \<and> releaseChannel 5001 (demo_lease ''GA'' 1) db2' = db2'"
  by (rule stale_holder_is_fenced [OF db1_reachable db2_eval rtranclp.rtrancl_refl db2'_eval _ rtranclp.rtrancl_refl])
    (simp add: demo_lease_def)

text \<open>C2: A channel carrying a settlement is untouchable.  From a reachable state in which a channel
  is bound to settlement n, however the operations interleave, as long as none of them completes n
  the channel stays unresolved, bound to n, with the same fencing token and last sequence, and no
  lease is granted on it.\<close>

theorem bound_channel_untouched:
  assumes "store_steps L empty_db d" and "c \<in> set (channel_accounts d)" and "settlement_record_id c = Some n"
    and "(uncompleted_step L n)\<^sup>*\<^sup>* d d'"
  shows "\<exists>c' \<in> set (channel_accounts d'). channel_key c' = channel_key c \<and> ch_status c' = Unresolved
      \<and> settlement_record_id c' = Some n \<and> ch_fencing c' = ch_fencing c \<and> last_sequence c' = last_sequence c
      \<and> (\<forall>now locked nw worker ms allowed l d''. leaseChannel now locked nw worker ms allowed d' = (Some l, d'') \<longrightarrow>
           (l_network l, l_address l) \<noteq> channel_key c)"
proof -
  have ok: "state_ok L d" using reachable_ok [OF assms(1)] .
  have "ch_status c = Unresolved" using ok assms(2,3)
    by (auto simp: state_ok_def db_ok_def channels_ok_def list_all_iff channel_ok_def)
  moreover obtain c' where c': "c' \<in> set (channel_accounts d')" "keeps_bound n c c'"
    using evolvesD [OF conjunct2 [OF uncompleted_run [OF assms(4) ok]] assms(2)] by blast
  ultimately have k: "channel_key c' = channel_key c" "ch_status c' = Unresolved" "settlement_record_id c' = Some n"
      "ch_fencing c' = ch_fencing c" "last_sequence c' = last_sequence c"
    using assms(3) by (auto simp: keeps_bound_def)
  have "state_ok L d'" using uncompleted_run [OF assms(4) ok] by blast
  then show ?thesis using k c' bound_never_leased [OF _ c'(1) k(3)] by (intro bexI [of _ c']) auto
qed

theorem bound_channel_untouched_witness:
  "\<exists>c \<in> set (channel_accounts db3). settlement_record_id c = Some 1 \<and>
    (\<exists>c' \<in> set (channel_accounts db3). channel_key c' = channel_key c \<and> ch_status c' = Unresolved
      \<and> settlement_record_id c' = Some 1 \<and> ch_fencing c' = ch_fencing c \<and> last_sequence c' = last_sequence c
      \<and> (\<forall>now locked nw worker ms allowed l d''. leaseChannel now locked nw worker ms allowed db3 = (Some l, d'') \<longrightarrow>
           (l_network l, l_address l) \<noteq> channel_key c))"
proof -
  have "(channel_accounts db3 ! 0) \<in> set (channel_accounts db3) \<and> settlement_record_id (channel_accounts db3 ! 0) = Some 1"
    by code_simp
  then show ?thesis
    using bound_channel_untouched [OF db3_reachable _ _ rtranclp.rtrancl_refl, of "channel_accounts db3 ! 0" 1] by blast
qed

text \<open>C3: Once a settlement transaction is persisted no later claim starts another one.  If a reachable
  state has a record with a transaction hash, then after any further interleaving every claim of
  the same scope and key is answered by a conflict, by the cached response or by resuming that
  record; it never makes the caller the owner and never changes the record.\<close>

theorem persisted_settlement_never_reclaimed:
  assumes "store_steps L empty_db d" and "r \<in> set (idempotency_records d)" and "truthy_str (i_hash r)"
    and "store_steps L d d'" and "ca_scope a = i_scope r" and "ca_key a = i_key r"
  shows "\<exists>r' \<in> set (idempotency_records d'). i_id r' = i_id r
    \<and> fst (claimSettlement now a d') \<in>
      {Inr (Conflict ''payment identifier was reused with a different request fingerprint''),
       Inr (Conflict ''payment identifier was reused with a different settlement amount''),
       Inr (Cached (mapRecord r')), Inr (Resume (mapRecord r'))}
    \<and> idempotency_records (snd (claimSettlement now a d')) = idempotency_records d'"
proof -
  have ok: "state_ok L d" "state_ok L d'" using reachable_ok assms(1,4) rtranclp_trans by metis+
  obtain r' where r': "r' \<in> set (idempotency_records d')" "record_le r r'"
    using evolvesD [OF steps_records_evolve [OF assms(4) ok(1)] assms(2)] by blast
  have rok: "records_ok (idempotency_records d') (next_id d')" using ok by (simp add: state_ok_def db_ok_def)
  have h: "truthy_str (i_hash r')" and k: "ca_scope a = i_scope r'" "ca_key a = i_key r'" "i_id r' = i_id r"
    using r'(2) assms(3,5,6) by (auto simp: record_le_def record_key_def)
  obtain answer where ans: "claim_decision now a r' = Some answer"
      "answer \<in> {Conflict ''payment identifier was reused with a different request fingerprint'',
        Conflict ''payment identifier was reused with a different settlement amount'',
        Cached (mapRecord r'), Resume (mapRecord r')}"
    using hash_not_claimed [OF h, of now a] by auto
  have "claimSettlement now a d' = (Inr answer, d'\<lparr>next_id := next_id d' + 1\<rparr>)"
    using insert_record_id_row [OF r'(1) rok] k ans(1) by (simp add: claimSettlement_def)
  then show ?thesis using ans(2) r'(1) k(3) by (intro bexI [of _ r']) auto
qed

theorem persisted_settlement_never_reclaimed_witness:
  "\<exists>r' \<in> set (idempotency_records db3). i_id r' = 1
    \<and> fst (claimSettlement 10 (demo_claim ''w2'') db3) \<in>
      {Inr (Conflict ''payment identifier was reused with a different request fingerprint''),
       Inr (Conflict ''payment identifier was reused with a different settlement amount''),
       Inr (Cached (mapRecord r')), Inr (Resume (mapRecord r'))}
    \<and> idempotency_records (snd (claimSettlement 10 (demo_claim ''w2'') db3)) = idempotency_records db3"
proof -
  let ?r = "idempotency_records db3 ! 0"
  have "?r \<in> set (idempotency_records db3)" "truthy_str (i_hash ?r)" "ca_scope (demo_claim ''w2'') = i_scope ?r"
    "ca_key (demo_claim ''w2'') = i_key ?r" "i_id ?r = 1"
    by code_simp+
  then show ?thesis
    using persisted_settlement_never_reclaimed [OF db3_reachable _ _ rtranclp.rtrancl_refl, of ?r "demo_claim ''w2''" 10] by simp
qed

text \<open>C4: The daily sponsor budget is never exceeded.  In every reachable state, whatever the
  interleaving, no scope of any day has used more than the per-scope limit, the global usage of the
  day is within the global limit, and the global usage is exactly the sum over the scopes.\<close>

theorem budget_never_exceeded:
  assumes "store_steps L empty_db d"
  shows "(\<forall>e \<in> set (sponsor_daily_usage d). snd (fst e) \<noteq> global_scope \<longrightarrow>
        0 \<le> snd e \<and> snd e \<le> maxSponsoredStroopsPerKeyPerDay L)
    \<and> (\<forall>e \<in> set (sponsor_daily_usage d). snd (fst e) = global_scope \<longrightarrow>
        0 \<le> snd e \<and> snd e \<le> maxGlobalSponsoredStroopsPerDay L)
    \<and> (\<forall>day. usage_of (sponsor_daily_usage d) day global_scope = scope_total (sponsor_daily_usage d) day)"
proof -
  have "usage_ok L (sponsor_daily_usage d)" using reachable_ok [OF assms] by (simp add: state_ok_def)
  then show ?thesis unfolding usage_ok_def by auto
qed

theorem budget_never_exceeded_witness:
  "sponsor_daily_usage db3 \<noteq> [] \<and> (\<forall>day. usage_of (sponsor_daily_usage db3) day global_scope = scope_total (sponsor_daily_usage db3) day)"
proof -
  have "sponsor_daily_usage db3 \<noteq> []" by code_simp
  then show ?thesis using budget_never_exceeded [OF db3_reachable] by simp
qed

text \<open>C5: What storing a prepared settlement means.  When it answers stored, the lease was held, the
  sequence lies above every ledger-confirmed sequence of the channel, the fee fitted both budgets;
  afterwards the channel is unresolved and bound to the record, the record carries exactly the
  prepared envelope, hash, fee and sequence and is submitting, and every other record is unchanged.\<close>

theorem stored_settlement:
  assumes "store_steps L empty_db d"
    and "storePreparedAndReserve now n lease p sc perScope global d = (Inr Stored, d')"
  shows "(\<exists>c \<in> set (channel_accounts d). holds_lease lease c
      \<and> (\<forall>s. last_sequence c = Some s \<longrightarrow> s < channelSequence p)
      \<and> (\<exists>c' \<in> set (channel_accounts d'). channel_key c' = channel_key c \<and> ch_status c' = Unresolved
           \<and> settlement_record_id c' = Some n))
    \<and> usage_of (sponsor_daily_usage d) (current_date now) sc + estimatedTotalFee p \<le> perScope
    \<and> usage_of (sponsor_daily_usage d) (current_date now) global_scope + estimatedTotalFee p \<le> global
    \<and> (\<exists>r \<in> set (idempotency_records d). i_id r = n \<and> getRecord n d' = Some (mapRecord (prepared_row now lease p r)))
    \<and> (\<forall>m. m \<noteq> n \<longrightarrow> getRecord m d' = getRecord m d)"
proof -
  have ok: "channels_ok (channel_accounts d)" "records_ok (idempotency_records d) (next_id d)"
    using reachable_ok [OF assms(1)] by (simp_all add: state_ok_def db_ok_def)
  obtain c d1 where c: "find (holds_lease lease) (channel_accounts d) = Some c"
      "\<forall>s. last_sequence c = Some s \<longrightarrow> s < channelSequence p"
    and d1: "reserveBudget now sc (estimatedTotalFee p) perScope global d = (True, d1)"
    and n: "record_exists n d" and d': "d' = stored_db now n lease p d1"
    using stored_unfold [OF assms(2)] by blast
  note b = reserveBudget_True [OF d1]
  have same: "channel_accounts d1 = channel_accounts d" "idempotency_records d1 = idempotency_records d"
    using arg_cong [OF b(4), of channel_accounts] arg_cong [OF b(4), of idempotency_records] by simp_all
  have c1: "c \<in> set (channel_accounts d)" "holds_lease lease c" using find_SomeD [OF c(1)] by auto
  obtain r where r: "r \<in> set (idempotency_records d)" "i_id r = n" using n by (auto simp: record_exists_def)
  have rec: "getRecord n d' = Some (mapRecord (prepared_row now lease p r))"
    using find_id [OF ok(2) r(1)] r(2) same(2) by (simp add: d' stored_db_records)
  have "\<exists>c' \<in> set (channel_accounts d'). channel_key c' = channel_key c \<and> ch_status c' = Unresolved
      \<and> settlement_record_id c' = Some n"
    using stored_db_channel [OF c1 same(1)] by (simp add: d')
  moreover have "getRecord m d' = getRecord m d" if "m \<noteq> n" for m
    using stored_db_other [OF that] same(2) by (simp add: d' getRecord_def)
  ultimately show ?thesis using c1 c(2) b(2,3) r rec by (auto simp del: map_option_eq_Some)
qed

theorem stored_settlement_witness:
  "getRecord 1 db3 = Some (mapRecord (prepared_row 3 (demo_lease ''GA'' 1) (demo_prepared ''h1'' 11)
     (idempotency_records db2 ! 0)))"
proof -
  obtain r where r: "r \<in> set (idempotency_records db2)"
      "getRecord 1 db3 = Some (mapRecord (prepared_row 3 (demo_lease ''GA'' 1) (demo_prepared ''h1'' 11) r))"
    using stored_settlement [OF db2_reachable db3_eval] by auto
  have "idempotency_records db2 = [idempotency_records db2 ! 0]" by code_simp
  then have "set (idempotency_records db2) = {idempotency_records db2 ! 0}" by (metis list.set(1,2))
  then show ?thesis using r by simp
qed

text \<open>The simulation rate limit holds.  Of the simulations that one scope requests within one minute,
  the requests granted add up to at most the maximum, in whatever order they are serialised.\<close>

theorem simulation_rate_limited:
  assumes "\<forall>n \<in> set ns. 0 \<le> n" and "0 \<le> maximum" and "0 \<le> used_of d (minute_window now, sc)"
    and "consume_all now sc maximum ns d = (gs, d')"
  shows "granted ns gs \<le> maximum \<and> used_of d' (minute_window now, sc) = used_of d (minute_window now, sc) + sum_list ns"
  using consume_all_granted [OF assms(1,4)] consume_all_used [OF assms(4)] assms(2,3) by auto

theorem simulation_rate_limited_witness:
  "granted [4, 2, 4] (fst (consume_all 7 ''s'' 6 [4, 2, 4] empty_db)) \<le> 6"
proof -
  have n: "\<forall>n \<in> set [4, 2, 4 :: int]. 0 \<le> n" and m: "0 \<le> (6 :: int)" by simp_all
  have u: "0 \<le> used_of empty_db (minute_window 7, ''s'')" by code_simp
  show ?thesis by (rule conjunct1 [OF simulation_rate_limited [OF n m u prod.collapse [symmetric]]])
qed

section \<open>Two behaviours of the claim and of late marks\<close>

definition double1 :: db where
  "double1 = snd (claimSettlement 2 (demo_claim ''w1'') db1)"

definition double2 :: db where
  "double2 = snd (leaseChannel 4 free demo_net ''w1'' 1000 (Some [''GA'', ''GB''])
     (snd (leaseChannel 3 free demo_net ''w1'' 1000 (Some [''GA'', ''GB'']) double1)))"

definition double3 :: db where
  "double3 = snd (storePreparedAndReserve 6 1 (demo_lease ''GB'' 1) (demo_prepared ''h2'' 21) ''n:s:k1'' 900 900
     (snd (storePreparedAndReserve 5 1 (demo_lease ''GA'' 1) (demo_prepared ''h1'' 11) ''n:s:k1'' 900 900 double2)))"

definition paid :: settlement_outcome where
  "paid = SettleResponse \<lparr> success = True, transaction = ''h1'', s_network = demo_net, errorReason = None,
     s_payer = Some ''GPAYER'', s_amount = None \<rparr>"

definition double4 :: db where
  "double4 = snd (complete 7 1 paid Success True double3)"

text \<open>One process can own a settlement twice.  Two claims of the same payment by the same worker
  both answer owner while its lease is alive; both may then lease a channel and store a transaction,
  the second store replaces the hash and channel of the record, and the completion of the settlement
  frees only the second channel: the first stays bound to a completed record that no recovery
  lists.  (The guard of claimSettlement compares worker ids, and one process has one id.)\<close>

theorem same_worker_claims_twice:
  "(\<exists>r. fst (claimSettlement 1 (demo_claim ''w1'') db0) = Inr (Owner r))
   \<and> (\<exists>r. fst (claimSettlement 2 (demo_claim ''w1'') db1) = Inr (Owner r))
   \<and> map (\<lambda>c. (ch_address c, ch_status c, settlement_record_id c)) (channel_accounts double3)
      = [(''GA'', Unresolved, Some 1), (''GB'', Unresolved, Some 1)]
   \<and> map (\<lambda>r. (i_hash r, i_channel r)) (idempotency_records double3) = [(Some ''h2'', Some ''GB'')]
   \<and> map (\<lambda>c. (ch_address c, ch_status c, settlement_record_id c)) (channel_accounts double4)
      = [(''GA'', Unresolved, Some 1), (''GB'', Idle, None)]
   \<and> map i_status (idempotency_records double4) = [Success] \<and> listUnresolved double4 = []"
proof -
  have "fst (claimSettlement 2 (demo_claim ''w1'') db1) = Inr (Owner (the (getRecord 1 double1)))" by code_simp
  moreover have "fst (claimSettlement 1 (demo_claim ''w1'') db0) = Inr (Owner (the (getRecord 1 db1)))" by code_simp
  moreover have "map (\<lambda>c. (ch_address c, ch_status c, settlement_record_id c)) (channel_accounts double3)
      = [(''GA'', Unresolved, Some 1), (''GB'', Unresolved, Some 1)]" by code_simp
  moreover have "map (\<lambda>r. (i_hash r, i_channel r)) (idempotency_records double3) = [(Some ''h2'', Some ''GB'')]" by code_simp
  moreover have "map (\<lambda>c. (ch_address c, ch_status c, settlement_record_id c)) (channel_accounts double4)
      = [(''GA'', Unresolved, Some 1), (''GB'', Idle, None)]" by code_simp
  moreover have "map i_status (idempotency_records double4) = [Success]" by code_simp
  moreover have "listUnresolved double4 = []" by code_simp
  ultimately show ?thesis by blast
qed

lemma count_one_more:
  "distinct (map i_id t) \<Longrightarrow> r \<in> set t \<Longrightarrow> i_id r = n \<Longrightarrow> P (f r) \<Longrightarrow> \<not> P r \<Longrightarrow>
    length (filter P (update_where (\<lambda>x. i_id x = n) f t)) = Suc (length (filter P t))"
proof (induction t)
  case (Cons a t)
  show ?case
  proof (cases "a = r")
    case True
    then have "update_where (\<lambda>x. i_id x = n) f t = t" using Cons.prems by (intro update_where_id) (auto simp: image_iff)
    then show ?thesis using True Cons.prems by simp
  next
    case False
    then have "i_id a \<noteq> n" using Cons.prems by auto
    then show ?thesis using False Cons by auto
  qed
qed simp

text \<open>A mark that arrives after the completion leaks a settlement slot.  When a worker marks a
  settlement unknown after another one has completed it, the record keeps its response but counts
  as unresolved again, so the pending limit shrinks by one, while recovery never lists it and every
  later claim only returns the cached response or a conflict.\<close>

theorem late_mark_leaks_slot:
  assumes "store_steps L empty_db d" and "st \<in> {Success, Failed}"
    and "complete now n outcome st applied d = (Inr (), d1)" and "d2 = markUnknown now' n reason d1"
  shows "unresolvedCount d2 = unresolvedCount d1 + 1
    \<and> (\<forall>s \<in> set (listUnresolved d2). sr_id s \<noteq> n)
    \<and> (\<exists>r \<in> set (idempotency_records d2). i_id r = n \<and> i_status r = Unknown \<and> i_response r = Some outcome)"
proof -
  have ex: "record_exists n d" using assms(3) by (simp add: complete_def Let_def split: if_splits)
  have "state_ok L d" by (rule reachable_ok [OF assms(1)])
  then have ok: "distinct (map i_id (idempotency_records d))" by (simp add: state_ok_def db_ok_def records_ok_def)
  let ?f = "\<lambda>r. r\<lparr>i_status := st, i_response := Some outcome, i_updated := now\<rparr>"
  let ?u = "\<lambda>r. r\<lparr>i_status := Unknown, i_error := Some reason, i_worker := None, i_worker_lease := None, i_updated := now'\<rparr>"
  have d1: "idempotency_records d1 = update_where (\<lambda>r. i_id r = n) ?f (idempotency_records d)"
    using assms(3) by (auto simp: complete_def audit_def Let_def split: option.splits if_splits)
  have d2: "idempotency_records d2 = update_where (\<lambda>r. i_id r = n) ?u (idempotency_records d1)"
    by (simp add: assms(4) markUnknown_def)
  obtain r0 where r0: "r0 \<in> set (idempotency_records d)" "i_id r0 = n" using ex by (auto simp: record_exists_def)
  then have r1: "?f r0 \<in> set (idempotency_records d1)" unfolding d1 by (auto simp: in_update_where)
  have dist: "distinct (map i_id (idempotency_records d1))"
    unfolding d1 by (subst update_where_keys) (simp_all add: ok)
  have "length (filter (\<lambda>r. i_status r \<in> {Preparing, Submitting, Pending, Unknown}) (idempotency_records d2))
      = Suc (length (filter (\<lambda>r. i_status r \<in> {Preparing, Submitting, Pending, Unknown}) (idempotency_records d1)))"
    unfolding d2 by (rule count_one_more [OF dist r1]) (use assms(2) r0(2) in auto)
  then have "unresolvedCount d2 = unresolvedCount d1 + 1" by (simp only: unresolvedCount_def)
  moreover have row: "i_response r = Some outcome \<and> i_status r = Unknown" if r: "r \<in> set (idempotency_records d2)" "i_id r = n" for r
  proof -
    obtain x where x: "x \<in> set (idempotency_records d1)" "i_id x = n" "r = ?u x"
      using update_where_keyD [of r i_id n ?u "idempotency_records d1"] r d2 by auto
    obtain y where "x = ?f y"
      using update_where_keyD [of x i_id n ?f "idempotency_records d"] x(1,2) d1 by auto
    then show ?thesis using x(3) by simp
  qed
  moreover have "?u (?f r0) \<in> set (idempotency_records d2)" unfolding d2 by (rule update_where_memI [OF r1]) (simp add: r0(2))
  moreover have "i_id (?u (?f r0)) = n" using r0(2) by simp
  moreover have "sr_id s \<noteq> n" if s: "s \<in> set (listUnresolved d2)" for s
  proof -
    obtain r where r: "r \<in> set (idempotency_records d2)" "unresolved_row r" "s = mapRecord r"
      using s by (auto simp: listUnresolved_def)
    then have "i_response r = None" by (simp add: unresolved_row_def)
    then show ?thesis using row [OF r(1)] r(3) by (auto simp: mapRecord_def)
  qed
  ultimately show ?thesis using row by blast
qed

theorem late_mark_leaks_slot_witness:
  "unresolvedCount (markUnknown 9 1 ''late'' (snd (complete 7 1 paid Success True db3)))
     = unresolvedCount (snd (complete 7 1 paid Success True db3)) + 1"
proof -
  have "complete 7 1 paid Success True db3 = (Inr (), snd (complete 7 1 paid Success True db3))" by code_simp
  from late_mark_leaks_slot [OF db3_reachable _ this refl] show ?thesis by simp
qed

end
