(* ===== verification/Orchestrator_Refinement.thy ===== *)
theory Orchestrator_Refinement
  imports Orchestrator Settlement_Properties
begin

text \<open>
  \<open>FacilitatorCore\<close> acts on the database by the operations of the state store only.  The interface
  between the two is the locale \<open>settlement_store\<close>: an invariant of the database that every operation
  of the store keeps, and the outcomes that may be recorded.  The client's lemmas say that every
  operation of the facilitator keeps the invariant, whatever the workers around it do, and answers
  only with outcomes that may be recorded.  It is interpreted twice: for the reachable states of the
  store, and for databases whose recorded outcomes are those of the ledger.
\<close>

section \<open>Programs that keep an invariant of the database\<close>

definition keeps :: "(db \<Rightarrow> bool) \<Rightarrow> ('x world, 'a) io \<Rightarrow> ('a \<Rightarrow> bool) \<Rightarrow> bool" where
  "keeps I m Q = (\<forall>w. I (w_db w) \<longrightarrow> I (w_db (snd (m w))) \<and> (\<forall>x. fst (m w) = Inr x \<longrightarrow> Q x))"

abbreviation runs :: "(db \<Rightarrow> bool) \<Rightarrow> ('x world, 'a) io \<Rightarrow> bool" where
  "runs I m \<equiv> keeps I m (\<lambda>_. True)"

lemma keepsD: "keeps I m Q \<Longrightarrow> m w = (r, w') \<Longrightarrow> I (w_db w) \<Longrightarrow> I (w_db w')"
  unfolding keeps_def by (metis snd_conv)

lemma keeps_value: "keeps I m Q \<Longrightarrow> m w = (Inr x, w') \<Longrightarrow> I (w_db w) \<Longrightarrow> Q x"
  unfolding keeps_def by (metis fst_conv)

lemma keeps_weaken: "keeps I m P \<Longrightarrow> (\<And>x. P x \<Longrightarrow> Q x) \<Longrightarrow> keeps I m Q"
  unfolding keeps_def by blast

lemma keeps_runs: "keeps I m P \<Longrightarrow> runs I m"
  by (erule keeps_weaken) simp

lemma keeps_return [intro, simp]: "Q x \<Longrightarrow> keeps I (io_return x) Q"
  by (simp add: keeps_def io_return_def)

lemma keeps_throw [intro, simp]: "keeps I (io_throw e) Q"
  by (simp add: keeps_def io_throw_def)

lemma keeps_bind: "keeps I m P \<Longrightarrow> (\<And>x. P x \<Longrightarrow> keeps I (k x) Q) \<Longrightarrow> keeps I (io_bind m k) Q"
  unfolding keeps_def io_bind_def
  by (fastforce split: prod.splits sum.splits)

lemma runs_bind: "runs I m \<Longrightarrow> (\<And>x. keeps I (k x) Q) \<Longrightarrow> keeps I (io_bind m k) Q"
  by (rule keeps_bind) auto

lemma runs_seq: "runs I m \<Longrightarrow> keeps I k Q \<Longrightarrow> keeps I (io_seq m k) Q"
  unfolding io_seq_def by (rule runs_bind)

lemma runs_catch: "keeps I m Q \<Longrightarrow> (\<And>e. keeps I (h e) Q) \<Longrightarrow> keeps I (io_catch m h) Q"
  unfolding keeps_def io_catch_def
  by (fastforce split: prod.splits sum.splits)

lemma runs_or_return: "runs I m \<Longrightarrow> (\<And>a. runs I (k a)) \<Longrightarrow> runs I (or_return m k)"
  unfolding or_return_def by (rule runs_bind) (auto split: sum.splits)

lemma runs_refuse_if: "runs I k \<Longrightarrow> runs I (refuse_if e k)"
  unfolding refuse_if_def by (auto split: option.splits)

lemma runs_returns [intro, simp]: "runs I (returns x)"
  by (simp add: returns_def)

lemma runs_sdk [intro, simp]: "runs I (sdk x)"
  by (auto simp: sdk_def split: sum.splits)

lemma runs_refusal_payer: "runs I m \<Longrightarrow> runs I (refusal_payer p m)"
  unfolding refusal_payer_def by (rule runs_bind) auto

lemma runs_return: "runs I (io_return x)"
  by simp

text \<open>A continuation needs only the values that the program can return.\<close>

lemma runs_bind_values:
  assumes "runs I m" "\<And>x w w'. m w = (Inr x, w') \<Longrightarrow> keeps I (k x) Q" shows "keeps I (io_bind m k) Q"
  by (rule keeps_bind [where P = "\<lambda>x. \<exists>w w'. m w = (Inr x, w')"])
    (use assms in \<open>auto simp: keeps_def, metis prod.collapse\<close>)

section \<open>The outside\<close>

text \<open>
  What is assumed of the outside: other workers and the services keep the invariant; simulated
  fees and the base fee are not negative, and a finalized transaction has a hash.
\<close>

definition outside_ok :: "(db \<Rightarrow> bool) \<Rightarrow> ('x, 'v) services \<Rightarrow> bool" where
  "outside_ok I V = ((\<forall>w. I (w_db w) \<longrightarrow> I (w_db (yield V w)))
     \<and> runs I (get_latest_ledger (stellar V)) \<and> (\<forall>a. runs I (get_account (stellar V) a))
     \<and> (\<forall>tx m. runs I (simulate_transaction (stellar V) tx m)) \<and> (\<forall>r rt. runs I (protocol_verify (stellar V) r rt))
     \<and> (\<forall>e. runs I (send_transaction V e)) \<and> (\<forall>h. runs I (get_transaction V h)) \<and> (\<forall>h. runs I (fetch_horizon V h))
     \<and> (\<forall>observe. cataloger V = Some observe \<longrightarrow> (\<forall>r c. runs I (observe r c)))
     \<and> (\<forall>ev. analytics V = Some ev \<longrightarrow> (\<forall>e. runs I (ev e))))"

definition services_ok :: "('x, 'v) services \<Rightarrow> bool" where
  "services_ok V = (0 \<le> base_fee (stellar V)
     \<and> (\<forall>tx m w s w'. simulate_transaction (stellar V) tx m w = (Inr (SimSuccess s), w') \<longrightarrow> 0 \<le> minResourceFee s)
     \<and> (\<forall>tx s c p ph f. finalize_tx (stellar V) tx s c p ph = Inr f \<longrightarrow> f_hash f \<noteq> []))"

lemma outside_yield: "outside_ok I V \<Longrightarrow> I (w_db w) \<Longrightarrow> I (w_db (yield V w))"
  by (simp add: outside_ok_def)

lemma runs_simulate: "outside_ok I V \<Longrightarrow> runs I (simulate (stellar V) tx mode)"
  unfolding simulate_def
  by (intro runs_catch runs_bind runs_return) (auto simp: outside_ok_def split: sim_response.splits)

lemma runs_build: "outside_ok I V \<Longrightarrow> runs I (buildSourceTransaction (stellar V) a operation seconds)"
  unfolding buildSourceTransaction_def by (intro runs_bind runs_return) (auto simp: outside_ok_def)

lemma runs_expiration: "outside_ok I V \<Longrightarrow> runs I (validateAuthExpiration (stellar V) entry seconds)"
  unfolding validateAuthExpiration_def
  by (auto simp: outside_ok_def intro!: runs_bind split: option.splits)

lemma runs_upstream: "outside_ok I V \<Longrightarrow> runs I (upstream_step (stellar V) request runtime)"
  unfolding upstream_step_def by (auto simp: outside_ok_def intro!: runs_catch runs_bind)

lemma runs_enforce_exact: "outside_ok I V \<Longrightarrow> runs I (enforce_exact (stellar V) runtime tx a t)"
  unfolding enforce_exact_def
  by (intro runs_or_return runs_refusal_payer runs_simulate runs_refuse_if runs_return)

lemma runs_read_arguments: "runs I (read_arguments S as)"
  unfolding read_arguments_def by (intro runs_bind runs_sdk runs_return)

lemma runs_if: "keeps I a Q \<Longrightarrow> keeps I b Q \<Longrightarrow> keeps I (if c then a else b) Q"
  by simp

lemmas runs_intros = runs_bind runs_seq runs_catch runs_or_return runs_refuse_if runs_returns runs_sdk runs_return
  keeps_throw runs_refusal_payer runs_if runs_read_arguments

lemma runs_exact_checks: "outside_ok I V \<Longrightarrow> runs I (exact_checks (stellar V) request runtime)"
  unfolding exact_checks_def Let_def
  by (intro runs_intros runs_upstream runs_expiration runs_build runs_enforce_exact)

lemma runs_exact_verify: "outside_ok I V \<Longrightarrow> runs I (exact_verify (stellar V) request runtime)"
  unfolding exact_verify_def by (intro runs_bind runs_exact_checks runs_return)

lemma runs_exact_prepare: "outside_ok I V \<Longrightarrow> runs I (exact_prepare (stellar V) request runtime channel)"
  unfolding exact_prepare_def Let_def finalizeSponsoredTransaction_def
  by (rule runs_bind, erule runs_exact_verify)
    (auto split: option.splits bool.splits intro!: runs_intros runs_simulate runs_build runs_enforce_exact)

lemma runs_payer_tree: "runs I (validatePayerTree S entry terms c)"
  unfolding validatePayerTree_def Let_def
  by (auto intro!: runs_bind split: option.splits list.splits)

lemma runs_upto_expiration: "outside_ok I V \<Longrightarrow> runs I (validateUptoExpiration (stellar V) entry terms seconds)"
  unfolding validateUptoExpiration_def
  by (rule runs_bind, erule runs_expiration)
    (auto simp: outside_ok_def intro!: runs_bind split: option.splits)

lemma runs_enforce_upto: "outside_ok I V \<Longrightarrow> runs I (enforce_upto (stellar V) runtime tx terms c)"
  unfolding enforce_upto_def
  by (intro runs_or_return runs_refusal_payer runs_simulate runs_refuse_if runs_return)

lemma runs_validateAndSimulate: "outside_ok I V \<Longrightarrow> runs I (validateAndSimulate (stellar V) request runtime)"
  unfolding validateAndSimulate_def Let_def signFacilitatorAuth_def
  by (intro runs_intros runs_payer_tree runs_upto_expiration runs_build runs_enforce_upto runs_simulate)

lemma runs_upto_verify: "outside_ok I V \<Longrightarrow> runs I (upto_verify (stellar V) request runtime)"
  unfolding upto_verify_def by (intro runs_bind runs_validateAndSimulate runs_return)

lemma runs_settlement_operation: "runs I (buildSettlementOperation S terms c auth)"
  unfolding buildSettlementOperation_def by (intro runs_intros)

lemma runs_upto_prepare: "outside_ok I V \<Longrightarrow> runs I (upto_prepare (stellar V) request runtime channel)"
  unfolding upto_prepare_def Let_def signFacilitatorAuth_def finalizeSponsoredTransaction_def
  by (auto split: option.splits intro!: runs_intros runs_payer_tree runs_upto_expiration runs_build runs_enforce_upto
      runs_simulate runs_settlement_operation)


lemma budget_scope_not_global: "budget_scope V ctx who \<noteq> global_scope"
proof
  assume e: "budget_scope V ctx who = global_scope"
  have "CHR '':'' \<in> set (budget_scope V ctx who)" by (simp add: budget_scope_def principalScope_def)
  then show False unfolding e by (simp add: global_scope_def)
qed

text \<open>What preparation returns: a hash, and a fee that is not negative.\<close>

definition good_prepared :: "prepared_settlement \<Rightarrow> bool" where
  "good_prepared p = (0 \<le> estimatedTotalFee p \<and> transactionHash p \<noteq> [])"

lemma services_fees:
  assumes "services_ok V" "simulate_transaction (stellar V) tx m w = (Inr (SimSuccess s), w')"
  shows "0 \<le> minResourceFee s + inclusion_fee (stellar V)"
proof -
  have "\<forall>tx m w s w'. simulate_transaction (stellar V) tx m w = (Inr (SimSuccess s), w') \<longrightarrow> 0 \<le> minResourceFee s"
    using assms(1) unfolding services_ok_def by (elim conjE)
  from this [rule_format, OF assms(2)] have "0 \<le> minResourceFee s" .
  moreover have "0 \<le> base_fee (stellar V)" using assms(1) by (simp add: services_ok_def)
  ultimately show ?thesis by (simp add: inclusion_fee_def)
qed

lemma services_hash:
  assumes "services_ok V" "finalize_tx (stellar V) tx s c p ph = Inr f" shows "f_hash f \<noteq> []"
proof -
  have "\<forall>tx s c p ph f. finalize_tx (stellar V) tx s c p ph = Inr f \<longrightarrow> f_hash f \<noteq> []"
    using assms(1) unfolding services_ok_def by (elim conjE)
  from this [rule_format, OF assms(2)] show ?thesis .
qed

lemma exact_prepare_good:
  assumes "services_ok V" "exact_prepare (stellar V) request runtime channel w = (Inr (Inr p), w')"
  shows "good_prepared p"
proof -
  obtain tx s final w1 w2 where s: "simulate_transaction (stellar V) tx Enforce w1 = (Inr (SimSuccess s), w2)"
      and f: "finalize_tx (stellar V) tx s channel (sponsor runtime) (networkPassphrase (stellar V) (n_id (config runtime))) = Inr final"
      and p: "transactionHash p = f_hash final" "estimatedTotalFee p = minResourceFee s + inclusion_fee (stellar V)"
    using exact_prepare_Inr [OF assms(2)] by (auto simp: finalized_exact_def)
  show ?thesis using services_fees [OF assms(1) s] services_hash [OF assms(1) f] p by (simp add: good_prepared_def)
qed

lemma upto_prepare_good:
  assumes "services_ok V" "upto_prepare (stellar V) request runtime channel w = (Inr (Inr p), w')"
  shows "good_prepared p"
proof -
  obtain terms actual tx s final where t: "simulated_settlement (stellar V) runtime (terms\<lparr>u_actual := actual\<rparr>) tx s"
      and f: "finalize_tx (stellar V) tx s channel (sponsor runtime) (networkPassphrase (stellar V) (n_id (config runtime))) = Inr final"
      and p: "p = preparedFrom (stellar V) (parsedPayment runtime (terms\<lparr>u_actual := actual\<rparr>)) channel final s"
    using upto_prepare_Inr [OF assms(2)] by blast
  obtain m w1 w2 where s: "simulate_transaction (stellar V) tx m w1 = (Inr (SimSuccess s), w2)"
    using t unfolding simulated_settlement_def by blast
  show ?thesis using services_fees [OF assms(1) s] services_hash [OF assms(1) f] p
    by (simp add: good_prepared_def preparedFrom_def)
qed

lemma mechanism_prepare_good:
  "services_ok V \<Longrightarrow> mechanism_prepare V ctx request channel w = (Inr (Inr p), w') \<Longrightarrow> good_prepared p"
  unfolding mechanism_prepare_def using exact_prepare_good upto_prepare_good by (auto split: if_splits)


section \<open>Operations on the database\<close>

lemma keeps_db_run:
  fixes V :: "('x, 'v) services"
  assumes "outside_ok I V" "\<And>w r d. I (w_db w) \<Longrightarrow> g w = (r, d) \<Longrightarrow> I d \<and> (\<forall>x. r = Inr x \<longrightarrow> Q x)"
  shows "keeps I (db_run V g) Q"
  unfolding keeps_def
proof (intro allI impI)
  fix w :: "'x world" assume w: "I (w_db w)"
  obtain r d where g: "g (yield V w) = (r, d)" by fastforce
  show "I (w_db (snd (db_run V g w))) \<and> (\<forall>x. fst (db_run V g w) = Inr x \<longrightarrow> Q x)"
    using assms(2) [OF outside_yield [OF assms(1) w] g] outside_yield [OF assms(1) w]
    by (auto simp: db_run_def Let_def g split: option.splits)
qed

lemma keeps_db_op:
  assumes "outside_ok I V" "\<And>now d r d'. I d \<Longrightarrow> f now d = (r, d') \<Longrightarrow> I d' \<and> (\<forall>x. r = Inr x \<longrightarrow> Q x)"
  shows "keeps I (db_op V f) Q"
  unfolding db_op_def by (rule keeps_db_run [OF assms(1)]) (rule assms(2))

lemma runs_db_op: "outside_ok I V \<Longrightarrow> (\<And>now d. I d \<Longrightarrow> I (snd (f now d))) \<Longrightarrow> runs I (db_op V f)"
  by (rule keeps_db_op) (auto, metis snd_conv)

lemma keeps_db_get: "outside_ok I V \<Longrightarrow> (\<And>d. I d \<Longrightarrow> Q (f d)) \<Longrightarrow> keeps I (db_get V f) Q"
  unfolding db_get_def by (rule keeps_db_op) auto

lemma runs_db_set: "outside_ok I V \<Longrightarrow> (\<And>now d. I d \<Longrightarrow> I (f now d)) \<Longrightarrow> runs I (db_set V f)"
  unfolding db_set_def by (rule runs_db_op) auto

lemma runs_db_both: "outside_ok I V \<Longrightarrow> (\<And>now d. I d \<Longrightarrow> I (snd (f now d))) \<Longrightarrow> runs I (db_both V f)"
  unfolding db_both_def by (rule runs_db_op) (auto split: prod.splits, metis snd_conv)

lemma runs_sleep: "outside_ok I V \<Longrightarrow> runs I (sleep V ms)"
  using outside_yield [of I V] by (simp add: keeps_def sleep_def)

lemma runs_with_slot: "outside_ok I V \<Longrightarrow> keeps I m Q \<Longrightarrow> keeps I (with_slot V m) Q"
  unfolding keeps_def with_slot_def using outside_yield by blast

lemma runs_context: "runs I (context_of V request)"
  unfolding context_of_def Let_def by (auto split: option.splits)

lemma runs_horizon_answer: "outside_ok I V \<Longrightarrow> runs I (fetch_horizon V h)"
  by (simp add: outside_ok_def)

lemma runs_mechanism_prepare: "outside_ok I V \<Longrightarrow> runs I (mechanism_prepare V ctx request channel)"
  unfolding mechanism_prepare_def by (auto intro: runs_exact_prepare runs_upto_prepare)

lemma runs_mechanism_verify: "outside_ok I V \<Longrightarrow> runs I (mechanism_verify V ctx request)"
  unfolding mechanism_verify_def by (auto intro: runs_exact_verify runs_upto_verify)

lemma runs_catalog:
  assumes "outside_ok I V" shows "runs I (catalog V request st o1)"
proof -
  have c: "runs I (observe r c)" if "cataloger V = Some observe" for observe r c
    using assms that by (simp add: outside_ok_def)
  have a: "runs I (record_event e)" if "analytics V = Some record_event" for record_event e
    using assms that by (simp add: outside_ok_def)
  have l: "runs I (lookup_record V request st runtime)" for runtime
    unfolding lookup_record_def
    by (auto split: option.split stage.split intro!: runs_catch keeps_db_get [OF assms])
  have ob: "runs I (case cataloger V of Some observe \<Rightarrow> if oo_succeeded o1 then observe r c else io_return None
       | None \<Rightarrow> io_return None)" for r c
    by (auto split: option.split intro: c)
  have ev: "runs I (case (analytics V, runtime) of
         (Some record_event, Some rt) \<Rightarrow> if st = Settled_stage \<or> oo_succeeded o1 then record_event (e rt) else io_return ()
       | _ \<Rightarrow> io_return ())" for runtime e
    by (auto split: option.split intro: a)
  show ?thesis unfolding catalog_def catalog_attempt_def Let_def
    by (intro runs_catch runs_bind [OF l] runs_bind [OF ob] runs_seq [OF ev] runs_return)
qed

lemma runs_expired: "outside_ok I V \<Longrightarrow> runs I (persistedTransactionExpired V record1 runtime)"
  unfolding persistedTransactionExpired_def
  by (auto simp: outside_ok_def split: option.splits intro!: runs_catch runs_bind)


section \<open>Polling\<close>

text \<open>What the answers of a poll and of the archive rest on.\<close>

definition answered :: "('x, 'v) services \<Rightarrow> string \<Rightarrow> poll_result \<Rightarrow> bool" where
  "answered V h r = ((r = PSuccess \<longrightarrow> (\<exists>w w'. get_transaction V h w = (Inr TxSuccess, w')))
     \<and> (r = PFailed \<longrightarrow> (\<exists>w w'. get_transaction V h w = (Inr TxFailed, w'))))"

definition archived :: "('x, 'v) services \<Rightarrow> string \<Rightarrow> horizon_result \<Rightarrow> bool" where
  "archived V h r = ((r = HSuccess \<longrightarrow> (\<exists>w w' a. fetch_horizon V h w = (Inr a, w') \<and> successful a = Some True))
     \<and> (r = HFailed \<longrightarrow> (\<exists>w w' a. fetch_horizon V h w = (Inr a, w') \<and> successful a = Some False))
     \<and> (r = HNotFound \<longrightarrow> (\<exists>w w' a. fetch_horizon V h w = (Inr a, w') \<and> http_status a = 404)))"

lemma keeps_sleep_after:
  assumes "outside_ok I V" "keeps I m Q" "I (w_db w)"
  shows "I (w_db (snd (m (snd (sleep V ms w)))))" "fst (m (snd (sleep V ms w))) = Inr x \<Longrightarrow> Q x"
proof -
  have "I (w_db (snd (sleep V ms w)))"
    using runs_sleep [OF assms(1)] assms(3) by (simp add: keeps_def)
  then show "I (w_db (snd (m (snd (sleep V ms w)))))" "fst (m (snd (sleep V ms w))) = Inr x \<Longrightarrow> Q x"
    using assms(2) by (auto simp: keeps_def)
qed

lemma keeps_poll_loop:
  fixes V :: "('x, 'v) services"
  assumes "outside_ok I V" shows "keeps I (poll_loop V n h limit) (answered V h)"
proof (induction n)
  case (Suc n)
  have g: "runs I (get_transaction V h)" using assms by (simp add: outside_ok_def)
  show ?case unfolding keeps_def
  proof (intro allI impI)
    fix w :: "'x world" assume w: "I (w_db w)"
    obtain r w1 where r: "get_transaction V h w = (r, w1)" by fastforce
    have w1: "I (w_db w1)" by (rule keepsD [OF g r w])
    have t: "r = Inr TxSuccess \<Longrightarrow> answered V h PSuccess" "r = Inr TxFailed \<Longrightarrow> answered V h PFailed"
      using r by (auto simp: answered_def)
    note later = keeps_sleep_after [OF assms Suc w1]
    show "I (w_db (snd (poll_loop V (Suc n) h limit w))) \<and>
        (\<forall>x. fst (poll_loop V (Suc n) h limit w) = Inr x \<longrightarrow> answered V h x)"
      using r w w1 later t by (auto simp: answered_def [of V h PUnknown] split: sum.splits tx_status.splits)
  qed
qed (simp add: keeps_def answered_def)

lemma keeps_poll: "outside_ok I V \<Longrightarrow> keeps I (poll V h) (answered V h)"
  using keeps_poll_loop unfolding poll_def keeps_def by blast

lemma keeps_horizon:
  fixes V :: "('x, 'v) services"
  assumes "outside_ok I V" shows "keeps I (horizonStatus V h) (archived V h)"
  unfolding horizonStatus_def
proof (rule runs_catch)
  have f: "keeps I (fetch_horizon V h) (\<lambda>a. \<exists>w w'. fetch_horizon V h w = (Inr a, w'))"
    using runs_horizon_answer [OF assms, of h] unfolding keeps_def by (metis prod.collapse)
  show "keeps I (io_bind (fetch_horizon V h) (\<lambda>answer. io_return
      (if http_status answer = 404 then HNotFound
       else if http_status answer < 200 \<or> 299 < http_status answer then HUnknown
       else case successful answer of Some True \<Rightarrow> HSuccess | Some False \<Rightarrow> HFailed | None \<Rightarrow> HUnknown))) (archived V h)"
    by (rule keeps_bind [OF f]) (fastforce simp: archived_def split: option.splits bool.splits)
qed (simp add: archived_def)

section \<open>The interface of the state store\<close>

text \<open>An answer of the ledger allows the outcome that it decides.\<close>

definition allows :: "(settlement_outcome \<Rightarrow> bool) \<Rightarrow> bool \<Rightarrow> string \<Rightarrow> bool" where
  "allows ok good h = (\<forall>r. transaction r = h \<and> success r = good
     \<and> (good \<or> errorReason r = Some ''settle_stellar_transaction_failed'') \<longrightarrow> ok (SettleResponse r))"

definition trusted :: "(settlement_outcome \<Rightarrow> bool) \<Rightarrow> ('x, 'v) services \<Rightarrow> bool" where
  "trusted ok V = ((\<forall>h w w'. get_transaction V h w = (Inr TxSuccess, w') \<longrightarrow> allows ok True h)
     \<and> (\<forall>h w w'. get_transaction V h w = (Inr TxFailed, w') \<longrightarrow> allows ok False h)
     \<and> (\<forall>h w w' a b. fetch_horizon V h w = (Inr a, w') \<longrightarrow> successful a = Some b \<longrightarrow> allows ok b h))"

definition client_ok :: "limits \<Rightarrow> (db \<Rightarrow> bool) \<Rightarrow> (settlement_outcome \<Rightarrow> bool) \<Rightarrow> ('x, 'v) services \<Rightarrow> bool" where
  "client_ok L I ok V = (outside_ok I V \<and> services_ok V \<and> trusted ok V \<and> limits_of V = L)"

text \<open>The answer to a claim: what is cached was recorded.\<close>

definition claim_ok :: "(settlement_outcome \<Rightarrow> bool) \<Rightarrow> claim_result \<Rightarrow> bool" where
  "claim_ok ok c = (\<forall>r. c = Cached r \<longrightarrow> (\<exists>outcome. sr_response r = Some outcome \<and> ok outcome))"

locale settlement_store =
  fixes L :: limits
    and I :: "db \<Rightarrow> bool"
    and ok :: "settlement_outcome \<Rightarrow> bool"
  assumes register: "I d \<Longrightarrow> I (snd (registerIdempotency now sc k fp sch nw d))"
    and claim: "I d \<Longrightarrow> I (snd (claimSettlement now a d))"
    and lease: "I d \<Longrightarrow> I (snd (leaseChannel now locked nw worker leaseMs allowed d))"
    and release: "I d \<Longrightarrow> I (releaseChannel now l d)"
    and prepare: "I d \<Longrightarrow> good_prepared p \<Longrightarrow> sc \<noteq> global_scope \<Longrightarrow>
      I (snd (storePreparedAndReserve now n l p sc (maxSponsoredStroopsPerKeyPerDay L) (maxGlobalSponsoredStroopsPerDay L) d))"
    and pending: "I d \<Longrightarrow> I (markPending now n d)"
    and unknown: "I d \<Longrightarrow> I (markUnknown now n reason d)"
    and completion: "I d \<Longrightarrow> ok outcome \<Longrightarrow> st \<in> {Success, Failed} \<Longrightarrow> I (snd (complete now n outcome st applied d))"
    and simulations: "I d \<Longrightarrow> I (snd (consumeSimulations now sc cnt maximum d))"
    and recorded: "I d \<Longrightarrow> row \<in> set (idempotency_records d) \<Longrightarrow> i_response row = Some outcome \<Longrightarrow> ok outcome"
    and unsent: "\<not> success r \<Longrightarrow> transaction r = [] \<Longrightarrow> ok (SettleResponse r)"
    and undecided: "\<not> success r \<Longrightarrow> errorReason r \<in> {Some ''settle_stellar_transaction_submission_failed'',
      Some ''settle_stellar_transaction_status_unknown'', Some ''settle_stellar_transaction_expired_unconfirmed''} \<Longrightarrow>
      ok (SettleResponse r)"
begin

lemma client_outside: "client_ok L I ok V \<Longrightarrow> outside_ok I V"
  by (simp add: client_ok_def)

lemma settled_allowed: "allows ok True (coalesce (sr_hash record1) []) \<Longrightarrow> ok (settled_response request record1)"
  by (simp add: allows_def settled_response_def)

lemma failed_allowed:
  "allows ok False (coalesce h []) \<Longrightarrow> ok (failed request ''settle_stellar_transaction_failed'' p h)"
  by (simp add: allows_def failed_def)

lemma unsent_failure: "ok (failed request reason p None)"
  by (simp add: failed_def unsent)

lemma undecided_failure:
  "reason \<in> {''settle_stellar_transaction_submission_failed'', ''settle_stellar_transaction_status_unknown''} \<Longrightarrow>
   ok (failed request reason p h)"
  by (rule undecided [of "\<lparr> success = False, transaction = coalesce h [],
     s_network = network (paymentRequirements request), errorReason = Some reason,
     s_payer = (if truthy_str p then p else None), s_amount = None \<rparr>", folded failed_def]) auto

lemma runs_complete:
  "client_ok L I ok V \<Longrightarrow> ok outcome \<Longrightarrow> st \<in> {Success, Failed} \<Longrightarrow> runs I (db_op V (\<lambda>now. complete now n outcome st applied))"
  by (rule runs_db_op) (auto simp: client_outside intro: completion)

lemma runs_release: "client_ok L I ok V \<Longrightarrow> runs I (db_set V (\<lambda>now. releaseChannel now l))"
  by (rule runs_db_set) (auto simp: client_outside intro: release)

lemma runs_pending: "client_ok L I ok V \<Longrightarrow> runs I (db_set V (\<lambda>now. markPending now n))"
  by (rule runs_db_set) (auto simp: client_outside intro: pending)

lemma runs_unknown: "client_ok L I ok V \<Longrightarrow> runs I (db_set V (\<lambda>now. markUnknown now n reason))"
  by (rule runs_db_set) (auto simp: client_outside intro: unknown)

lemma runs_lease: "client_ok L I ok V \<Longrightarrow> runs I (lease_op V nw known)"
  unfolding lease_op_def by (rule keeps_db_run) (auto simp: client_outside split: prod.splits, metis lease snd_conv)

lemma found_response:
  "I d \<Longrightarrow> find q (idempotency_records d) = Some row \<Longrightarrow> sr_response (mapRecord row) = Some outcome \<Longrightarrow> ok outcome"
  using recorded [of d row outcome] by (auto simp: mapRecord_def find_Some_iff)

lemma keeps_getRecord:
  "client_ok L I ok V \<Longrightarrow> keeps I (db_get V (getRecord n)) (\<lambda>r. \<forall>s outcome. r = Some s \<longrightarrow> sr_response s = Some outcome \<longrightarrow> ok outcome)"
  by (rule keeps_db_get) (auto simp: client_outside getRecord_def intro: found_response)

subsection \<open>Polling\<close>

lemma trusted_poll: "client_ok L I ok V \<Longrightarrow> answered V h r \<Longrightarrow>
    (r = PSuccess \<longrightarrow> allows ok True h) \<and> (r = PFailed \<longrightarrow> allows ok False h)"
  unfolding client_ok_def trusted_def answered_def by blast

lemma trusted_archive: "client_ok L I ok V \<Longrightarrow> archived V h r \<Longrightarrow>
    (r = HSuccess \<longrightarrow> allows ok True h) \<and> (r = HFailed \<longrightarrow> allows ok False h)"
  unfolding client_ok_def trusted_def archived_def by blast

lemma keeps_wait_loop:
  fixes V :: "('x, 'v) services"
  shows "client_ok L I ok V \<Longrightarrow> keeps I (wait_loop V k n limit) (\<lambda>r. \<forall>s outcome. r = Some s \<longrightarrow> sr_response s = Some outcome \<longrightarrow> ok outcome)"
proof (induction k)
  case (Suc k)
  note ih = Suc.IH [OF Suc.prems]
  note g = keeps_getRecord [OF Suc.prems, of n]
  show ?case unfolding keeps_def
  proof (intro allI impI)
    fix w :: "'x world" assume w: "I (w_db w)"
    obtain r w1 where r: "db_get V (getRecord n) w = (r, w1)" by fastforce
    have w1: "I (w_db w1)" by (rule keepsD [OF g r w])
    have v: "r = Inr (Some s) \<Longrightarrow> sr_response s = Some outcome \<Longrightarrow> ok outcome" for s outcome
      using keeps_value [OF g _ w, of "Some s"] r by blast
    note later = keeps_sleep_after [OF client_outside [OF Suc.prems] ih w1]
    show "I (w_db (snd (wait_loop V (Suc k) n limit w))) \<and> (\<forall>x. fst (wait_loop V (Suc k) n limit w) = Inr x \<longrightarrow>
        (\<forall>s outcome. x = Some s \<longrightarrow> sr_response s = Some outcome \<longrightarrow> ok outcome))"
      using r w w1 later v by (auto split: sum.splits)
  qed
qed (simp add: keeps_def)

lemma keeps_waitForOwner:
  "client_ok L I ok V \<Longrightarrow> keeps I (waitForOwner V n ms) (\<lambda>r. \<forall>s outcome. r = Some s \<longrightarrow> sr_response s = Some outcome \<longrightarrow> ok outcome)"
  using keeps_wait_loop unfolding waitForOwner_def keeps_def by blast

subsection \<open>Settling\<close>

lemma keeps_pollKnown:
  assumes "client_ok L I ok V" shows "keeps I (pollKnown V request record1) ok"
  unfolding pollKnown_def Let_def
proof (rule keeps_bind [OF keeps_poll [OF client_outside [OF assms]]])
  fix r assume "answered V (coalesce (sr_hash record1) []) r"
  from trusted_poll [OF assms this] show "keeps I (case r of
      PSuccess \<Rightarrow> io_seq (db_op V (\<lambda>now. complete now (sr_id record1) (settled_response request record1) Success True))
        (io_return (settled_response request record1))
    | PFailed \<Rightarrow> io_seq (db_op V (\<lambda>now. complete now (sr_id record1)
          (failed request ''settle_stellar_transaction_failed'' (sr_payer record1) (sr_hash record1)) Failed True))
        (io_return (failed request ''settle_stellar_transaction_failed'' (sr_payer record1) (sr_hash record1)))
    | PUnknown \<Rightarrow>
        io_seq (db_set V (\<lambda>now. markUnknown now (sr_id record1) ''transaction was not resolved before polling deadline''))
        (io_return (failed request ''settle_stellar_transaction_status_unknown'' (sr_payer record1) (sr_hash record1)))) ok"
    by (cases r) (auto simp: undecided_failure settled_allowed failed_allowed
        intro!: runs_seq runs_complete [OF assms] runs_unknown [OF assms])
qed

lemma runs_send: "client_ok L I ok V \<Longrightarrow> runs I (send_transaction V e)"
  by (simp add: client_ok_def outside_ok_def)

lemma keeps_send_persisted:
  assumes "client_ok L I ok V"
  shows "keeps I (send_persisted V request record1) (\<lambda>r. \<forall>outcome. r = Some outcome \<longrightarrow> ok outcome)"
  unfolding send_persisted_def Let_def
  by (intro runs_bind runs_send [OF assms])
    (auto simp: undecided_failure intro!: runs_seq runs_complete [OF assms] runs_pending [OF assms]
      runs_sleep [OF client_outside [OF assms]] runs_send [OF assms] split: send_status.splits)

lemma keeps_submitPersisted:
  assumes "client_ok L I ok V" shows "keeps I (submitPersisted V runtime request record1) ok"
  unfolding submitPersisted_def
proof (rule runs_seq [OF runs_sdk])
  have "keeps I (io_catch (send_persisted V request record1) (\<lambda>_.
         io_seq (db_set V (\<lambda>now. markUnknown now (sr_id record1) ''rpc response lost after submission attempt'')) (io_return None)))
      (\<lambda>r. \<forall>outcome. r = Some outcome \<longrightarrow> ok outcome)"
    by (intro runs_catch keeps_send_persisted [OF assms] runs_seq runs_unknown [OF assms] keeps_return) simp
  then show "keeps I (io_bind (io_catch (send_persisted V request record1) (\<lambda>_.
         io_seq (db_set V (\<lambda>now. markUnknown now (sr_id record1) ''rpc response lost after submission attempt'')) (io_return None)))
     (\<lambda>refused. case refused of Some outcome \<Rightarrow> io_return outcome | None \<Rightarrow> pollKnown V request record1)) ok"
    by (rule keeps_bind) (auto intro: keeps_pollKnown [OF assms] split: option.splits)
qed

lemma keeps_fail_claim: "client_ok L I ok V \<Longrightarrow> ok outcome \<Longrightarrow> keeps I (fail_claim V n outcome) ok"
  unfolding fail_claim_def by (auto intro!: runs_seq runs_complete)

lemma keeps_store_and_submit:
  assumes "client_ok L I ok V" "good_prepared p"
  shows "keeps I (store_and_submit V ctx request who n l p) ok"
proof -
  have lim: "limits_of V = L" using assms(1) by (simp add: client_ok_def)
  have "runs I (db_op V (\<lambda>now. storePreparedAndReserve now n l p (budget_scope V ctx who)
       (maxSponsoredStroopsPerKeyPerDay L) (maxGlobalSponsoredStroopsPerDay L)))"
    using assms(2) budget_scope_not_global [of V ctx who]
    by (intro runs_db_op [OF client_outside [OF assms(1)]] prepare)
  then show ?thesis unfolding store_and_submit_def lim
    by (rule runs_bind)
      (auto simp: unsent_failure intro!: runs_seq runs_release [OF assms(1)] keeps_fail_claim [OF assms(1)]
        runs_bind [OF keeps_runs [OF keeps_getRecord [OF assms(1)]]] keeps_submitPersisted [OF assms(1)]
        split: option.splits)
qed

lemma keeps_settle_as_owner:
  assumes "client_ok L I ok V" shows "keeps I (settle_as_owner V ctx request who n) ok"
proof -
  have good: "services_ok V" using assms by (simp add: client_ok_def)
  let ?attempt = "\<lambda>channel. io_catch (io_bind (with_slot V (mechanism_prepare V ctx request channel)) (\<lambda>x. io_return (Some x)))
            (\<lambda>_. io_return None)"
  have tail: "keeps I (case attempt of
              None \<Rightarrow> io_seq (db_set V (\<lambda>now. releaseChannel now l))
                (fail_claim V n (failed request ''unexpected_settle_error'' None None))
            | Some (Inl refusal) \<Rightarrow> io_seq (db_set V (\<lambda>now. releaseChannel now l))
                (fail_claim V n (failed request (coalesce (invalidReason refusal) ''verification_failed'') (v_payer refusal) None))
            | Some (Inr prepared) \<Rightarrow> store_and_submit V ctx request who n l prepared) ok"
    if a: "?attempt channel w = (Inr attempt, w')" for attempt l channel w w'
  proof -
    have "good_prepared p" if "attempt = Some (Inr p)" for p
    proof -
      have "mechanism_prepare V ctx request channel (yield V w) = (Inr (Inr p), w')"
        using a that by (auto simp: io_catch_def io_bind_def with_slot_def io_return_def split: prod.splits sum.splits)
      then show ?thesis by (rule mechanism_prepare_good [OF good])
    qed
    then show ?thesis
      by (auto simp: unsent_failure split: option.splits sum.splits intro!: runs_seq runs_release [OF assms]
          keeps_fail_claim [OF assms] keeps_store_and_submit [OF assms])
  qed
  have head: "runs I (?attempt channel)" for channel
    by (intro runs_catch runs_bind runs_with_slot [OF client_outside [OF assms]]
        runs_mechanism_prepare [OF client_outside [OF assms]] runs_return)
  show ?thesis
    unfolding settle_as_owner_def Let_def
  proof (rule runs_bind [OF runs_lease [OF assms]], goal_cases)
    case (1 leased)
    show ?case
      by (auto simp: unsent_failure split: option.split intro!: runs_seq runs_release [OF assms] runs_bind_values [OF head tail])
  qed
qed

lemma claim_answer:
  assumes "I d" "claimSettlement now a d = (r, d')" shows "I d' \<and> (\<forall>x. r = Inr x \<longrightarrow> claim_ok ok x)"
proof -
  have d': "I d'" using claim [OF assms(1), of now a] assms(2) by simp
  have "claim_ok ok x" if r: "r = Inr x" for x
    unfolding claim_ok_def
  proof (intro allI impI)
    fix rec assume x: "x = Cached rec"
    let ?d1 = "insert_record now (ca_scope a) (ca_key a) (ca_fingerprint a) (ca_scheme a) (ca_network a) (\<lambda>r. r) d"
    obtain row where row: "find (record_is (ca_scope a) (ca_key a)) (idempotency_records ?d1) = Some row"
      using assms(2) r by (auto simp: claimSettlement_def Let_def split: option.splits)
    have dec: "claim_decision now a row = Some (Cached rec)" and d1: "d' = ?d1"
      using assms(2) r x row by (auto simp: claimSettlement_def Let_def split: option.splits)
    then have "rec = mapRecord row" "i_response row \<noteq> None"
      by (auto simp: claim_decision_def split: if_splits)
    moreover have "row \<in> set (idempotency_records d')" using row d1 by (auto simp: find_Some_iff)
    ultimately show "\<exists>outcome. sr_response rec = Some outcome \<and> ok outcome"
      using recorded [OF d'] by (auto simp: mapRecord_def)
  qed
  then show ?thesis using d' by blast
qed

lemma keeps_answer_claim:
  assumes "client_ok L I ok V" "claim_ok ok c" shows "keeps I (answer_claim V ctx request who c) ok"
proof (cases c)
  case (Wait r)
  then show ?thesis unfolding answer_claim_def
    by (auto intro!: keeps_bind [OF keeps_waitForOwner [OF assms(1)]] split: option.splits)
next
  case (Cached r)
  then show ?thesis using assms(2) by (auto simp: answer_claim_def claim_ok_def)
qed (auto simp: answer_claim_def intro: keeps_pollKnown [OF assms(1)] keeps_settle_as_owner [OF assms(1)])

lemma keeps_runSettle:
  assumes "client_ok L I ok V" shows "keeps I (runSettle V request who) ok"
proof -
  note out = client_outside [OF assms]
  have s: "runs I (db_both V (\<lambda>now. consumeSimulations now sc n m))" for sc n m
    by (rule runs_db_both [OF out]) (rule simulations)
  have c: "keeps I (db_op V (\<lambda>now. claimSettlement now a)) (claim_ok ok)" for a
    by (rule keeps_db_op [OF out]) (rule claim_answer)
  show ?thesis unfolding runSettle_def
    by (auto simp: unsent_failure split: option.splits
        intro!: runs_bind [OF runs_context] runs_bind [OF keeps_db_get [OF out, of "\<lambda>_. True"]] runs_bind [OF s]
          keeps_bind [OF c] keeps_answer_claim [OF assms])
qed

lemma keeps_settle: "client_ok L I ok V \<Longrightarrow> keeps I (settle V request who) (\<lambda>(r, e). ok r)"
  unfolding settle_def
  by (rule keeps_bind [OF keeps_runSettle]) (auto intro!: runs_bind [OF runs_catalog] client_outside)

subsection \<open>Verifying and recovering\<close>

lemma runs_runVerify:
  assumes "client_ok L I ok V" shows "runs I (runVerify V request who)"
proof -
  note out = client_outside [OF assms]
  have s: "runs I (db_both V (\<lambda>now. consumeSimulations now sc n m))" for sc n m
    by (rule runs_db_both [OF out]) (rule simulations)
  have g: "runs I (db_both V (\<lambda>now. registerIdempotency now sc k fp sch nw))" for sc k fp sch nw
    by (rule runs_db_both [OF out]) (rule register)
  show ?thesis unfolding runVerify_def
    by (auto split: option.splits prod.splits intro!: runs_bind [OF runs_context] runs_bind [OF s] runs_bind [OF g]
        runs_bind [OF runs_with_slot [OF out runs_mechanism_verify [OF out]]])
qed

lemma runs_verify: "client_ok L I ok V \<Longrightarrow> runs I (verify V request who)"
  unfolding verify_def by (intro runs_bind runs_runVerify runs_catalog client_outside runs_return)

lemma recovered_allowed:
  "allows ok good (coalesce (sr_hash record1) []) \<Longrightarrow>
   ok (recovered_response record1 (if good then None else Some ''settle_stellar_transaction_failed''))"
  by (simp add: allows_def recovered_response_def)

lemma runs_finish_recovered:
  "client_ok L I ok V \<Longrightarrow> allows ok good (coalesce (sr_hash record1) []) \<Longrightarrow> runs I (finish_recovered V record1 good)"
  unfolding finish_recovered_def by (rule runs_complete [OF _ recovered_allowed]) auto

lemma expired_allowed: "ok (recovered_response record1 (Some ''settle_stellar_transaction_expired_unconfirmed''))"
  unfolding recovered_response_def by (rule undecided) auto

lemma runs_poll_record:
  assumes "client_ok L I ok V" shows "runs I (pollRecordWithoutRequest V runtime record1)"
proof -
  have e: "runs I (io_bind (persistedTransactionExpired V record1 runtime) (\<lambda>expired.
          if \<not> expired then io_return ()
          else db_op V (\<lambda>now. complete now (sr_id record1)
            (recovered_response record1 (Some ''settle_stellar_transaction_expired_unconfirmed'')) Failed False)))"
    by (intro runs_bind runs_expired client_outside [OF assms] runs_if runs_return runs_complete [OF assms expired_allowed]) simp
  show ?thesis unfolding pollRecordWithoutRequest_def
    by (rule keeps_bind [OF keeps_poll [OF client_outside [OF assms]]])
      (auto dest: trusted_poll [OF assms] trusted_archive [OF assms] split: poll_result.splits horizon_result.splits
        intro!: keeps_bind [OF keeps_horizon [OF client_outside [OF assms]]] runs_finish_recovered [OF assms] e)
qed

lemma runs_recover_all: "client_ok L I ok V \<Longrightarrow> runs I (recover_all V rs)"
  by (induction rs) (auto split: option.splits bool.splits intro!: runs_seq runs_catch runs_poll_record)

lemma runs_recover: "client_ok L I ok V \<Longrightarrow> runs I (recoverUnresolved V)"
  unfolding recoverUnresolved_def
  by (rule runs_bind [OF keeps_db_get [where Q = "\<lambda>_. True"]]) (auto simp: client_outside runs_recover_all)

end


section \<open>The store provides the interface\<close>

text \<open>First: the databases reachable from a given one; anything may be recorded.\<close>

lemma steps_then: "store_steps L d0 d \<Longrightarrow> store_step L d d' \<Longrightarrow> store_steps L d0 d'"
  by (rule rtranclp.rtrancl_into_rtrancl)

interpretation reached: settlement_store L "store_steps L d0" "\<lambda>_. True" for L d0
  by unfold_locales
    (auto simp: good_prepared_def intro: steps_then step_register step_claim step_lease step_release step_prepare
      step_pending step_unknown step_complete step_simulate)

lemma everything_trusted: "trusted (\<lambda>_. True) V"
  by (simp add: trusted_def allows_def)

text \<open>Second: the recorded outcomes are those of the ledger.\<close>

definition evidenced :: "(string \<Rightarrow> bool) \<Rightarrow> (string \<Rightarrow> bool) \<Rightarrow> settlement_outcome \<Rightarrow> bool" where
  "evidenced succeeded reverted outcome = (case outcome of HttpConflict _ \<Rightarrow> True
     | SettleResponse r \<Rightarrow> if success r then succeeded (transaction r)
       else errorReason r = Some ''settle_stellar_transaction_failed'' \<longrightarrow> transaction r \<noteq> [] \<longrightarrow> reverted (transaction r))"

definition truthful :: "(string \<Rightarrow> bool) \<Rightarrow> (string \<Rightarrow> bool) \<Rightarrow> db \<Rightarrow> bool" where
  "truthful succeeded reverted d = (\<forall>row \<in> set (idempotency_records d). \<forall>outcome.
     i_response row = Some outcome \<longrightarrow> evidenced succeeded reverted outcome)"

lemma truthful_update:
  assumes "truthful A B d" "idempotency_records d' = update_where q f (idempotency_records d)"
    "\<And>r outcome. i_response (f r) = Some outcome \<Longrightarrow> i_response r = Some outcome \<or> evidenced A B outcome"
  shows "truthful A B d'"
  using assms unfolding truthful_def update_where_def by fastforce

lemma truthful_same: "truthful A B d \<Longrightarrow> idempotency_records d' = idempotency_records d \<Longrightarrow> truthful A B d'"
  by (simp add: truthful_def)

lemma truthful_insert:
  assumes "truthful A B d" "\<And>r. i_response (f r) = i_response r" shows "truthful A B (insert_record now sc k fp sch nw f d)"
  using assms unfolding truthful_def insert_record_def update_where_def
  by (auto simp: new_record_def)

lemma truthful_claim: "truthful A B d \<Longrightarrow> truthful A B (snd (claimSettlement now a d))"
proof -
  assume d: "truthful A B d"
  have d1: "truthful A B (insert_record now (ca_scope a) (ca_key a) (ca_fingerprint a) (ca_scheme a) (ca_network a) (\<lambda>r. r) d)"
    by (rule truthful_insert [OF d]) simp
  show ?thesis
    by (auto simp: claimSettlement_def Let_def d d1 claimed_row_def split: option.split intro!: truthful_update [OF d1])
qed

lemma truthful_prepare: "truthful A B d \<Longrightarrow> truthful A B (snd (storePreparedAndReserve now n l p sc x y d))"
proof -
  assume d: "truthful A B d"
  have "idempotency_records (snd (storePreparedAndReserve now n l p sc x y d)) \<in> {idempotency_records d,
      update_where (\<lambda>r. i_id r = n) (prepared_row now l p) (idempotency_records d)}"
    by (auto simp: storePreparedAndReserve_def reserveBudget_def Let_def audit_def split: option.split)
  then show ?thesis
    using truthful_update [OF d, of _ "\<lambda>r. i_id r = n" "prepared_row now l p"] truthful_same [OF d]
    by (auto simp: prepared_row_def)
qed

lemma truthful_complete:
  "truthful A B d \<Longrightarrow> evidenced A B outcome \<Longrightarrow> truthful A B (snd (complete now n outcome st applied d))"
proof -
  assume d: "truthful A B d" and e: "evidenced A B outcome"
  have "idempotency_records (snd (complete now n outcome st applied d)) \<in> {idempotency_records d, update_where (\<lambda>r. i_id r = n)
      (\<lambda>r. r\<lparr>i_status := st, i_response := Some outcome, i_updated := now\<rparr>) (idempotency_records d)}"
    by (auto simp: complete_def Let_def audit_def split: option.split)
  then show ?thesis
    using truthful_update [OF d, of _ "\<lambda>r. i_id r = n" "\<lambda>r. r\<lparr>i_status := st, i_response := Some outcome, i_updated := now\<rparr>"]
      truthful_same [OF d] e by auto
qed

lemma truthful_register: "truthful A B d \<Longrightarrow> truthful A B (snd (registerIdempotency now sc k fp sch nw d))"
  using truthful_insert [of A B d "\<lambda>r. r\<lparr>i_updated := now\<rparr>"]
  by (auto simp: registerIdempotency_def Let_def split: option.split)

lemma lease_records: "idempotency_records (snd (leaseChannel now locked nw worker leaseMs allowed d)) = idempotency_records d"
  by (auto simp: leaseChannel_def Let_def split: option.split list.split)

interpretation ledger: settlement_store L "truthful A B" "evidenced A B" for L A B
proof unfold_locales
  fix d now sc k fp sch nw show "truthful A B d \<Longrightarrow> truthful A B (snd (registerIdempotency now sc k fp sch nw d))"
    by (rule truthful_register)
next
  fix d now locked nw worker leaseMs allowed
  show "truthful A B d \<Longrightarrow> truthful A B (snd (leaseChannel now locked nw worker leaseMs allowed d))"
    by (erule truthful_same) (rule lease_records)
next
  fix d now l show "truthful A B d \<Longrightarrow> truthful A B (releaseChannel now l d)"
    by (erule truthful_same) (simp add: releaseChannel_def)
next
  fix d now n show "truthful A B d \<Longrightarrow> truthful A B (markPending now n d)"
    by (erule truthful_update) (auto simp: markPending_def)
next
  fix d now n reason show "truthful A B d \<Longrightarrow> truthful A B (markUnknown now n reason d)"
    by (erule truthful_update) (auto simp: markUnknown_def)
next
  fix d now sc cnt maximum show "truthful A B d \<Longrightarrow> truthful A B (snd (consumeSimulations now sc cnt maximum d))"
    by (erule truthful_same) (simp add: consumeSimulations_def Let_def)
next
  fix d row outcome
  show "truthful A B d \<Longrightarrow> row \<in> set (idempotency_records d) \<Longrightarrow> i_response row = Some outcome \<Longrightarrow> evidenced A B outcome"
    by (simp add: truthful_def)
next
  fix r :: settle_response
  show "\<not> success r \<Longrightarrow> transaction r = [] \<Longrightarrow> evidenced A B (SettleResponse r)" by (simp add: evidenced_def)
  show "\<not> success r \<Longrightarrow> errorReason r \<in> {Some ''settle_stellar_transaction_submission_failed'',
      Some ''settle_stellar_transaction_status_unknown'', Some ''settle_stellar_transaction_expired_unconfirmed''} \<Longrightarrow>
      evidenced A B (SettleResponse r)" by (auto simp: evidenced_def)
qed (auto intro: truthful_claim truthful_prepare truthful_complete)

text \<open>What is trusted of the RPC server and of Horizon: a decided answer is the ledger's.\<close>

definition ledger_sound :: "(string \<Rightarrow> bool) \<Rightarrow> (string \<Rightarrow> bool) \<Rightarrow> ('x, 'v) services \<Rightarrow> bool" where
  "ledger_sound succeeded reverted V = ((\<forall>h w w'. get_transaction V h w = (Inr TxSuccess, w') \<longrightarrow> succeeded h)
     \<and> (\<forall>h w w'. get_transaction V h w = (Inr TxFailed, w') \<longrightarrow> reverted h)
     \<and> (\<forall>h w w' a b. fetch_horizon V h w = (Inr a, w') \<longrightarrow> successful a = Some b \<longrightarrow> (if b then succeeded h else reverted h)))"

lemma sound_trusted: "ledger_sound A B V \<Longrightarrow> trusted (evidenced A B) V"
  unfolding ledger_sound_def trusted_def allows_def evidenced_def
  by simp

end
