(* ===== verification/Orchestrator_Properties.thy ===== *)
theory Orchestrator_Properties
  imports Orchestrator_Refinement Mechanism_Properties
begin

text \<open>
  The properties of the facilitator as a whole (facilitator/src/orchestrator.ts), each exercised on
  a concrete facilitator with one worker and a scripted RPC server.
\<close>

section \<open>A concrete facilitator\<close>

definition demo_services :: "(string \<Rightarrow> tx_status) \<Rightarrow> (unit, js) services" where
  "demo_services status_of = \<lparr> stellar = demo_exact, yield = (\<lambda>w. w), db_fault = (\<lambda>_. None), locked_rows = (\<lambda>_ _. False),
     send_transaction = (\<lambda>_. io_return SendAccepted), get_transaction = (\<lambda>h. io_return (status_of h)),
     envelope_check = (\<lambda>_ _. Inr ()), envelope_max_time = (\<lambda>_ _. Inr (Some ''10'')),
     fetch_horizon = (\<lambda>_. io_return \<lparr> http_status = 404, successful = None \<rparr>), sha256 = (\<lambda>s. ''d''),
     localeCompare = (\<lambda>_ _. 0), cataloger = None, analytics = None, autoCatalog = False, instanceId = ''w1'',
     limits_of = demo_limits,
     registry = \<lparr> networks = [(''stellar:testnet'', demo_runtime)],
       channels = [(''stellar:testnet'', [(''GCHAN'', demo_channel)])] \<rparr> \<rparr>"

definition demo_world :: "db \<Rightarrow> unit world" where
  "demo_world d = \<lparr> w_db = d, w_now = 5, w_ext = () \<rparr>"

definition with_channel :: db where
  "with_channel = upsertChannel 0 ''stellar:testnet'' ''GCHAN'' empty_db"

definition found :: "string \<Rightarrow> tx_status" where
  "found h = (if h = ''h1'' then TxSuccess else TxOther)"

definition nothing_found :: "string \<Rightarrow> tx_status" where
  "nothing_found h = TxOther"

lemma demo_outside: "outside_ok I (demo_services f)"
  by (simp add: outside_ok_def demo_services_def demo_exact_def demo_tx_def)

lemma demo_services_ok: "services_ok (demo_services f)"
  by (auto simp: services_ok_def demo_services_def demo_exact_def demo_tx_def)

lemma demo_limits_of: "limits_of (demo_services f) = demo_limits"
  by (simp add: demo_services_def)

lemma with_channel_reachable: "store_steps demo_limits empty_db with_channel"
  unfolding with_channel_def by (rule r_into_rtranclp) (rule step_upsert)

definition demo_settled :: settle_response where
  "demo_settled = \<lparr> success = True, transaction = ''h1'', s_network = ''stellar:testnet'', errorReason = None,
     s_payer = Some ''GPAYER'', s_amount = None \<rparr>"

definition demo_after :: "unit world" where
  "demo_after = snd (settle (demo_services found) (demo_env ''exact'') ''k1'' (demo_world with_channel))"

lemma demo_settle_eval:
  "fst (settle (demo_services found) (demo_env ''exact'') ''k1'' (demo_world with_channel))
    = Inr (SettleResponse demo_settled, None)"
  by code_simp

section \<open>Safety of the facilitator\<close>

lemma reached_client:
  "outside_ok (store_steps (limits_of V) d0) V \<Longrightarrow> services_ok V \<Longrightarrow>
   client_ok (limits_of V) (store_steps (limits_of V) d0) (\<lambda>_. True) V"
  by (simp add: client_ok_def everything_trusted)

lemma ledger_client:
  "outside_ok (truthful A B) V \<Longrightarrow> services_ok V \<Longrightarrow> ledger_sound A B V \<Longrightarrow>
   client_ok (limits_of V) (truthful A B) (evidenced A B) V"
  by (simp add: client_ok_def sound_trusted)

text \<open>C10: The facilitator is a client of the state store.  If the other workers and the services touch
  the database through store operations only, then so do verify, settle and the recovery, on every
  path and however their database operations interleave with those of the others: a reachable
  database stays reachable, its tables stay consistent and the budgets stay within their limits.\<close>

theorem facilitator_keeps_state:
  assumes "outside_ok (store_steps (limits_of V) empty_db) V" and "services_ok V"
    and "store_steps (limits_of V) empty_db (w_db w)"
    and "d \<in> {w_db (snd (verify V request who w)), w_db (snd (settle V request who w)), w_db (snd (recoverUnresolved V w))}"
  shows "store_steps (limits_of V) empty_db d \<and> db_ok d \<and> usage_ok (limits_of V) (sponsor_daily_usage d)"
proof -
  note c = reached_client [OF assms(1,2)]
  have "store_steps (limits_of V) empty_db d"
    using reached.runs_verify [OF c, of request who] reached.keeps_settle [OF c, of request who]
      reached.runs_recover [OF c] assms(3,4) by (auto simp: keeps_def)
  then show ?thesis using reachable_ok by (simp add: state_ok_def)
qed

theorem facilitator_keeps_state_witness:
  "db_ok (w_db demo_after) \<and> store_steps demo_limits empty_db (w_db demo_after)"
  using facilitator_keeps_state [of "demo_services found" "demo_world with_channel" "w_db demo_after" "demo_env ''exact''" "''k1''"]
    with_channel_reachable
  by (simp add: demo_outside demo_services_ok demo_limits_of demo_after_def demo_world_def)

text \<open>C11: What settle answers is what the ledger did.  Let the decided answers of the RPC server and of
  Horizon be right about the ledger, and let the other workers record only such outcomes.  Then a
  settlement that the facilitator reports as successful, on whichever path - a fresh submission, a
  resumed or a cached one, one answered by another worker - names a transaction that succeeded on the
  ledger, one that it reports as failed on the ledger names a transaction that failed there, and what
  it leaves recorded for later requests has the same property.\<close>

theorem answers_are_the_ledgers:
  assumes "outside_ok (truthful succeeded reverted) V" and "services_ok V" and "ledger_sound succeeded reverted V"
    and "truthful succeeded reverted (w_db w)"
    and "settle V request who w = (Inr (outcome, added), w')"
  shows "evidenced succeeded reverted outcome \<and> truthful succeeded reverted (w_db w')"
proof -
  note k = ledger.keeps_settle [OF ledger_client [OF assms(1-3)], of request who]
  show ?thesis using keeps_value [OF k assms(5,4)] keepsD [OF k assms(5,4)] by simp
qed

theorem answers_are_the_ledgers_witness:
  "success demo_settled \<and> (\<lambda>h. h = ''h1'') (transaction demo_settled)"
proof -
  have s: "ledger_sound (\<lambda>h. h = ''h1'') (\<lambda>_. False) (demo_services found)"
    by (auto simp: ledger_sound_def demo_services_def found_def split: if_splits)
  have t: "truthful (\<lambda>h. h = ''h1'') (\<lambda>_. False) (w_db (demo_world with_channel))"
    by (simp add: truthful_def with_channel_def demo_world_def upsertChannel_def empty_db_def)
  have e: "settle (demo_services found) (demo_env ''exact'') ''k1'' (demo_world with_channel)
      = (Inr (SettleResponse demo_settled, None), demo_after)"
    using demo_settle_eval by (simp add: demo_after_def prod_eq_iff)
  from answers_are_the_ledgers [OF demo_outside demo_services_ok s t e] show ?thesis
    by (simp add: evidenced_def demo_settled_def)
qed

lemma catalog_returns: "\<exists>e. fst (catalog V request st o1 w) = Inr e"
  unfolding catalog_def io_catch_def by (auto split: prod.split sum.split)

text \<open>C12: The catalog never changes a payment.  Whatever the cataloger, the analytics store and the
  database answer, verify and settle return or fail exactly as the payment itself did: the side
  channel can only add the extension response.\<close>

theorem catalog_never_changes_outcome:
  "map_sum id fst (fst (verify V request who w)) = fst (runVerify V request who w)
   \<and> map_sum id fst (fst (settle V request who w)) = fst (runSettle V request who w)"
proof -
  have *: "map_sum id fst (fst (io_bind m (\<lambda>r. io_bind (catalog V request st (f r)) (\<lambda>e. io_return (r, e))) w)) = fst (m w)"
    for m :: "('a world, 'c) io" and st f
  proof (cases "m w")
    case (Pair r w1)
    show ?thesis
    proof (cases r)
      case (Inr x)
      obtain e w2 where "catalog V request st (f x) w1 = (Inr e, w2)"
        using catalog_returns [of V request st "f x" w1] by (metis prod.collapse)
      then show ?thesis using Pair Inr by (simp add: io_bind_app)
    qed (simp add: Pair io_bind_app)
  qed
  show ?thesis unfolding verify_def settle_def by (simp add: *)
qed

section \<open>Polling\<close>

text \<open>Time does not run backwards.\<close>

definition clock_monotone :: "('x, 'v) services \<Rightarrow> bool" where
  "clock_monotone V = ((\<forall>w. w_now w \<le> w_now (yield V w)) \<and> (\<forall>h w. w_now w \<le> w_now (snd (get_transaction V h w))))"

lemma sleep_advances: "clock_monotone V \<Longrightarrow> w_now w + ms \<le> w_now (snd (sleep V ms w))"
  unfolding clock_monotone_def sleep_def by (metis (no_types, lifting) snd_conv world.select_convs(2) world.surjective world.update_convs(2))

lemma poll_loop_ends:
  "clock_monotone V \<Longrightarrow> 1 \<le> settlePollMs (limits_of V) \<Longrightarrow> limit - w_now w \<le> int n \<Longrightarrow>
   \<exists>r w'. poll_loop V n h limit w = (Inr r, w') \<and> (r = PUnknown \<longrightarrow> limit \<le> w_now w')"
proof (induction n arbitrary: w)
  case (Suc n)
  obtain r w1 where r: "get_transaction V h w = (r, w1)" by fastforce
  have "w_now w \<le> w_now w1" using Suc.prems(1) r unfolding clock_monotone_def by (metis snd_conv)
  then have "limit - w_now (snd (sleep V (settlePollMs (limits_of V)) w1)) \<le> int n"
    using sleep_advances [OF Suc.prems(1), of w1 "settlePollMs (limits_of V)"] Suc.prems(2,3) by linarith
  from Suc.IH [OF Suc.prems(1,2) this] r show ?case by (auto split: sum.split tx_status.split)
qed simp

text \<open>What \<open>waitForOwner\<close> may answer, and when: a record that is done, nothing, or the error of a query that failed.\<close>

definition wait_answer :: "('x, 'v) services \<Rightarrow> int \<Rightarrow> exn + settlement_record option \<Rightarrow> int \<Rightarrow> bool" where
  "wait_answer V limit r now = (case r of
     Inr None \<Rightarrow> limit \<le> now
   | Inr (Some s) \<Rightarrow> owner_done (Some s)
   | Inl e \<Rightarrow> \<exists>w applied. db_fault V w = Some (applied, e))"

lemma wait_loop_ends:
  "clock_monotone V \<Longrightarrow> limit - w_now w \<le> int k \<Longrightarrow> \<exists>r w'. wait_loop V k n limit w = (r, w') \<and> wait_answer V limit r (w_now w')"
proof (induction k arbitrary: w)
  case (Suc k)
  obtain r w1 where r: "db_get V (getRecord n) w = (r, w1)" by fastforce
  show ?case
  proof (cases r)
    case (Inl e)
    then have "\<exists>w applied. db_fault V w = Some (applied, e)" using r by (auto simp: db_get_def db_op_def db_run_def Let_def split: option.splits)
    then show ?thesis using r Inl Suc.prems(2) by (auto simp: wait_answer_def)
  next
    case (Inr x)
    have "w_now w \<le> w_now w1" using Suc.prems(1) r by (auto simp: db_get_def db_op_def db_run_def Let_def clock_monotone_def split: option.splits)
    then have "limit - w_now (snd (sleep V 100 w1)) \<le> int k"
      using sleep_advances [OF Suc.prems(1), of w1 100] Suc.prems(2) by linarith
    from Suc.IH [OF Suc.prems(1) this] show ?thesis using r Inr by (auto simp: wait_answer_def owner_done_def split: option.splits)
  qed
qed (simp add: wait_answer_def)

text \<open>C13: Waiting ends, and not too early.  With a clock that does not run backwards and a poll interval
  of at least a millisecond, polling a transaction always returns - failing RPC calls are absorbed -
  and answers unknown only once the settlement timeout has passed.  Waiting for the owner of a claim returns a
  record only when it has a response or a hash, nothing only after its timeout, and otherwise fails with
  the error of a database query that failed.\<close>

theorem waiting_ends:
  assumes "clock_monotone V" and "1 \<le> settlePollMs (limits_of V)"
  shows "(\<exists>r w'. poll V h w = (Inr r, w') \<and> (r = PUnknown \<longrightarrow> w_now w + settleTimeoutMs (limits_of V) \<le> w_now w'))
    \<and> (\<exists>r w'. waitForOwner V n ms w = (r, w') \<and> wait_answer V (w_now w + ms) r (w_now w'))"
  unfolding poll_def waitForOwner_def
  by (rule conjI, rule poll_loop_ends [OF assms], simp, rule wait_loop_ends [OF assms(1)], simp)

theorem waiting_ends_witness:
  "\<exists>r w'. poll (demo_services nothing_found) ''h'' (demo_world empty_db) = (Inr r, w') \<and> (r = PUnknown \<longrightarrow> 5005 \<le> w_now w')"
proof -
  have "clock_monotone (demo_services nothing_found)" by (simp add: clock_monotone_def demo_services_def)
  from waiting_ends [OF this, of "''h''" "demo_world empty_db" 0 0] show ?thesis
    by (auto simp: demo_limits_of demo_limits_def demo_world_def)
qed

section \<open>Recovery\<close>

definition ledger_answer :: "('x, 'v) services \<Rightarrow> string \<Rightarrow> bool \<Rightarrow> bool" where
  "ledger_answer V h good = (answered V h (if good then PSuccess else PFailed) \<or> archived V h (if good then HSuccess else HFailed))"

text \<open>What a completion by the recovery must rest on.\<close>

definition recovery_evidence ::
    "('x, 'v) services \<Rightarrow> network_runtime \<Rightarrow> settlement_record \<Rightarrow> settlement_outcome \<Rightarrow> record_status \<Rightarrow> bool \<Rightarrow> bool" where
  "recovery_evidence V runtime r outcome st applied = (let h = coalesce (sr_hash r) [] in
     (outcome = recovered_response r None \<and> st = Success \<and> applied \<and> ledger_answer V h True)
   \<or> (outcome = recovered_response r (Some ''settle_stellar_transaction_failed'') \<and> st = Failed \<and> applied \<and> ledger_answer V h False)
   \<or> (outcome = recovered_response r (Some ''settle_stellar_transaction_expired_unconfirmed'') \<and> st = Failed \<and> \<not> applied
      \<and> archived V h HNotFound \<and> (\<exists>m latest close w1 w2. sr_envelope r \<noteq> None
        \<and> persistedTransactionMaximumTime V (the (sr_envelope r)) (n_id (config runtime)) = Some m
        \<and> get_latest_ledger (stellar V) w1 = (Inr (latest, close), w2) \<and> m < close)))"

definition ends :: "(db \<Rightarrow> bool) \<Rightarrow> ('x world, 'a) io \<Rightarrow> (db \<Rightarrow> bool) \<Rightarrow> bool" where
  "ends I m P = (\<forall>w. I (w_db w) \<longrightarrow> P (w_db (snd (m w))))"

lemma ends_bind:
  "keeps I m Q \<Longrightarrow> (\<And>x. Q x \<Longrightarrow> ends I (k x) P) \<Longrightarrow> (\<And>d. I d \<Longrightarrow> P d) \<Longrightarrow> ends I (io_bind m k) P"
  unfolding keeps_def ends_def io_bind_def by (fastforce split: prod.splits sum.splits)

lemma ends_return: "(\<And>d. I d \<Longrightarrow> P d) \<Longrightarrow> ends I (io_return x) P"
  by (simp add: ends_def)

lemma ends_complete:
  fixes V :: "('x, 'v) services"
  assumes "outside_ok I V" "\<And>d. I d \<Longrightarrow> P d" "\<And>now d. I d \<Longrightarrow> P (snd (complete now n outcome st applied d))"
  shows "ends I (db_op V (\<lambda>now. complete now n outcome st applied)) P"
  unfolding ends_def
proof (intro allI impI)
  fix w :: "'x world" assume "I (w_db w)"
  then have "I (w_db (yield V w))" using outside_yield [OF assms(1)] by blast
  then show "P (w_db (snd (db_op V (\<lambda>now. complete now n outcome st applied) w)))"
    using assms(2) assms(3) [of "w_db (yield V w)" "w_now (yield V w)"] by (auto simp: db_op_def db_run_def Let_def split: prod.split option.split)
qed

lemma evidence_ledger:
  "ledger_answer V (coalesce (sr_hash r) []) good \<Longrightarrow> recovery_evidence V runtime r
    (recovered_response r (if good then None else Some ''settle_stellar_transaction_failed'')) (if good then Success else Failed) True"
  by (cases good) (simp_all add: recovery_evidence_def Let_def)

lemma evidence_expired:
  "archived V (coalesce (sr_hash r) []) HNotFound \<Longrightarrow> \<exists>m latest close w1 w2. sr_envelope r \<noteq> None
        \<and> persistedTransactionMaximumTime V (the (sr_envelope r)) (n_id (config runtime)) = Some m
        \<and> get_latest_ledger (stellar V) w1 = (Inr (latest, close), w2) \<and> m < close \<Longrightarrow>
   recovery_evidence V runtime r (recovered_response r (Some ''settle_stellar_transaction_expired_unconfirmed'')) Failed False"
  by (simp add: recovery_evidence_def Let_def)

lemma keeps_expired:
  assumes "outside_ok I V"
  shows "keeps I (persistedTransactionExpired V r runtime) (\<lambda>b. b \<longrightarrow> (\<exists>m latest close w1 w2. sr_envelope r \<noteq> None
        \<and> persistedTransactionMaximumTime V (the (sr_envelope r)) (n_id (config runtime)) = Some m
        \<and> get_latest_ledger (stellar V) w1 = (Inr (latest, close), w2) \<and> m < close))"
proof -
  have l: "keeps I (get_latest_ledger (stellar V)) (\<lambda>x. \<exists>w1 w2. get_latest_ledger (stellar V) w1 = (Inr x, w2))"
    using assms unfolding outside_ok_def keeps_def by (metis prod.collapse)
  show ?thesis unfolding persistedTransactionExpired_def
    by (auto split: option.split simp: truthy_str_def intro!: runs_catch keeps_bind [OF l] keeps_return)
qed


definition demo_record :: settlement_record where
  "demo_record = the (getRecord 1 db3)"

definition demo_recovered :: "unit world" where
  "demo_recovered = snd (pollRecordWithoutRequest (demo_services found) demo_runtime demo_record (demo_world db3))"

lemma demo_recovered_changes: "w_db demo_recovered \<noteq> w_db (demo_world db3)"
proof
  assume "w_db demo_recovered = w_db (demo_world db3)"
  then have "getRecord 1 (w_db demo_recovered) = getRecord 1 (w_db (demo_world db3))" by simp
  moreover have "map_option status (getRecord 1 (w_db demo_recovered)) = Some Success" by code_simp
  moreover have "map_option status (getRecord 1 (w_db (demo_world db3))) = Some Submitting" by code_simp
  ultimately show False by simp
qed


section \<open>Stranded claims\<close>

text \<open>No channel can be leased.\<close>

definition no_channel :: "('x, 'v) services \<Rightarrow> string \<Rightarrow> 'x world \<Rightarrow> bool" where
  "no_channel V nw w = (\<forall>c \<in> set (channel_accounts (w_db w)). \<not> lease_candidate (w_now w) nw
     (Some (map fst (coalesce (map_of (channels (registry V)) nw) []))) (\<lambda>_. False) c)"

lemma lease_none:
  "(\<And>c. c \<in> set (channel_accounts d) \<Longrightarrow> \<not> lease_candidate now nw allowed locked c) \<Longrightarrow>
   leaseChannel now locked nw worker leaseMs allowed d = (None, d)"
  by (simp add: leaseChannel_def filter_False)


lemma claim_new:
  assumes "find (record_is (ca_scope a) (ca_key a)) (idempotency_records d) = None"
    and "records_ok (idempotency_records d) (next_id d)"
  shows "\<exists>r. i_hash r = None \<and> i_status r = Preparing \<and> claimSettlement now a d = (Inr (Owner (mapRecord r)),
    d\<lparr>idempotency_records := idempotency_records d @ [r], next_id := next_id d + 1\<rparr>)"
proof -
  let ?new = "new_record now (next_id d) (ca_scope a) (ca_key a) (ca_fingerprint a) (ca_scheme a) (ca_network a)"
  have old: "\<not> record_is (ca_scope a) (ca_key a) r" "i_id r \<noteq> next_id d" if "r \<in> set (idempotency_records d)" for r
    using assms that by (auto simp: find_None_iff records_ok_def list_all_iff)
  have "find (record_is (ca_scope a) (ca_key a)) (idempotency_records d @ [?new]) = Some ?new"
    using assms(1) by (simp add: find_append record_is_def new_record_def)
  moreover have "claim_decision now a ?new = None"
    by (simp add: claim_decision_def new_record_def truthy_str_def)
  moreover have "update_where (\<lambda>r. i_id r = next_id d) (claimed_row now a) (idempotency_records d @ [?new])
      = idempotency_records d @ [claimed_row now a ?new]"
    using old(2) by (auto simp: update_where_def new_record_def intro: map_idI)
  ultimately show ?thesis using assms(1)
    by (intro exI [of _ "claimed_row now a ?new"])
      (simp add: claimSettlement_def insert_record_def Let_def claimed_row_def new_record_def)
qed

definition quiet :: "('x, 'v) services \<Rightarrow> bool" where
  "quiet V = ((\<forall>w. yield V w = w \<and> db_fault V w = None) \<and> (\<forall>w k. \<not> locked_rows V w k))"

lemma quiet_db_op: "quiet V \<Longrightarrow> db_op V f w = (fst (f (w_now w) (w_db w)), w\<lparr>w_db := snd (f (w_now w) (w_db w))\<rparr>)"
  by (simp add: quiet_def db_op_def db_run_def Let_def split: prod.split)

lemma quiet_db_get: "quiet V \<Longrightarrow> db_get V f w = (Inr (f (w_db w)), w)"
  by (simp add: db_get_def quiet_db_op)

lemma quiet_db_both: "quiet V \<Longrightarrow> db_both V f w = (Inr (fst (f (w_now w) (w_db w))), w\<lparr>w_db := snd (f (w_now w) (w_db w))\<rparr>)"
  by (simp add: db_both_def quiet_db_op split: prod.split)

lemma context_world: "context_of V request w = (r, w') \<Longrightarrow> w' = w"
  by (auto simp: context_of_def Let_def split: option.splits if_splits)

text \<open>A settlement that finds no free channel leaves its claim behind.  When settle fails with an
  error for a payment not seen before, with no channel that can be leased and no other worker at the
  database, the error is that no channel is available, the claim stays recorded as preparing and counts
  as a pending settlement, and the recovery does not see it.\<close>

theorem stranded_claim:
  assumes "quiet V" and "records_ok (idempotency_records (w_db w)) (next_id (w_db w))"
    and "unresolvedCount (w_db w) < maxPendingSettlements (limits_of V)"
    and "context_of V request w = (Inr ctx, w)" and "no_channel V (x_network ctx) w"
    and "findRecord (id_scope ctx request) (fst (idempotencyData (sha256 V) (localeCompare V) request)) (w_db w) = None"
    and "runSettle V request who w = (Inl e, w')"
  shows "e = BusyError ''no channel account is currently available''
    \<and> unresolvedCount (w_db w') = unresolvedCount (w_db w) + 1 \<and> listUnresolved (w_db w') = listUnresolved (w_db w)"
proof -
  let ?cost = "if x_scheme ctx = ''exact'' then 4 else 2"
  obtain actual where "paymentIdentifierError (paymentPayload request) = None"
      and actual: "parseInteger (amount (paymentRequirements request)) = Some actual"
    using assms(3,4,7) by (auto simp: runSettle_def io_bind_app quiet_db_get [OF assms(1)] split: option.splits)
  define args where "args = settlement_claim V ctx request actual"
  define d1 where "d1 = snd (consumeSimulations (w_now w) (budget_scope V ctx who) ?cost
      (maxSimulationsPerKeyPerMinute (limits_of V)) (w_db w))"
  have d1: "idempotency_records d1 = idempotency_records (w_db w)" "next_id d1 = next_id (w_db w)"
      "channel_accounts d1 = channel_accounts (w_db w)"
    by (simp_all add: d1_def consumeSimulations_def Let_def)
  have fresh: "find (record_is (ca_scope args) (ca_key args)) (idempotency_records d1) = None"
    using assms(6) d1 by (cases "idempotencyData (sha256 V) (localeCompare V) request")
      (simp add: args_def settlement_claim_def findRecord_def)
  obtain r where r: "i_hash r = None" "i_status r = Preparing"
      and claim: "claimSettlement (w_now w) args d1 = (Inr (Owner (mapRecord r)),
        d1\<lparr>idempotency_records := idempotency_records d1 @ [r], next_id := next_id d1 + 1\<rparr>)"
    using claim_new [OF fresh, of "w_now w"] assms(2) d1 by auto
  let ?d2 = "d1\<lparr>idempotency_records := idempotency_records d1 @ [r], next_id := next_id d1 + 1\<rparr>"
  have "locked_rows V (w\<lparr>w_db := ?d2\<rparr>) = (\<lambda>_. False)" using assms(1) by (auto simp: quiet_def)
  then have lease: "lease_op V (x_network ctx) (map fst (coalesce (map_of (channels (registry V)) (x_network ctx)) [])) (w\<lparr>w_db := ?d2\<rparr>)
      = (Inr None, w\<lparr>w_db := ?d2\<rparr>)"
    using assms(1,5) d1 lease_none [of ?d2] by (simp add: lease_op_def db_run_def Let_def quiet_def no_channel_def)
  have granted: "fst (consumeSimulations (w_now w) (budget_scope V ctx who) ?cost
      (maxSimulationsPerKeyPerMinute (limits_of V)) (w_db w))"
    using assms(3,4,7) actual \<open>paymentIdentifierError (paymentPayload request) = None\<close>
    by (simp add: runSettle_def io_bind_app quiet_db_get [OF assms(1)] quiet_db_both [OF assms(1)] split: if_splits)
  have "runSettle V request who w = (Inl (BusyError ''no channel account is currently available''), w\<lparr>w_db := ?d2\<rparr>)"
    using assms(3,4) actual granted \<open>paymentIdentifierError (paymentPayload request) = None\<close> claim lease
    by (simp add: runSettle_def io_bind_app quiet_db_get [OF assms(1)] quiet_db_both [OF assms(1)] quiet_db_op [OF assms(1)]
        answer_claim_def settle_as_owner_def Let_def d1_def args_def)
  then have w': "e = BusyError ''no channel account is currently available''" "w_db w' = ?d2" using assms(7) by auto
  show ?thesis using w' r d1 by (simp add: unresolvedCount_def listUnresolved_def unresolved_row_def)
qed

definition demo_stranded :: "unit world" where
  "demo_stranded = snd (runSettle (demo_services found) (demo_env ''exact'') ''k1'' (demo_world empty_db))"

theorem stranded_claim_witness:
  "unresolvedCount (w_db demo_stranded) = 1 \<and> listUnresolved (w_db demo_stranded) = []"
proof -
  let ?V = "demo_services found" and ?r = "demo_env ''exact''" and ?w = "demo_world empty_db"
  have q: "quiet ?V" by (simp add: quiet_def demo_services_def)
  have ok: "records_ok (idempotency_records (w_db ?w)) (next_id (w_db ?w))" by (simp add: demo_world_def empty_db_def records_ok_def)
  have c: "unresolvedCount (w_db ?w) = 0" by (simp add: demo_world_def empty_db_def unresolvedCount_def)
  then have room: "unresolvedCount (w_db ?w) < maxPendingSettlements (limits_of ?V)" by (simp add: demo_limits_of demo_limits_def)
  have ctx: "context_of ?V ?r ?w = (Inr \<lparr> x_network = ''stellar:testnet'', x_runtime = demo_runtime, x_scheme = ''exact'' \<rparr>, ?w)"
    by (simp add: context_of_def demo_services_def demo_env_def demo_req_def)
  have none: "no_channel ?V n ?w" for n by (simp add: no_channel_def demo_world_def empty_db_def)
  have new: "findRecord sc k (w_db ?w) = None" for sc k by (simp add: findRecord_def demo_world_def empty_db_def)
  have run: "runSettle ?V ?r ''k1'' ?w = (Inl (BusyError ''no channel account is currently available''), demo_stranded)"
  proof -
    have "fst (runSettle ?V ?r ''k1'' ?w) = Inl (BusyError ''no channel account is currently available'')" by code_simp
    then show ?thesis by (simp add: demo_stranded_def prod_eq_iff)
  qed
  have "listUnresolved (w_db ?w) = []" by (simp add: demo_world_def empty_db_def listUnresolved_def)
  then show ?thesis using stranded_claim [OF q ok room ctx none new run] c by simp
qed

text \<open>A facilitator that goes on: settlements and recoveries, one after the other.\<close>

datatype facilitator_call = Settle_call request_envelope string | Recover_call

fun run_calls :: "('x, 'v) services \<Rightarrow> facilitator_call list \<Rightarrow> 'x world \<Rightarrow> (exn + settlement_outcome) list \<times> 'x world" where
  "run_calls V [] w = ([], w)"
| "run_calls V (Settle_call request who # cs) w = (case settle V request who w of (r, w1) \<Rightarrow>
     (case run_calls V cs w1 of (rs, w2) \<Rightarrow> (map_sum id fst r # rs, w2)))"
| "run_calls V (Recover_call # cs) w = run_calls V cs (snd (recoverUnresolved V w))"

definition stranded_full :: "('x, 'v) services \<Rightarrow> db \<Rightarrow> bool" where
  "stranded_full V d = (maxPendingSettlements (limits_of V) \<le> unresolvedCount d \<and> listUnresolved d = [])"

lemma blocked_settle:
  assumes "outside_ok I V" "\<And>d. I d \<Longrightarrow> stranded_full V d"
  shows "keeps I (settle V request who) (\<lambda>(r, e). \<not> outcome_success r)"
proof -
  have full: "I d \<Longrightarrow> maxPendingSettlements (limits_of V) \<le> unresolvedCount d" for d using assms(2) by (simp add: stranded_full_def)
  have "keeps I (runSettle V request who) (\<lambda>r. \<not> outcome_success r)"
    unfolding runSettle_def
    by (auto split: option.split simp: outcome_success_def failed_def full
        intro!: runs_bind [OF runs_context] keeps_bind [OF keeps_db_get [OF assms(1), of "\<lambda>n. maxPendingSettlements (limits_of V) \<le> n"]] keeps_return)
  then show ?thesis unfolding settle_def
    by (rule keeps_bind) (auto intro!: runs_bind [OF runs_catalog [OF assms(1)]])
qed

lemma blocked_recover:
  assumes "outside_ok I V" "\<And>d. I d \<Longrightarrow> stranded_full V d"
  shows "runs I (recoverUnresolved V)"
  unfolding recoverUnresolved_def
  by (rule keeps_bind [OF keeps_db_get [OF assms(1), of "\<lambda>rs. rs = []"]]) (use assms(2) in \<open>auto simp: stranded_full_def\<close>)

text \<open>C15: Claims left behind block every settlement for good.  Let \<open>I\<close> be what the other workers keep, with as many
  claims recorded as unresolved as may be pending and none of them one that the recovery sees.  Then whatever
  settlements and recoveries follow one another, no settlement succeeds, not even the repetition of a
  stranded payment, and the calls keep \<open>I\<close> too: with \<open>I = (\<lambda>d. d = w_db w)\<close>, that is with no other worker, they
  change nothing in the database, so nothing ever frees the claims.\<close>

theorem stranded_claims_block_settlement:
  assumes "outside_ok I V" and "\<And>d. I d \<Longrightarrow> stranded_full V d" and "I (w_db w)" and "run_calls V calls w = (rs, w')"
  shows "I (w_db w') \<and> (\<forall>r \<in> set rs. case r of Inr outcome \<Rightarrow> \<not> outcome_success outcome | Inl e \<Rightarrow> True)"
  using assms(3,4)
proof (induction calls arbitrary: w rs)
  case (Cons call cs)
  show ?case
  proof (cases call)
    case (Settle_call request who)
    obtain r w1 rs2 where s: "settle V request who w = (r, w1)" "run_calls V cs w1 = (rs2, w')" "rs = map_sum id fst r # rs2"
      using Cons.prems(2) by (auto simp: Settle_call split: prod.splits)
    have k: "keeps I (settle V request who) (\<lambda>(r, e). \<not> outcome_success r)" by (rule blocked_settle [OF assms(1,2)])
    have "I (w_db w1)" by (rule keepsD [OF k s(1) Cons.prems(1)])
    from Cons.IH [OF this s(2)] have "I (w_db w') \<and> (\<forall>r \<in> set rs2. case r of Inr outcome \<Rightarrow> \<not> outcome_success outcome | Inl e \<Rightarrow> True)" .
    moreover have "case map_sum id fst r of Inr outcome \<Rightarrow> \<not> outcome_success outcome | Inl e \<Rightarrow> True"
      using keeps_value [OF k _ Cons.prems(1)] s(1) by (cases r) auto
    ultimately show ?thesis by (simp add: s(3))
  next
    case Recover_call
    have "runs I (recoverUnresolved V)" by (rule blocked_recover [OF assms(1,2)])
    then have "I (w_db (snd (recoverUnresolved V w)))" using Cons.prems(1) by (simp add: keeps_def)
    then show ?thesis using Cons.IH Cons.prems(2) by (simp add: Recover_call)
  qed
qed simp

definition one_pending :: "(unit, js) services" where
  "one_pending = (demo_services found)\<lparr>limits_of := demo_limits\<lparr>maxPendingSettlements := 1\<rparr>\<rparr>"

lemma db1_pending: "unresolvedCount db1 = 1" "listUnresolved db1 = []"
  by code_simp+

theorem stranded_claims_block_settlement_witness:
  "w_db (snd (run_calls one_pending [Settle_call (demo_env ''exact'') ''k1'', Recover_call, Settle_call (demo_env ''exact'') ''k1''] (demo_world db1))) = db1"
proof -
  have q: "outside_ok I one_pending" for I using demo_outside [of I found] by (simp add: one_pending_def outside_ok_def)
  have m: "stranded_full one_pending d" if "d = db1" for d by (simp add: one_pending_def demo_world_def db1_pending stranded_full_def that)
  let ?calls = "[Settle_call (demo_env ''exact'') ''k1'', Recover_call, Settle_call (demo_env ''exact'') ''k1'']"
  have "run_calls one_pending ?calls (demo_world db1) = (fst (run_calls one_pending ?calls (demo_world db1)), snd (run_calls one_pending ?calls (demo_world db1)))"
    by simp
  from stranded_claims_block_settlement [of "\<lambda>d. d = db1", OF q m _ this] show ?thesis by (simp add: demo_world_def)
qed

end
