(* ===== verification/JS_Json_Parse.thy ===== *)
theory JS_Json_Parse
  imports JS_Json "HOL-Library.AList"
begin

text \<open>
  \<open>JSON.parse\<close> on the texts whose numbers are integers, over UTF-8 text, and \<open>BigInt\<close> on a string.
  The parser recurses on fuel; \<open>parse_fuel\<close> shows that twice the length of the text is enough, and
  \<open>json_parse_text\<close> that it reads back what the printer writes.
\<close>

section \<open>Strings\<close>

definition utf8_char :: "nat \<Rightarrow> string" where
  "utf8_char n = (if n < 128 then [char_of n]
     else if n < 2048 then [char_of (192 + n div 64), char_of (128 + n mod 64)]
     else if n < 65536 then [char_of (224 + n div 4096), char_of (128 + n div 64 mod 64), char_of (128 + n mod 64)]
     else [char_of (240 + n div 262144), char_of (128 + n div 4096 mod 64), char_of (128 + n div 64 mod 64), char_of (128 + n mod 64)])"

definition hex_value :: "char \<Rightarrow> nat option" where
  "hex_value c = (let n = (of_char c :: nat) in
     if 48 \<le> n \<and> n \<le> 57 then Some (n - 48) else if 97 \<le> n \<and> n \<le> 102 then Some (n - 87)
     else if 65 \<le> n \<and> n \<le> 70 then Some (n - 55) else None)"

fun hex4 :: "string \<Rightarrow> (nat \<times> string) option" where
  "hex4 (a # b # c # d # r) = (case (hex_value a, hex_value b, hex_value c, hex_value d) of
     (Some w, Some x, Some y, Some z) \<Rightarrow> Some (4096 * w + 256 * x + 16 * y + z, r) | _ \<Rightarrow> None)"
| "hex4 _ = None"

text \<open>The digits after a backslash and a \<open>u\<close>; two surrogates make one character.\<close>

definition read_unicode :: "string \<Rightarrow> (string \<times> string) option" where
  "read_unicode r = (case hex4 r of None \<Rightarrow> None | Some (u, r1) \<Rightarrow>
     if 55296 \<le> u \<and> u < 56320 \<and> take 2 r1 = [CHR 0x5C, CHR ''u'']
     then (case hex4 (drop 2 r1) of None \<Rightarrow> None | Some (l, r2) \<Rightarrow>
       if 56320 \<le> l \<and> l < 57344 then Some (utf8_char (65536 + (u - 55296) * 1024 + (l - 56320)), r2) else Some (utf8_char u, r1))
     else Some (utf8_char u, r1))"

fun read_char :: "string \<Rightarrow> (string \<times> string) option" where
  "read_char [] = None"
| "read_char (c # r) = (if c = CHR 0x22 \<or> (of_char c :: nat) < 32 then None else if c \<noteq> CHR 0x5C then Some ([c], r)
     else case r of [] \<Rightarrow> None | e # r1 \<Rightarrow>
       if e = CHR 0x22 \<or> e = CHR 0x5C \<or> e = CHR ''/'' then Some ([e], r1)
       else if e = CHR ''b'' then Some ([CHR 0x08], r1) else if e = CHR ''f'' then Some ([CHR 0x0C], r1)
       else if e = CHR ''n'' then Some ([CHR 0x0A], r1) else if e = CHR ''r'' then Some ([CHR 0x0D], r1)
       else if e = CHR ''t'' then Some ([CHR 0x09], r1) else if e = CHR ''u'' then read_unicode r1 else None)"

lemma hex4_shorter: "hex4 s = Some (u, r) \<Longrightarrow> length r < length s"
  by (induction s rule: hex4.induct) (auto split: option.splits)

lemma read_unicode_shorter: "read_unicode s = Some (u, r) \<Longrightarrow> length r < length s"
  using hex4_shorter [of s] hex4_shorter [of "drop 2 _"]
  by (fastforce simp: read_unicode_def split: option.splits if_splits)

lemma read_char_shorter: "read_char s = Some (u, r) \<Longrightarrow> length r < length s"
  by (induction s rule: read_char.induct) (auto split: list.splits if_splits dest: read_unicode_shorter)

text \<open>The rest of a string literal after its opening quote.\<close>

function read_string :: "string \<Rightarrow> (string \<times> string) option" where
  "read_string s = (if s \<noteq> [] \<and> hd s = CHR 0x22 then Some ([], tl s)
     else case read_char s of None \<Rightarrow> None | Some (b, t) \<Rightarrow>
       (case read_string t of None \<Rightarrow> None | Some (u, r) \<Rightarrow> Some (b @ u, r)))"
  by pat_completeness auto
termination by (relation "measure length") (auto simp: read_char_shorter)

declare read_string.simps [simp del]

lemma read_string_shorter: "read_string s = Some (u, r) \<Longrightarrow> length r < length s"
proof (induction s arbitrary: u r rule: read_string.induct)
  case (1 s)
  show ?case
  proof (cases "s \<noteq> [] \<and> hd s = CHR 0x22")
    case True
    then have "r = tl s" using 1(2) by (simp add: read_string.simps [of s])
    then show ?thesis using True by (cases s) simp_all
  next
    case False
    then obtain b t u' where t: "read_char s = Some (b, t)" "read_string t = Some (u', r)"
      using 1(2) by (auto simp: read_string.simps [of s] split: option.splits)
    then show ?thesis using 1(1) [OF False t(1) refl t(2)] read_char_shorter [OF t(1)] by simp
  qed
qed

section \<open>Values\<close>

definition json_space :: "char \<Rightarrow> bool" where
  "json_space c = (c = CHR '' '' \<or> c = CHR 0x09 \<or> c = CHR 0x0A \<or> c = CHR 0x0D)"

definition skip_space :: "string \<Rightarrow> string" where
  "skip_space s = dropWhile json_space s"

text \<open>A number with a fraction or an exponent is outside the values of this model.\<close>

definition read_number :: "string \<Rightarrow> (js \<times> string) option" where
  "read_number s = (let minus = (s \<noteq> [] \<and> hd s = CHR ''-''); s1 = (if minus then tl s else s);
       ds = takeWhile is_digit s1; r = dropWhile is_digit s1 in
     if \<not> nat_pattern ds \<or> (r \<noteq> [] \<and> hd r \<in> set ''.eE'') then None
     else Some (JNum (if minus then - int (digits_value ds) else int (digits_value ds)), r))"

definition read_word :: "string \<Rightarrow> js \<Rightarrow> string \<Rightarrow> (js \<times> string) option" where
  "read_word w v s = (if take (length w) s = w then Some (v, drop (length w) s) else None)"

text \<open>\<open>read_items\<close> reads the elements and the closing bracket, \<open>read_members\<close> the members and the closing brace.\<close>

fun read_value :: "nat \<Rightarrow> string \<Rightarrow> (js \<times> string) option"
  and read_items :: "nat \<Rightarrow> js list \<Rightarrow> string \<Rightarrow> (js \<times> string) option"
  and read_members :: "nat \<Rightarrow> (string \<times> js) list \<Rightarrow> string \<Rightarrow> (js \<times> string) option" where
  "read_value 0 s = None"
| "read_value (Suc n) s = (case skip_space s of [] \<Rightarrow> None
    | c # r \<Rightarrow>
      if c = CHR 0x22 then (case read_string r of None \<Rightarrow> None | Some (t, r1) \<Rightarrow> Some (JStr t, r1))
      else if c = CHR ''['' then (case skip_space r of
          d # r1 \<Rightarrow> if d = CHR '']'' then Some (JArr [], r1) else read_items n [] r | [] \<Rightarrow> None)
      else if c = CHR ''{'' then (case skip_space r of
          d # r1 \<Rightarrow> if d = CHR ''}'' then Some (JObj [], r1) else read_members n [] r | [] \<Rightarrow> None)
      else if c = CHR ''t'' then read_word ''true'' (JBool True) (c # r)
      else if c = CHR ''f'' then read_word ''false'' (JBool False) (c # r)
      else if c = CHR ''n'' then read_word ''null'' JNull (c # r)
      else read_number (c # r))"
| "read_items 0 acc s = None"
| "read_items (Suc n) acc s = (case read_value n s of None \<Rightarrow> None
    | Some (v, r) \<Rightarrow> (case skip_space r of [] \<Rightarrow> None
      | d # r1 \<Rightarrow> if d = CHR '','' then read_items n (acc @ [v]) r1
          else if d = CHR '']'' then Some (JArr (acc @ [v]), r1) else None))"
| "read_members 0 acc s = None"
| "read_members (Suc n) acc s = (case skip_space s of [] \<Rightarrow> None
    | c # s1 \<Rightarrow> if c \<noteq> CHR 0x22 then None else (case read_string s1 of None \<Rightarrow> None
      | Some (k, s2) \<Rightarrow> (case skip_space s2 of [] \<Rightarrow> None
        | e # s3 \<Rightarrow> if e \<noteq> CHR '':'' then None else (case read_value n s3 of None \<Rightarrow> None
          | Some (v, r) \<Rightarrow> (case skip_space r of [] \<Rightarrow> None
            | d # r1 \<Rightarrow> if d = CHR '','' then read_members n (AList.update k v acc) r1
                else if d = CHR ''}'' then Some (JObj (AList.update k v acc), r1) else None)))))"

definition json_parse :: "string \<Rightarrow> js option" where
  "json_parse s = (case read_value (2 * length s + 2) s of None \<Rightarrow> None
     | Some (v, r) \<Rightarrow> if skip_space r = [] then Some v else None)"

section \<open>Enough fuel\<close>

lemma skip_space_length: "length (skip_space s) \<le> length s"
  by (simp add: skip_space_def length_dropWhile_le)

lemma skip_space_tl: "skip_space s = c # r \<Longrightarrow> length r < length s"
  using skip_space_length [of s] by simp

lemma read_number_shorter: "read_number s = Some (v, r) \<Longrightarrow> length r < length s"
proof -
  assume a: "read_number s = Some (v, r)"
  let ?s = "if s \<noteq> [] \<and> hd s = CHR ''-'' then tl s else s"
  have "takeWhile is_digit ?s \<noteq> []" "r = dropWhile is_digit ?s"
    using a by (auto simp: read_number_def Let_def nat_pattern_def split: if_splits)
  then have "length r < length ?s"
    by (metis append_self_conv2 length_append less_add_same_cancel2 length_greater_0_conv takeWhile_dropWhile_id)
  then show "length r < length s" by (auto split: if_splits)
qed

lemma read_word_shorter: "read_word w x s = Some (v, r) \<Longrightarrow> w \<noteq> [] \<Longrightarrow> length r < length s"
  by (cases s) (auto simp: read_word_def split: if_splits)


lemmas shorter = read_string_shorter read_number_shorter read_word_shorter skip_space_tl

lemma read_shorter:
  "read_value n s = Some (v, r) \<Longrightarrow> length r < length s"
  "read_items n acc s = Some (v, r) \<Longrightarrow> length r < length s"
  "read_members n acc' s = Some (v, r) \<Longrightarrow> length r < length s"
proof (induction n s and n acc s and n acc' s arbitrary: v r and v r and v r rule: read_value_read_items_read_members.induct)
  case (2 n s)
  then show ?case by (fastforce split: list.splits if_splits option.splits dest: shorter)
next
  case (4 n acc s)
  then show ?case by (fastforce split: list.splits if_splits option.splits dest: shorter)
next
  case (6 n acc s)
  then show ?case by (fastforce split: list.splits if_splits option.splits dest: shorter)
qed simp_all


lemma read_fuel_step:
  "(\<forall>s. 2 * length s + 1 \<le> n \<longrightarrow> read_value (Suc n) s = read_value n s)
   \<and> (\<forall>acc s. 2 * length s + 2 \<le> n \<longrightarrow> read_items (Suc n) acc s = read_items n acc s)
   \<and> (\<forall>acc s. 2 * length s + 2 \<le> n \<longrightarrow> read_members (Suc n) acc s = read_members n acc s)"
proof (induction n)
  case (Suc n)
  then have same_value: "read_value (Suc n) s = read_value n s" if "2 * length s + 1 \<le> n" for s using that by blast
  have same_items: "read_items (Suc n) acc s = read_items n acc s" if "2 * length s + 2 \<le> n" for acc s using that Suc by blast
  have same_members: "read_members (Suc n) acc s = read_members n acc s" if "2 * length s + 2 \<le> n" for acc s using that Suc by blast
  have "read_value (Suc (Suc n)) s = read_value (Suc n) s" if "2 * length s + 1 \<le> Suc n" for s
  proof (cases "skip_space s")
    case (Cons c r)
    then have "2 * length r + 2 \<le> n" using that skip_space_tl [of s c r] by simp
    then show ?thesis by (simp only: read_value.simps(2) [of "Suc n" s] read_value.simps(2) [of n s] Cons list.case same_items same_members)
  qed simp
  moreover have "read_items (Suc (Suc n)) acc s = read_items (Suc n) acc s" if "2 * length s + 2 \<le> Suc n" for acc s
  proof (cases "read_value n s")
    case None
    then show ?thesis using same_value [of s] that by simp
  next
    case (Some x)
    obtain v r where x: "x = (v, r)" by (cases x)
    have sh: "length r < length s" using read_shorter(1) Some x by simp
    show ?thesis
    proof (cases "skip_space r")
      case (Cons d r1)
      then have "2 * length r1 + 2 \<le> n" using that sh skip_space_tl [of r d r1] by simp
      then show ?thesis using same_value [of s] that Some x
        by (simp only: read_items.simps(2) [of "Suc n" acc s] read_items.simps(2) [of n acc s] Cons list.case same_items option.case prod.case)
    qed (use same_value [of s] that Some x in simp)
  qed
  moreover have "read_members (Suc (Suc n)) acc s = read_members (Suc n) acc s" if len: "2 * length s + 2 \<le> Suc n" for acc s
  proof -
    show ?thesis
    proof (cases "skip_space s")
      case s: (Cons c s1)
      show ?thesis
      proof (cases "c = CHR 0x22 \<and> read_string s1 \<noteq> None")
        case True
        then obtain k s2 where k: "c = CHR 0x22" "read_string s1 = Some (k, s2)" by auto
        show ?thesis
        proof (cases "skip_space s2")
          case e: (Cons e s3)
          have l3: "length s3 < length s" using shorter(4) [OF s] shorter(4) [OF e] shorter(1) [OF k(2)] by simp
          have v: "read_value (Suc n) s3 = read_value n s3" using same_value [of s3] l3 len by simp
          show ?thesis
          proof (cases "e = CHR '':'' \<and> read_value n s3 \<noteq> None")
            case True
            then obtain w r where w: "e = CHR '':''" "read_value n s3 = Some (w, r)" by auto
            show ?thesis
            proof (cases "skip_space r")
              case d: (Cons d r1)
              have "2 * length r1 + 2 \<le> n" using len l3 read_shorter(1) [OF w(2)] shorter(4) [OF d] by simp
              then show ?thesis
                by (simp only: read_members.simps(2) [of "Suc n" acc s] read_members.simps(2) [of n acc s]
                    s k e v w d list.case option.case prod.case same_members)
            qed (use s k e v w in \<open>simp del: read_value.simps\<close>)
          qed (use s k e v in \<open>auto simp del: read_value.simps split: option.split\<close>)
        qed (use s k in simp)
      qed (use s in \<open>auto simp del: read_value.simps split: option.split\<close>)
    qed simp
  qed
  ultimately show ?case by blast
qed simp

text \<open>Any fuel above twice the length gives the same answer: the parser never stops for lack of it.\<close>

lemma parse_fuel: "2 * length s + 1 \<le> n \<Longrightarrow> read_value (n + k) s = read_value n s"
  by (induction k) (use read_fuel_step in auto)


section \<open>Reading back what the printer writes\<close>

lemma hex_value_digit: "n < 16 \<Longrightarrow> hex_value (hex_digit n) = Some n"
proof -
  have "list_all (\<lambda>n. hex_value (hex_digit n) = Some n) [0..<16]" by code_simp
  then show "n < 16 \<Longrightarrow> hex_value (hex_digit n) = Some n" by (simp add: list_all_iff)
qed

lemma read_char_escape: "read_char (json_escape c @ x) = Some ([c], x)"
proof -
  consider (named) "(of_char c :: nat) \<in> {34, 92, 8, 9, 10, 12, 13}"
    | (hex) "(of_char c :: nat) \<notin> {34, 92, 8, 9, 10, 12, 13}" "(of_char c :: nat) < 32"
    | (plain) "(of_char c :: nat) \<notin> {34, 92, 8, 9, 10, 12, 13}" "\<not> (of_char c :: nat) < 32"
    by blast
  then show ?thesis
  proof cases
    case named
    then have "c \<in> char_of ` {34, 92, 8, 9, 10, 12, 13 :: nat}" by (metis char_of_char imageI)
    then have "c \<in> {CHR 0x22, CHR 0x5C, CHR 0x08, CHR 0x09, CHR 0x0A, CHR 0x0C, CHR 0x0D}"
      by (simp only: image_insert image_empty char_of_codes)
    then show ?thesis by (elim insertE emptyE) (simp_all add: json_escape_def Let_def)
  next
    case hex
    have "(of_char c :: nat) div 16 < 16" "(of_char c :: nat) mod 16 < 16" using hex by auto
    moreover have "hex_value (CHR ''0'') = Some 0" by code_simp
    ultimately show ?thesis using hex
      by (simp add: json_escape_def Let_def hex_value_digit read_unicode_def utf8_char_def)
  next
    case plain
    then have "c \<noteq> CHR 0x5C" "c \<noteq> CHR 0x22" by auto
    then show ?thesis using plain by (simp add: json_escape_def Let_def)
  qed
qed

lemma read_string_text: "read_string (concat (map json_escape s) @ CHR 0x22 # x) = Some (s, x)"
proof (induction s)
  case Nil
  then show ?case by (simp add: read_string.simps)
next
  case (Cons c s)
  let ?t = "json_escape c @ concat (map json_escape s) @ CHR 0x22 # x"
  have "hd ?t \<noteq> CHR 0x22" "?t \<noteq> []" using json_escape_first [of c] by (cases "json_escape c"; simp)+
  then show ?case using Cons by (simp add: read_string.simps [of ?t] read_char_escape)
qed

lemma read_number_text: "delim r \<Longrightarrow> read_number (int_to_string i @ r) = Some (JNum i, r)"
proof -
  assume d: "delim r"
  have take: "takeWhile is_digit (nat_to_string n @ r) = nat_to_string n" "dropWhile is_digit (nat_to_string n @ r) = r" for n
    using d delim_not_num nat_to_string_digits [of n]
    by (cases r; auto simp: takeWhile_append2 dropWhile_append2 list_all_iff num_char_def takeWhile_append dropWhile_append)+
  have rest: "(r \<noteq> [] \<and> hd r \<in> set ''.eE'') = False" using d by (auto simp: delim_def)
  show ?thesis
  proof (cases "i < 0")
    case True
    then show ?thesis using rest nat_to_string_pattern [of "nat (- i)"] nat_to_string_digits [of "nat (- i)"]
      unfolding read_number_def Let_def int_to_string_def by (simp add: take rest del: list.set)
  next
    case False
    have "hd (nat_to_string (nat i) @ r) \<noteq> CHR ''-''"
      using nat_to_string_digits [of "nat i"] nat_to_string_hd_not_minus [of "nat i"] by (cases "nat_to_string (nat i)") auto
    then show ?thesis using rest False nat_to_string_pattern [of "nat i"] nat_to_string_digits [of "nat i"]
      unfolding read_number_def Let_def int_to_string_def by (simp add: take rest del: list.set)
  qed
qed

lemma skip_space_start: "c \<in> set ''[{tfn,]}:'' \<or> c = CHR 0x22 \<or> num_char c \<Longrightarrow> skip_space (c # r) = c # r"
  by (auto simp: skip_space_def json_space_def num_char_def is_digit_def)

lemma update_fresh: "k \<notin> fst ` set acc \<Longrightarrow> AList.update k v acc = acc @ [(k, v)]"
  by (induction acc) auto

abbreviation reads_back :: "js \<Rightarrow> bool" where
  "reads_back x \<equiv> \<forall>n r. delim r \<longrightarrow> 2 * length (json_text x) + 1 \<le> n \<longrightarrow> read_value n (json_text x @ r) = Some (x, r)"

lemma read_items_text:
  "\<forall>x \<in> set xs. reads_back x \<Longrightarrow> xs \<noteq> [] \<Longrightarrow> 2 * length (join '','' (map json_text xs)) + 2 \<le> n \<Longrightarrow>
   read_items n acc (join '','' (map json_text xs) @ CHR '']'' # r) = Some (JArr (acc @ xs), r)"
proof (induction xs arbitrary: n acc)
  case (Cons x xs)
  obtain m where n: "n = Suc m" using Cons.prems(3) by (cases n) auto
  show ?case
  proof (cases xs)
    case Nil
    then show ?thesis using Cons.prems n by (simp add: delim_def skip_space_start del: read_value.simps)
  next
    case (Cons y ys)
    have "read_items m (acc @ [x]) (join '','' (map json_text xs) @ CHR '']'' # r) = Some (JArr ((acc @ [x]) @ xs), r)"
      using Cons.IH [of m "acc @ [x]"] Cons.prems n Cons by simp
    then show ?thesis using Cons.prems n Cons by (simp add: delim_def skip_space_start del: read_value.simps)
  qed
qed simp


lemma read_members_text:
  "\<forall>e \<in> set kvs. reads_back (snd e) \<Longrightarrow> kvs \<noteq> [] \<Longrightarrow> distinct (map fst kvs) \<Longrightarrow> fst ` set kvs \<inter> fst ` set acc = {} \<Longrightarrow>
   2 * length (join '','' (map (\<lambda>e. json_string (fst e) @ '':'' @ json_text (snd e)) kvs)) + 2 \<le> n \<Longrightarrow>
   read_members n acc (join '','' (map (\<lambda>e. json_string (fst e) @ '':'' @ json_text (snd e)) kvs) @ CHR ''}'' # r) = Some (JObj (acc @ kvs), r)"
proof (induction kvs arbitrary: n acc)
  case (Cons e kvs)
  obtain m where n: "n = Suc m" using Cons.prems(5) by (cases n) auto
  obtain k v where e: "e = (k, v)" by (cases e)
  have u: "AList.update k v acc = acc @ [(k, v)]" using Cons.prems(4) e by (intro update_fresh) auto
  have str: "read_string (concat (map json_escape k) @ CHR 0x22 # x) = Some (k, x)" for x by (rule read_string_text)
  show ?case
  proof (cases kvs)
    case Nil
    then show ?thesis using Cons.prems n e by (simp add: json_string_def str u delim_def skip_space_start del: read_value.simps)
  next
    case (Cons y ys)
    let ?rest = "join '','' (map (\<lambda>e. json_string (fst e) @ '':'' @ json_text (snd e)) kvs)"
    have "read_members m (acc @ [(k, v)]) (?rest @ CHR ''}'' # r) = Some (JObj ((acc @ [(k, v)]) @ kvs), r)"
      by (rule Cons.IH) (use Cons.prems n Cons e in auto)
    then show ?thesis using Cons.prems n Cons e
      by (simp add: json_string_def str u delim_def skip_space_start del: read_value.simps)
  qed
qed simp

lemma text_first: "json_ok v \<Longrightarrow> \<exists>c u. json_text v = c # u \<and> \<not> json_space c \<and> c \<noteq> CHR '']''"
proof (cases v)
  case (JNum i)
  obtain c u where "int_to_string i = c # u" "num_char c" using int_to_string_chars [of i] by (cases "int_to_string i") auto
  then show ?thesis using JNum by (auto simp: json_space_def num_char_def is_digit_def)
qed (auto simp: json_space_def json_string_def)

lemma read_value_array:
  assumes "\<forall>x \<in> set xs. json_ok x \<and> reads_back x" "2 * length (json_text (JArr xs)) + 1 \<le> n"
  shows "read_value n (json_text (JArr xs) @ r) = Some (JArr xs, r)"
proof -
  obtain m where n: "n = Suc m" using assms(2) by (cases n) auto
  show ?thesis
  proof (cases xs)
    case (Cons x ys)
    let ?t = "join '','' (map json_text xs)"
    obtain c u where c: "?t = c # u" "\<not> json_space c" "c \<noteq> CHR '']''"
      using text_first [of x] assms(1) Cons by (auto simp: join_Cons)
    have items: "read_items m [] (?t @ CHR '']'' # r) = Some (JArr ([] @ xs), r)"
      using assms n Cons by (intro read_items_text) auto
    have "skip_space (?t @ CHR '']'' # r) = c # u @ CHR '']'' # r" using c by (simp add: skip_space_def)
    then show ?thesis using items c n by (simp add: skip_space_start del: read_items.simps)
  qed (use n in \<open>simp add: skip_space_start\<close>)
qed

lemma read_value_object:
  assumes "\<forall>e \<in> set kvs. reads_back (snd e)" "distinct (map fst kvs)" "2 * length (json_text (JObj kvs)) + 1 \<le> n"
  shows "read_value n (json_text (JObj kvs) @ r) = Some (JObj kvs, r)"
proof -
  obtain m where n: "n = Suc m" using assms(3) by (cases n) auto
  show ?thesis
  proof (cases kvs)
    case (Cons e es)
    let ?t = "join '','' (map (\<lambda>e. json_string (fst e) @ '':'' @ json_text (snd e)) kvs)"
    obtain u where c: "?t = CHR 0x22 # u" using Cons by (simp add: join_Cons json_string_def)
    have items: "read_members m [] (?t @ CHR ''}'' # r) = Some (JObj ([] @ kvs), r)"
      using assms n Cons by (intro read_members_text) auto
    have "skip_space (?t @ CHR ''}'' # r) = CHR 0x22 # u @ CHR ''}'' # r" using c by (simp add: skip_space_start)
    then show ?thesis using items c n by (simp add: skip_space_start del: read_members.simps)
  qed (use n in \<open>simp add: skip_space_start\<close>)
qed

lemma reads_backI: "(\<And>m r. delim r \<Longrightarrow> read_value (Suc m) (json_text x @ r) = Some (x, r)) \<Longrightarrow> reads_back x"
  by (auto dest!: Suc_le_D simp del: read_value.simps)

lemma reads_number: "reads_back (JNum i)"
proof -
  obtain c u where c: "int_to_string i = c # u" "num_char c" using int_to_string_chars [of i] by (cases "int_to_string i") auto
  then have "c \<notin> set ''[{tfn'' \<and> c \<noteq> CHR 0x22" by (auto simp: num_char_def is_digit_def)
  moreover have "read_number (c # u @ r) = Some (JNum i, r)" if "delim r" for r using read_number_text [OF that, of i] c by simp
  ultimately show ?thesis using c by (intro reads_backI) (simp add: skip_space_start)
qed

lemma read_text: "json_ok v \<Longrightarrow> reads_back v"
proof (induction v rule: json_ok.induct)
  case (2 xs)
  then show ?case using read_value_array by (simp add: list_all_iff del: json_text.simps)
next
  case (3 kvs)
  then have "distinct (map fst kvs)" "\<forall>e \<in> set kvs. reads_back (snd e)" by (auto simp: list_all_iff)
  then show ?case using read_value_object by (simp del: json_text.simps)
qed (rule reads_number | (rule reads_backI, simp add: skip_space_start read_word_def json_string_def read_string_text))+

lemma json_parse_text: "json_ok v \<Longrightarrow> json_parse (json_text v) = Some v"
proof -
  assume "json_ok v"
  then have "read_value (2 * length (json_text v) + 2) (json_text v @ []) = Some (v, [])"
    using read_text [of v] by (simp add: delim_def del: read_value.simps)
  then show "json_parse (json_text v) = Some v" by (simp add: json_parse_def skip_space_def del: read_value.simps)
qed

section \<open>BigInt\<close>

text \<open>
  \<open>BigInt(s)\<close>: white space around the text is dropped, an empty text is zero; otherwise an optionally
  signed decimal, or an unsigned number with a base prefix.  Any other text is a SyntaxError.
\<close>

definition ascii_space :: "char \<Rightarrow> bool" where
  "ascii_space c = (json_space c \<or> c = CHR 0x0B \<or> c = CHR 0x0C)"

definition trim :: "string \<Rightarrow> string" where
  "trim s = rev (dropWhile ascii_space (rev (dropWhile ascii_space s)))"

definition base_value :: "nat \<Rightarrow> string \<Rightarrow> int option" where
  "base_value b s = (if s \<noteq> [] \<and> list_all (\<lambda>c. case hex_value c of Some d \<Rightarrow> d < b | None \<Rightarrow> False) s
     then Some (foldl (\<lambda>a c. int b * a + int (coalesce (hex_value c) 0)) 0 s) else None)"

definition js_BigInt :: "string \<Rightarrow> int option" where
  "js_BigInt s = (let t = trim s in
     if t = [] then Some 0
     else if take 2 t \<in> {''0x'', ''0X''} then base_value 16 (drop 2 t)
     else if take 2 t \<in> {''0o'', ''0O''} then base_value 8 (drop 2 t)
     else if take 2 t \<in> {''0b'', ''0B''} then base_value 2 (drop 2 t)
     else if hd t = CHR ''-'' then map_option uminus (base_value 10 (tl t))
     else if hd t = CHR ''+'' then base_value 10 (tl t) else base_value 10 t)"

end
