(* ===== verification/JS_Values.thy ===== *)
theory JS_Values
  imports JS_Json_Parse
begin

text \<open>
  How the code reads JSON values it does not trust: property access that throws on null and undefined,
  \<open>===\<close> between values of two different parses, \<open>??\<close>, truthiness, \<open>Array.prototype.find\<close> with a predicate
  that may throw, and the sequencing of synchronous code that may throw.
\<close>

definition lift_sum :: "exn + 'a \<Rightarrow> ('w, 'a) io" where
  "lift_sum m = (\<lambda>w. (m, w))"

lemma lift_sum_app [simp]: "lift_sum m w = (m, w)"
  by (simp add: lift_sum_def)

text \<open>The loop \<open>map\<close> over a function that may throw.\<close>

fun sum_map :: "('a \<Rightarrow> exn + 'b) \<Rightarrow> 'a list \<Rightarrow> exn + 'b list" where
  "sum_map f [] = Inr []"
| "sum_map f (x # xs) = sum_bind (f x) (\<lambda>y. sum_bind (sum_map f xs) (\<lambda>ys. Inr (y # ys)))"

lemma sum_map_length: "sum_map f xs = Inr ys \<Longrightarrow> length ys = length xs"
  by (induction xs arbitrary: ys) (auto elim!: sum_bind_InrE)

lemma sum_map_nth: "sum_map f xs = Inr ys \<Longrightarrow> i < length xs \<Longrightarrow> f (xs ! i) = Inr (ys ! i)"
  by (induction xs arbitrary: ys i) (auto elim!: sum_bind_InrE simp: nth_Cons split: nat.split)

lemma sum_map_all2: "sum_map f xs = Inr ys \<longleftrightarrow> list_all2 (\<lambda>x y. f x = Inr y) xs ys"
proof (induction xs arbitrary: ys)
  case (Cons x xs)
  then show ?case by (cases ys; cases "f x"; cases "sum_map f xs") (auto simp: sum_bind_def)
qed auto

text \<open>\<open>String.prototype.split\<close> at a character.\<close>

fun js_split :: "char \<Rightarrow> string \<Rightarrow> string list" where
  "js_split c [] = [[]]"
| "js_split c (d # s) = (if d = c then [] # js_split c s
     else (case js_split c s of w # ws \<Rightarrow> (d # w) # ws | [] \<Rightarrow> [[d]]))"

lemma js_split_nonempty [simp]: "js_split c s \<noteq> []"
  by (induction s) (auto split: list.split)

lemma js_split_append: "c \<notin> set a \<Longrightarrow> js_split c (a @ c # s) = a # js_split c s"
  by (induction a) auto

lemma js_split_single: "c \<notin> set a \<Longrightarrow> js_split c a = [a]"
  by (induction a) auto

section \<open>Reading values\<close>

definition js_prop :: "js \<Rightarrow> string \<Rightarrow> exn + js" where
  "js_prop v k = (if v = JUndef \<or> v = JNull
     then Inl (JsError (''Cannot read properties of '' @ json_scalar v @ '' (reading '' @ CHR 39 # k @ [CHR 39] @ '')''))
     else Inr (js_get v k))"

text \<open>\<open>===\<close>: two objects that come from different parses are never identical.\<close>

definition strict_eq :: "js \<Rightarrow> js \<Rightarrow> bool" where
  "strict_eq v w = (js_scalar v \<and> v = w)"

definition or_nullish :: "js \<Rightarrow> js \<Rightarrow> js" where
  "or_nullish v d = (if v = JUndef \<or> v = JNull then d else v)"

definition js_truthy :: "js \<Rightarrow> bool" where
  "js_truthy v = (case v of JUndef \<Rightarrow> False | JNull \<Rightarrow> False | JBool b \<Rightarrow> b | JNum n \<Rightarrow> n \<noteq> 0 | JStr s \<Rightarrow> s \<noteq> []
     | JArr _ \<Rightarrow> True | JObj _ \<Rightarrow> True)"

text \<open>\<open>String(v)\<close>, as in a template literal.\<close>

function js_display :: "js \<Rightarrow> string" where
  "js_display (JStr s) = s"
| "js_display (JArr xs) = join '','' (map (\<lambda>v. if v = JUndef \<or> v = JNull then [] else js_display v) xs)"
| "js_display (JObj kvs) = ''[object Object]''"
| "js_display JUndef = ''undefined''"
| "js_display JNull = ''null''"
| "js_display (JBool b) = (if b then ''true'' else ''false'')"
| "js_display (JNum i) = int_to_string i"
  by pat_completeness auto
termination by (relation "measure size") (auto simp: size_elem)

text \<open>\<open>JSON.stringify\<close>: an undefined member is left out, an undefined element prints as null.\<close>

function stringify :: "js \<Rightarrow> string" where
  "stringify (JArr xs) = ''['' @ join '','' (map (\<lambda>v. if v = JUndef then ''null'' else stringify v) xs) @ '']''"
| "stringify (JObj kvs) = ''{'' @ join '','' (map (\<lambda>e. json_string (fst e) @ '':'' @ stringify (snd e))
     (filter (\<lambda>e. snd e \<noteq> JUndef) kvs)) @ ''}''"
| "stringify JUndef = json_scalar JUndef"
| "stringify JNull = json_scalar JNull"
| "stringify (JBool b) = json_scalar (JBool b)"
| "stringify (JNum i) = json_scalar (JNum i)"
| "stringify (JStr s) = json_scalar (JStr s)"
  by pat_completeness auto
termination by (relation "measure size") (auto simp: size_elem size_entry)

text \<open>The values that a spread \<open>[...v]\<close> yields.\<close>

definition js_spread :: "js \<Rightarrow> exn + js list" where
  "js_spread v = (case v of JArr xs \<Rightarrow> Inr xs | JStr s \<Rightarrow> Inr (map (\<lambda>c. JStr [c]) s)
     | _ \<Rightarrow> Inl (JsError ''value is not iterable''))"

fun find_first :: "(js \<Rightarrow> exn + bool) \<Rightarrow> js list \<Rightarrow> exn + js option" where
  "find_first p [] = Inr None"
| "find_first p (x # xs) = sum_bind (p x) (\<lambda>b. if b then Inr (Some x) else find_first p xs)"

definition js_find :: "(js \<Rightarrow> exn + bool) \<Rightarrow> js \<Rightarrow> exn + js option" where
  "js_find p v = (case v of JArr xs \<Rightarrow> find_first p xs | _ \<Rightarrow> Inl (JsError ''value.find is not a function''))"

lemma find_first_Some: "find_first p xs = Inr (Some x) \<Longrightarrow> x \<in> set xs \<and> p x = Inr True"
  by (induction xs) (auto elim!: sum_bind_InrE split: if_splits)

lemma js_find_Some: "js_find p v = Inr (Some x) \<Longrightarrow> \<exists>xs. v = JArr xs \<and> x \<in> set xs \<and> p x = Inr True"
  by (cases v) (auto simp: js_find_def dest: find_first_Some)

lemma js_get_ok: "js_get v k \<noteq> JUndef \<Longrightarrow> js_is_record v"
  by (cases v) (simp_all add: js_get_def)

end
