(* ===== verification/Mcp_Resources.thy ===== *)
theory Mcp_Resources
  imports JS_Values JS_Base64
begin

text \<open>
  mcp-server/src: the error contract (errors.ts), the readers of the Bazaar extension
  (bazaarExtension.ts), the canonical JSON, the resource references and the version hash
  (resourceRef.ts), the validation of the two copies of a challenge (transport.ts) and its comparison
  with the catalog version (catalogGuard.ts).  SHA-256 (as hexadecimal text) and \<open>localeCompare\<close> are
  parameters.  What the server receives over the network is a JSON value, read with the checks the
  code makes and no others.
\<close>

section \<open>The error contract\<close>

definition error_code_text :: "error_code \<Rightarrow> string" where
  "error_code_text c = (case c of INVALID_ARGUMENT \<Rightarrow> ''INVALID_ARGUMENT'' | NO_RESULTS \<Rightarrow> ''NO_RESULTS''
     | RESOURCE_STALE \<Rightarrow> ''RESOURCE_STALE'' | RESOURCE_CHANGED \<Rightarrow> ''RESOURCE_CHANGED''
     | UNTRUSTED_REDIRECT \<Rightarrow> ''UNTRUSTED_REDIRECT'' | PAYMENT_REQUIRED \<Rightarrow> ''PAYMENT_REQUIRED''
     | BUDGET_EXCEEDED \<Rightarrow> ''BUDGET_EXCEEDED'' | PAYMENT_REJECTED \<Rightarrow> ''PAYMENT_REJECTED''
     | SETTLEMENT_UNKNOWN \<Rightarrow> ''SETTLEMENT_UNKNOWN'' | UPSTREAM_TIMEOUT \<Rightarrow> ''UPSTREAM_TIMEOUT''
     | UPSTREAM_PROTOCOL_ERROR \<Rightarrow> ''UPSTREAM_PROTOCOL_ERROR'')"

definition isRetryable :: "error_code \<Rightarrow> bool" where
  "isRetryable c = (case c of RESOURCE_STALE \<Rightarrow> True | PAYMENT_REQUIRED \<Rightarrow> True | SETTLEMENT_UNKNOWN \<Rightarrow> True
     | UPSTREAM_TIMEOUT \<Rightarrow> True | _ \<Rightarrow> False)"

definition toPayload :: "error_code \<Rightarrow> string \<Rightarrow> js option \<Rightarrow> js" where
  "toPayload c message details = JObj ([(''schemaVersion'', JNum 1), (''code'', JStr (error_code_text c)),
     (''message'', JStr message), (''retryable'', JBool (isRetryable c))]
     @ (case details of Some d \<Rightarrow> [(''details'', d)] | None \<Rightarrow> []))"

definition upto_unavailable_details :: js where
  "upto_unavailable_details = JObj [(''scheme'', JStr ''upto''), (''blocked'', JBool True)]"

definition toErrorPayload :: "exn \<Rightarrow> js" where
  "toErrorPayload e = (case e of McpToolError c message details \<Rightarrow> toPayload c message details
     | UptoUnavailableError \<Rightarrow> toPayload PAYMENT_REJECTED (exn_message e) (Some upto_unavailable_details)
     | _ \<Rightarrow> toPayload UPSTREAM_PROTOCOL_ERROR (exn_message e) None)"

section \<open>The Bazaar extension\<close>

definition extension_of :: "js \<Rightarrow> js" where
  "extension_of v = js_get (js_get v ''extensions'') ''bazaar''"

definition bazaarInput :: "js \<Rightarrow> js option" where
  "bazaarInput v = (let bazaar = extension_of v in if \<not> js_is_record bazaar then None
     else let info = js_get bazaar ''info'' in if \<not> js_is_record info then None
     else let input = js_get info ''input'' in if js_is_record input then Some input else None)"

definition bazaarSchema :: "js \<Rightarrow> js" where
  "bazaarSchema v = (let bazaar = extension_of v in if js_is_record bazaar then js_get bazaar ''schema'' else JUndef)"

definition bazaarToolName :: "js \<Rightarrow> string option" where
  "bazaarToolName v = (case bazaarInput v of None \<Rightarrow> None
     | Some input \<Rightarrow> (case js_get input ''toolName'' of JStr s \<Rightarrow> Some s | _ \<Rightarrow> None))"

text \<open>Reading a member of an optional input, \<open>input?.member\<close>.\<close>

definition input_member :: "js option \<Rightarrow> string \<Rightarrow> js" where
  "input_member i k = (case i of None \<Rightarrow> JUndef | Some v \<Rightarrow> js_get v k)"

section \<open>Canonical JSON\<close>

text \<open>
  The properties of an object are enumerated with the array indices first, in numeric order; the other
  keys follow in the order of insertion, which is the order of their code units.  Assigning to
  \<open>__proto__\<close> creates no property.
\<close>

definition index_key :: "string \<Rightarrow> bool" where
  "index_key k = (nat_pattern k \<and> digits_value k < 4294967295)"

definition property_cmp :: "string \<Rightarrow> string \<Rightarrow> int" where
  "property_cmp l r = (if index_key l \<and> index_key r then int (digits_value l) - int (digits_value r)
     else if index_key l then - 1 else if index_key r then 1 else code_unit_cmp l r)"

definition proto_key :: string where
  "proto_key = ''__proto__''"

function sortKeys :: "js \<Rightarrow> js" where
  "sortKeys (JArr xs) = JArr (map sortKeys xs)"
| "sortKeys (JObj kvs) = JObj (map (\<lambda>e. (fst e, sortKeys (snd e)))
     (js_sort (entry_cmp property_cmp) (filter (\<lambda>e. fst e \<noteq> proto_key) kvs)))"
| "sortKeys JUndef = JUndef"
| "sortKeys JNull = JNull"
| "sortKeys (JBool b) = JBool b"
| "sortKeys (JNum i) = JNum i"
| "sortKeys (JStr s) = JStr s"
  by pat_completeness auto
termination by (relation "measure size") (auto simp: size_elem size_entry)

definition mcp_canonicalJson :: "js \<Rightarrow> string" where
  "mcp_canonicalJson v = stringify (sortKeys v)"

section \<open>Resource references\<close>

datatype resource_type = Http | Mcp

record resource_identity =
  ri_type :: resource_type
  ri_url :: string
  ri_toolName :: "string option"

definition type_text :: "resource_type \<Rightarrow> string" where
  "type_text t = (case t of Http \<Rightarrow> ''http'' | Mcp \<Rightarrow> ''mcp'')"

definition ref_payload :: "resource_type \<Rightarrow> js \<Rightarrow> string option \<Rightarrow> js" where
  "ref_payload t u n = (if t = Mcp
     then JObj [(''t'', JStr (type_text t)), (''u'', u), (''n'', JStr (coalesce n []))]
     else JObj [(''t'', JStr (type_text t)), (''u'', u)])"

definition encode_ref :: "resource_type \<Rightarrow> js \<Rightarrow> string option \<Rightarrow> string" where
  "encode_ref t u n = ''v1.'' @ base64url (mcp_canonicalJson (ref_payload t u n))"

definition encodeResourceRef :: "resource_identity \<Rightarrow> string" where
  "encodeResourceRef i = encode_ref (ri_type i) (JStr (ri_url i)) (ri_toolName i)"

definition malformed_ref :: exn where
  "malformed_ref = McpToolError INVALID_ARGUMENT ''malformed resource reference'' None"

definition decodeResourceRef :: "string \<Rightarrow> exn + resource_identity" where
  "decodeResourceRef ref = (let version = takeWhile (\<lambda>c. c \<noteq> CHR ''.'') ref;
       encoded = tl (dropWhile (\<lambda>c. c \<noteq> CHR ''.'') ref) in
     if version \<noteq> ''v1'' \<or> encoded = [] then Inl malformed_ref
     else case json_parse (from_base64url encoded) of None \<Rightarrow> Inl malformed_ref
       | Some parsed \<Rightarrow> (case (js_get parsed ''t'', js_get parsed ''u'') of
           (JStr t, JStr u) \<Rightarrow>
             if \<not> js_is_record parsed \<or> (t \<noteq> ''http'' \<and> t \<noteq> ''mcp'') then Inl malformed_ref
             else if t = ''mcp'' then (case js_get parsed ''n'' of
                 JStr n \<Rightarrow> Inr \<lparr> ri_type = Mcp, ri_url = u, ri_toolName = Some n \<rparr> | _ \<Rightarrow> Inl malformed_ref)
             else Inr \<lparr> ri_type = Http, ri_url = u, ri_toolName = None \<rparr>
         | _ \<Rightarrow> Inl malformed_ref))"

section \<open>The version hash\<close>

definition version_declaration :: "js \<Rightarrow> js" where
  "version_declaration r = JObj [(''resource'', js_get r ''resource''), (''type'', js_get r ''type''),
     (''description'', or_nullish (js_get r ''description'') JNull), (''mimeType'', or_nullish (js_get r ''mimeType'') JNull),
     (''serviceName'', or_nullish (js_get r ''serviceName'') JNull), (''tags'', or_nullish (js_get r ''tags'') (JArr [])),
     (''iconUrl'', or_nullish (js_get r ''iconUrl'') JNull), (''extensions'', or_nullish (js_get r ''extensions'') (JObj []))]"

definition accept_terms :: "js \<Rightarrow> exn + js" where
  "accept_terms a = sum_bind (js_prop a ''scheme'') (\<lambda>_. Inr (JObj [(''scheme'', js_get a ''scheme''),
     (''network'', js_get a ''network''), (''asset'', js_get a ''asset''), (''amount'', js_get a ''amount''),
     (''payTo'', js_get a ''payTo''), (''maxTimeoutSeconds'', js_get a ''maxTimeoutSeconds''),
     (''extra'', or_nullish (js_get a ''extra'') (JObj []))]))"

definition version_document :: "(string \<Rightarrow> string \<Rightarrow> int) \<Rightarrow> js \<Rightarrow> exn + js" where
  "version_document lc r = sum_bind (js_spread (js_get r ''accepts'')) (\<lambda>xs. sum_bind (sum_map accept_terms xs) (\<lambda>terms.
     Inr (JObj [(''declaration'', version_declaration r),
       (''accepts'', JArr (js_sort (\<lambda>a b. lc (mcp_canonicalJson a) (mcp_canonicalJson b)) terms))])))"

definition computeVersionHash :: "(string \<Rightarrow> string) \<Rightarrow> (string \<Rightarrow> string \<Rightarrow> int) \<Rightarrow> js \<Rightarrow> exn + string" where
  "computeVersionHash sha lc r = sum_bind (version_document lc r) (\<lambda>d. Inr (sha (mcp_canonicalJson d)))"

section \<open>The two copies of a challenge\<close>

definition MAX_CHALLENGE_BYTES :: nat where
  "MAX_CHALLENGE_BYTES = 262144"

definition looksLikePaymentRequired :: "js \<Rightarrow> bool" where
  "looksLikePaymentRequired v = (js_is_record v \<and> (case js_get v ''x402Version'' of JNum _ \<Rightarrow> True | _ \<Rightarrow> False)
     \<and> js_is_record (js_get v ''resource'') \<and> (case js_get (js_get v ''resource'') ''url'' of JStr _ \<Rightarrow> True | _ \<Rightarrow> False)
     \<and> (case js_get v ''accepts'' of JArr _ \<Rightarrow> True | _ \<Rightarrow> False))"

definition protocol_error :: "string \<Rightarrow> exn" where
  "protocol_error m = McpToolError UPSTREAM_PROTOCOL_ERROR m None"

definition text_item :: "js \<Rightarrow> exn + js option" where
  "text_item content = (if content = JUndef \<or> content = JNull then Inr None
     else js_find (\<lambda>item. sum_bind (js_prop item ''type'') (\<lambda>t. Inr (t = JStr ''text''))) content)"

definition validatePaymentRequiredDualCopy :: "js \<Rightarrow> exn + js" where
  "validatePaymentRequiredDualCopy result =
     (if js_get result ''isError'' \<noteq> JBool True
      then Inl (protocol_error ''expected isError: true on an unpaid paid-tool call'')
      else let structured = js_get result ''structuredContent'' in
        if \<not> looksLikePaymentRequired structured
        then Inl (protocol_error ''structuredContent is missing or is not a valid PaymentRequired object'')
        else sum_bind (text_item (js_get result ''content'')) (\<lambda>item.
          case (case item of None \<Rightarrow> JUndef | Some i \<Rightarrow> js_get i ''text'') of
            JStr text \<Rightarrow>
              if length text > MAX_CHALLENGE_BYTES
              then Inl (protocol_error ''PaymentRequired text copy exceeded the size bound'')
              else (case json_parse text of
                  None \<Rightarrow> Inl (protocol_error ''content[0].text is not valid JSON'')
                | Some fromText \<Rightarrow> if mcp_canonicalJson structured \<noteq> mcp_canonicalJson fromText
                    then Inl (protocol_error ''structuredContent and content[0].text PaymentRequired copies are not semantically equal'')
                    else Inr structured)
          | _ \<Rightarrow> Inl (protocol_error ''content[0].text is missing the JSON-encoded PaymentRequired copy'')))"

section \<open>The catalog guard\<close>

record selection =
  sel_network :: string
  sel_scheme :: string
  sel_asset :: string

definition matches :: "selection \<Rightarrow> js \<Rightarrow> exn + bool" where
  "matches s a = sum_bind (js_prop a ''network'') (\<lambda>n.
     Inr (n = JStr (sel_network s) \<and> js_get a ''scheme'' = JStr (sel_scheme s) \<and> js_get a ''asset'' = JStr (sel_asset s)))"

definition mcp_mismatches :: "js \<Rightarrow> js \<Rightarrow> resource_identity \<Rightarrow> string list" where
  "mcp_mismatches live cat i = (let liveInput = bazaarInput live; catalogInput = bazaarInput cat in
     (if strict_eq (input_member liveInput ''toolName'') (case ri_toolName i of Some n \<Rightarrow> JStr n | None \<Rightarrow> JUndef)
      then [] else [''toolName''])
     @ (if strict_eq (or_nullish (input_member liveInput ''transport'') (JStr ''streamable-http''))
          (or_nullish (input_member catalogInput ''transport'') (JStr ''streamable-http'')) then [] else [''transport''])
     @ (if mcp_canonicalJson (or_nullish (or_nullish (input_member liveInput ''inputSchema'') (bazaarSchema live)) JNull)
          = mcp_canonicalJson (or_nullish (or_nullish (input_member catalogInput ''inputSchema'') (bazaarSchema cat)) JNull)
        then [] else [''schema'']))"

definition option_mismatches :: "js option \<Rightarrow> js option \<Rightarrow> string list" where
  "option_mismatches lo co =
     (if lo = None then [''accepts.selected.missing_from_live_challenge''] else [])
     @ (if co = None then [''accepts.selected.missing_from_catalog''] else [])
     @ (case (lo, co) of (Some l, Some c) \<Rightarrow>
         (if strict_eq (js_get l ''payTo'') (js_get c ''payTo'') then [] else [''payTo''])
         @ (if strict_eq (js_get l ''amount'') (js_get c ''amount'') then [] else [''amount''])
         @ (if strict_eq (js_get l ''maxTimeoutSeconds'') (js_get c ''maxTimeoutSeconds'') then [] else [''maxTimeoutSeconds''])
         @ (if mcp_canonicalJson (or_nullish (js_get l ''extra'') (JObj [])) = mcp_canonicalJson (or_nullish (js_get c ''extra'') (JObj []))
            then [] else [''extra''])
       | _ \<Rightarrow> [])"

definition guardAgainstCatalog :: "js \<Rightarrow> js \<Rightarrow> resource_identity \<Rightarrow> selection \<Rightarrow> exn + unit" where
  "guardAgainstCatalog live cat i s =
     sum_bind (js_find (matches s) (js_get live ''accepts'')) (\<lambda>liveOption.
     sum_bind (js_find (matches s) (js_get cat ''accepts'')) (\<lambda>catalogOption.
       let mismatches = (if strict_eq (js_get (js_get live ''resource'') ''url'') (js_get cat ''resource'') then [] else [''resource.url''])
             @ (if ri_type i = Mcp then mcp_mismatches live cat i else []) @ option_mismatches liveOption catalogOption in
       if mismatches \<noteq> []
       then Inl (McpToolError RESOURCE_CHANGED ''live challenge does not match the selected catalog version''
         (Some (JObj [(''mismatches'', JArr (map JStr mismatches))])))
       else Inr ()))"

end
