(* ===== verification/Mcp_Budget.thy ===== *)
theory Mcp_Budget
  imports JS_Prelude "HOL-Library.AList"
begin

text \<open>
  mcp-server/src/budget/: the interface \<open>BudgetStore\<close>, the policy that computes what to reserve, the
  in-memory store and the PostgreSQL store.  \<open>day\<close> is the UTC date of the call.  A JavaScript map is
  an association list in insertion order; a row of a table is a record.
\<close>

section \<open>The interface\<close>

datatype reservation_status = Reserved | Settled | UnknownStatus | Released | FailedStatus

record reservation =
  paymentIdentifier :: string
  rv_status :: reservation_status
  reservedAmount :: int
  settledAmount :: "int option"
  rv_hash :: "string option"

record reserve_input =
  in_identifier :: string
  in_agent :: string
  in_session :: "string option"
  in_ref :: string
  in_network :: string
  in_asset :: string
  in_scheme :: string
  in_amount :: int

record budget_limits =
  perCallMaxAtomic :: int
  sessionOrDayMaxAtomic :: int

type_synonym ('s, 'a) store_op = "'s \<Rightarrow> (exn + 'a) \<times> 's"

record 's budget_ops =
  reserve :: "string \<Rightarrow> reserve_input \<Rightarrow> budget_limits \<Rightarrow> ('s, reservation) store_op"
  reconcile :: "string \<Rightarrow> int \<Rightarrow> string \<Rightarrow> ('s, reservation) store_op"
  mark_unknown :: "string \<Rightarrow> string option \<Rightarrow> ('s, reservation) store_op"
  release :: "string \<Rightarrow> ('s, reservation) store_op"
  get_reservation :: "string \<Rightarrow> 's \<Rightarrow> reservation option"
  used_today :: "string \<Rightarrow> string \<Rightarrow> 's \<Rightarrow> int"

definition no_reservation :: "string \<Rightarrow> exn" where
  "no_reservation i = McpToolError INVALID_ARGUMENT (''no reservation for payment identifier '' @ i) None"

definition new_reservation :: "reserve_input \<Rightarrow> reservation" where
  "new_reservation x = \<lparr> paymentIdentifier = in_identifier x, rv_status = Reserved, reservedAmount = in_amount x,
     settledAmount = None, rv_hash = None \<rparr>"

definition per_call_exceeded :: "reserve_input \<Rightarrow> budget_limits \<Rightarrow> exn" where
  "per_call_exceeded x lim = McpToolError BUDGET_EXCEEDED ''amount exceeds the per-call limit''
     (str_details [(''amount'', int_to_string (in_amount x)), (''perCallMaxAtomic'', int_to_string (perCallMaxAtomic lim))])"

definition day_exceeded :: "string \<Rightarrow> int \<Rightarrow> reserve_input \<Rightarrow> budget_limits \<Rightarrow> exn" where
  "day_exceeded label n x lim = McpToolError BUDGET_EXCEEDED ''amount would exceed the session/day budget''
     (str_details [(label, int_to_string n), (''amount'', int_to_string (in_amount x)),
        (''sessionOrDayMaxAtomic'', int_to_string (sessionOrDayMaxAtomic lim))])"

section \<open>The policy\<close>

record cap_input =
  perCallLimitAtomic :: int
  sessionOrDayRemainingAtomic :: int
  x402RequiredAtomic :: int
  onChainPolicyCeilingAtomic :: "int option"

definition computeEffectiveCap :: "cap_input \<Rightarrow> int" where
  "computeEffectiveCap x = foldl (\<lambda>m v. if v < m then v else m) (perCallLimitAtomic x)
     ([sessionOrDayRemainingAtomic x, x402RequiredAtomic x]
      @ (case onChainPolicyCeilingAtomic x of Some c \<Rightarrow> [c] | None \<Rightarrow> []))"

definition amountToReserve :: "string \<Rightarrow> cap_input \<Rightarrow> exn + int" where
  "amountToReserve scheme cap = (let effectiveCap = computeEffectiveCap cap in
     if scheme = ''exact''
     then if effectiveCap < x402RequiredAtomic cap
       then Inl (McpToolError BUDGET_EXCEEDED ''budget ceilings are below the required exact amount''
         (str_details [(''effectiveCap'', int_to_string effectiveCap), (''required'', int_to_string (x402RequiredAtomic cap))]))
       else Inr (x402RequiredAtomic cap)
     else if effectiveCap \<le> 0
     then Inl (McpToolError BUDGET_EXCEEDED ''budget ceilings leave no room for an upto payment''
         (str_details [(''effectiveCap'', int_to_string effectiveCap)]))
     else Inr effectiveCap)"

record call_input =
  ci_identifier :: string
  ci_agent :: string
  ci_session :: "string option"
  ci_ref :: string
  ci_network :: string
  ci_asset :: string
  ci_scheme :: string
  ci_perCallMax :: int
  ci_sessionOrDayMax :: int
  ci_required :: int
  ci_ceiling :: "int option"

definition cap_of :: "call_input \<Rightarrow> int \<Rightarrow> cap_input" where
  "cap_of x usedToday = (let sessionOrDayRemaining = ci_sessionOrDayMax x - usedToday in
     \<lparr> perCallLimitAtomic = ci_perCallMax x,
       sessionOrDayRemainingAtomic = (if sessionOrDayRemaining > 0 then sessionOrDayRemaining else 0),
       x402RequiredAtomic = ci_required x, onChainPolicyCeilingAtomic = ci_ceiling x \<rparr>)"

text \<open>The two calls of the store read the clock separately: the usage of \<open>day0\<close>, a reservation on \<open>day\<close>.\<close>

definition reserveForCall :: "'s budget_ops \<Rightarrow> string \<Rightarrow> string \<Rightarrow> call_input \<Rightarrow> ('s, reservation) store_op" where
  "reserveForCall ops day0 day x = (\<lambda>s.
     case amountToReserve (ci_scheme x) (cap_of x (used_today ops day0 (ci_agent x) s)) of
       Inl e \<Rightarrow> (Inl e, s)
     | Inr amnt \<Rightarrow> reserve ops day
         \<lparr> in_identifier = ci_identifier x, in_agent = ci_agent x, in_session = ci_session x, in_ref = ci_ref x,
           in_network = ci_network x, in_asset = ci_asset x, in_scheme = ci_scheme x, in_amount = amnt \<rparr>
         \<lparr> perCallMaxAtomic = ci_perCallMax x, sessionOrDayMaxAtomic = ci_sessionOrDayMax x \<rparr> s)"

section \<open>The in-memory store\<close>

record memory_budget =
  reservations :: "(string \<times> reservation) list"
  dailyUsage :: "(string \<times> int) list"
  dailyKeyOf :: "(string \<times> string) list"

definition daily_key :: "string \<Rightarrow> string \<Rightarrow> string" where
  "daily_key agent day = agent @ ''|'' @ day"

definition empty_memory :: memory_budget where
  "empty_memory = \<lparr> reservations = [], dailyUsage = [], dailyKeyOf = [] \<rparr>"

definition mem_reserve :: "string \<Rightarrow> reserve_input \<Rightarrow> budget_limits \<Rightarrow> (memory_budget, reservation) store_op" where
  "mem_reserve day x lim s = (case map_of (reservations s) (in_identifier x) of
      Some existing \<Rightarrow> (Inr existing, s)
    | None \<Rightarrow>
      if in_amount x > perCallMaxAtomic lim
      then (Inl (per_call_exceeded x lim), s)
      else let key = daily_key (in_agent x) day; used = coalesce (map_of (dailyUsage s) key) 0 in
        if used + in_amount x > sessionOrDayMaxAtomic lim
        then (Inl (day_exceeded ''used'' used x lim), s)
        else let record1 = new_reservation x in
          (Inr record1, s\<lparr> dailyUsage := AList.update key (used + in_amount x) (dailyUsage s),
             dailyKeyOf := AList.update (in_identifier x) key (dailyKeyOf s),
             reservations := AList.update (in_identifier x) record1 (reservations s) \<rparr>))"

definition releaseFromDaily :: "reservation \<Rightarrow> int \<Rightarrow> memory_budget \<Rightarrow> memory_budget" where
  "releaseFromDaily r amnt s = (case map_of (dailyKeyOf s) (paymentIdentifier r) of
      None \<Rightarrow> s
    | Some key \<Rightarrow> if key = [] then s else let used = coalesce (map_of (dailyUsage s) key) 0 in
        s\<lparr> dailyUsage := AList.update key (if used - amnt > 0 then used - amnt else 0) (dailyUsage s) \<rparr>)"

definition mem_reconcile :: "string \<Rightarrow> int \<Rightarrow> string \<Rightarrow> (memory_budget, reservation) store_op" where
  "mem_reconcile i settled h s = (case map_of (reservations s) i of
      None \<Rightarrow> (Inl (no_reservation i), s)
    | Some r \<Rightarrow> if rv_status r = Settled then (Inr r, s)
      else let unused = reservedAmount r - settled;
               s1 = (if unused > 0 then releaseFromDaily r unused s else s);
               updated = r\<lparr>rv_status := Settled, settledAmount := Some settled, rv_hash := Some h\<rparr> in
        (Inr updated, s1\<lparr>reservations := AList.update i updated (reservations s1)\<rparr>))"

definition mem_markUnknown :: "string \<Rightarrow> string option \<Rightarrow> (memory_budget, reservation) store_op" where
  "mem_markUnknown i h s = (case map_of (reservations s) i of
      None \<Rightarrow> (Inl (no_reservation i), s)
    | Some r \<Rightarrow> let updated = r\<lparr>rv_status := UnknownStatus, rv_hash := (if truthy_str h then h else rv_hash r)\<rparr> in
        (Inr updated, s\<lparr>reservations := AList.update i updated (reservations s)\<rparr>))"

definition mem_release :: "string \<Rightarrow> (memory_budget, reservation) store_op" where
  "mem_release i s = (case map_of (reservations s) i of
      None \<Rightarrow> (Inl (no_reservation i), s)
    | Some r \<Rightarrow> if rv_status r = Released then (Inr r, s)
      else let s1 = releaseFromDaily r (reservedAmount r) s; updated = r\<lparr>rv_status := Released\<rparr> in
        (Inr updated, s1\<lparr>reservations := AList.update i updated (reservations s1)\<rparr>))"

definition mem_get :: "string \<Rightarrow> memory_budget \<Rightarrow> reservation option" where
  "mem_get i s = map_of (reservations s) i"

definition mem_usedToday :: "string \<Rightarrow> string \<Rightarrow> memory_budget \<Rightarrow> int" where
  "mem_usedToday day agent s = coalesce (map_of (dailyUsage s) (daily_key agent day)) 0"

definition memory_ops :: "memory_budget budget_ops" where
  "memory_ops = \<lparr> reserve = mem_reserve, reconcile = mem_reconcile, mark_unknown = mem_markUnknown, release = mem_release,
     get_reservation = mem_get, used_today = mem_usedToday \<rparr>"

section \<open>The PostgreSQL store\<close>

text \<open>
  The two tables of mcp-server/migrations.  Each operation is one transaction under the row locks it
  takes, so it is one step here; an error rolls it back.  The CHECK constraints refuse negative
  amounts.
\<close>

record budget_row =
  b_reservation :: reservation
  b_agent :: string
  b_session :: "string option"
  b_day :: string
  b_ref :: string
  b_network :: string
  b_asset :: string
  b_scheme :: string

record usage_row =
  u_spent :: int
  u_reserved :: int

record postgres_budget =
  mcp_budget_reservations :: "budget_row list"
  mcp_budget_usage :: "((string \<times> string) \<times> usage_row) list"

definition empty_postgres :: postgres_budget where
  "empty_postgres = \<lparr> mcp_budget_reservations = [], mcp_budget_usage = [] \<rparr>"

definition row_of :: "string \<Rightarrow> postgres_budget \<Rightarrow> budget_row option" where
  "row_of i s = find (\<lambda>b. paymentIdentifier (b_reservation b) = i) (mcp_budget_reservations s)"

definition toRecord :: "budget_row \<Rightarrow> reservation" where
  "toRecord row = (let r = b_reservation row in r\<lparr>rv_hash := (if truthy_str (rv_hash r) then rv_hash r else None)\<rparr>)"

definition check_violation :: exn where
  "check_violation = JsError ''violates check constraint''"

definition pg_reserve :: "string \<Rightarrow> reserve_input \<Rightarrow> budget_limits \<Rightarrow> (postgres_budget, reservation) store_op" where
  "pg_reserve day x lim s =
     (if in_amount x > perCallMaxAtomic lim
      then (Inl (per_call_exceeded x lim), s)
      else case row_of (in_identifier x) s of
        Some existing \<Rightarrow> (Inr (toRecord existing), s)
      | None \<Rightarrow>
        let k = (in_agent x, day);
            usage = (if map_of (mcp_budget_usage s) k = None
              then mcp_budget_usage s @ [(k, \<lparr> u_spent = 0, u_reserved = 0 \<rparr>)] else mcp_budget_usage s);
            u = the (map_of usage k) in
        if u_spent u + u_reserved u + in_amount x > sessionOrDayMaxAtomic lim
        then (Inl (day_exceeded ''committed'' (u_spent u + u_reserved u) x lim), s)
        else if in_amount x < 0 then (Inl check_violation, s)
        else (Inr (new_reservation x),
          s\<lparr> mcp_budget_usage := update_where (\<lambda>e. fst e = k) (\<lambda>e. (fst e, (snd e)\<lparr>u_reserved := u_reserved (snd e) + in_amount x\<rparr>)) usage,
             mcp_budget_reservations := mcp_budget_reservations s @
               [\<lparr> b_reservation = new_reservation x, b_agent = in_agent x, b_session = in_session x, b_day = day,
                  b_ref = in_ref x, b_network = in_network x, b_asset = in_asset x, b_scheme = in_scheme x \<rparr>] \<rparr>))"

text \<open>The two updates of a reservation and of its usage row, in one transaction.\<close>

definition move_amounts :: "budget_row \<Rightarrow> int \<Rightarrow> int \<Rightarrow> ((string \<times> string) \<times> usage_row) list \<Rightarrow> ((string \<times> string) \<times> usage_row) list" where
  "move_amounts row freed spent = update_where (\<lambda>e. fst e = (b_agent row, b_day row))
     (\<lambda>e. (fst e, (snd e)\<lparr>u_reserved := u_reserved (snd e) - freed, u_spent := u_spent (snd e) + spent\<rparr>))"

definition amounts_ok :: "((string \<times> string) \<times> usage_row) list \<Rightarrow> bool" where
  "amounts_ok t = list_all (\<lambda>e. 0 \<le> u_spent (snd e) \<and> 0 \<le> u_reserved (snd e)) t"

definition write_reservation :: "string \<Rightarrow> reservation \<Rightarrow> postgres_budget \<Rightarrow> postgres_budget" where
  "write_reservation i r s = s\<lparr>mcp_budget_reservations := update_where
     (\<lambda>b. paymentIdentifier (b_reservation b) = i) (\<lambda>b. b\<lparr>b_reservation := r\<rparr>) (mcp_budget_reservations s)\<rparr>"

definition pg_reconcile :: "string \<Rightarrow> int \<Rightarrow> string \<Rightarrow> (postgres_budget, reservation) store_op" where
  "pg_reconcile i settled h s = (case row_of i s of
      None \<Rightarrow> (Inl (no_reservation i), s)
    | Some row \<Rightarrow> let r = b_reservation row in
      if rv_status r = Settled then (Inr (toRecord row), s)
      else let usage = move_amounts row (reservedAmount r) settled (mcp_budget_usage s);
               updated = r\<lparr>rv_status := Settled, settledAmount := Some settled, rv_hash := Some h\<rparr> in
        if \<not> amounts_ok usage then (Inl check_violation, s)
        else (Inr (toRecord (row\<lparr>b_reservation := updated\<rparr>)), write_reservation i updated (s\<lparr>mcp_budget_usage := usage\<rparr>)))"

definition pg_markUnknown :: "string \<Rightarrow> string option \<Rightarrow> (postgres_budget, reservation) store_op" where
  "pg_markUnknown i h s = (case row_of i s of
      None \<Rightarrow> (Inl (no_reservation i), s)
    | Some row \<Rightarrow> let r = b_reservation row;
          updated = r\<lparr>rv_status := UnknownStatus, rv_hash := (case h of Some t \<Rightarrow> Some t | None \<Rightarrow> rv_hash r)\<rparr> in
        (Inr (toRecord (row\<lparr>b_reservation := updated\<rparr>)), write_reservation i updated s))"

definition pg_release :: "string \<Rightarrow> (postgres_budget, reservation) store_op" where
  "pg_release i s = (case row_of i s of
      None \<Rightarrow> (Inl (no_reservation i), s)
    | Some row \<Rightarrow> let r = b_reservation row in
      if rv_status r = Released then (Inr (toRecord row), s)
      else let usage = move_amounts row (reservedAmount r) 0 (mcp_budget_usage s); updated = r\<lparr>rv_status := Released\<rparr> in
        if \<not> amounts_ok usage then (Inl check_violation, s)
        else (Inr (toRecord (row\<lparr>b_reservation := updated\<rparr>)), write_reservation i updated (s\<lparr>mcp_budget_usage := usage\<rparr>)))"

definition pg_get :: "string \<Rightarrow> postgres_budget \<Rightarrow> reservation option" where
  "pg_get i s = map_option toRecord (row_of i s)"

definition pg_usedToday :: "string \<Rightarrow> string \<Rightarrow> postgres_budget \<Rightarrow> int" where
  "pg_usedToday day agent s = (case map_of (mcp_budget_usage s) (agent, day) of
      None \<Rightarrow> 0 | Some u \<Rightarrow> u_spent u + u_reserved u)"

definition postgres_ops :: "postgres_budget budget_ops" where
  "postgres_ops = \<lparr> reserve = pg_reserve, reconcile = pg_reconcile, mark_unknown = pg_markUnknown, release = pg_release,
     get_reservation = pg_get, used_today = pg_usedToday \<rparr>"

end
