(* ===== verification/Mcp_Access.thy ===== *)
theory Mcp_Access
  imports Mcp_Resources Mcp_Budget
begin

text \<open>
  Who may pay: mcp-server/src/config.ts (the gates of \<open>loadConfig\<close> after the schema has parsed the file),
  payment/signerProvider.ts and server.ts (which signer is configured and how it is obtained),
  payment/schemeRegistry.ts, payment/paymentIdentifier.ts, http/auth.ts and the sessions of http/server.ts.
  The environment is a function from names to values; the key derivation, the cipher, the file system
  and the remote signer are parameters.
\<close>

section \<open>Configuration\<close>

datatype transport = Stdio | StreamableHttp | Sse

datatype budget_store_kind = MemoryStore | PostgresStore

datatype signer_config = NoSigner | EnvSecret (secret_env: string) | External (base_url: string) (auth_header_env: "string option")
  | EncryptedKey (keystore_path: string) (encryption_key_env: string)

record network_security =
  ns_allowInsecureLocal :: bool
  ns_maxResponseBytes :: nat
  ns_timeoutMs :: int
  ns_maxRedirects :: nat
  ns_maxConcurrentConnections :: nat
  ns_resolvedMcpEndpoints :: "(string \<times> string) list"

text \<open>What \<open>rawSchema.parse\<close> returns.\<close>

record raw_config =
  raw_base_url :: string
  raw_timeout_ms :: int
  raw_transport :: transport
  raw_port :: int
  raw_api_keys_env :: string
  raw_signer :: signer_config
  raw_testnet_enabled :: bool
  raw_pubnet_enabled :: bool
  raw_store :: budget_store_kind
  raw_database_url_env :: string
  raw_per_call_max :: string
  raw_session_or_day_max :: string
  raw_security :: network_security

text \<open>The port is the text of PORT, not yet a number, or the configured one.\<close>

datatype port = EnvPort string | ConfigPort int

record app_config =
  facilitatorBaseUrl :: string
  facilitatorTimeoutMs :: int
  cfg_transport :: transport
  httpPort :: port
  httpApiKeys :: "string list"
  cfg_signer :: signer_config
  cfg_testnet :: bool
  cfg_pubnet :: bool
  cfg_store :: budget_store_kind
  databaseUrl :: "string option"
  defaultPerCallMaxAtomic :: int
  defaultSessionOrDayMaxAtomic :: int
  networkSecurity :: network_security

definition api_keys :: "string option \<Rightarrow> string list" where
  "api_keys v = filter (\<lambda>k. k \<noteq> []) (map trim (js_split (CHR '','') (coalesce v [])))"

definition invalid_config :: "string \<Rightarrow> exn" where
  "invalid_config m = McpToolError INVALID_ARGUMENT m None"

definition is_env_secret :: "signer_config \<Rightarrow> bool" where
  "is_env_secret s = (case s of EnvSecret _ \<Rightarrow> True | _ \<Rightarrow> False)"

text \<open>The refusals of \<open>loadConfig\<close>, in order.\<close>

definition config_refusal :: "raw_config \<Rightarrow> string list \<Rightarrow> exn option" where
  "config_refusal raw keys =
     (if raw_transport raw \<noteq> Stdio \<and> is_env_secret (raw_signer raw)
      then Some (invalid_config ''signer.mode 'env-secret' is stdio-only; remote transports require 'external' or 'encrypted-key' plus authentication'')
      else if raw_transport raw \<noteq> Stdio \<and> keys = [] \<and> raw_signer raw \<noteq> NoSigner
      then Some (invalid_config (''a signer is configured but '' @ raw_api_keys_env raw
        @ '' has no keys; a remote transport must never run an anonymously accessible payment tool''))
      else if raw_pubnet_enabled raw \<and> raw_signer raw = NoSigner
      then Some (invalid_config ''stellar:pubnet is enabled but no signer is configured'')
      else if raw_pubnet_enabled raw \<and> raw_transport raw \<noteq> Stdio \<and> keys = []
      then Some (invalid_config ''stellar:pubnet is enabled but the remote transport has no configured API keys'')
      else if raw_pubnet_enabled raw \<and> raw_store raw = MemoryStore \<and> raw_transport raw \<noteq> Stdio
      then Some (invalid_config ''stellar:pubnet on a remote transport requires the postgres budget store'')
      else None)"

definition big_int_or_throw :: "string \<Rightarrow> exn + int" where
  "big_int_or_throw s = (case js_BigInt s of Some n \<Rightarrow> Inr n | None \<Rightarrow> Inl (JsError (''Cannot convert '' @ s @ '' to a BigInt'')))"

definition loadConfig :: "(string \<Rightarrow> string option) \<Rightarrow> raw_config \<Rightarrow> exn + app_config" where
  "loadConfig env raw = (let keys = api_keys (env (raw_api_keys_env raw)) in
     case config_refusal raw keys of Some e \<Rightarrow> Inl e
     | None \<Rightarrow>
       let db = (if raw_store raw = PostgresStore then env (raw_database_url_env raw) else None) in
       if raw_store raw = PostgresStore \<and> \<not> truthy_str db
       then Inl (invalid_config (raw_database_url_env raw @ '' is required when budget.store is 'postgres'' @ [CHR 0x27]))
       else sum_bind (big_int_or_throw (raw_per_call_max raw)) (\<lambda>perCall.
         sum_bind (big_int_or_throw (raw_session_or_day_max raw)) (\<lambda>perDay.
         Inr \<lparr> facilitatorBaseUrl = coalesce (env ''FACILITATOR_URL'') (raw_base_url raw),
           facilitatorTimeoutMs = raw_timeout_ms raw, cfg_transport = raw_transport raw,
           httpPort = (case env ''PORT'' of Some p \<Rightarrow> (if p \<noteq> [] then EnvPort p else ConfigPort (raw_port raw)) | None \<Rightarrow> ConfigPort (raw_port raw)),
           httpApiKeys = keys, cfg_signer = raw_signer raw, cfg_testnet = raw_testnet_enabled raw,
           cfg_pubnet = raw_pubnet_enabled raw, cfg_store = raw_store raw, databaseUrl = (if truthy_str db then db else None),
           defaultPerCallMaxAtomic = perCall, defaultSessionOrDayMaxAtomic = perDay, networkSecurity = raw_security raw \<rparr>)))"

section \<open>Signers\<close>

datatype signer_provider = EnvSecretSignerProvider string | ExternalSignerProvider string "string option"
  | EncryptedKeyProvider string string

definition buildSignerProvider :: "(string \<Rightarrow> string option) \<Rightarrow> signer_config \<Rightarrow> signer_provider option" where
  "buildSignerProvider env c = (case c of NoSigner \<Rightarrow> None
     | EnvSecret name \<Rightarrow> Some (EnvSecretSignerProvider name)
     | External u a \<Rightarrow> Some (ExternalSignerProvider u (case a of Some n \<Rightarrow> (if n \<noteq> [] then env n else None) | None \<Rightarrow> None))
     | EncryptedKey p k \<Rightarrow> Some (EncryptedKeyProvider p k))"

text \<open>
  A signer is its address and what signing an entry does; \<open>ed25519\<close> derives it from a secret.  The remote
  signer answers a status and a JSON body.
\<close>

record 'w mcp_signer =
  signer_address :: js
  signAuthEntry :: "string \<Rightarrow> js \<Rightarrow> ('w, js) io"

record 'w signer_host =
  sh_env :: "string \<Rightarrow> string option"
  ed25519 :: "string \<Rightarrow> string \<Rightarrow> exn + 'w mcp_signer"
  sh_get :: "string \<Rightarrow> string \<Rightarrow> (string \<times> string) list \<Rightarrow> ('w, int \<times> js) io"
  sh_post :: "string \<Rightarrow> string \<Rightarrow> (string \<times> string) list \<Rightarrow> js \<Rightarrow> ('w, int \<times> js) io"
  sh_readFile :: "string \<Rightarrow> ('w, string) io"
  aes_gcm_open :: "string \<Rightarrow> js \<Rightarrow> exn + string"

definition rejected :: "string \<Rightarrow> exn" where
  "rejected m = McpToolError PAYMENT_REJECTED m None"

definition http_ok :: "int \<Rightarrow> bool" where
  "http_ok status = (200 \<le> status \<and> status < 300)"

definition external_signer :: "'w signer_host \<Rightarrow> string \<Rightarrow> (string \<times> string) list \<Rightarrow> string \<Rightarrow> js \<Rightarrow> 'w mcp_signer" where
  "external_signer h base headers nw addr = \<lparr> signer_address = addr, signAuthEntry = (\<lambda>entryXdr opts.
     io_bind (sh_post h base ''/sign-auth-entry'' (headers @ [(''content-type'', ''application/json'')])
       (JObj ([(''network'', JStr nw), (''authEntryXdr'', JStr entryXdr)] @ (case opts of JObj o1 \<Rightarrow> o1 | _ \<Rightarrow> []))))
     (\<lambda>(status, body). if \<not> http_ok status
        then io_throw (rejected (''external signer refused to sign ('' @ int_to_string status @ '')''))
        else io_bind (lift_sum (js_prop body ''signedAuthEntryXdr'')) (\<lambda>x. io_return (JObj [(''signedAuthEntry'', x)])))) \<rparr>"

definition getSigner :: "'w signer_host \<Rightarrow> signer_provider \<Rightarrow> string \<Rightarrow> ('w, 'w mcp_signer) io" where
  "getSigner h p nw = (case p of
     EnvSecretSignerProvider name \<Rightarrow> (case sh_env h name of
         Some secret \<Rightarrow> if secret = [] then io_throw (rejected (name @ '' is not set; no local signer is available''))
           else lift_sum (ed25519 h secret nw)
       | None \<Rightarrow> io_throw (rejected (name @ '' is not set; no local signer is available'')))
   | ExternalSignerProvider base auth \<Rightarrow>
       let headers = (case auth of Some a \<Rightarrow> (if a \<noteq> [] then [(''authorization'', a)] else []) | None \<Rightarrow> []) in
       io_bind (sh_get h base ''/address'' headers) (\<lambda>(status, body).
         if \<not> http_ok status then io_throw (rejected (''external signer address lookup failed ('' @ int_to_string status @ '')''))
         else io_bind (lift_sum (js_prop body ''address'')) (\<lambda>a. io_return (external_signer h base headers nw a)))
   | EncryptedKeyProvider path name \<Rightarrow> (case sh_env h name of
         Some keyMaterial \<Rightarrow>
           if keyMaterial = [] then io_throw (rejected (name @ '' is not set; keystore cannot be decrypted''))
           else let key = from_base64url keyMaterial in
             if length key \<noteq> 32 then io_throw (rejected (name @ '' must be a base64-encoded 32-byte key''))
             else io_bind (io_catch (sh_readFile h path) (\<lambda>_. io_throw (rejected (''keystore file not found: '' @ path)))) (\<lambda>raw.
               case json_parse raw of None \<Rightarrow> io_throw (JsError ''invalid JSON'')
               | Some keystore \<Rightarrow> io_bind (lift_sum (aes_gcm_open h key keystore)) (\<lambda>secret. lift_sum (ed25519 h secret nw)))
       | None \<Rightarrow> io_throw (rejected (name @ '' is not set; keystore cannot be decrypted''))))"

section \<open>Schemes and payment identifiers\<close>

text \<open>\<open>exact\<close> builds the client of the signer; the map never has an entry for upto.\<close>

definition buildSchemeRegistry :: "('k \<Rightarrow> 'c) \<Rightarrow> 'k \<Rightarrow> (string \<times> 'c) list" where
  "buildSchemeRegistry exact signer = [(''exact'', exact signer)]"

definition resolveScheme :: "(string \<times> 'c) list \<Rightarrow> string \<Rightarrow> exn + 'c" where
  "resolveScheme registry scheme = (case map_of registry scheme of Some client \<Rightarrow> Inr client
     | None \<Rightarrow> if scheme = ''upto'' then Inl UptoUnavailableError
         else Inl (McpToolError PAYMENT_REJECTED (''no client registered for scheme '' @ json_string scheme)
           (str_details [(''scheme'', scheme)])))"

record identifier_input =
  id_ref :: string
  id_versionHash :: string
  id_network :: string
  id_scheme :: string
  id_asset :: string
  id_maxAtomicAmount :: string
  id_nonce :: string

definition identifier_json :: "identifier_input \<Rightarrow> js" where
  "identifier_json x = JObj [(''ref'', JStr (id_ref x)), (''versionHash'', JStr (id_versionHash x)),
     (''network'', JStr (id_network x)), (''scheme'', JStr (id_scheme x)), (''asset'', JStr (id_asset x)),
     (''maxAtomicAmount'', JStr (id_maxAtomicAmount x)), (''nonce'', JStr (id_nonce x))]"

definition computePaymentIdentifier :: "(string \<Rightarrow> string) \<Rightarrow> identifier_input \<Rightarrow> string" where
  "computePaymentIdentifier sha x = sha (mcp_canonicalJson (identifier_json x))"

text \<open>\<open>SingleRetryGuard\<close>: the set of claimed identifiers.\<close>

definition guard_claim :: "string \<Rightarrow> string set \<Rightarrow> bool \<times> string set" where
  "guard_claim i claimed = (if i \<in> claimed then (False, claimed) else (True, insert i claimed))"

definition guard_release :: "string \<Rightarrow> string set \<Rightarrow> string set" where
  "guard_release i claimed = claimed - {i}"

section \<open>Authentication and sessions\<close>

datatype auth_result = Refused int string | Authenticated string

definition bearer :: string where
  "bearer = ''Bearer ''"

definition bearerAuth :: "(string \<Rightarrow> string) \<Rightarrow> string list \<Rightarrow> string option \<Rightarrow> auth_result" where
  "bearerAuth sha apiKeys header = (if apiKeys = [] then Refused 503 ''authentication_not_configured''
     else let token = (case header of Some h \<Rightarrow> (if take 7 h = bearer then drop 7 h else []) | None \<Rightarrow> []) in
       if token = [] \<or> token \<notin> set apiKeys then Refused 401 ''unauthorized''
       else Authenticated (take 32 (sha token)))"

definition paymentsReady :: "app_config \<Rightarrow> signer_provider option \<Rightarrow> bool" where
  "paymentsReady c signer = (signer \<noteq> None \<and> (cfg_transport c = Stdio \<or> httpApiKeys c \<noteq> [])
     \<and> (cfg_store c = PostgresStore \<or> cfg_transport c = Stdio))"

text \<open>
  The sessions of the two network transports with the agent their tools were registered for.  A request
  is refused, has no session, or is served by the tools of an agent.
\<close>

record http_sessions =
  streamable :: "(string \<times> string) list"
  sse :: "(string \<times> string) list"

datatype served = Answer int string | ServedAs string

definition admit :: "(string \<Rightarrow> string) \<Rightarrow> app_config \<Rightarrow> signer_provider option \<Rightarrow> string option \<Rightarrow> auth_result" where
  "admit sha c signer header = (if signer \<noteq> None then bearerAuth sha (httpApiKeys c) header else Authenticated ''anonymous-discovery'')"

text \<open>\<open>opened\<close>: the identifier of the session when the request initialises one.\<close>

definition handleStreamable :: "(string \<Rightarrow> string) \<Rightarrow> app_config \<Rightarrow> signer_provider option \<Rightarrow> string option \<Rightarrow> string option
    \<Rightarrow> string option \<Rightarrow> http_sessions \<Rightarrow> served \<times> http_sessions" where
  "handleStreamable sha c signer header sessionId opened s = (case admit sha c signer header of
      Refused status e \<Rightarrow> (Answer status e, s)
    | Authenticated agent \<Rightarrow> (case (case sessionId of Some i \<Rightarrow> map_of (streamable s) i | None \<Rightarrow> None) of
        Some registered \<Rightarrow> (ServedAs registered, s)
      | None \<Rightarrow> (ServedAs agent, case opened of Some i \<Rightarrow> s\<lparr>streamable := AList.update i agent (streamable s)\<rparr> | None \<Rightarrow> s)))"

definition closeStreamable :: "string \<Rightarrow> http_sessions \<Rightarrow> http_sessions" where
  "closeStreamable i s = s\<lparr>streamable := AList.delete i (streamable s)\<rparr>"

definition openSse :: "(string \<Rightarrow> string) \<Rightarrow> app_config \<Rightarrow> signer_provider option \<Rightarrow> string option \<Rightarrow> string
    \<Rightarrow> http_sessions \<Rightarrow> served \<times> http_sessions" where
  "openSse sha c signer header i s = (case admit sha c signer header of
      Refused status e \<Rightarrow> (Answer status e, s)
    | Authenticated agent \<Rightarrow> (ServedAs agent, s\<lparr>sse := AList.update i agent (sse s)\<rparr>))"

definition closeSse :: "string \<Rightarrow> http_sessions \<Rightarrow> http_sessions" where
  "closeSse i s = s\<lparr>sse := AList.delete i (sse s)\<rparr>"

definition handleMessages :: "(string \<Rightarrow> string) \<Rightarrow> app_config \<Rightarrow> signer_provider option \<Rightarrow> string option \<Rightarrow> string option
    \<Rightarrow> http_sessions \<Rightarrow> served" where
  "handleMessages sha c signer header sessionId s = (case admit sha c signer header of
      Refused status e \<Rightarrow> Answer status e
    | Authenticated agent \<Rightarrow> (case map_of (sse s) (coalesce sessionId []) of
        None \<Rightarrow> Answer 404 ''no_such_sse_session'' | Some registered \<Rightarrow> ServedAs registered))"

end
