(* ===== verification/Mcp_Discovery.thy ===== *)
theory Mcp_Discovery
  imports Mcp_Resources
begin

text \<open>
  mcp-server/src/facilitatorClient.ts and the read-only tools tools/searchResources.ts and
  tools/getResource.ts.  The HTTP exchange with the facilitator is a parameter that answers a status
  and a text, or throws; reading the text may throw too.
\<close>

section \<open>Query strings\<close>

text \<open>\<open>URLSearchParams\<close>: unreserved bytes stay, a space becomes a plus sign, the rest is percent-encoded.\<close>

definition form_plain :: "char \<Rightarrow> bool" where
  "form_plain c = (let n = (of_char c :: nat) in
     (48 \<le> n \<and> n \<le> 57) \<or> (65 \<le> n \<and> n \<le> 90) \<or> (97 \<le> n \<and> n \<le> 122) \<or> c \<in> set ''*-._'')"

definition form_byte :: "char \<Rightarrow> string" where
  "form_byte c = (let n = (of_char c :: nat) in
     if form_plain c then [c] else if c = CHR '' '' then ''+''
     else [CHR 0x25, ''0123456789ABCDEF'' ! (n div 16), ''0123456789ABCDEF'' ! (n mod 16)])"

definition form_encode :: "string \<Rightarrow> string" where
  "form_encode s = concat (map form_byte s)"

definition query_string :: "(string \<times> string) list \<Rightarrow> string" where
  "query_string kvs = join [CHR 0x26] (map (\<lambda>e. form_encode (fst e) @ ''='' @ form_encode (snd e)) kvs)"

section \<open>The facilitator client\<close>

record http_reply =
  reply_status :: int
  reply_text :: "exn + string"

record 'w facilitator_api =
  fa_fetch :: "string \<Rightarrow> ('w, http_reply) io"
  to_number :: "js \<Rightarrow> js"

record discovery_page =
  dp_x402Version :: js
  dp_resources :: js
  dp_partialResults :: bool
  dp_limit :: js
  dp_cursor :: js

definition MAX_RESPONSE_BYTES :: nat where
  "MAX_RESPONSE_BYTES = 4 * 1024 * 1024"

definition reply_ok :: "http_reply \<Rightarrow> bool" where
  "reply_ok r = (200 \<le> reply_status r \<and> reply_status r < 300)"

definition client_request :: "'w facilitator_api \<Rightarrow> string \<Rightarrow> ('w, http_reply) io" where
  "client_request api path = io_catch
     (io_bind (fa_fetch api path) (\<lambda>response.
        if \<not> reply_ok response \<and> reply_status response \<noteq> 404
        then io_throw (protocol_error (''facilitator returned '' @ int_to_string (reply_status response) @ '' for '' @ path))
        else io_return response))
     (\<lambda>e. case e of McpToolError c m d \<Rightarrow> io_throw (McpToolError c m d)
        | UptoUnavailableError \<Rightarrow> io_throw UptoUnavailableError
        | AbortError _ \<Rightarrow> io_throw (McpToolError UPSTREAM_TIMEOUT (''facilitator request timed out: '' @ path) None)
        | _ \<Rightarrow> io_throw (protocol_error (''facilitator request failed: '' @ path)))"

definition readJson :: "http_reply \<Rightarrow> exn + js" where
  "readJson response = sum_bind (reply_text response) (\<lambda>text.
     if length text > MAX_RESPONSE_BYTES then Inl (protocol_error ''facilitator response exceeded the size bound'')
     else case json_parse text of Some v \<Rightarrow> Inr v | None \<Rightarrow> Inl (protocol_error ''facilitator returned malformed JSON''))"

definition getJson :: "'w facilitator_api \<Rightarrow> string \<Rightarrow> (string \<times> string) list \<Rightarrow> ('w, js) io" where
  "getJson api path params = (let qs = query_string params in
     io_bind (client_request api (path @ (if qs \<noteq> [] then ''?'' @ qs else []))) (\<lambda>response. lift_sum (readJson response)))"

text \<open>\<open>member\<close> is items for the listing and resources for the search.\<close>

definition page_of :: "'w facilitator_api \<Rightarrow> string \<Rightarrow> js \<Rightarrow> exn + discovery_page" where
  "page_of api member body = sum_bind (js_prop body ''x402Version'') (\<lambda>version. Inr
     \<lparr> dp_x402Version = to_number api (or_nullish version (JNum 2)),
       dp_resources = or_nullish (js_get body member) (JArr []),
       dp_partialResults = js_truthy (js_get body ''partialResults''),
       dp_limit = to_number api (or_nullish (js_get (js_get body ''pagination'') ''limit'') (JNum 0)),
       dp_cursor = or_nullish (js_get (js_get body ''pagination'') ''cursor'') JNull \<rparr>)"

definition client_search :: "'w facilitator_api \<Rightarrow> (string \<times> string) list \<Rightarrow> ('w, discovery_page) io" where
  "client_search api params = io_bind (getJson api ''/discovery/search'' params) (\<lambda>body. lift_sum (page_of api ''resources'' body))"

definition client_resources :: "'w facilitator_api \<Rightarrow> (string \<times> string) list \<Rightarrow> ('w, discovery_page) io" where
  "client_resources api params = io_bind (getJson api ''/discovery/resources'' params) (\<lambda>body. lift_sum (page_of api ''items'' body))"

text \<open>A 404 answers undefined.\<close>

definition client_getResource :: "'w facilitator_api \<Rightarrow> resource_identity \<Rightarrow> ('w, js) io" where
  "client_getResource api i =
     (let query = [(''type'', type_text (ri_type i)), (''url'', ri_url i)]
        @ (case ri_toolName i of Some n \<Rightarrow> (if n \<noteq> [] then [(''toolName'', n)] else []) | None \<Rightarrow> []) in
      io_bind (client_request api (''/discovery/resource?'' @ query_string query)) (\<lambda>response.
        if reply_status response = 404 then io_return JUndef
        else io_bind (lift_sum (readJson response)) (\<lambda>body. lift_sum (js_prop body ''resource''))))"

section \<open>The read-only tools\<close>

datatype resource_status = Active | Stale | UnknownResource

record resource_wrapper =
  wr_ref :: string
  wr_versionHash :: string
  wr_status :: resource_status
  wr_warnings :: "string list"

record wrapped_resource =
  w_resource :: js
  w_wrapper :: resource_wrapper

record hashing =
  sha_hex :: "string \<Rightarrow> string"
  locale_cmp :: "string \<Rightarrow> string \<Rightarrow> int"

definition no_results :: "string \<Rightarrow> exn" where
  "no_results m = McpToolError NO_RESULTS m None"

definition getResource :: "'w facilitator_api \<Rightarrow> hashing \<Rightarrow> string \<Rightarrow> string option \<Rightarrow> ('w, wrapped_resource) io" where
  "getResource api H ref expected = io_bind (lift_sum (decodeResourceRef ref)) (\<lambda>i.
     io_bind (client_getResource api i) (\<lambda>resource.
       if \<not> js_truthy resource then io_throw (no_results ''no active catalog entry for this resource reference'')
       else io_bind (lift_sum (computeVersionHash (sha_hex H) (locale_cmp H) resource)) (\<lambda>versionHash.
         let stale = (case expected of Some x \<Rightarrow> x \<noteq> versionHash | None \<Rightarrow> False) in
         io_return \<lparr> w_resource = resource, w_wrapper = \<lparr> wr_ref = ref, wr_versionHash = versionHash,
           wr_status = (if stale then Stale else Active),
           wr_warnings = (if stale then [''expectedVersionHash did not match the current catalog version''] else []) \<rparr> \<rparr>)))"

text \<open>The URL of the catalog is taken as it is, whatever JSON value it is.\<close>

definition identityOf :: "js \<Rightarrow> exn + resource_type \<times> js \<times> string option" where
  "identityOf r = sum_bind (js_prop r ''type'') (\<lambda>t.
     if t = JStr ''mcp'' then (case bazaarToolName r of
         Some n \<Rightarrow> if n = [] then Inl (protocol_error (''catalog returned an MCP resource with no toolName: '' @ js_display (js_get r ''resource'')))
           else Inr (Mcp, js_get r ''resource'', Some n)
       | None \<Rightarrow> Inl (protocol_error (''catalog returned an MCP resource with no toolName: '' @ js_display (js_get r ''resource''))))
     else Inr (Http, js_get r ''resource'', None))"

definition wrapResource :: "hashing \<Rightarrow> js \<Rightarrow> exn + wrapped_resource" where
  "wrapResource H r = sum_bind (identityOf r) (\<lambda>(t, u, n). sum_bind (computeVersionHash (sha_hex H) (locale_cmp H) r) (\<lambda>versionHash.
     Inr \<lparr> w_resource = r, w_wrapper = \<lparr> wr_ref = encode_ref t u n, wr_versionHash = versionHash,
       wr_status = Active, wr_warnings = [] \<rparr> \<rparr>))"

record search_input =
  si_query :: "string option"
  si_type :: "string option"
  si_network :: "string option"
  si_scheme :: "string option"
  si_payTo :: "string option"
  si_asset :: "string option"
  si_extensions :: "string option"
  si_limit :: "int option"
  si_cursor :: "string option"

definition given :: "string \<Rightarrow> string option \<Rightarrow> (string \<times> string) list" where
  "given k v = (case v of Some s \<Rightarrow> (if s \<noteq> [] then [(k, s)] else []) | None \<Rightarrow> [])"

definition search_filters :: "search_input \<Rightarrow> (string \<times> string) list" where
  "search_filters x = given ''type'' (si_type x) @ given ''network'' (si_network x) @ given ''scheme'' (si_scheme x)
     @ given ''payTo'' (si_payTo x) @ given ''asset'' (si_asset x) @ given ''extensions'' (si_extensions x)
     @ (case si_limit x of Some n \<Rightarrow> [(''limit'', int_to_string n)] | None \<Rightarrow> []) @ given ''cursor'' (si_cursor x)"

record search_output =
  so_x402Version :: js
  so_resources :: "wrapped_resource list"
  so_partialResults :: bool
  so_limit :: js
  so_cursor :: js

definition searchResources :: "'w facilitator_api \<Rightarrow> hashing \<Rightarrow> search_input \<Rightarrow> ('w, search_output) io" where
  "searchResources api H x = io_bind
     (if truthy_str (si_query x) then client_search api (search_filters x @ given ''query'' (si_query x))
      else client_resources api (search_filters x))
     (\<lambda>page. case dp_resources page of
        JArr xs \<Rightarrow> if xs = [] then io_throw (no_results ''no resources matched the query and filters'')
          else io_bind (lift_sum (sum_map (wrapResource H) xs)) (\<lambda>ws. io_return
            \<lparr> so_x402Version = dp_x402Version page, so_resources = ws, so_partialResults = dp_partialResults page,
              so_limit = dp_limit page, so_cursor = dp_cursor page \<rparr>)
      | JStr s \<Rightarrow> if s = [] then io_throw (no_results ''no resources matched the query and filters'')
          else io_throw (JsError ''page.resources.map is not a function'')
      | _ \<Rightarrow> io_throw (JsError ''page.resources.map is not a function''))"

end
