(* ===== verification/Safe_Fetch.thy ===== *)
theory Safe_Fetch
  imports Mcp_Resources
begin

text \<open>
  mcp-server/src/network: the address filter, the pinned fetch with its redirects, the bounds on bytes
  and depth and the semaphore of safeFetch.ts, and \<open>resolveConnectableEndpoint\<close> and \<open>connectMcpClient\<close>
  of mcpConnection.ts.  URL parsing, DNS, the HTTP exchange and the MCP client are parameters; a fetch
  receives the address its sockets are pinned to.
\<close>

section \<open>Textual addresses\<close>

text \<open>\<open>isIPv4\<close> of node:net: four decimal numbers below 256 without leading zeros.\<close>

definition is_octet :: "string \<Rightarrow> bool" where
  "is_octet s = (nat_pattern s \<and> digits_value s < 256)"

definition isIPv4 :: "string \<Rightarrow> bool" where
  "isIPv4 s = (let p = js_split (CHR ''.'') s in length p = 4 \<and> list_all is_octet p)"

definition is_group :: "string \<Rightarrow> bool" where
  "is_group s = (1 \<le> length s \<and> length s \<le> 4 \<and> list_all (\<lambda>c. hex_value c \<noteq> None) s)"

text \<open>The number of groups of a part; only the last one may be a dotted IPv4 address, which counts two.\<close>

definition group_count :: "bool \<Rightarrow> string \<Rightarrow> nat option" where
  "group_count last_part s = (if s = [] then Some 0 else let gs = js_split (CHR '':'') s in
     if list_all is_group gs then Some (length gs)
     else if last_part \<and> list_all is_group (butlast gs) \<and> isIPv4 (last gs) then Some (length gs + 1) else None)"

text \<open>The text before and after the first double colon.\<close>

fun at_double_colon :: "string \<Rightarrow> (string \<times> string) option" where
  "at_double_colon (c # d # s) = (if c = CHR '':'' \<and> d = CHR '':'' then Some ([], s)
     else map_option (\<lambda>(a, b). (c # a, b)) (at_double_colon (d # s)))"
| "at_double_colon _ = None"

definition zone_char :: "char \<Rightarrow> bool" where
  "zone_char c = (let n = (of_char c :: nat) in
     (48 \<le> n \<and> n \<le> 57) \<or> (65 \<le> n \<and> n \<le> 90) \<or> (97 \<le> n \<and> n \<le> 122) \<or> c \<in> set ''-.:'')"

definition isIPv6 :: "string \<Rightarrow> bool" where
  "isIPv6 s = (let body = takeWhile (\<lambda>c. c \<noteq> CHR 0x25) s; zone = dropWhile (\<lambda>c. c \<noteq> CHR 0x25) s in
     (zone = [] \<or> (tl zone \<noteq> [] \<and> list_all zone_char (tl zone)))
     \<and> (case at_double_colon body of
          None \<Rightarrow> group_count True body = Some 8
        | Some (a, b) \<Rightarrow> (case (group_count False a, group_count True b) of
            (Some m, Some n) \<Rightarrow> m + n \<le> 7 | _ \<Rightarrow> False)))"

section \<open>The address filter\<close>

definition lower_char :: "char \<Rightarrow> char" where
  "lower_char c = (let n = (of_char c :: nat) in if 65 \<le> n \<and> n \<le> 90 then char_of (n + 32) else c)"

definition toLowerCase :: "string \<Rightarrow> string" where
  "toLowerCase s = map lower_char s"

definition unwrapMapped :: "string \<Rightarrow> string \<times> bool" where
  "unwrapMapped s = (let rest = drop 7 s; p = js_split (CHR ''.'') rest in
     if toLowerCase (take 7 s) = ''::ffff:'' \<and> length p = 4 \<and> list_all (\<lambda>d. d \<noteq> [] \<and> list_all is_digit d) p
     then (rest, True) else (s, isIPv4 s))"

text \<open>\<open>Number\<close> of the parts, which here are digits only.\<close>

definition octet_number :: "string \<Rightarrow> nat option" where
  "octet_number s = (if list_all is_digit s then Some (digits_value s) else None)"

definition ipv4Blocked :: "string \<Rightarrow> bool" where
  "ipv4Blocked s = (case map octet_number (js_split (CHR ''.'') s) of
     [Some a, Some b, Some c, Some d] \<Rightarrow>
       a = 0 \<or> a = 10 \<or> a = 127 \<or> (a = 169 \<and> b = 254) \<or> (a = 172 \<and> b \<ge> 16 \<and> b \<le> 31) \<or> (a = 192 \<and> b = 168)
       \<or> (a = 192 \<and> b = 0 \<and> c = 0) \<or> (a = 192 \<and> b = 0 \<and> c = 2) \<or> (a = 198 \<and> (b = 18 \<or> b = 19))
       \<or> (a = 198 \<and> b = 51 \<and> c = 100) \<or> (a = 203 \<and> b = 0 \<and> c = 113) \<or> a \<ge> 224
   | _ \<Rightarrow> True)"

definition starts_with :: "string \<Rightarrow> string \<Rightarrow> bool" where
  "starts_with p s = (take (length p) s = p)"

definition ipv6Blocked :: "string \<Rightarrow> bool" where
  "ipv6Blocked s = (let n = toLowerCase s in n = ''::1'' \<or> n = ''::''
     \<or> starts_with ''fe80:'' n \<or> starts_with ''fe8'' n \<or> starts_with ''fe9'' n \<or> starts_with ''fea'' n \<or> starts_with ''feb'' n
     \<or> starts_with ''fc'' n \<or> starts_with ''fd'' n \<or> starts_with ''ff'' n)"

definition isBlockedAddress :: "string \<Rightarrow> bool" where
  "isBlockedAddress raw = (let (s, v4) = unwrapMapped raw in
     if v4 then ipv4Blocked s else if isIPv6 s then ipv6Blocked s else True)"

section \<open>The pinned fetch\<close>

record url =
  protocol :: string
  hostname :: string
  url_port :: string
  origin :: string
  href :: string

record safe_fetch_config =
  allowInsecureLocal :: bool
  maxResponseBytes :: nat
  timeoutMs :: int
  maxRedirects :: nat

definition DEFAULT_SAFE_FETCH_CONFIG :: safe_fetch_config where
  "DEFAULT_SAFE_FETCH_CONFIG = \<lparr> allowInsecureLocal = False, maxResponseBytes = 8 * 1024 * 1024, timeoutMs = 15000, maxRedirects = 3 \<rparr>"

record pinned_target =
  pt_hostname :: string
  pt_address :: string
  pt_family :: nat

datatype redirect_mode = Manual | Follow

text \<open>A body is the list of what successive reads answer.\<close>

record fetch_reply =
  fr_status :: int
  fr_location :: "string option"
  fr_body :: "(exn + string) list option"

record fetch_init =
  fi_method :: "string option"
  fi_headers :: "(string \<times> string) list option"
  fi_body :: "string option"

record 'w net =
  parse_url :: "string \<Rightarrow> url option"
  resolve_url :: "string \<Rightarrow> url \<Rightarrow> url option"
  dns_lookup :: "string \<Rightarrow> ('w, (string \<times> nat) list) io"
  net_fetch :: "url \<Rightarrow> fetch_init \<Rightarrow> pinned_target \<Rightarrow> redirect_mode \<Rightarrow> ('w, fetch_reply) io"

definition untrusted :: "string \<Rightarrow> exn" where
  "untrusted m = McpToolError UNTRUSTED_REDIRECT m None"

definition resolvePinned :: "'w net \<Rightarrow> string \<Rightarrow> bool \<Rightarrow> ('w, pinned_target) io" where
  "resolvePinned net host allowLocal = io_bind
     (io_catch (dns_lookup net host) (\<lambda>_. io_throw (protocol_error (''DNS resolution failed for '' @ host))))
     (\<lambda>records. case records of
        [] \<Rightarrow> io_throw (protocol_error (''DNS resolution returned no records for '' @ host))
      | (addr, fam) # _ \<Rightarrow>
          if isBlockedAddress addr \<and> \<not> allowLocal
          then io_throw (untrusted (''resolved address for '' @ host @ '' is a loopback, private, link-local, multicast or cloud-metadata address''))
          else io_return \<lparr> pt_hostname = host, pt_address = addr, pt_family = (if fam = 6 then 6 else 4) \<rparr>)"

definition defaultPort :: "string \<Rightarrow> string" where
  "defaultPort p = (if p = ''https:'' then ''443'' else if p = ''http:'' then ''80'' else [])"

definition effective_port :: "url \<Rightarrow> string" where
  "effective_port u = (if url_port u \<noteq> [] then url_port u else defaultPort (protocol u))"

definition sameOrigin :: "url \<Rightarrow> url \<Rightarrow> bool" where
  "sameOrigin a b = (protocol a = protocol b \<and> hostname a = hostname b \<and> effective_port a = effective_port b)"

fun read_chunks :: "nat \<Rightarrow> nat \<Rightarrow> (exn + string) list \<Rightarrow> exn + string" where
  "read_chunks maxBytes sofar [] = Inr []"
| "read_chunks maxBytes sofar (Inl e # r) = Inl e"
| "read_chunks maxBytes sofar (Inr chunk # r) =
     (if sofar + length chunk > maxBytes then Inl (protocol_error (''response exceeded '' @ nat_to_string maxBytes @ '' bytes''))
      else sum_bind (read_chunks maxBytes (sofar + length chunk) r) (\<lambda>t. Inr (chunk @ t)))"

definition boundedText :: "fetch_reply \<Rightarrow> nat \<Rightarrow> exn + string" where
  "boundedText response maxBytes = (case fr_body response of None \<Rightarrow> Inr [] | Some chunks \<Rightarrow> read_chunks maxBytes 0 chunks)"

definition scheme_allowed :: "safe_fetch_config \<Rightarrow> url \<Rightarrow> bool" where
  "scheme_allowed c u = (protocol u = ''https:'' \<or> (allowInsecureLocal c \<and> protocol u = ''http:''))"

text \<open>One hop: the request, with its failures translated.\<close>

definition one_hop :: "'w net \<Rightarrow> safe_fetch_config \<Rightarrow> fetch_init \<Rightarrow> url \<Rightarrow> ('w, fetch_reply) io" where
  "one_hop net c init current =
     (if \<not> scheme_allowed c current
      then io_throw (untrusted (''insecure scheme '' @ protocol current @ '' rejected for '' @ hostname current))
      else io_bind (resolvePinned net (hostname current) (allowInsecureLocal c)) (\<lambda>target.
        io_catch (net_fetch net current (init\<lparr>fi_method := Some (coalesce (fi_method init) ''GET'')\<rparr>) target Manual)
          (\<lambda>e. case e of AbortError _ \<Rightarrow> io_throw (McpToolError UPSTREAM_TIMEOUT (''connection to '' @ hostname current @ '' timed out'') None)
             | _ \<Rightarrow> io_throw (protocol_error (''connection to '' @ hostname current @ '' failed'')))))"

definition is_redirect :: "fetch_reply \<Rightarrow> bool" where
  "is_redirect r = (300 \<le> fr_status r \<and> fr_status r < 400)"

definition next_hop :: "'w net \<Rightarrow> url \<Rightarrow> fetch_reply \<Rightarrow> exn + url" where
  "next_hop net current response = (if \<not> truthy_str (fr_location response)
     then Inl (untrusted ''redirect with no Location header'')
     else case resolve_url net (the (fr_location response)) current of
       None \<Rightarrow> Inl (JsError ''Invalid URL'')
     | Some n \<Rightarrow> if \<not> sameOrigin current n
         then Inl (untrusted (''cross-origin redirect from '' @ origin current @ '' to '' @ origin n @ '' rejected'')) else Inr n)"

text \<open>\<open>hops\<close> is the number of iterations left; the reply is the status, the headers and the text.\<close>

fun fetch_loop :: "'w net \<Rightarrow> safe_fetch_config \<Rightarrow> fetch_init \<Rightarrow> nat \<Rightarrow> url \<Rightarrow> ('w, int \<times> string option \<times> string) io" where
  "fetch_loop net c init 0 current = io_throw (untrusted (''exceeded '' @ nat_to_string (maxRedirects c) @ '' redirects''))"
| "fetch_loop net c init (Suc hops) current = io_bind (one_hop net c init current) (\<lambda>response.
     if is_redirect response
     then io_bind (lift_sum (next_hop net current response)) (\<lambda>n. fetch_loop net c init hops n)
     else io_bind (lift_sum (boundedText response (maxResponseBytes c))) (\<lambda>text.
       io_return (fr_status response, fr_location response, text)))"

definition safeFetch :: "'w net \<Rightarrow> string \<Rightarrow> fetch_init \<Rightarrow> safe_fetch_config \<Rightarrow> ('w, int \<times> string option \<times> string) io" where
  "safeFetch net rawUrl init c = (case parse_url net rawUrl of
      None \<Rightarrow> io_throw (JsError ''Invalid URL'')
    | Some current \<Rightarrow> fetch_loop net c init (maxRedirects c + 1) current)"

definition createSsrfSafeFetch :: "'w net \<Rightarrow> safe_fetch_config \<Rightarrow> string \<Rightarrow> fetch_init \<Rightarrow> ('w, fetch_reply) io" where
  "createSsrfSafeFetch net c rawUrl init = (case parse_url net rawUrl of
      None \<Rightarrow> io_throw (JsError ''Invalid URL'')
    | Some target \<Rightarrow>
        if \<not> scheme_allowed c target
        then io_throw (untrusted (''insecure scheme '' @ protocol target @ '' rejected for '' @ hostname target))
        else io_bind (resolvePinned net (hostname target) (allowInsecureLocal c)) (\<lambda>pinned.
          io_catch (net_fetch net target init pinned Follow)
            (\<lambda>e. case e of McpToolError x m d \<Rightarrow> io_throw (McpToolError x m d) | UptoUnavailableError \<Rightarrow> io_throw UptoUnavailableError
               | _ \<Rightarrow> io_throw (protocol_error (''connection to '' @ hostname target @ '' failed'')))))"

section \<open>Bounded depth\<close>

function jsonDepth :: "js \<Rightarrow> nat \<Rightarrow> nat" where
  "jsonDepth (JArr xs) current = (if current > 1000 then current else if xs = [] then current + 1
     else Max (set (map (\<lambda>v. jsonDepth v (current + 1)) xs)))"
| "jsonDepth (JObj kvs) current = (if current > 1000 then current else if kvs = [] then current + 1
     else Max (set (map (\<lambda>e. jsonDepth (snd e) (current + 1)) kvs)))"
| "jsonDepth JUndef current = current"
| "jsonDepth JNull current = current"
| "jsonDepth (JBool b) current = current"
| "jsonDepth (JNum i) current = current"
| "jsonDepth (JStr s) current = current"
  by pat_completeness auto
termination by (relation "measure (size \<circ> fst)") (auto simp: size_elem size_entry)

definition assertBoundedDepth :: "js \<Rightarrow> nat \<Rightarrow> exn + unit" where
  "assertBoundedDepth v maxDepth = (if jsonDepth v 0 > maxDepth
     then Inl (protocol_error (''response JSON exceeded max depth '' @ nat_to_string maxDepth @ '' at $'')) else Inr ())"

section \<open>Connections\<close>

definition resolveConnectableEndpoint :: "'w net \<Rightarrow> safe_fetch_config \<Rightarrow> (string \<times> string) list \<Rightarrow> string \<Rightarrow> exn + url" where
  "resolveConnectableEndpoint net c endpoints resourceUrl = (case parse_url net resourceUrl of
      None \<Rightarrow> Inl (McpToolError INVALID_ARGUMENT (''resource url is not a valid URL: '' @ resourceUrl) None)
    | Some parsed \<Rightarrow>
        if scheme_allowed c parsed then Inr parsed
        else if protocol parsed = ''mcp:'' then
          (case map_of endpoints resourceUrl of
             None \<Rightarrow> Inl (untrusted (''mcp:// logical identifier has no operator-verified HTTPS endpoint: '' @ resourceUrl))
           | Some r \<Rightarrow> if r = [] then Inl (untrusted (''mcp:// logical identifier has no operator-verified HTTPS endpoint: '' @ resourceUrl))
               else (case parse_url net r of None \<Rightarrow> Inl (JsError ''Invalid URL'')
                 | Some u \<Rightarrow> if \<not> scheme_allowed c u then Inl (untrusted (''configured endpoint for '' @ resourceUrl @ '' is not HTTPS'')) else Inr u))
        else Inl (untrusted (''unsupported resource url scheme: '' @ protocol parsed)))"

text \<open>\<open>connect\<close> is the handshake of the client over a transport that uses the given fetch.\<close>

datatype mcp_transport = StreamableHttpTransport | SseTransport

definition connectMcpClient ::
    "(url \<Rightarrow> mcp_transport \<Rightarrow> (string \<Rightarrow> fetch_init \<Rightarrow> ('w, fetch_reply) io) \<Rightarrow> ('w, 'c) io)
     \<Rightarrow> 'w net \<Rightarrow> safe_fetch_config \<Rightarrow> url \<Rightarrow> mcp_transport \<Rightarrow> ('w, 'c) io" where
  "connectMcpClient connect net c endpoint kind = io_catch (connect endpoint kind (createSsrfSafeFetch net c))
     (\<lambda>e. case e of AbortError _ \<Rightarrow> io_throw (McpToolError UPSTREAM_TIMEOUT (''connecting to '' @ hostname endpoint @ '' timed out'') None)
        | McpToolError x m d \<Rightarrow> io_throw (McpToolError x m d) | UptoUnavailableError \<Rightarrow> io_throw UptoUnavailableError
        | _ \<Rightarrow> io_throw (protocol_error (''failed to connect to '' @ hostname endpoint @ '': '' @ exn_message e)))"

section \<open>The semaphore\<close>

text \<open>A task that finds no slot waits in the queue; a release hands its slot to the first that waits.\<close>

record sem =
  available :: int
  sem_queue :: "nat list"

definition new_sem :: "nat \<Rightarrow> sem" where
  "new_sem n = \<lparr> available = int n, sem_queue = [] \<rparr>"

text \<open>The tasks that hold a slot after the operation are the answer.\<close>

definition sem_acquire :: "nat \<Rightarrow> sem \<Rightarrow> nat option \<times> sem" where
  "sem_acquire t s = (if available s > 0 then (Some t, s\<lparr>available := available s - 1\<rparr>)
     else (None, s\<lparr>sem_queue := sem_queue s @ [t]\<rparr>))"

definition sem_release :: "sem \<Rightarrow> nat option \<times> sem" where
  "sem_release s = (let s1 = s\<lparr>available := available s + 1\<rparr> in case sem_queue s1 of
      [] \<Rightarrow> (None, s1)
    | t # q \<Rightarrow> (Some t, s1\<lparr>sem_queue := q, available := available s1 - 1\<rparr>))"

end
