(* ===== verification/Call_Resource.thy ===== *)
theory Call_Resource
  imports Mcp_Access Mcp_Discovery Safe_Fetch
begin

text \<open>
  mcp-server/src/tools/callResource.ts, the guarded discover-pay-retry flow, and tools/index.ts, which
  decides which tools a connection has and turns every result or exception into a tool answer.

  The world is the budget store, the identifiers the retry guard has claimed, and everything outside the
  process (\<open>'x\<close>), on which the calls over the network, the clock and the random numbers act.  The
  functions of @x402/mcp, @x402/core and the MCP client are parameters.  One call runs at a time; every
  operation of the store is one step.
\<close>

record ('s, 'x) mcp_world =
  w_store :: 's
  w_claimed :: "string set"
  w_ext :: 'x

record ('x, 'c, 'k) paying =
  pf_api :: "'x facilitator_api"
  pf_hash :: hashing
  pf_net :: "'x net"
  pf_signers :: "'x signer_host"
  pf_clock :: "('x, string) io"
  pf_nonce :: "('x, string) io"
  pf_connect :: "url \<Rightarrow> mcp_transport \<Rightarrow> (string \<Rightarrow> fetch_init \<Rightarrow> ('x, fetch_reply) io) \<Rightarrow> ('x, 'c) io"
  pf_callTool :: "'c \<Rightarrow> js \<Rightarrow> ('x, js) io"
  pf_close :: "'c \<Rightarrow> ('x, unit) io"
  pf_exact :: "'x mcp_signer \<Rightarrow> 'k"
  pf_createPayload :: "string \<Rightarrow> 'k \<Rightarrow> js \<Rightarrow> ('x, js) io"
  attachPaymentToMeta :: "js \<Rightarrow> js \<Rightarrow> js"
  extractPaymentResponse :: "js \<Rightarrow> js option"

record call_deps =
  cd_config :: app_config
  cd_signer :: "signer_provider option"

record call_args =
  ca_ref :: string
  ca_expectedVersionHash :: "string option"
  ca_toolArguments :: js
  ca_network :: string
  ca_scheme :: string
  ca_asset :: string
  ca_maxAtomicAmount :: string
  ca_agentId :: string
  ca_sessionId :: "string option"

record receipt =
  rc_paymentIdentifier :: string
  rc_ref :: string
  rc_versionHash :: string
  rc_network :: string
  rc_scheme :: string
  rc_asset :: string
  rc_payTo :: js
  rc_authorizedAmount :: int
  rc_settledAmount :: int
  rc_transaction :: js

record call_output =
  co_content :: js
  co_receipt :: receipt

definition on_ext :: "('x, 'a) io \<Rightarrow> (('s, 'x) mcp_world, 'a) io" where
  "on_ext m = (\<lambda>w. case m (w_ext w) of (r, x) \<Rightarrow> (r, w\<lparr>w_ext := x\<rparr>))"

definition on_store :: "('s, 'a) store_op \<Rightarrow> (('s, 'x) mcp_world, 'a) io" where
  "on_store m = (\<lambda>w. case m (w_store w) of (r, s) \<Rightarrow> (r, w\<lparr>w_store := s\<rparr>))"

definition try_claim :: "string \<Rightarrow> (('s, 'x) mcp_world, bool) io" where
  "try_claim i = (\<lambda>w. case guard_claim i (w_claimed w) of (b, c) \<Rightarrow> (Inr b, w\<lparr>w_claimed := c\<rparr>))"

text \<open>\<open>try m finally f\<close>: an exception of \<open>f\<close> replaces the result of \<open>m\<close>.\<close>

definition io_finally :: "('w, 'a) io \<Rightarrow> ('w, unit) io \<Rightarrow> ('w, 'a) io" where
  "io_finally m f = (\<lambda>w. case m w of (r, w1) \<Rightarrow> (case f w1 of (Inl e, w2) \<Rightarrow> (Inl e, w2) | (Inr _, w2) \<Rightarrow> (r, w2)))"

definition to_big_int :: "js \<Rightarrow> exn + int" where
  "to_big_int v = (case v of JStr s \<Rightarrow> big_int_or_throw s | JNum n \<Rightarrow> Inr n | JBool b \<Rightarrow> Inr (if b then 1 else 0)
     | _ \<Rightarrow> Inl (JsError (''Cannot convert '' @ js_display v @ '' to a BigInt'')))"

definition bazaarTransport :: "js \<Rightarrow> mcp_transport" where
  "bazaarTransport v = (if js_get (js_get (js_get (extension_of v) ''info'') ''input'') ''transport'' = JStr ''sse''
     then SseTransport else StreamableHttpTransport)"

definition looksLikePaymentRequiredResult :: "js \<Rightarrow> bool" where
  "looksLikePaymentRequiredResult v = (js_get v ''isError'' = JBool True
     \<and> (case js_get v ''structuredContent'' of JObj _ \<Rightarrow> True | JArr _ \<Rightarrow> True | JNull \<Rightarrow> True | _ \<Rightarrow> False))"

section \<open>Steps 1 and 2: the catalog version and the gates\<close>

definition pubnet_refusal :: "app_config \<Rightarrow> string \<Rightarrow> exn option" where
  "pubnet_refusal c nw = (if nw \<noteq> ''stellar:pubnet'' then None
     else if \<not> cfg_pubnet c then Some (rejected ''stellar:pubnet is not enabled on this server'')
     else if cfg_transport c \<noteq> Stdio \<and> httpApiKeys c = [] then Some (rejected ''pubnet paid calls require authenticated access'')
     else if cfg_store c = MemoryStore \<and> cfg_transport c \<noteq> Stdio then Some (rejected ''pubnet paid calls require a durable budget store'')
     else None)"

definition stale_error :: "string \<Rightarrow> string \<Rightarrow> exn" where
  "stale_error expected actual = McpToolError RESOURCE_STALE ''the catalog version has changed since this reference was obtained''
     (str_details [(''expectedVersionHash'', expected), (''actualVersionHash'', actual)])"

definition resolve_version :: "('x, 'c, 'k) paying \<Rightarrow> call_deps \<Rightarrow> call_args \<Rightarrow> ('x, resource_identity \<times> string \<times> js \<times> string \<times> signer_provider) io" where
  "resolve_version P d a = io_bind (lift_sum (decodeResourceRef (ca_ref a))) (\<lambda>i.
     if ri_type i \<noteq> Mcp \<or> \<not> truthy_str (ri_toolName i)
     then io_throw (McpToolError INVALID_ARGUMENT ''x402_call_resource only calls MCP tool resources'' None)
     else io_bind (client_getResource (pf_api P) i) (\<lambda>resource.
       if \<not> js_truthy resource then io_throw (no_results ''no active catalog entry for this resource reference'')
       else io_bind (lift_sum (computeVersionHash (sha_hex (pf_hash P)) (locale_cmp (pf_hash P)) resource)) (\<lambda>versionHash.
         if truthy_str (ca_expectedVersionHash a) \<and> ca_expectedVersionHash a \<noteq> Some versionHash
         then io_throw (stale_error (the (ca_expectedVersionHash a)) versionHash)
         else case pubnet_refusal (cd_config d) (ca_network a) of Some e \<Rightarrow> io_throw e
           | None \<Rightarrow> (case cd_signer d of
               None \<Rightarrow> io_throw (rejected ''no signer is configured; paid calls are disabled'')
             | Some signer \<Rightarrow> io_return (i, the (ri_toolName i), resource, versionHash, signer)))))"

definition fetch_config_of :: "app_config \<Rightarrow> safe_fetch_config" where
  "fetch_config_of c = (let n = networkSecurity c in \<lparr> allowInsecureLocal = ns_allowInsecureLocal n,
     maxResponseBytes = ns_maxResponseBytes n, timeoutMs = ns_timeoutMs n, maxRedirects = ns_maxRedirects n \<rparr>)"

definition connect_version :: "('x, 'c, 'k) paying \<Rightarrow> call_deps \<Rightarrow> js \<Rightarrow> ('x, 'c) io" where
  "connect_version P d resource = (let c = fetch_config_of (cd_config d) in
     io_bind (lift_sum (resolveConnectableEndpoint (pf_net P) c (ns_resolvedMcpEndpoints (networkSecurity (cd_config d)))
       (js_display (js_get resource ''resource'')))) (\<lambda>endpoint.
     connectMcpClient (pf_connect P) (pf_net P) c endpoint (bazaarTransport resource)))"

section \<open>Steps 3 to 6: the unpaid call and the guard\<close>

definition selection_of :: "call_args \<Rightarrow> selection" where
  "selection_of a = \<lparr> sel_network = ca_network a, sel_scheme = ca_scheme a, sel_asset = ca_asset a \<rparr>"

definition tool_params :: "string \<Rightarrow> call_args \<Rightarrow> js" where
  "tool_params tool a = JObj [(''name'', JStr tool), (''arguments'', ca_toolArguments a)]"

definition challenged :: "('x, 'c, 'k) paying \<Rightarrow> call_args \<Rightarrow> resource_identity \<Rightarrow> string \<Rightarrow> js \<Rightarrow> 'c \<Rightarrow> ('x, js \<times> js) io" where
  "challenged P a i tool resource bound = io_bind (pf_callTool P bound (tool_params tool a)) (\<lambda>unpaidRaw.
     io_bind (lift_sum (validatePaymentRequiredDualCopy unpaidRaw)) (\<lambda>liveChallenge.
     io_bind (lift_sum (guardAgainstCatalog liveChallenge resource i (selection_of a))) (\<lambda>_.
     io_bind (lift_sum (js_find (matches (selection_of a)) (js_get liveChallenge ''accepts''))) (\<lambda>option1.
       case option1 of None \<Rightarrow> io_throw (McpToolError INVALID_ARGUMENT ''selected network/scheme/asset is not offered by this resource'' None)
       | Some acc \<Rightarrow> io_return (liveChallenge, acc)))))"

section \<open>Steps 7 and 8: the budget and the identifier\<close>

definition per_call_limit :: "app_config \<Rightarrow> int \<Rightarrow> int" where
  "per_call_limit c suppliedMax = (if suppliedMax < defaultPerCallMaxAtomic c then suppliedMax else defaultPerCallMaxAtomic c)"

definition call_input_of :: "call_deps \<Rightarrow> call_args \<Rightarrow> string \<Rightarrow> int \<Rightarrow> int \<Rightarrow> call_input" where
  "call_input_of d a i required suppliedMax = \<lparr> ci_identifier = i, ci_agent = ca_agentId a, ci_session = ca_sessionId a,
     ci_ref = ca_ref a, ci_network = ca_network a, ci_asset = ca_asset a, ci_scheme = ca_scheme a,
     ci_perCallMax = per_call_limit (cd_config d) suppliedMax,
     ci_sessionOrDayMax = defaultSessionOrDayMaxAtomic (cd_config d), ci_required = required, ci_ceiling = None \<rparr>"

definition identifier_of :: "('x, 'c, 'k) paying \<Rightarrow> call_args \<Rightarrow> string \<Rightarrow> string \<Rightarrow> string" where
  "identifier_of P a versionHash nonce = computePaymentIdentifier (sha_hex (pf_hash P))
     \<lparr> id_ref = ca_ref a, id_versionHash = versionHash, id_network = ca_network a, id_scheme = ca_scheme a,
       id_asset = ca_asset a, id_maxAtomicAmount = ca_maxAtomicAmount a, id_nonce = nonce \<rparr>"

definition reserve_payment :: "('x, 'c, 'k) paying \<Rightarrow> call_deps \<Rightarrow> 's budget_ops \<Rightarrow> call_args \<Rightarrow> string \<Rightarrow> js
    \<Rightarrow> (('s, 'x) mcp_world, string \<times> int) io" where
  "reserve_payment P d ops a versionHash acc = io_bind (lift_sum (to_big_int (js_get acc ''amount''))) (\<lambda>required.
     io_bind (lift_sum (big_int_or_throw (ca_maxAtomicAmount a))) (\<lambda>suppliedMax.
     io_bind (on_ext (pf_nonce P)) (\<lambda>nonce. let i = identifier_of P a versionHash nonce in
     io_bind (try_claim i) (\<lambda>first.
       if \<not> first then io_throw (McpToolError INVALID_ARGUMENT ''duplicate payment identifier generated within this process'' None)
       else io_bind (on_ext (pf_clock P)) (\<lambda>day0. io_bind (on_ext (pf_clock P)) (\<lambda>day.
         io_bind (on_store (reserveForCall ops day0 day (call_input_of d a i required suppliedMax))) (\<lambda>_.
         io_return (i, required))))))))"

section \<open>Step 9: signing and the paid retry\<close>

definition identifier_detail :: "string \<Rightarrow> js option" where
  "identifier_detail i = str_details [(''paymentIdentifier'', i)]"

definition polling_detail :: "string \<Rightarrow> js option" where
  "polling_detail i = str_details [(''paymentIdentifier'', i), (''pollingHint'', ''poll facilitator settlement status for this payment identifier'')]"

definition ignore :: "('w, 'a) io \<Rightarrow> ('w, 'b) io \<Rightarrow> ('w, 'b) io" where
  "ignore m k = io_bind m (\<lambda>_. k)"

definition one_accept :: "js \<Rightarrow> js \<Rightarrow> js" where
  "one_accept challenge acc = (case challenge of
     JObj kvs \<Rightarrow> JObj (AList.update ''accepts'' (JArr [acc]) kvs) | _ \<Rightarrow> JObj [(''accepts'', JArr [acc])])"

definition build_payload :: "('x, 'c, 'k) paying \<Rightarrow> call_args \<Rightarrow> js \<Rightarrow> js \<Rightarrow> 'x mcp_signer \<Rightarrow> ('x, js) io" where
  "build_payload P a challenge acc signer = io_bind
     (lift_sum (resolveScheme (buildSchemeRegistry (pf_exact P) signer) (ca_scheme a)))
     (\<lambda>client. pf_createPayload P (ca_network a) client (one_accept challenge acc))"

definition sign_payment :: "('x, 'c, 'k) paying \<Rightarrow> 's budget_ops \<Rightarrow> call_args \<Rightarrow> js \<Rightarrow> js \<Rightarrow> string \<Rightarrow> 'x mcp_signer
    \<Rightarrow> (('s, 'x) mcp_world, js) io" where
  "sign_payment P ops a challenge acc i signer = io_catch (on_ext (build_payload P a challenge acc signer))
     (\<lambda>e. ignore (on_store (release ops i)) (io_throw (if e = UptoUnavailableError then e
        else McpToolError PAYMENT_REJECTED (''failed to construct or sign the payment: '' @ exn_message e) (identifier_detail i))))"

definition pay :: "('x, 'c, 'k) paying \<Rightarrow> 's budget_ops \<Rightarrow> call_args \<Rightarrow> string \<Rightarrow> string \<Rightarrow> js \<Rightarrow> 'c
    \<Rightarrow> (('s, 'x) mcp_world, js) io" where
  "pay P ops a tool i payload bound = io_catch (on_ext (pf_callTool P bound (attachPaymentToMeta P (tool_params tool a) payload)))
     (\<lambda>e. ignore (on_store (mark_unknown ops i None))
        (io_throw (McpToolError SETTLEMENT_UNKNOWN (''no confirmed response after the paid retry: '' @ exn_message e) (polling_detail i))))"

section \<open>Steps 10 and 11: the settlement and the receipt\<close>

text \<open>The declared string \<open>transaction\<close> of a settlement response.\<close>

definition settled_transaction :: "js \<Rightarrow> string" where
  "settled_transaction v = (case v of JStr s \<Rightarrow> s | _ \<Rightarrow> [])"

definition settlement_mismatch :: "call_args \<Rightarrow> 'x mcp_signer \<Rightarrow> js \<Rightarrow> bool" where
  "settlement_mismatch a signer response = (\<not> strict_eq (js_get response ''network'') (JStr (ca_network a))
     \<or> (js_truthy (js_get response ''payer'') \<and> \<not> strict_eq (js_get response ''payer'') (signer_address signer)))"

definition receipt_for :: "call_args \<Rightarrow> string \<Rightarrow> string \<Rightarrow> js \<Rightarrow> int \<Rightarrow> int \<Rightarrow> js \<Rightarrow> receipt" where
  "receipt_for a i versionHash acc required settledAmnt response = \<lparr> rc_paymentIdentifier = i, rc_ref = ca_ref a,
     rc_versionHash = versionHash, rc_network = ca_network a, rc_scheme = ca_scheme a, rc_asset = ca_asset a,
     rc_payTo = js_get acc ''payTo'', rc_authorizedAmount = required, rc_settledAmount = settledAmnt,
     rc_transaction = js_get response ''transaction'' \<rparr>"

definition settle_payment :: "('x, 'c, 'k) paying \<Rightarrow> 's budget_ops \<Rightarrow> call_args \<Rightarrow> string \<Rightarrow> string \<Rightarrow> int \<Rightarrow> js \<Rightarrow> 'x mcp_signer \<Rightarrow> js
    \<Rightarrow> (('s, 'x) mcp_world, call_output) io" where
  "settle_payment P ops a versionHash i required acc signer paidRaw = (case extractPaymentResponse P paidRaw of
      None \<Rightarrow> if looksLikePaymentRequiredResult paidRaw
        then ignore (on_store (release ops i)) (io_throw (McpToolError PAYMENT_REJECTED
          ''the paid retry was rejected: seller returned another PaymentRequired'' (identifier_detail i)))
        else ignore (on_store (mark_unknown ops i None)) (io_throw (McpToolError SETTLEMENT_UNKNOWN
          ''no payment-response metadata was returned after the paid retry'' (identifier_detail i)))
    | Some response \<Rightarrow>
        if \<not> js_truthy (js_get response ''success'')
        then ignore (on_store (release ops i)) (io_throw (McpToolError PAYMENT_REJECTED
          (js_display (or_nullish (js_get response ''errorReason'') (JStr ''settlement reported failure''))) (identifier_detail i)))
        else if settlement_mismatch a signer response
        then ignore (on_store (mark_unknown ops i (Some (settled_transaction (js_get response ''transaction'')))))
          (io_throw (McpToolError SETTLEMENT_UNKNOWN ''payment-response network/payer did not match the authorized payment'' (polling_detail i)))
        else io_bind (lift_sum (to_big_int (or_nullish (js_get response ''amount'') (js_get acc ''amount'')))) (\<lambda>settledAmnt.
          io_bind (on_store (reconcile ops i settledAmnt (settled_transaction (js_get response ''transaction'')))) (\<lambda>_.
          io_return \<lparr> co_content = js_get paidRaw ''content'',
            co_receipt = receipt_for a i versionHash acc required settledAmnt response \<rparr>)))"

section \<open>The call\<close>

definition paid_call :: "('x, 'c, 'k) paying \<Rightarrow> call_deps \<Rightarrow> 's budget_ops \<Rightarrow> call_args \<Rightarrow> resource_identity \<Rightarrow> string \<Rightarrow> js \<Rightarrow> string
    \<Rightarrow> signer_provider \<Rightarrow> 'c \<Rightarrow> (('s, 'x) mcp_world, call_output) io" where
  "paid_call P d ops a i tool resource versionHash provider bound =
     io_bind (on_ext (challenged P a i tool resource bound)) (\<lambda>(challenge, acc).
     io_bind (reserve_payment P d ops a versionHash acc) (\<lambda>(pid, required).
     io_bind (on_ext (getSigner (pf_signers P) provider (ca_network a))) (\<lambda>signer.
     io_bind (sign_payment P ops a challenge acc pid signer) (\<lambda>payload.
     io_bind (pay P ops a tool pid payload bound) (\<lambda>paidRaw.
     settle_payment P ops a versionHash pid required acc signer paidRaw)))))"

definition callResource :: "('x, 'c, 'k) paying \<Rightarrow> call_deps \<Rightarrow> 's budget_ops \<Rightarrow> call_args \<Rightarrow> (('s, 'x) mcp_world, call_output) io" where
  "callResource P d ops a = io_bind (on_ext (resolve_version P d a)) (\<lambda>(i, tool, resource, versionHash, provider).
     io_bind (on_ext (connect_version P d resource)) (\<lambda>bound.
     io_finally (paid_call P d ops a i tool resource versionHash provider bound) (on_ext (pf_close P bound))))"

section \<open>The tools of a connection\<close>

record tool_context =
  tc_agentId :: string
  tc_sessionId :: "string option"

datatype tool_request = Search search_input | Get string "string option" | Call call_args

datatype tool_answer = Found search_output | Got wrapped_resource | Called call_output | ToolError js | UnknownTool

definition answer :: "('w, 'a) io \<Rightarrow> ('a \<Rightarrow> tool_answer) \<Rightarrow> ('w, tool_answer) io" where
  "answer m f = io_catch (io_bind m (\<lambda>x. io_return (f x))) (\<lambda>e. io_return (ToolError (toErrorPayload e)))"

definition registered_tools :: "call_deps \<Rightarrow> string list" where
  "registered_tools d = [''x402_search_resources'', ''x402_get_resource''] @ (if cd_signer d = None then [] else [''x402_call_resource''])"

text \<open>The agent and the session of a payment come from the connection, whatever the request says.\<close>

definition handle_tool :: "('x, 'c, 'k) paying \<Rightarrow> call_deps \<Rightarrow> 's budget_ops \<Rightarrow> tool_context \<Rightarrow> tool_request
    \<Rightarrow> (('s, 'x) mcp_world, tool_answer) io" where
  "handle_tool P d ops ctx r = (case r of
      Search x \<Rightarrow> answer (on_ext (searchResources (pf_api P) (pf_hash P) x)) Found
    | Get ref expected \<Rightarrow> answer (on_ext (getResource (pf_api P) (pf_hash P) ref expected)) Got
    | Call a \<Rightarrow> if ''x402_call_resource'' \<notin> set (registered_tools d) then io_return UnknownTool
        else answer (callResource P d ops (a\<lparr>ca_agentId := tc_agentId ctx, ca_sessionId := tc_sessionId ctx\<rparr>)) Called)"

end
