(* ===== verification/Mcp_Budget_Laws.thy ===== *)
theory Mcp_Budget_Laws
  imports Mcp_Budget
begin

text \<open>
  The contract of \<open>BudgetStore\<close> (mcp-server/src/budget/budgetStore.ts) as the locale \<open>budget_store\<close>:
  what a payment flow may rely on whichever store is configured.  Both stores are shown to keep it;
  the invariant that carries the proofs is that the usage of an agent on a day is the sum of what its
  reservations hold.
\<close>

section \<open>The contract\<close>

text \<open>A reservation that still holds its full amount.\<close>

definition is_open :: "reservation \<Rightarrow> bool" where
  "is_open r = (rv_status r = Reserved \<or> rv_status r = UnknownStatus)"

text \<open>What a reservation holds of the budget.\<close>

definition held :: "reservation \<Rightarrow> int" where
  "held r = (case rv_status r of Reserved \<Rightarrow> reservedAmount r | UnknownStatus \<Rightarrow> reservedAmount r
     | Settled \<Rightarrow> coalesce (settledAmount r) 0 | Released \<Rightarrow> 0 | FailedStatus \<Rightarrow> 0)"

lemma held_open: "is_open r \<Longrightarrow> held r = reservedAmount r"
  by (auto simp: is_open_def held_def)

text \<open>Same reservation up to the transaction hash.\<close>

definition same_terms_as :: "reservation \<Rightarrow> reservation \<Rightarrow> bool" where
  "same_terms_as r r' = (r\<lparr>rv_hash := None\<rparr> = r'\<lparr>rv_hash := None\<rparr>)"

text \<open>A reservation becomes \<open>r'\<close> and the usage of its holder changes by \<open>delta\<close>; nothing else changes.\<close>

definition moves ::
    "'s budget_ops \<Rightarrow> ('s \<Rightarrow> bool) \<Rightarrow> ('k \<Rightarrow> 's \<Rightarrow> int) \<Rightarrow> (string \<Rightarrow> 's \<Rightarrow> 'k option) \<Rightarrow> 's \<Rightarrow> 's \<Rightarrow> string \<Rightarrow> reservation \<Rightarrow> int \<Rightarrow> bool" where
  "moves ops ok used holder s s' i r' delta = (ok s' \<and> get_reservation ops i s' = Some r'
     \<and> (\<forall>j. j \<noteq> i \<longrightarrow> get_reservation ops j s' = get_reservation ops j s)
     \<and> (\<forall>k. used k s' = used k s + (if holder i s = Some k then delta else 0)))"

locale budget_store =
  fixes ops :: "'s budget_ops"
    and ok :: "'s \<Rightarrow> bool"
    and key_of :: "string \<Rightarrow> string \<Rightarrow> 'k"
    and used :: "'k \<Rightarrow> 's \<Rightarrow> int"
    and holder :: "string \<Rightarrow> 's \<Rightarrow> 'k option"
  assumes used_today: "used_today ops day agent s = used (key_of agent day) s"
    and used_nonneg: "ok s \<Longrightarrow> 0 \<le> used k s"
    and known: "ok s \<Longrightarrow> get_reservation ops (in_identifier x) s = Some r \<Longrightarrow> in_amount x \<le> perCallMaxAtomic lim \<Longrightarrow>
      reserve ops day x lim s = (Inr r, s)"
    and refused: "reserve ops day x lim s = (Inl e, s') \<Longrightarrow> s' = s"
    and fresh: "ok s \<Longrightarrow> get_reservation ops (in_identifier x) s = None \<Longrightarrow> 0 \<le> in_amount x \<Longrightarrow>
      reserve ops day x lim s = (Inr r, s') \<Longrightarrow>
      r = new_reservation x \<and> ok s' \<and> in_amount x \<le> perCallMaxAtomic lim
      \<and> used (key_of (in_agent x) day) s' \<le> sessionOrDayMaxAtomic lim
      \<and> get_reservation ops (in_identifier x) s' = Some r \<and> holder (in_identifier x) s' = Some (key_of (in_agent x) day)
      \<and> (\<forall>j. j \<noteq> in_identifier x \<longrightarrow> get_reservation ops j s' = get_reservation ops j s)
      \<and> (\<forall>k. used k s' = used k s + (if k = key_of (in_agent x) day then in_amount x else 0))"
    and settled: "ok s \<Longrightarrow> get_reservation ops i s = Some r \<Longrightarrow> is_open r \<Longrightarrow> 0 \<le> a \<Longrightarrow> a \<le> reservedAmount r \<Longrightarrow>
      \<exists>r' s'. reconcile ops i a h s = (Inr r', s') \<and> same_terms_as r' (r\<lparr>rv_status := Settled, settledAmount := Some a\<rparr>)
      \<and> moves ops ok used holder s s' i r' (a - reservedAmount r)"
    and freed: "ok s \<Longrightarrow> get_reservation ops i s = Some r \<Longrightarrow> is_open r \<Longrightarrow>
      \<exists>r' s'. release ops i s = (Inr r', s') \<and> same_terms_as r' (r\<lparr>rv_status := Released\<rparr>)
      \<and> moves ops ok used holder s s' i r' (- reservedAmount r)"
    and kept: "ok s \<Longrightarrow> get_reservation ops i s = Some r \<Longrightarrow> is_open r \<Longrightarrow>
      \<exists>r' s'. mark_unknown ops i oh s = (Inr r', s') \<and> same_terms_as r' (r\<lparr>rv_status := UnknownStatus\<rparr>)
      \<and> moves ops ok used holder s s' i r' 0"
begin

text \<open>Reserving through the policy: the cap bounds what is reserved, the day budget is kept.\<close>

lemma amountToReserve_Inr:
  assumes "amountToReserve sch c = Inr a"
  shows "a \<le> perCallLimitAtomic c \<and> a \<le> sessionOrDayRemainingAtomic c \<and> a \<le> x402RequiredAtomic c
    \<and> (sch = ''exact'' \<longrightarrow> a = x402RequiredAtomic c) \<and> (sch \<noteq> ''exact'' \<longrightarrow> 0 < a)"
  using assms by (auto simp: amountToReserve_def computeEffectiveCap_def Let_def split: if_splits option.splits)

lemma reserveForCall_fresh:
  assumes "ok s" "get_reservation ops (ci_identifier x) s = None" "0 \<le> ci_required x"
    "reserveForCall ops day0 day x s = (Inr r, s')"
  shows "ok s' \<and> get_reservation ops (ci_identifier x) s' = Some r \<and> rv_status r = Reserved \<and> 0 \<le> reservedAmount r
    \<and> reservedAmount r \<le> ci_perCallMax x \<and> reservedAmount r \<le> ci_required x
    \<and> (ci_scheme x = ''exact'' \<longrightarrow> reservedAmount r = ci_required x)
    \<and> used (key_of (ci_agent x) day) s' \<le> ci_sessionOrDayMax x
    \<and> holder (ci_identifier x) s' = Some (key_of (ci_agent x) day)
    \<and> (\<forall>j. j \<noteq> ci_identifier x \<longrightarrow> get_reservation ops j s' = get_reservation ops j s)
    \<and> (\<forall>k. used k s' = used k s + (if k = key_of (ci_agent x) day then reservedAmount r else 0))"
proof -
  obtain a where a: "amountToReserve (ci_scheme x) (cap_of x (used_today ops day0 (ci_agent x) s)) = Inr a"
    using assms(4) by (auto simp: reserveForCall_def split: sum.splits)
  have b: "a \<le> ci_perCallMax x" "a \<le> ci_required x" "ci_scheme x = ''exact'' \<longrightarrow> a = ci_required x" "0 \<le> a"
    using amountToReserve_Inr [OF a] assms(3) by (auto simp: cap_of_def Let_def)
  show ?thesis
    using assms(4) a b fresh [OF assms(1), of "\<lparr> in_identifier = ci_identifier x, in_agent = ci_agent x, in_session = ci_session x,
        in_ref = ci_ref x, in_network = ci_network x, in_asset = ci_asset x, in_scheme = ci_scheme x, in_amount = a \<rparr>"
        day "\<lparr> perCallMaxAtomic = ci_perCallMax x, sessionOrDayMaxAtomic = ci_sessionOrDayMax x \<rparr>" r s'] assms(2)
    by (auto simp: reserveForCall_def new_reservation_def cong del: if_weak_cong)
qed

lemma reserveForCall_refused: "reserveForCall ops day0 day x s = (Inl e, s') \<Longrightarrow> s' = s"
  using refused by (auto simp: reserveForCall_def split: sum.splits)

end

section \<open>The in-memory store keeps the contract\<close>

definition sum_over :: "('a \<Rightarrow> int) \<Rightarrow> 'a list \<Rightarrow> int" where
  "sum_over f xs = sum_list (map f xs)"

lemma sum_over_update:
  "sum_over f (AList.update k v xs) = sum_over f xs + f (k, v) - (case map_of xs k of None \<Rightarrow> 0 | Some o1 \<Rightarrow> f (k, o1))"
  by (induction xs) (auto simp: sum_over_def split: option.split)

lemma sum_over_nonneg: "(\<And>x. x \<in> set xs \<Longrightarrow> 0 \<le> f x) \<Longrightarrow> 0 \<le> sum_over f xs"
  unfolding sum_over_def by (induction xs) auto

lemma sum_over_member: "(\<And>x. x \<in> set xs \<Longrightarrow> 0 \<le> f x) \<Longrightarrow> y \<in> set xs \<Longrightarrow> f y \<le> sum_over f xs"
proof (induction xs)
  case (Cons x xs)
  then show ?case using sum_over_nonneg [of xs f] by (fastforce simp: sum_over_def)
qed simp

lemma sum_over_cong: "(\<And>x. x \<in> set xs \<Longrightarrow> f x = g x) \<Longrightarrow> sum_over f xs = sum_over g xs"
  by (simp add: sum_over_def cong: map_cong)

definition reservation_ok :: "reservation \<Rightarrow> bool" where
  "reservation_ok r = (0 \<le> reservedAmount r \<and> 0 \<le> held r)"

definition mem_holder :: "string \<Rightarrow> memory_budget \<Rightarrow> string option" where
  "mem_holder i s = map_of (dailyKeyOf s) i"

definition mem_used :: "string \<Rightarrow> memory_budget \<Rightarrow> int" where
  "mem_used k s = coalesce (map_of (dailyUsage s) k) 0"

definition mem_share :: "memory_budget \<Rightarrow> string \<Rightarrow> string \<times> reservation \<Rightarrow> int" where
  "mem_share s k e = (if map_of (dailyKeyOf s) (fst e) = Some k then held (snd e) else 0)"

definition memory_ok :: "memory_budget \<Rightarrow> bool" where
  "memory_ok s = ((\<forall>e \<in> set (reservations s). paymentIdentifier (snd e) = fst e \<and> reservation_ok (snd e)
       \<and> (\<exists>k. k \<noteq> [] \<and> map_of (dailyKeyOf s) (fst e) = Some k))
     \<and> (\<forall>k. mem_used k s = sum_over (mem_share s k) (reservations s)))"

lemma update_members: "e \<in> set (AList.update k v xs) \<Longrightarrow> e = (k, v) \<or> e \<in> set xs"
  by (induction xs) (auto split: if_splits)

lemma mem_entry:
  "memory_ok s \<Longrightarrow> map_of (reservations s) i = Some r \<Longrightarrow> paymentIdentifier r = i \<and> reservation_ok r
    \<and> (\<exists>k. k \<noteq> [] \<and> map_of (dailyKeyOf s) i = Some k)"
  unfolding memory_ok_def by (metis fst_conv snd_conv map_of_SomeD)

lemma mem_share_nonneg: "memory_ok s \<Longrightarrow> e \<in> set (reservations s) \<Longrightarrow> 0 \<le> mem_share s k e"
  by (auto simp: memory_ok_def mem_share_def reservation_ok_def)

lemma mem_used_nonneg: "memory_ok s \<Longrightarrow> 0 \<le> mem_used k s"
  using sum_over_nonneg [of "reservations s" "mem_share s k"] mem_share_nonneg [of s _ k] by (simp add: memory_ok_def)

lemma mem_held_used:
  "memory_ok s \<Longrightarrow> map_of (reservations s) i = Some r \<Longrightarrow> map_of (dailyKeyOf s) i = Some k \<Longrightarrow> held r \<le> mem_used k s"
  using sum_over_member [of "reservations s" "mem_share s k" "(i, r)"] mem_share_nonneg [of s _ k] map_of_SomeD
  by (force simp: memory_ok_def mem_share_def)

text \<open>Writing one reservation back, with the usage of its day adjusted by the change of what it holds.\<close>

lemma mem_write:
  assumes "memory_ok s" "map_of (reservations s) i = Some r" "paymentIdentifier r' = i" "reservation_ok r'"
    and "\<And>k. coalesce (map_of d k) 0 = mem_used k s + (if map_of (dailyKeyOf s) i = Some k then held r' - held r else 0)"
  shows "memory_ok (s\<lparr>dailyUsage := d, reservations := AList.update i r' (reservations s)\<rparr>)"
proof -
  let ?s = "s\<lparr>dailyUsage := d, reservations := AList.update i r' (reservations s)\<rparr>"
  have share: "mem_share ?s k = mem_share s k" for k by (simp add: mem_share_def fun_eq_iff)
  have "mem_used k ?s = sum_over (mem_share ?s k) (reservations ?s)" for k
    unfolding share using assms(1,2,5)
    by (simp add: memory_ok_def sum_over_update mem_used_def [of k ?s]) (simp add: mem_share_def)
  moreover have "paymentIdentifier (snd e) = fst e \<and> reservation_ok (snd e) \<and> (\<exists>k. k \<noteq> [] \<and> map_of (dailyKeyOf s) (fst e) = Some k)"
    if "e \<in> set (reservations ?s)" for e
    using update_members [of e i r' "reservations s"] that assms(1,3,4) mem_entry [OF assms(1,2)]
    by (auto simp: memory_ok_def)
  ultimately show ?thesis by (simp add: memory_ok_def)
qed

lemma daily_key_nonempty: "daily_key agent day \<noteq> []"
  by (simp add: daily_key_def)

lemma mem_fresh:
  assumes "memory_ok s" "mem_get (in_identifier x) s = None" "0 \<le> in_amount x" "mem_reserve day x lim s = (Inr r, s')"
  defines "k \<equiv> daily_key (in_agent x) day" and "i \<equiv> in_identifier x"
  shows "r = new_reservation x \<and> in_amount x \<le> perCallMaxAtomic lim
    \<and> mem_used k s + in_amount x \<le> sessionOrDayMaxAtomic lim
    \<and> s' = s\<lparr> dailyUsage := AList.update k (mem_used k s + in_amount x) (dailyUsage s),
         dailyKeyOf := AList.update i k (dailyKeyOf s), reservations := AList.update i r (reservations s) \<rparr>"
  using assms by (auto simp: mem_reserve_def mem_get_def mem_used_def Let_def split: if_splits)

lemma mem_fresh_ok:
  assumes "memory_ok s" "map_of (reservations s) i = None" "0 \<le> a" "paymentIdentifier r = i" "reservation_ok r" "held r = a" "k \<noteq> []"
  shows "memory_ok (s\<lparr> dailyUsage := AList.update k (mem_used k s + a) (dailyUsage s),
         dailyKeyOf := AList.update i k (dailyKeyOf s), reservations := AList.update i r (reservations s) \<rparr>)"
    (is "memory_ok ?s")
proof -
  have notin: "fst e \<noteq> i" if "e \<in> set (reservations s)" for e
    using assms(2) that by (force simp: map_of_eq_None_iff)
  have "mem_used k' ?s = sum_over (mem_share ?s k') (reservations ?s)" for k'
  proof -
    have "sum_over (mem_share ?s k') (reservations s) = sum_over (mem_share s k') (reservations s)"
      using notin by (intro sum_over_cong) (auto simp: mem_share_def AList.update_conv)
    then show ?thesis using assms(1,2,6)
      by (simp add: sum_over_update) (auto simp: memory_ok_def mem_used_def mem_share_def AList.update_conv)
  qed
  moreover have "paymentIdentifier (snd e) = fst e \<and> reservation_ok (snd e) \<and> (\<exists>k. k \<noteq> [] \<and> map_of (dailyKeyOf ?s) (fst e) = Some k)"
    if "e \<in> set (reservations ?s)" for e
    using update_members [of e i r "reservations s"] that assms(1,4,5,7) by (auto simp: memory_ok_def AList.update_conv)
  ultimately show ?thesis by (simp add: memory_ok_def)
qed

lemma mem_write_same:
  assumes "memory_ok s" "map_of (reservations s) i = Some r" "paymentIdentifier r' = i" "reservation_ok r'" "held r' = held r"
  shows "memory_ok (s\<lparr>reservations := AList.update i r' (reservations s)\<rparr>)"
  using mem_write [OF assms(1-4), of "dailyUsage s"] assms(5) by (simp add: mem_used_def)

lemma mem_free:
  assumes "memory_ok s" "map_of (reservations s) i = Some r" "0 \<le> a" "a \<le> held r"
  shows "\<exists>d. releaseFromDaily r a s = s\<lparr>dailyUsage := d\<rparr>
    \<and> (\<forall>k. coalesce (map_of d k) 0 = mem_used k s - (if map_of (dailyKeyOf s) i = Some k then a else 0))"
proof -
  obtain k where k: "paymentIdentifier r = i" "k \<noteq> []" "map_of (dailyKeyOf s) i = Some k"
    using mem_entry [OF assms(1,2)] by blast
  have "a \<le> mem_used k s" using mem_held_used [OF assms(1,2) k(3)] assms(4) by simp
  then show ?thesis using k
    by (intro exI [of _ "AList.update k (mem_used k s - a) (dailyUsage s)"])
      (auto simp: releaseFromDaily_def mem_used_def Let_def AList.update_conv)
qed

lemma mem_transition:
  assumes "memory_ok s" "map_of (reservations s) i = Some r" "0 \<le> a" "a \<le> held r"
    and "paymentIdentifier r' = paymentIdentifier r" "reservation_ok r'" "held r' = held r - a"
    and "s1 = releaseFromDaily r a s \<or> (a = 0 \<and> s1 = s)" "s' = s1\<lparr>reservations := AList.update i r' (reservations s1)\<rparr>"
  shows "moves memory_ops memory_ok mem_used mem_holder s s' i r' (- a)"
proof -
  obtain d where d: "s1 = s\<lparr>dailyUsage := d\<rparr>"
      "\<And>k. coalesce (map_of d k) 0 = mem_used k s - (if map_of (dailyKeyOf s) i = Some k then a else 0)"
    using assms(8)
  proof
    assume "s1 = releaseFromDaily r a s"
    then show ?thesis using mem_free [OF assms(1-4)] that by force
  next
    assume "a = 0 \<and> s1 = s"
    then show ?thesis using that [of "dailyUsage s"] by (simp add: mem_used_def)
  qed
  have p: "paymentIdentifier r' = i" using mem_entry [OF assms(1,2)] assms(5) by simp
  have "memory_ok (s\<lparr>dailyUsage := d, reservations := AList.update i r' (reservations s)\<rparr>)"
    by (rule mem_write [OF assms(1,2) p assms(6)]) (simp add: d(2) assms(7))
  then show ?thesis using d [unfolded mem_used_def] assms(9)
    by (simp add: moves_def memory_ops_def mem_get_def mem_used_def mem_holder_def AList.update_conv)
qed

interpretation memory: budget_store memory_ops memory_ok daily_key mem_used mem_holder
proof unfold_locales
  show "used_today memory_ops day agent s = mem_used (daily_key agent day) s" for day agent s
    by (simp add: memory_ops_def mem_usedToday_def mem_used_def)
  show "memory_ok s \<Longrightarrow> 0 \<le> mem_used k s" for s k by (rule mem_used_nonneg)
  show "get_reservation memory_ops (in_identifier x) s = Some r \<Longrightarrow> reserve memory_ops day x lim s = (Inr r, s)" for x s r day lim
    by (simp add: memory_ops_def mem_reserve_def mem_get_def)
  show "reserve memory_ops day x lim s = (Inl e, s') \<Longrightarrow> s' = s" for day x lim s e s'
    by (auto simp: memory_ops_def mem_reserve_def Let_def split: option.splits if_splits)
next
  fix s x day lim r s'
  assume a: "memory_ok s" "get_reservation memory_ops (in_identifier x) s = None" "0 \<le> in_amount x"
    "reserve memory_ops day x lim s = (Inr r, s')"
  then have g: "mem_get (in_identifier x) s = None" "mem_reserve day x lim s = (Inr r, s')" by (simp_all add: memory_ops_def)
  have f: "r = new_reservation x" "in_amount x \<le> perCallMaxAtomic lim"
      "mem_used (daily_key (in_agent x) day) s + in_amount x \<le> sessionOrDayMaxAtomic lim"
      "s' = s\<lparr> dailyUsage := AList.update (daily_key (in_agent x) day) (mem_used (daily_key (in_agent x) day) s + in_amount x) (dailyUsage s),
         dailyKeyOf := AList.update (in_identifier x) (daily_key (in_agent x) day) (dailyKeyOf s),
         reservations := AList.update (in_identifier x) r (reservations s) \<rparr>"
    using mem_fresh [OF a(1) g(1) a(3) g(2)] by blast+
  have "memory_ok s'" unfolding f(4)
    by (rule mem_fresh_ok [OF a(1)]) (use g(1) a(3) in \<open>simp_all add: mem_get_def f(1) new_reservation_def reservation_ok_def held_def daily_key_nonempty\<close>)
  then show "r = new_reservation x \<and> memory_ok s' \<and> in_amount x \<le> perCallMaxAtomic lim
      \<and> mem_used (daily_key (in_agent x) day) s' \<le> sessionOrDayMaxAtomic lim
      \<and> get_reservation memory_ops (in_identifier x) s' = Some r \<and> mem_holder (in_identifier x) s' = Some (daily_key (in_agent x) day)
      \<and> (\<forall>j. j \<noteq> in_identifier x \<longrightarrow> get_reservation memory_ops j s' = get_reservation memory_ops j s)
      \<and> (\<forall>k. mem_used k s' = mem_used k s + (if k = daily_key (in_agent x) day then in_amount x else 0))"
    using f by (simp add: memory_ops_def mem_get_def mem_used_def mem_holder_def AList.update_conv)
next
  fix s i r a h assume a: "memory_ok s" "get_reservation memory_ops i s = Some r" "is_open r" "0 \<le> a" "a \<le> reservedAmount r"
  have g: "map_of (reservations s) i = Some r" using a(2) by (simp add: memory_ops_def mem_get_def)
  let ?r = "r\<lparr>rv_status := Settled, settledAmount := Some a, rv_hash := Some h\<rparr>"
  let ?s1 = "if reservedAmount r - a > 0 then releaseFromDaily r (reservedAmount r - a) s else s"
  let ?s' = "?s1\<lparr>reservations := AList.update i ?r (reservations ?s1)\<rparr>"
  have "moves memory_ops memory_ok mem_used mem_holder s ?s' i ?r (- (reservedAmount r - a))"
    by (rule mem_transition [OF a(1) g]) (use a mem_entry [OF a(1) g] held_open [OF a(3)] in \<open>auto simp: reservation_ok_def held_def\<close>)
  moreover have "reconcile memory_ops i a h s = (Inr ?r, ?s')"
    using g a(3) by (auto simp: memory_ops_def mem_reconcile_def Let_def is_open_def)
  ultimately show "\<exists>r' s'. reconcile memory_ops i a h s = (Inr r', s')
      \<and> same_terms_as r' (r\<lparr>rv_status := Settled, settledAmount := Some a\<rparr>)
      \<and> moves memory_ops memory_ok mem_used mem_holder s s' i r' (a - reservedAmount r)"
    by (intro exI [of _ ?r] exI [of _ ?s']) (simp add: same_terms_as_def)
next
  fix s i r assume a: "memory_ok s" "get_reservation memory_ops i s = Some r" "is_open r"
  have g: "map_of (reservations s) i = Some r" using a(2) by (simp add: memory_ops_def mem_get_def)
  let ?r = "r\<lparr>rv_status := Released\<rparr>" and ?s1 = "releaseFromDaily r (reservedAmount r) s"
  let ?s' = "?s1\<lparr>reservations := AList.update i ?r (reservations ?s1)\<rparr>"
  have pos: "0 \<le> reservedAmount r" using mem_entry [OF a(1) g] by (simp add: reservation_ok_def)
  have "moves memory_ops memory_ok mem_used mem_holder s ?s' i ?r (- reservedAmount r)"
    by (rule mem_transition [OF a(1) g]) (use pos a mem_entry [OF a(1) g] held_open [OF a(3)] in \<open>auto simp: reservation_ok_def held_def\<close>)
  moreover have "release memory_ops i s = (Inr ?r, ?s')"
    using g a(3) by (auto simp: memory_ops_def mem_release_def Let_def is_open_def)
  ultimately show "\<exists>r' s'. release memory_ops i s = (Inr r', s') \<and> same_terms_as r' (r\<lparr>rv_status := Released\<rparr>)
      \<and> moves memory_ops memory_ok mem_used mem_holder s s' i r' (- reservedAmount r)"
    by (intro exI [of _ ?r] exI [of _ ?s']) (simp add: same_terms_as_def)
next
  fix s i r oh assume a: "memory_ok s" "get_reservation memory_ops i s = Some r" "is_open r"
  have g: "map_of (reservations s) i = Some r" using a(2) by (simp add: memory_ops_def mem_get_def)
  let ?r = "r\<lparr>rv_status := UnknownStatus, rv_hash := (if truthy_str oh then oh else rv_hash r)\<rparr>"
  let ?s' = "s\<lparr>reservations := AList.update i ?r (reservations s)\<rparr>"
  have "moves memory_ops memory_ok mem_used mem_holder s ?s' i ?r (- 0)"
    by (rule mem_transition [OF a(1) g]) (use a mem_entry [OF a(1) g] held_open [OF a(3)] in \<open>auto simp: reservation_ok_def held_def\<close>)
  moreover have "mark_unknown memory_ops i oh s = (Inr ?r, ?s')"
    using g by (simp add: memory_ops_def mem_markUnknown_def Let_def)
  ultimately show "\<exists>r' s'. mark_unknown memory_ops i oh s = (Inr r', s') \<and> same_terms_as r' (r\<lparr>rv_status := UnknownStatus\<rparr>)
      \<and> moves memory_ops memory_ok mem_used mem_holder s s' i r' 0"
    by (intro exI [of _ ?r] exI [of _ ?s']) (simp add: same_terms_as_def)
qed

section \<open>The PostgreSQL store keeps the contract\<close>

definition row_id :: "budget_row \<Rightarrow> string" where
  "row_id b = paymentIdentifier (b_reservation b)"

definition row_key :: "budget_row \<Rightarrow> string \<times> string" where
  "row_key b = (b_agent b, b_day b)"

definition open_part :: "reservation \<Rightarrow> int" where
  "open_part r = (if is_open r then reservedAmount r else 0)"

definition spent_part :: "reservation \<Rightarrow> int" where
  "spent_part r = (if rv_status r = Settled then coalesce (settledAmount r) 0 else 0)"

lemma held_parts: "held r = open_part r + spent_part r"
  by (auto simp: held_def open_part_def spent_part_def is_open_def split: reservation_status.split)

definition share :: "(reservation \<Rightarrow> int) \<Rightarrow> string \<times> string \<Rightarrow> budget_row \<Rightarrow> int" where
  "share part k b = (if row_key b = k then part (b_reservation b) else 0)"

definition usage_at :: "((string \<times> string) \<times> usage_row) list \<Rightarrow> string \<times> string \<Rightarrow> usage_row" where
  "usage_at t k = coalesce (map_of t k) \<lparr> u_spent = 0, u_reserved = 0 \<rparr>"

definition pg_used :: "string \<times> string \<Rightarrow> postgres_budget \<Rightarrow> int" where
  "pg_used k s = u_spent (usage_at (mcp_budget_usage s) k) + u_reserved (usage_at (mcp_budget_usage s) k)"

definition pg_holder :: "string \<Rightarrow> postgres_budget \<Rightarrow> (string \<times> string) option" where
  "pg_holder i s = map_option row_key (row_of i s)"

definition pg_ok :: "postgres_budget \<Rightarrow> bool" where
  "pg_ok s = (distinct (map row_id (mcp_budget_reservations s)) \<and> distinct (map fst (mcp_budget_usage s))
     \<and> amounts_ok (mcp_budget_usage s)
     \<and> (\<forall>b \<in> set (mcp_budget_reservations s). 0 \<le> reservedAmount (b_reservation b) \<and> 0 \<le> spent_part (b_reservation b)
          \<and> row_key b \<in> fst ` set (mcp_budget_usage s))
     \<and> (\<forall>k. u_reserved (usage_at (mcp_budget_usage s) k) = sum_over (share open_part k) (mcp_budget_reservations s)
          \<and> u_spent (usage_at (mcp_budget_usage s) k) = sum_over (share spent_part k) (mcp_budget_reservations s)))"

lemma sum_over_update_where:
  "distinct (map row_id xs) \<Longrightarrow> find (\<lambda>b. row_id b = i) xs = Some x \<Longrightarrow>
   sum_over f (update_where (\<lambda>b. row_id b = i) g xs) = sum_over f xs - f x + f (g x)"
proof (induction xs)
  case (Cons y ys)
  show ?case
  proof (cases "row_id y = i")
    case True
    then have "\<forall>b \<in> set ys. row_id b \<noteq> i" using Cons.prems(1) by (auto simp: image_iff)
    then have "update_where (\<lambda>b. row_id b = i) g ys = ys" by (simp add: update_where_def map_idI)
    then show ?thesis using True Cons.prems(2) by (simp add: sum_over_def)
  next
    case False
    then show ?thesis using Cons by (simp add: sum_over_def)
  qed
qed simp

lemma map_of_update_entry:
  "map_of (update_where (\<lambda>e. fst e = k) (\<lambda>e. (fst e, g (snd e))) t) k' = (if k' = k then map_option g (map_of t k) else map_of t k')"
  by (induction t) auto

lemma usage_at_move:
  "row_key row \<in> fst ` set t \<Longrightarrow> usage_at (move_amounts row f sp t) k = (if k = row_key row
     then (usage_at t k)\<lparr>u_reserved := u_reserved (usage_at t k) - f, u_spent := u_spent (usage_at t k) + sp\<rparr> else usage_at t k)"
proof -
  assume "row_key row \<in> fst ` set t"
  then obtain u where "map_of t (row_key row) = Some u" by (metis dom_map_of_conv_image_fst domD)
  then show ?thesis
    using map_of_update_entry [of "row_key row" "\<lambda>u. u\<lparr>u_reserved := u_reserved u - f, u_spent := u_spent u + sp\<rparr>" t k]
    by (simp add: usage_at_def move_amounts_def row_key_def)
qed

lemma move_keys: "map fst (move_amounts row f sp t) = map fst t"
  unfolding move_amounts_def by (rule update_where_keys) simp

lemma usage_ok_at: "amounts_ok t \<Longrightarrow> 0 \<le> u_spent (usage_at t k) \<and> 0 \<le> u_reserved (usage_at t k)"
proof (cases "map_of t k")
  case (Some u)
  moreover assume "amounts_ok t"
  ultimately show ?thesis using map_of_SomeD [OF Some] by (auto simp: usage_at_def amounts_ok_def list_all_iff)
qed (simp add: usage_at_def)

lemma usage_ok_from_at: "distinct (map fst t) \<Longrightarrow> (\<And>k. 0 \<le> u_spent (usage_at t k) \<and> 0 \<le> u_reserved (usage_at t k)) \<Longrightarrow> amounts_ok t"
  unfolding amounts_ok_def list_all_iff
proof
  fix e assume d: "distinct (map fst t)" and a: "\<And>k. 0 \<le> u_spent (usage_at t k) \<and> 0 \<le> u_reserved (usage_at t k)" and e: "e \<in> set t"
  have "map_of t (fst e) = Some (snd e)" using d e by simp
  then show "0 \<le> u_spent (snd e) \<and> 0 \<le> u_reserved (snd e)" using a [of "fst e"] by (simp add: usage_at_def)
qed

lemma share_nonneg:
  "pg_ok s \<Longrightarrow> b \<in> set (mcp_budget_reservations s) \<Longrightarrow> 0 \<le> share open_part k b \<and> 0 \<le> share spent_part k b"
  by (auto simp: pg_ok_def share_def open_part_def)

lemma row_of_id: "row_of i s = find (\<lambda>b. row_id b = i) (mcp_budget_reservations s)"
  by (simp add: row_of_def row_id_def)

lemma row_of_member: "row_of i s = Some row \<Longrightarrow> row \<in> set (mcp_budget_reservations s) \<and> row_id row = i"
  by (auto simp: row_of_id find_Some_iff)

lemma find_update_row:
  "(\<And>b. row_id (g b) = row_id b) \<Longrightarrow> find (\<lambda>b. row_id b = j) (update_where (\<lambda>b. row_id b = i) g xs)
    = (if j = i then map_option g (find (\<lambda>b. row_id b = i) xs) else find (\<lambda>b. row_id b = j) xs)"
  by (induction xs) auto

lemma move_zero: "move_amounts row 0 0 t = t"
  by (simp add: move_amounts_def update_where_def map_idI)

lemma pg_transition:
  assumes ok: "pg_ok s" and row: "row_of i s = Some row" and r': "paymentIdentifier r' = i" "0 \<le> reservedAmount r'" "0 \<le> spent_part r'"
    and f: "f = open_part (b_reservation row) - open_part r'" and sp: "sp = spent_part r' - spent_part (b_reservation row)"
    and s': "s' = write_reservation i r' (s\<lparr>mcp_budget_usage := move_amounts row f sp (mcp_budget_usage s)\<rparr>)"
  shows "amounts_ok (move_amounts row f sp (mcp_budget_usage s))
    \<and> moves postgres_ops pg_ok pg_used pg_holder s s' i (toRecord (row\<lparr>b_reservation := r'\<rparr>)) (sp - f)"
proof -
  let ?rows = "mcp_budget_reservations s" and ?g = "\<lambda>b :: budget_row. b\<lparr>b_reservation := r'\<rparr>"
  let ?rows' = "update_where (\<lambda>b. row_id b = i) ?g ?rows" and ?t = "mcp_budget_usage s"
  let ?t' = "move_amounts row f sp ?t"
  have rows: "mcp_budget_reservations s' = ?rows'" "mcp_budget_usage s' = ?t'" by (simp_all add: s' write_reservation_def row_id_def)
  have mem: "row \<in> set ?rows" "row_id row = i" using row_of_member [OF row] by auto
  have key: "row_key row \<in> fst ` set ?t" using ok mem by (simp add: pg_ok_def)
  have fnd: "find (\<lambda>b. row_id b = i) ?rows = Some row" using row by (simp add: row_of_id)
  have dist: "distinct (map row_id ?rows)" using ok by (simp add: pg_ok_def)
  have g_id: "row_id (if row_id b = i then ?g b else b) = row_id b" for b by (simp add: row_id_def r'(1))
  have ids: "map row_id ?rows' = map row_id ?rows"
    unfolding update_where_def map_map by (rule map_cong [OF refl]) (simp add: row_id_def r'(1))
  have sums: "sum_over (share p k) ?rows' = sum_over (share p k) ?rows + (if row_key row = k then p r' - p (b_reservation row) else 0)" for p k
    using sum_over_update_where [OF dist fnd, of "share p k" ?g] by (simp add: share_def row_key_def)
  have at: "u_reserved (usage_at ?t' k) = sum_over (share open_part k) ?rows' \<and> u_spent (usage_at ?t' k) = sum_over (share spent_part k) ?rows'" for k
    using ok by (cases k) (simp add: sums usage_at_move [OF key] f sp pg_ok_def)
  have good: "0 \<le> reservedAmount (b_reservation b) \<and> 0 \<le> spent_part (b_reservation b) \<and> row_key b \<in> fst ` set ?t'" if "b \<in> set ?rows'" for b
  proof -
    have "fst ` set ?t' = fst ` set ?t" using move_keys [of row f sp ?t] by (metis set_map)
    then show ?thesis using that ok r' by (auto simp: update_where_def pg_ok_def row_key_def split: if_splits)
  qed
  have nn: "0 \<le> share open_part k b \<and> 0 \<le> share spent_part k b" if "b \<in> set ?rows'" for b k
    using good [OF that] by (simp add: share_def open_part_def)
  have uok: "amounts_ok ?t'"
    by (rule usage_ok_from_at) (use ok nn in \<open>auto simp: move_keys at pg_ok_def intro!: sum_over_nonneg\<close>)
  have "pg_ok s'" unfolding pg_ok_def rows using ok good at uok by (simp add: ids move_keys pg_ok_def)
  moreover have look: "row_of j s' = (if j = i then Some (?g row) else row_of j s)" for j
  proof -
    have "row_of j s' = find (\<lambda>b. row_id b = j) (update_where (\<lambda>b. row_id b = i) (\<lambda>b. if row_id b = i then ?g b else b) ?rows)"
      unfolding row_of_id rows by (rule arg_cong [where f = "find _"]) (simp add: update_where_def)
    also have "\<dots> = (if j = i then Some (?g row) else row_of j s)"
      using find_update_row [of "\<lambda>b. if row_id b = i then ?g b else b" j i ?rows, OF g_id] fnd mem(2)
      by (simp add: row_of_id)
    finally show ?thesis .
  qed
  ultimately show ?thesis using uok
    by (simp add: moves_def postgres_ops_def pg_get_def pg_used_def pg_holder_def rows row usage_at_move [OF key])
qed

definition opened :: "string \<times> string \<Rightarrow> ((string \<times> string) \<times> usage_row) list \<Rightarrow> ((string \<times> string) \<times> usage_row) list" where
  "opened k t = (if map_of t k = None then t @ [(k, \<lparr> u_spent = 0, u_reserved = 0 \<rparr>)] else t)"

definition row_for :: "string \<Rightarrow> reserve_input \<Rightarrow> budget_row" where
  "row_for day x = \<lparr> b_reservation = new_reservation x, b_agent = in_agent x, b_session = in_session x, b_day = day,
     b_ref = in_ref x, b_network = in_network x, b_asset = in_asset x, b_scheme = in_scheme x \<rparr>"

lemma opened_at: "usage_at (opened k t) k' = usage_at t k'"
  by (auto simp: opened_def usage_at_def map_add_def split: option.split)

lemma opened_known: "the (map_of (opened k t) k) = usage_at t k"
  by (auto simp: opened_def usage_at_def map_add_def split: option.split)

lemma opened_keys:
  "fst ` set (opened k t) = insert k (fst ` set t) \<and> (distinct (map fst t) \<longrightarrow> distinct (map fst (opened k t)))"
  by (auto simp: opened_def map_of_eq_None_iff image_iff dest: map_of_SomeD)

lemma pg_reserve_cases:
  assumes "row_of (in_identifier x) s = None"
  shows "pg_reserve day x lim s = (let k = (in_agent x, day) in
     if in_amount x > perCallMaxAtomic lim
     then (Inl (per_call_exceeded x lim), s)
     else if pg_used k s + in_amount x > sessionOrDayMaxAtomic lim
     then (Inl (day_exceeded ''committed'' (pg_used k s) x lim), s)
     else if in_amount x < 0 then (Inl check_violation, s)
     else (Inr (new_reservation x), s\<lparr> mcp_budget_usage := move_amounts (row_for day x) (- in_amount x) 0 (opened k (mcp_budget_usage s)),
        mcp_budget_reservations := mcp_budget_reservations s @ [row_for day x] \<rparr>))"
  unfolding pg_reserve_def [folded opened_def row_for_def] Let_def assms option.case opened_known
  by (simp add: pg_used_def move_amounts_def row_for_def)

lemma pg_fresh:
  assumes ok: "pg_ok s" and new: "row_of (in_identifier x) s = None" and pos: "0 \<le> in_amount x"
    and run: "pg_reserve day x lim s = (Inr r, s')"
  shows "r = new_reservation x \<and> pg_ok s' \<and> in_amount x \<le> perCallMaxAtomic lim
    \<and> pg_used (in_agent x, day) s' \<le> sessionOrDayMaxAtomic lim
    \<and> pg_get (in_identifier x) s' = Some r \<and> pg_holder (in_identifier x) s' = Some (in_agent x, day)
    \<and> (\<forall>j. j \<noteq> in_identifier x \<longrightarrow> pg_get j s' = pg_get j s)
    \<and> (\<forall>k. pg_used k s' = pg_used k s + (if k = (in_agent x, day) then in_amount x else 0))"
proof -
  let ?k = "(in_agent x, day)" and ?t = "mcp_budget_usage s" and ?rows = "mcp_budget_reservations s"
  define b where "b = row_for day x"
  define t' where "t' = move_amounts b (- in_amount x) 0 (opened ?k ?t)"
  have kb: "row_key b = ?k" by (simp add: b_def row_for_def row_key_def)
  have r: "r = new_reservation x" "in_amount x \<le> perCallMaxAtomic lim"
      "pg_used ?k s + in_amount x \<le> sessionOrDayMaxAtomic lim"
      and s': "s' = s\<lparr>mcp_budget_usage := t', mcp_budget_reservations := ?rows @ [b]\<rparr>"
    using run unfolding pg_reserve_cases [OF new] t'_def b_def by (simp_all add: Let_def split: if_split_asm)
  have keys: "fst ` set t' = insert ?k (fst ` set ?t)" "distinct (map fst t')"
    using ok move_keys [of b "- in_amount x" 0 "opened ?k ?t"] opened_keys [where k = ?k and t = ?t]
    by (metis set_map t'_def, simp add: t'_def move_keys pg_ok_def)
  have at: "usage_at t' k = (if k = ?k then (usage_at ?t k)\<lparr>u_reserved := u_reserved (usage_at ?t k) + in_amount x\<rparr> else usage_at ?t k)" for k
    unfolding t'_def using usage_at_move [of b "opened ?k ?t" "- in_amount x" 0 k] kb by (simp add: opened_at opened_keys)
  have nb: "b_reservation b = new_reservation x" "row_id b = in_identifier x" by (simp_all add: b_def row_for_def row_id_def new_reservation_def)
  have parts: "open_part (new_reservation x) = in_amount x" "spent_part (new_reservation x) = 0"
    by (simp_all add: open_part_def spent_part_def new_reservation_def is_open_def)
  have "pg_ok s'"
  proof -
    have "in_identifier x \<notin> row_id ` set ?rows" using new by (auto simp: row_of_id find_None_iff)
    moreover have "amounts_ok t'"
    proof (rule usage_ok_from_at [OF keys(2)])
      have "amounts_ok ?t" using ok by (simp add: pg_ok_def)
      then show "0 \<le> u_spent (usage_at t' k) \<and> 0 \<le> u_reserved (usage_at t' k)" for k
        using pos usage_ok_at [of ?t k] by (simp add: at) auto
    qed
    ultimately have "pg_ok (s\<lparr>mcp_budget_usage := t', mcp_budget_reservations := ?rows @ [b]\<rparr>)" using ok pos keys
      unfolding pg_ok_def by (simp add: nb at sum_over_def share_def kb parts) (simp add: new_reservation_def)
    then show ?thesis by (simp add: s')
  qed
  moreover have "row_of j s' = (if j = in_identifier x then Some b else row_of j s)" for j
    using new by (auto simp: row_of_id s' find_append nb split: option.split)
  moreover have "toRecord b = new_reservation x" by (simp add: toRecord_def b_def row_for_def new_reservation_def truthy_str_def)
  ultimately show ?thesis using r by (simp add: pg_get_def pg_holder_def kb pg_used_def at s')
qed

lemma pg_row_ok:
  "pg_ok s \<Longrightarrow> row_of i s = Some row \<Longrightarrow> paymentIdentifier (b_reservation row) = i \<and> 0 \<le> reservedAmount (b_reservation row)"
  using row_of_member [of i s row] by (auto simp: pg_ok_def row_id_def)

lemma toRecord_fields:
  "is_open (toRecord row) = is_open (b_reservation row)" "reservedAmount (toRecord row) = reservedAmount (b_reservation row)"
  "same_terms_as (toRecord (row\<lparr>b_reservation := (b_reservation row)\<lparr>rv_status := st, rv_hash := h\<rparr>\<rparr>)) ((toRecord row)\<lparr>rv_status := st\<rparr>)"
  "same_terms_as (toRecord (row\<lparr>b_reservation := (b_reservation row)\<lparr>rv_status := st, settledAmount := a, rv_hash := h\<rparr>\<rparr>))
     ((toRecord row)\<lparr>rv_status := st, settledAmount := a\<rparr>)"
  "same_terms_as (toRecord (row\<lparr>b_reservation := (b_reservation row)\<lparr>rv_status := st\<rparr>\<rparr>)) ((toRecord row)\<lparr>rv_status := st\<rparr>)"
  by (simp_all add: toRecord_def Let_def is_open_def same_terms_as_def)

interpretation postgres: budget_store postgres_ops pg_ok Pair pg_used pg_holder
proof unfold_locales
  show "used_today postgres_ops day agent s = pg_used (agent, day) s" for day agent s
    by (simp add: postgres_ops_def pg_usedToday_def pg_used_def usage_at_def split: option.split)
  show "pg_ok s \<Longrightarrow> 0 \<le> pg_used k s" for s k
    using usage_ok_at [of "mcp_budget_usage s" k] by (simp add: pg_used_def pg_ok_def)
  show "get_reservation postgres_ops (in_identifier x) s = Some r \<Longrightarrow> in_amount x \<le> perCallMaxAtomic lim \<Longrightarrow>
      reserve postgres_ops day x lim s = (Inr r, s)" for x s r lim day
    by (auto simp: postgres_ops_def pg_reserve_def pg_get_def)
  show "reserve postgres_ops day x lim s = (Inl e, s') \<Longrightarrow> s' = s" for day x lim s e s'
    unfolding postgres_ops_def budget_ops.select_convs pg_reserve_def Let_def by (simp split: option.split_asm if_split_asm)
next
  fix s x day lim r s'
  assume a: "pg_ok s" "get_reservation postgres_ops (in_identifier x) s = None" "0 \<le> in_amount x"
    "reserve postgres_ops day x lim s = (Inr r, s')"
  then show "r = new_reservation x \<and> pg_ok s' \<and> in_amount x \<le> perCallMaxAtomic lim
      \<and> pg_used (in_agent x, day) s' \<le> sessionOrDayMaxAtomic lim
      \<and> get_reservation postgres_ops (in_identifier x) s' = Some r \<and> pg_holder (in_identifier x) s' = Some (in_agent x, day)
      \<and> (\<forall>j. j \<noteq> in_identifier x \<longrightarrow> get_reservation postgres_ops j s' = get_reservation postgres_ops j s)
      \<and> (\<forall>k. pg_used k s' = pg_used k s + (if k = (in_agent x, day) then in_amount x else 0))"
    unfolding postgres_ops_def budget_ops.select_convs by (intro pg_fresh) (simp_all add: pg_get_def)
next
  fix s i r a h assume a: "pg_ok s" "get_reservation postgres_ops i s = Some r" "is_open r" "0 \<le> a" "a \<le> reservedAmount r"
  then obtain row where row: "row_of i s = Some row" "r = toRecord row" by (auto simp: postgres_ops_def pg_get_def)
  let ?b = "b_reservation row" and ?r = "(b_reservation row)\<lparr>rv_status := Settled, settledAmount := Some a, rv_hash := Some h\<rparr>"
  let ?t = "move_amounts row (reservedAmount ?b) a (mcp_budget_usage s)"
  have o: "is_open ?b" using a(3) by (simp add: row toRecord_fields)
  have m: "amounts_ok ?t \<and> moves postgres_ops pg_ok pg_used pg_holder s (write_reservation i ?r (s\<lparr>mcp_budget_usage := ?t\<rparr>)) i
      (toRecord (row\<lparr>b_reservation := ?r\<rparr>)) (a - reservedAmount ?b)"
    by (rule pg_transition [OF a(1) row(1)])
      (use o a pg_row_ok [OF a(1) row(1)] in \<open>auto simp: open_part_def spent_part_def is_open_def\<close>)
  have "reconcile postgres_ops i a h s = (Inr (toRecord (row\<lparr>b_reservation := ?r\<rparr>)), write_reservation i ?r (s\<lparr>mcp_budget_usage := ?t\<rparr>))"
    using o m row by (auto simp: postgres_ops_def pg_reconcile_def Let_def is_open_def)
  then show "\<exists>r' s'. reconcile postgres_ops i a h s = (Inr r', s')
      \<and> same_terms_as r' (r\<lparr>rv_status := Settled, settledAmount := Some a\<rparr>)
      \<and> moves postgres_ops pg_ok pg_used pg_holder s s' i r' (a - reservedAmount r)"
    using m by (simp add: row toRecord_fields)
next
  fix s i r assume a: "pg_ok s" "get_reservation postgres_ops i s = Some r" "is_open r"
  then obtain row where row: "row_of i s = Some row" "r = toRecord row" by (auto simp: postgres_ops_def pg_get_def)
  let ?b = "b_reservation row" and ?r = "(b_reservation row)\<lparr>rv_status := Released\<rparr>"
  let ?t = "move_amounts row (reservedAmount ?b) 0 (mcp_budget_usage s)"
  have o: "is_open ?b" using a(3) by (simp add: row toRecord_fields)
  have m: "amounts_ok ?t \<and> moves postgres_ops pg_ok pg_used pg_holder s (write_reservation i ?r (s\<lparr>mcp_budget_usage := ?t\<rparr>)) i
      (toRecord (row\<lparr>b_reservation := ?r\<rparr>)) (0 - reservedAmount ?b)"
    by (rule pg_transition [OF a(1) row(1)])
      (use o a pg_row_ok [OF a(1) row(1)] in \<open>auto simp: open_part_def spent_part_def is_open_def\<close>)
  have "release postgres_ops i s = (Inr (toRecord (row\<lparr>b_reservation := ?r\<rparr>)), write_reservation i ?r (s\<lparr>mcp_budget_usage := ?t\<rparr>))"
    using o m row by (auto simp: postgres_ops_def pg_release_def Let_def is_open_def)
  then show "\<exists>r' s'. release postgres_ops i s = (Inr r', s') \<and> same_terms_as r' (r\<lparr>rv_status := Released\<rparr>)
      \<and> moves postgres_ops pg_ok pg_used pg_holder s s' i r' (- reservedAmount r)"
    using m by (simp add: row toRecord_fields)
next
  fix s i r oh assume a: "pg_ok s" "get_reservation postgres_ops i s = Some r" "is_open r"
  then obtain row where row: "row_of i s = Some row" "r = toRecord row" by (auto simp: postgres_ops_def pg_get_def)
  let ?b = "b_reservation row"
  let ?r = "?b\<lparr>rv_status := UnknownStatus, rv_hash := (case oh of Some t \<Rightarrow> Some t | None \<Rightarrow> rv_hash ?b)\<rparr>"
  have o: "is_open ?b" using a(3) by (simp add: row toRecord_fields)
  have m: "amounts_ok (move_amounts row 0 0 (mcp_budget_usage s)) \<and> moves postgres_ops pg_ok pg_used pg_holder s
      (write_reservation i ?r s) i (toRecord (row\<lparr>b_reservation := ?r\<rparr>)) (0 - 0)"
    by (rule pg_transition [OF a(1) row(1)])
      (use o a pg_row_ok [OF a(1) row(1)] in \<open>auto simp: open_part_def spent_part_def is_open_def move_zero\<close>)
  have "mark_unknown postgres_ops i oh s = (Inr (toRecord (row\<lparr>b_reservation := ?r\<rparr>)), write_reservation i ?r s)"
    using row by (simp add: postgres_ops_def pg_markUnknown_def Let_def)
  then show "\<exists>r' s'. mark_unknown postgres_ops i oh s = (Inr r', s') \<and> same_terms_as r' (r\<lparr>rv_status := UnknownStatus\<rparr>)
      \<and> moves postgres_ops pg_ok pg_used pg_holder s s' i r' 0"
    using m by (simp add: row toRecord_fields)
qed

end
