(* ===== verification/Call_Resource_Laws.thy ===== *)
theory Call_Resource_Laws
  imports Call_Resource Mcp_Budget_Laws
begin

text \<open>
  What a call does to the budget store, in terms of the operations of \<open>BudgetStore\<close> alone, and from that,
  inside the locale \<open>budget_store\<close>, what it does to the usage of an agent; and which effects outside the
  process a call can have (\<open>spares\<close>).
\<close>

section \<open>Calls as runs of store operations\<close>

text \<open>What becomes of a reservation after it was made.\<close>

datatype payment_outcome = Held | Freed | Unsure "string option" | Spent int string

definition apply_outcome :: "'s budget_ops \<Rightarrow> string \<Rightarrow> payment_outcome \<Rightarrow> 's \<Rightarrow> 's" where
  "apply_outcome ops i out s = (case out of Held \<Rightarrow> s | Freed \<Rightarrow> snd (release ops i s)
     | Unsure h \<Rightarrow> snd (mark_unknown ops i h s) | Spent n h \<Rightarrow> snd (reconcile ops i n h s))"

text \<open>A call without a reservation, or a reservation for \<open>required\<close> under the caller's limit and its outcome.\<close>

datatype payment_run = NotReserved | Run (run_id: string) (run_required: int) (run_max: int) (run_outcome: payment_outcome)

definition payment_path :: "'s budget_ops \<Rightarrow> call_deps \<Rightarrow> call_args \<Rightarrow> payment_run \<Rightarrow> 's \<Rightarrow> 's \<Rightarrow> bool" where
  "payment_path ops d a run s s' = (case run of
     NotReserved \<Rightarrow> s' = s \<or> (\<exists>day0 day x e. reserveForCall ops day0 day x s = (Inl e, s'))
   | Run i required m out \<Rightarrow> js_BigInt (ca_maxAtomicAmount a) = Some m \<and>
       (\<exists>day0 day r s1. reserveForCall ops day0 day (call_input_of d a i required m) s = (Inr r, s1)
         \<and> s' = apply_outcome ops i out s1))"

lemma io_bind_cases:
  assumes "io_bind m k w = (r, w')"
  obtains (threw) e where "m w = (Inl e, w')" "r = Inl e" | (went_on) x w1 where "m w = (Inr x, w1)" "k x w1 = (r, w')"
  using assms by (auto simp: io_bind_def split: prod.splits sum.splits)

lemma on_ext_frame: "on_ext m w = (r, w') \<Longrightarrow> w_store w' = w_store w \<and> w_claimed w' = w_claimed w"
  by (auto simp: on_ext_def split: prod.splits)

lemma on_store_frame: "on_store m w = (r, w') \<Longrightarrow> m (w_store w) = (r, w_store w') \<and> w_claimed w' = w_claimed w \<and> w_ext w' = w_ext w"
  by (auto simp: on_store_def split: prod.splits)

lemma lift_sum_frame: "lift_sum m w = (r, w') \<Longrightarrow> w' = w \<and> r = m"
  by (simp add: lift_sum_def)

lemma ignore_store:
  "ignore (on_store m) (io_throw e) w = (r, w') \<Longrightarrow> w_store w' = snd (m (w_store w)) \<and> w_claimed w' = w_claimed w \<and> (\<exists>e'. r = Inl e')"
  by (auto simp: ignore_def on_store_def io_bind_def split: prod.splits sum.splits)

lemma sign_store:
  assumes "sign_payment P ops a challenge acc i signer w = (r, w')"
  shows "w_claimed w' = w_claimed w
    \<and> (if \<exists>x. r = Inr x then w_store w' = w_store w \<and> ca_scheme a = ''exact'' else w_store w' = apply_outcome ops i Freed (w_store w))"
proof -
  obtain r1 w1 where 1: "on_ext (build_payload P a challenge acc signer) w = (r1, w1)" by fastforce
  note f = on_ext_frame [OF 1]
  have ex: "ca_scheme a = ''exact''" if "r1 = Inr x" for x
    using 1 that by (auto simp: on_ext_def build_payload_def buildSchemeRegistry_def resolveScheme_def
      split: prod.splits if_splits elim!: io_bind_InrE)
  show ?thesis
  proof (cases r1)
    case (Inl e)
    then show ?thesis using assms 1 f by (auto simp: sign_payment_def io_catch_def apply_outcome_def dest!: ignore_store)
  next
    case (Inr x)
    then show ?thesis using assms 1 f ex by (auto simp: sign_payment_def io_catch_def)
  qed
qed

lemma pay_store:
  assumes "pay P ops a tool i payload bound w = (r, w')"
  shows "w_claimed w' = w_claimed w \<and> (if \<exists>x. r = Inr x then w_store w' = w_store w else w_store w' = apply_outcome ops i (Unsure None) (w_store w))"
proof -
  obtain r1 w1 where 1: "on_ext (pf_callTool P bound (attachPaymentToMeta P (tool_params tool a) payload)) w = (r1, w1)" by fastforce
  note f = on_ext_frame [OF 1]
  show ?thesis
  proof (cases r1)
    case (Inl e)
    then show ?thesis using assms 1 f by (auto simp: pay_def io_catch_def apply_outcome_def dest!: ignore_store)
  next
    case (Inr x)
    then show ?thesis using assms 1 f by (auto simp: pay_def io_catch_def)
  qed
qed

lemma settle_store:
  assumes "settle_payment P ops a versionHash i required acc signer paidRaw w = (r, w')"
  shows "w_claimed w' = w_claimed w \<and> (\<exists>out. w_store w' = apply_outcome ops i out (w_store w)
    \<and> (\<forall>res. r = Inr res \<longrightarrow> rc_paymentIdentifier (co_receipt res) = i \<and> rc_authorizedAmount (co_receipt res) = required
        \<and> (\<exists>h. out = Spent (rc_settledAmount (co_receipt res)) h)))"
proof -
  have freed: ?thesis if "ignore (on_store (release ops i)) (io_throw e) w = (r, w')" for e
    using ignore_store [OF that] by (auto simp: apply_outcome_def intro!: exI [of _ Freed])
  have unsure: ?thesis if "ignore (on_store (mark_unknown ops i h)) (io_throw e) w = (r, w')" for e h
    using ignore_store [OF that] by (auto simp: apply_outcome_def intro!: exI [of _ "Unsure h"])
  show ?thesis
  proof (cases "extractPaymentResponse P paidRaw")
    case None
    then show ?thesis using assms freed unsure by (auto simp: settle_payment_def split: if_splits)
  next
    case (Some response)
    show ?thesis
    proof (cases "js_truthy (js_get response ''success'') \<and> \<not> settlement_mismatch a signer response")
      case False
      then show ?thesis using assms Some freed unsure by (auto simp: settle_payment_def split: if_splits)
    next
      case True
      let ?h = "settled_transaction (js_get response ''transaction'')"
      obtain n where n: "to_big_int (or_nullish (js_get response ''amount'') (js_get acc ''amount'')) = n" by simp
      show ?thesis
      proof (cases n)
        case (Inl e)
        then show ?thesis using assms Some True n
          by (auto simp: settle_payment_def io_bind_def apply_outcome_def intro!: exI [of _ Held])
      next
        case (Inr amnt)
        obtain r1 w1 where 1: "on_store (reconcile ops i amnt ?h) w = (r1, w1)" by fastforce
        show ?thesis using assms Some True n Inr 1 on_store_frame [OF 1]
          by (cases r1) (auto simp: settle_payment_def io_bind_def apply_outcome_def receipt_for_def intro!: exI [of _ "Spent amnt ?h"])
      qed
    qed
  qed
qed


lemma try_claim_frame:
  "try_claim i w = (r, w') \<Longrightarrow> w_store w' = w_store w \<and> w_claimed w' = insert i (w_claimed w) \<and> r = Inr (i \<notin> w_claimed w)"
  by (auto simp: try_claim_def guard_claim_def split: prod.splits if_splits)

lemma not_reserved_same: "payment_path ops d a NotReserved s s"
  by (simp add: payment_path_def)

lemma big_int_some: "big_int_or_throw s = Inr n \<longleftrightarrow> js_BigInt s = Some n"
  by (simp add: big_int_or_throw_def split: option.split)

lemma reserve_store:
  assumes "reserve_payment P d ops a versionHash acc w = (r, w')"
  shows "w_claimed w \<subseteq> w_claimed w' \<and> (case r of
      Inl e \<Rightarrow> payment_path ops d a NotReserved (w_store w) (w_store w')
    | Inr (i, required) \<Rightarrow> i \<notin> w_claimed w \<and> i \<in> w_claimed w' \<and> (\<exists>m day0 day rv. js_BigInt (ca_maxAtomicAmount a) = Some m
        \<and> reserveForCall ops day0 day (call_input_of d a i required m) (w_store w) = (Inr rv, w_store w')))"
  using assms unfolding reserve_payment_def Let_def
  by (elim io_bind_cases)
    (auto simp: payment_path_def big_int_some split: if_splits elim!: io_bind_cases
      dest!: lift_sum_frame on_ext_frame try_claim_frame on_store_frame, blast)

text \<open>The parts before the signature do not depend on what signing does.\<close>

lemma no_payload_yet:
  "resolve_version (P\<lparr>pf_createPayload := g\<rparr>) d a = resolve_version P d a"
  "connect_version (P\<lparr>pf_createPayload := g\<rparr>) d r = connect_version P d r"
  "challenged (P\<lparr>pf_createPayload := g\<rparr>) a i tool r b = challenged P a i tool r b"
  "reserve_payment (P\<lparr>pf_createPayload := g\<rparr>) d ops a v acc = reserve_payment P d ops a v acc"
  by (simp_all add: resolve_version_def connect_version_def challenged_def reserve_payment_def identifier_of_def Let_def
      cong: if_cong option.case_cong)

lemma paid_call_path:
  assumes "paid_call P d ops a i tool resource versionHash provider bound w = (res, w')"
  shows "w_claimed w \<subseteq> w_claimed w' \<and> (\<exists>run. payment_path ops d a run (w_store w) (w_store w')
    \<and> (\<forall>pid required m out. run = Run pid required m out \<longrightarrow> pid \<notin> w_claimed w \<and> pid \<in> w_claimed w'
        \<and> (\<forall>n h. out = Spent n h \<longrightarrow> ca_scheme a = ''exact''))
    \<and> (run = NotReserved \<longrightarrow> (\<forall>g. paid_call (P\<lparr>pf_createPayload := g\<rparr>) d ops a i tool resource versionHash provider bound w = (res, w')))
    \<and> (\<forall>out. res = Inr out \<longrightarrow> (\<exists>m h. run = Run (rc_paymentIdentifier (co_receipt out)) (rc_authorizedAmount (co_receipt out)) m
          (Spent (rc_settledAmount (co_receipt out)) h))))"
  using assms [unfolded paid_call_def]
proof (cases rule: io_bind_cases)
  case (threw e)
  then show ?thesis using on_ext_frame [of _ w "Inl e" w']
    by (intro conjI exI [of _ NotReserved]) (auto simp: not_reserved_same paid_call_def no_payload_yet io_bind_def)
next
  case (went_on x w1)
  obtain challenge acc where x: "x = (challenge, acc)" by (cases x)
  have f1: "w_store w1 = w_store w" "w_claimed w1 = w_claimed w" using on_ext_frame [OF went_on(1)] by auto
  have before: "on_ext (challenged P a i tool resource bound) w = (Inr (challenge, acc), w1)" using went_on(1) x by simp
  from went_on(2) [unfolded x prod.case] show ?thesis
  proof (cases rule: io_bind_cases)
    case (threw e)
    then show ?thesis using reserve_store [OF threw(1)] f1 before
      by (intro conjI exI [of _ NotReserved]) (auto simp: paid_call_def no_payload_yet io_bind_def)
  next
    case (went_on y w2)
    obtain pid required where y: "y = (pid, required)" by (cases y)
    obtain m day0 day rv where r: "w_claimed w \<subseteq> w_claimed w2" "pid \<notin> w_claimed w" "pid \<in> w_claimed w2"
        "js_BigInt (ca_maxAtomicAmount a) = Some m"
        "reserveForCall ops day0 day (call_input_of d a pid required m) (w_store w) = (Inr rv, w_store w2)"
      using reserve_store [OF went_on(1)] y f1 by auto
    have path: "payment_path ops d a (Run pid required m out) (w_store w) (apply_outcome ops pid out (w_store w2))" for out
      using r(4,5) by (auto simp: payment_path_def)
    have held: "payment_path ops d a (Run pid required m Held) (w_store w) (w_store w2)" using path [of Held] by (simp add: apply_outcome_def)
    from went_on(2) [unfolded y prod.case] show ?thesis
    proof (cases rule: io_bind_cases)
      case (threw e)
      then show ?thesis using on_ext_frame [OF threw(1)] r held
        by (intro conjI exI [of _ "Run pid required m Held"]) auto
    next
      case (went_on signer w3)
      have f3: "w_store w3 = w_store w2" "w_claimed w3 = w_claimed w2" using on_ext_frame [OF went_on(1)] by auto
      from went_on(2) show ?thesis
      proof (cases rule: io_bind_cases)
        case (threw e)
        then show ?thesis using sign_store [OF threw(1)] f3 r path [of Freed]
          by (intro conjI exI [of _ "Run pid required m Freed"]) auto
      next
        case (went_on payload w4)
        have f4: "w_store w4 = w_store w2" "w_claimed w4 = w_claimed w2" "ca_scheme a = ''exact''"
          using sign_store [OF went_on(1)] f3 by auto
        from went_on(2) show ?thesis
        proof (cases rule: io_bind_cases)
          case (threw e)
          then show ?thesis using pay_store [OF threw(1)] f4 r path [of "Unsure None"]
            by (intro conjI exI [of _ "Run pid required m (Unsure None)"]) auto
        next
          case (went_on raw w5)
          have f5: "w_store w5 = w_store w2" "w_claimed w5 = w_claimed w2" using pay_store [OF went_on(1)] f4 by auto
          obtain out where out: "w_claimed w' = w_claimed w5" "w_store w' = apply_outcome ops pid out (w_store w5)"
              "\<forall>x. res = Inr x \<longrightarrow> rc_paymentIdentifier (co_receipt x) = pid \<and> rc_authorizedAmount (co_receipt x) = required
                \<and> (\<exists>h. out = Spent (rc_settledAmount (co_receipt x)) h)"
            using settle_store [OF went_on(2)] by blast
          show ?thesis using out f4(3) f5 r path [of out] by (intro conjI exI [of _ "Run pid required m out"]) auto
        qed
      qed
    qed
  qed
qed

lemma call_path:
  assumes "callResource P d ops a w = (res, w')"
  shows "w_claimed w \<subseteq> w_claimed w' \<and> (\<exists>run. payment_path ops d a run (w_store w) (w_store w')
    \<and> (\<forall>pid required m out. run = Run pid required m out \<longrightarrow> pid \<notin> w_claimed w \<and> pid \<in> w_claimed w'
        \<and> (\<forall>n h. out = Spent n h \<longrightarrow> ca_scheme a = ''exact''))
    \<and> (run = NotReserved \<longrightarrow> (\<forall>g. callResource (P\<lparr>pf_createPayload := g\<rparr>) d ops a w = (res, w')))
    \<and> (\<forall>out. res = Inr out \<longrightarrow> (\<exists>m h. run = Run (rc_paymentIdentifier (co_receipt out)) (rc_authorizedAmount (co_receipt out)) m
          (Spent (rc_settledAmount (co_receipt out)) h))))"
  using assms [unfolded callResource_def]
proof (cases rule: io_bind_cases)
  case (threw e)
  then show ?thesis using on_ext_frame [OF threw(1)]
    by (intro conjI exI [of _ NotReserved]) (auto simp: not_reserved_same callResource_def no_payload_yet io_bind_def)
next
  case (went_on x w1)
  obtain i tool resource versionHash provider where x: "x = (i, tool, resource, versionHash, provider)" by (cases x)
  have f1: "w_store w1 = w_store w" "w_claimed w1 = w_claimed w" using on_ext_frame [OF went_on(1)] by auto
  have first: "on_ext (resolve_version P d a) w = (Inr (i, tool, resource, versionHash, provider), w1)" using went_on(1) x by simp
  from went_on(2) [unfolded x prod.case] show ?thesis
  proof (cases rule: io_bind_cases)
    case (threw e)
    then show ?thesis using on_ext_frame [OF threw(1)] f1 first
      by (intro conjI exI [of _ NotReserved]) (auto simp: not_reserved_same callResource_def no_payload_yet io_bind_def)
  next
    case (went_on bound w2)
    have f2: "w_store w2 = w_store w" "w_claimed w2 = w_claimed w" using on_ext_frame [OF went_on(1)] f1 by auto
    obtain r3 w3 where 3: "paid_call P d ops a i tool resource versionHash provider bound w2 = (r3, w3)" by fastforce
    obtain r4 w4 where 4: "on_ext (pf_close P bound) w3 = (r4, w4)" by fastforce
    have "w' = w4 \<and> (\<forall>out. res = Inr out \<longrightarrow> r3 = Inr out)"
      using went_on(2) 3 4 by (cases r4) (auto simp: io_finally_def)
    then have res: "w' = w4" "\<forall>out. res = Inr out \<longrightarrow> r3 = Inr out" by auto
    have again: "callResource (P\<lparr>pf_createPayload := g\<rparr>) d ops a w = (res, w')"
      if "paid_call (P\<lparr>pf_createPayload := g\<rparr>) d ops a i tool resource versionHash provider bound w2 = (r3, w3)" for g
      using that first went_on 3 4 by (simp add: callResource_def no_payload_yet io_bind_def io_finally_def)
    obtain run where p: "w_claimed w2 \<subseteq> w_claimed w3" "payment_path ops d a run (w_store w2) (w_store w3)"
        "\<forall>pid required m out. run = Run pid required m out \<longrightarrow> pid \<notin> w_claimed w2 \<and> pid \<in> w_claimed w3
          \<and> (\<forall>n h. out = Spent n h \<longrightarrow> ca_scheme a = ''exact'')"
        "run = NotReserved \<longrightarrow> (\<forall>g. paid_call (P\<lparr>pf_createPayload := g\<rparr>) d ops a i tool resource versionHash provider bound w2 = (r3, w3))"
        "\<forall>out. r3 = Inr out \<longrightarrow> (\<exists>m h. run = Run (rc_paymentIdentifier (co_receipt out)) (rc_authorizedAmount (co_receipt out)) m
            (Spent (rc_settledAmount (co_receipt out)) h))"
      using paid_call_path [OF 3] by blast
    then show ?thesis using on_ext_frame [OF 4] f2 res again by (intro conjI exI [of _ run]) simp_all
  qed
qed


section \<open>What a run does to the budget\<close>

definition outcome_status :: "payment_outcome \<Rightarrow> reservation_status" where
  "outcome_status out = (case out of Held \<Rightarrow> Reserved | Freed \<Rightarrow> Released | Unsure _ \<Rightarrow> UnknownStatus | Spent _ _ \<Rightarrow> Settled)"

text \<open>The required amount is no negative number, and the reported amount is within it.\<close>

definition fair_run :: "payment_run \<Rightarrow> bool" where
  "fair_run run = (case run of NotReserved \<Rightarrow> True
     | Run _ required _ out \<Rightarrow> 0 \<le> required \<and> (case out of Spent n _ \<Rightarrow> 0 \<le> n \<and> n \<le> required | _ \<Rightarrow> True))"

definition spent_is_exact :: "call_args \<Rightarrow> payment_run \<Rightarrow> bool" where
  "spent_is_exact a run = (\<forall>i required m n h. run = Run i required m (Spent n h) \<longrightarrow> ca_scheme a = ''exact'')"

text \<open>
  The reservation of a run holds what the usage of the agent grew by; it is within the limits of the
  call and the day, has the status of the outcome, and no other reservation changed.
\<close>

definition accounted :: "'s budget_ops \<Rightarrow> ('k \<Rightarrow> 's \<Rightarrow> int) \<Rightarrow> (string \<Rightarrow> string \<Rightarrow> 'k) \<Rightarrow> call_deps \<Rightarrow> call_args \<Rightarrow> payment_run \<Rightarrow> 's \<Rightarrow> 's \<Rightarrow> bool" where
  "accounted ops used key_of d a run s s' = (case run of NotReserved \<Rightarrow> s' = s
     | Run i required m out \<Rightarrow> \<exists>day r. get_reservation ops i s = None \<and> get_reservation ops i s' = Some r
         \<and> rv_status r = outcome_status out \<and> (\<forall>n h. out = Spent n h \<longrightarrow> held r = n)
         \<and> 0 \<le> held r \<and> held r \<le> reservedAmount r \<and> reservedAmount r \<le> required
         \<and> reservedAmount r \<le> per_call_limit (cd_config d) m
         \<and> (\<forall>j. j \<noteq> i \<longrightarrow> get_reservation ops j s' = get_reservation ops j s)
         \<and> (\<forall>k. used k s' = used k s + (if k = key_of (ca_agentId a) day then held r else 0))
         \<and> used (key_of (ca_agentId a) day) s' \<le> defaultSessionOrDayMaxAtomic (cd_config d))"

context budget_store begin

lemma outcome_moves:
  assumes "ok s" "get_reservation ops i s = Some r" "rv_status r = Reserved" "0 \<le> reservedAmount r"
    and "\<And>n h. out = Spent n h \<Longrightarrow> 0 \<le> n \<and> n \<le> reservedAmount r"
  shows "\<exists>r' delta. moves ops ok used holder s (apply_outcome ops i out s) i r' delta \<and> rv_status r' = outcome_status out
    \<and> reservedAmount r' = reservedAmount r \<and> held r' = reservedAmount r + delta \<and> 0 \<le> held r' \<and> delta \<le> 0
    \<and> (\<forall>n h. out = Spent n h \<longrightarrow> held r' = n)"
proof -
  have o: "is_open r" using assms(3) by (simp add: is_open_def)
  have st: "rv_status r' = rv_status q \<and> reservedAmount r' = reservedAmount q \<and> held r' = held q" if "same_terms_as r' q" for r' q
  proof -
    have "rv_status (r'\<lparr>rv_hash := None\<rparr>) = rv_status (q\<lparr>rv_hash := None\<rparr>)" "reservedAmount (r'\<lparr>rv_hash := None\<rparr>) = reservedAmount (q\<lparr>rv_hash := None\<rparr>)"
      "settledAmount (r'\<lparr>rv_hash := None\<rparr>) = settledAmount (q\<lparr>rv_hash := None\<rparr>)" using that by (simp_all add: same_terms_as_def)
    then show ?thesis by (simp add: held_def split: reservation_status.split)
  qed
  show ?thesis
  proof (cases out)
    case Held
    have "moves ops ok used holder s s i r 0" using assms(1,2) by (simp add: moves_def)
    then show ?thesis using Held assms(3,4) held_open [OF o]
      by (intro exI [of _ r] exI [of _ 0]) (simp add: apply_outcome_def outcome_status_def)
  next
    case Freed
    obtain r' s' where "release ops i s = (Inr r', s')" "same_terms_as r' (r\<lparr>rv_status := Released\<rparr>)"
        "moves ops ok used holder s s' i r' (- reservedAmount r)"
      using freed [OF assms(1,2) o] by blast
    then show ?thesis using Freed st [of r'] assms(4)
      by (intro exI [of _ r'] exI [of _ "- reservedAmount r"]) (simp add: apply_outcome_def outcome_status_def held_def)
  next
    case (Unsure h)
    obtain r' s' where "mark_unknown ops i h s = (Inr r', s')" "same_terms_as r' (r\<lparr>rv_status := UnknownStatus\<rparr>)"
        "moves ops ok used holder s s' i r' 0"
      using kept [OF assms(1,2) o] by blast
    then show ?thesis using Unsure st [of r'] assms(4)
      by (intro exI [of _ r'] exI [of _ 0]) (simp add: apply_outcome_def outcome_status_def held_def)
  next
    case (Spent n h)
    have n: "0 \<le> n" "n \<le> reservedAmount r" using assms(5) [OF Spent] by auto
    obtain r' s' where r': "reconcile ops i n h s = (Inr r', s')" "same_terms_as r' (r\<lparr>rv_status := Settled, settledAmount := Some n\<rparr>)"
        "moves ops ok used holder s s' i r' (n - reservedAmount r)"
      using settled [OF assms(1,2) o n] by blast
    have "held r' = n" using st [OF r'(2)] by (auto simp: held_def)
    then show ?thesis using r' Spent st [OF r'(2)] n
      by (intro exI [of _ r'] exI [of _ "n - reservedAmount r"]) (simp add: apply_outcome_def outcome_status_def)
  qed
qed

lemma run_accounted:
  assumes "ok s" "payment_path ops d a run s s'" "fair_run run" "spent_is_exact a run"
    and "\<And>i required m out. run = Run i required m out \<Longrightarrow> get_reservation ops i s = None"
  shows "ok s' \<and> accounted ops used key_of d a run s s'"
proof (cases run)
  case NotReserved
  then have "s' = s" using assms(2) reserveForCall_refused by (auto simp: payment_path_def)
  then show ?thesis using NotReserved assms(1) by (simp add: accounted_def)
next
  case (Run i required m out)
  let ?x = "call_input_of d a i required m"
  obtain day0 day r s1 where r: "reserveForCall ops day0 day ?x s = (Inr r, s1)" "s' = apply_outcome ops i out s1"
    using assms(2) Run by (auto simp: payment_path_def)
  have new: "get_reservation ops (ci_identifier ?x) s = None" using assms(5) [OF Run] by (simp add: call_input_of_def)
  have req: "0 \<le> ci_required ?x" using assms(3) Run by (simp add: fair_run_def call_input_of_def)
  note f = reserveForCall_fresh [OF assms(1) new req r(1)]
  let ?k = "key_of (ca_agentId a) day"
  have f': "ok s1" "get_reservation ops i s1 = Some r" "rv_status r = Reserved" "0 \<le> reservedAmount r"
      "reservedAmount r \<le> per_call_limit (cd_config d) m" "reservedAmount r \<le> required"
      "ca_scheme a = ''exact'' \<Longrightarrow> reservedAmount r = required" "used ?k s1 \<le> defaultSessionOrDayMaxAtomic (cd_config d)"
      "holder i s1 = Some ?k" "\<And>j. j \<noteq> i \<Longrightarrow> get_reservation ops j s1 = get_reservation ops j s"
      "\<And>k. used k s1 = used k s + (if k = ?k then reservedAmount r else 0)"
    using f by (auto simp: call_input_of_def)
  have "0 \<le> n \<and> n \<le> reservedAmount r" if "out = Spent n h" for n h
    using assms(3,4) Run that f'(7) by (auto simp: fair_run_def spent_is_exact_def)
  then obtain r' delta where o: "moves ops ok used holder s1 s' i r' delta" "rv_status r' = outcome_status out"
      "reservedAmount r' = reservedAmount r" "held r' = reservedAmount r + delta" "0 \<le> held r'" "delta \<le> 0"
      "\<forall>n h. out = Spent n h \<longrightarrow> held r' = n"
    using outcome_moves [OF f'(1-4), of out] r(2) by auto
  have m: "ok s'" "get_reservation ops i s' = Some r'" "\<And>j. j \<noteq> i \<Longrightarrow> get_reservation ops j s' = get_reservation ops j s1"
      "\<And>k. used k s' = used k s1 + (if k = ?k then delta else 0)"
    using o(1) f'(9) by (auto simp: moves_def)
  have "accounted ops used key_of d a run s s'"
    unfolding accounted_def Run payment_run.case using o m f' assms(5) [OF Run]
    by (intro exI [of _ day] exI [of _ r']) simp
  then show ?thesis using m(1) by simp
qed

end

end
