(* ===== verification/Call_Run.thy ===== *)
theory Call_Run
  imports Call_Resource_Laws
begin

text \<open>
  What a call has to do to the budget, as a function of what the facilitator, the seller and the signer
  answer (\<open>run_of_call\<close>), and that \<open>callResource\<close> does exactly that to the store.
\<close>

section \<open>The run of a call, read off what the other parties answer\<close>

text \<open>
  What a call is about to reserve: its identifier, the amount of the selected option, the caller's
  limit, the two readings of the day, and what signing and the retry will use.  It is a function of the
  world outside the process alone.
\<close>

record 'c planned_call =
  pl_id :: string
  pl_required :: int
  pl_max :: int
  pl_day0 :: string
  pl_day :: string
  pl_challenge :: js
  pl_accept :: js
  pl_tool :: string
  pl_provider :: signer_provider
  pl_bound :: 'c

definition plan_reservation :: "('x, 'c, 'k) paying \<Rightarrow> call_args \<Rightarrow> string \<Rightarrow> js \<Rightarrow> js \<Rightarrow> string \<Rightarrow> signer_provider \<Rightarrow> 'c \<Rightarrow> ('x, 'c planned_call) io" where
  "plan_reservation P a versionHash challenge acc tool provider bound =
     io_bind (lift_sum (to_big_int (js_get acc ''amount''))) (\<lambda>required.
     io_bind (lift_sum (big_int_or_throw (ca_maxAtomicAmount a))) (\<lambda>limit.
     io_bind (pf_nonce P) (\<lambda>nonce. io_bind (pf_clock P) (\<lambda>day0. io_bind (pf_clock P) (\<lambda>day.
       io_return \<lparr> pl_id = identifier_of P a versionHash nonce, pl_required = required, pl_max = limit, pl_day0 = day0, pl_day = day,
         pl_challenge = challenge, pl_accept = acc, pl_tool = tool, pl_provider = provider, pl_bound = bound \<rparr>)))))"

definition call_plan :: "('x, 'c, 'k) paying \<Rightarrow> call_deps \<Rightarrow> call_args \<Rightarrow> ('x, 'c planned_call) io" where
  "call_plan P d a = io_bind (resolve_version P d a) (\<lambda>(i, tool, resource, versionHash, provider).
     io_bind (connect_version P d resource) (\<lambda>bound.
     io_bind (challenged P a i tool resource bound) (\<lambda>(challenge, acc).
     plan_reservation P a versionHash challenge acc tool provider bound)))"

text \<open>
  What has to become of the reservation.  Nothing was sent: it is released; the paid request was sent and
  no answer says otherwise: it stays open as unknown; the seller says that nothing was settled: released;
  the settlement is of another network or payer: unknown, with the transaction; else it is settled at
  the reported amount, or at the amount of the option when none is reported.  It is left as it was only
  when there is no signer or the amount is no number.
\<close>

definition settled_outcome :: "('x, 'c, 'k) paying \<Rightarrow> call_args \<Rightarrow> js \<Rightarrow> 'x mcp_signer \<Rightarrow> js \<Rightarrow> payment_outcome" where
  "settled_outcome P a acc signer raw = (case extractPaymentResponse P raw of
      None \<Rightarrow> if looksLikePaymentRequiredResult raw then Freed else Unsure None
    | Some v \<Rightarrow> let tx = settled_transaction (js_get v ''transaction'') in
        if \<not> js_truthy (js_get v ''success'') then Freed
        else if settlement_mismatch a signer v then Unsure (Some tx)
        else case to_big_int (or_nullish (js_get v ''amount'') (js_get acc ''amount'')) of Inl _ \<Rightarrow> Held | Inr n \<Rightarrow> Spent n tx)"

definition retry_outcome :: "('x, 'c, 'k) paying \<Rightarrow> call_args \<Rightarrow> 'c planned_call \<Rightarrow> 'x \<Rightarrow> payment_outcome" where
  "retry_outcome P a p x = (case getSigner (pf_signers P) (pl_provider p) (ca_network a) x of
      (Inl _, _) \<Rightarrow> Held
    | (Inr signer, x1) \<Rightarrow> (case build_payload P a (pl_challenge p) (pl_accept p) signer x1 of
        (Inl _, _) \<Rightarrow> Freed
      | (Inr payload, x2) \<Rightarrow> (case pf_callTool P (pl_bound p) (attachPaymentToMeta P (tool_params (pl_tool p) a) payload) x2 of
          (Inl _, _) \<Rightarrow> Unsure None
        | (Inr raw, _) \<Rightarrow> settled_outcome P a (pl_accept p) signer raw)))"

definition run_of_call :: "('x, 'c, 'k) paying \<Rightarrow> call_deps \<Rightarrow> 's budget_ops \<Rightarrow> call_args \<Rightarrow> ('s, 'x) mcp_world \<Rightarrow> payment_run" where
  "run_of_call P d ops a w = (case call_plan P d a (w_ext w) of
      (Inl _, _) \<Rightarrow> NotReserved
    | (Inr p, x) \<Rightarrow> if pl_id p \<in> w_claimed w then NotReserved
        else case fst (reserveForCall ops (pl_day0 p) (pl_day p) (call_input_of d a (pl_id p) (pl_required p) (pl_max p)) (w_store w)) of
          Inl _ \<Rightarrow> NotReserved
        | Inr _ \<Rightarrow> Run (pl_id p) (pl_required p) (pl_max p) (retry_outcome P a p x))"

lemma retry_spent_exact: "retry_outcome P a p x = Spent n h \<Longrightarrow> ca_scheme a = ''exact''"
  by (auto simp: retry_outcome_def build_payload_def buildSchemeRegistry_def resolveScheme_def
      split: prod.splits sum.splits if_splits elim!: io_bind_InrE)

lemma ignore_app:
  "ignore (on_store m) (io_throw e) w
    = (Inl (case fst (m (w_store w)) of Inl e' \<Rightarrow> e' | Inr _ \<Rightarrow> e), w\<lparr>w_store := snd (m (w_store w))\<rparr>)"
  by (simp add: ignore_def io_bind_def on_store_def io_throw_def split: prod.splits sum.splits)

lemma settle_outcome:
  assumes "settle_payment P ops a versionHash i required acc signer raw w = (r, w')"
  shows "w_claimed w' = w_claimed w \<and> w_store w' = apply_outcome ops i (settled_outcome P a acc signer raw) (w_store w)
    \<and> (\<forall>res. r = Inr res \<longrightarrow> rc_paymentIdentifier (co_receipt res) = i \<and> rc_authorizedAmount (co_receipt res) = required
        \<and> (\<exists>h. settled_outcome P a acc signer raw = Spent (rc_settledAmount (co_receipt res)) h))"
  using assms
  by (auto simp: settle_payment_def settled_outcome_def Let_def apply_outcome_def ignore_app io_bind_def receipt_for_def io_return_def
      split: option.splits if_splits prod.splits sum.splits dest: on_store_frame)

lemma retry_store:
  assumes "io_bind (on_ext (getSigner (pf_signers P) (pl_provider p) (ca_network a))) (\<lambda>signer.
     io_bind (sign_payment P ops a (pl_challenge p) (pl_accept p) (pl_id p) signer) (\<lambda>payload.
     io_bind (pay P ops a (pl_tool p) (pl_id p) payload (pl_bound p)) (\<lambda>paidRaw.
     settle_payment P ops a versionHash (pl_id p) (pl_required p) (pl_accept p) signer paidRaw))) w = (r, w')"
  shows "w_claimed w' = w_claimed w \<and> w_store w' = apply_outcome ops (pl_id p) (retry_outcome P a p (w_ext w)) (w_store w)
    \<and> (\<forall>res. r = Inr res \<longrightarrow> rc_paymentIdentifier (co_receipt res) = pl_id p \<and> rc_authorizedAmount (co_receipt res) = pl_required p
        \<and> (\<exists>h. retry_outcome P a p (w_ext w) = Spent (rc_settledAmount (co_receipt res)) h))"
proof -
  obtain r1 x1 where 1: "getSigner (pf_signers P) (pl_provider p) (ca_network a) (w_ext w) = (r1, x1)" by fastforce
  show ?thesis
  proof (cases r1)
    case (Inl e)
    then show ?thesis using assms 1 by (auto simp: io_bind_def on_ext_def retry_outcome_def apply_outcome_def)
  next
    case (Inr signer)
    obtain r2 x2 where 2: "build_payload P a (pl_challenge p) (pl_accept p) signer x1 = (r2, x2)" by fastforce
    show ?thesis
    proof (cases r2)
      case (Inl e)
      then show ?thesis using assms 1 2 Inr
        by (auto simp: io_bind_def on_ext_def retry_outcome_def apply_outcome_def sign_payment_def io_catch_def ignore_def on_store_def
            io_throw_def split: prod.splits sum.splits if_splits)
    next
      case (Inr payload)
      obtain r3 x3 where 3: "pf_callTool P (pl_bound p) (attachPaymentToMeta P (tool_params (pl_tool p) a) payload) x2 = (r3, x3)" by fastforce
      show ?thesis
      proof (cases r3)
        case (Inl e)
        then show ?thesis using assms 1 2 3 Inr \<open>r1 = Inr signer\<close>
          by (auto simp: io_bind_def on_ext_def retry_outcome_def apply_outcome_def sign_payment_def pay_def io_catch_def ignore_def on_store_def
              io_throw_def split: prod.splits sum.splits if_splits)
      next
        case (Inr raw)
        have "settle_payment P ops a versionHash (pl_id p) (pl_required p) (pl_accept p) signer raw (w\<lparr>w_ext := x3\<rparr>) = (r, w')"
          using assms 1 2 3 Inr \<open>r1 = Inr signer\<close> \<open>r2 = Inr payload\<close>
          by (simp add: io_bind_def on_ext_def sign_payment_def pay_def io_catch_def)
        from settle_outcome [OF this] show ?thesis
          using 1 2 3 Inr \<open>r1 = Inr signer\<close> \<open>r2 = Inr payload\<close> by (simp add: retry_outcome_def)
      qed
    qed
  qed
qed

lemma reserve_run:
  assumes "reserve_payment P d ops a versionHash acc w = (r, w')"
    and "plan_reservation P a versionHash challenge acc tool provider bound (w_ext w) = (q, x)"
  shows "w_claimed w \<subseteq> w_claimed w' \<and> (case q of
      Inl e \<Rightarrow> (\<exists>e. r = Inl e) \<and> w_store w' = w_store w
    | Inr p \<Rightarrow> js_BigInt (ca_maxAtomicAmount a) = Some (pl_max p)
        \<and> pl_challenge p = challenge \<and> pl_accept p = acc \<and> pl_tool p = tool \<and> pl_provider p = provider \<and> pl_bound p = bound
        \<and> (if pl_id p \<in> w_claimed w then (\<exists>e. r = Inl e) \<and> w_store w' = w_store w
           else pl_id p \<in> w_claimed w' \<and> (case reserveForCall ops (pl_day0 p) (pl_day p) (call_input_of d a (pl_id p) (pl_required p) (pl_max p)) (w_store w) of
               (Inl e, s) \<Rightarrow> r = Inl e \<and> w_store w' = s
             | (Inr rv, s) \<Rightarrow> r = Inr (pl_id p, pl_required p) \<and> w_store w' = s \<and> w_ext w' = x)))"
  using assms
  by (auto simp: reserve_payment_def plan_reservation_def io_bind_def on_ext_def on_store_def try_claim_def guard_claim_def Let_def io_throw_def
      io_return_def big_int_some split: prod.splits sum.splits if_splits)

text \<open>The receipt of a successful call is the identifier, the required and the settled amount of its run.\<close>

definition receipt_of_run :: "exn + call_output \<Rightarrow> payment_run \<Rightarrow> bool" where
  "receipt_of_run res run = (\<forall>out. res = Inr out \<longrightarrow> (\<exists>m h. run = Run (rc_paymentIdentifier (co_receipt out))
     (rc_authorizedAmount (co_receipt out)) m (Spent (rc_settledAmount (co_receipt out)) h)))"

definition run_claimed :: "payment_run \<Rightarrow> string set \<Rightarrow> string set \<Rightarrow> bool" where
  "run_claimed run before after = (before \<subseteq> after \<and> (\<forall>i required m out. run = Run i required m out \<longrightarrow> i \<notin> before \<and> i \<in> after))"

text \<open>The part of \<open>run_of_call\<close> after the plan is known.\<close>

definition planned_run :: "('x, 'c, 'k) paying \<Rightarrow> call_deps \<Rightarrow> 's budget_ops \<Rightarrow> call_args \<Rightarrow> string set \<Rightarrow> 's \<Rightarrow> (exn + 'c planned_call) \<times> 'x \<Rightarrow> payment_run" where
  "planned_run P d ops a claimed s plan = (case plan of
      (Inl _, _) \<Rightarrow> NotReserved
    | (Inr p, x) \<Rightarrow> if pl_id p \<in> claimed then NotReserved
        else case fst (reserveForCall ops (pl_day0 p) (pl_day p) (call_input_of d a (pl_id p) (pl_required p) (pl_max p)) s) of
          Inl _ \<Rightarrow> NotReserved
        | Inr _ \<Rightarrow> Run (pl_id p) (pl_required p) (pl_max p) (retry_outcome P a p x))"

lemma run_of_call_planned: "run_of_call P d ops a w = planned_run P d ops a (w_claimed w) (w_store w) (call_plan P d a (w_ext w))"
  by (simp add: run_of_call_def planned_run_def)

lemma paid_call_run:
  assumes "paid_call P d ops a i tool resource versionHash provider bound w = (res, w')"
    and "run = planned_run P d ops a (w_claimed w) (w_store w) (io_bind (challenged P a i tool resource bound) (\<lambda>(challenge, acc).
      plan_reservation P a versionHash challenge acc tool provider bound) (w_ext w))"
  shows "run_claimed run (w_claimed w) (w_claimed w') \<and> payment_path ops d a run (w_store w) (w_store w') \<and> receipt_of_run res run"
proof -
  obtain r1 x1 where 1: "challenged P a i tool resource bound (w_ext w) = (r1, x1)" by fastforce
  show ?thesis
  proof (cases r1)
    case (Inl e)
    then show ?thesis using assms 1
      by (auto simp: paid_call_def io_bind_def on_ext_def planned_run_def run_claimed_def not_reserved_same receipt_of_run_def)
  next
    case (Inr c)
    obtain challenge acc where c: "c = (challenge, acc)" by (cases c)
    let ?w = "w\<lparr>w_ext := x1\<rparr>"
    obtain r2 w2 where 2: "reserve_payment P d ops a versionHash acc ?w = (r2, w2)" by fastforce
    obtain q x2 where q: "plan_reservation P a versionHash challenge acc tool provider bound (w_ext ?w) = (q, x2)" by fastforce
    have run: "run = planned_run P d ops a (w_claimed w) (w_store w) (q, x2)"
      using assms(2) 1 Inr c q by (simp add: io_bind_def)
    note res = reserve_run [OF 2 q]
    have stop: "w' = w2 \<and> (\<exists>e. res = Inl e)" if "r2 = Inl e" for e
      using assms(1) 1 2 Inr c that by (auto simp: paid_call_def io_bind_def on_ext_def)
    show ?thesis
    proof (cases "\<exists>p. q = Inr p \<and> pl_id p \<notin> w_claimed w")
      case False
      then show ?thesis using res run stop
        by (auto simp: planned_run_def run_claimed_def not_reserved_same receipt_of_run_def split: sum.splits if_splits)
    next
      case True
      then obtain p where p: "q = Inr p" "pl_id p \<notin> w_claimed w" by blast
      obtain rr s where rr: "reserveForCall ops (pl_day0 p) (pl_day p) (call_input_of d a (pl_id p) (pl_required p) (pl_max p)) (w_store w) = (rr, s)" by fastforce
      show ?thesis
      proof (cases rr)
        case (Inl e)
        then show ?thesis using res run stop p rr
          by (auto simp: planned_run_def run_claimed_def payment_path_def receipt_of_run_def)
      next
        case (Inr rv)
        have f: "r2 = Inr (pl_id p, pl_required p)" "w_store w2 = s" "w_ext w2 = x2" "w_claimed w \<subseteq> w_claimed w2" "pl_id p \<in> w_claimed w2"
            "js_BigInt (ca_maxAtomicAmount a) = Some (pl_max p)"
            "pl_challenge p = challenge" "pl_accept p = acc" "pl_tool p = tool" "pl_provider p = provider" "pl_bound p = bound"
          using res p rr Inr by auto
        note rest = retry_store [of P p a ops versionHash w2 res w', unfolded f(7-11)]
        have "w_claimed w' = w_claimed w2 \<and> w_store w' = apply_outcome ops (pl_id p) (retry_outcome P a p x2) s
          \<and> (\<forall>out. res = Inr out \<longrightarrow> rc_paymentIdentifier (co_receipt out) = pl_id p \<and> rc_authorizedAmount (co_receipt out) = pl_required p
            \<and> (\<exists>h. retry_outcome P a p x2 = Spent (rc_settledAmount (co_receipt out)) h))"
          using rest assms(1) 1 2 c f(1-3) \<open>r1 = Inr c\<close> by (simp add: paid_call_def io_bind_def on_ext_def [of "challenged P a i tool resource bound"])
        then show ?thesis using run p rr Inr f
          by (auto simp: planned_run_def run_claimed_def payment_path_def receipt_of_run_def)
      qed
    qed
  qed
qed

theorem call_run:
  assumes "callResource P d ops a w = (res, w')"
  shows "run_claimed (run_of_call P d ops a w) (w_claimed w) (w_claimed w')
    \<and> payment_path ops d a (run_of_call P d ops a w) (w_store w) (w_store w') \<and> receipt_of_run res (run_of_call P d ops a w)"
proof -
  obtain r1 x1 where 1: "resolve_version P d a (w_ext w) = (r1, x1)" by fastforce
  show ?thesis
  proof (cases r1)
    case (Inl e)
    then show ?thesis using assms 1
      by (auto simp: callResource_def io_bind_def on_ext_def run_of_call_planned call_plan_def planned_run_def run_claimed_def not_reserved_same receipt_of_run_def)
  next
    case (Inr t)
    obtain i tool resource versionHash provider where t: "t = (i, tool, resource, versionHash, provider)" by (cases t)
    obtain r2 x2 where 2: "connect_version P d resource x1 = (r2, x2)" by fastforce
    show ?thesis
    proof (cases r2)
      case (Inl e)
      then show ?thesis using assms 1 2 Inr t
        by (auto simp: callResource_def io_bind_def on_ext_def run_of_call_planned call_plan_def planned_run_def run_claimed_def not_reserved_same receipt_of_run_def)
    next
      case (Inr bound)
      let ?w = "w\<lparr>w_ext := x2\<rparr>"
      obtain r3 w3 where 3: "paid_call P d ops a i tool resource versionHash provider bound ?w = (r3, w3)" by fastforce
      have fin: "w_store w' = w_store w3" "w_claimed w' = w_claimed w3" "\<forall>out. res = Inr out \<longrightarrow> r3 = Inr out"
        using assms 1 2 3 t Inr \<open>r1 = Inr t\<close>
        by (auto simp: callResource_def io_bind_def on_ext_def io_finally_def split: prod.splits sum.splits)
      have "run_of_call P d ops a w = planned_run P d ops a (w_claimed ?w) (w_store ?w) (io_bind (challenged P a i tool resource bound)
          (\<lambda>(challenge, acc). plan_reservation P a versionHash challenge acc tool provider bound) (w_ext ?w))"
        using 1 2 t Inr \<open>r1 = Inr t\<close> by (simp add: run_of_call_planned call_plan_def io_bind_def)
      from paid_call_run [OF 3 this] show ?thesis using fin by (auto simp: receipt_of_run_def)
    qed
  qed
qed

lemma run_spent_exact: "spent_is_exact a (run_of_call P d ops a w)"
  using retry_spent_exact [of P a] by (auto simp: spent_is_exact_def run_of_call_def split: prod.splits sum.splits if_splits)

end
