(* ===== verification/JS_Effects.thy ===== *)
theory JS_Effects
  imports JS_Values
begin

text \<open>
  Which effects an asynchronous computation can have on the world it runs in.  \<open>spares J m\<close>: running \<open>m\<close> keeps
  the property \<open>J\<close> of the world, whatever it answers; \<open>yields J m Q\<close> adds that a value it returns
  satisfies \<open>Q\<close>.
\<close>

definition spares :: "('x \<Rightarrow> bool) \<Rightarrow> ('x, 'a) io \<Rightarrow> bool" where
  "spares J m = (\<forall>x r x'. J x \<longrightarrow> m x = (r, x') \<longrightarrow> J x')"

definition yields :: "('x \<Rightarrow> bool) \<Rightarrow> ('x, 'a) io \<Rightarrow> ('a \<Rightarrow> bool) \<Rightarrow> bool" where
  "yields J m Q = (\<forall>x r x'. J x \<longrightarrow> m x = (r, x') \<longrightarrow> J x' \<and> (\<forall>v. r = Inr v \<longrightarrow> Q v))"

lemma yieldsI: "(\<And>x r x'. J x \<Longrightarrow> m x = (r, x') \<Longrightarrow> J x' \<and> (\<forall>v. r = Inr v \<longrightarrow> Q v)) \<Longrightarrow> yields J m Q"
  by (simp add: yields_def)

lemma yieldsD: "yields J m Q \<Longrightarrow> J x \<Longrightarrow> m x = (r, x') \<Longrightarrow> J x' \<and> (\<forall>v. r = Inr v \<longrightarrow> Q v)"
  unfolding yields_def by metis

lemma yields_bind:
  assumes "yields J m Q" "\<And>v. Q v \<Longrightarrow> yields J (k v) R" shows "yields J (io_bind m k) R"
proof (rule yieldsI)
  fix x r x' assume x: "J x" "io_bind m k x = (r, x')"
  obtain r1 x1 where 1: "m x = (r1, x1)" by fastforce
  note m = yieldsD [OF assms(1) x(1) 1]
  show "J x' \<and> (\<forall>v. r = Inr v \<longrightarrow> R v)"
  proof (cases r1)
    case (Inl e)
    then show ?thesis using x(2) 1 m by (auto simp: io_bind_def)
  next
    case (Inr v)
    then have "yields J (k v) R" using m assms(2) by simp
    then show ?thesis using yieldsD [of J "k v" R x1 r x'] x(2) 1 m Inr by (simp add: io_bind_def)
  qed
qed

lemma yields_catch:
  assumes "yields J m Q" "\<And>e. yields J (h e) Q" shows "yields J (io_catch m h) Q"
proof (rule yieldsI)
  fix x r x' assume x: "J x" "io_catch m h x = (r, x')"
  obtain r1 x1 where 1: "m x = (r1, x1)" by fastforce
  note m = yieldsD [OF assms(1) x(1) 1]
  show "J x' \<and> (\<forall>v. r = Inr v \<longrightarrow> Q v)"
  proof (cases r1)
    case (Inl e)
    then show ?thesis using yieldsD [OF assms(2) [of e], of x1 r x'] x(2) 1 m by (simp add: io_catch_def)
  next
    case (Inr v)
    then show ?thesis using x(2) 1 m by (auto simp: io_catch_def)
  qed
qed

lemma yields_return: "Q v \<Longrightarrow> yields J (io_return v) Q"
  by (simp add: yields_def io_return_def)

lemma yields_throw: "yields J (io_throw e) Q"
  by (simp add: yields_def io_throw_def)

lemma yields_lift: "(\<And>v. m = Inr v \<Longrightarrow> Q v) \<Longrightarrow> yields J (lift_sum m) Q"
  by (simp add: yields_def lift_sum_def)

lemma yields_any: "spares J m \<Longrightarrow> yields J m (\<lambda>_. True)"
  by (auto simp: yields_def spares_def)

lemma spares_yields: "yields J m Q \<Longrightarrow> spares J m"
  by (auto simp: yields_def spares_def)

end
