(* ===== verification/Safe_Fetch_Laws.thy ===== *)
theory Safe_Fetch_Laws
  imports Safe_Fetch JS_Effects "HOL-Library.Multiset"
begin

text \<open>
  What the network layer guarantees: which requests can leave the process, how many, and how much of an
  answer is read; the address filter against the reserved IPv4 blocks; the depth bound against the
  depth of a value; the slots of the semaphore.
\<close>

section \<open>Requests\<close>

text \<open>The URL has an allowed scheme and the socket goes to an address of its host that the filter passed.\<close>

definition dialable :: "safe_fetch_config \<Rightarrow> url \<Rightarrow> pinned_target \<Rightarrow> bool" where
  "dialable c u t = (scheme_allowed c u \<and> pt_hostname t = hostname u \<and> (allowInsecureLocal c \<or> \<not> isBlockedAddress (pt_address t)))"

definition net_spares :: "('w \<Rightarrow> bool) \<Rightarrow> safe_fetch_config \<Rightarrow> 'w net \<Rightarrow> (url \<Rightarrow> bool) \<Rightarrow> bool" where
  "net_spares J c net U = ((\<forall>h. spares J (dns_lookup net h))
     \<and> (\<forall>u init t mode. U u \<and> dialable c u t \<longrightarrow> spares J (net_fetch net u init t mode)))"

lemma pinned_yields:
  assumes "\<And>h. spares J (dns_lookup net h)"
  shows "yields J (resolvePinned net h (allowInsecureLocal c))
    (\<lambda>t. pt_hostname t = h \<and> (allowInsecureLocal c \<or> \<not> isBlockedAddress (pt_address t)))"
  unfolding resolvePinned_def
proof (rule yields_bind [where Q = "\<lambda>_. True"])
  show "yields J (io_catch (dns_lookup net h) (\<lambda>_. io_throw (protocol_error (''DNS resolution failed for '' @ h)))) (\<lambda>_. True)"
    using assms by (intro yields_catch yields_any yields_throw)
qed (auto intro!: yields_throw yields_return split: list.split)

lemma ssrf_fetch_spares:
  assumes "net_spares J c net (\<lambda>_. True)" shows "spares J (createSsrfSafeFetch net c u init)"
proof (cases "parse_url net u")
  case None
  then show ?thesis by (auto simp: createSsrfSafeFetch_def intro!: spares_yields yields_throw)
next
  case (Some target)
  show ?thesis
  proof (cases "scheme_allowed c target")
    case False
    then show ?thesis using Some by (auto simp: createSsrfSafeFetch_def intro!: spares_yields [OF yields_throw])
  next
    case True
    have d: "spares J (dns_lookup net h)" for h using assms by (simp add: net_spares_def)
    have "yields J (net_fetch net target init t Follow) (\<lambda>_. True)"
      if "pt_hostname t = hostname target \<and> (allowInsecureLocal c \<or> \<not> isBlockedAddress (pt_address t))" for t
      using that True assms by (intro yields_any) (simp add: net_spares_def dialable_def)
    then have "yields J (createSsrfSafeFetch net c u init) (\<lambda>_. True)"
      unfolding createSsrfSafeFetch_def using Some True
      by (auto intro!: yields_bind [OF pinned_yields [OF d]] yields_catch yields_throw split: exn.split)
    then show ?thesis by (rule spares_yields)
  qed
qed


text \<open>\<open>J n\<close> holds of a world in which \<open>n\<close> more requests to the origin of \<open>start\<close> may be made.\<close>

definition request_budget :: "(nat \<Rightarrow> 'w \<Rightarrow> bool) \<Rightarrow> safe_fetch_config \<Rightarrow> 'w net \<Rightarrow> url \<Rightarrow> bool" where
  "request_budget J c net start = ((\<forall>n h. spares (J n) (dns_lookup net h))
     \<and> (\<forall>n u init t x r x'. sameOrigin start u \<and> dialable c u t \<and> J (Suc n) x \<and> net_fetch net u init t Manual x = (r, x') \<longrightarrow> J n x'))"

lemma request_budgetD:
  assumes "request_budget J c net start"
  shows "spares (J n) (dns_lookup net h)"
    "sameOrigin start u \<Longrightarrow> dialable c u t \<Longrightarrow> J (Suc n) x \<Longrightarrow> net_fetch net u init t Manual x = (r, x') \<Longrightarrow> J n x'"
  using assms unfolding request_budget_def by blast+

lemma one_hop_budget:
  assumes b: "request_budget J c net start" and o: "sameOrigin start current" and j: "J (Suc n) x"
    and run: "one_hop net c init current x = (r, x')"
  shows "(J (Suc n) x' \<or> J n x') \<and> (\<forall>v. r = Inr v \<longrightarrow> J n x')"
proof (cases "scheme_allowed c current")
  case False
  then show ?thesis using run j by (auto simp: one_hop_def)
next
  case True
  obtain r1 x1 where 1: "resolvePinned net (hostname current) (allowInsecureLocal c) x = (r1, x1)" by fastforce
  have p: "J (Suc n) x1" "\<And>t. r1 = Inr t \<Longrightarrow> pt_hostname t = hostname current \<and> (allowInsecureLocal c \<or> \<not> isBlockedAddress (pt_address t))"
    using yieldsD [OF pinned_yields [OF request_budgetD(1) [OF b]] j 1] by auto
  show ?thesis
  proof (cases r1)
    case (Inl e)
    then show ?thesis using run True 1 p by (auto simp: one_hop_def io_bind_def)
  next
    case (Inr t)
    let ?init = "init\<lparr>fi_method := Some (coalesce (fi_method init) ''GET'')\<rparr>"
    obtain r2 x2 where 2: "net_fetch net current ?init t Manual x1 = (r2, x2)" by fastforce
    have d: "dialable c current t" using True p(2) [OF Inr] by (simp add: dialable_def)
    have "J n x2" by (rule request_budgetD(2) [OF b o d p(1) 2])
    moreover have "x' = x2" using run True 1 2 Inr
      by (cases r2) (auto simp: one_hop_def io_bind_def io_catch_def split: exn.splits)
    ultimately show ?thesis by simp
  qed
qed

lemma sameOrigin_trans: "sameOrigin a b \<Longrightarrow> sameOrigin b c \<Longrightarrow> sameOrigin a c"
  by (simp add: sameOrigin_def)

lemma next_hop_origin: "next_hop net current r = Inr n \<Longrightarrow> sameOrigin current n"
  by (auto simp: next_hop_def split: if_splits option.splits)

lemma read_chunks_bound: "sofar \<le> m \<Longrightarrow> read_chunks m sofar xs = Inr t \<Longrightarrow> sofar + length t \<le> m"
proof (induction m sofar xs arbitrary: t rule: read_chunks.induct)
  case (3 m sofar chunk r)
  then show ?case by (fastforce elim!: sum_bind_InrE split: if_splits)
qed auto

lemma boundedText_bound: "boundedText r m = Inr t \<Longrightarrow> length t \<le> m"
  using read_chunks_bound [of 0 m] by (auto simp: boundedText_def split: option.splits)

lemma fetch_loop_budget:
  assumes b: "request_budget J c net start"
  shows "sameOrigin start current \<Longrightarrow> J hops x \<Longrightarrow> fetch_loop net c init hops current x = (r, x') \<Longrightarrow>
    (\<exists>m. J m x') \<and> (\<forall>v. r = Inr v \<longrightarrow> length (snd (snd v)) \<le> maxResponseBytes c)"
proof (induction hops arbitrary: current x)
  case (Suc hops)
  obtain r1 x1 where 1: "one_hop net c init current x = (r1, x1)" by fastforce
  note h = one_hop_budget [OF b Suc.prems(1,2) 1]
  show ?case
  proof (cases r1)
    case (Inl e)
    then show ?thesis using Suc.prems(3) 1 h by (auto simp: io_bind_def)
  next
    case (Inr response)
    show ?thesis
    proof (cases "is_redirect response")
      case True
      show ?thesis
      proof (cases "next_hop net current response")
        case (Inl e)
        then show ?thesis using Suc.prems(3) 1 h Inr True by (auto simp: io_bind_def)
      next
        case n: (Inr n)
        have "sameOrigin start n" using Suc.prems(1) next_hop_origin [OF n] by (rule sameOrigin_trans)
        then show ?thesis using Suc.IH [of n x1] Suc.prems(3) 1 h Inr True n by (auto simp: io_bind_def)
      qed
    next
      case False
      then show ?thesis using Suc.prems(3) 1 h Inr boundedText_bound [of response "maxResponseBytes c"]
        by (cases "boundedText response (maxResponseBytes c)") (auto simp: io_bind_def)
    qed
  qed
qed auto

section \<open>The address filter\<close>

text \<open>The blocks of IANA's special-purpose registry that the filter means to cover, as CIDR prefixes.\<close>

definition ipv4_word :: "nat \<Rightarrow> nat \<Rightarrow> nat \<Rightarrow> nat \<Rightarrow> nat" where
  "ipv4_word a b c d = 16777216 * a + 65536 * b + 256 * c + d"

definition special_blocks :: "(nat \<times> nat) list" where
  "special_blocks = [(ipv4_word 0 0 0 0, 8), (ipv4_word 10 0 0 0, 8), (ipv4_word 127 0 0 0, 8), (ipv4_word 169 254 0 0, 16),
     (ipv4_word 172 16 0 0, 12), (ipv4_word 192 168 0 0, 16), (ipv4_word 192 0 0 0, 24), (ipv4_word 192 0 2 0, 24),
     (ipv4_word 198 18 0 0, 15), (ipv4_word 198 51 100 0, 24), (ipv4_word 203 0 113 0, 24), (ipv4_word 224 0 0 0, 4), (ipv4_word 240 0 0 0, 4)]"

definition in_block :: "nat \<Rightarrow> nat \<times> nat \<Rightarrow> bool" where
  "in_block w blk = (w div 2 ^ (32 - snd blk) = fst blk div 2 ^ (32 - snd blk))"

definition dotted :: "nat \<Rightarrow> nat \<Rightarrow> nat \<Rightarrow> nat \<Rightarrow> string" where
  "dotted a b c d = nat_to_string a @ CHR ''.'' # nat_to_string b @ CHR ''.'' # nat_to_string c @ CHR ''.'' # nat_to_string d"

lemma digits_no_dot: "CHR ''.'' \<notin> set (nat_to_string n)"
  using nat_to_string_digits [of n] by (auto simp: list_all_iff is_digit_def)

lemma dotted_split:
  "js_split (CHR ''.'') (dotted a b c d) = [nat_to_string a, nat_to_string b, nat_to_string c, nat_to_string d]"
  by (simp add: dotted_def js_split_append js_split_single digits_no_dot)

lemma dotted_isIPv4: "a < 256 \<Longrightarrow> b < 256 \<Longrightarrow> c < 256 \<Longrightarrow> d < 256 \<Longrightarrow> isIPv4 (dotted a b c d)"
  using nat_to_string_digits nat_to_string_pattern by (simp add: isIPv4_def dotted_split is_octet_def)

lemma octet_number_text: "octet_number (nat_to_string n) = Some n"
  using nat_to_string_digits [of n] by (simp add: octet_number_def)

lemma prefix_parts:
  assumes "a < 256" "b < 256" "c < 256" "d < 256"
  shows "ipv4_word a b c d div 16777216 = a" "ipv4_word a b c d div 65536 = 256 * a + b"
    "ipv4_word a b c d div 256 = 65536 * a + 256 * b + c" "ipv4_word a b c d div 1048576 = 16 * a + b div 16"
    "ipv4_word a b c d div 131072 = 128 * a + b div 2" "ipv4_word a b c d div 268435456 = a div 16"
proof -
  have b16: "16 * (b div 16) + b mod 16 = b" "b mod 16 < 16" and b2: "2 * (b div 2) + b mod 2 = b" "b mod 2 < 2"
    and a16: "16 * (a div 16) + a mod 16 = a" "a mod 16 < 16" by simp_all
  show "ipv4_word a b c d div 16777216 = a" "ipv4_word a b c d div 65536 = 256 * a + b"
    "ipv4_word a b c d div 256 = 65536 * a + 256 * b + c"
    using assms by (intro div_nat_eqI; simp add: ipv4_word_def)+
  show "ipv4_word a b c d div 1048576 = 16 * a + b div 16" using assms b16 by (intro div_nat_eqI; simp add: ipv4_word_def; linarith)
  show "ipv4_word a b c d div 131072 = 128 * a + b div 2" using assms b2 by (intro div_nat_eqI; simp add: ipv4_word_def; linarith)
  show "ipv4_word a b c d div 268435456 = a div 16" using assms a16 by (intro div_nat_eqI; simp add: ipv4_word_def; linarith)
qed

lemma special_cases:
  "(\<exists>blk \<in> set special_blocks. in_block w blk) \<longleftrightarrow> w div 16777216 = 0 \<or> w div 16777216 = 10 \<or> w div 16777216 = 127
     \<or> w div 65536 = 43518 \<or> w div 1048576 = 2753 \<or> w div 65536 = 49320 \<or> w div 256 = 12582912 \<or> w div 256 = 12582914
     \<or> w div 131072 = 25353 \<or> w div 256 = 12989284 \<or> w div 256 = 13303921 \<or> w div 268435456 = 14 \<or> w div 268435456 = 15"
  by (simp add: special_blocks_def in_block_def ipv4_word_def)

lemma digits_iff: "b < k \<Longrightarrow> k * a + b = n \<longleftrightarrow> a = n div k \<and> b = n mod (k :: nat)"
  by auto

lemma filter_is_special:
  assumes "a < 256" "b < 256" "c < 256" "d < 256"
  shows "ipv4Blocked (dotted a b c d) \<longleftrightarrow> (\<exists>blk \<in> set special_blocks. in_block (ipv4_word a b c d) blk)"
proof -
  have three: "65536 * a + 256 * b + c = n \<longleftrightarrow> a = n div 256 div 256 \<and> b = n div 256 mod 256 \<and> c = n mod 256" for n
    using digits_iff [OF assms(3), of "256 * a + b" n] digits_iff [OF assms(2), of a "n div 256"] by (simp add: distrib_left)
  have two: "256 * a + b = n \<longleftrightarrow> a = n div 256 \<and> b = n mod 256" for n using digits_iff [OF assms(2)] .
  have "b div 16 < 16" "b div 2 < 128" using assms by auto
  then have part: "16 * a + b div 16 = n \<longleftrightarrow> a = n div 16 \<and> b div 16 = n mod 16" "128 * a + b div 2 = n \<longleftrightarrow> a = n div 128 \<and> b div 2 = n mod 128" for n
    by (simp_all only: digits_iff)
  have m: "16 * (b div 16) + b mod 16 = b" "b mod 16 < 16" "2 * (b div 2) + b mod 2 = b" "b mod 2 < 2"
    "16 * (a div 16) + a mod 16 = a" "a mod 16 < 16" by simp_all
  have q: "b div 16 = 1 \<longleftrightarrow> 16 \<le> b \<and> b \<le> 31" using m(1,2) by (intro iffI; linarith)
  have q2: "b div 2 = 9 \<longleftrightarrow> b = 18 \<or> b = 19" using m(3,4) by (intro iffI; linarith)
  have q3: "a div 16 = 14 \<or> a div 16 = 15 \<longleftrightarrow> 224 \<le> a" using m(5,6) assms(1) by (intro iffI; linarith)
  show ?thesis
    unfolding special_cases prefix_parts [OF assms] ipv4Blocked_def dotted_split three two part
    using q q2 q3 by (simp add: octet_number_text)
qed

lemma lower_digit: "is_digit c \<Longrightarrow> lower_char c = c"
  by (auto simp: lower_char_def is_digit_def Let_def)

lemma dotted_not_mapped: "unwrapMapped (dotted a b c d) = (dotted a b c d, isIPv4 (dotted a b c d))"
proof -
  obtain x t where x: "nat_to_string a = x # t" "is_digit x" using nat_to_string_digits [of a] by (cases "nat_to_string a") auto
  then have "hd (toLowerCase (take 7 (dotted a b c d))) = x" by (simp add: dotted_def toLowerCase_def lower_digit)
  moreover have "x \<noteq> CHR '':''" using x(2) by (auto simp: is_digit_def)
  ultimately have "toLowerCase (take 7 (dotted a b c d)) \<noteq> ''::ffff:''" by auto
  then show ?thesis by (simp add: unwrapMapped_def Let_def)
qed

lemma mapped_unwraps: "unwrapMapped (''::ffff:'' @ dotted a b c d) = (dotted a b c d, True)"
proof -
  have "toLowerCase ''::ffff:'' = ''::ffff:''" by code_simp
  then show ?thesis using nat_to_string_digits by (simp add: unwrapMapped_def dotted_split)
qed

lemma address_filter:
  assumes "a < 256" "b < 256" "c < 256" "d < 256"
  shows "isBlockedAddress (dotted a b c d) \<longleftrightarrow> (\<exists>blk \<in> set special_blocks. in_block (ipv4_word a b c d) blk)"
    and "isBlockedAddress (''::ffff:'' @ dotted a b c d) \<longleftrightarrow> (\<exists>blk \<in> set special_blocks. in_block (ipv4_word a b c d) blk)"
  using filter_is_special [OF assms] dotted_isIPv4 [OF assms] mapped_unwraps [of a b c d] dotted_not_mapped [of a b c d]
  unfolding isBlockedAddress_def by (simp_all only: Let_def prod.case if_True)

section \<open>Depth\<close>

function depth :: "js \<Rightarrow> nat" where
  "depth (JArr xs) = (if xs = [] then 1 else Suc (Max (set (map depth xs))))"
| "depth (JObj kvs) = (if kvs = [] then 1 else Suc (Max (set (map (\<lambda>e. depth (snd e)) kvs))))"
| "depth JUndef = 0"
| "depth JNull = 0"
| "depth (JBool b) = 0"
| "depth (JNum i) = 0"
| "depth (JStr s) = 0"
  by pat_completeness auto
termination by (relation "measure size") (auto simp: size_elem size_entry)

lemma Max_min_shift:
  assumes "xs \<noteq> []" "\<And>x. x \<in> set xs \<Longrightarrow> f x = min (k + g x) m"
  shows "Max (set (map f xs)) = min (k + Max (set (map g xs))) (m :: nat)"
proof (rule Max_eqI)
  have le: "g x \<le> Max (set (map g xs))" if "x \<in> set xs" for x using that by (intro Max_ge) auto
  then show "y \<le> min (k + Max (set (map g xs))) m" if "y \<in> set (map f xs)" for y
    using that assms(2) by (auto simp: min_le_iff_disj)
  have "Max (set (map g xs)) \<in> set (map g xs)" using assms(1) by (intro Max_in) auto
  then show "min (k + Max (set (map g xs))) m \<in> set (map f xs)" using assms(2) by force
qed simp

lemma jsonDepth_depth: "k \<le> 1001 \<Longrightarrow> jsonDepth v k = min (k + depth v) 1001"
proof (induction v k rule: jsonDepth.induct)
  case (1 xs k)
  show ?case
  proof (cases "xs = [] \<or> k > 1000")
    case True
    then show ?thesis using 1(2) by (auto simp del: depth.simps) (auto simp: min_def)
  next
    case False
    have "Max (set (map (\<lambda>v. jsonDepth v (k + 1)) xs)) = min (k + 1 + Max (set (map depth xs))) 1001"
      using 1(1) False by (intro Max_min_shift) auto
    then show ?thesis using False by simp
  qed
next
  case (2 kvs k)
  show ?case
  proof (cases "kvs = [] \<or> k > 1000")
    case True
    then show ?thesis using 2(2) by (auto simp del: depth.simps) (auto simp: min_def)
  next
    case False
    have "Max (set (map (\<lambda>e. jsonDepth (snd e) (k + 1)) kvs)) = min (k + 1 + Max (set (map (\<lambda>e. depth (snd e)) kvs))) 1001"
      using 2(1) False by (intro Max_min_shift) auto
    then show ?thesis using False by simp
  qed
qed auto

lemma bounded_depth: "m \<le> 1000 \<Longrightarrow> assertBoundedDepth v m = Inr () \<longleftrightarrow> depth v \<le> m"
  using jsonDepth_depth [of 0 v] by (auto simp: assertBoundedDepth_def min_def split: if_splits)

section \<open>The semaphore\<close>

text \<open>The tasks that hold a slot, along any sequence of acquisitions and releases by holders.\<close>

inductive sem_reach :: "nat \<Rightarrow> sem \<Rightarrow> nat multiset \<Rightarrow> bool" for n where
  sem_start: "sem_reach n (new_sem n) {#}"
| sem_acquired: "sem_reach n s H \<Longrightarrow> sem_acquire t s = (Some t, s') \<Longrightarrow> sem_reach n s' (add_mset t H)"
| sem_waits: "sem_reach n s H \<Longrightarrow> sem_acquire t s = (None, s') \<Longrightarrow> sem_reach n s' H"
| sem_released: "sem_reach n s H \<Longrightarrow> t \<in># H \<Longrightarrow> sem_release s = (u, s') \<Longrightarrow>
    sem_reach n s' (H - {#t#} + (case u of None \<Rightarrow> {#} | Some t' \<Rightarrow> {#t'#}))"

lemma sem_invariant: "sem_reach n s H \<Longrightarrow> available s + int (size H) = int n \<and> 0 \<le> available s \<and> (sem_queue s \<noteq> [] \<longrightarrow> available s = 0)"
proof (induction rule: sem_reach.induct)
  case (sem_released s H t u s')
  have "int (size (H - {#t#})) = int (size H) - 1" using sem_released(2) size_Diff_singleton [of t H]
    by (cases "size H") auto
  then show ?case using sem_released by (cases "sem_queue s") (auto simp: sem_release_def Let_def)
qed (auto simp: new_sem_def sem_acquire_def split: if_splits)

end
