(* ===== verification/Call_Resource_Effects.thy ===== *)
theory Call_Resource_Effects
  imports Call_Resource Safe_Fetch_Laws
begin

text \<open>
  Which effects a call can have outside the process.  A property that every harmless operation keeps is kept by the
  whole call, as long as payloads for approved terms keep it: so nothing else is ever signed.
\<close>

text \<open>For a computation on the world of a call.\<close>

abbreviation wspares :: "('x \<Rightarrow> bool) \<Rightarrow> (('s, 'x) mcp_world, 'a) io \<Rightarrow> ('a \<Rightarrow> bool) \<Rightarrow> bool" where
  "wspares J m Q \<equiv> yields (\<lambda>w. J (w_ext w)) m Q"

lemma yields_finally:
  assumes "yields J m Q" "yields J f (\<lambda>_. True)" shows "yields J (io_finally m f) Q"
proof (rule yieldsI)
  fix x r x' assume x: "J x" "io_finally m f x = (r, x')"
  obtain r1 x1 where 1: "m x = (r1, x1)" by fastforce
  obtain r2 x2 where 2: "f x1 = (r2, x2)" by fastforce
  note m = yieldsD [OF assms(1) x(1) 1]
  have "J x2" using yieldsD [OF assms(2) _ 2] m by simp
  then show "J x' \<and> (\<forall>v. r = Inr v \<longrightarrow> Q v)" using x(2) 1 2 m by (cases r2) (auto simp: io_finally_def)
qed

lemma yields_ignore: "yields J m (\<lambda>_. True) \<Longrightarrow> yields J k Q \<Longrightarrow> yields J (ignore m k) Q"
  unfolding ignore_def by (rule yields_bind)

lemma wspares_ext: "yields J m Q \<Longrightarrow> wspares J (on_ext m) Q"
  by (rule yieldsI) (auto simp: on_ext_def dest: yieldsD split: prod.splits)

lemma wspares_store: "(\<And>s v s'. m s = (Inr v, s') \<Longrightarrow> Q v) \<Longrightarrow> wspares J (on_store m) Q"
  by (rule yieldsI) (auto simp: on_store_def split: prod.splits)

lemma wspares_claim: "wspares J (try_claim i) (\<lambda>_. True)"
  by (rule yieldsI) (auto simp: try_claim_def split: prod.splits)

section \<open>What the flow may do\<close>

text \<open>Every operation but the signing one keeps \<open>J\<close>; connections may rely on the filtered fetch.\<close>

definition harmless :: "('x \<Rightarrow> bool) \<Rightarrow> safe_fetch_config \<Rightarrow> ('x, 'c, 'k) paying \<Rightarrow> bool" where
  "harmless J c P = ((\<forall>path. spares J (fa_fetch (pf_api P) path)) \<and> spares J (pf_clock P) \<and> spares J (pf_nonce P)
     \<and> (\<forall>h. spares J (dns_lookup (pf_net P) h))
     \<and> (\<forall>u init t mode. dialable c u t \<longrightarrow> spares J (net_fetch (pf_net P) u init t mode))
     \<and> (\<forall>u kind f. (\<forall>r init. spares J (f r init)) \<longrightarrow> spares J (pf_connect P u kind f))
     \<and> (\<forall>b p. spares J (pf_callTool P b p)) \<and> (\<forall>b. spares J (pf_close P b))
     \<and> (\<forall>base path h. spares J (sh_get (pf_signers P) base path h)) \<and> (\<forall>path. spares J (sh_readFile (pf_signers P) path)))"

text \<open>
  The one payment option of the challenge to sign is the selected one, for the exact scheme and within
  the caller's limit, and its terms are those of a catalog version, the expected one if the caller named one.
\<close>

definition same_option :: "js \<Rightarrow> js \<Rightarrow> bool" where
  "same_option l c = (strict_eq (js_get l ''payTo'') (js_get c ''payTo'') \<and> strict_eq (js_get l ''amount'') (js_get c ''amount'')
     \<and> strict_eq (js_get l ''maxTimeoutSeconds'') (js_get c ''maxTimeoutSeconds'')
     \<and> mcp_canonicalJson (or_nullish (js_get l ''extra'') (JObj [])) = mcp_canonicalJson (or_nullish (js_get c ''extra'') (JObj [])))"

definition selected :: "call_args \<Rightarrow> js \<Rightarrow> bool" where
  "selected a l = (js_get l ''network'' = JStr (ca_network a) \<and> js_get l ''scheme'' = JStr (ca_scheme a) \<and> js_get l ''asset'' = JStr (ca_asset a))"

definition approved :: "hashing \<Rightarrow> call_deps \<Rightarrow> call_args \<Rightarrow> js \<Rightarrow> bool" where
  "approved H d a challenge = (\<exists>l c cs cat versionHash required m.
     js_get challenge ''accepts'' = JArr [l] \<and> selected a l \<and> ca_scheme a = ''exact''
     \<and> computeVersionHash (sha_hex H) (locale_cmp H) cat = Inr versionHash
     \<and> (truthy_str (ca_expectedVersionHash a) \<longrightarrow> ca_expectedVersionHash a = Some versionHash)
     \<and> js_get cat ''accepts'' = JArr cs \<and> c \<in> set cs \<and> selected a c \<and> same_option l c
     \<and> to_big_int (js_get l ''amount'') = Inr required \<and> js_BigInt (ca_maxAtomicAmount a) = Some m
     \<and> required \<le> per_call_limit (cd_config d) m
     \<and> pubnet_refusal (cd_config d) (ca_network a) = None \<and> cd_signer d \<noteq> None)"

section \<open>The parts of the flow\<close>

lemma matches_True: "matches (selection_of a) x = Inr True \<Longrightarrow> selected a x"
  by (auto simp: matches_def selected_def selection_of_def js_prop_def split: if_splits)

lemma guard_sound:
  assumes "guardAgainstCatalog live cat i (selection_of a) = Inr ()"
  shows "\<exists>l c cs. js_find (matches (selection_of a)) (js_get live ''accepts'') = Inr (Some l)
    \<and> js_get cat ''accepts'' = JArr cs \<and> c \<in> set cs \<and> selected a c \<and> selected a l \<and> same_option l c
    \<and> strict_eq (js_get (js_get live ''resource'') ''url'') (js_get cat ''resource'')"
proof -
  obtain lo co where f: "js_find (matches (selection_of a)) (js_get live ''accepts'') = Inr lo"
      "js_find (matches (selection_of a)) (js_get cat ''accepts'') = Inr co"
      "strict_eq (js_get (js_get live ''resource'') ''url'') (js_get cat ''resource'')" "option_mismatches lo co = []"
    using assms by (auto simp: guardAgainstCatalog_def Let_def elim!: sum_bind_InrE split: if_splits)
  obtain l c where lc: "lo = Some l" "co = Some c" using f(4) by (cases lo; cases co) (auto simp: option_mismatches_def)
  have "same_option l c" using f(4) lc by (auto simp: option_mismatches_def same_option_def split: if_splits)
  then show ?thesis using f lc js_find_Some [of "matches (selection_of a)"] matches_True by meson
qed

lemma client_request_yields:
  assumes "harmless J c P" shows "yields J (client_request (pf_api P) path) (\<lambda>_. True)"
proof -
  have "spares J (fa_fetch (pf_api P) path)" using assms by (simp add: harmless_def)
  note f = yields_any [OF this]
  show ?thesis unfolding client_request_def
    by (rule yields_catch [OF yields_bind [OF f]]) (auto intro!: yields_return yields_throw split: exn.split)
qed

lemma get_resource_yields: "harmless J c P \<Longrightarrow> yields J (client_getResource (pf_api P) i) (\<lambda>_. True)"
  unfolding client_getResource_def Let_def
  by (rule yields_bind [OF client_request_yields]) (auto intro!: yields_return yields_bind yields_lift)

definition resolved_ok :: "hashing \<Rightarrow> call_deps \<Rightarrow> call_args \<Rightarrow> resource_identity \<times> string \<times> js \<times> string \<times> signer_provider \<Rightarrow> bool" where
  "resolved_ok H d a x = (case x of (i, tool, resource, versionHash, signer) \<Rightarrow>
     computeVersionHash (sha_hex H) (locale_cmp H) resource = Inr versionHash
     \<and> (truthy_str (ca_expectedVersionHash a) \<longrightarrow> ca_expectedVersionHash a = Some versionHash)
     \<and> pubnet_refusal (cd_config d) (ca_network a) = None \<and> cd_signer d \<noteq> None)"

lemma resolve_yields:
  assumes "harmless J c P" shows "yields J (resolve_version P d a) (resolved_ok (pf_hash P) d a)"
proof -
  let ?h = "\<lambda>r. computeVersionHash (sha_hex (pf_hash P)) (locale_cmp (pf_hash P)) r"
  have tail: "yields J (if truthy_str (ca_expectedVersionHash a) \<and> ca_expectedVersionHash a \<noteq> Some v
         then io_throw (stale_error (the (ca_expectedVersionHash a)) v)
         else case pubnet_refusal (cd_config d) (ca_network a) of Some e \<Rightarrow> io_throw e
           | None \<Rightarrow> (case cd_signer d of
               None \<Rightarrow> io_throw (rejected ''no signer is configured; paid calls are disabled'')
             | Some signer \<Rightarrow> io_return (i, the (ri_toolName i), r, v, signer))) (resolved_ok (pf_hash P) d a)"
    if "?h r = Inr v" for r v i
    using that by (auto intro!: yields_throw yields_return simp: resolved_ok_def split: option.split)
  have rest: "yields J (io_bind (lift_sum (?h r)) (\<lambda>v. if truthy_str (ca_expectedVersionHash a) \<and> ca_expectedVersionHash a \<noteq> Some v
         then io_throw (stale_error (the (ca_expectedVersionHash a)) v)
         else case pubnet_refusal (cd_config d) (ca_network a) of Some e \<Rightarrow> io_throw e
           | None \<Rightarrow> (case cd_signer d of
               None \<Rightarrow> io_throw (rejected ''no signer is configured; paid calls are disabled'')
             | Some signer \<Rightarrow> io_return (i, the (ri_toolName i), r, v, signer)))) (resolved_ok (pf_hash P) d a)" for r i
    by (rule yields_bind [where Q = "\<lambda>v. ?h r = Inr v"]) (use tail in \<open>auto intro: yields_lift\<close>)
  show ?thesis unfolding resolve_version_def
    by (rule yields_bind [where Q = "\<lambda>_. True", OF yields_lift], simp)
      (auto intro!: yields_throw yields_bind [OF get_resource_yields [OF assms]] rest simp: Let_def)
qed

lemma harmless_net: "harmless J c P \<Longrightarrow> net_spares J c (pf_net P) (\<lambda>_. True)"
  by (simp add: harmless_def net_spares_def)

lemma connect_yields:
  assumes "harmless J (fetch_config_of (cd_config d)) P" shows "yields J (connect_version P d resource) (\<lambda>_. True)"
proof -
  have f: "spares J (pf_connect P u kind (createSsrfSafeFetch (pf_net P) (fetch_config_of (cd_config d))))" for u kind
    using assms ssrf_fetch_spares [OF harmless_net [OF assms]] by (simp add: harmless_def)
  show ?thesis unfolding connect_version_def connectMcpClient_def Let_def
    by (rule yields_bind [where Q = "\<lambda>_. True", OF yields_lift], simp, rule yields_catch, rule yields_any [OF f])
      (auto intro!: yields_throw split: exn.split)
qed


text \<open>What the challenge phase returns: a challenge and its selected option, with the terms of the catalog version.\<close>

definition challenge_ok :: "call_args \<Rightarrow> js \<Rightarrow> js \<times> js \<Rightarrow> bool" where
  "challenge_ok a cat x = (selected a (snd x) \<and> (\<exists>c cs. js_get cat ''accepts'' = JArr cs \<and> c \<in> set cs \<and> selected a c \<and> same_option (snd x) c))"

lemma challenged_yields:
  assumes "harmless J c P" shows "yields J (challenged P a i tool resource bound) (challenge_ok a resource)"
proof -
  have f: "spares J (pf_callTool P bound p)" for p using assms by (simp add: harmless_def)
  have g: "yields J (io_bind (lift_sum (js_find (matches (selection_of a)) (js_get live ''accepts''))) (\<lambda>option1.
       case option1 of None \<Rightarrow> io_throw (McpToolError INVALID_ARGUMENT ''selected network/scheme/asset is not offered by this resource'' None)
       | Some acc \<Rightarrow> io_return (live, acc))) (challenge_ok a resource)"
    if ok: "guardAgainstCatalog live resource i (selection_of a) = Inr ()" for live
  proof -
    obtain l c cs where g: "js_find (matches (selection_of a)) (js_get live ''accepts'') = Inr (Some l)"
        "js_get resource ''accepts'' = JArr cs" "c \<in> set cs" "selected a c" "selected a l" "same_option l c"
      using guard_sound [OF ok] by blast
    show ?thesis
      by (rule yields_bind [where Q = "\<lambda>x. x = Some l", OF yields_lift])
        (use g in \<open>auto simp: challenge_ok_def intro!: yields_return\<close>)
  qed
  show ?thesis unfolding challenged_def
    by (rule yields_bind [OF yields_any [OF f]], rule yields_bind [where Q = "\<lambda>_. True", OF yields_lift], simp,
        rule yields_bind [where Q = "\<lambda>_. guardAgainstCatalog _ resource i (selection_of a) = Inr ()", OF yields_lift])
      (auto intro: g)
qed

definition reserved_ok :: "call_deps \<Rightarrow> call_args \<Rightarrow> js \<Rightarrow> string \<times> int \<Rightarrow> bool" where
  "reserved_ok d a acc x = (to_big_int (js_get acc ''amount'') = Inr (snd x) \<and> (\<exists>m. js_BigInt (ca_maxAtomicAmount a) = Some m
     \<and> (ca_scheme a = ''exact'' \<longrightarrow> snd x \<le> per_call_limit (cd_config d) m)))"

lemma reserve_within_cap:
  assumes "reserveForCall ops day0 day (call_input_of d a i required m) s = (Inr r, s')" "ca_scheme a = ''exact''"
  shows "required \<le> per_call_limit (cd_config d) m"
  using assms by (auto simp: reserveForCall_def amountToReserve_def computeEffectiveCap_def cap_of_def call_input_of_def Let_def
    split: sum.splits if_splits)

lemma reserve_yields:
  assumes "harmless J c P" shows "wspares J (reserve_payment P d ops a versionHash acc) (reserved_ok d a acc)"
proof -
  have n: "yields J (pf_nonce P) (\<lambda>_. True)" and k: "yields J (pf_clock P) (\<lambda>_. True)"
    using assms by (auto simp: harmless_def intro: yields_any)
  have last: "wspares J (io_bind (on_store (reserveForCall ops day0 day (call_input_of d a i required m))) (\<lambda>_. io_return (i, required)))
      (reserved_ok d a acc)"
    if "to_big_int (js_get acc ''amount'') = Inr required" "big_int_or_throw (ca_maxAtomicAmount a) = Inr m" for day0 day i required m
  proof (rule yields_bind)
    show "wspares J (on_store (reserveForCall ops day0 day (call_input_of d a i required m)))
        (\<lambda>_. ca_scheme a = ''exact'' \<longrightarrow> required \<le> per_call_limit (cd_config d) m)"
      by (rule wspares_store) (auto dest: reserve_within_cap)
    show "wspares J (io_return (i, required)) (reserved_ok d a acc)"
      if "ca_scheme a = ''exact'' \<longrightarrow> required \<le> per_call_limit (cd_config d) m"
      using that \<open>to_big_int _ = _\<close> \<open>big_int_or_throw _ = _\<close>
      by (auto intro!: yields_return simp: reserved_ok_def big_int_or_throw_def split: option.splits)
  qed
  show ?thesis unfolding reserve_payment_def Let_def
    by (rule yields_bind [OF yields_lift], assumption, rule yields_bind [OF yields_lift], assumption,
        rule yields_bind [OF wspares_ext [OF n]], rule yields_bind [OF wspares_claim])
      (auto intro!: yields_throw yields_bind [OF wspares_ext [OF k]] last)
qed

lemma one_accept_get [simp]: "js_get (one_accept ch acc) ''accepts'' = JArr [acc]"
  by (cases ch) (simp_all add: one_accept_def AList.update_conv)

lemma signer_yields:
  assumes "harmless J c P" shows "yields J (getSigner (pf_signers P) p nw) (\<lambda>_. True)"
proof (cases p)
  case (EnvSecretSignerProvider name)
  then show ?thesis by (auto simp: getSigner_def intro!: yields_throw yields_lift split: option.split)
next
  case (ExternalSignerProvider base auth)
  have "yields J (sh_get (pf_signers P) base path h) (\<lambda>_. True)" for path h using assms by (auto simp: harmless_def intro: yields_any)
  note f = this
  show ?thesis unfolding getSigner_def ExternalSignerProvider signer_provider.case Let_def
    by (rule yields_bind [OF f]) (auto intro!: yields_throw yields_bind [where Q = "\<lambda>_. True", OF yields_lift] yields_return)
next
  case (EncryptedKeyProvider path name)
  have "yields J (sh_readFile (pf_signers P) path) (\<lambda>_. True)" for path using assms by (auto simp: harmless_def intro: yields_any)
  note f = this
  show ?thesis
  proof (cases "sh_env (pf_signers P) name")
    case (Some key)
    show ?thesis unfolding getSigner_def EncryptedKeyProvider signer_provider.case Let_def Some option.case
      by (auto intro!: yields_throw yields_bind [OF yields_catch [OF f]] yields_bind [where Q = "\<lambda>_. True", OF yields_lift] yields_lift
        split: option.split)
  qed (auto simp: getSigner_def EncryptedKeyProvider intro!: yields_throw)
qed


lemma sign_yields:
  assumes "\<And>client. ca_scheme a = ''exact'' \<Longrightarrow> spares J (pf_createPayload P (ca_network a) client (one_accept challenge acc))"
  shows "wspares J (sign_payment P ops a challenge acc i signer) (\<lambda>_. True)"
proof -
  have "yields J (build_payload P a challenge acc signer) (\<lambda>_. True)"
    unfolding build_payload_def
  proof (rule yields_bind)
    show "yields J (lift_sum (resolveScheme (buildSchemeRegistry (pf_exact P) signer) (ca_scheme a))) (\<lambda>_. ca_scheme a = ''exact'')"
      by (rule yields_lift) (auto simp: resolveScheme_def buildSchemeRegistry_def split: if_splits)
  qed (use assms yields_any in blast)
  then show ?thesis unfolding sign_payment_def
    by (intro yields_catch wspares_ext yields_ignore wspares_store yields_throw) simp_all
qed

lemma pay_yields:
  assumes "harmless J c P" shows "wspares J (pay P ops a tool i payload bound) (\<lambda>_. True)"
proof -
  have f: "yields J (pf_callTool P bound p) (\<lambda>_. True)" for p using assms by (auto simp: harmless_def intro: yields_any)
  show ?thesis unfolding pay_def by (intro yields_catch wspares_ext f yields_ignore wspares_store yields_throw) simp
qed

lemma refusal_yields: "wspares J (ignore (on_store m) (io_throw e)) Q"
  by (intro yields_ignore wspares_store yields_throw) simp

lemma settle_yields: "wspares J (settle_payment P ops a versionHash i required acc signer paidRaw) (\<lambda>_. True)"
  unfolding settle_payment_def
  by (auto intro!: refusal_yields yields_bind [where Q = "\<lambda>_. True", OF yields_lift] yields_bind [where Q = "\<lambda>_. True", OF wspares_store]
      yields_return split: option.split)

text \<open>The whole call keeps what harmless operations and payloads for approved terms keep.\<close>

lemma call_yields:
  assumes h: "harmless J (fetch_config_of (cd_config d)) P"
    and s: "\<And>challenge client. approved (pf_hash P) d a challenge \<Longrightarrow> spares J (pf_createPayload P (ca_network a) client challenge)"
  shows "wspares J (callResource P d ops a) (\<lambda>_. True)"
  unfolding callResource_def
proof (rule yields_bind [OF wspares_ext [OF resolve_yields [OF h]]])
  fix x assume x: "resolved_ok (pf_hash P) d a x"
  obtain i tool resource versionHash provider where xs: "x = (i, tool, resource, versionHash, provider)" by (cases x)
  have close: "wspares J (on_ext (pf_close P b)) (\<lambda>_. True)" for b
    using h by (intro wspares_ext yields_any) (simp add: harmless_def)
  have paid: "wspares J (paid_call P d ops a i tool resource versionHash provider bound) (\<lambda>_. True)" for bound
    unfolding paid_call_def
  proof (rule yields_bind [OF wspares_ext [OF challenged_yields [OF h]]])
    fix y assume y: "challenge_ok a resource y"
    obtain challenge acc where ys: "y = (challenge, acc)" by (cases y)
    have next_step: "wspares J (io_bind (on_ext (getSigner (pf_signers P) provider (ca_network a))) (\<lambda>signer.
        io_bind (sign_payment P ops a challenge acc pid signer) (\<lambda>payload.
        io_bind (pay P ops a tool pid payload bound) (\<lambda>paidRaw.
        settle_payment P ops a versionHash pid required acc signer paidRaw)))) (\<lambda>_. True)"
      if r: "reserved_ok d a acc (pid, required)" for pid required
    proof -
      have "approved (pf_hash P) d a (one_accept challenge acc)" if "ca_scheme a = ''exact''"
        using x y r that unfolding xs ys approved_def resolved_ok_def challenge_ok_def reserved_ok_def by auto
      then have sg: "wspares J (sign_payment P ops a challenge acc pid signer) (\<lambda>_. True)" for signer
        by (intro sign_yields s)
      show ?thesis
        by (rule yields_bind [OF wspares_ext [OF signer_yields [OF h]]], rule yields_bind [OF sg],
            rule yields_bind [OF pay_yields [OF h]], rule settle_yields)
    qed
    show "wspares J (case y of (challenge, acc) \<Rightarrow> io_bind (reserve_payment P d ops a versionHash acc) (\<lambda>(pid, required).
        io_bind (on_ext (getSigner (pf_signers P) provider (ca_network a))) (\<lambda>signer.
        io_bind (sign_payment P ops a challenge acc pid signer) (\<lambda>payload.
        io_bind (pay P ops a tool pid payload bound) (\<lambda>paidRaw.
        settle_payment P ops a versionHash pid required acc signer paidRaw))))) (\<lambda>_. True)"
      unfolding ys prod.case by (rule yields_bind [OF reserve_yields [OF h]]) (auto intro: next_step)
  qed
  show "wspares J (case x of (i, tool, resource, versionHash, provider) \<Rightarrow> io_bind (on_ext (connect_version P d resource)) (\<lambda>bound.
      io_finally (paid_call P d ops a i tool resource versionHash provider bound) (on_ext (pf_close P bound)))) (\<lambda>_. True)"
    unfolding xs prod.case
    by (rule yields_bind [OF wspares_ext [OF connect_yields [OF h]]], rule yields_finally [OF paid close])
qed

end
