(* ===== verification/Mcp_Canonical.thy ===== *)
theory Mcp_Canonical
  imports Mcp_Resources
begin

text \<open>
  What the canonical JSON of the MCP server determines: the value as it travels (\<open>wire\<close>), up to the
  order of object keys.  Values that \<open>JSON.parse\<close> returns have distinct keys.
\<close>

section \<open>The order of properties\<close>

lemma index_key_value: "index_key k \<Longrightarrow> index_key l \<Longrightarrow> digits_value k = digits_value l \<Longrightarrow> k = l"
  by (metis index_key_def nat_to_string_inverse)

lemma code_unit_cmp_le: "code_unit_cmp a b \<le> 0 \<longleftrightarrow> a \<le> b"
  by (auto simp: code_unit_cmp_def)

lemma property_cmp_le:
  "property_cmp l r \<le> 0 \<longleftrightarrow> (if index_key l then index_key r \<longrightarrow> digits_value l \<le> digits_value r else \<not> index_key r \<and> l \<le> r)"
  using code_unit_cmp_le [of l r] by (auto simp: property_cmp_def)

lemma property_cmp_separates: "separates property_cmp"
  unfolding separates_def cmp_total_def property_cmp_le
  by (auto split: if_splits intro: index_key_value)

lemma filter_js_sort:
  assumes "separates c" "distinct (map fst kvs)"
  shows "filter Q (js_sort (entry_cmp c) kvs) = js_sort (entry_cmp c) (filter Q kvs)"
proof (rule sorted_wrt_mset_unique [where R = "\<lambda>a b. entry_cmp c a b \<le> 0"])
  have s: "sorted_wrt (\<lambda>a b. entry_cmp c a b \<le> 0) (js_sort (entry_cmp c) xs)" for xs
    by (rule js_sort_sorted [OF entry_cmp_total [OF assms(1)]])
  show "sorted_wrt (\<lambda>a b. entry_cmp c a b \<le> 0) (filter Q (js_sort (entry_cmp c) kvs))" using s by (rule sorted_wrt_filter)
  show "sorted_wrt (\<lambda>a b. entry_cmp c a b \<le> 0) (js_sort (entry_cmp c) (filter Q kvs))" by (rule s)
  show "mset (filter Q (js_sort (entry_cmp c) kvs)) = mset (js_sort (entry_cmp c) (filter Q kvs))" by simp
  have "distinct kvs" using assms(2) by (simp add: distinct_map)
  then show "distinct (filter Q (js_sort (entry_cmp c) kvs))" by (metis distinct_filter js_sort_mset mset_eq_imp_distinct_iff)
  show "x = y" if "x \<in> set (filter Q (js_sort (entry_cmp c) kvs))" "y \<in> set (filter Q (js_sort (entry_cmp c) kvs))"
    "entry_cmp c x y \<le> 0" "entry_cmp c y x \<le> 0" for x y
  proof -
    have "fst x = fst y" using that assms(1) by (auto simp: separates_def entry_cmp_def)
    moreover have "(fst x, snd x) \<in> set kvs" "(fst y, snd y) \<in> set kvs" using that by auto
    ultimately show ?thesis using eq_key_imp_eq_value [OF assms(2), of "fst x" "snd x" "snd y"] prod_eqI by simp
  qed
qed

section \<open>Values as they travel\<close>

fun keys_ok :: "js \<Rightarrow> bool" where
  "keys_ok (JArr xs) = list_all keys_ok xs"
| "keys_ok (JObj kvs) = (distinct (map fst kvs) \<and> list_all (\<lambda>e. keys_ok (snd e)) kvs)"
| "keys_ok _ = True"

function wire :: "js \<Rightarrow> js" where
  "wire (JArr xs) = JArr (map (\<lambda>v. if v = JUndef then JNull else wire v) xs)"
| "wire (JObj kvs) = JObj (map (\<lambda>e. (fst e, wire (snd e))) (filter (\<lambda>e. fst e \<noteq> proto_key \<and> snd e \<noteq> JUndef) kvs))"
| "wire JUndef = JUndef"
| "wire JNull = JNull"
| "wire (JBool b) = JBool b"
| "wire (JNum i) = JNum i"
| "wire (JStr s) = JStr s"
  by pat_completeness auto
termination by (relation "measure size") (auto simp: size_elem size_entry)

lemma sortKeys_undef [simp]: "sortKeys v = JUndef \<longleftrightarrow> v = JUndef"
  by (cases v) auto

lemma wire_undef [simp]: "wire v = JUndef \<longleftrightarrow> v = JUndef"
  by (cases v) auto

lemma canonical_wire: "keys_ok v \<Longrightarrow> mcp_canonicalJson v = json_text (js_norm property_cmp (wire v))"
  unfolding mcp_canonicalJson_def
proof (induction v rule: keys_ok.induct)
  case (1 xs)
  then show ?case by (auto simp: list_all_iff comp_def intro!: arg_cong [where f = "join _"] map_cong)
next
  case (2 kvs)
  let ?P = "\<lambda>e. fst e \<noteq> proto_key" and ?Q = "\<lambda>e :: string \<times> js. snd e \<noteq> JUndef" and ?s = "js_sort (entry_cmp property_cmp)"
  have d: "distinct (map fst (filter ?P kvs))" using 2(2) by (simp add: distinct_map_filter)
  have f: "filter ?Q (?s (filter ?P kvs)) = ?s (filter (\<lambda>e. ?P e \<and> ?Q e) kvs)"
    using filter_js_sort [OF property_cmp_separates d, of ?Q] by (simp add: conj_commute)
  have m: "?s (map (\<lambda>e. (fst e, wire (snd e))) xs) = map (\<lambda>e. (fst e, wire (snd e))) (?s xs)" for xs
    by (rule js_sort_map) (simp add: entry_cmp_def)
  show ?case using 2 f
    by (auto simp: filter_map comp_def m list_all_iff intro!: arg_cong [where f = "join _"] map_cong)
qed auto

lemma wire_ok: "keys_ok v \<Longrightarrow> v \<noteq> JUndef \<Longrightarrow> json_ok (wire v)"
proof (induction v rule: keys_ok.induct)
  case (2 kvs)
  then show ?case by (auto simp: list_all_iff comp_def distinct_map_filter)
qed (auto simp: list_all_iff)

lemma mcp_canonicalJson_iff:
  assumes "keys_ok v" "keys_ok w" "v \<noteq> JUndef" "w \<noteq> JUndef"
  shows "mcp_canonicalJson v = mcp_canonicalJson w \<longleftrightarrow> js_eqv (wire v) (wire w)"
  using canonical_wire [OF assms(1)] canonical_wire [OF assms(2)] wire_ok assms json_text_eq
    js_eqv_norm [OF _ _ _ property_cmp_separates] norm_js_eqv by metis

section \<open>Parsed values have distinct keys\<close>

lemma keys_ok_get: "keys_ok v \<Longrightarrow> keys_ok (js_get v k)"
  by (cases v) (auto simp: js_get_def coalesce_def list_all_iff split: option.split dest: map_of_SomeD)

lemma update_keys_ok:
  "distinct (map fst acc) \<Longrightarrow> list_all (\<lambda>e. keys_ok (snd e)) acc \<Longrightarrow> keys_ok v \<Longrightarrow>
   distinct (map fst (AList.update k v acc)) \<and> list_all (\<lambda>e. keys_ok (snd e)) (AList.update k v acc)"
  by (induction acc) (auto simp: list_all_iff AList.dom_update)

lemma read_keys_ok:
  "read_value n s = Some (v, r) \<Longrightarrow> keys_ok v \<and> v \<noteq> JUndef"
  "read_items n acc s = Some (v, r) \<Longrightarrow> list_all keys_ok acc \<Longrightarrow> keys_ok v \<and> v \<noteq> JUndef"
  "read_members n acc' s = Some (v, r) \<Longrightarrow> keys_ok (JObj acc') \<Longrightarrow> keys_ok v \<and> v \<noteq> JUndef"
proof (induction n s and n acc s and n acc' s arbitrary: v r and v r and v r rule: read_value_read_items_read_members.induct)
  case (2 n s)
  then show ?case by (fastforce simp: read_word_def read_number_def Let_def split: list.splits if_splits option.splits)
next
  case (4 n acc s)
  then show ?case by (fastforce split: list.splits if_splits option.splits)
next
  case (6 n acc s)
  then show ?case by (fastforce split: list.splits if_splits option.splits simp: update_keys_ok)
qed simp_all

lemma json_parse_keys_ok: "json_parse s = Some v \<Longrightarrow> keys_ok v \<and> v \<noteq> JUndef"
  using read_keys_ok(1) [of "2 * length s + 2" s v] by (auto simp: json_parse_def split: option.splits if_splits)


section \<open>References read back\<close>

definition identity_ok :: "resource_identity \<Rightarrow> bool" where
  "identity_ok i = (ri_type i = Mcp \<longleftrightarrow> ri_toolName i \<noteq> None)"

lemma ref_key_order:
  "property_cmp ''t'' ''u'' = - 1" "property_cmp ''u'' ''n'' = 1" "property_cmp ''t'' ''n'' = 1"
  "''t'' \<noteq> proto_key" "''u'' \<noteq> proto_key" "''n'' \<noteq> proto_key"
  by code_simp+

lemma ref_canonical:
  "mcp_canonicalJson (ref_payload t (JStr u) n) = json_text (JObj ((if t = Mcp then [(''n'', JStr (coalesce n []))] else [])
     @ [(''t'', JStr (type_text t)), (''u'', JStr u)]))"
  by (simp add: mcp_canonicalJson_def ref_payload_def entry_cmp_def ref_key_order)

lemma ref_roundtrip:
  assumes "identity_ok i" shows "decodeResourceRef (encodeResourceRef i) = Inr i"
proof -
  let ?o = "JObj ((if ri_type i = Mcp then [(''n'', JStr (coalesce (ri_toolName i) []))] else [])
     @ [(''t'', JStr (type_text (ri_type i))), (''u'', JStr (ri_url i))])"
  have e: "encodeResourceRef i = ''v1.'' @ base64url (json_text ?o)" by (simp only: encodeResourceRef_def encode_ref_def ref_canonical)
  have p: "json_parse (json_text ?o) = Some ?o" by (rule json_parse_text) simp
  have ne: "json_text ?o \<noteq> []" by simp
  have t: "takeWhile (\<lambda>c. c \<noteq> CHR ''.'') (''v1.'' @ x) = ''v1''" "tl (dropWhile (\<lambda>c. c \<noteq> CHR ''.'') (''v1.'' @ x)) = x" for x by simp_all
  show ?thesis unfolding decodeResourceRef_def e t Let_def from_base64url_inverse p
    using assms ne by (cases i; cases "ri_type i") (auto simp: base64url_nonempty identity_ok_def type_text_def simp del: json_text.simps)
qed

end
