(* ===== verification/Mcp_Demo.thy ===== *)
theory Mcp_Demo
  imports Call_Run Call_Resource_Effects Mcp_Canonical
begin

text \<open>
  A concrete facilitator, seller and signer on which the properties of the MCP server are applied: one
  cataloged tool sold for 7 units, and a world that is the list of the challenges signed so far.
\<close>

definition demo_accept :: js where
  "demo_accept = JObj [(''scheme'', JStr ''exact''), (''network'', JStr ''stellar:testnet''), (''asset'', JStr ''C''), (''amount'', JStr ''7''),
     (''payTo'', JStr ''G''), (''maxTimeoutSeconds'', JNum 60)]"

definition demo_bazaar :: js where
  "demo_bazaar = JObj [(''bazaar'', JObj [(''info'', JObj [(''input'', JObj [(''toolName'', JStr ''f'')])])])]"

definition demo_catalog :: js where
  "demo_catalog = JObj [(''resource'', JStr ''https://s''), (''type'', JStr ''mcp''), (''accepts'', JArr [demo_accept]), (''extensions'', demo_bazaar)]"

definition demo_challenge :: js where
  "demo_challenge = JObj [(''x402Version'', JNum 2), (''resource'', JObj [(''url'', JStr ''https://s'')]), (''accepts'', JArr [demo_accept]),
     (''extensions'', demo_bazaar)]"

definition demo_unpaid :: js where
  "demo_unpaid = JObj [(''isError'', JBool True), (''structuredContent'', demo_challenge),
     (''content'', JArr [JObj [(''type'', JStr ''text''), (''text'', JStr (json_text demo_challenge))]])]"

definition demo_paid :: "string \<Rightarrow> js" where
  "demo_paid amnt = JObj [(''content'', JStr ''done''), (''response'', JObj [(''success'', JBool True), (''network'', JStr ''stellar:testnet''),
     (''payer'', JStr ''A''), (''amount'', JStr amnt), (''transaction'', JStr ''t'')])]"

definition demo_url :: url where
  "demo_url = \<lparr> protocol = ''https:'', hostname = ''s'', url_port = [], origin = ''https://s'', href = ''https://s/'' \<rparr>"

definition demo_signer :: "'x mcp_signer" where
  "demo_signer = \<lparr> signer_address = JStr ''A'', signAuthEntry = (\<lambda>_ _. io_return JNull) \<rparr>"

definition demo_web :: "'x net" where
  "demo_web = \<lparr> parse_url = (\<lambda>u. if u = ''https://s'' then Some demo_url else None), resolve_url = (\<lambda>_ _. None),
     dns_lookup = (\<lambda>_. io_return [(''1.1.1.1'', 4)]),
     net_fetch = (\<lambda>_ _ _ _. io_return \<lparr> fr_status = 200, fr_location = None, fr_body = None \<rparr>) \<rparr>"

definition demo_signers :: "'x signer_host" where
  "demo_signers = \<lparr> sh_env = (\<lambda>_. Some ''S''), ed25519 = (\<lambda>_ _. Inr demo_signer), sh_get = (\<lambda>_ _ _. io_return (200, JNull)),
     sh_post = (\<lambda>_ _ _ _. io_return (200, JNull)), sh_readFile = (\<lambda>_. io_return []), aes_gcm_open = (\<lambda>_ _. Inr []) \<rparr>"

text \<open>\<open>amnt\<close> is the amount the seller reports after the payment.\<close>

definition demo_paying :: "string \<Rightarrow> (js list, unit, unit) paying" where
  "demo_paying amnt = \<lparr> pf_api = \<lparr> fa_fetch = (\<lambda>_. io_return \<lparr> reply_status = 200, reply_text = Inr (json_text (JObj [(''resource'', demo_catalog)])) \<rparr>),
       to_number = id \<rparr>,
     pf_hash = \<lparr> sha_hex = (\<lambda>_. ''h''), locale_cmp = code_unit_cmp \<rparr>, pf_net = demo_web, pf_signers = demo_signers,
     pf_clock = io_return ''2025-01-01'', pf_nonce = io_return ''0'', pf_connect = (\<lambda>_ _ _. io_return ()),
     pf_callTool = (\<lambda>_ p. io_return (if js_get p ''paid'' = JUndef then demo_unpaid else demo_paid amnt)),
     pf_close = (\<lambda>_. io_return ()), pf_exact = (\<lambda>_. ()),
     pf_createPayload = (\<lambda>_ _ challenge log. (Inr (JStr ''signed''), challenge # log)),
     attachPaymentToMeta = (\<lambda>_ payload. JObj [(''paid'', payload)]),
     extractPaymentResponse = (\<lambda>v. case js_get v ''response'' of JObj r \<Rightarrow> Some (JObj r) | _ \<Rightarrow> None) \<rparr>"

definition demo_config :: app_config where
  "demo_config = \<lparr> facilitatorBaseUrl = ''f'', facilitatorTimeoutMs = 1, cfg_transport = Stdio, httpPort = ConfigPort 1, httpApiKeys = [],
     cfg_signer = EnvSecret ''K'', cfg_testnet = True, cfg_pubnet = False, cfg_store = MemoryStore, databaseUrl = None,
     defaultPerCallMaxAtomic = 50, defaultSessionOrDayMaxAtomic = 100,
     networkSecurity = \<lparr> ns_allowInsecureLocal = False, ns_maxResponseBytes = 100, ns_timeoutMs = 1, ns_maxRedirects = 3,
       ns_maxConcurrentConnections = 1, ns_resolvedMcpEndpoints = [] \<rparr> \<rparr>"

definition demo_deps :: call_deps where
  "demo_deps = \<lparr> cd_config = demo_config, cd_signer = Some (EnvSecretSignerProvider ''K'') \<rparr>"

definition demo_identity :: resource_identity where
  "demo_identity = \<lparr> ri_type = Mcp, ri_url = ''https://s'', ri_toolName = Some ''f'' \<rparr>"

definition demo_args :: call_args where
  "demo_args = \<lparr> ca_ref = encodeResourceRef demo_identity, ca_expectedVersionHash = None, ca_toolArguments = JObj [],
     ca_network = ''stellar:testnet'', ca_scheme = ''exact'', ca_asset = ''C'', ca_maxAtomicAmount = ''20'', ca_agentId = ''g'', ca_sessionId = None \<rparr>"

definition demo_start :: "'s \<Rightarrow> ('s, js list) mcp_world" where
  "demo_start s = \<lparr> w_store = s, w_claimed = {}, w_ext = [] \<rparr>"

section \<open>The run of the flow on it\<close>

lemma demo_json:
  "json_parse (json_text demo_challenge) = Some demo_challenge"
  "json_parse (json_text (JObj [(''resource'', demo_catalog)])) = Some (JObj [(''resource'', demo_catalog)])"
  by (rule json_parse_text; simp add: demo_challenge_def demo_catalog_def demo_accept_def demo_bazaar_def)+

lemma demo_lengths:
  "length (json_text demo_challenge) < 1000" "length (json_text (JObj [(''resource'', demo_catalog)])) < 1000"
  by code_simp+

lemma demo_ref: "decodeResourceRef (ca_ref demo_args) = Inr demo_identity"
  by (simp add: demo_args_def ref_roundtrip identity_ok_def demo_identity_def)

lemma demo_resolve:
  "resolve_version (demo_paying amnt) demo_deps demo_args x
    = (Inr (demo_identity, ''f'', demo_catalog, ''h'', EnvSecretSignerProvider ''K''), x)"
proof -
  have c: "client_getResource (pf_api (demo_paying amnt)) demo_identity x = (Inr demo_catalog, x)"
    using demo_lengths(2) demo_json(2)
    by (simp add: client_getResource_def client_request_def demo_paying_def Let_def io_bind_def io_catch_def reply_ok_def readJson_def
        MAX_RESPONSE_BYTES_def js_prop_def del: json_text.simps)
  have h: "computeVersionHash (\<lambda>_. ''h'') lc demo_catalog = Inr ''h''" for lc
    by (simp add: computeVersionHash_def version_document_def demo_catalog_def demo_accept_def js_spread_def accept_terms_def js_prop_def)
  have t: "js_truthy demo_catalog" by (simp add: demo_catalog_def js_truthy_def)
  show ?thesis
    by (simp add: resolve_version_def demo_ref io_bind_def c t)
      (simp add: demo_paying_def h demo_args_def demo_identity_def demo_deps_def pubnet_refusal_def)
qed

lemma demo_connect: "connect_version (demo_paying amnt) demo_deps demo_catalog x = (Inr (), x)"
  by (simp add: connect_version_def Let_def io_bind_def connectMcpClient_def io_catch_def resolveConnectableEndpoint_def demo_paying_def
      demo_web_def demo_catalog_def scheme_allowed_def demo_url_def)

lemma demo_challenged: "challenged (demo_paying amnt) demo_args demo_identity ''f'' demo_catalog () x = (Inr (demo_challenge, demo_accept), x)"
proof -
  have v: "validatePaymentRequiredDualCopy demo_unpaid = Inr demo_challenge"
    using demo_lengths(1) demo_json(1)
    by (simp add: validatePaymentRequiredDualCopy_def demo_unpaid_def Let_def looksLikePaymentRequired_def text_item_def js_find_def js_prop_def
       MAX_CHALLENGE_BYTES_def del: json_text.simps) (simp add: demo_challenge_def)
  have m: "js_find (matches (selection_of demo_args)) (js_get demo_challenge ''accepts'') = Inr (Some demo_accept)"
    by (simp add: demo_challenge_def js_find_def matches_def js_prop_def demo_accept_def selection_of_def demo_args_def)
  have m2: "js_find (matches (selection_of demo_args)) (js_get demo_catalog ''accepts'') = Inr (Some demo_accept)"
    by (simp add: demo_catalog_def js_find_def matches_def js_prop_def demo_accept_def selection_of_def demo_args_def)
  have g: "guardAgainstCatalog demo_challenge demo_catalog demo_identity (selection_of demo_args) = Inr ()"
    unfolding guardAgainstCatalog_def m m2
    by (simp add: Let_def mcp_mismatches_def option_mismatches_def strict_eq_def bazaarInput_def bazaarSchema_def extension_of_def demo_challenge_def
       demo_catalog_def demo_bazaar_def demo_accept_def demo_identity_def input_member_def or_nullish_def)
  show ?thesis using v g m
    by (simp add: challenged_def io_bind_def demo_paying_def tool_params_def)
qed

definition demo_out :: "int \<Rightarrow> call_output" where
  "demo_out n = \<lparr> co_content = JStr ''done'', co_receipt = \<lparr> rc_paymentIdentifier = ''h'', rc_ref = ca_ref demo_args,
     rc_versionHash = ''h'', rc_network = ''stellar:testnet'', rc_scheme = ''exact'', rc_asset = ''C'', rc_payTo = JStr ''G'',
     rc_authorizedAmount = 7, rc_settledAmount = n, rc_transaction = JStr ''t'' \<rparr> \<rparr>"

lemma demo_numbers: "js_BigInt ''7'' = Some 7" "js_BigInt ''20'' = Some 20"
  by code_simp+

lemma demo_reserve:
  assumes "reserveForCall ops ''2025-01-01'' ''2025-01-01'' (call_input_of demo_deps demo_args ''h'' 7 20) s = (Inr r, s1)" "''h'' \<notin> C"
  shows "reserve_payment (demo_paying amnt) demo_deps ops demo_args ''h'' demo_accept \<lparr> w_store = s, w_claimed = C, w_ext = x \<rparr>
    = (Inr (''h'', 7), \<lparr> w_store = s1, w_claimed = insert ''h'' C, w_ext = x \<rparr>)"
proof -
  have a: "to_big_int (js_get demo_accept ''amount'') = Inr 7"
    by (simp add: demo_accept_def to_big_int_def big_int_or_throw_def demo_numbers)
  have m: "big_int_or_throw (ca_maxAtomicAmount demo_args) = Inr 20"
    by (simp add: demo_args_def big_int_or_throw_def demo_numbers)
  have i: "identifier_of (demo_paying amnt) demo_args ''h'' n = ''h''" for n
    by (simp add: identifier_of_def demo_paying_def computePaymentIdentifier_def)
  show ?thesis using assms
    by (simp add: reserve_payment_def a m io_bind_def i Let_def try_claim_def guard_claim_def on_ext_def on_store_def)
      (simp add: demo_paying_def io_bind_def on_ext_def on_store_def)
qed

lemma demo_call:
  assumes "reserveForCall ops ''2025-01-01'' ''2025-01-01'' (call_input_of demo_deps demo_args ''h'' 7 20) s = (Inr r, s1)"
    and "''h'' \<notin> C" "js_BigInt amnt = Some n" "reconcile ops ''h'' n ''t'' s1 = (Inr r', s2)"
  shows "callResource (demo_paying amnt) demo_deps ops demo_args \<lparr> w_store = s, w_claimed = C, w_ext = x \<rparr>
    = (Inr (demo_out n), \<lparr> w_store = s2, w_claimed = insert ''h'' C, w_ext = one_accept demo_challenge demo_accept # x \<rparr>)"
proof -
  have signer: "getSigner (pf_signers (demo_paying amnt)) (EnvSecretSignerProvider ''K'') nw y = (Inr demo_signer, y)" for nw y
    by (simp add: getSigner_def demo_paying_def demo_signers_def)
  have sign: "sign_payment (demo_paying amnt) ops demo_args demo_challenge demo_accept ''h'' demo_signer w
      = (Inr (JStr ''signed''), w\<lparr>w_ext := one_accept demo_challenge demo_accept # w_ext w\<rparr>)" for w
    by (simp add: sign_payment_def build_payload_def resolveScheme_def buildSchemeRegistry_def demo_args_def io_catch_def on_ext_def io_bind_def demo_paying_def)
  have pay: "pay (demo_paying amnt) ops demo_args ''f'' ''h'' (JStr ''signed'') () w = (Inr (demo_paid amnt), w)" for w
    by (simp add: pay_def io_catch_def on_ext_def demo_paying_def)
  have settle: "settle_payment (demo_paying amnt) ops demo_args ''h'' ''h'' 7 demo_accept demo_signer (demo_paid amnt)
      \<lparr> w_store = s1, w_claimed = C', w_ext = y \<rparr> = (Inr (demo_out n), \<lparr> w_store = s2, w_claimed = C', w_ext = y \<rparr>)" for C' y
    using assms(3,4)
    by (simp add: settle_payment_def demo_paying_def demo_paid_def js_truthy_def settlement_mismatch_def strict_eq_def or_nullish_def
        to_big_int_def big_int_or_throw_def settled_transaction_def io_bind_def on_store_def)
      (simp add: demo_out_def receipt_for_def demo_args_def demo_accept_def demo_signer_def)
  have close: "pf_close (demo_paying amnt) b y = (Inr (), y)" for b y by (simp add: demo_paying_def)
  note steps = demo_resolve demo_connect demo_challenged demo_reserve [OF assms(1,2)] signer sign pay settle
  show ?thesis
    by (simp add: callResource_def paid_call_def io_finally_def close io_bind_def on_ext_def steps)
qed

text \<open>The in-memory store before the reservation, after it and after the settlement of 7.\<close>

definition demo_key :: string where
  "demo_key = daily_key ''g'' ''2025-01-01''"

definition demo_reservation :: "reservation_status \<Rightarrow> int option \<Rightarrow> string option \<Rightarrow> reservation" where
  "demo_reservation st n h = \<lparr> paymentIdentifier = ''h'', rv_status = st, reservedAmount = 7, settledAmount = n, rv_hash = h \<rparr>"

definition demo_store :: "int \<Rightarrow> reservation \<Rightarrow> memory_budget" where
  "demo_store n r = \<lparr> reservations = [(''h'', r)], dailyUsage = [(demo_key, n)], dailyKeyOf = [(''h'', demo_key)] \<rparr>"

lemma demo_reserved:
  "reserveForCall memory_ops ''2025-01-01'' ''2025-01-01'' (call_input_of demo_deps demo_args ''h'' 7 20) empty_memory
    = (Inr (demo_reservation Reserved None None), demo_store 7 (demo_reservation Reserved None None))"
  by (simp add: reserveForCall_def memory_ops_def mem_usedToday_def empty_memory_def amountToReserve_def cap_of_def computeEffectiveCap_def
      call_input_of_def per_call_limit_def demo_deps_def demo_config_def demo_args_def Let_def mem_reserve_def new_reservation_def
      demo_store_def demo_reservation_def demo_key_def)

lemma demo_settled:
  "n \<le> 7 \<Longrightarrow> reconcile memory_ops ''h'' n ''t'' (demo_store 7 (demo_reservation Reserved None None))
    = (Inr (demo_reservation Settled (Some n) (Some ''t'')), demo_store (if 0 < n then n else 0) (demo_reservation Settled (Some n) (Some ''t'')))"
  by (auto simp: memory_ops_def mem_reconcile_def demo_store_def demo_reservation_def releaseFromDaily_def Let_def demo_key_def daily_key_nonempty)

lemma demo_run:
  assumes "js_BigInt amnt = Some n" "n \<le> 7"
  shows "callResource (demo_paying amnt) demo_deps memory_ops demo_args (demo_start empty_memory)
    = (Inr (demo_out n), \<lparr> w_store = demo_store (if 0 < n then n else 0) (demo_reservation Settled (Some n) (Some ''t'')),
        w_claimed = {''h''}, w_ext = [one_accept demo_challenge demo_accept] \<rparr>)"
  unfolding demo_start_def using demo_call [OF demo_reserved _ assms(1) demo_settled [OF assms(2)]] by simp

text \<open>A store in which the agent has already spent 7 on that day, and the call with a reported amount on it.\<close>

definition spent_before :: reservation where
  "spent_before = \<lparr> paymentIdentifier = ''g'', rv_status = Settled, reservedAmount = 7, settledAmount = Some 7, rv_hash = Some ''u'' \<rparr>"

definition used_store :: memory_budget where
  "used_store = \<lparr> reservations = [(''g'', spent_before)], dailyUsage = [(demo_key, 7)], dailyKeyOf = [(''g'', demo_key)] \<rparr>"

definition used_store_with :: "int \<Rightarrow> reservation \<Rightarrow> memory_budget" where
  "used_store_with n r = \<lparr> reservations = [(''g'', spent_before), (''h'', r)], dailyUsage = [(demo_key, n)],
     dailyKeyOf = [(''g'', demo_key), (''h'', demo_key)] \<rparr>"

lemma used_reserved:
  "reserveForCall memory_ops ''2025-01-01'' ''2025-01-01'' (call_input_of demo_deps demo_args ''h'' 7 20) used_store
    = (Inr (demo_reservation Reserved None None), used_store_with 14 (demo_reservation Reserved None None))"
  by (simp add: reserveForCall_def memory_ops_def mem_usedToday_def used_store_def amountToReserve_def cap_of_def computeEffectiveCap_def
      call_input_of_def per_call_limit_def demo_deps_def demo_config_def demo_args_def Let_def mem_reserve_def new_reservation_def
      used_store_with_def demo_reservation_def demo_key_def)

lemma used_settled:
  "reconcile memory_ops ''h'' (- 5) ''t'' (used_store_with 14 (demo_reservation Reserved None None))
    = (Inr (demo_reservation Settled (Some (- 5)) (Some ''t'')), used_store_with 2 (demo_reservation Settled (Some (- 5)) (Some ''t'')))"
  by (simp add: memory_ops_def mem_reconcile_def used_store_with_def demo_reservation_def releaseFromDaily_def Let_def demo_key_def daily_key_nonempty)

definition used_start :: "(memory_budget, js list) mcp_world" where
  "used_start = \<lparr> w_store = used_store, w_claimed = {''g''}, w_ext = [] \<rparr>"

definition used_end :: "(memory_budget, js list) mcp_world" where
  "used_end = \<lparr> w_store = used_store_with 2 (demo_reservation Settled (Some (- 5)) (Some ''t'')),
     w_claimed = {''h'', ''g''}, w_ext = [one_accept demo_challenge demo_accept] \<rparr>"

lemma used_run: "callResource (demo_paying ''-5'') demo_deps memory_ops demo_args used_start = (Inr (demo_out (- 5)), used_end)"
proof -
  have "js_BigInt ''-5'' = Some (- 5)" by code_simp
  then show ?thesis unfolding used_start_def used_end_def using demo_call [OF used_reserved _ _ used_settled] by simp
qed

end
