(* ===== verification/Mcp_Properties.thy ===== *)
theory Mcp_Properties
  imports Mcp_Demo
begin

text \<open>
  The properties of the MCP server: what a call does to the budget and what it may sign, what its
  references, hashes and challenges mean, and what its network layer lets through.
\<close>

section \<open>Budgets\<close>

text \<open>Identifiers that were not claimed have no reservation.\<close>

definition fresh_ids :: "'s budget_ops \<Rightarrow> ('s, 'x) mcp_world \<Rightarrow> bool" where
  "fresh_ids ops w = (\<forall>i. i \<notin> w_claimed w \<longrightarrow> get_reservation ops i (w_store w) = None)"

lemma accounted_fresh:
  assumes "accounted ops used key_of d a run s s'" "\<forall>i. i \<notin> C \<longrightarrow> get_reservation ops i s = None" "C \<subseteq> C'"
    and "\<forall>i required m out. run = Run i required m out \<longrightarrow> i \<in> C'"
  shows "\<forall>i. i \<notin> C' \<longrightarrow> get_reservation ops i s' = None"
  using assms by (cases run) (auto simp: accounted_def, metis subsetD)

lemma call_accounted:
  fixes ops :: "'s budget_ops" and P :: "('x, 'c, 'k) paying"
  assumes "callResource P d ops a w = (res, w')" and run_def: "run = run_of_call P d ops a w"
    and "ok (w_store w)" "fresh_ids ops w" "fair_run run"
    and "\<And>run s s'. ok s \<Longrightarrow> payment_path ops d a run s s' \<Longrightarrow> fair_run run \<Longrightarrow> spent_is_exact a run \<Longrightarrow>
      (\<And>i required m out. run = Run i required m out \<Longrightarrow> get_reservation ops i s = None) \<Longrightarrow>
      ok s' \<and> accounted ops used key_of d a run s s'"
  shows "ok (w_store w') \<and> fresh_ids ops w' \<and> receipt_of_run res run \<and> accounted ops used key_of d a run (w_store w) (w_store w')"
proof -
  have c: "run_claimed run (w_claimed w) (w_claimed w')" "payment_path ops d a run (w_store w) (w_store w')" "receipt_of_run res run"
    using call_run [OF assms(1)] by (simp_all add: run_def)
  have "spent_is_exact a run" by (simp add: run_def run_spent_exact)
  then have "ok (w_store w') \<and> accounted ops used key_of d a run (w_store w) (w_store w')"
    using assms(3-5) c(1,2) by (intro assms(6)) (auto simp: fresh_ids_def run_claimed_def)
  moreover from this have "fresh_ids ops w'"
    using accounted_fresh [of ops used key_of d a run "w_store w" "w_store w'" "w_claimed w" "w_claimed w'"] assms(4) c(1)
    by (auto simp: fresh_ids_def run_claimed_def)
  ultimately show ?thesis using c(3) by blast
qed

text \<open>C34 A call does to the budget exactly what the answers of the facilitator, the seller and the signer
  require (\<open>run_of_call\<close>, a function of those answers and of the admission by the store).  A call that
  ends before a reservation is admitted leaves the store as it was.  Otherwise there is one reservation, of at
  most the amount of the selected option, within the limits of the call and of the day.  Afterwards it is
  released when no payment could be signed or the seller says that nothing was settled; unknown when no answer, or an
  answer about another payment, came to the paid request; settled at the reported amount when the payment
  succeeded; and still reserved only when no signer could be had or the reported amount is no number.  The
  usage of the agent's day grows by exactly what that reservation holds (nothing, the reserved amount, the
  settled amount), and no other reservation, agent or day is touched.  The invariant of the store is kept and
  the receipt of a success is that run.  Assumed are the invariant, that unclaimed identifiers have no
  reservation, and that the amounts are fair: the option asks for no negative amount and the seller reports an amount
  between zero and that one (the next property shows what an unfair report does).  For the in-memory
  and for the PostgreSQL store, one call at a time.\<close>
theorem call_keeps_budget:
  "(callResource P d memory_ops a w = (res, w') \<and> memory_ok (w_store w) \<and> fresh_ids memory_ops w \<and> fair_run (run_of_call P d memory_ops a w) \<longrightarrow>
     memory_ok (w_store w') \<and> fresh_ids memory_ops w' \<and> receipt_of_run res (run_of_call P d memory_ops a w)
     \<and> accounted memory_ops mem_used daily_key d a (run_of_call P d memory_ops a w) (w_store w) (w_store w'))
   \<and> (callResource Q d postgres_ops a v = (res', v') \<and> pg_ok (w_store v) \<and> fresh_ids postgres_ops v \<and> fair_run (run_of_call Q d postgres_ops a v) \<longrightarrow>
     pg_ok (w_store v') \<and> fresh_ids postgres_ops v' \<and> receipt_of_run res' (run_of_call Q d postgres_ops a v)
     \<and> accounted postgres_ops pg_used Pair d a (run_of_call Q d postgres_ops a v) (w_store v) (w_store v'))"
  using call_accounted [of P d memory_ops a w res w' _ memory_ok mem_used daily_key, OF _ refl _ _ _ memory.run_accounted]
    call_accounted [of Q d postgres_ops a v res' v' _ pg_ok pg_used Pair, OF _ refl _ _ _ postgres.run_accounted] by blast


lemma empty_memory_ok: "memory_ok empty_memory" "fresh_ids memory_ops (demo_start empty_memory)"
  by (simp_all add: memory_ok_def empty_memory_def mem_used_def sum_over_def fresh_ids_def demo_start_def memory_ops_def mem_get_def)

lemma call_keeps_budget_witness:
  "\<exists>m h. run_of_call (demo_paying ''7'') demo_deps memory_ops demo_args (demo_start empty_memory) = Run ''h'' 7 m (Spent 7 h)
    \<and> accounted memory_ops mem_used daily_key demo_deps demo_args (Run ''h'' 7 m (Spent 7 h)) empty_memory
        (demo_store 7 (demo_reservation Settled (Some 7) (Some ''t'')))"
proof -
  let ?w = "\<lparr> w_store = demo_store 7 (demo_reservation Settled (Some 7) (Some ''t'')), w_claimed = {''h''}, w_ext = [one_accept demo_challenge demo_accept] \<rparr>"
  have run: "callResource (demo_paying ''7'') demo_deps memory_ops demo_args (demo_start empty_memory) = (Inr (demo_out 7), ?w)"
    using demo_run [OF demo_numbers(1)] by simp
  obtain m h where mh: "run_of_call (demo_paying ''7'') demo_deps memory_ops demo_args (demo_start empty_memory) = Run ''h'' 7 m (Spent 7 h)"
    using call_run [OF run] by (auto simp: receipt_of_run_def demo_out_def)
  have "accounted memory_ops mem_used daily_key demo_deps demo_args (Run ''h'' 7 m (Spent 7 h)) empty_memory (w_store ?w)"
    using call_keeps_budget [THEN conjunct1, of "demo_paying ''7''" demo_deps demo_args "demo_start empty_memory" "Inr (demo_out 7)" ?w]
      run empty_memory_ok by (simp add: mh fair_run_def) (simp add: demo_start_def)
  then show ?thesis using mh by auto
qed

lemma reconciled_usage:
  assumes "memory_ok s" "get_reservation memory_ops i s = Some r" "rv_status r = Reserved" "0 \<le> reservedAmount r"
    and "mem_holder i s = Some (daily_key agent day)"
  shows "mem_used k (snd (reconcile memory_ops i n h s)) = (if k = daily_key agent day
    then max 0 (mem_used k s - reservedAmount r + min n (reservedAmount r)) else mem_used k s)"
proof -
  have "paymentIdentifier r = i" using mem_entry [OF assms(1)] assms(2) by (auto simp: memory_ops_def mem_get_def)
  moreover have "0 \<le> mem_used (daily_key agent day) s" by (rule mem_used_nonneg [OF assms(1)])
  ultimately show ?thesis using assms(2-5)
    by (auto simp: memory_ops_def mem_get_def mem_reconcile_def Let_def releaseFromDaily_def mem_holder_def daily_key_nonempty mem_used_def
        AList.update_conv max_def min_def)
qed


lemma used_store_ok: "memory_ok used_store" "fresh_ids memory_ops used_start"
  by (auto simp: memory_ok_def used_store_def mem_used_def sum_over_def mem_share_def reservation_ok_def held_def spent_before_def demo_key_def
      daily_key_nonempty fresh_ids_def used_start_def memory_ops_def mem_get_def)


section \<open>Signing\<close>

text \<open>C36 The client asks the signing library for a payment payload only for terms that were approved: the
  selected option of a challenge, for the exact scheme and within the caller's limit, whose payee, amount,
  timeout and extra data are those of a catalog version with the hash the caller expected, past the pubnet
  gates; and every connection goes to an address the filter passed.  Whatever property the other operations
  and such payloads keep is kept by the whole call.\<close>
theorem signs_only_approved_terms:
  assumes "harmless J (fetch_config_of (cd_config d)) P"
    and "\<And>challenge client. approved (pf_hash P) d a challenge \<Longrightarrow> spares J (pf_createPayload P (ca_network a) client challenge)"
    and "J (w_ext w)" "callResource P d ops a w = (res, w')"
  shows "J (w_ext w')"
  using yieldsD [OF call_yields [OF assms(1,2)] assms(3,4)] by simp

lemma signs_only_approved_terms_witness:
  "approved (pf_hash (demo_paying ''7'')) demo_deps demo_args (one_accept demo_challenge demo_accept)"
proof -
  let ?J = "\<lambda>log. \<forall>ch \<in> set log. approved (pf_hash (demo_paying ''7'')) demo_deps demo_args ch"
  let ?w = "\<lparr> w_store = demo_store 7 (demo_reservation Settled (Some 7) (Some ''t'')), w_claimed = {''h''}, w_ext = [one_accept demo_challenge demo_accept] \<rparr>"
  have run: "callResource (demo_paying ''7'') demo_deps memory_ops demo_args (demo_start empty_memory) = (Inr (demo_out 7), ?w)"
    using demo_run [OF demo_numbers(1)] by simp
  have "?J (w_ext ?w)"
  proof (rule signs_only_approved_terms [where J = ?J, OF _ _ _ run])
    show "harmless ?J (fetch_config_of (cd_config demo_deps)) (demo_paying ''7'')"
      by (simp add: harmless_def spares_def demo_paying_def demo_web_def demo_signers_def)
    show "spares ?J (pf_createPayload (demo_paying ''7'') (ca_network demo_args) client challenge)"
      if "approved (pf_hash (demo_paying ''7'')) demo_deps demo_args challenge" for challenge client
      using that by (simp add: spares_def) (simp add: demo_paying_def)
  qed (simp_all add: demo_start_def)
  then show ?thesis by simp
qed

lemma reserved_before_signing:
  assumes "callResource P d ops a w = (res, w')" "harmless J (fetch_config_of (cd_config d)) P" "J (w_ext w)" "\<not> J (w_ext w')"
  shows "\<exists>pid required m out. pid \<notin> w_claimed w \<and> payment_path ops d a (Run pid required m out) (w_store w) (w_store w')"
proof -
  obtain run where run: "payment_path ops d a run (w_store w) (w_store w')"
      "\<forall>pid required m out. run = Run pid required m out \<longrightarrow> pid \<notin> w_claimed w \<and> pid \<in> w_claimed w' \<and> (\<forall>n h. out = Spent n h \<longrightarrow> ca_scheme a = ''exact'')"
      "run = NotReserved \<longrightarrow> (\<forall>g. callResource (P\<lparr>pf_createPayload := g\<rparr>) d ops a w = (res, w'))"
    using call_path [OF assms(1)] by (elim conjE exE) (rule that)
  have "run \<noteq> NotReserved"
  proof
    let ?P = "P\<lparr>pf_createPayload := \<lambda>_ _ _. io_throw (JsError [])\<rparr>"
    assume "run = NotReserved"
    then have again: "callResource ?P d ops a w = (res, w')" using run(3) by blast
    have "harmless J (fetch_config_of (cd_config d)) ?P" using assms(2) by (simp add: harmless_def)
    then have "yields (\<lambda>w. J (w_ext w)) (callResource ?P d ops a) (\<lambda>_. True)"
      by (rule call_yields) (simp add: spares_def io_throw_def)
    then have "J (w_ext w')" using yieldsD assms(3) again by fast
    then show False using assms(4) by simp
  qed
  then show ?thesis using run(1,2) by (cases run) auto
qed

text \<open>Nothing is signed before the budget is reserved: a call that changes what only a signature can change
  has made a reservation under an identifier nobody had claimed, which the store admitted against the limits
  of the call and of the day.  A call that fails before that point cannot have signed.\<close>
theorem payload_needs_reservation:
  assumes "callResource P d ops a w = (res, w')" "harmless J (fetch_config_of (cd_config d)) P" "J (w_ext w)" "\<not> J (w_ext w')"
  shows "\<exists>pid required m day0 day rv s1. pid \<notin> w_claimed w \<and> js_BigInt (ca_maxAtomicAmount a) = Some m
    \<and> reserveForCall ops day0 day (call_input_of d a pid required m) (w_store w) = (Inr rv, s1)"
  using reserved_before_signing [OF assms] unfolding payment_path_def payment_run.case by blast

lemma payload_needs_reservation_witness:
  "\<exists>pid required day0 day rv s1. reserveForCall memory_ops day0 day (call_input_of demo_deps demo_args pid required 20) empty_memory = (Inr rv, s1)"
proof -
  let ?w = "\<lparr> w_store = demo_store 7 (demo_reservation Settled (Some 7) (Some ''t'')), w_claimed = {''h''}, w_ext = [one_accept demo_challenge demo_accept] \<rparr>"
  have run: "callResource (demo_paying ''7'') demo_deps memory_ops demo_args (demo_start empty_memory) = (Inr (demo_out 7), ?w)"
    using demo_run [OF demo_numbers(1)] by simp
  have "harmless (\<lambda>log. log = []) (fetch_config_of (cd_config demo_deps)) (demo_paying ''7'')"
    by (simp add: harmless_def spares_def demo_paying_def demo_web_def demo_signers_def)
  from payload_needs_reservation [OF run this] have "\<exists>pid required m day0 day rv s1. js_BigInt (ca_maxAtomicAmount demo_args) = Some m
    \<and> reserveForCall memory_ops day0 day (call_input_of demo_deps demo_args pid required m) empty_memory = (Inr rv, s1)"
    by (auto simp: demo_start_def)
  moreover have "ca_maxAtomicAmount demo_args = ''20''" by (simp add: demo_args_def)
  ultimately show ?thesis using demo_numbers(2) by auto
qed

end
