(* ===== verification/Mcp_Boundary_Laws.thy ===== *)
theory Mcp_Boundary_Laws
  imports Mcp_Canonical Mcp_Access
begin

text \<open>
  What the MCP server takes from outside: what a version hash determines, when the two copies of a
  challenge count as equal, and which agent the tools of a network session belong to.
\<close>

section \<open>Sorting texts\<close>

lemma sorted_wrt_antisym_unique:
  assumes "\<And>a b. a \<in> set xs \<Longrightarrow> b \<in> set xs \<Longrightarrow> R a b \<Longrightarrow> R b a \<Longrightarrow> a = b"
  shows "sorted_wrt R xs \<Longrightarrow> sorted_wrt R ys \<Longrightarrow> mset xs = mset ys \<Longrightarrow> xs = ys"
  using assms
proof (induction xs arbitrary: ys)
  case (Cons x xs)
  then obtain y zs where y: "ys = y # zs" by (cases ys) auto
  have "x \<in> set (y # zs)" "y \<in> set (x # xs)" using Cons.prems(3) y by (metis list.set_intros(1) mset_eq_setD)+
  then have "x = y" using Cons.prems(1,2) y Cons.prems(4) [of x y] by auto
  moreover have "xs = zs" using Cons.prems \<open>x = y\<close> y by (intro Cons.IH) simp_all
  ultimately show ?case using y by simp
qed simp

lemma js_sort_unique:
  assumes "cmp_total lc UNIV" "tells_apart lc xs" "mset xs = mset ys" shows "js_sort lc xs = js_sort lc ys"
proof (rule sorted_wrt_antisym_unique [where R = "\<lambda>a b. lc a b \<le> 0"])
  have "cmp_total lc A" for A using assms(1) by (auto simp: cmp_total_def)
  then show "sorted_wrt (\<lambda>a b. lc a b \<le> 0) (js_sort lc xs)" "sorted_wrt (\<lambda>a b. lc a b \<le> 0) (js_sort lc ys)"
    by (simp_all add: js_sort_sorted)
  show "a = b" if "a \<in> set (js_sort lc xs)" "b \<in> set (js_sort lc xs)" "lc a b \<le> 0" "lc b a \<le> 0" for a b
    using that tells_apartD [OF assms(2)] by simp
qed (use assms(3) in simp)

lemma map_js_insert: "map f (js_insert (\<lambda>a b. lc (f a) (f b)) x xs) = js_insert lc (f x) (map f xs)"
  by (induction xs) auto

lemma map_js_sort: "map f (js_sort (\<lambda>a b. lc (f a) (f b)) xs) = js_sort lc (map f xs)"
  by (induction xs) (auto simp: map_js_insert)

section \<open>The version hash\<close>

text \<open>The payment terms of a catalog record, as the hash reads them.\<close>

definition terms_of :: "js \<Rightarrow> exn + js list" where
  "terms_of r = sum_bind (js_spread (js_get r ''accepts'')) (sum_map accept_terms)"

text \<open>The comparator tells the canonical texts of the payment terms apart.\<close>

definition terms_apart :: "(string \<Rightarrow> string \<Rightarrow> int) \<Rightarrow> js \<Rightarrow> bool" where
  "terms_apart lc r = (case terms_of r of Inr ts \<Rightarrow> tells_apart lc (map mcp_canonicalJson ts) | Inl e \<Rightarrow> True)"

text \<open>
  The members a version is meant to be identified by, each with the value that stands for an absent one; two
  records agree on a member when the values are the same as they travel, up to the order of object keys.
\<close>

definition declared_members :: "(string \<times> js option) list" where
  "declared_members = [(''resource'', None), (''type'', None), (''description'', Some JNull), (''mimeType'', Some JNull),
     (''serviceName'', Some JNull), (''tags'', Some (JArr [])), (''iconUrl'', Some JNull), (''extensions'', Some (JObj []))]"

definition term_members :: "(string \<times> js option) list" where
  "term_members = [(''scheme'', None), (''network'', None), (''asset'', None), (''amount'', None), (''payTo'', None),
     (''maxTimeoutSeconds'', None), (''extra'', Some (JObj []))]"

definition member_of :: "js \<Rightarrow> string \<times> js option \<Rightarrow> js" where
  "member_of v m = (case snd m of None \<Rightarrow> js_get v (fst m) | Some d \<Rightarrow> or_nullish (js_get v (fst m)) d)"

definition agree_on :: "(string \<times> js option) list \<Rightarrow> js \<Rightarrow> js \<Rightarrow> bool" where
  "agree_on ms v w = (\<forall>m \<in> set ms. js_eqv (wire (member_of v m)) (wire (member_of w m)))"

text \<open>The declared members agree, and the payment terms agree in some order.\<close>

definition same_version :: "js \<Rightarrow> js \<Rightarrow> bool" where
  "same_version r s = (agree_on declared_members r s
     \<and> (\<exists>xs ys zs. js_spread (js_get r ''accepts'') = Inr xs \<and> js_spread (js_get s ''accepts'') = Inr ys
         \<and> mset zs = mset ys \<and> list_all2 (agree_on term_members) xs zs))"

text \<open>The object of those members.\<close>

definition members_object :: "(string \<times> js option) list \<Rightarrow> js \<Rightarrow> js" where
  "members_object ms v = JObj (map (\<lambda>m. (fst m, member_of v m)) ms)"

lemma declaration_members: "version_declaration r = members_object declared_members r"
  by (simp add: version_declaration_def members_object_def declared_members_def member_of_def)

lemma terms_members: "accept_terms a = sum_bind (js_prop a ''scheme'') (\<lambda>_. Inr (members_object term_members a))"
  by (simp add: accept_terms_def members_object_def term_members_def member_of_def)

lemma members_keys: "distinct (map fst declared_members)" "distinct (map fst term_members)"
    "\<forall>m \<in> set declared_members. fst m \<noteq> proto_key" "\<forall>m \<in> set term_members. fst m \<noteq> proto_key"
  by (simp_all add: declared_members_def term_members_def proto_key_def)

lemma js_eqv_undef: "js_eqv v w \<Longrightarrow> v = JUndef \<longleftrightarrow> w = JUndef"
  by (cases rule: js_eqv.cases) auto

lemma members_wire:
  assumes "\<forall>m \<in> set ms. fst m \<noteq> proto_key"
  shows "wire (members_object ms v) = JObj (map (\<lambda>m. (fst m, wire (member_of v m))) (filter (\<lambda>m. member_of v m \<noteq> JUndef) ms))"
proof -
  have "filter (\<lambda>e. fst e \<noteq> proto_key \<and> snd e \<noteq> JUndef) (map (\<lambda>m. (fst m, member_of v m)) ms)
    = map (\<lambda>m. (fst m, member_of v m)) (filter (\<lambda>m. member_of v m \<noteq> JUndef) ms)"
    using assms by (induction ms) auto
  then show ?thesis by (simp add: members_object_def comp_def)
qed

lemma map_of_members:
  "distinct (map fst ms) \<Longrightarrow> m \<in> set ms \<Longrightarrow>
   map_of (map (\<lambda>m. (fst m, wire (member_of v m))) (filter (\<lambda>m. member_of v m \<noteq> JUndef) ms)) (fst m)
     = (if member_of v m = JUndef then None else Some (wire (member_of v m)))"
  by (induction ms) (auto simp: image_iff map_of_eq_None_iff)

lemma members_eqv:
  assumes d: "distinct (map fst ms)" and p: "\<forall>m \<in> set ms. fst m \<noteq> proto_key"
  shows "js_eqv (wire (members_object ms v)) (wire (members_object ms w)) \<longleftrightarrow> agree_on ms v w"
proof
  have dist: "distinct (map fst (map (\<lambda>m. (fst m, wire (member_of u m))) (filter (\<lambda>m. member_of u m \<noteq> JUndef) ms)))" for u
    using d by (simp add: comp_def distinct_map_filter)
  assume "js_eqv (wire (members_object ms v)) (wire (members_object ms w))"
  note e = js_eqv_objD [OF this [unfolded members_wire [OF p]] dist dist]
  show "agree_on ms v w" unfolding agree_on_def
  proof
    fix m assume "m \<in> set ms"
    with e [of "fst m"] show "js_eqv (wire (member_of v m)) (wire (member_of w m))"
      using js_eqv_refl by (simp add: map_of_members [OF d] split: if_splits)
  qed
next
  assume a: "agree_on ms v w"
  then have "member_of v m = JUndef \<longleftrightarrow> member_of w m = JUndef" if "m \<in> set ms" for m
    using that js_eqv_undef wire_undef unfolding agree_on_def by metis
  then have f: "filter (\<lambda>m. member_of v m \<noteq> JUndef) ms = filter (\<lambda>m. member_of w m \<noteq> JUndef) ms" by (intro filter_cong) auto
  show "js_eqv (wire (members_object ms v)) (wire (members_object ms w))"
    unfolding members_wire [OF p] f using a by (intro js_eqv_objI) (auto simp: list_all2_map1 list_all2_map2 agree_on_def list_all2_same)
qed

lemma version_document_terms:
  "version_document lc r = Inr d \<longleftrightarrow> (\<exists>ts. terms_of r = Inr ts \<and> d = JObj [(''declaration'', version_declaration r),
     (''accepts'', JArr (js_sort (\<lambda>a b. lc (mcp_canonicalJson a) (mcp_canonicalJson b)) ts))])"
  by (auto simp: version_document_def terms_of_def elim!: sum_bind_InrE)

lemma keys_ok_nullish: "keys_ok v \<Longrightarrow> keys_ok d \<Longrightarrow> keys_ok (or_nullish v d)"
  by (simp add: or_nullish_def)

lemma declaration_ok: "keys_ok r \<Longrightarrow> keys_ok (version_declaration r) \<and> version_declaration r \<noteq> JUndef"
  by (simp add: version_declaration_def keys_ok_get keys_ok_nullish)

lemma spread_ok: "js_spread v = Inr xs \<Longrightarrow> keys_ok v \<Longrightarrow> x \<in> set xs \<Longrightarrow> keys_ok x"
  by (cases v) (auto simp: js_spread_def list_all_iff)

lemma accept_terms_ok: "accept_terms a = Inr t \<Longrightarrow> keys_ok a \<Longrightarrow> keys_ok t \<and> t \<noteq> JUndef"
  by (auto simp: accept_terms_def keys_ok_get keys_ok_nullish elim!: sum_bind_InrE)

lemma terms_ok:
  assumes a: "terms_of r = Inr ts" "keys_ok r" "t \<in> set ts"
  shows "keys_ok t \<and> t \<noteq> JUndef"
proof -
  from a(1) obtain xs where xs: "js_spread (js_get r ''accepts'') = Inr xs" "sum_map accept_terms xs = Inr ts"
    unfolding terms_of_def by (auto elim!: sum_bind_InrE)
  obtain n where n: "n < length xs" "t = ts ! n" using a(3) sum_map_length [OF xs(2)] by (auto simp: in_set_conv_nth)
  have "keys_ok (xs ! n)" using spread_ok [OF xs(1) keys_ok_get [OF a(2)]] n(1) by simp
  then show ?thesis using accept_terms_ok [OF sum_map_nth [OF xs(2) n(1)]] n(2) by simp
qed

lemma mset_map_perm: "mset (map f xs) = mset (map f ys) \<longleftrightarrow> (\<exists>zs. mset zs = mset ys \<and> map f xs = map f zs)"
proof
  show "mset (map f xs) = mset (map f ys) \<Longrightarrow> \<exists>zs. mset zs = mset ys \<and> map f xs = map f zs"
  proof (induction xs arbitrary: ys)
    case (Cons x xs)
    then have "f x \<in> set (map f ys)" by (metis list.set_intros(1) list.simps(9) mset_eq_setD)
    then obtain y a b where y: "f x = f y" "ys = a @ y # b" by (auto simp: in_set_conv_decomp)
    then have "mset (map f xs) = mset (map f (a @ b))" using Cons.prems by simp
    then obtain zs where "mset zs = mset (a @ b)" "map f xs = map f zs" using Cons.IH by blast
    then show ?case using y by (intro exI [of _ "y # zs"]) simp
  qed simp
qed (metis mset_map)

lemma terms_of_spread:
  "terms_of r = Inr ts \<Longrightarrow> \<exists>xs. js_spread (js_get r ''accepts'') = Inr xs \<and> ts = map (members_object term_members) xs"
proof -
  assume "terms_of r = Inr ts"
  then obtain xs where xs: "js_spread (js_get r ''accepts'') = Inr xs" "sum_map accept_terms xs = Inr ts"
    unfolding terms_of_def by (auto elim!: sum_bind_InrE)
  have "sum_map accept_terms xs = Inr ts \<Longrightarrow> ts = map (members_object term_members) xs"
    by (induction xs arbitrary: ts) (auto simp: terms_members elim!: sum_bind_InrE)
  then show ?thesis using xs by blast
qed

lemma members_ok: "keys_ok v \<Longrightarrow> distinct (map fst ms) \<Longrightarrow> \<forall>m \<in> set ms. \<forall>d. snd m = Some d \<longrightarrow> keys_ok d \<Longrightarrow> keys_ok (members_object ms v)"
  by (auto simp: members_object_def comp_def list_all_iff member_of_def keys_ok_get keys_ok_nullish split: option.split)

lemma terms_agree:
  assumes "keys_ok a" "keys_ok b"
  shows "mcp_canonicalJson (members_object term_members a) = mcp_canonicalJson (members_object term_members b) \<longleftrightarrow> agree_on term_members a b"
proof -
  have "keys_ok (members_object term_members v)" if "keys_ok v" for v
    using that members_keys(2) by (rule members_ok) (simp add: term_members_def)
  then show ?thesis using assms members_eqv [OF members_keys(2,4)]
    by (subst mcp_canonicalJson_iff) (auto simp: members_object_def)
qed

lemma map_eq_list_all2: "map f xs = map f ys \<longleftrightarrow> list_all2 (\<lambda>x y. f x = f y) xs ys"
  by (simp flip: list.rel_eq add: list.rel_map)

lemma same_terms:
  assumes "terms_of r = Inr ts" "terms_of s = Inr us" "keys_ok r" "keys_ok s"
  shows "mset (map mcp_canonicalJson ts) = mset (map mcp_canonicalJson us) \<longleftrightarrow>
    (\<exists>xs ys zs. js_spread (js_get r ''accepts'') = Inr xs \<and> js_spread (js_get s ''accepts'') = Inr ys
      \<and> mset zs = mset ys \<and> list_all2 (agree_on term_members) xs zs)"
proof -
  let ?f = "\<lambda>a. mcp_canonicalJson (members_object term_members a)"
  obtain xs ys where xs: "js_spread (js_get r ''accepts'') = Inr xs" "ts = map (members_object term_members) xs"
      and ys: "js_spread (js_get s ''accepts'') = Inr ys" "us = map (members_object term_members) ys"
    using terms_of_spread [OF assms(1)] terms_of_spread [OF assms(2)] by blast
  have agree: "?f x = ?f z \<longleftrightarrow> agree_on term_members x z" if "x \<in> set xs" "z \<in> set ys" for x z
    using that spread_ok [OF xs(1) keys_ok_get [OF assms(3)]] spread_ok [OF ys(1) keys_ok_get [OF assms(4)]] by (intro terms_agree)
  have "map ?f xs = map ?f zs \<longleftrightarrow> list_all2 (agree_on term_members) xs zs" if "mset zs = mset ys" for zs
    unfolding map_eq_list_all2 using agree mset_eq_setD [OF that] by (intro list.rel_cong) auto
  then show ?thesis using xs ys mset_map_perm [of ?f xs ys] by (auto simp: comp_def)
qed

lemma canonical_map_eqv:
  assumes "\<forall>t \<in> set ts \<union> set us. keys_ok t \<and> t \<noteq> JUndef" "length ts = length us"
  shows "map mcp_canonicalJson ts = map mcp_canonicalJson us \<longleftrightarrow> list_all2 js_eqv (map wire ts) (map wire us)"
  using assms(2,1) by (induction rule: list_induct2) (simp_all add: mcp_canonicalJson_iff)

lemma js_eqv_arr: "js_eqv (JArr xs) (JArr ys) \<longleftrightarrow> list_all2 js_eqv xs ys"
proof
  assume "js_eqv (JArr xs) (JArr ys)"
  then show "list_all2 js_eqv xs ys" by (cases rule: js_eqv.cases) (simp_all add: js_scalar_def)
qed (rule eqv_arr)

lemma js_eqv_two_keys:
  assumes "k \<noteq> l" shows "js_eqv (JObj [(k, x), (l, u)]) (JObj [(k, y), (l, v)]) \<longleftrightarrow> js_eqv x y \<and> js_eqv u v"
proof
  assume "js_eqv (JObj [(k, x), (l, u)]) (JObj [(k, y), (l, v)])"
  from js_eqv_obj_same_keys [OF this] assms show "js_eqv x y \<and> js_eqv u v" by simp
next
  assume "js_eqv x y \<and> js_eqv u v"
  then show "js_eqv (JObj [(k, x), (l, u)]) (JObj [(k, y), (l, v)])" by (intro js_eqv_objI) simp_all
qed

lemma document_eqv:
  assumes "keys_ok d" "d \<noteq> JUndef" "keys_ok e" "e \<noteq> JUndef" "\<forall>t \<in> set ts \<union> set us. keys_ok t \<and> t \<noteq> JUndef"
  shows "mcp_canonicalJson (JObj [(''declaration'', d), (''accepts'', JArr ts)])
      = mcp_canonicalJson (JObj [(''declaration'', e), (''accepts'', JArr us)])
    \<longleftrightarrow> js_eqv (wire d) (wire e) \<and> map mcp_canonicalJson ts = map mcp_canonicalJson us" (is "?l \<longleftrightarrow> ?r")
proof -
  have p: "''declaration'' \<noteq> proto_key" "''accepts'' \<noteq> proto_key" by code_simp+
  have w: "wire (JObj [(''declaration'', x), (''accepts'', JArr xs)]) = JObj [(''declaration'', wire x), (''accepts'', JArr (map wire xs))]"
    if "x \<noteq> JUndef" "\<forall>t \<in> set xs. t \<noteq> JUndef" for x xs using that p by (simp del: wire_undef)
  have ok: "keys_ok (JObj [(''declaration'', x), (''accepts'', JArr xs)])" if "keys_ok x" "\<forall>t \<in> set xs. keys_ok t" for x xs
    using that by (simp add: list_all_iff)
  have obj: "js_eqv (JObj [(''declaration'', x), (''accepts'', xs)]) (JObj [(''declaration'', y), (''accepts'', ys)])
      \<longleftrightarrow> js_eqv x y \<and> js_eqv xs ys" for x y xs ys
    by (rule js_eqv_two_keys) simp
  have ts: "\<forall>t \<in> set ts. t \<noteq> JUndef" and us: "\<forall>t \<in> set us. t \<noteq> JUndef" using assms(5) by simp_all
  have "?l \<longleftrightarrow> js_eqv (wire (JObj [(''declaration'', d), (''accepts'', JArr ts)])) (wire (JObj [(''declaration'', e), (''accepts'', JArr us)]))"
    using assms by (intro mcp_canonicalJson_iff ok) auto
  also have "\<dots> \<longleftrightarrow> js_eqv (wire d) (wire e) \<and> list_all2 js_eqv (map wire ts) (map wire us)"
    unfolding w [OF assms(2) ts] w [OF assms(4) us] obj js_eqv_arr by (rule refl)
  also have "\<dots> \<longleftrightarrow> ?r"
    using canonical_map_eqv [OF assms(5)] by (metis length_map list_all2_lengthD)
  finally show ?thesis .
qed

lemma document_same_version:
  assumes "version_document lc r = Inr d" "version_document lc s = Inr e" "keys_ok r" "keys_ok s"
  shows "mcp_canonicalJson d = mcp_canonicalJson e \<Longrightarrow> same_version r s"
    and "cmp_total lc UNIV \<Longrightarrow> terms_apart lc r \<Longrightarrow> same_version r s \<Longrightarrow> mcp_canonicalJson d = mcp_canonicalJson e"
proof -
  let ?s = "js_sort (\<lambda>a b. lc (mcp_canonicalJson a) (mcp_canonicalJson b))"
  obtain ts us where t: "terms_of r = Inr ts" "terms_of s = Inr us"
      "d = JObj [(''declaration'', version_declaration r), (''accepts'', JArr (?s ts))]"
      "e = JObj [(''declaration'', version_declaration s), (''accepts'', JArr (?s us))]"
    using assms(1,2) by (auto simp: version_document_terms)
  have ok: "\<forall>t \<in> set (?s ts) \<union> set (?s us). keys_ok t \<and> t \<noteq> JUndef"
    using terms_ok [OF t(1) assms(3)] terms_ok [OF t(2) assms(4)] by auto
  have eq: "mcp_canonicalJson d = mcp_canonicalJson e \<longleftrightarrow> js_eqv (wire (version_declaration r)) (wire (version_declaration s))
      \<and> map mcp_canonicalJson (?s ts) = map mcp_canonicalJson (?s us)"
    unfolding t(3,4) using declaration_ok [OF assms(3)] declaration_ok [OF assms(4)] ok by (intro document_eqv) simp_all
  have m: "mset (map mcp_canonicalJson (?s xs)) = mset (map mcp_canonicalJson xs)" for xs by simp
  have same: "same_version r s \<longleftrightarrow> js_eqv (wire (version_declaration r)) (wire (version_declaration s))
      \<and> mset (map mcp_canonicalJson ts) = mset (map mcp_canonicalJson us)"
    unfolding same_version_def same_terms [OF t(1,2) assms(3,4)] declaration_members members_eqv [OF members_keys(1,3)] by (rule refl)
  show "same_version r s" if "mcp_canonicalJson d = mcp_canonicalJson e"
    using that eq m [of ts] m [of us] unfolding same by metis
  show "mcp_canonicalJson d = mcp_canonicalJson e" if "cmp_total lc UNIV" "terms_apart lc r" "same_version r s"
    using that eq js_sort_unique [of lc "map mcp_canonicalJson ts" "map mcp_canonicalJson us"]
    by (simp add: same map_js_sort terms_apart_def t(1))
qed

section \<open>The two copies of a challenge\<close>

text \<open>The text of the first text item of the answer.\<close>

definition text_copy :: "js \<Rightarrow> string \<Rightarrow> bool" where
  "text_copy result t = (\<exists>i. text_item (js_get result ''content'') = Inr (Some i) \<and> js_get i ''text'' = JStr t)"

lemma dual_copy:
  assumes "keys_ok result"
  shows "validatePaymentRequiredDualCopy result = Inr challenge \<longleftrightarrow>
    challenge = js_get result ''structuredContent'' \<and> js_get result ''isError'' = JBool True \<and> looksLikePaymentRequired challenge
    \<and> (\<exists>t v. text_copy result t \<and> length t \<le> MAX_CHALLENGE_BYTES \<and> json_parse t = Some v \<and> js_eqv (wire challenge) (wire v))"
proof -
  let ?c = "js_get result ''structuredContent''"
  have eq: "mcp_canonicalJson ?c = mcp_canonicalJson v \<longleftrightarrow> js_eqv (wire ?c) (wire v)"
    if "looksLikePaymentRequired ?c" "json_parse t = Some v" for t v
    using that json_parse_keys_ok [OF that(2)] keys_ok_get [OF assms]
    by (intro mcp_canonicalJson_iff) (auto simp: looksLikePaymentRequired_def)
  show ?thesis
  proof (cases "js_get result ''isError'' = JBool True \<and> looksLikePaymentRequired ?c")
    case False
    then show ?thesis by (auto simp: validatePaymentRequiredDualCopy_def Let_def)
  next
    case True
    show ?thesis
    proof (cases "\<exists>t. text_copy result t")
      case False
      then show ?thesis using True
        by (cases "text_item (js_get result ''content'')")
          (auto simp: validatePaymentRequiredDualCopy_def Let_def text_copy_def split: option.split js.split)
    next
      case copy: True
      then obtain t i where t: "text_item (js_get result ''content'') = Inr (Some i)" "js_get i ''text'' = JStr t"
        by (auto simp: text_copy_def)
      then have "text_copy result t' \<longleftrightarrow> t' = t" for t' by (auto simp: text_copy_def)
      then show ?thesis using True t eq [of t]
        by (cases "json_parse t") (auto simp: validatePaymentRequiredDualCopy_def Let_def)
    qed
  qed
qed

section \<open>The agents of network sessions\<close>

text \<open>The sessions that any sequence of requests and disconnections leads to.\<close>

inductive serving :: "(string \<Rightarrow> string) \<Rightarrow> app_config \<Rightarrow> signer_provider option \<Rightarrow> http_sessions \<Rightarrow> bool" for sha c signer where
  serving_start: "serving sha c signer \<lparr> streamable = [], sse = [] \<rparr>"
| serving_streamable: "serving sha c signer s \<Longrightarrow> handleStreamable sha c signer header sessionId opened s = (a, s') \<Longrightarrow> serving sha c signer s'"
| serving_sse: "serving sha c signer s \<Longrightarrow> openSse sha c signer header i s = (a, s') \<Longrightarrow> serving sha c signer s'"
| serving_closed: "serving sha c signer s \<Longrightarrow> serving sha c signer (closeStreamable i s)"
| serving_closed_sse: "serving sha c signer s \<Longrightarrow> serving sha c signer (closeSse i s)"

text \<open>The request carries a configured key; the agent is the digest of a configured key.\<close>

definition presents_key :: "app_config \<Rightarrow> string option \<Rightarrow> bool" where
  "presents_key c header = (\<exists>key \<in> set (httpApiKeys c). key \<noteq> [] \<and> header = Some (bearer @ key))"

definition keyed_agent :: "(string \<Rightarrow> string) \<Rightarrow> app_config \<Rightarrow> string \<Rightarrow> bool" where
  "keyed_agent sha c agent = (\<exists>key \<in> set (httpApiKeys c). key \<noteq> [] \<and> agent = take 32 (sha key))"

lemma bearer_key:
  assumes "bearerAuth sha keys (Some h) = Authenticated agent"
  shows "h = bearer @ drop 7 h \<and> drop 7 h \<noteq> [] \<and> drop 7 h \<in> set keys \<and> agent = take 32 (sha (drop 7 h))"
proof -
  have h: "take 7 h = bearer" "drop 7 h \<noteq> []" "drop 7 h \<in> set keys" "agent = take 32 (sha (drop 7 h))"
    using assms by (auto simp: bearerAuth_def Let_def split: if_splits)
  have "h = take 7 h @ drop 7 h" by simp
  then show ?thesis using h by simp
qed

lemma bearer_none: "bearerAuth sha keys None \<noteq> Authenticated agent"
  by (simp add: bearerAuth_def)

lemma admit_keyed:
  assumes "admit sha c (Some p) header = Authenticated agent"
  shows "presents_key c header \<and> keyed_agent sha c agent"
proof (cases header)
  case None
  then show ?thesis using assms bearer_none by (simp add: admit_def)
next
  case (Some h)
  then have "bearerAuth sha (httpApiKeys c) (Some h) = Authenticated agent" using assms by (simp add: admit_def)
  from bearer_key [OF this] show ?thesis using Some unfolding presents_key_def keyed_agent_def by blast
qed

definition keyed_sessions :: "(string \<Rightarrow> string) \<Rightarrow> app_config \<Rightarrow> http_sessions \<Rightarrow> bool" where
  "keyed_sessions sha c s = ((\<forall>i agent. map_of (streamable s) i = Some agent \<longrightarrow> keyed_agent sha c agent)
     \<and> (\<forall>i agent. map_of (sse s) i = Some agent \<longrightarrow> keyed_agent sha c agent))"

lemma keyed_insert:
  "keyed_sessions sha c s \<Longrightarrow> keyed_agent sha c agent \<Longrightarrow> keyed_sessions sha c (s\<lparr>streamable := AList.update i agent (streamable s)\<rparr>)"
  "keyed_sessions sha c s \<Longrightarrow> keyed_agent sha c agent \<Longrightarrow> keyed_sessions sha c (s\<lparr>sse := AList.update i agent (sse s)\<rparr>)"
  by (auto simp: keyed_sessions_def AList.update_conv')

lemma keyed_close: "keyed_sessions sha c s \<Longrightarrow> keyed_sessions sha c (closeStreamable i s) \<and> keyed_sessions sha c (closeSse i s)"
  by (auto simp: keyed_sessions_def closeStreamable_def closeSse_def AList.delete_conv' restrict_map_def split: if_splits)

lemma streamable_keyed:
  assumes "keyed_sessions sha c s" "handleStreamable sha c (Some p) header sessionId opened s = (a, s')"
  shows "keyed_sessions sha c s' \<and> (\<forall>agent. a = ServedAs agent \<longrightarrow> presents_key c header \<and> keyed_agent sha c agent)"
proof (cases "admit sha c (Some p) header")
  case (Refused st e)
  then show ?thesis using assms by (auto simp: handleStreamable_def)
next
  case (Authenticated agent)
  note k = admit_keyed [OF Authenticated]
  show ?thesis
  proof (cases "case sessionId of Some i \<Rightarrow> map_of (streamable s) i | None \<Rightarrow> None")
    case None
    then show ?thesis using assms Authenticated k by (cases opened) (auto simp: handleStreamable_def intro!: keyed_insert)
  next
    case (Some registered)
    then have "keyed_agent sha c registered" using assms(1) by (auto simp: keyed_sessions_def split: option.splits)
    then show ?thesis using assms Authenticated k Some by (auto simp: handleStreamable_def)
  qed
qed

lemma sse_keyed:
  assumes "keyed_sessions sha c s" "openSse sha c (Some p) header i s = (a, s')"
  shows "keyed_sessions sha c s' \<and> (\<forall>agent. a = ServedAs agent \<longrightarrow> presents_key c header \<and> keyed_agent sha c agent)"
  using assms admit_keyed [of sha c p header] by (cases "admit sha c (Some p) header") (auto simp: openSse_def intro!: keyed_insert)

lemma messages_keyed:
  assumes "keyed_sessions sha c s" "handleMessages sha c (Some p) header sessionId s = ServedAs agent"
  shows "presents_key c header \<and> keyed_agent sha c agent"
  using assms admit_keyed [of sha c p header]
  by (cases "admit sha c (Some p) header") (auto simp: handleMessages_def keyed_sessions_def split: option.splits)

lemma serving_keyed: "serving sha c (Some p) s \<Longrightarrow> keyed_sessions sha c s"
proof (induction rule: serving.induct)
  case serving_start
  then show ?case by (simp add: keyed_sessions_def)
next
  case (serving_streamable s header sessionId opened a s')
  from streamable_keyed [OF serving_streamable(3,2)] show ?case by simp
next
  case (serving_sse s header i a s')
  from sse_keyed [OF serving_sse(3,2)] show ?case by simp
qed (simp_all add: keyed_close)

section \<open>The gates of the configuration\<close>

lemma loaded_gates:
  assumes "loadConfig env raw = Inr c" "cfg_transport c \<noteq> Stdio" "buildSignerProvider env' (cfg_signer c) = Some p"
  shows "httpApiKeys c \<noteq> [] \<and> (\<forall>n. p \<noteq> EnvSecretSignerProvider n)
    \<and> (cfg_pubnet c \<longrightarrow> cfg_store c = PostgresStore \<and> truthy_str (databaseUrl c))"
proof -
  have c: "config_refusal raw (api_keys (env (raw_api_keys_env raw))) = None" "cfg_transport c = raw_transport raw"
      "cfg_signer c = raw_signer raw" "cfg_pubnet c = raw_pubnet_enabled raw" "cfg_store c = raw_store raw"
      "httpApiKeys c = api_keys (env (raw_api_keys_env raw))"
      "raw_store raw = PostgresStore \<longrightarrow> truthy_str (databaseUrl c)"
    using assms(1) unfolding loadConfig_def Let_def
    by (auto split: option.splits if_splits elim!: sum_bind_InrE)
  have "raw_signer raw \<noteq> NoSigner" using assms(3) c(3) by (auto simp: buildSignerProvider_def)
  then show ?thesis using c assms(2,3)
    by (cases "raw_store raw") (auto simp: config_refusal_def buildSignerProvider_def is_env_secret_def split: if_splits signer_config.splits)
qed

end
