(* ===== verification/Mcp_Boundary_Properties.thy ===== *)
theory Mcp_Boundary_Properties
  imports Mcp_Boundary_Laws Safe_Fetch_Laws Mcp_Demo
begin

text \<open>
  The properties of what the MCP server takes from outside: references and version hashes, the two copies
  of a challenge, the network, and who is served on a remote transport.
\<close>

section \<open>References, hashes and challenges\<close>

lemma decoded_identity_ok: "decodeResourceRef ref = Inr i \<Longrightarrow> identity_ok i"
  by (auto simp: decodeResourceRef_def identity_ok_def Let_def split: if_splits option.splits js.splits)

text \<open>C39 A reference decodes to exactly the identity it was made from, so different resources have different
  references; and whatever text decodes at all yields an identity with a tool name exactly when it is an
  MCP resource.\<close>
theorem reference_roundtrip:
  "(identity_ok i \<longrightarrow> decodeResourceRef (encodeResourceRef i) = Inr i) \<and> (decodeResourceRef ref = Inr j \<longrightarrow> identity_ok j)"
  using ref_roundtrip decoded_identity_ok by blast

lemma reference_roundtrip_witness:
  "decodeResourceRef (encodeResourceRef demo_identity) = Inr demo_identity \<and> identity_ok demo_identity"
proof -
  have "identity_ok demo_identity" by (simp add: identity_ok_def demo_identity_def)
  then show ?thesis using reference_roundtrip [of demo_identity "encodeResourceRef demo_identity" demo_identity] by simp
qed


definition demo_terms :: "string \<Rightarrow> js" where
  "demo_terms price = JObj [(''scheme'', JStr ''exact''), (''network'', JStr ''n''), (''asset'', JStr ''C''), (''amount'', JStr price),
     (''payTo'', JStr ''G''), (''maxTimeoutSeconds'', JNum 60)]"

definition demo_resource :: "js list \<Rightarrow> js" where
  "demo_resource as = JObj [(''resource'', JStr ''u''), (''type'', JStr ''mcp''), (''accepts'', JArr as)]"

lemma demo_terms_of: "terms_of (demo_resource [demo_terms p, demo_terms q]) = Inr [the_terms p, the_terms q]"
  if "\<And>p. accept_terms (demo_terms p) = Inr (the_terms p)"
  using that by (simp add: terms_of_def demo_resource_def js_spread_def)

text \<open>A collation that puts the two spellings of an accented e at the same place.\<close>

definition demo_collator :: "string \<Rightarrow> string \<Rightarrow> int" where
  "demo_collator a b = (let spelling = (\<lambda>s. if s = [CHR ''e'', CHR 0xCC, CHR 0x81] then [CHR 0xC3, CHR 0xA9] else s) in
     code_unit_cmp (spelling a) (spelling b))"


text \<open>A challenge is accepted exactly when the answer is an error whose structured content is a
  PaymentRequired object and whose first text item holds, within 262144 bytes, a JSON text of the same
  value up to the order of object keys; what is returned is the structured content.\<close>
theorem dual_copy_exact:
  "keys_ok result \<Longrightarrow> validatePaymentRequiredDualCopy result = Inr challenge \<longleftrightarrow>
    challenge = js_get result ''structuredContent'' \<and> js_get result ''isError'' = JBool True \<and> looksLikePaymentRequired challenge
    \<and> (\<exists>t v. text_copy result t \<and> length t \<le> MAX_CHALLENGE_BYTES \<and> json_parse t = Some v \<and> js_eqv (wire challenge) (wire v))"
  by (rule dual_copy)

lemma dual_copy_exact_witness: "validatePaymentRequiredDualCopy demo_unpaid = Inr demo_challenge"
proof -
  have ok: "keys_ok demo_unpaid" "looksLikePaymentRequired demo_challenge"
    by (simp_all add: demo_unpaid_def demo_challenge_def demo_accept_def demo_bazaar_def looksLikePaymentRequired_def del: json_text.simps)
  have copy: "text_copy demo_unpaid (json_text demo_challenge)"
    by (simp add: text_copy_def demo_unpaid_def text_item_def js_find_def js_prop_def del: json_text.simps)
  have get: "js_get demo_unpaid ''structuredContent'' = demo_challenge" "js_get demo_unpaid ''isError'' = JBool True"
    by (simp_all add: demo_unpaid_def del: json_text.simps)
  have "length (json_text demo_challenge) \<le> MAX_CHALLENGE_BYTES"
    using demo_lengths(1) by (simp add: MAX_CHALLENGE_BYTES_def del: json_text.simps)
  then have "\<exists>t v. text_copy demo_unpaid t \<and> length t \<le> MAX_CHALLENGE_BYTES \<and> json_parse t = Some v \<and> js_eqv (wire demo_challenge) (wire v)"
    using copy demo_json(1) js_eqv_refl by (intro exI [of _ "json_text demo_challenge"] exI [of _ demo_challenge] conjI)
  then show ?thesis using ok(2) get by (intro iffD2 [OF dual_copy_exact [OF ok(1)]] conjI) simp_all
qed

section \<open>The network\<close>

text \<open>\<open>safeFetch\<close> always returns; it sends at most \<open>maxRedirects + 1\<close> requests, all to the origin of the
  requested URL, each over an allowed scheme and to an address that the filter passed, and the text it
  returns has at most \<open>maxResponseBytes\<close> bytes, whatever the servers and the resolver answer.\<close>
theorem safe_fetch_bounded:
  assumes "request_budget J c net start" "parse_url net u = Some start" "J (maxRedirects c + 1) x"
    and "safeFetch net u init c x = (r, x')"
  shows "(\<exists>m. J m x') \<and> (\<forall>status location text. r = Inr (status, location, text) \<longrightarrow> length text \<le> maxResponseBytes c)"
proof -
  have "sameOrigin start start" by (simp add: sameOrigin_def)
  moreover have "fetch_loop net c init (maxRedirects c + 1) start x = (r, x')" using assms(2,4) by (simp add: safeFetch_def)
  ultimately show ?thesis using fetch_loop_budget [OF assms(1)] assms(3) by fastforce
qed

text \<open>A server that redirects forever: the world counts the requests.\<close>

definition demo_loop :: "nat net" where
  "demo_loop = demo_web\<lparr>resolve_url := \<lambda>_ _. Some demo_url,
     net_fetch := \<lambda>_ _ _ _ n. (Inr \<lparr> fr_status = 302, fr_location = Some ''/a'', fr_body = None \<rparr>, Suc n)\<rparr>"

lemma safe_fetch_bounded_witness:
  "snd (safeFetch demo_loop ''https://s'' \<lparr> fi_method = None, fi_headers = None, fi_body = None \<rparr> DEFAULT_SAFE_FETCH_CONFIG 0) \<le> 4"
proof -
  let ?J = "\<lambda>n k. k + n \<le> (4 :: nat)"
  obtain r x' where run: "safeFetch demo_loop ''https://s'' \<lparr> fi_method = None, fi_headers = None, fi_body = None \<rparr> DEFAULT_SAFE_FETCH_CONFIG 0 = (r, x')"
    by fastforce
  have "request_budget ?J DEFAULT_SAFE_FETCH_CONFIG demo_loop demo_url"
    by (auto simp: request_budget_def demo_loop_def demo_web_def spares_def)
  then have "\<exists>m. ?J m x'"
    by (rule safe_fetch_bounded [where J = ?J, THEN conjunct1, OF _ _ _ run])
      (simp_all add: demo_loop_def demo_web_def DEFAULT_SAFE_FETCH_CONFIG_def)
  then show ?thesis using run by auto
qed

text \<open>C40 An IPv4 address, plain or in the dotted IPv4-mapped form, is refused exactly when it lies in one of
  thirteen special-purpose CIDR blocks: this network, RFC 1918, loopback, link-local, protocol
  assignments, documentation, benchmarking, multicast and reserved.\<close>
theorem address_filter_is_special_purpose:
  assumes "a < 256" "b < 256" "c < 256" "d < 256"
  shows "(isBlockedAddress (dotted a b c d) \<longleftrightarrow> (\<exists>blk \<in> set special_blocks. in_block (ipv4_word a b c d) blk))
    \<and> (isBlockedAddress (''::ffff:'' @ dotted a b c d) \<longleftrightarrow> (\<exists>blk \<in> set special_blocks. in_block (ipv4_word a b c d) blk))"
  using address_filter [OF assms] by blast

lemma address_filter_is_special_purpose_witness:
  "isBlockedAddress (dotted 169 254 169 254) \<and> isBlockedAddress (''::ffff:'' @ dotted 10 0 0 1) \<and> \<not> isBlockedAddress (dotted 8 8 8 8)"
  using address_filter_is_special_purpose [of 169 254 169 254] address_filter_is_special_purpose [of 10 0 0 1]
    address_filter_is_special_purpose [of 8 8 8 8]
  by (simp add: special_blocks_def in_block_def ipv4_word_def)

section \<open>Remote access\<close>

text \<open>C37 On a remote transport with a signer, the configuration has API keys, no key in the environment, and a
  durable store once pubnet is enabled; and in every reachable state a request is served only if it carries a
  configured key, by the tools of an agent that is the digest of a configured key.\<close>
theorem remote_payments_authenticated:
  assumes "loadConfig env raw = Inr c" "cfg_transport c \<noteq> Stdio" "buildSignerProvider env (cfg_signer c) = Some p"
    and "serving sha c (Some p) s"
  shows "httpApiKeys c \<noteq> [] \<and> (\<forall>n. p \<noteq> EnvSecretSignerProvider n)
    \<and> (cfg_pubnet c \<longrightarrow> cfg_store c = PostgresStore \<and> truthy_str (databaseUrl c))
    \<and> (\<forall>header i fresh agent.
        fst (handleStreamable sha c (Some p) header i fresh s) = ServedAs agent
        \<or> fst (openSse sha c (Some p) header (the i) s) = ServedAs agent \<or> handleMessages sha c (Some p) header i s = ServedAs agent
        \<longrightarrow> presents_key c header \<and> keyed_agent sha c agent)"
proof -
  have k: "keyed_sessions sha c s" using assms(4) by (rule serving_keyed)
  have "presents_key c header \<and> keyed_agent sha c agent"
    if "fst (handleStreamable sha c (Some p) header i fresh s) = ServedAs agent
      \<or> fst (openSse sha c (Some p) header (the i) s) = ServedAs agent \<or> handleMessages sha c (Some p) header i s = ServedAs agent"
    for header i fresh agent
    using that streamable_keyed [OF k prod.collapse [symmetric], of p header i fresh] sse_keyed [OF k prod.collapse [symmetric], of p header "the i"]
      messages_keyed [OF k, of p header i agent] by blast
  then show ?thesis using loaded_gates [OF assms(1-3)] by blast
qed

definition demo_raw :: raw_config where
  "demo_raw = \<lparr> raw_base_url = ''f'', raw_timeout_ms = 1, raw_transport = StreamableHttp, raw_port = 1, raw_api_keys_env = ''A'',
     raw_signer = External ''u'' None, raw_testnet_enabled = True, raw_pubnet_enabled = True, raw_store = PostgresStore,
     raw_database_url_env = ''D'', raw_per_call_max = ''7'', raw_session_or_day_max = ''20'',
     raw_security = networkSecurity demo_config \<rparr>"

definition demo_env :: "string \<Rightarrow> string option" where
  "demo_env n = (if n = ''A'' then Some ''k1, k2'' else if n = ''D'' then Some ''d'' else None)"

definition demo_remote :: app_config where
  "demo_remote = \<lparr> facilitatorBaseUrl = ''f'', facilitatorTimeoutMs = 1, cfg_transport = StreamableHttp, httpPort = ConfigPort 1,
     httpApiKeys = [''k1'', ''k2''], cfg_signer = External ''u'' None, cfg_testnet = True, cfg_pubnet = True, cfg_store = PostgresStore,
     databaseUrl = Some ''d'', defaultPerCallMaxAtomic = 7, defaultSessionOrDayMaxAtomic = 20, networkSecurity = networkSecurity demo_config \<rparr>"

lemma demo_loaded: "loadConfig demo_env demo_raw = Inr demo_remote"
proof -
  have "api_keys (Some ''k1, k2'') = [''k1'', ''k2'']" by code_simp
  then show ?thesis
    by (simp add: loadConfig_def Let_def demo_raw_def demo_env_def config_refusal_def is_env_secret_def big_int_or_throw_def demo_numbers
        demo_remote_def truthy_str_def coalesce_def)
qed

lemma remote_payments_authenticated_witness:
  "\<not> presents_key demo_remote (Some ''Bearer x'') \<and>
   (\<forall>agent. fst (handleStreamable (\<lambda>k. k) demo_remote (Some (ExternalSignerProvider ''u'' None)) (Some ''Bearer x'') None (Some ''1'')
      \<lparr> streamable = [], sse = [] \<rparr>) \<noteq> ServedAs agent)"
proof -
  have n: "\<not> presents_key demo_remote (Some ''Bearer x'')" by (simp add: presents_key_def demo_remote_def bearer_def)
  have "cfg_transport demo_remote \<noteq> Stdio" "buildSignerProvider demo_env (cfg_signer demo_remote) = Some (ExternalSignerProvider ''u'' None)"
    by (simp_all add: demo_remote_def buildSignerProvider_def)
  from remote_payments_authenticated [OF demo_loaded this serving_start] show ?thesis using n by blast
qed

text \<open>The agent of a session is the one that fresh it: a request with any configured key that names the
  session of another agent is served as that agent, and pays from that agent's budget.\<close>
theorem session_serves_its_opener:
  assumes "map_of (streamable s) i = Some agent" "key \<in> set (httpApiKeys c)" "key \<noteq> []"
  shows "handleStreamable sha c (Some p) (Some (bearer @ key)) (Some i) fresh s = (ServedAs agent, s)"
proof -
  have "take 7 (bearer @ key) = bearer" "drop 7 (bearer @ key) = key" by (simp_all add: bearer_def)
  then have "admit sha c (Some p) (Some (bearer @ key)) = Authenticated (take 32 (sha key))"
    using assms(2,3) by (auto simp: admit_def bearerAuth_def Let_def)
  then show ?thesis using assms(1) by (simp add: handleStreamable_def)
qed

lemma session_serves_its_opener_witness:
  "handleStreamable (\<lambda>k. k) demo_remote (Some (ExternalSignerProvider ''u'' None)) (Some (bearer @ ''k2'')) (Some ''1'') None \<lparr> streamable = [(''1'', ''k1'')], sse = [] \<rparr>
    = (ServedAs ''k1'', \<lparr> streamable = [(''1'', ''k1'')], sse = [] \<rparr>)"
  by (rule session_serves_its_opener) (simp_all add: demo_remote_def)

end
