(* ===== verification/Catalog_Text.thy ===== *)
theory Catalog_Text
  imports JS_Values
begin

text \<open>
  Seller-authored text (facilitator/src/bazaar/sanitize.ts).  A string is the UTF-8 text; where the code
  reads characters or lengths the text is taken apart into code points, each the list of its bytes.  The
  Unicode tables (normalisation, case, the classes letter or number and white space) are a parameter.
\<close>

section \<open>Code points\<close>

definition is_continuation :: "char \<Rightarrow> bool" where
  "is_continuation c = (let n = (of_char c :: nat) in 128 \<le> n \<and> n < 192)"

function code_points :: "string \<Rightarrow> string list" where
  "code_points [] = []"
| "code_points (c # s) = (c # takeWhile is_continuation s) # code_points (dropWhile is_continuation s)"
  by pat_completeness auto
termination by (relation "measure length") (auto simp: le_imp_less_Suc length_dropWhile_le)

lemma concat_code_points [simp]: "concat (code_points s) = s"
  by (induction s rule: code_points.induct) auto

definition utf16_units :: "string \<Rightarrow> nat" where
  "utf16_units p = (if length p = 4 then 2 else 1)"

text \<open>\<open>length\<close> and \<open>slice(0, n)\<close> of a JavaScript string; half of a surrogate pair is written as U+FFFD.\<close>

definition js_length :: "string \<Rightarrow> nat" where
  "js_length s = sum_list (map utf16_units (code_points s))"

definition replacement :: string where
  "replacement = [CHR 0xEF, CHR 0xBF, CHR 0xBD]"

fun utf16_take :: "nat \<Rightarrow> string list \<Rightarrow> string list" where
  "utf16_take n [] = []"
| "utf16_take n (p # ps) = (if n = 0 then [] else if utf16_units p \<le> n then p # utf16_take (n - utf16_units p) ps
     else [replacement])"

definition js_slice :: "nat \<Rightarrow> string \<Rightarrow> string" where
  "js_slice n s = concat (utf16_take n (code_points s))"

section \<open>Unicode\<close>

record unicode =
  nfc :: "string \<Rightarrow> string"
  nfkc :: "string \<Rightarrow> string"
  lower_case :: "string \<Rightarrow> string"
  upper_case :: "string \<Rightarrow> string"
  letter_or_number :: "string \<Rightarrow> bool"
  white_space :: "string \<Rightarrow> bool"

text \<open>C0 controls, DEL and C1 controls.\<close>

definition is_control :: "string \<Rightarrow> bool" where
  "is_control p = (case map of_char p of [n] \<Rightarrow> n < 32 \<or> n = (127 :: nat)
     | [m, n] \<Rightarrow> m = 194 \<and> 128 \<le> n \<and> n \<le> 159 | _ \<Rightarrow> False)"

text \<open>U+200E, U+200F, U+202A to U+202E and U+2066 to U+2069.\<close>

definition is_bidi :: "string \<Rightarrow> bool" where
  "is_bidi p = (case map of_char p of [l, m, n] \<Rightarrow> l = 226 \<and>
       ((m = 128 \<and> (n = 142 \<or> n = 143 \<or> (170 \<le> n \<and> n \<le> (174 :: nat)))) \<or> (m = 129 \<and> 166 \<le> n \<and> n \<le> 169))
     | _ \<Rightarrow> False)"

definition hasControlCharacters :: "string \<Rightarrow> bool" where
  "hasControlCharacters s = list_ex is_control (code_points s)"

definition trim_points :: "unicode \<Rightarrow> string list \<Rightarrow> string list" where
  "trim_points u ps = rev (dropWhile (white_space u) (rev (dropWhile (white_space u) ps)))"

definition sanitizeText :: "unicode \<Rightarrow> string \<Rightarrow> nat \<Rightarrow> string" where
  "sanitizeText u s maxLength = concat (utf16_take maxLength (trim_points u
     (filter (\<lambda>p. \<not> is_bidi p) (filter (\<lambda>p. \<not> is_control p) (code_points (nfc u s))))))"

section \<open>Sizes of JSON values\<close>

definition jsonBytes :: "js \<Rightarrow> nat" where
  "jsonBytes v = length (stringify (or_nullish v JNull))"

definition js_children :: "js \<Rightarrow> js list" where
  "js_children v = (case v of JArr xs \<Rightarrow> xs | JObj kvs \<Rightarrow> map snd kvs | _ \<Rightarrow> [])"

lemma js_children_size: "x \<in> set (js_children v) \<Longrightarrow> size x < size v"
  by (cases v) (auto simp: js_children_def size_elem size_entry)

text \<open>\<open>seen\<close> is the deepest level found so far among the siblings before.\<close>

function nested_depth :: "nat \<Rightarrow> nat \<Rightarrow> js \<Rightarrow> nat" and sibling_depth :: "nat \<Rightarrow> nat \<Rightarrow> nat \<Rightarrow> js list \<Rightarrow> nat" where
  "nested_depth limit d v = (if d > limit \<or> js_scalar v then d else sibling_depth limit d d (js_children v))"
| "sibling_depth limit d seen [] = seen"
| "sibling_depth limit d seen (x # xs) = (let deepest = max seen (nested_depth limit (d + 1) x) in
     if deepest > limit then deepest else sibling_depth limit d deepest xs)"
  by pat_completeness auto
termination
proof (relation "measure (\<lambda>x. case x of Inl (_, _, v) \<Rightarrow> 2 * size v + 1 | Inr (_, _, _, xs) \<Rightarrow> 2 * size_list size xs)")
  have "2 * size_list size (js_children v) < 2 * size v + 1" if "\<not> js_scalar v" for v
  proof (cases v)
    case (JObj kvs)
    have "size_list size (map snd kvs) \<le> size_list (size_prod (\<lambda>_. 0) size) kvs" by (induction kvs) auto
    then show ?thesis using JObj by (simp add: js_children_def)
  qed (use that in \<open>auto simp: js_children_def js_scalar_def\<close>)
  then show "(Inr (limit, d, d, js_children v), Inl (limit, d, v))
      \<in> measure (\<lambda>x. case x of Inl (_, _, v) \<Rightarrow> 2 * size v + 1 | Inr (_, _, _, xs) \<Rightarrow> 2 * size_list size xs)"
    if "\<not> (limit < d \<or> js_scalar v)" for limit d v using that by simp
qed auto

definition nesting :: "js \<Rightarrow> nat \<Rightarrow> nat" where
  "nesting v limit = nested_depth limit 1 v"

end
