(* ===== verification/Catalog_Extract.thy ===== *)
theory Catalog_Extract
  imports Catalog_Text Facilitator_Types
begin

text \<open>
  Bazaar extraction (facilitator/src/bazaar/extract.ts): from an already verified request to a catalog
  candidate, a rejection with a stable code, or nothing.  The payment terms are the validated ones of the
  request; everything below \<open>resource\<close> and \<open>extensions\<close> is hostile JSON, read as the code reads it, the
  TypeErrors of reading a missing part included.  The validators of @x402/extensions, the WHATWG URL
  parser, SHA-256 and the Unicode tables are the fields of \<open>extract_env\<close>.
\<close>

section \<open>Data\<close>

datatype rejection_code = bazaar_extension_not_an_object | metadata_too_large | metadata_too_deep
  | spec_validation_failed | schema_validation_failed | schema_too_large | example_too_large
  | missing_resource_url | invalid_resource_url | unsupported_url_scheme | url_credentials_present
  | control_characters_in_url | insecure_resource_origin | local_resource_origin | missing_mcp_tool_name
  | payto_ownership_conflict | duplicate_change_rejected | catalog_write_failed

datatype resource_type = Http_type | Mcp_type

definition type_text :: "resource_type \<Rightarrow> string" where
  "type_text t = (case t of Http_type \<Rightarrow> ''http'' | Mcp_type \<Rightarrow> ''mcp'')"

record payment_option =
  po_optionHash :: string
  po_x402Version :: int
  po_scheme :: string
  po_network :: string
  po_asset :: string
  po_amount :: string
  po_payTo :: string
  po_maxTimeoutSeconds :: int
  po_extra :: js
  po_assetSymbol :: "string option"
  po_assetDecimals :: "int option"

record catalog_candidate =
  ca_type :: resource_type
  ca_resourceKey :: string
  ca_resourceUrl :: string
  ca_origin :: string
  ca_routeTemplate :: "string option"
  ca_method :: "string option"
  ca_toolName :: "string option"
  ca_transport :: "string option"
  ca_x402Version :: int
  ca_description :: "string option"
  ca_mimeType :: "string option"
  ca_serviceName :: "string option"
  ca_tags :: "string list"
  ca_iconUrl :: "string option"
  ca_bazaarExtension :: js
  ca_extensions :: js
  ca_inputSchema :: "js option"
  ca_inputExample :: "js option"
  ca_outputType :: "string option"
  ca_outputSchema :: "js option"
  ca_outputExample :: "js option"
  ca_declarationHash :: string
  ca_paymentOption :: payment_option
  ca_softDropped :: "string list"

datatype extraction_result = Absent | Rejected rejection_code "string option" | Candidate catalog_candidate

record catalog_config =
  cg_autoCatalog :: bool
  indexOn_verified :: bool
  requireValidSchema :: bool
  duplicateChanged_reject :: bool
  maxMetadataBytes :: nat
  maxDescriptionLength :: nat
  maxSchemaBytes :: nat
  maxExampleBytes :: nat
  maxJsonDepth :: nat
  maxTags :: nat
  maxTagLength :: nat
  maxIconUrlLength :: nat
  maxServiceNameLength :: nat
  maxRouteTemplateLength :: nat
  requireHttpsOrigins :: bool
  allowLocalOrigins :: bool

text \<open>What the WHATWG parser answers; the protocol ends with its colon.\<close>

record parsed_url =
  pu_protocol :: string
  pu_username :: string
  pu_password :: string
  pu_host :: string
  pu_hostname :: string
  pu_pathname :: string

record service_metadata =
  sm_serviceName :: "string option"
  sm_tags :: "string list option"
  sm_iconUrl :: "string option"

record validation =
  va_valid :: bool
  va_errors :: "string list option"

record extract_env =
  unicode_of :: unicode
  sha_of :: "string \<Rightarrow> string"
  whatwg :: "string \<Rightarrow> parsed_url option"
  validateDiscoveryExtensionSpec :: "js \<Rightarrow> validation"
  validateDiscoveryExtension :: "js \<Rightarrow> validation"
  isValidRouteTemplate :: "string \<Rightarrow> bool"
  sanitizeResourceServiceMetadata :: "js \<Rightarrow> service_metadata"

section \<open>Resource URLs\<close>

definition has_prefix :: "string \<Rightarrow> string \<Rightarrow> bool" where
  "has_prefix p s = (take (length p) s = p)"

definition LOCAL_HOSTS :: "string list" where
  "LOCAL_HOSTS = [''localhost'', ''localhost.localdomain'', ''ip6-localhost'', ''ip6-loopback'']"

text \<open>The pattern \<open>/^172\.(1[6-9]|2\d|3[01])\./\<close>.\<close>

definition private_172 :: "string \<Rightarrow> bool" where
  "private_172 s = (has_prefix ''172.'' s \<and> (case drop 4 s of
     a # b # c # _ \<Rightarrow> c = CHR ''.'' \<and> ((a = CHR ''1'' \<and> is_digit b \<and> digit_val b \<ge> 6) \<or> (a = CHR ''2'' \<and> is_digit b)
        \<or> (a = CHR ''3'' \<and> (b = CHR ''0'' \<or> b = CHR ''1'')))
     | _ \<Rightarrow> False))"

definition isLocalHost :: "unicode \<Rightarrow> string \<Rightarrow> bool" where
  "isLocalHost u h = (let host = lower_case u h in
     host \<in> set LOCAL_HOSTS
     \<or> (has_prefix ''127.'' host \<or> host = ''0.0.0.0'' \<or> host = ''::1'' \<or> host = ''[::1]'')
     \<or> (has_prefix ''10.'' host \<or> has_prefix ''192.168.'' host \<or> has_prefix ''169.254.'' host)
     \<or> private_172 host)"

record normalized_url =
  nu_canonical :: string
  nu_origin :: string
  nu_pathname :: string
  nu_protocol :: string
  nu_hostname :: string

definition strip_slashes :: "string \<Rightarrow> string" where
  "strip_slashes s = rev (dropWhile (\<lambda>c. c = CHR ''/'') (rev s))"

definition or_text :: "string \<Rightarrow> string \<Rightarrow> string" where
  "or_text s d = (if s = [] then d else s)"

definition normalizeResourceUrl :: "(string \<Rightarrow> parsed_url option) \<Rightarrow> string \<Rightarrow> rejection_code + normalized_url" where
  "normalizeResourceUrl parser s =
     (if s = [] then Inl missing_resource_url
      else if js_length s > 2048 then Inl invalid_resource_url
      else if hasControlCharacters s then Inl control_characters_in_url
      else case parser s of
        None \<Rightarrow> Inl invalid_resource_url
      | Some url \<Rightarrow>
          if pu_protocol url \<notin> {''http:'', ''https:'', ''mcp:''} then Inl unsupported_url_scheme
          else if pu_username url \<noteq> [] \<or> pu_password url \<noteq> [] then Inl url_credentials_present
          else (let o1 = pu_protocol url @ ''//'' @ pu_host url;
                    path = or_text (strip_slashes (pu_pathname url)) ''/'' in
            Inr \<lparr> nu_canonical = or_text (o1 @ (if path = ''/'' then [] else path)) o1, nu_origin = o1, nu_pathname = path,
              nu_protocol = pu_protocol url, nu_hostname = pu_hostname url \<rparr>))"

definition originPolicy :: "unicode \<Rightarrow> normalized_url \<Rightarrow> catalog_config \<Rightarrow> rejection_code option" where
  "originPolicy u url c = (if nu_protocol url = ''mcp:'' then None
     else (let loc = isLocalHost u (nu_hostname url) in
       if loc \<and> \<not> allowLocalOrigins c then Some local_resource_origin
       else if nu_protocol url \<noteq> ''https:'' \<and> requireHttpsOrigins c \<and> \<not> (loc \<and> allowLocalOrigins c)
         then Some insecure_resource_origin
       else None))"

section \<open>Extraction\<close>

definition boundedExample :: "js \<Rightarrow> nat \<Rightarrow> bool" where
  "boundedExample v limit = (v = JUndef \<or> jsonBytes v \<le> limit)"

text \<open>\<open>isPlainObject(v) ? v : undefined\<close>, \<open>typeof v === "string" ? v : undefined\<close> and present values.\<close>

definition object_or :: "js \<Rightarrow> js \<Rightarrow> js" where
  "object_or v d = (if js_is_record v then v else d)"

definition string_of :: "js \<Rightarrow> string option" where
  "string_of v = (case v of JStr s \<Rightarrow> Some s | _ \<Rightarrow> None)"

definition defined :: "js \<Rightarrow> js option" where
  "defined v = (if v = JUndef then None else Some v)"

definition nonempty :: "string option \<Rightarrow> string option" where
  "nonempty s = (if truthy_str s then s else None)"

definition or_null :: "string option \<Rightarrow> js" where
  "or_null s = (case s of Some t \<Rightarrow> JStr t | None \<Rightarrow> JNull)"

text \<open>\<open>raw.schema.properties[k]\<close> where both are plain objects, otherwise undefined.\<close>

definition schema_property :: "js \<Rightarrow> string \<Rightarrow> js" where
  "schema_property v k = js_get (object_or (js_get (object_or (js_get v ''schema'') JUndef) ''properties'') JUndef) k"

definition declaredInputSchema :: "js \<Rightarrow> js \<Rightarrow> resource_type \<Rightarrow> js" where
  "declaredInputSchema v input t = (case t of Mcp_type \<Rightarrow> js_get input ''inputSchema''
     | Http_type \<Rightarrow> (let ps = object_or (js_get (object_or (schema_property v ''input'') JUndef) ''properties'') JUndef in
         or_nullish (js_get ps ''body'') (js_get ps ''queryParams'')))"

text \<open>The pattern of a media type.\<close>

definition mime_char :: "char \<Rightarrow> bool" where
  "mime_char c = (let n = (of_char c :: nat) in (48 \<le> n \<and> n \<le> 57) \<or> (65 \<le> n \<and> n \<le> 90) \<or> (97 \<le> n \<and> n \<le> 122)
     \<or> c = CHR ''_'' \<or> c = CHR ''.'' \<or> c = CHR ''+'' \<or> c = CHR ''-'')"

definition mime_pattern :: "string \<Rightarrow> bool" where
  "mime_pattern s = (case js_split (CHR ''/'') s of
     [a, b] \<Rightarrow> a \<noteq> [] \<and> list_all mime_char a \<and> b \<noteq> [] \<and> list_all mime_char b | _ \<Rightarrow> False)"

text \<open>A cleaned optional field and whether it was dropped.\<close>

definition clean :: "(string \<Rightarrow> string) \<Rightarrow> (string \<Rightarrow> bool) \<Rightarrow> string option \<Rightarrow> string option" where
  "clean f ok s = (case s of None \<Rightarrow> None | Some t \<Rightarrow> (if ok (f t) then Some (f t) else None))"

definition dropped :: "string \<Rightarrow> bool \<Rightarrow> 'a option \<Rightarrow> string list" where
  "dropped name given v = (if given \<and> v = None then [name] else [])"

definition option_json :: "requirements \<Rightarrow> js" where
  "option_json r = JObj [(''scheme'', JStr (scheme r)), (''network'', JStr (network r)), (''asset'', JStr (asset r)),
     (''amount'', JStr (amount r)), (''payTo'', JStr (payTo r)), (''maxTimeoutSeconds'', JNum (maxTimeoutSeconds r)),
     (''extra'', object_or (extra r) (JObj []))]"

definition payment_option_of ::
    "(string \<Rightarrow> string) \<Rightarrow> int \<Rightarrow> requirements \<Rightarrow> (string \<times> int) option \<Rightarrow> payment_option" where
  "payment_option_of sha v r meta = \<lparr> po_optionHash = sha (canonicalJson (option_json r)), po_x402Version = v,
     po_scheme = scheme r, po_network = network r, po_asset = asset r, po_amount = amount r, po_payTo = payTo r,
     po_maxTimeoutSeconds = maxTimeoutSeconds r, po_extra = object_or (extra r) (JObj []),
     po_assetSymbol = map_option fst meta, po_assetDecimals = map_option snd meta \<rparr>"

definition resourceKey :: "resource_type \<Rightarrow> normalized_url \<Rightarrow> string option \<Rightarrow> string option \<Rightarrow> string option \<Rightarrow> string" where
  "resourceKey t url template method tool = (case t of
     Mcp_type \<Rightarrow> ''mcp|'' @ nu_canonical url @ ''|'' @ coalesce tool ''undefined''
   | Http_type \<Rightarrow> ''http|'' @ nu_origin url @ ''|'' @ coalesce template (nu_pathname url) @ ''|'' @ coalesce method [])"

definition resourceUrl :: "resource_type \<Rightarrow> normalized_url \<Rightarrow> string option \<Rightarrow> string" where
  "resourceUrl t url template = (case t of Mcp_type \<Rightarrow> nu_canonical url
     | Http_type \<Rightarrow> nu_origin url @ coalesce template (nu_pathname url))"

text \<open>The candidate, once nothing rejects any more.\<close>

definition candidate_of ::
    "extract_env \<Rightarrow> catalog_config \<Rightarrow> payment_payload \<Rightarrow> requirements \<Rightarrow> (string \<times> int) option \<Rightarrow>
     js \<Rightarrow> js \<Rightarrow> js \<Rightarrow> js \<Rightarrow> resource_type \<Rightarrow> normalized_url \<Rightarrow> extraction_result" where
  "candidate_of E c p r meta exts bz input output t url = (let
     res = object_or (resource p) JUndef;
     declaredTemplate = string_of (js_get bz ''routeTemplate'');
     routeTemplate = clean id (\<lambda>s. js_length s \<le> maxRouteTemplateLength c \<and> isValidRouteTemplate E s) declaredTemplate;
     description = clean (\<lambda>s. sanitizeText (unicode_of E) s (maxDescriptionLength c)) (\<lambda>s. s \<noteq> [])
       (string_of (js_get res ''description''));
     mimeType = clean (\<lambda>s. sanitizeText (unicode_of E) s 128) mime_pattern (string_of (js_get res ''mimeType''));
     service = sanitizeResourceServiceMetadata E res;
     softDropped = dropped ''routeTemplate'' (declaredTemplate \<noteq> None) routeTemplate
       @ dropped ''description'' (string_of (js_get res ''description'') \<noteq> None) description
       @ dropped ''mimeType'' (string_of (js_get res ''mimeType'') \<noteq> None) mimeType
       @ dropped ''serviceName'' (js_get res ''serviceName'' \<noteq> JUndef) (sm_serviceName service)
       @ dropped ''tags'' (js_get res ''tags'' \<noteq> JUndef) (sm_tags service)
       @ dropped ''iconUrl'' (js_get res ''iconUrl'' \<noteq> JUndef) (sm_iconUrl service);
     tags = filter (\<lambda>s. s \<noteq> []) (map (\<lambda>s. sanitizeText (unicode_of E) s (maxTagLength c))
       (take (maxTags c) (coalesce (sm_tags service) [])));
     iconUrl = clean id (\<lambda>s. js_length s \<le> maxIconUrlLength c) (nonempty (sm_iconUrl service));
     serviceName = map_option (\<lambda>s. sanitizeText (unicode_of E) s (maxServiceNameLength c)) (nonempty (sm_serviceName service));
     method = map_option (upper_case (unicode_of E)) (string_of (js_get input ''method''));
     toolName = string_of (js_get input ''toolName'') in
   if t = Mcp_type \<and> \<not> truthy_str toolName then Rejected missing_mcp_tool_name None
   else (let
     key = resourceKey t url routeTemplate method toolName;
     declaration = JObj [(''type'', JStr (type_text t)), (''resourceKey'', JStr key),
       (''resourceUrl'', JStr (resourceUrl t url routeTemplate)), (''description'', or_null description),
       (''mimeType'', or_null mimeType), (''serviceName'', or_null serviceName), (''tags'', JArr (map JStr tags)),
       (''iconUrl'', or_null iconUrl), (''bazaar'', bz)];
     example = (if js_get input ''example'' \<noteq> JUndef then js_get input ''example''
       else if js_get input ''body'' \<noteq> JUndef then js_get input ''body'' else js_get input ''queryParams'') in
     Candidate \<lparr> ca_type = t, ca_resourceKey = key, ca_resourceUrl = resourceUrl t url routeTemplate,
       ca_origin = nu_origin url, ca_routeTemplate = nonempty routeTemplate, ca_method = nonempty method,
       ca_toolName = nonempty toolName, ca_transport = string_of (js_get input ''transport''),
       ca_x402Version = p_version p, ca_description = nonempty description, ca_mimeType = nonempty mimeType,
       ca_serviceName = nonempty serviceName, ca_tags = tags, ca_iconUrl = nonempty iconUrl,
       ca_bazaarExtension = bz, ca_extensions = exts, ca_inputSchema = defined (declaredInputSchema bz input t),
       ca_inputExample = defined example, ca_outputType = string_of (js_get output ''type''),
       ca_outputSchema = defined (schema_property bz ''output''), ca_outputExample = defined (js_get output ''example''),
       ca_declarationHash = sha_of E (canonicalJson declaration),
       ca_paymentOption = payment_option_of (sha_of E) (p_version p) r meta, ca_softDropped = softDropped \<rparr>))"

definition joined_errors :: "validation \<Rightarrow> string option" where
  "joined_errors v = map_option (join ''; '') (va_errors v)"

definition extractCandidate ::
    "extract_env \<Rightarrow> catalog_config \<Rightarrow> payment_payload \<Rightarrow> requirements \<Rightarrow> (string \<times> int) option \<Rightarrow> exn + extraction_result" where
  "extractCandidate E c p r meta = (let
     exts = object_or (extensions p) (JObj []);
     bz = js_get exts ''bazaar'' in
   if bz = JUndef then Inr Absent
   else if \<not> js_is_record bz then Inr (Rejected bazaar_extension_not_an_object None)
   else if jsonBytes bz > maxMetadataBytes c then Inr (Rejected metadata_too_large None)
   else if nesting bz (maxJsonDepth c) > maxJsonDepth c then Inr (Rejected metadata_too_deep None)
   else (let spec = validateDiscoveryExtensionSpec E bz; sch = validateDiscoveryExtension E bz in
   if \<not> va_valid spec then Inr (Rejected spec_validation_failed (joined_errors spec))
   else if requireValidSchema c \<and> \<not> va_valid sch then Inr (Rejected schema_validation_failed (joined_errors sch))
   else if jsonBytes (js_get bz ''schema'') > maxSchemaBytes c then Inr (Rejected schema_too_large None)
   else let info = js_get bz ''info'' in
     sum_bind (js_prop info ''input'') (\<lambda>input. let output = object_or (js_get info ''output'') JUndef in
     sum_bind (js_prop input ''type'') (\<lambda>ty. let t = (if ty = JStr ''mcp'' then Mcp_type else Http_type) in
       if \<not> list_all (\<lambda>e. boundedExample e (maxExampleBytes c)) [js_get input ''example'', js_get input ''body'',
         js_get input ''queryParams'', js_get output ''example''] then Inr (Rejected example_too_large None)
       else (let res = object_or (resource p) JUndef in
         case normalizeResourceUrl (whatwg E) (coalesce (string_of (js_get res ''url'')) []) of
           Inl code \<Rightarrow> Inr (Rejected code None)
         | Inr url \<Rightarrow> (case originPolicy (unicode_of E) url c of
             Some code \<Rightarrow> Inr (Rejected code None)
           | None \<Rightarrow> Inr (candidate_of E c p r meta exts bz input output t url)))))))"

end
