(* ===== verification/Catalog_Document.thy ===== *)
theory Catalog_Document
  imports Catalog_Extract
begin

text \<open>
  The search document compiler (facilitator/src/bazaar/document.ts): the human document shared by
  embeddings and reranking and the three lexical fields.  \<open>lc\<close> is \<open>String.prototype.localeCompare\<close>.
\<close>

definition SEARCH_DOCUMENT_COMPILER_VERSION :: int where
  "SEARCH_DOCUMENT_COMPILER_VERSION = 3"

record document_option =
  do_scheme :: string
  do_network :: string
  do_amount :: string
  do_assetSymbol :: "string option"
  do_asset :: string
  do_payTo :: "string option"

record compiled_document =
  document :: string
  lexicalHigh :: string
  lexicalMedium :: string
  lexicalLow :: string

record parameter_entry =
  pe_name :: string
  pe_required :: bool
  pe_description :: "string option"

section \<open>Tokens\<close>

text \<open>The matches of \<open>/[\p{L}\p{N}]+/gu\<close> and what stands between them, in order.\<close>

function token_runs :: "(string \<Rightarrow> bool) \<Rightarrow> string list \<Rightarrow> (bool \<times> string) list" where
  "token_runs p [] = []"
| "token_runs p (x # xs) = (if p x then (True, concat (x # takeWhile p xs)) # token_runs p (dropWhile p xs)
     else (False, x) # token_runs p xs)"
  by pat_completeness auto
termination by (relation "measure (length \<circ> snd)") (auto simp: le_imp_less_Suc length_dropWhile_le)

definition tokens_of :: "unicode \<Rightarrow> string \<Rightarrow> string list" where
  "tokens_of u s = map snd (filter fst (token_runs (letter_or_number u) (code_points s)))"

text \<open>The elements of a set in the order of their first insertion.\<close>

fun insertion_order :: "'a list \<Rightarrow> 'a list" where
  "insertion_order [] = []"
| "insertion_order (x # xs) = x # filter (\<lambda>y. y \<noteq> x) (insertion_order xs)"

lemma insertion_order_set [simp]: "set (insertion_order xs) = set xs"
  by (induction xs) auto

lemma insertion_order_distinct [simp]: "distinct (insertion_order xs)"
  by (induction xs) auto

fun keep_first :: "(string \<Rightarrow> string) \<Rightarrow> string list \<Rightarrow> (bool \<times> string) list \<Rightarrow> string" where
  "keep_first f seen [] = []"
| "keep_first f seen ((token, s) # rs) = (if \<not> token then s @ keep_first f seen rs
     else if f s \<in> set seen then keep_first f seen rs else s @ keep_first f (f s # seen) rs)"

definition lexicalField :: "unicode \<Rightarrow> string list \<Rightarrow> string" where
  "lexicalField u values = (let
     present = filter (\<lambda>v. v \<noteq> []) values;
     bounded = map (\<lambda>v. keep_first (\<lambda>s. lower_case u (nfkc u s)) [] (token_runs (letter_or_number u) (code_points v))) present;
     aliases = concat (map (\<lambda>v. tokens_of u (nfkc u v)) present) in
     join '' '' (bounded @ insertion_order (map (lower_case u) aliases)))"

section \<open>Parameters\<close>

definition key_cmp :: "(string \<Rightarrow> string \<Rightarrow> int) \<Rightarrow> string \<times> 'a \<Rightarrow> string \<times> 'a \<Rightarrow> int" where
  "key_cmp lc a b = lc (fst a) (fst b)"

definition object_entries :: "js \<Rightarrow> (string \<times> js) list" where
  "object_entries v = (case v of JObj kvs \<Rightarrow> kvs | _ \<Rightarrow> [])"

definition required_names :: "js \<Rightarrow> string list" where
  "required_names schema = (case js_get schema ''required'' of
     JArr xs \<Rightarrow> concat (map (\<lambda>v. case v of JStr s \<Rightarrow> [s] | _ \<Rightarrow> []) xs) | _ \<Rightarrow> [])"

definition schema_entries :: "(string \<Rightarrow> string \<Rightarrow> int) \<Rightarrow> js \<Rightarrow> parameter_entry list" where
  "schema_entries lc schema = map
     (\<lambda>(name, v). \<lparr> pe_name = name, pe_required = name \<in> set (required_names schema),
        pe_description = nonempty (string_of (js_get v ''description'')) \<rparr>)
     (take 50 (js_sort (key_cmp lc) (object_entries (js_get schema ''properties''))))"

definition parameterEntries :: "(string \<Rightarrow> string \<Rightarrow> int) \<Rightarrow> catalog_candidate \<Rightarrow> parameter_entry list" where
  "parameterEntries lc c = (let
     entries = (case ca_inputSchema c of Some s \<Rightarrow> (if js_is_record s then schema_entries lc s else []) | None \<Rightarrow> []) in
     if entries = [] then (case ca_inputExample c of
         Some x \<Rightarrow> map (\<lambda>name. \<lparr> pe_name = name, pe_required = False, pe_description = None \<rparr>)
           (take 50 (js_sort lc (map fst (object_entries x))))
       | None \<Rightarrow> [])
     else entries)"

definition formatParameter :: "parameter_entry \<Rightarrow> string" where
  "formatParameter e = ''- '' @ pe_name e @ (if pe_required e then '' (required)'' else [])
     @ (if truthy_str (pe_description e) then '': '' @ coalesce (pe_description e) [] else [])"

section \<open>Examples\<close>

fun collapse_space :: "(string \<Rightarrow> bool) \<Rightarrow> bool \<Rightarrow> string list \<Rightarrow> string list" where
  "collapse_space ws b [] = []"
| "collapse_space ws b (x # xs) = (if ws x then (if b then collapse_space ws True xs else '' '' # collapse_space ws True xs)
     else x # collapse_space ws False xs)"

definition blank_controls :: "string list \<Rightarrow> string list" where
  "blank_controls = map (\<lambda>p. if is_control p then '' '' else p)"

definition exampleScalar :: "unicode \<Rightarrow> js \<Rightarrow> string" where
  "exampleScalar u v = (case v of
     JStr s \<Rightarrow> concat (trim_points u (collapse_space (white_space u) False (blank_controls (code_points (nfc u s)))))
   | _ \<Rightarrow> js_display v)"

function flattenExample :: "unicode \<Rightarrow> (string \<Rightarrow> string \<Rightarrow> int) \<Rightarrow> js \<Rightarrow> string \<Rightarrow> nat \<Rightarrow> string list" where
  "flattenExample u lc v path depth = (if js_scalar v then [path @ '': '' @ exampleScalar u v]
     else if depth \<ge> 8 then [path @ '': '' @ canonicalJson v]
     else (case v of
       JArr xs \<Rightarrow> concat (map (\<lambda>(i, x). flattenExample u lc x (path @ ''['' @ nat_to_string i @ '']'') (depth + 1))
         (zip [0..<50] (take 50 xs)))
     | _ \<Rightarrow> (let entries = js_sort (key_cmp lc) (object_entries v) in
         if entries = [] then [path @ '': {}'']
         else concat (map (\<lambda>(k, x). flattenExample u lc x (path @ ''.'' @ k) (depth + 1)) (take 50 entries)))))"
  by pat_completeness auto
termination by (relation "measure (\<lambda>(u, lc, v, path, depth). 8 - depth)") auto

declare flattenExample.simps [simp del]

definition exampleLines :: "unicode \<Rightarrow> (string \<Rightarrow> string \<Rightarrow> int) \<Rightarrow> string \<Rightarrow> js \<Rightarrow> string list" where
  "exampleLines u lc label v = (let flattened = flattenExample u lc v label 0 in
     if flattened \<noteq> [] then flattened else [label @ '': '' @ canonicalJson v])"

section \<open>The document\<close>

definition optional_line :: "string \<Rightarrow> string option \<Rightarrow> string list" where
  "optional_line label s = (if truthy_str s then [label @ coalesce s []] else [])"

definition optional_field :: "string option \<Rightarrow> string list" where
  "optional_field s = (if truthy_str s then [coalesce s []] else [])"

definition type_line :: "unicode \<Rightarrow> catalog_candidate \<Rightarrow> string" where
  "type_line u c = (case ca_type c of Mcp_type \<Rightarrow> ''Type: MCP tool '' @ coalesce (ca_toolName c) ''undefined''
     | Http_type \<Rightarrow> concat (rev (dropWhile (white_space u) (rev (code_points (''Type: HTTP '' @ coalesce (ca_method c) []))))))"

definition payment_line :: "document_option \<Rightarrow> string" where
  "payment_line o1 = ''Payment: '' @ do_network o1 @ '', '' @ do_scheme o1 @ '', '' @ do_amount o1 @ '' ''
     @ coalesce (do_assetSymbol o1) (do_asset o1)"

definition example_lines :: "unicode \<Rightarrow> (string \<Rightarrow> string \<Rightarrow> int) \<Rightarrow> catalog_candidate \<Rightarrow> string list" where
  "example_lines u lc c = (case ca_inputExample c of Some x \<Rightarrow> exampleLines u lc ''Input'' x | None \<Rightarrow> [])
     @ (case ca_outputExample c of Some x \<Rightarrow> exampleLines u lc ''Output'' x | None \<Rightarrow> [])"

definition document_lines ::
    "unicode \<Rightarrow> (string \<Rightarrow> string \<Rightarrow> int) \<Rightarrow> catalog_candidate \<Rightarrow> document_option list \<Rightarrow> string list" where
  "document_lines u lc c opts = (let parameters = parameterEntries lc c; examples = example_lines u lc c in
     optional_line ''Service: '' (ca_serviceName c) @ optional_line ''Description: '' (ca_description c)
     @ [type_line u c] @ optional_line ''Route: '' (ca_routeTemplate c) @ [''Resource: '' @ ca_resourceUrl c]
     @ (if parameters \<noteq> [] then ''Parameters:'' # map formatParameter parameters else [])
     @ optional_line ''Output: '' (ca_outputType c)
     @ (if ca_tags c \<noteq> [] then [''Tags: '' @ join '', '' (ca_tags c)] else [])
     @ optional_line ''MIME: '' (ca_mimeType c) @ optional_line ''Transport: '' (ca_transport c)
     @ (if examples \<noteq> [] then ''Examples:'' # map (\<lambda>l. ''- '' @ l) examples else [])
     @ map payment_line opts)"

definition high_values :: "catalog_candidate \<Rightarrow> string list" where
  "high_values c = optional_field (ca_serviceName c)
     @ [type_text (ca_type c), coalesce (ca_method c) [], coalesce (ca_toolName c) []]
     @ optional_field (ca_routeTemplate c) @ [ca_resourceUrl c]"

definition medium_values :: "(string \<Rightarrow> string \<Rightarrow> int) \<Rightarrow> catalog_candidate \<Rightarrow> string list" where
  "medium_values lc c = optional_field (ca_description c)
     @ concat (map (\<lambda>e. [pe_name e, coalesce (pe_description e) []]) (parameterEntries lc c))
     @ optional_field (ca_outputType c)"

definition low_values ::
    "unicode \<Rightarrow> (string \<Rightarrow> string \<Rightarrow> int) \<Rightarrow> catalog_candidate \<Rightarrow> document_option list \<Rightarrow> string list" where
  "low_values u lc c opts = ca_tags c @ optional_field (ca_mimeType c) @ optional_field (ca_transport c)
     @ example_lines u lc c
     @ concat (map (\<lambda>o1. [do_network o1, do_scheme o1, do_amount o1, coalesce (do_assetSymbol o1) [], do_asset o1,
          coalesce (do_payTo o1) []]) opts)"

definition compileSearchDocumentParts ::
    "unicode \<Rightarrow> (string \<Rightarrow> string \<Rightarrow> int) \<Rightarrow> catalog_candidate \<Rightarrow> document_option list \<Rightarrow> compiled_document" where
  "compileSearchDocumentParts u lc c opts = \<lparr>
     document = join [CHR 0x0A] (document_lines u lc c opts),
     lexicalHigh = lexicalField u (high_values c),
     lexicalMedium = lexicalField u (medium_values lc c),
     lexicalLow = lexicalField u (low_values u lc c opts) \<rparr>"

definition compileSearchDocument ::
    "unicode \<Rightarrow> (string \<Rightarrow> string \<Rightarrow> int) \<Rightarrow> catalog_candidate \<Rightarrow> document_option list \<Rightarrow> string" where
  "compileSearchDocument u lc c opts = document (compileSearchDocumentParts u lc c opts)"

end
