(* ===== verification/Catalog_Store.thy ===== *)
theory Catalog_Store
  imports Catalog_Document JS_Effects Complex_Main
begin

text \<open>
  The writes of the catalog (facilitator/src/db/catalog.ts).  A table is the list of its rows; a statement
  is a step of the effect type over the database, which fails with the exception of a violated constraint,
  and \<open>observe\<close> is the transaction that the code runs: on an exception everything but the sequences is as
  before.  \<open>catalog_next_version()\<close> locks its row until commit, so transactions that write the catalog run
  one after the other.  Time is in milliseconds; columns no code reads (first_seen, updated_at and the
  like) are left out.
\<close>

section \<open>Tables\<close>

datatype version_status = V_candidate | V_active | V_superseded | V_quarantined | V_tombstoned

datatype resource_status = R_active | R_stale | R_quarantined | R_disabled | R_tombstoned

record resource_row =
  rr_id :: int
  rr_key :: string
  rr_type :: resource_type
  rr_origin :: string
  rr_url :: string
  rr_routeTemplate :: "string option"
  rr_method :: "string option"
  rr_toolName :: "string option"
  rr_owner :: string
  rr_status :: resource_status
  rr_active :: "int option"
  rr_created :: int
  rr_updated :: int
  rr_lastSeen :: int
  rr_lastSeenPaid :: "int option"
  rr_reason :: "string option"

text \<open>The columns of a version that hold the seller's declaration.\<close>

record declaration_row =
  de_x402Version :: int
  de_description :: "string option"
  de_serviceName :: "string option"
  de_tags :: "string list"
  de_iconUrl :: "string option"
  de_mimeType :: "string option"
  de_routeTemplate :: "string option"
  de_method :: "string option"
  de_toolName :: "string option"
  de_transport :: "string option"
  de_bazaar :: js
  de_extensions :: js
  de_inputSchema :: "js option"
  de_inputExample :: "js option"
  de_outputType :: "string option"
  de_outputSchema :: "js option"
  de_outputExample :: "js option"

record version_row =
  cv_id :: int
  cv_resource :: int
  cv_number :: int
  cv_hash :: string
  cv_status :: version_status
  cv_observed :: bool
  cv_declaration :: declaration_row
  cv_payTo :: string
  cv_reason :: "string option"
  cv_created :: int
  cv_retired :: "int option"
  cv_createdAt :: int
  cv_activatedAt :: "int option"
  cv_retiredAt :: "int option"

record option_row =
  co_id :: int
  co_resource :: int
  co_version :: int
  co_hash :: string
  co_x402Version :: int
  co_scheme :: string
  co_network :: string
  co_asset :: string
  co_assetSymbol :: "string option"
  co_assetDecimals :: "int option"
  co_amount :: int
  co_payTo :: string
  co_maxTimeout :: int
  co_extra :: js
  co_created :: int
  co_retired :: "int option"
  co_lastSeen :: int
  co_retiredAt :: "int option"

record search_document_row =
  sd_version :: int
  sd_resource :: int
  sd_sourceHash :: string
  sd_compiled :: compiled_document
  sd_compilerVersion :: int
  sd_created :: int

datatype job_state = Job_pending | Job_leased | Job_done | Job_failed | Job_dead

record job_row =
  jo_id :: int
  jo_resource :: int
  jo_version :: int
  jo_generation :: int
  jo_sourceHash :: string
  jo_state :: job_state
  jo_attempts :: int
  jo_leaseOwner :: "string option"
  jo_leaseUntil :: "int option"
  jo_fencing :: int
  jo_nextRun :: int
  jo_lastError :: "string option"
  jo_deadReason :: "string option"

text \<open>What identifies an embedding model; a generation of vectors has one.\<close>

datatype pooling = Cls_pooling | Mean_pooling

datatype normalization = L2_normalization | No_normalization

record model_key =
  mk_provider :: string
  mk_modelId :: string
  mk_modelRevision :: string
  mk_dimension :: nat
  mk_pooling :: pooling
  mk_normalization :: normalization

datatype generation_status = Generation_building | Generation_active | Generation_retired | Generation_failed

record generation_row =
  gn_id :: int
  gn_key :: model_key
  gn_checksum :: "string option"
  gn_status :: generation_status
  gn_indexed :: int
  gn_lastError :: "string option"

text \<open>A row of the storage table of a generation.  A finite double is the rational number it denotes.\<close>

record embedding_row =
  em_version :: int
  em_resource :: int
  em_key :: model_key
  em_vector :: "rat list"
  em_sourceHash :: string
  em_created :: int
  em_ready :: bool

record index_tables =
  jobs :: "job_row list"
  generations :: "generation_row list"
  storages :: "(string \<times> embedding_row list) list"
  job_seq :: int
  generation_seq :: int

datatype catalog_outcome = Indexed | Refreshed | Versioned | PendingOutcome | RejectedOutcome | Quarantined | Skipped

datatype wire_status = Wire_success | Wire_processing | Wire_rejected

datatype catalog_stage = Seen_verified | Seen_settled

record observation_row =
  ob_resource :: "int option"
  ob_version :: "int option"
  ob_resourceKey :: "string option"
  ob_resourceUrl :: "string option"
  ob_stage :: catalog_stage
  ob_outcome :: catalog_outcome
  ob_wireStatus :: wire_status
  ob_rejectedReason :: "string option"
  ob_internalReason :: "string option"
  ob_declarationHash :: "string option"
  ob_network :: "string option"
  ob_scheme :: "string option"
  ob_payTo :: "string option"
  ob_payer :: "string option"
  ob_record :: "int option"

record catalog_db =
  last_version :: int
  resources :: "resource_row list"
  versions :: "version_row list"
  options :: "option_row list"
  documents :: "search_document_row list"
  index :: index_tables
  observations :: "observation_row list"
  resource_seq :: int
  version_seq :: int
  option_seq :: int

text \<open>
  Unicode, \<open>localeCompare\<close>, SHA-256, the collation of the database, the input function of numeric(39,0), and
  which rows the column types refuse (a NUL character in a text, a number out of range).
\<close>

record catalog_env =
  ce_unicode :: unicode
  ce_locale :: "string \<Rightarrow> string \<Rightarrow> int"
  ce_sha :: "string \<Rightarrow> string"
  ce_collate :: "string \<Rightarrow> string \<Rightarrow> int"
  ce_numeric :: "string \<Rightarrow> exn + int"
  ce_resource_refused :: "catalog_candidate \<Rightarrow> exn option"
  ce_version_refused :: "catalog_candidate \<Rightarrow> exn option"
  ce_option_refused :: "payment_option \<Rightarrow> exn option"
  ce_document_refused :: "compiled_document \<Rightarrow> exn option"

record write_result =
  wr_outcome :: catalog_outcome
  wr_resource :: "int option"
  wr_version :: "int option"
  wr_option :: "int option"
  wr_code :: "rejection_code option"

record observation_context =
  oc_stage :: catalog_stage
  oc_activate :: bool
  oc_reject_changes :: bool

definition io_guard :: "exn option \<Rightarrow> ('w, unit) io" where
  "io_guard e = (case e of None \<Rightarrow> io_return () | Some x \<Rightarrow> io_throw x)"

section \<open>Versions\<close>

definition nextVersion :: "(catalog_db, int) io" where
  "nextVersion d = (Inr (last_version d + 1), d\<lparr>last_version := last_version d + 1\<rparr>)"

definition versions_of :: "int \<Rightarrow> catalog_db \<Rightarrow> version_row list" where
  "versions_of rid d = filter (\<lambda>v. cv_resource v = rid) (versions d)"

definition nextVersionNumber :: "int \<Rightarrow> catalog_db \<Rightarrow> int" where
  "nextVersionNumber rid d = (if versions_of rid d = [] then 0 else Max (set (map cv_number (versions_of rid d)))) + 1"

definition declaration_of :: "catalog_candidate \<Rightarrow> declaration_row" where
  "declaration_of c = \<lparr> de_x402Version = ca_x402Version c, de_description = ca_description c,
     de_serviceName = ca_serviceName c, de_tags = ca_tags c, de_iconUrl = ca_iconUrl c, de_mimeType = ca_mimeType c,
     de_routeTemplate = ca_routeTemplate c, de_method = ca_method c, de_toolName = ca_toolName c,
     de_transport = ca_transport c, de_bazaar = ca_bazaarExtension c, de_extensions = ca_extensions c,
     de_inputSchema = ca_inputSchema c, de_inputExample = ca_inputExample c, de_outputType = ca_outputType c,
     de_outputSchema = ca_outputSchema c, de_outputExample = ca_outputExample c \<rparr>"

definition new_version ::
    "int \<Rightarrow> int \<Rightarrow> int \<Rightarrow> int \<Rightarrow> catalog_candidate \<Rightarrow> version_status \<Rightarrow> string option \<Rightarrow> int \<Rightarrow> version_row" where
  "new_version now vid rid number c st reason version = \<lparr> cv_id = vid, cv_resource = rid, cv_number = number,
     cv_hash = ca_declarationHash c, cv_status = st, cv_observed = (st = V_active), cv_declaration = declaration_of c,
     cv_payTo = po_payTo (ca_paymentOption c), cv_reason = reason, cv_created = version, cv_retired = None,
     cv_createdAt = now, cv_activatedAt = (if st = V_active then Some now else None), cv_retiredAt = None \<rparr>"

definition duplicate_key :: exn where
  "duplicate_key = JsError ''duplicate key value violates unique constraint''"

definition insertVersion ::
    "catalog_env \<Rightarrow> int \<Rightarrow> int \<Rightarrow> int \<Rightarrow> catalog_candidate \<Rightarrow> int \<Rightarrow> version_status \<Rightarrow> string option \<Rightarrow> (catalog_db, int) io" where
  "insertVersion E now rid number c version st reason = io_seq (io_guard (ce_version_refused E c)) (\<lambda>d. let
     vid = version_seq d; d1 = d\<lparr>version_seq := vid + 1\<rparr> in
     if list_ex (\<lambda>v. cv_number v = number \<or> cv_hash v = ca_declarationHash c) (versions_of rid d) then (Inl duplicate_key, d1)
     else (Inr vid, d1\<lparr>versions := versions d @ [new_version now vid rid number c st reason version]\<rparr>))"

definition initial_status :: "observation_context \<Rightarrow> version_status" where
  "initial_status x = (if oc_activate x then V_active else V_candidate)"

section \<open>Payment options\<close>

definition live_option :: "int \<Rightarrow> option_row \<Rightarrow> bool" where
  "live_option vid row = (co_version row = vid \<and> co_retired row = None)"

definition same_terms :: "payment_option \<Rightarrow> option_row \<Rightarrow> bool" where
  "same_terms p row = (co_scheme row = po_scheme p \<and> co_network row = po_network p \<and> co_asset row = po_asset p
     \<and> co_payTo row = po_payTo p)"

definition new_option :: "int \<Rightarrow> int \<Rightarrow> int \<Rightarrow> int \<Rightarrow> payment_option \<Rightarrow> int \<Rightarrow> int \<Rightarrow> option_row" where
  "new_option now oid rid vid p cents version = \<lparr> co_id = oid, co_resource = rid, co_version = vid, co_hash = po_optionHash p,
     co_x402Version = po_x402Version p, co_scheme = po_scheme p, co_network = po_network p, co_asset = po_asset p,
     co_assetSymbol = po_assetSymbol p, co_assetDecimals = po_assetDecimals p, co_amount = cents, co_payTo = po_payTo p,
     co_maxTimeout = po_maxTimeoutSeconds p, co_extra = po_extra p, co_created = version, co_retired = None,
     co_lastSeen = now, co_retiredAt = None \<rparr>"

text \<open>The INSERT draws its identifier before it meets the conflict.\<close>

definition insert_option :: "int \<Rightarrow> int \<Rightarrow> int \<Rightarrow> payment_option \<Rightarrow> int \<Rightarrow> int \<Rightarrow> (catalog_db, int) io" where
  "insert_option now rid vid p cents version = (\<lambda>d. let
     oid = option_seq d; d1 = d\<lparr>option_seq := oid + 1\<rparr> in
     case find (\<lambda>row. co_version row = vid \<and> co_hash row = po_optionHash p) (options d) of
       Some row \<Rightarrow> (Inr (co_id row), d1\<lparr>options := update_where (\<lambda>x. co_id x = co_id row)
          (\<lambda>x. x\<lparr>co_retired := None, co_retiredAt := None, co_lastSeen := now\<rparr>) (options d)\<rparr>)
     | None \<Rightarrow> (Inr oid, d1\<lparr>options := options d @ [new_option now oid rid vid p cents version]\<rparr>))"

definition retire_options :: "int \<Rightarrow> int \<Rightarrow> payment_option \<Rightarrow> int \<Rightarrow> catalog_db \<Rightarrow> catalog_db" where
  "retire_options now vid p version d = d\<lparr>options := update_where (\<lambda>row. live_option vid row \<and> same_terms p row)
     (\<lambda>row. row\<lparr>co_retired := Some version, co_retiredAt := Some now\<rparr>) (options d)\<rparr>"

definition upsertOption :: "catalog_env \<Rightarrow> int \<Rightarrow> int \<Rightarrow> int \<Rightarrow> payment_option \<Rightarrow> int \<Rightarrow> (catalog_db, int) io" where
  "upsertOption E now rid vid p version = (\<lambda>d.
     case find (\<lambda>row. live_option vid row \<and> co_hash row = po_optionHash p) (options d) of
       Some row \<Rightarrow> (Inr (co_id row), d\<lparr>options := update_where (\<lambda>x. co_id x = co_id row)
          (\<lambda>x. x\<lparr>co_lastSeen := now\<rparr>) (options d)\<rparr>)
     | None \<Rightarrow> io_seq (io_modify (retire_options now vid p version))
         (io_seq (io_guard (ce_option_refused E p))
           (io_bind (lift_sum (ce_numeric E (po_amount p))) (\<lambda>cents. insert_option now rid vid p cents version))) d)"

section \<open>Search documents\<close>

definition document_option_of :: "option_row \<Rightarrow> document_option" where
  "document_option_of row = \<lparr> do_scheme = co_scheme row, do_network = co_network row,
     do_amount = int_to_string (co_amount row), do_assetSymbol = nonempty (co_assetSymbol row),
     do_asset = co_asset row, do_payTo = nonempty (Some (co_payTo row)) \<rparr>"

definition then_by :: "int \<Rightarrow> int \<Rightarrow> int" where
  "then_by a b = (if a \<noteq> 0 then a else b)"

definition option_order :: "(string \<Rightarrow> string \<Rightarrow> int) \<Rightarrow> option_row \<Rightarrow> option_row \<Rightarrow> int" where
  "option_order c a b = then_by (c (co_network a) (co_network b))
     (then_by (c (co_scheme a) (co_scheme b)) (c (co_asset a) (co_asset b)))"

definition compiled_of :: "catalog_env \<Rightarrow> int \<Rightarrow> catalog_candidate \<Rightarrow> catalog_db \<Rightarrow> compiled_document" where
  "compiled_of E vid c d = compileSearchDocumentParts (ce_unicode E) (ce_locale E) c
     (map document_option_of (js_sort (option_order (ce_collate E)) (filter (live_option vid) (options d))))"

definition source_hash :: "catalog_env \<Rightarrow> compiled_document \<Rightarrow> string" where
  "source_hash E k = ce_sha E (canonicalJson (JObj [(''compilerVersion'', JNum SEARCH_DOCUMENT_COMPILER_VERSION),
     (''document'', JStr (document k)), (''lexicalHigh'', JStr (lexicalHigh k)),
     (''lexicalMedium'', JStr (lexicalMedium k)), (''lexicalLow'', JStr (lexicalLow k))]))"

definition upsert_document :: "search_document_row \<Rightarrow> catalog_db \<Rightarrow> catalog_db" where
  "upsert_document row d = d\<lparr>documents := (if list_ex (\<lambda>x. sd_version x = sd_version row) (documents d)
     then update_where (\<lambda>x. sd_version x = sd_version row) (\<lambda>x. x\<lparr>sd_sourceHash := sd_sourceHash row,
            sd_compiled := sd_compiled row, sd_compilerVersion := sd_compilerVersion row\<rparr>) (documents d)
     else documents d @ [row])\<rparr>"

definition active_generation :: "index_tables \<Rightarrow> int" where
  "active_generation x = (let active = map gn_id (filter (\<lambda>g. gn_status g = Generation_active) (generations x)) in
     if active = [] then 0 else Max (set active))"

text \<open>The sequence of an INSERT advances on a conflict too.\<close>

definition upsert_job :: "int \<Rightarrow> int \<Rightarrow> int \<Rightarrow> string \<Rightarrow> index_tables \<Rightarrow> index_tables" where
  "upsert_job now rid vid h x = (let g = active_generation x; same = (\<lambda>j. jo_version j = vid \<and> jo_generation j = g) in
     x\<lparr>job_seq := job_seq x + 1, jobs := (if list_ex same (jobs x)
       then update_where same (\<lambda>j. j\<lparr>jo_sourceHash := h, jo_state := (if jo_sourceHash j = h then jo_state j else Job_pending)\<rparr>) (jobs x)
       else jobs x @ [\<lparr> jo_id = job_seq x, jo_resource = rid, jo_version = vid, jo_generation = g, jo_sourceHash = h, jo_state = Job_pending,
         jo_attempts = 0, jo_leaseOwner = None, jo_leaseUntil = None, jo_fencing = 0, jo_nextRun = now, jo_lastError = None, jo_deadReason = None \<rparr>])\<rparr>)"

definition enqueue_job :: "int \<Rightarrow> int \<Rightarrow> int \<Rightarrow> string \<Rightarrow> catalog_db \<Rightarrow> catalog_db" where
  "enqueue_job now rid vid h d = d\<lparr>index := upsert_job now rid vid h (index d)\<rparr>"

definition indexVersion :: "catalog_env \<Rightarrow> int \<Rightarrow> int \<Rightarrow> int \<Rightarrow> catalog_candidate \<Rightarrow> int \<Rightarrow> (catalog_db, unit) io" where
  "indexVersion E now rid vid c version = (\<lambda>d. let k = compiled_of E vid c d; h = source_hash E k in
     io_seq (io_guard (ce_document_refused E k))
       (io_seq (io_modify (upsert_document \<lparr> sd_version = vid, sd_resource = rid, sd_sourceHash = h, sd_compiled = k,
            sd_compilerVersion = SEARCH_DOCUMENT_COMPILER_VERSION, sd_created = version \<rparr>))
         (io_modify (enqueue_job now rid vid h))) d)"

section \<open>Observations\<close>

definition set_active :: "int \<Rightarrow> int \<Rightarrow> int \<Rightarrow> catalog_db \<Rightarrow> catalog_db" where
  "set_active rid vid version d = d\<lparr>resources := update_where (\<lambda>r. rr_id r = rid)
     (\<lambda>r. r\<lparr>rr_active := Some vid, rr_updated := version\<rparr>) (resources d)\<rparr>"

definition supersede_others :: "int \<Rightarrow> int \<Rightarrow> int \<Rightarrow> int \<Rightarrow> catalog_db \<Rightarrow> catalog_db" where
  "supersede_others now rid vid version d = d\<lparr>versions := update_where
     (\<lambda>v. cv_resource v = rid \<and> cv_id v \<noteq> vid \<and> cv_status v = V_active)
     (\<lambda>v. v\<lparr>cv_status := V_superseded, cv_retired := Some version, cv_retiredAt := Some now\<rparr>) (versions d)\<rparr>"

definition activate_version :: "int \<Rightarrow> int \<Rightarrow> catalog_db \<Rightarrow> catalog_db" where
  "activate_version now vid d = d\<lparr>versions := update_where (\<lambda>v. cv_id v = vid)
     (\<lambda>v. v\<lparr>cv_status := V_active, cv_observed := True, cv_activatedAt := Some (coalesce (cv_activatedAt v) now),
        cv_retired := None, cv_retiredAt := None\<rparr>) (versions d)\<rparr>"

definition activate :: "catalog_env \<Rightarrow> int \<Rightarrow> int \<Rightarrow> int \<Rightarrow> catalog_candidate \<Rightarrow> int \<Rightarrow> (catalog_db, unit) io" where
  "activate E now rid vid c version = io_seq (io_modify (supersede_others now rid vid version))
     (io_seq (io_modify (activate_version now vid))
       (io_seq (io_modify (set_active rid vid version)) (indexVersion E now rid vid c version)))"

definition new_resource :: "int \<Rightarrow> int \<Rightarrow> catalog_candidate \<Rightarrow> catalog_stage \<Rightarrow> int \<Rightarrow> resource_row" where
  "new_resource now rid c st version = \<lparr> rr_id = rid, rr_key = ca_resourceKey c, rr_type = ca_type c,
     rr_origin = ca_origin c, rr_url = ca_resourceUrl c, rr_routeTemplate = ca_routeTemplate c, rr_method = ca_method c,
     rr_toolName = ca_toolName c, rr_owner = po_payTo (ca_paymentOption c), rr_status = R_active, rr_active = None,
     rr_created = version, rr_updated = version, rr_lastSeen = now,
     rr_lastSeenPaid = (if st = Seen_settled then Some now else None), rr_reason = None \<rparr>"

definition insert_resource :: "catalog_env \<Rightarrow> int \<Rightarrow> catalog_candidate \<Rightarrow> catalog_stage \<Rightarrow> int \<Rightarrow> (catalog_db, int) io" where
  "insert_resource E now c st version = io_seq (io_guard (ce_resource_refused E c)) (\<lambda>d. let rid = resource_seq d in
     (Inr rid, d\<lparr>resource_seq := rid + 1, resources := resources d @ [new_resource now rid c st version]\<rparr>))"

definition written :: "catalog_outcome \<Rightarrow> int \<Rightarrow> int \<Rightarrow> int \<Rightarrow> write_result" where
  "written out rid vid oid = \<lparr> wr_outcome = out, wr_resource = Some rid, wr_version = Some vid, wr_option = Some oid, wr_code = None \<rparr>"

definition createResource ::
    "catalog_env \<Rightarrow> int \<Rightarrow> catalog_candidate \<Rightarrow> observation_context \<Rightarrow> int \<Rightarrow> (catalog_db, write_result) io" where
  "createResource E now c x version =
     io_bind (insert_resource E now c (oc_stage x) version) (\<lambda>rid.
     io_bind (insertVersion E now rid 1 c version (initial_status x) None) (\<lambda>vid.
     io_bind (upsertOption E now rid vid (ca_paymentOption c) version) (\<lambda>oid.
     io_seq (if oc_activate x then io_seq (io_modify (set_active rid vid version)) (indexVersion E now rid vid c version)
             else io_return ())
       (io_return (written (if oc_activate x then Indexed else PendingOutcome) rid vid oid)))))"

definition touch_resource :: "int \<Rightarrow> int \<Rightarrow> bool \<Rightarrow> int \<Rightarrow> catalog_db \<Rightarrow> catalog_db" where
  "touch_resource now rid settled version d = d\<lparr>resources := update_where (\<lambda>r. rr_id r = rid)
     (\<lambda>r. r\<lparr>rr_lastSeen := now, rr_lastSeenPaid := (if settled then Some now else rr_lastSeenPaid r),
        rr_status := (if rr_status r = R_stale then R_active else rr_status r), rr_updated := version\<rparr>) (resources d)\<rparr>"

text \<open>An observation of a declaration that the resource already has.\<close>

definition observe_same ::
    "catalog_env \<Rightarrow> int \<Rightarrow> int \<Rightarrow> version_row \<Rightarrow> catalog_candidate \<Rightarrow> observation_context \<Rightarrow> int \<Rightarrow> (catalog_db, write_result) io" where
  "observe_same E now rid row c x version = (let vid = cv_id row in
     io_bind (upsertOption E now rid vid (ca_paymentOption c) version) (\<lambda>oid.
       if oc_activate x \<and> cv_status row \<noteq> V_active
         then io_seq (activate E now rid vid c version) (io_return (written Versioned rid vid oid))
       else if \<not> oc_activate x \<and> cv_status row \<noteq> V_active then io_return (written PendingOutcome rid vid oid)
       else io_seq (if oc_activate x \<and> cv_status row = V_active then indexVersion E now rid vid c version else io_return ())
         (io_return (written Refreshed rid vid oid))))"

definition observe_changed ::
    "catalog_env \<Rightarrow> int \<Rightarrow> int \<Rightarrow> catalog_candidate \<Rightarrow> observation_context \<Rightarrow> int \<Rightarrow> (catalog_db, write_result) io" where
  "observe_changed E now rid c x version = (if oc_reject_changes x
     then io_return \<lparr> wr_outcome = RejectedOutcome, wr_resource = Some rid, wr_version = None, wr_option = None,
       wr_code = Some duplicate_change_rejected \<rparr>
     else io_bind io_get (\<lambda>d.
       io_bind (insertVersion E now rid (nextVersionNumber rid d) c version (initial_status x) None) (\<lambda>vid.
       io_bind (upsertOption E now rid vid (ca_paymentOption c) version) (\<lambda>oid.
         if oc_activate x then io_seq (activate E now rid vid c version) (io_return (written Versioned rid vid oid))
         else io_return (written PendingOutcome rid vid oid)))))"

definition quarantine ::
    "catalog_env \<Rightarrow> int \<Rightarrow> int \<Rightarrow> catalog_candidate \<Rightarrow> int \<Rightarrow> (catalog_db, write_result) io" where
  "quarantine E now rid c version = io_bind io_get (\<lambda>d.
     io_bind (insertVersion E now rid (nextVersionNumber rid d) c version V_quarantined (Some ''payto_ownership_conflict''))
       (\<lambda>vid. io_return \<lparr> wr_outcome = Quarantined, wr_resource = Some rid, wr_version = Some vid, wr_option = None,
          wr_code = Some payto_ownership_conflict \<rparr>))"

definition updateResource ::
    "catalog_env \<Rightarrow> int \<Rightarrow> resource_row \<Rightarrow> catalog_candidate \<Rightarrow> observation_context \<Rightarrow> int \<Rightarrow> (catalog_db, write_result) io" where
  "updateResource E now row c x version = (let rid = rr_id row in
     if rr_owner row \<noteq> po_payTo (ca_paymentOption c) then quarantine E now rid c version
     else io_seq (io_modify (touch_resource now rid (oc_stage x = Seen_settled) version))
       (io_bind io_get (\<lambda>d. case find (\<lambda>v. cv_hash v = ca_declarationHash c) (versions_of rid d) of
          Some v \<Rightarrow> observe_same E now rid v c x version
        | None \<Rightarrow> observe_changed E now rid c x version)))"

text \<open>ROLLBACK restores the rows; the sequences keep what was drawn.\<close>

definition rollback :: "catalog_db \<Rightarrow> catalog_db \<Rightarrow> catalog_db" where
  "rollback d0 d = d0\<lparr>resource_seq := resource_seq d, version_seq := version_seq d, option_seq := option_seq d,
     index := (index d0)\<lparr>job_seq := job_seq (index d)\<rparr>\<rparr>"

definition transaction_body ::
    "catalog_env \<Rightarrow> int \<Rightarrow> catalog_candidate \<Rightarrow> observation_context \<Rightarrow> (catalog_db, write_result) io" where
  "transaction_body E now c x = io_bind nextVersion (\<lambda>version. io_bind io_get (\<lambda>d.
     case find (\<lambda>r. rr_key r = ca_resourceKey c) (resources d) of
       Some row \<Rightarrow> updateResource E now row c x version
     | None \<Rightarrow> createResource E now c x version))"

definition observe ::
    "catalog_env \<Rightarrow> int \<Rightarrow> catalog_candidate \<Rightarrow> observation_context \<Rightarrow> (catalog_db, write_result) io" where
  "observe E now c x d = (case transaction_body E now c x d of
     (Inr res, d') \<Rightarrow> (Inr res, d') | (Inl e, d') \<Rightarrow> (Inl e, rollback d d'))"

definition recordObservation :: "observation_row \<Rightarrow> catalog_db \<Rightarrow> catalog_db" where
  "recordObservation row d = d\<lparr>observations := observations d @ [row]\<rparr>"

section \<open>Sweeping and operator decisions\<close>

text \<open>\<open>catalog_next_version()\<close> is evaluated for every row the statement updates.\<close>

fun update_versioned :: "(resource_row \<Rightarrow> bool) \<Rightarrow> (int \<Rightarrow> resource_row \<Rightarrow> resource_row) \<Rightarrow> int \<Rightarrow> resource_row list \<Rightarrow> int \<times> resource_row list" where
  "update_versioned p f n [] = (n, [])"
| "update_versioned p f n (r # rs) = (if p r then (case update_versioned p f (n + 1) rs of (m, us) \<Rightarrow> (m, f (n + 1) r # us))
     else (case update_versioned p f n rs of (m, us) \<Rightarrow> (m, r # us)))"

definition apply_versioned :: "(resource_row \<Rightarrow> bool) \<Rightarrow> (int \<Rightarrow> resource_row \<Rightarrow> resource_row) \<Rightarrow> catalog_db \<Rightarrow> catalog_db" where
  "apply_versioned p f d = (case update_versioned p f (last_version d) (resources d) of
     (n, rs) \<Rightarrow> d\<lparr>last_version := n, resources := rs\<rparr>)"

definition hours :: "int \<Rightarrow> int" where
  "hours n = n * 3600000"

definition sweepStale :: "int \<Rightarrow> int \<Rightarrow> catalog_db \<Rightarrow> int \<times> catalog_db" where
  "sweepStale now staleAfterHours d = (let old = (\<lambda>r. rr_status r = R_active \<and> rr_lastSeen r < now - hours staleAfterHours) in
     (int (length (filter old (resources d))),
      apply_versioned old (\<lambda>n r. r\<lparr>rr_status := R_stale, rr_updated := n\<rparr>) d))"

definition setResourceStatus :: "string \<Rightarrow> resource_status \<Rightarrow> string option \<Rightarrow> catalog_db \<Rightarrow> bool \<times> catalog_db" where
  "setResourceStatus key st reason d =
     (list_ex (\<lambda>r. rr_key r = key) (resources d),
      apply_versioned (\<lambda>r. rr_key r = key) (\<lambda>n r. r\<lparr>rr_status := st, rr_reason := reason, rr_updated := n\<rparr>) d)"

definition watermark :: "catalog_db \<Rightarrow> int" where
  "watermark d = last_version d"

end
