(* ===== verification/Search_Query.thy ===== *)
theory Search_Query
  imports Catalog_Document
begin

text \<open>
  Query text (facilitator/src/search/query.ts): normalisation, the \<open>to_tsquery\<close> expression built from quoted
  lexemes, and the shape of a query.
\<close>

definition COMMON_STOPWORDS :: "string list" where
  "COMMON_STOPWORDS = [''a'', ''an'', ''and'', ''are'', ''as'', ''at'', ''be'', ''by'', ''for'', ''from'', ''in'', ''is'',
     ''it'', ''of'', ''on'', ''or'', ''the'', ''to'', ''with'']"

definition HTTP_METHODS :: "string list" where
  "HTTP_METHODS = [''CONNECT'', ''DELETE'', ''GET'', ''HEAD'', ''OPTIONS'', ''PATCH'', ''POST'', ''PUT'', ''TRACE'']"

record query_shape =
  normalizedLength :: nat
  tokenCount :: nat
  uniqueTokenCount :: nat
  phraseTokenCount :: nat
  hasPhrase :: bool
  hasIdentifier :: bool
  hasUrl :: bool
  hasHttpMethod :: bool
  hasNumericToken :: bool
  hasPunctuation :: bool
  stopwordOnly :: bool

definition normalizeSearchQuery :: "unicode \<Rightarrow> string \<Rightarrow> string" where
  "normalizeSearchQuery u s = concat (utf16_take 512 (trim_points u (collapse_space (white_space u) False
     (filter (\<lambda>p. \<not> is_bidi p) (blank_controls (code_points (nfkc u s)))))))"

definition atomicTokens :: "unicode \<Rightarrow> string \<Rightarrow> string list" where
  "atomicTokens u s = tokens_of u s"

text \<open>The rest of a match of the identifier pattern: more letters, or a separator that a letter follows.\<close>

definition identifier_separator :: "string \<Rightarrow> bool" where
  "identifier_separator x = (x = ''_'' \<or> x = ''-'')"

fun identifier_rest :: "(string \<Rightarrow> bool) \<Rightarrow> string list \<Rightarrow> string list \<times> string list" where
  "identifier_rest p [] = ([], [])"
| "identifier_rest p (x # xs) = (if p x \<or> (identifier_separator x \<and> xs \<noteq> [] \<and> p (hd xs))
     then (case identifier_rest p xs of (m, r) \<Rightarrow> (x # m, r)) else ([], x # xs))"

lemma identifier_rest_length: "length (snd (identifier_rest p xs)) \<le> length xs"
  by (induction xs) (auto split: prod.splits)

function identifier_runs :: "(string \<Rightarrow> bool) \<Rightarrow> string list \<Rightarrow> string list list" where
  "identifier_runs p [] = []"
| "identifier_runs p (x # xs) = (if p x then (x # fst (identifier_rest p xs)) # identifier_runs p (snd (identifier_rest p xs))
     else identifier_runs p xs)"
  by pat_completeness auto
termination by (relation "measure (length \<circ> snd)") (auto simp: le_imp_less_Suc identifier_rest_length)

definition split_identifier :: "string list \<Rightarrow> string list" where
  "split_identifier m = map snd (filter fst (token_runs (\<lambda>x. \<not> identifier_separator x) m))"

definition identifierTokensFor :: "unicode \<Rightarrow> string \<Rightarrow> string list" where
  "identifierTokensFor u s = concat (map (\<lambda>m. concat m # split_identifier m)
     (identifier_runs (letter_or_number u) (code_points s)))"

definition escape_lexeme :: "char \<Rightarrow> string" where
  "escape_lexeme c = (if c = CHR 0x5C then [CHR 0x5C, CHR 0x5C] else if c = CHR 0x27 then [CHR 0x27, CHR 0x27] else [c])"

definition quoteTsqueryLexeme :: "string \<Rightarrow> string" where
  "quoteTsqueryLexeme s = CHR 0x27 # concat (map escape_lexeme s) @ [CHR 0x27]"

definition searchable :: "unicode \<Rightarrow> string list \<Rightarrow> string list" where
  "searchable u ts = filter (\<lambda>t. t \<notin> set COMMON_STOPWORDS) (map (lower_case u) ts)"

definition no_match :: string where
  "no_match = CHR 0x27 # ''x402zzzznomatch'' @ [CHR 0x27]"

definition buildSearchTsquery :: "unicode \<Rightarrow> string \<Rightarrow> string" where
  "buildSearchTsquery u s = (let
     normalized = normalizeSearchQuery u s;
     phraseTokens = searchable u (atomicTokens u normalized);
     identifierTokens = searchable u (identifierTokensFor u normalized) in
     if phraseTokens = [] \<or> identifierTokens = [] then no_match
     else ''('' @ join '' <-> '' (map quoteTsqueryLexeme phraseTokens) @ '') | ('' @
       join '' | '' (map quoteTsqueryLexeme (insertion_order identifierTokens)) @ '')'')"

definition word_char :: "char \<Rightarrow> bool" where
  "word_char c = (is_digit c \<or> c = CHR ''_'' \<or> (let n = (of_char c :: nat) in (65 \<le> n \<and> n \<le> 90) \<or> (97 \<le> n \<and> n \<le> 122)))"

text \<open>\<open>/\b(?:https?|mcp):\/\//iu\<close>; \<open>b\<close> tells whether the character before is a word character.\<close>

fun url_in :: "bool \<Rightarrow> string \<Rightarrow> bool" where
  "url_in b [] = False"
| "url_in b (c # s) = ((\<not> b \<and> list_ex (\<lambda>p. has_prefix p (c # s)) [''http://'', ''https://'', ''mcp://'']) \<or> url_in (word_char c) s)"

definition ascii_lower :: "char \<Rightarrow> char" where
  "ascii_lower c = (let n = (of_char c :: nat) in if 65 \<le> n \<and> n \<le> 90 then char_of (n + 32) else c)"

definition identifier_mark :: "char \<Rightarrow> bool" where
  "identifier_mark c = (c \<in> set ''_:/.@#%~-'' \<or> c = CHR 0x5C)"

definition describeSearchQuery :: "unicode \<Rightarrow> string \<Rightarrow> query_shape" where
  "describeSearchQuery u s = (let
     normalized = normalizeSearchQuery u s;
     tokens = searchable u (atomicTokens u normalized);
     points = code_points normalized in
     \<lparr> normalizedLength = js_length normalized, tokenCount = length tokens,
       uniqueTokenCount = length (insertion_order tokens), phraseTokenCount = length tokens,
       hasPhrase = (length tokens > 1 \<and> list_ex (white_space u) points),
       hasIdentifier = list_ex identifier_mark normalized,
       hasUrl = url_in False (map ascii_lower normalized),
       hasHttpMethod = list_ex (\<lambda>t. upper_case u t \<in> set HTTP_METHODS) tokens,
       hasNumericToken = list_ex (list_ex is_digit) tokens,
       hasPunctuation = list_ex (\<lambda>p. \<not> letter_or_number u p \<and> \<not> white_space u p) points,
       stopwordOnly = (js_length normalized > 0 \<and> tokens = []) \<rparr>)"

section \<open>Quoting\<close>

text \<open>How the tsquery reader takes a quoted lexeme apart: a doubled quote or backslash stands for one.\<close>

fun read_lexeme :: "string \<Rightarrow> (string \<times> string) option" where
  "read_lexeme [] = None"
| "read_lexeme [c] = (if c = CHR 0x27 then Some ([], []) else None)"
| "read_lexeme (c # e # s) = (if c = CHR 0x27 \<and> e \<noteq> CHR 0x27 then Some ([], e # s)
     else if c = CHR 0x27 \<or> c = CHR 0x5C then map_option (\<lambda>(t, r). (e # t, r)) (read_lexeme s)
     else map_option (\<lambda>(t, r). (c # t, r)) (read_lexeme (e # s)))"

lemma read_plain: "c \<noteq> CHR 0x27 \<Longrightarrow> c \<noteq> CHR 0x5C \<Longrightarrow> s \<noteq> [] \<Longrightarrow>
    read_lexeme (c # s) = map_option (\<lambda>(t, r). (c # t, r)) (read_lexeme s)"
  by (cases s) auto

lemma read_lexeme_end: "r = [] \<or> hd r \<noteq> CHR 0x27 \<Longrightarrow> read_lexeme (CHR 0x27 # r) = Some ([], r)"
  by (cases r) auto

lemma quoted_lexeme_reads_back:
  "r = [] \<or> hd r \<noteq> CHR 0x27 \<Longrightarrow> read_lexeme (tl (quoteTsqueryLexeme s) @ r) = Some (s, r)"
proof (induction s)
  case Nil
  then show ?case by (simp add: quoteTsqueryLexeme_def read_lexeme_end)
next
  case (Cons c s)
  then show ?case by (simp add: quoteTsqueryLexeme_def escape_lexeme_def read_plain)
qed

end
