(* ===== verification/Catalog_Read.thy ===== *)
theory Catalog_Read
  imports Catalog_Store Search_Query Complex_Main
begin

text \<open>
  The reads of the catalog (facilitator/src/db/catalog.ts): the shared snapshot scope, browse and lexical
  and semantic retrieval, the lookup by identity, hydration and the accepted payment options.  The
  full-text match, its rank, the vector distance and the floating-point addition are the fields of
  \<open>read_env\<close>; a finite float is the rational number it denotes.
\<close>

section \<open>Requests and answers\<close>

record discovery_filters =
  fi_type :: "resource_type option"
  fi_network :: "string option"
  fi_scheme :: "string option"
  fi_payTo :: "string option"
  fi_asset :: "string option"
  fi_maxPrice :: "string option"
  fi_extensions :: "string option"

definition no_filters :: discovery_filters where
  "no_filters = \<lparr> fi_type = None, fi_network = None, fi_scheme = None, fi_payTo = None, fi_asset = None,
     fi_maxPrice = None, fi_extensions = None \<rparr>"

record discovery_options =
  dp_filters :: discovery_filters
  dp_limit :: nat
  dp_offset :: nat
  dp_snapshot :: int
  dp_includeStale :: bool
  dp_includeUnverified :: bool
  dp_staleAfterHours :: int
  dp_query :: "string option"
  dp_language :: "string option"

record accepted_option =
  ac_scheme :: string
  ac_network :: string
  ac_asset :: string
  ac_amount :: string
  ac_payTo :: string
  ac_maxTimeoutSeconds :: int
  ac_extra :: js

record discovery_row =
  dr_resourceId :: int
  dr_versionId :: int
  dr_resource :: string
  dr_type :: resource_type
  dr_x402Version :: int
  dr_description :: "string option"
  dr_mimeType :: "string option"
  dr_serviceName :: "string option"
  dr_tags :: "string list option"
  dr_iconUrl :: "string option"
  dr_extensions :: "js option"
  dr_lastUpdated :: int
  dr_accepts :: "accepted_option list"

record discovery_page =
  pg_rows :: "discovery_row list"
  pg_total :: nat
  pg_partialResults :: bool

record read_env =
  re_unicode :: unicode
  re_collate :: "string \<Rightarrow> string \<Rightarrow> int"
  re_matches :: "string \<Rightarrow> string \<Rightarrow> compiled_document \<Rightarrow> bool"
  re_rank :: "string \<Rightarrow> string \<Rightarrow> compiled_document \<Rightarrow> rat"
  re_add :: "rat \<Rightarrow> rat \<Rightarrow> rat"
  re_lower :: "string \<Rightarrow> string"

definition optionRow :: "option_row \<Rightarrow> accepted_option" where
  "optionRow row = \<lparr> ac_scheme = co_scheme row, ac_network = co_network row, ac_asset = co_asset row,
     ac_amount = int_to_string (co_amount row), ac_payTo = co_payTo row, ac_maxTimeoutSeconds = co_maxTimeout row,
     ac_extra = or_nullish (co_extra row) (JObj []) \<rparr>"

section \<open>The snapshot scope\<close>

definition retired_after :: "int \<Rightarrow> int option \<Rightarrow> bool" where
  "retired_after snap v = (case v of None \<Rightarrow> True | Some n \<Rightarrow> n > snap)"

text \<open>JOIN LATERAL: the version with the highest number among those created by then and public once.\<close>

definition lateral_version :: "int \<Rightarrow> int \<Rightarrow> version_row \<Rightarrow> bool" where
  "lateral_version snap rid v = (cv_resource v = rid \<and> cv_created v \<le> snap \<and> (cv_status v = V_active \<or> cv_status v = V_superseded))"

fun highest :: "version_row list \<Rightarrow> version_row option" where
  "highest [] = None"
| "highest (v # vs) = (case highest vs of None \<Rightarrow> Some v | Some w \<Rightarrow> if cv_number w > cv_number v then Some w else Some v)"

definition scope_version :: "int \<Rightarrow> catalog_db \<Rightarrow> resource_row \<Rightarrow> version_row option" where
  "scope_version snap d r = highest (filter (lateral_version snap (rr_id r)) (versions d))"

definition filter_is :: "string option \<Rightarrow> string \<Rightarrow> bool" where
  "filter_is f s = (truthy_str f \<longrightarrow> s = coalesce f [])"

definition option_at :: "int \<Rightarrow> option_row \<Rightarrow> bool" where
  "option_at snap row = (co_created row \<le> snap \<and> retired_after snap (co_retired row))"

definition option_matches :: "discovery_filters \<Rightarrow> int \<Rightarrow> int \<Rightarrow> option_row \<Rightarrow> bool" where
  "option_matches f snap vid row = (co_version row = vid \<and> option_at snap row
     \<and> filter_is (fi_network f) (co_network row) \<and> filter_is (fi_scheme f) (co_scheme row)
     \<and> filter_is (fi_payTo f) (co_payTo row) \<and> filter_is (fi_asset f) (co_asset row)
     \<and> (truthy_str (fi_maxPrice f) \<longrightarrow> co_amount row \<le> big_int (coalesce (fi_maxPrice f) [])))"

definition has_key :: "js \<Rightarrow> string \<Rightarrow> bool" where
  "has_key v k = (case v of JObj kvs \<Rightarrow> k \<in> set (map fst kvs) | JArr xs \<Rightarrow> JStr k \<in> set xs | JStr s \<Rightarrow> s = k | _ \<Rightarrow> False)"

definition language_of :: "discovery_options \<Rightarrow> string" where
  "language_of x = coalesce (dp_language x) ''simple''"

definition document_of :: "catalog_db \<Rightarrow> int \<Rightarrow> compiled_document option" where
  "document_of d vid = map_option sd_compiled (find (\<lambda>row. sd_version row = vid) (documents d))"

definition query_matches :: "read_env \<Rightarrow> discovery_options \<Rightarrow> catalog_db \<Rightarrow> version_row \<Rightarrow> bool" where
  "query_matches R x d v = (truthy_str (dp_query x) \<longrightarrow> (case document_of d (cv_id v) of None \<Rightarrow> False
     | Some k \<Rightarrow> re_matches R (language_of x) (buildSearchTsquery (re_unicode R) (coalesce (dp_query x) [])) k))"

definition snapshot_conditions ::
    "read_env \<Rightarrow> discovery_options \<Rightarrow> catalog_db \<Rightarrow> resource_row \<Rightarrow> version_row \<Rightarrow> bool" where
  "snapshot_conditions R x d r v = (let snap = dp_snapshot x; f = dp_filters x in
     rr_created r \<le> snap \<and> cv_created v \<le> snap \<and> retired_after snap (cv_retired v)
     \<and> (case fi_type f of None \<Rightarrow> True | Some t \<Rightarrow> rr_type r = t)
     \<and> (truthy_str (fi_extensions f) \<longrightarrow> has_key (de_extensions (cv_declaration v)) (coalesce (fi_extensions f) []))
     \<and> list_ex (option_matches f snap (cv_id v)) (options d) \<and> query_matches R x d v)"

definition visibility :: "int \<Rightarrow> discovery_options \<Rightarrow> resource_row \<Rightarrow> version_row \<Rightarrow> bool" where
  "visibility now x r v = ((rr_status r = R_active \<or> (dp_includeStale x \<and> rr_status r = R_stale))
     \<and> (\<not> dp_includeStale x \<longrightarrow> rr_lastSeen r \<ge> now - hours (dp_staleAfterHours x))
     \<and> (\<not> dp_includeUnverified x \<longrightarrow> cv_observed v))"

definition lateral_rows :: "int \<Rightarrow> catalog_db \<Rightarrow> (resource_row \<times> version_row) list" where
  "lateral_rows snap d = concat (map (\<lambda>r. case scope_version snap d r of None \<Rightarrow> [] | Some v \<Rightarrow> [(r, v)]) (resources d))"

definition snapshot_rows :: "read_env \<Rightarrow> discovery_options \<Rightarrow> catalog_db \<Rightarrow> (resource_row \<times> version_row) list" where
  "snapshot_rows R x d = filter (\<lambda>(r, v). snapshot_conditions R x d r v) (lateral_rows (dp_snapshot x) d)"

definition visible_rows ::
    "read_env \<Rightarrow> int \<Rightarrow> discovery_options \<Rightarrow> catalog_db \<Rightarrow> (resource_row \<times> version_row) list" where
  "visible_rows R now x d = filter (\<lambda>(r, v). visibility now x r v) (snapshot_rows R x d)"

text \<open>The rank: \<open>ts_rank_cd\<close>, and the bonus of a literal identifier.\<close>

fun substring :: "string \<Rightarrow> string \<Rightarrow> bool" where
  "substring p [] = (p = [])"
| "substring p (c # s) = (has_prefix p (c # s) \<or> substring p s)"

definition identifier_text :: "resource_row \<Rightarrow> version_row \<Rightarrow> string" where
  "identifier_text r v = (let de = cv_declaration v in join '' '' (concat (map (\<lambda>x. case x of None \<Rightarrow> [] | Some s \<Rightarrow> [s])
     [de_serviceName de, de_toolName de, de_routeTemplate de, Some (rr_url r), de_method de])))"

definition rank_of :: "read_env \<Rightarrow> discovery_options \<Rightarrow> catalog_db \<Rightarrow> resource_row \<times> version_row \<Rightarrow> rat" where
  "rank_of R x d = (\<lambda>(r, v). let u = re_unicode R; q = coalesce (dp_query x) []; shape = describeSearchQuery u q;
     base = (case document_of d (cv_id v) of None \<Rightarrow> 0 | Some k \<Rightarrow> re_rank R (language_of x) (buildSearchTsquery u q) k) in
     if hasIdentifier shape \<or> hasUrl shape
     then re_add R base (if substring (lower_case u (normalizeSearchQuery u q)) (re_lower R (identifier_text r v)) then 2 else 0)
     else base)"

section \<open>Rows\<close>

definition option_amount_order :: "(string \<Rightarrow> string \<Rightarrow> int) \<Rightarrow> option_row \<Rightarrow> option_row \<Rightarrow> int" where
  "option_amount_order c a b = then_by (option_order c a b) (co_amount a - co_amount b)"

definition accepts_of :: "read_env \<Rightarrow> int \<Rightarrow> catalog_db \<Rightarrow> int \<Rightarrow> accepted_option list" where
  "accepts_of R snap d vid = map optionRow (js_sort (option_amount_order (re_collate R))
     (filter (\<lambda>row. co_version row = vid \<and> option_at snap row) (options d)))"

definition discovery_row_of :: "read_env \<Rightarrow> int \<Rightarrow> catalog_db \<Rightarrow> resource_row \<times> version_row \<Rightarrow> discovery_row" where
  "discovery_row_of R snap d = (\<lambda>(r, v). let de = cv_declaration v in
     \<lparr> dr_resourceId = rr_id r, dr_versionId = cv_id v, dr_resource = rr_url r, dr_type = rr_type r,
       dr_x402Version = de_x402Version de, dr_description = nonempty (de_description de),
       dr_mimeType = nonempty (de_mimeType de), dr_serviceName = nonempty (de_serviceName de),
       dr_tags = (if de_tags de \<noteq> [] then Some (de_tags de) else None), dr_iconUrl = nonempty (de_iconUrl de),
       dr_extensions = (if object_entries (de_extensions de) \<noteq> [] then Some (de_extensions de) else None),
       dr_lastUpdated = max (coalesce (cv_activatedAt v) (cv_createdAt v)) (cv_createdAt v),
       dr_accepts = accepts_of R snap d (cv_id v) \<rparr>)"

definition attachAccepts :: "read_env \<Rightarrow> int \<Rightarrow> catalog_db \<Rightarrow> (resource_row \<times> version_row) list \<Rightarrow> discovery_row list" where
  "attachAccepts R snap d rows = map (discovery_row_of R snap d) rows"

text \<open>ORDER BY rank DESC, r.id DESC; without a query by identifier only.\<close>

definition newest_first :: "resource_row \<times> version_row \<Rightarrow> resource_row \<times> version_row \<Rightarrow> int" where
  "newest_first a b = rr_id (fst b) - rr_id (fst a)"

definition rat_cmp :: "rat \<Rightarrow> rat \<Rightarrow> int" where
  "rat_cmp a b = (if a < b then - 1 else if b < a then 1 else 0)"

definition ranked_first ::
    "read_env \<Rightarrow> discovery_options \<Rightarrow> catalog_db \<Rightarrow> resource_row \<times> version_row \<Rightarrow> resource_row \<times> version_row \<Rightarrow> int" where
  "ranked_first R x d a b = then_by (rat_cmp (rank_of R x d b) (rank_of R x d a)) (newest_first a b)"

definition ordered_rows ::
    "read_env \<Rightarrow> int \<Rightarrow> discovery_options \<Rightarrow> catalog_db \<Rightarrow> (resource_row \<times> version_row) list" where
  "ordered_rows R now x d = js_sort (if truthy_str (dp_query x) then ranked_first R x d else newest_first) (visible_rows R now x d)"

definition list_page :: "read_env \<Rightarrow> int \<Rightarrow> discovery_options \<Rightarrow> catalog_db \<Rightarrow> discovery_page" where
  "list_page R now x d = (let total = length (visible_rows R now x d); snapshotTotal = length (snapshot_rows R x d);
     rows = take (dp_limit x) (drop (dp_offset x) (ordered_rows R now x d)) in
     \<lparr> pg_rows = attachAccepts R (dp_snapshot x) d rows, pg_total = total,
       pg_partialResults = (dp_offset x + length rows < total \<or> snapshotTotal > total) \<rparr>)"

text \<open>
  The count is taken before limit and offset are bound.  With a query that holds an identifier or a URL the
  last value is the literal of the rank, which the count does not use: the server refuses the statement.
\<close>

definition unused_rank_value :: "read_env \<Rightarrow> discovery_options \<Rightarrow> bool" where
  "unused_rank_value R x = (truthy_str (dp_query x) \<and> (let shape = describeSearchQuery (re_unicode R) (coalesce (dp_query x) []) in
     hasIdentifier shape \<or> hasUrl shape))"

definition list_catalog :: "read_env \<Rightarrow> int \<Rightarrow> discovery_options \<Rightarrow> catalog_db \<Rightarrow> exn + discovery_page" where
  "list_catalog R now x d = (if unused_rank_value R x
     then Inl (JsError ''bind message supplies more parameters than the prepared statement requires'')
     else Inr (list_page R now x d))"

section \<open>Retrieval\<close>

record lexical_candidate =
  lc_resourceId :: int
  lc_versionId :: int
  lc_score :: rat

definition lexicalCandidates :: "read_env \<Rightarrow> int \<Rightarrow> discovery_options \<Rightarrow> nat \<Rightarrow> catalog_db \<Rightarrow> lexical_candidate list" where
  "lexicalCandidates R now x n d = (if normalizeSearchQuery (re_unicode R) (coalesce (dp_query x) []) = [] then []
     else map (\<lambda>p. \<lparr> lc_resourceId = rr_id (fst p), lc_versionId = cv_id (snd p), lc_score = rank_of R x d p \<rparr>)
       (take n (js_sort (ranked_first R x d) (visible_rows R now x d))))"

record semantic_candidate =
  sc_resourceId :: int
  sc_versionId :: int
  sc_distance :: rat

definition nearest_first :: "(int \<Rightarrow> rat) \<Rightarrow> resource_row \<times> version_row \<Rightarrow> resource_row \<times> version_row \<Rightarrow> int" where
  "nearest_first gap a b = then_by (rat_cmp (gap (cv_id (snd a))) (gap (cv_id (snd b)))) (newest_first a b)"

text \<open>\<open>distances\<close> gives the cosine distance of every ready embedding of the generation to the query vector.\<close>

definition semanticCandidates ::
    "read_env \<Rightarrow> int \<Rightarrow> discovery_options \<Rightarrow> nat \<Rightarrow> (int \<rightharpoonup> rat) \<Rightarrow> catalog_db \<Rightarrow> semantic_candidate list" where
  "semanticCandidates R now x n distances d = (let gap = (\<lambda>vid. coalesce (distances vid) 0);
     rows = filter (\<lambda>p. distances (cv_id (snd p)) \<noteq> None) (visible_rows R now (x\<lparr>dp_query := None\<rparr>) d) in
     map (\<lambda>p. \<lparr> sc_resourceId = rr_id (fst p), sc_versionId = cv_id (snd p), sc_distance = gap (cv_id (snd p)) \<rparr>)
       (take n (js_sort (nearest_first gap) rows)))"

definition key_matches :: "resource_type \<Rightarrow> string \<Rightarrow> string option \<Rightarrow> resource_row \<Rightarrow> bool" where
  "key_matches t url tool r = (rr_type r = t \<and> rr_url r = url
     \<and> (t = Mcp_type \<longrightarrow> rr_toolName r = Some (coalesce tool [])))"

definition getByKey ::
    "read_env \<Rightarrow> int \<Rightarrow> resource_type \<Rightarrow> string \<Rightarrow> string option \<Rightarrow> discovery_options \<Rightarrow> catalog_db \<Rightarrow> discovery_row option" where
  "getByKey R now t url tool x d = (let y = x\<lparr>dp_filters := no_filters, dp_query := None\<rparr>;
     rows = js_sort newest_first (filter (\<lambda>p. key_matches t url tool (fst p)) (visible_rows R now y d)) in
     case attachAccepts R (dp_snapshot x) d (take 1 rows) of [] \<Rightarrow> None | row # _ \<Rightarrow> Some row)"

text \<open>\<open>hydrate\<close> joins every resource with each of its versions that is asked for.\<close>

definition hydrate :: "read_env \<Rightarrow> int list \<Rightarrow> int \<Rightarrow> catalog_db \<Rightarrow> (int \<times> discovery_row) list" where
  "hydrate R vids snap d = map (\<lambda>row. (dr_versionId row, row)) (attachAccepts R snap d
     (concat (map (\<lambda>r. map (Pair r) (filter (\<lambda>v. cv_resource v = rr_id r \<and> cv_id v \<in> set vids) (versions d))) (resources d))))"

definition document_texts :: "int list \<Rightarrow> catalog_db \<Rightarrow> (int \<times> string) list" where
  "document_texts vids d = map (\<lambda>row. (sd_version row, document (sd_compiled row)))
     (filter (\<lambda>row. sd_version row \<in> set vids) (documents d))"

definition origins :: "int list \<Rightarrow> catalog_db \<Rightarrow> (int \<times> string) list" where
  "origins rids d = map (\<lambda>r. (rr_id r, rr_origin r)) (filter (\<lambda>r. rr_id r \<in> set rids) (resources d))"

definition countVisible :: "read_env \<Rightarrow> int \<Rightarrow> discovery_options \<Rightarrow> catalog_db \<Rightarrow> nat \<times> nat" where
  "countVisible R now x d = (let y = x\<lparr>dp_query := None\<rparr> in (length (visible_rows R now y d), length (snapshot_rows R y d)))"

end
