(* ===== verification/Catalog_Laws.thy ===== *)
theory Catalog_Laws
  imports Catalog_Read
begin

text \<open>
  Laws of the catalog store: triples for its statements, the integrity of the rows (keys, references and
  the owner of every payment option) as a property of the columns that no update touches, the link between
  a resource and its active version, and the runs of catalog events.
\<close>

named_theorems triple_rules "triples of the statements of a transaction"

section \<open>Triples\<close>

definition triple :: "('w \<Rightarrow> bool) \<Rightarrow> ('w, 'a) io \<Rightarrow> ('a \<Rightarrow> 'w \<Rightarrow> bool) \<Rightarrow> ('w \<Rightarrow> bool) \<Rightarrow> bool" where
  "triple P m Q X = (\<forall>w. P w \<longrightarrow> (case m w of (Inl e, w') \<Rightarrow> X w' | (Inr x, w') \<Rightarrow> Q x w'))"

lemma tripleI: "(\<And>w e w'. P w \<Longrightarrow> m w = (Inl e, w') \<Longrightarrow> X w') \<Longrightarrow>
    (\<And>w x w'. P w \<Longrightarrow> m w = (Inr x, w') \<Longrightarrow> Q x w') \<Longrightarrow> triple P m Q X"
  unfolding triple_def by (auto split: prod.split sum.split)

lemma triple_Inr: "triple P m Q X \<Longrightarrow> P w \<Longrightarrow> m w = (Inr x, w') \<Longrightarrow> Q x w'"
  unfolding triple_def by fastforce

lemma triple_Inl: "triple P m Q X \<Longrightarrow> P w \<Longrightarrow> m w = (Inl e, w') \<Longrightarrow> X w'"
  unfolding triple_def by fastforce

lemma triple_bind:
  assumes "triple P m R X" "\<And>x. triple (R x) (k x) Q X" shows "triple P (io_bind m k) Q X"
proof (rule tripleI)
  fix w e w' assume w: "P w" "io_bind m k w = (Inl e, w')"
  show "X w'"
  proof (cases "m w")
    case (Pair r w1)
    then show ?thesis using w triple_Inl [OF assms(1), of w] triple_Inl [OF assms(2), of _ w1 e w'] triple_Inr [OF assms(1), of w]
      by (cases r) (auto simp: io_bind_def)
  qed
next
  fix w x w' assume w: "P w" "io_bind m k w = (Inr x, w')"
  from w(2) obtain y w1 where "m w = (Inr y, w1)" "k y w1 = (Inr x, w')" by (rule io_bind_InrE)
  then show "Q x w'" using triple_Inr [OF assms(1) w(1)] triple_Inr [OF assms(2)] by blast
qed

lemma triple_seq: "triple P m (\<lambda>_. R) X \<Longrightarrow> triple R k Q X \<Longrightarrow> triple P (io_seq m k) Q X"
  unfolding io_seq_def by (rule triple_bind)

lemma triple_weaken: "triple P m Q X \<Longrightarrow> (\<And>w. P' w \<Longrightarrow> P w) \<Longrightarrow> (\<And>x w. Q x w \<Longrightarrow> Q' x w) \<Longrightarrow> triple P' m Q' X"
  by (rule tripleI) (auto dest: triple_Inl triple_Inr)

lemma triple_weaken_any: "triple P m Q X \<Longrightarrow> (\<And>w. P' w \<Longrightarrow> P w) \<Longrightarrow> (\<And>x w. Q x w \<Longrightarrow> Q' x w) \<Longrightarrow> triple P' m Q' (\<lambda>_. True)"
  by (rule tripleI) (auto dest: triple_Inr)

lemma triple_return: "(\<And>w. P w \<Longrightarrow> Q x w) \<Longrightarrow> triple P (io_return x) Q X"
  by (simp add: triple_def io_return_def)

lemma triple_throw: "(\<And>w. P w \<Longrightarrow> X w) \<Longrightarrow> triple P (io_throw e) Q X"
  by (simp add: triple_def io_throw_def)

lemma triple_get: "(\<And>w. P w \<Longrightarrow> Q w w) \<Longrightarrow> triple P io_get Q X"
  by (simp add: triple_def io_get_def)

lemma triple_read: "(\<And>w0. triple P (k w0) Q X) \<Longrightarrow> triple P (io_bind io_get k) Q X"
  by (simp add: triple_def io_bind_def io_get_def)

lemma triple_modify: "(\<And>w. P w \<Longrightarrow> Q () (f w)) \<Longrightarrow> triple P (io_modify f) Q X"
  by (simp add: triple_def io_modify_def)

lemma triple_guard: "(\<And>w. P w \<Longrightarrow> Q () w) \<Longrightarrow> (\<And>w. P w \<Longrightarrow> X w) \<Longrightarrow> triple P (io_guard e) Q X"
  by (auto simp: triple_def io_guard_def io_return_def io_throw_def split: option.split)

lemma triple_lift: "(\<And>w x. P w \<Longrightarrow> m = Inr x \<Longrightarrow> Q x w) \<Longrightarrow> (\<And>w. P w \<Longrightarrow> X w) \<Longrightarrow> triple P (lift_sum m) Q X"
  by (cases m) (auto simp: triple_def lift_sum_def)

lemma triple_if: "(b \<Longrightarrow> triple P m Q X) \<Longrightarrow> (\<not> b \<Longrightarrow> triple P n Q X) \<Longrightarrow> triple P (if b then m else n) Q X"
  by auto

text \<open>A statement that looks at the state before it runs.\<close>

lemma triple_local: "(\<And>w0. triple P (m w0) Q X) \<Longrightarrow> triple P (\<lambda>w. m w w) Q X"
  by (simp add: triple_def)

section \<open>Integrity of the rows\<close>

definition owners :: "catalog_db \<Rightarrow> (int \<times> string \<times> string) list" where
  "owners d = map (\<lambda>r. (rr_id r, rr_key r, rr_owner r)) (resources d)"

definition placed :: "catalog_db \<Rightarrow> (int \<times> int \<times> int \<times> string) list" where
  "placed d = map (\<lambda>v. (cv_id v, cv_resource v, cv_number v, cv_hash v)) (versions d)"

definition payees :: "catalog_db \<Rightarrow> (int \<times> int \<times> int \<times> string) list" where
  "payees d = map (\<lambda>x. (co_id x, co_version x, co_resource x, co_payTo x)) (options d)"

definition owned_by :: "int \<Rightarrow> string \<Rightarrow> catalog_db \<Rightarrow> bool" where
  "owned_by rid p d = (\<exists>k. (rid, k, p) \<in> set (owners d))"

definition version_at :: "int \<Rightarrow> int \<Rightarrow> catalog_db \<Rightarrow> bool" where
  "version_at vid rid d = (\<exists>n h. (vid, rid, n, h) \<in> set (placed d))"

definition keys_ok :: "catalog_db \<Rightarrow> bool" where
  "keys_ok d = (distinct (map fst (owners d)) \<and> distinct (map (fst \<circ> snd) (owners d)) \<and> distinct (map fst (placed d))
     \<and> distinct (map (\<lambda>(_, r, n, _). (r, n)) (placed d)) \<and> distinct (map (\<lambda>(_, r, _, h). (r, h)) (placed d))
     \<and> distinct (map fst (payees d)) \<and> (\<forall>x \<in> set (owners d). fst x < resource_seq d)
     \<and> (\<forall>x \<in> set (placed d). fst x < version_seq d) \<and> (\<forall>x \<in> set (payees d). fst x < option_seq d))"

definition refs_ok :: "catalog_db \<Rightarrow> bool" where
  "refs_ok d = ((\<forall>(i, r, _) \<in> set (placed d). \<exists>p. owned_by r p d)
     \<and> (\<forall>(i, v, r, p) \<in> set (payees d). version_at v r d \<and> owned_by r p d))"

definition rows_ok :: "catalog_db \<Rightarrow> bool" where
  "rows_ok d = (keys_ok d \<and> refs_ok d)"

text \<open>Later states: nothing of the integrity columns changes or disappears, and the sequences advance.\<close>

definition later :: "catalog_db \<Rightarrow> catalog_db \<Rightarrow> bool" where
  "later d d' = (set (owners d) \<subseteq> set (owners d') \<and> set (placed d) \<subseteq> set (placed d') \<and> resource_seq d \<le> resource_seq d'
     \<and> version_seq d \<le> version_seq d' \<and> option_seq d \<le> option_seq d')"

definition seqs_later :: "catalog_db \<Rightarrow> catalog_db \<Rightarrow> bool" where
  "seqs_later d d' = (resource_seq d \<le> resource_seq d' \<and> version_seq d \<le> version_seq d' \<and> option_seq d \<le> option_seq d')"

definition sound :: "catalog_db \<Rightarrow> catalog_db \<Rightarrow> bool" where
  "sound d0 d = (rows_ok d \<and> later d0 d)"

lemma later_refl [simp]: "later d d"
  by (simp add: later_def)

lemma later_trans: "later a b \<Longrightarrow> later b c \<Longrightarrow> later a c"
  unfolding later_def by auto

lemma later_owned: "later d d' \<Longrightarrow> owned_by rid p d \<Longrightarrow> owned_by rid p d'"
  by (auto simp: later_def owned_by_def)

lemma later_version: "later d d' \<Longrightarrow> version_at vid rid d \<Longrightarrow> version_at vid rid d'"
  unfolding later_def version_at_def by (meson subsetD)

lemma later_seqs: "later d d' \<Longrightarrow> seqs_later d d'"
  by (simp add: later_def seqs_later_def)

lemma sound_seqs: "sound d0 d \<Longrightarrow> seqs_later d0 d"
  by (simp add: sound_def later_seqs)

text \<open>Updates that keep the integrity columns.\<close>

definition same_columns :: "catalog_db \<Rightarrow> catalog_db \<Rightarrow> bool" where
  "same_columns d d' = (owners d' = owners d \<and> placed d' = placed d \<and> payees d' = payees d \<and> resource_seq d' = resource_seq d
     \<and> version_seq d' = version_seq d \<and> option_seq d' = option_seq d)"

lemma same_columns_sound: "same_columns d d' \<Longrightarrow> sound d0 d \<Longrightarrow> sound d0 d'"
  by (simp add: same_columns_def sound_def rows_ok_def keys_ok_def refs_ok_def owned_by_def version_at_def later_def)

lemma same_columns_at: "same_columns d d' \<Longrightarrow> owned_by rid p d' = owned_by rid p d \<and> version_at vid r d' = version_at vid r d"
  by (simp add: same_columns_def owned_by_def version_at_def)

lemma map_update_where: "(\<And>r. key (f r) = key r) \<Longrightarrow> map key (update_where p f t) = map key t"
  by (rule update_where_keys) simp

lemma columns_of_updates [simp]:
  "same_columns d (retire_options now vid p version d)"
  "same_columns d (upsert_document row d)"
  "same_columns d (enqueue_job now rid vid h d)"
  "same_columns d (set_active rid vid version d)"
  "same_columns d (supersede_others now rid vid version d)"
  "same_columns d (activate_version now vid d)"
  "same_columns d (touch_resource now rid settled version d)"
  "same_columns d (d\<lparr>last_version := n\<rparr>)"
  "same_columns d (recordObservation row' d)"
  by (simp_all add: same_columns_def owners_def placed_def payees_def map_update_where retire_options_def upsert_document_def
     enqueue_job_def set_active_def supersede_others_def activate_version_def touch_resource_def recordObservation_def Let_def)

text \<open>Inserts.\<close>

lemma distinct_snoc_less: "distinct (map f xs) \<Longrightarrow> (\<forall>x \<in> set xs. f x < (n :: int)) \<Longrightarrow> f y = n \<Longrightarrow> distinct (map f (xs @ [y]))"
  by auto

lemma insert_resource_sound:
  assumes s: "sound d0 d" and n: "find (\<lambda>r. rr_key r = ca_resourceKey c) (resources d) = None"
    and d': "d' = d\<lparr>resource_seq := resource_seq d + 1, resources := resources d @ [new_resource now (resource_seq d) c st version]\<rparr>"
  shows "sound d0 d' \<and> owned_by (resource_seq d) (po_payTo (ca_paymentOption c)) d' \<and> (\<forall>v. \<not> version_at v (resource_seq d) d')"
proof -
  let ?o = "(resource_seq d, ca_resourceKey c, po_payTo (ca_paymentOption c))"
  have o: "owners d' = owners d @ [?o]" and p: "placed d' = placed d" "payees d' = payees d"
    and q: "resource_seq d' = resource_seq d + 1" "version_seq d' = version_seq d" "option_seq d' = option_seq d"
    by (simp_all add: owners_def placed_def payees_def d' new_resource_def)
  have k: "ca_resourceKey c \<notin> (fst \<circ> snd) ` set (owners d)"
    by (force simp: owners_def dest: find_NoneD [OF n])
  have ok: "keys_ok d" "refs_ok d" using s by (simp_all add: sound_def rows_ok_def)
  have "keys_ok d'" using ok(1) k unfolding keys_ok_def by (auto simp: o p q less_le)
  moreover have at: "version_at v r d' = version_at v r d" "owned_by r pay d \<Longrightarrow> owned_by r pay d'" for v r pay
    by (auto simp: version_at_def owned_by_def o p)
  have "refs_ok d'" using ok(2) unfolding refs_ok_def p by (fastforce simp: at(1) dest: at(2))
  moreover have "later d d'" by (auto simp: later_def o p q)
  moreover have "\<not> version_at v (resource_seq d) d" for v
  proof
    assume "version_at v (resource_seq d) d"
    then obtain n h where "(v, resource_seq d, n, h) \<in> set (placed d)" by (auto simp: version_at_def)
    then obtain pay where "owned_by (resource_seq d) pay d" using ok(2) unfolding refs_ok_def by fastforce
    then show False using ok(1) unfolding owned_by_def keys_ok_def by fastforce
  qed
  ultimately show ?thesis using s later_trans [of d0 d d'] by (auto simp: sound_def rows_ok_def at(1) owned_by_def o)
qed

lemma insert_version_sound:
  assumes s: "sound d0 d" and r: "owned_by rid p d"
    and n: "\<not> list_ex (\<lambda>v. cv_number v = number \<or> cv_hash v = ca_declarationHash c) (versions_of rid d)"
    and d': "d' = d\<lparr>version_seq := version_seq d + 1,
      versions := versions d @ [new_version now (version_seq d) rid number c version_st reason version]\<rparr>"
  shows "sound d0 d' \<and> owned_by rid p d' \<and> version_at (version_seq d) rid d'"
proof -
  have o: "owners d' = owners d" "payees d' = payees d" and p: "placed d' = placed d @ [(version_seq d, rid, number, ca_declarationHash c)]"
    and q: "resource_seq d' = resource_seq d" "version_seq d' = version_seq d + 1" "option_seq d' = option_seq d"
    by (simp_all add: owners_def placed_def payees_def d' new_version_def)
  have k: "(rid, number) \<notin> (\<lambda>(_, r, n, _). (r, n)) ` set (placed d)" "(rid, ca_declarationHash c) \<notin> (\<lambda>(_, r, _, h). (r, h)) ` set (placed d)"
    using n by (auto simp: placed_def versions_of_def list_ex_iff)
  have ok: "keys_ok d" "refs_ok d" using s by (simp_all add: sound_def rows_ok_def)
  have "keys_ok d'" using ok(1) k unfolding keys_ok_def by (auto simp: o p q less_le)
  moreover have at: "version_at v x d \<Longrightarrow> version_at v x d'" "owned_by x pay d' = owned_by x pay d" for v x pay
    by (auto simp: version_at_def owned_by_def o p)
  have "refs_ok d'" using ok(2) r unfolding refs_ok_def o p by (fastforce simp: at(2) dest: at(1))
  moreover have "later d d'" by (auto simp: later_def o p q)
  ultimately show ?thesis using s r later_trans [of d0 d d'] by (auto simp: sound_def rows_ok_def at(2) version_at_def p)
qed

lemma insert_option_sound:
  assumes s: "sound d0 d" and r: "owned_by rid (po_payTo p) d" and v: "version_at vid rid d"
    and d': "d' = d\<lparr>option_seq := option_seq d + 1, options := options d @ [new_option now (option_seq d) rid vid p cents version]\<rparr>"
  shows "sound d0 d'"
proof -
  have o: "owners d' = owners d" "placed d' = placed d" and p: "payees d' = payees d @ [(option_seq d, vid, rid, po_payTo p)]"
    and q: "resource_seq d' = resource_seq d" "version_seq d' = version_seq d" "option_seq d' = option_seq d + 1"
    by (simp_all add: owners_def placed_def payees_def d' new_option_def)
  have ok: "keys_ok d" "refs_ok d" using s by (simp_all add: sound_def rows_ok_def)
  have "keys_ok d'" using ok(1) unfolding keys_ok_def by (auto simp: o p q less_le)
  moreover have at: "version_at w x d' = version_at w x d" "owned_by x pay d' = owned_by x pay d" for w x pay
    by (simp_all add: version_at_def owned_by_def o)
  have "refs_ok d'" using ok(2) r v unfolding refs_ok_def o p by (auto simp: at)
  moreover have "later d d'" by (simp add: later_def o q)
  ultimately show ?thesis using s later_trans [of d0 d d'] by (auto simp: sound_def rows_ok_def)
qed

section \<open>Triples of the statements\<close>

text \<open>\<open>keeps d0 P\<close>: the rows are sound, later than \<open>d0\<close>, and satisfy \<open>P\<close>.\<close>

lemma triple_same_columns:
  assumes "\<And>d. same_columns d (f d)"
  shows "triple (\<lambda>d. sound d0 d \<and> owned_by rid p d \<and> version_at vid rid d) (io_modify f)
     (\<lambda>_ d. sound d0 d \<and> owned_by rid p d \<and> version_at vid rid d) (seqs_later d0)"
  by (rule triple_modify) (auto simp: same_columns_at [OF assms] intro: same_columns_sound [OF assms])

lemma triple_insertVersion:
  "triple (\<lambda>d. sound d0 d \<and> owned_by rid p d) (insertVersion E now rid number c version st reason)
     (\<lambda>vid d. sound d0 d \<and> owned_by rid p d \<and> version_at vid rid d) (seqs_later d0)"
  unfolding insertVersion_def
proof (rule triple_seq [where R = "\<lambda>d. sound d0 d \<and> owned_by rid p d", OF triple_guard])
  show "triple (\<lambda>d. sound d0 d \<and> owned_by rid p d) (\<lambda>d. let vid = version_seq d; d1 = d\<lparr>version_seq := vid + 1\<rparr> in
     if list_ex (\<lambda>v. cv_number v = number \<or> cv_hash v = ca_declarationHash c) (versions_of rid d) then (Inl duplicate_key, d1)
     else (Inr vid, d1\<lparr>versions := versions d @ [new_version now vid rid number c st reason version]\<rparr>))
     (\<lambda>vid d. sound d0 d \<and> owned_by rid p d \<and> version_at vid rid d) (seqs_later d0)"
  proof (rule tripleI, goal_cases)
    case (1 w e w')
    then show ?case using sound_seqs [of d0 w] by (auto simp: Let_def seqs_later_def split: if_splits)
  next
    case (2 w x w')
    then show ?case using insert_version_sound [of d0 w rid p number c w' now st reason version]
      by (auto simp: Let_def split: if_splits)
  qed
qed (auto intro: sound_seqs)

lemma triple_insert_option:
  "triple (\<lambda>d. sound d0 d \<and> owned_by rid (po_payTo p) d \<and> version_at vid rid d) (insert_option now rid vid p cents version)
     (\<lambda>_ d. sound d0 d \<and> owned_by rid (po_payTo p) d \<and> version_at vid rid d) (seqs_later d0)"
proof (rule tripleI, goal_cases)
  case (1 w e w')
  then show ?case by (auto simp: insert_option_def Let_def split: option.splits)
next
  case (2 w x w')
  show ?case
  proof (cases "find (\<lambda>row. co_version row = vid \<and> co_hash row = po_optionHash p) (options w)")
    case None
    then have w': "w' = w\<lparr>option_seq := option_seq w + 1, options := options w @ [new_option now (option_seq w) rid vid p cents version]\<rparr>"
      using 2 by (auto simp: insert_option_def Let_def)
    have "owned_by a b w' = owned_by a b w" "version_at a' b' w' = version_at a' b' w" for a b a' b'
      by (simp_all add: owned_by_def version_at_def owners_def placed_def w')
    then show ?thesis using 2 insert_option_sound [OF _ _ _ w'] by auto
  next
    case (Some row)
    then have w': "w' = w\<lparr>option_seq := option_seq w + 1, options := update_where (\<lambda>x. co_id x = co_id row)
          (\<lambda>x. x\<lparr>co_retired := None, co_retiredAt := None, co_lastSeen := now\<rparr>) (options w)\<rparr>"
      using 2 by (auto simp: insert_option_def Let_def)
    have c: "owners w' = owners w" "placed w' = placed w" "payees w' = payees w" "resource_seq w' = resource_seq w"
      "version_seq w' = version_seq w" "option_seq w' = option_seq w + 1"
      by (simp_all add: w' owners_def placed_def payees_def map_update_where)
    have "rows_ok w'" using 2 by (auto simp: sound_def rows_ok_def keys_ok_def refs_ok_def owned_by_def version_at_def c less_le)
    then show ?thesis using 2 by (auto simp: sound_def later_def owned_by_def version_at_def c)
  qed
qed

lemma triple_upsertOption:
  "triple (\<lambda>d. sound d0 d \<and> owned_by rid (po_payTo p) d \<and> version_at vid rid d) (upsertOption E now rid vid p version)
     (\<lambda>_ d. sound d0 d \<and> owned_by rid (po_payTo p) d \<and> version_at vid rid d) (seqs_later d0)"
  (is "triple ?P _ ?Q _")
proof -
  let ?m = "io_seq (io_modify (retire_options now vid p version))
         (io_seq (io_guard (ce_option_refused E p))
           (io_bind (lift_sum (ce_numeric E (po_amount p))) (\<lambda>cents. insert_option now rid vid p cents version)))"
  have m: "triple ?P ?m ?Q (seqs_later d0)"
    by (intro triple_seq [OF triple_same_columns] triple_seq [where R = ?P, OF triple_guard]
       triple_bind [where R = "\<lambda>_. ?P", OF triple_lift] triple_insert_option columns_of_updates) (auto intro: sound_seqs)
  have s: "same_columns d (d\<lparr>options := update_where (\<lambda>x. co_id x = i) (\<lambda>x. x\<lparr>co_lastSeen := now\<rparr>) (options d)\<rparr>)" for d i
    by (simp add: same_columns_def owners_def placed_def payees_def map_update_where)
  show ?thesis
  proof (rule tripleI, goal_cases)
    case (1 w e w')
    then show ?case using triple_Inl [OF m, of w e w'] by (auto simp: upsertOption_def split: option.splits)
  next
    case (2 w x w')
    then show ?case using triple_Inr [OF m, of w x w'] same_columns_sound [OF s] same_columns_at [OF s]
      by (auto simp: upsertOption_def split: option.splits)
  qed
qed

lemma triple_indexVersion:
  "triple (\<lambda>d. sound d0 d \<and> owned_by rid p d \<and> version_at vid rid d) (indexVersion E now rid vid c version)
     (\<lambda>_ d. sound d0 d \<and> owned_by rid p d \<and> version_at vid rid d) (seqs_later d0)" (is "triple ?P _ ?Q _")
proof -
  have m: "triple ?P (io_seq (io_guard (ce_document_refused E k)) (io_seq (io_modify (upsert_document row)) (io_modify (enqueue_job now rid vid h)))) ?Q (seqs_later d0)"
    for k row h
    by (intro triple_seq [where R = ?P, OF triple_guard] triple_seq [OF triple_same_columns] triple_same_columns columns_of_updates)
      (auto intro: sound_seqs)
  show ?thesis
    unfolding indexVersion_def Let_def by (rule triple_local) (rule m)
qed

lemma triple_activate:
  "triple (\<lambda>d. sound d0 d \<and> owned_by rid p d \<and> version_at vid rid d) (activate E now rid vid c version)
     (\<lambda>_ d. sound d0 d \<and> owned_by rid p d \<and> version_at vid rid d) (seqs_later d0)"
  unfolding activate_def by (intro triple_seq [OF triple_same_columns] triple_indexVersion columns_of_updates)

lemma triple_nothing:
  "triple (\<lambda>d. sound d0 d \<and> owned_by rid p d \<and> version_at vid rid d) (io_return x)
     (\<lambda>_ d. sound d0 d \<and> owned_by rid p d \<and> version_at vid rid d) (seqs_later d0)"
  by (rule triple_return) simp

lemma triple_ends: "triple (\<lambda>d. sound d0 d \<and> owned_by rid p d \<and> version_at vid rid d) (io_return x) (\<lambda>_ d. sound d0 d) (seqs_later d0)"
  by (rule triple_return) simp

lemma triple_index_if:
  "triple (\<lambda>d. sound d0 d \<and> owned_by rid p d \<and> version_at vid rid d) (if b then indexVersion E now rid vid c version else io_return ())
     (\<lambda>_ d. sound d0 d \<and> owned_by rid p d \<and> version_at vid rid d) (seqs_later d0)"
  by (intro triple_if triple_indexVersion triple_nothing)

lemma triple_create_active:
  "triple (\<lambda>d. sound d0 d \<and> owned_by rid p d \<and> version_at vid rid d)
     (if b then io_seq (io_modify (set_active rid vid version)) (indexVersion E now rid vid c version) else io_return ())
     (\<lambda>_ d. sound d0 d \<and> owned_by rid p d \<and> version_at vid rid d) (seqs_later d0)"
  by (intro triple_if triple_seq [OF triple_same_columns] triple_indexVersion triple_nothing columns_of_updates)

lemma triple_createResource:
  "triple (\<lambda>d. sound d0 d \<and> find (\<lambda>r. rr_key r = ca_resourceKey c) (resources d) = None) (createResource E now c x version)
     (\<lambda>_ d. sound d0 d) (seqs_later d0)"
proof -
  let ?p = "po_payTo (ca_paymentOption c)"
  have r: "triple (\<lambda>d. sound d0 d \<and> find (\<lambda>r. rr_key r = ca_resourceKey c) (resources d) = None) (insert_resource E now c (oc_stage x) version)
     (\<lambda>rid d. sound d0 d \<and> owned_by rid ?p d) (seqs_later d0)"
    unfolding insert_resource_def
    by (rule triple_seq [where R = "\<lambda>d. sound d0 d \<and> find (\<lambda>r. rr_key r = ca_resourceKey c) (resources d) = None", OF triple_guard])
      (auto simp: triple_def Let_def insert_resource_sound [OF _ _ refl] dest: sound_seqs)
  show ?thesis unfolding createResource_def
    by (intro triple_bind [OF r] triple_bind [OF triple_insertVersion] triple_bind [OF triple_upsertOption]
       triple_seq [OF triple_create_active] triple_ends)
qed

lemma triple_observe_same:
  "triple (\<lambda>d. sound d0 d \<and> owned_by rid (po_payTo (ca_paymentOption c)) d \<and> version_at (cv_id row) rid d) (observe_same E now rid row c x version)
     (\<lambda>_ d. sound d0 d) (seqs_later d0)"
  unfolding observe_same_def Let_def
  by (intro triple_bind [OF triple_upsertOption] triple_if triple_seq [OF triple_index_if] triple_seq [OF triple_activate]
     triple_ends)

lemma triple_observe_changed:
  "triple (\<lambda>d. sound d0 d \<and> owned_by rid (po_payTo (ca_paymentOption c)) d) (observe_changed E now rid c x version)
     (\<lambda>_ d. sound d0 d) (seqs_later d0)"
  unfolding observe_changed_def
  by (intro triple_if triple_read triple_bind [OF triple_insertVersion] triple_bind [OF triple_upsertOption]
     triple_seq [OF triple_activate] triple_ends triple_return) simp_all

lemma triple_quarantine:
  "triple (\<lambda>d. sound d0 d \<and> owned_by rid p d) (quarantine E now rid c version) (\<lambda>_ d. sound d0 d) (seqs_later d0)"
  unfolding quarantine_def
  by (intro triple_read triple_bind [OF triple_insertVersion] triple_ends)

lemma version_at_versions_of: "find P (versions_of rid d) = Some v \<Longrightarrow> version_at (cv_id v) rid d"
  by (force simp: version_at_def placed_def versions_of_def dest: find_SomeD)

lemma triple_updateResource:
  "triple (\<lambda>d. sound d0 d \<and> row \<in> set (resources d)) (updateResource E now row c x version) (\<lambda>_ d. sound d0 d) (seqs_later d0)"
proof -
  let ?rid = "rr_id row" and ?p = "po_payTo (ca_paymentOption c)"
  have o: "sound d0 d \<and> row \<in> set (resources d) \<Longrightarrow> sound d0 d \<and> owned_by ?rid (rr_owner row) d" for d
    by (auto simp: owned_by_def owners_def)
  have q: "triple (\<lambda>d. sound d0 d \<and> row \<in> set (resources d)) (quarantine E now ?rid c version) (\<lambda>_ d. sound d0 d) (seqs_later d0)"
    by (rule triple_weaken [OF triple_quarantine o])
  have s: "triple (\<lambda>d. (sound d0 d \<and> owned_by ?rid ?p d) \<and> d = d1) (case find (\<lambda>v. cv_hash v = ca_declarationHash c) (versions_of ?rid d1) of
          Some v \<Rightarrow> observe_same E now ?rid v c x version | None \<Rightarrow> observe_changed E now ?rid c x version) (\<lambda>_ d. sound d0 d) (seqs_later d0)" for d1
  proof (cases "find (\<lambda>v. cv_hash v = ca_declarationHash c) (versions_of ?rid d1)")
    case None
    then show ?thesis by (auto intro: triple_weaken [OF triple_observe_changed])
  next
    case (Some v)
    then have "version_at (cv_id v) ?rid d1" by (rule version_at_versions_of)
    then show ?thesis using Some by (auto intro: triple_weaken [OF triple_observe_same])
  qed
  have u: "triple (\<lambda>d. sound d0 d \<and> owned_by ?rid ?p d) (io_bind io_get (\<lambda>d. case find (\<lambda>v. cv_hash v = ca_declarationHash c) (versions_of ?rid d) of
          Some v \<Rightarrow> observe_same E now ?rid v c x version | None \<Rightarrow> observe_changed E now ?rid c x version)) (\<lambda>_ d. sound d0 d) (seqs_later d0)"
    by (rule triple_bind [OF triple_get s]) simp
  have m: "triple (\<lambda>d. sound d0 d \<and> owned_by ?rid ?p d) (io_modify (touch_resource now ?rid b version)) (\<lambda>_ d. sound d0 d \<and> owned_by ?rid ?p d) X" for b X
    by (rule triple_modify) (auto simp: same_columns_at [OF columns_of_updates(7)] intro: same_columns_sound [OF columns_of_updates(7)])
  show ?thesis
  proof (cases "rr_owner row = ?p")
    case True
    then show ?thesis using o unfolding updateResource_def Let_def
      by (auto intro: triple_weaken [OF triple_seq [OF m u]])
  next
    case False
    then show ?thesis using q by (simp add: updateResource_def)
  qed
qed

lemma triple_transaction:
  "triple (\<lambda>d. d = d0 \<and> rows_ok d) (transaction_body E now c x) (\<lambda>_ d. sound d0 d) (seqs_later d0)"
proof -
  have n: "triple (\<lambda>d. d = d0 \<and> rows_ok d) nextVersion (\<lambda>_ d. sound d0 d) X" for X
    using same_columns_sound [OF columns_of_updates(8), of d0 d0] by (auto simp: triple_def nextVersion_def sound_def)
  have u: "triple (\<lambda>d. sound d0 d \<and> d = d1) (case find (\<lambda>r. rr_key r = ca_resourceKey c) (resources d1) of
       Some row \<Rightarrow> updateResource E now row c x version | None \<Rightarrow> createResource E now c x version) (\<lambda>_ d. sound d0 d) (seqs_later d0)" for d1 version
    by (auto split: option.split dest!: find_SomeD intro: triple_weaken [OF triple_createResource] triple_weaken [OF triple_updateResource])
  show ?thesis unfolding transaction_body_def
    by (rule triple_bind [OF n triple_bind [OF triple_get u]]) simp
qed

lemma rollback_sound: "rows_ok d \<Longrightarrow> seqs_later d d' \<Longrightarrow> sound d (rollback d d')"
  by (fastforce simp: sound_def rows_ok_def keys_ok_def refs_ok_def later_def seqs_later_def rollback_def owners_def placed_def payees_def
     owned_by_def version_at_def)

lemma observe_sound: "rows_ok d \<Longrightarrow> sound d (snd (observe E now c x d))"
  using triple_Inl [OF triple_transaction, of d d E now c x] triple_Inr [OF triple_transaction, of d d E now c x]
  by (auto simp: observe_def rollback_sound split: prod.split sum.split)

section \<open>Active versions\<close>

text \<open>An active version of \<open>x\<close> was paid for and is the one that its resource names; what a resource names is active.\<close>

definition named :: "resource_row list \<Rightarrow> (int \<times> int option) list" where
  "named rs = map (\<lambda>r. (rr_id r, rr_active r)) rs"

definition active_at :: "int \<Rightarrow> version_row list \<Rightarrow> resource_row list \<Rightarrow> bool" where
  "active_at x vs rs = ((\<forall>v \<in> set vs. cv_resource v = x \<and> cv_status v = V_active \<longrightarrow>
       cv_observed v \<and> (x, Some (cv_id v)) \<in> set (named rs))
     \<and> (\<forall>i. (x, Some i) \<in> set (named rs) \<longrightarrow> (\<exists>v \<in> set vs. cv_id v = i \<and> cv_resource v = x \<and> cv_status v = V_active)))"

lemma active_at_cong: "(\<And>v. cv_resource v = x \<Longrightarrow> v \<in> set vs \<longleftrightarrow> v \<in> set ws) \<Longrightarrow> active_at x vs rs = active_at x ws rs"
  unfolding active_at_def by (meson)

definition links_but :: "int \<Rightarrow> version_row list \<Rightarrow> resource_row list \<Rightarrow> bool" where
  "links_but rid vs rs = (\<forall>x. x \<noteq> rid \<longrightarrow> active_at x vs rs)"

definition links :: "version_row list \<Rightarrow> resource_row list \<Rightarrow> bool" where
  "links vs rs = (\<forall>x. active_at x vs rs)"

lemma triple_conj: "triple P m Q X \<Longrightarrow> triple P' m Q' X' \<Longrightarrow>
    triple (\<lambda>w. P w \<and> P' w) m (\<lambda>x w. Q x w \<and> Q' x w) (\<lambda>w. X w \<and> X' w)"
  unfolding triple_def by (fastforce split: prod.split sum.split)

text \<open>Statements on options, documents and jobs leave versions and resources alone.\<close>

lemma frame_upsertOption:
  "triple (\<lambda>d. K (versions d) (resources d)) (upsertOption E now rid vid p version) (\<lambda>_ d. K (versions d) (resources d)) (\<lambda>_. True)"
  by (auto simp: triple_def upsertOption_def retire_options_def insert_option_def io_seq_app io_bind_app io_modify_def io_guard_def Let_def
     split: option.split prod.splits sum.splits)

lemma frame_indexVersion:
  "triple (\<lambda>d. K (versions d) (resources d)) (indexVersion E now rid vid c version) (\<lambda>_ d. K (versions d) (resources d)) (\<lambda>_. True)"
  by (auto simp: triple_def indexVersion_def upsert_document_def enqueue_job_def io_seq_app io_modify_def io_guard_def Let_def
     split: option.split prod.splits sum.splits)

text \<open>The only active version of a resource is \<open>vid\<close>.\<close>

definition sole_active :: "int \<Rightarrow> int \<Rightarrow> version_row list \<Rightarrow> bool" where
  "sole_active rid vid vs = ((\<forall>v \<in> set vs. cv_resource v = rid \<and> cv_status v = V_active \<longrightarrow> cv_id v = vid \<and> cv_observed v)
     \<and> (\<exists>v \<in> set vs. cv_id v = vid \<and> cv_resource v = rid \<and> cv_status v = V_active))"

lemma named_updated: "named (update_where (\<lambda>r. rr_id r = rid) (\<lambda>r. r\<lparr>rr_active := Some vid, rr_updated := version\<rparr>) rs)
    = map (\<lambda>(i, a). (i, if i = rid then Some vid else a)) (named rs)"
  by (simp add: named_def update_where_def)

lemma named_set_active: "(i, a) \<in> set (named (resources (set_active rid vid version d))) \<longleftrightarrow>
    (if i = rid then a = Some vid \<and> (\<exists>b. (rid, b) \<in> set (named (resources d))) else (i, a) \<in> set (named (resources d)))"
  by (force simp: set_active_def named_updated)

lemma set_active_links:
  assumes "links_but rid (versions d) (resources d)" "sole_active rid vid (versions d)" "owned_by rid p d"
  shows "links (versions (set_active rid vid version d)) (resources (set_active rid vid version d))"
proof -
  have "\<exists>b. (rid, b) \<in> set (named (resources d))" using assms(3) by (auto simp: owned_by_def owners_def named_def)
  moreover have "versions (set_active rid vid version d) = versions d" by (simp add: set_active_def)
  ultimately show ?thesis
    using assms(1,2) unfolding links_def links_but_def active_at_def sole_active_def by (auto simp: named_set_active)
qed

text \<open>A version after the two updates of \<open>activate\<close>.\<close>

definition activated :: "int \<Rightarrow> int \<Rightarrow> int \<Rightarrow> int \<Rightarrow> version_row \<Rightarrow> version_row" where
  "activated now rid vid version x = (if cv_id x = vid then x\<lparr>cv_status := V_active, cv_observed := True,
        cv_activatedAt := Some (coalesce (cv_activatedAt x) now), cv_retired := None, cv_retiredAt := None\<rparr>
      else if cv_resource x = rid \<and> cv_status x = V_active then x\<lparr>cv_status := V_superseded, cv_retired := Some version, cv_retiredAt := Some now\<rparr>
      else x)"

lemma versions_activated:
  "versions (activate_version now vid (supersede_others now rid vid version d)) = map (activated now rid vid version) (versions d)"
  by (simp add: activate_version_def supersede_others_def update_where_def activated_def comp_def)

lemma activated_columns [simp]:
  "cv_id (activated now rid vid version x) = cv_id x" "cv_resource (activated now rid vid version x) = cv_resource x"
  "cv_status (activated now rid vid version x) = V_active \<longleftrightarrow> cv_id x = vid \<or> (cv_status x = V_active \<and> cv_resource x \<noteq> rid)"
  "cv_id x = vid \<Longrightarrow> cv_observed (activated now rid vid version x)"
  by (auto simp: activated_def)

lemma activated_other: "cv_id x \<noteq> vid \<Longrightarrow> cv_resource x \<noteq> rid \<Longrightarrow> activated now rid vid version x = x"
  by (simp add: activated_def)

lemma version_atE:
  assumes "rows_ok d" "version_at vid rid d"
  obtains w where "w \<in> set (versions d)" "cv_id w = vid" "cv_resource w = rid" "\<And>x. x \<in> set (versions d) \<Longrightarrow> cv_id x = vid \<Longrightarrow> x = w"
proof -
  obtain w where w: "w \<in> set (versions d)" "cv_id w = vid" "cv_resource w = rid"
    using assms(2) by (auto simp: version_at_def placed_def)
  have "x \<in> set (versions d) \<Longrightarrow> cv_id x = vid \<Longrightarrow> x = w" for x
    using assms(1) w by (auto simp: rows_ok_def keys_ok_def placed_def comp_def distinct_map inj_on_def)
  then show ?thesis using that w by blast
qed

lemma activate_sole:
  assumes "rows_ok d" "version_at vid rid d"
  shows "sole_active rid vid (versions (activate_version now vid (supersede_others now rid vid version d)))"
proof -
  obtain w where "w \<in> set (versions d)" "cv_id w = vid" "cv_resource w = rid" using version_atE [OF assms] by metis
  then show ?thesis unfolding sole_active_def versions_activated by auto
qed

lemma others_kept:
  assumes "rows_ok d" "version_at vid rid d" "links_but rid (versions d) (resources d)"
  shows "links_but rid (versions (activate_version now vid (supersede_others now rid vid version d))) (resources d)"
proof -
  obtain w where w: "w \<in> set (versions d)" "cv_id w = vid" "cv_resource w = rid" "\<And>x. x \<in> set (versions d) \<Longrightarrow> cv_id x = vid \<Longrightarrow> x = w"
    using version_atE [OF assms(1,2)] by metis
  have a: "activated now rid vid version v = v" if "v \<in> set (versions d)" "cv_resource v \<noteq> rid" for v
    using that w(3,4) by (intro activated_other) auto
  have "{v \<in> activated now rid vid version ` set (versions d). cv_resource v \<noteq> rid} = {v \<in> set (versions d). cv_resource v \<noteq> rid}"
  proof (intro equalityI subsetI)
    fix v assume "v \<in> {v \<in> activated now rid vid version ` set (versions d). cv_resource v \<noteq> rid}"
    then obtain x where "x \<in> set (versions d)" "v = activated now rid vid version x" "cv_resource x \<noteq> rid" by auto
    then show "v \<in> {v \<in> set (versions d). cv_resource v \<noteq> rid}" using a [of x] by simp
  next
    fix v assume "v \<in> {v \<in> set (versions d). cv_resource v \<noteq> rid}"
    then show "v \<in> {v \<in> activated now rid vid version ` set (versions d). cv_resource v \<noteq> rid}"
      using a [of v] imageI [of v "set (versions d)" "activated now rid vid version"] by simp
  qed
  then have "v \<in> activated now rid vid version ` set (versions d) \<longleftrightarrow> v \<in> set (versions d)" if "cv_resource v \<noteq> rid" for v
    using that by blast
  then have "active_at x (map (activated now rid vid version) (versions d)) (resources d) = active_at x (versions d) (resources d)" if "x \<noteq> rid" for x
    using that by (intro active_at_cong) simp
  then show ?thesis using assms(3) by (simp add: links_but_def versions_activated)
qed

lemma activate_links:
  assumes "rows_ok d" "version_at vid rid d" "owned_by rid p d" "links_but rid (versions d) (resources d)"
    and "d' = set_active rid vid version (activate_version now vid (supersede_others now rid vid version d))"
  shows "links (versions d') (resources d')"
proof -
  let ?e = "activate_version now vid (supersede_others now rid vid version d)"
  have "resources ?e = resources d" by (simp add: activate_version_def supersede_others_def)
  then show ?thesis unfolding assms(5)
    using set_active_links [of rid ?e vid p] activate_sole [OF assms(1,2)] others_kept [OF assms(1,2,4)] assms(3)
    by (simp add: owned_by_def owners_def)
qed

abbreviation linked :: "catalog_db \<Rightarrow> bool" where
  "linked d \<equiv> links (versions d) (resources d)"

abbreviation linked_but :: "int \<Rightarrow> catalog_db \<Rightarrow> bool" where
  "linked_but rid d \<equiv> links_but rid (versions d) (resources d)"

text \<open>\<open>ready d0 rid p vid\<close>: the version stands at the resource of the payee.\<close>

abbreviation ready :: "catalog_db \<Rightarrow> int \<Rightarrow> string \<Rightarrow> int \<Rightarrow> catalog_db \<Rightarrow> bool" where
  "ready d0 rid p vid d \<equiv> sound d0 d \<and> owned_by rid p d \<and> version_at vid rid d"

lemma links_but_all: "links vs rs \<Longrightarrow> links_but rid vs rs"
  by (simp add: links_def links_but_def)

lemma linked_upsertOption:
  "triple (\<lambda>d. ready d0 rid (po_payTo p) vid d \<and> K (versions d) (resources d)) (upsertOption E now rid vid p version)
     (\<lambda>_ d. ready d0 rid (po_payTo p) vid d \<and> K (versions d) (resources d)) (\<lambda>_. True)"
  by (rule triple_weaken_any [OF triple_conj [OF triple_upsertOption frame_upsertOption]]) auto

lemma linked_activate:
  "triple (\<lambda>d. ready d0 rid p vid d \<and> linked_but rid d) (activate E now rid vid c version) (\<lambda>_ d. linked d) (\<lambda>_. True)"
proof -
  let ?f = "\<lambda>d. set_active rid vid version (activate_version now vid (supersede_others now rid vid version d))"
  have "triple (\<lambda>d. ready d0 rid p vid d \<and> linked_but rid d) (io_modify ?f) (\<lambda>_ d. linked d) (\<lambda>_. True)"
    by (rule triple_modify) (auto simp: sound_def intro: activate_links)
  then have "triple (\<lambda>d. ready d0 rid p vid d \<and> linked_but rid d) (io_seq (io_modify ?f) (indexVersion E now rid vid c version)) (\<lambda>_ d. linked d) (\<lambda>_. True)"
    by (rule triple_seq) (rule frame_indexVersion)
  then show ?thesis by (simp add: activate_def triple_def io_seq_app io_modify_def)
qed

lemma linked_insertVersion:
  "triple (\<lambda>d. sound d0 d \<and> owned_by rid p d \<and> linked d) (insertVersion E now rid number c version st reason)
     (\<lambda>vid d. ready d0 rid p vid d \<and> linked_but rid d \<and> (st \<noteq> V_active \<longrightarrow> linked d)) (\<lambda>_. True)"
proof -
  have "active_at x (vs @ [new_version now vid rid number c st reason version]) rs"
    if "active_at x vs rs" "x \<noteq> rid \<or> st \<noteq> V_active" for x vs rs vid
    using that unfolding active_at_def by (auto simp: new_version_def)
  then have "triple (\<lambda>d. linked d) (insertVersion E now rid number c version st reason)
     (\<lambda>vid d. linked_but rid d \<and> (st \<noteq> V_active \<longrightarrow> linked d)) (\<lambda>_. True)"
    by (auto simp: triple_def insertVersion_def io_seq_app io_guard_def Let_def links_def links_but_def split: option.split)
  then show ?thesis by (rule triple_weaken_any [OF triple_conj [OF triple_insertVersion]]) auto
qed

lemma linked_observe_same:
  assumes "\<And>d. P d \<Longrightarrow> ready d0 rid (po_payTo (ca_paymentOption c)) (cv_id row) d \<and> linked d"
  shows "triple P (observe_same E now rid row c x version) (\<lambda>_ d. linked d) (\<lambda>_. True)"
proof -
  let ?R = "\<lambda>d. ready d0 rid (po_payTo (ca_paymentOption c)) (cv_id row) d \<and> linked d"
  have a: "triple ?R (activate E now rid (cv_id row) c version) (\<lambda>_ d. linked d) (\<lambda>_. True)"
    by (rule triple_weaken [OF linked_activate]) (auto intro: links_but_all)
  have i: "triple ?R (if b then indexVersion E now rid (cv_id row) c version else io_return ()) (\<lambda>_ d. linked d) (\<lambda>_. True)" for b
    by (intro triple_if triple_weaken [OF frame_indexVersion [where K = links]] triple_return) auto
  have "triple ?R (observe_same E now rid row c x version) (\<lambda>_ d. linked d) (\<lambda>_. True)"
    unfolding observe_same_def Let_def
    by (intro triple_bind [OF linked_upsertOption [where K = links]] triple_if triple_seq [OF a] triple_seq [OF i] triple_return) auto
  then show ?thesis by (rule triple_weaken) (auto dest: assms)
qed

lemma linked_observe_changed:
  "triple (\<lambda>d. sound d0 d \<and> owned_by rid (po_payTo (ca_paymentOption c)) d \<and> linked d) (observe_changed E now rid c x version)
     (\<lambda>_ d. linked d) (\<lambda>_. True)"
proof (cases "oc_activate x")
  case True
  then show ?thesis unfolding observe_changed_def
    by (intro triple_if triple_return triple_read
       triple_bind [OF triple_weaken [OF linked_insertVersion, where Q' = "\<lambda>vid d. ready d0 rid (po_payTo (ca_paymentOption c)) vid d \<and> linked_but rid d"]]
       triple_bind [OF linked_upsertOption [where K = "links_but rid"]] triple_seq [OF linked_activate]) auto
next
  case False
  then show ?thesis unfolding observe_changed_def
    by (intro triple_if triple_return triple_read
       triple_bind [OF triple_weaken [OF linked_insertVersion, where Q' = "\<lambda>vid d. ready d0 rid (po_payTo (ca_paymentOption c)) vid d \<and> linked d"]]
       triple_bind [OF linked_upsertOption [where K = links]]) (auto simp: initial_status_def)
qed

lemma links_new_resource:
  "links vs rs \<Longrightarrow> (\<And>v. v \<in> set vs \<Longrightarrow> cv_resource v \<noteq> rr_id r) \<Longrightarrow> rr_active r = None \<Longrightarrow> links vs (rs @ [r])"
  unfolding links_def active_at_def by (auto simp: named_def)

lemma linked_createResource:
  "triple (\<lambda>d. sound d0 d \<and> find (\<lambda>r. rr_key r = ca_resourceKey c) (resources d) = None \<and> linked d) (createResource E now c x version)
     (\<lambda>_ d. linked d) (\<lambda>_. True)"
proof -
  let ?p = "po_payTo (ca_paymentOption c)" and ?st = "initial_status x"
  have r: "triple (\<lambda>d. sound d0 d \<and> find (\<lambda>r. rr_key r = ca_resourceKey c) (resources d) = None \<and> linked d)
     (insert_resource E now c (oc_stage x) version)
     (\<lambda>rid d. (sound d0 d \<and> owned_by rid ?p d \<and> linked d) \<and> (\<forall>v \<in> set (versions d). cv_resource v \<noteq> rid)) (\<lambda>_. True)"
  proof (rule tripleI, goal_cases)
    case (2 w rid w')
    then have rid: "rid = resource_seq w" and w': "w' = w\<lparr>resource_seq := resource_seq w + 1,
        resources := resources w @ [new_resource now (resource_seq w) c (oc_stage x) version]\<rparr>"
      by (auto simp: insert_resource_def io_seq_app io_guard_def Let_def split: option.splits)
    note s = insert_resource_sound [OF _ _ w', of d0]
    have n: "cv_resource v \<noteq> rid" if "v \<in> set (versions w)" for v
      using s 2 that rid by (force simp: version_at_def placed_def w')
    moreover have "linked w'" using 2 n rid by (auto simp: w' new_resource_def intro!: links_new_resource)
    ultimately show ?case using s 2 rid by (auto simp: w')
  qed simp
  have v: "triple (\<lambda>d. (sound d0 d \<and> owned_by rid ?p d \<and> linked d) \<and> (\<forall>v \<in> set (versions d). cv_resource v \<noteq> rid))
     (insertVersion E now rid 1 c version ?st None)
     (\<lambda>vid d. ready d0 rid ?p vid d \<and> links_but rid (versions d) (resources d)
        \<and> (if ?st = V_active then sole_active rid vid (versions d) else linked d)) (\<lambda>_. True)" for rid
  proof -
    have "triple (\<lambda>d. \<forall>v \<in> set (versions d). cv_resource v \<noteq> rid) (insertVersion E now rid 1 c version ?st None)
       (\<lambda>vid d. ?st = V_active \<longrightarrow> sole_active rid vid (versions d)) (\<lambda>_. True)"
      by (auto simp: triple_def insertVersion_def io_seq_app io_guard_def Let_def sole_active_def new_version_def split: option.split)
    then show ?thesis by (rule triple_weaken_any [OF triple_conj [OF linked_insertVersion]]) auto
  qed
  have a: "triple (\<lambda>d. ready d0 rid ?p vid d \<and> (links_but rid (versions d) (resources d)
        \<and> (if ?st = V_active then sole_active rid vid (versions d) else linked d)))
     (if oc_activate x then io_seq (io_modify (set_active rid vid version)) (indexVersion E now rid vid c version) else io_return ())
     (\<lambda>_ d. linked d) (\<lambda>_. True)" for rid vid
  proof (rule triple_if)
    assume "oc_activate x"
    then have "?st = V_active" by (simp add: initial_status_def)
    then show "triple (\<lambda>d. ready d0 rid ?p vid d \<and> (links_but rid (versions d) (resources d)
        \<and> (if ?st = V_active then sole_active rid vid (versions d) else linked d)))
      (io_seq (io_modify (set_active rid vid version)) (indexVersion E now rid vid c version)) (\<lambda>_ d. linked d) (\<lambda>_. True)"
      by (intro triple_seq [OF triple_modify frame_indexVersion]) (auto intro: set_active_links)
  next
    assume "\<not> oc_activate x"
    then have "?st \<noteq> V_active" by (simp add: initial_status_def)
    then show "triple (\<lambda>d. ready d0 rid ?p vid d \<and> (links_but rid (versions d) (resources d)
        \<and> (if ?st = V_active then sole_active rid vid (versions d) else linked d))) (io_return ()) (\<lambda>_ d. linked d) (\<lambda>_. True)"
      by (intro triple_return) simp
  qed
  show ?thesis unfolding createResource_def
    by (intro triple_bind [OF r] triple_bind [OF v] triple_seq [OF a] triple_return
       triple_bind [OF linked_upsertOption [where K = "\<lambda>vs rs. links_but rid vs rs \<and> (if ?st = V_active then sole_active rid vid vs else links vs rs)" for rid vid]])
      auto
qed

lemma linked_updateResource:
  "triple (\<lambda>d. sound d0 d \<and> row \<in> set (resources d) \<and> linked d) (updateResource E now row c x version) (\<lambda>_ d. linked d) (\<lambda>_. True)"
proof -
  let ?rid = "rr_id row" and ?p = "po_payTo (ca_paymentOption c)"
  have o: "sound d0 d \<and> row \<in> set (resources d) \<and> linked d \<Longrightarrow> sound d0 d \<and> owned_by ?rid (rr_owner row) d \<and> linked d" for d
    by (auto simp: owned_by_def owners_def)
  have q: "triple (\<lambda>d. sound d0 d \<and> owned_by ?rid (rr_owner row) d \<and> linked d) (quarantine E now ?rid c version) (\<lambda>_ d. linked d) (\<lambda>_. True)"
    unfolding quarantine_def
    by (intro triple_read triple_bind [OF triple_weaken [OF linked_insertVersion, where Q' = "\<lambda>_. linked"]] triple_return) auto
  have s: "triple (\<lambda>d. (sound d0 d \<and> owned_by ?rid ?p d \<and> linked d) \<and> d = d1) (case find (\<lambda>v. cv_hash v = ca_declarationHash c) (versions_of ?rid d1) of
          Some v \<Rightarrow> observe_same E now ?rid v c x version | None \<Rightarrow> observe_changed E now ?rid c x version) (\<lambda>_ d. linked d) (\<lambda>_. True)" for d1
    by (auto split: option.split intro!: linked_observe_same triple_weaken [OF linked_observe_changed] simp: version_at_versions_of)
  have u: "triple (\<lambda>d. sound d0 d \<and> owned_by ?rid ?p d \<and> linked d) (io_bind io_get (\<lambda>d. case find (\<lambda>v. cv_hash v = ca_declarationHash c) (versions_of ?rid d) of
          Some v \<Rightarrow> observe_same E now ?rid v c x version | None \<Rightarrow> observe_changed E now ?rid c x version)) (\<lambda>_ d. linked d) (\<lambda>_. True)"
    by (rule triple_bind [OF triple_get s]) simp
  have t: "linked (touch_resource now ?rid b version d) = linked d" for b d
    by (simp add: links_def active_at_def named_def touch_resource_def map_update_where)
  have m: "triple (\<lambda>d. sound d0 d \<and> owned_by ?rid ?p d \<and> linked d) (io_modify (touch_resource now ?rid b version))
     (\<lambda>_ d. sound d0 d \<and> owned_by ?rid ?p d \<and> linked d) X" for b X
    by (rule triple_modify) (auto simp: t same_columns_at [OF columns_of_updates(7)] intro: same_columns_sound [OF columns_of_updates(7)])
  show ?thesis
  proof (cases "rr_owner row = ?p")
    case True
    then show ?thesis using o unfolding updateResource_def Let_def
      by (auto intro: triple_weaken [OF triple_seq [OF m u]])
  next
    case False
    then show ?thesis using triple_weaken [OF q o] by (simp add: updateResource_def)
  qed
qed

lemma linked_transaction:
  "triple (\<lambda>d. d = d0 \<and> rows_ok d \<and> linked d) (transaction_body E now c x) (\<lambda>_ d. linked d) (\<lambda>_. True)"
proof -
  have n: "triple (\<lambda>d. d = d0 \<and> rows_ok d \<and> linked d) nextVersion (\<lambda>_ d. sound d0 d \<and> linked d) X" for X
    using same_columns_sound [OF columns_of_updates(8), of d0 d0] by (auto simp: triple_def nextVersion_def sound_def)
  have u: "triple (\<lambda>d. (sound d0 d \<and> linked d) \<and> d = d1) (case find (\<lambda>r. rr_key r = ca_resourceKey c) (resources d1) of
       Some row \<Rightarrow> updateResource E now row c x version | None \<Rightarrow> createResource E now c x version) (\<lambda>_ d. linked d) (\<lambda>_. True)" for d1 version
    by (auto split: option.split dest!: find_SomeD intro: triple_weaken [OF linked_createResource] triple_weaken [OF linked_updateResource])
  show ?thesis unfolding transaction_body_def
    by (rule triple_bind [OF n triple_bind [OF triple_get u]]) simp
qed

lemma observe_linked: "rows_ok d \<Longrightarrow> linked d \<Longrightarrow> linked (snd (observe E now c x d))"
  using triple_Inr [OF linked_transaction, of d d E now c x]
  by (auto simp: observe_def rollback_def split: prod.split sum.split)

end
