(* ===== verification/Catalog_Runs.thy ===== *)
theory Catalog_Runs
  imports Catalog_Laws
begin

text \<open>
  Runs of the catalog: any sequence of observations, sweeps, operator decisions, recorded observations and
  changes that the indexing worker makes to jobs and generations, from the empty catalog.  The lemmas give
  the integrity of every reachable catalog, that owners never change and that an operator's decision stays,
  and what a row of a listing shows.
\<close>

datatype catalog_event = Observe_event int catalog_candidate observation_context | Record_event observation_row
  | Sweep_event int int | Status_event string resource_status "string option" | Index_event index_tables

definition catalog_step :: "catalog_env \<Rightarrow> catalog_event \<Rightarrow> catalog_db \<Rightarrow> catalog_db" where
  "catalog_step E e d = (case e of
     Observe_event now c x \<Rightarrow> snd (observe E now c x d)
   | Record_event row \<Rightarrow> recordObservation row d
   | Sweep_event now staleAfterHours \<Rightarrow> snd (sweepStale now staleAfterHours d)
   | Status_event key st reason \<Rightarrow> snd (setResourceStatus key st reason d)
   | Index_event ts \<Rightarrow> d\<lparr>index := ts\<rparr>)"

definition catalog_run :: "catalog_env \<Rightarrow> catalog_event list \<Rightarrow> catalog_db \<Rightarrow> catalog_db" where
  "catalog_run E evs d = fold (catalog_step E) evs d"

definition empty_catalog :: catalog_db where
  "empty_catalog = \<lparr> last_version = 0, resources = [], versions = [], options = [], documents = [],
     index = \<lparr> jobs = [], generations = [], storages = [], job_seq = 1, generation_seq = 1 \<rparr>,
     observations = [], resource_seq = 1, version_seq = 1, option_seq = 1 \<rparr>"

lemma catalog_run_simps [simp]:
  "catalog_run E [] d = d" "catalog_run E (e # evs) d = catalog_run E evs (catalog_step E e d)"
  "catalog_run E (evs @ fvs) d = catalog_run E fvs (catalog_run E evs d)"
  by (simp_all add: catalog_run_def)

section \<open>Integrity\<close>

lemma update_versioned_rows [simp]:
  "snd (update_versioned p f n (r # rs)) = (if p r then f (n + 1) r # snd (update_versioned p f (n + 1) rs)
     else r # snd (update_versioned p f n rs))"
  by (simp split: prod.split)

lemma update_versioned_keeps:
  "(\<And>m r. key (f m r) = key r) \<Longrightarrow> map key (snd (update_versioned p f n rs)) = map key rs"
  by (induction rs arbitrary: n) (auto simp del: update_versioned.simps(2))

lemma update_versioned_member: "x \<in> set (snd (update_versioned p f n rs)) \<Longrightarrow> \<exists>r \<in> set rs. x = r \<or> (p r \<and> (\<exists>m. x = f m r))"
  by (induction rs arbitrary: n) (auto simp del: update_versioned.simps(2) split: if_splits)

lemma apply_versioned_db: "apply_versioned p f d = d\<lparr>last_version := fst (update_versioned p f (last_version d) (resources d)),
    resources := snd (update_versioned p f (last_version d) (resources d))\<rparr>"
  by (simp add: apply_versioned_def split: prod.split)

lemma apply_versioned_columns:
  assumes "\<And>m r. (rr_id (f m r), rr_key (f m r), rr_owner (f m r), rr_active (f m r)) = (rr_id r, rr_key r, rr_owner r, rr_active r)"
  shows "same_columns d (apply_versioned p f d)" "linked (apply_versioned p f d) = linked d"
  using assms by (simp_all add: same_columns_def owners_def placed_def payees_def apply_versioned_db update_versioned_keeps
    links_def active_at_def named_def)

definition catalog_ok :: "catalog_db \<Rightarrow> bool" where
  "catalog_ok d = (rows_ok d \<and> linked d)"

lemma step_ok: "catalog_ok d \<Longrightarrow> catalog_ok (catalog_step E e d) \<and> later d (catalog_step E e d)"
proof (cases e)
  case (Observe_event now c x)
  then show "catalog_ok d \<Longrightarrow> ?thesis" using observe_sound [of d E now c x] observe_linked [of d E now c x]
    by (simp add: catalog_ok_def catalog_step_def sound_def)
next
  case (Sweep_event now h)
  let ?p = "\<lambda>r. rr_status r = R_active \<and> rr_lastSeen r < now - hours h" and ?f = "\<lambda>n r. r\<lparr>rr_status := R_stale, rr_updated := n\<rparr>"
  show "catalog_ok d \<Longrightarrow> ?thesis" using Sweep_event same_columns_sound [OF apply_versioned_columns(1), of ?f d d ?p]
      apply_versioned_columns(2) [of ?f ?p d]
    by (simp add: catalog_ok_def catalog_step_def sweepStale_def Let_def sound_def)
next
  case (Status_event key st reason)
  let ?p = "\<lambda>r. rr_key r = key" and ?f = "\<lambda>n r. r\<lparr>rr_status := st, rr_reason := reason, rr_updated := n\<rparr>"
  show "catalog_ok d \<Longrightarrow> ?thesis" using Status_event same_columns_sound [OF apply_versioned_columns(1), of ?f d d ?p]
      apply_versioned_columns(2) [of ?f ?p d]
    by (simp add: catalog_ok_def catalog_step_def setResourceStatus_def sound_def)
next
  case (Record_event row)
  then show "catalog_ok d \<Longrightarrow> ?thesis" using same_columns_sound [OF columns_of_updates(9), of d d row]
    by (simp add: catalog_ok_def catalog_step_def sound_def recordObservation_def)
next
  case (Index_event ts)
  then show "catalog_ok d \<Longrightarrow> ?thesis" using same_columns_sound [of d "d\<lparr>index := ts\<rparr>" d]
    by (simp add: catalog_ok_def catalog_step_def sound_def same_columns_def owners_def placed_def payees_def)
qed

lemma run_ok: "catalog_ok d \<Longrightarrow> catalog_ok (catalog_run E evs d) \<and> later d (catalog_run E evs d)"
proof (induction evs arbitrary: d)
  case (Cons e evs)
  then show ?case using step_ok [of d E e] later_trans by fastforce
qed simp

lemma empty_ok: "catalog_ok empty_catalog"
  by (simp add: catalog_ok_def rows_ok_def keys_ok_def refs_ok_def owners_def placed_def payees_def empty_catalog_def links_def
    active_at_def named_def)

lemmas reachable_ok = run_ok [OF empty_ok, THEN conjunct1]

section \<open>Properties of versions and resources\<close>

text \<open>
  What one transaction keeps when each of its writes does: a property of the versions, the resources and
  the last version number, while the transaction runs under the version number \<open>version\<close>.
\<close>

lemma spares_bind: assumes "spares J m" "\<And>v. spares J (g v)" shows "spares J (io_bind m g)"
proof -
  have "yields J (io_bind m g) (\<lambda>_. True)" by (rule yields_bind [where Q = "\<lambda>_. True"]) (rule yields_any, rule assms)+
  then show ?thesis by (rule spares_yields)
qed

lemma spares_seq: "spares J m \<Longrightarrow> spares J g \<Longrightarrow> spares J (io_seq m g)"
  unfolding io_seq_def by (rule spares_bind)

lemma spares_state: "(\<And>d. J d \<Longrightarrow> J (snd (m d))) \<Longrightarrow> spares J m"
  unfolding spares_def by (metis snd_conv)

lemma spares_app: "spares J m \<Longrightarrow> J d \<Longrightarrow> J (snd (m d))"
  unfolding spares_def by (metis prod.collapse)

lemma spares_if: "spares J m \<Longrightarrow> spares J n \<Longrightarrow> spares J (if b then m else n)"
  by simp

lemma spares_steps: "spares J (io_return y)" "spares J io_get" "spares J (io_guard e)"
  by (auto simp: spares_def io_get_def io_guard_def split: option.splits)

lemma bind_keeps: "J (snd (m d)) \<Longrightarrow> (\<And>v. spares J (g v)) \<Longrightarrow> J (snd (io_bind m g d))"
  by (auto simp: io_bind_def spares_app split: prod.split sum.split)

definition frame_of :: "catalog_db \<Rightarrow> version_row list \<times> resource_row list \<times> int" where
  "frame_of d = (versions d, resources d, last_version d)"

lemma frame_option: "frame_of (snd (upsertOption E now rid vid p version d)) = frame_of d"
  by (auto simp: frame_of_def upsertOption_def retire_options_def insert_option_def
     io_seq_app io_bind_app io_modify_def io_guard_def Let_def split: option.split prod.split sum.split)

lemma frame_index: "frame_of (snd (indexVersion E now rid vid c version d)) = frame_of d"
  by (auto simp: frame_of_def indexVersion_def upsert_document_def enqueue_job_def
     io_seq_app io_modify_def io_guard_def Let_def split: option.split prod.split sum.split)

locale write_invariant =
  fixes J :: "catalog_db \<Rightarrow> bool" and version :: int
  assumes frame: "J d \<Longrightarrow> frame_of d' = frame_of d \<Longrightarrow> J d'"
    and kept_set_active: "J d \<Longrightarrow> J (set_active rid vid version d)"
    and kept_touch: "J d \<Longrightarrow> J (touch_resource now rid b version d)"
    and kept_supersede: "J d \<Longrightarrow> J (supersede_others now rid vid version d)"
    and kept_activate: "J d \<Longrightarrow> J (activate_version now vid d)"
    and kept_version: "J d \<Longrightarrow> st \<noteq> V_superseded \<Longrightarrow> J (d\<lparr>versions := versions d @ [new_version now vid rid number c st reason version]\<rparr>)"
    and kept_resource: "J d \<Longrightarrow> find (\<lambda>r. rr_key r = ca_resourceKey c) (resources d) = None \<Longrightarrow>
      J (d\<lparr>resources := resources d @ [new_resource now rid c st' version]\<rparr>)"
begin

lemma spares_option: "spares J (upsertOption E now rid vid p version)"
  by (rule spares_state) (erule frame, rule frame_option)

lemma spares_index: "spares J (indexVersion E now rid vid c version)"
  by (rule spares_state) (erule frame, rule frame_index)

lemma spares_version: assumes st: "st \<noteq> V_superseded" shows "spares J (insertVersion E now rid number c version st reason)"
  unfolding insertVersion_def
proof (rule spares_seq [OF spares_steps(3) spares_state])
  fix d assume J: "J d"
  let ?vs = "versions d @ [new_version now (version_seq d) rid number c st reason version]"
  have "J (d\<lparr>version_seq := version_seq d + 1, versions := ?vs\<rparr>)"
    by (rule frame [OF kept_version [OF J st, of now "version_seq d" rid number c reason]]) (simp add: frame_of_def)
  moreover have "J (d\<lparr>version_seq := version_seq d + 1\<rparr>)" by (rule frame [OF J]) (simp add: frame_of_def)
  ultimately show "J (snd (let vid = version_seq d; d1 = d\<lparr>version_seq := vid + 1\<rparr> in
     if list_ex (\<lambda>v. cv_number v = number \<or> cv_hash v = ca_declarationHash c) (versions_of rid d) then (Inl duplicate_key, d1)
     else (Inr vid, d1\<lparr>versions := versions d @ [new_version now vid rid number c st reason version]\<rparr>)))"
    unfolding Let_def by (simp only: snd_conv split: if_split) simp
qed

lemma spares_updates:
  "spares J (io_modify (set_active rid vid version))" "spares J (io_modify (touch_resource now rid b version))"
  "spares J (io_modify (supersede_others now rid vid version))" "spares J (io_modify (activate_version now vid))"
  by (rule spares_state, simp add: io_modify_def kept_set_active kept_touch kept_supersede kept_activate)+

lemma spares_activate: "spares J (activate E now rid vid c version)"
  unfolding activate_def by (intro spares_seq spares_updates spares_index)

lemma spares_update: "spares J (updateResource E now row c x version)"
  unfolding updateResource_def quarantine_def observe_same_def observe_changed_def Let_def
  by (auto intro!: spares_bind spares_seq spares_option spares_index spares_version spares_updates spares_steps spares_activate
     simp: initial_status_def split: option.split)

lemma create_keeps:
  assumes "J d" "find (\<lambda>r. rr_key r = ca_resourceKey c) (resources d) = None"
  shows "J (snd (createResource E now c x version d))"
  unfolding createResource_def
proof (rule bind_keeps)
  let ?rs = "resources d @ [new_resource now (resource_seq d) c (oc_stage x) version]"
  have "J (d\<lparr>resource_seq := resource_seq d + 1, resources := ?rs\<rparr>)"
    by (rule frame [OF kept_resource [OF assms, of now "resource_seq d" "oc_stage x"]]) (simp add: frame_of_def)
  then show "J (snd (insert_resource E now c (oc_stage x) version d))"
    using assms(1) by (simp add: insert_resource_def io_seq_app io_guard_def Let_def split: option.split)
qed (intro spares_bind spares_seq spares_if spares_option spares_index spares_version spares_updates spares_steps; simp add: initial_status_def)+

lemma body_keeps:
  assumes "J d"
  shows "J (snd ((case find (\<lambda>r. rr_key r = ca_resourceKey c) (resources d) of
       Some row \<Rightarrow> updateResource E now row c x version | None \<Rightarrow> createResource E now c x version) d))"
  using assms create_keeps [OF assms] spares_app [OF spares_update assms] by (auto split: option.split)

end

lemma transaction_keeps:
  assumes "write_invariant J (last_version d + 1)" "J (d\<lparr>last_version := last_version d + 1\<rparr>)"
  shows "J (snd (transaction_body E now c x d))"
  using write_invariant.body_keeps [OF assms, where c = c and E = E and now = now and x = x] by (simp add: transaction_body_def io_bind_def io_get_def nextVersion_def)

lemma observe_keeps:
  assumes "write_invariant J (last_version d + 1)" "J (d\<lparr>last_version := last_version d + 1\<rparr>)" "J d"
  shows "J (snd (observe E now c x d))"
proof (cases "transaction_body E now c x d")
  case (Pair r d')
  have "J d'" using transaction_keeps [OF assms(1,2), of E now c x] by (simp add: Pair)
  moreover have "J (rollback d d')" by (rule write_invariant.frame [OF assms(1,3)]) (simp add: frame_of_def rollback_def)
  ultimately show ?thesis by (simp add: observe_def Pair split: sum.split)
qed

section \<open>Stamps\<close>

text \<open>Every version was created by then, and one that is superseded was retired by then.\<close>

definition stamped_by :: "int \<Rightarrow> catalog_db \<Rightarrow> bool" where
  "stamped_by n d = (\<forall>v \<in> set (versions d). cv_created v \<le> n
     \<and> (cv_status v = V_superseded \<longrightarrow> (\<exists>m. cv_retired v = Some m \<and> m \<le> n)))"

interpretation stamping: write_invariant "\<lambda>d. last_version d = n \<and> stamped_by n d" n for n
  by unfold_locales
    (auto simp: stamped_by_def frame_of_def set_active_def touch_resource_def supersede_others_def activate_version_def
       new_version_def in_update_where)

abbreviation stamped :: "catalog_db \<Rightarrow> bool" where
  "stamped d \<equiv> stamped_by (last_version d) d"

lemma stamped_later: "stamped_by n d \<Longrightarrow> n \<le> m \<Longrightarrow> stamped_by m d"
  unfolding stamped_by_def by fastforce

lemma stamped_observe: "stamped d \<Longrightarrow> stamped (snd (observe E now c x d)) \<and> last_version d \<le> last_version (snd (observe E now c x d))"
proof -
  assume s: "stamped d"
  then have "stamped_by (last_version d + 1) d" by (rule stamped_later) simp
  then have "stamped_by (last_version d + 1) (d\<lparr>last_version := last_version d + 1\<rparr>)" by (simp add: stamped_by_def)
  then have "last_version (snd (transaction_body E now c x d)) = last_version d + 1 \<and> stamped_by (last_version d + 1) (snd (transaction_body E now c x d))"
    by (intro transaction_keeps [OF stamping.write_invariant_axioms]) simp
  then show ?thesis using s by (cases "transaction_body E now c x d") (auto simp: observe_def rollback_def stamped_by_def split: sum.split)
qed

lemma update_versioned_number: "n \<le> fst (update_versioned p f n rs)"
proof (induction rs arbitrary: n)
  case (Cons r rs)
  show ?case using Cons.IH [of "n + 1"] Cons.IH [of n] by (auto split: prod.split)
qed simp

lemma stamped_versioned: "stamped d \<Longrightarrow> stamped (apply_versioned p f d)"
  using stamped_later [OF _ update_versioned_number] by (simp add: apply_versioned_db stamped_by_def)

lemma stamped_run: "stamped d \<Longrightarrow> stamped (catalog_run E evs d)"
proof (induction evs arbitrary: d)
  case (Cons e evs)
  have "stamped (catalog_step E e d)" using Cons.prems stamped_observe [OF Cons.prems] stamped_versioned [OF Cons.prems]
    by (cases e) (simp_all add: catalog_step_def sweepStale_def setResourceStatus_def Let_def recordObservation_def, simp_all add: stamped_by_def)
  then show ?case using Cons.IH by simp
qed simp

lemma reachable_stamped: "stamped (catalog_run E evs empty_catalog)"
  by (rule stamped_run) (simp add: stamped_by_def empty_catalog_def)

section \<open>Operator decisions\<close>

text \<open>The resource exists and is neither active nor stale.\<close>

definition barred :: "string \<Rightarrow> catalog_db \<Rightarrow> bool" where
  "barred k d = ((\<exists>r \<in> set (resources d). rr_key r = k)
     \<and> (\<forall>r \<in> set (resources d). rr_key r = k \<longrightarrow> rr_status r \<notin> {R_active, R_stale}))"

lemma barred_same: "resources d' = resources d \<Longrightarrow> barred k d' = barred k d"
  by (simp add: barred_def)

lemma barred_update:
  assumes f: "\<And>r. rr_key (f r) = rr_key r" "\<And>r. rr_status r \<notin> {R_active, R_stale} \<Longrightarrow> rr_status (f r) = rr_status r"
    and b: "barred k d" and d': "resources d' = update_where p f (resources d)"
  shows "barred k d'"
proof -
  obtain r where r: "r \<in> set (resources d)" "rr_key r = k" using b unfolding barred_def by blast
  have "(if p r then f r else r) \<in> set (resources d')" unfolding d' in_update_where using r(1) by blast
  moreover have "rr_key (if p r then f r else r) = k" using r(2) f(1) by simp
  moreover have "rr_status x \<notin> {R_active, R_stale}" if "x \<in> set (resources d')" "rr_key x = k" for x
  proof -
    obtain y where y: "y \<in> set (resources d)" "x = (if p y then f y else y)" using \<open>x \<in> set (resources d')\<close> unfolding d' in_update_where by blast
    then have "rr_key y = k" using \<open>rr_key x = k\<close> f(1) by (simp split: if_splits)
    then have "rr_status y \<notin> {R_active, R_stale}" using b y(1) unfolding barred_def by blast
    then show ?thesis using f(2) [of y] y(2) by (simp split: if_splits)
  qed
  ultimately show ?thesis unfolding barred_def by blast
qed

lemma barred_set_active: "barred k d \<Longrightarrow> barred k (set_active rid vid version d)"
  by (rule barred_update [of "\<lambda>r. r\<lparr>rr_active := Some vid, rr_updated := version\<rparr>"]) (simp_all add: set_active_def)

lemma barred_touch: "barred k d \<Longrightarrow> barred k (touch_resource now rid b version d)"
  by (rule barred_update [of "\<lambda>r. r\<lparr>rr_lastSeen := now, rr_lastSeenPaid := (if b then Some now else rr_lastSeenPaid r),
        rr_status := (if rr_status r = R_stale then R_active else rr_status r), rr_updated := version\<rparr>"]) (simp_all add: touch_resource_def)

lemma barred_new_resource:
  "barred k d \<Longrightarrow> find (\<lambda>r. rr_key r = ca_resourceKey c) (resources d) = None \<Longrightarrow>
   barred k (d\<lparr>resources := resources d @ [new_resource now rid c st version]\<rparr>)"
proof -
  assume b: "barred k d" and n: "find (\<lambda>r. rr_key r = ca_resourceKey c) (resources d) = None"
  obtain r where "r \<in> set (resources d)" "rr_key r = k" using b unfolding barred_def by blast
  then have "ca_resourceKey c \<noteq> k" using find_NoneD [OF n] by fastforce
  then show ?thesis using b by (auto simp: barred_def new_resource_def)
qed

interpretation barring: write_invariant "barred k" version for k version
  by unfold_locales
    (simp_all add: barred_set_active barred_touch barred_new_resource,
     simp_all add: barred_def frame_of_def supersede_others_def activate_version_def)

lemma barred_observe: "barred k d \<Longrightarrow> barred k (snd (observe E now c x d))"
  by (rule observe_keeps [OF barring.write_invariant_axioms]) (simp_all add: barred_def)

text \<open>No event but a decision of the operator on the same key lifts the bar.\<close>

definition spares_key :: "string \<Rightarrow> catalog_event \<Rightarrow> bool" where
  "spares_key k e = (case e of Status_event key st _ \<Rightarrow> key = k \<longrightarrow> st \<notin> {R_active, R_stale} | _ \<Rightarrow> True)"

lemma barred_versioned:
  assumes f: "\<And>m r. rr_key (f m r) = rr_key r" and g: "\<And>m r. p r \<Longrightarrow> rr_key r = k \<Longrightarrow> rr_status r \<notin> {R_active, R_stale} \<Longrightarrow>
      rr_status (f m r) \<notin> {R_active, R_stale}" and b: "barred k d"
  shows "barred k (apply_versioned p f d)"
proof -
  let ?us = "snd (update_versioned p f (last_version d) (resources d))"
  have us: "resources (apply_versioned p f d) = ?us" by (simp add: apply_versioned_db)
  have "rr_key ` set ?us = rr_key ` set (resources d)"
    using arg_cong [OF update_versioned_keeps [where key = rr_key and f = f and p = p and n = "last_version d" and rs = "resources d", OF f], of set] by simp
  then have "\<exists>r \<in> set ?us. rr_key r = k" using b unfolding barred_def by (metis image_iff)
  moreover have "rr_status x \<notin> {R_active, R_stale}" if x: "x \<in> set ?us" "rr_key x = k" for x
  proof -
    obtain r where r: "r \<in> set (resources d)" "x = r \<or> (p r \<and> (\<exists>m. x = f m r))" using update_versioned_member [OF x(1)] by blast
    then have "rr_key r = k" using x(2) f by auto
    then have "rr_status r \<notin> {R_active, R_stale}" using b r(1) unfolding barred_def by blast
    moreover have "p r \<Longrightarrow> rr_status (f m r) \<notin> {R_active, R_stale}" for m
      using g [OF _ \<open>rr_key r = k\<close>] calculation by simp
    ultimately show ?thesis using r(2) by (elim disjE conjE exE) simp_all
  qed
  ultimately show ?thesis unfolding barred_def us by (intro conjI ballI impI)
qed

lemma barred_other: "barred k d \<Longrightarrow> resources d' = resources d \<Longrightarrow> barred k d'"
  by (simp add: barred_def)

lemma barred_step: "barred k d \<Longrightarrow> spares_key k e \<Longrightarrow> barred k (catalog_step E e d)"
proof (cases e)
  case (Sweep_event now h)
  assume "barred k d"
  then show ?thesis unfolding Sweep_event catalog_step_def sweepStale_def Let_def
    by (auto intro!: barred_versioned)
next
  case (Status_event key st reason)
  assume "barred k d" "spares_key k e"
  then show ?thesis unfolding Status_event catalog_step_def setResourceStatus_def
    by (auto intro!: barred_versioned simp: spares_key_def)
next
  case (Observe_event now c x)
  assume "barred k d"
  then show ?thesis unfolding Observe_event catalog_step_def by (simp only: catalog_event.case barred_observe)
next
  case (Record_event row)
  assume "barred k d"
  then show ?thesis unfolding Record_event catalog_step_def by (rule barred_other) (simp add: recordObservation_def)
next
  case (Index_event ts)
  assume "barred k d"
  then show ?thesis unfolding Index_event catalog_step_def by (rule barred_other) simp
qed

lemma barred_run: "barred k d \<Longrightarrow> list_all (spares_key k) evs \<Longrightarrow> barred k (catalog_run E evs d)"
  by (induction evs arbitrary: d) (simp_all add: barred_step)

end
