(* ===== verification/Catalog_Demo.thy ===== *)
theory Catalog_Demo
  imports Catalog_Runs
begin

text \<open>A small catalog on which the properties are evaluated: plain ASCII text, a constant digest and a database that accepts every row.\<close>

definition demo_unicode :: unicode where
  "demo_unicode = \<lparr> nfc = id, nfkc = id, lower_case = id, upper_case = id, letter_or_number = (\<lambda>p. p \<noteq> '' ''), white_space = (\<lambda>p. p = '' '') \<rparr>"

definition demo_catalog_env :: catalog_env where
  "demo_catalog_env = \<lparr> ce_unicode = demo_unicode, ce_locale = code_unit_cmp, ce_sha = (\<lambda>_. ''h''), ce_collate = code_unit_cmp,
     ce_numeric = (\<lambda>s. Inr (big_int s)), ce_resource_refused = (\<lambda>_. None), ce_version_refused = (\<lambda>_. None),
     ce_option_refused = (\<lambda>_. None), ce_document_refused = (\<lambda>_. None) \<rparr>"

definition demo_option :: "string \<Rightarrow> string \<Rightarrow> payment_option" where
  "demo_option payee price = \<lparr> po_optionHash = price, po_x402Version = 2, po_scheme = ''e'', po_network = ''t'', po_asset = ''C'',
     po_amount = price, po_payTo = payee, po_maxTimeoutSeconds = 60, po_extra = JObj [], po_assetSymbol = None, po_assetDecimals = None \<rparr>"

definition demo_candidate :: "string \<Rightarrow> string \<Rightarrow> string \<Rightarrow> catalog_candidate" where
  "demo_candidate hash payee price = \<lparr> ca_type = Http_type, ca_resourceKey = ''k'', ca_resourceUrl = ''u'', ca_origin = ''o'', ca_routeTemplate = None,
     ca_method = None, ca_toolName = None, ca_transport = None, ca_x402Version = 2, ca_description = None, ca_mimeType = None,
     ca_serviceName = None, ca_tags = [], ca_iconUrl = None, ca_bazaarExtension = JObj [], ca_extensions = JObj [],
     ca_inputSchema = None, ca_inputExample = None, ca_outputType = None, ca_outputSchema = None, ca_outputExample = None,
     ca_declarationHash = hash, ca_paymentOption = demo_option payee price, ca_softDropped = [] \<rparr>"

definition demo_context :: observation_context where
  "demo_context = \<lparr> oc_stage = Seen_settled, oc_activate = True, oc_reject_changes = False \<rparr>"

definition demo_read_env :: read_env where
  "demo_read_env = \<lparr> re_unicode = demo_unicode, re_collate = code_unit_cmp, re_matches = (\<lambda>_ _ _. True), re_rank = (\<lambda>_ _ _. 1),
     re_add = (+), re_lower = id \<rparr>"

definition demo_discovery :: "int \<Rightarrow> discovery_options" where
  "demo_discovery snap = \<lparr> dp_filters = no_filters, dp_limit = 10, dp_offset = 0, dp_snapshot = snap, dp_includeStale = False,
     dp_includeUnverified = False, dp_staleAfterHours = 24, dp_query = None, dp_language = None \<rparr>"

definition seen :: "int \<Rightarrow> string \<Rightarrow> catalog_event" where
  "seen now hash = Observe_event now (demo_candidate hash ''S'' ''5'') demo_context"

definition demo_listed :: catalog_db where
  "demo_listed = catalog_run demo_catalog_env [seen 1000 ''a''] empty_catalog"

definition demo_disabled :: catalog_db where
  "demo_disabled = catalog_run demo_catalog_env [seen 1000 ''a'', Status_event ''k'' R_disabled None] empty_catalog"

definition demo_changed :: catalog_db where
  "demo_changed = catalog_run demo_catalog_env [seen 1000 ''a'', seen 2000 ''b''] empty_catalog"

text \<open>The seller changes its declaration and then returns to the first one.\<close>

definition demo_reverted :: "(exn + write_result) \<times> catalog_db" where
  "demo_reverted = observe demo_catalog_env 3000 (demo_candidate ''a'' ''S'' ''5'') demo_context demo_changed"

end
