(* ===== verification/Catalog_Properties.thy ===== *)
theory Catalog_Properties
  imports Catalog_Demo
begin

text \<open>
  What a buyer sees of the catalog: the payment options of a listing pay its owner, an operator's decision
  stands, and a seller who returns to an earlier declaration vanishes from every listing.
\<close>

section \<open>Rows of a listing\<close>

lemma highest_None: "highest vs = None \<longleftrightarrow> vs = []"
  by (cases vs) (auto split: option.split)

lemma highest_Some: "highest vs = Some v \<Longrightarrow> v \<in> set vs \<and> (\<forall>w \<in> set vs. cv_number w \<le> cv_number v)"
proof (induction vs arbitrary: v)
  case (Cons a vs)
  show ?case
  proof (cases "highest vs")
    case None
    then show ?thesis using Cons.prems by (simp add: highest_None)
  next
    case (Some w)
    then show ?thesis using Cons.prems Cons.IH [OF Some] by (auto split: if_splits)
  qed
qed simp

lemma lateral_row: "(r, v) \<in> set (lateral_rows snap d) \<Longrightarrow> r \<in> set (resources d) \<and> scope_version snap d r = Some v"
  by (auto simp: lateral_rows_def split: option.splits)

lemma visible_row:
  "(r, v) \<in> set (visible_rows R now x d) \<Longrightarrow> r \<in> set (resources d) \<and> scope_version (dp_snapshot x) d r = Some v
     \<and> snapshot_conditions R x d r v \<and> visibility now x r v"
  by (auto simp: visible_rows_def snapshot_rows_def dest: lateral_row)

text \<open>A row that a page of the listing or a lookup by identity answers.\<close>

definition shown :: "read_env \<Rightarrow> int \<Rightarrow> discovery_options \<Rightarrow> catalog_db \<Rightarrow> discovery_row \<Rightarrow> bool" where
  "shown R now x d row = ((\<exists>pg. list_catalog R now x d = Inr pg \<and> row \<in> set (pg_rows pg)) \<or> (\<exists>t url tool. getByKey R now t url tool x d = Some row))"

lemma shownE:
  assumes "shown R now x d row"
  obtains r v y where "(r, v) \<in> set (visible_rows R now y d)" "row = discovery_row_of R (dp_snapshot y) d (r, v)"
    "dp_snapshot y = dp_snapshot x" "dp_includeStale y = dp_includeStale x"
  using assms unfolding shown_def
proof (elim disjE exE conjE)
  fix pg
  assume "list_catalog R now x d = Inr pg" "row \<in> set (pg_rows pg)"
  then have "row \<in> set (pg_rows (list_page R now x d))" by (simp add: list_catalog_def split: if_splits)
  then show ?thesis using that [of _ _ x]
    by (auto simp: list_page_def attachAccepts_def ordered_rows_def Let_def dest!: in_set_takeD in_set_dropD)
next
  fix t url tool
  let ?y = "x\<lparr>dp_filters := no_filters, dp_query := None\<rparr>"
  assume g: "getByKey R now t url tool x d = Some row"
  define rows where "rows = js_sort newest_first (filter (\<lambda>p. key_matches t url tool (fst p)) (visible_rows R now ?y d))"
  obtain p ps where p: "rows = p # ps" "row = discovery_row_of R (dp_snapshot x) d p"
    using g unfolding getByKey_def Let_def rows_def [symmetric] by (cases rows) (auto simp: attachAccepts_def)
  have "p \<in> set rows" using p(1) by simp
  then have "p \<in> set (visible_rows R now ?y d)" by (simp add: rows_def)
  then show ?thesis using that [of "fst p" "snd p" ?y] p(2) by simp
qed

lemma js_sort_Nil: "js_sort cmp xs = [] \<longleftrightarrow> xs = []"
  by (metis js_sort_length length_0_conv)

lemma shown_accepts:
  assumes "(r, v) \<in> set (visible_rows R now y d)"
  shows "accepts_of R (dp_snapshot y) d (cv_id v) \<noteq> []"
proof -
  let ?os = "filter (\<lambda>row. co_version row = cv_id v \<and> option_at (dp_snapshot y) row) (options d)"
  have "list_ex (option_matches (dp_filters y) (dp_snapshot y) (cv_id v)) (options d)"
    using visible_row [OF assms] by (simp add: snapshot_conditions_def Let_def)
  then have "?os \<noteq> []" by (auto simp: list_ex_iff option_matches_def filter_empty_conv)
  then show ?thesis by (simp add: accepts_of_def js_sort_Nil)
qed

lemma accepts_pay_owner:
  assumes "rows_ok d" "r \<in> set (resources d)" "v \<in> set (versions d)" "cv_resource v = rr_id r" "a \<in> set (accepts_of R snap d (cv_id v))"
  shows "ac_payTo a = rr_owner r"
proof -
  obtain z where z: "z \<in> set (options d)" "co_version z = cv_id v" "a = optionRow z"
    using assms(5) by (auto simp: accepts_of_def)
  have "(co_id z, co_version z, co_resource z, co_payTo z) \<in> set (payees d)" using z(1) by (auto simp: payees_def)
  then have "version_at (co_version z) (co_resource z) d" "owned_by (co_resource z) (co_payTo z) d"
    using assms(1) by (auto simp: rows_ok_def refs_ok_def)
  then obtain w k where w: "w \<in> set (versions d)" "cv_id w = cv_id v" "cv_resource w = co_resource z" and k: "(co_resource z, k, co_payTo z) \<in> set (owners d)"
    by (auto simp: version_at_def placed_def owned_by_def z(2))
  have "w = v" using assms(1,3) w(1,2) by (auto simp: rows_ok_def keys_ok_def placed_def comp_def distinct_map inj_on_def)
  moreover have "(rr_id r, rr_key r, rr_owner r) \<in> set (owners d)" using assms(2) by (auto simp: owners_def)
  moreover have "distinct (map fst (owners d))" using assms(1) by (simp add: rows_ok_def keys_ok_def)
  ultimately have "co_payTo z = rr_owner r" using w(3) k assms(4) by (metis Pair_inject eq_key_imp_eq_value)
  then show ?thesis by (simp add: z(3) optionRow_def)
qed

text \<open>C25.  Whatever was observed before, every row that a page of the listing or a lookup by identity answers
  belongs to an active resource (or a stale one, when stale resources are asked for), has at least one payment
  option, and every payment option it shows pays the owner of the resource: the payee of the first observation of
  its key, which no later observation changes.\<close>

theorem listing_pays_owner:
  assumes d: "d = catalog_run E evs empty_catalog" and s: "shown R now x d row"
  shows "\<exists>r \<in> set (resources d). rr_id r = dr_resourceId row \<and> rr_url r = dr_resource row
     \<and> (rr_status r = R_active \<or> (dp_includeStale x \<and> rr_status r = R_stale))
     \<and> dr_accepts row \<noteq> [] \<and> (\<forall>a \<in> set (dr_accepts row). ac_payTo a = rr_owner r)
     \<and> (\<forall>fvs. \<exists>r' \<in> set (resources (catalog_run E fvs d)). rr_id r' = rr_id r \<and> rr_key r' = rr_key r \<and> rr_owner r' = rr_owner r)"
proof -
  obtain r v y where v: "(r, v) \<in> set (visible_rows R now y d)" and row: "row = discovery_row_of R (dp_snapshot y) d (r, v)"
    and y: "dp_includeStale y = dp_includeStale x" using shownE [OF s] by metis
  have ok: "rows_ok d" "catalog_ok d" using reachable_ok [of E evs] by (simp_all add: d catalog_ok_def)
  note vis = visible_row [OF v]
  have sv: "v \<in> set (versions d)" "cv_resource v = rr_id r"
    using vis by (auto simp: scope_version_def lateral_version_def dest!: highest_Some)
  have "\<exists>r' \<in> set (resources (catalog_run E fvs d)). rr_id r' = rr_id r \<and> rr_key r' = rr_key r \<and> rr_owner r' = rr_owner r" for fvs
  proof -
    have "(rr_id r, rr_key r, rr_owner r) \<in> set (owners d)" using vis by (auto simp: owners_def)
    then have "(rr_id r, rr_key r, rr_owner r) \<in> set (owners (catalog_run E fvs d))"
      using run_ok [OF ok(2), of E fvs] by (auto simp: later_def)
    then show ?thesis by (auto simp: owners_def)
  qed
  then show ?thesis using vis y shown_accepts [OF v] accepts_pay_owner [OF ok(1) _ sv]
    by (intro bexI [of _ r]) (auto simp: row discovery_row_of_def Let_def visibility_def)
qed

definition listed_shape :: "catalog_db \<Rightarrow> bool" where
  "listed_shape d = (pg_rows (list_page demo_read_env 2000 (demo_discovery 1) d) \<noteq> [] \<and> list_all (\<lambda>r. rr_owner r = ''S'') (resources d))"

theorem listing_pays_owner_witness:
  "\<exists>row r. shown demo_read_env 2000 (demo_discovery 1) demo_listed row \<and> r \<in> set (resources demo_listed) \<and> rr_owner r = ''S''
     \<and> dr_accepts row \<noteq> [] \<and> (\<forall>a \<in> set (dr_accepts row). ac_payTo a = ''S'')"
proof -
  let ?rows = "pg_rows (list_page demo_read_env 2000 (demo_discovery 1) demo_listed)"
  have "listed_shape demo_listed" by code_simp
  then have l: "?rows \<noteq> []" "list_all (\<lambda>r. rr_owner r = ''S'') (resources demo_listed)" by (simp_all add: listed_shape_def)
  then have s: "shown demo_read_env 2000 (demo_discovery 1) demo_listed (hd ?rows)"
    by (simp add: shown_def list_catalog_def unused_rank_value_def demo_discovery_def)
  obtain r where "r \<in> set (resources demo_listed)" "dr_accepts (hd ?rows) \<noteq> []" "\<forall>a \<in> set (dr_accepts (hd ?rows)). ac_payTo a = rr_owner r"
    using listing_pays_owner [OF demo_listed_def s] by blast
  then show ?thesis using s l(2) by (auto simp: list_all_iff)
qed

text \<open>C26.  A resource that an operator has quarantined, disabled or tombstoned is shown by no listing and no lookup
  after any sequence of observations, sweeps and decisions, as long as no decision makes its key active or stale
  again: what sellers do cannot put it back.\<close>

theorem operator_decision_stands:
  assumes d: "d = catalog_run E evs empty_catalog" and r: "r \<in> set (resources d)" "rr_status r \<notin> {R_active, R_stale}"
    and k: "list_all (spares_key (rr_key r)) fvs" and s: "shown R now x (catalog_run E fvs d) row"
  shows "dr_resourceId row \<noteq> rr_id r"
proof
  let ?e = "catalog_run E fvs d"
  assume i: "dr_resourceId row = rr_id r"
  have ok: "catalog_ok d" using reachable_ok [of E evs] by (simp add: d)
  then have ok': "catalog_ok ?e" "later d ?e" using run_ok by blast+
  have "s = r" if "s \<in> set (resources d)" "rr_key s = rr_key r" for s
    using ok r(1) that by (auto simp: catalog_ok_def rows_ok_def keys_ok_def owners_def comp_def distinct_map inj_on_def)
  then have "barred (rr_key r) d" using r by (auto simp: barred_def)
  then have b: "barred (rr_key r) ?e" using k by (rule barred_run)
  obtain r' v y where v: "(r', v) \<in> set (visible_rows R now y ?e)" and row: "row = discovery_row_of R (dp_snapshot y) ?e (r', v)"
    using shownE [OF s] by metis
  note vis = visible_row [OF v]
  have "rr_id r' = rr_id r" using i by (simp add: row discovery_row_of_def Let_def)
  moreover have "(rr_id r, rr_key r, rr_owner r) \<in> set (owners ?e)" using r(1) ok'(2) by (auto simp: later_def owners_def)
  moreover have "(rr_id r', rr_key r', rr_owner r') \<in> set (owners ?e)" using vis by (auto simp: owners_def)
  ultimately have "rr_key r' = rr_key r"
    using ok'(1) by (metis Pair_inject catalog_ok_def eq_key_imp_eq_value keys_ok_def rows_ok_def)
  then have "rr_status r' \<notin> {R_active, R_stale}" using b vis unfolding barred_def by blast
  then show False using vis by (auto simp: visibility_def)
qed

definition disabled_shape :: "catalog_db \<Rightarrow> bool" where
  "disabled_shape d = (case resources d of [r] \<Rightarrow> rr_id r = 1 \<and> rr_key r = ''k'' \<and> rr_status r = R_disabled | _ \<Rightarrow> False)"

theorem operator_decision_stands_witness:
  "\<exists>r. resources demo_disabled = [r] \<and> rr_id r = 1 \<and> rr_status r = R_disabled
     \<and> (\<forall>R now x row. shown R now x (catalog_run demo_catalog_env [seen 3000 ''a'', seen 4000 ''b''] demo_disabled) row \<longrightarrow> dr_resourceId row \<noteq> 1)"
proof -
  have "disabled_shape demo_disabled" by code_simp
  then obtain r where r: "resources demo_disabled = [r]" "rr_id r = 1" "rr_key r = ''k''" "rr_status r = R_disabled"
    by (auto simp: disabled_shape_def split: list.splits)
  have k: "list_all (spares_key (rr_key r)) [seen 3000 ''a'', seen 4000 ''b'']" by (simp add: spares_key_def seen_def)
  show ?thesis using operator_decision_stands [OF demo_disabled_def _ _ k] r by simp
qed

section \<open>Returning to an earlier declaration\<close>

text \<open>What a successful reactivation leaves: the versions after both updates, and the resources but for the active one.\<close>

lemma reactivation:
  assumes ok: "rows_ok d" and r: "r \<in> set (resources d)" "rr_key r = ca_resourceKey c" "rr_owner r = po_payTo (ca_paymentOption c)"
    and v: "v \<in> set (versions d)" "cv_resource v = rr_id r" "cv_hash v = ca_declarationHash c" "cv_status v \<noteq> V_active"
    and x: "oc_activate x" and o: "observe E now c x d = (Inr res, d')"
  shows "wr_outcome res = Versioned \<and> versions d' = map (activated now (rr_id r) (cv_id v) (last_version d + 1)) (versions d)
     \<and> last_version d' = last_version d + 1"
proof -
  let ?n = "last_version d + 1" and ?rid = "rr_id r" and ?d1 = "d\<lparr>last_version := last_version d + 1\<rparr>"
  let ?d2 = "touch_resource now ?rid (oc_stage x = Seen_settled) ?n ?d1"
  have key: "y \<in> set (resources d) \<Longrightarrow> rr_key y = rr_key r \<Longrightarrow> y = r" for y
    using ok r(1) by (auto simp: rows_ok_def keys_ok_def owners_def comp_def distinct_map inj_on_def)
  have fr: "find (\<lambda>y. rr_key y = ca_resourceKey c) (resources d) = Some r"
  proof (cases "find (\<lambda>y. rr_key y = ca_resourceKey c) (resources d)")
    case None
    then show ?thesis using find_NoneD [OF None r(1)] r(2) by simp
  next
    case (Some y)
    then show ?thesis using find_SomeD [OF Some] key [of y] r(2) by simp
  qed
  have hash: "y \<in> set (versions d) \<Longrightarrow> cv_resource y = ?rid \<Longrightarrow> cv_hash y = cv_hash v \<Longrightarrow> y = v" for y
    using ok v(1,2) by (auto simp: rows_ok_def keys_ok_def placed_def comp_def distinct_map inj_on_def)
  have vs2: "versions ?d2 = versions d" "last_version ?d2 = ?n" by (simp_all add: touch_resource_def)
  have fv: "find (\<lambda>y. cv_hash y = ca_declarationHash c) (versions_of ?rid ?d2) = Some v"
  proof (cases "find (\<lambda>y. cv_hash y = ca_declarationHash c) (versions_of ?rid ?d2)")
    case None
    then show ?thesis using find_NoneD [OF None, of v] v by (simp add: versions_of_def vs2)
  next
    case (Some y)
    then show ?thesis using find_SomeD [OF Some] hash [of y] v(3) by (simp add: versions_of_def vs2)
  qed
  have "transaction_body E now c x d = (Inr res, d')"
    using o by (auto simp: observe_def split: prod.splits sum.splits)
  then have "observe_same E now ?rid v c x ?n ?d2 = (Inr res, d')"
    using fr fv r(3) by (simp add: transaction_body_def io_bind_def io_get_def nextVersion_def updateResource_def Let_def io_seq_app io_modify_def)
  then obtain oid d3 where d3: "upsertOption E now ?rid (cv_id v) (ca_paymentOption c) ?n ?d2 = (Inr oid, d3)"
      "io_seq (activate E now ?rid (cv_id v) c ?n) (io_return (written Versioned ?rid (cv_id v) oid)) d3 = (Inr res, d')"
    using x v(4) by (auto simp: observe_same_def Let_def elim!: io_bind_InrE)
  have f3: "versions d3 = versions d" "last_version d3 = ?n"
    using frame_option [of E now ?rid "cv_id v" "ca_paymentOption c" ?n ?d2] d3(1) vs2 by (simp_all add: frame_of_def)
  let ?d4 = "set_active ?rid (cv_id v) ?n (activate_version now (cv_id v) (supersede_others now ?rid (cv_id v) ?n d3))"
  have d4: "indexVersion E now ?rid (cv_id v) c ?n ?d4 = (Inr (), d')" "res = written Versioned ?rid (cv_id v) oid"
    using d3(2) by (auto simp: activate_def io_seq_app io_modify_def split: prod.splits sum.splits)
  have "versions ?d4 = map (activated now ?rid (cv_id v) ?n) (versions d3)" "last_version ?d4 = last_version d3"
    using versions_activated [of now "cv_id v" ?rid ?n d3] by (simp_all add: set_active_def supersede_others_def activate_version_def)
  then show ?thesis using frame_index [of E now ?rid "cv_id v" c ?n ?d4] d4 f3 by (simp add: frame_of_def written_def)
qed

text \<open>C27: A seller who takes a declaration back disappears.  Let the version of a resource that is listed at the current
  watermark be its active one, as it is while every declaration was new.  When the owner then settles a payment for a
  declaration the catalog has seen before and superseded, in a mode that activates, the outcome is versioned and the old
  version is active again; but no page and no lookup at the current watermark shows the resource: the scope takes the
  version with the highest number, which this observation has just retired.  (The hypothesis is needed: when the seller
  goes forward again to the highest-numbered version, that version is listed again.)\<close>

theorem reverted_declaration_unlisted:
  assumes d: "d = catalog_run E evs empty_catalog"
    and r: "r \<in> set (resources d)" "rr_key r = ca_resourceKey c" "rr_owner r = po_payTo (ca_paymentOption c)"
    and l: "scope_version (watermark d) d r = Some w" "cv_status w = V_active"
    and v: "v \<in> set (versions d)" "cv_resource v = rr_id r" "cv_hash v = ca_declarationHash c" "cv_status v = V_superseded"
    and x: "oc_activate x" and o: "observe E now c x d = (Inr res, d')"
  shows "wr_outcome res = Versioned \<and> (\<exists>u \<in> set (versions d'). cv_id u = cv_id v \<and> cv_status u = V_active \<and> cv_retired u = None)
     \<and> (\<forall>R later y row. dp_snapshot y = watermark d' \<longrightarrow> shown R later y d' row \<longrightarrow> dr_resourceId row \<noteq> rr_id r)"
proof (intro conjI allI impI notI)
  let ?n = "last_version d + 1" and ?f = "activated now (rr_id r) (cv_id v) (last_version d + 1)"
  have ok: "catalog_ok d" "stamped d" using reachable_ok [of E evs] reachable_stamped [of E evs] by (simp_all add: d)
  have re: "wr_outcome res = Versioned" "versions d' = map ?f (versions d)" "last_version d' = ?n"
    using reactivation [OF _ r v(1,2,3) _ x o] ok(1) v(4) by (simp_all add: catalog_ok_def)
  then show "wr_outcome res = Versioned" by simp
  have "cv_status (?f v) = V_active \<and> cv_retired (?f v) = None" by (simp add: activated_def)
  then show "\<exists>u \<in> set (versions d'). cv_id u = cv_id v \<and> cv_status u = V_active \<and> cv_retired u = None"
    using v(1) re(2) by (intro bexI [of _ "?f v"]) simp_all
  fix R later y row
  assume y: "dp_snapshot y = watermark d'" and s: "shown R later y d' row" and i: "dr_resourceId row = rr_id r"
  obtain r' u z where z: "(r', u) \<in> set (visible_rows R later z d')" "row = discovery_row_of R (dp_snapshot z) d' (r', u)" "dp_snapshot z = dp_snapshot y"
    using shownE [OF s] by metis
  have "rr_id r' = rr_id r" using i z(2) by (simp add: discovery_row_of_def Let_def)
  then have u: "highest (filter (lateral_version ?n (rr_id r)) (map ?f (versions d))) = Some u" "retired_after ?n (cv_retired u)"
    using visible_row [OF z(1)] z(3) y re by (auto simp: scope_version_def watermark_def snapshot_conditions_def Let_def)
  note hu = highest_Some [OF u(1)]
  note hw = highest_Some [OF l(1) [unfolded scope_version_def]]
  have w: "w \<in> set (versions d)" "cv_resource w = rr_id r" "cv_created w \<le> last_version d"
    using hw by (auto simp: lateral_version_def watermark_def)
  have "w \<noteq> v" using l(2) v(4) by auto
  have uniq: "p \<in> set (versions d) \<Longrightarrow> q \<in> set (versions d) \<Longrightarrow> cv_id p = cv_id q \<Longrightarrow> p = q" for p q
    using ok(1) by (auto simp: catalog_ok_def rows_ok_def keys_ok_def placed_def comp_def distinct_map inj_on_def)
  have num: "p \<in> set (versions d) \<Longrightarrow> q \<in> set (versions d) \<Longrightarrow> cv_resource p = cv_resource q \<Longrightarrow> cv_number p = cv_number q \<Longrightarrow> p = q" for p q
    using ok(1) by (auto simp: catalog_ok_def rows_ok_def keys_ok_def placed_def comp_def distinct_map inj_on_def)
  have wv: "cv_id w \<noteq> cv_id v" using uniq \<open>w \<noteq> v\<close> w(1) v(1) by blast
  have fw: "cv_status (?f w) = V_superseded" "cv_number (?f w) = cv_number w" "cv_created (?f w) = cv_created w"
    using wv w(2) l(2) by (simp_all add: activated_def)
  have number: "cv_number (?f p) = cv_number p" for p by (simp add: activated_def)
  have "lateral_version ?n (rr_id r) (?f w)" using w fw by (simp add: lateral_version_def)
  then have nu: "cv_number w \<le> cv_number u" using hu w(1) number [of w] by force
  obtain p where p: "p \<in> set (versions d)" "u = ?f p" "lateral_version ?n (rr_id r) u" using hu by auto
  have pn: "cv_number u = cv_number p" using p(2) number by simp
  show False
  proof (cases "p = v")
    case True
    have "lateral_version (watermark d) (rr_id r) v" using v ok(2) by (auto simp: lateral_version_def watermark_def stamped_by_def)
    then have "cv_number v \<le> cv_number w" using hw v(1) by auto
    then have "cv_number v = cv_number w" using nu pn True by simp
    then show False using num [of v w] v w \<open>w \<noteq> v\<close> by simp
  next
    case False
    then have pv: "cv_id p \<noteq> cv_id v" using uniq p(1) v(1) by blast
    have pr: "cv_resource p = rr_id r" using p(2,3) by (simp add: lateral_version_def)
    then have "cv_status u \<noteq> V_active" using p(2) pv by simp
    then have "cv_status u = V_superseded" using p(3) by (simp add: lateral_version_def)
    then have "\<exists>m. cv_retired u = Some m \<and> m \<le> ?n"
    proof (cases "cv_status p = V_active")
      case True
      then show ?thesis using p(2) pv pr by (simp add: activated_def)
    next
      case False
      then have "u = p" using p(2) pv by (simp add: activated_def)
      then show ?thesis using ok(2) p(1) \<open>cv_status u = V_superseded\<close> unfolding stamped_by_def by fastforce
    qed
    then show False using u(2) by (auto simp: retired_after_def)
  qed
qed


definition changed_shape :: "catalog_db \<Rightarrow> bool" where
  "changed_shape d = (case (resources d, versions d) of ([r], [v, w]) \<Rightarrow> rr_id r = 1 \<and> rr_key r = ''k'' \<and> rr_owner r = ''S''
       \<and> scope_version (watermark d) d r = Some w \<and> cv_status w = V_active \<and> cv_resource v = 1 \<and> cv_hash v = ''a''
       \<and> cv_status v = V_superseded
     | _ \<Rightarrow> False)"

definition reverted_shape :: "(exn + write_result) \<times> catalog_db \<Rightarrow> bool" where
  "reverted_shape p = (case p of (Inr _, d) \<Rightarrow> map rr_status (resources d) = [R_active] \<and> map rr_lastSeen (resources d) = [3000] | _ \<Rightarrow> False)"

text \<open>The resource has just been paid for, is active, and no listing shows it.\<close>

theorem reverted_declaration_unlisted_witness:
  "map rr_status (resources (snd demo_reverted)) = [R_active] \<and> map rr_lastSeen (resources (snd demo_reverted)) = [3000]
     \<and> \<not> (\<exists>R later y row. dp_snapshot y = watermark (snd demo_reverted) \<and> shown R later y (snd demo_reverted) row \<and> dr_resourceId row = 1)"
proof -
  have "changed_shape demo_changed" by code_simp
  then obtain r v w where c: "resources demo_changed = [r]" "versions demo_changed = [v, w]" "rr_id r = 1" "rr_key r = ''k''" "rr_owner r = ''S''"
     "scope_version (watermark demo_changed) demo_changed r = Some w" "cv_status w = V_active" "cv_resource v = 1" "cv_hash v = ''a''"
     "cv_status v = V_superseded"
    by (auto simp: changed_shape_def split: list.splits)
  have "reverted_shape demo_reverted" by code_simp
  then obtain res where o: "observe demo_catalog_env 3000 (demo_candidate ''a'' ''S'' ''5'') demo_context demo_changed = (Inr res, snd demo_reverted)"
      and m: "map rr_status (resources (snd demo_reverted)) = [R_active]" "map rr_lastSeen (resources (snd demo_reverted)) = [3000]"
    unfolding demo_reverted_def by (auto simp: reverted_shape_def split: prod.splits sum.splits)
  show ?thesis using reverted_declaration_unlisted [OF demo_changed_def _ _ _ c(6,7) _ _ _ c(10) _ o] c m
    by (simp add: demo_context_def demo_candidate_def demo_option_def)
qed

end
