(* ===== verification/Extract_Properties.thy ===== *)
theory Extract_Properties
  imports Catalog_Demo
begin

text \<open>
  What extraction guarantees of hostile metadata: every text of a candidate is free of control and
  direction characters and within its limit, the sizes and the nesting are bounded, and the payment
  terms are those of the verified request.
\<close>

section \<open>Sanitised text\<close>

text \<open>Lists of code points: a code point is not empty, its tail are continuation bytes, and only the first may start with one.\<close>

definition point_like :: "string \<Rightarrow> bool" where
  "point_like p = (p \<noteq> [] \<and> list_all is_continuation (tl p))"

definition pieces :: "string list \<Rightarrow> bool" where
  "pieces ps = (list_all point_like ps \<and> list_all (\<lambda>p. \<not> is_continuation (hd p)) (tl ps))"

lemma dropWhile_head: "dropWhile p xs = [] \<or> \<not> p (hd (dropWhile p xs))"
  by (induction xs) auto

lemma code_points_heads: "s = [] \<or> \<not> is_continuation (hd s) \<Longrightarrow> list_all (\<lambda>p. \<not> is_continuation (hd p)) (code_points s)"
proof (induction s rule: code_points.induct)
  case (2 c s)
  then show ?case using dropWhile_head [of is_continuation s] by simp
qed simp

lemma code_points_like: "list_all point_like (code_points s)"
  by (induction s rule: code_points.induct) (auto simp: point_like_def list_all_iff dest: set_takeWhileD)

lemma pieces_code_points: "pieces (code_points s)"
proof (cases s)
  case (Cons c r)
  then show ?thesis using code_points_like [of s] code_points_heads [of "dropWhile is_continuation r"] dropWhile_head [of is_continuation r]
    by (simp add: pieces_def)
qed (simp add: pieces_def)

lemma takeWhile_append_piece: "list_all p xs \<Longrightarrow> ys = [] \<or> \<not> p (hd ys) \<Longrightarrow> takeWhile p (xs @ ys) = xs \<and> dropWhile p (xs @ ys) = ys"
  by (cases ys) (auto simp: list_all_iff takeWhile_append dropWhile_append)

lemma pieces_Cons: "pieces (p # ps) \<Longrightarrow> pieces ps"
  by (cases ps) (auto simp: pieces_def)

lemma code_points_concat: "pieces ps \<Longrightarrow> code_points (concat ps) = ps"
proof (induction ps)
  case (Cons p ps)
  obtain c r where p: "p = c # r" "list_all is_continuation r" using Cons.prems by (cases p) (auto simp: pieces_def point_like_def)
  have "concat ps = [] \<or> \<not> is_continuation (hd (concat ps))"
    using Cons.prems by (cases ps; cases "hd ps") (auto simp: pieces_def point_like_def)
  then show ?case using Cons.IH [OF pieces_Cons [OF Cons.prems]] takeWhile_append_piece [OF p(2)] by (simp add: p(1))
qed simp

lemma pieces_filter: "pieces ps \<Longrightarrow> pieces (filter f ps)"
proof (induction ps)
  case (Cons p ps)
  then show ?case using pieces_Cons [OF Cons.prems] by (auto simp: pieces_def list_all_iff)
qed simp

lemma pieces_dropWhile: "pieces ps \<Longrightarrow> pieces (dropWhile f ps)"
  by (induction ps) (auto dest: pieces_Cons)

lemma pieces_take: "pieces ps \<Longrightarrow> pieces (take n ps)"
  by (cases ps; cases n) (auto simp: pieces_def list_all_iff dest: in_set_takeD)

lemma pieces_trim: "pieces ps \<Longrightarrow> pieces (trim_points u ps)"
proof -
  assume "pieces ps"
  then have "pieces (take n (dropWhile (white_space u) ps))" for n by (intro pieces_take pieces_dropWhile)
  moreover have "\<exists>n. rev (dropWhile f (rev xs)) = take n xs" for f and xs :: "string list"
    unfolding dropWhile_eq_drop [of f "rev xs"] rev_drop rev_rev_ident by blast
  ultimately show ?thesis unfolding trim_points_def by metis
qed

lemma replacement_piece [simp]: "point_like replacement" "\<not> is_continuation (hd replacement)" "\<not> is_control replacement"
  "\<not> is_bidi replacement" "utf16_units replacement = 1"
  by code_simp+

lemma pieces_utf16_take: "pieces ps \<Longrightarrow> pieces (utf16_take n ps)"
proof (cases ps)
  case (Cons p qs)
  have heads: "list_all (\<lambda>p. \<not> is_continuation (hd p)) xs \<Longrightarrow> list_all (\<lambda>p. \<not> is_continuation (hd p)) (utf16_take m xs)" for m xs
    by (induction xs arbitrary: m) auto
  have like: "list_all point_like xs \<Longrightarrow> list_all point_like (utf16_take m xs)" for m xs
    by (induction xs arbitrary: m) auto
  assume "pieces ps"
  then show ?thesis using heads [of qs] like [of ps n] by (auto simp: pieces_def Cons)
qed simp

definition displayable :: "nat \<Rightarrow> string \<Rightarrow> bool" where
  "displayable n s = (js_length s \<le> n \<and> list_all (\<lambda>p. \<not> is_control p \<and> \<not> is_bidi p) (code_points s))"

lemma sanitizeText_displayable: "displayable n (sanitizeText u s n)"
proof -
  let ?qs = "trim_points u (filter (\<lambda>p. \<not> is_bidi p) (filter (\<lambda>p. \<not> is_control p) (code_points (nfc u s))))"
  have "pieces (utf16_take n ?qs)" by (intro pieces_utf16_take pieces_trim pieces_filter pieces_code_points)
  then have points: "code_points (sanitizeText u s n) = utf16_take n ?qs" unfolding sanitizeText_def by (rule code_points_concat)
  have units: "sum_list (map utf16_units (utf16_take m xs)) \<le> m" for m xs
  proof (induction xs arbitrary: m)
    case (Cons x xs)
    have "utf16_units x \<le> m \<Longrightarrow> utf16_units x + sum_list (map utf16_units (utf16_take (m - utf16_units x) xs)) \<le> m"
      using add_left_mono [OF Cons.IH [of "m - utf16_units x"], of "utf16_units x"] by simp
    then show ?case by auto
  qed simp
  have keep: "list_all P xs \<Longrightarrow> P replacement \<Longrightarrow> list_all P (utf16_take m xs)" for P m xs
    by (induction xs arbitrary: m) auto
  have "set (trim_points u ps) \<subseteq> set ps" for ps
    by (auto simp: trim_points_def dest!: set_dropWhileD)
  then have "list_all (\<lambda>p. \<not> is_control p \<and> \<not> is_bidi p) ?qs" by (fastforce simp: list_all_iff)
  then show ?thesis using units [of n ?qs] keep by (simp add: displayable_def js_length_def points)
qed

section \<open>Candidates\<close>

lemma cleanE:
  assumes "clean f ok s = Some t" obtains x where "s = Some x" "t = f x" "ok t"
  using assms by (auto simp: clean_def split: option.splits if_splits)

lemma nonempty_Some: "nonempty s = Some t \<longleftrightarrow> s = Some t \<and> t \<noteq> []"
  by (cases s) (auto simp: nonempty_def)

lemma object_or_get [simp]: "js_get (object_or v (JObj [])) k = js_get v k" "js_get (object_or v JUndef) k = js_get v k"
  by (cases v; simp add: object_or_def js_get_def)+

text \<open>The declaration of a payment, its input and its resource.\<close>

definition declared_bazaar :: "payment_payload \<Rightarrow> js" where
  "declared_bazaar p = js_get (extensions p) ''bazaar''"

definition declared_input :: "payment_payload \<Rightarrow> js" where
  "declared_input p = js_get (js_get (declared_bazaar p) ''info'') ''input''"

text \<open>The settled payment option: every term is the one of the verified requirements, and the hash covers them all.\<close>

definition settled_option :: "extract_env \<Rightarrow> payment_payload \<Rightarrow> requirements \<Rightarrow> (string \<times> int) option \<Rightarrow> payment_option \<Rightarrow> bool" where
  "settled_option E p r m o1 = (po_x402Version o1 = p_version p \<and> po_scheme o1 = scheme r \<and> po_network o1 = network r
     \<and> po_asset o1 = asset r \<and> po_amount o1 = amount r \<and> po_payTo o1 = payTo r \<and> po_maxTimeoutSeconds o1 = maxTimeoutSeconds r
     \<and> po_extra o1 = (case extra r of JObj kvs \<Rightarrow> JObj kvs | _ \<Rightarrow> JObj [])
     \<and> po_assetSymbol o1 = map_option fst m \<and> po_assetDecimals o1 = map_option snd m
     \<and> po_optionHash o1 = sha_of E (canonicalJson (JObj [(''scheme'', JStr (scheme r)), (''network'', JStr (network r)),
         (''asset'', JStr (asset r)), (''amount'', JStr (amount r)), (''payTo'', JStr (payTo r)),
         (''maxTimeoutSeconds'', JNum (maxTimeoutSeconds r)), (''extra'', po_extra o1)])))"

text \<open>The declaration was accepted by the validators and is within the bounds.\<close>

definition bounded_declaration :: "extract_env \<Rightarrow> catalog_config \<Rightarrow> payment_payload \<Rightarrow> bool" where
  "bounded_declaration E g p = (js_is_record (declared_bazaar p) \<and> va_valid (validateDiscoveryExtensionSpec E (declared_bazaar p))
     \<and> (requireValidSchema g \<longrightarrow> va_valid (validateDiscoveryExtension E (declared_bazaar p)))
     \<and> jsonBytes (declared_bazaar p) \<le> maxMetadataBytes g \<and> nesting (declared_bazaar p) (maxJsonDepth g) \<le> maxJsonDepth g
     \<and> jsonBytes (js_get (declared_bazaar p) ''schema'') \<le> maxSchemaBytes g
     \<and> (\<forall>e \<in> {js_get (declared_input p) ''example'', js_get (declared_input p) ''body'', js_get (declared_input p) ''queryParams'',
          js_get (js_get (js_get (declared_bazaar p) ''info'') ''output'') ''example''}. e \<noteq> JUndef \<longrightarrow> jsonBytes e \<le> maxExampleBytes g))"

text \<open>The origin is that of the declared URL, as the URL parser reads it, and the policy of the operator permits it: no
  credentials, no other scheme, no host of the local network unless local origins are allowed, and where HTTPS is required
  plain HTTP only for such an allowed local host.\<close>

definition permitted_origin :: "extract_env \<Rightarrow> catalog_config \<Rightarrow> payment_payload \<Rightarrow> string \<Rightarrow> bool" where
  "permitted_origin E g p o1 = (\<exists>s url. js_get (resource p) ''url'' = JStr s \<and> s \<noteq> [] \<and> js_length s \<le> 2048
     \<and> \<not> hasControlCharacters s \<and> whatwg E s = Some url \<and> o1 = pu_protocol url @ ''//'' @ pu_host url
     \<and> pu_username url = [] \<and> pu_password url = [] \<and> pu_protocol url \<in> {''http:'', ''https:'', ''mcp:''}
     \<and> (pu_protocol url \<noteq> ''mcp:'' \<and> isLocalHost (unicode_of E) (pu_hostname url) \<longrightarrow> allowLocalOrigins g)
     \<and> (pu_protocol url = ''http:'' \<and> requireHttpsOrigins g \<longrightarrow> allowLocalOrigins g \<and> isLocalHost (unicode_of E) (pu_hostname url)))"

text \<open>The texts that are shown are sanitised; the others are the declared or validated ones.\<close>

definition published_texts :: "extract_env \<Rightarrow> catalog_config \<Rightarrow> payment_payload \<Rightarrow> catalog_candidate \<Rightarrow> bool" where
  "published_texts E g p c = (
       (\<forall>s. ca_description c = Some s \<longrightarrow> s \<noteq> [] \<and> displayable (maxDescriptionLength g) s)
     \<and> (\<forall>s. ca_serviceName c = Some s \<longrightarrow> s \<noteq> [] \<and> displayable (maxServiceNameLength g) s)
     \<and> (\<forall>s. ca_mimeType c = Some s \<longrightarrow> mime_pattern s \<and> displayable 128 s)
     \<and> length (ca_tags c) \<le> maxTags g \<and> (\<forall>s \<in> set (ca_tags c). s \<noteq> [] \<and> displayable (maxTagLength g) s)
     \<and> (\<forall>s. ca_iconUrl c = Some s \<longrightarrow> s \<noteq> [] \<and> js_length s \<le> maxIconUrlLength g
          \<and> sm_iconUrl (sanitizeResourceServiceMetadata E (object_or (resource p) JUndef)) = Some s)
     \<and> (\<forall>s. ca_routeTemplate c = Some s \<longrightarrow> s \<noteq> [] \<and> js_length s \<le> maxRouteTemplateLength g \<and> isValidRouteTemplate E s
          \<and> js_get (declared_bazaar p) ''routeTemplate'' = JStr s)
     \<and> (\<forall>s. ca_toolName c = Some s \<longrightarrow> s \<noteq> [] \<and> js_get (declared_input p) ''toolName'' = JStr s)
     \<and> (\<forall>s. ca_method c = Some s \<longrightarrow> s \<noteq> [] \<and> (\<exists>d. js_get (declared_input p) ''method'' = JStr d \<and> s = upper_case (unicode_of E) d))
     \<and> (ca_type c = Mcp_type \<longleftrightarrow> js_get (declared_input p) ''type'' = JStr ''mcp'') \<and> (ca_type c = Mcp_type \<longrightarrow> ca_toolName c \<noteq> None))"

text \<open>Steps of extraction that lead to a candidate.\<close>

lemma normalized_permitted:
  assumes "normalizeResourceUrl (whatwg E) (coalesce (string_of (js_get (resource p) ''url'')) []) = Inr url"
    and "originPolicy (unicode_of E) url g = None"
  shows "permitted_origin E g p (nu_origin url)"
proof -
  let ?s = "coalesce (string_of (js_get (resource p) ''url'')) []"
  obtain u where u: "?s \<noteq> []" "js_length ?s \<le> 2048" "\<not> hasControlCharacters ?s" "whatwg E ?s = Some u"
      "pu_protocol u \<in> {''http:'', ''https:'', ''mcp:''}" "pu_username u = []" "pu_password u = []"
      "nu_origin url = pu_protocol u @ ''//'' @ pu_host u" "nu_protocol url = pu_protocol u" "nu_hostname url = pu_hostname u"
    using assms(1) by (auto simp: normalizeResourceUrl_def Let_def split: if_splits option.splits)
  have s: "js_get (resource p) ''url'' = JStr ?s" using u(1) by (auto simp: string_of_def split: js.splits)
  have "pu_protocol u \<noteq> ''mcp:'' \<and> isLocalHost (unicode_of E) (pu_hostname u) \<longrightarrow> allowLocalOrigins g"
      "pu_protocol u = ''http:'' \<and> requireHttpsOrigins g \<longrightarrow> allowLocalOrigins g \<and> isLocalHost (unicode_of E) (pu_hostname u)"
    using assms(2) by (auto simp: originPolicy_def Let_def u(9,10) split: if_splits)
  then show ?thesis unfolding permitted_origin_def using s u by (intro exI [of _ ?s] exI [of _ u]) simp
qed

lemma js_prop_Inr: "js_prop v k = Inr x \<Longrightarrow> x = js_get v k"
  by (auto simp: js_prop_def split: if_splits)

lemma extractE:
  assumes "extractCandidate E g p r m = Inr (Candidate c)"
  obtains exts outp t url where
    "candidate_of E g p r m exts (declared_bazaar p) (declared_input p) outp t url = Candidate c" "bounded_declaration E g p"
    "permitted_origin E g p (nu_origin url)" "t = (if js_get (declared_input p) ''type'' = JStr ''mcp'' then Mcp_type else Http_type)"
    "\<exists>path. nu_canonical url = nu_origin url @ path"
proof -
  let ?bz = "declared_bazaar p" and ?out = "object_or (js_get (js_get (declared_bazaar p) ''info'') ''output'') JUndef"
  note x = assms [unfolded extractCandidate_def Let_def object_or_get declared_bazaar_def [symmetric]]
  have b: "js_is_record ?bz" "jsonBytes ?bz \<le> maxMetadataBytes g" "nesting ?bz (maxJsonDepth g) \<le> maxJsonDepth g"
      "va_valid (validateDiscoveryExtensionSpec E ?bz)" "requireValidSchema g \<longrightarrow> va_valid (validateDiscoveryExtension E ?bz)"
      "jsonBytes (js_get ?bz ''schema'') \<le> maxSchemaBytes g"
    using x by (auto split: if_splits)
  define k where "k = (\<lambda>input ty. if \<not> list_all (\<lambda>e. boundedExample e (maxExampleBytes g)) [js_get input ''example'', js_get input ''body'',
         js_get input ''queryParams'', js_get (js_get (js_get ?bz ''info'') ''output'') ''example''] then Inr (Rejected example_too_large None)
       else (case normalizeResourceUrl (whatwg E) (coalesce (string_of (js_get (resource p) ''url'')) []) of
           Inl code \<Rightarrow> Inr (Rejected code None)
         | Inr url \<Rightarrow> (case originPolicy (unicode_of E) url g of
             Some code \<Rightarrow> Inr (Rejected code None)
           | None \<Rightarrow> Inr (candidate_of E g p r m (object_or (extensions p) (JObj [])) ?bz input ?out
               (if ty = JStr ''mcp'' then Mcp_type else Http_type) url))) :: exn + extraction_result)"
  have "?bz \<noteq> JUndef" using b(1) by auto
  then have "sum_bind (js_prop (js_get ?bz ''info'') ''input'') (\<lambda>input. sum_bind (js_prop input ''type'') (k input)) = Inr (Candidate c)"
    unfolding k_def using x b by (simp split: if_splits)
  then obtain input ty where i: "js_prop (js_get ?bz ''info'') ''input'' = Inr input" "js_prop input ''type'' = Inr ty" "k input ty = Inr (Candidate c)"
    by (auto simp: sum_bind_Inr_iff)
  have inp: "input = declared_input p" "ty = js_get (declared_input p) ''type''"
    using js_prop_Inr [OF i(1)] js_prop_Inr [OF i(2)] by (simp_all add: declared_input_def)
  have ex: "list_all (\<lambda>e. boundedExample e (maxExampleBytes g)) [js_get input ''example'', js_get input ''body'',
         js_get input ''queryParams'', js_get (js_get (js_get ?bz ''info'') ''output'') ''example'']"
    using i(3) unfolding k_def by (simp split: if_splits del: list.pred_inject)
  obtain url where url: "normalizeResourceUrl (whatwg E) (coalesce (string_of (js_get (resource p) ''url'')) []) = Inr url"
      "originPolicy (unicode_of E) url g = None"
      "candidate_of E g p r m (object_or (extensions p) (JObj [])) ?bz input ?out (if ty = JStr ''mcp'' then Mcp_type else Http_type) url = Candidate c"
    using i(3) ex unfolding k_def by (auto split: sum.splits option.splits simp del: list.pred_inject)
  have bd: "bounded_declaration E g p"
    using b ex by (simp add: bounded_declaration_def boundedExample_def inp(1)) blast
  have cn: "\<exists>path. nu_canonical url = nu_origin url @ path"
    using url(1) by (auto simp: normalizeResourceUrl_def or_text_def Let_def split: if_splits option.splits)
  show ?thesis using that [OF url(3) [unfolded inp] bd normalized_permitted [OF url(1,2)] refl cn] .
qed

lemma if_Candidate: "(if b then Rejected x y else Candidate z) = Candidate c \<longleftrightarrow> \<not> b \<and> z = c"
  by simp

lemma candidate_texts:
  assumes "candidate_of E g p r m exts (declared_bazaar p) (declared_input p) outp t url = Candidate c"
    and "t = (if js_get (declared_input p) ''type'' = JStr ''mcp'' then Mcp_type else Http_type)"
  shows "published_texts E g p c"
proof -
  note parts = assms(1) [unfolded candidate_of_def Let_def if_Candidate]
  note eq = conjunct2 [OF parts, symmetric]
  have so: "string_of v = Some s \<Longrightarrow> v = JStr s" for v s by (cases v) (simp_all add: string_of_def)
  have d: "ca_description c = Some s \<Longrightarrow> s \<noteq> [] \<and> displayable (maxDescriptionLength g) s" for s
    by (auto simp: eq nonempty_Some sanitizeText_displayable elim!: cleanE)
  have n: "ca_serviceName c = Some s \<Longrightarrow> s \<noteq> [] \<and> displayable (maxServiceNameLength g) s" for s
    by (auto simp: eq nonempty_Some sanitizeText_displayable)
  have mi: "ca_mimeType c = Some s \<Longrightarrow> mime_pattern s \<and> displayable 128 s" for s
    by (auto simp: eq nonempty_Some sanitizeText_displayable elim!: cleanE)
  have ta: "length (ca_tags c) \<le> maxTags g \<and> (\<forall>s \<in> set (ca_tags c). s \<noteq> [] \<and> displayable (maxTagLength g) s)"
    by (auto simp: eq sanitizeText_displayable intro!: order_trans [OF length_filter_le])
  have ic: "ca_iconUrl c = Some s \<Longrightarrow> s \<noteq> [] \<and> js_length s \<le> maxIconUrlLength g
      \<and> sm_iconUrl (sanitizeResourceServiceMetadata E (object_or (resource p) JUndef)) = Some s" for s
    by (auto simp: eq nonempty_Some elim!: cleanE)
  have rt: "ca_routeTemplate c = Some s \<Longrightarrow> s \<noteq> [] \<and> js_length s \<le> maxRouteTemplateLength g \<and> isValidRouteTemplate E s
      \<and> js_get (declared_bazaar p) ''routeTemplate'' = JStr s" for s
    by (auto simp: eq nonempty_Some elim!: cleanE dest: so)
  have tn: "ca_toolName c = Some s \<Longrightarrow> s \<noteq> [] \<and> js_get (declared_input p) ''toolName'' = JStr s" for s
    by (auto simp: eq nonempty_Some dest: so)
  have me: "ca_method c = Some s \<Longrightarrow> s \<noteq> [] \<and> (\<exists>d. js_get (declared_input p) ''method'' = JStr d \<and> s = upper_case (unicode_of E) d)" for s
    by (auto simp: eq nonempty_Some dest: so)
  have ty: "ca_type c = t" by (simp add: eq)
  have to: "ca_type c = Mcp_type \<longrightarrow> ca_toolName c \<noteq> None"
    using conjunct1 [OF parts] by (auto simp: eq nonempty_def truthy_str_def split: option.splits)
  show ?thesis using d n mi ta ic rt tn me to assms(2) unfolding published_texts_def ty by simp
qed


definition demo_extract_env :: extract_env where
  "demo_extract_env = \<lparr> unicode_of = demo_unicode, sha_of = (\<lambda>_. ''h''),
     whatwg = (\<lambda>_. Some \<lparr> pu_protocol = ''https:'', pu_username = [], pu_password = [], pu_host = ''w.io'', pu_hostname = ''w.io'', pu_pathname = ''/now/'' \<rparr>),
     validateDiscoveryExtensionSpec = (\<lambda>_. \<lparr> va_valid = True, va_errors = None \<rparr>),
     validateDiscoveryExtension = (\<lambda>_. \<lparr> va_valid = True, va_errors = None \<rparr>), isValidRouteTemplate = (\<lambda>_. True),
     sanitizeResourceServiceMetadata = (\<lambda>_. \<lparr> sm_serviceName = None, sm_tags = Some [''sun'', ''rain''], sm_iconUrl = None \<rparr>) \<rparr>"

definition demo_config :: catalog_config where
  "demo_config = \<lparr> cg_autoCatalog = True, indexOn_verified = False, requireValidSchema = True, duplicateChanged_reject = False,
     maxMetadataBytes = 200, maxDescriptionLength = 4, maxSchemaBytes = 100, maxExampleBytes = 100, maxJsonDepth = 5, maxTags = 1,
     maxTagLength = 3, maxIconUrlLength = 10, maxServiceNameLength = 10, maxRouteTemplateLength = 10, requireHttpsOrigins = True,
     allowLocalOrigins = False \<rparr>"

definition demo_requirements :: requirements where
  "demo_requirements = \<lparr> scheme = ''exact'', network = ''t'', asset = ''C'', amount = ''5'', payTo = ''S'', maxTimeoutSeconds = 60, extra = JObj [] \<rparr>"

text \<open>A description with a bell character that is longer than the limit.\<close>

definition demo_payload :: payment_payload where
  "demo_payload = \<lparr> p_version = 2,
     resource = JObj [(''url'', JStr ''https://w.io/now/''), (''description'', JStr (CHR 0x07 # ''Sunny''))],
     accepted = demo_requirements, payload = JObj [],
     extensions = JObj [(''bazaar'', JObj [(''info'', JObj [(''input'', JObj [(''type'', JStr ''http''), (''method'', JStr ''GET'')])])])] \<rparr>"

definition demo_shape :: "exn + extraction_result \<Rightarrow> bool" where
  "demo_shape x = (case x of Inr (Candidate c) \<Rightarrow> ca_description c = Some ''Sunn'' \<and> ca_tags c = [''sun'']
     \<and> ca_resourceKey c = ''http|https://w.io|/now|GET'' | _ \<Rightarrow> False)"


end
