(* ===== verification/Cataloger.thy ===== *)
theory Cataloger
  imports Catalog_Runs Orchestrator
begin

text \<open>
  Automatic cataloging (facilitator/src/bazaar/cataloger.ts): extraction, the catalog transaction, the
  record of the attempt and the answer on the wire.  Every path is soft-failing.
\<close>

section \<open>Codes\<close>

definition PUBLIC_REASON :: "rejection_code \<Rightarrow> string" where
  "PUBLIC_REASON c = (case c of
     bazaar_extension_not_an_object \<Rightarrow> ''bazaar extension must be a JSON object''
   | metadata_too_large \<Rightarrow> ''bazaar metadata exceeds the configured size limit''
   | metadata_too_deep \<Rightarrow> ''bazaar metadata exceeds the configured nesting limit''
   | spec_validation_failed \<Rightarrow> ''info failed bazaar specification validation''
   | schema_validation_failed \<Rightarrow> ''info failed schema validation''
   | schema_too_large \<Rightarrow> ''declared schema exceeds the configured size limit''
   | example_too_large \<Rightarrow> ''declared example exceeds the configured size limit''
   | missing_resource_url \<Rightarrow> ''resource.url is required for cataloging''
   | invalid_resource_url \<Rightarrow> ''resource.url is not a valid absolute URL''
   | unsupported_url_scheme \<Rightarrow> ''resource.url uses an unsupported URL scheme''
   | url_credentials_present \<Rightarrow> ''resource.url must not contain credentials''
   | control_characters_in_url \<Rightarrow> ''resource.url contains control characters''
   | insecure_resource_origin \<Rightarrow> ''resource origin must use https''
   | local_resource_origin \<Rightarrow> ''resource origin is not publicly routable''
   | missing_mcp_tool_name \<Rightarrow> ''mcp discovery info requires a tool name''
   | payto_ownership_conflict \<Rightarrow> ''resource is already cataloged for a different payTo''
   | duplicate_change_rejected \<Rightarrow> ''changed declarations are rejected by operator policy''
   | catalog_write_failed \<Rightarrow> ''catalog is temporarily unavailable'')"

definition code_text :: "rejection_code \<Rightarrow> string" where
  "code_text c = (case c of
     bazaar_extension_not_an_object \<Rightarrow> ''bazaar_extension_not_an_object''
   | metadata_too_large \<Rightarrow> ''metadata_too_large''
   | metadata_too_deep \<Rightarrow> ''metadata_too_deep''
   | spec_validation_failed \<Rightarrow> ''spec_validation_failed''
   | schema_validation_failed \<Rightarrow> ''schema_validation_failed''
   | schema_too_large \<Rightarrow> ''schema_too_large''
   | example_too_large \<Rightarrow> ''example_too_large''
   | missing_resource_url \<Rightarrow> ''missing_resource_url''
   | invalid_resource_url \<Rightarrow> ''invalid_resource_url''
   | unsupported_url_scheme \<Rightarrow> ''unsupported_url_scheme''
   | url_credentials_present \<Rightarrow> ''url_credentials_present''
   | control_characters_in_url \<Rightarrow> ''control_characters_in_url''
   | insecure_resource_origin \<Rightarrow> ''insecure_resource_origin''
   | local_resource_origin \<Rightarrow> ''local_resource_origin''
   | missing_mcp_tool_name \<Rightarrow> ''missing_mcp_tool_name''
   | payto_ownership_conflict \<Rightarrow> ''payto_ownership_conflict''
   | duplicate_change_rejected \<Rightarrow> ''duplicate_change_rejected''
   | catalog_write_failed \<Rightarrow> ''catalog_write_failed'')"

definition WIRE_STATUS :: "catalog_outcome \<Rightarrow> wire_status" where
  "WIRE_STATUS out = (case out of Indexed \<Rightarrow> Wire_success | Refreshed \<Rightarrow> Wire_success | Versioned \<Rightarrow> Wire_success
     | PendingOutcome \<Rightarrow> Wire_processing | RejectedOutcome \<Rightarrow> Wire_rejected | Quarantined \<Rightarrow> Wire_rejected | Skipped \<Rightarrow> Wire_processing)"

definition wire_text :: "wire_status \<Rightarrow> string" where
  "wire_text w = (case w of Wire_success \<Rightarrow> ''success'' | Wire_processing \<Rightarrow> ''processing'' | Wire_rejected \<Rightarrow> ''rejected'')"

definition outcome_text :: "catalog_outcome \<Rightarrow> string" where
  "outcome_text out = (case out of Indexed \<Rightarrow> ''indexed'' | Refreshed \<Rightarrow> ''refreshed'' | Versioned \<Rightarrow> ''versioned''
     | PendingOutcome \<Rightarrow> ''pending'' | RejectedOutcome \<Rightarrow> ''rejected'' | Quarantined \<Rightarrow> ''quarantined'' | Skipped \<Rightarrow> ''skipped'')"

definition stage_of :: "stage \<Rightarrow> catalog_stage" where
  "stage_of s = (case s of Verified_stage \<Rightarrow> Seen_verified | Settled_stage \<Rightarrow> Seen_settled)"

section \<open>Observing a request\<close>

text \<open>\<open>record_refused\<close> tells which observation rows the database does not take; the code ignores that.\<close>

record cataloger_env =
  cx_config :: catalog_config
  cx_extract :: extract_env
  cx_catalog :: catalog_env
  cx_networks :: "(string \<times> network_config) list"
  cx_record_refused :: "observation_row \<Rightarrow> bool"

definition record_entry :: "cataloger_env \<Rightarrow> observation_row \<Rightarrow> (catalog_db, unit) io" where
  "record_entry C row = io_modify (\<lambda>d. if cx_record_refused C row then d else recordObservation row d)"

text \<open>The columns every entry shares.\<close>

definition entry_of ::
    "request_envelope \<Rightarrow> cataloging_context \<Rightarrow> catalog_outcome \<Rightarrow> wire_status \<Rightarrow> string option \<Rightarrow> string \<Rightarrow> observation_row" where
  "entry_of request ctx out wire reason internal = (let req = paymentRequirements request in
     \<lparr> ob_resource = None, ob_version = None, ob_resourceKey = None, ob_resourceUrl = None, ob_stage = stage_of (cc_stage ctx),
       ob_outcome = out, ob_wireStatus = wire, ob_rejectedReason = reason, ob_internalReason = Some internal,
       ob_declarationHash = None, ob_network = Some (network req), ob_scheme = Some (scheme req), ob_payTo = Some (payTo req),
       ob_payer = nonempty (cc_payer ctx), ob_record = truthy_id (cc_record ctx) \<rparr>)"

definition rejected_result :: "string \<Rightarrow> cataloging_result" where
  "rejected_result reason = \<lparr> cr_status = ''rejected'', cr_rejectedReason = Some reason, cr_resourceId = None,
     cr_versionId = None, cr_paymentOptionId = None \<rparr>"

definition asset_metadata :: "cataloger_env \<Rightarrow> requirements \<Rightarrow> (string \<times> int) option" where
  "asset_metadata C req = (case map_of (cx_networks C) (network req) of None \<Rightarrow> None
     | Some n \<Rightarrow> map_option (\<lambda>a. (symbol a, decimals a)) (map_of (allowedAssets n) (asset req)))"

definition activates :: "catalog_config \<Rightarrow> stage \<Rightarrow> bool" where
  "activates c st = (indexOn_verified c \<or> st = Settled_stage)"

definition write_context :: "catalog_config \<Rightarrow> stage \<Rightarrow> observation_context" where
  "write_context c st = \<lparr> oc_stage = stage_of st, oc_activate = activates c st, oc_reject_changes = duplicateChanged_reject c \<rparr>"

definition internal_reason :: "catalog_candidate \<Rightarrow> write_result \<Rightarrow> string" where
  "internal_reason c res = (case wr_code res of Some code \<Rightarrow> code_text code
     | None \<Rightarrow> if ca_softDropped c \<noteq> [] then ''soft_dropped:'' @ join '','' (ca_softDropped c) else outcome_text (wr_outcome res))"

definition written_entry ::
    "request_envelope \<Rightarrow> cataloging_context \<Rightarrow> catalog_candidate \<Rightarrow> write_result \<Rightarrow> observation_row" where
  "written_entry request ctx c res = (entry_of request ctx (wr_outcome res) (WIRE_STATUS (wr_outcome res))
       (map_option PUBLIC_REASON (wr_code res)) (internal_reason c res))
     \<lparr>ob_resource := truthy_id (wr_resource res), ob_version := truthy_id (wr_version res), ob_resourceKey := Some (ca_resourceKey c),
      ob_resourceUrl := Some (ca_resourceUrl c), ob_declarationHash := Some (ca_declarationHash c)\<rparr>"

definition failed_entry ::
    "request_envelope \<Rightarrow> cataloging_context \<Rightarrow> catalog_candidate \<Rightarrow> exn \<Rightarrow> observation_row" where
  "failed_entry request ctx c e = (entry_of request ctx RejectedOutcome Wire_rejected (Some (PUBLIC_REASON catalog_write_failed))
       (''catalog_write_failed:'' @ exn_message e))
     \<lparr>ob_resourceKey := Some (ca_resourceKey c), ob_resourceUrl := Some (ca_resourceUrl c),
      ob_declarationHash := Some (ca_declarationHash c), ob_record := None\<rparr>"

definition written_result :: "write_result \<Rightarrow> cataloging_result" where
  "written_result res = \<lparr> cr_status = wire_text (WIRE_STATUS (wr_outcome res)), cr_rejectedReason = map_option PUBLIC_REASON (wr_code res),
     cr_resourceId = truthy_id (wr_resource res), cr_versionId = truthy_id (wr_version res), cr_paymentOptionId = truthy_id (wr_option res) \<rparr>"

definition store_candidate ::
    "cataloger_env \<Rightarrow> int \<Rightarrow> request_envelope \<Rightarrow> cataloging_context \<Rightarrow> catalog_candidate \<Rightarrow> (catalog_db, cataloging_result) io" where
  "store_candidate C now request ctx c = io_catch
     (io_bind (observe (cx_catalog C) now c (write_context (cx_config C) (cc_stage ctx))) (\<lambda>res.
        io_seq (record_entry C (written_entry request ctx c res)) (io_return (written_result res))))
     (\<lambda>e. io_seq (record_entry C (failed_entry request ctx c e)) (io_return (rejected_result (PUBLIC_REASON catalog_write_failed))))"

definition Cataloger_observe ::
    "cataloger_env \<Rightarrow> int \<Rightarrow> request_envelope \<Rightarrow> cataloging_context \<Rightarrow> (catalog_db, cataloging_result option) io" where
  "Cataloger_observe C now request ctx = (let req = paymentRequirements request in
     if \<not> cg_autoCatalog (cx_config C) then io_return None
     else (case extractCandidate (cx_extract C) (cx_config C) (paymentPayload request) req (asset_metadata C req) of
       Inl e \<Rightarrow> io_seq (record_entry C (entry_of request ctx RejectedOutcome Wire_rejected (Some (PUBLIC_REASON spec_validation_failed))
           (''extraction_threw:'' @ exn_message e))) (io_return (Some (rejected_result (PUBLIC_REASON spec_validation_failed))))
     | Inr Absent \<Rightarrow> io_return None
     | Inr (Rejected code detail) \<Rightarrow> io_seq (record_entry C (entry_of request ctx RejectedOutcome Wire_rejected (Some (PUBLIC_REASON code))
           (if truthy_str detail then code_text code @ '': '' @ coalesce detail [] else code_text code)))
         (io_return (Some (rejected_result (PUBLIC_REASON code))))
     | Inr (Candidate c) \<Rightarrow> io_bind (store_candidate C now request ctx c) (\<lambda>r. io_return (Some r))))"

definition encodeExtensionResponses :: "js \<Rightarrow> string" where
  "encodeExtensionResponses v = base64 (stringify v)"

section \<open>As a service of the orchestrator\<close>

text \<open>The catalog tables are the outside part of the orchestrator's world.\<close>

definition catalog_service :: "cataloger_env \<Rightarrow> request_envelope \<Rightarrow> cataloging_context \<Rightarrow> (catalog_db world, cataloging_result option) io" where
  "catalog_service C request ctx w = (case Cataloger_observe C (w_now w) request ctx (w_ext w) of (r, d) \<Rightarrow> (r, w\<lparr>w_ext := d\<rparr>))"

lemma cataloging_never_throws: "\<exists>r d'. Cataloger_observe C now request ctx d = (Inr r, d')"
  by (auto simp: Cataloger_observe_def store_candidate_def record_entry_def io_modify_def io_seq_app io_bind_app io_catch_app Let_def
     split: sum.split prod.split extraction_result.split)

end
