(* ===== verification/Search_Fusion.thy ===== *)
theory Search_Fusion
  imports Catalog_Read "HOL-Library.AList"
begin

text \<open>
  Weighted reciprocal rank fusion and the origin cap (facilitator/src/search/fusion.ts).  Floating-point
  addition and division are parameters: a finite double is the rational number it denotes.
\<close>

record float_ops =
  f_add :: "rat \<Rightarrow> rat \<Rightarrow> rat"
  f_div :: "rat \<Rightarrow> rat \<Rightarrow> rat"

record fusion_input =
  in_resourceId :: int
  in_versionId :: int

record fusion_branch =
  fb_name :: string
  fb_weight :: rat
  fb_candidates :: "fusion_input list"

record fused_result =
  fu_resourceId :: int
  fu_versionId :: int
  fu_score :: rat
  fu_ranks :: "(string \<times> nat) list"

section \<open>Fusion\<close>

text \<open>A Map from resource identifiers to results, in insertion order.\<close>

definition contribute :: "float_ops \<Rightarrow> string \<Rightarrow> rat \<Rightarrow> nat \<Rightarrow> fusion_input \<Rightarrow> fused_result list \<Rightarrow> fused_result list" where
  "contribute F name part rank c fused = (if list_ex (\<lambda>x. fu_resourceId x = in_resourceId c) fused
     then update_where (\<lambda>x. fu_resourceId x = in_resourceId c)
       (\<lambda>x. x\<lparr>fu_score := f_add F (fu_score x) part, fu_ranks := AList.update name rank (fu_ranks x)\<rparr>) fused
     else fused @ [\<lparr> fu_resourceId = in_resourceId c, fu_versionId = in_versionId c, fu_score = part, fu_ranks = [(name, rank)] \<rparr>])"

fun fuse_branch :: "float_ops \<Rightarrow> rat \<Rightarrow> string \<Rightarrow> rat \<Rightarrow> int list \<Rightarrow> nat \<Rightarrow> fusion_input list \<Rightarrow> fused_result list \<Rightarrow> fused_result list" where
  "fuse_branch F k name w seen rank [] fused = fused"
| "fuse_branch F k name w seen rank (c # cs) fused = (if in_resourceId c \<in> set seen
     then fuse_branch F k name w seen rank cs fused
     else fuse_branch F k name w (in_resourceId c # seen) (rank + 1) cs
       (contribute F name (f_div F w (f_add F k (of_nat (rank + 1)))) (rank + 1) c fused))"

definition fuse_step :: "float_ops \<Rightarrow> rat \<Rightarrow> fused_result list \<Rightarrow> fusion_branch \<Rightarrow> fused_result list" where
  "fuse_step F k fused b = (if fb_weight b \<le> 0 then fused
     else fuse_branch F k (fb_name b) (fb_weight b) [] 0 (fb_candidates b) fused)"

text \<open>The comparator: score descending, then resource identifier descending.\<close>

definition compare_fused :: "fused_result \<Rightarrow> fused_result \<Rightarrow> int" where
  "compare_fused l r = (if fu_score r \<noteq> fu_score l then rat_cmp (fu_score r) (fu_score l) else fu_resourceId r - fu_resourceId l)"

definition fuse :: "float_ops \<Rightarrow> fusion_branch list \<Rightarrow> rat \<Rightarrow> fused_result list" where
  "fuse F branches k = js_sort compare_fused (foldl (fuse_step F k) [] branches)"

section \<open>The origin cap\<close>

definition origin_of :: "(int \<times> string) list \<Rightarrow> fused_result \<Rightarrow> string" where
  "origin_of os x = coalesce (map_of os (fu_resourceId x)) (int_to_string (fu_resourceId x))"

text \<open>\<open>seen\<close> lists the origins kept so far, one entry for each result.\<close>

fun diversity_loop :: "(int \<times> string) list \<Rightarrow> nat \<Rightarrow> string list \<Rightarrow> fused_result list \<Rightarrow> fused_result list \<times> fused_result list" where
  "diversity_loop os limit seen [] = ([], [])"
| "diversity_loop os limit seen (x # xs) = (if count_list seen (origin_of os x) \<ge> limit
     then (case diversity_loop os limit seen xs of (kept, overflow) \<Rightarrow> (kept, x # overflow))
     else (case diversity_loop os limit (origin_of os x # seen) xs of (kept, overflow) \<Rightarrow> (x # kept, overflow)))"

definition applyOriginDiversity :: "fused_result list \<Rightarrow> (int \<times> string) list \<Rightarrow> int \<Rightarrow> fused_result list" where
  "applyOriginDiversity results os limit = (if limit \<le> 0 then results
     else (case diversity_loop os (nat limit) [] results of (kept, overflow) \<Rightarrow> kept @ overflow))"

section \<open>The formula\<close>

text \<open>The rank of a document in a branch: its position among the documents without their repetitions.\<close>

definition branch_ids :: "fusion_branch \<Rightarrow> int list" where
  "branch_ids b = insertion_order (map in_resourceId (fb_candidates b))"

definition rank_in :: "int \<Rightarrow> int list \<Rightarrow> nat" where
  "rank_in d ids = length (takeWhile (\<lambda>i. i \<noteq> d) ids) + 1"

definition branch_parts :: "float_ops \<Rightarrow> rat \<Rightarrow> int \<Rightarrow> fusion_branch list \<Rightarrow> rat list" where
  "branch_parts F k d branches = map (\<lambda>b. f_div F (fb_weight b) (f_add F k (of_nat (rank_in d (branch_ids b)))))
     (filter (\<lambda>b. fb_weight b > 0 \<and> d \<in> set (branch_ids b)) branches)"

text \<open>The sum in the order of the branches.\<close>

fun float_sum :: "float_ops \<Rightarrow> rat list \<Rightarrow> rat" where
  "float_sum F [] = 0"
| "float_sum F (x # xs) = foldl (f_add F) x xs"

definition score_of :: "fused_result list \<Rightarrow> int \<Rightarrow> rat option" where
  "score_of fused d = map_option fu_score (find (\<lambda>x. fu_resourceId x = d) fused)"

definition add_part :: "float_ops \<Rightarrow> rat \<Rightarrow> rat option \<Rightarrow> rat option" where
  "add_part F part s = Some (case s of None \<Rightarrow> part | Some v \<Rightarrow> f_add F v part)"

lemma insertion_order_filter: "insertion_order (filter P xs) = filter P (insertion_order xs)"
  by (induction xs) (auto simp: filter_id_conv intro!: filter_cong)

lemma find_update_score:
  "find (\<lambda>x. fu_resourceId x = d) (update_where (\<lambda>x. fu_resourceId x = i) (\<lambda>x. x\<lparr>fu_score := g x, fu_ranks := h x\<rparr>) fused)
   = map_option (\<lambda>x. if fu_resourceId x = i then x\<lparr>fu_score := g x, fu_ranks := h x\<rparr> else x) (find (\<lambda>x. fu_resourceId x = d) fused)"
  by (rule find_update_where) simp

lemma contribute_score: "score_of (contribute F name part rank c fused) d =
    (if d = in_resourceId c then add_part F part (score_of fused d) else score_of fused d)"
proof (cases "list_ex (\<lambda>x. fu_resourceId x = in_resourceId c) fused")
  case True
  then show ?thesis
    by (cases "find (\<lambda>x. fu_resourceId x = d) fused")
      (auto simp: score_of_def contribute_def find_update_score add_part_def list_ex_iff dest: find_SomeD find_NoneD)
next
  case False
  then have "find (\<lambda>x. fu_resourceId x = in_resourceId c) fused = None" by (auto simp: list_ex_iff find_None_iff)
  then show ?thesis using False
    by (cases "find (\<lambda>x. fu_resourceId x = d) fused") (auto simp: score_of_def contribute_def find_append add_part_def)
qed

lemma map_update_where_ids: "map fu_resourceId (update_where p (\<lambda>x. x\<lparr>fu_score := g x, fu_ranks := h x\<rparr>) fused) = map fu_resourceId fused"
  by (rule update_where_keys) simp

lemma contribute_ids: "distinct (map fu_resourceId fused) \<Longrightarrow> distinct (map fu_resourceId (contribute F name part rank c fused))"
  by (auto simp: contribute_def map_update_where_ids list_ex_iff)

text \<open>One branch adds its part to every document it ranks.\<close>

definition fresh_ids :: "int list \<Rightarrow> fusion_input list \<Rightarrow> int list" where
  "fresh_ids seen cs = insertion_order (filter (\<lambda>i. i \<notin> set seen) (map in_resourceId cs))"

lemma fuse_branch_score:
  "score_of (fuse_branch F k name w seen rank cs fused) d = (if d \<in> set (fresh_ids seen cs)
     then add_part F (f_div F w (f_add F k (of_nat (rank + rank_in d (fresh_ids seen cs))))) (score_of fused d) else score_of fused d)"
proof (induction cs arbitrary: seen rank fused)
  case (Cons c cs)
  let ?i = "in_resourceId c"
  show ?case
  proof (cases "?i \<in> set seen")
    case True
    then show ?thesis using Cons.IH by (simp add: fresh_ids_def)
  next
    case False
    have f: "fresh_ids (?i # seen) cs = filter (\<lambda>y. y \<noteq> ?i) (fresh_ids seen cs)" "fresh_ids seen (c # cs) = ?i # filter (\<lambda>y. y \<noteq> ?i) (fresh_ids seen cs)"
      using False by (simp_all add: fresh_ids_def insertion_order_filter conj_commute)
    show ?thesis using False unfolding f by (simp add: Cons.IH f(1) contribute_score rank_in_def)
  qed
qed (simp add: fresh_ids_def)

lemma fuse_branch_ids: "distinct (map fu_resourceId fused) \<Longrightarrow> distinct (map fu_resourceId (fuse_branch F k name w seen rank cs fused))"
  by (induction cs arbitrary: seen rank fused) (auto simp: contribute_ids)

lemma fuse_steps_ids: "distinct (map fu_resourceId fused) \<Longrightarrow> distinct (map fu_resourceId (foldl (fuse_step F k) fused branches))"
  by (induction branches arbitrary: fused) (auto simp: fuse_step_def fuse_branch_ids)

lemma fuse_steps_score:
  "score_of (foldl (fuse_step F k) fused branches) d = fold (add_part F) (branch_parts F k d branches) (score_of fused d)"
proof (induction branches arbitrary: fused)
  case (Cons b branches)
  have "fresh_ids [] (fb_candidates b) = branch_ids b" by (simp add: fresh_ids_def branch_ids_def)
  then have "score_of (fuse_step F k fused b) d = (if fb_weight b > 0 \<and> d \<in> set (branch_ids b)
      then add_part F (f_div F (fb_weight b) (f_add F k (of_nat (rank_in d (branch_ids b))))) (score_of fused d) else score_of fused d)"
    by (auto simp: fuse_step_def fuse_branch_score not_le)
  then show ?case using Cons.IH [of "fuse_step F k fused b"] by (simp add: branch_parts_def)
qed (simp add: branch_parts_def)

lemma add_parts: "fold (add_part F) ps (Some v) = Some (foldl (f_add F) v ps)"
  by (induction ps arbitrary: v) (simp_all add: add_part_def)

lemma all_parts: "fold (add_part F) ps None = (if ps = [] then None else Some (float_sum F ps))"
  by (cases ps) (simp_all add: add_parts, simp add: add_part_def add_parts)

lemma compare_total: "cmp_total compare_fused A"
  unfolding cmp_total_def compare_fused_def rat_cmp_def by (auto split: if_splits)

text \<open>C29.  Fusion computes weighted reciprocal ranks: the results are exactly the documents that some branch of
  positive weight ranks, once each; the score of a document is the sum, in the order of the branches, of weight
  over k plus its rank without repetitions; and they are in strictly descending order of score and, for equal
  scores, of resource identifier.\<close>

theorem fusion_is_weighted_rrf:
  "distinct (map fu_resourceId (fuse F branches k))
   \<and> set (map fu_resourceId (fuse F branches k)) = {d. branch_parts F k d branches \<noteq> []}
   \<and> map fu_score (fuse F branches k) = map (\<lambda>x. float_sum F (branch_parts F k (fu_resourceId x) branches)) (fuse F branches k)
   \<and> sorted_wrt (\<lambda>x y. fu_score x > fu_score y \<or> (fu_score x = fu_score y \<and> fu_resourceId x > fu_resourceId y)) (fuse F branches k)"
proof -
  let ?f = "foldl (fuse_step F k) [] branches"
  have d: "distinct (map fu_resourceId ?f)" by (rule fuse_steps_ids) simp
  have s: "score_of ?f i = (if branch_parts F k i branches = [] then None else Some (float_sum F (branch_parts F k i branches)))" for i
    by (simp add: fuse_steps_score all_parts) (simp add: score_of_def all_parts)
  have x: "find (\<lambda>y. fu_resourceId y = fu_resourceId x) ?f = Some x" if "x \<in> set ?f" for x
    by (rule find_distinct [OF d that]) simp
  have "i \<in> fu_resourceId ` set ?f \<longleftrightarrow> branch_parts F k i branches \<noteq> []" for i
  proof (cases "find (\<lambda>y. fu_resourceId y = i) ?f")
    case None
    then have "branch_parts F k i branches = []" using s [of i] by (simp add: score_of_def split: if_splits)
    then show ?thesis using None by (auto simp: find_None_iff)
  next
    case (Some y)
    then have "branch_parts F k i branches \<noteq> []" using s [of i] by (simp add: score_of_def split: if_splits)
    then show ?thesis using find_SomeD [OF Some] by auto
  qed
  then have ids: "fu_resourceId ` set ?f = {d. branch_parts F k d branches \<noteq> []}" by blast
  have sc: "fu_score x = float_sum F (branch_parts F k (fu_resourceId x) branches)" if "x \<in> set ?f" for x
    using s [of "fu_resourceId x"] x [OF that] by (auto simp: score_of_def split: if_splits)
  have m: "mset (map fu_resourceId (fuse F branches k)) = mset (map fu_resourceId ?f)" by (simp add: fuse_def)
  have dd: "distinct (map fu_resourceId (fuse F branches k))" using mset_eq_imp_distinct_iff [OF m] d by simp
  have so: "sorted_wrt (\<lambda>a b. compare_fused a b \<le> 0) (fuse F branches k)"
    unfolding fuse_def by (rule js_sort_sorted [OF compare_total])
  have "sorted_wrt (\<lambda>a b. compare_fused a b \<le> 0 \<and> fu_resourceId a \<noteq> fu_resourceId b) (fuse F branches k)"
    using so dd by (auto simp: sorted_wrt_iff_nth_less distinct_conv_nth)
  then have "sorted_wrt (\<lambda>x y. fu_score x > fu_score y \<or> (fu_score x = fu_score y \<and> fu_resourceId x > fu_resourceId y)) (fuse F branches k)"
    by (rule sorted_wrt_mono_rel [rotated]) (auto simp: compare_fused_def rat_cmp_def split: if_splits)
  then show ?thesis using dd ids sc by (simp add: fuse_def)
qed

end
