(* ===== verification/Search_Store.thy ===== *)
theory Search_Store
  imports Catalog_Runs
begin

text \<open>
  The store of the search index (facilitator/src/db/search.ts): generations of embedding models, their
  storage tables and the queue of embedding jobs, on the tables of the catalog.  A statement, or a
  transaction, is one step on the database; before every step other workers and requests may run: that is the
  parameter \<open>ix_yield\<close>.  The extension pgvector is installed or not: \<open>ix_vectors\<close>.
\<close>

section \<open>The world\<close>

datatype health_status = Ready | Degraded | Disabled

record provider_health =
  ph_status :: health_status
  ph_detail :: "string option"

record worker_state =
  wk_running :: bool
  wk_generation :: "generation_row option"
  wk_provider :: provider_health
  wk_vectorSupport :: bool
  wk_processed :: int
  wk_failed :: int
  wk_deadLettered :: int
  wk_lastError :: "string option"
  wk_lastRunAt :: "int option"

record session_row =
  ss_id :: string
  ss_queryHash :: string
  ss_queryText :: "string option"
  ss_resources :: "int list"
  ss_versions :: "int list"
  ss_createdAt :: int

record fetch_row =
  fe_session :: string
  fe_resource :: int
  fe_version :: int
  fe_position :: nat

record 'i feedback_tables =
  sessions :: "session_row list"
  impressions :: "'i list"
  fetches :: "fetch_row list"

record ('i, 'x) search_world =
  sw_db :: catalog_db
  sw_feedback :: "'i feedback_tables"
  sw_worker :: worker_state
  sw_generation :: "generation_row option"
  sw_now :: int
  sw_ext :: 'x

record ('i, 'x) index_env =
  ix_yield :: "('i, 'x) search_world \<Rightarrow> ('i, 'x) search_world"
  ix_locked :: "('i, 'x) search_world \<Rightarrow> job_row \<Rightarrow> bool"
  ix_vectors :: bool

text \<open>One statement or transaction on the database, at its current time.\<close>

definition index_op :: "('i, 'x) index_env \<Rightarrow> (int \<Rightarrow> (catalog_db, 'a) io) \<Rightarrow> (('i, 'x) search_world, 'a) io" where
  "index_op V f = (\<lambda>w. let w1 = ix_yield V w in case f (sw_now w1) (sw_db w1) of (r, d) \<Rightarrow> (r, w1\<lparr>sw_db := d\<rparr>))"

definition index_read :: "('i, 'x) index_env \<Rightarrow> (catalog_db \<Rightarrow> 'a) \<Rightarrow> (('i, 'x) search_world, 'a) io" where
  "index_read V f = index_op V (\<lambda>now d. (Inr (f d), d))"

definition on_index :: "(index_tables \<Rightarrow> index_tables) \<Rightarrow> catalog_db \<Rightarrow> catalog_db" where
  "on_index f d = d\<lparr>index := f (index d)\<rparr>"

definition index_write :: "('i, 'x) index_env \<Rightarrow> (int \<Rightarrow> index_tables \<Rightarrow> index_tables) \<Rightarrow> (('i, 'x) search_world, unit) io" where
  "index_write V f = index_op V (\<lambda>now d. (Inr (), on_index (f now) d))"

section \<open>Generations\<close>

definition generationTable :: "int \<Rightarrow> exn + string" where
  "generationTable n = (if n > 9007199254740991 \<or> n < 0 then Inl (JsError (''invalid generation id '' @ int_to_string n))
     else Inr (''catalog_embeddings_g'' @ int_to_string n))"

definition storage_of :: "int \<Rightarrow> index_tables \<Rightarrow> embedding_row list option" where
  "storage_of n x = (case generationTable n of Inl _ \<Rightarrow> None | Inr name \<Rightarrow> map_of (storages x) name)"

definition on_storage :: "int \<Rightarrow> (embedding_row list \<Rightarrow> embedding_row list) \<Rightarrow> index_tables \<Rightarrow> index_tables" where
  "on_storage n f x = (case generationTable n of Inl _ \<Rightarrow> x
     | Inr name \<Rightarrow> x\<lparr>storages := map (\<lambda>(k, rows). (k, if k = name then f rows else rows)) (storages x)\<rparr>)"

definition no_relation :: "int \<Rightarrow> exn" where
  "no_relation n = JsError (''relation catalog_embeddings_g'' @ int_to_string n @ '' does not exist'')"

definition hasVectorSupport :: "('i, 'x) index_env \<Rightarrow> bool" where
  "hasVectorSupport V = ix_vectors V"

definition insert_generation :: "model_key \<Rightarrow> string option \<Rightarrow> (catalog_db, generation_row) io" where
  "insert_generation k checksum = (\<lambda>d. let x = index d; row = \<lparr> gn_id = generation_seq x, gn_key = k, gn_checksum = checksum,
       gn_status = Generation_building, gn_indexed = 0, gn_lastError = None \<rparr>; x1 = x\<lparr>generation_seq := generation_seq x + 1\<rparr> in
     if mk_dimension k < 1 \<or> mk_dimension k > 16000 then (Inl (JsError ''violates check constraint''), d\<lparr>index := x1\<rparr>)
     else (Inr row, d\<lparr>index := x1\<lparr>generations := generations x @ [row]\<rparr>\<rparr>))"

definition retire_active :: "int \<Rightarrow> index_tables \<Rightarrow> index_tables" where
  "retire_active n x = x\<lparr>generations := update_where (\<lambda>g. gn_status g = Generation_active \<and> gn_id g \<noteq> n)
     (\<lambda>g. g\<lparr>gn_status := Generation_retired\<rparr>) (generations x)\<rparr>"

definition make_active :: "string option \<Rightarrow> generation_row \<Rightarrow> generation_row" where
  "make_active checksum g = g\<lparr>gn_status := Generation_active, gn_lastError := None,
     gn_checksum := (case checksum of Some s \<Rightarrow> Some s | None \<Rightarrow> gn_checksum g)\<rparr>"

definition activate_row :: "int \<Rightarrow> string option \<Rightarrow> index_tables \<Rightarrow> index_tables" where
  "activate_row n checksum x = x\<lparr>generations := update_where (\<lambda>g. gn_id g = n) (make_active checksum) (generations x)\<rparr>"

text \<open>\<open>search_create_generation_storage\<close>: nothing without pgvector or when the table is there.\<close>

definition create_storage :: "bool \<Rightarrow> int \<Rightarrow> index_tables \<Rightarrow> index_tables" where
  "create_storage vectors n x = (case generationTable n of Inl _ \<Rightarrow> x
     | Inr name \<Rightarrow> if \<not> vectors \<or> name \<in> fst ` set (storages x) then x else x\<lparr>storages := storages x @ [(name, [])]\<rparr>)"

definition activate_body :: "bool \<Rightarrow> model_key \<Rightarrow> string option \<Rightarrow> (catalog_db, generation_row) io" where
  "activate_body vectors k checksum = io_bind io_get (\<lambda>d.
     io_bind (case find (\<lambda>g. gn_key g = k) (generations (index d)) of
         Some g \<Rightarrow> io_return g | None \<Rightarrow> insert_generation k checksum) (\<lambda>row.
     io_bind (if gn_status row = Generation_active then io_return row
        else io_seq (io_modify (on_index (activate_row (gn_id row) checksum \<circ> retire_active (gn_id row))))
          (io_return (make_active checksum row))) (\<lambda>active.
     io_seq (io_modify (on_index (create_storage vectors (gn_id row)))) (io_return active))))"

text \<open>ROLLBACK keeps what was drawn from the sequence.\<close>

definition activateGeneration :: "bool \<Rightarrow> model_key \<Rightarrow> string option \<Rightarrow> (catalog_db, generation_row) io" where
  "activateGeneration vectors k checksum d = (case activate_body vectors k checksum d of
     (Inr g, d') \<Rightarrow> (Inr g, d')
   | (Inl e, d') \<Rightarrow> (Inl e, on_index (\<lambda>x. x\<lparr>generation_seq := generation_seq (index d')\<rparr>) d))"

definition activeGeneration :: "catalog_db \<Rightarrow> generation_row option" where
  "activeGeneration d = find (\<lambda>g. gn_status g = Generation_active) (generations (index d))"

definition recordGenerationError :: "int \<Rightarrow> string \<Rightarrow> index_tables \<Rightarrow> index_tables" where
  "recordGenerationError n message x = x\<lparr>generations := update_where (\<lambda>g. gn_id g = n)
     (\<lambda>g. g\<lparr>gn_lastError := Some (js_slice 2000 message)\<rparr>) (generations x)\<rparr>"

section \<open>The queue\<close>

definition adopt_unassigned :: "int \<Rightarrow> int \<Rightarrow> index_tables \<Rightarrow> index_tables" where
  "adopt_unassigned n now x = x\<lparr>jobs := update_where
     (\<lambda>j. jo_generation j = 0 \<and> \<not> list_ex (\<lambda>y. jo_generation y = n \<and> jo_version y = jo_version j) (jobs x))
     (\<lambda>j. j\<lparr>jo_generation := n, jo_state := Job_pending, jo_nextRun := now\<rparr>) (jobs x)\<rparr>"

definition drop_unassigned :: "index_tables \<Rightarrow> index_tables" where
  "drop_unassigned x = x\<lparr>jobs := filter (\<lambda>j. jo_generation j \<noteq> 0) (jobs x)\<rparr>"

definition current_vector :: "search_document_row \<Rightarrow> embedding_row \<Rightarrow> bool" where
  "current_vector row e = (em_version e = sd_version row \<and> em_sourceHash e = sd_sourceHash row \<and> em_ready e)"

definition active_document :: "catalog_db \<Rightarrow> search_document_row \<Rightarrow> bool" where
  "active_document d row = list_ex (\<lambda>v. cv_id v = sd_version row \<and> cv_status v = V_active) (versions d)"

text \<open>The state of a job that is enqueued again.\<close>

definition requeued_state :: "string \<Rightarrow> job_row \<Rightarrow> job_state" where
  "requeued_state h j = (if jo_state j = Job_dead then Job_dead
     else if jo_sourceHash j = h \<and> jo_state j = Job_done then Job_done else Job_pending)"

definition enqueue_document :: "int \<Rightarrow> int \<Rightarrow> search_document_row \<Rightarrow> index_tables \<Rightarrow> index_tables" where
  "enqueue_document n now row x = (let same = (\<lambda>j. jo_version j = sd_version row \<and> jo_generation j = n) in
     x\<lparr>job_seq := job_seq x + 1, jobs := (if list_ex same (jobs x)
       then update_where same (\<lambda>j. j\<lparr>jo_sourceHash := sd_sourceHash row, jo_state := requeued_state (sd_sourceHash row) j,
              jo_nextRun := min (jo_nextRun j) now\<rparr>) (jobs x)
       else jobs x @ [\<lparr> jo_id = job_seq x, jo_resource = sd_resource row, jo_version = sd_version row, jo_generation = n,
         jo_sourceHash = sd_sourceHash row, jo_state = Job_pending, jo_attempts = 0, jo_leaseOwner = None, jo_leaseUntil = None,
         jo_fencing = 0, jo_nextRun = now, jo_lastError = None, jo_deadReason = None \<rparr>])\<rparr>)"

definition missing_documents :: "embedding_row list \<Rightarrow> catalog_db \<Rightarrow> search_document_row list" where
  "missing_documents rows d = filter (\<lambda>row. active_document d row \<and> \<not> list_ex (current_vector row) rows) (documents d)"

definition enqueue_documents :: "int \<Rightarrow> int \<Rightarrow> (catalog_db, nat) io" where
  "enqueue_documents n now d = (case storage_of n (index d) of None \<Rightarrow> (Inl (no_relation n), d)
     | Some rows \<Rightarrow> let missing = missing_documents rows d in
         (Inr (length missing), on_index (fold (enqueue_document n now) missing) d))"

definition enqueueMissing :: "('i, 'x) index_env \<Rightarrow> int \<Rightarrow> (('i, 'x) search_world, nat) io" where
  "enqueueMissing V n = (if \<not> hasVectorSupport V then io_return 0
     else io_seq (index_write V (adopt_unassigned n)) (io_seq (index_write V (\<lambda>_. drop_unassigned))
       (io_bind (lift_sum (generationTable n)) (\<lambda>_. index_op V (enqueue_documents n)))))"

record embedding_job =
  ej_id :: int
  ej_version :: int
  ej_resource :: int
  ej_generation :: int
  ej_sourceHash :: string
  ej_attempts :: int
  ej_fencing :: int
  ej_document :: string

definition claimable :: "int \<Rightarrow> int \<Rightarrow> job_row \<Rightarrow> bool" where
  "claimable n now j = (jo_generation j = n \<and> jo_nextRun j \<le> now
     \<and> (jo_state j = Job_pending \<or> (jo_state j = Job_leased \<and> (case jo_leaseUntil j of None \<Rightarrow> False | Some u \<Rightarrow> u < now))))"

definition run_order :: "job_row \<Rightarrow> job_row \<Rightarrow> int" where
  "run_order a b = then_by (jo_nextRun a - jo_nextRun b) (jo_id a - jo_id b)"

definition leased_job :: "string \<Rightarrow> int \<Rightarrow> job_row \<Rightarrow> job_row" where
  "leased_job worker until j = j\<lparr>jo_state := Job_leased, jo_leaseOwner := Some worker, jo_leaseUntil := Some until,
     jo_fencing := jo_fencing j + 1\<rparr>"

definition claimed_job :: "catalog_db \<Rightarrow> job_row \<Rightarrow> embedding_job option" where
  "claimed_job d j = map_option (\<lambda>k. \<lparr> ej_id = jo_id j, ej_version = jo_version j, ej_resource = jo_resource j,
     ej_generation = jo_generation j, ej_sourceHash = jo_sourceHash j, ej_attempts = jo_attempts j, ej_fencing = jo_fencing j,
     ej_document = document k \<rparr>) (document_of d (jo_version j))"

text \<open>FOR UPDATE SKIP LOCKED: rows that another transaction has locked are passed over.\<close>

definition claimJobs :: "(job_row \<Rightarrow> bool) \<Rightarrow> int \<Rightarrow> string \<Rightarrow> int \<Rightarrow> nat \<Rightarrow> int \<Rightarrow> catalog_db \<Rightarrow> embedding_job list \<times> catalog_db" where
  "claimJobs locked n worker leaseMs batchSize now d = (let candidates = take batchSize (js_sort run_order
       (filter (\<lambda>j. claimable n now j \<and> \<not> locked j) (jobs (index d)))); ids = map jo_id candidates in
     (concat (map (\<lambda>j. case claimed_job d (leased_job worker (now + leaseMs) j) of None \<Rightarrow> [] | Some e \<Rightarrow> [e]) candidates),
      on_index (\<lambda>x. x\<lparr>jobs := update_where (\<lambda>j. jo_id j \<in> set ids) (leased_job worker (now + leaseMs)) (jobs x)\<rparr>) d))"

definition orphan :: "int \<Rightarrow> string \<Rightarrow> catalog_db \<Rightarrow> job_row \<Rightarrow> bool" where
  "orphan n worker d j = (jo_generation j = n \<and> jo_leaseOwner j = Some worker \<and> jo_state j = Job_leased
     \<and> document_of d (jo_version j) = None)"

definition discardOrphans :: "int \<Rightarrow> string \<Rightarrow> catalog_db \<Rightarrow> nat \<times> catalog_db" where
  "discardOrphans n worker d = (length (filter (orphan n worker d) (jobs (index d))),
     on_index (\<lambda>x. x\<lparr>jobs := update_where (orphan n worker d) (\<lambda>j. j\<lparr>jo_state := Job_dead,
       jo_deadReason := Some ''document missing'', jo_leaseOwner := None, jo_leaseUntil := None\<rparr>) (jobs x)\<rparr>) d)"

section \<open>Storing vectors\<close>

definition assertFence :: "embedding_job \<Rightarrow> index_tables \<Rightarrow> bool" where
  "assertFence e x = (case find (\<lambda>j. jo_id j = ej_id e) (jobs x) of None \<Rightarrow> False | Some j \<Rightarrow> jo_fencing j = ej_fencing e)"

definition upsert_vector :: "embedding_row \<Rightarrow> embedding_row list \<Rightarrow> embedding_row list" where
  "upsert_vector e rows = (if list_ex (\<lambda>y. em_version y = em_version e) rows
     then update_where (\<lambda>y. em_version y = em_version e) (\<lambda>y. e\<lparr>em_resource := em_resource y\<rparr>) rows else rows @ [e])"

definition vector_row :: "generation_row \<Rightarrow> embedding_job \<Rightarrow> rat list \<Rightarrow> int \<Rightarrow> embedding_row" where
  "vector_row g e v created = \<lparr> em_version = ej_version e, em_resource = ej_resource e, em_key = gn_key g, em_vector = v,
     em_sourceHash = ej_sourceHash e, em_created = created, em_ready = True \<rparr>"

definition released :: "job_state \<Rightarrow> job_row \<Rightarrow> job_row" where
  "released st j = j\<lparr>jo_state := st, jo_leaseOwner := None, jo_leaseUntil := None\<rparr>"

definition on_job :: "int \<Rightarrow> (job_row \<Rightarrow> job_row) \<Rightarrow> index_tables \<Rightarrow> index_tables" where
  "on_job n f x = x\<lparr>jobs := update_where (\<lambda>j. jo_id j = n) f (jobs x)\<rparr>"

text \<open>One entry: nothing under a stale token; back to the queue when the document moved on.\<close>

definition store_entry :: "generation_row \<Rightarrow> int \<Rightarrow> search_document_row list \<Rightarrow> embedding_job \<times> rat list \<Rightarrow> index_tables \<Rightarrow> bool \<times> index_tables" where
  "store_entry g now docs entry x = (case entry of (e, v) \<Rightarrow>
     if \<not> assertFence e x then (False, x)
     else case find (\<lambda>row. sd_version row = ej_version e) docs of
         None \<Rightarrow> (False, on_job (ej_id e) (\<lambda>j. (released Job_pending j)\<lparr>jo_nextRun := now\<rparr>) x)
       | Some row \<Rightarrow> if sd_sourceHash row \<noteq> ej_sourceHash e
           then (False, on_job (ej_id e) (\<lambda>j. (released Job_pending j)\<lparr>jo_nextRun := now\<rparr>) x)
         else (True, on_job (ej_id e) (\<lambda>j. (released Job_done j)\<lparr>jo_lastError := None\<rparr>)
                (on_storage (gn_id g) (upsert_vector (vector_row g e v (sd_created row))) x)))"

fun store_entries :: "generation_row \<Rightarrow> int \<Rightarrow> search_document_row list \<Rightarrow> (embedding_job \<times> rat list) list \<Rightarrow> nat \<Rightarrow> index_tables \<Rightarrow> exn + nat \<times> index_tables" where
  "store_entries g now docs [] stored x = Inr (stored, x)"
| "store_entries g now docs (entry # es) stored x = (if length (snd entry) \<noteq> mk_dimension (gn_key g)
     then Inl (JsError (''refusing to store dimension '' @ nat_to_string (length (snd entry)) @ '' into generation ''
       @ int_to_string (gn_id g) @ '' ('' @ nat_to_string (mk_dimension (gn_key g)) @ '')''))
     else if storage_of (gn_id g) x = None \<and> assertFence (fst entry) x
       \<and> (case find (\<lambda>row. sd_version row = ej_version (fst entry)) docs of None \<Rightarrow> False | Some row \<Rightarrow> sd_sourceHash row = ej_sourceHash (fst entry))
       then Inl (no_relation (gn_id g))
     else (case store_entry g now docs entry x of (ok, x1) \<Rightarrow> store_entries g now docs es (if ok then stored + 1 else stored) x1))"

definition count_indexed :: "int \<Rightarrow> index_tables \<Rightarrow> index_tables" where
  "count_indexed n x = x\<lparr>generations := update_where (\<lambda>g. gn_id g = n)
     (\<lambda>g. g\<lparr>gn_indexed := int (length (filter em_ready (coalesce (storage_of n x) [])))\<rparr>) (generations x)\<rparr>"

text \<open>A transaction: a failure rolls every entry back.\<close>

definition storeEmbeddings :: "generation_row \<Rightarrow> (embedding_job \<times> rat list) list \<Rightarrow> int \<Rightarrow> (catalog_db, nat) io" where
  "storeEmbeddings g entries now d = (if entries = [] then (Inr 0, d)
     else case generationTable (gn_id g) of Inl e \<Rightarrow> (Inl e, d)
     | Inr _ \<Rightarrow> (case store_entries g now (documents d) entries 0 (index d) of Inl e \<Rightarrow> (Inl e, d)
        | Inr (stored, x) \<Rightarrow> if storage_of (gn_id g) x = None then (Inl (no_relation (gn_id g)), d)
            else (Inr stored, d\<lparr>index := count_indexed (gn_id g) x\<rparr>)))"

section \<open>Failures\<close>

record retry_limits =
  rl_maxAttempts :: int
  rl_backoffBaseMs :: int
  rl_backoffMaxMs :: int

definition backoff :: "retry_limits \<Rightarrow> int \<Rightarrow> int" where
  "backoff l attempts = min (rl_backoffBaseMs l * 2 ^ nat (attempts - 1)) (rl_backoffMaxMs l)"

definition fail_job :: "embedding_job \<Rightarrow> string \<Rightarrow> retry_limits \<Rightarrow> int \<Rightarrow> index_tables \<Rightarrow> index_tables" where
  "fail_job e message l now x = (let attempts = ej_attempts e + 1; exhausted = attempts \<ge> rl_maxAttempts l; text = js_slice 2000 message in
     x\<lparr>jobs := update_where (\<lambda>j. jo_id j = ej_id e \<and> jo_fencing j = ej_fencing e)
       (\<lambda>j. j\<lparr>jo_attempts := attempts, jo_state := (if exhausted then Job_dead else Job_pending),
          jo_deadReason := (if exhausted then Some text else jo_deadReason j), jo_lastError := Some text,
          jo_nextRun := now + backoff l attempts, jo_leaseOwner := None, jo_leaseUntil := None\<rparr>) (jobs x)\<rparr>)"

fun failJobs :: "('i, 'x) index_env \<Rightarrow> embedding_job list \<Rightarrow> string \<Rightarrow> retry_limits \<Rightarrow> int \<Rightarrow> int \<Rightarrow> (('i, 'x) search_world, int \<times> int) io" where
  "failJobs V [] message l retried dead = io_return (retried, dead)"
| "failJobs V (e # es) message l retried dead = io_seq (index_write V (fail_job e message l))
     (if ej_attempts e + 1 \<ge> rl_maxAttempts l then failJobs V es message l retried (dead + 1)
      else failJobs V es message l (retried + 1) dead)"

definition revive :: "int \<Rightarrow> int \<Rightarrow> index_tables \<Rightarrow> nat \<times> index_tables" where
  "revive n now x = (let dead = (\<lambda>j. jo_generation j = n \<and> jo_state j = Job_dead) in
     (length (filter dead (jobs x)), x\<lparr>jobs := update_where dead (\<lambda>j. j\<lparr>jo_state := Job_pending, jo_attempts := 0,
        jo_deadReason := None, jo_nextRun := now\<rparr>) (jobs x)\<rparr>))"

section \<open>Coverage and staleness\<close>

definition queueDepth :: "int \<Rightarrow> index_tables \<Rightarrow> job_state \<Rightarrow> nat" where
  "queueDepth n x st = length (filter (\<lambda>j. jo_generation j = n \<and> jo_state j = st) (jobs x))"

record index_coverage =
  ic_generation :: int
  ic_expected :: nat
  ic_indexed :: nat
  ic_pending :: nat
  ic_failed :: nat
  ic_complete :: bool

definition no_coverage :: "int \<Rightarrow> index_coverage" where
  "no_coverage n = \<lparr> ic_generation = n, ic_expected = 0, ic_indexed = 0, ic_pending = 0, ic_failed = 0, ic_complete = False \<rparr>"

definition expected_documents :: "catalog_db \<Rightarrow> nat" where
  "expected_documents d = length (filter (active_document d) (documents d))"

definition indexed_documents :: "embedding_row list \<Rightarrow> catalog_db \<Rightarrow> nat" where
  "indexed_documents rows d = length (filter (\<lambda>row. active_document d row \<and> list_ex (current_vector row) rows) (documents d))"

definition coverage_of :: "int \<Rightarrow> nat \<times> nat \<Rightarrow> (job_state \<Rightarrow> nat) \<Rightarrow> index_coverage" where
  "coverage_of n counts depth = (case counts of (expected, indexed) \<Rightarrow>
     let pending = depth Job_pending + depth Job_leased; failed = depth Job_failed + depth Job_dead in
     \<lparr> ic_generation = n, ic_expected = expected, ic_indexed = indexed, ic_pending = pending, ic_failed = failed,
       ic_complete = (expected = indexed \<and> pending = 0 \<and> failed = 0) \<rparr>)"

definition indexCoverage :: "('i, 'x) index_env \<Rightarrow> int \<Rightarrow> (('i, 'x) search_world, index_coverage) io" where
  "indexCoverage V n = (if \<not> hasVectorSupport V then io_return (no_coverage n)
     else io_bind (lift_sum (generationTable n)) (\<lambda>_. io_bind (index_read V (\<lambda>d. storage_of n (index d) \<noteq> None)) (\<lambda>present.
       if \<not> present then io_return (no_coverage n)
       else io_bind (index_op V (\<lambda>now d. case storage_of n (index d) of None \<Rightarrow> (Inl (no_relation n), d)
              | Some rows \<Rightarrow> (Inr (expected_documents d, indexed_documents rows d), d))) (\<lambda>counts.
         io_bind (index_read V (\<lambda>d. queueDepth n (index d))) (\<lambda>depth. io_return (coverage_of n counts depth))))))"

definition mark_stale :: "search_document_row list \<Rightarrow> embedding_row \<Rightarrow> embedding_row" where
  "mark_stale docs e = (if em_ready e \<and> list_ex (\<lambda>row. sd_version row = em_version e \<and> sd_sourceHash row \<noteq> em_sourceHash e) docs
     then e\<lparr>em_ready := False\<rparr> else e)"

definition propagateStaleness :: "('i, 'x) index_env \<Rightarrow> int \<Rightarrow> (('i, 'x) search_world, nat) io" where
  "propagateStaleness V n = (if \<not> hasVectorSupport V then io_return 0
     else io_bind (lift_sum (generationTable n)) (\<lambda>_. io_bind (index_read V (\<lambda>d. storage_of n (index d) \<noteq> None)) (\<lambda>present.
       if \<not> present then io_return 0
       else index_op V (\<lambda>now d. case storage_of n (index d) of None \<Rightarrow> (Inl (no_relation n), d)
         | Some rows \<Rightarrow> (Inr (length (filter (\<lambda>e. mark_stale (documents d) e \<noteq> e) rows)),
             on_index (on_storage n (map (mark_stale (documents d)))) d)))))"

end
