(* ===== verification/Search_Worker.thy ===== *)
theory Search_Worker
  imports Search_Store
begin

text \<open>
  The indexer (facilitator/src/search/worker.ts) and the check of a provider's answer (search/types.ts).  The
  embedding provider is a parameter; a number that is not finite is \<open>None\<close>.  The timer that repeats
  \<open>runOnce\<close> (\<open>start\<close>, \<open>stop\<close>) is left out.
\<close>

record ('i, 'x) embedding_provider =
  pv_key :: model_key
  pv_checksum :: "string option"
  pv_warm :: "(('i, 'x) search_world, provider_health) io option"
  pv_health :: "(('i, 'x) search_world, provider_health) io"
  pv_embed :: "string list \<Rightarrow> (('i, 'x) search_world, rat option list list) io"

record indexing_config =
  cf_enabled :: bool
  cf_workerConcurrency :: nat
  cf_leaseMs :: int
  cf_batchSize :: nat
  cf_retry :: retry_limits

definition no_health :: provider_health where
  "no_health = \<lparr> ph_status = Disabled, ph_detail = None \<rparr>"

definition fresh_worker :: worker_state where
  "fresh_worker = \<lparr> wk_running = False, wk_generation = None, wk_provider = no_health, wk_vectorSupport = False, wk_processed = 0,
     wk_failed = 0, wk_deadLettered = 0, wk_lastError = None, wk_lastRunAt = None \<rparr>"

section \<open>The answer of a provider\<close>

definition wrong_count :: "nat \<Rightarrow> nat \<Rightarrow> exn" where
  "wrong_count n m = JsError (''embedding provider returned '' @ nat_to_string n @ '' vectors for '' @ nat_to_string m @ '' inputs'')"

fun validate_each :: "nat \<Rightarrow> rat option list list \<Rightarrow> exn + rat list list" where
  "validate_each expected [] = Inr []"
| "validate_each expected (v # vs) = (if length v \<noteq> expected
     then Inl (JsError (''embedding provider returned dimension '' @ nat_to_string (length v) @ '', expected '' @ nat_to_string expected))
     else if None \<in> set v then Inl (JsError ''embedding provider returned a non-finite value'')
     else sum_bind (validate_each expected vs) (\<lambda>ws. Inr (map the v # ws)))"

definition validateVectors :: "rat option list list \<Rightarrow> nat \<Rightarrow> nat \<Rightarrow> exn + rat list list" where
  "validateVectors vectors expected count1 = (if length vectors \<noteq> count1 then Inl (wrong_count (length vectors) count1)
     else validate_each expected vectors)"

section \<open>The worker\<close>

definition set_worker :: "(worker_state \<Rightarrow> worker_state) \<Rightarrow> (('i, 'x) search_world, unit) io" where
  "set_worker f = io_modify (\<lambda>w. w\<lparr>sw_worker := f (sw_worker w)\<rparr>)"

definition set_health :: "health_status \<Rightarrow> string option \<Rightarrow> (('i, 'x) search_world, unit) io" where
  "set_health st detail = set_worker (\<lambda>k. k\<lparr>wk_provider := \<lparr> ph_status = st, ph_detail = detail \<rparr>\<rparr>)"

definition worker_status :: "worker_state \<Rightarrow> worker_state" where
  "worker_status k = k\<lparr>wk_lastError := (if truthy_str (wk_lastError k) then wk_lastError k else None)\<rparr>"

definition status :: "(('i, 'x) search_world, worker_state) io" where
  "status = (\<lambda>w. (Inr (worker_status (sw_worker w)), w))"

definition degraded_by :: "exn \<Rightarrow> provider_health" where
  "degraded_by e = \<lparr> ph_status = Degraded, ph_detail = Some (exn_message e) \<rparr>"

definition probe :: "('i, 'x) embedding_provider \<Rightarrow> (('i, 'x) search_world, provider_health) io" where
  "probe P = (case pv_warm P of
     Some warm \<Rightarrow> io_catch warm (\<lambda>e. io_return (degraded_by e))
   | None \<Rightarrow> io_catch (pv_health P) (\<lambda>e. io_return \<lparr> ph_status = Degraded, ph_detail = None \<rparr>))"

definition register_generation :: "('i, 'x) index_env \<Rightarrow> ('i, 'x) embedding_provider \<Rightarrow> (('i, 'x) search_world, unit) io" where
  "register_generation V P = io_bind (index_op V (\<lambda>now. activateGeneration (hasVectorSupport V) (pv_key P) (pv_checksum P))) (\<lambda>g.
     io_seq (set_worker (\<lambda>k. k\<lparr>wk_generation := Some g\<rparr>))
       (io_bind (propagateStaleness V (gn_id g)) (\<lambda>_. io_bind (enqueueMissing V (gn_id g)) (\<lambda>_. io_return ()))))"

definition prepare :: "('i, 'x) index_env \<Rightarrow> indexing_config \<Rightarrow> ('i, 'x) embedding_provider option \<Rightarrow> (('i, 'x) search_world, worker_state) io" where
  "prepare V c provider = (case provider of
     None \<Rightarrow> io_seq (set_health Disabled (Some ''semantic search is disabled'')) status
   | Some P \<Rightarrow> if \<not> cf_enabled c then io_seq (set_health Disabled (Some ''semantic search is disabled'')) status
     else io_seq (set_worker (\<lambda>k. k\<lparr>wk_vectorSupport := hasVectorSupport V\<rparr>))
       (if \<not> hasVectorSupport V
        then io_seq (set_health Degraded (Some ''pgvector is not installed on this PostgreSQL server; running lexical-only'')) status
        else io_bind (probe P) (\<lambda>h. io_seq (set_worker (\<lambda>k. k\<lparr>wk_provider := h\<rparr>))
          (io_seq (io_catch (register_generation V P) (\<lambda>e. set_worker (\<lambda>k. k\<lparr>wk_lastError := Some (exn_message e), wk_provider := degraded_by e\<rparr>)))
            status))))"

definition embed_jobs :: "('i, 'x) index_env \<Rightarrow> ('i, 'x) embedding_provider \<Rightarrow> generation_row \<Rightarrow> embedding_job list \<Rightarrow> (('i, 'x) search_world, nat) io" where
  "embed_jobs V P g es = io_bind (pv_embed P (map ej_document es)) (\<lambda>answer.
     io_bind (lift_sum (validateVectors answer (mk_dimension (gn_key g)) (length es))) (\<lambda>vectors.
     io_bind (index_op V (storeEmbeddings g (zip es vectors))) (\<lambda>stored.
     io_seq (set_worker (\<lambda>k. k\<lparr>wk_processed := wk_processed k + int stored, wk_provider := \<lparr> ph_status = Ready, ph_detail = None \<rparr>,
          wk_lastError := None\<rparr>))
       (io_return stored))))"

definition batch_failed :: "('i, 'x) index_env \<Rightarrow> indexing_config \<Rightarrow> generation_row \<Rightarrow> embedding_job list \<Rightarrow> exn \<Rightarrow> (('i, 'x) search_world, nat) io" where
  "batch_failed V c g es e = (let message = exn_message e in
     io_seq (set_worker (\<lambda>k. k\<lparr>wk_lastError := Some message, wk_provider := degraded_by e\<rparr>))
       (io_bind (failJobs V es message (cf_retry c) 0 0) (\<lambda>(retried, dead).
         io_seq (set_worker (\<lambda>k. k\<lparr>wk_failed := wk_failed k + retried, wk_deadLettered := wk_deadLettered k + dead\<rparr>))
           (io_seq (io_catch (index_write V (\<lambda>_. recordGenerationError (gn_id g) message)) (\<lambda>_. io_return ()))
             (io_return 0)))))"

definition processBatch :: "('i, 'x) index_env \<Rightarrow> indexing_config \<Rightarrow> ('i, 'x) embedding_provider \<Rightarrow> generation_row \<Rightarrow> embedding_job list \<Rightarrow> (('i, 'x) search_world, nat) io" where
  "processBatch V c P g es = io_catch (embed_jobs V P g es) (batch_failed V c g es)"

definition claim_op :: "('i, 'x) index_env \<Rightarrow> indexing_config \<Rightarrow> string \<Rightarrow> int \<Rightarrow> (('i, 'x) search_world, embedding_job list) io" where
  "claim_op V c me n = (\<lambda>w. let w1 = ix_yield V w in
     case claimJobs (ix_locked V w1) n me (cf_leaseMs c) (cf_batchSize c) (sw_now w1) (sw_db w1) of (es, d) \<Rightarrow> (Inr es, w1\<lparr>sw_db := d\<rparr>))"

definition discard_op :: "('i, 'x) index_env \<Rightarrow> string \<Rightarrow> int \<Rightarrow> (('i, 'x) search_world, nat) io" where
  "discard_op V me n = index_op V (\<lambda>now d. case discardOrphans n me d of (k, d') \<Rightarrow> (Inr k, d'))"

text \<open>The loop over the batches of one pass; \<open>left\<close> batches remain.\<close>

fun run_batches ::
    "('i, 'x) index_env \<Rightarrow> indexing_config \<Rightarrow> string \<Rightarrow> ('i, 'x) embedding_provider \<Rightarrow> generation_row \<Rightarrow> nat \<Rightarrow> nat \<Rightarrow> (('i, 'x) search_world, nat) io" where
  "run_batches V c me P g 0 stored = io_return stored"
| "run_batches V c me P g (Suc left) stored = io_bind (claim_op V c me (gn_id g)) (\<lambda>es.
     io_bind (discard_op V me (gn_id g)) (\<lambda>_.
       if es = [] then io_return stored
       else io_bind (processBatch V c P g es) (\<lambda>k. run_batches V c me P g left (stored + k))))"

definition runOnce :: "('i, 'x) index_env \<Rightarrow> indexing_config \<Rightarrow> string \<Rightarrow> ('i, 'x) embedding_provider option \<Rightarrow> (('i, 'x) search_world, nat) io" where
  "runOnce V c me provider = io_bind io_get (\<lambda>w. case (provider, wk_generation (sw_worker w)) of
     (Some P, Some g) \<Rightarrow> if ph_status (wk_provider (sw_worker w)) = Disabled then io_return 0
       else io_seq (set_worker (\<lambda>k. k\<lparr>wk_lastRunAt := Some (sw_now w)\<rparr>)) (run_batches V c me P g (cf_workerConcurrency c) 0)
   | _ \<Rightarrow> io_return 0)"

fun drain_loop :: "('i, 'x) index_env \<Rightarrow> indexing_config \<Rightarrow> string \<Rightarrow> ('i, 'x) embedding_provider option \<Rightarrow> nat \<Rightarrow> nat \<Rightarrow> (('i, 'x) search_world, nat) io" where
  "drain_loop V c me provider 0 soFar = io_return soFar"
| "drain_loop V c me provider (Suc passes) soFar = io_bind (runOnce V c me provider) (\<lambda>stored.
     if stored = 0 then io_return (soFar + stored) else drain_loop V c me provider passes (soFar + stored))"

definition drain :: "('i, 'x) index_env \<Rightarrow> indexing_config \<Rightarrow> string \<Rightarrow> ('i, 'x) embedding_provider option \<Rightarrow> nat \<Rightarrow> (('i, 'x) search_world, nat) io" where
  "drain V c me provider maxPasses = drain_loop V c me provider maxPasses 0"

end
