(* ===== verification/Search_Fencing.thy ===== *)
theory Search_Fencing
  imports Search_Worker
begin

text \<open>
  Runs of the search index: any sequence of catalog writes and of the statements of SearchStore.  The fencing
  token of a job never goes back, so an indexer whose job was claimed again can neither store its vector
  nor fail the job; and a job whose hash is not the one of its document is put back for ever.
\<close>

section \<open>Runs\<close>

datatype index_event = Catalog_write int catalog_candidate observation_context
  | Activate_event bool model_key "string option" | Adopt_event int int | Drop_event | Enqueue_event int int
  | Claim_event "int list" int string int nat int | Discard_event int string
  | Store_event generation_row "(embedding_job \<times> rat list) list" int
  | Fail_event embedding_job string retry_limits int | Revive_event int int | Stale_event int | Error_event int string

definition index_step :: "catalog_env \<Rightarrow> index_event \<Rightarrow> catalog_db \<Rightarrow> catalog_db" where
  "index_step E e d = (case e of
     Catalog_write now c x \<Rightarrow> snd (observe E now c x d)
   | Activate_event vectors k checksum \<Rightarrow> snd (activateGeneration vectors k checksum d)
   | Adopt_event n now \<Rightarrow> on_index (adopt_unassigned n now) d
   | Drop_event \<Rightarrow> on_index drop_unassigned d
   | Enqueue_event n now \<Rightarrow> snd (enqueue_documents n now d)
   | Claim_event ids n me leaseMs batch now \<Rightarrow> snd (claimJobs (\<lambda>j. jo_id j \<in> set ids) n me leaseMs batch now d)
   | Discard_event n me \<Rightarrow> snd (discardOrphans n me d)
   | Store_event g entries now \<Rightarrow> snd (storeEmbeddings g entries now d)
   | Fail_event e message l now \<Rightarrow> on_index (fail_job e message l now) d
   | Revive_event n now \<Rightarrow> on_index (\<lambda>x. snd (revive n now x)) d
   | Stale_event n \<Rightarrow> on_index (on_storage n (map (mark_stale (documents d)))) d
   | Error_event n message \<Rightarrow> on_index (recordGenerationError n message) d)"

definition index_run :: "catalog_env \<Rightarrow> index_event list \<Rightarrow> catalog_db \<Rightarrow> catalog_db" where
  "index_run E evs d = fold (index_step E) evs d"

section \<open>Fencing tokens\<close>

text \<open>Every job with the identifier has at least the token, and the identifier is not given out again.\<close>

definition past :: "int \<Rightarrow> int \<Rightarrow> index_tables \<Rightarrow> bool" where
  "past n t x = (n < job_seq x \<and> (\<forall>j \<in> set (jobs x). jo_id j = n \<longrightarrow> t \<le> jo_fencing j))"

text \<open>A change of the queue that keeps tokens or advances them, and adds only fresh jobs.\<close>

definition carried :: "job_row list \<Rightarrow> job_row \<Rightarrow> bool" where
  "carried old j = (\<exists>i \<in> set old. jo_id i = jo_id j \<and> jo_fencing i \<le> jo_fencing j)"

definition fresh_job :: "int \<Rightarrow> int \<Rightarrow> job_row \<Rightarrow> bool" where
  "fresh_job a b j = (a \<le> jo_id j \<and> jo_id j < b)"

text \<open>Every job in the tables came from the sequence, and no two have one identifier.\<close>

definition issued :: "index_tables \<Rightarrow> bool" where
  "issued x = (list_all (\<lambda>j. jo_id j < job_seq x) (jobs x) \<and> distinct (map jo_id (jobs x)))"

definition advances :: "index_tables \<Rightarrow> index_tables \<Rightarrow> bool" where
  "advances x y = (job_seq x \<le> job_seq y \<and> list_all (\<lambda>j. carried (jobs x) j \<or> fresh_job (job_seq x) (job_seq y) j) (jobs y)
     \<and> (issued x \<longrightarrow> distinct (map jo_id (jobs y))))"

lemma issued_advances:
  assumes i: "issued x" and a: "advances x y" shows "issued y"
  unfolding issued_def list_all_iff
proof (intro conjI ballI)
  fix j assume "j \<in> set (jobs y)"
  then have "carried (jobs x) j \<or> fresh_job (job_seq x) (job_seq y) j" "job_seq x \<le> job_seq y" using a by (auto simp: advances_def list_all_iff)
  then show "jo_id j < job_seq y" using i by (auto simp: carried_def fresh_job_def issued_def list_all_iff)
qed (use i a in \<open>simp add: advances_def\<close>)

lemma carried_self: "j \<in> set old \<Longrightarrow> jo_id k = jo_id j \<Longrightarrow> jo_fencing j \<le> jo_fencing k \<Longrightarrow> carried old k"
  by (auto simp: carried_def)

lemma past_advances:
  assumes p: "past n t x" and a: "advances x y"
  shows "past n t y"
  unfolding past_def
proof (intro conjI ballI impI)
  show "n < job_seq y" using p a by (simp add: past_def advances_def)
  fix j assume j: "j \<in> set (jobs y)" "jo_id j = n"
  have "carried (jobs x) j \<or> fresh_job (job_seq x) (job_seq y) j" using a j(1) by (auto simp: advances_def list_all_iff)
  then show "t \<le> jo_fencing j"
  proof
    assume "carried (jobs x) j"
    then obtain i where "i \<in> set (jobs x)" "jo_id i = n" "jo_fencing i \<le> jo_fencing j" using j(2) by (auto simp: carried_def)
    then show ?thesis using p by (force simp: past_def)
  next
    assume "fresh_job (job_seq x) (job_seq y) j"
    then show ?thesis using p j(2) by (simp add: fresh_job_def past_def)
  qed
qed

lemma advances_same: "jobs y = jobs x \<Longrightarrow> job_seq x \<le> job_seq y \<Longrightarrow> advances x y"
  by (auto simp: advances_def list_all_iff issued_def intro: carried_self)

lemma advances_refl [simp]: "advances x x"
  by (rule advances_same) simp_all

lemma carried_trans: "carried b j \<Longrightarrow> list_all (\<lambda>j. carried a j \<or> fresh_job m n j) b \<Longrightarrow> carried a j \<or> fresh_job m n j"
proof -
  assume c: "carried b j" and a: "list_all (\<lambda>j. carried a j \<or> fresh_job m n j) b"
  obtain i where i: "i \<in> set b" "jo_id i = jo_id j" "jo_fencing i \<le> jo_fencing j" using c by (auto simp: carried_def)
  then have "carried a i \<or> fresh_job m n i" using a by (simp add: list_all_iff)
  then show ?thesis using i(2,3) by (auto simp: carried_def fresh_job_def)
qed

lemma advances_trans:
  assumes a: "advances x y" and b: "advances y z"
  shows "advances x z"
  unfolding advances_def list_all_iff
proof (intro conjI ballI impI)
  show "distinct (map jo_id (jobs z))" if "issued x" using issued_advances [OF that a] b by (simp add: advances_def)
  show "job_seq x \<le> job_seq z" using a b by (simp add: advances_def)
  fix j assume "j \<in> set (jobs z)"
  then have "carried (jobs y) j \<or> fresh_job (job_seq y) (job_seq z) j" using b by (simp add: advances_def list_all_iff)
  then show "carried (jobs x) j \<or> fresh_job (job_seq x) (job_seq z) j"
    using a b carried_trans [of "jobs y" j "jobs x" "job_seq x" "job_seq y"] by (auto simp: advances_def fresh_job_def)
qed

lemma carried_update:
  assumes "\<And>j. jo_id (f j) = jo_id j \<and> jo_fencing j \<le> jo_fencing (f j)" "j \<in> set (update_where p f old)"
  shows "carried old j"
proof -
  obtain i where "i \<in> set old" "j = (if p i then f i else i)" using assms(2) by (auto simp: in_update_where)
  then show ?thesis using assms(1) [of i] by (intro carried_self [of i]) simp_all
qed

lemma advances_update:
  assumes "\<And>j. jo_id (f j) = jo_id j \<and> jo_fencing j \<le> jo_fencing (f j)" "jobs y = update_where p f (jobs x)" "job_seq x \<le> job_seq y"
  shows "advances x y"
  using assms(2,3) carried_update [OF assms(1)] assms(1) by (simp add: advances_def list_all_iff issued_def map_update_where)

lemma advances_upsert:
  assumes "\<And>j. jo_id (f j) = jo_id j \<and> jo_fencing j \<le> jo_fencing (f j)" "jo_id r = job_seq x"
  shows "advances x (x\<lparr>job_seq := job_seq x + 1, jobs := (if b then update_where p f (jobs x) else jobs x @ [r])\<rparr>)"
proof (cases b)
  case True
  then show ?thesis using assms(1) by (intro advances_update [of f _ p]) simp_all
next
  case False
  then show ?thesis using assms(2) by (auto simp: advances_def list_all_iff fresh_job_def issued_def intro: carried_self)
qed

section \<open>The statements\<close>

lemma advances_enqueue: "advances x (upsert_job now rid vid h x)" "advances x (enqueue_document n now row x)"
  unfolding upsert_job_def enqueue_document_def Let_def by (rule advances_upsert; simp)+

lemma advances_fold: "(\<And>r x. advances x (f r x)) \<Longrightarrow> advances x (fold f rs x)"
proof (induction rs arbitrary: x)
  case (Cons r rs)
  then show ?case using advances_trans [of x "f r x"] by simp
qed simp

lemma storage_jobs [simp]: "jobs (on_storage n f x) = jobs x" "job_seq (on_storage n f x) = job_seq x"
  by (simp_all add: on_storage_def split: sum.split)

lemma advances_on_job: "(\<And>j. jo_id (f j) = jo_id j \<and> jo_fencing j \<le> jo_fencing (f j)) \<Longrightarrow> advances x (on_job n f x)"
  by (rule advances_update [of f _ "\<lambda>j. jo_id j = n"]) (simp_all add: on_job_def)

lemma advances_store_entry: "advances x (snd (store_entry g now docs entry x))"
proof -
  obtain e v where [simp]: "entry = (e, v)" by (cases entry)
  have "advances x (on_job n f (on_storage m h x))" if "\<And>j. jo_id (f j) = jo_id j \<and> jo_fencing j \<le> jo_fencing (f j)" for n f m h
    using advances_trans [OF advances_same advances_on_job [OF that]] by simp
  then show ?thesis by (auto simp: store_entry_def released_def advances_on_job split: option.split)
qed

lemma advances_store_entries: "store_entries g now docs es k x = Inr (m, y) \<Longrightarrow> advances x y"
proof (induction es arbitrary: k x)
  case (Cons entry es)
  obtain ok x1 where s: "store_entry g now docs entry x = (ok, x1)" by fastforce
  have "advances x x1" using advances_store_entry [of x g now docs entry] s by simp
  moreover have "advances x1 y" using Cons s by (auto split: if_splits)
  ultimately show ?case by (rule advances_trans)
qed simp

lemma count_jobs [simp]: "jobs (count_indexed n x) = jobs x" "job_seq (count_indexed n x) = job_seq x"
  by (simp_all add: count_indexed_def)

lemma advances_store: "advances (index d) (index (snd (storeEmbeddings g entries now d)))"
proof -
  have "advances (index d) (count_indexed n x)" if "store_entries g now (documents d) entries 0 (index d) = Inr (m, x)" for m n x
    by (rule advances_trans [OF advances_store_entries [OF that] advances_same]) simp_all
  then show ?thesis by (auto simp: storeEmbeddings_def split: sum.split)
qed

lemma advances_fail: "advances x (fail_job e message l now x)"
  unfolding fail_job_def Let_def by (rule advances_update) auto

lemma advances_claim: "advances (index d) (index (snd (claimJobs locked n me leaseMs batch now d)))"
  unfolding claimJobs_def Let_def by (rule advances_update [of "leased_job me (now + leaseMs)"]) (auto simp: on_index_def leased_job_def)

lemma advances_discard: "advances (index d) (index (snd (discardOrphans n me d)))"
  unfolding discardOrphans_def by (rule advances_update) (auto simp: on_index_def)

lemma advances_drop: "advances x (drop_unassigned x)"
  by (auto simp: drop_unassigned_def advances_def list_all_iff issued_def distinct_map_filter intro: carried_self)

lemma advances_adopt: "advances x (adopt_unassigned n now x)"
  unfolding adopt_unassigned_def by (rule advances_update) auto

lemma advances_revive: "advances x (snd (revive n now x))"
  unfolding revive_def Let_def by (rule advances_update) auto

lemma advances_enqueue_documents: "advances (index d) (index (snd (enqueue_documents n now d)))"
  by (auto simp: enqueue_documents_def on_index_def Let_def split: option.split intro!: advances_fold advances_enqueue)

lemma advances_activate: "advances (index d) (index (snd (activateGeneration vectors k checksum d)))"
proof -
  have c: "jobs (create_storage b n x) = jobs x" "job_seq (create_storage b n x) = job_seq x" for b n x
    by (simp_all add: create_storage_def split: sum.split)
  have i: "jobs (index d') = jobs (index d) \<and> job_seq (index d') = job_seq (index d)" if "insert_generation k checksum d = (r, d')" for r d'
    using that by (auto simp: insert_generation_def Let_def split: if_splits)
  have "jobs (index d') = jobs (index d) \<and> job_seq (index d') = job_seq (index d)" if "activate_body vectors k checksum d = (r, d')" for r d'
    using that i
    by (auto simp: activate_body_def io_bind_app io_seq_app io_get_def io_modify_def on_index_def c activate_row_def retire_active_def
       split: option.splits prod.splits sum.splits if_splits)
  then show ?thesis
    by (auto simp: activateGeneration_def on_index_def split: prod.splits sum.splits intro!: advances_same)
qed

section \<open>Writes of the catalog\<close>

text \<open>A catalog write touches the index only through \<open>upsert_job\<close>.\<close>

locale index_invariant =
  fixes K :: "index_tables \<Rightarrow> bool"
  assumes kept_upsert: "K x \<Longrightarrow> K (upsert_job now rid vid h x)"
begin

lemma same_index: "index (snd (m d)) = index d \<Longrightarrow> K (index d) \<Longrightarrow> K (index (snd (m d)))"
  by simp

lemma index_option: "spares (\<lambda>d. K (index d)) (upsertOption E now rid vid p version)"
  by (rule spares_state, rule same_index)
    (auto simp: upsertOption_def retire_options_def insert_option_def io_seq_app io_bind_app io_modify_def io_guard_def Let_def
       split: option.split prod.split sum.split)

lemma index_index: "spares (\<lambda>d. K (index d)) (indexVersion E now rid vid c version)"
  by (rule spares_state)
    (auto simp: indexVersion_def upsert_document_def enqueue_job_def io_seq_app io_modify_def io_guard_def Let_def kept_upsert split: option.split)

lemma index_version: "spares (\<lambda>d. K (index d)) (insertVersion E now rid number c version st reason)"
  by (rule spares_state, rule same_index)
    (auto simp: insertVersion_def io_seq_app io_guard_def Let_def split: option.split)

lemma index_resource: "spares (\<lambda>d. K (index d)) (insert_resource E now c st version)"
  by (rule spares_state, rule same_index)
    (auto simp: insert_resource_def io_seq_app io_guard_def Let_def split: option.split)

lemma index_updates:
  "spares (\<lambda>d. K (index d)) (io_modify (set_active rid vid version))" "spares (\<lambda>d. K (index d)) (io_modify (touch_resource now rid b version))"
  "spares (\<lambda>d. K (index d)) (io_modify (supersede_others now rid vid version))" "spares (\<lambda>d. K (index d)) (io_modify (activate_version now vid))"
  "spares (\<lambda>d. K (index d)) nextVersion"
  by (rule spares_state, simp add: io_modify_def set_active_def touch_resource_def supersede_others_def activate_version_def nextVersion_def)+

lemma index_activate: "spares (\<lambda>d. K (index d)) (activate E now rid vid c version)"
  unfolding activate_def by (intro spares_seq index_updates index_index)

lemmas index_statements = spares_bind spares_seq index_option index_index index_version index_updates spares_steps index_activate index_resource spares_if

lemma index_update: "spares (\<lambda>d. K (index d)) (updateResource E now row c x version)"
  unfolding updateResource_def quarantine_def observe_same_def observe_changed_def Let_def
  by (auto intro!: index_statements split: option.split)

lemma index_create: "spares (\<lambda>d. K (index d)) (createResource E now c x version)"
  unfolding createResource_def by (intro index_statements)

lemma index_body: "K (index d) \<Longrightarrow> K (index (snd (transaction_body E now c x d)))"
proof -
  have "spares (\<lambda>d. K (index d)) (transaction_body E now c x)"
    unfolding transaction_body_def by (auto intro!: spares_bind index_updates spares_steps index_update index_create split: option.split)
  then show "K (index d) \<Longrightarrow> ?thesis" by (rule spares_app)
qed

end

interpretation queue: index_invariant "advances x" for x
  by unfold_locales (rule advances_trans [OF _ advances_enqueue(1)])

lemma advances_observe: "advances (index d) (index (snd (observe E now c x d)))"
proof (cases "transaction_body E now c x d")
  case (Pair r d')
  have "advances (index d) (index d')" using queue.index_body [of "index d" d E now c x] by (simp add: Pair)
  moreover from this have "advances (index d) ((index d)\<lparr>job_seq := job_seq (index d')\<rparr>)"
    by (intro advances_same) (simp_all add: advances_def)
  ultimately show ?thesis by (simp add: observe_def Pair rollback_def split: sum.split)
qed

lemma advances_step: "advances (index d) (index (index_step E e d))"
  by (cases e)
    (simp_all add: index_step_def on_index_def advances_observe advances_activate advances_adopt advances_drop advances_enqueue_documents
       advances_claim advances_discard advances_store advances_fail advances_revive advances_same recordGenerationError_def)

lemma advances_run: "advances (index d) (index (index_run E evs d))"
proof (induction evs arbitrary: d)
  case (Cons e evs)
  show ?case using advances_trans [OF advances_step Cons.IH, of d E e] by (simp add: index_run_def)
qed (simp add: index_run_def)

section \<open>Claims\<close>

lemma issued_run: "issued (index (index_run E evs empty_catalog))"
  by (rule issued_advances [OF _ advances_run]) (simp add: issued_def empty_catalog_def)

text \<open>A claim: its entries carry the tokens that the jobs have from then on.\<close>

lemma js_sort_take: "x \<in> set (take n (js_sort cmp xs)) \<Longrightarrow> x \<in> set xs"
  by (metis in_set_takeD js_sort_set)

lemma claimed_entry:
  assumes "e \<in> set (fst (claimJobs locked n me leaseMs batch now d))"
  obtains j where "j \<in> set (jobs (index d))" "claimable n now j" "claimed_job d (leased_job me (now + leaseMs) j) = Some e"
    "leased_job me (now + leaseMs) j \<in> set (jobs (index (snd (claimJobs locked n me leaseMs batch now d))))"
proof -
  let ?cs = "take batch (js_sort run_order (filter (\<lambda>j. claimable n now j \<and> \<not> locked j) (jobs (index d))))"
  obtain j where j: "j \<in> set ?cs" "claimed_job d (leased_job me (now + leaseMs) j) = Some e"
    using assms by (auto simp: claimJobs_def Let_def split: option.splits)
  have jd: "j \<in> set (jobs (index d))" "claimable n now j" using js_sort_take [OF j(1)] by auto
  have "leased_job me (now + leaseMs) j \<in> set (update_where (\<lambda>j. jo_id j \<in> set (map jo_id ?cs)) (leased_job me (now + leaseMs)) (jobs (index d)))"
    using jd(1) j(1) by (intro update_where_memI) auto
  then show ?thesis using that [OF jd j(2)] by (simp add: claimJobs_def Let_def on_index_def)
qed

lemma same_job: "issued x \<Longrightarrow> i \<in> set (jobs x) \<Longrightarrow> j \<in> set (jobs x) \<Longrightarrow> jo_id i = jo_id j \<Longrightarrow> i = j"
  by (auto simp: issued_def distinct_map inj_on_def)

lemma past_job:
  assumes "issued x" "r \<in> set (jobs x)" "jo_id r = n" "t \<le> jo_fencing r" shows "past n t x"
  unfolding past_def
proof (intro conjI ballI impI)
  show "n < job_seq x" using assms(1-3) by (auto simp: issued_def list_all_iff)
  fix j assume "j \<in> set (jobs x)" "jo_id j = n"
  then have "j = r" using same_job [OF assms(1) _ assms(2)] assms(3) by simp
  then show "t \<le> jo_fencing j" using assms(4) by simp
qed

lemma claimed_past:
  assumes i: "issued (index d)" and e: "e \<in> set (fst (claimJobs locked n me leaseMs batch now d))"
  shows "past (ej_id e) (ej_fencing e) (index (snd (claimJobs locked n me leaseMs batch now d)))"
proof -
  let ?d = "snd (claimJobs locked n me leaseMs batch now d)"
  have i': "issued (index ?d)" by (rule issued_advances [OF i advances_claim])
  obtain j where j: "claimed_job d (leased_job me (now + leaseMs) j) = Some e" "leased_job me (now + leaseMs) j \<in> set (jobs (index ?d))"
    by (rule claimed_entry [OF e])
  show ?thesis by (rule past_job [OF i' j(2)]) (use j(1) in \<open>auto simp: claimed_job_def\<close>)
qed

lemma claimed_again:
  assumes p: "past (ej_id e) t (index d)" and i: "issued (index d)"
    and e': "e' \<in> set (fst (claimJobs locked n me leaseMs batch now d))" "ej_id e' = ej_id e"
  shows "past (ej_id e) (t + 1) (index (snd (claimJobs locked n me leaseMs batch now d)))"
proof -
  let ?d = "snd (claimJobs locked n me leaseMs batch now d)"
  have i': "issued (index ?d)" by (rule issued_advances [OF i advances_claim])
  obtain j where j: "j \<in> set (jobs (index d))" "claimed_job d (leased_job me (now + leaseMs) j) = Some e'"
      "leased_job me (now + leaseMs) j \<in> set (jobs (index ?d))"
    by (rule claimed_entry [OF e'(1)])
  have k: "jo_id j = ej_id e" using j(2) e'(2) by (auto simp: claimed_job_def leased_job_def)
  then have "t \<le> jo_fencing j" using p j(1) by (simp add: past_def)
  then show ?thesis by (intro past_job [OF i' j(3)]) (simp_all add: leased_job_def k)
qed

section \<open>A stale entry\<close>

definition stale_entry :: "embedding_job \<Rightarrow> index_tables \<Rightarrow> bool" where
  "stale_entry e x = past (ej_id e) (ej_fencing e + 1) x"

lemma stale_fence: "stale_entry e x \<Longrightarrow> \<not> assertFence e x"
  by (auto simp: stale_entry_def past_def assertFence_def split: option.split dest!: find_SomeD)

lemma stale_store: "stale_entry e x \<Longrightarrow> store_entry g now docs (e, v) x = (False, x)"
  by (simp add: store_entry_def stale_fence)

lemma stale_fail: "stale_entry e x \<Longrightarrow> fail_job e message l now x = x"
proof -
  assume "stale_entry e x"
  then have "update_where (\<lambda>j. jo_id j = ej_id e \<and> jo_fencing j = ej_fencing e) f (jobs x) = jobs x" for f
    by (intro update_where_id) (auto simp: stale_entry_def past_def)
  then show ?thesis by (simp add: fail_job_def Let_def)
qed

text \<open>In a batch it changes nothing either: the other entries are stored as if it were not there.\<close>

lemma stale_in_batch:
  "stale_entry e x \<Longrightarrow> length v = mk_dimension (gn_key g) \<Longrightarrow>
   store_entries g now docs (pre @ (e, v) # post) k x = store_entries g now docs (pre @ post) k x"
proof (induction pre arbitrary: k x)
  case Nil
  then show ?case by (simp add: stale_store stale_fence)
next
  case (Cons entry pre)
  obtain ok x1 where s: "store_entry g now docs entry x = (ok, x1)" by fastforce
  have "stale_entry e x1" using Cons.prems(1) past_advances [OF _ advances_store_entry [of x g now docs entry]] s by (simp add: stale_entry_def)
  then show ?case using Cons s by simp
qed

end
