(* ===== verification/Search_Outdated.thy ===== *)
theory Search_Outdated
  imports Search_Fencing
begin

text \<open>
  A job whose source hash is not the one of its document: an indexer embeds the document, finds the hashes
  different, puts the job back as it is, and so on at every pass.
\<close>

definition waiting :: "int \<Rightarrow> int \<Rightarrow> string \<Rightarrow> int \<Rightarrow> job_row \<Rightarrow> bool" where
  "waiting v n h a j = (jo_version j = v \<and> jo_generation j = n \<and> jo_sourceHash j = h \<and> jo_attempts j = a
     \<and> (jo_state j = Job_pending \<or> jo_state j = Job_leased))"

definition mismatched :: "int \<Rightarrow> string \<Rightarrow> search_document_row list \<Rightarrow> bool" where
  "mismatched v h docs = (case find (\<lambda>row. sd_version row = v) docs of None \<Rightarrow> False | Some row \<Rightarrow> sd_sourceHash row \<noteq> h)"

definition queued :: "int \<Rightarrow> int \<Rightarrow> int \<Rightarrow> string \<Rightarrow> int \<Rightarrow> index_tables \<Rightarrow> bool" where
  "queued i v n h a x = (storage_of n x \<noteq> None \<and> list_ex (\<lambda>j. jo_id j = i) (jobs x)
     \<and> list_all (\<lambda>j. jo_id j = i \<longrightarrow> waiting v n h a j) (jobs x))"

definition outdated :: "int \<Rightarrow> int \<Rightarrow> int \<Rightarrow> string \<Rightarrow> int \<Rightarrow> catalog_db \<Rightarrow> bool" where
  "outdated i v n h a d = (queued i v n h a (index d) \<and> mismatched v h (documents d))"

lemma queued_update:
  assumes q: "queued i v n h a x" and y: "jobs y = update_where p f (jobs x)" "storage_of n y \<noteq> None"
    and f: "\<And>j. jo_id (f j) = jo_id j" "\<And>j. p j \<Longrightarrow> jo_id j = i \<Longrightarrow> waiting v n h a j \<Longrightarrow> waiting v n h a (f j)"
  shows "queued i v n h a y"
  unfolding queued_def list_all_iff
proof (intro conjI ballI impI)
  have "map jo_id (jobs y) = map jo_id (jobs x)" using y(1) f(1) by (simp add: map_update_where)
  moreover have "i \<in> set (map jo_id (jobs x))" using q by (auto simp: queued_def list_ex_iff)
  ultimately have "i \<in> set (map jo_id (jobs y))" by metis
  then show "list_ex (\<lambda>j. jo_id j = i) (jobs y)" by (auto simp: list_ex_iff)
  fix j assume "j \<in> set (jobs y)" "jo_id j = i"
  then obtain k where k: "k \<in> set (jobs x)" "j = (if p k then f k else k)" unfolding y(1) in_update_where by blast
  then have "jo_id k = i" using f(1) \<open>jo_id j = i\<close> by (simp split: if_splits)
  then have "waiting v n h a k" using q k(1) by (simp add: queued_def list_all_iff)
  then show "waiting v n h a j" using f(2) [of k] k(2) \<open>jo_id k = i\<close> by simp
qed (rule y(2))

lemma storage_same: "storages y = storages x \<Longrightarrow> storage_of n y = storage_of n x"
  by (simp add: storage_of_def split: sum.split)

lemma storage_kept: "storage_of n (on_storage m f x) = None \<longleftrightarrow> storage_of n x = None"
proof -
  have "map_of (map (\<lambda>(k, rows). (k, if k = name then f rows else rows)) kvs) k = None \<longleftrightarrow> map_of kvs k = None"
    for kvs :: "(string \<times> embedding_row list) list" and k name
    by (simp add: map_of_eq_None_iff image_image case_prod_unfold)
  then show ?thesis by (simp add: storage_of_def on_storage_def split: sum.split)
qed

section \<open>One pass\<close>

lemma queued_on_job:
  "queued i v n h a x \<Longrightarrow> (\<And>j. jo_id (f j) = jo_id j) \<Longrightarrow> (\<And>j. m = i \<Longrightarrow> waiting v n h a j \<Longrightarrow> waiting v n h a (f j))
   \<Longrightarrow> queued i v n h a (on_job m f x)"
proof -
  assume a: "queued i v n h a x" "\<And>j. jo_id (f j) = jo_id j" "\<And>j. m = i \<Longrightarrow> waiting v n h a j \<Longrightarrow> waiting v n h a (f j)"
  have "storages (on_job m f x) = storages x" "jobs (on_job m f x) = update_where (\<lambda>j. jo_id j = m) f (jobs x)" by (simp_all add: on_job_def)
  note s = storage_same [OF this(1)] and u = this(2)
  have "storage_of n (on_job m f x) \<noteq> None" using a(1) s by (simp add: queued_def)
  then show ?thesis using queued_update [OF a(1) u] a(2,3) by metis
qed

lemma queued_on_storage: "queued i v n h a x \<Longrightarrow> queued i v n h a (on_storage m f x)"
  by (simp add: queued_def storage_kept)

text \<open>The entry of the job itself, when it is in a batch.\<close>

definition as_claimed :: "int \<Rightarrow> int \<Rightarrow> string \<Rightarrow> embedding_job \<Rightarrow> bool" where
  "as_claimed i v h e = (ej_id e = i \<longrightarrow> ej_version e = v \<and> ej_sourceHash e = h)"

lemma queued_store_entry:
  assumes q: "queued i v n h a x" and m: "mismatched v h docs" and e: "as_claimed i v h e"
  shows "queued i v n h a (snd (store_entry g now docs (e, vec) x))"
proof -
  have again: "queued i v n h a (on_job (ej_id e) (\<lambda>j. (released Job_pending j)\<lparr>jo_nextRun := now\<rparr>) x)"
    by (rule queued_on_job [OF q]) (simp_all add: released_def waiting_def)
  show ?thesis
  proof (cases "find (\<lambda>row. sd_version row = ej_version e) docs")
    case None
    then show ?thesis using q again by (simp add: store_entry_def)
  next
    case (Some row)
    show ?thesis
    proof (cases "sd_sourceHash row = ej_sourceHash e")
      case True
      then have "ej_id e \<noteq> i" using m e Some by (auto simp: mismatched_def as_claimed_def)
      then have "queued i v n h a (on_job (ej_id e) (\<lambda>j. (released Job_done j)\<lparr>jo_lastError := None\<rparr>) (on_storage k f x))" for k f
        by (intro queued_on_job queued_on_storage q) (simp_all add: released_def)
      then show ?thesis using True Some q by (simp add: store_entry_def)
    next
      case False
      then show ?thesis using Some q again by (simp add: store_entry_def)
    qed
  qed
qed

lemma queued_store_entries:
  assumes "queued i v n h a x" "mismatched v h docs" "gn_id g = n"
    "list_all (\<lambda>(e, vec). as_claimed i v h e \<and> length vec = mk_dimension (gn_key g)) entries"
  shows "\<exists>m y. store_entries g now docs entries k x = Inr (m, y) \<and> queued i v n h a y"
  using assms(1,4)
proof (induction entries arbitrary: k x)
  case (Cons entry entries)
  obtain e vec where entry: "entry = (e, vec)" by (cases entry)
  obtain ok x1 where s: "store_entry g now docs entry x = (ok, x1)" by fastforce
  have "queued i v n h a x1" using queued_store_entry [OF Cons.prems(1) assms(2), of e g now vec] Cons.prems(2) s by (simp add: entry)
  then have "\<exists>m y. store_entries g now docs entries (if ok then k + 1 else k) x1 = Inr (m, y) \<and> queued i v n h a y"
    by (rule Cons.IH) (use Cons.prems(2) in simp)
  moreover have "storage_of n x \<noteq> None" "length vec = mk_dimension (gn_key g)" using Cons.prems by (simp_all add: entry queued_def)
  ultimately show ?case using s assms(3) by (simp add: entry)
qed simp

lemma outdated_store:
  assumes o: "outdated i v n h a d" and g: "gn_id g = n"
    and e: "list_all (\<lambda>(e, vec). as_claimed i v h e \<and> length vec = mk_dimension (gn_key g)) entries"
  shows "\<exists>m d'. storeEmbeddings g entries now d = (Inr m, d') \<and> outdated i v n h a d'"
proof -
  obtain m y where s: "store_entries g now (documents d) entries 0 (index d) = Inr (m, y)" "queued i v n h a y"
    using queued_store_entries [OF _ _ g e] o unfolding outdated_def by blast
  have st: "storage_of n (index d) \<noteq> None" "storage_of n y \<noteq> None" using o s(2) by (simp_all add: outdated_def queued_def)
  have "storages (count_indexed k y) = storages y" for k by (simp add: count_indexed_def)
  note c = storage_same [OF this]
  have "queued i v n h a (count_indexed k y)" for k using s(2) by (simp add: queued_def c)
  moreover have "\<exists>name. generationTable n = Inr name" using st(1) by (auto simp: storage_of_def split: sum.splits)
  ultimately show ?thesis using o s st by (auto simp: storeEmbeddings_def g outdated_def)
qed

lemma outdated_claim:
  assumes o: "outdated i v n h a d" and c: "claimJobs locked m me leaseMs batch now d = (es, d')"
  shows "outdated i v n h a d' \<and> list_all (as_claimed i v h) es"
proof (intro conjI)
  have s: "storages (index d') = storages (index d)" using c by (auto simp: claimJobs_def Let_def on_index_def)
  have "queued i v n h a (index d')"
  proof (rule queued_update [of i v n h a "index d" "index d'" _ "leased_job me (now + leaseMs)"])
    show "jobs (index d') = update_where (\<lambda>j. jo_id j \<in> set (map jo_id (take batch (js_sort run_order
       (filter (\<lambda>j. claimable m now j \<and> \<not> locked j) (jobs (index d))))))) (leased_job me (now + leaseMs)) (jobs (index d))"
      using c by (auto simp: claimJobs_def Let_def on_index_def)
    show "queued i v n h a (index d)" using o by (simp add: outdated_def)
    show "storage_of n (index d') \<noteq> None" using o storage_same [OF s] by (simp add: outdated_def queued_def)
  qed (simp_all add: leased_job_def waiting_def)
  then show "outdated i v n h a d'" using o c by (auto simp: outdated_def claimJobs_def Let_def on_index_def)
  have "as_claimed i v h e" if e: "e \<in> set es" for e
  proof -
    have "e \<in> set (fst (claimJobs locked m me leaseMs batch now d))" using e c by simp
    then obtain j where j: "j \<in> set (jobs (index d))" "claimed_job d (leased_job me (now + leaseMs) j) = Some e" by (rule claimed_entry)
    show ?thesis using j o by (auto simp: as_claimed_def claimed_job_def leased_job_def outdated_def queued_def list_all_iff waiting_def)
  qed
  then show "list_all (as_claimed i v h) es" by (simp add: list_all_iff)
qed

lemma outdated_discard: "outdated i v n h a d \<Longrightarrow> outdated i v n h a (snd (discardOrphans m me d))"
proof -
  assume o: "outdated i v n h a d"
  let ?d = "snd (discardOrphans m me d)"
  have doc: "document_of d v \<noteq> None" using o by (auto simp: outdated_def mismatched_def document_of_def split: option.splits)
  have st: "storages (index ?d) = storages (index d)" by (simp add: discardOrphans_def on_index_def)
  have "queued i v n h a (index ?d)"
  proof (rule queued_update)
    show "queued i v n h a (index d)" using o by (simp add: outdated_def)
    show "jobs (index ?d) = update_where (orphan m me d) (\<lambda>j. j\<lparr>jo_state := Job_dead,
       jo_deadReason := Some ''document missing'', jo_leaseOwner := None, jo_leaseUntil := None\<rparr>) (jobs (index d))"
      by (simp add: discardOrphans_def on_index_def)
    show "storage_of n (index ?d) \<noteq> None" using o storage_same [OF st] by (simp add: outdated_def queued_def)
  qed (use doc in \<open>auto simp: orphan_def waiting_def\<close>)
  then show ?thesis using o by (simp add: outdated_def discardOrphans_def on_index_def)
qed

section \<open>Every pass\<close>

definition indexing :: "int \<Rightarrow> int \<Rightarrow> generation_row \<Rightarrow> string \<Rightarrow> int \<Rightarrow> ('i, 'x) search_world \<Rightarrow> bool" where
  "indexing i v g h a w = (outdated i v (gn_id g) h a (sw_db w) \<and> wk_generation (sw_worker w) = Some g
     \<and> ph_status (wk_provider (sw_worker w)) \<noteq> Disabled)"

text \<open>A provider that answers every batch with vectors of the right dimension.\<close>

definition answers_well :: "('i, 'x) embedding_provider \<Rightarrow> nat \<Rightarrow> (('i, 'x) search_world \<Rightarrow> bool) \<Rightarrow> bool" where
  "answers_well P size1 J = (\<forall>docs w. J w \<longrightarrow> (\<exists>answer w'. pv_embed P docs w = (Inr answer, w') \<and> J w' \<and> length answer = length docs
     \<and> list_all (\<lambda>v. length v = size1 \<and> None \<notin> set v) answer))"

lemma validate_each_ok: "list_all (\<lambda>v. length v = size1 \<and> None \<notin> set v) vs \<Longrightarrow>
    validate_each size1 vs = Inr (map (map the) vs)"
  by (induction vs) simp_all

text \<open>The computation ends normally and keeps \<open>J\<close>.\<close>

definition ends_in :: "('w \<Rightarrow> bool) \<Rightarrow> ('w, 'a) io \<Rightarrow> 'w \<Rightarrow> bool" where
  "ends_in J m w = (\<exists>r w'. m w = (Inr r, w') \<and> J w')"

lemma ends_in_bind: "m w = (Inr r, w1) \<Longrightarrow> ends_in J (k r) w1 \<Longrightarrow> ends_in J (io_bind m k) w"
  by (auto simp: ends_in_def io_bind_app)

lemma ends_in_set_worker:
  assumes "ends_in J k (w\<lparr>sw_worker := f (sw_worker w)\<rparr>)"
  shows "ends_in J (io_seq (set_worker f) k) w"
  using assms by (simp add: ends_in_def io_seq_app set_worker_def io_modify_def)

lemma ends_in_return: "J w \<Longrightarrow> ends_in J (io_return x) w"
  by (simp add: ends_in_def)

text \<open>What happens around the indexer keeps the situation, and its provider works.\<close>

definition undisturbed :: "('i, 'x) index_env \<Rightarrow> ('i, 'x) embedding_provider \<Rightarrow> int \<Rightarrow> int \<Rightarrow> generation_row \<Rightarrow> string \<Rightarrow> int \<Rightarrow> bool" where
  "undisturbed V P i v g h a = ((\<forall>w. indexing i v g h a w \<longrightarrow> indexing i v g h a (ix_yield V w))
     \<and> answers_well P (mk_dimension (gn_key g)) (indexing i v g h a))"

lemma indexing_step:
  assumes "indexing i v g h a w1" "outdated i v (gn_id g) h a d" shows "indexing i v g h a (w1\<lparr>sw_db := d\<rparr>)"
  using assms by (simp add: indexing_def)

lemma indexing_worker:
  "indexing i v g h a w \<Longrightarrow> wk_generation (f (sw_worker w)) = wk_generation (sw_worker w) \<Longrightarrow>
   ph_status (wk_provider (f (sw_worker w))) \<noteq> Disabled \<Longrightarrow> indexing i v g h a (w\<lparr>sw_worker := f (sw_worker w)\<rparr>)"
  by (simp add: indexing_def)

lemma batch_indexing:
  assumes u: "undisturbed V P i v g h a" and w: "indexing i v g h a w" and es: "list_all (as_claimed i v h) es"
  shows "ends_in (indexing i v g h a) (processBatch V c P g es) w"
proof -
  have "\<exists>answer w'. pv_embed P (map ej_document es) w = (Inr answer, w') \<and> indexing i v g h a w' \<and> length answer = length (map ej_document es)
     \<and> list_all (\<lambda>v. length v = mk_dimension (gn_key g) \<and> None \<notin> set v) answer"
    using u [unfolded undisturbed_def answers_well_def, THEN conjunct2, rule_format, OF w] .
  then obtain answer w1 where a: "pv_embed P (map ej_document es) w = (Inr answer, w1)" "indexing i v g h a w1" "length answer = length es"
      "list_all (\<lambda>v. length v = mk_dimension (gn_key g) \<and> None \<notin> set v) answer"
    by auto
  have v: "validateVectors answer (mk_dimension (gn_key g)) (length es) = Inr (map (map the) answer)"
    using a(3,4) by (simp add: validateVectors_def validate_each_ok)
  let ?w = "ix_yield V w1" and ?entries = "zip es (map (map the) answer)"
  have y: "indexing i v g h a ?w" using u a(2) by (simp add: undisturbed_def)
  have "list_all (\<lambda>(e, vec). as_claimed i v h e \<and> length vec = mk_dimension (gn_key g)) ?entries"
    using es a(4) by (fastforce simp: list_all_iff dest: set_zip_leftD set_zip_rightD)
  then obtain m d where s: "storeEmbeddings g ?entries (sw_now ?w) (sw_db ?w) = (Inr m, d)" "outdated i v (gn_id g) h a d"
    using outdated_store [OF _ refl] y unfolding indexing_def by blast
  have d: "indexing i v g h a (?w\<lparr>sw_db := d\<rparr>)" using y s(2) by (rule indexing_step)
  let ?f = "\<lambda>k. k\<lparr>wk_processed := wk_processed k + int m, wk_provider := \<lparr> ph_status = Ready, ph_detail = None \<rparr>, wk_lastError := None\<rparr>"
  let ?w2 = "?w\<lparr>sw_db := d\<rparr>"
  have "embed_jobs V P g es w = (Inr m, ?w2\<lparr>sw_worker := ?f (sw_worker ?w2)\<rparr>)"
    by (simp add: embed_jobs_def io_bind_app io_seq_app a(1) v index_op_def Let_def s(1) set_worker_def io_modify_def)
  moreover have "indexing i v g h a (?w2\<lparr>sw_worker := ?f (sw_worker ?w2)\<rparr>)" by (rule indexing_worker [OF d]) simp_all
  ultimately show ?thesis by (simp add: ends_in_def processBatch_def io_catch_app)
qed

lemma batches_indexing:
  assumes u: "undisturbed V P i v g h a"
  shows "indexing i v g h a w \<Longrightarrow> ends_in (indexing i v g h a) (run_batches V c me P g left stored) w"
proof (induction left arbitrary: stored w)
  case (Suc left)
  let ?w = "ix_yield V w"
  have y: "indexing i v g h a ?w" using u Suc.prems by (simp add: undisturbed_def)
  obtain es d where c: "claimJobs (ix_locked V ?w) (gn_id g) me (cf_leaseMs c) (cf_batchSize c) (sw_now ?w) (sw_db ?w) = (es, d)" by fastforce
  have o: "outdated i v (gn_id g) h a d" "list_all (as_claimed i v h) es" using outdated_claim [OF _ c, of i v "gn_id g" h a] y by (simp_all add: indexing_def)
  let ?w1 = "?w\<lparr>sw_db := d\<rparr>"
  have c1: "claim_op V c me (gn_id g) w = (Inr es, ?w1)" using c by (simp add: claim_op_def Let_def)
  let ?w2 = "ix_yield V ?w1"
  have y2: "indexing i v g h a ?w2" using u indexing_step [OF y o(1)] by (simp add: undisturbed_def)
  obtain k d2 where e: "discardOrphans (gn_id g) me (sw_db ?w2) = (k, d2)" by fastforce
  let ?w3 = "?w2\<lparr>sw_db := d2\<rparr>"
  have e1: "discard_op V me (gn_id g) ?w1 = (Inr k, ?w3)" using e by (simp add: discard_op_def index_op_def Let_def)
  have y3: "indexing i v g h a ?w3" using indexing_step [OF y2] outdated_discard [of i v "gn_id g" h a "sw_db ?w2" "gn_id g" me] y2 e
    by (simp add: indexing_def)
  have "ends_in (indexing i v g h a) (if es = [] then io_return stored
     else io_bind (processBatch V c P g es) (\<lambda>k. run_batches V c me P g left (stored + k))) ?w3"
  proof (cases "es = []")
    case False
    obtain r w4 where "processBatch V c P g es ?w3 = (Inr r, w4)" "indexing i v g h a w4"
      using batch_indexing [OF u y3 o(2)] unfolding ends_in_def by blast
    then show ?thesis using Suc.IH False by (simp add: ends_in_bind)
  qed (simp add: y3 ends_in_return)
  then show ?case unfolding ends_in_def run_batches.simps by (simp add: io_bind_app c1 e1)
qed (simp add: ends_in_return)

lemma pass_indexing:
  assumes u: "undisturbed V P i v g h a" and w: "indexing i v g h a w"
  shows "ends_in (indexing i v g h a) (runOnce V c me (Some P)) w"
proof -
  let ?f = "\<lambda>k. k\<lparr>wk_lastRunAt := Some (sw_now w)\<rparr>"
  have w1: "indexing i v g h a (w\<lparr>sw_worker := ?f (sw_worker w)\<rparr>)" by (rule indexing_worker [OF w]) (use w in \<open>simp_all add: indexing_def\<close>)
  have "ends_in (indexing i v g h a) (io_seq (set_worker ?f) (run_batches V c me P g (cf_workerConcurrency c) 0)) w"
    by (rule ends_in_set_worker) (rule batches_indexing [OF u w1])
  moreover have "wk_generation (sw_worker w) = Some g" "ph_status (wk_provider (sw_worker w)) \<noteq> Disabled" using w by (simp_all add: indexing_def)
  ultimately show ?thesis by (simp add: runOnce_def ends_in_bind [where r = w and ?w1.0 = w] io_get_def)
qed

text \<open>The world after a number of passes.\<close>

definition pass :: "('i, 'x) index_env \<Rightarrow> indexing_config \<Rightarrow> string \<Rightarrow> ('i, 'x) embedding_provider \<Rightarrow> ('i, 'x) search_world \<Rightarrow> ('i, 'x) search_world" where
  "pass V c me P w = snd (runOnce V c me (Some P) w)"

lemma passes_indexing: "undisturbed V P i v g h a \<Longrightarrow> indexing i v g h a w \<Longrightarrow> indexing i v g h a ((pass V c me P ^^ n) w)"
proof (induction n)
  case (Suc n)
  have "indexing i v g h a ((pass V c me P ^^ n) w)" by (rule Suc.IH [OF Suc.prems])
  from pass_indexing [OF Suc.prems(1) this, of c me] show ?case unfolding ends_in_def funpow.simps comp_def pass_def by auto
qed simp

end
