(* ===== verification/Search_Index_Properties.thy ===== *)
theory Search_Index_Properties
  imports Search_Outdated Catalog_Demo
begin

text \<open>The properties of the search index, with witnesses on a catalog of one resource.\<close>

definition demo_key :: model_key where
  "demo_key = \<lparr> mk_provider = ''p'', mk_modelId = ''m'', mk_modelRevision = ''r'', mk_dimension = 1,
     mk_pooling = Mean_pooling, mk_normalization = L2_normalization \<rparr>"

definition demo_generation :: generation_row where
  "demo_generation = \<lparr> gn_id = 1, gn_key = demo_key, gn_checksum = None, gn_status = Generation_active, gn_indexed = 0, gn_lastError = None \<rparr>"

definition demo_index :: "index_event list" where
  "demo_index = [Catalog_write 1000 (demo_candidate ''a'' ''S'' ''5'') demo_context, Activate_event True demo_key None,
     Adopt_event 1 1000, Drop_event, Enqueue_event 1 1000]"

definition demo_queued :: catalog_db where
  "demo_queued = index_run demo_catalog_env demo_index empty_catalog"

definition first_claim :: "embedding_job list \<times> catalog_db" where
  "first_claim = claimJobs (\<lambda>_. False) 1 ''a'' 10 5 2000 demo_queued"

definition second_claim :: "embedding_job list \<times> catalog_db" where
  "second_claim = claimJobs (\<lambda>_. False) 1 ''b'' 10 5 3000 (snd first_claim)"

definition claims_shape :: "embedding_job list \<Rightarrow> embedding_job list \<Rightarrow> bool" where
  "claims_shape xs ys = (case (xs, ys) of ([e], [e']) \<Rightarrow> ej_id e' = ej_id e \<and> ej_fencing e = 1 \<and> ej_fencing e' = 2 | _ \<Rightarrow> False)"

text \<open>C32.  Fencing of the index queue.  An indexer claims a job, and after its lease ran out the job is claimed again,
  by whomever, with any catalog writes and statements of other indexers in between and afterwards.  Then what the
  first indexer still holds has no effect: in a batch of vectors its entry is passed over and the others are
  stored as if it were not there, and reporting its failure changes nothing.\<close>

theorem stale_indexer_is_fenced:
  assumes d: "d = index_run E evs empty_catalog"
    and e: "e \<in> set (fst (claimJobs locked n me leaseMs batch now d))"
    and d1: "d1 = index_run E fvs (snd (claimJobs locked n me leaseMs batch now d))"
    and e': "e' \<in> set (fst (claimJobs locked' n' other leaseMs' batch' now' d1))" "ej_id e' = ej_id e"
    and d2: "d2 = index_run E gvs (snd (claimJobs locked' n' other leaseMs' batch' now' d1))"
    and v: "length v = mk_dimension (gn_key g)"
  shows "store_entries g after docs (pre @ (e, v) # post) k (index d2) = store_entries g after docs (pre @ post) k (index d2)
     \<and> fail_job e message l after (index d2) = index d2"
proof -
  let ?c = "snd (claimJobs locked n me leaseMs batch now d)" and ?c' = "snd (claimJobs locked' n' other leaseMs' batch' now' d1)"
  have i: "issued (index d)" unfolding d by (rule issued_run)
  have i1: "issued (index d1)" unfolding d1 by (rule issued_advances [OF issued_advances [OF i advances_claim] advances_run])
  have "past (ej_id e) (ej_fencing e) (index d1)" unfolding d1 by (rule past_advances [OF claimed_past [OF i e] advances_run])
  then have "past (ej_id e) (ej_fencing e + 1) (index ?c')" by (rule claimed_again [OF _ i1 e'])
  then have "stale_entry e (index d2)" unfolding d2 stale_entry_def by (rule past_advances [OF _ advances_run])
  then show ?thesis using stale_in_batch [of e _ v g] stale_fail v by simp
qed

theorem stale_indexer_is_fenced_witness:
  "\<exists>e. fst first_claim = [e] \<and> ej_fencing e = 1
     \<and> store_entries demo_generation 4000 [] [(e, [0])] 0 (index (snd second_claim)) = Inr (0, index (snd second_claim))"
proof -
  have "claims_shape (fst first_claim) (fst second_claim)" by code_simp
  then obtain e e' where c: "fst first_claim = [e]" "fst second_claim = [e']" "ej_id e' = ej_id e" "ej_fencing e = 1"
    by (auto simp: claims_shape_def split: list.splits)
  have none: "index_run demo_catalog_env [] d = d" for d by (simp add: index_run_def)
  have "store_entries demo_generation 4000 [] ([] @ (e, [0]) # []) 0 (index (snd second_claim))
     = store_entries demo_generation 4000 [] ([] @ []) 0 (index (snd second_claim))"
  proof (rule conjunct1 [OF stale_indexer_is_fenced])
    show "demo_queued = index_run demo_catalog_env demo_index empty_catalog" by (rule demo_queued_def)
    show "e \<in> set (fst (claimJobs (\<lambda>_. False) 1 ''a'' 10 5 2000 demo_queued))" using c by (simp add: first_claim_def)
    show "snd first_claim = index_run demo_catalog_env [] (snd (claimJobs (\<lambda>_. False) 1 ''a'' 10 5 2000 demo_queued))"
      by (simp add: none first_claim_def)
    show "e' \<in> set (fst (claimJobs (\<lambda>_. False) 1 ''b'' 10 5 3000 (snd first_claim)))" using c by (simp add: second_claim_def)
    show "snd second_claim = index_run demo_catalog_env [] (snd (claimJobs (\<lambda>_. False) 1 ''b'' 10 5 3000 (snd first_claim)))"
      by (simp add: none second_claim_def)
  qed (use c in \<open>simp_all add: demo_generation_def demo_key_def\<close>)
  then show ?thesis using c by simp
qed

text \<open>C33: A job whose source hash is not the hash of its document is never finished.  Let the provider always answer one
  finite vector of the generation's dimension for every document, and let nothing else change the job, its document and
  its generation while the indexer works.  Then after any number of passes the job is still queued with the same hash and the
  same number of attempts (so it is not dead-lettered either), and the coverage of its generation is never complete.  The
  code puts the job back expecting the newer text to be embedded, but does not give it the newer hash.\<close>

theorem outdated_job_never_indexed:
  assumes u: "undisturbed V P i v g h a" and w: "indexing i v g h a w" and w': "w' = (pass V c me P ^^ n) w"
  shows "(\<exists>j \<in> set (jobs (index (sw_db w'))). jo_id j = i \<and> jo_sourceHash j = h \<and> jo_attempts j = a
        \<and> (jo_state j = Job_pending \<or> jo_state j = Job_leased))
     \<and> \<not> ic_complete (coverage_of (gn_id g) counts (queueDepth (gn_id g) (index (sw_db w'))))"
proof -
  let ?x = "index (sw_db w')"
  have q: "queued i v (gn_id g) h a ?x" using passes_indexing [OF u w] unfolding w' indexing_def outdated_def by blast
  then obtain j where j: "j \<in> set (jobs ?x)" "jo_id j = i" "waiting v (gn_id g) h a j" by (auto simp: queued_def list_ex_iff list_all_iff)
  then have "0 < queueDepth (gn_id g) ?x Job_pending + queueDepth (gn_id g) ?x Job_leased"
    by (auto simp: queueDepth_def waiting_def filter_empty_conv)
  then have "\<not> ic_complete (coverage_of (gn_id g) counts (queueDepth (gn_id g) ?x))"
    by (auto simp: coverage_of_def Let_def split: prod.split)
  then show ?thesis using j by (auto simp: waiting_def)
qed

text \<open>
  Generation 1 has a pending job for a document that was compiled again while another replica had made
  generation 2 the active one: the catalog write has updated the job of generation 2 only.
\<close>

definition demo_job :: "int \<Rightarrow> int \<Rightarrow> string \<Rightarrow> job_row" where
  "demo_job n g h = \<lparr> jo_id = n, jo_resource = 1, jo_version = 1, jo_generation = g, jo_sourceHash = h, jo_state = Job_pending,
     jo_attempts = 0, jo_leaseOwner = None, jo_leaseUntil = None, jo_fencing = 0, jo_nextRun = 1000, jo_lastError = None, jo_deadReason = None \<rparr>"

definition demo_outdated :: catalog_db where
  "demo_outdated = demo_listed\<lparr>
     index := \<lparr> jobs = [demo_job 1 1 ''old'', demo_job 2 2 ''h''], generations = [demo_generation\<lparr>gn_status := Generation_retired\<rparr>,
        demo_generation\<lparr>gn_id := 2\<rparr>], storages = [(''catalog_embeddings_g1'', []), (''catalog_embeddings_g2'', [])], job_seq = 3, generation_seq = 3 \<rparr>\<rparr>"

text \<open>The rows the jobs refer to exist.\<close>

lemma demo_outdated_rows:
  "map rr_id (resources demo_outdated) = [1] \<and> map (\<lambda>v. (cv_id v, cv_resource v)) (versions demo_outdated) = [(1, 1)]
   \<and> map (\<lambda>s. (sd_version s, sd_resource s, sd_sourceHash s)) (documents demo_outdated) = [(1, 1, ''h'')]"
  by code_simp

definition demo_world :: "(unit, unit) search_world" where
  "demo_world = \<lparr> sw_db = demo_outdated, sw_feedback = \<lparr> sessions = [], impressions = [], fetches = [] \<rparr>,
     sw_worker = fresh_worker\<lparr>wk_generation := Some demo_generation, wk_provider := \<lparr> ph_status = Ready, ph_detail = None \<rparr>\<rparr>,
     sw_generation = None, sw_now = 5000, sw_ext = () \<rparr>"

definition quiet_env :: "(unit, unit) index_env" where
  "quiet_env = \<lparr> ix_yield = id, ix_locked = (\<lambda>_ _. False), ix_vectors = True \<rparr>"

definition zero_provider :: "(unit, unit) embedding_provider" where
  "zero_provider = \<lparr> pv_key = demo_key, pv_checksum = None, pv_warm = None, pv_health = io_return \<lparr> ph_status = Ready, ph_detail = None \<rparr>,
     pv_embed = (\<lambda>docs. io_return (map (\<lambda>_. [Some 0]) docs)) \<rparr>"

theorem outdated_job_never_indexed_witness:
  "\<exists>h. \<forall>c me n. list_ex (\<lambda>j. jo_id j = 1 \<and> jo_sourceHash j = h \<and> jo_attempts j = 0) (jobs (index (sw_db ((pass quiet_env c me zero_provider ^^ n) demo_world))))"
proof -
  have o: "outdated 1 1 1 ''old'' 0 demo_outdated" by code_simp
  have u: "undisturbed quiet_env zero_provider 1 1 demo_generation ''old'' 0"
    by (simp add: undisturbed_def quiet_env_def answers_well_def zero_provider_def demo_generation_def demo_key_def list_all_iff)
  have w: "indexing 1 1 demo_generation ''old'' 0 demo_world" using o by (simp add: indexing_def demo_world_def demo_generation_def)
  show ?thesis using outdated_job_never_indexed [OF u w refl] by (intro exI [of _ "''old''"] allI) (force simp: list_ex_iff)
qed

end
