(* ===== verification/Search_Service.thy ===== *)
theory Search_Service
  imports Search_Worker Search_Fusion
begin

text \<open>
  Hybrid retrieval and the record of what was shown (facilitator/src/search/service.ts).  The embedding
  provider and the reranker are parameters, and so are the vector distance, SHA-256, the fresh identifier of a
  session and whether the timer of \<open>withTimeout\<close> has fired when the work ends.
\<close>

datatype search_mode = Lexical | Semantic | Hybrid

datatype branch_use = Use_used | Use_disabled | Use_unavailable | Use_timeout | Use_error | Use_empty | Use_skipped

record candidate_counts =
  cc_lexical :: nat
  cc_semantic :: nat
  cc_fused :: nat
  cc_reranked :: nat

record degradation_report =
  dg_requestedMode :: search_mode
  dg_effectiveMode :: search_mode
  dg_lexical :: branch_use
  dg_semantic :: branch_use
  dg_reranking :: branch_use
  dg_detail :: "string option"
  dg_latencyMs :: int
  dg_semanticLatencyMs :: "int option"
  dg_rerankLatencyMs :: "int option"
  dg_counts :: candidate_counts
  dg_queryShape :: query_shape

record search_config =
  lexical_enabled :: bool
  lexical_language :: string
  lexical_weight :: rat
  lexical_candidateCount :: nat
  semantic_enabled :: bool
  semantic_weight :: rat
  semantic_timeoutMs :: int
  semantic_candidateCount :: nat
  semantic_maxDistance :: rat
  reranking_enabled :: bool
  reranking_topK :: nat
  reranking_timeoutMs :: int
  fallbackToHybrid :: bool
  rrfK :: rat
  minimumRelevanceScore :: rat
  defaultResultLimit :: nat
  maximumResultLimit :: nat
  originDiversityLimit :: int
  impressions_enabled :: bool
  retainQueryText :: bool
  retentionDays :: int

record search_request =
  rq_options :: discovery_options
  rq_query :: string
  rq_mode :: "search_mode option"
  rq_sessionId :: "string option"

record search_result =
  sr_rows :: "discovery_row list"
  sr_total :: nat
  sr_partialResults :: bool
  sr_degraded :: degradation_report
  sr_sessionId :: string
  sr_generationId :: "int option"
  sr_scores :: "(int \<times> rat) list"

record ranking_config =
  rc_rrfK :: rat
  rc_lexicalWeight :: rat
  rc_semanticWeight :: rat
  rc_minimumRelevanceScore :: rat
  rc_rerankTopK :: nat

record impression_row =
  im_session :: string
  im_queryHash :: string
  im_queryText :: "string option"
  im_mode :: search_mode
  im_reranked :: bool
  im_generation :: "int option"
  im_ranking :: ranking_config
  im_resource :: int
  im_version :: int
  im_position :: nat
  im_score :: rat
  im_degraded :: degradation_report
  im_latencyMs :: int
  im_createdAt :: int

type_synonym 'x service_world = "(impression_row, 'x) search_world"

record 'x reranker_provider =
  rk_health :: "('x service_world, provider_health) io"
  rk_rerank :: "string \<Rightarrow> string list \<Rightarrow> ('x service_world, (int \<times> rat) list) io"

record 'x service_env =
  sv_index :: "(impression_row, 'x) index_env"
  sv_read :: read_env
  sv_float :: float_ops
  sv_embedder :: "(impression_row, 'x) embedding_provider option"
  sv_reranker :: "'x reranker_provider option"
  sv_distance :: "rat list \<Rightarrow> rat list \<Rightarrow> rat"
  sv_sha :: "string \<Rightarrow> string"
  sv_uuid :: "'x service_world \<Rightarrow> string"
  sv_fired :: "int \<Rightarrow> int \<Rightarrow> 'x service_world \<Rightarrow> bool"

definition hashSearchQuery :: "(string \<Rightarrow> string) \<Rightarrow> string \<Rightarrow> string" where
  "hashSearchQuery sha query = sha query"

section \<open>Timeouts\<close>

datatype 'a outcome = Ended 'a | Timed_out exn | Failed_with exn

definition withTimeout :: "'x service_env \<Rightarrow> ('x service_world, 'a) io \<Rightarrow> int \<Rightarrow> ('x service_world, 'a outcome \<times> int) io" where
  "withTimeout V work timeoutMs = (\<lambda>w. case work w of
     (Inr x, w') \<Rightarrow> (Inr (Ended x, sw_now w' - sw_now w), w')
   | (Inl e, w') \<Rightarrow> (Inr (if sv_fired V timeoutMs (sw_now w) w' then Timed_out e else Failed_with e, sw_now w' - sw_now w), w'))"

definition outcome_detail :: "'a outcome \<Rightarrow> string option \<Rightarrow> string option" where
  "outcome_detail x old = (case x of Ended _ \<Rightarrow> old | Timed_out e \<Rightarrow> Some (exn_message e) | Failed_with e \<Rightarrow> Some (exn_message e))"

definition outcome_use :: "'a outcome \<Rightarrow> branch_use" where
  "outcome_use x = (case x of Timed_out _ \<Rightarrow> Use_timeout | _ \<Rightarrow> Use_error)"

section \<open>Reads\<close>

definition catalog_read :: "'x service_env \<Rightarrow> (int \<Rightarrow> catalog_db \<Rightarrow> 'a) \<Rightarrow> ('x service_world, 'a) io" where
  "catalog_read V f = index_op (sv_index V) (\<lambda>now d. (Inr (f now d), d))"

definition refreshGeneration :: "'x service_env \<Rightarrow> ('x service_world, generation_row option) io" where
  "refreshGeneration V = io_bind (catalog_read V (\<lambda>_. activeGeneration)) (\<lambda>g.
     io_seq (io_modify (\<lambda>w. w\<lparr>sw_generation := g\<rparr>)) (io_return g))"

definition known_generation :: "'x service_env \<Rightarrow> ('x service_world, generation_row option) io" where
  "known_generation V = io_bind io_get (\<lambda>w. case sw_generation w of Some g \<Rightarrow> io_return (Some g) | None \<Rightarrow> refreshGeneration V)"

definition stored_distance :: "(rat list \<Rightarrow> rat list \<Rightarrow> rat) \<Rightarrow> embedding_row list \<Rightarrow> rat list \<Rightarrow> int \<Rightarrow> rat option" where
  "stored_distance gap rows vector vid = map_option (\<lambda>e. gap (em_vector e) vector) (find (\<lambda>e. em_version e = vid \<and> em_ready e) rows)"

text \<open>A vector with a number that is not finite is refused by the server, and so is a table that does not exist.\<close>

definition nearest_vectors ::
    "'x service_env \<Rightarrow> discovery_options \<Rightarrow> nat \<Rightarrow> generation_row \<Rightarrow> rat option list \<Rightarrow> ('x service_world, semantic_candidate list) io" where
  "nearest_vectors V x n g vector = index_op (sv_index V) (\<lambda>now d. case generationTable (gn_id g) of Inl e \<Rightarrow> (Inl e, d)
     | Inr _ \<Rightarrow> (case storage_of (gn_id g) (index d) of None \<Rightarrow> (Inl (no_relation (gn_id g)), d)
       | Some rows \<Rightarrow> if None \<in> set vector then (Inl (JsError ''invalid value in vector''), d)
           else (Inr (semanticCandidates (sv_read V) now x n (stored_distance (sv_distance V) rows (map the vector)) d), d)))"

section \<open>The semantic branch\<close>

definition semantic_result :: "branch_use \<Rightarrow> degradation_report \<Rightarrow> fusion_input list \<Rightarrow> fusion_input list \<times> degradation_report" where
  "semantic_result use r xs = (xs, r\<lparr>dg_semantic := use\<rparr>)"

definition wrong_dimension :: "rat option list \<Rightarrow> generation_row \<Rightarrow> string" where
  "wrong_dimension v g = ''query embedding dimension '' @ nat_to_string (length v) @ '' does not match generation '' @ int_to_string (gn_id g)
     @ '' ('' @ nat_to_string (mk_dimension (gn_key g)) @ '')''"

definition semantic_input :: "semantic_candidate \<Rightarrow> fusion_input" where
  "semantic_input c = \<lparr> in_resourceId = sc_resourceId c, in_versionId = sc_versionId c \<rparr>"

definition guarded :: "search_config \<Rightarrow> degradation_report \<Rightarrow> semantic_candidate list \<Rightarrow> semantic_candidate list" where
  "guarded c r cs = (if cc_lexical (dg_counts r) > 0 then cs else filter (\<lambda>x. sc_distance x \<le> semantic_maxDistance c) cs)"

definition embedded_candidates ::
    "'x service_env \<Rightarrow> search_config \<Rightarrow> search_request \<Rightarrow> degradation_report \<Rightarrow> generation_row \<Rightarrow> rat option list outcome \<Rightarrow> ('x service_world, fusion_input list \<times> degradation_report) io" where
  "embedded_candidates V c q r g answer = (case answer of
     Ended vector \<Rightarrow> if length vector \<noteq> mk_dimension (gn_key g)
       then io_return (semantic_result Use_error (r\<lparr>dg_detail := Some (wrong_dimension vector g)\<rparr>) [])
       else io_bind (nearest_vectors V (rq_options q) (semantic_candidateCount c) g vector) (\<lambda>cs.
         let confident = guarded c r cs in
         io_return (semantic_result (if confident \<noteq> [] then Use_used else Use_empty) r (map semantic_input confident)))
   | _ \<Rightarrow> io_return (semantic_result (outcome_use answer) (r\<lparr>dg_detail := outcome_detail answer (dg_detail r)\<rparr>) []))"

text \<open>\<open>embedded.value?.[0]\<close>: an answer without a vector is an error.\<close>

definition first_vector :: "rat option list list outcome \<Rightarrow> rat option list outcome option" where
  "first_vector x = (case x of Ended (v # _) \<Rightarrow> Some (Ended v) | Ended [] \<Rightarrow> None | Timed_out e \<Rightarrow> Some (Timed_out e) | Failed_with e \<Rightarrow> Some (Failed_with e))"

definition Service_semanticCandidates ::
    "'x service_env \<Rightarrow> search_config \<Rightarrow> search_request \<Rightarrow> degradation_report \<Rightarrow> ('x service_world, fusion_input list \<times> degradation_report) io" where
  "Service_semanticCandidates V c q r = (case (semantic_enabled c, sv_embedder V) of
     (True, Some P) \<Rightarrow>
       if normalizedLength (dg_queryShape r) = 0 \<or> stopwordOnly (dg_queryShape r) then io_return (semantic_result Use_empty r [])
       else if \<not> hasVectorSupport (sv_index V)
         then io_return (semantic_result Use_unavailable (r\<lparr>dg_detail := Some ''pgvector is not installed; serving lexical results''\<rparr>) [])
       else io_bind (known_generation V) (\<lambda>generation. case generation of
           None \<Rightarrow> io_return (semantic_result Use_unavailable (r\<lparr>dg_detail := Some ''no active embedding generation; serving lexical results''\<rparr>) [])
         | Some g \<Rightarrow> io_bind (withTimeout V (pv_embed P [normalizeSearchQuery (re_unicode (sv_read V)) (rq_query q)]) (semantic_timeoutMs c)) (\<lambda>(answer, ms).
             let r1 = r\<lparr>dg_semanticLatencyMs := Some ms\<rparr> in
             (case first_vector answer of
                None \<Rightarrow> io_return (semantic_result Use_error r1 [])
              | Some x \<Rightarrow> embedded_candidates V c q r1 g x)))
   | _ \<Rightarrow> io_return (semantic_result Use_disabled r []))"

section \<open>Reranking\<close>

text \<open>The scores by index, a later entry for an index replacing an earlier one.\<close>

definition score_by_index :: "(int \<times> rat) list \<Rightarrow> nat \<Rightarrow> rat" where
  "score_by_index scored i = coalesce (map_of (rev scored) (int i)) 0"

definition rescored :: "(int \<times> rat) list \<Rightarrow> fused_result list \<Rightarrow> fused_result list" where
  "rescored scored head = js_sort compare_fused (map (\<lambda>(i, x). x\<lparr>fu_score := score_by_index scored i\<rparr>) (zip [0..<length head] head))"

definition rerank_failed :: "search_config \<Rightarrow> fused_result list \<Rightarrow> fused_result list" where
  "rerank_failed c fused = (if fallbackToHybrid c then fused else [])"

definition reranked ::
    "search_config \<Rightarrow> fused_result list \<Rightarrow> degradation_report \<Rightarrow> (int \<times> rat) list outcome \<Rightarrow> fused_result list \<times> degradation_report" where
  "reranked c fused r answer = (case answer of
     Ended scored \<Rightarrow> (rescored scored (take (reranking_topK c) fused) @ drop (reranking_topK c) fused, r\<lparr>dg_reranking := Use_used\<rparr>)
   | _ \<Rightarrow> (rerank_failed c fused, r\<lparr>dg_reranking := outcome_use answer, dg_detail := outcome_detail answer (dg_detail r)\<rparr>))"

definition reranker_health :: "'x reranker_provider \<Rightarrow> ('x service_world, provider_health) io" where
  "reranker_health K = io_catch (rk_health K) (\<lambda>e. io_return (degraded_by e))"

definition or_detail :: "string option \<Rightarrow> string option \<Rightarrow> string option" where
  "or_detail a b = (case a of None \<Rightarrow> b | Some s \<Rightarrow> Some s)"

definition rerank ::
    "'x service_env \<Rightarrow> search_config \<Rightarrow> string \<Rightarrow> fused_result list \<Rightarrow> degradation_report \<Rightarrow> ('x service_world, fused_result list \<times> degradation_report) io" where
  "rerank V c query fused r = (case (reranking_enabled c, sv_reranker V) of
     (True, Some K) \<Rightarrow>
       if fused = [] then io_return (fused, r\<lparr>dg_reranking := Use_skipped\<rparr>)
       else io_bind (reranker_health K) (\<lambda>h.
         if ph_status h \<noteq> Ready
         then io_return (rerank_failed c fused, r\<lparr>dg_reranking := Use_unavailable, dg_detail := or_detail (ph_detail h) (dg_detail r)\<rparr>)
         else let head = take (reranking_topK c) fused; r1 = r\<lparr>dg_counts := (dg_counts r)\<lparr>cc_reranked := length head\<rparr>\<rparr> in
           io_bind (catalog_read V (\<lambda>_. document_texts (map fu_versionId head))) (\<lambda>docs.
           io_bind (withTimeout V (rk_rerank K (normalizeSearchQuery (re_unicode (sv_read V)) query)
                (map (\<lambda>x. coalesce (map_of docs (fu_versionId x)) []) head)) (reranking_timeoutMs c)) (\<lambda>(answer, ms).
             io_return (reranked c fused (r1\<lparr>dg_rerankLatencyMs := Some ms\<rparr>) answer))))
   | _ \<Rightarrow> io_return (fused, r\<lparr>dg_reranking := Use_disabled\<rparr>))"

section \<open>Search\<close>

definition requested_mode :: "search_config \<Rightarrow> search_request \<Rightarrow> search_mode" where
  "requested_mode c q = coalesce (rq_mode q) (if semantic_enabled c then Hybrid else Lexical)"

definition initial_report :: "'x service_env \<Rightarrow> search_config \<Rightarrow> search_request \<Rightarrow> degradation_report" where
  "initial_report V c q = \<lparr> dg_requestedMode = requested_mode c q, dg_effectiveMode = Lexical, dg_lexical = Use_disabled,
     dg_semantic = Use_disabled, dg_reranking = Use_disabled, dg_detail = None, dg_latencyMs = 0, dg_semanticLatencyMs = None,
     dg_rerankLatencyMs = None, dg_counts = \<lparr> cc_lexical = 0, cc_semantic = 0, cc_fused = 0, cc_reranked = 0 \<rparr>,
     dg_queryShape = describeSearchQuery (re_unicode (sv_read V)) (rq_query q) \<rparr>"

definition wants_lexical :: "search_config \<Rightarrow> search_request \<Rightarrow> bool" where
  "wants_lexical c q = (lexical_enabled c \<and> requested_mode c q \<noteq> Semantic)"

definition lexical_input :: "lexical_candidate \<Rightarrow> fusion_input" where
  "lexical_input x = \<lparr> in_resourceId = lc_resourceId x, in_versionId = lc_versionId x \<rparr>"

definition scoped :: "search_config \<Rightarrow> search_request \<Rightarrow> discovery_options" where
  "scoped c q = (rq_options q)\<lparr>dp_query := Some (rq_query q), dp_language := Some (lexical_language c)\<rparr>"

definition lexical_branch :: "'x service_env \<Rightarrow> search_config \<Rightarrow> search_request \<Rightarrow> ('x service_world, fusion_input list) io" where
  "lexical_branch V c q = (if wants_lexical c q
     then catalog_read V (\<lambda>now d. map lexical_input (lexicalCandidates (sv_read V) now (scoped c q) (lexical_candidateCount c) d))
     else io_return [])"

definition branches_of :: "search_config \<Rightarrow> fusion_input list \<Rightarrow> fusion_input list \<Rightarrow> fusion_branch list" where
  "branches_of c lexical semantic =
     (if lexical \<noteq> [] then [\<lparr> fb_name = ''lexical'', fb_weight = lexical_weight c, fb_candidates = lexical \<rparr>] else [])
   @ (if semantic \<noteq> [] then [\<lparr> fb_name = ''semantic'', fb_weight = semantic_weight c, fb_candidates = semantic \<rparr>] else [])"

definition effective_mode :: "fusion_input list \<Rightarrow> fusion_input list \<Rightarrow> search_mode" where
  "effective_mode lexical semantic = (if lexical \<noteq> [] \<and> semantic \<noteq> [] then Hybrid else if lexical = [] \<and> semantic \<noteq> [] then Semantic else Lexical)"

definition above_threshold :: "search_config \<Rightarrow> fused_result list \<Rightarrow> fused_result list" where
  "above_threshold c fused = (if minimumRelevanceScore c > 0 then filter (\<lambda>x. fu_score x \<ge> minimumRelevanceScore c) fused else fused)"

definition branch_degraded :: "branch_use \<Rightarrow> bool" where
  "branch_degraded u = (u = Use_timeout \<or> u = Use_error \<or> u = Use_unavailable)"

definition page_rows :: "(int \<times> discovery_row) list \<Rightarrow> fused_result list \<Rightarrow> discovery_row list" where
  "page_rows hydrated page = concat (map (\<lambda>x. case map_of hydrated (fu_versionId x) of None \<Rightarrow> [] | Some row \<Rightarrow> [row]) page)"

definition finish_search ::
    "'x service_env \<Rightarrow> search_config \<Rightarrow> search_request \<Rightarrow> int \<Rightarrow> fused_result list \<Rightarrow> degradation_report \<Rightarrow> ('x service_world, search_result) io" where
  "finish_search V c q started fused r =
     io_bind (catalog_read V (\<lambda>_. origins (map fu_resourceId fused))) (\<lambda>os.
     let diverse = applyOriginDiversity fused os (originDiversityLimit c); x = rq_options q;
         page = take (dp_limit x) (drop (dp_offset x) diverse) in
     io_bind (catalog_read V (\<lambda>_. hydrate (sv_read V) (map fu_versionId page) (dp_snapshot x))) (\<lambda>hydrated.
     io_bind io_get (\<lambda>w. let rows = page_rows hydrated page; r1 = r\<lparr>dg_latencyMs := sw_now w - started\<rparr> in
       io_return \<lparr> sr_rows = rows, sr_total = length diverse,
         sr_partialResults = (dp_offset x + length page < length diverse \<or> length rows < length page
            \<or> branch_degraded (dg_semantic r1) \<or> branch_degraded (dg_reranking r1)),
         sr_degraded = r1, sr_sessionId = coalesce (rq_sessionId q) (sv_uuid V w),
         sr_generationId = map_option gn_id (sw_generation w), sr_scores = map (\<lambda>y. (fu_versionId y, fu_score y)) page \<rparr>)))"

definition semantic_branch ::
    "'x service_env \<Rightarrow> search_config \<Rightarrow> search_request \<Rightarrow> degradation_report \<Rightarrow> ('x service_world, fusion_input list \<times> degradation_report) io" where
  "semantic_branch V c q r = (if requested_mode c q = Lexical then io_return ([], r) else Service_semanticCandidates V c q r)"

definition search :: "'x service_env \<Rightarrow> search_config \<Rightarrow> search_request \<Rightarrow> ('x service_world, search_result) io" where
  "search V c q = io_bind io_get (\<lambda>w0. let started = sw_now w0 in
     io_bind (lexical_branch V c q) (\<lambda>lexical.
     let r0 = (initial_report V c q)\<lparr>dg_counts := \<lparr> cc_lexical = length lexical, cc_semantic = 0, cc_fused = 0, cc_reranked = 0 \<rparr>,
           dg_lexical := (if wants_lexical c q then Use_used else Use_disabled)\<rparr> in
     io_bind (semantic_branch V c q r0) (\<lambda>(semantic, r1).
     let fused = above_threshold c (fuse (sv_float V) (branches_of c lexical semantic) (rrfK c));
         r2 = r1\<lparr>dg_counts := (dg_counts r1)\<lparr>cc_semantic := length semantic, cc_fused := length fused\<rparr>, dg_effectiveMode := effective_mode lexical semantic\<rparr> in
     io_bind (rerank V c (rq_query q) fused r2) (\<lambda>(ranked, r3).
       finish_search V c q started (above_threshold c ranked) r3))))"

section \<open>What was shown\<close>

definition ranking_of :: "search_config \<Rightarrow> ranking_config" where
  "ranking_of c = \<lparr> rc_rrfK = rrfK c, rc_lexicalWeight = lexical_weight c, rc_semanticWeight = semantic_weight c,
     rc_minimumRelevanceScore = minimumRelevanceScore c, rc_rerankTopK = reranking_topK c \<rparr>"

definition kept_query :: "search_config \<Rightarrow> string \<Rightarrow> string option" where
  "kept_query c query = (if retainQueryText c then Some (js_slice 512 query) else None)"

definition upsert_session :: "session_row \<Rightarrow> session_row list \<Rightarrow> session_row list" where
  "upsert_session s rows = (if list_ex (\<lambda>x. ss_id x = ss_id s) rows
     then update_where (\<lambda>x. ss_id x = ss_id s) (\<lambda>x. x\<lparr>ss_resources := ss_resources x @ ss_resources s, ss_versions := ss_versions x @ ss_versions s\<rparr>) rows
     else rows @ [s])"

definition impression_of :: "(string \<Rightarrow> string) \<Rightarrow> search_config \<Rightarrow> string \<Rightarrow> string \<Rightarrow> search_result \<Rightarrow> int \<Rightarrow> nat \<times> discovery_row \<Rightarrow> impression_row" where
  "impression_of sha c sid query result now = (\<lambda>(i, row). \<lparr> im_session = sid, im_queryHash = hashSearchQuery sha query, im_queryText = kept_query c query,
     im_mode = dg_effectiveMode (sr_degraded result), im_reranked = (dg_reranking (sr_degraded result) = Use_used),
     im_generation = sr_generationId result, im_ranking = ranking_of c, im_resource = dr_resourceId row, im_version = dr_versionId row,
     im_position = i + 1, im_score = coalesce (map_of (rev (sr_scores result)) (dr_versionId row)) 0, im_degraded = sr_degraded result,
     im_latencyMs = dg_latencyMs (sr_degraded result), im_createdAt = now \<rparr>)"

text \<open>One transaction; it fails when a row it refers to is not there.\<close>

definition record_impressions ::
    "(string \<Rightarrow> string) \<Rightarrow> search_config \<Rightarrow> string \<Rightarrow> string \<Rightarrow> search_result \<Rightarrow> discovery_row list \<Rightarrow> int \<Rightarrow> impression_row feedback_tables \<Rightarrow> impression_row feedback_tables" where
  "record_impressions sha c sid query result rows now t = (if \<not> impressions_enabled c then t
     else t\<lparr>sessions := upsert_session \<lparr> ss_id = sid, ss_queryHash = hashSearchQuery sha query, ss_queryText = kept_query c query,
         ss_resources = map dr_resourceId rows, ss_versions = map dr_versionId rows, ss_createdAt = now \<rparr> (sessions t),
       impressions := impressions t @ map (impression_of sha c sid query result now) (zip [0..<length rows] rows)\<rparr>)"

fun array_position :: "int list \<Rightarrow> int \<Rightarrow> nat option" where
  "array_position [] x = None"
| "array_position (y # ys) x = (if y = x then Some 1 else map_option Suc (array_position ys x))"

definition fetch_of :: "int \<Rightarrow> int \<Rightarrow> session_row \<Rightarrow> fetch_row list" where
  "fetch_of rid vid s = (case array_position (ss_resources s) rid of None \<Rightarrow> []
     | Some p \<Rightarrow> [\<lparr> fe_session = ss_id s, fe_resource = rid, fe_version = vid, fe_position = p \<rparr>])"

definition recordFetch :: "search_config \<Rightarrow> string \<Rightarrow> discovery_row \<Rightarrow> impression_row feedback_tables \<Rightarrow> bool \<times> impression_row feedback_tables" where
  "recordFetch c sid row t = (if \<not> impressions_enabled c then (False, t)
     else let added = concat (map (fetch_of (dr_resourceId row) (dr_versionId row)) (filter (\<lambda>s. ss_id s = sid) (sessions t))) in
       (added \<noteq> [], t\<lparr>fetches := fetches t @ added\<rparr>))"

definition days :: "int \<Rightarrow> int" where
  "days n = n * 86400000"

definition prune_impressions :: "search_config \<Rightarrow> int \<Rightarrow> impression_row feedback_tables \<Rightarrow> nat \<times> impression_row feedback_tables" where
  "prune_impressions c now t = (let old = (\<lambda>x. im_createdAt x < now - days (retentionDays c)) in
     (length (filter old (impressions t)), t\<lparr>impressions := filter (\<lambda>x. \<not> old x) (impressions t)\<rparr>))"

text \<open>ON DELETE CASCADE: the fetches of a session go with it.\<close>

definition prune_sessions :: "search_config \<Rightarrow> int \<Rightarrow> impression_row feedback_tables \<Rightarrow> impression_row feedback_tables" where
  "prune_sessions c now t = (let gone = map ss_id (filter (\<lambda>s. ss_createdAt s < now - days (retentionDays c)) (sessions t)) in
     t\<lparr>sessions := filter (\<lambda>s. ss_id s \<notin> set gone) (sessions t), fetches := filter (\<lambda>f. fe_session f \<notin> set gone) (fetches t)\<rparr>)"

definition feedback_op :: "'x service_env \<Rightarrow> (int \<Rightarrow> impression_row feedback_tables \<Rightarrow> 'a \<times> impression_row feedback_tables) \<Rightarrow> ('x service_world, 'a) io" where
  "feedback_op V f = (\<lambda>w. let w1 = ix_yield (sv_index V) w in case f (sw_now w1) (sw_feedback w1) of (x, t) \<Rightarrow> (Inr x, w1\<lparr>sw_feedback := t\<rparr>))"

definition prune :: "'x service_env \<Rightarrow> search_config \<Rightarrow> ('x service_world, nat) io" where
  "prune V c = io_bind (feedback_op V (prune_impressions c)) (\<lambda>n. io_bind (feedback_op V (\<lambda>now t. ((), prune_sessions c now t))) (\<lambda>_. io_return n))"

end
