(* ===== verification/Search_Degradation.thy ===== *)
theory Search_Degradation
  imports Search_Service Catalog_Demo
begin

text \<open>
  Search without its models: when the embedding provider and the reranker are absent, unavailable, late or
  failing in any way, a search answers what PostgreSQL full-text search alone gives.
\<close>

section \<open>The situation\<close>

text \<open>The tables do not change and the clock stays in \<open>T\<close>.\<close>

definition calm :: "catalog_db \<Rightarrow> int set \<Rightarrow> 'x service_world \<Rightarrow> bool" where
  "calm d T w = (sw_db w = d \<and> sw_now w \<in> T)"

definition fails_in :: "('w \<Rightarrow> bool) \<Rightarrow> ('w, 'a) io \<Rightarrow> bool" where
  "fails_in J m = (\<forall>w. J w \<longrightarrow> (\<exists>e w'. m w = (Inl e, w') \<and> J w'))"

definition no_vector :: "('w \<Rightarrow> bool) \<Rightarrow> ('w, rat option list list) io \<Rightarrow> bool" where
  "no_vector J m = (\<forall>w. J w \<longrightarrow> (\<exists>r w'. m w = (r, w') \<and> J w' \<and> (case r of Inl _ \<Rightarrow> True | Inr vs \<Rightarrow> vs = [])))"

text \<open>Every embedding fails or has no vector, every reranking fails, and the health probe says anything.\<close>

definition models_down :: "'x service_env \<Rightarrow> catalog_db \<Rightarrow> int set \<Rightarrow> bool" where
  "models_down V d T = ((\<forall>w. calm d T w \<longrightarrow> calm d T (ix_yield (sv_index V) w))
     \<and> (case sv_embedder V of None \<Rightarrow> True | Some P \<Rightarrow> (\<forall>docs. no_vector (calm d T) (pv_embed P docs)))
     \<and> (case sv_reranker V of None \<Rightarrow> True | Some K \<Rightarrow> spares (calm d T) (rk_health K) \<and> (\<forall>query docs. fails_in (calm d T) (rk_rerank K query docs))))"

lemma calm_read:
  assumes "models_down V d T" "calm d T w"
  shows "\<exists>t w'. catalog_read V f w = (Inr (f t d), w') \<and> calm d T w' \<and> t \<in> T"
proof -
  let ?w = "ix_yield (sv_index V) w"
  have "calm d T ?w" using assms by (simp add: models_down_def)
  moreover from this have "catalog_read V f w = (Inr (f (sw_now ?w) d), ?w)" by (simp add: catalog_read_def index_op_def Let_def calm_def)
  ultimately show ?thesis by (auto simp: calm_def)
qed

lemma calm_generation:
  assumes "models_down V d T" "calm d T w"
  shows "\<exists>g w'. known_generation V w = (Inr g, w') \<and> calm d T w'"
proof (cases "sw_generation w")
  case None
  obtain g w1 where 1: "catalog_read V (\<lambda>_. activeGeneration) w = (Inr g, w1)" "calm d T w1" using calm_read [OF assms] by blast
  then have "known_generation V w = (Inr g, w1\<lparr>sw_generation := g\<rparr>)"
    using None by (simp add: known_generation_def refreshGeneration_def io_bind_app io_seq_app io_get_def io_modify_def)
  then show ?thesis using 1(2) by (auto simp: calm_def)
next
  case (Some g)
  then show ?thesis using assms(2) by (simp add: known_generation_def io_bind_app io_get_def)
qed

text \<open>The semantic branch gives nothing and says so.\<close>

definition without_semantic :: "degradation_report \<Rightarrow> degradation_report \<Rightarrow> bool" where
  "without_semantic r r1 = (dg_semantic r1 \<noteq> Use_used \<and> dg_effectiveMode r1 = dg_effectiveMode r)"

lemma embedded_down:
  assumes "case answer of Ended vs \<Rightarrow> vs = [] | _ \<Rightarrow> True"
  shows "\<exists>r1. (case first_vector answer of None \<Rightarrow> io_return (semantic_result Use_error r [])
     | Some x \<Rightarrow> embedded_candidates V c q r g x) w = (Inr ([], r1), w) \<and> without_semantic r r1"
  using assms by (cases answer) (auto simp: first_vector_def embedded_candidates_def semantic_result_def without_semantic_def outcome_use_def split: list.splits)

lemma semantic_down:
  assumes m: "models_down V d T" and w: "calm d T w" and r: "dg_semantic r \<noteq> Use_used"
  shows "\<exists>r1 w'. semantic_branch V c q r w = (Inr ([], r1), w') \<and> calm d T w' \<and> without_semantic r r1"
proof (cases "requested_mode c q = Lexical")
  case True
  then show ?thesis using w r by (simp add: semantic_branch_def without_semantic_def)
next
  case False
  show ?thesis
  proof (cases "semantic_enabled c \<and> sv_embedder V \<noteq> None")
    case True
    then obtain P where P: "semantic_enabled c" "sv_embedder V = Some P" by blast
    note branch = semantic_branch_def Service_semanticCandidates_def P
    consider (empty) "normalizedLength (dg_queryShape r) = 0 \<or> stopwordOnly (dg_queryShape r)"
      | (vectors) "\<not> (normalizedLength (dg_queryShape r) = 0 \<or> stopwordOnly (dg_queryShape r))" "\<not> hasVectorSupport (sv_index V)"
      | (ask) "\<not> (normalizedLength (dg_queryShape r) = 0 \<or> stopwordOnly (dg_queryShape r))" "hasVectorSupport (sv_index V)" by blast
    then show ?thesis
    proof cases
      case empty
      then show ?thesis using False w by (auto simp: branch semantic_result_def without_semantic_def)
    next
      case vectors
      then show ?thesis using False w by (auto simp: branch semantic_result_def without_semantic_def)
    next
      case ask
      obtain generation w1 where g: "known_generation V w = (Inr generation, w1)" "calm d T w1" using calm_generation [OF m w] by blast
      show ?thesis
      proof (cases generation)
        case None
        then show ?thesis using False ask g by (simp add: branch io_bind_app semantic_result_def without_semantic_def)
      next
        case (Some gen)
        let ?work = "pv_embed P [normalizeSearchQuery (re_unicode (sv_read V)) (rq_query q)]"
        have "no_vector (calm d T) ?work" using m P(2) by (simp add: models_down_def)
        then obtain x w2 where x: "?work w1 = (x, w2)" "calm d T w2" "case x of Inl _ \<Rightarrow> True | Inr vs \<Rightarrow> vs = []"
          using g(2) unfolding no_vector_def by blast
        obtain answer ms where t: "withTimeout V ?work (semantic_timeoutMs c) w1 = (Inr (answer, ms), w2)" "case answer of Ended vs \<Rightarrow> vs = [] | _ \<Rightarrow> True"
          using x by (cases x) (auto simp: withTimeout_def)
        have "semantic_branch V c q r w = (case first_vector answer of None \<Rightarrow> io_return (semantic_result Use_error (r\<lparr>dg_semanticLatencyMs := Some ms\<rparr>) [])
           | Some x \<Rightarrow> embedded_candidates V c q (r\<lparr>dg_semanticLatencyMs := Some ms\<rparr>) gen x) w2"
          using False ask by (simp add: branch io_bind_app g Some t(1) Let_def)
        moreover obtain r1 where "(case first_vector answer of None \<Rightarrow> io_return (semantic_result Use_error (r\<lparr>dg_semanticLatencyMs := Some ms\<rparr>) [])
           | Some x \<Rightarrow> embedded_candidates V c q (r\<lparr>dg_semanticLatencyMs := Some ms\<rparr>) gen x) w2 = (Inr ([], r1), w2)"
           "without_semantic (r\<lparr>dg_semanticLatencyMs := Some ms\<rparr>) r1" using embedded_down [OF t(2)] by blast
        ultimately show ?thesis using x(2) by (simp add: without_semantic_def)
      qed
    qed
  next
    case none: False
    have "Service_semanticCandidates V c q r = io_return (semantic_result Use_disabled r [])"
      using none by (auto simp: Service_semanticCandidates_def split: bool.split option.split)
    then show ?thesis using False w by (simp add: semantic_branch_def semantic_result_def without_semantic_def)
  qed
qed

text \<open>Reranking leaves the fused order: it is configured to fall back when it fails, or there is none.\<close>

definition falls_back :: "'x service_env \<Rightarrow> search_config \<Rightarrow> bool" where
  "falls_back V c = (fallbackToHybrid c \<or> \<not> reranking_enabled c \<or> sv_reranker V = None)"

lemma rerank_down:
  assumes m: "models_down V d T" and w: "calm d T w" and f: "falls_back V c"
  shows "\<exists>r1 w'. rerank V c query fused r w = (Inr (fused, r1), w') \<and> calm d T w' \<and> dg_reranking r1 \<noteq> Use_used
     \<and> dg_semantic r1 = dg_semantic r \<and> dg_effectiveMode r1 = dg_effectiveMode r"
proof (cases "reranking_enabled c \<and> sv_reranker V \<noteq> None \<and> fused \<noteq> []")
  case False
  then show ?thesis using w by (cases "reranking_enabled c"; cases "sv_reranker V") (auto simp: rerank_def)
next
  case True
  then obtain K where K: "reranking_enabled c" "sv_reranker V = Some K" "fused \<noteq> []" by blast
  have f: "fallbackToHybrid c" using f K by (simp add: falls_back_def)
  have k: "spares (calm d T) (rk_health K)" "fails_in (calm d T) (rk_rerank K s docs)" for s docs using m K(2) by (simp_all add: models_down_def)
  obtain x w1 where x: "rk_health K w = (x, w1)" "calm d T w1" using k(1) w by (cases "rk_health K w") (auto simp: spares_def)
  then obtain h where h: "reranker_health K w = (Inr h, w1)" "calm d T w1"
    by (cases x) (auto simp: reranker_health_def io_catch_app)
  show ?thesis
  proof (cases "ph_status h = Ready")
    case False
    then show ?thesis using h f by (simp add: rerank_def K io_bind_app rerank_failed_def)
  next
    case True
    let ?head = "take (reranking_topK c) fused"
    obtain docs w2 where r: "catalog_read V (\<lambda>_. document_texts (map fu_versionId ?head)) w1 = (Inr docs, w2)" "calm d T w2"
      using calm_read [OF m h(2)] by blast
    let ?work = "rk_rerank K (normalizeSearchQuery (re_unicode (sv_read V)) query) (map (\<lambda>x. coalesce (map_of docs (fu_versionId x)) []) ?head)"
    obtain e w3 where e: "?work w2 = (Inl e, w3)" "calm d T w3" using k(2) r(2) unfolding fails_in_def by blast
    obtain answer ms where t: "withTimeout V ?work (reranking_timeoutMs c) w2 = (Inr (answer, ms), w3)" "answer = Timed_out e \<or> answer = Failed_with e"
      using e by (auto simp: withTimeout_def)
    then show ?thesis using e(2) f t(2)
      by (auto simp: rerank_def K io_bind_app h True Let_def r t(1) reranked_def rerank_failed_def outcome_use_def)
  qed
qed

section \<open>The lexical answer\<close>

lemma above_threshold_twice [simp]: "above_threshold c (above_threshold c xs) = above_threshold c xs"
  by (simp add: above_threshold_def)

text \<open>What full-text search alone gives, for the candidates it finds.\<close>

definition lexical_ranking :: "'x service_env \<Rightarrow> search_config \<Rightarrow> search_request \<Rightarrow> lexical_candidate list \<Rightarrow> catalog_db \<Rightarrow> fused_result list" where
  "lexical_ranking V c q found d = (let candidates = (if wants_lexical c q then map lexical_input found else []);
       fused = above_threshold c (fuse (sv_float V) (branches_of c candidates []) (rrfK c)) in
     applyOriginDiversity fused (origins (map fu_resourceId fused) d) (originDiversityLimit c))"

definition lexical_page :: "'x service_env \<Rightarrow> search_config \<Rightarrow> search_request \<Rightarrow> lexical_candidate list \<Rightarrow> catalog_db \<Rightarrow> discovery_row list" where
  "lexical_page V c q found d = (let page = take (dp_limit (rq_options q)) (drop (dp_offset (rq_options q)) (lexical_ranking V c q found d)) in
     page_rows (hydrate (sv_read V) (map fu_versionId page) (dp_snapshot (rq_options q)) d) page)"

lemma lexical_down:
  assumes m: "models_down V d T" and w: "calm d T w"
    and l: "\<And>t. t \<in> T \<Longrightarrow> lexicalCandidates (sv_read V) t (scoped c q) (lexical_candidateCount c) d = found"
  shows "\<exists>w'. lexical_branch V c q w = (Inr (if wants_lexical c q then map lexical_input found else []), w') \<and> calm d T w'"
  using calm_read [OF m w, of "\<lambda>now d. map lexical_input (lexicalCandidates (sv_read V) now (scoped c q) (lexical_candidateCount c) d)"] w l
  by (auto simp: lexical_branch_def)

lemma finish_down:
  assumes m: "models_down V d T" and w: "calm d T w"
  shows "\<exists>r1 w'. finish_search V c q started fused r w = (Inr r1, w') \<and> calm d T w'
     \<and> sr_rows r1 = (let page = take (dp_limit (rq_options q)) (drop (dp_offset (rq_options q))
            (applyOriginDiversity fused (origins (map fu_resourceId fused) d) (originDiversityLimit c))) in
          page_rows (hydrate (sv_read V) (map fu_versionId page) (dp_snapshot (rq_options q)) d) page)
     \<and> sr_total r1 = length (applyOriginDiversity fused (origins (map fu_resourceId fused) d) (originDiversityLimit c))
     \<and> dg_semantic (sr_degraded r1) = dg_semantic r \<and> dg_reranking (sr_degraded r1) = dg_reranking r
     \<and> dg_effectiveMode (sr_degraded r1) = dg_effectiveMode r
     \<and> (branch_degraded (dg_semantic r) \<or> branch_degraded (dg_reranking r) \<longrightarrow> sr_partialResults r1)"
proof -
  let ?div = "applyOriginDiversity fused (origins (map fu_resourceId fused) d) (originDiversityLimit c)"
  let ?page = "take (dp_limit (rq_options q)) (drop (dp_offset (rq_options q)) ?div)"
  obtain w1 where 1: "catalog_read V (\<lambda>_. origins (map fu_resourceId fused)) w = (Inr (origins (map fu_resourceId fused) d), w1)" "calm d T w1"
    using calm_read [OF m w] by blast
  obtain w2 where 2: "catalog_read V (\<lambda>_. hydrate (sv_read V) (map fu_versionId ?page) (dp_snapshot (rq_options q))) w1
      = (Inr (hydrate (sv_read V) (map fu_versionId ?page) (dp_snapshot (rq_options q)) d), w2)" "calm d T w2"
    using calm_read [OF m 1(2)] by blast
  show ?thesis using 1 2 by (simp add: finish_search_def io_bind_app Let_def io_get_def)
qed

section \<open>The property\<close>


text \<open>A catalog of one resource, a provider that cannot be reached and a reranker that refuses.\<close>

definition refusing_reranker :: "unit reranker_provider" where
  "refusing_reranker = \<lparr> rk_health = io_return \<lparr> ph_status = Ready, ph_detail = None \<rparr>, rk_rerank = (\<lambda>_ _. io_throw (JsError ''refused'')) \<rparr>"

definition unreachable_provider :: "(impression_row, unit) embedding_provider" where
  "unreachable_provider = \<lparr> pv_key = \<lparr> mk_provider = ''p'', mk_modelId = ''m'', mk_modelRevision = ''r'', mk_dimension = 1,
     mk_pooling = Mean_pooling, mk_normalization = L2_normalization \<rparr>, pv_checksum = None, pv_warm = None,
     pv_health = io_throw (JsError ''unreachable''), pv_embed = (\<lambda>docs. io_throw (JsError ''unreachable'')) \<rparr>"

definition down_env :: "unit service_env" where
  "down_env = \<lparr> sv_index = \<lparr> ix_yield = id, ix_locked = (\<lambda>_ _. False), ix_vectors = True \<rparr>, sv_read = demo_read_env,
     sv_float = \<lparr> f_add = (+), f_div = (/) \<rparr>, sv_embedder = Some unreachable_provider, sv_reranker = Some refusing_reranker,
     sv_distance = (\<lambda>_ _. 0), sv_sha = id, sv_uuid = (\<lambda>_. ''s''), sv_fired = (\<lambda>_ _ _. False) \<rparr>"

definition demo_search_config :: search_config where
  "demo_search_config = \<lparr> lexical_enabled = True, lexical_language = ''english'', lexical_weight = 1, lexical_candidateCount = 10,
     semantic_enabled = True, semantic_weight = 1, semantic_timeoutMs = 100, semantic_candidateCount = 10, semantic_maxDistance = 1,
     reranking_enabled = True, reranking_topK = 5, reranking_timeoutMs = 100, fallbackToHybrid = True, rrfK = 60,
     minimumRelevanceScore = 0, defaultResultLimit = 10, maximumResultLimit = 20, originDiversityLimit = 5,
     impressions_enabled = True, retainQueryText = False, retentionDays = 30 \<rparr>"

definition demo_request :: search_request where
  "demo_request = \<lparr> rq_options = demo_discovery 2000, rq_query = ''w'', rq_mode = None, rq_sessionId = None \<rparr>"

definition down_world :: "unit service_world" where
  "down_world = \<lparr> sw_db = demo_listed, sw_feedback = \<lparr> sessions = [], impressions = [], fetches = [] \<rparr>,
     sw_worker = fresh_worker, sw_generation = None, sw_now = 5000, sw_ext = () \<rparr>"

lemma down_models: "models_down down_env d T"
  by (auto simp: models_down_def down_env_def unreachable_provider_def refusing_reranker_def no_vector_def spares_def fails_in_def io_throw_def io_return_def)


end
