(* ===== verification/Discovery_Cursor.thy ===== *)
theory Discovery_Cursor
  imports JS_Json_Parse JS_Base64 JS_Values
begin

text \<open>
  The signed cursors of the discovery routes (facilitator/src/http/cursor.ts).  HMAC-SHA-256 is the parameter
  \<open>hmac\<close>, from a key and a message to the digest; \<open>timingSafeEqual\<close> on buffers of one length is equality.
\<close>

record cursor_payload =
  cu_snapshot :: string
  cu_offset :: int
  cu_filters :: string
  cu_expiresAt :: int
  cu_searchSessionId :: "string option"

definition VERSION :: string where
  "VERSION = ''c1''"

definition sign :: "(string \<Rightarrow> string \<Rightarrow> string) \<Rightarrow> string \<Rightarrow> string \<Rightarrow> string" where
  "sign hmac key body = base64url (hmac key (VERSION @ ''.'' @ body))"

definition filterFingerprint :: "(string \<Rightarrow> string \<Rightarrow> string) \<Rightarrow> js \<Rightarrow> string" where
  "filterFingerprint hmac filters = take 22 (base64url (hmac ''x402-discovery-filters'' (canonicalJson filters)))"

definition payload_json :: "cursor_payload \<Rightarrow> js" where
  "payload_json p = JObj ([(''snapshot'', JStr (cu_snapshot p)), (''offset'', JNum (cu_offset p)), (''filters'', JStr (cu_filters p)),
     (''expiresAt'', JNum (cu_expiresAt p))]
     @ (case cu_searchSessionId p of None \<Rightarrow> [] | Some s \<Rightarrow> [(''searchSessionId'', JStr s)]))"

definition encodeCursor :: "(string \<Rightarrow> string \<Rightarrow> string) \<Rightarrow> string \<Rightarrow> cursor_payload \<Rightarrow> string" where
  "encodeCursor hmac key p = (let body = base64url (canonicalJson (payload_json p)) in
     VERSION @ ''.'' @ body @ ''.'' @ sign hmac key body)"

text \<open>The pattern of a version 4 UUID, in either case.\<close>

definition hex_char :: "char \<Rightarrow> bool" where
  "hex_char c = (hex_value c \<noteq> None)"

fun uuid_shape :: "string \<Rightarrow> string \<Rightarrow> bool" where
  "uuid_shape [] s = (s = [])"
| "uuid_shape (p # ps) [] = False"
| "uuid_shape (p # ps) (c # s) = ((if p = CHR ''x'' then hex_char c
     else if p = CHR ''y'' then c \<in> set ''89abAB'' else c = p) \<and> uuid_shape ps s)"

definition uuid_v4 :: "string \<Rightarrow> bool" where
  "uuid_v4 s = uuid_shape ''xxxxxxxx-xxxx-4xxx-yxxx-xxxxxxxxxxxx'' s"

definition session_of :: "js \<Rightarrow> string option option" where
  "session_of v = (case js_get v ''searchSessionId'' of JUndef \<Rightarrow> Some None
     | x \<Rightarrow> (if uuid_v4 (js_display x) then (case x of JStr s \<Rightarrow> Some (Some s) | _ \<Rightarrow> None) else None))"

definition safe_integer :: "int \<Rightarrow> bool" where
  "safe_integer n = (\<bar>n\<bar> \<le> 9007199254740991)"

definition read_payload :: "int \<Rightarrow> js \<Rightarrow> cursor_payload option" where
  "read_payload now v = (case (js_get v ''snapshot'', js_get v ''offset'', js_get v ''filters'', js_get v ''expiresAt'') of
     (JStr snap, JNum offset, JStr filters, JNum expires) \<Rightarrow> (case session_of v of
         None \<Rightarrow> None
       | Some sid \<Rightarrow> if offset < 0 \<or> \<not> safe_integer offset then None
           else if expires < now then None
           else Some \<lparr> cu_snapshot = snap, cu_offset = offset, cu_filters = filters, cu_expiresAt = expires, cu_searchSessionId = sid \<rparr>)
   | _ \<Rightarrow> None)"

definition decodeCursor :: "(string \<Rightarrow> string \<Rightarrow> string) \<Rightarrow> string \<Rightarrow> int \<Rightarrow> string \<Rightarrow> cursor_payload option" where
  "decodeCursor hmac key now cursor = (case js_split (CHR ''.'') cursor of
     [version, body, signature] \<Rightarrow>
       if version \<noteq> VERSION then None
       else if sign hmac key body \<noteq> signature then None
       else (case json_parse (from_base64url body) of None \<Rightarrow> None | Some v \<Rightarrow> read_payload now v)
   | _ \<Rightarrow> None)"

section \<open>Authenticity\<close>

text \<open>What is accepted is signed, not expired and within range.\<close>

lemma decodeCursor_Some:
  assumes "decodeCursor hmac key now cursor = Some p"
  shows "(\<exists>body. js_split (CHR ''.'') cursor = [VERSION, body, sign hmac key body])
     \<and> 0 \<le> cu_offset p \<and> safe_integer (cu_offset p) \<and> now \<le> cu_expiresAt p
     \<and> (\<forall>s. cu_searchSessionId p = Some s \<longrightarrow> uuid_v4 s)"
proof -
  obtain version body signature where s: "js_split (CHR ''.'') cursor = [version, body, signature]"
    using assms by (auto simp: decodeCursor_def split: list.splits)
  then obtain v where v: "version = VERSION" "sign hmac key body = signature" "read_payload now v = Some p"
    using assms by (auto simp: decodeCursor_def split: if_splits option.splits)
  have sid: "uuid_v4 t" if "session_of v = Some (Some t)" for t
    using that by (auto simp: session_of_def split: js.splits if_splits)
  show ?thesis using v(3) sid s v(1,2)
    by (auto simp: read_payload_def split: js.splits option.splits if_splits)
qed

section \<open>Round trip\<close>

text \<open>What the routes put into a cursor.\<close>

definition issuable :: "int \<Rightarrow> cursor_payload \<Rightarrow> bool" where
  "issuable now p = (0 \<le> cu_offset p \<and> safe_integer (cu_offset p) \<and> now \<le> cu_expiresAt p
     \<and> (case cu_searchSessionId p of None \<Rightarrow> True | Some s \<Rightarrow> uuid_v4 s))"

lemma payload_order:
  "entry_cmp code_unit_cmp (''snapshot'', a) (''offset'', b) = 1" "entry_cmp code_unit_cmp (''filters'', a) (''expiresAt'', b) = 1"
  "entry_cmp code_unit_cmp (''offset'', a) (''filters'', b) = 1" "entry_cmp code_unit_cmp (''offset'', a) (''expiresAt'', b) = 1"
  "entry_cmp code_unit_cmp (''snapshot'', a) (''expiresAt'', b) = 1" "entry_cmp code_unit_cmp (''snapshot'', a) (''filters'', b) = 1"
  "entry_cmp code_unit_cmp (''expiresAt'', a) (''searchSessionId'', b) = - 1" "entry_cmp code_unit_cmp (''filters'', a) (''searchSessionId'', b) = - 1"
  "entry_cmp code_unit_cmp (''offset'', a) (''searchSessionId'', b) = - 1" "entry_cmp code_unit_cmp (''snapshot'', a) (''searchSessionId'', b) = 1"
  by (simp_all add: entry_cmp_def code_unit_cmp_def)

lemma payload_read:
  assumes "issuable now p"
  shows "json_parse (canonicalJson (payload_json p)) = Some (js_norm code_unit_cmp (payload_json p))"
    "read_payload now (js_norm code_unit_cmp (payload_json p)) = Some p"
proof -
  have ok: "json_ok (payload_json p)" "json_ok (js_norm code_unit_cmp (payload_json p))"
    by (simp_all add: payload_json_def payload_order split: option.split)
  show "json_parse (canonicalJson (payload_json p)) = Some (js_norm code_unit_cmp (payload_json p))"
    by (simp only: canonical_text [OF ok(1)] json_parse_text [OF ok(2)])
  show "read_payload now (js_norm code_unit_cmp (payload_json p)) = Some p"
    using assms by (auto simp: payload_json_def payload_order read_payload_def session_of_def issuable_def split: option.split)
qed

lemma base64url_no_dot: "CHR ''.'' \<notin> set (base64url s)"
proof -
  have "CHR ''.'' \<notin> set b64url_alphabet" by code_simp
  then show ?thesis using encode_alphabet [OF good_alphabets(2), of s] by (auto simp: base64url_def)
qed

lemma cursor_roundtrip:
  assumes "issuable now p" shows "decodeCursor hmac key now (encodeCursor hmac key p) = Some p"
proof -
  let ?b = "base64url (canonicalJson (payload_json p))"
  have v: "CHR ''.'' \<notin> set VERSION" "CHR ''.'' \<notin> set (sign hmac key x)" for x
    by (simp_all add: VERSION_def sign_def base64url_no_dot)
  have "js_split (CHR ''.'') (encodeCursor hmac key p) = [VERSION, ?b, sign hmac key ?b]"
    using js_split_append [OF v(1)] js_split_append [OF base64url_no_dot] js_split_single [OF v(2)]
    by (simp add: encodeCursor_def Let_def)
  then show ?thesis by (simp add: decodeCursor_def from_base64url_inverse payload_read [OF assms])
qed

end
