(* ===== verification/JS_Number.thy ===== *)
theory JS_Number
  imports JS_Json_Parse "HOL-Library.Log_Nat" Complex_Main
begin

text \<open>
  \<open>Number(s)\<close> on a string, as the rational number the resulting double denotes (None when it is not finite), and
  \<open>toISOString\<close> of a time in milliseconds.  White space around the text is the ASCII white space.
\<close>

section \<open>Doubles\<close>

text \<open>The nearest integer, a tie going to the even one.\<close>

definition round_even :: "rat \<Rightarrow> int" where
  "round_even r = (let f = \<lfloor>r\<rfloor>; d = r - of_int f in if d < 1/2 then f else if 1/2 < d then f + 1 else if even f then f else f + 1)"

definition pow2 :: "int \<Rightarrow> rat" where
  "pow2 e = (if 0 \<le> e then 2 ^ nat e else 1 / 2 ^ nat (- e))"

text \<open>The exponent of the leading binary digit of a positive number.\<close>

definition binary_exponent :: "rat \<Rightarrow> int" where
  "binary_exponent r = (case quotient_of r of (n, d) \<Rightarrow> let k = bitlen n - bitlen d in if pow2 k \<le> r then k else k - 1)"

text \<open>Rounding to a double: 53 significant binary digits, fewer below the smallest normal number.\<close>

definition to_double :: "rat \<Rightarrow> rat option" where
  "to_double r = (if r = 0 then Some 0 else
     let q = max (binary_exponent \<bar>r\<bar> - 52) (- 1074); x = of_int (round_even (\<bar>r\<bar> / pow2 q)) * pow2 q in
     if pow2 1024 \<le> x then None else Some (if r < 0 then - x else x))"

section \<open>Number\<close>

definition pow10 :: "int \<Rightarrow> rat" where
  "pow10 e = (if 0 \<le> e then 10 ^ nat e else 1 / 10 ^ nat (- e))"

text \<open>The exponent part: nothing, or \<open>e\<close> with an optional sign and digits up to the end.\<close>

definition exponent_part :: "string \<Rightarrow> int option" where
  "exponent_part s = (case s of [] \<Rightarrow> Some 0
   | c # t \<Rightarrow> if c \<noteq> CHR ''e'' \<and> c \<noteq> CHR ''E'' then None
       else let signed = (t \<noteq> [] \<and> hd t \<in> {CHR ''+'', CHR ''-''}); ds = (if signed then tl t else t) in
         if ds = [] \<or> \<not> list_all is_digit ds then None
         else Some ((if signed \<and> hd t = CHR ''-'' then - 1 else 1) * int (digits_value ds)))"

definition fraction_part :: "string \<Rightarrow> string \<times> string" where
  "fraction_part s = (case s of c # t \<Rightarrow> if c = CHR ''.'' then (takeWhile is_digit t, dropWhile is_digit t) else ([], s) | [] \<Rightarrow> ([], []))"

definition decimal_value :: "string \<Rightarrow> rat option" where
  "decimal_value s = (let a = takeWhile is_digit s in case fraction_part (dropWhile is_digit s) of (b, rest) \<Rightarrow>
     if a = [] \<and> b = [] then None
     else map_option (\<lambda>e. of_nat (digits_value (a @ b)) * pow10 (e - int (length b))) (exponent_part rest))"

definition js_Number :: "string \<Rightarrow> rat option" where
  "js_Number s = (let t = trim s in
     if t = [] then Some 0
     else if take 2 t \<in> {''0x'', ''0X''} then Option.bind (base_value 16 (drop 2 t)) (\<lambda>n. to_double (of_int n))
     else if take 2 t \<in> {''0o'', ''0O''} then Option.bind (base_value 8 (drop 2 t)) (\<lambda>n. to_double (of_int n))
     else if take 2 t \<in> {''0b'', ''0B''} then Option.bind (base_value 2 (drop 2 t)) (\<lambda>n. to_double (of_int n))
     else if hd t = CHR ''-'' then Option.bind (decimal_value (tl t)) (\<lambda>r. to_double (- r))
     else Option.bind (decimal_value (if hd t = CHR ''+'' then tl t else t)) to_double)"

section \<open>Integers are exact\<close>

lemma round_even_int [simp]: "round_even (of_int n) = n"
  by (simp add: round_even_def)

lemma pow2_nonpos: "e \<le> 0 \<Longrightarrow> x / pow2 e = x * 2 ^ nat (- e)"
  by (auto simp: pow2_def)

lemma pow2_pos [simp]: "0 < pow2 e"
  by (simp add: pow2_def)

lemma bitlen_one: "bitlen 1 = 1"
  by (simp add: bitlen_def floorlog_def)

lemma to_double_int:
  assumes "0 < n" "n < 2 ^ 53" shows "to_double (of_int n) = Some (of_int n)"
proof -
  let ?q = "max (binary_exponent (of_int n) - 52) (- 1074)"
  have "nat n < 2 ^ 53" using assms by (simp add: nat_less_iff)
  then have "bitlen n \<le> 53" using assms by (simp add: bitlen_le_iff_power)
  then have "binary_exponent (of_int n) \<le> 52" by (simp add: binary_exponent_def quotient_of_int Let_def bitlen_one)
  then have q: "?q \<le> 0" by simp
  have "of_int n / pow2 ?q = (of_int (n * 2 ^ nat (- ?q)) :: rat)" using pow2_nonpos [OF q] by simp
  then have r: "of_int (round_even (of_int n / pow2 ?q)) * pow2 ?q = (of_int n :: rat)"
    using pow2_nonpos [OF q, of "of_int n"] by (metis nonzero_eq_divide_eq pow2_pos round_even_int less_irrefl)
  have "(of_int n :: rat) < of_int (2 ^ 1024)" using assms(2) by (subst of_int_less_iff) (auto intro: less_trans)
  then have "(of_int n :: rat) < pow2 1024" by (simp add: pow2_def)
  then show ?thesis using assms(1) r by (simp add: to_double_def Let_def)
qed

lemma round_even_nonneg: "0 \<le> r \<Longrightarrow> 0 \<le> round_even r"
  by (auto simp: round_even_def Let_def)

lemma to_double_nonneg:
  assumes "0 \<le> r" "to_double r = Some x" shows "0 \<le> x"
proof -
  let ?q = "max (binary_exponent \<bar>r\<bar> - 52) (- 1074)"
  have "0 \<le> round_even (\<bar>r\<bar> / pow2 ?q)" by (rule round_even_nonneg) (simp add: less_imp_le)
  then have "0 \<le> of_int (round_even (\<bar>r\<bar> / pow2 ?q)) * pow2 ?q" by (intro mult_nonneg_nonneg) (simp_all add: less_imp_le)
  then show ?thesis using assms by (auto simp: to_double_def Let_def split: if_splits)
qed

section \<open>Printed integers are read back\<close>

lemma digit_facts:
  assumes "is_digit c" shows "hex_value c = Some (digit_val c)" "digit_val c < 10" "\<not> ascii_space c" "c \<notin> set ''xXoObB+-''"
  using assms by (auto simp: hex_value_def is_digit_def digit_val_def ascii_space_def json_space_def Let_def)

lemma base_value_digits:
  assumes "s \<noteq> []" "list_all is_digit s" shows "base_value 10 s = Some (int (digits_value s))"
proof -
  have "list_all is_digit s \<Longrightarrow> foldl (\<lambda>a c. 10 * a + int (coalesce (hex_value c) 0)) (int k) s = int (foldl (\<lambda>a c. 10 * a + digit_val c) k s)" for k
  proof (induction s arbitrary: k)
    case (Cons c s)
    then show ?case using Cons.IH [of "10 * k + digit_val c"] digit_facts(1) [of c] by (simp add: coalesce_def)
  qed simp
  from this [of 0] show ?thesis using assms
    by (simp add: base_value_def digits_value_def list_all_iff digit_facts)
qed

lemma dropWhile_at: "s \<noteq> [] \<Longrightarrow> \<not> p (hd s) \<Longrightarrow> dropWhile p s = s"
  by (cases s) auto

lemma trim_tight: "s \<noteq> [] \<Longrightarrow> \<not> ascii_space (hd s) \<Longrightarrow> \<not> ascii_space (last s) \<Longrightarrow> trim s = s"
  by (simp add: trim_def dropWhile_at hd_rev)

lemma digits_text:
  assumes "s \<noteq> []" "list_all is_digit s"
  shows "trim s = s" "take 2 s \<notin> {''0x'', ''0X'', ''0o'', ''0O'', ''0b'', ''0B''}" "hd s \<noteq> CHR ''-''" "hd s \<noteq> CHR ''+''"
proof -
  have d: "c \<in> set s \<Longrightarrow> is_digit c" for c using assms(2) by (simp add: list_all_iff)
  then show "trim s = s" using trim_tight [OF assms(1)] digit_facts(3) assms(1) by auto
  have "c \<in> set (take 2 s) \<Longrightarrow> c \<notin> set ''xXoObB+-''" for c using d digit_facts(4) by (meson in_set_takeD)
  then show "take 2 s \<notin> {''0x'', ''0X'', ''0o'', ''0O'', ''0b'', ''0B''}" by force
  show "hd s \<noteq> CHR ''-''" "hd s \<noteq> CHR ''+''" using digit_facts(4) [OF d [OF hd_in_set [OF assms(1)]]] by auto
qed

lemma js_BigInt_print [simp]: "js_BigInt (int_to_string n) = Some n"
proof -
  have digits: "js_BigInt (nat_to_string m) = Some (int m)" for m
    using digits_text [of "nat_to_string m"] base_value_digits [of "nat_to_string m"] nat_to_string_digits [of m]
    by (simp add: js_BigInt_def Let_def)
  have minus: "js_BigInt (CHR ''-'' # nat_to_string m) = Some (- int m)" for m
  proof -
    have s: "nat_to_string m \<noteq> []" "list_all is_digit (nat_to_string m)" "digits_value (nat_to_string m) = m" using nat_to_string_digits by auto
    then have "is_digit (last (nat_to_string m))" by (simp add: list_all_iff)
    then have "trim (CHR ''-'' # nat_to_string m) = CHR ''-'' # nat_to_string m"
      using s(1) digit_facts(3) by (intro trim_tight) (auto simp: ascii_space_def json_space_def)
    then show ?thesis using base_value_digits [OF s(1,2)] s(3) by (simp add: js_BigInt_def Let_def)
  qed
  show ?thesis using digits [of "nat n"] minus [of "nat (- n)"] by (auto simp: int_to_string_def)
qed

lemma js_Number_print:
  assumes "0 < n" "n < 2 ^ 53" shows "js_Number (nat_to_string n) = Some (of_nat n)"
proof -
  let ?s = "nat_to_string n"
  have s: "?s \<noteq> []" "list_all is_digit ?s" "digits_value ?s = n" using nat_to_string_digits by auto
  have w: "takeWhile is_digit ?s = ?s" "dropWhile is_digit ?s = []" using s(2) by (auto simp: list_all_iff takeWhile_eq_all_conv dropWhile_eq_Nil_conv)
  then have "decimal_value ?s = Some (of_nat n)"
    unfolding decimal_value_def Let_def w using s(1,3) by (simp add: fraction_part_def exponent_part_def pow10_def)
  moreover have "to_double (of_nat n) = Some (of_nat n)" using to_double_int [of "int n"] assms by simp
  ultimately show ?thesis using digits_text [OF s(1,2)] s(1) by (simp add: js_Number_def Let_def)
qed

section \<open>Dates\<close>

text \<open>The civil date of a number of days since 1970-01-01 in the proleptic Gregorian calendar.\<close>

definition civil_date :: "int \<Rightarrow> int \<times> int \<times> int" where
  "civil_date days = (let z = days + 719468; era = z div 146097; doe = z mod 146097;
     yoe = (doe - doe div 1460 + doe div 36524 - doe div 146096) div 365;
     doy = doe - (365 * yoe + yoe div 4 - yoe div 100); mp = (5 * doy + 2) div 153;
     m = (if mp < 10 then mp + 3 else mp - 9) in
     (yoe + era * 400 + (if m \<le> 2 then 1 else 0), m, doy - (153 * mp + 2) div 5 + 1))"

definition padded :: "nat \<Rightarrow> int \<Rightarrow> string" where
  "padded n x = (let s = nat_to_string (nat x) in replicate (n - length s) (CHR ''0'') @ s)"

definition year_text :: "int \<Rightarrow> string" where
  "year_text y = (if 0 \<le> y \<and> y \<le> 9999 then padded 4 y else (if y < 0 then ''-'' else ''+'') @ padded 6 \<bar>y\<bar>)"

definition toISOString :: "int \<Rightarrow> string" where
  "toISOString t = (case civil_date (t div 86400000) of (y, m, d) \<Rightarrow> let ms = t mod 86400000 in
     year_text y @ ''-'' @ padded 2 m @ ''-'' @ padded 2 d @ ''T'' @ padded 2 (ms div 3600000) @ '':'' @ padded 2 (ms div 60000 mod 60)
     @ '':'' @ padded 2 (ms div 1000 mod 60) @ ''.'' @ padded 3 (ms mod 1000) @ ''Z'')"

end
