(* ===== verification/Discovery_Routes.thy ===== *)
theory Discovery_Routes
  imports Search_Service Discovery_Cursor JS_Number
begin

text \<open>
  The public discovery routes (facilitator/src/http/discovery.ts): browse, the exact resolver and ranked search.
  A handler answers a response or fails with what it hands to \<open>next\<close>.  HMAC-SHA-256, the WHATWG URL parser and the
  messages of zod's own checks are parameters, and so is whether the transaction that records what was shown fails.
\<close>

record discovery_config =
  dc_enabled :: bool
  defaultPageSize :: nat
  maxPageSize :: nat
  cursorTtlMinutes :: int
  dc_includeStale :: bool
  dc_includeUnverified :: bool
  cursorHmacKey :: string
  dc_staleAfterHours :: int

record zod_messages =
  zm_enum :: "string \<Rightarrow> string"
  zm_short :: string
  zm_long :: "nat \<Rightarrow> string"

record 'x discovery_env =
  rv_service :: "'x service_env"
  rv_hmac :: "string \<Rightarrow> string \<Rightarrow> string"
  rv_whatwg :: "string \<Rightarrow> parsed_url option"
  rv_zod :: zod_messages
  rv_unrecorded :: "'x service_world \<Rightarrow> bool"

record http_request =
  hr_query :: js
  hr_session :: "string option"

record http_response =
  hs_status :: nat
  hs_headers :: "(string \<times> string) list"
  hs_body :: js

definition respond :: "nat \<Rightarrow> (string \<times> js) list \<Rightarrow> http_response" where
  "respond code body = \<lparr> hs_status = code, hs_headers = [], hs_body = JObj body \<rparr>"

section \<open>Parameters\<close>

definition single :: "js \<Rightarrow> string option" where
  "single v = (case v of JStr s \<Rightarrow> if s \<noteq> [] then Some s else None | JArr (JStr s # _) \<Rightarrow> Some s | _ \<Rightarrow> None)"

definition query_param :: "js \<Rightarrow> string \<Rightarrow> string option" where
  "query_param q k = single (js_get q k)"

definition length_issues :: "zod_messages \<Rightarrow> string \<Rightarrow> nat \<Rightarrow> string option \<Rightarrow> string list" where
  "length_issues Z name limit v = (case v of None \<Rightarrow> [] | Some s \<Rightarrow>
       (if js_length s < 1 then [name @ '': '' @ zm_short Z] else []) @ (if js_length s > limit then [name @ '': '' @ zm_long Z limit] else []))"

definition type_of_text :: "string \<Rightarrow> resource_type option" where
  "type_of_text s = (if s = ''http'' then Some Http_type else if s = ''mcp'' then Some Mcp_type else None)"

definition price_pattern :: "string \<Rightarrow> bool" where
  "price_pattern s = (nat_pattern s \<and> length s \<le> 39)"

text \<open>
  A value of \<open>type\<close> outside the enumeration aborts the object, so that the refinement does not run; the checks on
  strings do not.
\<close>

definition parseFilters :: "zod_messages \<Rightarrow> js \<Rightarrow> string list + discovery_filters" where
  "parseFilters Z q = (let ty = query_param q ''type''; asset = query_param q ''asset''; price = query_param q ''maxPrice'';
     bad_type = (case ty of None \<Rightarrow> [] | Some s \<Rightarrow> (case type_of_text s of None \<Rightarrow> [''type: '' @ zm_enum Z s] | Some _ \<Rightarrow> []));
     issues = bad_type @ length_issues Z ''network'' 128 (query_param q ''network'') @ length_issues Z ''scheme'' 64 (query_param q ''scheme'')
       @ length_issues Z ''payTo'' 128 (query_param q ''payTo'') @ length_issues Z ''asset'' 128 asset
       @ (case price of None \<Rightarrow> [] | Some s \<Rightarrow> if price_pattern s then [] else [''maxPrice: must be an atomic-unit integer''])
       @ length_issues Z ''extensions'' 64 (query_param q ''extensions'');
     refined = (if bad_type = [] \<and> price \<noteq> None \<and> asset = None then [''maxPrice: requires asset so atomic units are unambiguous''] else []) in
     if issues @ refined \<noteq> [] then Inl (issues @ refined)
     else Inr \<lparr> fi_type = Option.bind ty type_of_text, fi_network = query_param q ''network'', fi_scheme = query_param q ''scheme'',
       fi_payTo = query_param q ''payTo'', fi_asset = asset, fi_maxPrice = price, fi_extensions = query_param q ''extensions'' \<rparr>)"

definition invalid_filter :: "string list \<Rightarrow> http_response" where
  "invalid_filter details = respond 400 [(''error'', JStr ''invalid_filter''), (''details'', JArr (map JStr details))]"

definition optional_text :: "string option \<Rightarrow> js" where
  "optional_text v = (case v of None \<Rightarrow> JUndef | Some s \<Rightarrow> JStr s)"

definition filters_json :: "discovery_filters \<Rightarrow> (string \<times> js) list" where
  "filters_json f = [(''type'', optional_text (map_option type_text (fi_type f))), (''network'', optional_text (fi_network f)),
     (''scheme'', optional_text (fi_scheme f)), (''payTo'', optional_text (fi_payTo f)), (''asset'', optional_text (fi_asset f)),
     (''maxPrice'', optional_text (fi_maxPrice f)), (''extensions'', optional_text (fi_extensions f))]"

definition or_null :: "string option \<Rightarrow> js" where
  "or_null v = (case v of None \<Rightarrow> JNull | Some s \<Rightarrow> JStr s)"

text \<open>\<open>Number.isFinite(n) && n > 0\<close>.\<close>

definition floored :: "rat option \<Rightarrow> nat option" where
  "floored n = (case n of Some r \<Rightarrow> if r > 0 then Some (nat \<lfloor>r\<rfloor>) else None | None \<Rightarrow> None)"

definition number_param :: "js \<Rightarrow> string \<Rightarrow> nat \<Rightarrow> rat option" where
  "number_param q k standard = (case query_param q k of None \<Rightarrow> Some (of_nat standard) | Some s \<Rightarrow> js_Number s)"

definition page_bounds :: "nat \<Rightarrow> nat \<Rightarrow> js \<Rightarrow> nat \<times> nat" where
  "page_bounds standard limit q = (case floored (number_param q ''limit'' standard) of None \<Rightarrow> standard | Some n \<Rightarrow> min n limit,
     coalesce (floored (number_param q ''offset'' 0)) 0)"

definition paging :: "js \<Rightarrow> discovery_config \<Rightarrow> nat \<times> nat" where
  "paging q c = page_bounds (defaultPageSize c) (maxPageSize c) q"

definition searchPaging :: "js \<Rightarrow> search_config \<Rightarrow> nat \<times> nat" where
  "searchPaging q c = page_bounds (defaultResultLimit c) (maximumResultLimit c) q"

definition attributedSearchSession :: "http_request \<Rightarrow> string option" where
  "attributedSearchSession r = (case hr_session r of Some s \<Rightarrow> if uuid_v4 s then Some s else None | None \<Rightarrow> None)"

section \<open>Resources\<close>

definition option_json :: "accepted_option \<Rightarrow> js" where
  "option_json o1 = JObj [(''scheme'', JStr (ac_scheme o1)), (''network'', JStr (ac_network o1)), (''asset'', JStr (ac_asset o1)),
     (''amount'', JStr (ac_amount o1)), (''payTo'', JStr (ac_payTo o1)), (''maxTimeoutSeconds'', JNum (ac_maxTimeoutSeconds o1)), (''extra'', ac_extra o1)]"

definition present :: "string \<Rightarrow> js option \<Rightarrow> (string \<times> js) list" where
  "present k v = (case v of None \<Rightarrow> [] | Some x \<Rightarrow> [(k, x)])"

definition toResource :: "discovery_row \<Rightarrow> js" where
  "toResource row = JObj ([(''resource'', JStr (dr_resource row)), (''type'', JStr (type_text (dr_type row))),
     (''x402Version'', JNum (dr_x402Version row)), (''accepts'', JArr (map option_json (dr_accepts row))),
     (''lastUpdated'', JStr (toISOString (dr_lastUpdated row)))]
     @ present ''description'' (map_option JStr (dr_description row)) @ present ''mimeType'' (map_option JStr (dr_mimeType row))
     @ present ''serviceName'' (map_option JStr (dr_serviceName row)) @ present ''tags'' (map_option (\<lambda>ts. JArr (map JStr ts)) (dr_tags row))
     @ present ''iconUrl'' (map_option JStr (dr_iconUrl row)) @ present ''extensions'' (dr_extensions row))"

section \<open>Where a page starts\<close>

record page_start =
  ps_snapshot :: int
  ps_offset :: nat
  ps_session :: "string option"

definition discovery_read :: "'x discovery_env \<Rightarrow> (int \<Rightarrow> catalog_db \<Rightarrow> exn + 'a) \<Rightarrow> ('x service_world, 'a) io" where
  "discovery_read V f = index_op (sv_index (rv_service V)) (\<lambda>now d. (f now d, d))"

definition page_start_of ::
    "'x discovery_env \<Rightarrow> discovery_config \<Rightarrow> string \<Rightarrow> string option \<Rightarrow> nat \<Rightarrow> ('x service_world, page_start option) io" where
  "page_start_of V c fingerprint raw offset = (if truthy_str raw
     then io_bind io_get (\<lambda>w. case decodeCursor (rv_hmac V) (cursorHmacKey c) (sw_now w) (coalesce raw []) of
         None \<Rightarrow> io_return None
       | Some p \<Rightarrow> if cu_filters p \<noteq> fingerprint then io_return None
           else (case js_BigInt (cu_snapshot p) of
               None \<Rightarrow> io_throw (JsError (''Cannot convert '' @ cu_snapshot p @ '' to a BigInt''))
             | Some n \<Rightarrow> io_return (Some \<lparr> ps_snapshot = n, ps_offset = nat (cu_offset p), ps_session = cu_searchSessionId p \<rparr>)))
     else io_bind (discovery_read V (\<lambda>_ d. Inr (watermark d))) (\<lambda>n.
       io_return (Some \<lparr> ps_snapshot = n, ps_offset = offset, ps_session = None \<rparr>)))"

definition invalid_cursor :: http_response where
  "invalid_cursor = respond 400 [(''error'', JStr ''invalid_cursor'')]"

definition next_cursor ::
    "'x discovery_env \<Rightarrow> discovery_config \<Rightarrow> string \<Rightarrow> page_start \<Rightarrow> string option \<Rightarrow> nat \<Rightarrow> nat \<Rightarrow> int \<Rightarrow> string option" where
  "next_cursor V c fingerprint s sid shown all_rows now = (if ps_offset s + shown < all_rows
     then Some (encodeCursor (rv_hmac V) (cursorHmacKey c) \<lparr> cu_snapshot = int_to_string (ps_snapshot s), cu_offset = int (ps_offset s + shown),
       cu_filters = fingerprint, cu_expiresAt = now + cursorTtlMinutes c * 60000, cu_searchSessionId = sid \<rparr>)
     else None)"

definition options_of :: "discovery_config \<Rightarrow> discovery_filters \<Rightarrow> nat \<Rightarrow> page_start \<Rightarrow> string option \<Rightarrow> discovery_options" where
  "options_of c f limit s query = \<lparr> dp_filters = f, dp_limit = limit, dp_offset = ps_offset s, dp_snapshot = ps_snapshot s,
     dp_includeStale = dc_includeStale c, dp_includeUnverified = dc_includeUnverified c, dp_staleAfterHours = dc_staleAfterHours c,
     dp_query = (if truthy_str query then query else None), dp_language = None \<rparr>"

text \<open>OFFSET is a bigint of the server.\<close>

definition bounded_list :: "read_env \<Rightarrow> discovery_options \<Rightarrow> int \<Rightarrow> catalog_db \<Rightarrow> exn + discovery_page" where
  "bounded_list R x now d = sum_bind (list_catalog R now x d) (\<lambda>result.
     if int (dp_offset x) \<ge> 2 ^ 63 then Inl (JsError ''value is out of range for type bigint'') else Inr result)"

section \<open>Browse\<close>

definition cursor_json :: "string option \<Rightarrow> js" where
  "cursor_json v = (case v of None \<Rightarrow> JNull | Some s \<Rightarrow> JStr s)"

definition browse_body :: "nat \<Rightarrow> nat \<Rightarrow> discovery_page \<Rightarrow> string option \<Rightarrow> (string \<times> js) list" where
  "browse_body limit offset result cursor = [(''x402Version'', JNum 2), (''items'', JArr (map toResource (pg_rows result))),
     (''pagination'', JObj [(''limit'', JNum (int limit)), (''offset'', JNum (int offset)), (''total'', JNum (int (pg_total result))), (''cursor'', cursor_json cursor)]),
     (''partialResults'', JBool (pg_partialResults result))]"

definition search_body :: "nat \<Rightarrow> discovery_row list \<Rightarrow> bool \<Rightarrow> string option \<Rightarrow> (string \<times> js) list" where
  "search_body limit rows partial cursor = [(''x402Version'', JNum 2), (''resources'', JArr (map toResource rows)),
     (''partialResults'', JBool partial), (''pagination'', JObj [(''limit'', JNum (int limit)), (''cursor'', cursor_json cursor)])]"

definition page :: "'x discovery_env \<Rightarrow> discovery_config \<Rightarrow> js \<Rightarrow> string option \<Rightarrow> ('x service_world, http_response) io" where
  "page V c q query = (case parseFilters (rv_zod V) q of
     Inl issues \<Rightarrow> io_return (invalid_filter issues)
   | Inr filters \<Rightarrow> (case paging q c of (limit, offset) \<Rightarrow>
       let fingerprint = filterFingerprint (rv_hmac V) (JObj (filters_json filters @ [(''query'', or_null query)])) in
       io_bind (page_start_of V c fingerprint (query_param q ''cursor'') offset) (\<lambda>start. case start of
           None \<Rightarrow> io_return invalid_cursor
         | Some s \<Rightarrow> io_bind (discovery_read V (bounded_list (sv_read (rv_service V)) (options_of c filters limit s query))) (\<lambda>result.
             io_bind io_get (\<lambda>w. let cursor = next_cursor V c fingerprint s None (length (pg_rows result)) (pg_total result) (sw_now w) in
               io_return (respond 200 (if query = None then browse_body limit (ps_offset s) result cursor
                 else search_body limit (pg_rows result) (pg_partialResults result) cursor)))))))"

definition disabled_response :: http_response where
  "disabled_response = respond 404 [(''error'', JStr ''discovery_disabled'')]"

definition get_resources :: "'x discovery_env \<Rightarrow> discovery_config \<Rightarrow> http_request \<Rightarrow> ('x service_world, http_response) io" where
  "get_resources V c r = (if \<not> dc_enabled c then io_return disabled_response else page V c (hr_query r) None)"

section \<open>The exact resolver\<close>

definition record_fetch ::
    "'x discovery_env \<Rightarrow> search_config option \<Rightarrow> http_request \<Rightarrow> discovery_row \<Rightarrow> ('x service_world, unit) io" where
  "record_fetch V rec r row = (case (attributedSearchSession r, rec) of
     (Some sid, Some sc) \<Rightarrow> (\<lambda>w. if rv_unrecorded V w then (Inr (), w)
       else io_bind (feedback_op (rv_service V) (\<lambda>_. recordFetch sc sid row)) (\<lambda>_. io_return ()) w)
   | _ \<Rightarrow> io_return ())"

definition resolve_error :: "string option \<Rightarrow> string option \<Rightarrow> string option \<Rightarrow> (string \<Rightarrow> parsed_url option) \<Rightarrow> string + resource_type \<times> string" where
  "resolve_error ty url tool parser = (case Option.bind ty type_of_text of
     None \<Rightarrow> Inl ''type must be http or mcp''
   | Some t \<Rightarrow> if \<not> truthy_str url then Inl ''url is required''
       else if t = Mcp_type \<and> \<not> truthy_str tool then Inl ''toolName is required for type=mcp''
       else (case normalizeResourceUrl parser (coalesce url []) of Inl _ \<Rightarrow> Inl ''url is not a valid resource url''
         | Inr n \<Rightarrow> Inr (t, nu_canonical n)))"

definition key_options :: "discovery_config \<Rightarrow> int \<Rightarrow> discovery_options" where
  "key_options c snap = options_of c no_filters 1 \<lparr> ps_snapshot = snap, ps_offset = 0, ps_session = None \<rparr> None"

definition get_resource ::
    "'x discovery_env \<Rightarrow> discovery_config \<Rightarrow> search_config option \<Rightarrow> http_request \<Rightarrow> ('x service_world, http_response) io" where
  "get_resource V c rec r = (if \<not> dc_enabled c then io_return disabled_response else
     let q = hr_query r; tool = query_param q ''toolName'' in
     (case resolve_error (query_param q ''type'') (query_param q ''url'') tool (rv_whatwg V) of
        Inl detail \<Rightarrow> io_return (invalid_filter [detail])
      | Inr (t, url) \<Rightarrow> io_bind (discovery_read V (\<lambda>_ d. Inr (watermark d))) (\<lambda>snap.
          io_bind (discovery_read V (\<lambda>now d. Inr (getByKey (sv_read (rv_service V)) now t url (if truthy_str tool then tool else None) (key_options c snap) d))) (\<lambda>found.
          case found of
            None \<Rightarrow> io_return (respond 404 [(''error'', JStr ''not_found'')])
          | Some row \<Rightarrow> io_seq (record_fetch V rec r row)
              (io_return (respond 200 [(''x402Version'', JNum 2), (''resource'', toResource row)]))))))"

section \<open>Ranked search\<close>

definition mode_of_text :: "string \<Rightarrow> search_mode option" where
  "mode_of_text s = (if s = ''lexical'' then Some Lexical else if s = ''semantic'' then Some Semantic else if s = ''hybrid'' then Some Hybrid else None)"

definition search_request_of :: "discovery_config \<Rightarrow> discovery_filters \<Rightarrow> nat \<Rightarrow> page_start \<Rightarrow> string \<Rightarrow> string option \<Rightarrow> search_request" where
  "search_request_of c f limit s query mode = \<lparr> rq_options = options_of c f limit s (Some query), rq_query = query,
     rq_mode = Option.bind mode mode_of_text, rq_sessionId = (if truthy_str (ps_session s) then ps_session s else None) \<rparr>"

definition record_shown :: "'x discovery_env \<Rightarrow> search_config option \<Rightarrow> string \<Rightarrow> search_result \<Rightarrow> ('x service_world, unit) io" where
  "record_shown V rec query result = (case rec of None \<Rightarrow> io_return ()
   | Some sc \<Rightarrow> (\<lambda>w. if rv_unrecorded V w then (Inr (), w)
       else feedback_op (rv_service V) (\<lambda>now t. ((), record_impressions (sv_sha (rv_service V)) sc (sr_sessionId result) query result (sr_rows result) now t)) w))"

definition ranked_page ::
    "'x discovery_env \<Rightarrow> discovery_config \<Rightarrow> search_config \<Rightarrow> search_config option \<Rightarrow> js \<Rightarrow> string \<Rightarrow> string option \<Rightarrow> ('x service_world, http_response) io" where
  "ranked_page V c sc rec q query mode = (case parseFilters (rv_zod V) q of
     Inl issues \<Rightarrow> io_return (invalid_filter issues)
   | Inr filters \<Rightarrow> (case searchPaging q sc of (limit, offset) \<Rightarrow>
       let fingerprint = filterFingerprint (rv_hmac V) (JObj (filters_json filters @ [(''query'', JStr query), (''mode'', or_null mode)])) in
       io_bind (page_start_of V c fingerprint (query_param q ''cursor'') offset) (\<lambda>start. case start of
           None \<Rightarrow> io_return invalid_cursor
         | Some s \<Rightarrow> io_bind (search (rv_service V) sc (search_request_of c filters limit s query mode)) (\<lambda>result.
             io_seq (record_shown V rec query result)
             (io_bind io_get (\<lambda>w. let cursor = next_cursor V c fingerprint s (Some (sr_sessionId result)) (length (sr_rows result)) (sr_total result) (sw_now w) in
               io_return ((respond 200 (search_body limit (sr_rows result) (sr_partialResults result) cursor))
                 \<lparr>hs_headers := [(''x-search-session-id'', sr_sessionId result)]\<rparr>)))))))"

definition get_search ::
    "'x discovery_env \<Rightarrow> discovery_config \<Rightarrow> search_config option \<Rightarrow> search_config option \<Rightarrow> http_request \<Rightarrow> ('x service_world, http_response) io" where
  "get_search V c ranked rec r = (if \<not> dc_enabled c then io_return disabled_response else
     let q = hr_query r in (case query_param q ''query'' of
        None \<Rightarrow> io_return (respond 400 [(''error'', JStr ''query_required'')])
      | Some text \<Rightarrow> let query = js_slice 512 text in (case ranked of
          None \<Rightarrow> page V c q (Some query)
        | Some sc \<Rightarrow> let mode = query_param q ''mode'' in
            if mode \<noteq> None \<and> Option.bind mode mode_of_text = None
            then io_return (respond 400 [(''error'', JStr ''invalid_mode''), (''details'', JArr [JStr ''mode must be lexical, semantic or hybrid''])])
            else ranked_page V c sc rec q query mode)))"

end
