(* ===== verification/Discovery_Browse.thy ===== *)
theory Discovery_Browse
  imports Discovery_Routes Search_Degradation
begin

text \<open>
  Browsing with cursors: a client that follows the cursor of every page of \<open>/discovery/resources\<close> over a catalog
  that does not change reads the whole listing.
\<close>

section \<open>The client\<close>

definition with_cursor :: "(string \<times> js) list \<Rightarrow> string option \<Rightarrow> js" where
  "with_cursor params cur = JObj (present ''cursor'' (map_option JStr cur) @ params)"

text \<open>All items in the order in which they are answered; None when a request is refused, fails, or the fuel ends.\<close>

fun browse :: "nat \<Rightarrow> 'x discovery_env \<Rightarrow> discovery_config \<Rightarrow> (string \<times> js) list \<Rightarrow> string option \<Rightarrow> 'x service_world \<Rightarrow> js list option" where
  "browse 0 V c params cur w = None"
| "browse (Suc n) V c params cur w = (case get_resources V c \<lparr> hr_query = with_cursor params cur, hr_session = None \<rparr> w of
     (Inl e, w') \<Rightarrow> None
   | (Inr r, w') \<Rightarrow> (case js_get (hs_body r) ''items'' of
       JArr items \<Rightarrow> (case js_get (js_get (hs_body r) ''pagination'') ''cursor'' of
           JStr s \<Rightarrow> map_option (\<lambda>rest. items @ rest) (browse n V c params (Some s) w')
         | _ \<Rightarrow> Some items)
     | _ \<Rightarrow> None))"

lemma query_param_cursor: "query_param (with_cursor params cur) k = (if k = ''cursor'' \<and> cur \<noteq> None then query_param (JObj [(''cursor'', optional_text cur)]) k else query_param (JObj params) k)"
  by (cases cur) (simp_all add: query_param_def with_cursor_def present_def js_get_def optional_text_def)

lemma query_param_given: "s \<noteq> [] \<Longrightarrow> query_param (with_cursor params (Some s)) ''cursor'' = Some s"
  by (simp add: query_param_def with_cursor_def present_def js_get_def single_def coalesce_def)

lemma same_filters: "parseFilters Z (with_cursor params cur) = parseFilters Z (JObj params)"
  by (simp add: parseFilters_def query_param_cursor Let_def)

lemma same_paging: "paging (with_cursor params cur) c = paging (JObj params) c"
  by (simp add: paging_def page_bounds_def number_param_def query_param_cursor)

section \<open>One page\<close>

definition steady :: "'x discovery_env \<Rightarrow> catalog_db \<Rightarrow> int set \<Rightarrow> bool" where
  "steady V d T = (\<forall>w. calm d T w \<longrightarrow> calm d T (ix_yield (sv_index (rv_service V)) w))"

lemma steady_read:
  assumes "steady V d T" "calm d T w"
  shows "\<exists>t w'. discovery_read V f w = (f t d, w') \<and> calm d T w' \<and> t \<in> T"
proof -
  let ?w = "ix_yield (sv_index (rv_service V)) w"
  have "calm d T ?w" using assms by (simp add: steady_def)
  moreover from this have "discovery_read V f w = (f (sw_now ?w) d, ?w)" by (simp add: discovery_read_def index_op_def Let_def calm_def)
  ultimately show ?thesis by (auto simp: calm_def)
qed

text \<open>What the filters of the listing depend on.\<close>

definition listing_scope :: "discovery_config \<Rightarrow> discovery_filters \<Rightarrow> catalog_db \<Rightarrow> discovery_options" where
  "listing_scope c f d = key_options c (watermark d)\<lparr>dp_filters := f\<rparr>"

definition listing :: "read_env \<Rightarrow> (resource_row \<times> version_row) list \<Rightarrow> catalog_db \<Rightarrow> js list" where
  "listing R rows d = map toResource (attachAccepts R (watermark d) d (js_sort newest_first rows))"

lemma visible_scope:
  "visible_rows R t (options_of c f limit \<lparr> ps_snapshot = watermark d, ps_offset = k, ps_session = sid \<rparr> None) d = visible_rows R t (listing_scope c f d) d"
  by (simp add: visible_rows_def snapshot_rows_def snapshot_conditions_def visibility_def listing_scope_def key_options_def options_of_def
      query_matches_def Let_def)

lemma length_listing [simp]: "length (listing R rows d) = length rows"
  by (simp add: listing_def attachAccepts_def)

text \<open>The answer of one request, from the place where its page starts.\<close>

definition page_answer :: "'x discovery_env \<Rightarrow> nat \<Rightarrow> nat \<Rightarrow> js list \<Rightarrow> string option \<Rightarrow> http_response \<Rightarrow> bool" where
  "page_answer V limit k items cur r = (js_get (hs_body r) ''items'' = JArr (take limit (drop k items))
     \<and> js_get (js_get (hs_body r) ''pagination'') ''cursor'' = cursor_json cur)"

definition page_payload :: "discovery_config \<Rightarrow> string \<Rightarrow> catalog_db \<Rightarrow> nat \<Rightarrow> int \<Rightarrow> cursor_payload" where
  "page_payload c fp d k now = \<lparr> cu_snapshot = int_to_string (watermark d), cu_offset = int k, cu_filters = fp,
     cu_expiresAt = now + cursorTtlMinutes c * 60000, cu_searchSessionId = None \<rparr>"

definition browse_fingerprint :: "'x discovery_env \<Rightarrow> discovery_filters \<Rightarrow> string" where
  "browse_fingerprint V f = filterFingerprint (rv_hmac V) (JObj (filters_json f @ [(''query'', JNull)]))"

definition following :: "'x discovery_env \<Rightarrow> discovery_config \<Rightarrow> discovery_filters \<Rightarrow> catalog_db \<Rightarrow> nat \<Rightarrow> nat \<Rightarrow> nat \<Rightarrow> int \<Rightarrow> string option" where
  "following V c f d limit k n now = (if k + min limit (n - k) < n
     then Some (encodeCursor (rv_hmac V) (cursorHmacKey c) (page_payload c (browse_fingerprint V f) d (k + min limit (n - k)) now)) else None)"

lemma page_from:
  assumes s: "steady V d T" and w: "calm d T w"
    and f: "parseFilters (rv_zod V) q = Inr f" and p: "paging q c = (limit, k0)"
    and start: "page_start_of V c (browse_fingerprint V f) (query_param q ''cursor'') k0 w
      = (Inr (Some \<lparr> ps_snapshot = watermark d, ps_offset = k, ps_session = sid \<rparr>), w1)" "calm d T w1"
    and rows: "\<And>t. t \<in> T \<Longrightarrow> visible_rows (sv_read (rv_service V)) t (listing_scope c f d) d = rows"
    and n: "k < 2 ^ 53"
  shows "\<exists>r w'. page V c q None w = (Inr r, w') \<and> calm d T w'
     \<and> page_answer V limit k (listing (sv_read (rv_service V)) rows d) (following V c f d limit k (length rows) (sw_now w')) r"
proof -
  let ?R = "sv_read (rv_service V)" and ?s = "\<lparr> ps_snapshot = watermark d, ps_offset = k, ps_session = sid \<rparr>"
  let ?x = "options_of c f limit ?s None"
  obtain t w2 where r: "discovery_read V (bounded_list ?R ?x) w1 = (bounded_list ?R ?x t d, w2)" "calm d T w2" "t \<in> T"
    using steady_read [OF s start(2)] by blast
  have q: "dp_query ?x = None" "dp_offset ?x = k" "dp_limit ?x = limit" "dp_snapshot ?x = watermark d" by (simp_all add: options_of_def)
  have v: "visible_rows ?R t ?x d = rows" by (simp add: visible_scope rows [OF r(3)])
  have b: "bounded_list ?R ?x t d = Inr (list_page ?R t ?x d)"
    using n q by (simp add: bounded_list_def list_catalog_def unused_rank_value_def sum_bind_def)
  have o: "pg_total (list_page ?R t ?x d) = length rows"
     "pg_rows (list_page ?R t ?x d) = attachAccepts ?R (watermark d) d (take limit (drop k (js_sort newest_first rows)))"
    using q v by (simp_all add: list_page_def ordered_rows_def Let_def)
  have items: "map toResource (pg_rows (list_page ?R t ?x d)) = take limit (drop k (listing ?R rows d))"
    by (simp add: o listing_def attachAccepts_def take_map drop_map)
  have shown: "length (pg_rows (list_page ?R t ?x d)) = min limit (length rows - k)" by (simp add: o attachAccepts_def min.commute)
  let ?cur = "next_cursor V c (browse_fingerprint V f) ?s None (min limit (length rows - k)) (length rows) (sw_now w2)"
  have cur: "?cur = following V c f d limit k (length rows) (sw_now w2)" by (auto simp: next_cursor_def following_def page_payload_def)
  have "page V c q None w = (Inr (respond 200 (browse_body limit k (list_page ?R t ?x d) ?cur)), w2)"
    using start(1) unfolding browse_fingerprint_def
    by (simp add: page_def f p Let_def or_null_def io_bind_app r(1) b io_get_def shown o(1))
  then show ?thesis using r(2) items
    by (simp add: cur page_answer_def respond_def browse_body_def js_get_def)
qed

section \<open>The property\<close>

lemma start_at_cursor:
  assumes "sw_now w \<le> t + cursorTtlMinutes c * 60000" "k < 2 ^ 53"
  shows "page_start_of V c fp (Some (encodeCursor (rv_hmac V) (cursorHmacKey c) (page_payload c fp d k t))) k0 w
     = (Inr (Some \<lparr> ps_snapshot = watermark d, ps_offset = k, ps_session = None \<rparr>), w)"
proof -
  let ?p = "page_payload c fp d k t" and ?s = "encodeCursor (rv_hmac V) (cursorHmacKey c) (page_payload c fp d k t)"
  have "safe_integer (int k)" using assms(2) by (simp add: safe_integer_def)
  then have i: "issuable (sw_now w) ?p" using assms(1) by (simp add: issuable_def page_payload_def)
  have "?s \<noteq> []" by (simp add: encodeCursor_def Let_def VERSION_def)
  then show ?thesis
    by (simp add: page_start_of_def truthy_str_def coalesce_def io_bind_app io_get_def cursor_roundtrip [OF i]) (simp add: page_payload_def)
qed

text \<open>A client with enough requests left reads the rest of the listing.\<close>

lemma browse_rest:
  fixes w :: "'x service_world"
  assumes s: "steady V d T" and c: "dc_enabled c"
    and f: "parseFilters (rv_zod V) (JObj params) = Inr f" and p: "paging (JObj params) c = (limit, 0)" "0 < limit"
    and t: "\<And>t t'. t \<in> T \<Longrightarrow> t' \<in> T \<Longrightarrow> t' \<le> t + cursorTtlMinutes c * 60000"
    and rows: "\<And>t. t \<in> T \<Longrightarrow> visible_rows (sv_read (rv_service V)) t (listing_scope c f d) d = rows" "length rows < 2 ^ 53"
  shows "calm d T w \<Longrightarrow> (\<And>w. calm d T w \<Longrightarrow> \<exists>w1 sid. page_start_of V c (browse_fingerprint V f) (query_param (with_cursor params cur) ''cursor'') 0 w
       = (Inr (Some \<lparr> ps_snapshot = watermark d, ps_offset = k, ps_session = sid \<rparr>), w1) \<and> calm d T w1)
     \<Longrightarrow> k \<le> length rows \<Longrightarrow> length rows < k + m * limit
     \<Longrightarrow> browse m V c params cur w = Some (drop k (listing (sv_read (rv_service V)) rows d))"
proof (induction m arbitrary: k cur w)
  case (Suc m)
  let ?L = "listing (sv_read (rv_service V)) rows d" and ?q = "with_cursor params cur"
  obtain w1 sid where start: "page_start_of V c (browse_fingerprint V f) (query_param ?q ''cursor'') 0 w
       = (Inr (Some \<lparr> ps_snapshot = watermark d, ps_offset = k, ps_session = sid \<rparr>), w1)" "calm d T w1" using Suc.prems(1,2) by blast
  have q: "parseFilters (rv_zod V) ?q = Inr f" "paging ?q c = (limit, 0)" by (simp_all add: same_filters same_paging f p(1))
  have k: "k < 2 ^ 53" using Suc.prems(3) rows(2) by simp
  obtain r w' where r: "page V c ?q None w = (Inr r, w')" "calm d T w'"
     "page_answer V limit k ?L (following V c f d limit k (length rows) (sw_now w')) r"
    using page_from [OF s Suc.prems(1) q start rows(1) k] by blast
  have g: "get_resources V c \<lparr> hr_query = ?q, hr_session = None \<rparr> w = (Inr r, w')" using c r(1) by (simp add: get_resources_def)
  show ?case
  proof (cases "k + limit < length rows")
    case False
    then have "following V c f d limit k (length rows) (sw_now w') = None" "take limit (drop k ?L) = drop k ?L" by (auto simp: following_def)
    then show ?thesis using r(3) by (simp add: g page_answer_def cursor_json_def)
  next
    case True
    let ?p = "page_payload c (browse_fingerprint V f) d (k + limit) (sw_now w')"
    let ?cur = "Some (encodeCursor (rv_hmac V) (cursorHmacKey c) ?p)"
    have fol: "following V c f d limit k (length rows) (sw_now w') = ?cur" using True by (simp add: following_def)
    have raw: "query_param (with_cursor params ?cur) ''cursor'' = ?cur"
      by (rule query_param_given) (simp add: encodeCursor_def Let_def VERSION_def)
    have "browse m V c params ?cur w' = Some (drop (k + limit) ?L)"
    proof (rule Suc.IH)
      show "calm d T w'" by (rule r(2))
      show "k + limit \<le> length rows" "length rows < k + limit + m * limit" using True Suc.prems(4) by simp_all
      fix w2 :: "'x service_world" assume w2: "calm d T w2"
      have "sw_now w2 \<le> sw_now w' + cursorTtlMinutes c * 60000" using t w2 r(2) by (simp add: calm_def)
      then show "\<exists>w1 sid. page_start_of V c (browse_fingerprint V f) (query_param (with_cursor params ?cur) ''cursor'') 0 w2
          = (Inr (Some \<lparr> ps_snapshot = watermark d, ps_offset = k + limit, ps_session = sid \<rparr>), w1) \<and> calm d T w1"
        unfolding raw using start_at_cursor [of w2 "sw_now w'" c "k + limit"] True rows(2) w2 by auto
    qed
    moreover have "take limit (drop k ?L) @ drop (k + limit) ?L = drop k ?L" by (metis append_take_drop_id drop_drop add.commute)
    ultimately show ?thesis using r(3) fol by (simp add: g page_answer_def cursor_json_def)
  qed
qed simp

text \<open>C30: Browsing is complete and without repetition.  Let the catalog not change and give the same visible resources at
  every moment, fewer than 2^53, let discovery be on, the page size be at least one, and the whole reading take no longer
  than a cursor lives.  Then a client that asks \<open>/discovery/resources\<close> with filters the routes accept, from the start (no
  cursor and no offset), and follows every cursor it is given, is never refused, comes to a page without a cursor after at
  most one request more than the number of full pages, and has then read every visible resource exactly once, the newest
  first.\<close>

theorem browse_reads_whole_listing:
  assumes "steady V d T" "dc_enabled c" "calm d T w"
    and "parseFilters (rv_zod V) (JObj params) = Inr f" "query_param (JObj params) ''cursor'' = None"
    and "paging (JObj params) c = (limit, 0)" "0 < limit"
    and "\<And>t t'. t \<in> T \<Longrightarrow> t' \<in> T \<Longrightarrow> t' \<le> t + cursorTtlMinutes c * 60000"
    and "\<And>t. t \<in> T \<Longrightarrow> visible_rows (sv_read (rv_service V)) t (listing_scope c f d) d = rows" "length rows < 2 ^ 53"
  shows "browse (Suc (length rows div limit)) V c params None w
    = Some (map toResource (attachAccepts (sv_read (rv_service V)) (watermark d) d (js_sort newest_first rows)))"
proof -
  have "\<exists>w1 sid. page_start_of V c (browse_fingerprint V f) (query_param (with_cursor params None) ''cursor'') 0 w
      = (Inr (Some \<lparr> ps_snapshot = watermark d, ps_offset = 0, ps_session = sid \<rparr>), w1) \<and> calm d T w1" if "calm d T w" for w
    using steady_read [OF assms(1) that, of "\<lambda>_ d. Inr (watermark d)"] assms(5)
    by (auto simp: page_start_of_def query_param_cursor truthy_str_def io_bind_app)
  moreover have "length rows < 0 + Suc (length rows div limit) * limit" using assms(7) by (metis add_0 dividend_less_div_times mult_Suc)
  ultimately show ?thesis
    using browse_rest [OF assms(1,2,4,6,7,8,9,10), of w None 0 "Suc (length rows div limit)"] assms(3) by (simp add: listing_def del: browse.simps)
qed

text \<open>Two resources, read one per page: the second request follows the cursor of the first.\<close>

definition demo_discovery_config :: discovery_config where
  "demo_discovery_config = \<lparr> dc_enabled = True, defaultPageSize = 1, maxPageSize = 100, cursorTtlMinutes = 15, dc_includeStale = False,
     dc_includeUnverified = False, cursorHmacKey = ''key'', dc_staleAfterHours = 24 \<rparr>"

definition demo_routes :: "unit discovery_env" where
  "demo_routes = \<lparr> rv_service = down_env, rv_hmac = (\<lambda>_ _. ''tag''), rv_whatwg = (\<lambda>_. None),
     rv_zod = \<lparr> zm_enum = id, zm_short = ''short'', zm_long = (\<lambda>_. ''long'') \<rparr>, rv_unrecorded = (\<lambda>_. False) \<rparr>"

definition demo_pair :: catalog_db where
  "demo_pair = catalog_run demo_catalog_env [seen 1000 ''a'',
     Observe_event 2000 ((demo_candidate ''b'' ''S'' ''6'')\<lparr>ca_resourceKey := ''k2'', ca_resourceUrl := ''u2''\<rparr>) demo_context] empty_catalog"

definition pair_world :: "unit service_world" where
  "pair_world = down_world\<lparr>sw_db := demo_pair\<rparr>"

theorem browse_reads_whole_listing_witness:
  "\<exists>items. browse 3 demo_routes demo_discovery_config [(''scheme'', JStr ''e'')] None pair_world = Some items
     \<and> length items = 2 \<and> fst (paging (JObj [(''scheme'', JStr ''e'')]) demo_discovery_config) = 1"
proof -
  let ?f = "no_filters\<lparr>fi_scheme := Some ''e''\<rparr>" and ?R = "sv_read (rv_service demo_routes)"
  let ?rows = "visible_rows ?R 5000 (listing_scope demo_discovery_config ?f demo_pair) demo_pair"
  let ?items = "map toResource (attachAccepts ?R (watermark demo_pair) demo_pair (js_sort newest_first ?rows))"
  have n: "length ?rows = 2" by code_simp
  have u: "length ?items = 2" by (simp add: attachAccepts_def n)
  have "steady demo_routes demo_pair {5000}" by (simp add: steady_def demo_routes_def down_env_def)
  moreover have "calm demo_pair {5000} pair_world" by (simp add: calm_def down_world_def pair_world_def)
  moreover have "parseFilters (rv_zod demo_routes) (JObj [(''scheme'', JStr ''e'')]) = Inr ?f" by code_simp
  moreover have "query_param (JObj [(''scheme'', JStr ''e'')]) ''cursor'' = None" by code_simp
  moreover have p: "paging (JObj [(''scheme'', JStr ''e'')]) demo_discovery_config = (1, 0)"
    by (simp add: paging_def page_bounds_def number_param_def query_param_def single_def js_get_def floored_def demo_discovery_config_def coalesce_def)
  moreover have "dc_enabled demo_discovery_config" "\<And>t t'. t \<in> {5000} \<Longrightarrow> t' \<in> {5000} \<Longrightarrow> t' \<le> t + cursorTtlMinutes demo_discovery_config * 60000"
    by (simp_all add: demo_discovery_config_def)
  moreover note n
  ultimately have "browse (Suc (length ?rows div 1)) demo_routes demo_discovery_config [(''scheme'', JStr ''e'')] None pair_world = Some ?items"
    by (intro browse_reads_whole_listing [where T = "{5000}" and f = ?f]) simp_all
  moreover have "Suc (length ?rows div 1) = 3" by (simp add: n)
  ultimately show ?thesis using u p by (intro exI [of _ ?items]) (simp del: browse.simps)
qed

end
