(* ===== verification/Http_App.thy ===== *)
theory Http_App
  imports Orchestrator Cataloger Search_Worker
begin

text \<open>
  The HTTP application of the facilitator: the request schema (facilitator/src/http/schema.ts), authentication,
  health, the payment routes and the error handler (http/app.ts), and the embedded client (embedded.ts).  SHA-256,
  \<open>express.json\<close>, the connection probe and the identifier of a request without one are parameters.  The discovery
  routes are mounted beside these (Discovery_Routes); the analytics routes are not modelled.
\<close>

section \<open>The schema\<close>

text \<open>
  Every failure of the schema is the same ZodError to the caller: None.  An object drops the keys it does not name;
  a record and a passthrough object keep them, except \<open>__proto__\<close>.
\<close>

definition strkey_pattern :: "string \<Rightarrow> string \<Rightarrow> bool" where
  "strkey_pattern firsts s = (length s = 56 \<and> hd s \<in> set firsts
     \<and> list_all (\<lambda>c. c \<in> set ''ABCDEFGHIJKLMNOPQRSTUVWXYZ234567'') (tl s))"

definition kept_entries :: "js \<Rightarrow> (string \<times> js) list option" where
  "kept_entries v = (case v of JObj kvs \<Rightarrow> Some (filter (\<lambda>e. fst e \<noteq> ''__proto__'') kvs) | _ \<Rightarrow> None)"

definition text_of :: "js \<Rightarrow> string option" where
  "text_of v = (case v of JStr s \<Rightarrow> Some s | _ \<Rightarrow> None)"

definition text_where :: "(string \<Rightarrow> bool) \<Rightarrow> js \<Rightarrow> string option" where
  "text_where p v = (case v of JStr s \<Rightarrow> if p s then Some s else None | _ \<Rightarrow> None)"

definition parse_requirements :: "js \<Rightarrow> requirements option" where
  "parse_requirements v = (case (text_where (\<lambda>s. s \<in> {''exact'', ''upto''}) (js_get v ''scheme''),
       text_where (\<lambda>s. s \<in> {''stellar:testnet'', ''stellar:pubnet''}) (js_get v ''network''),
       text_where (strkey_pattern ''C'') (js_get v ''asset''), text_where int_pattern (js_get v ''amount''),
       text_where (strkey_pattern ''GCM'') (js_get v ''payTo''), js_get v ''maxTimeoutSeconds'', kept_entries (js_get v ''extra'')) of
     (Some sc, Some nw, Some ast, Some am, Some pay, JNum secs, Some ex) \<Rightarrow> if secs > 0
       then Some \<lparr> scheme = sc, network = nw, asset = ast, amount = am, payTo = pay, maxTimeoutSeconds = secs, extra = JObj ex \<rparr>
       else None
   | _ \<Rightarrow> None)"

definition optional_member :: "(js \<Rightarrow> bool) \<Rightarrow> js \<Rightarrow> string \<Rightarrow> (string \<times> js) list option" where
  "optional_member ok v k = (case js_get v k of JUndef \<Rightarrow> Some [] | x \<Rightarrow> if ok x then Some [(k, x)] else None)"

definition is_text :: "js \<Rightarrow> bool" where
  "is_text v = (text_of v \<noteq> None)"

definition is_texts :: "js \<Rightarrow> bool" where
  "is_texts v = (case v of JArr xs \<Rightarrow> list_all is_text xs | _ \<Rightarrow> False)"

fun all_members :: "(string \<times> js) list option list \<Rightarrow> (string \<times> js) list option" where
  "all_members [] = Some []"
| "all_members (m # ms) = (case (m, all_members ms) of (Some a, Some b) \<Rightarrow> Some (a @ b) | _ \<Rightarrow> None)"

definition parse_resource :: "js \<Rightarrow> js option" where
  "parse_resource v = (case v of
     JUndef \<Rightarrow> Some JUndef
   | JObj _ \<Rightarrow> (case js_get v ''url'' of
       JStr url \<Rightarrow> map_option (\<lambda>rest. JObj ((''url'', JStr url) # rest)) (all_members [optional_member is_text v ''description'',
          optional_member is_text v ''mimeType'', optional_member is_text v ''serviceName'', optional_member is_texts v ''tags'',
          optional_member is_text v ''iconUrl''])
     | _ \<Rightarrow> None)
   | _ \<Rightarrow> None)"

definition parse_inner :: "js \<Rightarrow> js option" where
  "parse_inner v = (case (kept_entries v, text_where (\<lambda>s. 1 \<le> js_length s \<and> js_length s \<le> 2000000) (js_get v ''transaction'')) of
     (Some kvs, Some t) \<Rightarrow> Some (JObj ((''transaction'', JStr t) # filter (\<lambda>e. fst e \<noteq> ''transaction'') kvs))
   | _ \<Rightarrow> None)"

definition parse_extensions :: "js \<Rightarrow> js option" where
  "parse_extensions v = (case v of JUndef \<Rightarrow> Some JUndef | _ \<Rightarrow> map_option JObj (kept_entries v))"

definition parse_payload :: "js \<Rightarrow> payment_payload option" where
  "parse_payload v = (case (js_get v ''x402Version'', parse_resource (js_get v ''resource''), parse_requirements (js_get v ''accepted''),
       parse_inner (js_get v ''payload''), parse_extensions (js_get v ''extensions'')) of
     (JNum n, Some res, Some acc, Some inner, Some exts) \<Rightarrow>
       Some \<lparr> p_version = n, resource = res, accepted = acc, payload = inner, extensions = exts \<rparr>
   | _ \<Rightarrow> None)"

definition parseEnvelope :: "js \<Rightarrow> request_envelope option" where
  "parseEnvelope v = (case v of
     JObj kvs \<Rightarrow> if \<not> list_all (\<lambda>e. fst e \<in> {''x402Version'', ''paymentPayload'', ''paymentRequirements''}) kvs then None
       else (case (js_get v ''x402Version'', parse_payload (js_get v ''paymentPayload''), parse_requirements (js_get v ''paymentRequirements'')) of
           (JNum n, Some p, Some r) \<Rightarrow> Some \<lparr> r_version = n, paymentPayload = p, paymentRequirements = r \<rparr>
         | _ \<Rightarrow> None)
   | _ \<Rightarrow> None)"

section \<open>Requests and answers\<close>

text \<open>What \<open>express.json\<close> makes of the body: a value, a syntax error, or another error such as a body that is too large.\<close>

datatype body_outcome = Body_value js | Body_syntax | Body_error exn

record app_request =
  ar_method :: string
  ar_path :: string
  ar_authorization :: "string option"
  ar_requestId :: "string option"
  ar_ip :: "string option"
  ar_body :: body_outcome

record app_response =
  as_status :: nat
  as_headers :: "(string \<times> string) list"
  as_body :: js

record app_config =
  apiKeys :: "string list"
  ac_lexical :: bool

record 'x app_env =
  ae_sha :: "string \<Rightarrow> string"
  ae_hex :: "string \<Rightarrow> string"
  ae_ready :: "('x world, bool) io"
  ae_worker :: "'x world \<Rightarrow> worker_state option"
  ae_uuid :: "'x world \<Rightarrow> string"

definition answer :: "nat \<Rightarrow> js \<Rightarrow> app_response" where
  "answer code body = \<lparr> as_status = code, as_headers = [], as_body = body \<rparr>"

definition set_header :: "string \<Rightarrow> string \<Rightarrow> app_response \<Rightarrow> app_response" where
  "set_header k v r = r\<lparr>as_headers := as_headers r @ [(k, v)]\<rparr>"

definition given :: "string \<Rightarrow> string option \<Rightarrow> (string \<times> js) list" where
  "given k v = (case v of None \<Rightarrow> [] | Some s \<Rightarrow> [(k, JStr s)])"

definition verify_json :: "verify_response \<Rightarrow> js" where
  "verify_json r = JObj ((''isValid'', JBool (isValid r)) # given ''invalidReason'' (invalidReason r) @ given ''payer'' (v_payer r)
     @ given ''invalidMessage'' (invalidMessage r))"

definition settle_json :: "settlement_outcome \<Rightarrow> js" where
  "settle_json x = (case x of
     SettleResponse r \<Rightarrow> JObj ([(''success'', JBool (success r)), (''transaction'', JStr (transaction r)), (''network'', JStr (s_network r))]
       @ given ''errorReason'' (errorReason r) @ given ''payer'' (s_payer r) @ given ''amount'' (s_amount r))
   | HttpConflict m \<Rightarrow> JObj [(''kind'', JStr ''conflict''), (''message'', JStr m)])"

definition supported_json :: "supported_response \<Rightarrow> js" where
  "supported_json s = JObj [(''kinds'', JArr (map (\<lambda>k. JObj [(''x402Version'', JNum (k_version k)), (''scheme'', JStr (k_scheme k)),
       (''network'', JStr (k_network k)), (''extra'', JObj [(''areFeesSponsored'', JBool True)])]) (kinds s))), (''extensions'', JArr (map JStr (sup_extensions s))),
     (''signers'', JObj [(''stellar:*'', JArr (map JStr (stellar_signers s)))])]"

section \<open>Authentication\<close>

definition ascii_lower :: "string \<Rightarrow> string" where
  "ascii_lower s = map (\<lambda>c. if 65 \<le> (of_char c :: nat) \<and> (of_char c :: nat) \<le> 90 then char_of (of_char c + (32 :: nat)) else c) s"

text \<open>\<open>\s\<close>: the white space and the line ends of JavaScript.\<close>

definition header_space :: "string \<Rightarrow> bool" where
  "header_space p = (case map of_char p of
     [n] \<Rightarrow> n = (32 :: nat) \<or> (9 \<le> n \<and> n \<le> 13)
   | [l, m] \<Rightarrow> l = 194 \<and> m = 160
   | [l, m, n] \<Rightarrow> (l = 225 \<and> m = 154 \<and> n = 128)
       \<or> (l = 226 \<and> m = 128 \<and> ((128 \<le> n \<and> n \<le> 138) \<or> n = 168 \<or> n = 169 \<or> n = 175))
       \<or> (l = 226 \<and> m = 129 \<and> n = 159) \<or> (l = 227 \<and> m = 128 \<and> n = 128) \<or> (l = 239 \<and> m = 187 \<and> n = 191)
   | _ \<Rightarrow> False)"

text \<open>The characters that \<open>.\<close> does not match.\<close>

definition line_end :: "string \<Rightarrow> bool" where
  "line_end p = (case map of_char p of
     [n] \<Rightarrow> n = (10 :: nat) \<or> n = 13
   | [l, m, n] \<Rightarrow> l = 226 \<and> m = 128 \<and> (n = 168 \<or> n = 169)
   | _ \<Rightarrow> False)"

text \<open>The pattern \<open>/^Bearer\s+(.+)$/i\<close>; of a rest that is all white space the last character is the match.\<close>

definition bearer_token :: "string \<Rightarrow> string option" where
  "bearer_token s = (if ascii_lower (take 6 s) \<noteq> ''bearer'' then None
     else let rest = code_points (drop 6 s); token = dropWhile header_space rest in
       if takeWhile header_space rest = [] \<or> list_ex line_end token then None
       else if token \<noteq> [] then Some (concat token)
       else if length rest \<ge> 2 \<and> \<not> line_end (last rest) then Some (last rest) else None)"

definition auth :: "'x app_env \<Rightarrow> app_config \<Rightarrow> app_request \<Rightarrow> string option" where
  "auth E c r = (let provided = ae_sha E (coalesce (Option.bind (ar_authorization r) bearer_token) []) in
     if apiKeys c = [] then Some (''anonymous:'' @ coalesce (ar_ip r) ''unknown'')
     else if list_ex (\<lambda>k. ae_sha E k = provided) (apiKeys c) then Some (''api-key:'' @ ae_hex E provided)
     else None)"

definition unauthorized :: app_response where
  "unauthorized = answer 401 (JObj [(''error'', JStr ''unauthorized'')])"

definition request_id :: "'x app_env \<Rightarrow> 'x world \<Rightarrow> app_request \<Rightarrow> string" where
  "request_id E w r = (case ar_requestId r of Some s \<Rightarrow> js_slice 128 s | None \<Rightarrow> ae_uuid E w)"

section \<open>Health\<close>

definition health_text :: "health_status \<Rightarrow> string" where
  "health_text s = (case s of Ready \<Rightarrow> ''ready'' | Degraded \<Rightarrow> ''degraded'' | Disabled \<Rightarrow> ''disabled'')"

definition search_health :: "app_config \<Rightarrow> worker_state \<Rightarrow> js" where
  "search_health c k = JObj ([(''lexical'', JStr (if ac_lexical c then ''ready'' else ''disabled'')),
     (''semantic'', JStr (health_text (ph_status (wk_provider k)))), (''vectorSupport'', JBool (wk_vectorSupport k))]
     @ (if truthy_str (ph_detail (wk_provider k)) then given ''detail'' (ph_detail (wk_provider k)) else [])
     @ (case wk_generation k of None \<Rightarrow> [] | Some g \<Rightarrow> [(''generation'', JObj [(''id'', JNum (gn_id g)), (''model'', JStr (mk_modelId (gn_key g))),
          (''revision'', JStr (mk_modelRevision (gn_key g))), (''dimension'', JNum (int (mk_dimension (gn_key g))))])]))"

definition health_ready :: "'x app_env \<Rightarrow> app_config \<Rightarrow> ('x world, app_response) io" where
  "health_ready E c = io_bind (io_catch (ae_ready E) (\<lambda>_. io_return False)) (\<lambda>ready. io_bind io_get (\<lambda>w.
     io_return (answer (if ready then 200 else 503) (JObj ((''status'', JStr (if ready then ''ready'' else ''not_ready''))
       # (case ae_worker E w of None \<Rightarrow> [] | Some k \<Rightarrow> [(''search'', search_health c k)]))))))"

section \<open>The payment routes\<close>

definition invalid_request :: exn where
  "invalid_request = ZodError ''invalid_request''"

definition with_responses :: "js option \<Rightarrow> app_response \<Rightarrow> app_response" where
  "with_responses e r = (case e of None \<Rightarrow> r | Some v \<Rightarrow> set_header ''EXTENSION-RESPONSES'' (encodeExtensionResponses v) r)"

definition post_verify :: "('x, 'v) services \<Rightarrow> string \<Rightarrow> js \<Rightarrow> ('x world, app_response) io" where
  "post_verify V who body = (case parseEnvelope body of
     None \<Rightarrow> io_throw invalid_request
   | Some request \<Rightarrow> io_bind (verify V request who) (\<lambda>(r, e). io_return (with_responses e (answer 200 (verify_json r)))))"

definition busy_response :: "request_envelope option \<Rightarrow> app_response" where
  "busy_response request = set_header ''retry-after'' ''1'' (answer 503 (JObj [(''success'', JBool False), (''transaction'', JStr []),
     (''network'', JStr (case request of Some r \<Rightarrow> network (paymentRequirements r) | None \<Rightarrow> ''stellar:testnet'')),
     (''errorReason'', JStr ''settle_stellar_temporarily_unavailable'')]))"

definition conflict_response :: "string \<Rightarrow> app_response" where
  "conflict_response m = answer 409 (JObj [(''error'', JStr ''payment_identifier_conflict''), (''message'', JStr m)])"

definition settle_failed :: "request_envelope option \<Rightarrow> exn \<Rightarrow> ('x world, app_response) io" where
  "settle_failed request e = (case e of
     ConflictError m \<Rightarrow> io_return (conflict_response m)
   | BusyError _ \<Rightarrow> io_return (busy_response request)
   | _ \<Rightarrow> io_throw e)"

definition post_settle :: "('x, 'v) services \<Rightarrow> string \<Rightarrow> js \<Rightarrow> ('x world, app_response) io" where
  "post_settle V who body = (case parseEnvelope body of
     None \<Rightarrow> settle_failed None invalid_request
   | Some request \<Rightarrow> io_catch (io_bind (settle V request who) (\<lambda>(r, e). io_return (with_responses e (answer 200 (settle_json r)))))
       (settle_failed (Some request)))"

section \<open>The error handler\<close>

definition error_body :: "string \<Rightarrow> string \<Rightarrow> js" where
  "error_body path reason = (if path = ''/settle''
     then JObj [(''success'', JBool False), (''transaction'', JStr []), (''network'', JStr ''stellar:testnet''), (''errorReason'', JStr reason)]
     else JObj [(''isValid'', JBool False), (''invalidReason'', JStr reason)])"

definition error_reason :: "exn \<Rightarrow> string" where
  "error_reason e = (if exn_message e \<in> {''unsupported_network'', ''unsupported_scheme''} then exn_message e else ''internal_error'')"

definition handle_error :: "string \<Rightarrow> exn \<Rightarrow> app_response" where
  "handle_error path e = (case e of
     ConflictError m \<Rightarrow> conflict_response m
   | ZodError _ \<Rightarrow> answer 400 (error_body path ''invalid_request'')
   | _ \<Rightarrow> answer (if error_reason e = ''internal_error'' then 500 else 200) (error_body path (error_reason e)))"

section \<open>The application\<close>

text \<open>Routes of Express are not case sensitive and allow a slash at the end.\<close>

definition route :: "string \<Rightarrow> string \<Rightarrow> bool" where
  "route pattern path = (ascii_lower path = pattern \<or> ascii_lower path = pattern @ ''/'')"

definition status_ok :: app_response where
  "status_ok = answer 200 (JObj [(''status'', JStr ''ok'')])"

definition authenticated ::
    "'x app_env \<Rightarrow> app_config \<Rightarrow> app_request \<Rightarrow> (string \<Rightarrow> ('x world, app_response) io) \<Rightarrow> ('x world, app_response) io" where
  "authenticated E c r handler = (case auth E c r of None \<Rightarrow> io_return unauthorized | Some who \<Rightarrow> handler who)"

text \<open>
  A GET route also answers HEAD.  None: no handler of this application; Express itself answers OPTIONS on a path that
  has routes with their methods, and everything else with 404.
\<close>

definition handler_of ::
    "('x, 'v) services \<Rightarrow> 'x app_env \<Rightarrow> app_config \<Rightarrow> app_request \<Rightarrow> js \<Rightarrow> ('x world, app_response) io option" where
  "handler_of V E c r body = (let get = (ar_method r = ''GET'' \<or> ar_method r = ''HEAD''); post = (ar_method r = ''POST''); path = ar_path r in
     if get \<and> (route ''/health/live'' path \<or> route ''/health'' path) then Some (io_return status_ok)
     else if get \<and> route ''/health/ready'' path then Some (health_ready E c)
     else if get \<and> route ''/supported'' path then Some (authenticated E c r (\<lambda>_. io_return (answer 200 (supported_json (supported V)))))
     else if post \<and> route ''/verify'' path then Some (authenticated E c r (\<lambda>who. post_verify V who body))
     else if post \<and> route ''/settle'' path then Some (authenticated E c r (\<lambda>who. post_settle V who body))
     else None)"

definition methods_of :: "string \<Rightarrow> string option" where
  "methods_of path = (if list_ex (\<lambda>p. route p path) [''/health/live'', ''/health'', ''/health/ready'', ''/supported''] then Some ''GET, HEAD''
     else if list_ex (\<lambda>p. route p path) [''/verify'', ''/settle''] then Some ''POST'' else None)"

definition not_found :: app_response where
  "not_found = answer 404 JUndef"

definition unhandled :: "app_request \<Rightarrow> app_response" where
  "unhandled r = (case methods_of (ar_path r) of
     Some allow \<Rightarrow> if ar_method r = ''OPTIONS'' then set_header ''Allow'' allow (answer 200 (JStr allow)) else not_found
   | None \<Rightarrow> not_found)"

definition serve_body :: "('x, 'v) services \<Rightarrow> 'x app_env \<Rightarrow> app_config \<Rightarrow> app_request \<Rightarrow> ('x world, app_response) io" where
  "serve_body V E c r = (case ar_body r of
       Body_syntax \<Rightarrow> io_return (answer 400 (error_body (ar_path r) ''invalid_request''))
     | Body_error e \<Rightarrow> io_return (handle_error (ar_path r) e)
     | Body_value body \<Rightarrow> (case handler_of V E c r body of
         None \<Rightarrow> io_return (unhandled r)
       | Some m \<Rightarrow> io_catch m (\<lambda>e. io_return (handle_error (ar_path r) e))))"

text \<open>An answer to HEAD has no body.\<close>

definition sent :: "app_request \<Rightarrow> app_response \<Rightarrow> app_response" where
  "sent r a = (if ar_method r = ''HEAD'' then a\<lparr>as_body := JUndef\<rparr> else a)"

text \<open>The security headers of helmet are left out.\<close>

definition serve :: "('x, 'v) services \<Rightarrow> 'x app_env \<Rightarrow> app_config \<Rightarrow> app_request \<Rightarrow> ('x world, app_response) io" where
  "serve V E c r = (\<lambda>w. io_bind (serve_body V E c r)
     (\<lambda>a. io_return (sent r (a\<lparr>as_headers := (''x-request-id'', request_id E w r) # as_headers a\<rparr>))) w)"

section \<open>The embedded facilitator\<close>

definition withExtensions :: "js \<Rightarrow> js option \<Rightarrow> js" where
  "withExtensions answered e = (case (answered, e) of
     (JObj kvs, Some (JObj added)) \<Rightarrow> JObj (kvs @ [(''extensions'', JObj added)])
   | _ \<Rightarrow> answered)"

definition embedded_request :: "payment_payload \<Rightarrow> requirements \<Rightarrow> request_envelope" where
  "embedded_request p r = \<lparr> r_version = p_version p, paymentPayload = p, paymentRequirements = r \<rparr>"

definition embedded_verify :: "('x, 'v) services \<Rightarrow> string \<Rightarrow> payment_payload \<Rightarrow> requirements \<Rightarrow> ('x world, js) io" where
  "embedded_verify V who p r = io_catch
     (io_bind (verify V (embedded_request p r) who) (\<lambda>(x, e). io_return (withExtensions (verify_json x) e)))
     (\<lambda>e. io_return (JObj [(''isValid'', JBool False), (''invalidReason'',
        JStr (case e of ConflictError _ \<Rightarrow> ''payment_identifier_conflict'' | _ \<Rightarrow> ''internal_error''))]))"

definition embedded_failure :: "exn \<Rightarrow> string" where
  "embedded_failure e = (case e of ConflictError _ \<Rightarrow> ''payment_identifier_conflict''
     | BusyError _ \<Rightarrow> ''settle_stellar_temporarily_unavailable'' | _ \<Rightarrow> ''unexpected_settle_error'')"

definition embedded_settle :: "('x, 'v) services \<Rightarrow> string \<Rightarrow> payment_payload \<Rightarrow> requirements \<Rightarrow> ('x world, js) io" where
  "embedded_settle V who p r = io_catch
     (io_bind (settle V (embedded_request p r) who) (\<lambda>(x, e). io_return (withExtensions (settle_json x) e)))
     (\<lambda>e. io_return (JObj [(''success'', JBool False), (''transaction'', JStr []), (''network'', JStr (network r)),
        (''errorReason'', JStr (embedded_failure e))]))"

end
