(* ===== verification/Http_Properties.thy ===== *)
theory Http_Properties
  imports Http_App Orchestrator_Properties
begin

text \<open>
  The payment routes from the outside: who reaches them, and what a client may conclude from a successful answer.
\<close>

section \<open>Answers\<close>

text \<open>What a client of \<open>/settle\<close> reads as a settlement.\<close>

definition reports_success :: "js \<Rightarrow> bool" where
  "reports_success v = (js_get v ''success'' = JBool True)"

lemma error_body_failure [simp]: "\<not> reports_success (error_body path reason)" "\<not> reports_success (as_body (conflict_response m))"
    "\<not> reports_success (as_body (handle_error path e))" "\<not> reports_success (as_body unauthorized)" "\<not> reports_success (as_body not_found)"
    "\<not> reports_success (as_body (busy_response request))" "\<not> reports_success (as_body (unhandled r))" "\<not> reports_success JUndef"
  by (auto simp: reports_success_def error_body_def conflict_response_def answer_def handle_error_def unauthorized_def not_found_def
      busy_response_def set_header_def unhandled_def js_get_def coalesce_def split: exn.split option.split)

lemma with_responses_simps [simp]: "as_body (with_responses e r) = as_body r" "as_status (with_responses e r) = as_status r"
  by (simp_all add: with_responses_def set_header_def split: option.split)

lemma settle_json_success:
  "reports_success (settle_json x) \<longleftrightarrow> (\<exists>r. x = SettleResponse r \<and> success r \<and> js_get (settle_json x) ''transaction'' = JStr (transaction r))"
  by (auto simp: reports_success_def settle_json_def js_get_def coalesce_def split: settlement_outcome.split)

text \<open>A settlement in an answer is the outcome of \<open>settle\<close>.\<close>

lemma post_settle_success:
  assumes "post_settle V who body w = (Inr a, w')" "reports_success (as_body a)"
  obtains request x added where "parseEnvelope body = Some request" "settle V request who w = (Inr (x, added), w')"
    "as_body a = settle_json x" "as_status a = 200"
proof (cases "parseEnvelope body")
  case None
  then show ?thesis using assms by (simp add: post_settle_def settle_failed_def invalid_request_def io_throw_def)
next
  case (Some request)
  obtain s w1 where s: "settle V request who w = (s, w1)" by fastforce
  show ?thesis
  proof (cases s)
    case (Inl e)
    then show ?thesis using assms Some s
      by (cases e) (auto simp: post_settle_def settle_failed_def io_catch_app io_bind_app io_throw_def io_return_def)
  next
    case (Inr y)
    then show ?thesis using assms Some s that
      by (cases y) (auto simp: post_settle_def io_catch_app io_bind_app io_return_def answer_def)
  qed
qed

text \<open>Whose key was presented.\<close>

definition presents_key :: "'x app_env \<Rightarrow> app_config \<Rightarrow> app_request \<Rightarrow> bool" where
  "presents_key E c r = (apiKeys c = [] \<or> (\<exists>k \<in> set (apiKeys c). ae_sha E k = ae_sha E (coalesce (Option.bind (ar_authorization r) bearer_token) [])))"

lemma auth_iff: "auth E c r \<noteq> None \<longleftrightarrow> presents_key E c r"
  by (auto simp: auth_def presents_key_def Let_def list_ex_iff)

lemma serve_app: "serve V E c r w = (case serve_body V E c r w of
    (Inl e, w') \<Rightarrow> (Inl e, w') | (Inr a, w') \<Rightarrow> (Inr (sent r (a\<lparr>as_headers := (''x-request-id'', request_id E w r) # as_headers a\<rparr>)), w'))"
  by (simp add: serve_def io_bind_def io_return_def split: prod.split sum.split)

lemma post_verify_silent: "post_verify V who body w = (Inr a, w') \<Longrightarrow> \<not> reports_success (as_body a)"
  by (auto simp: post_verify_def io_throw_def io_bind_def io_return_def answer_def verify_json_def reports_success_def js_get_def given_def coalesce_def
      split: option.splits prod.splits sum.splits)

lemma health_silent: "health_ready E c w = (Inr a, w') \<Longrightarrow> \<not> reports_success (as_body a)"
  by (auto simp: health_ready_def io_bind_def io_get_def io_return_def answer_def reports_success_def js_get_def coalesce_def
      split: option.splits prod.splits sum.splits)

lemma other_silent [simp]: "\<not> reports_success (supported_json s)" "\<not> reports_success (as_body status_ok)"
  by (simp_all add: supported_json_def status_ok_def answer_def reports_success_def js_get_def coalesce_def)

text \<open>A handler that reports a success is the one of \<open>/settle\<close>.\<close>

lemma handler_success:
  assumes "handler_of V E c r body = Some m" "m w = (Inr a, w')" "reports_success (as_body a)"
  shows "ar_method r = ''POST'' \<and> route ''/settle'' (ar_path r) \<and> (\<exists>who. auth E c r = Some who \<and> post_settle V who body w = (Inr a, w'))"
  using assms health_silent [of E c w a w'] post_verify_silent [of V _ body w a w']
  by (cases "auth E c r") (auto simp: handler_of_def Let_def authenticated_def io_return_def answer_def split: if_splits)

lemma serve_success:
  assumes run: "serve V E c r w = (Inr a, w')" and ok: "reports_success (as_body a)"
  obtains body who b where "ar_body r = Body_value body" "ar_method r = ''POST''" "route ''/settle'' (ar_path r)" "auth E c r = Some who" "post_settle V who body w = (Inr b, w')"
    "as_body b = as_body a" "as_status b = as_status a"
proof -
  obtain b where b: "serve_body V E c r w = (Inr b, w')" "as_body b = as_body a" "as_status b = as_status a"
    using run ok by (auto simp: serve_app sent_def split: prod.splits sum.splits if_splits)
  have nb: "reports_success (as_body b)" using ok b(2) by simp
  then obtain body where body: "ar_body r = Body_value body"
    using b(1) by (cases "ar_body r") (auto simp: serve_body_def io_return_def answer_def)
  then obtain m where m: "handler_of V E c r body = Some m" "io_catch m (\<lambda>e. io_return (handle_error (ar_path r) e)) w = (Inr b, w')"
    using b(1) nb by (auto simp: serve_body_def io_return_def split: option.splits)
  have "m w = (Inr b, w')" using m(2) nb by (auto simp: io_catch_def io_return_def split: prod.splits sum.splits)
  then show ?thesis using handler_success [OF m(1) _ nb] that body b by blast
qed

section \<open>The property\<close>

text \<open>The routes that need a key do nothing without one.\<close>

definition guarded_route :: "app_request \<Rightarrow> bool" where
  "guarded_route r = ((ar_method r = ''POST'' \<and> (route ''/verify'' (ar_path r) \<or> route ''/settle'' (ar_path r)))
     \<or> ((ar_method r = ''GET'' \<or> ar_method r = ''HEAD'') \<and> route ''/supported'' (ar_path r)))"

text \<open>C19: Over HTTP only a client with a configured key reaches the payment routes, and what it is told is true.  While keys
  are configured, a request to a payment route that presents none changes nothing and is answered with 401, unless
  \<open>express.json\<close> had already failed on its body, which is answered by the error handler and changes nothing either.  An
  application without keys serves everyone as anonymous: there every request counts as presenting a key.  In either case,
  if the decided answers of the RPC server and of Horizon are right about the ledger, as the stored records are, an answer
  that reports a success was given on \<open>/settle\<close> with status 200 to a POST that presents a key in this sense and whose body
  is a payment by the schema, and the transaction it names succeeded on the ledger.\<close>

theorem http_success_is_on_the_ledger:
  assumes run: "serve V E c r w = (Inr a, w')"
    and ledger: "outside_ok (truthful succeeded reverted) V" "services_ok V" "ledger_sound succeeded reverted V"
      "truthful succeeded reverted (w_db w)"
  shows "(\<not> presents_key E c r \<longrightarrow> guarded_route r \<longrightarrow> w' = w \<and> (as_status a = 401 \<or> (\<forall>body. ar_body r \<noteq> Body_value body)))
     \<and> (reports_success (as_body a) \<longrightarrow> as_status a = 200 \<and> presents_key E c r \<and> ar_method r = ''POST'' \<and> route ''/settle'' (ar_path r)
        \<and> (\<exists>body request h. ar_body r = Body_value body \<and> parseEnvelope body = Some request
             \<and> js_get (as_body a) ''transaction'' = JStr h \<and> succeeded h))"
proof (intro conjI impI)
  assume "\<not> presents_key E c r" "guarded_route r"
  moreover from this have "auth E c r = None" using auth_iff by blast
  ultimately show "w' = w" and "as_status a = 401 \<or> (\<forall>body. ar_body r \<noteq> Body_value body)"
    using run by (auto simp: serve_app serve_body_def handler_of_def guarded_route_def authenticated_def Let_def route_def io_catch_def io_return_def
        unauthorized_def answer_def sent_def split: body_outcome.splits if_splits)
next
  assume ok: "reports_success (as_body a)"
  obtain body who b where b: "ar_body r = Body_value body" "auth E c r = Some who" "ar_method r = ''POST''" "route ''/settle'' (ar_path r)" "post_settle V who body w = (Inr b, w')"
    "as_body b = as_body a" "as_status b = as_status a" using serve_success [OF run ok] by metis
  have "reports_success (as_body b)" using ok b(6) by simp
  then obtain request x added where s: "parseEnvelope body = Some request" "settle V request who w = (Inr (x, added), w')"
    "as_body b = settle_json x" "as_status b = 200" using post_settle_success [OF b(5)] by blast
  have "evidenced succeeded reverted x"
    using keeps_value [OF ledger.keeps_settle [OF ledger_client [OF ledger(1-3)], of request who] s(2) ledger(4)] by simp
  moreover obtain y where "x = SettleResponse y" "success y" "js_get (settle_json x) ''transaction'' = JStr (transaction y)"
    using \<open>reports_success (as_body b)\<close> s(3) settle_json_success by auto
  ultimately have "js_get (as_body a) ''transaction'' = JStr (transaction y) \<and> succeeded (transaction y)"
    using b(6) s(3) by (simp add: evidenced_def)
  then show "as_status a = 200" "presents_key E c r" "ar_method r = ''POST''" "route ''/settle'' (ar_path r)"
    "\<exists>body request h. ar_body r = Body_value body \<and> parseEnvelope body = Some request \<and> js_get (as_body a) ''transaction'' = JStr h \<and> succeeded h"
    using b s auth_iff by (force, blast, blast, blast, blast)
qed

section \<open>A settlement over HTTP\<close>

text \<open>The facilitator of the witnesses with addresses of the length the schema asks for.\<close>

definition wire_token :: string where
  "wire_token = CHR ''C'' # replicate 55 (CHR ''A'')"

definition wire_payee :: string where
  "wire_payee = CHR ''G'' # replicate 55 (CHR ''A'')"

definition wire_args :: "js list" where
  "wire_args = [JStr ''GPAYER'', JStr wire_payee, JNum 7]"

definition wire_exact :: "(unit world, js) stellar" where
  "wire_exact = demo_tx \<lparr> tx_source = ''GPAYER'', operations = [\<lparr> op_type = ''invokeHostFunction'', op_source = None,
     op_func = ContractFn wire_token ''transfer'' wire_args,
     op_auth = Some [demo_auth ''GPAYER'' (AuthTree (ContractFn wire_token ''transfer'' wire_args) [])] \<rparr>] \<rparr>"

definition wire_runtime :: network_runtime where
  "wire_runtime = demo_runtime\<lparr>config := (config demo_runtime)\<lparr>allowedAssets := [(wire_token, \<lparr> symbol = ''USDC'', decimals = 7, maxPayment = 1000 \<rparr>)]\<rparr>\<rparr>"

definition wire_services :: "(unit, js) services" where
  "wire_services = (demo_services found)\<lparr>stellar := wire_exact,
     registry := \<lparr> networks = [(''stellar:testnet'', wire_runtime)], channels = [(''stellar:testnet'', [(''GCHAN'', demo_channel)])] \<rparr>\<rparr>"

definition wire_requirements :: js where
  "wire_requirements = JObj [(''scheme'', JStr ''exact''), (''network'', JStr ''stellar:testnet''), (''asset'', JStr wire_token),
     (''amount'', JStr ''7''), (''payTo'', JStr wire_payee), (''maxTimeoutSeconds'', JNum 60), (''extra'', JObj [(''areFeesSponsored'', JBool True)])]"

definition wire_json :: js where
  "wire_json = JObj [(''x402Version'', JNum 2), (''paymentPayload'', JObj [(''x402Version'', JNum 2), (''accepted'', wire_requirements),
        (''payload'', JObj [(''transaction'', JStr ''AAAA'')])]), (''paymentRequirements'', wire_requirements)]"

definition wire_request :: app_request where
  "wire_request = \<lparr> ar_method = ''POST'', ar_path = ''/settle'', ar_authorization = Some ''Bearer k1'', ar_requestId = Some ''r1'', ar_ip = None,
     ar_body = Body_value wire_json \<rparr>"

definition wire_terms :: requirements where
  "wire_terms = \<lparr> scheme = ''exact'', network = ''stellar:testnet'', asset = wire_token, amount = ''7'', payTo = wire_payee,
     maxTimeoutSeconds = 60, extra = JObj [(''areFeesSponsored'', JBool True)] \<rparr>"

definition wire_envelope :: request_envelope where
  "wire_envelope = \<lparr> r_version = 2, paymentPayload = \<lparr> p_version = 2, resource = JUndef, accepted = wire_terms,
     payload = JObj [(''transaction'', JStr ''AAAA'')], extensions = JUndef \<rparr>, paymentRequirements = wire_terms \<rparr>"

definition wire_env :: "unit app_env" where
  "wire_env = \<lparr> ae_sha = id, ae_hex = id, ae_ready = io_return True, ae_worker = (\<lambda>_. None), ae_uuid = (\<lambda>_. ''u'') \<rparr>"

definition wire_config :: app_config where
  "wire_config = \<lparr> apiKeys = [''k1''], ac_lexical = True \<rparr>"

lemma wire_addresses: "strkey_pattern ''C'' wire_token" "strkey_pattern ''GCM'' wire_payee"
  by (simp_all add: strkey_pattern_def wire_token_def wire_payee_def list_all_iff)

lemma wire_terms_parsed: "parse_requirements wire_requirements = Some wire_terms"
proof -
  have "int_pattern ''7''" by code_simp
  then show ?thesis
    by (simp add: parse_requirements_def wire_requirements_def wire_terms_def js_get_def coalesce_def text_where_def wire_addresses kept_entries_def)
qed

lemma wire_parsed: "parseEnvelope wire_json = Some wire_envelope"
proof -
  have "js_length ''AAAA'' = 4" by code_simp
  then show ?thesis
    by (simp add: parseEnvelope_def wire_json_def js_get_def coalesce_def parse_payload_def parse_resource_def parse_inner_def parse_extensions_def
        kept_entries_def text_where_def wire_terms_parsed wire_envelope_def)
qed

lemma wire_settled: "fst (settle wire_services wire_envelope ''api-key:k1'' (demo_world with_channel)) = Inr (SettleResponse demo_settled, None)"
  by code_simp

lemma wire_auth: "auth wire_env wire_config wire_request = Some ''api-key:k1''"
  by code_simp

lemma wire_served: "\<exists>a w'. serve wire_services wire_env wire_config wire_request (demo_world with_channel) = (Inr a, w') \<and> as_body a = settle_json (SettleResponse demo_settled)"
proof -
  obtain w' where "settle wire_services wire_envelope ''api-key:k1'' (demo_world with_channel) = (Inr (SettleResponse demo_settled, None), w')"
    using wire_settled by (metis fst_conv prod.collapse)
  then have p: "post_settle wire_services ''api-key:k1'' wire_json (demo_world with_channel) = (Inr (answer 200 (settle_json (SettleResponse demo_settled))), w')"
    by (simp add: post_settle_def wire_parsed io_catch_app io_bind_app io_return_def with_responses_def)
  have "\<not> route ''/verify'' ''/settle''" "route ''/settle'' ''/settle''" by code_simp+
  then have "handler_of wire_services wire_env wire_config wire_request wire_json = Some (post_settle wire_services ''api-key:k1'' wire_json)"
    using wire_auth by (simp add: handler_of_def Let_def authenticated_def wire_request_def)
  then show ?thesis using p
    by (simp add: serve_app serve_body_def wire_request_def io_catch_app io_return_def answer_def sent_def)
qed

theorem http_success_is_on_the_ledger_witness:
  "\<exists>a w'. serve wire_services wire_env wire_config wire_request (demo_world with_channel) = (Inr a, w')
     \<and> as_status a = 200 \<and> js_get (as_body a) ''transaction'' = JStr ''h1''"
proof -
  obtain a w' where a: "serve wire_services wire_env wire_config wire_request (demo_world with_channel) = (Inr a, w')"
    "as_body a = settle_json (SettleResponse demo_settled)" using wire_served by blast
  have o: "outside_ok (truthful (\<lambda>h. h = ''h1'') (\<lambda>_. False)) wire_services" "services_ok wire_services"
    "ledger_sound (\<lambda>h. h = ''h1'') (\<lambda>_. False) wire_services"
    by (auto simp: outside_ok_def services_ok_def ledger_sound_def wire_services_def wire_exact_def demo_services_def demo_tx_def found_def split: if_splits)
  have t: "truthful (\<lambda>h. h = ''h1'') (\<lambda>_. False) (w_db (demo_world with_channel))"
    by (simp add: truthful_def with_channel_def demo_world_def upsertChannel_def empty_db_def)
  have "reports_success (as_body a)" by (simp add: a(2) reports_success_def settle_json_def demo_settled_def js_get_def coalesce_def)
  then show ?thesis using http_success_is_on_the_ledger [OF a(1) o t] a(1) by auto
qed

end
