(* ===== verification/Semaphore.thy ===== *)
theory Semaphore
  imports JS_Prelude
begin

text \<open>
  The semaphore of the simulations (facilitator/src/semaphore.ts) as a transition system.  A task that has to wait is
  resumed by a microtask after its promise was resolved, so between the end of one task and the continuation
  of the next there is a state of its own: \<open>woken\<close>.
\<close>

record semaphore =
  active :: nat
  waiting :: "nat list"
  woken :: "nat list"

definition idle_semaphore :: semaphore where
  "idle_semaphore = \<lparr> active = 0, waiting = [], woken = [] \<rparr>"

definition run_call :: "nat \<Rightarrow> nat \<Rightarrow> semaphore \<Rightarrow> semaphore" where
  "run_call maximum i s = (if active s \<ge> maximum then s\<lparr>waiting := waiting s @ [i]\<rparr> else s\<lparr>active := active s + 1\<rparr>)"

definition continue_task :: "semaphore \<Rightarrow> semaphore" where
  "continue_task s = s\<lparr>active := active s + 1, woken := tl (woken s)\<rparr>"

definition end_task :: "semaphore \<Rightarrow> semaphore" where
  "end_task s = s\<lparr>active := active s - 1, woken := woken s @ take 1 (waiting s), waiting := drop 1 (waiting s)\<rparr>"

inductive semaphore_step :: "nat \<Rightarrow> semaphore \<Rightarrow> semaphore \<Rightarrow> bool" for maximum where
  step_run: "semaphore_step maximum s (run_call maximum i s)"
| step_continue: "woken s \<noteq> [] \<Longrightarrow> semaphore_step maximum s (continue_task s)"
| step_end: "0 < active s \<Longrightarrow> semaphore_step maximum s (end_task s)"

inductive_cases semaphore_stepE: "semaphore_step maximum s t"

abbreviation semaphore_reaches :: "nat \<Rightarrow> semaphore \<Rightarrow> semaphore \<Rightarrow> bool" where
  "semaphore_reaches maximum \<equiv> (semaphore_step maximum)\<^sup>*\<^sup>*"

section \<open>Nobody waits for nothing\<close>

text \<open>While a task waits, as many tasks as the maximum are running or about to continue.\<close>

definition slots_used :: "nat \<Rightarrow> semaphore \<Rightarrow> bool" where
  "slots_used maximum s = (waiting s \<noteq> [] \<longrightarrow> maximum \<le> active s + length (woken s))"

lemma slots_used_step: "semaphore_step maximum s t \<Longrightarrow> slots_used maximum s \<Longrightarrow> slots_used maximum t"
  by (erule semaphore_stepE; cases "waiting s")
    (auto simp: slots_used_def run_call_def continue_task_def end_task_def Suc_le_eq neq_Nil_conv split: if_splits)

lemma slots_used_reaches: "semaphore_reaches maximum idle_semaphore s \<Longrightarrow> slots_used maximum s"
proof (induction rule: rtranclp_induct)
  case base
  show ?case by (simp add: slots_used_def idle_semaphore_def)
qed (rule slots_used_step)

section \<open>The bound\<close>

text \<open>The maximum holds as long as no task is started between the end of a task and the continuation of the next.\<close>

inductive quiet_step :: "nat \<Rightarrow> semaphore \<Rightarrow> semaphore \<Rightarrow> bool" for maximum where
  quiet_run: "woken s = [] \<Longrightarrow> quiet_step maximum s (run_call maximum i s)"
| quiet_continue: "woken s \<noteq> [] \<Longrightarrow> quiet_step maximum s (continue_task s)"
| quiet_end: "0 < active s \<Longrightarrow> quiet_step maximum s (end_task s)"

inductive_cases quiet_stepE: "quiet_step maximum s t"

definition within :: "nat \<Rightarrow> semaphore \<Rightarrow> bool" where
  "within maximum s = (active s + length (woken s) \<le> maximum)"

lemma within_step: "quiet_step maximum s t \<Longrightarrow> within maximum s \<Longrightarrow> within maximum t"
proof (erule quiet_stepE)
  assume w: "within maximum s"
  show "t = continue_task s \<Longrightarrow> woken s \<noteq> [] \<Longrightarrow> within maximum t" using w by (cases "woken s") (auto simp: within_def continue_task_def)
  show "t = end_task s \<Longrightarrow> 0 < active s \<Longrightarrow> within maximum t" using w by (cases "waiting s") (auto simp: within_def end_task_def)
qed (auto simp: within_def run_call_def split: if_splits)

lemma quiet_bound: "(quiet_step maximum)\<^sup>*\<^sup>* idle_semaphore s \<Longrightarrow> active s \<le> maximum"
proof -
  assume "(quiet_step maximum)\<^sup>*\<^sup>* idle_semaphore s"
  then have "within maximum s"
  proof (induction rule: rtranclp_induct)
    case base
    show ?case by (simp add: within_def idle_semaphore_def)
  qed (rule within_step)
  then show ?thesis by (simp add: within_def)
qed

text \<open>Otherwise there is no bound at all: all running tasks end, new ones take their places, and those that were woken join them.\<close>

lemma reach_waiting: "maximum \<le> a \<Longrightarrow> semaphore_reaches maximum \<lparr> active = a, waiting = [], woken = [] \<rparr> \<lparr> active = a, waiting = [0..<n], woken = [] \<rparr>"
proof (induction n)
  case (Suc n)
  have "semaphore_step maximum \<lparr> active = a, waiting = [0..<n], woken = [] \<rparr> (run_call maximum n \<lparr> active = a, waiting = [0..<n], woken = [] \<rparr>)" by (rule step_run)
  then show ?case using Suc by (simp add: run_call_def)
qed simp

lemma reach_ended: "semaphore_reaches maximum \<lparr> active = length ws, waiting = ws, woken = vs \<rparr> \<lparr> active = 0, waiting = [], woken = vs @ ws \<rparr>"
proof (induction ws arbitrary: vs)
  case (Cons w ws)
  have "semaphore_step maximum \<lparr> active = length (w # ws), waiting = w # ws, woken = vs \<rparr> (end_task \<lparr> active = length (w # ws), waiting = w # ws, woken = vs \<rparr>)"
    by (rule step_end) simp
  then show ?case using Cons [of "vs @ [w]"] by (simp add: end_task_def)
qed simp

lemma reach_started: "n \<le> maximum \<Longrightarrow> semaphore_reaches maximum \<lparr> active = 0, waiting = [], woken = vs \<rparr> \<lparr> active = n, waiting = [], woken = vs \<rparr>"
proof (induction n)
  case (Suc n)
  have "semaphore_step maximum \<lparr> active = n, waiting = [], woken = vs \<rparr> (run_call maximum 0 \<lparr> active = n, waiting = [], woken = vs \<rparr>)" by (rule step_run)
  then show ?case using Suc by (simp add: run_call_def)
qed simp

lemma reach_continued: "semaphore_reaches maximum \<lparr> active = n, waiting = [], woken = vs \<rparr> \<lparr> active = n + length vs, waiting = [], woken = [] \<rparr>"
proof (induction vs arbitrary: n)
  case (Cons v vs)
  have "semaphore_step maximum \<lparr> active = n, waiting = [], woken = v # vs \<rparr> (continue_task \<lparr> active = n, waiting = [], woken = v # vs \<rparr>)"
    by (rule step_continue) simp
  then show ?case using Cons [of "n + 1"] by (simp add: continue_task_def)
qed simp

lemma one_more_round:
  assumes "maximum \<le> a"
  shows "semaphore_reaches maximum \<lparr> active = a, waiting = [], woken = [] \<rparr> \<lparr> active = a + maximum, waiting = [], woken = [] \<rparr>"
proof -
  have "semaphore_reaches maximum \<lparr> active = a, waiting = [], woken = [] \<rparr> \<lparr> active = a, waiting = [0..<a], woken = [] \<rparr>" by (rule reach_waiting [OF assms])
  also have "semaphore_reaches maximum \<dots> \<lparr> active = 0, waiting = [], woken = [0..<a] \<rparr>" using reach_ended [of maximum "[0..<a]" "[]"] by simp
  also have "semaphore_reaches maximum \<dots> \<lparr> active = maximum, waiting = [], woken = [0..<a] \<rparr>" by (rule reach_started) simp
  also have "semaphore_reaches maximum \<dots> \<lparr> active = maximum + a, waiting = [], woken = [] \<rparr>" using reach_continued [of maximum maximum "[0..<a]"] by simp
  finally show ?thesis by (simp add: add.commute)
qed

text \<open>C24.  The semaphore does not bound the tasks that run at once.  Whatever positive maximum it is given, for every number
  there is a sequence of calls after which that many tasks run: a task that ends frees its slot before the task
  it wakes takes it, and a call in between sees the slot free.  (Without such calls the maximum holds: \<open>quiet_bound\<close>.)\<close>

theorem semaphore_admits_too_many:
  "\<exists>s. semaphore_reaches (Suc m) idle_semaphore s \<and> n \<le> active s"
proof -
  have "\<exists>k. n \<le> k \<and> Suc m \<le> k \<and> semaphore_reaches (Suc m) idle_semaphore \<lparr> active = k, waiting = [], woken = [] \<rparr>"
  proof (induction n)
    case 0
    have "semaphore_reaches (Suc m) idle_semaphore \<lparr> active = Suc m, waiting = [], woken = [] \<rparr>"
      using reach_started [of "Suc m" "Suc m" "[]"] by (simp add: idle_semaphore_def)
    then show ?case by blast
  next
    case (Suc n)
    then obtain k where k: "n \<le> k" "Suc m \<le> k" "semaphore_reaches (Suc m) idle_semaphore \<lparr> active = k, waiting = [], woken = [] \<rparr>" by blast
    have "semaphore_reaches (Suc m) idle_semaphore \<lparr> active = k + Suc m, waiting = [], woken = [] \<rparr>"
      using k(3) one_more_round [OF k(2)] by simp
    then show ?case using k by (intro exI [of _ "k + Suc m"]) simp
  qed
  then show ?thesis by force
qed

end
