(* ===== verification/JS_Objects.thy ===== *)
theory JS_Objects
  imports JS_Values
begin

text \<open>
  Objects as the SDKs build them: object spread, \<open>Object.entries\<close>, optional members and \<open>includes\<close>.  An object
  lists its own members once each, in the order in which they are enumerated.
\<close>

text \<open>\<open>{ ...v, [k]: x }\<close>; a value that is not an object spreads to nothing.\<close>

definition js_put :: "string \<Rightarrow> js \<Rightarrow> js \<Rightarrow> js" where
  "js_put k x v = (case v of
     JObj kvs \<Rightarrow> if k \<in> fst ` set kvs then JObj (map (\<lambda>e. if fst e = k then (k, x) else e) kvs) else JObj (kvs @ [(k, x)])
   | _ \<Rightarrow> JObj [(k, x)])"

lemma map_of_update: "map_of (map (\<lambda>e. if fst e = k then (k, x) else e) kvs) k' = map_option (\<lambda>v. if k' = k then x else v) (map_of kvs k')"
  by (induction kvs) auto

lemma js_get_put [simp]: "js_get (js_put k x v) k' = (if k' = k then x else if js_is_record v then js_get v k' else JUndef)"
proof (cases v)
  case (JObj kvs)
  show ?thesis
  proof (cases "map_of kvs k")
    case None
    then have "k \<notin> fst ` set kvs" by (simp add: map_of_eq_None_iff)
    with JObj None show ?thesis by (auto simp: js_put_def coalesce_def js_is_record_def map_add_def split: option.splits)
  next
    case (Some y)
    then have "k \<in> fst ` set kvs" by (metis map_of_eq_None_iff option.distinct(1))
    with JObj Some show ?thesis by (auto simp: js_put_def coalesce_def js_is_record_def map_of_update split: option.splits)
  qed
qed (auto simp: js_put_def coalesce_def js_is_record_def)

lemma js_put_record [simp]: "js_is_record (js_put k x v)"
  by (cases v) (simp_all add: js_put_def)

definition js_own :: "js \<Rightarrow> (string \<times> js) list" where
  "js_own v = (case v of JObj kvs \<Rightarrow> kvs | _ \<Rightarrow> [])"

text \<open>\<open>{ ...v, ...w }\<close>\<close>

definition js_assign :: "js \<Rightarrow> js \<Rightarrow> js" where
  "js_assign v w = foldl (\<lambda>o1 e. js_put (fst e) (snd e) o1) v (js_own w)"

text \<open>\<open>Object.entries\<close> of an object or an array; the other values that get there have none.\<close>

definition js_entries :: "js \<Rightarrow> (string \<times> js) list" where
  "js_entries v = (case v of JObj kvs \<Rightarrow> kvs | JArr xs \<Rightarrow> map (\<lambda>i. (nat_to_string i, xs ! i)) [0..<length xs] | _ \<Rightarrow> [])"

text \<open>\<open>...(x !== undefined ? { k: x } : {})\<close>\<close>

definition opt_member :: "string \<Rightarrow> js \<Rightarrow> (string \<times> js) list" where
  "opt_member k v = (if v = JUndef then [] else [(k, v)])"

text \<open>\<open>typeof v === "object"\<close>, which also null is.\<close>

definition js_typeof_object :: "js \<Rightarrow> bool" where
  "js_typeof_object v = (case v of JObj _ \<Rightarrow> True | JArr _ \<Rightarrow> True | JNull \<Rightarrow> True | _ \<Rightarrow> False)"

definition js_includes :: "js list \<Rightarrow> js \<Rightarrow> bool" where
  "js_includes xs v = list_ex (\<lambda>x. strict_eq x v) xs"

text \<open>\<open>typeof v === "string" && words.has(v)\<close>\<close>

definition is_word :: "string list \<Rightarrow> js \<Rightarrow> bool" where
  "is_word ws v = (case v of JStr s \<Rightarrow> s \<in> set ws | _ \<Rightarrow> False)"

text \<open>\<open>v?.[0]\<close>; a string is read by its first character.\<close>

definition js_first :: "js \<Rightarrow> js" where
  "js_first v = (case v of JArr (x # _) \<Rightarrow> x | JStr (c # _) \<Rightarrow> JStr [c] | JObj _ \<Rightarrow> js_get v ''0'' | _ \<Rightarrow> JUndef)"

definition entries_size :: "(string \<times> js) list \<Rightarrow> nat" where
  "entries_size es = sum_list (map (\<lambda>e. size (snd e) + 1) es)"

lemma entries_size_simps [simp]: "entries_size [] = 0" "entries_size (e # es) = size (snd e) + 1 + entries_size es"
  by (simp_all add: entries_size_def)

lemma entries_size_le: "entries_size (js_entries v) \<le> size v"
proof (cases v)
  case (JArr xs)
  have "sum_list (map (\<lambda>i. size (xs ! i) + 1) [0..<length xs]) = sum_list (map (\<lambda>x. size x + 1) (map ((!) xs) [0..<length xs]))"
    by (simp add: comp_def)
  also have "\<dots> = sum_list (map (\<lambda>x. size x + 1) xs)" by (simp only: map_nth)
  also have "\<dots> \<le> size_list size xs" by (induction xs) auto
  finally show ?thesis using JArr by (simp add: js_entries_def entries_size_def comp_def)
next
  case (JObj kvs)
  have "entries_size kvs \<le> size_list (size_prod (\<lambda>_. 0) size) kvs" by (induction kvs) auto
  then show ?thesis using JObj by (simp add: js_entries_def)
qed (simp_all add: js_entries_def)

lemma js_get_size: "js_get v k \<noteq> JUndef \<Longrightarrow> size (js_get v k) < size v"
  by (cases v) (auto simp: js_get_def coalesce_def size_entry split: option.splits dest!: map_of_SomeD)

lemma js_get_size_member: "js_get v k \<noteq> JUndef \<Longrightarrow> Suc (2 * size (js_get v k)) < 2 * size v"
  using js_get_size [of v k] by linarith

lemma js_get_size_le: "size (js_get v k) \<le> size v"
proof (cases "js_get v k = JUndef")
  case True
  then show ?thesis by (cases v) auto
qed (simp add: js_get_size less_imp_le)

lemma js_get_size_plus: "2 * size (js_get v k) < Suc (2 * size v + n)"
  using js_get_size_le [of v k] by linarith

end
