(* ===== verification/Upto_Client.thy ===== *)
theory Upto_Client
  imports Upto_Mechanism JS_Number JS_Objects
begin

text \<open>
  The upto scheme of the buyer (packages/stellar-upto/src/client.ts) and of the seller (server.ts).  The Stellar SDK,
  the payment-identifier library and the facilitator client are parameters; a double is the rational number it
  denotes, None when it is not finite.
\<close>

section \<open>The world of a client\<close>

record 'x client_world =
  cl_cache :: "(string \<times> string) list"
  cl_ext :: 'x

definition outside :: "('x, 'a) io \<Rightarrow> ('x client_world, 'a) io" where
  "outside m = (\<lambda>w. case m (cl_ext w) of (r, x) \<Rightarrow> (r, w\<lparr>cl_ext := x\<rparr>))"

record ('x, 'v, 'tx) upto_sdk =
  uc_stellar :: "('x, 'v) stellar"
  uc_known_network :: "string \<Rightarrow> bool"
  uc_asset_address :: "string \<Rightarrow> bool"
  uc_destination_address :: "string \<Rightarrow> bool"
  uc_close_time :: "string \<Rightarrow> ('x, rat option) io"
  uc_random_bytes :: "('x, string) io"
  uc_generate_id :: "('x, string) io"
  uc_valid_id :: "string \<Rightarrow> bool"
  uc_identifier_extension :: "js \<Rightarrow> bool"
  uc_build :: "string \<Rightarrow> string \<Rightarrow> string \<Rightarrow> 'v list \<Rightarrow> ('x, 'tx) io"
  uc_simulation :: "'tx \<Rightarrow> exn + unit"
  uc_needs :: "'tx \<Rightarrow> string list"
  uc_sign :: "'tx \<Rightarrow> string \<Rightarrow> int option \<Rightarrow> ('x, 'tx) io"
  uc_built :: "'tx \<Rightarrow> string option"

text \<open>What \<open>getSupported\<close> of a facilitator client returns.\<close>

record client_kind =
  ck_version :: int
  ck_scheme :: string
  ck_network :: string
  ck_sponsored :: bool

record client_supported =
  cs_kinds :: "client_kind list"
  cs_signers :: "(string \<times> string list) list"

datatype 'x resolver = Fixed_address string | Resolve_address "string \<Rightarrow> ('x, string) io"

record 'x upto_options =
  uo_contracts :: "(string \<times> string) list"
  uo_facilitator :: "'x resolver option"
  uo_client :: "('x, client_supported) io option"
  uo_hook :: "string option"
  uo_seconds :: "(string \<Rightarrow> ('x, rat option) io) option"

definition refuse_with :: "string \<Rightarrow> ('w, 'a) io" where
  "refuse_with m = io_throw (JsError m)"

definition require_that :: "bool \<Rightarrow> string \<Rightarrow> ('w, unit) io" where
  "require_that ok m = (if ok then io_return () else refuse_with m)"

definition TESTNET_UPTO_SETTLEMENT_CONTRACT :: string where
  "TESTNET_UPTO_SETTLEMENT_CONTRACT = ''CDEI3W6ZFW6BFSU37VL265OSOGKSM3BR3TZVUR5NZ4UER6FOMVJUKOOT''"

section \<open>The checks\<close>

definition positive_pattern :: "string \<Rightarrow> bool" where
  "positive_pattern s = (nat_pattern s \<and> s \<noteq> ''0'')"

definition canonicalPositiveI128 :: "string \<Rightarrow> ('w, int) io" where
  "canonicalPositiveI128 s = (if \<not> positive_pattern s then refuse_with ''amount must be a canonical positive integer string''
     else if big_int s > I128_MAX then refuse_with ''amount exceeds Stellar i128 maximum'' else io_return (big_int s))"

definition client_settlement_id :: "('x, 'v, 'tx) upto_sdk \<Rightarrow> string \<Rightarrow> ('w, string) io" where
  "client_settlement_id C i = (if \<not> uc_valid_id C i then refuse_with ''invalid payment-identifier id''
     else io_return (sha256_bytes (uc_stellar C) (''x402:payment-identifier:v1'' @ [CHR 0x00] @ i)))"

definition identifierFromContext :: "('x, 'v, 'tx) upto_sdk \<Rightarrow> js \<Rightarrow> ('x client_world, string \<times> js option) io" where
  "identifierFromContext C context = (let declared = js_get context ''payment-identifier'' in
     if declared = JUndef then io_bind (outside (uc_random_bytes C)) (\<lambda>b. io_return (b, None))
     else if \<not> uc_identifier_extension C declared then refuse_with ''server declared a malformed payment-identifier extension''
     else let info = js_get declared ''info''; given_id = js_get info ''id'' in
       io_bind (if given_id = JUndef \<or> given_id = JNull then io_bind (outside (uc_generate_id C)) (\<lambda>i. io_return (JStr i)) else io_return given_id) (\<lambda>idv.
       case idv of
         JStr i \<Rightarrow> if \<not> uc_valid_id C i then refuse_with ''server supplied an invalid payment-identifier id''
           else io_bind (client_settlement_id C i) (\<lambda>s.
             io_return (s, Some (JObj [(''payment-identifier'', js_put ''info'' (js_put ''id'' (JStr i) info) declared)])))
       | _ \<Rightarrow> refuse_with ''server supplied an invalid payment-identifier id''))"

definition asNetwork :: "('x, 'v, 'tx) upto_sdk \<Rightarrow> string \<Rightarrow> ('w, unit) io" where
  "asNetwork C nw = require_that (uc_known_network C nw \<and> (nw = ''stellar:testnet'' \<or> nw = ''stellar:pubnet'')) (''unsupported Stellar network: '' @ nw)"

definition validateAddress :: "('x, 'v, 'tx) upto_sdk \<Rightarrow> string \<Rightarrow> string \<Rightarrow> bool \<Rightarrow> ('w, unit) io" where
  "validateAddress C s label contractOnly = require_that (if contractOnly then uc_asset_address C s else uc_destination_address C s)
     (''invalid '' @ label @ '': '' @ s)"

section \<open>The facilitator\<close>

text \<open>\<open>supported.signers["stellar:*"]?.[0] ?? supported.signers[network]?.[0]\<close>\<close>

definition first_signer :: "client_supported \<Rightarrow> string \<Rightarrow> string option" where
  "first_signer s nw = (case map_of (cs_signers s) ''stellar:*'' of
     Some (a # _) \<Rightarrow> Some a
   | _ \<Rightarrow> (case map_of (cs_signers s) nw of Some (a # _) \<Rightarrow> Some a | _ \<Rightarrow> None))"

definition advertised :: "client_supported \<Rightarrow> string \<Rightarrow> ('w, string option) io" where
  "advertised s nw = (case find (\<lambda>k. ck_version k = 2 \<and> ck_scheme k = ''upto'' \<and> ck_network k = nw) (cs_kinds s) of
     None \<Rightarrow> refuse_with (''facilitator does not advertise upto on '' @ nw)
   | Some k \<Rightarrow> if \<not> ck_sponsored k then refuse_with (''facilitator does not sponsor upto fees on '' @ nw)
       else io_return (first_signer s nw))"

definition facilitator_source :: "'x upto_options \<Rightarrow> string \<Rightarrow> ('x client_world, string option) io" where
  "facilitator_source o1 nw = (case uo_facilitator o1 of
     Some (Fixed_address a) \<Rightarrow> io_return (Some a)
   | Some (Resolve_address f) \<Rightarrow> io_bind (outside (f nw)) (\<lambda>a. io_return (Some a))
   | None \<Rightarrow> (case uo_client o1 of
       Some ask \<Rightarrow> io_bind (outside ask) (\<lambda>s. advertised s nw)
     | None \<Rightarrow> io_return None))"

definition resolveFacilitator :: "'x upto_options \<Rightarrow> string \<Rightarrow> ('x client_world, string) io" where
  "resolveFacilitator o1 nw = io_bind io_get (\<lambda>w. let cached = map_of (cl_cache w) nw in
     if truthy_str cached then io_return (coalesce cached [])
     else io_bind (facilitator_source o1 nw) (\<lambda>a. if \<not> truthy_str a
       then refuse_with (''facilitator address is not configured for '' @ nw)
       else io_seq (io_modify (\<lambda>w. w\<lparr>cl_cache := (nw, coalesce a []) # cl_cache w\<rparr>)) (io_return (coalesce a []))))"

section \<open>The payment\<close>

text \<open>What the client is about to have signed.\<close>

record 'v upto_call =
  uk_network :: string
  uk_contract :: string
  uk_args :: "'v list"
  uk_latest :: int
  uk_deadline :: "int option"
  uk_facilitator :: string
  uk_extensions :: "js option"

definition ledger_seconds :: "('x, 'v, 'tx) upto_sdk \<Rightarrow> 'x upto_options \<Rightarrow> string \<Rightarrow> ('x, rat option) io" where
  "ledger_seconds C o1 nw = (case uo_seconds o1 of Some f \<Rightarrow> f nw | None \<Rightarrow> uc_close_time C nw)"

definition check_requirements :: "('x, 'v, 'tx) upto_sdk \<Rightarrow> string \<Rightarrow> int \<Rightarrow> requirements \<Rightarrow> ('x client_world, int) io" where
  "check_requirements C payer version req =
     io_seq (require_that (version = 2) ''Stellar upto requires x402 version 2'')
    (io_seq (require_that (scheme req = ''upto'') (''unsupported scheme: '' @ scheme req))
    (io_seq (asNetwork C (network req))
    (io_bind (canonicalPositiveI128 (amount req)) (\<lambda>maximum.
     io_seq (require_that (maxTimeoutSeconds req > 0) ''maxTimeoutSeconds must be a positive integer'')
    (io_seq (require_that (js_get (extra req) ''areFeesSponsored'' = JBool True) ''Stellar upto requires areFeesSponsored to be true'')
    (io_seq (validateAddress C payer ''payer'' False)
    (io_seq (validateAddress C (payTo req) ''recipient'' False)
    (io_seq (validateAddress C (asset req) ''asset'' True) (io_return maximum)))))))))"

definition contract_for :: "'x upto_options \<Rightarrow> string \<Rightarrow> string option" where
  "contract_for o1 nw = (case map_of (uo_contracts o1) nw of Some c \<Rightarrow> Some c
     | None \<Rightarrow> if nw = ''stellar:testnet'' then Some TESTNET_UPTO_SETTLEMENT_CONTRACT else None)"

definition check_hook :: "('x, 'v, 'tx) upto_sdk \<Rightarrow> 'x upto_options \<Rightarrow> string \<Rightarrow> string \<Rightarrow> ('x client_world, unit) io" where
  "check_hook C o1 settlement token = (if truthy_str (uo_hook o1)
     then io_seq (validateAddress C (coalesce (uo_hook o1) []) ''settlement hook'' True)
       (require_that (uo_hook o1 \<noteq> Some settlement \<and> uo_hook o1 \<noteq> Some token) ''settlement hook must not equal the settlement or token contract'')
     else io_return ())"

definition settle_args ::
    "('x, 'v) stellar \<Rightarrow> string \<Rightarrow> requirements \<Rightarrow> int \<Rightarrow> int \<Rightarrow> int option \<Rightarrow> string \<Rightarrow> string \<Rightarrow> string option \<Rightarrow> string + 'v list" where
  "settle_args S payer req maximum latest until facilitator sid hook = mk_all [mk_address S payer, mk_address S (payTo req), mk_address S (asset req),
     mk_i128 S maximum, mk_u32 S (Some latest), mk_u32 S until, mk_address S facilitator, mk_bytes S sid,
     (if truthy_str hook then mk_address S (coalesce hook []) else Inr (mk_void S)), mk_i128 S maximum]"

text \<open>\<open>validAfter + Math.ceil(maxTimeoutSeconds / seconds)\<close>, the quotient a double.\<close>

definition client_deadline :: "int \<Rightarrow> int \<Rightarrow> rat \<Rightarrow> int option" where
  "client_deadline latest timeout seconds = map_option (\<lambda>q. latest + \<lceil>q\<rceil>) (to_double (of_int timeout / seconds))"

definition upto_call_of ::
    "('x, 'v, 'tx) upto_sdk \<Rightarrow> 'x upto_options \<Rightarrow> string \<Rightarrow> int \<Rightarrow> requirements \<Rightarrow> js \<Rightarrow> ('x client_world, 'v upto_call) io" where
  "upto_call_of C o1 payer version req context =
     io_bind (check_requirements C payer version req) (\<lambda>maximum.
     case contract_for o1 (network req) of None \<Rightarrow> refuse_with (network req @ '' upto settlement contract is not configured'')
     | Some settlement \<Rightarrow> if settlement = [] then refuse_with (network req @ '' upto settlement contract is not configured'') else
     io_seq (validateAddress C settlement ''settlement contract'' True)
    (io_bind (resolveFacilitator o1 (network req)) (\<lambda>facilitator.
     io_seq (validateAddress C facilitator ''facilitator'' False)
    (io_seq (require_that (facilitator \<noteq> payer) ''facilitator must not be the payer'')
    (io_seq (check_hook C o1 settlement (asset req))
    (io_bind (outside (get_latest_ledger (uc_stellar C))) (\<lambda>(latest, closed).
     io_bind (outside (ledger_seconds C o1 (network req))) (\<lambda>secs. case secs of None \<Rightarrow> refuse_with ''invalid estimated ledger close time''
     | Some seconds \<Rightarrow> if seconds \<le> 0 then refuse_with ''invalid estimated ledger close time'' else
       let until = client_deadline latest (maxTimeoutSeconds req) seconds in
     io_bind (identifierFromContext C context) (\<lambda>(sid, exts).
     case settle_args (uc_stellar C) payer req maximum latest until facilitator sid (uo_hook o1) of
       Inl m \<Rightarrow> refuse_with m
     | Inr as \<Rightarrow> io_return \<lparr> uk_network = network req, uk_contract = settlement, uk_args = as, uk_latest = latest, uk_deadline = until,
         uk_facilitator = facilitator, uk_extensions = exts \<rparr>)))))))))"

record payload_result =
  pr_version :: int
  pr_transaction :: string
  pr_extensions :: "js option"

definition signed_by_payer :: "('x, 'v, 'tx) upto_sdk \<Rightarrow> string \<Rightarrow> 'v upto_call \<Rightarrow> ('x client_world, 'tx) io" where
  "signed_by_payer C payer call =
     io_bind (outside (uc_build C (uk_network call) (uk_contract call) ''settle'' (uk_args call))) (\<lambda>tx.
     io_bind (lift_sum (uc_simulation C tx)) (\<lambda>_.
     let before = uc_needs C tx in
     io_seq (require_that (length before = 2 \<and> list_all (\<lambda>a. a = payer \<or> a = uk_facilitator call) before)
       (''expected payer and facilitator auth entries, got ['' @ join '', '' before @ '']''))
    (io_bind (outside (uc_sign C tx payer (uk_deadline call))) (\<lambda>signed. let after = uc_needs C signed in
     io_seq (require_that (after = [uk_facilitator call])
       (''expected only facilitator signature to remain, got ['' @ join '', '' after @ '']''))
       (io_return signed)))))"

definition createPaymentPayload ::
    "('x, 'v, 'tx) upto_sdk \<Rightarrow> 'x upto_options \<Rightarrow> string \<Rightarrow> int \<Rightarrow> requirements \<Rightarrow> js \<Rightarrow> ('x client_world, payload_result) io" where
  "createPaymentPayload C o1 payer version req context =
     io_bind (upto_call_of C o1 payer version req context) (\<lambda>call.
     io_bind (signed_by_payer C payer call) (\<lambda>tx. case uc_built C tx of
       None \<Rightarrow> refuse_with ''Stellar SDK did not assemble the upto transaction''
     | Some envelope \<Rightarrow> io_return \<lparr> pr_version = version, pr_transaction = envelope, pr_extensions = uk_extensions call \<rparr>))"

section \<open>The seller\<close>

definition getAssetDecimals :: "(string \<times> rat) list \<Rightarrow> rat option \<Rightarrow> string \<Rightarrow> exn + rat" where
  "getAssetDecimals table standard ast = (let n = (case map_of table ast of Some k \<Rightarrow> k | None \<Rightarrow> coalesce standard 7) in
     if of_int \<lfloor>n\<rfloor> \<noteq> n \<or> n < 0 \<or> n > 18 then Inl (JsError (''invalid decimal count for '' @ ast)) else Inr n)"

end
