(* ===== verification/Upto_Client_Properties.thy ===== *)
theory Upto_Client_Properties
  imports Upto_Client Mechanism_Properties
begin

text \<open>
  The buyer's client and the facilitator agree: the contract call the client has signed is one the facilitator's
  upto mechanism reads back and accepts.
\<close>

section \<open>The SDK on both sides\<close>

text \<open>What is encoded is decoded again.\<close>

definition codec_ok :: "('x, 'v) stellar \<Rightarrow> ('w, 'v) stellar \<Rightarrow> bool" where
  "codec_ok K S = ((\<forall>a v. mk_address K a = Inr v \<longrightarrow> sc_string S v = Inr a \<and> sc_text S v = Inr (Some a))
     \<and> (\<forall>n v. mk_i128 K n = Inr v \<longrightarrow> sc_bigint S v = Inr n)
     \<and> (\<forall>n v. mk_u32 K n = Inr v \<longrightarrow> n \<noteq> None \<and> sc_number S v = Inr n)
     \<and> (\<forall>b v. mk_bytes K b = Inr v \<longrightarrow> sc_bytes S v = Inr b)
     \<and> sc_text S (mk_void K) = Inr None \<and> sha256_bytes S = sha256_bytes K)"

definition bytes_of_32 :: "('x, 'v, 'tx) upto_sdk \<Rightarrow> bool" where
  "bytes_of_32 C = ((\<forall>x b x'. uc_random_bytes C x = (Inr b, x') \<longrightarrow> length b = 32) \<and> (\<forall>s. length (sha256_bytes (uc_stellar C) s) = 32))"

section \<open>What the client signs\<close>

lemma require_that_Inr [simp]: "require_that ok m w = (Inr u, w') \<longleftrightarrow> ok \<and> w' = w"
  by (auto simp: require_that_def refuse_with_def)

lemma refuse_with_Inr [simp]: "refuse_with m w \<noteq> (Inr x, w')"
  by (simp add: refuse_with_def)

lemma outside_Inr: "outside m w = (Inr x, w') \<longleftrightarrow> (\<exists>e. m (cl_ext w) = (Inr x, e) \<and> w' = w\<lparr>cl_ext := e\<rparr>)"
  by (auto simp: outside_def split: prod.splits)

lemma check_requirements_Inr:
  assumes "check_requirements C payer version req w = (Inr maximum, w')"
  shows "w' = w \<and> maximum = big_int (amount req) \<and> positive_pattern (amount req) \<and> maximum \<le> I128_MAX \<and> 0 < maxTimeoutSeconds req"
  using assms by (auto simp: check_requirements_def asNetwork_def validateAddress_def canonicalPositiveI128_def io_seq_def elim!: io_bind_InrE split: if_splits)

lemma random_32: "bytes_of_32 C \<Longrightarrow> uc_random_bytes C x = (Inr b, x') \<Longrightarrow> length b = 32"
  unfolding bytes_of_32_def by blast

lemma client_settlement_id_Inr:
  "client_settlement_id C i w = (Inr s, w') \<Longrightarrow> w' = w \<and> s = settlementIdForPaymentIdentifier (sha256_bytes (uc_stellar C)) i"
  by (auto simp: client_settlement_id_def settlementIdForPaymentIdentifier_def split: if_splits)

text \<open>The identifier travels with the payment and determines the settlement id; without one the id is random.\<close>

lemma identifier_Inr:
  assumes ok: "identifierFromContext C context w = (Inr (sid, exts), w')" and b: "bytes_of_32 C"
  shows "length sid = 32 \<and> (case exts of None \<Rightarrow> True
     | Some e \<Rightarrow> (\<exists>i. js_get (js_get (js_get e ''payment-identifier'') ''info'') ''id'' = JStr i
        \<and> sid = settlementIdForPaymentIdentifier (sha256_bytes (uc_stellar C)) i))"
proof (cases "js_get context ''payment-identifier'' = JUndef")
  case True
  then show ?thesis using ok b by (auto simp: identifierFromContext_def Let_def outside_Inr random_32 elim!: io_bind_InrE)
next
  case False
  define d where "d = js_get context ''payment-identifier''"
  obtain idv w1 where "(case idv of JStr i \<Rightarrow> if \<not> uc_valid_id C i then refuse_with ''server supplied an invalid payment-identifier id''
       else io_bind (client_settlement_id C i) (\<lambda>s.
         io_return (s, Some (JObj [(''payment-identifier'', js_put ''info'' (js_put ''id'' (JStr i) (js_get d ''info'')) d)])))
     | _ \<Rightarrow> refuse_with ''server supplied an invalid payment-identifier id'') w1 = (Inr (sid, exts), w')"
    using ok False unfolding identifierFromContext_def Let_def d_def [symmetric] by (auto elim!: io_bind_InrE split: if_splits)
  then obtain i where "client_settlement_id C i w1 = (Inr sid, w')"
      "exts = Some (JObj [(''payment-identifier'', js_put ''info'' (js_put ''id'' (JStr i) (js_get d ''info'')) d)])"
    by (auto elim!: io_bind_InrE split: js.splits if_splits)
  with b show ?thesis
    using client_settlement_id_Inr [of C i w1 sid w'] by (simp add: bytes_of_32_def settlementIdForPaymentIdentifier_def coalesce_def)
qed

lemma mk_all_Cons: "mk_all (x # xs) = Inr as \<longleftrightarrow> (\<exists>v vs. x = Inr v \<and> mk_all xs = Inr vs \<and> as = v # vs)"
  by (cases x; cases "mk_all xs") (auto simp: sum_bind_def)

lemma mk_all_Nil: "mk_all [] = Inr as \<longleftrightarrow> as = []"
  by auto

lemma check_hook_Inr:
  assumes "check_hook C o1 settlement token w = (Inr u, w')"
  shows "w' = w" "truthy_str (uo_hook o1) \<Longrightarrow> uo_hook o1 \<noteq> Some settlement \<and> uo_hook o1 \<noteq> Some token"
  using assms by (auto simp: check_hook_def validateAddress_def io_seq_def elim!: io_bind_InrE split: if_splits)

lemma client_deadline_after: "0 \<le> t \<Longrightarrow> 0 < s \<Longrightarrow> client_deadline l t s = Some d \<Longrightarrow> l \<le> d"
  using to_double_nonneg [of "of_int t / s"] by (auto simp: client_deadline_def)

text \<open>What a call ready to be signed was made of.\<close>

definition call_facts :: "('x, 'v, 'tx) upto_sdk \<Rightarrow> 'x upto_options \<Rightarrow> string \<Rightarrow> requirements \<Rightarrow> 'v upto_call \<Rightarrow> string \<Rightarrow> bool" where
  "call_facts C o1 payer req call sid = (positive_pattern (amount req) \<and> big_int (amount req) \<le> I128_MAX
     \<and> settle_args (uc_stellar C) payer req (big_int (amount req)) (uk_latest call) (uk_deadline call) (uk_facilitator call) sid (uo_hook o1) = Inr (uk_args call)
     \<and> (\<forall>d. uk_deadline call = Some d \<longrightarrow> uk_latest call \<le> d)
     \<and> (truthy_str (uo_hook o1) \<longrightarrow> uo_hook o1 \<noteq> Some (uk_contract call) \<and> uo_hook o1 \<noteq> Some (asset req))
     \<and> length sid = 32 \<and> (case uk_extensions call of None \<Rightarrow> True
     | Some e \<Rightarrow> (\<exists>i. js_get (js_get (js_get e ''payment-identifier'') ''info'') ''id'' = JStr i
        \<and> sid = settlementIdForPaymentIdentifier (sha256_bytes (uc_stellar C)) i)))"

lemma upto_call_facts:
  assumes c: "upto_call_of C o1 payer version req context w = (Inr call, w')" and b: "bytes_of_32 C"
  shows "\<exists>sid. call_facts C o1 payer req call sid"
proof -
  obtain maximum w1 where m: "check_requirements C payer version req w = (Inr maximum, w1)"
    and rest: "(case contract_for o1 (network req) of None \<Rightarrow> refuse_with (network req @ '' upto settlement contract is not configured'')
     | Some settlement \<Rightarrow> if settlement = [] then refuse_with (network req @ '' upto settlement contract is not configured'') else
     io_seq (validateAddress C settlement ''settlement contract'' True)
    (io_bind (resolveFacilitator o1 (network req)) (\<lambda>facilitator.
     io_seq (validateAddress C facilitator ''facilitator'' False)
    (io_seq (require_that (facilitator \<noteq> payer) ''facilitator must not be the payer'')
    (io_seq (check_hook C o1 settlement (asset req))
    (io_bind (outside (get_latest_ledger (uc_stellar C))) (\<lambda>(latest, closed).
     io_bind (outside (ledger_seconds C o1 (network req))) (\<lambda>secs. case secs of None \<Rightarrow> refuse_with ''invalid estimated ledger close time''
     | Some seconds \<Rightarrow> if seconds \<le> 0 then refuse_with ''invalid estimated ledger close time'' else
       let until = client_deadline latest (maxTimeoutSeconds req) seconds in
     io_bind (identifierFromContext C context) (\<lambda>(sid, exts).
     case settle_args (uc_stellar C) payer req maximum latest until facilitator sid (uo_hook o1) of
       Inl m \<Rightarrow> refuse_with m
     | Inr as \<Rightarrow> io_return \<lparr> uk_network = network req, uk_contract = settlement, uk_args = as, uk_latest = latest, uk_deadline = until,
         uk_facilitator = facilitator, uk_extensions = exts \<rparr>))))))))) w1 = (Inr call, w')"
    using c unfolding upto_call_of_def by (rule io_bind_InrE)
  obtain settlement facilitator latest closed secs w2 w3 w4 w5 sid exts where
      h: "check_hook C o1 settlement (asset req) w2 = (Inr (), w3)"
    and i: "identifierFromContext C context w4 = (Inr (sid, exts), w5)"
    and s: "0 < secs"
    and a: "settle_args (uc_stellar C) payer req maximum latest (client_deadline latest (maxTimeoutSeconds req) secs) facilitator sid (uo_hook o1) = Inr (uk_args call)"
    and k: "uk_contract call = settlement" "uk_latest call = latest" "uk_deadline call = client_deadline latest (maxTimeoutSeconds req) secs"
       "uk_facilitator call = facilitator" "uk_extensions call = exts"
    using rest unfolding io_seq_def Let_def
    by (auto simp: not_le elim!: io_bind_InrE split: option.splits if_splits prod.splits sum.splits)
  show ?thesis
    using check_requirements_Inr [OF m] check_hook_Inr [OF h] identifier_Inr [OF i b] s a k client_deadline_after [of "maxTimeoutSeconds req" secs latest]
    unfolding call_facts_def by (intro exI [of _ sid]) auto
qed

lemma positive_amount:
  assumes "positive_pattern s" "big_int s \<le> I128_MAX"
  shows "parseInteger s = Some (big_int s) \<and> 0 < big_int s"
proof -
  have p: "nat_pattern s" "s \<noteq> ''0''" using assms(1) by (auto simp: positive_pattern_def)
  have z: "nat_to_string (digits_value s) = s" by (rule nat_to_string_inverse [OF p(1)])
  have "nat_to_string 0 = ''0''" by (simp add: nat_to_string.simps [of 0] digit_char_def)
  with z p(2) have "digits_value s \<noteq> 0" by metis
  moreover have "big_int s = int (digits_value s)" "int_pattern s"
    using p by (auto simp: big_int_def int_pattern_def nat_pattern_def is_digit_def split: list.splits)
  ultimately show ?thesis using assms(2) by (simp add: parseInteger_Some I128_MIN_def)
qed

section \<open>The facilitator reads back what was signed\<close>

definition terms_of_call :: "'x upto_options \<Rightarrow> string \<Rightarrow> requirements \<Rightarrow> 'v upto_call \<Rightarrow> string \<Rightarrow> upto_terms" where
  "terms_of_call o1 payer req call sid = \<lparr> u_contract = uk_contract call, u_payer = payer, u_payTo = payTo req, u_token = asset req,
     u_maximum = big_int (amount req), validAfter = Some (uk_latest call), deadline = uk_deadline call, u_facilitator = uk_facilitator call,
     settlementId = sid, settlementHook = (if truthy_str (uo_hook o1) then uo_hook o1 else None), u_actual = big_int (amount req) \<rparr>"

lemma call_is_parsed:
  assumes f: "call_facts C o1 payer req call sid" and k: "codec_ok (uc_stellar C) S"
    and op: "operationInvocation operation = Some \<lparr> contract = uk_contract call, functionName = ''settle'', args = uk_args call \<rparr>"
  shows "parseTerms S operation = Inr (terms_of_call o1 payer req call sid)"
proof -
  let ?K = "uc_stellar C"
  obtain a0 a1 a2 a3 a4 a5 a6 a7 a8 a9 where as: "uk_args call = [a0, a1, a2, a3, a4, a5, a6, a7, a8, a9]"
    and m: "mk_address ?K payer = Inr a0" "mk_address ?K (payTo req) = Inr a1" "mk_address ?K (asset req) = Inr a2"
      "mk_i128 ?K (big_int (amount req)) = Inr a3" "mk_u32 ?K (Some (uk_latest call)) = Inr a4" "mk_u32 ?K (uk_deadline call) = Inr a5"
      "mk_address ?K (uk_facilitator call) = Inr a6" "mk_bytes ?K sid = Inr a7"
      "(if truthy_str (uo_hook o1) then mk_address ?K (coalesce (uo_hook o1) []) else Inr (mk_void ?K)) = Inr a8"
      "mk_i128 ?K (big_int (amount req)) = Inr a9"
    using f unfolding call_facts_def settle_args_def mk_all_Cons mk_all_Nil by blast
  have d: "sc_string S a0 = Inr payer" "sc_string S a1 = Inr (payTo req)" "sc_string S a2 = Inr (asset req)"
      "sc_bigint S a3 = Inr (big_int (amount req))" "sc_number S a4 = Inr (Some (uk_latest call))" "sc_number S a5 = Inr (uk_deadline call)"
      "sc_string S a6 = Inr (uk_facilitator call)" "sc_bytes S a7 = Inr sid" "sc_bigint S a9 = Inr (big_int (amount req))"
    using k m unfolding codec_ok_def by blast+
  have h: "sc_text S a8 = Inr (if truthy_str (uo_hook o1) then uo_hook o1 else None)"
    using k m(9) unfolding codec_ok_def by (auto simp: truthy_str_def coalesce_def split: if_splits option.splits)
  show ?thesis
    using f by (simp add: parseTerms_def op as read_terms_def d h terms_of_call_def call_facts_def Let_def sum_bind_def)
qed

text \<open>C16: The payment a client has signed is one the facilitator accepts.  When the client's checks pass, the facilitator
  decodes from the signed invocation exactly the payer, the maximum of the requirements, the ledger window and the
  hook the client chose, and every check of the terms at verification succeeds: the settlement contract and the
  facilitator of its configuration being the client's, the payer not one of the facilitator's own accounts, the hook on
  its allow list, and the request carrying the client's payment identifier.\<close>

theorem client_payment_passes_checks:
  assumes call: "upto_call_of C o1 payer version req context w = (Inr call, w')"
    and sdk: "codec_ok (uc_stellar C) S" "bytes_of_32 C"
    and op: "operationInvocation operation = Some \<lparr> contract = uk_contract call, functionName = ''settle'', args = uk_args call \<rparr>"
    and cfg: "uptoContract (config runtime) = Some (uk_contract call)" "signer_address (sponsor runtime) = uk_facilitator call"
      "payer \<notin> set (unsafeInternalAddresses runtime)"
      "truthy_str (uo_hook o1) \<Longrightarrow> the (uo_hook o1) \<in> set (allowedSettlementHooks (config runtime))"
    and request: "accepted (paymentPayload request) = req" "paymentRequirements request = req"
      "extensions (paymentPayload request) = coalesce (uk_extensions call) JUndef"
  shows "\<exists>terms. parseTerms S operation = Inr terms \<and> u_payer terms = payer \<and> u_maximum terms = big_int (amount req)
    \<and> u_actual terms = u_maximum terms \<and> validAfter terms = Some (uk_latest call) \<and> deadline terms = uk_deadline call
    \<and> settlementHook terms = (if truthy_str (uo_hook o1) then uo_hook o1 else None)
    \<and> validateTerms S terms request runtime VerifyPhase (u_actual terms) = None"
proof -
  obtain sid where f: "call_facts C o1 payer req call sid" using upto_call_facts [OF call sdk(2)] by blast
  have n: "parseInteger (amount req) = Some (big_int (amount req))" "0 < big_int (amount req)"
    using f positive_amount by (auto simp: call_facts_def)
  have hook: "truthy_str (uo_hook o1) \<Longrightarrow> uo_hook o1 \<noteq> uptoContract (config runtime) \<and> uo_hook o1 \<noteq> Some (asset req)"
    using f cfg(1) by (auto simp: call_facts_def)
  have window: "\<not> num_gt (Some (uk_latest call)) (uk_deadline call)"
    using f by (auto simp: call_facts_def num_gt_def split: option.splits)
  have ident: "paymentIdentifier (paymentPayload request) = Some i \<Longrightarrow> sid = settlementIdForPaymentIdentifier (sha256_bytes S) i" for i
    using f request(3) sdk(1) by (cases "uk_extensions call")
      (auto simp: call_facts_def codec_ok_def paymentIdentifier_def Let_def coalesce_def split: if_splits js.splits)
  have "validateTerms S (terms_of_call o1 payer req call sid) request runtime VerifyPhase (big_int (amount req)) = None"
    using n hook window ident cfg
    by (simp add: validateTerms_def terms_of_call_def request Let_def truthy_str_def split: option.splits)
  then show ?thesis using call_is_parsed [OF f sdk(1) op] by (auto simp: terms_of_call_def)
qed

section \<open>A client and a facilitator\<close>

definition demo_client_context :: js where
  "demo_client_context = JObj [(''payment-identifier'', JObj [(''info'', JObj [(''required'', JBool True)])])]"

definition demo_signed_context :: js where
  "demo_signed_context = JObj [(''payment-identifier'', JObj [(''info'', JObj [(''required'', JBool True), (''id'', JStr ''order_0123456789'')])])]"

definition demo_sdk :: "(unit, js, unit) upto_sdk" where
  "demo_sdk = \<lparr> uc_stellar = (demo_tx \<lparr> tx_source = [], operations = [] \<rparr>)\<lparr>sha256_bytes := \<lambda>s. demo_sid\<rparr>,
     uc_known_network = (\<lambda>_. True), uc_asset_address = (\<lambda>a. hd a = CHR ''C''), uc_destination_address = (\<lambda>a. hd a = CHR ''G''),
     uc_close_time = (\<lambda>_. io_return (Some 5)), uc_random_bytes = io_return demo_sid, uc_generate_id = io_return ''order_0123456789'',
     uc_valid_id = id_pattern, uc_identifier_extension = js_is_record, uc_build = (\<lambda>_ _ _ _. io_return ()), uc_simulation = (\<lambda>_. Inr ()),
     uc_needs = (\<lambda>_. []), uc_sign = (\<lambda>_ _ _. io_return ()), uc_built = (\<lambda>_. None) \<rparr>"

definition demo_client_options :: "unit upto_options" where
  "demo_client_options = \<lparr> uo_contracts = [(''stellar:testnet'', ''CUPTO'')], uo_facilitator = Some (Fixed_address ''GSPON''), uo_client = None,
     uo_hook = None, uo_seconds = None \<rparr>"

definition demo_call_args :: "js list" where
  "demo_call_args = [JStr ''GPAYER'', JStr ''GPAYEE'', JStr ''CTOKEN'', JNum 7, JNum 100, JNum 112, JStr ''GSPON'', JStr demo_sid, JNull, JNum 7]"

definition demo_client_operation :: "js operation" where
  "demo_client_operation = \<lparr> op_type = ''invokeHostFunction'', op_source = None, op_func = ContractFn ''CUPTO'' ''settle'' demo_call_args, op_auth = None \<rparr>"

definition demo_client_request :: request_envelope where
  "demo_client_request = (demo_env ''upto'')\<lparr>paymentPayload := (paymentPayload (demo_env ''upto''))\<lparr>extensions := demo_signed_context\<rparr>\<rparr>"

lemma demo_window: "client_deadline 100 60 5 = Some 112"
  using to_double_int [of 12] by (simp add: client_deadline_def)

lemma demo_maximum: "canonicalPositiveI128 ''7'' = io_return 7"
proof -
  have "positive_pattern ''7''" "big_int ''7'' = 7" by code_simp+
  then show ?thesis by (simp add: canonicalPositiveI128_def I128_MAX_def)
qed

lemma demo_checks: "check_requirements demo_sdk ''GPAYER'' 2 (demo_req ''upto'') w = (Inr 7, w)"
  by (simp add: check_requirements_def demo_req_def demo_sdk_def asNetwork_def validateAddress_def require_that_def demo_maximum io_simps coalesce_def)

lemma demo_facilitator: "resolveFacilitator demo_client_options ''stellar:testnet'' \<lparr> cl_cache = [], cl_ext = () \<rparr> =
    (Inr ''GSPON'', \<lparr> cl_cache = [(''stellar:testnet'', ''GSPON'')], cl_ext = () \<rparr>)"
  by (simp add: resolveFacilitator_def facilitator_source_def demo_client_options_def truthy_str_def coalesce_def Let_def io_simps io_get_def io_modify_def)

lemma demo_identifier: "identifierFromContext demo_sdk demo_client_context w = (Inr (demo_sid, Some demo_signed_context), w)"
proof -
  have "id_pattern ''order_0123456789''" by code_simp
  then show ?thesis
    by (simp add: identifierFromContext_def demo_client_context_def demo_signed_context_def demo_sdk_def client_settlement_id_def outside_def
        js_put_def js_is_record_def Let_def coalesce_def io_simps)
qed

lemma demo_args: "settle_args (uc_stellar demo_sdk) ''GPAYER'' (demo_req ''upto'') 7 100 (Some 112) ''GSPON'' demo_sid None = Inr demo_call_args"
  by (simp add: settle_args_def demo_sdk_def demo_tx_def demo_req_def demo_call_args_def truthy_str_def coalesce_def sum_bind_def)

lemma demo_client_call:
  "upto_call_of demo_sdk demo_client_options ''GPAYER'' 2 (demo_req ''upto'') demo_client_context \<lparr> cl_cache = [], cl_ext = () \<rparr> =
    (Inr \<lparr> uk_network = ''stellar:testnet'', uk_contract = ''CUPTO'', uk_args = demo_call_args, uk_latest = 100, uk_deadline = Some 112,
      uk_facilitator = ''GSPON'', uk_extensions = Some demo_signed_context \<rparr>, \<lparr> cl_cache = [(''stellar:testnet'', ''GSPON'')], cl_ext = () \<rparr>)"
proof -
  have r: "network (demo_req ''upto'') = ''stellar:testnet''" "asset (demo_req ''upto'') = ''CTOKEN''" "maxTimeoutSeconds (demo_req ''upto'') = 60"
    by (simp_all add: demo_req_def)
  have c: "contract_for demo_client_options ''stellar:testnet'' = Some ''CUPTO''" "uo_hook demo_client_options = None"
    by (simp_all add: contract_for_def demo_client_options_def)
  have a: "validateAddress demo_sdk ''CUPTO'' l True = io_return ()" "validateAddress demo_sdk ''GSPON'' l False = io_return ()" for l
    by (simp_all add: validateAddress_def demo_sdk_def require_that_def)
  have l: "outside (get_latest_ledger (uc_stellar demo_sdk)) w = (Inr (100, 0), w)" "outside (ledger_seconds demo_sdk demo_client_options n) w = (Inr (Some 5), w)" for n w
    by (simp_all add: outside_def demo_sdk_def demo_tx_def ledger_seconds_def demo_client_options_def io_simps)
  show ?thesis
    by (simp add: upto_call_of_def demo_checks r c a l demo_facilitator demo_identifier demo_args demo_window check_hook_def
        truthy_str_def require_that_def Let_def io_simps)
qed

theorem client_payment_passes_checks_witness:
  "\<exists>terms. parseTerms (uc_stellar demo_sdk) demo_client_operation = Inr terms \<and> u_payer terms = ''GPAYER'' \<and> u_maximum terms = 7
    \<and> u_actual terms = u_maximum terms \<and> validAfter terms = Some 100 \<and> deadline terms = Some 112 \<and> settlementHook terms = None
    \<and> validateTerms (uc_stellar demo_sdk) terms demo_client_request demo_runtime VerifyPhase (u_actual terms) = None"
proof -
  have k: "codec_ok (uc_stellar demo_sdk) (uc_stellar demo_sdk)"
    by (auto simp: codec_ok_def demo_sdk_def demo_tx_def split: option.splits)
  have b: "bytes_of_32 demo_sdk" by (simp add: bytes_of_32_def demo_sdk_def demo_sid_def)
  have op: "operationInvocation demo_client_operation = Some \<lparr> contract = ''CUPTO'', functionName = ''settle'', args = demo_call_args \<rparr>"
    by (simp add: operationInvocation_Some demo_client_operation_def)
  have amount: "big_int (amount (demo_req ''upto'')) = 7" by code_simp
  show ?thesis
    using client_payment_passes_checks [OF demo_client_call k b, of demo_client_operation demo_runtime demo_client_request] op amount
    by (simp add: demo_runtime_def demo_client_request_def demo_env_def demo_client_options_def truthy_str_def coalesce_def)
qed

end
