(* ===== verification/Sdk_Metadata.thy ===== *)
theory Sdk_Metadata
  imports JS_Objects Catalog_Extract
begin

text \<open>
  The seller's SDK, discovery metadata (packages/bazaar-sdk/src: validate.ts, compile.ts, http.ts, mcp.ts, zod.ts): a
  readable configuration is validated and compiled to the official extension.  The configuration is the JavaScript
  object the seller wrote; the helpers of @x402/extensions and zod are parameters.
\<close>

record metadata_lib =
  isValidServiceName :: "js \<Rightarrow> bool"
  sanitizeTags :: "js list \<Rightarrow> js list option"
  isValidIconUrl :: "js \<Rightarrow> bool"
  declareDiscoveryExtension :: "js \<Rightarrow> exn + js"
  js_unicode :: unicode

section \<open>Validation\<close>

definition newline_list :: "string list \<Rightarrow> string" where
  "newline_list issues = concat (map (\<lambda>s. [CHR 0x0A] @ ''- '' @ s) issues)"

definition BazaarConfigError :: "string list \<Rightarrow> exn" where
  "BazaarConfigError issues = JsError (''invalid bazaar metadata configuration:'' @ newline_list issues)"

definition QUERY_METHODS :: "string list" where
  "QUERY_METHODS = [''GET'', ''HEAD'', ''DELETE'']"

definition BODY_METHODS :: "string list" where
  "BODY_METHODS = [''POST'', ''PUT'', ''PATCH'']"

definition PARAMETER_TYPES :: "string list" where
  "PARAMETER_TYPES = [''string'', ''number'', ''integer'', ''boolean'', ''object'', ''array'']"

definition letter_or_underscore :: "char \<Rightarrow> bool" where
  "letter_or_underscore c = (let n = (of_char c :: nat) in (65 \<le> n \<and> n \<le> 90) \<or> (97 \<le> n \<and> n \<le> 122) \<or> c = CHR ''_'')"

text \<open>\<open>/^[A-Za-z_][A-Za-z0-9_.-]*$/\<close>\<close>

definition PARAMETER_NAME :: "string \<Rightarrow> bool" where
  "PARAMETER_NAME s = (case s of [] \<Rightarrow> False | c # t \<Rightarrow> letter_or_underscore c
     \<and> list_all (\<lambda>c. letter_or_underscore c \<or> is_digit c \<or> c = CHR ''.'' \<or> c = CHR ''-'') t)"

definition blank :: "unicode \<Rightarrow> string \<Rightarrow> bool" where
  "blank u s = (trim_points u (code_points s) = [])"

definition issue :: "bool \<Rightarrow> string \<Rightarrow> string list" where
  "issue bad message = (if bad then [message] else [])"

definition isCompiledInputSchema :: "js \<Rightarrow> exn + bool" where
  "isCompiledInputSchema v = (case v of JUndef \<Rightarrow> Inr False | JObj kvs \<Rightarrow> Inr (''schema'' \<in> fst ` set kvs) | JArr _ \<Rightarrow> Inr False
     | _ \<Rightarrow> Inl (JsError (''Cannot use 'in' operator to search for 'schema' in '' @ js_display v)))"

definition tags_issues :: "metadata_lib \<Rightarrow> js \<Rightarrow> string list" where
  "tags_issues L v = (case v of JUndef \<Rightarrow> []
   | JArr ts \<Rightarrow> issue (length (coalesce (sanitizeTags L ts) []) \<noteq> length ts)
       ''tags must be at most 5 unique entries of 1-32 printable ASCII characters''
   | _ \<Rightarrow> [''tags must be an array of strings''])"

definition description_issues :: "metadata_lib \<Rightarrow> js \<Rightarrow> exn + string list" where
  "description_issues L v = (case v of JUndef \<Rightarrow> Inr []
   | JStr s \<Rightarrow> Inr (issue (blank (js_unicode L) s) ''description must not be blank when provided'')
   | _ \<Rightarrow> Inl (JsError ''config.description.trim is not a function''))"

definition validateServiceMetadata :: "metadata_lib \<Rightarrow> js \<Rightarrow> exn + string list" where
  "validateServiceMetadata L cfg = (let name = js_get cfg ''serviceName''; icon = js_get cfg ''iconUrl''; mime = js_get cfg ''mimeType'' in
     sum_bind (description_issues L (js_get cfg ''description'')) (\<lambda>d. Inr (
       issue (name \<noteq> JUndef \<and> \<not> isValidServiceName L name) ''serviceName must be 1-32 printable ASCII characters''
       @ tags_issues L (js_get cfg ''tags'')
       @ issue (icon \<noteq> JUndef \<and> \<not> isValidIconUrl L icon) ''iconUrl must be an absolute http(s) URL to a public host''
       @ d
       @ issue (mime \<noteq> JUndef \<and> \<not> mime_pattern (js_display mime)) ''mimeType must look like `type/subtype`'')))"

definition enum_issues :: "string \<Rightarrow> js \<Rightarrow> js \<Rightarrow> string list" where
  "enum_issues label enum example = (if enum = JUndef then [] else case enum of
     JArr (x # xs) \<Rightarrow> issue (example \<noteq> JUndef \<and> \<not> js_includes (x # xs) example) (label @ ''.example must be one of the declared enum values'')
   | _ \<Rightarrow> [label @ ''.enum must be a non-empty array''])"

definition own_issues :: "string \<Rightarrow> js \<Rightarrow> string list" where
  "own_issues label p = (let ty = js_get p ''type''; items = js_get p ''items'' in
     issue (\<not> is_word PARAMETER_TYPES ty) (label @ ''.type must be one of '' @ join '', '' PARAMETER_TYPES)
     @ enum_issues label (js_get p ''enum'') (js_get p ''example'')
     @ issue (ty = JStr ''array'' \<and> items \<noteq> JUndef \<and> \<not> js_typeof_object items) (label @ ''.items must be a JSON Schema object''))"

function validateParameters :: "string \<Rightarrow> js \<Rightarrow> exn + string list"
  and validate_entries :: "string \<Rightarrow> (string \<times> js) list \<Rightarrow> exn + string list"
  and validateParameter :: "string \<Rightarrow> js \<Rightarrow> exn + string list" where
  "validateParameters label m = (if m = JUndef then Inr [] else
     sum_bind (isCompiledInputSchema m) (\<lambda>c. if c then Inr [] else validate_entries label (js_entries m)))"
| "validate_entries label [] = Inr []"
| "validate_entries label (e # es) = sum_bind (validateParameter (label @ ''.'' @ fst e) (snd e)) (\<lambda>a.
     sum_bind (validate_entries label es) (\<lambda>b.
     Inr (issue (\<not> PARAMETER_NAME (fst e)) (label @ ''.'' @ fst e @ '': parameter names must match ^[A-Za-z_][A-Za-z0-9_.-]*$'') @ a @ b)))"
| "validateParameter label p = (if \<not> js_truthy p \<or> \<not> js_typeof_object p then Inr [label @ '': must be a parameter object'']
     else if js_get p ''properties'' = JUndef then Inr (own_issues label p)
     else sum_bind (validateParameters label (js_get p ''properties'')) (\<lambda>a. Inr (own_issues label p @ a)))"
  by pat_completeness auto
termination
  by (relation "measure (\<lambda>x. case x of Inl (_, m) \<Rightarrow> 2 * size m + 1 | Inr (Inl (_, es)) \<Rightarrow> 2 * entries_size es | Inr (Inr (_, p)) \<Rightarrow> 2 * size p)")
    (auto simp: entries_size_le le_imp_less_Suc js_get_size_member)

fun header_type_issues :: "(string \<times> js) list \<Rightarrow> exn + string list" where
  "header_type_issues [] = Inr []"
| "header_type_issues (e # es) = sum_bind (js_prop (snd e) ''type'') (\<lambda>t. sum_bind (header_type_issues es) (\<lambda>b.
     Inr (issue (t \<noteq> JStr ''string'') (''headers.'' @ fst e @ ''.type must be string'') @ b)))"

definition method_issues :: "js \<Rightarrow> string list" where
  "method_issues cfg = (let method = js_get cfg ''method''; body = js_get cfg ''body''; bodyType = js_get cfg ''bodyType'' in
     issue (\<not> is_word QUERY_METHODS method \<and> \<not> is_word BODY_METHODS method) ''method must be one of GET, HEAD, DELETE, POST, PUT, PATCH''
     @ issue (body \<noteq> JUndef \<and> \<not> is_word BODY_METHODS method) (''body is only valid for POST, PUT and PATCH, not '' @ js_display method)
     @ issue (bodyType \<noteq> JUndef \<and> body = JUndef) ''bodyType requires body''
     @ issue (bodyType \<noteq> JUndef \<and> \<not> is_word [''json'', ''form-data'', ''text''] bodyType) ''bodyType must be json, form-data or text'')"

definition validateHttpConfig :: "metadata_lib \<Rightarrow> js \<Rightarrow> exn + unit" where
  "validateHttpConfig L cfg =
     sum_bind (validateServiceMetadata L cfg) (\<lambda>a.
     sum_bind (validateParameters ''query'' (js_get cfg ''query'')) (\<lambda>b.
     sum_bind (validateParameters ''path'' (js_get cfg ''path'')) (\<lambda>c.
     sum_bind (validateParameters ''body'' (js_get cfg ''body'')) (\<lambda>d.
     sum_bind (validateParameters ''headers'' (js_get cfg ''headers'')) (\<lambda>e.
     sum_bind (header_type_issues (js_entries (js_get cfg ''headers''))) (\<lambda>f.
     let issues = a @ method_issues cfg @ b @ c @ d @ e @ f in
     if issues \<noteq> [] then Inl (BazaarConfigError issues) else Inr ()))))))"

definition tool_issues :: "js \<Rightarrow> string list" where
  "tool_issues cfg = (let tool = js_get cfg ''toolName''; sch = js_get cfg ''inputSchema''; transport = js_get cfg ''transport'';
       example = js_get cfg ''example'' in
     issue (case tool of JStr t \<Rightarrow> t = [] | _ \<Rightarrow> True) ''toolName is required and must be a non-empty string''
     @ (if \<not> js_is_record sch then [''inputSchema is required and must be a JSON Schema object'']
        else issue (js_get sch ''type'' \<noteq> JUndef \<and> js_get sch ''type'' \<noteq> JStr ''object'')
          (''inputSchema.type must be '' @ [CHR 0x22] @ ''object'' @ [CHR 0x22] @ '' for an MCP tool''))
     @ issue (transport \<noteq> JUndef \<and> \<not> is_word [''streamable-http'', ''sse''] transport) ''transport must be streamable-http or sse''
     @ issue (example \<noteq> JUndef \<and> \<not> (js_is_record example \<or> example = JNull)) ''example must be an arguments object'')"

definition validateMcpConfig :: "metadata_lib \<Rightarrow> js \<Rightarrow> exn + unit" where
  "validateMcpConfig L cfg = sum_bind (validateServiceMetadata L cfg) (\<lambda>a. let issues = a @ tool_issues cfg in
     if issues \<noteq> [] then Inl (BazaarConfigError issues) else Inr ())"

section \<open>Compilation\<close>

text \<open>The members of one property of the schema, \<open>nested\<close> being what its properties compile to.\<close>

definition property_schema :: "js \<Rightarrow> js \<Rightarrow> js" where
  "property_schema p nested = JObj ([(''type'', js_get p ''type'')] @ opt_member ''description'' (js_get p ''description'')
     @ opt_member ''enum'' (js_get p ''enum'') @ opt_member ''format'' (js_get p ''format'') @ opt_member ''items'' (js_get p ''items'')
     @ opt_member ''default'' (js_get p ''default'') @ js_own nested)"

definition schema_object :: "(string \<times> js) list \<Rightarrow> string list \<Rightarrow> js" where
  "schema_object ps required = JObj ([(''properties'', JObj ps)] @ (if required = [] then [] else [(''required'', JArr (map JStr required))]))"

text \<open>Assigning to \<open>__proto__\<close> creates no member.\<close>

definition assigned :: "string \<Rightarrow> js \<Rightarrow> (string \<times> js) list" where
  "assigned k v = (if k = ''__proto__'' then [] else [(k, v)])"

function parametersToSchema :: "js \<Rightarrow> exn + js" and schema_entries :: "(string \<times> js) list \<Rightarrow> exn + (string \<times> js) list \<times> string list" where
  "parametersToSchema m = (if m = JUndef then Inr JUndef
     else sum_bind (schema_entries (js_entries m)) (\<lambda>(ps, required). Inr (schema_object ps required)))"
| "schema_entries [] = Inr ([], [])"
| "schema_entries (e # es) = sum_bind (js_prop (snd e) ''properties'') (\<lambda>q.
     sum_bind (if js_truthy (js_get (snd e) ''properties'') then parametersToSchema (js_get (snd e) ''properties'') else Inr JUndef) (\<lambda>nested.
     sum_bind (schema_entries es) (\<lambda>(ps, required).
     Inr (assigned (fst e) (property_schema (snd e) nested) @ ps,
       (if js_get (snd e) ''required'' = JBool True then [fst e] else []) @ required))))"
  by pat_completeness auto
termination
  by (relation "measure (\<lambda>x. case x of Inl m \<Rightarrow> 2 * size m + 1 | Inr es \<Rightarrow> 2 * entries_size es)")
    (auto simp: entries_size_le le_imp_less_Suc js_get_size_plus)

fun example_entries :: "(string \<times> js) list \<Rightarrow> exn + (string \<times> js) list" where
  "example_entries [] = Inr []"
| "example_entries (e # es) = sum_bind (js_prop (snd e) ''example'') (\<lambda>x. sum_bind (example_entries es) (\<lambda>rest.
     Inr ((if x \<noteq> JUndef then assigned (fst e) x
       else if js_first (js_get (snd e) ''enum'') \<noteq> JUndef then assigned (fst e) (js_first (js_get (snd e) ''enum'')) else []) @ rest)))"

definition parametersToExample :: "js \<Rightarrow> exn + js" where
  "parametersToExample m = (if m = JUndef then Inr JUndef else sum_bind (example_entries (js_entries m)) (\<lambda>es. Inr (JObj es)))"

definition serviceMetadata :: "js \<Rightarrow> js" where
  "serviceMetadata cfg = JObj (concat (map (\<lambda>k. opt_member k (js_get cfg k)) [''description'', ''serviceName'', ''tags'', ''iconUrl'', ''mimeType'']))"

definition applyHeaders :: "js \<Rightarrow> js \<Rightarrow> exn + js" where
  "applyHeaders ext headers = sum_bind (js_prop ext ''info'') (\<lambda>info. sum_bind (js_prop (js_get ext ''schema'') ''properties'') (\<lambda>ps.
     sum_bind (js_prop ps ''input'') (\<lambda>inputSchema. sum_bind (js_prop info ''input'') (\<lambda>input.
     sum_bind (js_prop inputSchema ''properties'') (\<lambda>ips.
     Inr (js_put ''schema'' (js_put ''properties'' (js_put ''input'' (js_put ''properties'' (js_put ''headers''
         (JObj [(''type'', JStr ''object''), (''additionalProperties'', JObj [(''type'', JStr ''string'')])]) ips) inputSchema) ps) (js_get ext ''schema''))
       (js_put ''info'' (js_put ''input'' (js_put ''headers'' headers input) info) ext)))))))"

definition default_output_schema :: "js \<Rightarrow> js" where
  "default_output_schema output = JObj [(''type'', JStr ''object''),
     (''properties'', JObj [(''type'', JObj [(''type'', JStr ''string'')]),
       (''example'', js_assign (JObj [(''type'', JStr ''object'')]) (js_get output ''schema''))]),
     (''required'', JArr [JStr ''type''])]"

definition output_untouched :: "js \<Rightarrow> bool" where
  "output_untouched output = (\<not> js_truthy output \<or>
     (let ty = js_get output ''type''; described = (js_get output ''description'' \<noteq> JUndef);
          needsType = (ty \<noteq> JUndef \<and> ty \<noteq> JStr ''json'');
          missingBlock = (js_get output ''example'' = JUndef \<and> (ty \<noteq> JUndef \<or> described \<or> js_get output ''schema'' \<noteq> JUndef)) in
      \<not> needsType \<and> \<not> described \<and> \<not> missingBlock))"

definition applyOutput :: "js \<Rightarrow> js \<Rightarrow> exn + js" where
  "applyOutput ext output = (if output_untouched output then Inr ext else
     sum_bind (js_prop ext ''info'') (\<lambda>info. sum_bind (js_prop (js_get ext ''schema'') ''properties'') (\<lambda>ps.
     sum_bind (js_prop info ''output'') (\<lambda>io. sum_bind (js_prop ps ''output'') (\<lambda>so.
     let existingInfo = or_nullish io (JObj []); existingSchema = or_nullish so (default_output_schema output);
         newInfo = js_assign (js_put ''type'' (or_nullish (or_nullish (js_get output ''type'') (js_get existingInfo ''type'')) (JStr ''json'')) existingInfo)
           (JObj (opt_member ''example'' (js_get output ''example'')));
         newSchema = js_assign existingSchema (JObj (opt_member ''description'' (js_get output ''description''))) in
     Inr (js_put ''schema'' (js_put ''properties'' (js_put ''output'' newSchema ps) (js_get ext ''schema''))
       (js_put ''info'' (js_put ''output'' newInfo info) ext)))))))"

record bazaar_metadata =
  bm_resource :: js
  bm_bazaar :: js

definition declared_output :: "js \<Rightarrow> (string \<times> js) list" where
  "declared_output output = (if js_truthy output
     then [(''output'', JObj (opt_member ''example'' (js_get output ''example'') @ opt_member ''schema'' (js_get output ''schema'')))] else [])"

text \<open>What the parameters of the input compile to: its schema and its example.\<close>

definition compile_input :: "js \<Rightarrow> exn + js \<times> js" where
  "compile_input parameters = sum_bind (isCompiledInputSchema parameters) (\<lambda>c.
     if c then Inr (js_get parameters ''schema'', js_get parameters ''example'')
     else sum_bind (parametersToSchema parameters) (\<lambda>s. sum_bind (parametersToExample parameters) (\<lambda>e. Inr (s, e))))"

definition http :: "metadata_lib \<Rightarrow> js \<Rightarrow> exn + bazaar_metadata" where
  "http L cfg = sum_bind (validateHttpConfig L cfg) (\<lambda>_.
     let isBody = (is_word BODY_METHODS (js_get cfg ''method'') \<and> js_get cfg ''body'' \<noteq> JUndef) in
     sum_bind (compile_input (if isBody then js_get cfg ''body'' else js_get cfg ''query'')) (\<lambda>(inputSchema, input).
     sum_bind (parametersToSchema (js_get cfg ''path'')) (\<lambda>pathSchema.
     sum_bind (parametersToExample (js_get cfg ''path'')) (\<lambda>pathExample.
     sum_bind (declareDiscoveryExtension L (JObj ([(''method'', js_get cfg ''method'')] @ opt_member ''input'' input @ opt_member ''inputSchema'' inputSchema
       @ opt_member ''pathParams'' pathExample @ opt_member ''pathParamsSchema'' pathSchema
       @ (if isBody then [(''bodyType'', or_nullish (js_get cfg ''bodyType'') (JStr ''json''))] else []) @ declared_output (js_get cfg ''output'')))) (\<lambda>declared.
     sum_bind (js_prop declared ''bazaar'') (\<lambda>bz.
     sum_bind (applyOutput bz (js_get cfg ''output'')) (\<lambda>ext.
     sum_bind (parametersToExample (js_get cfg ''headers'')) (\<lambda>headers.
     sum_bind (if headers \<noteq> JUndef then applyHeaders ext headers else Inr ext) (\<lambda>final.
     Inr \<lparr> bm_resource = serviceMetadata cfg, bm_bazaar = final \<rparr>)))))))))"

text \<open>\<open>const { description, ...service } = config\<close>\<close>

definition js_without :: "string \<Rightarrow> js \<Rightarrow> js" where
  "js_without k v = JObj (filter (\<lambda>e. fst e \<noteq> k) (js_own v))"

definition mcp :: "metadata_lib \<Rightarrow> js \<Rightarrow> exn + bazaar_metadata" where
  "mcp L cfg = sum_bind (validateMcpConfig L cfg) (\<lambda>_.
     sum_bind (declareDiscoveryExtension L (JObj ([(''toolName'', js_get cfg ''toolName'')] @ opt_member ''description'' (js_get cfg ''description'')
       @ opt_member ''transport'' (js_get cfg ''transport'') @ [(''inputSchema'', js_get cfg ''inputSchema'')]
       @ opt_member ''example'' (js_get cfg ''example'') @ declared_output (js_get cfg ''output'')))) (\<lambda>declared.
     sum_bind (js_prop declared ''bazaar'') (\<lambda>bz.
     sum_bind (applyOutput bz (js_get cfg ''output'')) (\<lambda>ext.
     Inr \<lparr> bm_resource = serviceMetadata (js_without ''description'' cfg), bm_bazaar = ext \<rparr>))))"

section \<open>Zod\<close>

text \<open>\<open>toJSONSchema(schema)\<close> is given; \<open>safeParse\<close> answers None or the path and message of every issue.\<close>

definition ZodAdapterError :: "string list \<Rightarrow> exn" where
  "ZodAdapterError issues = JsError (''invalid zod schema for bazaar.fromZod:'' @ newline_list issues)"

definition zod_issue :: "string list \<times> string \<Rightarrow> string" where
  "zod_issue i = (if join ''.'' (fst i) = [] then ''(root)'' else join ''.'' (fst i)) @ '': '' @ snd i"

definition fromZod :: "js \<Rightarrow> (js \<Rightarrow> (string list \<times> string) list option) \<Rightarrow> js \<Rightarrow> exn + js" where
  "fromZod jsonSchema safeParse example =
     (if js_get jsonSchema ''type'' \<noteq> JStr ''object'' \<or> js_get jsonSchema ''properties'' = JUndef
      then Inl (ZodAdapterError [''fromZod requires an object schema, e.g. z.object({ ... })''])
      else case (if example = JUndef then None else safeParse example) of
        Some issues \<Rightarrow> Inl (ZodAdapterError (map zod_issue issues))
      | None \<Rightarrow> Inr (JObj ([(''schema'', JObj ([(''properties'', js_get jsonSchema ''properties'')]
          @ (case js_get jsonSchema ''required'' of JArr (r # rs) \<Rightarrow> [(''required'', JArr (r # rs))] | _ \<Rightarrow> [])))]
          @ opt_member ''example'' example)))"

end
