(* ===== verification/Sdk_Seller.thy ===== *)
theory Sdk_Seller
  imports Sdk_Metadata
begin

text \<open>
  The seller's SDK, routes and tools (packages/bazaar-sdk/src/seller: validate.ts, publicUrl.ts, compile.ts, seller.ts):
  defaults of the seller and the overrides of a route are merged, validated and compiled to the configuration of the
  payment middleware and to discovery metadata.
\<close>

record seller_lib =
  sl_metadata :: metadata_lib
  sl_url :: "string \<Rightarrow> parsed_url option"
  sl_template :: "string \<Rightarrow> bool"

datatype pay_amount = Amount_text string | Amount_big int

record seller_defaults =
  sd_scheme :: "string option"
  sd_maxTimeoutSeconds :: "int option"
  sd_feesSponsored :: "bool option"
  sd_mimeType :: "string option"

record seller_config =
  sc_publicUrl :: string
  sc_network :: "string option"
  sc_payTo :: "string option"
  sc_assets :: "(string \<times> string) list option"
  sc_defaults :: "seller_defaults option"

record payment_input =
  pi_asset :: string
  pi_amount :: pay_amount
  pi_network :: "string option"
  pi_payTo :: "string option"
  pi_scheme :: "string option"
  pi_maxTimeoutSeconds :: "int option"
  pi_feesSponsored :: "bool option"
  pi_extra :: js

definition SellerConfigError :: "string list \<Rightarrow> exn" where
  "SellerConfigError issues = JsError (''invalid x402 seller configuration:'' @ newline_list issues)"

definition fail_on :: "string list \<Rightarrow> exn + unit" where
  "fail_on issues = (if issues \<noteq> [] then Inl (SellerConfigError issues) else Inr ())"

definition first_of :: "'a option \<Rightarrow> 'a option \<Rightarrow> 'a option" where
  "first_of a b = (case a of Some x \<Rightarrow> Some x | None \<Rightarrow> b)"

definition default_of :: "(seller_defaults \<Rightarrow> 'a option) \<Rightarrow> seller_config \<Rightarrow> 'a option" where
  "default_of f s = Option.bind (sc_defaults s) f"

section \<open>Validation\<close>

definition SCHEME_FAMILIES :: "string list" where
  "SCHEME_FAMILIES = [''exact'', ''upto'', ''auth-capture'', ''batch-settlement'']"

definition validatePath :: "seller_lib \<Rightarrow> string \<Rightarrow> string list" where
  "validatePath L path = (if path = [] \<or> hd path \<noteq> CHR ''/''
     then [''path must be a string starting with '' @ json_string ''/'' @ '', got '' @ json_string path]
     else issue (\<not> sl_template L path) (''path is not a valid route template: '' @ path))"

definition amount_text :: "pay_amount \<Rightarrow> string" where
  "amount_text a = (case a of Amount_text s \<Rightarrow> s | Amount_big n \<Rightarrow> int_to_string n)"

text \<open>\<open>/^[0-9]+$/\<close>\<close>

definition AMOUNT_PATTERN :: "string \<Rightarrow> bool" where
  "AMOUNT_PATTERN s = (s \<noteq> [] \<and> list_all is_digit s)"

definition js_blank :: "seller_lib \<Rightarrow> string \<Rightarrow> bool" where
  "js_blank L s = blank (js_unicode (sl_metadata L)) s"

definition validateAmount :: "seller_lib \<Rightarrow> pay_amount \<Rightarrow> string list" where
  "validateAmount L a = (let s = amount_text a in if js_blank L s then [''payment.amount must not be empty'']
     else issue (\<not> AMOUNT_PATTERN s) (''payment.amount must be a non-negative atomic-unit integer string, got '' @ json_string s))"

text \<open>
  \<open>assets?.[alias]\<close> looks a name up in an object: the alias may be an own member, or one of the names that every
  object inherits.
\<close>

datatype asset_value = Own_asset string | Inherited_member string

definition OBJECT_PROTOTYPE :: "string list" where
  "OBJECT_PROTOTYPE = [''constructor'', ''__defineGetter__'', ''__defineSetter__'', ''hasOwnProperty'', ''__lookupGetter__'',
     ''__lookupSetter__'', ''isPrototypeOf'', ''propertyIsEnumerable'', ''toString'', ''valueOf'', ''__proto__'', ''toLocaleString'']"

definition object_member :: "(string \<times> string) list \<Rightarrow> string \<Rightarrow> asset_value option" where
  "object_member t k = (case map_of t k of Some a \<Rightarrow> Some (Own_asset a)
     | None \<Rightarrow> if k \<in> set OBJECT_PROTOTYPE then Some (Inherited_member k) else None)"

definition resolveAsset :: "string \<Rightarrow> (string \<times> string) list option \<Rightarrow> asset_value option \<times> string list" where
  "resolveAsset alias assets = (if alias = [] then (None, [''payment.asset is required''])
     else case Option.bind assets (\<lambda>t. object_member t alias) of
       None \<Rightarrow> (None, [''payment.asset '' @ json_string alias @ '' is not declared in createX402Seller({ assets }); known asset aliases must be listed there, raw asset addresses are not accepted''])
     | Some a \<Rightarrow> (Some a, []))"

definition validateScheme :: "string \<Rightarrow> string list" where
  "validateScheme s = issue (s \<notin> set SCHEME_FAMILIES)
     (''payment.scheme '' @ json_string s @ '' is not a recognized x402 scheme family ('' @ join '', '' SCHEME_FAMILIES @ '')'')"

definition namespace_char :: "char \<Rightarrow> bool" where
  "namespace_char c = (let n = (of_char c :: nat) in (97 \<le> n \<and> n \<le> 122) \<or> is_digit c \<or> c = CHR ''-'')"

text \<open>\<open>/^[a-z0-9-]+:[A-Za-z0-9_-]+$/\<close>\<close>

definition NETWORK_PATTERN :: "string \<Rightarrow> bool" where
  "NETWORK_PATTERN s = (case js_split (CHR '':'') s of
     [a, b] \<Rightarrow> a \<noteq> [] \<and> list_all namespace_char a \<and> b \<noteq> [] \<and> list_all (\<lambda>c. letter_or_underscore c \<or> is_digit c \<or> c = CHR ''-'') b
   | _ \<Rightarrow> False)"

definition validateNetwork :: "seller_lib \<Rightarrow> string option \<Rightarrow> string list" where
  "validateNetwork L nw = (case nw of None \<Rightarrow> [''network is required: set createX402Seller({ network }) or payment.network'']
   | Some s \<Rightarrow> if js_blank L s then [''network is required: set createX402Seller({ network }) or payment.network'']
       else issue (\<not> NETWORK_PATTERN s) (''network must be a CAIP-2 identifier like '' @ json_string ''stellar:testnet'' @ '', got '' @ json_string s))"

definition validatePayTo :: "seller_lib \<Rightarrow> string option \<Rightarrow> string list" where
  "validatePayTo L pt = issue (case pt of None \<Rightarrow> True | Some s \<Rightarrow> js_blank L s)
     ''payTo is required: set createX402Seller({ payTo }) or payment.payTo''"

text \<open>\<open>raw.trim().replace(/\/+$/, "")\<close>\<close>

definition trimmed_origin :: "seller_lib \<Rightarrow> string \<Rightarrow> string" where
  "trimmed_origin L s = strip_slashes (concat (trim_points (js_unicode (sl_metadata L)) (code_points s)))"

text \<open>The checks both callers make of a parsed origin.\<close>

definition origin_of :: "seller_lib \<Rightarrow> string \<Rightarrow> string \<Rightarrow> string + string" where
  "origin_of L raw label = (case sl_url L (trimmed_origin L raw) of
     None \<Rightarrow> Inl (label @ '' must be an absolute http(s) URL, got '' @ json_string raw)
   | Some u \<Rightarrow> if pu_protocol u \<noteq> ''http:'' \<and> pu_protocol u \<noteq> ''https:''
         then Inl (label @ '' must use http or https, got '' @ json_string (pu_protocol u))
       else if pu_username u \<noteq> [] \<or> pu_password u \<noteq> [] then Inl (label @ '' must not contain credentials'')
       else if pu_pathname u \<noteq> ''/'' \<and> pu_pathname u \<noteq> [] then Inl (label @ '' must be an origin with no path, got '' @ json_string raw)
       else Inr (pu_protocol u @ ''//'' @ pu_host u))"

definition validatePublicUrl :: "seller_lib \<Rightarrow> string \<Rightarrow> string + string" where
  "validatePublicUrl L s = (if js_blank L s then Inl ''publicUrl must not be empty'' else origin_of L s ''publicUrl'')"

section \<open>The public URL\<close>

definition normalizeOrigin :: "seller_lib \<Rightarrow> string \<Rightarrow> string \<Rightarrow> string + string" where
  "normalizeOrigin L raw label = (if trimmed_origin L raw = [] then Inl (label @ '' must not be blank'') else origin_of L raw label)"

definition or_config_error :: "string + string \<Rightarrow> exn + string" where
  "or_config_error x = (case x of Inl i \<Rightarrow> Inl (SellerConfigError [i]) | Inr o1 \<Rightarrow> Inr o1)"

record url_env =
  SELLER_PUBLIC_URL :: "string option"
  RAILWAY_PUBLIC_DOMAIN :: "string option"

definition given_text :: "seller_lib \<Rightarrow> string option \<Rightarrow> bool" where
  "given_text L s = (case s of None \<Rightarrow> False | Some t \<Rightarrow> \<not> js_blank L t)"

definition resolveSellerPublicUrl :: "seller_lib \<Rightarrow> url_env \<Rightarrow> string option \<Rightarrow> exn + string" where
  "resolveSellerPublicUrl L env localUrl = (
     if given_text L (SELLER_PUBLIC_URL env) then
       sum_bind (or_config_error (normalizeOrigin L (the (SELLER_PUBLIC_URL env)) ''SELLER_PUBLIC_URL'')) (\<lambda>o1.
       if has_prefix ''http://'' o1 then Inl (SellerConfigError [''SELLER_PUBLIC_URL must be https in production, got '' @ json_string o1
         @ ''; pass localDevelopmentUrl for local development instead'']) else Inr o1)
     else if given_text L (RAILWAY_PUBLIC_DOMAIN env) then
       or_config_error (normalizeOrigin L (''https://'' @ concat (trim_points (js_unicode (sl_metadata L)) (code_points (the (RAILWAY_PUBLIC_DOMAIN env)))))
         ''RAILWAY_PUBLIC_DOMAIN'')
     else case localUrl of Some u \<Rightarrow> or_config_error (normalizeOrigin L u ''localDevelopmentUrl'')
     | None \<Rightarrow> Inl (SellerConfigError [''no seller public URL configured: set SELLER_PUBLIC_URL, deploy on Railway (RAILWAY_PUBLIC_DOMAIN is set automatically), or pass localDevelopmentUrl explicitly'']))"

section \<open>Payments\<close>

record resolved_payment =
  rp_scheme :: string
  rp_network :: string
  rp_payTo :: string
  rp_asset :: asset_value
  rp_amount :: string
  rp_maxTimeoutSeconds :: "int option"
  rp_extra :: js

text \<open>The issues, those found before included, and the payment when there are none.\<close>

definition resolvePayment :: "seller_lib \<Rightarrow> seller_config \<Rightarrow> payment_input \<Rightarrow> string list \<Rightarrow> resolved_payment option \<times> string list" where
  "resolvePayment L seller p before = (let
     sch = coalesce (first_of (pi_scheme p) (default_of sd_scheme seller)) ''exact'';
     nw = first_of (pi_network p) (sc_network seller); pt = first_of (pi_payTo p) (sc_payTo seller) in
     case resolveAsset (pi_asset p) (sc_assets seller) of (ast, asset_issues) \<Rightarrow> let
     issues = before @ validateScheme sch @ validateNetwork L nw @ validatePayTo L pt @ asset_issues @ validateAmount L (pi_amount p) in
     if issues \<noteq> [] then (None, issues) else
     (Some \<lparr> rp_scheme = sch, rp_network = the nw, rp_payTo = the pt, rp_asset = the ast, rp_amount = amount_text (pi_amount p),
        rp_maxTimeoutSeconds = first_of (pi_maxTimeoutSeconds p) (default_of sd_maxTimeoutSeconds seller),
        rp_extra = js_assign (JObj (case first_of (pi_feesSponsored p) (default_of sd_feesSponsored seller) of
            Some b \<Rightarrow> [(''areFeesSponsored'', JBool b)] | None \<Rightarrow> [])) (pi_extra p) \<rparr>, []))"

definition opt_num :: "string \<Rightarrow> int option \<Rightarrow> (string \<times> js) list" where
  "opt_num k n = (case n of Some i \<Rightarrow> [(k, JNum i)] | None \<Rightarrow> [])"

text \<open>
  An asset as data: an inherited member is a function, which is no data and is left out like undefined when it is
  written, or for \<open>__proto__\<close> the prototype, an object without members of its own to show.
\<close>

definition asset_js :: "asset_value \<Rightarrow> js" where
  "asset_js a = (case a of Own_asset s \<Rightarrow> JStr s | Inherited_member k \<Rightarrow> if k = ''__proto__'' then JObj [] else JUndef)"

definition buildAccepts :: "resolved_payment \<Rightarrow> js" where
  "buildAccepts r = JObj ([(''scheme'', JStr (rp_scheme r)), (''payTo'', JStr (rp_payTo r)),
     (''price'', JObj [(''asset'', asset_js (rp_asset r)), (''amount'', JStr (rp_amount r))]), (''network'', JStr (rp_network r))]
     @ opt_num ''maxTimeoutSeconds'' (rp_maxTimeoutSeconds r)
     @ (if js_own (rp_extra r) \<noteq> [] then [(''extra'', rp_extra r)] else []))"

section \<open>Routes and tools\<close>

record http_route =
  hr_method :: string
  hr_path :: string
  hr_routeKey :: string
  hr_resourceUrl :: string
  hr_accepts :: js
  hr_config :: js
  hr_metadata :: bazaar_metadata

record mcp_option =
  mo_scheme :: string
  mo_network :: string
  mo_asset :: asset_value
  mo_amount :: string
  mo_payTo :: string
  mo_maxTimeoutSeconds :: int
  mo_extra :: js

record mcp_tool =
  mt_toolName :: string
  mt_path :: string
  mt_resourceUrl :: string
  mt_option :: mcp_option
  mt_metadata :: bazaar_metadata

definition mime_of :: "seller_config \<Rightarrow> js \<Rightarrow> js" where
  "mime_of seller d = or_nullish (js_get d ''mimeType'') (case default_of sd_mimeType seller of Some m \<Rightarrow> JStr m | None \<Rightarrow> JUndef)"

definition copied :: "js \<Rightarrow> string list \<Rightarrow> (string \<times> js) list" where
  "copied v ks = concat (map (\<lambda>k. opt_member k (js_get v k)) ks)"

definition service_members :: "seller_config \<Rightarrow> js \<Rightarrow> (string \<times> js) list" where
  "service_members seller d = opt_member ''serviceName'' (js_get d ''name'') @ copied d [''tags'', ''iconUrl''] @ opt_member ''mimeType'' (mime_of seller d)"

definition route_metadata_config :: "seller_config \<Rightarrow> string \<Rightarrow> js \<Rightarrow> js" where
  "route_metadata_config seller method d = JObj ([(''method'', JStr method)] @ copied d [''description''] @ service_members seller d
     @ copied d [''query'', ''path'', ''body'', ''bodyType'', ''headers'', ''output''])"

definition route_config :: "resolved_payment \<Rightarrow> string \<Rightarrow> bazaar_metadata \<Rightarrow> js" where
  "route_config r url m = JObj ([(''accepts'', buildAccepts r), (''resource'', JStr url)]
     @ copied (bm_resource m) [''description'', ''serviceName'', ''tags'', ''iconUrl'', ''mimeType'']
     @ [(''extensions'', JObj [(''bazaar'', bm_bazaar m)])])"

definition compileHttpRoute :: "seller_lib \<Rightarrow> seller_config \<Rightarrow> string \<Rightarrow> string \<Rightarrow> payment_input \<Rightarrow> js \<Rightarrow> exn + http_route" where
  "compileHttpRoute L seller method path p d = (case resolvePayment L seller p (validatePath L path) of (r, issues) \<Rightarrow>
     sum_bind (fail_on issues) (\<lambda>_. sum_bind (http (sl_metadata L) (route_metadata_config seller method d)) (\<lambda>m.
     let url = sc_publicUrl seller @ path; key = method @ '' '' @ path in
     Inr \<lparr> hr_method = method, hr_path = path, hr_routeKey = key, hr_resourceUrl = url, hr_accepts = buildAccepts (the r),
       hr_config = JObj [(key, route_config (the r) url m)], hr_metadata = m \<rparr>)))"

definition tool_metadata_config :: "seller_config \<Rightarrow> string \<Rightarrow> js \<Rightarrow> js" where
  "tool_metadata_config seller tool d = JObj ([(''toolName'', JStr tool)] @ copied d [''description'', ''transport''] @ service_members seller d
     @ [(''inputSchema'', js_get d ''inputSchema'')] @ copied d [''example'', ''output''])"

definition compileMcpTool :: "seller_lib \<Rightarrow> seller_config \<Rightarrow> string \<Rightarrow> string \<Rightarrow> payment_input \<Rightarrow> js \<Rightarrow> exn + mcp_tool" where
  "compileMcpTool L seller tool path p d = (case resolvePayment L seller p (validatePath L path) of (r, before) \<Rightarrow>
     let issues = before @ issue (case r of Some x \<Rightarrow> rp_maxTimeoutSeconds x = None | None \<Rightarrow> False)
       ''maxTimeoutSeconds is required for an MCP tool: set createX402Seller({ defaults: { maxTimeoutSeconds } }) or payment.maxTimeoutSeconds'' in
     sum_bind (fail_on issues) (\<lambda>_. sum_bind (mcp (sl_metadata L) (tool_metadata_config seller tool d)) (\<lambda>m.
     Inr \<lparr> mt_toolName = tool, mt_path = path, mt_resourceUrl = sc_publicUrl seller @ path,
       mt_option = \<lparr> mo_scheme = rp_scheme (the r), mo_network = rp_network (the r), mo_asset = rp_asset (the r), mo_amount = rp_amount (the r),
         mo_payTo = rp_payTo (the r), mo_maxTimeoutSeconds = the (rp_maxTimeoutSeconds (the r)), mo_extra = rp_extra (the r) \<rparr>, mt_metadata = m \<rparr>)))"

section \<open>The seller\<close>

record x402_seller =
  xs_config :: seller_config
  routeKeys :: "string list"
  toolKeys :: "string list"

definition asset_issue :: "seller_lib \<Rightarrow> string \<times> string \<Rightarrow> string list" where
  "asset_issue L e = issue (js_blank L (snd e)) (''assets.'' @ fst e @ '' must be a non-empty asset address'')"

definition validateSellerConfig :: "seller_lib \<Rightarrow> seller_config \<Rightarrow> exn + string" where
  "validateSellerConfig L c = (let url = validatePublicUrl L (sc_publicUrl c); issues = (case url of Inl i \<Rightarrow> [i] | Inr _ \<Rightarrow> [])
       @ (if sc_network c \<noteq> None then validateNetwork L (sc_network c) else [])
       @ concat (map (asset_issue L) (coalesce (sc_assets c) [])) in
     sum_bind (fail_on issues) (\<lambda>_. case url of Inr o1 \<Rightarrow> Inr o1 | Inl i \<Rightarrow> Inl (SellerConfigError [i])))"

definition createX402Seller :: "seller_lib \<Rightarrow> seller_config \<Rightarrow> exn + x402_seller" where
  "createX402Seller L c = sum_bind (validateSellerConfig L c) (\<lambda>o1.
     Inr \<lparr> xs_config = c\<lparr>sc_publicUrl := o1\<rparr>, routeKeys = [], toolKeys = [] \<rparr>)"

definition defineRoute :: "seller_lib \<Rightarrow> string \<Rightarrow> string \<Rightarrow> payment_input \<Rightarrow> js \<Rightarrow> (x402_seller, http_route) io" where
  "defineRoute L method path p d s = (case compileHttpRoute L (xs_config s) method path p d of
     Inl e \<Rightarrow> (Inl e, s)
   | Inr r \<Rightarrow> if hr_routeKey r \<in> set (routeKeys s)
       then (Inl (SellerConfigError [''route '' @ json_string (hr_routeKey r) @ '' is already declared on this seller'']), s)
       else (Inr r, s\<lparr>routeKeys := hr_routeKey r # routeKeys s\<rparr>))"

definition defineTool :: "seller_lib \<Rightarrow> string \<Rightarrow> string \<Rightarrow> payment_input \<Rightarrow> js \<Rightarrow> (x402_seller, mcp_tool) io" where
  "defineTool L tool path p d s = (case compileMcpTool L (xs_config s) tool path p d of
     Inl e \<Rightarrow> (Inl e, s)
   | Inr t \<Rightarrow> let key = mt_path t @ ''|'' @ tool in if key \<in> set (toolKeys s)
       then (Inl (SellerConfigError [''tool '' @ json_string tool @ '' is already declared at '' @ json_string (mt_path t)]), s)
       else (Inr t, s\<lparr>toolKeys := key # toolKeys s\<rparr>))"

text \<open>The seven operations of a seller.\<close>

datatype seller_call = Get string payment_input js | Post string payment_input js | Put string payment_input js | Patch string payment_input js
  | Delete string payment_input js | Head string payment_input js | Tool string string payment_input js

datatype seller_answer = Route http_route | Mcp_tool mcp_tool

definition seller_step :: "seller_lib \<Rightarrow> seller_call \<Rightarrow> (x402_seller, seller_answer) io" where
  "seller_step L call = (case call of
     Get path p d \<Rightarrow> io_bind (defineRoute L ''GET'' path p d) (\<lambda>r. io_return (Route r))
   | Post path p d \<Rightarrow> io_bind (defineRoute L ''POST'' path p d) (\<lambda>r. io_return (Route r))
   | Put path p d \<Rightarrow> io_bind (defineRoute L ''PUT'' path p d) (\<lambda>r. io_return (Route r))
   | Patch path p d \<Rightarrow> io_bind (defineRoute L ''PATCH'' path p d) (\<lambda>r. io_return (Route r))
   | Delete path p d \<Rightarrow> io_bind (defineRoute L ''DELETE'' path p d) (\<lambda>r. io_return (Route r))
   | Head path p d \<Rightarrow> io_bind (defineRoute L ''HEAD'' path p d) (\<lambda>r. io_return (Route r))
   | Tool tool path p d \<Rightarrow> io_bind (defineTool L tool path p d) (\<lambda>t. io_return (Mcp_tool t)))"

text \<open>What a program that goes on after a refused call has been given.\<close>

fun seller_run :: "seller_lib \<Rightarrow> seller_call list \<Rightarrow> x402_seller \<Rightarrow> seller_answer list \<times> x402_seller" where
  "seller_run L [] s = ([], s)"
| "seller_run L (c # cs) s = (case seller_step L c s of (r, s1) \<Rightarrow> (case seller_run L cs s1 of (as, s2) \<Rightarrow>
     ((case r of Inr a \<Rightarrow> a # as | Inl _ \<Rightarrow> as), s2)))"

end
