(* ===== verification/Sdk_Properties.thy ===== *)
theory Sdk_Properties
  imports Sdk_Seller Mechanism_Properties
begin

text \<open>
  The seller's SDK: the routes and tools of a seller carry exactly the declared terms, which amounts the facilitator
  can be paid, what an example conforms to, and a parameter name that hides the others.
\<close>

section \<open>Payments\<close>

text \<open>The member \<open>k\<close> of the extra data of a route: that of the route's own extra data, else the fee sponsorship of the
  route or of the seller's defaults.\<close>

definition declared_extra :: "seller_config \<Rightarrow> payment_input \<Rightarrow> string \<Rightarrow> js" where
  "declared_extra c p k = (case map_of (rev (js_own (pi_extra p))) k of Some v \<Rightarrow> v
     | None \<Rightarrow> if k = ''areFeesSponsored'' then (case first_of (pi_feesSponsored p) (default_of sd_feesSponsored c) of
           Some b \<Rightarrow> JBool b | None \<Rightarrow> JUndef) else JUndef)"

text \<open>The terms \<open>x\<close> are the declared ones, every override before its default, and well formed.\<close>

definition declared_terms :: "seller_lib \<Rightarrow> seller_config \<Rightarrow> payment_input \<Rightarrow> resolved_payment \<Rightarrow> bool" where
  "declared_terms L c p x = (
     Some (rp_network x) = first_of (pi_network p) (sc_network c) \<and> NETWORK_PATTERN (rp_network x)
     \<and> Some (rp_payTo x) = first_of (pi_payTo p) (sc_payTo c) \<and> \<not> js_blank L (rp_payTo x)
     \<and> (\<exists>t. sc_assets c = Some t \<and> (case map_of t (pi_asset p) of Some a \<Rightarrow> rp_asset x = Own_asset a
          | None \<Rightarrow> pi_asset p \<in> set OBJECT_PROTOTYPE \<and> rp_asset x = Inherited_member (pi_asset p)))
     \<and> rp_amount x = amount_text (pi_amount p) \<and> AMOUNT_PATTERN (rp_amount x)
     \<and> rp_scheme x = coalesce (first_of (pi_scheme p) (default_of sd_scheme c)) ''exact'' \<and> rp_scheme x \<in> set SCHEME_FAMILIES
     \<and> rp_maxTimeoutSeconds x = first_of (pi_maxTimeoutSeconds p) (default_of sd_maxTimeoutSeconds c)
     \<and> (\<forall>k. js_get (rp_extra x) k = declared_extra c p k))"

lemma issue_Nil [simp]: "issue bad m = [] \<longleftrightarrow> \<not> bad"
  by (simp add: issue_def)

lemma fail_on_Inr [simp]: "fail_on issues = Inr u \<longleftrightarrow> issues = []"
  by (auto simp: fail_on_def)

lemma js_get_assign:
  assumes "js_is_record v"
  shows "js_get (js_assign v w) k = (case map_of (rev (js_own w)) k of Some x \<Rightarrow> x | None \<Rightarrow> js_get v k)"
proof -
  have "js_is_record (foldl (\<lambda>o1 e. js_put (fst e) (snd e) o1) v kvs)
      \<and> js_get (foldl (\<lambda>o1 e. js_put (fst e) (snd e) o1) v kvs) k = (case map_of (rev kvs) k of Some x \<Rightarrow> x | None \<Rightarrow> js_get v k)" for kvs
    using assms by (induction kvs rule: rev_induct) auto
  then show ?thesis by (simp add: js_assign_def)
qed

text \<open>The requirements that the payment middleware reads off a compiled route carry the terms \<open>x\<close>.\<close>

definition accepts_terms :: "js \<Rightarrow> resolved_payment \<Rightarrow> bool" where
  "accepts_terms acc x = (js_get acc ''scheme'' = JStr (rp_scheme x) \<and> js_get acc ''network'' = JStr (rp_network x)
     \<and> js_get acc ''payTo'' = JStr (rp_payTo x) \<and> js_get (js_get acc ''price'') ''asset'' = asset_js (rp_asset x)
     \<and> js_get (js_get acc ''price'') ''amount'' = JStr (rp_amount x)
     \<and> js_get acc ''maxTimeoutSeconds'' = (case rp_maxTimeoutSeconds x of Some n \<Rightarrow> JNum n | None \<Rightarrow> JUndef)
     \<and> (\<forall>k. js_get (js_get acc ''extra'') k = js_get (rp_extra x) k))"

lemma js_own_empty: "js_own v = [] \<Longrightarrow> js_get v k = JUndef"
  by (cases v) (simp_all add: js_own_def js_get_def)

lemma buildAccepts_terms: "accepts_terms (buildAccepts x) x"
  by (cases "rp_maxTimeoutSeconds x") (auto simp: accepts_terms_def buildAccepts_def opt_num_def js_own_empty)

text \<open>The configuration that is spread into the middleware guards the one route key with these requirements and names
  the resource.\<close>

definition route_guarded :: "http_route \<Rightarrow> bool" where
  "route_guarded r = (\<exists>cfg. hr_config r = JObj [(hr_routeKey r, cfg)] \<and> js_get cfg ''accepts'' = hr_accepts r
     \<and> js_get cfg ''resource'' = JStr (hr_resourceUrl r))"

lemma resolveAsset_Nil:
  assumes "resolveAsset alias assets = (a, [])"
  shows "\<exists>t. assets = Some t \<and> (case map_of t alias of Some s \<Rightarrow> a = Some (Own_asset s)
    | None \<Rightarrow> alias \<in> set OBJECT_PROTOTYPE \<and> a = Some (Inherited_member alias))"
  using assms by (cases assets) (auto simp: resolveAsset_def object_member_def split: if_splits option.splits)

lemma resolvePayment_terms:
  assumes "resolvePayment L c p before = (r, [])"
  shows "before = [] \<and> (\<exists>x. r = Some x \<and> declared_terms L c p x)"
proof -
  obtain ast ai where a: "resolveAsset (pi_asset p) (sc_assets c) = (ast, ai)" by fastforce
  note d = assms [unfolded resolvePayment_def Let_def a prod.case]
  have i: "before = []" "ai = []" "validateScheme (coalesce (first_of (pi_scheme p) (default_of sd_scheme c)) ''exact'') = []"
      "validateNetwork L (first_of (pi_network p) (sc_network c)) = []" "validatePayTo L (first_of (pi_payTo p) (sc_payTo c)) = []"
      "validateAmount L (pi_amount p) = []"
    using d by (auto split: if_splits)
  obtain t where t: "sc_assets c = Some t" "case map_of t (pi_asset p) of Some s \<Rightarrow> ast = Some (Own_asset s)
      | None \<Rightarrow> pi_asset p \<in> set OBJECT_PROTOTYPE \<and> ast = Some (Inherited_member (pi_asset p))"
    using resolveAsset_Nil a i(2) by metis
  then have "\<exists>t. sc_assets c = Some t \<and> (case map_of t (pi_asset p) of Some s \<Rightarrow> the ast = Own_asset s
      | None \<Rightarrow> pi_asset p \<in> set OBJECT_PROTOTYPE \<and> the ast = Inherited_member (pi_asset p))"
    by (intro exI [of _ t]) (auto split: option.splits)
  moreover note i(3-6)
  ultimately show ?thesis using d i(1,2)
    by (auto simp: declared_terms_def declared_extra_def js_get_assign js_is_record_def validateScheme_def validateNetwork_def validatePayTo_def validateAmount_def
        Let_def split: if_splits option.splits)
qed

lemma resolvePayment_None: "resolvePayment L c p before = (None, issues) \<Longrightarrow> issues \<noteq> []"
  by (auto simp: resolvePayment_def Let_def split: if_splits prod.splits)

lemma validatePath_Nil: "validatePath L path = [] \<Longrightarrow> path \<noteq> [] \<and> hd path = CHR ''/'' \<and> sl_template L path"
  by (auto simp: validatePath_def split: if_splits)

lemma compileHttpRoute_Inr:
  assumes "compileHttpRoute L c method path p d = Inr r"
  shows "hr_routeKey r = method @ '' '' @ path \<and> hr_resourceUrl r = sc_publicUrl c @ path \<and> path \<noteq> [] \<and> hd path = CHR ''/''
    \<and> route_guarded r \<and> (\<exists>x. declared_terms L c p x \<and> hr_accepts r = buildAccepts x)"
proof -
  obtain x0 issues where e: "resolvePayment L c p (validatePath L path) = (x0, issues)" by fastforce
  with assms have i: "issues = []" by (auto simp: compileHttpRoute_def elim!: sum_bind_InrE)
  obtain x where x: "validatePath L path = []" "x0 = Some x" "declared_terms L c p x"
    using resolvePayment_terms e i by blast
  have e2: "resolvePayment L c p [] = (Some x, [])" using e i x by simp
  show ?thesis using assms x(3) validatePath_Nil [OF x(1)] by (auto simp: compileHttpRoute_def x(1) e2 route_guarded_def route_config_def Let_def elim!: sum_bind_InrE)
qed

lemma compileMcpTool_Inr:
  assumes "compileMcpTool L c tool path p d = Inr t"
  shows "mt_toolName t = tool \<and> mt_path t = path \<and> mt_resourceUrl t = sc_publicUrl c @ path \<and> path \<noteq> [] \<and> hd path = CHR ''/''
    \<and> (\<exists>x. declared_terms L c p x \<and> rp_maxTimeoutSeconds x = Some (mo_maxTimeoutSeconds (mt_option t)) \<and> mo_scheme (mt_option t) = rp_scheme x
      \<and> mo_network (mt_option t) = rp_network x \<and> mo_asset (mt_option t) = rp_asset x \<and> mo_amount (mt_option t) = rp_amount x
      \<and> mo_payTo (mt_option t) = rp_payTo x \<and> mo_extra (mt_option t) = rp_extra x)"
proof -
  obtain x0 before where e: "resolvePayment L c p (validatePath L path) = (x0, before)" by fastforce
  with assms have i: "before = []" and n: "(case x0 of Some x \<Rightarrow> rp_maxTimeoutSeconds x \<noteq> None | None \<Rightarrow> True)"
    by (auto simp: compileMcpTool_def Let_def elim!: sum_bind_InrE split: option.splits)
  obtain x where x: "validatePath L path = []" "x0 = Some x" "declared_terms L c p x"
    using resolvePayment_terms e i by blast
  have e2: "resolvePayment L c p [] = (Some x, [])" using e i x by simp
  show ?thesis using assms x(3) n x(2) validatePath_Nil [OF x(1)] by (auto simp: compileMcpTool_def x(1) e2 Let_def elim!: sum_bind_InrE)
qed

section \<open>The registry\<close>

text \<open>What an answer of the seller promises.\<close>

definition call_payment :: "seller_call \<Rightarrow> payment_input" where
  "call_payment call = (case call of Get _ p _ \<Rightarrow> p | Post _ p _ \<Rightarrow> p | Put _ p _ \<Rightarrow> p | Patch _ p _ \<Rightarrow> p | Delete _ p _ \<Rightarrow> p
     | Head _ p _ \<Rightarrow> p | Tool _ _ p _ \<Rightarrow> p)"

definition call_path :: "seller_call \<Rightarrow> string" where
  "call_path call = (case call of Get path _ _ \<Rightarrow> path | Post path _ _ \<Rightarrow> path | Put path _ _ \<Rightarrow> path | Patch path _ _ \<Rightarrow> path
     | Delete path _ _ \<Rightarrow> path | Head path _ _ \<Rightarrow> path | Tool _ path _ _ \<Rightarrow> path)"

definition answer_url :: "seller_answer \<Rightarrow> string" where
  "answer_url a = (case a of Route r \<Rightarrow> hr_resourceUrl r | Mcp_tool t \<Rightarrow> mt_resourceUrl t)"

text \<open>The key an answer is registered under, and the one its call asks for.\<close>

definition answer_key :: "seller_answer \<Rightarrow> string" where
  "answer_key a = (case a of Route r \<Rightarrow> hr_routeKey r | Mcp_tool t \<Rightarrow> mt_path t @ ''|'' @ mt_toolName t)"

definition call_key :: "seller_call \<Rightarrow> string" where
  "call_key call = (case call of Get path _ _ \<Rightarrow> ''GET '' @ path | Post path _ _ \<Rightarrow> ''POST '' @ path | Put path _ _ \<Rightarrow> ''PUT '' @ path
     | Patch path _ _ \<Rightarrow> ''PATCH '' @ path | Delete path _ _ \<Rightarrow> ''DELETE '' @ path | Head path _ _ \<Rightarrow> ''HEAD '' @ path
     | Tool tool path _ _ \<Rightarrow> path @ ''|'' @ tool)"

definition answer_accepts :: "seller_answer \<Rightarrow> resolved_payment \<Rightarrow> bool" where
  "answer_accepts a x = (case a of Route r \<Rightarrow> accepts_terms (hr_accepts r) x \<and> route_guarded r
   | Mcp_tool t \<Rightarrow> mt_option t = \<lparr> mo_scheme = rp_scheme x, mo_network = rp_network x, mo_asset = rp_asset x, mo_amount = rp_amount x,
       mo_payTo = rp_payTo x, mo_maxTimeoutSeconds = the (rp_maxTimeoutSeconds x), mo_extra = rp_extra x \<rparr> \<and> rp_maxTimeoutSeconds x \<noteq> None)"

definition answer_ok :: "seller_lib \<Rightarrow> seller_config \<Rightarrow> seller_call \<Rightarrow> seller_answer \<Rightarrow> bool" where
  "answer_ok L c call a = (answer_url a = sc_publicUrl c @ call_path call \<and> hd (call_path call) = CHR ''/'' \<and> answer_key a = call_key call
     \<and> (\<exists>x. declared_terms L c (call_payment call) x \<and> answer_accepts a x))"

definition route_keys_of :: "seller_answer list \<Rightarrow> string list" where
  "route_keys_of as = concat (map (\<lambda>a. case a of Route r \<Rightarrow> [hr_routeKey r] | Mcp_tool _ \<Rightarrow> []) as)"

definition tool_keys_of :: "seller_answer list \<Rightarrow> string list" where
  "tool_keys_of as = concat (map (\<lambda>a. case a of Route r \<Rightarrow> [] | Mcp_tool t \<Rightarrow> [mt_path t @ ''|'' @ mt_toolName t]) as)"

lemma keys_of_Nil [simp]: "route_keys_of [] = []" "tool_keys_of [] = []"
  by (simp_all add: route_keys_of_def tool_keys_of_def)

lemma keys_of_Cons:
  "route_keys_of (a # as) = route_keys_of [a] @ route_keys_of as" "tool_keys_of (a # as) = tool_keys_of [a] @ tool_keys_of as"
  by (simp_all add: route_keys_of_def tool_keys_of_def)

lemma defineRoute_cases:
  assumes "defineRoute L method path p d s = (r, s')"
  shows "xs_config s' = xs_config s \<and> (case r of Inl e \<Rightarrow> s' = s
    | Inr h \<Rightarrow> compileHttpRoute L (xs_config s) method path p d = Inr h \<and> hr_routeKey h \<notin> set (routeKeys s)
        \<and> s' = s\<lparr>routeKeys := hr_routeKey h # routeKeys s\<rparr>)"
  using assms by (auto simp: defineRoute_def split: sum.splits if_splits)

lemma defineTool_cases:
  assumes "defineTool L tool path p d s = (r, s')"
  shows "xs_config s' = xs_config s \<and> (case r of Inl e \<Rightarrow> s' = s
    | Inr t \<Rightarrow> compileMcpTool L (xs_config s) tool path p d = Inr t \<and> mt_path t @ ''|'' @ mt_toolName t \<notin> set (toolKeys s)
        \<and> s' = s\<lparr>toolKeys := (mt_path t @ ''|'' @ mt_toolName t) # toolKeys s\<rparr>)"
  using assms compileMcpTool_Inr [of L "xs_config s" tool path p d] by (auto simp: defineTool_def Let_def split: sum.splits if_splits)

text \<open>One call: a refusal changes nothing, an answer keeps its promise and registers a fresh key.\<close>

definition step_ok :: "seller_lib \<Rightarrow> seller_call \<Rightarrow> x402_seller \<Rightarrow> exn + seller_answer \<Rightarrow> x402_seller \<Rightarrow> bool" where
  "step_ok L call s r s' = (case r of Inl e \<Rightarrow> s' = s
    | Inr a \<Rightarrow> xs_config s' = xs_config s \<and> answer_ok L (xs_config s) call a \<and> set (route_keys_of [a]) \<inter> set (routeKeys s) = {}
        \<and> set (tool_keys_of [a]) \<inter> set (toolKeys s) = {}
        \<and> routeKeys s' = route_keys_of [a] @ routeKeys s \<and> toolKeys s' = tool_keys_of [a] @ toolKeys s)"

lemma route_step_ok:
  assumes d: "defineRoute L method path p d s = (r, s')" and c: "call_payment call = p" "call_path call = path"
    and k: "call_key call = method @ '' '' @ path"
  shows "step_ok L call s (case r of Inl e \<Rightarrow> Inl e | Inr h \<Rightarrow> Inr (Route h)) s'"
proof (cases r)
  case (Inr h)
  then have h: "compileHttpRoute L (xs_config s) method path p d = Inr h" using defineRoute_cases [OF d] by simp
  then obtain x where "declared_terms L (xs_config s) p x" "answer_accepts (Route h) x"
    using compileHttpRoute_Inr [OF h] buildAccepts_terms by (auto simp: answer_accepts_def)
  then show ?thesis using Inr defineRoute_cases [OF d] compileHttpRoute_Inr [OF h] c k
    by (auto simp: step_ok_def answer_ok_def answer_url_def answer_key_def route_keys_of_def tool_keys_of_def)
qed (use defineRoute_cases [OF d] in \<open>simp add: step_ok_def\<close>)

lemma tool_step_ok:
  assumes d: "defineTool L tool path p d s = (r, s')" and c: "call_payment call = p" "call_path call = path"
    and k: "call_key call = path @ ''|'' @ tool"
  shows "step_ok L call s (case r of Inl e \<Rightarrow> Inl e | Inr t \<Rightarrow> Inr (Mcp_tool t)) s'"
proof (cases r)
  case (Inr t)
  then have t: "compileMcpTool L (xs_config s) tool path p d = Inr t" using defineTool_cases [OF d] by simp
  then obtain x where "declared_terms L (xs_config s) p x" "answer_accepts (Mcp_tool t) x"
    using compileMcpTool_Inr [OF t] by (auto simp: answer_accepts_def)
  then show ?thesis using Inr defineTool_cases [OF d] compileMcpTool_Inr [OF t] c k
    by (auto simp: step_ok_def answer_ok_def answer_url_def answer_key_def route_keys_of_def tool_keys_of_def)
qed (use defineTool_cases [OF d] in \<open>simp add: step_ok_def\<close>)

lemma io_wrap: "io_bind m (\<lambda>r. io_return (f r)) s = (case m s of (x, s') \<Rightarrow> ((case x of Inl e \<Rightarrow> Inl e | Inr h \<Rightarrow> Inr (f h)), s'))"
  by (auto simp: io_bind_app io_return_app split: prod.splits sum.splits)

lemma seller_step_ok: "seller_step L call s = (r, s') \<Longrightarrow> step_ok L call s r s'"
  by (cases call) (auto simp: seller_step_def io_wrap call_payment_def call_path_def call_key_def split: prod.splits
      intro: route_step_ok tool_step_ok)

lemma seller_run_ok:
  assumes "seller_run L calls s = (as, s')"
  shows "xs_config s' = xs_config s \<and> distinct (route_keys_of as) \<and> set (route_keys_of as) \<inter> set (routeKeys s) = {}
    \<and> distinct (tool_keys_of as) \<and> set (tool_keys_of as) \<inter> set (toolKeys s) = {}
    \<and> (\<forall>a \<in> set as. \<exists>call \<in> set calls. answer_ok L (xs_config s) call a)"
  using assms
proof (induction calls arbitrary: s as)
  case (Cons call calls)
  obtain r s1 where st: "seller_step L call s = (r, s1)" by fastforce
  obtain as1 where run: "seller_run L calls s1 = (as1, s')" and as: "as = (case r of Inr a \<Rightarrow> a # as1 | Inl _ \<Rightarrow> as1)"
    using Cons.prems st by (auto split: prod.splits)
  note ih = Cons.IH [OF run] and ok = seller_step_ok [OF st]
  show ?case
  proof (cases r)
    case (Inl e)
    then show ?thesis using ih ok as by (auto simp: step_ok_def)
  next
    case (Inr a)
    have d: "distinct (route_keys_of [a])" "distinct (tool_keys_of [a])"
      by (simp_all add: route_keys_of_def tool_keys_of_def split: seller_answer.splits)
    show ?thesis using ih ok as Inr d unfolding step_ok_def by (auto simp: keys_of_Cons [of a as1])
  qed
qed simp

lemma createX402Seller_Inr:
  assumes "createX402Seller L c = Inr s"
  shows "\<exists>o1. xs_config s = c\<lparr>sc_publicUrl := o1\<rparr> \<and> (has_prefix ''http://'' o1 \<or> has_prefix ''https://'' o1) \<and> routeKeys s = [] \<and> toolKeys s = []"
proof -
  obtain o1 where o: "validateSellerConfig L c = Inr o1" "s = \<lparr> xs_config = c\<lparr>sc_publicUrl := o1\<rparr>, routeKeys = [], toolKeys = [] \<rparr>"
    using assms by (auto simp: createX402Seller_def elim!: sum_bind_InrE)
  then have "validatePublicUrl L (sc_publicUrl c) = Inr o1"
    by (auto simp: validateSellerConfig_def Let_def elim!: sum_bind_InrE split: sum.splits)
  then have "has_prefix ''http://'' o1 \<or> has_prefix ''https://'' o1"
    by (auto simp: validatePublicUrl_def origin_of_def has_prefix_def split: if_splits option.splits)
  with o show ?thesis by (intro exI [of _ o1]) simp
qed

text \<open>C17: A seller answers with the declared terms only.  Whatever calls are made, in any order and some of them
  refused, every route and tool that is returned was asked for by one of the calls, is published under the seller's
  origin at the path of that call and registered under its method and path or its path and name, and demands exactly the
  terms declared for it: scheme, network, payee, asset, amount, time limit and every member of the extra data, fee
  sponsorship included, an override of the route standing before the default of the seller.  The amount is an integer
  text; the asset is the address of one of the seller's aliases, or, when the declared alias is no alias at all but a name
  that every JavaScript object inherits, such as \<open>toString\<close>, that inherited member.  The middleware configuration of a
  route guards its one key with these requirements.  No two routes share a route key and no two tools a tool key.\<close>

theorem seller_answers_declared_terms:
  assumes "createX402Seller L c = Inr s" "seller_run L calls s = (as, s')"
  shows "distinct (route_keys_of as) \<and> distinct (tool_keys_of as)
    \<and> (has_prefix ''http://'' (sc_publicUrl (xs_config s)) \<or> has_prefix ''https://'' (sc_publicUrl (xs_config s)))
    \<and> (\<forall>a \<in> set as. \<exists>call \<in> set calls. \<exists>x. declared_terms L c (call_payment call) x \<and> answer_accepts a x
        \<and> answer_url a = sc_publicUrl (xs_config s) @ call_path call \<and> hd (call_path call) = CHR ''/'' \<and> answer_key a = call_key call)"
proof -
  obtain o1 where u: "xs_config s = c\<lparr>sc_publicUrl := o1\<rparr>" "has_prefix ''http://'' o1 \<or> has_prefix ''https://'' o1"
    using createX402Seller_Inr [OF assms(1)] by blast
  have o: "default_of f (c\<lparr>sc_publicUrl := o1\<rparr>) = default_of f c" for f :: "seller_defaults \<Rightarrow> 'z option"
    by (simp add: default_of_def)
  have d: "declared_terms L (c\<lparr>sc_publicUrl := o1\<rparr>) p x = declared_terms L c p x" for p x
    unfolding declared_terms_def declared_extra_def o by simp
  have "\<forall>a \<in> set as. \<exists>call \<in> set calls. answer_url a = o1 @ call_path call \<and> hd (call_path call) = CHR ''/'' \<and> answer_key a = call_key call
      \<and> (\<exists>x. declared_terms L c (call_payment call) x \<and> answer_accepts a x)"
    using seller_run_ok [OF assms(2)] unfolding answer_ok_def u(1) d by simp
  then show ?thesis using seller_run_ok [OF assms(2)] u by simp blast
qed

section \<open>Amounts\<close>

lemma digits_int_pattern: "AMOUNT_PATTERN s \<Longrightarrow> int_pattern s \<longleftrightarrow> hd s \<noteq> CHR ''0'' \<or> s = ''0''"
  by (auto simp: AMOUNT_PATTERN_def int_pattern_def nat_pattern_def is_digit_def split: list.splits)

lemma digits_big_int: "AMOUNT_PATTERN s \<Longrightarrow> big_int s = int (digits_value s)"
  by (auto simp: AMOUNT_PATTERN_def big_int_def is_digit_def split: list.splits)

lemma leading_zero: "AMOUNT_PATTERN s \<Longrightarrow> hd s \<noteq> CHR ''0'' \<Longrightarrow> 0 < digits_value s"
proof -
  assume a: "AMOUNT_PATTERN s" "hd s \<noteq> CHR ''0''"
  then have n: "nat_pattern s" "s \<noteq> ''0''" by (auto simp: AMOUNT_PATTERN_def nat_pattern_def list_all_iff dest: list.set_sel(2))
  have "nat_to_string 0 = ''0''" by (simp add: nat_to_string.simps [of 0] digit_char_def)
  with nat_to_string_inverse [OF n(1)] n(2) show ?thesis by (metis gr0I)
qed

text \<open>The amounts that can be paid: a positive number that is written without leading zeros and fits 128 bits.\<close>

definition payable_amount :: "string \<Rightarrow> bool" where
  "payable_amount s = (hd s \<noteq> CHR ''0'' \<and> int (digits_value s) \<le> I128_MAX)"

lemma payable_iff:
  assumes "AMOUNT_PATTERN s"
  shows "payable_amount s \<longleftrightarrow> (\<exists>n > 0. parseInteger s = Some n)"
proof -
  have z: "digits_value ''0'' = 0" by code_simp
  show ?thesis
    using digits_int_pattern [OF assms] digits_big_int [OF assms] leading_zero [OF assms] z
    by (auto simp: parseInteger_Some payable_amount_def I128_MIN_def)
qed

lemma digits_not_blank:
  assumes "\<And>c. is_digit c \<Longrightarrow> \<not> white_space (js_unicode (sl_metadata L)) [c]" "AMOUNT_PATTERN s"
  shows "\<not> js_blank L s"
proof -
  obtain c cs where s: "s = c # cs" and d: "list_all is_digit s" using assms(2) by (cases s) (auto simp: AMOUNT_PATTERN_def)
  have "\<not> is_continuation x" if "is_digit x" for x using that by (simp add: is_digit_def is_continuation_def)
  then have "code_points s = [c] # code_points cs" using d s by (cases cs) simp_all
  moreover have "\<not> white_space (js_unicode (sl_metadata L)) [c]" using assms(1) d s by simp
  ultimately show ?thesis by (auto simp: js_blank_def blank_def trim_points_def dropWhile_append)
qed

lemma validateAmount_Nil: "validateAmount L a = [] \<longleftrightarrow> \<not> js_blank L (amount_text a) \<and> AMOUNT_PATTERN (amount_text a)"
  by (auto simp: validateAmount_def Let_def)

lemma resolvePayment_amount:
  assumes "resolvePayment L c p before = (r, [])" "validateAmount L a = []"
  shows "resolvePayment L c (p\<lparr>pi_amount := a\<rparr>) before = (map_option (\<lambda>x. x\<lparr>rp_amount := amount_text a\<rparr>) r, [])"
  using assms by (auto simp: resolvePayment_def Let_def split: if_splits prod.splits)

text \<open>C18: Which amounts a seller may declare, and which of them can be paid.  A route that compiles, compiles with every
  other amount that is a text of decimal digits and demands that text as it is written, and with nothing else.  Of these
  texts the facilitator reads as a positive amount exactly those without a leading zero that fit 128 bits; zero, leading
  zeros and longer numbers compile all the same, and the facilitator refuses every request that accepts such an amount,
  on every network, under either scheme and in both phases.  (Whether a readable amount is within the maximum of the
  asset is the facilitator's configuration.)  Digits are not white space.\<close>

theorem seller_amount_payable_iff:
  assumes "compileHttpRoute L c method path p d = Inr r"
    and "\<And>x. is_digit x \<Longrightarrow> \<not> white_space (js_unicode (sl_metadata L)) [x]"
  shows "(AMOUNT_PATTERN (amount_text a) \<longrightarrow> (\<exists>r'. compileHttpRoute L c method path (p\<lparr>pi_amount := a\<rparr>) d = Inr r'
        \<and> js_get (js_get (hr_accepts r') ''price'') ''amount'' = JStr (amount_text a)))
    \<and> (\<not> AMOUNT_PATTERN (amount_text a) \<longrightarrow> (\<exists>e. compileHttpRoute L c method path (p\<lparr>pi_amount := a\<rparr>) d = Inl e))
    \<and> (AMOUNT_PATTERN (amount_text a) \<longrightarrow> (payable_amount (amount_text a) \<longleftrightarrow> (\<exists>n > 0. parseInteger (amount_text a) = Some n)))
    \<and> (AMOUNT_PATTERN (amount_text a) \<and> \<not> payable_amount (amount_text a) \<longrightarrow>
         (\<forall>(request :: request_envelope) runtime sch ph. amount (accepted (paymentPayload request)) = amount_text a \<longrightarrow>
            validateEnvelope request runtime sch ph \<noteq> None))"
proof (intro conjI impI allI)
  obtain x issues where e: "resolvePayment L c p (validatePath L path) = (x, issues)" by fastforce
  with assms(1) have i: "issues = []" by (auto simp: compileHttpRoute_def elim!: sum_bind_InrE)
  obtain y where y: "x = Some y" using resolvePayment_terms e i by blast
  assume "AMOUNT_PATTERN (amount_text a)"
  then have "validateAmount L a = []" using digits_not_blank [OF assms(2)] by (simp add: validateAmount_Nil)
  then have "resolvePayment L c (p\<lparr>pi_amount := a\<rparr>) (validatePath L path) = (Some (y\<lparr>rp_amount := amount_text a\<rparr>), [])"
    using resolvePayment_amount e i y by fastforce
  then show "\<exists>r'. compileHttpRoute L c method path (p\<lparr>pi_amount := a\<rparr>) d = Inr r'
      \<and> js_get (js_get (hr_accepts r') ''price'') ''amount'' = JStr (amount_text a)"
    using assms(1) e unfolding compileHttpRoute_def i by (auto simp: buildAccepts_def Let_def fail_on_def elim!: sum_bind_InrE)
next
  assume n: "\<not> AMOUNT_PATTERN (amount_text a)"
  show "\<exists>e. compileHttpRoute L c method path (p\<lparr>pi_amount := a\<rparr>) d = Inl e"
  proof (cases "compileHttpRoute L c method path (p\<lparr>pi_amount := a\<rparr>) d")
    case (Inr r')
    then show ?thesis using n compileHttpRoute_Inr [OF Inr] by (auto simp: declared_terms_def)
  qed simp
next
  assume "AMOUNT_PATTERN (amount_text a)"
  then show "payable_amount (amount_text a) \<longleftrightarrow> (\<exists>n > 0. parseInteger (amount_text a) = Some n)" by (rule payable_iff)
next
  fix request :: request_envelope and runtime sch ph
  assume "AMOUNT_PATTERN (amount_text a) \<and> \<not> payable_amount (amount_text a)" "amount (accepted (paymentPayload request)) = amount_text a"
  then show "validateEnvelope request runtime sch ph \<noteq> None"
    using validateEnvelope_None [of request runtime sch ph] payable_iff [of "amount_text a"] by auto
qed

section \<open>Examples\<close>

lemma property_schema_get:
  assumes "nested = JUndef \<or> (\<exists>ps req. nested = schema_object ps req)"
  shows "js_get (property_schema p nested) ''type'' = js_get p ''type'' \<and> js_get (property_schema p nested) ''enum'' = js_get p ''enum''"
  using assms by (auto simp: property_schema_def schema_object_def opt_member_def js_own_def coalesce_def)

lemma schema_entries_mem:
  assumes "schema_entries es = Inr (ps, req)" "(n, p) \<in> set es" "n \<noteq> ''__proto__''"
  shows "\<exists>nested. (n, property_schema p nested) \<in> set ps \<and> (nested = JUndef \<or> (\<exists>ps req. nested = schema_object ps req))"
  using assms
proof (induction es arbitrary: ps req)
  case (Cons e es)
  obtain nested ps2 req2 where h: "(if js_truthy (js_get (snd e) ''properties'') then parametersToSchema (js_get (snd e) ''properties'') else Inr JUndef) = Inr nested"
      "schema_entries es = Inr (ps2, req2)" "ps = assigned (fst e) (property_schema (snd e) nested) @ ps2"
    using Cons.prems(1) by (auto elim!: sum_bind_InrE split: prod.splits)
  have "nested = JUndef \<or> (\<exists>ps req. nested = schema_object ps req)"
    using h(1) by (auto elim!: sum_bind_InrE split: if_splits prod.splits)
  note ne = this
  show ?case
  proof (cases "(n, p) \<in> set es")
    case True
    then show ?thesis using Cons.IH [OF h(2)] Cons.prems(3) h(3) by auto
  next
    case False
    then show ?thesis using ne Cons.prems(2,3) h(3) by (intro exI [of _ nested]) (auto simp: assigned_def)
  qed
qed simp

lemma schema_entries_required: "schema_entries es = Inr (ps, req) \<Longrightarrow> set req \<subseteq> fst ` set es"
proof (induction es arbitrary: ps req)
  case (Cons e es)
  obtain ps2 req2 where "schema_entries es = Inr (ps2, req2)" "req = (if js_get (snd e) ''required'' = JBool True then [fst e] else []) @ req2"
    using Cons.prems by (auto elim!: sum_bind_InrE split: prod.splits)
  then show ?case using Cons.IH [of ps2 req2] by auto
qed simp

lemma example_entries_mem:
  assumes "example_entries es = Inr xs" "(n, v) \<in> set xs"
  shows "\<exists>p. (n, p) \<in> set es \<and> n \<noteq> ''__proto__'' \<and> v \<noteq> JUndef
    \<and> (v = js_get p ''example'' \<or> js_get p ''example'' = JUndef \<and> v = js_first (js_get p ''enum''))"
  using assms
proof (induction es arbitrary: xs)
  case (Cons e es)
  obtain x rest where h: "js_prop (snd e) ''example'' = Inr x" "example_entries es = Inr rest"
      "xs = (if x \<noteq> JUndef then assigned (fst e) x
       else if js_first (js_get (snd e) ''enum'') \<noteq> JUndef then assigned (fst e) (js_first (js_get (snd e) ''enum'')) else []) @ rest"
    using Cons.prems(1) by (auto elim!: sum_bind_InrE)
  have x: "x = js_get (snd e) ''example''" using h(1) by (auto simp: js_prop_def split: if_splits)
  show ?case
  proof (cases "(n, v) \<in> set rest")
    case True
    then show ?thesis using Cons.IH [OF h(2)] by auto
  next
    case False
    then show ?thesis using Cons.prems(2) h(3) x by (intro exI [of _ "snd e"]) (auto simp: assigned_def split: if_splits)
  qed
qed simp

lemma validate_entries_mem:
  "validate_entries label es = Inr [] \<Longrightarrow> (n, p) \<in> set es \<Longrightarrow> PARAMETER_NAME n \<and> (\<exists>l. own_issues l p = [])"
  by (induction es) (auto elim!: sum_bind_InrE split: if_splits simp del: validateParameters.simps)

lemma own_issues_Nil:
  "own_issues l p = [] \<Longrightarrow> is_word PARAMETER_TYPES (js_get p ''type'') \<and> (js_get p ''enum'' \<noteq> JUndef \<longrightarrow>
    (\<exists>y ys. js_get p ''enum'' = JArr (y # ys) \<and> (js_get p ''example'' \<noteq> JUndef \<longrightarrow> js_get p ''example'' \<in> set (y # ys))))"
  by (auto simp: own_issues_def enum_issues_def js_includes_def list_ex_iff strict_eq_def Let_def split: if_splits js.splits list.splits)

text \<open>Examples conform.  When the validated parameters of an input compile, every example value the metadata carries belongs
  to a named property of the published schema with an admitted type, and to the values of its enumeration when one is
  declared; and every required name is a declared parameter.\<close>

theorem sdk_examples_conform:
  assumes "validateParameters label m = Inr []" "isCompiledInputSchema m = Inr False" "compile_input m = Inr (s, e)" "(n, v) \<in> set (js_own e)"
  shows "\<exists>sch. (n, sch) \<in> set (js_own (js_get s ''properties'')) \<and> PARAMETER_NAME n \<and> is_word PARAMETER_TYPES (js_get sch ''type'')
    \<and> (js_get sch ''enum'' \<noteq> JUndef \<longrightarrow> (\<exists>ys. js_get sch ''enum'' = JArr ys \<and> v \<in> set ys))"
proof -
  have m: "m \<noteq> JUndef" using assms(2-4) by (auto simp: compile_input_def parametersToExample_def js_own_def isCompiledInputSchema_def sum_bind_def split: js.splits if_splits)
  have val: "validate_entries label (js_entries m) = Inr []" using assms(1,2) m by (simp add: sum_bind_def)
  obtain ps req xs where c: "schema_entries (js_entries m) = Inr (ps, req)" "s = schema_object ps req" "example_entries (js_entries m) = Inr xs" "e = JObj xs"
    using assms(2,3) m by (auto simp: compile_input_def parametersToExample_def elim!: sum_bind_InrE)
  have ps: "js_own (js_get s ''properties'') = ps" using c(2) by (simp add: schema_object_def coalesce_def js_own_def)
  have x: "(n, v) \<in> set xs" using assms(4) c(4) by (simp add: js_own_def)
  obtain p where p: "(n, p) \<in> set (js_entries m)" "n \<noteq> ''__proto__''" "v \<noteq> JUndef"
      "v = js_get p ''example'' \<or> js_get p ''example'' = JUndef \<and> v = js_first (js_get p ''enum'')"
    using example_entries_mem [OF c(3) x] by blast
  obtain nested where ne: "(n, property_schema p nested) \<in> set ps" "nested = JUndef \<or> (\<exists>ps req. nested = schema_object ps req)"
    using schema_entries_mem [OF c(1) p(1,2)] by blast
  obtain l where l: "PARAMETER_NAME n" "own_issues l p = []" using validate_entries_mem [OF val p(1)] by blast
  have "js_get p ''enum'' \<noteq> JUndef \<longrightarrow> (\<exists>ys. js_get p ''enum'' = JArr ys \<and> v \<in> set ys)"
    using own_issues_Nil [OF l(2)] p(3,4) by (auto simp: js_first_def)
  then show ?thesis using ne(1) l(1) own_issues_Nil [OF l(2)] property_schema_get [OF ne(2), of p] ps by (intro exI [of _ "property_schema p nested"]) simp
qed

section \<open>A parameter called schema\<close>

lemma schema_parameter_compiled: "''schema'' \<in> fst ` set kvs \<Longrightarrow> isCompiledInputSchema (JObj kvs) = Inr True"
  by (simp add: isCompiledInputSchema_def)

lemma compile_input_schema: "''schema'' \<in> fst ` set kvs \<Longrightarrow>
    compile_input (JObj kvs) = Inr (js_get (JObj kvs) ''schema'', js_get (JObj kvs) ''example'')"
  by (simp add: compile_input_def schema_parameter_compiled sum_bind_def)

text \<open>A query parameter called \<open>schema\<close> hides the others.  When two GET routes declare such a parameter alike, and
  alike one called \<open>example\<close> if there is one, they get the same metadata or the same error whatever else they
  declare: the other parameters are neither validated nor published.\<close>

theorem schema_parameter_hides_others:
  assumes "''schema'' \<in> fst ` set q1" "''schema'' \<in> fst ` set q2"
    and "map_of q1 ''schema'' = map_of q2 ''schema''" "map_of q1 ''example'' = map_of q2 ''example''"
    and cfg: "js_is_record cfg" "js_get cfg ''body'' = JUndef"
  shows "http L (js_put ''query'' (JObj q1) cfg) = http L (js_put ''query'' (JObj q2) cfg)"
proof -
  have g: "js_get (js_put ''query'' (JObj q) cfg) k = js_get cfg k" if "k \<noteq> ''query''" for q k using that cfg by simp
  have m: "validateServiceMetadata L (js_put ''query'' (JObj q) cfg) = validateServiceMetadata L cfg"
      "method_issues (js_put ''query'' (JObj q) cfg) = method_issues cfg"
      "serviceMetadata (js_put ''query'' (JObj q) cfg) = serviceMetadata cfg" for q
    using cfg by (simp_all add: validateServiceMetadata_def method_issues_def serviceMetadata_def Let_def)
  have v: "validateParameters ''query'' (JObj q1) = Inr []" "validateParameters ''query'' (JObj q2) = Inr []"
    using assms(1,2) by (simp_all add: schema_parameter_compiled sum_bind_def)
  have i: "compile_input (JObj q1) = compile_input (JObj q2)"
    using assms(1-4) by (simp add: compile_input_schema)
  have h: "validateHttpConfig L (js_put ''query'' (JObj q1) cfg) = validateHttpConfig L (js_put ''query'' (JObj q2) cfg)"
    using cfg by (simp add: validateHttpConfig_def m v del: validateParameters.simps)
  show ?thesis unfolding http_def h using cfg by (simp add: m i Let_def)
qed

section \<open>A seller\<close>

definition demo_metadata_lib :: metadata_lib where
  "demo_metadata_lib = \<lparr> isValidServiceName = (\<lambda>_. True), sanitizeTags = (\<lambda>ts. Some ts), isValidIconUrl = (\<lambda>_. True),
     declareDiscoveryExtension = (\<lambda>v. Inr (JObj [(''bazaar'', v)])),
     js_unicode = \<lparr> nfc = id, nfkc = id, lower_case = id, upper_case = id, letter_or_number = (\<lambda>_. True), white_space = (\<lambda>p. p = '' '') \<rparr> \<rparr>"

definition demo_seller_lib :: seller_lib where
  "demo_seller_lib = \<lparr> sl_metadata = demo_metadata_lib, sl_url = (\<lambda>u. if u = ''https://s'' then Some \<lparr> pu_protocol = ''https:'', pu_username = [],
     pu_password = [], pu_host = ''s'', pu_hostname = ''s'', pu_pathname = ''/'' \<rparr> else None), sl_template = (\<lambda>_. True) \<rparr>"

definition demo_seller_config :: seller_config where
  "demo_seller_config = \<lparr> sc_publicUrl = ''https://s/'', sc_network = Some ''stellar:testnet'', sc_payTo = Some ''G1'', sc_assets = Some [(''XLM'', ''C1'')],
     sc_defaults = None \<rparr>"

definition demo_payment :: "string \<Rightarrow> payment_input" where
  "demo_payment n = \<lparr> pi_asset = ''XLM'', pi_amount = Amount_text n, pi_network = None, pi_payTo = None, pi_scheme = None,
     pi_maxTimeoutSeconds = None, pi_feesSponsored = None, pi_extra = JUndef \<rparr>"

definition demo_seller :: x402_seller where
  "demo_seller = \<lparr> xs_config = demo_seller_config\<lparr>sc_publicUrl := ''https://s''\<rparr>, routeKeys = [], toolKeys = [] \<rparr>"

definition demo_resource :: js where
  "demo_resource = JObj [(''query'', JObj [(''schema'', JObj [(''type'', JStr ''string'')])])]"

lemma demo_seller_created: "createX402Seller demo_seller_lib demo_seller_config = Inr demo_seller"
  by code_simp

definition demo_calls :: "seller_call list" where
  "demo_calls = [Get ''/a'' (demo_payment ''1000'') demo_resource, Get ''/a'' (demo_payment ''5'') (JObj []), Post ''b'' (demo_payment ''5'') (JObj [])]"

lemma demo_route: "case compileHttpRoute demo_seller_lib demo_seller_config ''GET'' ''/a'' (demo_payment ''7'') (JObj []) of Inr r \<Rightarrow> True | Inl _ \<Rightarrow> False"
  by code_simp

lemma demo_answers: "case seller_run demo_seller_lib demo_calls demo_seller of (as, s') \<Rightarrow> length as = 1 \<and> routeKeys s' = [''GET /a'']"
  by code_simp

text \<open>The second call repeats the route key and the third has no path: one route is returned.\<close>

theorem seller_answers_declared_terms_witness:
  "\<exists>a s'. seller_run demo_seller_lib demo_calls demo_seller = ([a], s') \<and> routeKeys s' = [''GET /a'']
    \<and> (\<exists>x. answer_accepts a x \<and> rp_asset x = Own_asset ''C1'' \<and> rp_payTo x = ''G1'' \<and> rp_scheme x = ''exact'')"
proof -
  obtain as s' where run: "seller_run demo_seller_lib demo_calls demo_seller = (as, s')" by fastforce
  with demo_answers obtain a where as: "as = [a]" and k: "routeKeys s' = [''GET /a'']" by (auto simp: length_Suc_conv)
  obtain call x where "call \<in> set demo_calls" "declared_terms demo_seller_lib demo_seller_config (call_payment call) x" "answer_accepts a x"
    using seller_answers_declared_terms [OF demo_seller_created run] as by auto
  then have "answer_accepts a x \<and> rp_asset x = Own_asset ''C1'' \<and> rp_payTo x = ''G1'' \<and> rp_scheme x = ''exact''"
    by (auto simp: demo_calls_def call_payment_def demo_payment_def declared_terms_def demo_seller_config_def first_of_def default_of_def coalesce_def)
  then show ?thesis using run as k by blast
qed

definition demo_refused :: request_envelope where
  "demo_refused = (let t = \<lparr> scheme = ''exact'', network = ''stellar:testnet'', asset = ''C1'', amount = ''007'', payTo = ''G1'',
     maxTimeoutSeconds = 60, extra = JObj [(''areFeesSponsored'', JBool True)] \<rparr> in
   \<lparr> r_version = 2, paymentPayload = \<lparr> p_version = 2, resource = JUndef, accepted = t, payload = JUndef, extensions = JUndef \<rparr>, paymentRequirements = t \<rparr>)"

theorem seller_amount_payable_iff_witness:
  "(\<exists>r. compileHttpRoute demo_seller_lib demo_seller_config ''GET'' ''/a'' (demo_payment ''007'') (JObj []) = Inr r)
    \<and> validateEnvelope demo_refused demo_runtime ''exact'' SettlePhase \<noteq> None"
proof -
  obtain r where r: "compileHttpRoute demo_seller_lib demo_seller_config ''GET'' ''/a'' (demo_payment ''7'') (JObj []) = Inr r"
    using demo_route by (auto split: sum.splits)
  have d: "\<not> white_space (js_unicode (sl_metadata demo_seller_lib)) [x]" if "is_digit x" for x
    using that by (auto simp: demo_seller_lib_def demo_metadata_lib_def is_digit_def)
  have p: "(demo_payment ''7'')\<lparr>pi_amount := Amount_text ''007''\<rparr> = demo_payment ''007''" by (simp add: demo_payment_def)
  have a: "amount (accepted (paymentPayload demo_refused)) = amount_text (Amount_text ''007'')"
    by (simp add: demo_refused_def amount_text_def Let_def)
  have "AMOUNT_PATTERN (amount_text (Amount_text ''007''))" "\<not> payable_amount (amount_text (Amount_text ''007''))"
    by (code_simp, simp add: payable_amount_def amount_text_def)
  then show ?thesis
    using seller_amount_payable_iff [OF r d, of "Amount_text ''007''"] a unfolding p by blast
qed

theorem schema_parameter_hides_others_witness:
  "http demo_metadata_lib (js_put ''query'' (JObj [(''schema'', JStr ''s'')]) (JObj [(''method'', JStr ''GET'')]))
    = http demo_metadata_lib (js_put ''query'' (JObj [(''city'', JNull), (''schema'', JStr ''s'')]) (JObj [(''method'', JStr ''GET'')]))"
  by (rule schema_parameter_hides_others) (simp_all add: coalesce_def)

definition demo_parameters :: js where
  "demo_parameters = JObj [(''unit'', JObj [(''type'', JStr ''string''), (''enum'', JArr [JStr ''C'', JStr ''F'']), (''required'', JBool True)])]"

theorem sdk_examples_conform_witness:
  "\<exists>s e sch. compile_input demo_parameters = Inr (s, e) \<and> js_own e = [(''unit'', JStr ''C'')]
    \<and> (''unit'', sch) \<in> set (js_own (js_get s ''properties'')) \<and> is_word PARAMETER_TYPES (js_get sch ''type'')"
proof -
  have v: "validateParameters ''query'' demo_parameters = Inr []" by code_simp
  have i: "isCompiledInputSchema demo_parameters = Inr False" by code_simp
  have "case compile_input demo_parameters of Inr (s, e) \<Rightarrow> js_own e = [(''unit'', JStr ''C'')] | Inl _ \<Rightarrow> False" by code_simp
  then obtain s e where c: "compile_input demo_parameters = Inr (s, e)" "js_own e = [(''unit'', JStr ''C'')]"
    by (auto split: sum.splits prod.splits)
  show ?thesis using sdk_examples_conform [OF v i c(1), of "''unit''" "JStr ''C''"] c by auto
qed

end
