(* ===== verification/Key_Store.thy ===== *)
theory Key_Store
  imports State_Store
begin

text \<open>
  The managed keys (facilitator/src/db/keystore.ts, table managed_keys): a row holds a sealed secret; every operation is
  one database transaction.  AES-256-GCM is a parameter, the nonce an argument.
\<close>

datatype key_role = Sponsor_key | Channel_key

record key_row =
  kr_network :: string
  kr_role :: key_role
  kr_address :: string
  kr_ciphertext :: string
  kr_nonce :: string
  kr_tag :: string
  kr_version :: int
  kr_active :: bool

record stored_key =
  sk_network :: string
  sk_role :: key_role
  sk_address :: string
  sk_secret :: string

text \<open>\<open>gcm_seal key nonce aad text\<close> is the ciphertext and the tag; \<open>gcm_open\<close> throws when the tag does not fit.\<close>

record aead =
  gcm_seal :: "string \<Rightarrow> string \<Rightarrow> string \<Rightarrow> string \<Rightarrow> string \<times> string"
  gcm_open :: "string \<Rightarrow> string \<Rightarrow> string \<Rightarrow> string \<Rightarrow> string \<Rightarrow> exn + string"

definition key_aad :: "string \<Rightarrow> string \<Rightarrow> string" where
  "key_aad nw ad = nw @ [CHR 0x00] @ ad"

text \<open>The row an insert writes, with the sealed secret.\<close>

definition encrypt :: "aead \<Rightarrow> string \<Rightarrow> string \<Rightarrow> string \<Rightarrow> key_role \<Rightarrow> string \<Rightarrow> string \<Rightarrow> key_row" where
  "encrypt A key nonce nw role ad text = (case gcm_seal A key nonce (key_aad nw ad) text of (c, t) \<Rightarrow>
     \<lparr> kr_network = nw, kr_role = role, kr_address = ad, kr_ciphertext = c, kr_nonce = nonce, kr_tag = t, kr_version = 1, kr_active = True \<rparr>)"

definition decrypt :: "aead \<Rightarrow> string \<Rightarrow> key_row \<Rightarrow> exn + string" where
  "decrypt A key row = gcm_open A key (kr_nonce row) (key_aad (kr_network row) (kr_address row)) (kr_ciphertext row) (kr_tag row)"

definition key_is :: "string \<Rightarrow> string \<Rightarrow> key_row \<Rightarrow> bool" where
  "key_is nw ad r = (kr_network r = nw \<and> kr_address r = ad)"

definition active_sponsor :: "string \<Rightarrow> key_row \<Rightarrow> bool" where
  "active_sponsor nw r = (kr_network r = nw \<and> kr_role r = Sponsor_key \<and> kr_active r)"

text \<open>The unique index one_active_sponsor_per_network.\<close>

definition sponsor_index :: "key_row list \<Rightarrow> string \<Rightarrow> bool" where
  "sponsor_index t nw = (length (filter (active_sponsor nw) t) \<le> 1)"

definition unique_violation :: exn where
  "unique_violation = JsError ''duplicate key value violates unique constraint''"

text \<open>INSERT INTO managed_keys with ON CONFLICT (network, address) DO UPDATE.\<close>

definition upsert_key :: "key_row \<Rightarrow> key_row list \<Rightarrow> exn + key_row list" where
  "upsert_key n t = (let t2 = (if find (key_is (kr_network n) (kr_address n)) t = None then t @ [n]
       else update_where (key_is (kr_network n) (kr_address n)) (\<lambda>r. n\<lparr>kr_version := kr_version r + 1\<rparr>) t) in
     if sponsor_index t2 (kr_network n) then Inr t2 else Inl unique_violation)"

definition put_key :: "aead \<Rightarrow> string \<Rightarrow> string \<Rightarrow> string \<Rightarrow> key_role \<Rightarrow> string \<Rightarrow> string \<Rightarrow> key_row list \<Rightarrow> exn + key_row list" where
  "put_key A key nonce nw role ad text t = upsert_key (encrypt A key nonce nw role ad text) t"

definition unresolved_in :: "string \<Rightarrow> db \<Rightarrow> bool" where
  "unresolved_in nw d = list_ex (\<lambda>r. i_network r = nw \<and> i_status r \<in> {Preparing, Submitting, Pending, Unknown}) (idempotency_records d)"

definition rotateSponsor :: "aead \<Rightarrow> string \<Rightarrow> string \<Rightarrow> string \<Rightarrow> string \<Rightarrow> string \<Rightarrow> db \<Rightarrow> key_row list \<Rightarrow> exn + key_row list" where
  "rotateSponsor A key nonce nw ad text d t =
     (if unresolved_in nw d then Inl (JsError (nw @ '' has unresolved settlements; sponsor rotation requires a drained facilitator''))
      else upsert_key (encrypt A key nonce nw Sponsor_key ad text) (update_where (active_sponsor nw) (\<lambda>r. r\<lparr>kr_active := False\<rparr>) t))"

definition disableChannel :: "int \<Rightarrow> string \<Rightarrow> string \<Rightarrow> db \<Rightarrow> key_row list \<Rightarrow> exn + db \<times> key_row list" where
  "disableChannel now nw ad d t =
     (if list_ex (\<lambda>c. channel_is nw ad c \<and> settlement_record_id c \<noteq> None) (channel_accounts d)
      then Inl (JsError (ad @ '' has an unresolved settlement and cannot be disabled''))
      else Inr (d\<lparr>channel_accounts := update_where (channel_is nw ad) (\<lambda>c. c\<lparr>ch_status := Disabled, ch_updated := now\<rparr>) (channel_accounts d)\<rparr>,
        update_where (\<lambda>r. key_is nw ad r \<and> kr_role r = Channel_key) (\<lambda>r. r\<lparr>kr_active := False\<rparr>) t))"

definition open_row :: "aead \<Rightarrow> string \<Rightarrow> key_row \<Rightarrow> exn + stored_key" where
  "open_row A key r = sum_bind (decrypt A key r) (\<lambda>s.
     Inr \<lparr> sk_network = kr_network r, sk_role = kr_role r, sk_address = kr_address r, sk_secret = s \<rparr>)"

fun open_rows :: "aead \<Rightarrow> string \<Rightarrow> key_row list \<Rightarrow> exn + stored_key list" where
  "open_rows A key [] = Inr []"
| "open_rows A key (r # rs) = sum_bind (open_row A key r) (\<lambda>k. sum_bind (open_rows A key rs) (\<lambda>ks. Inr (k # ks)))"

definition list_keys :: "aead \<Rightarrow> string \<Rightarrow> string \<Rightarrow> key_row list \<Rightarrow> exn + stored_key list" where
  "list_keys A key nw t = open_rows A key (filter (\<lambda>r. kr_network r = nw \<and> kr_active r) t)"

section \<open>The table\<close>

text \<open>Primary key and unique index.\<close>

definition keys_ok :: "key_row list \<Rightarrow> bool" where
  "keys_ok t = (distinct (map (\<lambda>r. (kr_network r, kr_address r)) t) \<and> (\<forall>nw. sponsor_index t nw))"

lemma encrypt_simps [simp]: "kr_network (encrypt A key n nw role ad s) = nw" "kr_address (encrypt A key n nw role ad s) = ad"
  "kr_role (encrypt A key n nw role ad s) = role" "kr_active (encrypt A key n nw role ad s)"
  by (simp_all add: encrypt_def split: prod.splits)

lemma filter_update_length:
  assumes "\<And>r. p r \<Longrightarrow> q (f r) \<Longrightarrow> q r"
  shows "length (filter q (update_where p f t)) \<le> length (filter q t)"
  using assms by (induction t) (auto simp: update_where_def)

lemma upsert_key_mem:
  assumes "upsert_key n t = Inr t'"
  shows "\<exists>v. n\<lparr>kr_version := v\<rparr> \<in> set t' \<and> (\<forall>r \<in> set t'. key_is (kr_network n) (kr_address n) r \<longrightarrow> (\<exists>v. r = n\<lparr>kr_version := v\<rparr>))
    \<and> (\<forall>r. \<not> key_is (kr_network n) (kr_address n) r \<longrightarrow> (r \<in> set t' \<longleftrightarrow> r \<in> set t)) \<and> sponsor_index t' (kr_network n)"
proof (cases "find (key_is (kr_network n) (kr_address n)) t = None")
  case True
  have n: "n\<lparr>kr_version := kr_version n\<rparr> = n" by simp
  have "t' = t @ [n]" "sponsor_index t' (kr_network n)" using assms True by (auto simp: upsert_key_def Let_def split: if_splits)
  moreover have "\<forall>r \<in> set t. \<not> key_is (kr_network n) (kr_address n) r" using True by (simp add: find_None_iff)
  ultimately show ?thesis by (intro exI [of _ "kr_version n"]) (auto simp: key_is_def intro!: exI [of _ "kr_version n"])
next
  case False
  then obtain r where r: "r \<in> set t" "key_is (kr_network n) (kr_address n) r" by (auto simp: find_None_iff)
  have "t' = update_where (key_is (kr_network n) (kr_address n)) (\<lambda>r. n\<lparr>kr_version := kr_version r + 1\<rparr>) t" "sponsor_index t' (kr_network n)"
    using assms False by (auto simp: upsert_key_def Let_def split: if_splits)
  then show ?thesis using r by (intro exI [of _ "kr_version r + 1"]) (auto simp: update_where_def key_is_def image_iff split: if_splits)
qed

lemma upsert_key_ok:
  assumes k: "keys_ok t" and u: "upsert_key n t = Inr t'"
  shows "keys_ok t'"
proof -
  let ?p = "key_is (kr_network n) (kr_address n)"
  have o: "sponsor_index t' nw" if "nw \<noteq> kr_network n" for nw
  proof (cases "find ?p t = None")
    case True
    then have "t' = t @ [n]" using u by (auto simp: upsert_key_def Let_def split: if_splits)
    then show ?thesis using k that by (simp add: keys_ok_def sponsor_index_def active_sponsor_def)
  next
    case False
    then have "t' = update_where ?p (\<lambda>r. n\<lparr>kr_version := kr_version r + 1\<rparr>) t" using u by (auto simp: upsert_key_def Let_def split: if_splits)
    then have "length (filter (active_sponsor nw) t') \<le> length (filter (active_sponsor nw) t)"
      using that by (auto simp: active_sponsor_def intro: filter_update_length)
    then show ?thesis using k by (auto simp: keys_ok_def sponsor_index_def intro: le_trans)
  qed
  have d: "distinct (map (\<lambda>r. (kr_network r, kr_address r)) t')"
  proof (cases "find ?p t = None")
    case True
    then have "t' = t @ [n]" "\<forall>r \<in> set t. \<not> ?p r" using u by (auto simp: upsert_key_def Let_def find_None_iff split: if_splits)
    then show ?thesis using k by (auto simp: keys_ok_def key_is_def)
  next
    case False
    then have "t' = update_where ?p (\<lambda>r. n\<lparr>kr_version := kr_version r + 1\<rparr>) t" using u by (auto simp: upsert_key_def Let_def split: if_splits)
    then have "map (\<lambda>r. (kr_network r, kr_address r)) t' = map (\<lambda>r. (kr_network r, kr_address r)) t"
      by (auto simp: key_is_def intro!: update_where_keys)
    then show ?thesis using k by (simp add: keys_ok_def)
  qed
  show ?thesis using o d upsert_key_mem [OF u] unfolding keys_ok_def by metis
qed

lemma deactivate_ok:
  assumes "keys_ok t" "\<And>r. f r = r\<lparr>kr_active := False\<rparr>"
  shows "keys_ok (update_where p f t)"
proof -
  have "map (\<lambda>r. (kr_network r, kr_address r)) (update_where p f t) = map (\<lambda>r. (kr_network r, kr_address r)) t"
    by (simp add: update_where_keys assms(2))
  moreover have "length (filter (active_sponsor nw) (update_where p f t)) \<le> length (filter (active_sponsor nw) t)" for nw
    by (rule filter_update_length) (simp add: active_sponsor_def assms(2))
  ultimately show ?thesis using assms(1) unfolding keys_ok_def sponsor_index_def by (metis le_trans)
qed

lemma key_operations_ok:
  assumes "keys_ok t"
  shows "put_key A key n nw role ad s t = Inr t' \<Longrightarrow> keys_ok t'"
    and "rotateSponsor A key n nw ad s d t = Inr t' \<Longrightarrow> keys_ok t'"
    and "disableChannel now nw ad d t = Inr (d', t') \<Longrightarrow> keys_ok t'"
  using assms by (auto simp: put_key_def rotateSponsor_def disableChannel_def intro: upsert_key_ok deactivate_ok split: if_splits)

end
