(* ===== verification/Runtime_Init.thy ===== *)
theory Runtime_Init
  imports Key_Store JS_Values
begin

text \<open>
  Starting the networks (facilitator/src/runtime.ts): configured keys are imported, missing development keys generated,
  accounts funded, channels registered and balances checked.  Key pairs, nonces, Friendbot, Horizon, RPC and the clock are
  parameters; a \<open>Promise.all\<close> runs its tasks in the order of the list.
\<close>

record network_settings = network_config +
  ns_rpcUrl :: string
  ns_horizonUrl :: string
  ns_friendbotUrl :: "string option"
  ns_developmentAutoFund :: bool
  ns_channelAccountCount :: int
  ns_channelMinBalance :: int
  ns_sponsorSecret :: "string option"
  ns_channelSecrets :: "string list"

record 'x start_world =
  sw_keys :: "key_row list"
  sw_db :: db
  sw_ext :: 'x

record 'x start_env =
  se_aead :: aead
  se_key :: string
  from_secret :: "string \<Rightarrow> exn + string"
  random_pair :: "('x, channel_signer) io"
  random_nonce :: "('x, string) io"
  se_now :: "'x \<Rightarrow> int"
  friendbot :: "string \<Rightarrow> string \<Rightarrow> ('x, int) io"
  rpc_account :: "string \<Rightarrow> string \<Rightarrow> ('x, unit) io"
  horizon_account :: "string \<Rightarrow> string \<Rightarrow> ('x, int \<times> js) io"

definition on_start_ext :: "('x, 'a) io \<Rightarrow> ('x start_world, 'a) io" where
  "on_start_ext m = (\<lambda>w. case m (sw_ext w) of (r, x) \<Rightarrow> (r, w\<lparr>sw_ext := x\<rparr>))"

definition start_error :: "string \<Rightarrow> ('w, 'a) io" where
  "start_error m = io_throw (JsError m)"

fun io_each :: "('a \<Rightarrow> ('w, 'b) io) \<Rightarrow> 'a list \<Rightarrow> ('w, 'b list) io" where
  "io_each f [] = io_return []"
| "io_each f (x # xs) = io_bind (f x) (\<lambda>y. io_bind (io_each f xs) (\<lambda>ys. io_return (y # ys)))"

section \<open>Balances\<close>

text \<open>\<open>/^(\d+)(?:\.(\d{1,7}))?$/\<close>\<close>

definition decimalToStroops :: "string \<Rightarrow> exn + int" where
  "decimalToStroops s = (let a = takeWhile is_digit s; rest = dropWhile is_digit s; refused = Inl (JsError (''invalid native balance returned by Horizon: '' @ s)) in
     if a = [] then refused
     else if rest = [] then Inr (int (digits_value a) * 10000000)
     else let b = tl rest in if hd rest \<noteq> CHR ''.'' \<or> b = [] \<or> length b > 7 \<or> \<not> list_all is_digit b then refused
     else Inr (int (digits_value a) * 10000000 + int (digits_value (b @ replicate (7 - length b) (CHR ''0'')))))"

definition nativeBalance :: "'x start_env \<Rightarrow> string \<Rightarrow> string \<Rightarrow> ('x start_world, int) io" where
  "nativeBalance E url ad = io_bind (on_start_ext (horizon_account E url ad)) (\<lambda>(code, body).
     if \<not> (200 \<le> code \<and> code \<le> 299) then start_error (''Horizon account lookup failed for '' @ ad @ '': HTTP '' @ int_to_string code)
     else io_bind (lift_sum (js_prop body ''balances'')) (\<lambda>bs.
       io_bind (lift_sum (if bs = JUndef \<or> bs = JNull then Inr None
         else js_find (\<lambda>b. sum_bind (js_prop b ''asset_type'') (\<lambda>t. Inr (t = JStr ''native''))) bs)) (\<lambda>found.
       let native = (case found of Some b \<Rightarrow> js_get b ''balance'' | None \<Rightarrow> JUndef) in
       if \<not> js_truthy native then start_error (''Horizon returned no native balance for '' @ ad) else lift_sum (decimalToStroops (js_display native)))))"

definition assertMinimumBalance :: "'x start_env \<Rightarrow> string \<Rightarrow> string \<Rightarrow> int \<Rightarrow> ('x start_world, unit) io" where
  "assertMinimumBalance E url ad least = io_bind (nativeBalance E url ad) (\<lambda>balance.
     if balance < least then start_error (ad @ '' has '' @ int_to_string balance @ '' stroops, below required minimum '' @ int_to_string least)
     else io_return ())"

definition fundFriendbot :: "'x start_env \<Rightarrow> string \<Rightarrow> string \<Rightarrow> ('x start_world, unit) io" where
  "fundFriendbot E url ad = io_bind (on_start_ext (friendbot E url ad)) (\<lambda>code.
     if \<not> (200 \<le> code \<and> code \<le> 299) \<and> code \<noteq> 400 then start_error (''Friendbot funding failed for '' @ ad @ '': HTTP '' @ int_to_string code)
     else io_return ())"

section \<open>Keys\<close>

definition fromSecret :: "'x start_env \<Rightarrow> string \<Rightarrow> ('w, channel_signer) io" where
  "fromSecret E s = io_bind (lift_sum (from_secret E s)) (\<lambda>ad. io_return \<lparr> signer_address = ad, secret = s \<rparr>)"

definition store_list :: "'x start_env \<Rightarrow> string \<Rightarrow> ('x start_world, stored_key list) io" where
  "store_list E nw = (\<lambda>w. (list_keys (se_aead E) (se_key E) nw (sw_keys w), w))"

definition store_put :: "'x start_env \<Rightarrow> string \<Rightarrow> key_role \<Rightarrow> channel_signer \<Rightarrow> ('x start_world, unit) io" where
  "store_put E nw role s = io_bind (on_start_ext (random_nonce E)) (\<lambda>nonce w.
     case put_key (se_aead E) (se_key E) nonce nw role (signer_address s) (secret s) (sw_keys w) of
       Inl e \<Rightarrow> (Inl e, w) | Inr t \<Rightarrow> (Inr (), w\<lparr>sw_keys := t\<rparr>))"

definition import_sponsor :: "'x start_env \<Rightarrow> string \<Rightarrow> network_settings \<Rightarrow> stored_key list \<Rightarrow> ('x start_world, unit) io" where
  "import_sponsor E nw c existing = (let sponsors = filter (\<lambda>k. sk_role k = Sponsor_key) existing in
     if \<not> truthy_str (ns_sponsorSecret c) then io_return ()
     else io_bind (fromSecret E (the (ns_sponsorSecret c))) (\<lambda>signer.
       if sponsors = [] then store_put E nw Sponsor_key signer
       else if \<not> list_ex (\<lambda>k. sk_address k = signer_address signer) sponsors
         then start_error (nw @ '' configured sponsor differs from encrypted active sponsor; rotate it explicitly'')
       else io_return ()))"

definition import_channel :: "'x start_env \<Rightarrow> string \<Rightarrow> stored_key list \<Rightarrow> string \<Rightarrow> ('x start_world, unit) io" where
  "import_channel E nw existing s = io_bind (fromSecret E s) (\<lambda>signer.
     if signer_address signer \<notin> set (map sk_address existing) then store_put E nw Channel_key signer else io_return ())"

definition importConfiguredKeys :: "'x start_env \<Rightarrow> string \<Rightarrow> network_settings \<Rightarrow> ('x start_world, unit) io" where
  "importConfiguredKeys E nw c = io_bind (store_list E nw) (\<lambda>existing.
     io_seq (import_sponsor E nw c existing)
    (io_bind (io_each (import_channel E nw existing) (ns_channelSecrets c)) (\<lambda>_. io_return ())))"

definition generate_key :: "'x start_env \<Rightarrow> string \<Rightarrow> key_role \<Rightarrow> ('x start_world, unit) io" where
  "generate_key E nw role = io_bind (on_start_ext (random_pair E)) (\<lambda>s. store_put E nw role s)"

text \<open>The loop runs once for every missing channel.\<close>

fun generate_keys :: "nat \<Rightarrow> 'x start_env \<Rightarrow> string \<Rightarrow> ('x start_world, unit) io" where
  "generate_keys 0 E nw = io_return ()"
| "generate_keys (Suc n) E nw = io_seq (generate_key E nw Channel_key) (generate_keys n E nw)"

definition ensureDevelopmentKeys :: "'x start_env \<Rightarrow> string \<Rightarrow> int \<Rightarrow> ('x start_world, stored_key list) io" where
  "ensureDevelopmentKeys E nw wanted = io_bind (store_list E nw) (\<lambda>keys.
     io_seq (if list_ex (\<lambda>k. sk_role k = Sponsor_key) keys then io_return () else generate_key E nw Sponsor_key)
    (io_seq (generate_keys (nat (wanted - int (length (filter (\<lambda>k. sk_role k = Channel_key) keys)))) E nw)
    (store_list E nw)))"

section \<open>Networks\<close>

text \<open>\<open>new Map(pairs)\<close>: a key keeps its first place and its last value.\<close>

fun js_map :: "('k \<times> 'v) list \<Rightarrow> ('k \<times> 'v) list \<Rightarrow> ('k \<times> 'v) list" where
  "js_map m [] = m"
| "js_map m (e # es) = js_map (if fst e \<in> fst ` set m then map (\<lambda>x. if fst x = fst e then e else x) m else m @ [e]) es"

definition fund_accounts :: "'x start_env \<Rightarrow> string \<Rightarrow> network_settings \<Rightarrow> stored_key list \<Rightarrow> ('x start_world, unit) io" where
  "fund_accounts E nw c keys = (if \<not> ns_developmentAutoFund c then io_return ()
     else if \<not> truthy_str (ns_friendbotUrl c) then start_error (nw @ '' development auto-fund requires friendbot_url'')
     else io_bind (io_each (\<lambda>k. io_catch (on_start_ext (rpc_account E (ns_rpcUrl c) (sk_address k)))
       (\<lambda>_. fundFriendbot E (the (ns_friendbotUrl c)) (sk_address k))) keys) (\<lambda>_. io_return ()))"

definition check_keys :: "string \<Rightarrow> network_settings \<Rightarrow> stored_key list \<Rightarrow> stored_key list \<Rightarrow> ('x start_world, unit) io" where
  "check_keys nw c sponsors channelKeys = (
     if length sponsors \<noteq> 1 then start_error (nw @ '' requires exactly one active sponsor key'')
     else if channelKeys = [] then start_error (nw @ '' requires at least one channel account'')
     else if nw = ''stellar:pubnet'' \<and> int (length channelKeys) < ns_channelAccountCount c
       then start_error (''stellar:pubnet requires '' @ int_to_string (ns_channelAccountCount c) @ '' pre-funded channel keys'')
     else io_return ())"

definition sync_channels :: "'x start_env \<Rightarrow> string \<Rightarrow> string list \<Rightarrow> ('x start_world, unit) io" where
  "sync_channels E nw ads = io_modify (\<lambda>w. w\<lparr>sw_db := syncChannels (se_now E (sw_ext w)) nw ads (sw_db w)\<rparr>)"

definition runtime_of :: "network_settings \<Rightarrow> channel_signer \<Rightarrow> (string \<times> channel_signer) list \<Rightarrow> network_runtime" where
  "runtime_of c spon chans = \<lparr> config = network_config.truncate c, sponsor = spon, simulationSource = snd (hd chans),
     unsafeInternalAddresses = rev (remdups (rev (signer_address spon # map fst chans))) \<rparr>"

definition probe_accounts :: "'x start_env \<Rightarrow> network_settings \<Rightarrow> string list \<Rightarrow> ('x start_world, unit) io" where
  "probe_accounts E c ads = io_bind (io_each (\<lambda>ad. on_start_ext (rpc_account E (ns_rpcUrl c) ad)) ads) (\<lambda>_.
     io_bind (io_each (\<lambda>ad. assertMinimumBalance E (ns_horizonUrl c) ad (ns_channelMinBalance c)) ads) (\<lambda>_. io_return ()))"

definition start_network :: "'x start_env \<Rightarrow> string \<Rightarrow> network_settings \<Rightarrow> ('x start_world, network_runtime \<times> (string \<times> channel_signer) list) io" where
  "start_network E nw c =
     io_seq (importConfiguredKeys E nw c)
    (io_bind (store_list E nw) (\<lambda>listed.
     io_bind (if ns_developmentAutoFund c then ensureDevelopmentKeys E nw (ns_channelAccountCount c) else io_return listed) (\<lambda>keys.
     let sponsors = filter (\<lambda>k. sk_role k = Sponsor_key) keys; channelKeys = filter (\<lambda>k. sk_role k = Channel_key) keys in
     io_seq (check_keys nw c sponsors channelKeys)
    (io_seq (fund_accounts E nw c keys)
    (io_bind (fromSecret E (sk_secret (hd sponsors))) (\<lambda>spon.
     io_bind (io_each (\<lambda>k. fromSecret E (sk_secret k)) channelKeys) (\<lambda>signers.
     let chans = js_map [] (map (\<lambda>s. (signer_address s, s)) signers) in
     io_seq (sync_channels E nw (map fst chans))
    (io_seq (probe_accounts E c (signer_address spon # map fst chans))
    (io_return (runtime_of c spon chans, chans))))))))))"

fun start_networks ::
    "'x start_env \<Rightarrow> (string \<times> network_settings) list \<Rightarrow>
     ('x start_world, (string \<times> network_runtime \<times> (string \<times> channel_signer) list) list) io" where
  "start_networks E [] = io_return []"
| "start_networks E ((nw, c) # rest) = (if \<not> enabled c then start_networks E rest
     else io_bind (start_network E nw c) (\<lambda>r. io_bind (start_networks E rest) (\<lambda>rs. io_return ((nw, r) # rs))))"

definition initializeRuntimes :: "'x start_env \<Rightarrow> (string \<times> network_settings) list \<Rightarrow> ('x start_world, runtime_registry) io" where
  "initializeRuntimes E cs = io_bind (start_networks E cs) (\<lambda>rs. io_return
     \<lparr> networks = map (\<lambda>e. (fst e, fst (snd e))) rs, channels = map (\<lambda>e. (fst e, snd (snd e))) rs \<rparr>)"

end
