(* ===== verification/Runtime_Properties.thy ===== *)
theory Runtime_Properties
  imports Runtime_Init
begin

text \<open>
  The managed keys and the start of the networks: rotation leaves one sponsor that can be read back, a started network has
  the accounts its configuration asks for, and a disabled channel comes back with the next start.
\<close>

section \<open>Reading back\<close>

text \<open>What was sealed is opened with the same key, nonce and associated data.\<close>

definition aead_ok :: "aead \<Rightarrow> bool" where
  "aead_ok A = (\<forall>k n a s. gcm_open A k n a (fst (gcm_seal A k n a s)) (snd (gcm_seal A k n a s)) = Inr s)"

lemma open_sealed:
  assumes "aead_ok A"
  shows "open_row A key ((encrypt A key n nw role ad s)\<lparr>kr_version := v\<rparr>) = Inr \<lparr> sk_network = nw, sk_role = role, sk_address = ad, sk_secret = s \<rparr>"
proof -
  obtain c g where e: "gcm_seal A key n (key_aad nw ad) s = (c, g)" by fastforce
  then have "gcm_open A key n (key_aad nw ad) c g = Inr s" using assms unfolding aead_ok_def by (metis fst_conv snd_conv)
  then show ?thesis by (simp add: open_row_def decrypt_def encrypt_def e sum_bind_def)
qed

lemma open_rows_mem: "open_rows A key t = Inr ks \<Longrightarrow> k \<in> set ks \<longleftrightarrow> (\<exists>r \<in> set t. open_row A key r = Inr k)"
  by (induction t arbitrary: ks) (auto elim!: sum_bind_InrE)

lemma open_row_fields: "open_row A key r = Inr k \<Longrightarrow> sk_network k = kr_network r \<and> sk_role k = kr_role r \<and> sk_address k = kr_address r"
  by (auto simp: open_row_def elim!: sum_bind_InrE)

lemma list_keys_mem:
  assumes "list_keys A key nw t = Inr ks"
  shows "k \<in> set ks \<longleftrightarrow> (\<exists>r \<in> set t. kr_network r = nw \<and> kr_active r \<and> open_row A key r = Inr k)"
  using open_rows_mem [of A key "filter (\<lambda>r. kr_network r = nw \<and> kr_active r) t" ks k] assms by (auto simp: list_keys_def)

section \<open>Rotation\<close>

lemma open_rows_filter:
  "open_rows A key t = Inr ks \<Longrightarrow> open_rows A key (filter (\<lambda>r. kr_role r = role) t) = Inr (filter (\<lambda>k. sk_role k = role) ks)"
proof (induction t arbitrary: ks)
  case (Cons r t)
  obtain k ks2 where h: "open_row A key r = Inr k" "open_rows A key t = Inr ks2" "ks = k # ks2"
    using Cons.prems by (auto elim!: sum_bind_InrE)
  have "sk_role k = kr_role r" using open_row_fields [OF h(1)] by simp
  then show ?case using Cons.IH [OF h(2)] h(1,3) by (simp add: sum_bind_def)
qed simp

lemma one_or_none: "length (filter p t) \<le> 1 \<Longrightarrow> x \<in> set t \<Longrightarrow> p x \<Longrightarrow> filter p t = [x]"
proof -
  assume a: "length (filter p t) \<le> 1" "x \<in> set t" "p x"
  then have "x \<in> set (filter p t)" by simp
  then show "filter p t = [x]" using a(1) by (cases "filter p t") auto
qed

text \<open>Rotation: exactly one sponsor is active, the new one, and its secret is read back.\<close>

lemma rotated_sponsor:
  assumes a: "aead_ok A" and r: "rotateSponsor A key n nw ad s d t = Inr t'" and l: "list_keys A key nw t' = Inr ks"
  shows "filter (\<lambda>k. sk_role k = Sponsor_key) ks = [\<lparr> sk_network = nw, sk_role = Sponsor_key, sk_address = ad, sk_secret = s \<rparr>]"
proof -
  let ?e = "encrypt A key n nw Sponsor_key ad s"
  obtain u where u: "upsert_key ?e u = Inr t'" using r by (auto simp: rotateSponsor_def split: if_splits)
  then obtain v where v: "?e\<lparr>kr_version := v\<rparr> \<in> set t'" "sponsor_index t' nw" using upsert_key_mem [OF u] by auto
  have "filter (active_sponsor nw) t' = [?e\<lparr>kr_version := v\<rparr>]"
    using v by (intro one_or_none) (auto simp: sponsor_index_def active_sponsor_def)
  moreover have "filter (\<lambda>r. kr_role r = Sponsor_key) (filter (\<lambda>r. kr_network r = nw \<and> kr_active r) t') = filter (active_sponsor nw) t'"
    by (auto simp: active_sponsor_def intro: filter_cong)
  ultimately show ?thesis using open_rows_filter [OF l [unfolded list_keys_def], of Sponsor_key] open_sealed [OF a, of key v n nw Sponsor_key ad s]
    by (simp add: sum_bind_def)
qed

section \<open>Starting a network\<close>

text \<open>What the steps leave alone.\<close>

definition same_tables :: "'x start_world \<Rightarrow> 'x start_world \<Rightarrow> bool" where
  "same_tables w w' = (sw_keys w' = sw_keys w \<and> sw_db w' = sw_db w)"

lemma on_start_ext_tables: "on_start_ext m w = (r, w') \<Longrightarrow> sw_keys w' = sw_keys w \<and> sw_db w' = sw_db w"
  by (auto simp: on_start_ext_def split: prod.splits)

lemma fromSecret_Inr: "fromSecret E s w = (Inr g, w') \<Longrightarrow> w' = w \<and> from_secret E s = Inr (signer_address g) \<and> secret g = s"
  by (auto simp: fromSecret_def elim!: io_bind_InrE)

lemma store_list_Inr: "store_list E nw w = (Inr ks, w') \<Longrightarrow> w' = w \<and> list_keys (se_aead E) (se_key E) nw (sw_keys w) = Inr ks"
  by (auto simp: store_list_def)

lemma store_put_Inr:
  assumes "store_put E nw role g w = (Inr u, w')"
  shows "sw_db w' = sw_db w \<and> (\<exists>nonce. put_key (se_aead E) (se_key E) nonce nw role (signer_address g) (secret g) (sw_keys w) = Inr (sw_keys w'))"
proof -
  obtain nonce w1 where n: "on_start_ext (random_nonce E) w = (Inr nonce, w1)"
    and p: "(case put_key (se_aead E) (se_key E) nonce nw role (signer_address g) (secret g) (sw_keys w1) of
       Inl e \<Rightarrow> (Inl e, w1) | Inr t \<Rightarrow> (Inr (), w1\<lparr>sw_keys := t\<rparr>)) = (Inr u, w')"
    using assms unfolding store_put_def by (rule io_bind_InrE)
  show ?thesis using p on_start_ext_tables [OF n] by (auto split: sum.splits)
qed

lemma io_each_Inr:
  assumes "io_each f xs w = (Inr ys, w')" "P w" "\<And>x w y w'. x \<in> set xs \<Longrightarrow> P w \<Longrightarrow> f x w = (Inr y, w') \<Longrightarrow> P w'"
  shows "P w'"
  using assms
proof (induction xs arbitrary: w ys)
  case (Cons x xs)
  obtain y w1 zs where f: "f x w = (Inr y, w1)" "io_each f xs w1 = (Inr zs, w')"
    using Cons.prems(1) by (auto elim!: io_bind_InrE)
  have "P w1" by (rule Cons.prems(3) [OF _ Cons.prems(2) f(1)]) simp
  then show ?case
  proof (rule Cons.IH [OF f(2)])
    fix x1 w y w' assume "x1 \<in> set xs" "P w" "f x1 w = (Inr y, w')"
    then show "P w'" using Cons.prems(3) [of x1] by simp
  qed
qed simp

lemma io_each_run:
  assumes "io_each f xs w = (Inr ys, w')" "x \<in> set xs"
  shows "\<exists>w1 y w2. f x w1 = (Inr y, w2)"
  using assms
proof (induction xs arbitrary: w ys)
  case (Cons x1 xs)
  obtain y w1 zs where f: "f x1 w = (Inr y, w1)" "io_each f xs w1 = (Inr zs, w')"
    using Cons.prems(1) by (auto elim!: io_bind_InrE)
  then show ?case using Cons.IH [OF f(2)] Cons.prems(2) by auto
qed simp

lemma io_each_pure:
  assumes "io_each f xs w = (Inr ys, w')" "\<And>x w y w'. f x w = (Inr y, w') \<Longrightarrow> w' = w \<and> R x y"
  shows "w' = w \<and> list_all2 R xs ys"
  using assms
proof (induction xs arbitrary: w ys)
  case (Cons x xs)
  obtain y w1 zs where f: "f x w = (Inr y, w1)" "io_each f xs w1 = (Inr zs, w')" "ys = y # zs"
    using Cons.prems(1) by (auto elim!: io_bind_InrE)
  show ?case using Cons.prems(2) [OF f(1)] Cons.IH [OF f(2) Cons.prems(2)] f(3) by simp
qed simp

lemma js_map_keys: "fst ` set (js_map m es) = fst ` set m \<union> fst ` set es"
proof (induction m es rule: js_map.induct)
  case (2 m e es)
  have "fst ` set (map (\<lambda>x. if fst x = fst e then e else x) m) = fst ` set m" by (auto simp: image_iff) force+
  then show ?case using 2 by auto
qed simp

lemma js_map_values:
  assumes "\<And>x. x \<in> set es \<Longrightarrow> P x" "\<And>x. x \<in> set m \<Longrightarrow> P x"
  shows "x \<in> set (js_map m es) \<Longrightarrow> P x"
  using assms by (induction m es rule: js_map.induct) (auto split: if_splits)

definition keeps_tables :: "('x start_world, 'a) io \<Rightarrow> bool" where
  "keeps_tables m = (\<forall>w r w'. m w = (r, w') \<longrightarrow> sw_keys w' = sw_keys w \<and> sw_db w' = sw_db w)"

lemma start_keeps_return [simp]: "keeps_tables (io_return x)" "keeps_tables (start_error e)" "keeps_tables (lift_sum s)" "keeps_tables (on_start_ext m)"
  by (auto simp: keeps_tables_def start_error_def on_start_ext_tables)

lemma start_keeps_bind:
  assumes "keeps_tables m" "\<And>x. keeps_tables (k x)"
  shows "keeps_tables (io_bind m k)"
  unfolding keeps_tables_def
proof (intro allI impI)
  fix w r w' assume b: "io_bind m k w = (r, w')"
  obtain r1 w1 where m: "m w = (r1, w1)" by fastforce
  show "sw_keys w' = sw_keys w \<and> sw_db w' = sw_db w"
    using b m assms unfolding keeps_tables_def by (cases r1) (auto simp: io_bind_app)
qed

lemma keeps_catch:
  assumes "keeps_tables m" "\<And>e. keeps_tables (h e)"
  shows "keeps_tables (io_catch m h)"
  unfolding keeps_tables_def
proof (intro allI impI)
  fix w r w' assume b: "io_catch m h w = (r, w')"
  obtain r1 w1 where m: "m w = (r1, w1)" by fastforce
  show "sw_keys w' = sw_keys w \<and> sw_db w' = sw_db w"
    using b m assms unfolding keeps_tables_def by (cases r1) (auto simp: io_catch_app)
qed

lemma keeps_each: "(\<And>x. keeps_tables (f x)) \<Longrightarrow> keeps_tables (io_each f xs)"
  by (induction xs) (auto intro!: start_keeps_bind)

lemma probe_keeps: "keeps_tables (probe_accounts E c ads)" "keeps_tables (fund_accounts E nw c keys)" "keeps_tables (fromSecret E s)"
  by (auto simp: probe_accounts_def fund_accounts_def assertMinimumBalance_def nativeBalance_def fundFriendbot_def fromSecret_def Let_def
      intro!: start_keeps_bind keeps_each keeps_catch split: prod.split)

text \<open>The steps that write keys leave the other tables alone and keep the table of keys well formed.\<close>

definition only_keys :: "('x start_world, 'a) io \<Rightarrow> bool" where
  "only_keys m = (\<forall>w r w'. m w = (r, w') \<longrightarrow> sw_db w' = sw_db w \<and> (keys_ok (sw_keys w) \<longrightarrow> keys_ok (sw_keys w')))"

lemma only_keys_tables: "keeps_tables m \<Longrightarrow> only_keys m"
  unfolding keeps_tables_def only_keys_def by metis

lemma only_keys_bind:
  assumes "only_keys m" "\<And>x. only_keys (k x)"
  shows "only_keys (io_bind m k)"
  unfolding only_keys_def
proof (intro allI impI)
  fix w r w' assume b: "io_bind m k w = (r, w')"
  obtain r1 w1 where m: "m w = (r1, w1)" by fastforce
  show "sw_db w' = sw_db w \<and> (keys_ok (sw_keys w) \<longrightarrow> keys_ok (sw_keys w'))"
    using b m assms unfolding only_keys_def by (cases r1) (auto simp: io_bind_app)
qed

lemma only_keys_seq: "only_keys m \<Longrightarrow> only_keys k \<Longrightarrow> only_keys (io_seq m k)"
  by (simp add: io_seq_def only_keys_bind)

lemma only_keys_steps [simp]: "only_keys (io_return x)" "only_keys (Pair (Inr x))" "only_keys (start_error e)" "only_keys (lift_sum s)" "only_keys (on_start_ext m)"
    "only_keys (fromSecret E s2)" "only_keys (store_list E nw)"
  by (auto simp: only_keys_def start_error_def store_list_def on_start_ext_tables probe_keeps(3) [unfolded keeps_tables_def])

lemma only_keys_each: "(\<And>x. only_keys (f x)) \<Longrightarrow> only_keys (io_each f xs)"
  by (induction xs) (auto intro!: only_keys_bind)

lemma store_put_keys: "only_keys (store_put E nw role g)"
  unfolding only_keys_def store_put_def
proof (intro allI impI)
  fix w r w' assume b: "io_bind (on_start_ext (random_nonce E)) (\<lambda>nonce w.
     case put_key (se_aead E) (se_key E) nonce nw role (signer_address g) (secret g) (sw_keys w) of
       Inl e \<Rightarrow> (Inl e, w) | Inr t \<Rightarrow> (Inr (), w\<lparr>sw_keys := t\<rparr>)) w = (r, w')"
  obtain r1 w1 where m: "on_start_ext (random_nonce E) w = (r1, w1)" by fastforce
  show "sw_db w' = sw_db w \<and> (keys_ok (sw_keys w) \<longrightarrow> keys_ok (sw_keys w'))"
    using b m on_start_ext_tables [OF m] by (cases r1) (auto simp: io_bind_app split: sum.splits dest: key_operations_ok(1))
qed

lemmas only_keys_intros = only_keys_bind only_keys_seq only_keys_each store_put_keys

lemma import_keys: "only_keys (importConfiguredKeys E nw c)"
  by (auto simp: importConfiguredKeys_def import_sponsor_def import_channel_def Let_def intro!: only_keys_intros)

lemma generate_keys_only: "only_keys (generate_keys n E nw)"
  by (induction n) (auto simp: generate_key_def intro!: only_keys_intros)

lemma ensure_keys: "only_keys (ensureDevelopmentKeys E nw n)"
  by (auto simp: ensureDevelopmentKeys_def generate_key_def intro!: only_keys_intros generate_keys_only)

text \<open>How a start may move the table of keys: a reflexive and transitive relation that every write respects.\<close>

definition moves :: "(key_row list \<Rightarrow> key_row list \<Rightarrow> bool) \<Rightarrow> ('x start_world, 'a) io \<Rightarrow> bool" where
  "moves R m = (\<forall>w r w'. m w = (r, w') \<longrightarrow> R (sw_keys w) (sw_keys w'))"

lemma moves_tables: "reflp R \<Longrightarrow> keeps_tables m \<Longrightarrow> moves R m"
  unfolding keeps_tables_def moves_def reflp_def by metis

lemma moves_steps:
  assumes "reflp R"
  shows "moves R (io_return x)" "moves R (Pair (Inr x))" "moves R (start_error e)" "moves R (lift_sum s)" "moves R (on_start_ext m)"
    "moves R (fromSecret E u)" "moves R (store_list E nw)" "moves R (check_keys nw c a b)" "moves R (fund_accounts E nw c ks)"
    "moves R (probe_accounts E c ads)"
proof -
  have l: "keeps_tables (store_list E nw)" "keeps_tables (Pair (Inr x))" by (simp_all add: keeps_tables_def store_list_def)
  show "moves R (io_return x)" "moves R (Pair (Inr x))" "moves R (start_error e)" "moves R (lift_sum s)" "moves R (on_start_ext m)"
      "moves R (fromSecret E u)" "moves R (store_list E nw)" "moves R (check_keys nw c a b)" "moves R (fund_accounts E nw c ks)"
      "moves R (probe_accounts E c ads)"
    by (rule moves_tables [OF assms], simp add: probe_keeps l check_keys_def)+
qed

lemma moves_bind:
  assumes "transp R" "moves R m" "\<And>x w w'. m w = (Inr x, w') \<Longrightarrow> moves R (k x)"
  shows "moves R (io_bind m k)"
  unfolding moves_def
proof (intro allI impI)
  fix w r w' assume b: "io_bind m k w = (r, w')"
  obtain r1 w1 where m: "m w = (r1, w1)" by fastforce
  have 1: "R (sw_keys w) (sw_keys w1)" using assms(2) m by (auto simp: moves_def)
  show "R (sw_keys w) (sw_keys w')"
  proof (cases r1)
    case (Inl e)
    then show ?thesis using b m 1 by (simp add: io_bind_app)
  next
    case (Inr x)
    then have "k x w1 = (r, w')" using b m by (simp add: io_bind_app)
    then have "R (sw_keys w1) (sw_keys w')" using assms(3) m Inr by (auto simp: moves_def)
    then show ?thesis by (rule transpD [OF assms(1) 1])
  qed
qed

lemma moves_seq: "transp R \<Longrightarrow> moves R m \<Longrightarrow> moves R k \<Longrightarrow> moves R (io_seq m k)"
  by (simp add: io_seq_def moves_bind)

lemma moves_each:
  assumes "reflp R" "transp R" "\<And>x. x \<in> set xs \<Longrightarrow> moves R (f x)"
  shows "moves R (io_each f xs)"
  using assms(3)
proof (induction xs)
  case (Cons x xs)
  show ?case unfolding io_each.simps
    by (intro moves_bind assms(2) Cons.prems Cons.IH moves_steps [OF assms(1)]) simp_all
qed (simp add: moves_steps assms(1))

lemma moves_put:
  assumes "reflp R" "\<And>n t t'. put_key (se_aead E) (se_key E) n nw role (signer_address g) (secret g) t = Inr t' \<Longrightarrow> R t t'"
  shows "moves R (store_put E nw role g)"
  unfolding moves_def store_put_def
proof (intro allI impI)
  fix w r w' assume b: "io_bind (on_start_ext (random_nonce E)) (\<lambda>nonce w.
     case put_key (se_aead E) (se_key E) nonce nw role (signer_address g) (secret g) (sw_keys w) of
       Inl e \<Rightarrow> (Inl e, w) | Inr t \<Rightarrow> (Inr (), w\<lparr>sw_keys := t\<rparr>)) w = (r, w')"
  obtain r1 w1 where m: "on_start_ext (random_nonce E) w = (r1, w1)" by fastforce
  have r: "R t t" for t using assms(1) by (simp add: reflp_def)
  show "R (sw_keys w) (sw_keys w')"
    using b m r on_start_ext_tables [OF m] assms(2) by (cases r1) (auto simp: io_bind_app split: sum.splits)
qed

text \<open>The rows of a network that only other networks were started next to.\<close>

definition same_rows :: "string \<Rightarrow> key_row list \<Rightarrow> key_row list \<Rightarrow> bool" where
  "same_rows nw t t' = (filter (\<lambda>r. kr_network r = nw) t' = filter (\<lambda>r. kr_network r = nw) t)"

lemma same_rows_mem:
  assumes "same_rows nw t t'" "kr_network r = nw"
  shows "r \<in> set t' \<longleftrightarrow> r \<in> set t"
proof -
  have "r \<in> set u \<longleftrightarrow> r \<in> set (filter (\<lambda>r. kr_network r = nw) u)" for u using assms(2) by simp
  then show ?thesis using assms(1) unfolding same_rows_def by metis
qed

text \<open>The rows that are new have the accounts of the secrets.\<close>

definition rows_from :: "'x start_env \<Rightarrow> string list \<Rightarrow> key_row list \<Rightarrow> key_row list \<Rightarrow> bool" where
  "rows_from E secrets t t' = (\<forall>r \<in> set t'. r \<in> set t \<or> (\<exists>s \<in> set secrets. from_secret E s = Inr (kr_address r)))"

lemma moves_preorders: "reflp (same_rows nw)" "transp (same_rows nw)" "reflp (rows_from E secrets)" "transp (rows_from E secrets)"
  by (auto simp: same_rows_def rows_from_def reflp_def transp_def)

lemma filter_update_other:
  assumes "\<And>r. p r \<Longrightarrow> \<not> q r" "\<And>r. p r \<Longrightarrow> \<not> q (f r)"
  shows "filter q (update_where p f t) = filter q t"
  using assms by (induction t) (auto simp: update_where_def)

lemma put_key_other:
  assumes "put_key A key n nw1 role ad s t = Inr t'" "nw1 \<noteq> nw"
  shows "same_rows nw t t'"
proof -
  let ?n = "encrypt A key n nw1 role ad s"
  have "t' = t @ [?n] \<or> t' = update_where (key_is nw1 ad) (\<lambda>r. ?n\<lparr>kr_version := kr_version r + 1\<rparr>) t"
    using assms(1) by (auto simp: put_key_def upsert_key_def Let_def split: if_splits)
  moreover have "filter (\<lambda>r. kr_network r = nw) (update_where (key_is nw1 ad) (\<lambda>r. ?n\<lparr>kr_version := kr_version r + 1\<rparr>) t) = filter (\<lambda>r. kr_network r = nw) t"
    by (rule filter_update_other) (use assms(2) in \<open>auto simp: key_is_def\<close>)
  ultimately show ?thesis using assms(2) by (auto simp: same_rows_def)
qed

lemma put_key_from:
  assumes "put_key A key n nw role ad s1 t = Inr t'" "s \<in> set secrets" "from_secret E s = Inr ad"
  shows "rows_from E secrets t t'"
proof -
  let ?n = "encrypt A key n nw role ad s1"
  have u: "upsert_key ?n t = Inr t'" using assms(1) by (simp add: put_key_def)
  have "r \<in> set t \<or> (\<exists>s \<in> set secrets. from_secret E s = Inr (kr_address r))" if "r \<in> set t'" for r
  proof (cases "key_is nw ad r")
    case True
    then show ?thesis using assms(2,3) by (auto simp: key_is_def)
  next
    case False
    then show ?thesis using upsert_key_mem [OF u] that by auto
  qed
  then show ?thesis by (simp add: rows_from_def)
qed

lemma start_moves_other:
  assumes "nw1 \<noteq> nw"
  shows "moves (same_rows nw) (start_network E nw1 c)"
proof -
  note pre = moves_preorders(1,2) [of nw]
  note leaf = moves_steps [OF pre(1)]
  have put: "moves (same_rows nw) (store_put E nw1 role g)" for role g
    by (rule moves_put [OF pre(1)]) (rule put_key_other [OF _ assms])
  have imp: "moves (same_rows nw) (importConfiguredKeys E nw1 c)"
    unfolding importConfiguredKeys_def import_sponsor_def import_channel_def Let_def
    by (auto intro!: moves_bind moves_seq moves_each pre put leaf)
  have gen: "moves (same_rows nw) (generate_keys n E nw1)" for n
    by (induction n) (auto simp: generate_key_def intro!: moves_bind moves_seq pre put leaf)
  have ens: "moves (same_rows nw) (ensureDevelopmentKeys E nw1 n)" for n
    unfolding ensureDevelopmentKeys_def generate_key_def
    by (auto intro!: moves_bind moves_seq pre put gen leaf)
  have syn: "moves (same_rows nw) (sync_channels E nw1 ads)" for ads
    by (auto simp: moves_def sync_channels_def io_modify_def same_rows_def)
  show ?thesis
    unfolding start_network_def Let_def
    by (intro moves_bind moves_seq moves_each imp ens syn pre leaf) (auto intro: ens leaf)
qed

text \<open>What an import writes are the configured secrets.\<close>

definition configured_secrets :: "network_settings \<Rightarrow> string list" where
  "configured_secrets c = (case ns_sponsorSecret c of Some s \<Rightarrow> [s] | None \<Rightarrow> []) @ ns_channelSecrets c"

lemma put_secret:
  assumes "s \<in> set secrets"
  shows "moves (rows_from E secrets) (io_bind (fromSecret E s) (\<lambda>g. if b g then store_put E nw role g else if d g then start_error m else io_return ()))"
proof -
  note pre = moves_preorders(3,4) [of E secrets]
  have "moves (rows_from E secrets) (store_put E nw role g)" if "fromSecret E s w = (Inr g, w')" for g w w'
    using moves_put [OF pre(1)] put_key_from [OF _ assms] fromSecret_Inr [OF that] by metis
  then show ?thesis by (intro moves_bind pre moves_steps [OF pre(1)]) (auto intro: moves_steps [OF pre(1)])
qed

lemma import_moves: "moves (rows_from E (configured_secrets c)) (importConfiguredKeys E nw c)"
proof -
  let ?R = "rows_from E (configured_secrets c)"
  note pre = moves_preorders(3,4) [of E "configured_secrets c"]
  note leaf = moves_steps [OF pre(1)]
  have sp: "moves ?R (import_sponsor E nw c ks)" for ks
  proof (cases "truthy_str (ns_sponsorSecret c)")
    case True
    then have "the (ns_sponsorSecret c) \<in> set (configured_secrets c)" by (auto simp: truthy_str_def configured_secrets_def split: option.splits)
    from put_secret [OF this, of E "\<lambda>_. filter (\<lambda>k. sk_role k = Sponsor_key) ks = []" nw Sponsor_key
        "\<lambda>g. \<not> list_ex (\<lambda>k. sk_address k = signer_address g) (filter (\<lambda>k. sk_role k = Sponsor_key) ks)"]
    show ?thesis using True by (simp add: import_sponsor_def Let_def)
  qed (simp add: import_sponsor_def leaf Let_def)
  have ch: "moves ?R (import_channel E nw ks s)" if "s \<in> set (ns_channelSecrets c)" for ks s
    using put_secret [of s "configured_secrets c" E "\<lambda>g. signer_address g \<notin> set (map sk_address ks)" nw Channel_key "\<lambda>_. False"] that
    by (simp add: import_channel_def configured_secrets_def cong: if_cong)
  show ?thesis unfolding importConfiguredKeys_def
    by (intro moves_bind moves_seq moves_each pre leaf sp ch) simp_all
qed

section \<open>Balances\<close>

text \<open>One after the other, Horizon answered a native balance of at least the configured minimum for each of the accounts.\<close>

fun balances_seen :: "'x start_env \<Rightarrow> network_settings \<Rightarrow> string list \<Rightarrow> 'x start_world \<Rightarrow> 'x start_world \<Rightarrow> bool" where
  "balances_seen E c [] w w' \<longleftrightarrow> w' = w"
| "balances_seen E c (ad # ads) w w' \<longleftrightarrow>
     (\<exists>b w1. nativeBalance E (ns_horizonUrl c) ad w = (Inr b, w1) \<and> ns_channelMinBalance c \<le> b \<and> balances_seen E c ads w1 w')"

lemma assertMinimumBalance_Inr:
  "assertMinimumBalance E url ad least w = (Inr u, w') \<Longrightarrow> \<exists>b. nativeBalance E url ad w = (Inr b, w') \<and> least \<le> b"
  by (auto simp: assertMinimumBalance_def start_error_def elim!: io_bind_InrE split: if_splits)

lemma balances_each:
  "io_each (\<lambda>ad. assertMinimumBalance E (ns_horizonUrl c) ad (ns_channelMinBalance c)) ads w = (Inr us, w') \<Longrightarrow> balances_seen E c ads w w'"
  by (induction ads arbitrary: w us) (auto elim!: io_bind_InrE dest!: assertMinimumBalance_Inr)

lemma probe_accounts_Inr:
  assumes "probe_accounts E c ads w = (Inr u, w')"
  shows "\<exists>wp. balances_seen E c ads wp w'"
  using assms by (auto simp: probe_accounts_def elim!: io_bind_InrE dest!: balances_each)

lemma check_keys_Inr:
  "check_keys nw c sponsors ks w = (Inr u, w') \<Longrightarrow> w' = w \<and> (\<exists>g. sponsors = [g]) \<and> ks \<noteq> [] \<and> (nw = ''stellar:pubnet'' \<longrightarrow> ns_channelAccountCount c \<le> int (length ks))"
  by (auto simp: check_keys_def start_error_def length_Suc_conv split: if_splits)

lemma ensure_list: "ensureDevelopmentKeys E nw n w = (Inr keys, w') \<Longrightarrow> list_keys (se_aead E) (se_key E) nw (sw_keys w') = Inr keys"
  by (auto simp: ensureDevelopmentKeys_def io_seq_def elim!: io_bind_InrE dest: store_list_Inr)

lemma same_keys: "keeps_tables m \<Longrightarrow> m w = (r, w') \<Longrightarrow> sw_keys w' = sw_keys w \<and> sw_db w' = sw_db w"
  by (auto simp: keeps_tables_def)

lemma only_keysD: "only_keys m \<Longrightarrow> m w = (r, w') \<Longrightarrow> sw_db w' = sw_db w \<and> (keys_ok (sw_keys w) \<longrightarrow> keys_ok (sw_keys w'))"
  by (auto simp: only_keys_def)

lemma channel_map:
  assumes s: "list_all2 (\<lambda>k s. from_secret E (sk_secret k) = Inr (signer_address s) \<and> secret s = sk_secret k) ks signers"
  shows "(a \<in> fst ` set (js_map [] (map (\<lambda>s. (signer_address s, s)) signers)) \<longleftrightarrow> (\<exists>k \<in> set ks. from_secret E (sk_secret k) = Inr a))
    \<and> (\<forall>x \<in> set (js_map [] (map (\<lambda>s. (signer_address s, s)) signers)). signer_address (snd x) = fst x)"
proof -
  have "a \<in> signer_address ` set signers \<longleftrightarrow> (\<exists>k \<in> set ks. from_secret E (sk_secret k) = Inr a)"
    using s by (induction ks signers rule: list_all2_induct) auto
  moreover have "x \<in> set (js_map [] (map (\<lambda>s. (signer_address s, s)) signers)) \<Longrightarrow> signer_address (snd x) = fst x" for x
    by (rule js_map_values [of "map (\<lambda>s. (signer_address s, s)) signers"]) auto
  ultimately show ?thesis by (auto simp: js_map_keys image_image)
qed

text \<open>What a start that succeeds has established.\<close>

definition started :: "'x start_env \<Rightarrow> string \<Rightarrow> network_settings \<Rightarrow> 'x start_world \<Rightarrow> network_runtime \<Rightarrow> (string \<times> channel_signer) list \<Rightarrow> stored_key list \<Rightarrow> bool" where
  "started E nw c w' rt chs keys = (list_keys (se_aead E) (se_key E) nw (sw_keys w') = Inr keys
    \<and> (\<exists>g. filter (\<lambda>k. sk_role k = Sponsor_key) keys = [g] \<and> from_secret E (sk_secret g) = Inr (signer_address (sponsor rt)) \<and> secret (sponsor rt) = sk_secret g)
    \<and> filter (\<lambda>k. sk_role k = Channel_key) keys \<noteq> []
    \<and> (nw = ''stellar:pubnet'' \<longrightarrow> ns_channelAccountCount c \<le> int (length (filter (\<lambda>k. sk_role k = Channel_key) keys)))
    \<and> rt = runtime_of c (sponsor rt) chs \<and> chs \<noteq> []
    \<and> (\<forall>a. a \<in> fst ` set chs \<longleftrightarrow> (\<exists>k \<in> set keys. sk_role k = Channel_key \<and> from_secret E (sk_secret k) = Inr a))
    \<and> (\<forall>x \<in> set chs. signer_address (snd x) = fst x)
    \<and> (\<exists>wp. balances_seen E c (signer_address (sponsor rt) # map fst chs) wp w'))"

lemma start_network_facts:
  assumes "start_network E nw c w = (Inr (rt, chs), w')"
  shows "\<exists>keys w1 now. started E nw c w' rt chs keys \<and> importConfiguredKeys E nw c w = (Inr (), w1)
    \<and> (\<not> ns_developmentAutoFund c \<longrightarrow> sw_keys w' = sw_keys w1) \<and> sw_db w' = syncChannels now nw (map fst chs) (sw_db w)
    \<and> (keys_ok (sw_keys w) \<longrightarrow> keys_ok (sw_keys w'))"
proof -
  obtain w1 listed keys w2 w3 w4 w5 spon w6 signers w7 w8 where
      imp: "importConfiguredKeys E nw c w = (Inr (), w1)"
    and lst: "store_list E nw w1 = (Inr listed, w2)"
    and ens: "(if ns_developmentAutoFund c then ensureDevelopmentKeys E nw (ns_channelAccountCount c) else io_return listed) w2 = (Inr keys, w3)"
    and chk: "check_keys nw c (filter (\<lambda>k. sk_role k = Sponsor_key) keys) (filter (\<lambda>k. sk_role k = Channel_key) keys) w3 = (Inr (), w4)"
    and fnd: "fund_accounts E nw c keys w4 = (Inr (), w5)"
    and spn: "fromSecret E (sk_secret (hd (filter (\<lambda>k. sk_role k = Sponsor_key) keys))) w5 = (Inr spon, w6)"
    and sig: "io_each (\<lambda>k. fromSecret E (sk_secret k)) (filter (\<lambda>k. sk_role k = Channel_key) keys) w6 = (Inr signers, w7)"
    and syn: "sync_channels E nw (map fst (js_map [] (map (\<lambda>s. (signer_address s, s)) signers))) w7 = (Inr (), w8)"
    and prb: "probe_accounts E c (signer_address spon # map fst (js_map [] (map (\<lambda>s. (signer_address s, s)) signers))) w8 = (Inr (), w')"
    and out: "chs = js_map [] (map (\<lambda>s. (signer_address s, s)) signers)" "rt = runtime_of c spon chs"
    using assms unfolding start_network_def io_seq_def Let_def by (auto elim!: io_bind_InrE)
  let ?ks = "filter (\<lambda>k. sk_role k = Channel_key) keys"
  have sg: "w7 = w6 \<and> list_all2 (\<lambda>k s. from_secret E (sk_secret k) = Inr (signer_address s) \<and> secret s = sk_secret k) ?ks signers"
    by (rule io_each_pure [OF sig]) (auto dest: fromSecret_Inr)
  have l2: "w2 = w1" "list_keys (se_aead E) (se_key E) nw (sw_keys w1) = Inr listed" using store_list_Inr [OF lst] by simp_all
  have l3: "list_keys (se_aead E) (se_key E) nw (sw_keys w3) = Inr keys" "\<not> ns_developmentAutoFund c \<longrightarrow> sw_keys w3 = sw_keys w1"
      "sw_db w3 = sw_db w1 \<and> (keys_ok (sw_keys w1) \<longrightarrow> keys_ok (sw_keys w3))"
    using ens l2 by (auto split: if_splits dest: ensure_list only_keysD [OF ensure_keys])
  note k4 = check_keys_Inr [OF chk] and k5 = same_keys [OF probe_keeps(2) fnd] and k6 = fromSecret_Inr [OF spn] and k9 = same_keys [OF probe_keeps(1) prb]
  have k8: "sw_keys w8 = sw_keys w7" "sw_db w8 = syncChannels (se_now E (sw_ext w7)) nw (map fst chs) (sw_db w7)"
    using syn by (auto simp: sync_channels_def io_modify_def out(1))
  have keys: "sw_keys w' = sw_keys w3" and db: "sw_db w' = syncChannels (se_now E (sw_ext w7)) nw (map fst chs) (sw_db w)"
    using k4 k5 k6 sg k8 k9 l3(3) only_keysD [OF import_keys imp] by auto
  have sp: "sponsor rt = spon" by (simp add: out(2) runtime_of_def)
  obtain g where g: "filter (\<lambda>k. sk_role k = Sponsor_key) keys = [g]" using k4 by blast
  have fd: "\<exists>wp. balances_seen E c (signer_address spon # map fst chs) wp w'" using probe_accounts_Inr [OF prb] by (simp add: out(1))
  have cm: "\<forall>a. a \<in> fst ` set chs \<longleftrightarrow> (\<exists>k \<in> set keys. sk_role k = Channel_key \<and> from_secret E (sk_secret k) = Inr a)"
      "\<forall>x \<in> set chs. signer_address (snd x) = fst x"
    using channel_map [of E ?ks signers] sg by (auto simp: out(1))
  have "signers \<noteq> []" using sg k4 by auto
  then have ne: "chs \<noteq> []" using js_map_keys [of "[]" "map (\<lambda>s. (signer_address s, s)) signers"] unfolding out(1) by (cases signers) auto
  have "started E nw c w' rt chs keys"
    unfolding started_def sp using ne l3(1) keys g k4 k6 cm fd out(2) by simp
  then show ?thesis using imp l3(2,3) keys db only_keysD [OF import_keys imp] by (intro exI [of _ keys] exI [of _ w1]) auto
qed

section \<open>A disabled channel\<close>

lemma io_each_establish:
  assumes "io_each f xs w = (Inr ys, w')" "x \<in> set xs"
    and "\<And>w y w'. f x w = (Inr y, w') \<Longrightarrow> P w'" "\<And>x w y w'. P w \<Longrightarrow> f x w = (Inr y, w') \<Longrightarrow> P w'"
  shows "P w'"
  using assms(1,2)
proof (induction xs arbitrary: w ys)
  case (Cons x1 xs)
  obtain y w1 zs where f: "f x1 w = (Inr y, w1)" "io_each f xs w1 = (Inr zs, w')"
    using Cons.prems(1) by (auto elim!: io_bind_InrE)
  show ?case
  proof (cases "x \<in> set xs")
    case True
    then show ?thesis using Cons.IH [OF f(2)] by simp
  next
    case False
    then have "P w1" using Cons.prems(2) f(1) assms(3) by auto
    then show ?thesis using io_each_Inr [OF f(2)] assms(4) by metis
  qed
qed simp

text \<open>The key of \<open>ad\<close> is an active channel key whose secret belongs to the address.\<close>

definition has_channel_key :: "'x start_env \<Rightarrow> string \<Rightarrow> string \<Rightarrow> 'x start_world \<Rightarrow> bool" where
  "has_channel_key E nw ad w = (\<exists>r \<in> set (sw_keys w). \<exists>s. kr_network r = nw \<and> kr_active r
     \<and> open_row (se_aead E) (se_key E) r = Inr \<lparr> sk_network = nw, sk_role = Channel_key, sk_address = ad, sk_secret = s \<rparr> \<and> from_secret E s = Inr ad)"

lemma put_channel_key:
  assumes a: "aead_ok (se_aead E)" and p: "store_put E nw Channel_key g w = (Inr u, w')" and g: "from_secret E (secret g) = Inr (signer_address g)"
  shows "has_channel_key E nw (signer_address g) w'" and "has_channel_key E nw ad w \<Longrightarrow> has_channel_key E nw ad w'"
proof -
  let ?e = "\<lambda>n. encrypt (se_aead E) (se_key E) n nw Channel_key (signer_address g) (secret g)"
  obtain n where n: "upsert_key (?e n) (sw_keys w) = Inr (sw_keys w')" using store_put_Inr [OF p] by (auto simp: put_key_def)
  obtain v where "(?e n)\<lparr>kr_version := v\<rparr> \<in> set (sw_keys w')" using upsert_key_mem [OF n] by blast
  then show new: "has_channel_key E nw (signer_address g) w'"
    unfolding has_channel_key_def using open_sealed [OF a] g by (intro bexI [of _ "(?e n)\<lparr>kr_version := v\<rparr>"] exI [of _ "secret g"]) auto
  show "has_channel_key E nw ad w \<Longrightarrow> has_channel_key E nw ad w'"
  proof (cases "ad = signer_address g")
    case False
    assume "has_channel_key E nw ad w"
    then obtain r s where r: "r \<in> set (sw_keys w)" "kr_network r = nw" "kr_active r" "from_secret E s = Inr ad"
        "open_row (se_aead E) (se_key E) r = Inr \<lparr> sk_network = nw, sk_role = Channel_key, sk_address = ad, sk_secret = s \<rparr>"
      by (auto simp: has_channel_key_def)
    have "kr_address r = ad" using open_row_fields [OF r(5)] by simp
    then have "r \<in> set (sw_keys w')" using upsert_key_mem [OF n] r(1) False by (auto simp: key_is_def)
    then show ?thesis using r unfolding has_channel_key_def by blast
  qed (use new in simp)
qed

lemma import_channel_cases:
  assumes "import_channel E nw existing s w = (Inr u, w')"
  obtains g where "from_secret E s = Inr (signer_address g)" "secret g = s"
    "signer_address g \<notin> sk_address ` set existing \<and> store_put E nw Channel_key g w = (Inr (), w') \<or> signer_address g \<in> sk_address ` set existing \<and> w' = w"
proof -
  obtain g w1 where g: "fromSecret E s w = (Inr g, w1)"
    and r: "(if signer_address g \<notin> set (map sk_address existing) then store_put E nw Channel_key g else io_return ()) w1 = (Inr u, w')"
    using assms unfolding import_channel_def by (rule io_bind_InrE)
  note f = fromSecret_Inr [OF g]
  show ?thesis
  proof (rule that [of g])
    show "signer_address g \<notin> sk_address ` set existing \<and> store_put E nw Channel_key g w = (Inr (), w') \<or> signer_address g \<in> sk_address ` set existing \<and> w' = w"
      using f r by (auto split: if_splits)
  qed (use f in simp_all)
qed

lemma import_channel_keeps:
  assumes "aead_ok (se_aead E)" "import_channel E nw existing x w = (Inr u, w')" "has_channel_key E nw ad w"
  shows "has_channel_key E nw ad w'"
proof (rule import_channel_cases [OF assms(2)])
  fix g assume g: "from_secret E x = Inr (signer_address g)" "secret g = x"
    "signer_address g \<notin> sk_address ` set existing \<and> store_put E nw Channel_key g w = (Inr (), w') \<or> signer_address g \<in> sk_address ` set existing \<and> w' = w"
  then have "from_secret E (secret g) = Inr (signer_address g)" by simp
  then show ?thesis using g(3) assms(3) put_channel_key(2) [OF assms(1)] by metis
qed

lemma import_channel_new:
  assumes "aead_ok (se_aead E)" "import_channel E nw existing s w = (Inr u, w')" "from_secret E s = Inr ad" "ad \<notin> sk_address ` set existing"
  shows "has_channel_key E nw ad w'"
proof (rule import_channel_cases [OF assms(2)])
  fix g assume g: "from_secret E s = Inr (signer_address g)" "secret g = s"
    "signer_address g \<notin> sk_address ` set existing \<and> store_put E nw Channel_key g w = (Inr (), w') \<or> signer_address g \<in> sk_address ` set existing \<and> w' = w"
  have a: "signer_address g = ad" using g(1) assms(3) by simp
  then have p: "store_put E nw Channel_key g w = (Inr (), w')" using g(3) assms(4) by simp
  have "from_secret E (secret g) = Inr (signer_address g)" using g by simp
  then show ?thesis using put_channel_key(1) [OF assms(1) p] a by simp
qed

lemma import_brings_back:
  assumes "aead_ok (se_aead E)" "importConfiguredKeys E nw c w = (Inr u, w')" "s \<in> set (ns_channelSecrets c)" "from_secret E s = Inr ad"
    and "\<not> (\<exists>r \<in> set (sw_keys w). key_is nw ad r \<and> kr_active r)"
  shows "has_channel_key E nw ad w'"
proof -
  obtain existing w1 ys where l: "list_keys (se_aead E) (se_key E) nw (sw_keys w) = Inr existing"
    and each: "io_each (import_channel E nw existing) (ns_channelSecrets c) w1 = (Inr ys, w')"
    using assms(2) unfolding importConfiguredKeys_def io_seq_def by (auto elim!: io_bind_InrE dest!: store_list_Inr)
  have "ad \<notin> sk_address ` set existing"
  proof
    assume "ad \<in> sk_address ` set existing"
    then obtain k where k: "k \<in> set existing" "sk_address k = ad" by auto
    then obtain r where "r \<in> set (sw_keys w)" "kr_network r = nw" "kr_active r" "open_row (se_aead E) (se_key E) r = Inr k"
      using list_keys_mem [OF l, of k] by auto
    then show False using assms(5) k(2) open_row_fields [of "se_aead E" "se_key E" r k] by (auto simp: key_is_def)
  qed
  note na = this
  show ?thesis
  proof (rule io_each_establish [OF each assms(3), of "has_channel_key E nw ad"])
    fix w y w' assume "import_channel E nw existing s w = (Inr y, w')"
    then show "has_channel_key E nw ad w'" by (rule import_channel_new [OF assms(1) _ assms(4) na])
  next
    fix x w y w' assume "has_channel_key E nw ad w" "import_channel E nw existing x w = (Inr y, w')"
    then show "has_channel_key E nw ad w'" by (rule import_channel_keeps [OF assms(1), rotated])
  qed
qed

lemma sync_one_unbound:
  assumes "\<forall>c \<in> set t. channel_is nw ad c \<longrightarrow> settlement_record_id c = None \<and> (done1 \<longrightarrow> ch_status c = Idle)"
  shows "\<forall>c \<in> set (sync_one now nw t a). channel_is nw ad c \<longrightarrow> settlement_record_id c = None \<and> (done1 \<or> a = ad \<longrightarrow> ch_status c = Idle)"
proof
  fix c assume "c \<in> set (sync_one now nw t a)"
  then consider "c \<in> set t" "a \<noteq> ch_address c \<or> nw \<noteq> ch_network c \<or> find (channel_is nw a) t = None" | "c = new_channel now nw a"
    | c0 where "c0 \<in> set t" "channel_is nw a c0" "c = c0\<lparr>ch_status := (if settlement_record_id c0 = None then Idle else ch_status c0), ch_updated := now\<rparr>"
    by (auto simp: sync_one_def insert_channel_def update_where_def channel_is_def split: if_splits)
  then show "channel_is nw ad c \<longrightarrow> settlement_record_id c = None \<and> (done1 \<or> a = ad \<longrightarrow> ch_status c = Idle)"
  proof cases
    case 1
    then show ?thesis using assms by (auto simp: channel_is_def find_None_iff)
  next
    case 2
    then show ?thesis by (simp add: new_channel_def)
  next
    case 3
    then show ?thesis using assms by (auto simp: channel_is_def)
  qed
qed

lemma sync_all_unbound:
  assumes "\<forall>c \<in> set t. channel_is nw ad c \<longrightarrow> settlement_record_id c = None \<and> (done1 \<longrightarrow> ch_status c = Idle)"
  shows "\<forall>c \<in> set (foldl (sync_one now nw) t ads). channel_is nw ad c \<longrightarrow> settlement_record_id c = None \<and> (done1 \<or> ad \<in> set ads \<longrightarrow> ch_status c = Idle)"
  using assms
proof (induction ads arbitrary: t done1)
  case (Cons a ads)
  have "\<forall>c \<in> set (sync_one now nw t a). channel_is nw ad c \<longrightarrow> settlement_record_id c = None \<and> ((done1 \<or> a = ad) \<longrightarrow> ch_status c = Idle)"
    using sync_one_unbound [OF Cons.prems] by blast
  from Cons.IH [OF this] show ?case by auto
qed simp

lemma update_where_mem: "x \<in> set (update_where p f t) \<Longrightarrow> \<exists>y \<in> set t. x = (if p y then f y else y)"
  by (auto simp: update_where_def)

lemma synced_channel_idle:
  assumes "\<forall>c \<in> set (channel_accounts d). channel_is nw ad c \<longrightarrow> settlement_record_id c = None" "ad \<in> set ads"
  shows "\<forall>c \<in> set (channel_accounts (syncChannels now nw ads d)). channel_is nw ad c \<longrightarrow> ch_status c = Idle"
proof -
  have "\<forall>c \<in> set (disable_missing now nw ads (channel_accounts d)). channel_is nw ad c \<longrightarrow> settlement_record_id c = None \<and> (False \<longrightarrow> ch_status c = Idle)"
  proof
    fix c assume "c \<in> set (disable_missing now nw ads (channel_accounts d))"
    then obtain c0 where "c0 \<in> set (channel_accounts d)" "ch_network c = ch_network c0" "ch_address c = ch_address c0"
        "settlement_record_id c = settlement_record_id c0"
      unfolding disable_missing_def by (drule_tac update_where_mem) (fastforce split: if_splits)
    then show "channel_is nw ad c \<longrightarrow> settlement_record_id c = None \<and> (False \<longrightarrow> ch_status c = Idle)"
      using assms(1) by (simp add: channel_is_def)
  qed
  from sync_all_unbound [OF this, of now ads] assms(2) show ?thesis by (auto simp: syncChannels_def)
qed

lemma disabled_inactive:
  assumes "keys_ok t" "disableChannel now nw ad d t = Inr (d', t')" "\<exists>r \<in> set t. key_is nw ad r \<and> kr_role r = Channel_key"
  shows "\<not> (\<exists>r \<in> set t'. key_is nw ad r \<and> kr_active r)"
    and "\<forall>c \<in> set (channel_accounts d'). channel_is nw ad c \<longrightarrow> settlement_record_id c = None \<and> ch_status c = Disabled"
proof -
  have e: "t' = update_where (\<lambda>r. key_is nw ad r \<and> kr_role r = Channel_key) (\<lambda>r. r\<lparr>kr_active := False\<rparr>) t"
      "\<forall>c \<in> set (channel_accounts d). channel_is nw ad c \<longrightarrow> settlement_record_id c = None"
      "d' = d\<lparr>channel_accounts := update_where (channel_is nw ad) (\<lambda>c. c\<lparr>ch_status := Disabled, ch_updated := now\<rparr>) (channel_accounts d)\<rparr>"
    using assms(2) by (auto simp: disableChannel_def list_ex_iff split: if_splits)
  obtain r0 where r0: "r0 \<in> set t" "key_is nw ad r0" "kr_role r0 = Channel_key" using assms(3) by blast
  have "r = r0" if "r \<in> set t" "key_is nw ad r" for r
    using assms(1) that r0(1,2) by (auto simp: keys_ok_def key_is_def distinct_map dest: inj_onD)
  note one = this
  show "\<not> (\<exists>r \<in> set t'. key_is nw ad r \<and> kr_active r)"
  proof
    assume "\<exists>r \<in> set t'. key_is nw ad r \<and> kr_active r"
    then obtain r where r: "r \<in> set t'" "key_is nw ad r" "kr_active r" by blast
    obtain r1 where r1: "r1 \<in> set t" "r = (if key_is nw ad r1 \<and> kr_role r1 = Channel_key then r1\<lparr>kr_active := False\<rparr> else r1)"
      using update_where_mem [OF r(1) [unfolded e(1)]] by blast
    have "key_is nw ad r1" using r1(2) r(2) by (simp add: key_is_def split: if_splits)
    then have "r1 = r0" by (rule one [OF r1(1)])
    then show False using r1(2) r(3) r0(2,3) by simp
  qed
  show "\<forall>c \<in> set (channel_accounts d'). channel_is nw ad c \<longrightarrow> settlement_record_id c = None \<and> ch_status c = Disabled"
  proof
    fix c assume "c \<in> set (channel_accounts d')"
    then obtain c0 where c0: "c0 \<in> set (channel_accounts d)" "c = (if channel_is nw ad c0 then c0\<lparr>ch_status := Disabled, ch_updated := now\<rparr> else c0)"
      using update_where_mem [of c "channel_is nw ad"] unfolding e(3) by fastforce
    show "channel_is nw ad c \<longrightarrow> settlement_record_id c = None \<and> ch_status c = Disabled"
    proof
      assume c: "channel_is nw ad c"
      have "channel_is nw ad c0" using c c0(2) by (simp add: channel_is_def split: if_splits)
      then show "settlement_record_id c = None \<and> ch_status c = Disabled" using c0 e(2) by simp
    qed
  qed
qed

text \<open>C23: A disabled channel comes back.  After an operator disabled a channel whose secret is still configured, the next start of
  the network, when it succeeds without generating keys, imports the key again, hands the channel to the settlements and
  marks it idle: disabling lasts only until the restart.\<close>

theorem disabled_channel_comes_back:
  assumes aead: "aead_ok (se_aead E)" and t: "keys_ok t" "\<exists>r \<in> set t. key_is nw ad r \<and> kr_role r = Channel_key"
    and dis: "disableChannel now nw ad d t = Inr (d', t')"
    and s: "s \<in> set (ns_channelSecrets c)" "from_secret E s = Inr ad" and auto: "\<not> ns_developmentAutoFund c"
    and start: "start_network E nw c \<lparr> sw_keys = t', sw_db = d', sw_ext = x \<rparr> = (Inr (rt, chs), w')"
  shows "(\<forall>ch \<in> set (channel_accounts d'). channel_is nw ad ch \<longrightarrow> ch_status ch = Disabled) \<and> ad \<in> fst ` set chs
    \<and> (\<forall>ch \<in> set (channel_accounts (sw_db w')). channel_is nw ad ch \<longrightarrow> ch_status ch = Idle)"
proof -
  obtain keys w1 now2 where st: "started E nw c w' rt chs keys"
    and imp: "importConfiguredKeys E nw c \<lparr> sw_keys = t', sw_db = d', sw_ext = x \<rparr> = (Inr (), w1)" "sw_keys w' = sw_keys w1"
    and db: "sw_db w' = syncChannels now2 nw (map fst chs) d'"
    using start_network_facts [OF start] auto by auto
  have "has_channel_key E nw ad w1" using import_brings_back [OF aead imp(1) s] disabled_inactive(1) [OF t(1) dis t(2)] by simp
  then obtain r s2 where r: "r \<in> set (sw_keys w')" "kr_network r = nw" "kr_active r" "from_secret E s2 = Inr ad"
      "open_row (se_aead E) (se_key E) r = Inr \<lparr> sk_network = nw, sk_role = Channel_key, sk_address = ad, sk_secret = s2 \<rparr>"
    unfolding has_channel_key_def imp(2) by blast
  let ?k = "\<lparr> sk_network = nw, sk_role = Channel_key, sk_address = ad, sk_secret = s2 \<rparr>"
  have l: "list_keys (se_aead E) (se_key E) nw (sw_keys w') = Inr keys" using st by (simp add: started_def)
  have "?k \<in> set keys" using list_keys_mem [OF l, of ?k] r by blast
  moreover have "ad \<in> fst ` set chs \<longleftrightarrow> (\<exists>k \<in> set keys. sk_role k = Channel_key \<and> from_secret E (sk_secret k) = Inr ad)" using st by (simp add: started_def)
  ultimately have "ad \<in> fst ` set chs" using r(4) by (metis stored_key.select_convs(2,4))
  moreover have "\<forall>ch \<in> set (channel_accounts d'). channel_is nw ad ch \<longrightarrow> settlement_record_id ch = None \<and> ch_status ch = Disabled"
    by (rule disabled_inactive(2) [OF t(1) dis t(2)])
  ultimately show ?thesis unfolding db using synced_channel_idle [of d' nw ad "map fst chs" now2] by simp
qed

section \<open>All networks\<close>

text \<open>The start of one network within the start of all: it began in the world \<open>wa\<close> in which the networks before it left the
  tables, ended in \<open>wb\<close> and gave the runtime and the channels.\<close>

definition started_within ::
    "'x start_env \<Rightarrow> (string \<times> network_settings) list \<Rightarrow> 'x start_world \<Rightarrow> 'x start_world \<Rightarrow> string \<Rightarrow> network_settings \<Rightarrow>
     network_runtime \<Rightarrow> (string \<times> channel_signer) list \<Rightarrow> 'x start_world \<Rightarrow> 'x start_world \<Rightarrow> bool" where
  "started_within E cs w w' nw c rt chs wa wb = (\<exists>pre post rs1 rs2. cs = pre @ (nw, c) # post \<and> enabled c
     \<and> start_networks E pre w = (Inr rs1, wa) \<and> start_network E nw c wa = (Inr (rt, chs), wb) \<and> start_networks E post wb = (Inr rs2, w'))"

lemma start_networks_within:
  assumes "start_networks E cs w = (Inr rs, w')" "(nw, rt, chs) \<in> set rs"
  shows "\<exists>c wa wb. started_within E cs w w' nw c rt chs wa wb"
  using assms
proof (induction E cs arbitrary: w rs rule: start_networks.induct)
  case (2 E n c rest)
  show ?case
  proof (cases "enabled c")
    case False
    then have s: "start_networks E rest w = (Inr rs, w')" using "2.prems"(1) by simp
    obtain c1 wa wb where "started_within E rest w w' nw c1 rt chs wa wb" using "2.IH"(1) [OF False s "2.prems"(2)] by blast
    then obtain pre post rs1 rs2 where "rest = pre @ (nw, c1) # post" "enabled c1" "start_networks E pre w = (Inr rs1, wa)"
        "start_network E nw c1 wa = (Inr (rt, chs), wb)" "start_networks E post wb = (Inr rs2, w')"
      unfolding started_within_def by blast
    then show ?thesis using False unfolding started_within_def
      by (intro exI [of _ c1] exI [of _ wa] exI [of _ wb] exI [of _ "(n, c) # pre"] exI [of _ post] exI [of _ rs1] exI [of _ rs2]) simp
  next
    case True
    then obtain r w1 rs2 where h: "start_network E n c w = (Inr r, w1)" "start_networks E rest w1 = (Inr rs2, w')" "rs = (n, r) # rs2"
      using "2.prems"(1) by (auto elim!: io_bind_InrE)
    show ?thesis
    proof (cases "(nw, rt, chs) = (n, r)")
      case eq: True
      then show ?thesis using h(1,2) True unfolding started_within_def
        by (intro exI [of _ c] exI [of _ w] exI [of _ w1] exI [of _ "[]"] exI [of _ rest] exI [of _ "[]"] exI [of _ rs2]) auto
    next
      case False
      then have "(nw, rt, chs) \<in> set rs2" using "2.prems"(2) h(3) by auto
      then obtain c1 wa wb where "started_within E rest w1 w' nw c1 rt chs wa wb" using "2.IH"(2) [OF _ h(2)] True by blast
      then obtain pre post rs1 rs3 where "rest = pre @ (nw, c1) # post" "enabled c1" "start_networks E pre w1 = (Inr rs1, wa)"
          "start_network E nw c1 wa = (Inr (rt, chs), wb)" "start_networks E post wb = (Inr rs3, w')"
        unfolding started_within_def by blast
      then show ?thesis using True h(1) unfolding started_within_def
        by (intro exI [of _ c1] exI [of _ wa] exI [of _ wb] exI [of _ "(n, c) # pre"] exI [of _ post] exI [of _ "(n, r) # rs1"] exI [of _ rs3])
          (simp add: io_bind_app io_return_app)
    qed
  qed
qed simp

lemma start_networks_moves:
  assumes "nw \<notin> fst ` set cs"
  shows "moves (same_rows nw) (start_networks E cs)"
  using assms
proof (induction E cs rule: start_networks.induct)
  case (2 E n c rest)
  have "n \<noteq> nw" "nw \<notin> fst ` set rest" using "2.prems" by auto
  then show ?case using "2.IH" start_moves_other [of n nw E c]
    by (auto intro!: moves_bind moves_preorders moves_steps)
qed (simp add: moves_steps moves_preorders)

lemma start_networks_ok:
  assumes "start_networks E cs w = (Inr rs, w')" "keys_ok (sw_keys w)"
  shows "keys_ok (sw_keys w')"
  using assms
proof (induction E cs arbitrary: w rs rule: start_networks.induct)
  case (2 E n c rest)
  show ?case
  proof (cases "enabled c")
    case False
    then show ?thesis using "2.IH"(1) [OF False] "2.prems" by simp
  next
    case True
    then obtain r w1 rs2 where h: "start_network E n c w = (Inr r, w1)" "start_networks E rest w1 = (Inr rs2, w')"
      using "2.prems"(1) by (auto elim!: io_bind_InrE)
    have "keys_ok (sw_keys w1)" using start_network_facts [of E n c w "fst r" "snd r" w1] h(1) "2.prems"(2) by auto
    then show ?thesis using "2.IH"(2) [OF _ h(2)] True by blast
  qed
qed simp

lemma list_keys_rows: "same_rows nw t t' \<Longrightarrow> list_keys A key nw t' = list_keys A key nw t"
proof -
  have f: "filter (\<lambda>r. kr_network r = nw \<and> kr_active r) u = filter kr_active (filter (\<lambda>r. kr_network r = nw) u)" for u
    by (induction u) auto
  assume "same_rows nw t t'"
  then show ?thesis unfolding list_keys_def f same_rows_def by (simp only:)
qed

text \<open>What the start of all networks has established of one of them, in the table of keys as it is at the end.\<close>

lemma started_within_facts:
  assumes "started_within E cs w w' nw c rt chs wa wb" "distinct (map fst cs)" "keys_ok (sw_keys w)"
  shows "\<exists>keys. started E nw c wb rt chs keys \<and> list_keys (se_aead E) (se_key E) nw (sw_keys w') = Inr keys \<and> keys_ok (sw_keys w')
    \<and> (\<not> ns_developmentAutoFund c \<longrightarrow> (\<forall>r \<in> set (sw_keys w'). kr_network r = nw \<longrightarrow>
         r \<in> set (sw_keys w) \<or> (\<exists>s \<in> set (configured_secrets c). from_secret E s = Inr (kr_address r))))"
proof -
  obtain pre post rs1 rs2 where p: "cs = pre @ (nw, c) # post" "enabled c" "start_networks E pre w = (Inr rs1, wa)"
      "start_network E nw c wa = (Inr (rt, chs), wb)" "start_networks E post wb = (Inr rs2, w')"
    using assms(1) unfolding started_within_def by blast
  have n: "nw \<notin> fst ` set pre" "nw \<notin> fst ` set post" using assms(2) by (auto simp: p(1))
  have a: "same_rows nw (sw_keys w) (sw_keys wa)" "same_rows nw (sw_keys wb) (sw_keys w')"
    using start_networks_moves [OF n(1), of E] start_networks_moves [OF n(2), of E] p(3,5) unfolding moves_def by blast+
  have oa: "keys_ok (sw_keys wa)" using start_networks_ok [OF p(3) assms(3)] .
  obtain keys w1 now where f: "started E nw c wb rt chs keys" "importConfiguredKeys E nw c wa = (Inr (), w1)"
      "\<not> ns_developmentAutoFund c \<longrightarrow> sw_keys wb = sw_keys w1" "keys_ok (sw_keys wb)"
    using start_network_facts [OF p(4)] oa by blast
  have ok: "keys_ok (sw_keys w')" using start_networks_ok [OF p(5) f(4)] .
  have l: "list_keys (se_aead E) (se_key E) nw (sw_keys w') = Inr keys"
    using list_keys_rows [OF a(2)] f(1) by (simp add: started_def)
  have "r \<in> set (sw_keys w) \<or> (\<exists>s \<in> set (configured_secrets c). from_secret E s = Inr (kr_address r))"
    if "\<not> ns_developmentAutoFund c" "r \<in> set (sw_keys w')" "kr_network r = nw" for r
  proof -
    have "r \<in> set (sw_keys w1)" using that same_rows_mem [OF a(2) that(3)] f(3) by simp
    then have "r \<in> set (sw_keys wa) \<or> (\<exists>s \<in> set (configured_secrets c). from_secret E s = Inr (kr_address r))"
      using import_moves f(2) unfolding moves_def rows_from_def by blast
    then show ?thesis using same_rows_mem [OF a(1) that(3)] by blast
  qed
  then show ?thesis using f(1) l ok by blast
qed

text \<open>C22: A started network is ready.  When the networks of a configuration without two of the same name have started on a
  well-formed table of keys, then every network of the registry is enabled in the configuration and runs with it; in the
  table of keys as the start leaves it, it has exactly one active sponsor key, whose account is the sponsor; its channels are
  exactly the accounts of its active channel keys in that table, at least one, on the public network at least as many keys
  as configured; exactly the sponsor and the channels are its internal accounts; simulations run from one of the channels;
  and the last thing its start did was to ask Horizon for the sponsor and for every channel, one after the other, each
  answered with a native balance of at least the configured minimum.\<close>

theorem started_networks_are_ready:
  assumes "initializeRuntimes E cs w = (Inr reg, w')" "(nw, rt) \<in> set (networks reg)" "keys_ok (sw_keys w)" "distinct (map fst cs)"
  shows "\<exists>c chs keys g wa wb wp. keys_ok (sw_keys w') \<and> list_keys (se_aead E) (se_key E) nw (sw_keys w') = Inr keys
    \<and> (nw, c) \<in> set cs \<and> enabled c \<and> (nw, chs) \<in> set (channels reg) \<and> config rt = network_config.truncate c \<and> chs \<noteq> []
    \<and> filter (\<lambda>k. sk_role k = Sponsor_key) keys = [g] \<and> from_secret E (sk_secret g) = Inr (signer_address (sponsor rt)) \<and> secret (sponsor rt) = sk_secret g
    \<and> simulationSource rt \<in> snd ` set chs \<and> set (unsafeInternalAddresses rt) = insert (signer_address (sponsor rt)) (fst ` set chs)
    \<and> fst ` set chs = {a. \<exists>k \<in> set keys. sk_role k = Channel_key \<and> from_secret E (sk_secret k) = Inr a}
    \<and> (nw = ''stellar:pubnet'' \<longrightarrow> ns_channelAccountCount c \<le> int (length (filter (\<lambda>k. sk_role k = Channel_key) keys)))
    \<and> started_within E cs w w' nw c rt chs wa wb \<and> balances_seen E c (signer_address (sponsor rt) # map fst chs) wp wb"
proof -
  obtain rs where rs: "start_networks E cs w = (Inr rs, w')" "reg = \<lparr> networks = map (\<lambda>e. (fst e, fst (snd e))) rs, channels = map (\<lambda>e. (fst e, snd (snd e))) rs \<rparr>"
    using assms(1) by (auto simp: initializeRuntimes_def elim!: io_bind_InrE)
  then obtain chs where e: "(nw, rt, chs) \<in> set rs" using assms(2) by auto
  then have ch: "(nw, chs) \<in> set (channels reg)" using rs(2) by force
  obtain c wa wb where sw: "started_within E cs w w' nw c rt chs wa wb" using start_networks_within [OF rs(1) e] by blast
  then have c: "(nw, c) \<in> set cs" "enabled c" by (auto simp: started_within_def)
  obtain keys where st: "started E nw c wb rt chs keys" and l: "list_keys (se_aead E) (se_key E) nw (sw_keys w') = Inr keys"
      and ok: "keys_ok (sw_keys w')" using started_within_facts [OF sw assms(4,3)] by blast
  have r: "rt = runtime_of c (sponsor rt) chs" and ne: "chs \<noteq> []"
      and pub: "nw = ''stellar:pubnet'' \<longrightarrow> ns_channelAccountCount c \<le> int (length (filter (\<lambda>k. sk_role k = Channel_key) keys))"
    using st by (simp_all add: started_def)
  obtain g wp where g: "filter (\<lambda>k. sk_role k = Sponsor_key) keys = [g]" "from_secret E (sk_secret g) = Inr (signer_address (sponsor rt))"
      "secret (sponsor rt) = sk_secret g" and b: "balances_seen E c (signer_address (sponsor rt) # map fst chs) wp wb"
    using st unfolding started_def by blast
  have a: "fst ` set chs = {a. \<exists>k \<in> set keys. sk_role k = Channel_key \<and> from_secret E (sk_secret k) = Inr a}"
    using st unfolding started_def by blast
  have u: "unsafeInternalAddresses rt = rev (remdups (rev (signer_address (sponsor rt) # map fst chs)))" "config rt = network_config.truncate c"
      "simulationSource rt = snd (hd chs)"
    by (subst r, simp add: runtime_of_def)+
  have sim: "simulationSource rt \<in> snd ` set chs" using ne by (simp add: u(3))
  have int: "set (unsafeInternalAddresses rt) = insert (signer_address (sponsor rt)) (fst ` set chs)" by (simp add: u(1))
  show ?thesis
    by (intro exI [of _ c] exI [of _ chs] exI [of _ keys] exI [of _ g] exI [of _ wa] exI [of _ wb] exI [of _ wp] conjI
        ok l c ch u(2) ne g sim int a pub sw b)
qed

section \<open>A network\<close>

definition demo_aead :: aead where
  "demo_aead = \<lparr> gcm_seal = (\<lambda>k n a s. (s, a)), gcm_open = (\<lambda>k n a c g. if g = a then Inr c else Inl (JsError ''bad tag'')) \<rparr>"

definition demo_start :: "unit start_env" where
  "demo_start = \<lparr> se_aead = demo_aead, se_key = ''k'', from_secret = (\<lambda>s. if s = [] then Inl (JsError ''invalid secret'') else Inr (CHR ''G'' # tl s)),
     random_pair = io_return \<lparr> signer_address = ''G9'', secret = ''S9'' \<rparr>, random_nonce = io_return ''n'', se_now = (\<lambda>_. 7), friendbot = (\<lambda>_ _. io_return 200),
     rpc_account = (\<lambda>_ _. io_return ()), horizon_account = (\<lambda>_ _. io_return (200, JObj [(''balances'', JArr [JObj [(''asset_type'', JStr ''native''),
       (''balance'', JStr ''12.5'')]])])) \<rparr>"

definition demo_settings :: network_settings where
  "demo_settings = \<lparr> n_id = ''t'', enabled = True, uptoContract = None, allowedAssets = [], allowedSettlementHooks = [], c_maxTimeoutSeconds = 300,
     exactFee = \<lparr> maxResourceFeeStroops = 1, maxInclusionFeeStroops = 1, maxTotalFeeStroops = 2 \<rparr>,
     uptoFee = \<lparr> maxResourceFeeStroops = 1, maxInclusionFeeStroops = 1, maxTotalFeeStroops = 2 \<rparr>,
     ns_rpcUrl = ''r'', ns_horizonUrl = ''h'', ns_friendbotUrl = None, ns_developmentAutoFund = False, ns_channelAccountCount = 1,
     ns_channelMinBalance = 50000000, ns_sponsorSecret = Some ''S1'', ns_channelSecrets = [''S2''] \<rparr>"

definition demo_empty_db :: db where
  "demo_empty_db = \<lparr> channel_accounts = [], idempotency_records = [], next_id = 1, sponsor_daily_usage = [], simulation_windows = [], settlement_audit = [] \<rparr>"

definition demo_world :: "key_row list \<Rightarrow> db \<Rightarrow> unit start_world" where
  "demo_world t d = \<lparr> sw_keys = t, sw_db = d, sw_ext = () \<rparr>"

definition demo_table :: "key_row list" where
  "demo_table = [encrypt demo_aead ''k'' ''n'' ''t'' Sponsor_key ''G1'' ''S1'', encrypt demo_aead ''k'' ''n'' ''t'' Channel_key ''G2'' ''S2'']"

lemma six_zeros: "replicate 6 x = [x, x, x, x, x, x]"
  by (simp add: numeral_eq_Suc)

lemma demo_balance: "decimalToStroops ''12.5'' = Inr 125000000"
  by (simp add: decimalToStroops_def digits_value_def is_digit_def digit_val_def six_zeros Let_def)

lemma demo_funded: "assertMinimumBalance demo_start u a 50000000 w = (Inr (), w)"
  by (simp add: assertMinimumBalance_def nativeBalance_def demo_start_def on_start_ext_def js_prop_def js_find_def js_truthy_def demo_balance
      js_display.simps coalesce_def sum_bind_def Let_def io_simps)

lemma demo_env [simp]: "se_aead demo_start = demo_aead" "se_key demo_start = ''k''" "from_secret demo_start ''S1'' = Inr ''G1''" "from_secret demo_start ''S2'' = Inr ''G2''"
    "rpc_account demo_start u a = io_return ()" "random_nonce demo_start = io_return ''n''"
  by (simp_all add: demo_start_def)

lemma demo_list: "list_keys demo_aead ''k'' ''t'' demo_table = Inr [\<lparr> sk_network = ''t'', sk_role = Sponsor_key, sk_address = ''G1'', sk_secret = ''S1'' \<rparr>,
    \<lparr> sk_network = ''t'', sk_role = Channel_key, sk_address = ''G2'', sk_secret = ''S2'' \<rparr>]"
  by (simp add: demo_table_def list_keys_def encrypt_def demo_aead_def open_row_def decrypt_def sum_bind_def)

lemma demo_started: "\<exists>rt chs w'. start_network demo_start ''t'' demo_settings (demo_world demo_table d) = (Inr (rt, chs), w')"
  by (simp add: start_network_def importConfiguredKeys_def import_sponsor_def import_channel_def store_list_def fromSecret_def check_keys_def fund_accounts_def
      sync_channels_def probe_accounts_def demo_funded demo_list truthy_str_def Let_def io_modify_def on_start_ext_def io_simps
      demo_world_def demo_settings_def)

lemma demo_started_keys:
  assumes "start_network demo_start ''t'' demo_settings (demo_world demo_table d) = (Inr (rt, chs), w')"
  shows "sw_keys w' = demo_table \<and> chs = [(''G2'', \<lparr> signer_address = ''G2'', secret = ''S2'' \<rparr>)]"
  using assms
  by (simp add: start_network_def importConfiguredKeys_def import_sponsor_def import_channel_def store_list_def fromSecret_def check_keys_def fund_accounts_def
      sync_channels_def probe_accounts_def demo_funded demo_list truthy_str_def Let_def io_modify_def on_start_ext_def io_simps
      demo_world_def demo_settings_def) auto

theorem started_networks_are_ready_witness:
  "\<exists>reg w' rt. initializeRuntimes demo_start [(''t'', demo_settings)] (demo_world demo_table demo_empty_db) = (Inr reg, w')
    \<and> networks reg = [(''t'', rt)] \<and> config rt = network_config.truncate demo_settings
    \<and> signer_address (sponsor rt) = ''G1'' \<and> (\<exists>wp wb. balances_seen demo_start demo_settings [''G1'', ''G2''] wp wb)"
proof -
  obtain rt chs w' where s: "start_network demo_start ''t'' demo_settings (demo_world demo_table demo_empty_db) = (Inr (rt, chs), w')"
    using demo_started by blast
  have en: "enabled demo_settings" by (simp add: demo_settings_def)
  have i: "initializeRuntimes demo_start [(''t'', demo_settings)] (demo_world demo_table demo_empty_db)
      = (Inr \<lparr> networks = [(''t'', rt)], channels = [(''t'', chs)] \<rparr>, w')"
    using s en by (simp add: initializeRuntimes_def io_simps)
  have k: "keys_ok (sw_keys (demo_world demo_table demo_empty_db))"
    by (simp add: demo_world_def keys_ok_def demo_table_def sponsor_index_def active_sponsor_def)
  have l: "list_keys demo_aead ''k'' ''t'' (sw_keys w') = Inr keys \<Longrightarrow> keys = [\<lparr> sk_network = ''t'', sk_role = Sponsor_key, sk_address = ''G1'', sk_secret = ''S1'' \<rparr>,
      \<lparr> sk_network = ''t'', sk_role = Channel_key, sk_address = ''G2'', sk_secret = ''S2'' \<rparr>]" for keys
    using demo_started_keys [OF s] demo_list by simp
  have c2: "chs = [(''G2'', \<lparr> signer_address = ''G2'', secret = ''S2'' \<rparr>)]" using demo_started_keys [OF s] by simp
  have m: "(''t'', rt) \<in> set (networks \<lparr> networks = [(''t'', rt)], channels = [(''t'', chs)] \<rparr>)"
      "distinct (map fst [(''t'', demo_settings)])" by simp_all
  obtain c chs1 keys g wp wb where f: "list_keys (se_aead demo_start) (se_key demo_start) ''t'' (sw_keys w') = Inr keys"
      "(''t'', c) \<in> set [(''t'', demo_settings)]" "(''t'', chs1) \<in> set (channels \<lparr> networks = [(''t'', rt)], channels = [(''t'', chs)] \<rparr>)"
      "config rt = network_config.truncate c" "filter (\<lambda>k. sk_role k = Sponsor_key) keys = [g]"
      "from_secret demo_start (sk_secret g) = Inr (signer_address (sponsor rt))"
      "balances_seen demo_start c (signer_address (sponsor rt) # map fst chs1) wp wb"
    using started_networks_are_ready [OF i m(1) k m(2)] by (elim exE conjE) (rule that; assumption)
  have "signer_address (sponsor rt) = ''G1''" using f(5,6) l [of keys] f(1) by auto
  moreover have "c = demo_settings" "chs1 = chs" using f(2,3) by simp_all
  ultimately have "balances_seen demo_start demo_settings [''G1'', ''G2''] wp wb" "config rt = network_config.truncate demo_settings"
    using f(4,7) c2 by (simp_all del: balances_seen.simps)
  moreover have "networks \<lparr> networks = [(''t'', rt)], channels = [(''t'', chs)] \<rparr> = [(''t'', rt)]" by simp
  ultimately show ?thesis using i \<open>signer_address (sponsor rt) = ''G1''\<close> by blast
qed

definition demo_disabled :: "key_row list" where
  "demo_disabled = [encrypt demo_aead ''k'' ''n'' ''t'' Sponsor_key ''G1'' ''S1'',
     (encrypt demo_aead ''k'' ''n'' ''t'' Channel_key ''G2'' ''S2'')\<lparr>kr_active := False\<rparr>]"

definition demo_restored :: "key_row list" where
  "demo_restored = [encrypt demo_aead ''k'' ''n'' ''t'' Sponsor_key ''G1'' ''S1'',
     (encrypt demo_aead ''k'' ''n'' ''t'' Channel_key ''G2'' ''S2'')\<lparr>kr_version := 2\<rparr>]"

definition demo_channel_db :: "channel_status \<Rightarrow> db" where
  "demo_channel_db st = demo_empty_db\<lparr>channel_accounts := [(new_channel 5 ''t'' ''G2'')\<lparr>ch_status := st\<rparr>]\<rparr>"

lemma demo_disabled_list: "list_keys demo_aead ''k'' ''t'' demo_disabled = Inr [\<lparr> sk_network = ''t'', sk_role = Sponsor_key, sk_address = ''G1'', sk_secret = ''S1'' \<rparr>]"
  by (simp add: demo_disabled_def list_keys_def encrypt_def demo_aead_def open_row_def decrypt_def sum_bind_def)

lemma demo_restored_list: "list_keys demo_aead ''k'' ''t'' demo_restored = Inr [\<lparr> sk_network = ''t'', sk_role = Sponsor_key, sk_address = ''G1'', sk_secret = ''S1'' \<rparr>,
    \<lparr> sk_network = ''t'', sk_role = Channel_key, sk_address = ''G2'', sk_secret = ''S2'' \<rparr>]"
  by (simp add: demo_restored_def list_keys_def encrypt_def demo_aead_def open_row_def decrypt_def sum_bind_def)

lemma demo_put: "put_key demo_aead ''k'' ''n'' ''t'' Channel_key ''G2'' ''S2'' demo_disabled = Inr demo_restored"
  by (simp add: demo_disabled_def demo_restored_def put_key_def upsert_key_def encrypt_def demo_aead_def key_is_def update_where_def sponsor_index_def
      active_sponsor_def Let_def)

lemma demo_disable: "disableChannel 6 ''t'' ''G2'' (demo_channel_db Idle) demo_table
    = Inr (demo_empty_db\<lparr>channel_accounts := [(new_channel 5 ''t'' ''G2'')\<lparr>ch_status := Disabled, ch_updated := 6\<rparr>]\<rparr>, demo_disabled)"
  by (simp add: disableChannel_def demo_channel_db_def demo_empty_db_def demo_table_def demo_disabled_def new_channel_def channel_is_def update_where_def
      encrypt_def demo_aead_def key_is_def)

lemma demo_restarted: "\<exists>rt chs w'. start_network demo_start ''t'' demo_settings \<lparr> sw_keys = demo_disabled, sw_db = d, sw_ext = () \<rparr> = (Inr (rt, chs), w')"
  by (simp add: start_network_def importConfiguredKeys_def import_sponsor_def import_channel_def store_list_def store_put_def fromSecret_def check_keys_def
      fund_accounts_def sync_channels_def probe_accounts_def demo_funded demo_disabled_list demo_restored_list demo_put truthy_str_def Let_def io_modify_def
      on_start_ext_def io_simps demo_settings_def)

theorem disabled_channel_comes_back_witness:
  "\<exists>d' t' rt chs w'. disableChannel 6 ''t'' ''G2'' (demo_channel_db Idle) demo_table = Inr (d', t')
    \<and> start_network demo_start ''t'' demo_settings \<lparr> sw_keys = t', sw_db = d', sw_ext = () \<rparr> = (Inr (rt, chs), w') \<and> ''G2'' \<in> fst ` set chs"
proof -
  let ?d = "demo_empty_db\<lparr>channel_accounts := [(new_channel 5 ''t'' ''G2'')\<lparr>ch_status := Disabled, ch_updated := 6\<rparr>]\<rparr>"
  obtain rt chs w' where s: "start_network demo_start ''t'' demo_settings \<lparr> sw_keys = demo_disabled, sw_db = ?d, sw_ext = () \<rparr> = (Inr (rt, chs), w')"
    using demo_restarted [of ?d] by blast
  have a: "aead_ok (se_aead demo_start)" by (simp add: aead_ok_def demo_aead_def)
  have k: "keys_ok demo_table" by (simp add: keys_ok_def demo_table_def sponsor_index_def active_sponsor_def)
  have r: "\<exists>r \<in> set demo_table. key_is ''t'' ''G2'' r \<and> kr_role r = Channel_key" by (simp add: demo_table_def key_is_def)
  have c: "''S2'' \<in> set (ns_channelSecrets demo_settings)" "from_secret demo_start ''S2'' = Inr ''G2''" "\<not> ns_developmentAutoFund demo_settings"
    by (simp_all add: demo_settings_def)
  have "''G2'' \<in> fst ` set chs" using disabled_channel_comes_back [OF a k r demo_disable c s] by blast
  then show ?thesis using s demo_disable by blast
qed

end
