(* ===== verification/Config_Schema.thy ===== *)
theory Config_Schema
  imports Runtime_Init Search_Service Discovery_Routes Http_App JS_Number
begin

text \<open>
  The schemas of the configuration of the facilitator (facilitator/src/config.ts).  A raw section is what its schema answers for the
  YAML file, with defaults filled in; the constraints of a schema are its predicate and the URL parser is its parameter.
\<close>

section \<open>Raw sections\<close>

text \<open>An amount is a text, which is not checked, or a positive number.\<close>

datatype raw_amount = Amount_text string | Amount_number int

record raw_fee =
  xf_max_resource :: raw_amount
  xf_max_inclusion :: raw_amount
  xf_max_total :: raw_amount

record raw_asset =
  xa_contract :: string
  xa_symbol :: string
  xa_decimals :: int
  xa_max_payment :: raw_amount

record raw_network =
  xn_enabled :: bool
  xn_rpc_url :: string
  xn_horizon_url :: string
  xn_friendbot_url :: "string option"
  xn_development_auto_fund :: bool
  xn_channel_account_count :: int
  xn_channel_min_balance :: raw_amount
  xn_sponsor_secret_env :: "string option"
  xn_channel_secrets_env :: "string option"
  xn_upto_contract :: "string option"
  xn_upto_contract_env :: "string option"
  xn_fee_ceilings_calibrated :: bool
  xn_allowed_settlement_hooks :: "string list"
  xn_max_timeout_seconds :: int
  xn_assets :: "raw_asset list"
  xn_exact_fee :: raw_fee
  xn_upto_fee :: raw_fee

record raw_indexing =
  xi_auto_catalog :: bool
  xi_index_on_verified :: bool
  xi_require_valid_schema :: bool
  xi_duplicate_reject :: bool
  xi_stale_after_hours :: int
  xi_max_metadata_bytes :: int
  xi_max_description_length :: int
  xi_max_schema_bytes :: int
  xi_max_example_bytes :: int
  xi_max_json_depth :: int
  xi_max_tags :: int
  xi_max_tag_length :: int
  xi_max_icon_url_length :: int
  xi_max_service_name_length :: int
  xi_max_route_template_length :: int
  xi_version_retention_days :: int
  xi_observation_retention_days :: int

record raw_security =
  xc_require_https_origins :: bool
  xc_allow_local_origins :: bool

record raw_discovery =
  xd_enabled :: bool
  xd_default_page_size :: int
  xd_max_page_size :: int
  xd_cursor_ttl_minutes :: int
  xd_include_stale :: bool
  xd_include_unverified :: bool
  xd_cursor_hmac_key_env :: string

datatype provider_kind = Provider_disabled | Provider_local | Provider_remote | Provider_fake

record raw_lexical =
  xl_enabled :: bool
  xl_language :: string
  xl_weight :: rat
  xl_candidate_count :: int

record raw_semantic =
  xe_enabled :: bool
  xe_provider :: provider_kind
  xe_model :: string
  xe_repo :: string
  xe_revision :: string
  xe_dimension :: int
  xe_pooling_mean :: bool
  xe_normalization_none :: bool
  xe_weight :: rat
  xe_timeout_ms :: int
  xe_candidate_count :: int
  xe_max_distance :: rat
  xe_remote_url_env :: string
  xe_remote_api_key_env :: string

record raw_reranking =
  xr_enabled :: bool
  xr_provider :: provider_kind
  xr_model :: string
  xr_repo :: string
  xr_revision :: string
  xr_top_k :: int
  xr_timeout_ms :: int
  xr_fallback_to_hybrid :: bool
  xr_remote_url_env :: string
  xr_remote_api_key_env :: string

text \<open>Sections that are copied member by member have one record for both sides.\<close>

record impression_settings =
  ims_enabled :: bool
  ims_retain_query_text :: bool
  ims_retention_days :: int

record model_settings =
  ms_cache_dir :: string
  ms_offline :: bool
  ms_dtype :: string
  ms_require_pinned_revision :: bool

record queue_settings =
  qs_batch_size :: int
  qs_worker_concurrency :: int
  qs_poll_ms :: int
  qs_lease_ms :: int
  qs_max_attempts :: int
  qs_backoff_base_ms :: int
  qs_backoff_max_ms :: int
  qs_reindex_at_startup :: bool

record raw_search =
  xs_lexical :: raw_lexical
  xs_semantic :: raw_semantic
  xs_reranking :: raw_reranking
  xs_rrf_k :: int
  xs_minimum_relevance_score :: rat
  xs_default_result_limit :: "int option"
  xs_maximum_result_limit :: "int option"
  xs_origin_diversity_limit :: int
  xs_impressions :: impression_settings
  xs_models :: model_settings
  xs_indexing :: queue_settings

record analytics_settings =
  an_enabled :: bool
  an_default_page_size :: int
  an_max_page_size :: int
  an_redact_addresses :: bool

record raw_limits =
  xm_max_request_bytes :: int
  xm_max_concurrent_simulations :: int
  xm_max_simulations_per_key_per_minute :: int
  xm_max_sponsored_per_key_per_day :: raw_amount
  xm_max_global_sponsored_per_day :: raw_amount
  xm_max_pending_settlements :: int
  xm_channel_lease_ms :: int
  xm_settle_poll_ms :: int
  xm_settle_timeout_ms :: int

record raw_facilitator =
  xx_port :: int
  xx_database_url_env :: string
  xx_api_keys_env :: string
  xx_key_encryption_key_env :: string
  xx_indexing :: raw_indexing
  xx_security :: raw_security
  xx_discovery :: raw_discovery
  xx_search :: raw_search
  xx_analytics :: analytics_settings
  xx_limits :: raw_limits
  xx_testnet :: raw_network
  xx_pubnet :: raw_network

section \<open>Schemas\<close>

definition in_bounds :: "int \<Rightarrow> int \<Rightarrow> int \<Rightarrow> bool" where
  "in_bounds low high n = (low \<le> n \<and> n \<le> high)"

definition share :: "rat \<Rightarrow> rat \<Rightarrow> bool" where
  "share high x = (0 \<le> x \<and> x \<le> high)"

definition amount_schema :: "raw_amount \<Rightarrow> bool" where
  "amount_schema a = (case a of Amount_text _ \<Rightarrow> True | Amount_number n \<Rightarrow> 0 < n)"

definition feeSchema :: "raw_fee \<Rightarrow> bool" where
  "feeSchema f = list_all amount_schema [xf_max_resource f, xf_max_inclusion f, xf_max_total f]"

definition asset_schema :: "raw_asset \<Rightarrow> bool" where
  "asset_schema a = (strkey_pattern ''C'' (xa_contract a) \<and> xa_symbol a \<noteq> [] \<and> in_bounds 0 18 (xa_decimals a) \<and> amount_schema (xa_max_payment a))"

definition networkSchema :: "(string \<Rightarrow> bool) \<Rightarrow> raw_network \<Rightarrow> bool" where
  "networkSchema url n = (url (xn_rpc_url n) \<and> url (xn_horizon_url n) \<and> pred_option url (xn_friendbot_url n)
     \<and> in_bounds 1 100 (xn_channel_account_count n) \<and> amount_schema (xn_channel_min_balance n)
     \<and> pred_option (strkey_pattern ''C'') (xn_upto_contract n)
     \<and> list_all (strkey_pattern ''C'') (xn_allowed_settlement_hooks n) \<and> in_bounds 1 2000000 (xn_max_timeout_seconds n)
     \<and> xn_assets n \<noteq> [] \<and> list_all asset_schema (xn_assets n) \<and> feeSchema (xn_exact_fee n) \<and> feeSchema (xn_upto_fee n))"

definition indexingSchema :: "raw_indexing \<Rightarrow> bool" where
  "indexingSchema i = (in_bounds 1 87600 (xi_stale_after_hours i) \<and> in_bounds 1 4194304 (xi_max_metadata_bytes i)
     \<and> in_bounds 1 65536 (xi_max_description_length i) \<and> in_bounds 1 1048576 (xi_max_schema_bytes i)
     \<and> in_bounds 1 1048576 (xi_max_example_bytes i) \<and> in_bounds 1 64 (xi_max_json_depth i) \<and> in_bounds 1 5 (xi_max_tags i)
     \<and> in_bounds 1 32 (xi_max_tag_length i) \<and> in_bounds 1 2048 (xi_max_icon_url_length i) \<and> in_bounds 1 32 (xi_max_service_name_length i)
     \<and> in_bounds 1 2048 (xi_max_route_template_length i) \<and> 0 < xi_version_retention_days i \<and> 0 < xi_observation_retention_days i)"

definition discoverySchema :: "raw_discovery \<Rightarrow> bool" where
  "discoverySchema d = (in_bounds 1 200 (xd_default_page_size d) \<and> in_bounds 1 200 (xd_max_page_size d) \<and> in_bounds 1 1440 (xd_cursor_ttl_minutes d))"

definition searchSchema :: "raw_search \<Rightarrow> bool" where
  "searchSchema s = (let l = xs_lexical s; e = xs_semantic s; r = xs_reranking s; q = xs_indexing s in
     xl_language l \<noteq> [] \<and> share 1 (xl_weight l) \<and> in_bounds 1 1000 (xl_candidate_count l)
     \<and> xe_model e \<noteq> [] \<and> in_bounds 1 16000 (xe_dimension e) \<and> share 1 (xe_weight e) \<and> in_bounds 1 60000 (xe_timeout_ms e)
     \<and> in_bounds 1 1000 (xe_candidate_count e) \<and> share 2 (xe_max_distance e)
     \<and> xr_model r \<noteq> [] \<and> in_bounds 1 500 (xr_top_k r) \<and> in_bounds 1 60000 (xr_timeout_ms r)
     \<and> in_bounds 1 10000 (xs_rrf_k s) \<and> 0 \<le> xs_minimum_relevance_score s
     \<and> pred_option (in_bounds 1 200) (xs_default_result_limit s) \<and> pred_option (in_bounds 1 200) (xs_maximum_result_limit s)
     \<and> in_bounds 1 100 (xs_origin_diversity_limit s) \<and> in_bounds 1 3650 (ims_retention_days (xs_impressions s))
     \<and> in_bounds 1 512 (qs_batch_size q) \<and> in_bounds 1 16 (qs_worker_concurrency q) \<and> in_bounds 1 600000 (qs_poll_ms q)
     \<and> in_bounds 1 600000 (qs_lease_ms q) \<and> in_bounds 1 50 (qs_max_attempts q) \<and> in_bounds 1 600000 (qs_backoff_base_ms q)
     \<and> in_bounds 1 3600000 (qs_backoff_max_ms q))"

definition analyticsSchema :: "analytics_settings \<Rightarrow> bool" where
  "analyticsSchema a = (in_bounds 1 500 (an_default_page_size a) \<and> in_bounds 1 500 (an_max_page_size a))"

definition limits_schema :: "raw_limits \<Rightarrow> bool" where
  "limits_schema l = (0 < xm_max_request_bytes l \<and> 0 < xm_max_concurrent_simulations l \<and> 0 < xm_max_simulations_per_key_per_minute l
     \<and> amount_schema (xm_max_sponsored_per_key_per_day l) \<and> amount_schema (xm_max_global_sponsored_per_day l)
     \<and> 0 < xm_max_pending_settlements l \<and> 0 < xm_channel_lease_ms l \<and> 0 < xm_settle_poll_ms l \<and> 0 < xm_settle_timeout_ms l)"

definition rawSchema :: "(string \<Rightarrow> bool) \<Rightarrow> raw_facilitator \<Rightarrow> bool" where
  "rawSchema url x = (in_bounds 1 65535 (xx_port x) \<and> indexingSchema (xx_indexing x) \<and> discoverySchema (xx_discovery x) \<and> searchSchema (xx_search x)
     \<and> analyticsSchema (xx_analytics x) \<and> limits_schema (xx_limits x) \<and> networkSchema url (xx_testnet x) \<and> networkSchema url (xx_pubnet x))"

text \<open>The defaults of the sections that have them all.\<close>

definition default_indexing :: raw_indexing where
  "default_indexing = \<lparr> xi_auto_catalog = True, xi_index_on_verified = True, xi_require_valid_schema = True, xi_duplicate_reject = False,
     xi_stale_after_hours = 168, xi_max_metadata_bytes = 131072, xi_max_description_length = 4000, xi_max_schema_bytes = 65536,
     xi_max_example_bytes = 16384, xi_max_json_depth = 32, xi_max_tags = 5, xi_max_tag_length = 32, xi_max_icon_url_length = 2048,
     xi_max_service_name_length = 32, xi_max_route_template_length = 512, xi_version_retention_days = 365, xi_observation_retention_days = 90 \<rparr>"

definition default_security :: raw_security where
  "default_security = \<lparr> xc_require_https_origins = True, xc_allow_local_origins = False \<rparr>"

definition default_discovery :: raw_discovery where
  "default_discovery = \<lparr> xd_enabled = True, xd_default_page_size = 20, xd_max_page_size = 50, xd_cursor_ttl_minutes = 15, xd_include_stale = False,
     xd_include_unverified = False, xd_cursor_hmac_key_env = ''FACILITATOR_CURSOR_HMAC_KEY'' \<rparr>"

definition default_search :: raw_search where
  "default_search = \<lparr>
     xs_lexical = \<lparr> xl_enabled = True, xl_language = ''simple'', xl_weight = 7 / 10, xl_candidate_count = 250 \<rparr>,
     xs_semantic = \<lparr> xe_enabled = True, xe_provider = Provider_local, xe_model = ''BAAI/bge-m3'', xe_repo = ''Xenova/bge-m3'',
       xe_revision = ''4de13258303883538bd53b696b452bf8099f0858'', xe_dimension = 1024, xe_pooling_mean = False, xe_normalization_none = False,
       xe_weight = 3 / 10, xe_timeout_ms = 500, xe_candidate_count = 250, xe_max_distance = 9 / 10,
       xe_remote_url_env = ''FACILITATOR_EMBEDDING_URL'', xe_remote_api_key_env = ''FACILITATOR_EMBEDDING_API_KEY'' \<rparr>,
     xs_reranking = \<lparr> xr_enabled = False, xr_provider = Provider_local, xr_model = ''BAAI/bge-reranker-v2-m3'', xr_repo = [],
       xr_revision = ''953dc6f6f85a1b2dbfca4c34a2796e7dde08d41e'', xr_top_k = 30, xr_timeout_ms = 800, xr_fallback_to_hybrid = True,
       xr_remote_url_env = ''FACILITATOR_RERANKER_URL'', xr_remote_api_key_env = ''FACILITATOR_RERANKER_API_KEY'' \<rparr>,
     xs_rrf_k = 20, xs_minimum_relevance_score = 0, xs_default_result_limit = None, xs_maximum_result_limit = None, xs_origin_diversity_limit = 3,
     xs_impressions = \<lparr> ims_enabled = True, ims_retain_query_text = True, ims_retention_days = 90 \<rparr>,
     xs_models = \<lparr> ms_cache_dir = ''.models'', ms_offline = False, ms_dtype = ''q8'', ms_require_pinned_revision = True \<rparr>,
     xs_indexing = \<lparr> qs_batch_size = 32, qs_worker_concurrency = 1, qs_poll_ms = 500, qs_lease_ms = 30000, qs_max_attempts = 5,
       qs_backoff_base_ms = 1000, qs_backoff_max_ms = 300000, qs_reindex_at_startup = False \<rparr> \<rparr>"

definition default_analytics :: analytics_settings where
  "default_analytics = \<lparr> an_enabled = True, an_default_page_size = 50, an_max_page_size = 200, an_redact_addresses = False \<rparr>"

definition default_limits :: raw_limits where
  "default_limits = \<lparr> xm_max_request_bytes = 262144, xm_max_concurrent_simulations = 20, xm_max_simulations_per_key_per_minute = 30,
     xm_max_sponsored_per_key_per_day = Amount_text ''5000000'', xm_max_global_sponsored_per_day = Amount_text ''200000000'',
     xm_max_pending_settlements = 1000, xm_channel_lease_ms = 30000, xm_settle_poll_ms = 1000, xm_settle_timeout_ms = 30000 \<rparr>"

end
