(* ===== verification/Facilitator_Config.thy ===== *)
theory Facilitator_Config
  imports Config_Schema
begin

text \<open>
  Loading the configuration (facilitator/src/config.ts): the checks and the mapping after the schema.  The environment,
  SHA-256 (raw digest), the URL parser and the generated instance name are parameters; the file that is read is given
  by its raw sections.
\<close>

record config_env =
  ce_env :: "string \<Rightarrow> string option"
  ce_sha :: "string \<Rightarrow> string"
  ce_url :: "string \<Rightarrow> bool"
  ce_instance :: string

text \<open>What the catalog configuration has beside what extraction reads.\<close>

record catalog_settings = catalog_config +
  cs_staleAfterHours :: int
  cs_inactiveVersionRetentionDays :: int
  cs_observationRetentionDays :: int

record provider_settings =
  ps_provider :: provider_kind
  ps_modelId :: string
  ps_repo :: string
  ps_revision :: string
  ps_remoteUrl :: "string option"
  ps_remoteApiKey :: "string option"

record search_settings = search_config +
  se_semantic :: provider_settings
  se_dimension :: int
  se_pooling_mean :: bool
  se_normalization_none :: bool
  se_reranking :: provider_settings
  se_models :: model_settings
  se_indexing :: queue_settings

record facilitator_settings =
  fs_port :: int
  fs_databaseUrl :: string
  fs_apiKeys :: "string list"
  fs_keyEncryptionKey :: string
  fs_instanceId :: string
  fs_networks :: "(string \<times> network_settings) list"
  fs_catalog :: catalog_settings
  fs_discovery :: discovery_config
  fs_search :: search_settings
  fs_analytics :: analytics_settings
  fs_maxRequestBytes :: int
  fs_limits :: limits

definition config_error :: "string \<Rightarrow> exn + 'a" where
  "config_error m = Inl (JsError m)"

definition refuse_when :: "bool \<Rightarrow> string \<Rightarrow> exn + 'a \<Rightarrow> exn + 'a" where
  "refuse_when b m k = (if b then config_error m else k)"

definition given_text :: "string option \<Rightarrow> string option" where
  "given_text v = (if truthy_str v then v else None)"

section \<open>Amounts and fees\<close>

definition to_bigint :: "raw_amount \<Rightarrow> exn + int" where
  "to_bigint a = (case a of Amount_number n \<Rightarrow> Inr n
   | Amount_text s \<Rightarrow> (case js_BigInt s of Some n \<Rightarrow> Inr n | None \<Rightarrow> config_error (''Cannot convert '' @ s @ '' to a BigInt'')))"

definition fee :: "raw_fee \<Rightarrow> exn + fee_profile" where
  "fee f = sum_bind (to_bigint (xf_max_resource f)) (\<lambda>r. sum_bind (to_bigint (xf_max_inclusion f)) (\<lambda>i. sum_bind (to_bigint (xf_max_total f)) (\<lambda>t.
     refuse_when (t < r + i) ''max_total_fee_stroops must cover resource plus inclusion ceilings''
     (Inr \<lparr> maxResourceFeeStroops = r, maxInclusionFeeStroops = i, maxTotalFeeStroops = t \<rparr>))))"

section \<open>Keys\<close>

definition development_key_text :: string where
  "development_key_text = ''x402-testnet-development-key-only''"

definition encryptionKey :: "config_env \<Rightarrow> string \<Rightarrow> exn + string" where
  "encryptionKey E name = (let configured = ce_env E name in
     if \<not> truthy_str configured then
       refuse_when (ce_env E ''NODE_ENV'' = Some ''production'') (name @ '' is required in production'') (Inr (ce_sha E development_key_text))
     else let decoded = from_base64url (the configured) in
       refuse_when (length decoded \<noteq> 32) (name @ '' must be a base64-encoded 32-byte key'') (Inr decoded))"

definition cursorKey :: "config_env \<Rightarrow> string \<Rightarrow> string \<Rightarrow> exn + string" where
  "cursorKey E name key = (let configured = ce_env E name in
     if \<not> truthy_str configured then Inr (ce_sha E (''x402-discovery-cursor-v1'' @ [CHR 0x00] @ key))
     else let decoded = from_base64url (the configured) in
       refuse_when (length decoded < 32) (name @ '' must be a base64-encoded 32-byte key'') (Inr decoded))"

section \<open>Sections\<close>

definition mapCatalog :: "raw_indexing \<Rightarrow> raw_security \<Rightarrow> catalog_settings" where
  "mapCatalog i c = \<lparr> cg_autoCatalog = xi_auto_catalog i, indexOn_verified = xi_index_on_verified i, requireValidSchema = xi_require_valid_schema i,
     duplicateChanged_reject = xi_duplicate_reject i, maxMetadataBytes = nat (xi_max_metadata_bytes i),
     maxDescriptionLength = nat (xi_max_description_length i), maxSchemaBytes = nat (xi_max_schema_bytes i),
     maxExampleBytes = nat (xi_max_example_bytes i), maxJsonDepth = nat (xi_max_json_depth i), maxTags = nat (xi_max_tags i),
     maxTagLength = nat (xi_max_tag_length i), maxIconUrlLength = nat (xi_max_icon_url_length i),
     maxServiceNameLength = nat (xi_max_service_name_length i), maxRouteTemplateLength = nat (xi_max_route_template_length i),
     requireHttpsOrigins = xc_require_https_origins c, allowLocalOrigins = xc_allow_local_origins c,
     cs_staleAfterHours = xi_stale_after_hours i, cs_inactiveVersionRetentionDays = xi_version_retention_days i,
     cs_observationRetentionDays = xi_observation_retention_days i \<rparr>"

text \<open>The routes read the age at which a resource is stale from the catalog section; the model keeps it beside their own.\<close>

definition mapDiscovery :: "config_env \<Rightarrow> int \<Rightarrow> raw_discovery \<Rightarrow> string \<Rightarrow> exn + discovery_config" where
  "mapDiscovery E stale d key =
     refuse_when (xd_max_page_size d < xd_default_page_size d) ''discovery.default_page_size must not exceed discovery.max_page_size''
    (sum_bind (cursorKey E (xd_cursor_hmac_key_env d) key) (\<lambda>hmac. Inr
       \<lparr> dc_enabled = xd_enabled d, defaultPageSize = nat (xd_default_page_size d), maxPageSize = nat (xd_max_page_size d),
         cursorTtlMinutes = xd_cursor_ttl_minutes d, dc_includeStale = xd_include_stale d, dc_includeUnverified = xd_include_unverified d,
         cursorHmacKey = hmac, dc_staleAfterHours = stale \<rparr>))"

definition commit_sha :: "string \<Rightarrow> bool" where
  "commit_sha s = (length s = 40 \<and> list_all (\<lambda>c. c \<in> set ''0123456789abcdef'') s)"

text \<open>The answer of mapSearch once its checks have passed.\<close>

definition search_of :: "config_env \<Rightarrow> raw_search \<Rightarrow> nat \<Rightarrow> nat \<Rightarrow> search_settings" where
  "search_of E s defaultLimit maximumLimit = (let l = xs_lexical s; e = xs_semantic s; r = xs_reranking s;
       semanticUrl = ce_env E (xe_remote_url_env e); semanticKey = ce_env E (xe_remote_api_key_env e);
       rerankUrl = ce_env E (xr_remote_url_env r); rerankKey = ce_env E (xr_remote_api_key_env r) in
     \<lparr> lexical_enabled = xl_enabled l, lexical_language = xl_language l, lexical_weight = xl_weight l,
       lexical_candidateCount = nat (xl_candidate_count l), semantic_enabled = xe_enabled e, semantic_weight = xe_weight e,
       semantic_timeoutMs = xe_timeout_ms e, semantic_candidateCount = nat (xe_candidate_count e), semantic_maxDistance = xe_max_distance e,
       reranking_enabled = xr_enabled r, reranking_topK = nat (xr_top_k r), reranking_timeoutMs = xr_timeout_ms r,
       fallbackToHybrid = xr_fallback_to_hybrid r, rrfK = of_int (xs_rrf_k s), minimumRelevanceScore = xs_minimum_relevance_score s,
       defaultResultLimit = defaultLimit, maximumResultLimit = maximumLimit, originDiversityLimit = xs_origin_diversity_limit s,
       impressions_enabled = ims_enabled (xs_impressions s), retainQueryText = ims_retain_query_text (xs_impressions s),
       retentionDays = ims_retention_days (xs_impressions s),
       se_semantic = \<lparr> ps_provider = xe_provider e, ps_modelId = xe_model e, ps_repo = xe_repo e, ps_revision = xe_revision e,
         ps_remoteUrl = given_text semanticUrl, ps_remoteApiKey = given_text semanticKey \<rparr>,
       se_dimension = xe_dimension e, se_pooling_mean = xe_pooling_mean e, se_normalization_none = xe_normalization_none e,
       se_reranking = \<lparr> ps_provider = xr_provider r, ps_modelId = xr_model r, ps_repo = xr_repo r, ps_revision = xr_revision r,
         ps_remoteUrl = given_text rerankUrl, ps_remoteApiKey = given_text rerankKey \<rparr>,
       se_models = xs_models s, se_indexing = xs_indexing s \<rparr>)"

definition mapSearch :: "config_env \<Rightarrow> raw_search \<Rightarrow> discovery_config \<Rightarrow> exn + search_settings" where
  "mapSearch E s d = (let l = xs_lexical s; e = xs_semantic s; r = xs_reranking s;
       defaultLimit = (case xs_default_result_limit s of Some n \<Rightarrow> nat n | None \<Rightarrow> defaultPageSize d);
       maximumLimit = (case xs_maximum_result_limit s of Some n \<Rightarrow> nat n | None \<Rightarrow> maxPageSize d);
       fakeAllowed = (ce_env E ''FACILITATOR_ALLOW_FAKE_PROVIDERS'' = Some ''1'');
       semanticUrl = ce_env E (xe_remote_url_env e); rerankUrl = ce_env E (xr_remote_url_env r) in
     refuse_when (maximumLimit < defaultLimit) ''search.default_result_limit must not exceed search.maximum_result_limit''
    (refuse_when (xl_weight l = 0 \<and> xe_weight e = 0) ''at least one of search.lexical.weight and search.semantic.weight must be positive''
    (refuse_when (xe_provider e = Provider_fake \<and> \<not> fakeAllowed) ''search.semantic.provider \"fake\" is only allowed when FACILITATOR_ALLOW_FAKE_PROVIDERS=1''
    (refuse_when (xr_provider r = Provider_fake \<and> \<not> fakeAllowed) ''search.reranking.provider \"fake\" is only allowed when FACILITATOR_ALLOW_FAKE_PROVIDERS=1''
    (refuse_when (xe_enabled e \<and> xe_provider e = Provider_local \<and> ms_require_pinned_revision (xs_models s) \<and> \<not> commit_sha (xe_revision e))
       ''search.semantic.revision must be a full 40-character commit sha when models.require_pinned_revision is set''
    (refuse_when (xe_enabled e \<and> xe_provider e = Provider_remote \<and> \<not> truthy_str semanticUrl)
       (xe_remote_url_env e @ '' is required for a remote embedding provider'')
    (refuse_when (xr_enabled r \<and> xr_provider r = Provider_remote \<and> \<not> truthy_str rerankUrl)
       (xr_remote_url_env r @ '' is required for a remote reranker'')
    (Inr (search_of E s defaultLimit maximumLimit)))))))))"

definition mapAnalytics :: "analytics_settings \<Rightarrow> exn + analytics_settings" where
  "mapAnalytics a = refuse_when (an_max_page_size a < an_default_page_size a) ''analytics.default_page_size must not exceed analytics.max_page_size'' (Inr a)"

section \<open>Networks\<close>

text \<open>A comma-separated list of the environment.\<close>

definition env_list :: "string option \<Rightarrow> string list" where
  "env_list v = filter (\<lambda>s. s \<noteq> []) (map trim (js_split (CHR '','') (coalesce v [])))"

definition map_asset :: "raw_asset \<Rightarrow> exn + string \<times> allowed_asset" where
  "map_asset a = sum_bind (to_bigint (xa_max_payment a)) (\<lambda>m. Inr (xa_contract a, \<lparr> symbol = xa_symbol a, decimals = xa_decimals a, maxPayment = m \<rparr>))"

text \<open>The answer of mapNetwork once its checks have passed.\<close>

definition network_of ::
    "config_env \<Rightarrow> string \<Rightarrow> raw_network \<Rightarrow> string option \<Rightarrow> int \<Rightarrow> (string \<times> allowed_asset) list \<Rightarrow> fee_profile \<Rightarrow> fee_profile \<Rightarrow> network_settings" where
  "network_of E nw n uptoAt least assets exact uf = (let
       sponsorSecret = (if truthy_str (xn_sponsor_secret_env n) then ce_env E (the (xn_sponsor_secret_env n)) else None);
       channelSecrets = (if truthy_str (xn_channel_secrets_env n) then env_list (ce_env E (the (xn_channel_secrets_env n))) else []) in
       \<lparr> n_id = nw, enabled = xn_enabled n, uptoContract = given_text uptoAt, allowedAssets = js_map [] assets,
         allowedSettlementHooks = rev (remdups (rev (xn_allowed_settlement_hooks n))), c_maxTimeoutSeconds = xn_max_timeout_seconds n,
         exactFee = exact, uptoFee = uf, ns_rpcUrl = xn_rpc_url n, ns_horizonUrl = xn_horizon_url n,
         ns_friendbotUrl = given_text (xn_friendbot_url n), ns_developmentAutoFund = xn_development_auto_fund n,
         ns_channelAccountCount = xn_channel_account_count n, ns_channelMinBalance = least,
         ns_sponsorSecret = given_text sponsorSecret, ns_channelSecrets = channelSecrets \<rparr>)"

definition mapNetwork :: "config_env \<Rightarrow> string \<Rightarrow> raw_network \<Rightarrow> exn + network_settings" where
  "mapNetwork E nw n = (let uptoAt = (case xn_upto_contract n of Some c \<Rightarrow> Some c
         | None \<Rightarrow> if truthy_str (xn_upto_contract_env n) then ce_env E (the (xn_upto_contract_env n)) else None) in
     refuse_when (nw = ''stellar:pubnet'' \<and> xn_development_auto_fund n) ''development_auto_fund is forbidden on stellar:pubnet''
    (refuse_when (truthy_str uptoAt \<and> \<not> strkey_pattern ''C'' (the uptoAt)) (nw @ '' upto contract must be a valid Stellar contract address'')
    (refuse_when (xn_enabled n \<and> \<not> xn_fee_ceilings_calibrated n)
       (nw @ '' fee ceilings must be calibrated from measured p99 settlement costs before enabling'')
    (refuse_when (nw = ''stellar:pubnet'' \<and> xn_enabled n \<and> \<not> truthy_str uptoAt)
       ''stellar:pubnet requires an audited upto settlement contract before enabling both schemes''
    (sum_bind (to_bigint (xn_channel_min_balance n)) (\<lambda>least.
     sum_bind (sum_map map_asset (xn_assets n)) (\<lambda>assets.
     sum_bind (fee (xn_exact_fee n)) (\<lambda>exact.
     sum_bind (fee (xn_upto_fee n)) (\<lambda>uf.
       Inr (network_of E nw n uptoAt least assets exact uf))))))))))"

section \<open>The whole\<close>

text \<open>\<open>z.coerce.number().int().min(1).max(65535)\<close> of a text.\<close>

definition port_of :: "string \<Rightarrow> exn + int" where
  "port_of s = (case js_Number s of Some x \<Rightarrow> if of_int \<lfloor>x\<rfloor> = x \<and> 1 \<le> x \<and> x \<le> 65535 then Inr \<lfloor>x\<rfloor> else config_error ''invalid port'' | None \<Rightarrow> config_error ''invalid port'')"

definition map_limits :: "raw_limits \<Rightarrow> exn + limits" where
  "map_limits l = sum_bind (to_bigint (xm_max_sponsored_per_key_per_day l)) (\<lambda>perKey.
     sum_bind (to_bigint (xm_max_global_sponsored_per_day l)) (\<lambda>global. Inr
       \<lparr> maxConcurrentSimulations = xm_max_concurrent_simulations l, maxSimulationsPerKeyPerMinute = xm_max_simulations_per_key_per_minute l,
         maxSponsoredStroopsPerKeyPerDay = perKey, maxGlobalSponsoredStroopsPerDay = global, maxPendingSettlements = xm_max_pending_settlements l,
         channelLeaseMs = xm_channel_lease_ms l, settlePollMs = xm_settle_poll_ms l, settleTimeoutMs = xm_settle_timeout_ms l \<rparr>))"

definition load_settings :: "config_env \<Rightarrow> raw_facilitator \<Rightarrow> exn + facilitator_settings" where
  "load_settings E x = refuse_when (\<not> rawSchema (ce_url E) x) ''invalid configuration''
    (let databaseUrl = ce_env E (xx_database_url_env x); keys = env_list (ce_env E (xx_api_keys_env x)); catalog = mapCatalog (xx_indexing x) (xx_security x) in
     refuse_when (\<not> truthy_str databaseUrl) (xx_database_url_env x @ '' is required'')
    (sum_bind (mapNetwork E ''stellar:testnet'' (xx_testnet x)) (\<lambda>testnet.
     sum_bind (mapNetwork E ''stellar:pubnet'' (xx_pubnet x)) (\<lambda>pubnet.
     refuse_when (\<not> enabled testnet \<and> \<not> enabled pubnet) ''at least one network must be enabled''
    (refuse_when (enabled pubnet \<and> keys = []) ''pubnet requires at least one facilitator API key''
    (sum_bind (encryptionKey E (xx_key_encryption_key_env x)) (\<lambda>key.
     sum_bind (mapDiscovery E (cs_staleAfterHours catalog) (xx_discovery x) key) (\<lambda>discovery.
     refuse_when (enabled pubnet \<and> allowLocalOrigins catalog) ''catalog_security.allow_local_origins is forbidden while stellar:pubnet is enabled''
    (refuse_when (enabled pubnet \<and> \<not> requireHttpsOrigins catalog) ''catalog_security.require_https_origins is required while stellar:pubnet is enabled''
    (refuse_when (enabled pubnet \<and> dc_includeUnverified discovery) ''discovery.include_unverified is forbidden while stellar:pubnet is enabled''
    (sum_bind (if truthy_str (ce_env E ''PORT'') then port_of (the (ce_env E ''PORT'')) else Inr (xx_port x)) (\<lambda>port.
     sum_bind (mapSearch E (xx_search x) discovery) (\<lambda>search.
     sum_bind (mapAnalytics (xx_analytics x)) (\<lambda>analytics.
     sum_bind (map_limits (xx_limits x)) (\<lambda>limits. Inr
       \<lparr> fs_port = port, fs_databaseUrl = the databaseUrl, fs_apiKeys = keys, fs_keyEncryptionKey = key,
         fs_instanceId = coalesce (ce_env E ''FACILITATOR_INSTANCE_ID'') (ce_instance E),
         fs_networks = [(''stellar:testnet'', testnet), (''stellar:pubnet'', pubnet)], fs_catalog = catalog, fs_discovery = discovery,
         fs_search = search, fs_analytics = analytics, fs_maxRequestBytes = xm_max_request_bytes (xx_limits x), fs_limits = limits \<rparr>)))))))))))))))"

end
