(* ===== verification/Config_Properties.thy ===== *)
theory Config_Properties
  imports Facilitator_Config Runtime_Properties
begin

text \<open>What an accepted configuration guarantees, alone and together with the start of the networks and the HTTP application.\<close>

lemma refuse_when_Inr [simp]: "refuse_when b m k = Inr y \<longleftrightarrow> \<not> b \<and> k = Inr y"
  by (simp add: refuse_when_def config_error_def)

lemma sum_bind_iff: "sum_bind m k = Inr y \<longleftrightarrow> (\<exists>a. m = Inr a \<and> k a = Inr y)"
  by (auto elim: sum_bind_InrE)

lemma fee_Inr: "fee f = Inr p \<Longrightarrow> maxResourceFeeStroops p + maxInclusionFeeStroops p \<le> maxTotalFeeStroops p"
  by (auto simp: fee_def elim!: sum_bind_InrE)

lemma js_map_nonempty: "m \<noteq> [] \<or> es \<noteq> [] \<Longrightarrow> js_map m es \<noteq> []"
proof (induction es arbitrary: m)
  case (Cons e es)
  have "js_map (if fst e \<in> fst ` set m then map (\<lambda>x. if fst x = fst e then e else x) m else m @ [e]) es \<noteq> []" by (rule Cons.IH) auto
  then show ?case by simp
qed simp

section \<open>A network\<close>

text \<open>What every configured network has.\<close>

definition network_bounded :: "network_settings \<Rightarrow> bool" where
  "network_bounded c = (maxResourceFeeStroops (exactFee c) + maxInclusionFeeStroops (exactFee c) \<le> maxTotalFeeStroops (exactFee c)
     \<and> maxResourceFeeStroops (uptoFee c) + maxInclusionFeeStroops (uptoFee c) \<le> maxTotalFeeStroops (uptoFee c)
     \<and> 1 \<le> ns_channelAccountCount c \<and> ns_channelAccountCount c \<le> 100 \<and> 1 \<le> c_maxTimeoutSeconds c \<and> c_maxTimeoutSeconds c \<le> 2000000
     \<and> allowedAssets c \<noteq> [] \<and> pred_option (strkey_pattern ''C'') (uptoContract c))"

lemma mapNetwork_facts:
  assumes "mapNetwork E nw n = Inr c" "networkSchema url n"
  shows "network_bounded c" and "enabled c = xn_enabled n" and "enabled c \<Longrightarrow> xn_fee_ceilings_calibrated n"
    and "nw = ''stellar:pubnet'' \<Longrightarrow> \<not> ns_developmentAutoFund c \<and> (enabled c \<longrightarrow> uptoContract c \<noteq> None)" and "n_id c = nw"
proof -
  define uptoAt where "uptoAt = (case xn_upto_contract n of Some c \<Rightarrow> Some c
    | None \<Rightarrow> if truthy_str (xn_upto_contract_env n) then ce_env E (the (xn_upto_contract_env n)) else None)"
  note m = assms(1) [unfolded mapNetwork_def Let_def uptoAt_def [symmetric] refuse_when_Inr sum_bind_iff sum.inject]
  obtain least assets ex uf where f: "\<not> (nw = ''stellar:pubnet'' \<and> xn_development_auto_fund n)" "\<not> (truthy_str uptoAt \<and> \<not> strkey_pattern ''C'' (the uptoAt))"
      "\<not> (xn_enabled n \<and> \<not> xn_fee_ceilings_calibrated n)" "\<not> (nw = ''stellar:pubnet'' \<and> xn_enabled n \<and> \<not> truthy_str uptoAt)"
      "sum_map map_asset (xn_assets n) = Inr assets" "fee (xn_exact_fee n) = Inr ex" "fee (xn_upto_fee n) = Inr uf"
      "c = network_of E nw n uptoAt least assets ex uf"
    using m by blast
  then have c: "enabled c = xn_enabled n" "uptoContract c = given_text uptoAt" "ns_developmentAutoFund c = xn_development_auto_fund n"
      "allowedAssets c = js_map [] assets" "exactFee c = ex" "uptoFee c = uf" "ns_channelAccountCount c = xn_channel_account_count n"
      "c_maxTimeoutSeconds c = xn_max_timeout_seconds n" "n_id c = nw"
    by (simp_all add: network_of_def)
  have "assets \<noteq> []" using sum_map_length [OF f(5)] assms(2) by (auto simp: networkSchema_def)
  moreover have "pred_option (strkey_pattern ''C'') (uptoContract c)" using f(2) by (cases uptoAt) (auto simp: c(2) given_text_def)
  ultimately show "network_bounded c" using assms(2) fee_Inr [OF f(6)] fee_Inr [OF f(7)] js_map_nonempty [of "[]" assets]
    by (simp add: network_bounded_def c networkSchema_def in_bounds_def)
  show "enabled c = xn_enabled n" "n_id c = nw" by (simp_all add: c)
  show "enabled c \<Longrightarrow> xn_fee_ceilings_calibrated n" using f(3) by (simp add: c)
  show "nw = ''stellar:pubnet'' \<Longrightarrow> \<not> ns_developmentAutoFund c \<and> (enabled c \<longrightarrow> uptoContract c \<noteq> None)"
    using f(1,4) by (cases uptoAt) (auto simp: c given_text_def)
qed

section \<open>Sections\<close>

lemma encryptionKey_Inr:
  assumes "encryptionKey E name = Inr key" "\<And>t. length (ce_sha E t) = 32"
  shows "length key = 32"
  using assms by (auto simp: encryptionKey_def Let_def split: if_splits)

lemma cursorKey_Inr:
  assumes "cursorKey E name key = Inr h" "\<And>t. length (ce_sha E t) = 32"
  shows "32 \<le> length h"
  using assms by (auto simp: cursorKey_def Let_def split: if_splits)

lemma mapDiscovery_Inr:
  assumes "mapDiscovery E stale d key = Inr c" "discoverySchema d"
  shows "1 \<le> defaultPageSize c" "defaultPageSize c \<le> maxPageSize c" "maxPageSize c \<le> 200"
    and "cursorKey E (xd_cursor_hmac_key_env d) key = Inr (cursorHmacKey c)" "dc_includeUnverified c = xd_include_unverified d"
  using assms by (auto simp: mapDiscovery_def discoverySchema_def in_bounds_def elim!: sum_bind_InrE)

lemma mapSearch_Inr:
  assumes "mapSearch E s d = Inr c" "searchSchema s" "1 \<le> defaultPageSize d" "maxPageSize d \<le> 200"
  shows "1 \<le> defaultResultLimit c" "defaultResultLimit c \<le> maximumResultLimit c" "maximumResultLimit c \<le> 200"
    and "0 \<le> lexical_weight c" "0 \<le> semantic_weight c" "0 < lexical_weight c + semantic_weight c" "0 < rrfK c"
    and "ps_provider (se_semantic c) = Provider_fake \<or> ps_provider (se_reranking c) = Provider_fake \<Longrightarrow> ce_env E ''FACILITATOR_ALLOW_FAKE_PROVIDERS'' = Some ''1''"
proof -
  let ?low = "case xs_default_result_limit s of Some n \<Rightarrow> nat n | None \<Rightarrow> defaultPageSize d"
  let ?maximum = "case xs_maximum_result_limit s of Some n \<Rightarrow> nat n | None \<Rightarrow> maxPageSize d"
  note m = assms(1) [unfolded mapSearch_def Let_def refuse_when_Inr sum.inject]
  have f: "xl_weight (xs_lexical s) \<noteq> 0 \<or> xe_weight (xs_semantic s) \<noteq> 0"
      "xe_provider (xs_semantic s) = Provider_fake \<or> xr_provider (xs_reranking s) = Provider_fake \<longrightarrow> ce_env E ''FACILITATOR_ALLOW_FAKE_PROVIDERS'' = Some ''1''"
      "\<not> ?maximum < ?low" "c = search_of E s ?low ?maximum"
    using m by blast+
  have c: "lexical_weight c = xl_weight (xs_lexical s)" "semantic_weight c = xe_weight (xs_semantic s)" "rrfK c = of_int (xs_rrf_k s)"
      "defaultResultLimit c = ?low" "maximumResultLimit c = ?maximum"
      "ps_provider (se_semantic c) = xe_provider (xs_semantic s)" "ps_provider (se_reranking c) = xr_provider (xs_reranking s)"
    by (simp_all add: f(4) search_of_def Let_def)
  have s: "0 \<le> xl_weight (xs_lexical s)" "0 \<le> xe_weight (xs_semantic s)" "1 \<le> xs_rrf_k s"
      "pred_option (in_bounds 1 200) (xs_default_result_limit s)" "pred_option (in_bounds 1 200) (xs_maximum_result_limit s)"
    using assms(2) by (simp_all add: searchSchema_def Let_def share_def in_bounds_def)
  show "1 \<le> defaultResultLimit c" "maximumResultLimit c \<le> 200" "defaultResultLimit c \<le> maximumResultLimit c"
    using s(4,5) assms(3,4) f(3) by (auto simp: c(4,5) in_bounds_def split: option.splits)
  show "0 \<le> lexical_weight c" "0 \<le> semantic_weight c" "0 < lexical_weight c + semantic_weight c" "0 < rrfK c"
    using s(1-3) f(1) by (auto simp: c(1-3) add_nonneg_eq_0_iff less_le)
  show "ps_provider (se_semantic c) = Provider_fake \<or> ps_provider (se_reranking c) = Provider_fake \<Longrightarrow> ce_env E ''FACILITATOR_ALLOW_FAKE_PROVIDERS'' = Some ''1''"
    using f(2) c(6,7) by simp
qed

lemma port_of_Inr: "port_of s = Inr n \<Longrightarrow> 1 \<le> n \<and> n \<le> 65535"
  by (auto simp: port_of_def config_error_def split: option.splits if_splits)

section \<open>The whole\<close>

lemma load_settings_facts:
  assumes "load_settings E x = Inr c"
  obtains tn pn where "rawSchema (ce_url E) x" "mapNetwork E ''stellar:testnet'' (xx_testnet x) = Inr tn" "mapNetwork E ''stellar:pubnet'' (xx_pubnet x) = Inr pn"
    "enabled tn \<or> enabled pn" "enabled pn \<longrightarrow> fs_apiKeys c \<noteq> [] \<and> \<not> allowLocalOrigins (fs_catalog c) \<and> requireHttpsOrigins (fs_catalog c)
       \<and> \<not> dc_includeUnverified (fs_discovery c)"
    "fs_networks c = [(''stellar:testnet'', tn), (''stellar:pubnet'', pn)]" "fs_apiKeys c = env_list (ce_env E (xx_api_keys_env x))"
    "fs_catalog c = mapCatalog (xx_indexing x) (xx_security x)"
    "encryptionKey E (xx_key_encryption_key_env x) = Inr (fs_keyEncryptionKey c)"
    "mapDiscovery E (cs_staleAfterHours (fs_catalog c)) (xx_discovery x) (fs_keyEncryptionKey c) = Inr (fs_discovery c)"
    "mapSearch E (xx_search x) (fs_discovery c) = Inr (fs_search c)"
    "(if truthy_str (ce_env E ''PORT'') then port_of (the (ce_env E ''PORT'')) else Inr (xx_port x)) = Inr (fs_port c)"
proof -
  from assms obtain tn pn key d port s a l where "rawSchema (ce_url E) x" "mapNetwork E ''stellar:testnet'' (xx_testnet x) = Inr tn"
      "mapNetwork E ''stellar:pubnet'' (xx_pubnet x) = Inr pn" "\<not> (\<not> enabled tn \<and> \<not> enabled pn)"
      "\<not> (enabled pn \<and> env_list (ce_env E (xx_api_keys_env x)) = [])" "encryptionKey E (xx_key_encryption_key_env x) = Inr key"
      "mapDiscovery E (cs_staleAfterHours (mapCatalog (xx_indexing x) (xx_security x))) (xx_discovery x) key = Inr d"
      "\<not> (enabled pn \<and> allowLocalOrigins (mapCatalog (xx_indexing x) (xx_security x)))"
      "\<not> (enabled pn \<and> \<not> requireHttpsOrigins (mapCatalog (xx_indexing x) (xx_security x)))" "\<not> (enabled pn \<and> dc_includeUnverified d)"
      "(if truthy_str (ce_env E ''PORT'') then port_of (the (ce_env E ''PORT'')) else Inr (xx_port x)) = Inr port"
      "mapSearch E (xx_search x) d = Inr s"
      "c = \<lparr> fs_port = port, fs_databaseUrl = the (ce_env E (xx_database_url_env x)), fs_apiKeys = env_list (ce_env E (xx_api_keys_env x)),
         fs_keyEncryptionKey = key, fs_instanceId = coalesce (ce_env E ''FACILITATOR_INSTANCE_ID'') (ce_instance E),
         fs_networks = [(''stellar:testnet'', tn), (''stellar:pubnet'', pn)], fs_catalog = mapCatalog (xx_indexing x) (xx_security x), fs_discovery = d,
         fs_search = s, fs_analytics = a, fs_maxRequestBytes = xm_max_request_bytes (xx_limits x), fs_limits = l \<rparr>"
    unfolding load_settings_def Let_def refuse_when_Inr sum_bind_iff by blast
  then show thesis by (intro that [of tn pn]) simp_all
qed

text \<open>C21: An accepted configuration is bounded.  A network is enabled; every network, enabled or not, has fee ceilings that add
  up, at least one channel and one asset, a bounded timeout and, if any, a well-formed contract address, and an
  enabled one was calibrated; page sizes are positive, ordered and at most 200, in browsing and in search; one of the
  two search branches has a positive weight and none a negative one; a provider for tests was allowed explicitly;
  the port is a TCP port; and, SHA-256 having 32 bytes, the key of the stored secrets has 32 bytes and the key of
  the cursors at least 32.\<close>

theorem accepted_configuration_is_bounded:
  assumes "load_settings E x = Inr c" "\<And>t. length (ce_sha E t) = 32"
  shows "(\<exists>e \<in> set (fs_networks c). enabled (snd e)) \<and> (\<forall>e \<in> set (fs_networks c). network_bounded (snd e))
    \<and> map fst (fs_networks c) = [''stellar:testnet'', ''stellar:pubnet'']
    \<and> (\<forall>e \<in> set (fs_networks c). enabled (snd e) \<longrightarrow> xn_fee_ceilings_calibrated (if fst e = ''stellar:pubnet'' then xx_pubnet x else xx_testnet x))
    \<and> 1 \<le> defaultPageSize (fs_discovery c) \<and> defaultPageSize (fs_discovery c) \<le> maxPageSize (fs_discovery c) \<and> maxPageSize (fs_discovery c) \<le> 200
    \<and> 1 \<le> defaultResultLimit (fs_search c) \<and> defaultResultLimit (fs_search c) \<le> maximumResultLimit (fs_search c) \<and> maximumResultLimit (fs_search c) \<le> 200
    \<and> 0 \<le> lexical_weight (fs_search c) \<and> 0 \<le> semantic_weight (fs_search c) \<and> 0 < lexical_weight (fs_search c) + semantic_weight (fs_search c)
    \<and> (Provider_fake \<in> {ps_provider (se_semantic (fs_search c)), ps_provider (se_reranking (fs_search c))}
         \<longrightarrow> ce_env E ''FACILITATOR_ALLOW_FAKE_PROVIDERS'' = Some ''1'')
    \<and> 1 \<le> fs_port c \<and> fs_port c \<le> 65535 \<and> length (fs_keyEncryptionKey c) = 32 \<and> 32 \<le> length (cursorHmacKey (fs_discovery c))"
proof -
  obtain tn pn where f: "rawSchema (ce_url E) x" "mapNetwork E ''stellar:testnet'' (xx_testnet x) = Inr tn"
      "mapNetwork E ''stellar:pubnet'' (xx_pubnet x) = Inr pn" "enabled tn \<or> enabled pn" "fs_networks c = [(''stellar:testnet'', tn), (''stellar:pubnet'', pn)]"
    and k: "encryptionKey E (xx_key_encryption_key_env x) = Inr (fs_keyEncryptionKey c)"
    and d: "mapDiscovery E (cs_staleAfterHours (fs_catalog c)) (xx_discovery x) (fs_keyEncryptionKey c) = Inr (fs_discovery c)"
    and s: "mapSearch E (xx_search x) (fs_discovery c) = Inr (fs_search c)"
    and p: "(if truthy_str (ce_env E ''PORT'') then port_of (the (ce_env E ''PORT'')) else Inr (xx_port x)) = Inr (fs_port c)"
    using load_settings_facts [OF assms(1)] by metis
  have schema: "networkSchema (ce_url E) (xx_testnet x)" "networkSchema (ce_url E) (xx_pubnet x)" "discoverySchema (xx_discovery x)"
      "searchSchema (xx_search x)" "in_bounds 1 65535 (xx_port x)"
    using f(1) by (simp_all add: rawSchema_def)
  note tn = mapNetwork_facts [OF f(2) schema(1)] and pn = mapNetwork_facts [OF f(3) schema(2)]
  note d2 = mapDiscovery_Inr [OF d schema(3)]
  note s2 = mapSearch_Inr [OF s schema(4) d2(1) d2(3)]
  have port: "1 \<le> fs_port c \<and> fs_port c \<le> 65535" using p port_of_Inr schema(5) by (auto simp: in_bounds_def split: if_splits)
  have nets: "(\<exists>e \<in> set (fs_networks c). enabled (snd e)) \<and> (\<forall>e \<in> set (fs_networks c). network_bounded (snd e))"
    "\<forall>e \<in> set (fs_networks c). enabled (snd e) \<longrightarrow> xn_fee_ceilings_calibrated (if fst e = ''stellar:pubnet'' then xx_pubnet x else xx_testnet x)"
    using f(4) tn(1,3) pn(1,3) by (auto simp: f(5))
  show ?thesis using nets port d2(1-3) s2 encryptionKey_Inr [OF k assms(2)] cursorKey_Inr [OF d2(4) assms(2)] by (auto simp: f(5))
qed

section \<open>The public network\<close>

lemma env_list_nonempty: "k \<in> set (env_list v) \<Longrightarrow> k \<noteq> []"
  by (simp add: env_list_def)

definition channel_key_of :: "'x start_env \<Rightarrow> stored_key list \<Rightarrow> string \<Rightarrow> bool" where
  "channel_key_of S keys a = (\<exists>k \<in> set keys. sk_role k = Channel_key \<and> from_secret S (sk_secret k) = Inr a)"

text \<open>What createApp reads of the configuration.\<close>

definition app_of :: "facilitator_settings \<Rightarrow> app_config" where
  "app_of c = \<lparr> apiKeys = fs_apiKeys c, ac_lexical = lexical_enabled (fs_search c) \<rparr>"

text \<open>C20: A public network is guarded.  When the networks of an accepted configuration have started on a well-formed table of
  keys and the public network is among them, then its fee ceilings are declared calibrated and add up, it settles both
  schemes, and in the table of keys as the start leaves it its channels are exactly the accounts of its active channel keys,
  at least one and at least as many keys as configured; every key of the network in that table was there before the start or
  is the account of a configured secret, none was generated; for the sponsor and every channel Horizon answered the
  configured minimum balance; the catalog lists neither local nor plain nor unverified origins; and the HTTP application
  admits exactly the requests whose bearer token has the digest of a configured key, which is never empty.\<close>

theorem public_network_is_guarded:
  assumes "load_settings E x = Inr c" "initializeRuntimes S (fs_networks c) w = (Inr reg, w')" "(''stellar:pubnet'', rt) \<in> set (networks reg)" "Key_Store.keys_ok (sw_keys w)"
  shows "\<exists>pn chs keys wa wb wp. (''stellar:pubnet'', pn) \<in> set (fs_networks c) \<and> enabled pn \<and> xn_fee_ceilings_calibrated (xx_pubnet x)
    \<and> uptoContract (config rt) \<noteq> None \<and> config rt = network_config.truncate pn \<and> network_bounded pn
    \<and> (''stellar:pubnet'', chs) \<in> set (channels reg) \<and> chs \<noteq> []
    \<and> list_keys (se_aead S) (se_key S) ''stellar:pubnet'' (sw_keys w') = Inr keys \<and> (\<forall>a. a \<in> fst ` set chs \<longleftrightarrow> channel_key_of S keys a)
    \<and> ns_channelAccountCount pn \<le> int (length (filter (\<lambda>k. sk_role k = Channel_key) keys))
    \<and> (\<forall>r \<in> set (sw_keys w'). kr_network r = ''stellar:pubnet'' \<longrightarrow>
         r \<in> set (sw_keys w) \<or> (\<exists>s \<in> set (configured_secrets pn). from_secret S s = Inr (kr_address r)))
    \<and> started_within S (fs_networks c) w w' ''stellar:pubnet'' pn rt chs wa wb
    \<and> balances_seen S pn (signer_address (sponsor rt) # map fst chs) wp wb
    \<and> requireHttpsOrigins (fs_catalog c) \<and> \<not> allowLocalOrigins (fs_catalog c) \<and> \<not> dc_includeUnverified (fs_discovery c)
    \<and> (\<forall>H r. auth H (app_of c) r \<noteq> None \<longleftrightarrow> (\<exists>k \<in> set (fs_apiKeys c). k \<noteq> []
         \<and> ae_sha H k = ae_sha H (coalesce (Option.bind (ar_authorization r) bearer_token) [])))"
proof -
  obtain tn pn where f: "rawSchema (ce_url E) x" "mapNetwork E ''stellar:pubnet'' (xx_pubnet x) = Inr pn"
      "enabled pn \<longrightarrow> fs_apiKeys c \<noteq> [] \<and> \<not> allowLocalOrigins (fs_catalog c) \<and> requireHttpsOrigins (fs_catalog c) \<and> \<not> dc_includeUnverified (fs_discovery c)"
      "fs_networks c = [(''stellar:testnet'', tn), (''stellar:pubnet'', pn)]" "fs_apiKeys c = env_list (ce_env E (xx_api_keys_env x))"
    using load_settings_facts [OF assms(1)] by metis
  obtain rs where rs: "start_networks S (fs_networks c) w = (Inr rs, w')"
      "reg = \<lparr> networks = map (\<lambda>e. (fst e, fst (snd e))) rs, channels = map (\<lambda>e. (fst e, snd (snd e))) rs \<rparr>"
    using assms(2) by (auto simp: initializeRuntimes_def elim!: io_bind_InrE)
  then obtain chs where e: "(''stellar:pubnet'', rt, chs) \<in> set rs" using assms(3) by auto
  then have ch: "(''stellar:pubnet'', chs) \<in> set (channels reg)" using rs(2) by force
  obtain pn' wa wb where sw: "started_within S (fs_networks c) w w' ''stellar:pubnet'' pn' rt chs wa wb"
    using start_networks_within [OF rs(1) e] by blast
  then have "(''stellar:pubnet'', pn') \<in> set (fs_networks c)" "enabled pn'" by (auto simp: started_within_def)
  then have pn: "pn' = pn" "enabled pn" by (auto simp: f(4))
  have d: "distinct (map fst (fs_networks c))" by (simp add: f(4))
  have "networkSchema (ce_url E) (xx_pubnet x)" using f(1) by (simp add: rawSchema_def)
  note m = mapNetwork_facts [OF f(2) this]
  have af: "\<not> ns_developmentAutoFund pn" using m(4) by simp
  obtain keys where s: "started S ''stellar:pubnet'' pn wb rt chs keys" and l: "list_keys (se_aead S) (se_key S) ''stellar:pubnet'' (sw_keys w') = Inr keys"
      and old: "\<forall>r \<in> set (sw_keys w'). kr_network r = ''stellar:pubnet'' \<longrightarrow>
         r \<in> set (sw_keys w) \<or> (\<exists>s \<in> set (configured_secrets pn). from_secret S s = Inr (kr_address r))"
    using started_within_facts [OF sw [unfolded pn(1)] d assms(4)] af by blast
  have r: "rt = runtime_of pn (sponsor rt) chs" and ne: "chs \<noteq> []"
      and n: "ns_channelAccountCount pn \<le> int (length (filter (\<lambda>k. sk_role k = Channel_key) keys))"
      and a: "\<forall>a. a \<in> fst ` set chs \<longleftrightarrow> channel_key_of S keys a"
    using s by (simp_all add: started_def channel_key_of_def)
  obtain wp where b: "balances_seen S pn (signer_address (sponsor rt) # map fst chs) wp wb" using s unfolding started_def by blast
  have cfg: "config rt = network_config.truncate pn" by (subst r, simp add: runtime_of_def)
  have up: "uptoContract (config rt) \<noteq> None" using m(4) pn(2) by (simp add: cfg network_config.truncate_def)
  have keys: "fs_apiKeys c \<noteq> []" "\<forall>k \<in> set (fs_apiKeys c). k \<noteq> []" using f(3,5) pn(2) env_list_nonempty by auto
  have au: "\<forall>H r. auth H (app_of c) r \<noteq> None \<longleftrightarrow> (\<exists>k \<in> set (fs_apiKeys c). k \<noteq> []
      \<and> ae_sha H k = ae_sha H (coalesce (Option.bind (ar_authorization r) bearer_token) []))"
    using keys by (auto simp: auth_def app_of_def Let_def list_ex_iff)
  have net: "(''stellar:pubnet'', pn) \<in> set (fs_networks c)" by (simp add: f(4))
  show ?thesis
    using f(3) pn(2) by (intro exI [of _ pn] exI [of _ chs] exI [of _ keys] exI [of _ wa] exI [of _ wb] exI [of _ wp] conjI
        net m(3) up m(1) cfg ch ne l a n old sw [unfolded pn(1)] b au) simp_all
qed

section \<open>The keys at rest\<close>

text \<open>Only NODE_ENV asks for a key: in any other environment an accepted configuration without one, also of the public network,
  seals its secrets with a key anybody can compute from the source, and signs cursors with a key derived from it.\<close>

lemma development_key_is_used:
  assumes "load_settings E x = Inr c" "\<not> truthy_str (ce_env E (xx_key_encryption_key_env x))"
  shows "ce_env E ''NODE_ENV'' \<noteq> Some ''production'' \<and> fs_keyEncryptionKey c = ce_sha E ''x402-testnet-development-key-only''
    \<and> (\<not> truthy_str (ce_env E (xd_cursor_hmac_key_env (xx_discovery x)))
      \<longrightarrow> cursorHmacKey (fs_discovery c) = ce_sha E (''x402-discovery-cursor-v1'' @ [CHR 0x00] @ ce_sha E ''x402-testnet-development-key-only''))"
proof -
  from assms(1) obtain k: "encryptionKey E (xx_key_encryption_key_env x) = Inr (fs_keyEncryptionKey c)"
    and d: "mapDiscovery E (cs_staleAfterHours (fs_catalog c)) (xx_discovery x) (fs_keyEncryptionKey c) = Inr (fs_discovery c)" and s: "rawSchema (ce_url E) x"
    by (rule load_settings_facts)
  have schema: "discoverySchema (xx_discovery x)" using s by (simp add: rawSchema_def)
  show ?thesis using k mapDiscovery_Inr(4) [OF d schema] assms(2) by (auto simp: encryptionKey_def cursorKey_def development_key_text_def Let_def)
qed

text \<open>An amount given as text may have either sign: the schema checks numbers only.\<close>

lemma text_amount_of_any_sign:
  shows "amount_schema (Amount_text (int_to_string n)) \<and> to_bigint (Amount_text (int_to_string n)) = Inr n"
  by (simp add: amount_schema_def to_bigint_def)

section \<open>A public network\<close>

definition demo_contract :: string where
  "demo_contract = CHR ''C'' # replicate 55 (CHR ''A'')"

definition demo_config_env :: config_env where
  "demo_config_env = \<lparr> ce_env = (\<lambda>n. if n = ''DATABASE_URL'' then Some ''postgres'' else if n = ''FACILITATOR_API_KEYS'' then Some ''k1, k2'' else None),
     ce_sha = (\<lambda>t. replicate 32 (CHR ''s'')), ce_url = (\<lambda>u. True), ce_instance = ''i'' \<rparr>"

definition demo_raw_fee :: raw_fee where
  "demo_raw_fee = \<lparr> xf_max_resource = Amount_number 1, xf_max_inclusion = Amount_number 1, xf_max_total = Amount_number 2 \<rparr>"

definition demo_raw_network :: "bool \<Rightarrow> raw_network" where
  "demo_raw_network en = \<lparr> xn_enabled = en, xn_rpc_url = ''r'', xn_horizon_url = ''h'', xn_friendbot_url = None, xn_development_auto_fund = False,
     xn_channel_account_count = 1, xn_channel_min_balance = Amount_number 50000000, xn_sponsor_secret_env = None, xn_channel_secrets_env = None,
     xn_upto_contract = Some demo_contract, xn_upto_contract_env = None, xn_fee_ceilings_calibrated = en, xn_allowed_settlement_hooks = [],
     xn_max_timeout_seconds = 300, xn_assets = [\<lparr> xa_contract = demo_contract, xa_symbol = ''USDC'', xa_decimals = 7, xa_max_payment = Amount_number 9 \<rparr>],
     xn_exact_fee = demo_raw_fee, xn_upto_fee = demo_raw_fee \<rparr>"

definition demo_raw :: raw_facilitator where
  "demo_raw = \<lparr> xx_port = 4022, xx_database_url_env = ''DATABASE_URL'', xx_api_keys_env = ''FACILITATOR_API_KEYS'',
     xx_key_encryption_key_env = ''FACILITATOR_KEY_ENCRYPTION_KEY'', xx_indexing = default_indexing, xx_security = default_security,
     xx_discovery = default_discovery, xx_search = default_search, xx_analytics = default_analytics, xx_limits = default_limits,
     xx_testnet = demo_raw_network False, xx_pubnet = demo_raw_network True \<rparr>"

definition demo_network_of :: "string \<Rightarrow> bool \<Rightarrow> network_settings" where
  "demo_network_of nw en = (let f = \<lparr> maxResourceFeeStroops = 1, maxInclusionFeeStroops = 1, maxTotalFeeStroops = 2 \<rparr> in
     network_of demo_config_env nw (demo_raw_network en) (Some demo_contract) 50000000 [(demo_contract, \<lparr> symbol = ''USDC'', decimals = 7, maxPayment = 9 \<rparr>)] f f)"

lemma demo_contract_pattern: "strkey_pattern ''C'' demo_contract"
  by (simp add: strkey_pattern_def demo_contract_def list_all_iff)

lemma demo_fee: "fee demo_raw_fee = Inr \<lparr> maxResourceFeeStroops = 1, maxInclusionFeeStroops = 1, maxTotalFeeStroops = 2 \<rparr>"
  by (simp add: fee_def demo_raw_fee_def to_bigint_def sum_bind_def)

lemma demo_mapped: "mapNetwork demo_config_env nw (demo_raw_network en) = Inr (demo_network_of nw en)"
  using demo_contract_pattern
  by (simp add: mapNetwork_def Let_def demo_network_of_def sum_bind_iff demo_raw_network_def to_bigint_def map_asset_def demo_fee) (simp add: demo_contract_def)

lemma demo_raw_schema: "rawSchema url demo_raw \<longleftrightarrow> (url ''r'' \<and> url ''h'')"
  by (auto simp: rawSchema_def demo_raw_def indexingSchema_def default_indexing_def discoverySchema_def default_discovery_def searchSchema_def default_search_def
      analyticsSchema_def default_analytics_def limits_schema_def default_limits_def networkSchema_def demo_raw_network_def feeSchema_def demo_raw_fee_def
      asset_schema_def amount_schema_def in_bounds_def share_def demo_contract_pattern)

definition demo_discovery :: discovery_config where
  "demo_discovery = \<lparr> dc_enabled = True, defaultPageSize = 20, maxPageSize = 50, cursorTtlMinutes = 15, dc_includeStale = False, dc_includeUnverified = False,
     cursorHmacKey = replicate 32 (CHR ''s''), dc_staleAfterHours = 168 \<rparr>"

lemma demo_env_names: "ce_env demo_config_env ''DATABASE_URL'' = Some ''postgres''" "ce_env demo_config_env ''FACILITATOR_API_KEYS'' = Some ''k1, k2''"
    "ce_env demo_config_env ''PORT'' = None" "ce_env demo_config_env ''FACILITATOR_KEY_ENCRYPTION_KEY'' = None"
    "ce_env demo_config_env ''FACILITATOR_CURSOR_HMAC_KEY'' = None" "ce_env demo_config_env ''NODE_ENV'' = None" "ce_url demo_config_env u"
    "ce_sha demo_config_env s = replicate 32 (CHR ''s'')"
  by (simp_all add: demo_config_env_def)

lemma demo_keys: "env_list (Some ''k1, k2'') = [''k1'', ''k2'']"
  by (simp add: env_list_def trim_def ascii_space_def json_space_def)

lemma demo_key: "encryptionKey demo_config_env ''FACILITATOR_KEY_ENCRYPTION_KEY'' = Inr (replicate 32 (CHR ''s''))"
  by (simp add: encryptionKey_def demo_env_names)

lemma demo_mapDiscovery: "mapDiscovery demo_config_env 168 default_discovery key = Inr demo_discovery"
  by (simp add: mapDiscovery_def sum_bind_iff cursorKey_def default_discovery_def demo_env_names demo_discovery_def)

lemma demo_mapSearch: "mapSearch demo_config_env default_search demo_discovery = Inr (search_of demo_config_env default_search 20 50)"
  by (simp add: mapSearch_def Let_def default_search_def demo_discovery_def commit_sha_def)

lemma demo_mapLimits: "\<exists>l. map_limits default_limits = Inr l"
  by (simp add: map_limits_def sum_bind_iff default_limits_def to_bigint_def js_BigInt_def base_value_def hex_value_def trim_def ascii_space_def json_space_def)

lemma demo_settings_loaded: "\<exists>c. load_settings demo_config_env demo_raw = Inr c
    \<and> fs_networks c = [(''stellar:testnet'', demo_network_of ''stellar:testnet'' False), (''stellar:pubnet'', demo_network_of ''stellar:pubnet'' True)]
    \<and> fs_apiKeys c = [''k1'', ''k2''] \<and> fs_keyEncryptionKey c = replicate 32 (CHR ''s'')"
proof -
  obtain l where l: "map_limits default_limits = Inr l" using demo_mapLimits by blast
  have en: "enabled (demo_network_of nw en) = en" for nw en by (simp add: demo_network_of_def network_of_def demo_raw_network_def Let_def)
  have cat: "cs_staleAfterHours (mapCatalog default_indexing default_security) = 168" "\<not> allowLocalOrigins (mapCatalog default_indexing default_security)"
      "requireHttpsOrigins (mapCatalog default_indexing default_security)"
    by (simp_all add: mapCatalog_def default_indexing_def default_security_def)
  have an: "mapAnalytics default_analytics = Inr default_analytics" by (simp add: mapAnalytics_def default_analytics_def)
  have unv: "\<not> dc_includeUnverified demo_discovery" by (simp add: demo_discovery_def)
  have raw: "xx_database_url_env demo_raw = ''DATABASE_URL''" "xx_api_keys_env demo_raw = ''FACILITATOR_API_KEYS''"
      "xx_key_encryption_key_env demo_raw = ''FACILITATOR_KEY_ENCRYPTION_KEY''" "xx_indexing demo_raw = default_indexing" "xx_security demo_raw = default_security"
      "xx_discovery demo_raw = default_discovery" "xx_search demo_raw = default_search" "xx_analytics demo_raw = default_analytics"
      "xx_limits demo_raw = default_limits" "xx_testnet demo_raw = demo_raw_network False" "xx_pubnet demo_raw = demo_raw_network True"
    by (simp_all add: demo_raw_def)
  show ?thesis
    by (simp add: load_settings_def Let_def refuse_when_def sum_bind_def raw demo_raw_schema demo_env_names demo_mapped en demo_keys demo_key cat
        demo_mapDiscovery unv demo_mapSearch an l)
qed

theorem accepted_configuration_is_bounded_witness:
  "\<exists>c. load_settings demo_config_env demo_raw = Inr c \<and> defaultPageSize (fs_discovery c) \<le> maxPageSize (fs_discovery c)
    \<and> network_bounded (demo_network_of ''stellar:pubnet'' True) \<and> length (fs_keyEncryptionKey c) = 32"
proof -
  obtain c where c: "load_settings demo_config_env demo_raw = Inr c"
      "fs_networks c = [(''stellar:testnet'', demo_network_of ''stellar:testnet'' False), (''stellar:pubnet'', demo_network_of ''stellar:pubnet'' True)]"
    using demo_settings_loaded by blast
  have "length (ce_sha demo_config_env s) = 32" for s by (simp add: demo_env_names)
  from accepted_configuration_is_bounded [OF c(1) this] show ?thesis using c by auto
qed

definition demo_pubnet_keys :: "key_row list" where
  "demo_pubnet_keys = [encrypt demo_aead ''k'' ''n'' ''stellar:pubnet'' Sponsor_key ''G1'' ''S1'',
     encrypt demo_aead ''k'' ''n'' ''stellar:pubnet'' Channel_key ''G2'' ''S2'']"

lemma demo_pubnet_list: "list_keys demo_aead ''k'' ''stellar:pubnet'' demo_pubnet_keys = Inr [\<lparr> sk_network = ''stellar:pubnet'', sk_role = Sponsor_key,
    sk_address = ''G1'', sk_secret = ''S1'' \<rparr>, \<lparr> sk_network = ''stellar:pubnet'', sk_role = Channel_key, sk_address = ''G2'', sk_secret = ''S2'' \<rparr>]"
  by (simp add: demo_pubnet_keys_def list_keys_def encrypt_def demo_aead_def open_row_def decrypt_def sum_bind_def)

lemma demo_pubnet_started:
  "\<exists>rt chs w'. start_network demo_start ''stellar:pubnet'' (demo_network_of ''stellar:pubnet'' True) (demo_world demo_pubnet_keys d) = (Inr (rt, chs), w')"
proof -
  let ?c = "demo_network_of ''stellar:pubnet'' True"
  have c: "ns_developmentAutoFund ?c = False" "ns_sponsorSecret ?c = None" "ns_channelSecrets ?c = []" "ns_channelAccountCount ?c = 1" "ns_channelMinBalance ?c = 50000000"
    by (simp_all add: demo_network_of_def network_of_def demo_raw_network_def given_text_def Let_def)
  show ?thesis
    by (simp add: c start_network_def importConfiguredKeys_def import_sponsor_def store_list_def fromSecret_def check_keys_def fund_accounts_def
      sync_channels_def probe_accounts_def demo_funded demo_pubnet_list Let_def io_modify_def on_start_ext_def io_simps demo_world_def)
qed

theorem public_network_is_guarded_witness:
  "\<exists>c reg w' rt. load_settings demo_config_env demo_raw = Inr c
    \<and> initializeRuntimes demo_start (fs_networks c) (demo_world demo_pubnet_keys demo_empty_db) = (Inr reg, w') \<and> (''stellar:pubnet'', rt) \<in> set (networks reg)
    \<and> uptoContract (config rt) \<noteq> None \<and> requireHttpsOrigins (fs_catalog c)"
proof -
  obtain c where c: "load_settings demo_config_env demo_raw = Inr c"
      "fs_networks c = [(''stellar:testnet'', demo_network_of ''stellar:testnet'' False), (''stellar:pubnet'', demo_network_of ''stellar:pubnet'' True)]"
    using demo_settings_loaded by blast
  obtain rt chs w' where s: "start_network demo_start ''stellar:pubnet'' (demo_network_of ''stellar:pubnet'' True) (demo_world demo_pubnet_keys demo_empty_db) = (Inr (rt, chs), w')"
    using demo_pubnet_started by blast
  have en: "enabled (demo_network_of nw en) = en" for nw en by (simp add: demo_network_of_def network_of_def demo_raw_network_def Let_def)
  have i: "initializeRuntimes demo_start (fs_networks c) (demo_world demo_pubnet_keys demo_empty_db)
      = (Inr \<lparr> networks = [(''stellar:pubnet'', rt)], channels = [(''stellar:pubnet'', chs)] \<rparr>, w')"
    using s by (simp add: c(2) initializeRuntimes_def io_simps en)
  have k: "Key_Store.keys_ok (sw_keys (demo_world demo_pubnet_keys demo_empty_db))"
    by (simp add: demo_world_def Key_Store.keys_ok_def demo_pubnet_keys_def sponsor_index_def active_sponsor_def)
  have "uptoContract (config rt) \<noteq> None \<and> requireHttpsOrigins (fs_catalog c)"
    using public_network_is_guarded [OF c(1) i _ k, of rt] by (simp (no_asm_use)) blast
  then show ?thesis using c(1) i by fastforce
qed

end
