(* ===== verification/Spec2Isabelle.thy ===== *)
theory Spec2Isabelle
  imports Idempotency_Properties Mechanism_Properties Orchestrator_Properties Mcp_Properties Mcp_Boundary_Properties
    Catalog_Properties Extract_Properties Cataloger Search_Fusion Search_Index_Properties Search_Degradation Discovery_Browse
    Http_Properties Semaphore Upto_Client_Properties Sdk_Properties Runtime_Properties Config_Properties
begin

text \<open>
  openx402: an x402 payment facilitator for Stellar, its Bazaar catalog, the MCP server through which
  agents buy, and the seller SDK.

  The facilitator (facilitator/src) verifies and settles payments.  An HTTP request carries a payment
  payload and the requirements it answers; the orchestrator (orchestrator.ts) has the mechanism of its
  scheme (stellar/exact.ts, stellar/upto.ts) verify it and prepare a sponsored transaction, claims the
  payment in the database under its idempotency key (idempotency.ts), leases a channel account, stores
  the signed transaction together with its budget reservation, submits it and polls the ledger
  (db/state.ts holds the tables); a recovery resolves settlements that were left open.  The MCP server
  (mcp-server/src) looks a resource up in the facilitator's catalog, calls the seller without payment,
  compares the challenge with the catalog, reserves budget, signs, pays and books the settlement.

  Theories and the code they model.

  JS_Prelude: the exceptions (\<open>exn\<close>), the state-and-exception monad \<open>'w io\<close> in which asynchronous code
  is written, table updates, \<open>Array.prototype.sort\<close>, decimal texts.  Strings are UTF-8 byte strings, a
  JavaScript number used as an integer is an \<open>int\<close>, bigints are \<open>int\<close>.  JS_Json, JS_Json_Parse and
  JS_Values: JSON values, their texts, the three canonical forms the code has, \<open>JSON.parse\<close> with fuel
  \<open>2 * length + 2\<close> (\<open>parse_fuel\<close> shows it is enough), property access, \<open>===\<close>, \<open>??\<close> and truthiness.
  JS_Base64: base64 and base64url.  JS_Effects: which effects a computation can have.

  Facilitator_Types (types.ts, http/schema.ts, runtime.ts) and Idempotency (idempotency.ts): keys,
  fingerprints and scopes; Idempotency_Properties shows what they determine.

  State_Store (db/state.ts): the tables as lists of rows, one definition per operation of StateStore,
  each a database transaction and so one step.  State_Invariants: the transition system of those steps,
  its invariants and how rows evolve; Settlement_Safety and Settlement_Properties: fencing of leases,
  bound channels, claims, budgets, rate limits, and two ways records are lost.

  Key_Store (db/keystore.ts) and Runtime_Init (runtime.ts): the sealed keys, and the start of the networks
  from configuration and keys; Runtime_Properties: what a started network has, the sponsor after a
  rotation, and a disabled channel after a restart.

  Config_Schema and Facilitator_Config (config.ts): the sections of the configuration with their
  constraints and defaults, and loadConfig with its refusals; Config_Properties: what an accepted
  configuration bounds, and what holds once its public network has started behind the HTTP application.

  Stellar_Common, Exact_Mechanism, Upto_Mechanism (stellar/*.ts): the checks in their order over an
  abstract Stellar SDK and RPC server; Mechanism_Properties: what a valid verification and a prepared
  settlement establish.

  Upto_Client (packages/stellar-upto: client.ts, server.ts): the buyer's side of the upto scheme;
  Upto_Client_Properties: the facilitator reads back and accepts what the client signs.

  Orchestrator (orchestrator.ts): verify, settle, polling and recovery in the world of the database, the
  clock and the ledger; loops run as long as the deadline allows, with the number of iterations bounded
  by the time left, and a query of the database may fail (\<open>db_fault\<close>).  Orchestrator_Refinement: every run is a run of store operations and outside
  steps (a simulation of the store's transition system); Orchestrator_Properties: answers agree with
  the ledger, waiting ends, recovery needs evidence, and the claims that get stranded.

  Mcp_Budget (budget/*.ts): the budget policy and both stores; Mcp_Budget_Laws: the contract of a store
  as the locale \<open>budget_store\<close>, interpreted on the in-memory and on the PostgreSQL store.
  Mcp_Resources (errors.ts, bazaarExtension.ts, resourceRef.ts, transport.ts, catalogGuard.ts),
  Mcp_Access (config.ts, payment/*.ts, http/*.ts), Mcp_Discovery (facilitatorClient.ts,
  tools/searchResources.ts, tools/getResource.ts), Safe_Fetch (network/*.ts), Call_Resource
  (tools/callResource.ts, tools/index.ts).  Call_Resource_Laws: every call is one of a few runs on the
  budget store; Call_Run: which run it is, as a function of what the other parties answer; Call_Resource_Effects: nothing but a payload for approved terms is ever signed;
  Safe_Fetch_Laws: requests, addresses, depth and slots; Mcp_Canonical: what canonical JSON
  determines; Mcp_Demo: a concrete world for the witnesses; Mcp_Properties: the properties.

  Mcp_Boundary_Laws and Mcp_Boundary_Properties: configuration, references, challenges, redirects,
  addresses and sessions.

  Catalog_Text (bazaar/sanitize.ts), Catalog_Extract (bazaar/extract.ts) and Catalog_Document
  (bazaar/document.ts): from a settled payment to a catalog candidate and its search document;
  Extract_Properties: every accepted candidate is well formed.  Catalog_Store (db/catalog.ts, writes):
  the tables of the catalog and of the search index, each write a transaction with rollback;
  Catalog_Read (db/catalog.ts, reads): the snapshot scope, listing, retrieval and lookup;
  Catalog_Laws and Catalog_Runs: the invariants of the tables along every run; Catalog_Demo: a small
  catalog for the witnesses; Catalog_Properties: who is listed and paid.  Cataloger
  (bazaar/cataloger.ts): the side channel of settlements.

  Search_Query and Search_Fusion (search/query.ts, search/fusion.ts): the shape of a query and weighted
  reciprocal rank fusion.  Search_Store (db/search.ts): model generations and the queue of embedding
  jobs; Search_Worker (search/worker.ts, search/types.ts): the passes of an indexer; Search_Fencing: the
  queue as a transition system with the locale \<open>index_invariant\<close>; Search_Outdated: jobs whose hash is
  old; Search_Index_Properties: their properties.  Search_Service (search/service.ts): hybrid
  retrieval and the record of what was shown; Search_Degradation: what a search answers when the
  models fail.  Discovery_Cursor (http/cursor.ts), Discovery_Routes (http/discovery.ts) and
  Discovery_Browse: the public routes and a client that follows cursors, with one unit of fuel a
  request.  Http_App (http/schema.ts, http/app.ts, embedded.ts): the request schema, authentication, the payment
  routes, HEAD and OPTIONS, the error handler and the embedded client; Http_Properties: who reaches them and what a
  successful answer means.  Semaphore (semaphore.ts): the admission of simulations.  JS_Number:
  \<open>Number\<close> on strings, with rounding to doubles, and \<open>toISOString\<close>.

  JS_Objects (object spread and entries), Sdk_Metadata (packages/bazaar-sdk/src: validate.ts, compile.ts, http.ts,
  mcp.ts, zod.ts) and Sdk_Seller (seller/*.ts): the seller's configuration, its validation and compilation, and the
  registry of routes and tools; Sdk_Properties: the terms a seller publishes are the declared ones, what
  the examples conform to, and which amounts the facilitator can be paid.

  Parameters.  SHA-256, HMAC, localeCompare, PostgreSQL full-text matching and ranking, vector distance,
  embedding and reranking providers, the Stellar SDK, RPC and Horizon servers, DNS, fetch, the MCP
  client, the x402 libraries, cipher and clock are arguments of the definitions; hypotheses on them are
  stated where they are used.

  Not modelled.  Connection pools, migrations, analytics queries and providers (pure I/O), the
  frontend, the evaluation scripts, and the settlement contract in Rust; reading YAML, and the
  schemas of the MCP server's configuration and tool arguments.  Concurrency is interleaving of database transactions and of
  the steps of the world; inside one process a synchronous section is one step.
\<close>

end
